(* ===== verification/Go_Prelude.thy ===== *)
theory Go_Prelude
  imports
    "HOL-Library.Word"
    "HOL-Library.Finite_Map"
    "HOL-Library.Char_ord"
    "HOL-Library.List_Lexorder"
    "HOL-Library.Sublist"
begin

text \<open>
  Shared vocabulary of the development: the types that stand for Go's strings, byte
  slices, counters and maps, and the lemmas about them that every component uses.

  \<^item> A Go \<open>string\<close>, \<open>[]byte\<close> or \<open>json.RawMessage\<close> is a list of bytes, here a
    \<^typ>\<open>char list\<close> (a character of HOL is eight bits). The code copies byte slices with
    \<open>append(T(nil), x...)\<close>, which turns an empty slice into nil, so nil and the empty
    list are the same value; a copy is the value itself.
  \<^item> \<open>uint64\<close> and \<open>int64\<close> counters are 64-bit words and wrap around; Go's \<open>int\<close>
    limits and lengths are integers.
  \<^item> \<open>map[string]T\<close> is a finite map, \<open>map[string]struct{}\<close> a finite set. Reading a nil
    inner map gives the zero value, which the \<open>gm_\<close> readers below write out.
  \<^item> ``collect the keys of a map, then \<open>sort.Strings\<close>'' is \<open>sorted_ids\<close>.
\<close>

type_synonym bytes = string
type_synonym u64 = "64 word"
type_synonym conn_id = string
type_synonym room_id = string

named_theorems member_simps \<open>how the members of an indexed set change\<close>

subsection \<open>Sorted key lists\<close>

definition sorted_ids :: "string fset \<Rightarrow> string list" where
  "sorted_ids s = sorted_list_of_fset s"

lemma set_sorted_ids [simp]: "set (sorted_ids s) = fset s"
  by (simp add: sorted_ids_def sorted_list_of_fset.rep_eq)

lemma sorted_sorted_ids [simp]: "sorted (sorted_ids s)"
  by (simp add: sorted_ids_def sorted_list_of_fset.rep_eq)

lemma distinct_sorted_ids [simp]: "distinct (sorted_ids s)"
  by (simp add: sorted_ids_def sorted_list_of_fset.rep_eq)

lemma strict_sorted_ids: "sorted_wrt (<) (sorted_ids s)"
  by (simp add: strict_sorted_iff)

lemma length_sorted_ids [simp]: "length (sorted_ids s) = fcard s"
  by (simp add: sorted_ids_def sorted_list_of_fset.rep_eq fcard.rep_eq)

lemma sorted_ids_empty [simp]: "sorted_ids {||} = []"
  by (simp add: sorted_ids_def sorted_list_of_fset.rep_eq)

lemma sorted_ids_unique:
  "sorted xs \<Longrightarrow> distinct xs \<Longrightarrow> set xs = fset s \<Longrightarrow> xs = sorted_ids s"
  by (metis distinct_sorted_ids set_sorted_ids sorted_distinct_set_unique sorted_sorted_ids)

text \<open>\<open>sort.Strings\<close> on a list that is already sorted and without duplicates.\<close>

lemma sort_sorted_ids [simp]: "sort (sorted_ids s) = sorted_ids s"
  by (simp add: sort_key_id_if_sorted)

subsection \<open>Maps of sets, bytes and counters\<close>

definition gm_set :: "('k, 'a fset) fmap \<Rightarrow> 'k \<Rightarrow> 'a fset" where
  "gm_set m k = (case fmlookup m k of None \<Rightarrow> {||} | Some s \<Rightarrow> s)"

definition gm_map :: "('k, ('l, 'a) fmap) fmap \<Rightarrow> 'k \<Rightarrow> ('l, 'a) fmap" where
  "gm_map m k = (case fmlookup m k of None \<Rightarrow> fmempty | Some s \<Rightarrow> s)"

definition gm_bytes :: "('k, bytes) fmap \<Rightarrow> 'k \<Rightarrow> bytes" where
  "gm_bytes m k = (case fmlookup m k of None \<Rightarrow> [] | Some b \<Rightarrow> b)"

definition gm_u64 :: "('k, u64) fmap \<Rightarrow> 'k \<Rightarrow> u64" where
  "gm_u64 m k = (case fmlookup m k of None \<Rightarrow> 0 | Some n \<Rightarrow> n)"

lemma gm_set_empty [simp]: "gm_set fmempty k = {||}"
  by (simp add: gm_set_def)

lemma gm_map_empty [simp]: "gm_map fmempty k = fmempty"
  by (simp add: gm_map_def)

lemma gm_bytes_empty [simp]: "gm_bytes fmempty k = []"
  by (simp add: gm_bytes_def)

lemma gm_u64_empty [simp]: "gm_u64 fmempty k = 0"
  by (simp add: gm_u64_def)

lemma gm_set_upd [simp]: "gm_set (fmupd k s m) k' = (if k' = k then s else gm_set m k')"
  by (simp add: gm_set_def)

lemma gm_map_upd [simp]: "gm_map (fmupd k s m) k' = (if k' = k then s else gm_map m k')"
  by (simp add: gm_map_def)

lemma gm_bytes_upd [simp]: "gm_bytes (fmupd k b m) k' = (if k' = k then b else gm_bytes m k')"
  by (simp add: gm_bytes_def)

lemma gm_u64_upd [simp]: "gm_u64 (fmupd k n m) k' = (if k' = k then n else gm_u64 m k')"
  by (simp add: gm_u64_def)

lemma gm_set_drop [simp]: "gm_set (fmdrop k m) k' = (if k' = k then {||} else gm_set m k')"
  by (simp add: gm_set_def)

lemma gm_map_drop [simp]: "gm_map (fmdrop k m) k' = (if k' = k then fmempty else gm_map m k')"
  by (simp add: gm_map_def)

lemma gm_bytes_drop [simp]: "gm_bytes (fmdrop k m) k' = (if k' = k then [] else gm_bytes m k')"
  by (simp add: gm_bytes_def)

lemma gm_u64_drop [simp]: "gm_u64 (fmdrop k m) k' = (if k' = k then 0 else gm_u64 m k')"
  by (simp add: gm_u64_def)

text \<open>
  The idiom of the code for adding to and deleting from a map of maps: make the inner map
  when it is missing, and delete the outer entry when the inner map gets empty.
\<close>

definition gm_insert :: "'k \<Rightarrow> 'a \<Rightarrow> ('k, 'a fset) fmap \<Rightarrow> ('k, 'a fset) fmap" where
  "gm_insert k x m = fmupd k (finsert x (gm_set m k)) m"

definition gm_remove :: "'k \<Rightarrow> 'a \<Rightarrow> ('k, 'a fset) fmap \<Rightarrow> ('k, 'a fset) fmap" where
  "gm_remove k x m =
     (case fmlookup m k of
        None \<Rightarrow> m
      | Some s \<Rightarrow> (let s' = s |-| {|x|} in if s' = {||} then fmdrop k m else fmupd k s' m))"

definition gm_put :: "'k \<Rightarrow> 'l \<Rightarrow> 'a \<Rightarrow> ('k, ('l, 'a) fmap) fmap \<Rightarrow> ('k, ('l, 'a) fmap) fmap" where
  "gm_put k l x m = fmupd k (fmupd l x (gm_map m k)) m"

definition gm_delete :: "'k \<Rightarrow> 'l \<Rightarrow> ('k, ('l, 'a) fmap) fmap \<Rightarrow> ('k, ('l, 'a) fmap) fmap" where
  "gm_delete k l m =
     (case fmlookup m k of
        None \<Rightarrow> m
      | Some s \<Rightarrow> (let s' = fmdrop l s in if s' = fmempty then fmdrop k m else fmupd k s' m))"

lemma gm_set_insert [simp]:
  "gm_set (gm_insert k x m) k' = (if k' = k then finsert x (gm_set m k) else gm_set m k')"
  by (simp add: gm_insert_def)

lemma gm_set_remove [simp]:
  "gm_set (gm_remove k x m) k' = (if k' = k then gm_set m k |-| {|x|} else gm_set m k')"
  by (auto simp: gm_remove_def gm_set_def Let_def split: option.splits)

lemma gm_map_put [simp]:
  "gm_map (gm_put k l x m) k' = (if k' = k then fmupd l x (gm_map m k) else gm_map m k')"
  by (simp add: gm_put_def)

lemma gm_map_delete [simp]:
  "gm_map (gm_delete k l m) k' = (if k' = k then fmdrop l (gm_map m k) else gm_map m k')"
  by (auto simp: gm_delete_def gm_map_def Let_def split: option.splits)

text \<open>An index has no empty inner set when every present key has a member.\<close>

definition no_empty :: "('k, 'a fset) fmap \<Rightarrow> bool" where
  "no_empty m \<longleftrightarrow> {||} |\<notin>| fmran m"

definition no_empty_map :: "('k, ('l, 'a) fmap) fmap \<Rightarrow> bool" where
  "no_empty_map m \<longleftrightarrow> fmempty |\<notin>| fmran m"

lemma no_empty_iff: "no_empty m \<longleftrightarrow> (\<forall>k. fmlookup m k \<noteq> Some {||})"
  by (auto simp: no_empty_def fmlookup_ran_iff)

lemma no_empty_map_iff: "no_empty_map m \<longleftrightarrow> (\<forall>k. fmlookup m k \<noteq> Some fmempty)"
  by (auto simp: no_empty_map_def fmlookup_ran_iff)

lemma no_empty_fmempty [simp]: "no_empty fmempty" "no_empty_map fmempty"
  by (auto simp: no_empty_iff no_empty_map_iff)

lemma no_empty_insert [intro]: "no_empty m \<Longrightarrow> no_empty (gm_insert k x m)"
  by (auto simp: no_empty_iff gm_insert_def)

lemma no_empty_remove [intro]: "no_empty m \<Longrightarrow> no_empty (gm_remove k x m)"
  by (auto simp: no_empty_iff gm_remove_def Let_def split: option.splits if_splits)

lemma no_empty_map_put [intro]: "no_empty_map m \<Longrightarrow> no_empty_map (gm_put k l x m)"
  by (auto simp: no_empty_map_iff gm_put_def)

lemma no_empty_map_delete [intro]: "no_empty_map m \<Longrightarrow> no_empty_map (gm_delete k l m)"
  by (auto simp: no_empty_map_iff gm_delete_def Let_def split: option.splits if_splits)

lemma no_empty_drop [intro]:
  "no_empty m \<Longrightarrow> no_empty (fmdrop k m)" "no_empty_map m' \<Longrightarrow> no_empty_map (fmdrop k m')"
  by (auto simp: no_empty_iff no_empty_map_iff)

lemma no_empty_dom: "no_empty m \<Longrightarrow> k |\<in>| fmdom m \<longleftrightarrow> gm_set m k \<noteq> {||}"
  by (auto simp: no_empty_iff gm_set_def fmlookup_dom_iff split: option.splits)

text \<open>Lengths of Go slices and maps are \<open>int\<close>s.\<close>

abbreviation len :: "'a list \<Rightarrow> int" where
  "len xs \<equiv> int (length xs)"

abbreviation flen :: "'a fset \<Rightarrow> int" where
  "flen s \<equiv> int (fcard s)"

subsection \<open>Sequence numbers\<close>

text \<open>
  The successor of a sequence number is greater unless it wraps around at \<open>2^64 - 1\<close>.
\<close>

lemma u64_succ_greater: "(n::u64) < n + 1 \<longleftrightarrow> n \<noteq> - 1"
proof
  assume "n \<noteq> - 1"
  then show "n < n + 1" using inc_less_eq_triv_imp linorder_not_less by blast
qed auto

lemma u64_succ_nonzero: "(n::u64) \<noteq> - 1 \<Longrightarrow> n + 1 \<noteq> 0"
  by (metis add_eq_0_iff2)

subsection \<open>Results\<close>

text \<open>\<open>if err != nil { return err }\<close>: the error ends the function, else it goes on with the value.\<close>

definition bind_err :: "'e + 'a \<Rightarrow> ('a \<Rightarrow> 'e + 'b) \<Rightarrow> 'e + 'b" where
  "bind_err r f = (case r of Inl err \<Rightarrow> Inl err | Inr v \<Rightarrow> f v)"

lemma bind_err_simps [simp]: "bind_err (Inl err) f = Inl err" "bind_err (Inr v) f = f v"
  by (simp_all add: bind_err_def)

lemma bind_err_Inr: "bind_err r f = Inr v \<longleftrightarrow> (\<exists>u. r = Inr u \<and> f u = Inr v)"
  by (cases r) auto

lemma bind_err_Inl: "bind_err r f = Inl err \<longleftrightarrow> r = Inl err \<or> (\<exists>u. r = Inr u \<and> f u = Inl err)"
  by (cases r) auto

end
