(* ===== verification/Go_Utf8.thy ===== *)
theory Go_Utf8
  imports Go_Prelude
begin

text \<open>
  Bytes and UTF-8 as the JSON codec of Go's standard library reads them: the length of the
  valid rune at the head of a byte string (\<open>utf8.DecodeRune\<close>), the encoding of a rune
  (\<open>utf8.AppendRune\<close>), and the replacement of every byte that starts no valid rune by
  U+FFFD, which is what decoding and encoding a JSON string do to invalid input.
\<close>

definition byte :: "char \<Rightarrow> nat" where
  "byte c = of_char c"

definition chr :: "nat \<Rightarrow> char" where
  "chr n = char_of n"

lemma byte_less [simp]: "byte c < 256"
  by (simp add: byte_def)

lemma byte_chr [simp]: "byte (chr n) = n mod 256"
  by (simp add: byte_def chr_def)

lemma chr_byte [simp]: "chr (byte c) = c"
  by (simp add: byte_def chr_def)

lemma byte_inject [simp]: "byte c = byte d \<longleftrightarrow> c = d"
  by (simp add: byte_def)

definition in_range :: "nat \<Rightarrow> nat \<Rightarrow> char \<Rightarrow> bool" where
  "in_range lo hi c \<longleftrightarrow> lo \<le> byte c \<and> byte c \<le> hi"

abbreviation cont :: "char \<Rightarrow> bool" where
  "cont c \<equiv> in_range 0x80 0xBF c"

text \<open>The second byte of a three or four byte rune; the first byte \<open>a\<close> narrows it.\<close>

definition second_ok :: "nat \<Rightarrow> char \<Rightarrow> bool" where
  "second_ok a b =
    in_range (if a = 0xE0 then 0xA0 else if a = 0xF0 then 0x90 else 0x80)
             (if a = 0xED then 0x9F else if a = 0xF4 then 0x8F else 0xBF) b"

text \<open>The length of the rune at the head, 0 when the first byte starts no valid rune.\<close>

fun rune_len :: "string \<Rightarrow> nat" where
  "rune_len [] = 0"
| "rune_len (c # r) =
    (if byte c < 0x80 then 1
     else if byte c < 0xC2 then 0
     else if byte c < 0xE0 then (case r of b1 # _ \<Rightarrow> if cont b1 then 2 else 0 | _ \<Rightarrow> 0)
     else if byte c < 0xF0 then
       (case r of b1 # b2 # _ \<Rightarrow> if second_ok (byte c) b1 \<and> cont b2 then 3 else 0 | _ \<Rightarrow> 0)
     else if byte c < 0xF5 then
       (case r of b1 # b2 # b3 # _ \<Rightarrow>
          if second_ok (byte c) b1 \<and> cont b2 \<and> cont b3 then 4 else 0 | _ \<Rightarrow> 0)
     else 0)"

declare rune_len.simps(2) [simp del]

lemma second_ok_cont: "second_ok a b \<Longrightarrow> cont b"
  by (auto simp: second_ok_def in_range_def split: if_splits)

lemma rune_len_le: "rune_len s \<le> length s"
  by (cases s) (simp_all add: rune_len.simps(2) split: list.split)

lemma rune_len_ascii: "byte c < 0x80 \<Longrightarrow> rune_len (c # r) = 1"
  by (simp add: rune_len.simps(2))

lemma rune_len_pos_cases:
  assumes "0 < rune_len s"
  obtains (one) c r where "s = c # r" "byte c < 0x80" "rune_len s = 1"
  | (two) a b r where "s = a # b # r" "0x80 \<le> byte a" "rune_len s = 2" "cont b"
  | (three) a b c r where "s = a # b # c # r" "0x80 \<le> byte a" "rune_len s = 3" "cont b" "cont c"
  | (four) a b c d r where "s = a # b # c # d # r" "0x80 \<le> byte a" "rune_len s = 4"
      "cont b" "cont c" "cont d"
proof (cases s)
  case Nil
  with assms show thesis by simp
next
  case (Cons a r)
  note len = assms [unfolded Cons rune_len.simps(2)]
  consider "byte a < 0x80" | "0x80 \<le> byte a" "byte a < 0xE0"
    | "0xE0 \<le> byte a" "byte a < 0xF0" | "0xF0 \<le> byte a" by linarith
  then show thesis
  proof cases
    case 1
    then show thesis using Cons by (intro one) (simp_all add: rune_len_ascii)
  next
    case 2
    then obtain b1 r1 where "r = b1 # r1" "cont b1" "\<not> byte a < 0xC2"
      using len by (simp split: list.split_asm if_split_asm)
    with 2 show thesis using Cons by (intro two [of a b1 r1]) (auto simp: rune_len.simps(2))
  next
    case 3
    then obtain b1 b2 r2 where "r = b1 # b2 # r2" "second_ok (byte a) b1" "cont b2"
      using len by (simp split: list.split_asm if_split_asm)
    with 3 show thesis using Cons
      by (intro three [of a b1 b2 r2]) (auto simp: rune_len.simps(2) second_ok_cont)
  next
    case 4
    then obtain b1 b2 b3 r3 where "r = b1 # b2 # b3 # r3" "second_ok (byte a) b1"
      "cont b2" "cont b3" "byte a < 0xF5"
      using len by (simp split: list.split_asm if_split_asm)
    with 4 show thesis using Cons
      by (intro four [of a b1 b2 b3 r3]) (auto simp: rune_len.simps(2) second_ok_cont)
  qed
qed

text \<open>Only the bytes of the rune itself matter.\<close>

lemma rune_len_take_append: "rune_len s = n \<Longrightarrow> 0 < n \<Longrightarrow> rune_len (take n s @ r) = n"
  by (cases s) (auto simp: rune_len.simps(2) split: list.split_asm if_split_asm)

definition replacement :: string where
  "replacement = [chr 0xEF, chr 0xBF, chr 0xBD]"

fun to_valid :: "string \<Rightarrow> string" where
  "to_valid [] = []"
| "to_valid (c # r) =
    (let n = rune_len (c # r) in
     if n = 0 then replacement @ to_valid r
     else take n (c # r) @ to_valid (drop (n - 1) r))"

declare to_valid.simps(2) [simp del]

fun valid_utf8 :: "string \<Rightarrow> bool" where
  "valid_utf8 [] = True"
| "valid_utf8 (c # r) =
    (let n = rune_len (c # r) in n \<noteq> 0 \<and> valid_utf8 (drop (n - 1) r))"

declare valid_utf8.simps(2) [simp del]

lemma to_valid_id: "valid_utf8 s \<Longrightarrow> to_valid s = s"
proof (induction s rule: valid_utf8.induct)
  case (2 c r)
  let ?n = "rune_len (c # r)"
  from "2.prems" have n: "?n \<noteq> 0" and v: "valid_utf8 (drop (?n - 1) r)"
    by (auto simp: valid_utf8.simps Let_def)
  from "2.IH" [OF refl] v have "to_valid (drop (?n - 1) r) = drop (?n - 1) r"
    using n by simp
  moreover have "take ?n (c # r) @ drop (?n - 1) r = c # r"
    using n by (cases ?n) simp_all
  ultimately show ?case using n by (simp add: to_valid.simps Let_def)
qed simp

lemma valid_utf8_append_rune:
  assumes "0 < rune_len t" "length t = rune_len t" "valid_utf8 s"
  shows "valid_utf8 (t @ s)"
proof -
  obtain c r where t: "t = c # r" using assms(2,1) by (cases t) auto
  have "rune_len (t @ s) = rune_len t"
    using rune_len_take_append [of t "rune_len t" s] assms(1,2) by simp
  with t assms show ?thesis
    by (auto simp: valid_utf8.simps Let_def)
qed

lemma rune_len_replacement: "rune_len replacement = 3"
  by (simp add: replacement_def rune_len.simps(2) in_range_def second_ok_def)

lemma length_replacement: "length replacement = 3"
  by (simp add: replacement_def)

lemma valid_utf8_replacement: "valid_utf8 s \<Longrightarrow> valid_utf8 (replacement @ s)"
  by (rule valid_utf8_append_rune) (simp_all add: rune_len_replacement length_replacement)

lemma valid_utf8_take_append:
  "0 < rune_len s \<Longrightarrow> valid_utf8 r \<Longrightarrow> valid_utf8 (take (rune_len s) s @ r)"
  using rune_len_take_append [of s "rune_len s" "[]"] rune_len_le [of s]
  by (intro valid_utf8_append_rune) simp_all

lemma valid_utf8_ascii_Cons: "byte c < 0x80 \<Longrightarrow> valid_utf8 (c # s) \<longleftrightarrow> valid_utf8 s"
  by (simp add: valid_utf8.simps rune_len_ascii)

lemma valid_utf8_to_valid: "valid_utf8 (to_valid s)"
proof (induction s rule: to_valid.induct)
  case (2 c r)
  show ?case
  proof (cases "rune_len (c # r) = 0")
    case True
    then show ?thesis
      using "2.IH"(1) [OF refl] by (simp add: to_valid.simps valid_utf8_replacement)
  next
    case False
    then have "valid_utf8 (take (rune_len (c # r)) (c # r) @ to_valid (drop (rune_len (c # r) - 1) r))"
      using "2.IH"(2) [OF refl] by (intro valid_utf8_take_append) simp_all
    then show ?thesis using False by (simp add: to_valid.simps Let_def)
  qed
qed simp

subsection \<open>Encoding a rune\<close>

definition utf8_encode :: "nat \<Rightarrow> string" where
  "utf8_encode n =
    (if n < 0x80 then [chr n]
     else if n < 0x800 then [chr (0xC0 + n div 64), chr (0x80 + n mod 64)]
     else if n < 0x10000 then
       [chr (0xE0 + n div 4096), chr (0x80 + n div 64 mod 64), chr (0x80 + n mod 64)]
     else [chr (0xF0 + n div 262144), chr (0x80 + n div 4096 mod 64),
           chr (0x80 + n div 64 mod 64), chr (0x80 + n mod 64)])"

text \<open>Surrogate halves are no runes; everything else up to U+10FFFF encodes to one rune.\<close>

definition surrogate :: "nat \<Rightarrow> bool" where
  "surrogate n \<longleftrightarrow> 0xD800 \<le> n \<and> n < 0xE000"

lemma utf8_encode_rune:
  assumes "\<not> surrogate n" "n < 0x110000"
  shows "rune_len (utf8_encode n) = length (utf8_encode n) \<and> utf8_encode n \<noteq> []"
proof -
  have m: "n mod 64 \<le> 63" "n div 64 mod 64 \<le> 63" "n div 4096 mod 64 \<le> 63"
    by (simp_all add: less_Suc_eq_le [of _ 63, symmetric])
  consider "n < 0x80" | "0x80 \<le> n" "n < 0x800" | "0x800 \<le> n" "n < 0x10000"
    | "0x10000 \<le> n" by linarith
  then show ?thesis
  proof cases
    case 1
    then show ?thesis by (simp add: utf8_encode_def rune_len_ascii)
  next
    case 2
    then have "n div 64 < 32" "2 \<le> n div 64" by auto
    then show ?thesis
      using 2 m by (simp add: utf8_encode_def rune_len.simps(2) in_range_def)
  next
    case 3
    have d: "n div 4096 < 16" using 3 by auto
    have q: "n div 4096 = n div 64 div 64" by (simp add: div_mult2_eq [symmetric])
    have "32 \<le> n div 64" using 3(1) by auto
    then have lo: "n div 4096 = 0 \<Longrightarrow> 32 \<le> n div 64 mod 64" unfolding q by auto
    have "n div 64 < 864 \<or> 896 \<le> n div 64" using assms(1) unfolding surrogate_def by auto
    then have hi: "n div 4096 = 13 \<Longrightarrow> n div 64 mod 64 < 32"
      unfolding q by (auto simp: div_nat_eqI modulo_nat_def)
    have "second_ok (0xE0 + n div 4096) (chr (0x80 + n div 64 mod 64))"
      using d lo hi m by (auto simp: second_ok_def in_range_def)
    then show ?thesis
      using 3 d m by (simp add: utf8_encode_def rune_len.simps(2) in_range_def)
  next
    case 4
    have d: "n div 262144 < 5" using assms(2) by auto
    have q: "n div 262144 = n div 4096 div 64" by (simp add: div_mult2_eq [symmetric])
    have "16 \<le> n div 4096" using 4 by auto
    then have lo: "n div 262144 = 0 \<Longrightarrow> 16 \<le> n div 4096 mod 64" unfolding q by auto
    have "n div 4096 < 272" using assms(2) by auto
    then have hi: "n div 262144 = 4 \<Longrightarrow> n div 4096 mod 64 < 16"
      unfolding q by (auto simp: modulo_nat_def)
    have "second_ok (0xF0 + n div 262144) (chr (0x80 + n div 4096 mod 64))"
      using d lo hi m by (auto simp: second_ok_def in_range_def)
    then show ?thesis
      using 4 d m by (simp add: utf8_encode_def rune_len.simps(2) in_range_def)
  qed
qed

lemma valid_utf8_encode:
  "\<not> surrogate n \<Longrightarrow> n < 0x110000 \<Longrightarrow> valid_utf8 s \<Longrightarrow> valid_utf8 (utf8_encode n @ s)"
  using utf8_encode_rune [of n]
  by (intro valid_utf8_append_rune) auto

end
