(* ===== verification/Go_Strings.thy ===== *)
theory Go_Strings
  imports Go_Utf8
begin

text \<open>
  The functions of Go's \<open>strings\<close>, \<open>bytes\<close> and \<open>strconv\<close> packages that the code
  calls: \<open>Split\<close> and \<open>ReplaceAll\<close> for JSON pointers, \<open>Atoi\<close> and \<open>FormatUint\<close> for
  indices and sequence numbers, \<open>Fields\<close> and \<open>TrimSpace\<close> for scopes and payloads.
\<close>

subsection \<open>Split and ReplaceAll\<close>

text \<open>\<open>strings.Split\<close> with a separator of one byte.\<close>

fun split_on :: "char \<Rightarrow> string \<Rightarrow> string list" where
  "split_on d [] = [[]]"
| "split_on d (c # s) =
    (if c = d then [] # split_on d s
     else (case split_on d s of [] \<Rightarrow> [[c]] | p # ps \<Rightarrow> (c # p) # ps))"

fun join_on :: "char \<Rightarrow> string list \<Rightarrow> string" where
  "join_on d [] = []"
| "join_on d (p # ps) = (if ps = [] then p else p @ d # join_on d ps)"

lemma split_on_nonempty [simp]: "split_on d s \<noteq> []"
  by (induction d s rule: split_on.induct) (auto split: list.splits)

lemma split_on_free: "d \<notin> set s \<Longrightarrow> split_on d s = [s]"
  by (induction s) auto

lemma split_on_append: "d \<notin> set p \<Longrightarrow> split_on d (p @ d # s) = p # split_on d s"
  by (induction p) auto

lemma split_join: "ps \<noteq> [] \<Longrightarrow> \<forall>p \<in> set ps. d \<notin> set p \<Longrightarrow> split_on d (join_on d ps) = ps"
  by (induction ps) (auto simp: split_on_free split_on_append)

text \<open>\<open>strings.ReplaceAll\<close> of a two-byte string, left to right without overlap.\<close>

fun replace_all2 :: "char \<Rightarrow> char \<Rightarrow> string \<Rightarrow> string \<Rightarrow> string" where
  "replace_all2 a b new [] = []"
| "replace_all2 a b new [c] = [c]"
| "replace_all2 a b new (c # d # s) =
    (if c = a \<and> d = b then new @ replace_all2 a b new s
     else c # replace_all2 a b new (d # s))"

subsection \<open>Integers in decimal\<close>

definition digit_val :: "char \<Rightarrow> int option" where
  "digit_val c = (if in_range 0x30 0x39 c then Some (int (byte c) - 0x30) else None)"

fun parse_digits :: "int \<Rightarrow> string \<Rightarrow> int option" where
  "parse_digits n [] = Some n"
| "parse_digits n (c # s) =
    (case digit_val c of None \<Rightarrow> None | Some d \<Rightarrow> parse_digits (10 * n + d) s)"

definition parse_number :: "string \<Rightarrow> int option" where
  "parse_number s = (if s = [] then None else parse_digits 0 s)"

text \<open>\<open>strconv.Atoi\<close> on a 64-bit platform and \<open>strconv.ParseUint (s, 10, 64)\<close>.\<close>

definition atoi :: "string \<Rightarrow> int option" where
  "atoi s =
    (case s of
       [] \<Rightarrow> None
     | c # r \<Rightarrow>
         (let neg = (c = CHR ''-'');
              digits = (if c = CHR ''-'' \<or> c = CHR ''+'' then r else s)
          in case parse_number digits of
               None \<Rightarrow> None
             | Some n \<Rightarrow>
                 if neg then (if n \<le> 2 ^ 63 then Some (- n) else None)
                 else (if n < 2 ^ 63 then Some n else None)))"

definition parse_uint :: "string \<Rightarrow> u64 option" where
  "parse_uint s =
    (case parse_number s of
       None \<Rightarrow> None | Some n \<Rightarrow> if n < 2 ^ 64 then Some (word_of_int n) else None)"

function int_digits :: "int \<Rightarrow> string" where
  "int_digits n =
    (if n < 10 then [chr (0x30 + nat n)] else int_digits (n div 10) @ [chr (0x30 + nat (n mod 10))])"
  by pat_completeness auto
termination by (relation "measure nat") auto

declare int_digits.simps [simp del]

definition format_uint :: "u64 \<Rightarrow> string" where
  "format_uint n = int_digits (uint n)"

lemma parse_digits_append:
  "parse_digits n (s @ t) = (case parse_digits n s of None \<Rightarrow> None | Some m \<Rightarrow> parse_digits m t)"
  by (induction n s rule: parse_digits.induct) (auto split: option.split)

lemma digit_val_char: "0 \<le> d \<Longrightarrow> d < 10 \<Longrightarrow> digit_val (chr (0x30 + nat d)) = Some d"
  by (simp add: digit_val_def in_range_def nat_less_iff nat_le_iff)

lemma parse_int_digits: "0 \<le> n \<Longrightarrow> parse_digits 0 (int_digits n) = Some n \<and> int_digits n \<noteq> []"
proof (induction n rule: int_digits.induct)
  case (1 n)
  show ?case
  proof (cases "n < 10")
    case True
    with 1 show ?thesis by (simp add: int_digits.simps [of n] digit_val_char)
  next
    case False
    have "digit_val (chr (0x30 + nat (n mod 10))) = Some (n mod 10)" by (rule digit_val_char) simp_all
    with 1 False show ?thesis
      by (simp add: int_digits.simps [of n] parse_digits_append)
  qed
qed

lemma parse_format_uint: "parse_uint (format_uint n) = Some n"
proof -
  have "0 \<le> uint n" "uint n < 2 ^ 64" using unsigned_less [where 'a = int, of n] by simp_all
  then show ?thesis
    using parse_int_digits [of "uint n"] by (simp add: parse_uint_def format_uint_def parse_number_def)
qed

lemma atoi_nonneg_digits:
  assumes "0 \<le> n" "n < 2 ^ 63"
  shows "atoi (int_digits n) = Some n"
proof -
  note P = parse_int_digits [OF assms(1)]
  then obtain c r where s: "int_digits n = c # r" by (cases "int_digits n") auto
  with P have "digit_val c \<noteq> None" by (auto split: option.split_asm)
  then have "c \<noteq> CHR ''-''" "c \<noteq> CHR ''+''"
    by (auto simp: digit_val_def in_range_def byte_def)
  with assms s P show ?thesis
    by (simp add: atoi_def parse_number_def Let_def split: option.split)
qed

subsection \<open>White space\<close>

text \<open>The length of the white space rune at the head (\<open>unicode.IsSpace\<close>), 0 if there is none.\<close>

definition space_len :: "string \<Rightarrow> nat" where
  "space_len s =
    (case s of
       [] \<Rightarrow> 0
     | a # r \<Rightarrow>
         if in_range 0x09 0x0D a \<or> a = CHR '' '' then 1
         else case r of
           [] \<Rightarrow> 0
         | b # r1 \<Rightarrow>
             if byte a = 0xC2 \<and> (byte b = 0x85 \<or> byte b = 0xA0) then 2
             else case r1 of
               [] \<Rightarrow> 0
             | c # _ \<Rightarrow>
                 if (byte a, byte b, byte c) \<in> {(0xE1, 0x9A, 0x80), (0xE2, 0x81, 0x9F), (0xE3, 0x80, 0x80)}
                   \<or> byte a = 0xE2 \<and> byte b = 0x80
                     \<and> (in_range 0x80 0x8A c \<or> byte c = 0xA8 \<or> byte c = 0xA9 \<or> byte c = 0xAF)
                 then 3 else 0)"

function trim_left :: "string \<Rightarrow> string" where
  "trim_left s = (if s \<noteq> [] \<and> space_len s \<noteq> 0 then trim_left (drop (space_len s) s) else s)"
  by pat_completeness auto
termination by (relation "measure length") auto

declare trim_left.simps [simp del]

text \<open>
  \<open>TrimSpace\<close>. At the end of the text the last rune is white space when one of the
  encodings above is the rest of the text, since each of them begins with a byte that
  starts a rune.
\<close>

definition space_tail :: "string \<Rightarrow> nat" where
  "space_tail s =
    (case filter (\<lambda>n. n \<le> length s \<and> space_len (drop (length s - n) s) = n) [1, 2, 3] of
       [] \<Rightarrow> 0 | n # _ \<Rightarrow> n)"

function trim_right :: "string \<Rightarrow> string" where
  "trim_right s =
    (if s \<noteq> [] \<and> space_tail s \<noteq> 0 then trim_right (take (length s - space_tail s) s) else s)"
  by pat_completeness auto
termination by (relation "measure length") auto

declare trim_right.simps [simp del]

definition trim_space :: "string \<Rightarrow> string" where
  "trim_space s = trim_right (trim_left s)"

lemma trim_left_prefix_free: "trim_left s = [] \<or> space_len (trim_left s) = 0"
proof (induction s rule: trim_left.induct)
  case (1 s)
  then show ?case by (subst (1 2) trim_left.simps) auto
qed

lemma trim_right_tail_free: "trim_right s = [] \<or> space_tail (trim_right s) = 0"
proof (induction s rule: trim_right.induct)
  case (1 s)
  then show ?case by (subst (1 2) trim_right.simps) auto
qed

lemma trim_left_id: "space_len s = 0 \<Longrightarrow> trim_left s = s"
  by (subst trim_left.simps) simp

lemma trim_right_id: "space_tail s = 0 \<Longrightarrow> trim_right s = s"
  by (subst trim_right.simps) simp

lemma trim_right_empty [simp]: "trim_right [] = []" and trim_left_empty [simp]: "trim_left [] = []"
  by (simp_all add: trim_right.simps trim_left.simps)

lemma space_len_take: "space_len s = 0 \<Longrightarrow> space_len (take n s) = 0"
  by (cases n; cases s; cases "n - 1"; cases "tl s"; cases "n - 2"; cases "tl (tl s)")
     (auto simp: space_len_def split: if_split_asm list.splits)

lemma trim_right_prefix: "\<exists>n. trim_right s = take n s"
proof (induction s rule: trim_right.induct)
  case (1 s)
  show ?case
  proof (cases "s \<noteq> [] \<and> space_tail s \<noteq> 0")
    case True
    with 1 obtain n where
      "trim_right (take (length s - space_tail s) s) = take n (take (length s - space_tail s) s)"
      by blast
    with True show ?thesis by (subst trim_right.simps) (auto simp: take_take)
  next
    case False
    then have "trim_right s = take (length s) s" by (subst trim_right.simps) auto
    then show ?thesis ..
  qed
qed

lemma trim_right_idem: "trim_right (trim_right s) = trim_right s"
  using trim_right_tail_free [of s] trim_right_id by auto

lemma trim_space_idem: "trim_space (trim_space s) = trim_space s"
proof -
  obtain n where "trim_right (trim_left s) = take n (trim_left s)" using trim_right_prefix by blast
  then have "trim_left (trim_right (trim_left s)) = trim_right (trim_left s)"
    using trim_left_prefix_free [of s] by (auto intro: trim_left_id space_len_take)
  then show ?thesis by (simp add: trim_space_def trim_right_idem)
qed

text \<open>
  \<open>strings.Fields\<close>: the maximal runs of runes that are not white space. \<open>acc\<close> holds the
  run that is being read, reversed. A byte that starts no rune counts as a rune of its own.
\<close>

function split_fields_from :: "string \<Rightarrow> string \<Rightarrow> string list" where
  "split_fields_from acc s =
    (case s of
       [] \<Rightarrow> (if acc = [] then [] else [rev acc])
     | c # r \<Rightarrow>
         if space_len s \<noteq> 0
         then (if acc = [] then [] else [rev acc]) @ split_fields_from [] (drop (space_len s) s)
         else split_fields_from (rev (take (max 1 (rune_len s)) s) @ acc) (drop (max 1 (rune_len s)) s))"
  by pat_completeness auto
termination by (relation "measure (\<lambda>(acc, s). length s)") auto

declare split_fields_from.simps [simp del]

definition split_fields :: "string \<Rightarrow> string list" where
  "split_fields s = split_fields_from [] s"

text \<open>Every field is a non-empty string without the separators it was cut at.\<close>

lemma fields_from_nonempty: "[] \<notin> set (split_fields_from acc s)"
proof (induction acc s rule: split_fields_from.induct)
  case (1 acc s)
  then show ?case
    by (subst split_fields_from.simps) (auto split: list.split)
qed

lemma split_fields_nonempty: "[] \<notin> set (split_fields s)"
  by (simp add: split_fields_def fields_from_nonempty)

end
