(* ===== verification/Cluster_Types.thy ===== *)
theory Cluster_Types
  imports "HOL-Library.Word" Go_Strings
begin

unbundle bit_operations_syntax

text \<open>
  The data of \<open>internal/cluster/redis.go\<close> that the nodes exchange and store: events,
  Yjs documents, room, thread, comment and inbox records, and the package's errors. A
  \<open>time.Time\<close> is its UTC instant in nanoseconds, 0 for the zero time; \<open>*T\<close> is an option.
\<close>

type_synonym gtime = int
type_synonym access_map = "(string, string list) fmap"

definition zero_time :: gtime where "zero_time = 0"

text \<open>
  \<open>ErrStoragePatch\<close> is always wrapped with a message (\<open>fmt.Errorf "%w: ..."\<close>); the
  reason names it. \<open>ErrJSON\<close> is an error of \<open>encoding/json\<close> passed on unwrapped.
\<close>

datatype patch_reason =
    InvalidDocument | RootMustRemainObject | RootMustBeObject | RootTypedNode
  | TypeNotString | TypedDataMissing | UnsupportedTyped string
  | DataNotObject string | DataNotArray
  | TestFailed string | UnsupportedOperation string | ValueRequired string | InvalidValue string
  | MissingParent string | MissingArrayParent string | NotContainer | TargetNotContainer
  | RemoveRoot | PathMissing | PointerSyntax | PointerEscape
  | DashOnlyAdd | InvalidIndex | IndexRange
  | ResultTooLarge | InvalidSequence | InvalidOpRecord

datatype cluster_error =
    ErrRoomAlreadyExists | ErrRoomNotFound | ErrStorageNotFound | ErrStorageConflict
  | ErrStoragePatch patch_reason
  | ErrThreadAlreadyExists | ErrThreadNotFound | ErrCommentNotFound
  | ErrInboxAlreadyExists | ErrInboxNotFound
  | ErrJSON

definition EventStorageUpdate :: string where "EventStorageUpdate = ''$openrtc.storage.update''"

subsection \<open>Permissions\<close>

definition PermissionRoomWrite :: string where "PermissionRoomWrite = ''room:write''"
definition PermissionRoomRead :: string where "PermissionRoomRead = ''room:read''"
definition PermissionRoomPresenceWrite :: string where
  "PermissionRoomPresenceWrite = ''room:presence:write''"
definition PermissionStorageWrite :: string where "PermissionStorageWrite = ''storage:write''"
definition PermissionStorageRead :: string where "PermissionStorageRead = ''storage:read''"
definition PermissionCommentsWrite :: string where "PermissionCommentsWrite = ''comments:write''"
definition PermissionCommentsRead :: string where "PermissionCommentsRead = ''comments:read''"
definition PermissionFeedsWrite :: string where "PermissionFeedsWrite = ''feeds:write''"
definition PermissionFeedsRead :: string where "PermissionFeedsRead = ''feeds:read''"

definition storageTypeKey :: string where "storageTypeKey = ''liveblocksType''"
definition storageDataKey :: string where "storageDataKey = ''data''"
definition storageTypeLiveObject :: string where "storageTypeLiveObject = ''LiveObject''"
definition storageTypeLiveList :: string where "storageTypeLiveList = ''LiveList''"
definition storageTypeLiveMap :: string where "storageTypeLiveMap = ''LiveMap''"

subsection \<open>Events between nodes\<close>

record PublishedEvent =
  pe_Room :: room_id
  pe_Event :: string
  pe_Payload :: bytes
  pe_ExcludeSenderConnID :: conn_id
  pe_TraceID :: string
  pe_Sequence :: u64
  pe_OriginNode :: string

record PresenceEvent =
  pr_Room :: room_id
  pr_ConnID :: conn_id
  pr_State :: bytes
  pr_Offline :: bool
  pr_OriginNode :: string

type_synonym YJSEventKind = "8 word"

definition YJSEventUpdate :: YJSEventKind where "YJSEventUpdate = 1"
definition YJSEventSnapshot :: YJSEventKind where "YJSEventSnapshot = 2"
definition YJSEventStateVectorRequest :: YJSEventKind where "YJSEventStateVectorRequest = 3"
definition YJSEventStateVectorDiff :: YJSEventKind where "YJSEventStateVectorDiff = 4"
definition YJSEventSubdocUpdate :: YJSEventKind where "YJSEventSubdocUpdate = 5"
definition YJSEventSubdocStateVector :: YJSEventKind where "YJSEventSubdocStateVector = 6"
definition YJSEventSubdocDiff :: YJSEventKind where "YJSEventSubdocDiff = 7"

lemmas yjs_kinds = YJSEventUpdate_def YJSEventSnapshot_def YJSEventStateVectorRequest_def
  YJSEventStateVectorDiff_def YJSEventSubdocUpdate_def YJSEventSubdocStateVector_def
  YJSEventSubdocDiff_def

record YJSEvent =
  ye_Room :: room_id
  ye_Kind :: YJSEventKind
  ye_Update :: bytes
  ye_Sequence :: u64
  ye_OriginNode :: string
  ye_OriginConnID :: conn_id

record Snapshot =
  sn_Members :: "conn_id list"
  sn_Presence :: "(conn_id, bytes) fmap"

record YJSDocument =
  yd_Snapshot :: bytes
  yd_SnapshotHash :: string
  yd_SnapshotCheckpoint :: u64
  yd_Updates :: "bytes list"
  yd_UpdateSequences :: "u64 list"
  yd_UpdateKinds :: "YJSEventKind list"

subsection \<open>Rooms, threads, comments, inbox\<close>

record RoomRecord =
  rr_ID :: room_id
  rr_Metadata :: bytes
  rr_DefaultAccesses :: "string list"
  rr_UsersAccesses :: access_map
  rr_GroupsAccesses :: access_map
  rr_CreatedAt :: gtime
  rr_UpdatedAt :: gtime

record CommentReaction =
  re_Emoji :: string
  re_UserID :: string

record CommentRecord =
  cr_Type :: string
  cr_ThreadID :: string
  cr_RoomID :: room_id
  cr_ID :: string
  cr_UserID :: string
  cr_CreatedAt :: gtime
  cr_EditedAt :: "gtime option"
  cr_DeletedAt :: "gtime option"
  cr_Body :: bytes
  cr_Metadata :: bytes
  cr_Mentions :: "string list"
  cr_Reactions :: "CommentReaction list"

record ThreadRecord =
  tr_Type :: string
  tr_ID :: string
  tr_RoomID :: room_id
  tr_Comments :: "CommentRecord list"
  tr_Resolved :: bool
  tr_Metadata :: bytes
  tr_ReadAt :: "gtime option"
  tr_Unread :: "bool option"
  tr_CreatedAt :: gtime
  tr_UpdatedAt :: gtime

record ThreadReadState =
  trs_RoomID :: room_id
  trs_ThreadID :: string
  trs_UserID :: string
  trs_ReadAt :: "gtime option"
  trs_ThreadUpdatedAt :: gtime
  trs_Unread :: bool

record InboxNotificationRecord =
  in_ID :: string
  in_UserID :: string
  in_Kind :: string
  in_SubjectID :: string
  in_ThreadID :: string
  in_RoomID :: room_id
  in_ReadAt :: "gtime option"
  in_NotifiedAt :: gtime
  in_ActivityData :: bytes

record RoomSubscriptionSettings =
  rs_RoomID :: room_id
  rs_UserID :: string
  rs_Threads :: string
  rs_TextMentions :: string
  rs_UpdatedAt :: gtime

record JSONPatchOperation =
  po_Op :: string
  po_Path :: string
  po_From :: string
  po_Value :: bytes

text \<open>
  \<open>YJSSnapshotHash\<close>: 32-bit FNV-1a of the snapshot, printed as eight hexadecimal digits.
\<close>

definition fnv1a :: "bytes \<Rightarrow> 32 word" where
  "fnv1a s = foldl (\<lambda>h b. (h XOR of_nat (byte b)) * 0x01000193) 0x811c9dc5 s"

fun hex_lower :: "nat \<Rightarrow> nat \<Rightarrow> string" where
  "hex_lower 0 n = []"
| "hex_lower (Suc w) n =
    hex_lower w (n div 16) @ [if n mod 16 < 10 then chr (0x30 + n mod 16) else chr (0x57 + n mod 16)]"

definition YJSSnapshotHash :: "bytes \<Rightarrow> string" where
  "YJSSnapshotHash snapshot = (if snapshot = [] then [] else hex_lower 8 (unat (fnv1a snapshot)))"

definition isDurableYJSEventKind :: "YJSEventKind \<Rightarrow> bool" where
  "isDurableYJSEventKind kind \<longleftrightarrow> kind = YJSEventUpdate \<or> kind = YJSEventSubdocUpdate"

lemma length_hex_lower [simp]: "length (hex_lower w n) = w"
  by (induction w arbitrary: n) auto

lemma YJSSnapshotHash_length: "length (YJSSnapshotHash s) = (if s = [] then 0 else 8)"
  by (simp add: YJSSnapshotHash_def)

end
