(* ===== verification/Engine_Types.thy ===== *)
theory Engine_Types
  imports Cluster_Types
begin

text \<open>
  The state of a room engine (\<open>Engine\<close> in \<open>internal/roomengine/engine.go\<close>) and the
  values its operations take and return: plans, fan-outs, mutations and snapshots. The
  engine's mutex is not modelled: each locked section of the code is one function on the
  state, and the places where the code releases the lock between two sections are separate
  functions (a plan and its application).
\<close>

subsection \<open>Errors and constants\<close>

datatype engine_error =
    ErrRoomLimitExceeded | ErrRoomCapacityExceeded | ErrYJSRoomCapacityExceeded
  | ErrStorageMutationKind | ErrYJSPersistenceKind
  | ErrCluster cluster_error

definition StorageMutationSet :: string where "StorageMutationSet = ''set''"
definition StorageMutationPatch :: string where "StorageMutationPatch = ''patch''"
definition StorageMutationDelete :: string where "StorageMutationDelete = ''delete''"
definition MembershipMutationJoin :: string where "MembershipMutationJoin = ''join''"
definition MembershipMutationLeave :: string where "MembershipMutationLeave = ''leave''"

lemmas mutation_kinds = StorageMutationSet_def StorageMutationPatch_def StorageMutationDelete_def

datatype ClusterEventKind =
  ClusterEventSkip | ClusterEventRoom | ClusterEventStorage | ClusterEventNotification

definition RoomCreated :: string where "RoomCreated = ''openrtc.rooms.created''"
definition RoomUpdated :: string where "RoomUpdated = ''openrtc.rooms.updated''"
definition RoomDeleted :: string where "RoomDeleted = ''openrtc.rooms.deleted''"
definition CommentThreadCreated :: string where
  "CommentThreadCreated = ''openrtc.comments.thread.created''"
definition CommentThreadUpdated :: string where
  "CommentThreadUpdated = ''openrtc.comments.thread.updated''"
definition CommentThreadDeleted :: string where
  "CommentThreadDeleted = ''openrtc.comments.thread.deleted''"
definition CommentCreated :: string where "CommentCreated = ''openrtc.comments.comment.created''"
definition CommentUpdated :: string where "CommentUpdated = ''openrtc.comments.comment.updated''"
definition NotificationInboxCreated :: string where
  "NotificationInboxCreated = ''openrtc.notifications.inbox.created''"
definition NotificationInboxRead :: string where
  "NotificationInboxRead = ''openrtc.notifications.inbox.read''"
definition NotificationInboxDeleted :: string where
  "NotificationInboxDeleted = ''openrtc.notifications.inbox.deleted''"
definition NotificationInboxDeletedAll :: string where
  "NotificationInboxDeletedAll = ''openrtc.notifications.inbox.deleted_all''"

lemmas event_names = RoomCreated_def RoomUpdated_def RoomDeleted_def
  CommentThreadCreated_def CommentThreadUpdated_def CommentThreadDeleted_def
  CommentCreated_def CommentUpdated_def NotificationInboxCreated_def NotificationInboxRead_def
  NotificationInboxDeleted_def NotificationInboxDeletedAll_def EventStorageUpdate_def

datatype YJSPersistenceMode = YJSPersistenceAppendUpdate | YJSPersistenceStoreSnapshot

subsection \<open>The state\<close>

record SessionInfo =
  se_ConnID :: conn_id
  se_Subject :: string
  se_Tenant :: string

record YJSSessionInfo =
  ys_ConnID :: conn_id
  ys_Subject :: string
  ys_Tenant :: string
  ys_Room :: room_id

record memoryYJSDocument =
  md_Snapshot :: bytes
  md_SnapshotHash :: string
  md_SnapshotCheckpoint :: u64
  md_Updates :: "bytes list"
  md_UpdateSequences :: "u64 list"
  md_UpdateKinds :: "YJSEventKind list"
  md_NextSequence :: u64

record StorageMutation =
  sm_Kind :: string
  sm_OpID :: string
  sm_OriginConnID :: conn_id
  sm_Sequence :: u64
  sm_Operations :: "JSONPatchOperation list"
  sm_Document :: bytes

record storageOpRecord =
  op_Fingerprint :: string
  op_Mutation :: StorageMutation

record Engine =
  rooms :: "(room_id, conn_id fset) fmap"
  connRooms :: "(conn_id, room_id fset) fmap"
  sessions :: "(conn_id, SessionInfo) fmap"
  presence :: "(room_id, (conn_id, bytes) fmap) fmap"
  yjsRooms :: "(room_id, conn_id fset) fmap"
  yjsSessions :: "(conn_id, YJSSessionInfo) fmap"
  yjsDocs :: "(room_id, memoryYJSDocument) fmap"
  storage :: "(room_id, bytes) fmap"
  storageSeq :: "(room_id, u64) fmap"
  storageOps :: "(room_id, (string, storageOpRecord) fmap) fmap"
  eventAcks :: "(conn_id, (room_id, u64) fmap) fmap"

definition New :: Engine where
  "New = \<lparr>rooms = fmempty, connRooms = fmempty, sessions = fmempty, presence = fmempty,
     yjsRooms = fmempty, yjsSessions = fmempty, yjsDocs = fmempty, storage = fmempty,
     storageSeq = fmempty, storageOps = fmempty, eventAcks = fmempty\<rparr>"

subsection \<open>Membership\<close>

record MembershipMutation =
  mm_Kind :: string
  mm_ConnID :: conn_id
  mm_Room :: room_id

record PresenceFanout =
  pf_Event :: PresenceEvent
  pf_TargetConnIDs :: "conn_id list"

record JoinResult =
  jr_AlreadyJoined :: bool
  jr_Snapshot :: Snapshot
  jr_MembershipMutation :: "MembershipMutation option"

record JoinLimits =
  jl_RoomsPerConnection :: int
  jl_RoomConnections :: int

record ConnectionTouch =
  ct_ConnID :: conn_id
  ct_Subject :: string
  ct_Tenant :: string

record ConnectionCleanup =
  cc_ConnID :: conn_id

text \<open>A \<open>LeaveResult\<close> has the fields of a \<open>LeavePlan\<close>, a \<open>DisconnectResult\<close> those of its plan.\<close>

record LeavePlan =
  lp_Left :: bool
  lp_PresenceFanout :: "PresenceFanout option"
  lp_MembershipMutation :: "MembershipMutation option"

record DisconnectPlan =
  dp_Rooms :: "room_id list"
  dp_PresenceFanouts :: "PresenceFanout list"
  dp_Cleanup :: "ConnectionCleanup option"

type_synonym LeaveResult = LeavePlan
type_synonym DisconnectResult = DisconnectPlan

definition no_leave :: LeavePlan where
  "no_leave = \<lparr>lp_Left = False, lp_PresenceFanout = None, lp_MembershipMutation = None\<rparr>"

definition no_disconnect :: DisconnectPlan where
  "no_disconnect = \<lparr>dp_Rooms = [], dp_PresenceFanouts = [], dp_Cleanup = None\<rparr>"

record SnapshotPageOptions =
  so_Limit :: int
  so_Cursor :: string

record SnapshotPage =
  sp_Members :: "conn_id list"
  sp_Presence :: "(conn_id, bytes) fmap"
  sp_NextCursor :: string

record JoinReplayOptions =
  jo_AfterSequence :: u64
  jo_MaxEvents :: int
  jo_ExcludeConnID :: conn_id
  jo_ExcludedEventNames :: "string list"

record JoinReplayPlan =
  jrp_AfterSequence :: u64
  jrp_MaxEvents :: int
  jrp_ExcludeConnID :: conn_id
  jrp_excludedEventNames :: "string fset"

record JoinPlanOptions =
  jpo_SnapshotPage :: SnapshotPageOptions
  jpo_Replay :: JoinReplayOptions

record JoinPlan =
  jp_result :: JoinResult
  jp_snapshotOptions :: SnapshotPageOptions
  jp_replayPlan :: JoinReplayPlan

subsection \<open>Events and fan-outs\<close>

record PresenceEventOptions =
  pro_OriginNode :: string

record EventOptions =
  eo_OriginNode :: string
  eo_TraceID :: string
  eo_ExcludeSenderConnID :: conn_id

record StorageEventOptions =
  seo_OriginNode :: string
  seo_ExcludeSenderConnID :: conn_id
  seo_Sequence :: u64

record ClusterEventPlan =
  cep_Event :: PublishedEvent
  cep_Kind :: ClusterEventKind

record ClusterPresencePlan =
  cpp_Event :: PresenceEvent
  cpp_Deliver :: bool

record ClusterYJSEventPlan =
  cyp_Event :: YJSEvent
  cyp_Deliver :: bool

record YJSEventOptions =
  yo_OriginNode :: string
  yo_OriginConnID :: conn_id

record YJSEventPlan =
  yp_Event :: YJSEvent
  yp_RequiresPublish :: bool
  yp_Durable :: bool

record YJSPersistencePlan =
  ypp_Event :: YJSEvent
  ypp_Mode :: YJSPersistenceMode

record YJSFrame =
  yf_Kind :: YJSEventKind
  yf_Update :: bytes

record EventFanout =
  ef_Event :: PublishedEvent
  ef_TargetConnIDs :: "conn_id list"

record YJSFanout =
  yfo_Event :: YJSEvent
  yfo_TargetConnIDs :: "conn_id list"

record YJSMutationEffects =
  yme_Event :: YJSEvent
  yme_Fanout :: YJSFanout
  yme_PublishCluster :: bool
  yme_RequiresPublish :: bool
  yme_Durable :: bool

record NotificationFanout =
  nf_Event :: PublishedEvent
  nf_UserID :: string
  nf_TargetConnIDs :: "conn_id list"

subsection \<open>Storage mutations\<close>

record StorageMutationOptions =
  smo_MaxBytes :: int
  smo_OpID :: string
  smo_OriginConnID :: conn_id
  smo_Sequence :: u64
  smo_ExpectedSequence :: u64
  smo_ExpectedSequenceSet :: bool

record StorageFanout =
  sf_Room :: room_id
  sf_Update :: StorageMutation
  sf_Sequence :: u64
  sf_TargetConnIDs :: "conn_id list"

record StorageMutationPlan =
  smp_Mutation :: StorageMutation
  smp_Fanout :: StorageFanout
  smp_Event :: PublishedEvent
  smp_Duplicate :: bool

record StorageMutationEventPlan =
  sme_Mutation :: StorageMutation
  sme_Event :: PublishedEvent

subsection \<open>Inspection\<close>

record ConnectionSnapshot =
  cs_ConnectionID :: conn_id
  cs_Subject :: string
  cs_Tenant :: string
  cs_Rooms :: "room_id list"
  cs_EventAcks :: "(room_id, u64) fmap"

record YJSConnectionSnapshot =
  yc_ConnectionID :: conn_id
  yc_Subject :: string
  yc_Tenant :: string
  yc_Room :: room_id

record RoomActivitySnapshot =
  ra_Room :: room_id
  ra_Connections :: int
  ra_YJSConnections :: int
  ra_TotalSockets :: int
  ra_EventAckMinSequence :: u64
  ra_EventAckMaxSequence :: u64

record ConnectionsSnapshot =
  cn_Connections :: "ConnectionSnapshot list"
  cn_YJSConnections :: "YJSConnectionSnapshot list"
  cn_Rooms :: "RoomActivitySnapshot list"
  cn_ActiveRoomCount :: int

record RoomEventPayload =
  rep_Type :: string
  rep_RoomID :: room_id
  rep_Room :: "RoomRecord option"

record CommentEventPayload =
  cmp_Type :: string
  cmp_RoomID :: room_id
  cmp_ThreadID :: string
  cmp_CommentID :: string
  cmp_Thread :: ThreadRecord
  cmp_Comment :: "CommentRecord option"

record NotificationEventPayload =
  nep_Type :: string
  nep_UserID :: string
  nep_NotificationID :: string
  nep_Notification :: "InboxNotificationRecord option"

end
