(* ===== verification/Engine_Rooms.thy ===== *)
theory Engine_Rooms
  imports Engine_Types
begin

text \<open>
  Rooms of the engine: sessions, membership with its limits, leaving and disconnecting by a
  plan and its application, presence, event acknowledgements, snapshots and their pages,
  and the activity overview.
\<close>

subsection \<open>Sessions\<close>

definition newConnectionTouch :: "SessionInfo \<Rightarrow> ConnectionTouch" where
  "newConnectionTouch info =
    \<lparr>ct_ConnID = se_ConnID info, ct_Subject = se_Subject info, ct_Tenant = se_Tenant info\<rparr>"

definition RegisterSession :: "Engine \<Rightarrow> SessionInfo \<Rightarrow> ConnectionTouch option \<times> Engine" where
  "RegisterSession e info =
    (if se_ConnID info = [] then (None, e)
     else (Some (newConnectionTouch info), e\<lparr>sessions := fmupd (se_ConnID info) info (sessions e)\<rparr>))"

definition TouchSession :: "Engine \<Rightarrow> conn_id \<Rightarrow> ConnectionTouch option" where
  "TouchSession e connID =
    (case fmlookup (sessions e) connID of None \<Rightarrow> None | Some info \<Rightarrow> Some (newConnectionTouch info))"

subsection \<open>Reading the members of a room\<close>

abbreviation members_of :: "Engine \<Rightarrow> room_id \<Rightarrow> conn_id fset" where
  "members_of e room \<equiv> gm_set (rooms e) room"

abbreviation joined :: "Engine \<Rightarrow> conn_id \<Rightarrow> room_id fset" where
  "joined e connID \<equiv> gm_set (connRooms e) connID"

abbreviation presence_of :: "Engine \<Rightarrow> room_id \<Rightarrow> (conn_id, bytes) fmap" where
  "presence_of e room \<equiv> gm_map (presence e) room"

abbreviation acks_of :: "Engine \<Rightarrow> conn_id \<Rightarrow> (room_id, u64) fmap" where
  "acks_of e connID \<equiv> gm_map (eventAcks e) connID"

abbreviation yjs_members :: "Engine \<Rightarrow> room_id \<Rightarrow> conn_id fset" where
  "yjs_members e room \<equiv> gm_set (yjsRooms e) room"

definition without :: "conn_id fset \<Rightarrow> conn_id \<Rightarrow> conn_id fset" where
  "without members excludeConnID =
    ffilter (\<lambda>connID. \<not> (excludeConnID \<noteq> [] \<and> connID = excludeConnID)) members"

definition memberIDsLocked :: "Engine \<Rightarrow> room_id \<Rightarrow> conn_id \<Rightarrow> conn_id list" where
  "memberIDsLocked e room excludeConnID = sorted_ids (without (members_of e room) excludeConnID)"

definition MemberIDs :: "Engine \<Rightarrow> room_id \<Rightarrow> conn_id \<Rightarrow> conn_id list" where
  "MemberIDs e room excludeConnID = memberIDsLocked e room excludeConnID"

definition snapshotLocked :: "Engine \<Rightarrow> room_id \<Rightarrow> Snapshot" where
  "snapshotLocked e room =
    \<lparr>sn_Members = sorted_ids (members_of e room), sn_Presence = presence_of e room\<rparr>"

definition Snapshot :: "Engine \<Rightarrow> room_id \<Rightarrow> Snapshot" where
  "Snapshot e room = snapshotLocked e room"

definition joinedRoomsLocked :: "Engine \<Rightarrow> conn_id \<Rightarrow> room_id list" where
  "joinedRoomsLocked e connID = sorted_ids (joined e connID)"

definition JoinedRooms :: "Engine \<Rightarrow> conn_id \<Rightarrow> room_id list" where
  "JoinedRooms e connID = joinedRoomsLocked e connID"

subsection \<open>Joining\<close>

definition newMembershipMutation :: "string \<Rightarrow> conn_id \<Rightarrow> room_id \<Rightarrow> MembershipMutation" where
  "newMembershipMutation kind connID room = \<lparr>mm_Kind = kind, mm_ConnID = connID, mm_Room = room\<rparr>"

text \<open>The (possibly empty) entry of the connection is made before the limits are checked.\<close>

definition JoinWithLimits ::
  "Engine \<Rightarrow> conn_id \<Rightarrow> room_id \<Rightarrow> JoinLimits \<Rightarrow> (engine_error + JoinResult) \<times> Engine" where
  "JoinWithLimits e connID room limits =
    (let joinedRooms = joined e connID;
         e = e\<lparr>connRooms := fmupd connID joinedRooms (connRooms e)\<rparr>
     in if room |\<in>| joinedRooms then
          (Inr \<lparr>jr_AlreadyJoined = True, jr_Snapshot = snapshotLocked e room,
                jr_MembershipMutation = None\<rparr>, e)
        else if jl_RoomsPerConnection limits > 0
                \<and> flen joinedRooms \<ge> jl_RoomsPerConnection limits then
          (Inl ErrRoomLimitExceeded, e)
        else if jl_RoomConnections limits > 0
                \<and> flen (members_of e room) \<ge> jl_RoomConnections limits then
          (Inl ErrRoomCapacityExceeded, e)
        else
          (let e = e\<lparr>connRooms := gm_insert connID room (connRooms e),
                     rooms := gm_insert room connID (rooms e)\<rparr>
           in (Inr \<lparr>jr_AlreadyJoined = False, jr_Snapshot = snapshotLocked e room,
                    jr_MembershipMutation =
                      Some (newMembershipMutation MembershipMutationJoin connID room)\<rparr>, e)))"

definition Join ::
  "Engine \<Rightarrow> conn_id \<Rightarrow> room_id \<Rightarrow> int \<Rightarrow> (engine_error + JoinResult) \<times> Engine" where
  "Join e connID room roomLimit =
    JoinWithLimits e connID room \<lparr>jl_RoomsPerConnection = roomLimit, jl_RoomConnections = 0\<rparr>"

subsection \<open>Presence events\<close>

definition NewPresenceEvent ::
  "conn_id \<Rightarrow> room_id \<Rightarrow> bytes \<Rightarrow> PresenceEventOptions \<Rightarrow> PresenceEvent" where
  "NewPresenceEvent connID room payload options =
    \<lparr>pr_Room = room, pr_ConnID = connID, pr_State = payload, pr_Offline = False,
     pr_OriginNode = pro_OriginNode options\<rparr>"

definition NewOfflinePresenceEvent ::
  "conn_id \<Rightarrow> room_id \<Rightarrow> PresenceEventOptions \<Rightarrow> PresenceEvent" where
  "NewOfflinePresenceEvent connID room options =
    \<lparr>pr_Room = room, pr_ConnID = connID, pr_State = [], pr_Offline = True,
     pr_OriginNode = pro_OriginNode options\<rparr>"

definition no_origin :: PresenceEventOptions where
  "no_origin = \<lparr>pro_OriginNode = []\<rparr>"

subsection \<open>Leaving\<close>

definition removeRoomMemberLocked :: "conn_id \<Rightarrow> room_id \<Rightarrow> Engine \<Rightarrow> Engine" where
  "removeRoomMemberLocked connID room e = e\<lparr>rooms := gm_remove room connID (rooms e)\<rparr>"

definition removePresenceLocked :: "conn_id \<Rightarrow> room_id \<Rightarrow> Engine \<Rightarrow> Engine" where
  "removePresenceLocked connID room e = e\<lparr>presence := gm_delete room connID (presence e)\<rparr>"

definition removeEventAckLocked :: "conn_id \<Rightarrow> room_id \<Rightarrow> Engine \<Rightarrow> Engine" where
  "removeEventAckLocked connID room e = e\<lparr>eventAcks := gm_delete connID room (eventAcks e)\<rparr>"

definition newLeavePlan ::
  "Engine \<Rightarrow> conn_id \<Rightarrow> room_id \<Rightarrow> PresenceEventOptions \<Rightarrow> bool \<Rightarrow> LeavePlan" where
  "newLeavePlan e connID room options includeFanout =
    (if room |\<notin>| joined e connID then no_leave
     else \<lparr>lp_Left = True,
           lp_PresenceFanout =
             (if includeFanout
              then Some \<lparr>pf_Event = NewOfflinePresenceEvent connID room options,
                         pf_TargetConnIDs = memberIDsLocked e room connID\<rparr>
              else None),
           lp_MembershipMutation =
             Some (newMembershipMutation MembershipMutationLeave connID room)\<rparr>)"

definition NewLeavePlan ::
  "Engine \<Rightarrow> conn_id \<Rightarrow> room_id \<Rightarrow> PresenceEventOptions \<Rightarrow> LeavePlan" where
  "NewLeavePlan e connID room options = newLeavePlan e connID room options True"

definition ApplyLeavePlan :: "Engine \<Rightarrow> LeavePlan \<Rightarrow> LeaveResult \<times> Engine" where
  "ApplyLeavePlan e plan =
    (case lp_MembershipMutation plan of
       None \<Rightarrow> (no_leave, e)
     | Some mutation \<Rightarrow>
         if \<not> lp_Left plan then (no_leave, e)
         else
           (let connID = mm_ConnID mutation; room = mm_Room mutation;
                e = (if room |\<in>| joined e connID then
                       removeEventAckLocked connID room
                         (removePresenceLocked connID room
                           (removeRoomMemberLocked connID room
                             (e\<lparr>connRooms := gm_remove connID room (connRooms e)\<rparr>)))
                     else e)
            in (\<lparr>lp_Left = True, lp_PresenceFanout = lp_PresenceFanout plan,
                 lp_MembershipMutation = lp_MembershipMutation plan\<rparr>, e)))"

definition Leave :: "Engine \<Rightarrow> conn_id \<Rightarrow> room_id \<Rightarrow> LeaveResult \<times> Engine" where
  "Leave e connID room = ApplyLeavePlan e (newLeavePlan e connID room no_origin False)"

definition LeaveWithPresenceFanout ::
  "Engine \<Rightarrow> conn_id \<Rightarrow> room_id \<Rightarrow> PresenceEventOptions \<Rightarrow> LeaveResult \<times> Engine" where
  "LeaveWithPresenceFanout e connID room options =
    ApplyLeavePlan e (NewLeavePlan e connID room options)"

subsection \<open>Disconnecting\<close>

definition newDisconnectPlan ::
  "Engine \<Rightarrow> conn_id \<Rightarrow> PresenceEventOptions \<Rightarrow> bool \<Rightarrow> DisconnectPlan" where
  "newDisconnectPlan e connID options includeFanouts =
    (let rooms = sorted_ids (joined e connID)
     in \<lparr>dp_Rooms = rooms,
         dp_PresenceFanouts =
           (if includeFanouts
            then map (\<lambda>room. \<lparr>pf_Event = NewOfflinePresenceEvent connID room options,
                              pf_TargetConnIDs = memberIDsLocked e room connID\<rparr>) rooms
            else []),
         dp_Cleanup = Some \<lparr>cc_ConnID = connID\<rparr>\<rparr>)"

definition NewDisconnectPlan ::
  "Engine \<Rightarrow> conn_id \<Rightarrow> PresenceEventOptions \<Rightarrow> DisconnectPlan" where
  "NewDisconnectPlan e connID options = newDisconnectPlan e connID options True"

definition removeFromRoomsLocked :: "conn_id \<Rightarrow> room_id list \<Rightarrow> Engine \<Rightarrow> Engine" where
  "removeFromRoomsLocked connID rs e =
    foldl (\<lambda>e room. removePresenceLocked connID room (removeRoomMemberLocked connID room e)) e rs"

definition ApplyDisconnectPlan :: "Engine \<Rightarrow> DisconnectPlan \<Rightarrow> DisconnectResult \<times> Engine" where
  "ApplyDisconnectPlan e plan =
    (case dp_Cleanup plan of
       None \<Rightarrow> (no_disconnect, e)
     | Some cleanup \<Rightarrow>
         (let connID = cc_ConnID cleanup;
              e = removeFromRoomsLocked connID (dp_Rooms plan) e
          in (\<lparr>dp_Rooms = dp_Rooms plan, dp_PresenceFanouts = dp_PresenceFanouts plan,
               dp_Cleanup = dp_Cleanup plan\<rparr>,
              e\<lparr>connRooms := fmdrop connID (connRooms e), sessions := fmdrop connID (sessions e),
                eventAcks := fmdrop connID (eventAcks e)\<rparr>)))"

definition Disconnect :: "Engine \<Rightarrow> conn_id \<Rightarrow> room_id list \<times> Engine" where
  "Disconnect e connID =
    (let (result, e) = ApplyDisconnectPlan e (newDisconnectPlan e connID no_origin False)
     in (dp_Rooms result, e))"

definition DisconnectPresenceFanouts ::
  "Engine \<Rightarrow> conn_id \<Rightarrow> PresenceEventOptions \<Rightarrow> PresenceFanout list \<times> Engine" where
  "DisconnectPresenceFanouts e connID options =
    (let (result, e) = ApplyDisconnectPlan e (NewDisconnectPlan e connID options)
     in (dp_PresenceFanouts result, e))"

definition DisconnectSession ::
  "Engine \<Rightarrow> conn_id \<Rightarrow> PresenceEventOptions \<Rightarrow> DisconnectResult \<times> Engine" where
  "DisconnectSession e connID options = ApplyDisconnectPlan e (NewDisconnectPlan e connID options)"

subsection \<open>Presence\<close>

definition setPresenceLocked :: "conn_id \<Rightarrow> room_id \<Rightarrow> bytes \<Rightarrow> Engine \<Rightarrow> Engine" where
  "setPresenceLocked connID room payload e =
    e\<lparr>presence := gm_put room connID payload (presence e)\<rparr>"

definition SetPresence :: "Engine \<Rightarrow> conn_id \<Rightarrow> room_id \<Rightarrow> bytes \<Rightarrow> Engine" where
  "SetPresence e connID room payload = setPresenceLocked connID room payload e"

text \<open>\<open>PresenceSetPlan\<close> has one field, the fan-out, and is represented by it.\<close>

definition NewPresenceSetPlan ::
  "Engine \<Rightarrow> conn_id \<Rightarrow> room_id \<Rightarrow> bytes \<Rightarrow> PresenceEventOptions \<Rightarrow> PresenceFanout" where
  "NewPresenceSetPlan e connID room payload options =
    \<lparr>pf_Event = NewPresenceEvent connID room payload options,
     pf_TargetConnIDs = memberIDsLocked e room []\<rparr>"

definition ApplyPresenceSetPlan :: "Engine \<Rightarrow> PresenceFanout \<Rightarrow> PresenceFanout \<times> Engine" where
  "ApplyPresenceSetPlan e plan =
    (plan, setPresenceLocked (pr_ConnID (pf_Event plan)) (pr_Room (pf_Event plan))
       (pr_State (pf_Event plan)) e)"

definition SetPresenceFanout ::
  "Engine \<Rightarrow> conn_id \<Rightarrow> room_id \<Rightarrow> bytes \<Rightarrow> PresenceEventOptions \<Rightarrow> PresenceFanout \<times> Engine" where
  "SetPresenceFanout e connID room payload options =
    ApplyPresenceSetPlan e (NewPresenceSetPlan e connID room payload options)"

definition SetPresenceEvent ::
  "Engine \<Rightarrow> conn_id \<Rightarrow> room_id \<Rightarrow> bytes \<Rightarrow> PresenceEventOptions \<Rightarrow> PresenceEvent \<times> Engine" where
  "SetPresenceEvent e connID room payload options =
    (let (fanout, e) = SetPresenceFanout e connID room payload options in (pf_Event fanout, e))"

subsection \<open>Event acknowledgements\<close>

definition AcknowledgeEvent :: "Engine \<Rightarrow> conn_id \<Rightarrow> room_id \<Rightarrow> u64 \<Rightarrow> bool \<times> Engine" where
  "AcknowledgeEvent e connID room sequence =
    (if connID = [] \<or> room = [] \<or> sequence = 0 then (False, e)
     else if room |\<notin>| joined e connID then (False, e)
     else
       (let roomAcks = acks_of e connID;
            roomAcks = (if sequence > gm_u64 roomAcks room then fmupd room sequence roomAcks else roomAcks)
        in (True, e\<lparr>eventAcks := fmupd connID roomAcks (eventAcks e)\<rparr>)))"

definition EventAckSequence :: "Engine \<Rightarrow> conn_id \<Rightarrow> room_id \<Rightarrow> u64" where
  "EventAckSequence e connID room = gm_u64 (acks_of e connID) room"

end
