(* ===== verification/Engine_Query.thy ===== *)
theory Engine_Query
  imports Engine_Rooms
begin

text \<open>
  What the engine reports: pages of a snapshot, the plan of a join with the replay of
  missed events, room activity with the range of acknowledged sequences, and the overview
  of connections.

  The Yjs side of the engine: which connection edits which document, the events of a
  document and their persistence as a snapshot with a sequence of updates.
\<close>

subsection \<open>Paging a snapshot\<close>

fun index_after :: "string \<Rightarrow> string list \<Rightarrow> nat" where
  "index_after c [] = 0"
| "index_after c (m # ms) = (if m = c then 1 else (let n = index_after c ms in if n = 0 then 0 else n + 1))"

definition PageSnapshot :: "Snapshot \<Rightarrow> SnapshotPageOptions \<Rightarrow> SnapshotPage" where
  "PageSnapshot snap options =
    (let sortedMembers = sort (sn_Members snap);
         start = (if so_Cursor options = [] then 0 else int (index_after (so_Cursor options) sortedMembers));
         limit = (if so_Limit options \<le> 0 \<or> so_Limit options > len sortedMembers
                  then len sortedMembers else so_Limit options);
         end_ix = (if start + limit > len sortedMembers then len sortedMembers else start + limit);
         members = take (nat (end_ix - start)) (drop (nat start) sortedMembers)
     in \<lparr>sp_Members = members,
         sp_Presence = fmrestrict_set (set members) (sn_Presence snap),
         sp_NextCursor =
           (if end_ix < len sortedMembers then sortedMembers ! nat (end_ix - 1) else [])\<rparr>)"

subsection \<open>Joining with replay\<close>

definition NewJoinReplayPlan :: "JoinReplayOptions \<Rightarrow> JoinReplayPlan" where
  "NewJoinReplayPlan options =
    \<lparr>jrp_AfterSequence = jo_AfterSequence options, jrp_MaxEvents = jo_MaxEvents options,
     jrp_ExcludeConnID = jo_ExcludeConnID options,
     jrp_excludedEventNames = fset_of_list (jo_ExcludedEventNames options)\<rparr>"

definition Enabled :: "JoinReplayPlan \<Rightarrow> bool" where
  "Enabled plan \<longleftrightarrow> jrp_AfterSequence plan > 0"

definition skipReplayEvent :: "JoinReplayPlan \<Rightarrow> PublishedEvent \<Rightarrow> bool" where
  "skipReplayEvent plan event =
    (if jrp_ExcludeConnID plan \<noteq> [] \<and> pe_ExcludeSenderConnID event = jrp_ExcludeConnID plan then True
     else pe_Event event |\<in>| jrp_excludedEventNames plan)"

fun ReplayEvents :: "JoinReplayPlan \<Rightarrow> PublishedEvent list \<Rightarrow> PublishedEvent list" where
  "ReplayEvents plan [] = []"
| "ReplayEvents plan (event # events) =
    (if skipReplayEvent plan event then ReplayEvents plan events
     else event # ReplayEvents plan events)"

definition NewJoinPlan :: "JoinResult \<Rightarrow> JoinPlanOptions \<Rightarrow> JoinPlan" where
  "NewJoinPlan result options =
    \<lparr>jp_result = result, jp_snapshotOptions = jpo_SnapshotPage options,
     jp_replayPlan = NewJoinReplayPlan (jpo_Replay options)\<rparr>"

definition JoinPlan_AlreadyJoined :: "JoinPlan \<Rightarrow> bool" where
  "JoinPlan_AlreadyJoined plan = jr_AlreadyJoined (jp_result plan)"

definition JoinPlan_MembershipMutation :: "JoinPlan \<Rightarrow> MembershipMutation option" where
  "JoinPlan_MembershipMutation plan = jr_MembershipMutation (jp_result plan)"

definition JoinPlan_SnapshotPage :: "JoinPlan \<Rightarrow> Snapshot \<Rightarrow> SnapshotPage" where
  "JoinPlan_SnapshotPage plan snap = PageSnapshot snap (jp_snapshotOptions plan)"

definition JoinPlan_LocalSnapshotPage :: "JoinPlan \<Rightarrow> SnapshotPage" where
  "JoinPlan_LocalSnapshotPage plan = JoinPlan_SnapshotPage plan (jr_Snapshot (jp_result plan))"

definition JoinPlan_ReplayLogRequest :: "JoinPlan \<Rightarrow> u64 \<times> int \<times> bool" where
  "JoinPlan_ReplayLogRequest plan =
    (if \<not> Enabled (jp_replayPlan plan) then (0, 0, False)
     else (jrp_AfterSequence (jp_replayPlan plan), jrp_MaxEvents (jp_replayPlan plan), True))"

definition JoinPlan_ReplayEvents :: "JoinPlan \<Rightarrow> PublishedEvent list \<Rightarrow> PublishedEvent list" where
  "JoinPlan_ReplayEvents plan events = ReplayEvents (jp_replayPlan plan) events"

subsection \<open>Activity\<close>

definition ack_step :: "u64 \<times> u64 \<Rightarrow> u64 \<Rightarrow> u64 \<times> u64" where
  "ack_step acc sequence =
    (let (minAck, maxAck) = acc in
     if sequence = 0 then (minAck, maxAck)
     else (if minAck = 0 \<or> sequence < minAck then sequence else minAck,
           if sequence > maxAck then sequence else maxAck))"

definition eventAckRangeLocked :: "Engine \<Rightarrow> room_id \<Rightarrow> u64 \<times> u64" where
  "eventAckRangeLocked e room =
    foldl ack_step (0, 0) (map (\<lambda>connID. gm_u64 (acks_of e connID) room) (sorted_ids (members_of e room)))"

definition roomActivityLocked :: "Engine \<Rightarrow> RoomActivitySnapshot list" where
  "roomActivityLocked e =
    map (\<lambda>room.
      (let jsonConnections = flen (members_of e room);
           yjsConnections = flen (yjs_members e room);
           (minAck, maxAck) = eventAckRangeLocked e room
       in \<lparr>ra_Room = room, ra_Connections = jsonConnections, ra_YJSConnections = yjsConnections,
           ra_TotalSockets = jsonConnections + yjsConnections,
           ra_EventAckMinSequence = minAck, ra_EventAckMaxSequence = maxAck\<rparr>))
      (sorted_ids (fmdom (rooms e) |\<union>| fmdom (yjsRooms e)))"

definition ActiveRoomCount :: "Engine \<Rightarrow> int" where
  "ActiveRoomCount e = len (roomActivityLocked e)"

definition RoomActivity :: "Engine \<Rightarrow> RoomActivitySnapshot list" where
  "RoomActivity e = roomActivityLocked e"

definition eventAcksForConnectionLocked :: "Engine \<Rightarrow> conn_id \<Rightarrow> (room_id, u64) fmap" where
  "eventAcksForConnectionLocked e connID =
    fmfilter (\<lambda>room. gm_u64 (acks_of e connID) room \<noteq> 0 \<and> room |\<in>| joined e connID) (acks_of e connID)"

definition ConnectionsSnapshot :: "Engine \<Rightarrow> ConnectionsSnapshot" where
  "ConnectionsSnapshot e =
    (let connections = map (\<lambda>connID.
           (let session = the (fmlookup (sessions e) connID)
            in \<lparr>cs_ConnectionID = connID, cs_Subject = se_Subject session, cs_Tenant = se_Tenant session,
                cs_Rooms = joinedRoomsLocked e connID,
                cs_EventAcks = eventAcksForConnectionLocked e connID\<rparr>))
           (sorted_ids (fmdom (sessions e)));
         yjsConnections = map (\<lambda>connID.
           (let session = the (fmlookup (yjsSessions e) connID)
            in \<lparr>yc_ConnectionID = connID, yc_Subject = ys_Subject session, yc_Tenant = ys_Tenant session,
                yc_Room = ys_Room session\<rparr>))
           (sorted_ids (fmdom (yjsSessions e)));
         activity = roomActivityLocked e
     in \<lparr>cn_Connections = connections, cn_YJSConnections = yjsConnections, cn_Rooms = activity,
         cn_ActiveRoomCount = len activity\<rparr>)"

subsection \<open>Who receives an event\<close>

definition PresenceFanout :: "Engine \<Rightarrow> PresenceEvent \<Rightarrow> PresenceFanout" where
  "PresenceFanout e event =
    \<lparr>pf_Event = event, pf_TargetConnIDs = memberIDsLocked e (pr_Room event) []\<rparr>"

definition EventFanout :: "Engine \<Rightarrow> PublishedEvent \<Rightarrow> EventFanout" where
  "EventFanout e event =
    \<lparr>ef_Event = event,
     ef_TargetConnIDs = memberIDsLocked e (pe_Room event) (pe_ExcludeSenderConnID event)\<rparr>"

definition NotificationFanout :: "Engine \<Rightarrow> PublishedEvent \<Rightarrow> string \<Rightarrow> NotificationFanout" where
  "NotificationFanout e event userID =
    \<lparr>nf_Event = event, nf_UserID = userID,
     nf_TargetConnIDs =
       (if userID \<noteq> []
        then sorted_ids (ffilter
          (\<lambda>connID. map_option se_Subject (fmlookup (sessions e) connID) = Some userID) (fmdom (sessions e)))
        else [])\<rparr>"

subsection \<open>Sessions\<close>

definition removeYJSConnLocked :: "conn_id \<Rightarrow> room_id \<Rightarrow> Engine \<Rightarrow> Engine" where
  "removeYJSConnLocked connID room e = e\<lparr>yjsRooms := gm_remove room connID (yjsRooms e)\<rparr>"

definition RegisterYJSSessionWithLimit ::
  "Engine \<Rightarrow> YJSSessionInfo \<Rightarrow> int \<Rightarrow> engine_error option \<times> Engine" where
  "RegisterYJSSessionWithLimit e info roomLimit =
    (let connID = ys_ConnID info; room = ys_Room info;
         existing = fmlookup (yjsSessions e) connID
     in if connID = [] \<or> room = [] then (None, e)
        else if map_option ys_Room existing = Some room then
          (None, e\<lparr>yjsSessions := fmupd connID info (yjsSessions e)\<rparr>)
        else if roomLimit > 0 \<and> flen (yjs_members e room) \<ge> roomLimit then
          (Some ErrYJSRoomCapacityExceeded, e)
        else
          (let e = (case existing of None \<Rightarrow> e | Some old \<Rightarrow> removeYJSConnLocked connID (ys_Room old) e);
               e = e\<lparr>yjsSessions := fmupd connID info (yjsSessions e)\<rparr>
           in (None, e\<lparr>yjsRooms := gm_insert room connID (yjsRooms e)\<rparr>)))"

definition RegisterYJSSession :: "Engine \<Rightarrow> YJSSessionInfo \<Rightarrow> Engine" where
  "RegisterYJSSession e info = snd (RegisterYJSSessionWithLimit e info 0)"

definition RegisterYJSConn :: "Engine \<Rightarrow> conn_id \<Rightarrow> room_id \<Rightarrow> Engine" where
  "RegisterYJSConn e connID room =
    RegisterYJSSession e \<lparr>ys_ConnID = connID, ys_Subject = [], ys_Tenant = [], ys_Room = room\<rparr>"

definition UnregisterYJSConn :: "Engine \<Rightarrow> conn_id \<Rightarrow> room_id \<Rightarrow> Engine" where
  "UnregisterYJSConn e connID room =
    (let (room, e) =
       (case fmlookup (yjsSessions e) connID of
          None \<Rightarrow> (room, e)
        | Some existing \<Rightarrow>
            (let room = (if room = [] then ys_Room existing else room)
             in (room, if ys_Room existing \<noteq> room
                       then removeYJSConnLocked connID (ys_Room existing) e else e)));
         e = removeYJSConnLocked connID room e
     in e\<lparr>yjsSessions := fmdrop connID (yjsSessions e)\<rparr>)"

subsection \<open>Events\<close>

definition yjsTargetIDsLocked :: "Engine \<Rightarrow> room_id \<Rightarrow> conn_id \<Rightarrow> conn_id list" where
  "yjsTargetIDsLocked e room excludeConnID = sorted_ids (without (yjs_members e room) excludeConnID)"

definition YJSTargetIDs :: "Engine \<Rightarrow> room_id \<Rightarrow> conn_id \<Rightarrow> conn_id list" where
  "YJSTargetIDs e room excludeConnID = yjsTargetIDsLocked e room excludeConnID"

definition YJSFanout :: "Engine \<Rightarrow> YJSEvent \<Rightarrow> YJSFanout" where
  "YJSFanout e event =
    \<lparr>yfo_Event = event, yfo_TargetConnIDs = yjsTargetIDsLocked e (ye_Room event) (ye_OriginConnID event)\<rparr>"

definition validClientYJSEventKind :: "YJSEventKind \<Rightarrow> bool" where
  "validClientYJSEventKind kind \<longleftrightarrow>
     kind = YJSEventUpdate \<or> kind = YJSEventStateVectorRequest \<or> kind = YJSEventStateVectorDiff
   \<or> kind = YJSEventSubdocUpdate \<or> kind = YJSEventSubdocStateVector \<or> kind = YJSEventSubdocDiff"

definition yjsEventRequiresPublish :: "YJSEventKind \<Rightarrow> bool" where
  "yjsEventRequiresPublish kind \<longleftrightarrow>
     kind = YJSEventUpdate \<or> kind = YJSEventStateVectorDiff
   \<or> kind = YJSEventSubdocUpdate \<or> kind = YJSEventSubdocDiff"

definition durableYJSEventKind :: "YJSEventKind \<Rightarrow> bool" where
  "durableYJSEventKind kind \<longleftrightarrow> kind = YJSEventUpdate \<or> kind = YJSEventSubdocUpdate"

definition yjsPersistenceMode :: "YJSEventKind \<Rightarrow> YJSPersistenceMode option" where
  "yjsPersistenceMode kind =
    (if kind = YJSEventSnapshot then Some YJSPersistenceStoreSnapshot
     else if kind = YJSEventUpdate \<or> kind = YJSEventSubdocUpdate then Some YJSPersistenceAppendUpdate
     else None)"

definition NewYJSEvent :: "room_id \<Rightarrow> YJSEventKind \<Rightarrow> bytes \<Rightarrow> YJSEventOptions \<Rightarrow> YJSEvent" where
  "NewYJSEvent room kind update options =
    \<lparr>ye_Room = room, ye_Kind = kind, ye_Update = update, ye_Sequence = 0,
     ye_OriginNode = yo_OriginNode options, ye_OriginConnID = yo_OriginConnID options\<rparr>"

definition NewYJSEventPlan ::
  "room_id \<Rightarrow> YJSEventKind \<Rightarrow> bytes \<Rightarrow> YJSEventOptions \<Rightarrow> YJSEventPlan option" where
  "NewYJSEventPlan room kind update options =
    (if \<not> validClientYJSEventKind kind then None
     else Some \<lparr>yp_Event = NewYJSEvent room kind update options,
                yp_RequiresPublish = yjsEventRequiresPublish kind,
                yp_Durable = durableYJSEventKind kind\<rparr>)"

definition YJSEventPlan_WithEvent :: "YJSEventPlan \<Rightarrow> YJSEvent \<Rightarrow> YJSEventPlan" where
  "YJSEventPlan_WithEvent plan event = plan\<lparr>yp_Event := event\<rparr>"

definition YJSMutationEffects :: "Engine \<Rightarrow> YJSEventPlan \<Rightarrow> YJSMutationEffects" where
  "YJSMutationEffects e plan =
    \<lparr>yme_Event = yp_Event plan, yme_Fanout = YJSFanout e (yp_Event plan),
     yme_PublishCluster = True, yme_RequiresPublish = yp_RequiresPublish plan,
     yme_Durable = yp_Durable plan\<rparr>"

definition NewClusterYJSEventPlan :: "YJSEvent \<Rightarrow> string \<Rightarrow> ClusterYJSEventPlan" where
  "NewClusterYJSEventPlan event localNode =
    \<lparr>cyp_Event = event, cyp_Deliver = (ye_OriginNode event \<noteq> localNode)\<rparr>"

subsection \<open>Persistence\<close>

definition NewYJSPersistencePlan :: "YJSEvent \<Rightarrow> engine_error + YJSPersistencePlan" where
  "NewYJSPersistencePlan event =
    (case yjsPersistenceMode (ye_Kind event) of
       None \<Rightarrow> Inl ErrYJSPersistenceKind
     | Some mode \<Rightarrow> Inr \<lparr>ypp_Event = event, ypp_Mode = mode\<rparr>)"

definition YJSPersistencePlan_WithSequence :: "YJSPersistencePlan \<Rightarrow> u64 \<Rightarrow> YJSEvent" where
  "YJSPersistencePlan_WithSequence plan sequence = (ypp_Event plan)\<lparr>ye_Sequence := sequence\<rparr>"

definition new_doc :: memoryYJSDocument where
  "new_doc = \<lparr>md_Snapshot = [], md_SnapshotHash = [], md_SnapshotCheckpoint = 0, md_Updates = [],
     md_UpdateSequences = [], md_UpdateKinds = [], md_NextSequence = 0\<rparr>"

definition doc_of :: "Engine \<Rightarrow> room_id \<Rightarrow> memoryYJSDocument" where
  "doc_of e room = (case fmlookup (yjsDocs e) room of None \<Rightarrow> new_doc | Some doc \<Rightarrow> doc)"

definition StoreYJSPersistence :: "Engine \<Rightarrow> YJSPersistencePlan \<Rightarrow> YJSEvent \<times> Engine" where
  "StoreYJSPersistence e plan =
    (let event = ypp_Event plan; room = ye_Room event; doc = doc_of e room
     in if ypp_Mode plan = YJSPersistenceStoreSnapshot then
          (event,
           e\<lparr>yjsDocs := fmupd room
               (doc\<lparr>md_Snapshot := ye_Update event,
                    md_SnapshotHash := YJSSnapshotHash (ye_Update event)\<rparr>) (yjsDocs e)\<rparr>)
        else
          (let n = md_NextSequence doc + 1
           in (event\<lparr>ye_Sequence := n\<rparr>,
               e\<lparr>yjsDocs := fmupd room
                   (doc\<lparr>md_NextSequence := n, md_Updates := md_Updates doc @ [ye_Update event],
                        md_UpdateSequences := md_UpdateSequences doc @ [n],
                        md_UpdateKinds := md_UpdateKinds doc @ [ye_Kind event]\<rparr>) (yjsDocs e)\<rparr>)))"

definition StoreYJSEvent :: "Engine \<Rightarrow> YJSEvent \<Rightarrow> (engine_error + YJSEvent) \<times> Engine" where
  "StoreYJSEvent e event =
    (case NewYJSPersistencePlan event of
       Inl err \<Rightarrow> (Inl err, e)
     | Inr plan \<Rightarrow> (let (stored, e) = StoreYJSPersistence e plan in (Inr stored, e)))"

definition LoadYJSDocument :: "Engine \<Rightarrow> room_id \<Rightarrow> YJSDocument" where
  "LoadYJSDocument e room =
    (case fmlookup (yjsDocs e) room of
       None \<Rightarrow> \<lparr>yd_Snapshot = [], yd_SnapshotHash = [], yd_SnapshotCheckpoint = 0, yd_Updates = [],
                yd_UpdateSequences = [], yd_UpdateKinds = []\<rparr>
     | Some doc \<Rightarrow>
         \<lparr>yd_Snapshot = md_Snapshot doc, yd_SnapshotHash = md_SnapshotHash doc,
          yd_SnapshotCheckpoint = md_SnapshotCheckpoint doc, yd_Updates = md_Updates doc,
          yd_UpdateSequences = md_UpdateSequences doc, yd_UpdateKinds = md_UpdateKinds doc\<rparr>)"

definition NewYJSDocumentFrames :: "YJSDocument \<Rightarrow> YJSFrame list" where
  "NewYJSDocumentFrames document =
    (if yd_Snapshot document \<noteq> []
     then [\<lparr>yf_Kind = YJSEventSnapshot, yf_Update = yd_Snapshot document\<rparr>] else [])
    @ map (\<lambda>(index, update).
        \<lparr>yf_Kind = (if length (yd_UpdateKinds document) = length (yd_Updates document)
                    then yd_UpdateKinds document ! index else YJSEventUpdate),
         yf_Update = update\<rparr>) (enumerate 0 (yd_Updates document))"

end
