(* ===== verification/Go_Json_Syntax.thy ===== *)
theory Go_Json_Syntax
  imports Go_Utf8
begin

text \<open>
  The grammar that Go's \<open>encoding/json\<close> scanner accepts, as a parser into a syntax tree
  that keeps the bytes of every number and string literal, and the printer that writes a
  tree without white space. \<open>json.Valid\<close>, \<open>json.Compact\<close> and the first step of
  \<open>json.Unmarshal\<close> are this parser; the theorems are that parsing what was printed gives
  the tree back, that everything the parser returns can be printed that way, and hence that
  compaction is idempotent.
\<close>

datatype json_syntax =
    SNull
  | SBool bool
  | SNum string
  | SStr string
  | SArr "json_syntax list"
  | SObj "(string \<times> json_syntax) list"

subsection \<open>Bytes\<close>

abbreviation quote_c :: char where "quote_c \<equiv> CHR 0x22"
abbreviation backslash_c :: char where "backslash_c \<equiv> CHR 0x5C"

definition is_space :: "char \<Rightarrow> bool" where
  "is_space c \<longleftrightarrow> c = CHR '' '' \<or> c = CHR 0x09 \<or> c = CHR 0x0A \<or> c = CHR 0x0D"

definition is_digit :: "char \<Rightarrow> bool" where
  "is_digit c \<longleftrightarrow> in_range 0x30 0x39 c"

definition is_hex :: "char \<Rightarrow> bool" where
  "is_hex c \<longleftrightarrow> in_range 0x30 0x39 c \<or> in_range 0x41 0x46 c \<or> in_range 0x61 0x66 c"

definition skip_ws :: "string \<Rightarrow> string" where
  "skip_ws s = dropWhile is_space s"

lemma length_skip_ws: "length (skip_ws s) \<le> length s"
  by (simp add: skip_ws_def length_dropWhile_le)

lemma skip_ws_id [simp]: "\<not> is_space c \<Longrightarrow> skip_ws (c # s) = c # s"
  by (simp add: skip_ws_def)

lemma skip_ws_Nil [simp]: "skip_ws [] = []"
  by (simp add: skip_ws_def)

lemma skip_ws_idem [simp]: "skip_ws (skip_ws s) = skip_ws s"
  by (induction s) (auto simp: skip_ws_def)

subsection \<open>String literals\<close>

definition simple_escape :: "char \<Rightarrow> bool" where
  "simple_escape e \<longleftrightarrow> e \<in> set [quote_c, backslash_c, CHR ''/'', CHR ''b'', CHR ''f'',
     CHR ''n'', CHR ''r'', CHR ''t'']"

text \<open>
  \<open>scan_string\<close> starts after the opening quote and returns the bytes up to the closing
  one, escapes as they stand, and what follows it.
\<close>

fun scan_string :: "string \<Rightarrow> (string \<times> string) option" where
  "scan_string [] = None"
| "scan_string (c # r) =
    (if c = quote_c then Some ([], r)
     else if c = backslash_c then
       (case r of
          [] \<Rightarrow> None
        | e # r1 \<Rightarrow>
            if e = CHR ''u'' then
              (case r1 of
                 h1 # h2 # h3 # h4 # r2 \<Rightarrow>
                   if is_hex h1 \<and> is_hex h2 \<and> is_hex h3 \<and> is_hex h4
                   then map_option (\<lambda>(t, z). (c # e # h1 # h2 # h3 # h4 # t, z)) (scan_string r2)
                   else None
               | _ \<Rightarrow> None)
            else if simple_escape e then map_option (\<lambda>(t, z). (c # e # t, z)) (scan_string r1)
            else None)
     else if byte c < 0x20 then None
     else map_option (\<lambda>(t, z). (c # t, z)) (scan_string r))"

declare scan_string.simps(2) [simp del]

definition raw_string :: "string \<Rightarrow> bool" where
  "raw_string t \<longleftrightarrow> scan_string (t @ [quote_c]) = Some (t, [])"

lemma scan_string_split: "scan_string s = Some (t, r) \<Longrightarrow> s = t @ quote_c # r"
proof (induction s arbitrary: t r rule: scan_string.induct)
  case (2 c s)
  show ?case
    using "2.prems" "2.IH"
    by (auto simp: scan_string.simps(2) split: if_split_asm list.split_asm)
qed simp

lemma scan_string_extend: "scan_string s = Some (t, r) \<Longrightarrow> scan_string (s @ z) = Some (t, r @ z)"
proof (induction s arbitrary: t r rule: scan_string.induct)
  case (2 c s)
  show ?case
    using "2.prems" "2.IH"
    by (auto simp: scan_string.simps(2) split: if_split_asm list.split_asm)
qed simp

lemma scan_string_prefix:
  "scan_string s = Some (t, r) \<Longrightarrow> scan_string (t @ [quote_c]) = Some (t, [])"
proof (induction s arbitrary: t r rule: scan_string.induct)
  case (2 c s)
  show ?case
    using "2.prems" "2.IH"
    by (auto simp: scan_string.simps(2) split: if_split_asm list.split_asm)
qed simp

lemma scan_string_raw: "scan_string s = Some (t, r) \<Longrightarrow> raw_string t"
  unfolding raw_string_def by (rule scan_string_prefix)

lemma raw_string_scan: "raw_string t \<Longrightarrow> scan_string (t @ quote_c # r) = Some (t, r)"
  unfolding raw_string_def by (drule scan_string_extend [where z = r]) simp

lemma scan_string_length: "scan_string s = Some (t, r) \<Longrightarrow> length r < length s"
  by (drule scan_string_split) simp

subsection \<open>Number literals\<close>

definition scan_minus :: "string \<Rightarrow> string \<times> string" where
  "scan_minus s = (case s of c # r \<Rightarrow> if c = CHR ''-'' then ([c], r) else ([], s) | [] \<Rightarrow> ([], []))"

definition scan_int :: "string \<Rightarrow> (string \<times> string) option" where
  "scan_int s = (case s of
      [] \<Rightarrow> None
    | c # r \<Rightarrow> if c = CHR ''0'' then Some ([c], r)
               else if is_digit c then Some (takeWhile is_digit s, dropWhile is_digit s)
               else None)"

definition scan_frac :: "string \<Rightarrow> (string \<times> string) option" where
  "scan_frac s = (case s of
      [] \<Rightarrow> Some ([], [])
    | c # r \<Rightarrow> if c = CHR ''.'' then
                 (if takeWhile is_digit r = [] then None
                  else Some (c # takeWhile is_digit r, dropWhile is_digit r))
               else Some ([], s))"

definition scan_sign :: "string \<Rightarrow> string \<times> string" where
  "scan_sign s = (case s of
      c # r \<Rightarrow> if c = CHR ''+'' \<or> c = CHR ''-'' then ([c], r) else ([], s)
    | [] \<Rightarrow> ([], []))"

definition scan_exp :: "string \<Rightarrow> (string \<times> string) option" where
  "scan_exp s = (case s of
      [] \<Rightarrow> Some ([], [])
    | c # r \<Rightarrow> if c = CHR ''e'' \<or> c = CHR ''E'' then
                 (case scan_sign r of (g, r1) \<Rightarrow>
                    if takeWhile is_digit r1 = [] then None
                    else Some (c # g @ takeWhile is_digit r1, dropWhile is_digit r1))
               else Some ([], s))"

definition scan_number :: "string \<Rightarrow> (string \<times> string) option" where
  "scan_number s =
    (case scan_minus s of (m, r0) \<Rightarrow>
     case scan_int r0 of None \<Rightarrow> None | Some (i, r1) \<Rightarrow>
     case scan_frac r1 of None \<Rightarrow> None | Some (f, r2) \<Rightarrow>
     case scan_exp r2 of None \<Rightarrow> None | Some (x, r3) \<Rightarrow> Some (m @ i @ f @ x, r3))"

definition number_lit :: "string \<Rightarrow> bool" where
  "number_lit t \<longleftrightarrow> scan_number t = Some (t, [])"

text \<open>A number ends where no byte can continue it.\<close>

definition num_stop :: "string \<Rightarrow> bool" where
  "num_stop r \<longleftrightarrow> (case r of [] \<Rightarrow> True | c # _ \<Rightarrow> \<not> is_digit c \<and> c \<notin> set ''.eE'')"

lemma is_digit_bytes [simp]:
  "\<not> is_digit (CHR ''.'')" "\<not> is_digit (CHR ''e'')" "\<not> is_digit (CHR ''E'')"
  "\<not> is_digit (CHR ''-'')" "\<not> is_digit (CHR ''+'')" "is_digit (CHR ''0'')"
  "\<not> is_digit (CHR '','')" "\<not> is_digit (CHR '']'')" "\<not> is_digit (CHR ''}'')"
  by (simp_all add: is_digit_def in_range_def byte_def)

lemma is_digit_not_sign: "is_digit c \<Longrightarrow> c \<noteq> CHR ''+'' \<and> c \<noteq> CHR ''-'' \<and> c \<noteq> CHR ''.''"
  by auto

text \<open>A run of digits, read again before anything that does not start with a digit.\<close>

lemma digits_again [simp]:
  assumes "case z of [] \<Rightarrow> True | c # _ \<Rightarrow> \<not> is_digit c"
  shows "takeWhile is_digit (takeWhile is_digit s @ z) = takeWhile is_digit s"
    and "dropWhile is_digit (takeWhile is_digit s @ z) = z"
  using assms by (induction s) (auto split: list.splits)

lemma digits_hd: "takeWhile is_digit s = d # t \<Longrightarrow> is_digit d"
  by (cases s) (auto split: if_splits)

lemma scan_minus_again:
  "scan_minus s = (m, r) \<Longrightarrow> i \<noteq> [] \<Longrightarrow> hd i \<noteq> CHR ''-'' \<Longrightarrow> scan_minus (m @ i @ z) = (m, i @ z)"
  by (cases i) (auto simp: scan_minus_def split: list.splits if_splits)

lemma scan_int_again:
  assumes "scan_int s = Some (i, r)" "case z of [] \<Rightarrow> True | c # _ \<Rightarrow> \<not> is_digit c"
  shows "scan_int (i @ z) = Some (i, z)" "i \<noteq> []" "hd i \<noteq> CHR ''-''" "s = i @ r"
  using assms by (auto simp: scan_int_def dest: set_takeWhileD split: list.split_asm if_split_asm)

lemma scan_frac_again:
  assumes "scan_frac s = Some (f, r)"
    "case z of [] \<Rightarrow> True | c # _ \<Rightarrow> \<not> is_digit c \<and> c \<noteq> CHR ''.''"
  shows "scan_frac (f @ z) = Some (f, z)" "s = f @ r" "f = [] \<or> (\<exists>t. f = CHR ''.'' # t)"
proof -
  have z: "case z of [] \<Rightarrow> True | c # _ \<Rightarrow> \<not> is_digit c" using assms(2) by (cases z) auto
  show "scan_frac (f @ z) = Some (f, z)" "s = f @ r" "f = [] \<or> (\<exists>t. f = CHR ''.'' # t)"
    using assms z by (auto simp: scan_frac_def dest: set_takeWhileD split: list.split_asm list.split if_split_asm)
qed

lemma scan_sign_again:
  "scan_sign s = (g, r) \<Longrightarrow> t \<noteq> [] \<Longrightarrow> is_digit (hd t) \<Longrightarrow> scan_sign (g @ t @ z) = (g, t @ z) \<and> s = g @ r"
  by (cases t) (auto simp: scan_sign_def split: list.split_asm if_split_asm)

lemma scan_exp_again:
  assumes "scan_exp s = Some (x, r)" "num_stop z"
  shows "scan_exp (x @ z) = Some (x, z)" "s = x @ r"
    "x = [] \<or> (\<exists>t. x = CHR ''e'' # t) \<or> (\<exists>t. x = CHR ''E'' # t)"
proof -
  have z: "case z of [] \<Rightarrow> True | c # _ \<Rightarrow> \<not> is_digit c"
    using assms(2) by (cases z) (auto simp: num_stop_def)
  show "scan_exp (x @ z) = Some (x, z)" "s = x @ r"
    "x = [] \<or> (\<exists>t. x = CHR ''e'' # t) \<or> (\<exists>t. x = CHR ''E'' # t)"
  proof (atomize (full), cases "\<exists>c s1. s = c # s1 \<and> (c = CHR ''e'' \<or> c = CHR ''E'')")
    case True
    then obtain c s1 where s: "s = c # s1" "c = CHR ''e'' \<or> c = CHR ''E''" by blast
    obtain g r1 where g: "scan_sign s1 = (g, r1)" by fastforce
    let ?t = "takeWhile is_digit r1"
    have t: "?t \<noteq> []" "x = c # g @ ?t" "r = dropWhile is_digit r1"
      using assms(1) s g by (auto simp: scan_exp_def split: if_split_asm)
    then have "is_digit (hd ?t)" by (metis digits_hd list.exhaust_sel)
    from scan_sign_again [OF g t(1) this]
    have "scan_sign (g @ ?t @ z) = (g, ?t @ z)" "s1 = g @ r1" by blast+
    with s t z show "scan_exp (x @ z) = Some (x, z) \<and> s = x @ r \<and>
      (x = [] \<or> (\<exists>t. x = CHR ''e'' # t) \<or> (\<exists>t. x = CHR ''E'' # t))"
      by (auto simp: scan_exp_def)
  next
    case False
    with assms show "scan_exp (x @ z) = Some (x, z) \<and> s = x @ r \<and>
      (x = [] \<or> (\<exists>t. x = CHR ''e'' # t) \<or> (\<exists>t. x = CHR ''E'' # t))"
      by (auto simp: scan_exp_def num_stop_def split: list.split_asm list.split if_split_asm)
  qed
qed

lemma scan_number_again:
  assumes "scan_number s = Some (t, r)" "num_stop z"
  shows "scan_number (t @ z) = Some (t, z)" "s = t @ r" "t \<noteq> []"
proof -
  from assms(1) obtain m r0 i r1 f r2 x where
    m: "scan_minus s = (m, r0)" and i: "scan_int r0 = Some (i, r1)" and
    f: "scan_frac r1 = Some (f, r2)" and x: "scan_exp r2 = Some (x, r)" and
    t: "t = m @ i @ f @ x"
    by (auto simp: scan_number_def split: prod.split_asm option.split_asm)
  note X = scan_exp_again [OF x assms(2)]
  have "case x @ z of [] \<Rightarrow> True | c # _ \<Rightarrow> \<not> is_digit c \<and> c \<noteq> CHR ''.''"
    using X(3) assms(2) by (auto simp: num_stop_def split: list.split)
  note F = scan_frac_again [OF f this]
  have "case f @ x @ z of [] \<Rightarrow> True | c # _ \<Rightarrow> \<not> is_digit c"
    using X(3) F(3) assms(2) by (auto simp: num_stop_def split: list.split)
  note I = scan_int_again [OF i this]
  note M = scan_minus_again [OF m I(2,3)]
  show "scan_number (t @ z) = Some (t, z)"
    using M I(1) F(1) X(1) by (simp add: t scan_number_def)
  have "s = m @ r0" using m by (auto simp: scan_minus_def split: list.split_asm if_split_asm)
  then show "s = t @ r" using I(4) F(2) X(2) by (simp add: t)
  show "t \<noteq> []" using I(2) by (simp add: t)
qed

lemma number_lit_scan: "number_lit t \<Longrightarrow> num_stop r \<Longrightarrow> scan_number (t @ r) = Some (t, r)"
  unfolding number_lit_def by (rule scan_number_again(1))

lemma scan_number_lit: "scan_number s = Some (t, r) \<Longrightarrow> number_lit t"
  unfolding number_lit_def
  using scan_number_again(1) [of s t r "[]"] by (simp add: num_stop_def)

subsection \<open>The parser\<close>

lemma skip_ws_Cons_length: "skip_ws r = c # r1 \<Longrightarrow> length r1 < length r"
  using length_skip_ws [of r] by simp

text \<open>
  \<open>d\<close> is the nesting that is still allowed; the scanner starts with
  \<open>maxNestingDepth = 10000\<close>. The length tests are true whenever the call before them
  succeeded (\<open>parse_shrinks\<close>); they are what makes the recursion visibly terminate.
\<close>

function parse_val :: "int \<Rightarrow> string \<Rightarrow> (json_syntax \<times> string) option"
  and parse_elems :: "int \<Rightarrow> string \<Rightarrow> (json_syntax list \<times> string) option"
  and parse_members :: "int \<Rightarrow> string \<Rightarrow> ((string \<times> json_syntax) list \<times> string) option" where
  "parse_val d s = (case s of [] \<Rightarrow> None | c # r \<Rightarrow>
     if c = quote_c then map_option (\<lambda>(t, z). (SStr t, z)) (scan_string r)
     else if c = CHR ''['' then
       (if d \<le> 0 then None
        else case skip_ws r of [] \<Rightarrow> None | c1 # r1 \<Rightarrow>
          if c1 = CHR '']'' then Some (SArr [], r1)
          else map_option (\<lambda>(vs, z). (SArr vs, z)) (parse_elems (d - 1) (c1 # r1)))
     else if c = CHR ''{'' then
       (if d \<le> 0 then None
        else case skip_ws r of [] \<Rightarrow> None | c1 # r1 \<Rightarrow>
          if c1 = CHR ''}'' then Some (SObj [], r1)
          else map_option (\<lambda>(ms, z). (SObj ms, z)) (parse_members (d - 1) (c1 # r1)))
     else if prefix ''null'' s then Some (SNull, drop 4 s)
     else if prefix ''true'' s then Some (SBool True, drop 4 s)
     else if prefix ''false'' s then Some (SBool False, drop 5 s)
     else map_option (\<lambda>(t, z). (SNum t, z)) (scan_number s))"
| "parse_elems d s = (case parse_val d s of None \<Rightarrow> None | Some (v, r) \<Rightarrow>
     if \<not> length r < length s then None
     else case skip_ws r of [] \<Rightarrow> None | c # r1 \<Rightarrow>
       if c = CHR '']'' then Some ([v], r1)
       else if c = CHR '','' then
         map_option (\<lambda>(vs, z). (v # vs, z)) (parse_elems d (skip_ws r1))
       else None)"
| "parse_members d s = (case s of [] \<Rightarrow> None | c # r \<Rightarrow>
     if c \<noteq> quote_c then None
     else case scan_string r of None \<Rightarrow> None | Some (k, r1) \<Rightarrow>
       (case skip_ws r1 of [] \<Rightarrow> None | c2 # r2 \<Rightarrow>
          if c2 \<noteq> CHR '':'' then None
          else case parse_val d (skip_ws r2) of None \<Rightarrow> None | Some (v, r3) \<Rightarrow>
            if \<not> length r3 < length s then None
            else case skip_ws r3 of [] \<Rightarrow> None | c4 # r4 \<Rightarrow>
              if c4 = CHR ''}'' then Some ([(k, v)], r4)
              else if c4 = CHR '','' then
                map_option (\<lambda>(ms, z). ((k, v) # ms, z)) (parse_members d (skip_ws r4))
              else None))"
  by pat_completeness auto

termination
proof (relation "measure (\<lambda>x. case x of
    Inl (d, s) \<Rightarrow> 2 * length s
  | Inr (Inl (d, s)) \<Rightarrow> 2 * length s + 1
  | Inr (Inr (d, s)) \<Rightarrow> 2 * length s + 1)", goal_cases)
  case 1
  then show ?case by simp
next
  case (2 d s c r c1 r1)
  then show ?case using skip_ws_Cons_length [of r c1 r1] by simp
next
  case (3 d s c r c1 r1)
  then show ?case using skip_ws_Cons_length [of r c1 r1] by simp
next
  case (4 d s)
  then show ?case by simp
next
  case (5 d s p v r c r1)
  then show ?case using skip_ws_Cons_length [of r c r1] length_skip_ws [of r1] by simp
next
  case (6 d s c r p k r1 c2 r2)
  then show ?case
    using skip_ws_Cons_length [of r1 c2 r2] length_skip_ws [of r2] scan_string_length [of r k r1]
    by simp
next
  case (7 d s c r p k r1 c2 r2 q v r3 c4 r4)
  then show ?case using skip_ws_Cons_length [of r3 c4 r4] length_skip_ws [of r4] by simp
qed

declare parse_val.simps [simp del] parse_elems.simps [simp del] parse_members.simps [simp del]

subsection \<open>Well-formed trees and the printer\<close>

fun wf_syn :: "int \<Rightarrow> json_syntax \<Rightarrow> bool" where
  "wf_syn d SNull = True"
| "wf_syn d (SBool b) = True"
| "wf_syn d (SNum t) = number_lit t"
| "wf_syn d (SStr t) = raw_string t"
| "wf_syn d (SArr vs) = (0 < d \<and> list_all (\<lambda>v. wf_syn (d - 1) v) vs)"
| "wf_syn d (SObj ms) = (0 < d \<and> list_all (\<lambda>m. raw_string (fst m) \<and> wf_syn (d - 1) (snd m)) ms)"

fun join_comma :: "string list \<Rightarrow> string" where
  "join_comma [] = []"
| "join_comma (x # xs) = (if xs = [] then x else x @ CHR '','' # join_comma xs)"

definition print_member :: "string \<Rightarrow> string \<Rightarrow> string" where
  "print_member k t = quote_c # k @ quote_c # CHR '':'' # t"

fun print_syn :: "json_syntax \<Rightarrow> string" where
  "print_syn SNull = ''null''"
| "print_syn (SBool b) = (if b then ''true'' else ''false'')"
| "print_syn (SNum t) = t"
| "print_syn (SStr t) = quote_c # t @ [quote_c]"
| "print_syn (SArr vs) = CHR ''['' # join_comma (map print_syn vs) @ '']''"
| "print_syn (SObj ms) =
     CHR ''{'' # join_comma (map (\<lambda>m. print_member (fst m) (print_syn (snd m))) ms) @ ''}''"

lemma number_lit_hd:
  assumes "number_lit t"
  shows "\<exists>c u. t = c # u \<and> (is_digit c \<or> c = CHR ''-'')"
  using assms
  by (cases t)
    (auto simp: number_lit_def scan_number_def scan_minus_def scan_int_def
      split: if_split_asm list.split_asm)

lemma digit_bytes:
  assumes "is_digit c \<or> c = CHR ''-''"
  shows "\<not> is_space c" "c \<notin> set [quote_c, CHR ''['', CHR ''{'', CHR '']'', CHR ''}'', CHR ''n'', CHR ''t'', CHR ''f'']"
  using assms by (auto simp: is_digit_def is_space_def in_range_def byte_def)

lemma print_syn_hd:
  assumes "wf_syn d v"
  obtains c u where "print_syn v = c # u" "\<not> is_space c" "c \<noteq> CHR '']''" "c \<noteq> CHR ''}''"
proof (cases v)
  case (SNum t)
  with assms obtain c u where t: "t = c # u" and c: "is_digit c \<or> c = CHR ''-''"
    using number_lit_hd [of t] by auto
  show thesis
    using digit_bytes [OF c] by (intro that [of c u]) (auto simp: SNum t)
next
  case (SBool b)
  then show thesis by (cases b) (use that in \<open>auto simp: is_space_def\<close>)
qed (use that in \<open>auto simp: is_space_def\<close>)

lemma num_stop_punct [simp]:
  "num_stop (CHR '','' # r)" "num_stop (CHR '']'' # r)" "num_stop (CHR ''}'' # r)" "num_stop []"
  by (simp_all add: num_stop_def)

lemma is_space_punct [simp]:
  "\<not> is_space (CHR '','')" "\<not> is_space (CHR '']'')" "\<not> is_space (CHR ''}'')"
  "\<not> is_space (CHR '':'')" "\<not> is_space (CHR ''['')" "\<not> is_space (CHR ''{'')" "\<not> is_space quote_c"
  by (simp_all add: is_space_def)

lemma parse_elems_print:
  assumes "\<And>v r. v \<in> set vs \<Longrightarrow> num_stop r \<Longrightarrow> parse_val d (print_syn v @ r) = Some (v, r)"
    and "\<And>v. v \<in> set vs \<Longrightarrow> wf_syn d v" and "vs \<noteq> []"
  shows "parse_elems d (join_comma (map print_syn vs) @ CHR '']'' # r) = Some (vs, r)"
  using assms
proof (induction vs)
  case (Cons v vs)
  from Cons.prems(2) obtain c u where u: "print_syn v = c # u"
    by (meson list.set_intros(1) print_syn_hd)
  show ?case
  proof (cases "vs = []")
    case True
    then show ?thesis using Cons.prems(1) [of v "CHR '']'' # r"] u
      by (subst parse_elems.simps) simp
  next
    case False
    then obtain w ws where w: "vs = w # ws" by (cases vs) auto
    from w Cons.prems(2) obtain c' u' where u': "print_syn w = c' # u'" "\<not> is_space c'"
      by (meson list.set_intros(1) list.set_intros(2) print_syn_hd)
    have IH: "parse_elems d (join_comma (map print_syn vs) @ CHR '']'' # r) = Some (vs, r)"
      using Cons.IH Cons.prems(1,2) False by auto
    have "skip_ws (join_comma (map print_syn vs) @ CHR '']'' # r)
        = join_comma (map print_syn vs) @ CHR '']'' # r"
      using u' by (simp add: w)
    then show ?thesis
      using Cons.prems(1) [of v "CHR '','' # join_comma (map print_syn vs) @ CHR '']'' # r"] u False IH
      by (subst parse_elems.simps) simp
  qed
qed simp

abbreviation print_mem :: "string \<times> json_syntax \<Rightarrow> string" where
  "print_mem m \<equiv> print_member (fst m) (print_syn (snd m))"

lemma parse_members_print:
  assumes "\<And>m r. m \<in> set ms \<Longrightarrow> num_stop r \<Longrightarrow> parse_val d (print_syn (snd m) @ r) = Some (snd m, r)"
    and "\<And>m. m \<in> set ms \<Longrightarrow> raw_string (fst m) \<and> wf_syn d (snd m)" and "ms \<noteq> []"
  shows "parse_members d (join_comma (map print_mem ms) @ CHR ''}'' # r) = Some (ms, r)"
  using assms
proof (induction ms)
  case (Cons m ms)
  obtain k v where m: "m = (k, v)" by fastforce
  have k: "raw_string k" and v: "wf_syn d v" using Cons.prems(2) [of m] m by auto
  from v obtain c u where u: "print_syn v = c # u" "\<not> is_space c" by (rule print_syn_hd)
  show ?case
  proof (cases "ms = []")
    case True
    then show ?thesis
      using Cons.prems(1) [of m "CHR ''}'' # r"] u m raw_string_scan [OF k]
      by (subst parse_members.simps) (simp add: print_member_def)
  next
    case False
    then obtain n ns where n: "ms = n # ns" by (cases ms) auto
    have IH: "parse_members d (join_comma (map print_mem ms) @ CHR ''}'' # r) = Some (ms, r)"
      using Cons.IH Cons.prems(1,2) False by auto
    have "skip_ws (join_comma (map print_mem ms) @ CHR ''}'' # r)
        = join_comma (map print_mem ms) @ CHR ''}'' # r"
      by (simp add: n print_member_def)
    then show ?thesis
      using Cons.prems(1) [of m "CHR '','' # join_comma (map print_mem ms) @ CHR ''}'' # r"]
        u m False IH raw_string_scan [OF k]
      by (subst parse_members.simps) (simp add: print_member_def)
  qed
qed simp

lemma parse_number:
  assumes "number_lit t" "num_stop r"
  shows "parse_val d (t @ r) = Some (SNum t, r)"
proof -
  obtain c u where t: "t = c # u" and c: "is_digit c \<or> c = CHR ''-''"
    using number_lit_hd [OF assms(1)] by blast
  from digit_bytes(2) [OF c] show ?thesis
    using number_lit_scan [OF assms] by (subst parse_val.simps) (auto simp: t)
qed

lemma parse_print: "wf_syn d v \<Longrightarrow> num_stop r \<Longrightarrow> parse_val d (print_syn v @ r) = Some (v, r)"
proof (induction d v arbitrary: r rule: wf_syn.induct)
  case (5 d vs)
  show ?case
  proof (cases vs)
    case Nil
    with 5 show ?thesis by (subst parse_val.simps) simp
  next
    case (Cons v vs')
    then obtain c u where u: "print_syn v = c # u" "\<not> is_space c" "c \<noteq> CHR '']''"
      using "5.prems" by (auto elim: print_syn_hd)
    have "parse_elems (d - 1) (join_comma (map print_syn vs) @ CHR '']'' # r) = Some (vs, r)"
      using 5 Cons by (intro parse_elems_print) (auto simp: list_all_iff)
    then show ?thesis using u "5.prems"
      by (cases "vs' = []") (simp_all add: Cons parse_val.simps [of d "CHR ''['' # _"])
  qed
next
  case (6 d ms)
  show ?case
  proof (cases ms)
    case Nil
    with 6 show ?thesis by (subst parse_val.simps) simp
  next
    case (Cons m ms')
    have "parse_members (d - 1) (join_comma (map print_mem ms) @ CHR ''}'' # r) = Some (ms, r)"
      using 6 Cons by (intro parse_members_print) (auto simp: list_all_iff)
    then show ?thesis using "6.prems"
      by (cases "ms' = []")
        (simp_all add: Cons print_member_def parse_val.simps [of d "CHR ''{'' # _"])
  qed
next
  case (4 d t)
  then show ?case by (subst parse_val.simps) (simp add: raw_string_scan)
next
  case (3 d t)
  then show ?case by (simp add: parse_number)
qed (auto simp: parse_val.simps)

text \<open>What the parser returns is well-formed, and every success consumes input.\<close>

lemma parse_val_scalar:
  assumes "c \<noteq> quote_c" "c \<noteq> CHR ''[''" "c \<noteq> CHR ''{''" "parse_val d (c # z) = Some (v, r)"
  obtains (lit) n where "v \<in> {SNull, SBool True, SBool False}" "r = drop (Suc n) (c # z)"
  | (num) t where "v = SNum t" "scan_number (c # z) = Some (t, r)"
proof -
  let ?s = "c # z"
  have eq: "(if prefix ''null'' ?s then Some (SNull, drop 4 ?s)
     else if prefix ''true'' ?s then Some (SBool True, drop 4 ?s)
     else if prefix ''false'' ?s then Some (SBool False, drop 5 ?s)
     else map_option (\<lambda>(t, z). (SNum t, z)) (scan_number ?s)) = Some (v, r)"
    using assms by (subst (asm) parse_val.simps) (simp only: list.case if_False)
  consider "prefix ''null'' ?s" | "prefix ''true'' ?s" | "prefix ''false'' ?s"
    | "\<not> prefix ''null'' ?s" "\<not> prefix ''true'' ?s" "\<not> prefix ''false'' ?s" by blast
  then show thesis
  proof cases
    case 4
    with eq have "map_option (\<lambda>(t, z). (SNum t, z)) (scan_number ?s) = Some (v, r)"
      by (simp only: if_False)
    then show thesis by (auto intro: num)
  qed (use eq lit [of 3] lit [of 4] in \<open>auto split: if_split_asm\<close>)
qed

lemma parse_wf:
  shows "parse_val d s = Some (v, r) \<Longrightarrow> wf_syn d v \<and> length r < length s"
    and "parse_elems d s = Some (vs, r) \<Longrightarrow> list_all (wf_syn d) vs \<and> length r < length s"
    and "parse_members d s = Some (ms, r) \<Longrightarrow>
      list_all (\<lambda>m. raw_string (fst m) \<and> wf_syn d (snd m)) ms \<and> length r < length s"
proof (induction d s and d s and d s arbitrary: v r and vs r and ms r
    rule: parse_val_parse_elems_parse_members.induct)
  case (1 d s)
  from "1.prems" obtain c z where s: "s = c # z"
    by (cases s) (simp_all add: parse_val.simps)
  consider (str) "c = quote_c" | (arr) "c = CHR ''[''" | (obj) "c = CHR ''{''"
    | (other) "c \<noteq> quote_c" "c \<noteq> CHR ''[''" "c \<noteq> CHR ''{''" by blast
  then show ?case
  proof cases
    case str
    then show ?thesis using "1.prems" s scan_string_raw scan_string_length
      by (subst (asm) parse_val.simps) fastforce
  next
    case arr
    with "1.prems" s obtain c1 r1 where d: "\<not> d \<le> 0" and r1: "skip_ws z = c1 # r1"
      by (subst (asm) parse_val.simps) (auto split: if_split_asm list.split_asm)
    note l = length_skip_ws [of z, unfolded r1]
    show ?thesis
    proof (cases "c1 = CHR '']''")
      case True
      then show ?thesis using "1.prems" s arr d r1 l by (subst (asm) parse_val.simps) auto
    next
      case False
      with "1.prems" s arr d r1 obtain vs where
        vs: "parse_elems (d - 1) (c1 # r1) = Some (vs, r)" "v = SArr vs"
        by (subst (asm) parse_val.simps) auto
      then have "list_all (wf_syn (d - 1)) vs \<and> length r < length (c1 # r1)"
        using "1.IH"(1) s arr d r1 False by auto
      then show ?thesis using vs d l s by simp
    qed
  next
    case obj
    with "1.prems" s obtain c1 r1 where d: "\<not> d \<le> 0" and r1: "skip_ws z = c1 # r1"
      by (subst (asm) parse_val.simps) (auto split: if_split_asm list.split_asm)
    note l = length_skip_ws [of z, unfolded r1]
    show ?thesis
    proof (cases "c1 = CHR ''}''")
      case True
      then show ?thesis using "1.prems" s obj d r1 l by (subst (asm) parse_val.simps) auto
    next
      case False
      with "1.prems" s obj d r1 obtain ms where
        ms: "parse_members (d - 1) (c1 # r1) = Some (ms, r)" "v = SObj ms"
        by (subst (asm) parse_val.simps) auto
      then have "list_all (\<lambda>m. raw_string (fst m) \<and> wf_syn (d - 1) (snd m)) ms
          \<and> length r < length (c1 # r1)"
        using "1.IH"(2) s obj d r1 False by auto
      then show ?thesis using ms d l s by simp
    qed
  next
    case other
    from other "1.prems" [unfolded s] show ?thesis
    proof (cases rule: parse_val_scalar)
      case (lit n)
      then show ?thesis using s by auto
    next
      case (num t)
      then show ?thesis
        using scan_number_again(2,3) [of s t r "[]"] scan_number_lit [of s t r] s by auto
    qed
  qed
next
  case (2 d s)
  from "2.prems" obtain v0 r0 c r1 where v: "parse_val d s = Some (v0, r0)"
    and l: "length r0 < length s" and c: "skip_ws r0 = c # r1"
    by (subst (asm) parse_elems.simps) (auto split: option.split_asm if_split_asm list.split_asm)
  have wf: "wf_syn d v0" using "2.IH"(1) [OF v] by simp
  have l1: "length r1 < length r0" using skip_ws_Cons_length [OF c] .
  show ?case
  proof (cases "c = CHR '']''")
    case True
    then show ?thesis using "2.prems" v l c wf l1 by (subst (asm) parse_elems.simps) auto
  next
    case False
    with "2.prems" v l c obtain vs' where
      vs': "parse_elems d (skip_ws r1) = Some (vs', r)" "vs = v0 # vs'" "c = CHR '',''"
      by (subst (asm) parse_elems.simps) (auto split: if_split_asm)
    have "list_all (wf_syn d) vs' \<and> length r < length (skip_ws r1)"
      using "2.IH"(2) [OF v refl _ c False vs'(3) vs'(1)] l by simp
    then show ?thesis using wf vs' l l1 length_skip_ws [of r1] by simp
  qed
next
  case (3 d s)
  note p = "3.prems" [unfolded parse_members.simps [of d s]]
  obtain c z where s: "s = c # z" using p by (cases s) auto
  have cq: "c = quote_c" using p s by (simp split: if_split_asm)
  obtain k r1 where k: "scan_string z = Some (k, r1)" using p s cq by (cases "scan_string z") auto
  obtain c2 r2 where r2: "skip_ws r1 = c2 # r2" using p s cq k by (cases "skip_ws r1") auto
  have c2: "c2 = CHR '':''" using p s cq k r2 by (simp split: if_split_asm)
  obtain v0 r3 where v: "parse_val d (skip_ws r2) = Some (v0, r3)"
    using p s cq k r2 c2 by (cases "parse_val d (skip_ws r2)") auto
  have l: "length r3 < length s" using p s cq k r2 c2 v by (simp split: if_split_asm)
  obtain c4 r4 where c: "skip_ws r3 = c4 # r4"
    using p s cq k r2 c2 v l by (cases "skip_ws r3") auto
  have wf: "wf_syn d v0 \<and> raw_string k" using "3.IH"(1) s cq k r2 c2 v scan_string_raw [OF k] by simp
  have l1: "length r4 < length r3" using skip_ws_Cons_length [OF c] .
  show ?case
  proof (cases "c4 = CHR ''}''")
    case True
    then show ?thesis using p s cq k r2 c2 v l c wf l1 by auto
  next
    case False
    with p s cq k r2 c2 v l c obtain ms' where
      ms': "parse_members d (skip_ws r4) = Some (ms', r)" "ms = (k, v0) # ms'" "c4 = CHR '',''"
      by (auto split: if_split_asm)
    have "list_all (\<lambda>m. raw_string (fst m) \<and> wf_syn d (snd m)) ms' \<and> length r < length (skip_ws r4)"
      using "3.IH"(2) s cq k r2 c2 v c l False ms' by simp
    then show ?thesis using wf ms' l l1 length_skip_ws [of r4] by simp
  qed
qed

subsection \<open>Whole inputs: validity and compaction\<close>

definition max_nesting :: int where
  "max_nesting = 10000"

definition parse_json :: "string \<Rightarrow> json_syntax option" where
  "parse_json s = (case parse_val max_nesting (skip_ws s) of
     None \<Rightarrow> None | Some (v, r) \<Rightarrow> if skip_ws r = [] then Some v else None)"

text \<open>\<open>json.Valid\<close> and \<open>json.Compact\<close>.\<close>

definition json_valid :: "string \<Rightarrow> bool" where
  "json_valid s \<longleftrightarrow> parse_json s \<noteq> None"

definition json_compact :: "string \<Rightarrow> string option" where
  "json_compact s = map_option print_syn (parse_json s)"

lemma parse_json_wf: "parse_json s = Some v \<Longrightarrow> wf_syn max_nesting v"
  by (auto simp: parse_json_def dest: parse_wf(1) split: option.split_asm if_split_asm)

lemma parse_json_print: "wf_syn max_nesting v \<Longrightarrow> parse_json (print_syn v) = Some v"
proof -
  assume wf: "wf_syn max_nesting v"
  then obtain c u where "print_syn v = c # u" "\<not> is_space c" by (rule print_syn_hd)
  then have "skip_ws (print_syn v) = print_syn v" by simp
  with parse_print [OF wf, of "[]"] show "parse_json (print_syn v) = Some v"
    by (simp add: parse_json_def)
qed

lemma json_compact_idem: "json_compact s = Some t \<Longrightarrow> json_compact t = Some t"
  by (auto simp: json_compact_def parse_json_print dest!: parse_json_wf)

lemma json_compact_valid: "json_compact s = Some t \<Longrightarrow> json_valid t"
  by (auto simp: json_compact_def json_valid_def parse_json_print dest!: parse_json_wf)

lemma print_syn_nonempty: "wf_syn d v \<Longrightarrow> print_syn v \<noteq> []"
  by (auto elim: print_syn_hd)

lemma json_compact_nonempty: "json_compact s = Some t \<Longrightarrow> t \<noteq> []"
  by (auto simp: json_compact_def dest!: parse_json_wf print_syn_nonempty)

end
