(* ===== verification/Go_Json.thy ===== *)
theory Go_Json
  imports Go_Json_Syntax
begin

text \<open>
  Values of Go's \<open>encoding/json\<close>: what \<open>Decode\<close> into an \<open>any\<close> builds with
  \<open>UseNumber\<close> (numbers keep their text), and what \<open>json.Marshal\<close> writes (map keys in
  byte order, HTML-sensitive bytes escaped). A decoded \<open>map[string]any\<close> is the list of
  its members in increasing key order, the order \<open>Marshal\<close> writes them in, so that
  \<open>reflect.DeepEqual\<close> of two decoded values is equality. The main theorem is
  \<open>decode_marshal\<close>: decoding what was marshalled gives the value back.
\<close>

subsection \<open>Unquoting a string literal\<close>

definition hex_val :: "char \<Rightarrow> nat" where
  "hex_val c =
    (if in_range 0x30 0x39 c then byte c - 0x30
     else if in_range 0x41 0x46 c then byte c - 0x41 + 10
     else byte c - 0x61 + 10)"

fun hex_num :: "string \<Rightarrow> nat" where
  "hex_num s = foldl (\<lambda>n c. 16 * n + hex_val c) 0 s"

definition escape_value :: "char \<Rightarrow> char" where
  "escape_value e =
    (if e = CHR ''b'' then CHR 0x08 else if e = CHR ''f'' then CHR 0x0C
     else if e = CHR ''n'' then CHR 0x0A else if e = CHR ''r'' then CHR 0x0D
     else if e = CHR ''t'' then CHR 0x09 else e)"

text \<open>
  A high surrogate followed by an escaped low surrogate is one rune; any other surrogate
  half becomes U+FFFD.
\<close>

definition low_half :: "string \<Rightarrow> nat option" where
  "low_half s =
    (case s of
       b # u # h1 # h2 # h3 # h4 # r \<Rightarrow>
         if b = backslash_c \<and> u = CHR ''u'' \<and> list_all is_hex [h1, h2, h3, h4]
            \<and> 0xDC00 \<le> hex_num [h1, h2, h3, h4] \<and> hex_num [h1, h2, h3, h4] < 0xE000
         then Some (hex_num [h1, h2, h3, h4]) else None
     | _ \<Rightarrow> None)"

fun unquote :: "string \<Rightarrow> string" where
  "unquote [] = []"
| "unquote (c # r) =
    (if c = backslash_c then
       (case r of
          [] \<Rightarrow> []
        | e # r1 \<Rightarrow>
            if e = CHR ''u'' then
              (let n = hex_num (take 4 r1); r2 = drop 4 r1 in
               if surrogate n then
                 (case low_half r2 of
                    Some m \<Rightarrow>
                      if n < 0xDC00
                      then utf8_encode ((n - 0xD800) * 0x400 + (m - 0xDC00) + 0x10000)
                             @ unquote (drop 6 r2)
                      else replacement @ unquote r2
                  | None \<Rightarrow> replacement @ unquote r2)
               else utf8_encode n @ unquote r2)
            else escape_value e # unquote r1)
     else if byte c < 0x80 then c # unquote r
     else (let n = rune_len (c # r) in
           if n = 0 then replacement @ unquote r
           else take n (c # r) @ unquote (drop (n - 1) r)))"

declare unquote.simps(2) [simp del]

subsection \<open>Quoting a string\<close>

definition hex_digit :: "nat \<Rightarrow> char" where
  "hex_digit n = (if n < 10 then chr (0x30 + n) else chr (0x61 + n - 10))"

definition escape_ascii :: "char \<Rightarrow> string" where
  "escape_ascii c =
    (if c = quote_c \<or> c = backslash_c then [backslash_c, c]
     else if c = CHR 0x08 then [backslash_c, CHR ''b'']
     else if c = CHR 0x0C then [backslash_c, CHR ''f'']
     else if c = CHR 0x0A then [backslash_c, CHR ''n'']
     else if c = CHR 0x0D then [backslash_c, CHR ''r'']
     else if c = CHR 0x09 then [backslash_c, CHR ''t'']
     else if byte c < 0x20 \<or> c = CHR ''<'' \<or> c = CHR ''>'' \<or> c = CHR ''&''
       then backslash_c # ''u00'' @ [hex_digit (byte c div 16), hex_digit (byte c mod 16)]
     else [c])"

definition line_sep :: "string \<Rightarrow> bool" where
  "line_sep s \<longleftrightarrow> take 3 s = [chr 0xE2, chr 0x80, chr 0xA8] \<or> take 3 s = [chr 0xE2, chr 0x80, chr 0xA9]"

fun quote_body :: "string \<Rightarrow> string" where
  "quote_body [] = []"
| "quote_body (c # r) =
    (if byte c < 0x80 then escape_ascii c @ quote_body r
     else (let n = rune_len (c # r) in
           if n = 0 then backslash_c # ''ufffd'' @ quote_body r
           else if line_sep (c # r)
             then backslash_c # ''u202'' @ [hex_digit (byte (r ! 1) mod 16)] @ quote_body (drop 2 r)
           else take n (c # r) @ quote_body (drop (n - 1) r)))"

declare quote_body.simps(2) [simp del]

subsection \<open>Quoting and unquoting are inverse\<close>

lemma hex_digit_props:
  assumes "n < 16"
  shows "hex_val (hex_digit n) = n" "is_hex (hex_digit n)"
  using assms by (auto simp: hex_val_def hex_digit_def is_hex_def in_range_def)

lemma is_hex_digits [simp]: "is_hex (CHR ''0'')" "is_hex (CHR ''2'')"
  "is_hex (CHR ''f'')" "is_hex (CHR ''d'')"
  by (simp_all add: is_hex_def in_range_def byte_def)

lemma hex_val_digits [simp]: "hex_val (CHR ''0'') = 0" "hex_val (CHR ''2'') = 2"
  "hex_val (CHR ''f'') = 15" "hex_val (CHR ''d'') = 13"
  by (simp_all add: hex_val_def in_range_def byte_def)

lemma utf8_encode_ascii: "byte c < 0x80 \<Longrightarrow> utf8_encode (byte c) = [c]"
  by (simp add: utf8_encode_def)

lemma byte_backslash [simp]: "byte backslash_c = 0x5C" and byte_quote [simp]: "byte quote_c = 0x22"
  by (simp_all add: byte_def)

text \<open>The two shapes of an escaped ASCII byte, besides the byte itself.\<close>

lemma escape_ascii_cases:
  assumes "byte c < 0x80"
  obtains (short) e where "escape_ascii c = [backslash_c, e]" "simple_escape e" "e \<noteq> CHR ''u''"
      "escape_value e = c"
  | (long) h l where "escape_ascii c = backslash_c # ''u00'' @ [h, l]" "is_hex h" "is_hex l"
      "hex_num [CHR ''0'', CHR ''0'', h, l] = byte c"
  | (plain) "escape_ascii c = [c]" "c \<noteq> quote_c" "c \<noteq> backslash_c" "\<not> byte c < 0x20"
      "c \<noteq> CHR ''<''" "c \<noteq> CHR ''>''" "c \<noteq> CHR ''&''"
proof -
  consider (s) "c \<in> set [quote_c, backslash_c, CHR 0x08, CHR 0x0C, CHR 0x0A, CHR 0x0D, CHR 0x09]"
    | (l) "c \<notin> set [quote_c, backslash_c, CHR 0x08, CHR 0x0C, CHR 0x0A, CHR 0x0D, CHR 0x09]"
        "byte c < 0x20 \<or> c = CHR ''<'' \<or> c = CHR ''>'' \<or> c = CHR ''&''"
    | (p) "c \<notin> set [quote_c, backslash_c, CHR 0x08, CHR 0x0C, CHR 0x0A, CHR 0x0D, CHR 0x09]"
        "\<not> (byte c < 0x20 \<or> c = CHR ''<'' \<or> c = CHR ''>'' \<or> c = CHR ''&'')"
    by blast
  then show thesis
  proof cases
    case s
    then show thesis
      using short by (auto simp: escape_ascii_def simple_escape_def escape_value_def)
  next
    case l
    have d: "byte c div 16 < 16" "byte c mod 16 < 16" using assms by auto
    have "escape_ascii c
        = backslash_c # ''u00'' @ [hex_digit (byte c div 16), hex_digit (byte c mod 16)]"
      using l by (simp add: escape_ascii_def)
    then show thesis
      by (rule long) (simp_all add: d hex_digit_props)
  next
    case p
    then show thesis using plain by (simp add: escape_ascii_def)
  qed
qed

lemma take_drop_4: "take 4 (a # b # c # d # r) = [a, b, c, d]" "drop 4 (a # b # c # d # r) = r"
  by simp_all

lemma unquote_escape:
  assumes c: "byte c < 0x80"
  shows "unquote (escape_ascii c @ x) = c # unquote x"
  using c
proof (cases rule: escape_ascii_cases)
  case (long h l)
  moreover have "\<not> surrogate (byte c)" using c by (simp add: surrogate_def)
  ultimately show ?thesis
    using c by (simp del: hex_num.simps add: unquote.simps(2) Let_def utf8_encode_ascii)
qed (use c in \<open>simp_all add: unquote.simps(2)\<close>)

lemma scan_escape:
  "byte c < 0x80 \<Longrightarrow> scan_string (escape_ascii c @ x)
     = map_option (\<lambda>(t, z). (escape_ascii c @ t, z)) (scan_string x)"
  by (erule escape_ascii_cases) (simp_all add: scan_string.simps(2))

lemma cont_high: "cont c \<Longrightarrow> 0x80 \<le> byte c"
  by (simp add: in_range_def)

lemma scan_high:
  "0x80 \<le> byte c \<Longrightarrow> scan_string (c # x) = map_option (\<lambda>(t, z). (c # t, z)) (scan_string x)"
  by (auto simp: scan_string.simps(2))

lemma scan_rune:
  assumes "0 < rune_len s" "0x80 \<le> byte (hd s)"
  shows "scan_string (take (rune_len s) s @ x)
    = map_option (\<lambda>(t, z). (take (rune_len s) s @ t, z)) (scan_string x)"
  using assms(1)
  by (cases rule: rune_len_pos_cases)
    (use assms(2) in \<open>auto simp: scan_high cont_high option.map_comp comp_def split_def\<close>)

lemma unquote_rune:
  assumes "0 < rune_len s" "0x80 \<le> byte (hd s)"
  shows "unquote (take (rune_len s) s @ x) = take (rune_len s) s @ unquote x"
proof -
  obtain c r where s: "s = c # r" using assms(1) by (cases s) auto
  obtain m where m: "rune_len s = Suc m" using assms(1) gr0_implies_Suc by blast
  have le: "m \<le> length r" using rune_len_le [of s] m by (simp add: s)
  have "rune_len (take (rune_len s) s @ x) = rune_len s"
    by (rule rune_len_take_append) (simp_all add: assms(1))
  then have "rune_len (c # take m r @ x) = Suc m" by (simp add: s m [unfolded s])
  moreover have "c \<noteq> backslash_c" "\<not> byte c < 0x80" using assms(2) by (auto simp: s)
  ultimately show ?thesis
    using le m by (simp add: unquote.simps(2) s Let_def)
qed

lemma quote_body_high:
  assumes "\<not> byte c < 0x80"
  obtains (bad) "rune_len (c # r) = 0" "quote_body (c # r) = backslash_c # ''ufffd'' @ quote_body r"
  | (sep) k where "rune_len (c # r) = 3" "k = 8 \<or> k = 9" "take 3 (c # r) = [chr 0xE2, chr 0x80, chr (0xA0 + k)]"
      "quote_body (c # r) = backslash_c # ''u202'' @ [hex_digit k] @ quote_body (drop 2 r)"
  | (rune) "0 < rune_len (c # r)" "\<not> line_sep (c # r)" "quote_body (c # r)
      = take (rune_len (c # r)) (c # r) @ quote_body (drop (rune_len (c # r) - 1) r)"
proof -
  consider "rune_len (c # r) = 0" | "rune_len (c # r) \<noteq> 0" "line_sep (c # r)"
    | "rune_len (c # r) \<noteq> 0" "\<not> line_sep (c # r)" by blast
  then show thesis
  proof cases
    case 1
    with assms show thesis by (intro bad) (simp_all add: quote_body.simps(2))
  next
    case 2
    then obtain k where k: "k = 8 \<or> k = 9" "take 3 (c # r) = [chr 0xE2, chr 0x80, chr (0xA0 + k)]"
      unfolding line_sep_def by force
    have "c # r = [chr 0xE2, chr 0x80, chr (0xA0 + k)] @ drop 3 (c # r)"
      using append_take_drop_id [of 3 "c # r"] unfolding k(2) by simp
    then obtain r' where r: "c = chr 0xE2" "r = chr 0x80 # chr (0xA0 + k) # r'"
      by simp metis
    have "rune_len (c # r) = 3"
      using k(1) by (auto simp: r rune_len.simps(2) second_ok_def in_range_def)
    with 2 k r show thesis
      using sep [of k] by (auto simp: quote_body.simps(2) Let_def)
  next
    case 3
    with assms show thesis by (intro rune) (simp_all add: quote_body.simps(2) Let_def)
  qed
qed

lemma hex_digit_sep: "k = 8 \<or> k = 9 \<Longrightarrow> hex_num [CHR ''2'', CHR ''0'', CHR ''2'', hex_digit k] = 0x2020 + k"
  by (elim disjE) (simp_all add: hex_digit_props(1))

theorem unquote_quote: "unquote (quote_body s) = to_valid s"
proof (induction s rule: quote_body.induct)
  case (2 c r)
  show ?case
  proof (cases "byte c < 0x80")
    case True
    then show ?thesis using "2.IH"(1)
      by (simp add: quote_body.simps(2) unquote_escape to_valid.simps(2) rune_len_ascii)
  next
    case False
    from False show ?thesis
    proof (cases rule: quote_body_high [where r = r])
      case bad
      have "hex_num ''fffd'' = 0xFFFD" by simp
      then have "unquote (backslash_c # ''ufffd'' @ x) = replacement @ unquote x" for x
        by (simp del: hex_num.simps
            add: unquote.simps(2) Let_def surrogate_def utf8_encode_def replacement_def)
      then show ?thesis using bad "2.IH"(2) [OF False] by (simp add: to_valid.simps(2))
    next
      case (sep k)
      have "unquote (backslash_c # ''u202'' @ [hex_digit k] @ x)
          = [chr 0xE2, chr 0x80, chr (0xA0 + k)] @ unquote x" for x
        using sep(2) hex_digit_sep [of k]
        by (auto simp del: hex_num.simps
            simp: unquote.simps(2) Let_def surrogate_def utf8_encode_def)
      moreover have "line_sep (c # r)" using sep(2,3) unfolding line_sep_def by auto
      ultimately show ?thesis
        using sep "2.IH"(3) [OF False refl] by (simp add: to_valid.simps(2) Let_def)
    next
      case rune
      have "0x80 \<le> byte (hd (c # r))" using False by simp
      from unquote_rune [OF rune(1) this] show ?thesis
        using rune "2.IH"(4) [OF False refl _ rune(2)] by (simp add: to_valid.simps(2) Let_def)
    qed
  qed
qed simp

lemma scan_quote: "scan_string (quote_body s @ quote_c # x) = Some (quote_body s, x)"
proof (induction s rule: quote_body.induct)
  case 1
  then show ?case by (simp add: scan_string.simps(2))
next
  case (2 c r)
  show ?case
  proof (cases "byte c < 0x80")
    case True
    then show ?thesis using "2.IH"(1) by (simp add: quote_body.simps(2) scan_escape)
  next
    case False
    from False show ?thesis
    proof (cases rule: quote_body_high [where r = r])
      case bad
      then show ?thesis using "2.IH"(2) [OF False] by (simp add: scan_string.simps(2))
    next
      case (sep k)
      have "is_hex (hex_digit k)" using sep(2) by (auto simp: hex_digit_props)
      moreover have "line_sep (c # r)" using sep(2,3) unfolding line_sep_def by auto
      ultimately show ?thesis
        using sep "2.IH"(3) [OF False refl] by (simp add: scan_string.simps(2))
    next
      case rune
      have "0x80 \<le> byte (hd (c # r))" using False by simp
      from scan_rune [OF rune(1) this] show ?thesis
        using rune "2.IH"(4) [OF False refl _ rune(2)] by simp
    qed
  qed
qed

lemma raw_quote: "raw_string (quote_body s)"
  unfolding raw_string_def by (rule scan_quote)

lemma hex_val_less: "is_hex c \<Longrightarrow> hex_val c < 16"
  by (auto simp: is_hex_def hex_val_def in_range_def)

lemma hex_num_4: "is_hex a \<Longrightarrow> is_hex b \<Longrightarrow> is_hex c \<Longrightarrow> is_hex d \<Longrightarrow> hex_num [a, b, c, d] < 0x10000"
  using hex_val_less [of a] hex_val_less [of b] hex_val_less [of c] hex_val_less [of d] by simp

lemma low_half_bounds: "low_half s = Some m \<Longrightarrow> 0xDC00 \<le> m \<and> m < 0xE000"
  by (auto simp: low_half_def split: list.split_asm if_split_asm)

text \<open>Unquoting a scanned literal always gives valid UTF-8.\<close>

lemma raw_string_Cons:
  assumes "raw_string (c # r)"
  obtains (u) h1 h2 h3 h4 r2 where "c = backslash_c" "r = CHR ''u'' # h1 # h2 # h3 # h4 # r2"
      "list_all is_hex [h1, h2, h3, h4]" "raw_string r2"
  | (esc) e r1 where "c = backslash_c" "r = e # r1" "e \<noteq> CHR ''u''" "simple_escape e" "raw_string r1"
  | (plain) "c \<noteq> backslash_c" "c \<noteq> quote_c" "raw_string r"
proof (cases "c = backslash_c")
  case False
  with assms show thesis
    by (intro plain) (auto simp: raw_string_def scan_string.simps(2) split: if_split_asm)
next
  case True
  from assms obtain e r1 where r: "r @ [quote_c] = e # r1"
    and e: "e = CHR ''u'' \<or> simple_escape e"
    by (auto simp: raw_string_def scan_string.simps(2) True split: list.split_asm if_split_asm)
  show thesis
  proof (cases "e = CHR ''u''")
    case False
    with e have "simple_escape e" by simp
    with False assms r True obtain r1' where "r = e # r1'" "raw_string r1'"
      by (cases r) (auto simp: raw_string_def scan_string.simps(2))
    then show thesis using esc True False e by blast
  next
    case u1: True
    with assms r True obtain h1 h2 h3 h4 r2 t where
      h: "r1 = h1 # h2 # h3 # h4 # r2" "list_all is_hex [h1, h2, h3, h4]"
      "scan_string r2 = Some (t, [])" "r = CHR ''u'' # h1 # h2 # h3 # h4 # t"
      by (auto simp: raw_string_def scan_string.simps(2) split: list.split_asm if_split_asm)
    then have "r2 = t @ [quote_c]" using r by simp
    with h True show thesis by (intro u) (simp_all add: raw_string_def)
  qed
qed

lemma raw_string_drop_low:
  assumes "low_half s = Some m" "raw_string s"
  shows "raw_string (drop 6 s)"
proof -
  obtain h1 h2 h3 h4 r where s: "s = backslash_c # CHR ''u'' # h1 # h2 # h3 # h4 # r"
    using assms(1) by (auto simp: low_half_def split: list.split_asm if_split_asm)
  from assms(2) [unfolded s] show ?thesis
    by (cases rule: raw_string_Cons) (simp_all add: s)
qed

lemma raw_string_drop:
  "m \<le> length s \<Longrightarrow> list_all (\<lambda>c. c \<noteq> backslash_c) (take m s) \<Longrightarrow> raw_string s \<Longrightarrow> raw_string (drop m s)"
proof (induction m arbitrary: s)
  case (Suc m)
  then obtain c r where s: "s = c # r" by (cases s) auto
  from Suc.prems(3) [unfolded s] show ?case
    by (cases rule: raw_string_Cons) (use Suc s in auto)
qed simp

lemma rune_no_backslash:
  assumes "0x80 \<le> byte c"
  shows "list_all (\<lambda>d. d \<noteq> backslash_c) (take (rune_len (c # r) - 1) r)"
proof (cases "rune_len (c # r) = 0")
  case False
  then have "0 < rune_len (c # r)" by simp
  then show ?thesis
    by (cases rule: rune_len_pos_cases) (auto dest!: cont_high)
qed simp

lemma escape_value_ascii: "simple_escape e \<Longrightarrow> byte (escape_value e) < 0x80"
  unfolding simple_escape_def set_simps insert_iff empty_iff
  by (elim disjE) (simp_all add: escape_value_def byte_def)

lemma valid_utf8_unquote: "raw_string t \<Longrightarrow> valid_utf8 (unquote t)"
proof (induction t rule: length_induct)
  case (1 t)
  show ?case
  proof (cases t)
    case Nil
    then show ?thesis by simp
  next
    case (Cons c r)
    with 1 have IH0: "raw_string s \<Longrightarrow> length s \<le> length r \<Longrightarrow> valid_utf8 (unquote s)" for s
      by auto
    have "raw_string (c # r)" using 1 Cons by simp
    then show ?thesis
    proof (cases rule: raw_string_Cons)
    case (u h1 h2 h3 h4 r2)
    define n where "n = hex_num [h1, h2, h3, h4]"
    have n: "n < 0x10000" unfolding n_def using u(3) by (intro hex_num_4) auto
    have IH: "valid_utf8 (unquote r2)" "\<And>m. low_half r2 = Some m \<Longrightarrow> valid_utf8 (unquote (drop 6 r2))"
      using IH0 u raw_string_drop_low by auto
    show ?thesis
    proof (cases "surrogate n")
      case True
      have "valid_utf8 (utf8_encode ((n - 0xD800) * 0x400 + (m - 0xDC00) + 0x10000)
          @ unquote (drop 6 r2))" if "low_half r2 = Some m" "n < 0xDC00" for m
        using low_half_bounds [OF that(1)] that(2) True IH(2) [OF that(1)]
        by (intro valid_utf8_encode) (auto simp: surrogate_def)
      then show ?thesis using True u IH(1)
        by (auto simp: Cons unquote.simps(2) n_def [symmetric] Let_def valid_utf8_replacement
            simp del: hex_num.simps split: option.split)
    next
      case False
      then have "valid_utf8 (utf8_encode n @ unquote r2)"
        using n IH(1) by (intro valid_utf8_encode) auto
      then show ?thesis using False u
        by (simp add: Cons unquote.simps(2) n_def [symmetric] Let_def del: hex_num.simps)
    qed
  next
    case (esc e r1)
    then have "valid_utf8 (unquote r1)" "byte (escape_value e) < 0x80"
      using IH0 [of r1] by (simp_all add: escape_value_ascii)
    then show ?thesis
      using esc(1-3) by (simp add: Cons unquote.simps(2) valid_utf8_ascii_Cons)
  next
    case plain
    show ?thesis
    proof (cases "byte c < 0x80")
      case True
      then show ?thesis using plain IH0 by (simp add: Cons unquote.simps(2) valid_utf8_ascii_Cons)
    next
      case False
      show ?thesis
      proof (cases "rune_len (c # r) = 0")
        case True
        then show ?thesis using plain False IH0
          by (simp add: Cons unquote.simps(2) valid_utf8_replacement)
      next
        case pos: False
        have "rune_len (c # r) - 1 \<le> length r" using rune_len_le [of "c # r"] by simp
        then have "raw_string (drop (rune_len (c # r) - 1) r)"
          using plain False by (intro raw_string_drop rune_no_backslash) auto
        then have "valid_utf8 (unquote (drop (rune_len (c # r) - 1) r))"
          using IH0 by simp
        then have "valid_utf8 (take (rune_len (c # r)) (c # r)
            @ unquote (drop (rune_len (c # r) - 1) r))"
          using pos by (intro valid_utf8_take_append) auto
        then show ?thesis using plain False pos by (simp add: Cons unquote.simps(2) Let_def)
      qed
    qed
    qed
  qed
qed

subsection \<open>Decoded values\<close>

datatype json =
    JNull
  | JBool bool
  | JNum string
  | JStr string
  | JArr "json list"
  | JObj "(string \<times> json) list"

fun obj_put :: "string \<Rightarrow> 'v \<Rightarrow> (string \<times> 'v) list \<Rightarrow> (string \<times> 'v) list" where
  "obj_put k v [] = [(k, v)]"
| "obj_put k v ((k', v') # m) =
    (if k < k' then (k, v) # (k', v') # m
     else if k = k' then (k, v) # m
     else (k', v') # obj_put k v m)"

definition obj_del :: "string \<Rightarrow> (string \<times> 'v) list \<Rightarrow> (string \<times> 'v) list" where
  "obj_del k m = filter (\<lambda>p. fst p \<noteq> k) m"

definition obj_sorted :: "(string \<times> 'v) list \<Rightarrow> bool" where
  "obj_sorted m \<longleftrightarrow> sorted_wrt (<) (map fst m)"

definition put_all :: "(string \<times> 'v) list \<Rightarrow> (string \<times> 'v) list" where
  "put_all ms = foldl (\<lambda>acc m. obj_put (fst m) (snd m) acc) [] ms"

lemma map_of_obj_put [simp]: "map_of (obj_put k v m) = (map_of m)(k \<mapsto> v)"
  by (induction k v m rule: obj_put.induct) (auto simp: fun_eq_iff)

lemma set_obj_put: "set (obj_put k v m) \<subseteq> insert (k, v) (set m)"
  by (induction k v m rule: obj_put.induct) auto

lemma keys_obj_put [simp]: "fst ` set (obj_put k v m) = insert k (fst ` set m)"
  by (induction k v m rule: obj_put.induct) auto

lemma obj_sorted_Nil [simp]: "obj_sorted []"
  by (simp add: obj_sorted_def)

lemma obj_sorted_Cons [simp]:
  "obj_sorted (p # m) \<longleftrightarrow> (\<forall>k \<in> fst ` set m. fst p < k) \<and> obj_sorted m"
  by (auto simp: obj_sorted_def)

lemma obj_sorted_put [simp]: "obj_sorted m \<Longrightarrow> obj_sorted (obj_put k v m)"
  by (induction k v m rule: obj_put.induct) auto

lemma obj_sorted_del [simp]: "obj_sorted m \<Longrightarrow> obj_sorted (obj_del k m)"
  unfolding obj_del_def by (induction m) auto

lemma map_of_obj_del [simp]: "map_of (obj_del k m) = (map_of m)(k := None)"
  unfolding obj_del_def by (induction m) (auto simp: fun_eq_iff)

lemma obj_sorted_unique:
  assumes "obj_sorted m" "obj_sorted m'" "map_of m = map_of m'"
  shows "m = m'"
proof -
  have d: "sorted (map fst m)" "distinct (map fst m)" "sorted (map fst m')" "distinct (map fst m')"
    using assms(1,2) by (simp_all add: obj_sorted_def strict_sorted_iff)
  then have "set m = set m'" using assms(3) map_of_inject_set by blast
  with d show ?thesis
    by (intro map_sorted_distinct_set_unique [where f = fst]) (simp_all add: distinct_map)
qed

lemma obj_sorted_put_all [simp]: "obj_sorted (put_all ms)"
proof -
  have "obj_sorted (foldl (\<lambda>acc m. obj_put (fst m) (snd m) acc) acc ms)" if "obj_sorted acc" for acc
    using that by (induction ms arbitrary: acc) auto
  then show ?thesis by (simp add: put_all_def)
qed

lemma set_put_all: "set (put_all ms) \<subseteq> set ms"
proof -
  have "set (foldl (\<lambda>acc m. obj_put (fst m) (snd m) acc) acc ms) \<subseteq> set acc \<union> set ms" for acc
  proof (induction ms arbitrary: acc)
    case (Cons m ms)
    have "set (obj_put (fst m) (snd m) acc) \<subseteq> insert m (set acc)"
      using set_obj_put [of "fst m" "snd m" acc] by simp
    with Cons [of "obj_put (fst m) (snd m) acc"] show ?case by auto
  qed simp
  from this [of "[]"] show ?thesis by (simp add: put_all_def)
qed

lemma obj_put_snoc:
  "\<forall>k' \<in> fst ` set m. k' < k \<Longrightarrow> obj_put k v m = m @ [(k, v)]"
  by (induction k v m rule: obj_put.induct) auto

lemma put_all_sorted: "obj_sorted ms \<Longrightarrow> put_all ms = ms"
proof -
  have "foldl (\<lambda>acc m. obj_put (fst m) (snd m) acc) acc ms = acc @ ms"
    if "obj_sorted (acc @ ms)" for acc
    using that
  proof (induction ms arbitrary: acc)
    case (Cons m ms)
    then have "obj_put (fst m) (snd m) acc = acc @ [m]"
      by (subst obj_put_snoc) (auto simp: obj_sorted_def sorted_wrt_append)
    with Cons show ?case by simp
  qed simp
  from this [of "[]"] show "obj_sorted ms \<Longrightarrow> put_all ms = ms" by (simp add: put_all_def)
qed

fun value_of :: "json_syntax \<Rightarrow> json" where
  "value_of SNull = JNull"
| "value_of (SBool b) = JBool b"
| "value_of (SNum t) = JNum t"
| "value_of (SStr t) = JStr (unquote t)"
| "value_of (SArr vs) = JArr (map value_of vs)"
| "value_of (SObj ms) = JObj (put_all (map (\<lambda>m. (unquote (fst m), value_of (snd m))) ms))"

fun syntax_of :: "json \<Rightarrow> json_syntax" where
  "syntax_of JNull = SNull"
| "syntax_of (JBool b) = SBool b"
| "syntax_of (JNum t) = SNum t"
| "syntax_of (JStr t) = SStr (quote_body t)"
| "syntax_of (JArr vs) = SArr (map syntax_of vs)"
| "syntax_of (JObj ms) = SObj (map (\<lambda>m. (quote_body (fst m), syntax_of (snd m))) ms)"

text \<open>
  \<open>decodeJSONValue\<close> reads the first value of its input and leaves the rest unread;
  \<open>json.Marshal\<close> writes a value.
\<close>

definition json_decode :: "string \<Rightarrow> json option" where
  "json_decode s = (case parse_val max_nesting (skip_ws s) of
     None \<Rightarrow> None | Some (v, r) \<Rightarrow> Some (value_of v))"

definition json_marshal :: "json \<Rightarrow> string" where
  "json_marshal v = print_syn (syntax_of v)"

text \<open>
  The values that decoding builds: objects in key order, strings and keys in valid UTF-8,
  numbers as JSON writes them, nesting within \<open>d\<close>.
\<close>

fun canonical :: "int \<Rightarrow> json \<Rightarrow> bool" where
  "canonical d JNull = True"
| "canonical d (JBool b) = True"
| "canonical d (JNum t) = number_lit t"
| "canonical d (JStr t) = valid_utf8 t"
| "canonical d (JArr vs) = (0 < d \<and> list_all (\<lambda>v. canonical (d - 1) v) vs)"
| "canonical d (JObj ms) =
    (0 < d \<and> obj_sorted ms \<and> list_all (\<lambda>m. valid_utf8 (fst m) \<and> canonical (d - 1) (snd m)) ms)"

lemma canonical_value_of: "wf_syn d s \<Longrightarrow> canonical d (value_of s)"
proof (induction d s rule: wf_syn.induct)
  case (6 d ms)
  then have "\<forall>m \<in> set (map (\<lambda>m. (unquote (fst m), value_of (snd m))) ms).
      valid_utf8 (fst m) \<and> canonical (d - 1) (snd m)"
    by (auto simp: list_all_iff valid_utf8_unquote)
  with 6 set_put_all show ?case by (fastforce simp: list_all_iff)
qed (auto simp: valid_utf8_unquote list_all_iff)

lemma wf_syntax_of: "canonical d v \<Longrightarrow> wf_syn d (syntax_of v)"
  by (induction d v rule: canonical.induct) (auto simp: list_all_iff raw_quote)

lemma value_syntax: "canonical d v \<Longrightarrow> value_of (syntax_of v) = v"
proof (induction d v rule: canonical.induct)
  case (6 d ms)
  then have "map (\<lambda>m. (unquote (quote_body (fst m)), value_of (syntax_of (snd m)))) ms = ms"
    by (intro map_idI) (auto simp: list_all_iff unquote_quote to_valid_id)
  with 6 show ?case by (simp add: comp_def put_all_sorted)
qed (auto simp: unquote_quote to_valid_id list_all_iff intro!: map_idI)

lemma canonical_decode: "json_decode s = Some v \<Longrightarrow> canonical max_nesting v"
  by (auto simp: json_decode_def dest!: parse_wf(1) intro!: canonical_value_of
      split: option.split_asm)

theorem decode_marshal:
  assumes "canonical max_nesting v"
  shows "json_decode (json_marshal v) = Some v"
proof -
  note wf = wf_syntax_of [OF assms]
  then obtain c u where "print_syn (syntax_of v) = c # u" "\<not> is_space c" by (rule print_syn_hd)
  then have "skip_ws (json_marshal v) = json_marshal v" by (simp add: json_marshal_def)
  with parse_print [OF wf, of "[]"] value_syntax [OF assms] show ?thesis
    by (simp add: json_decode_def json_marshal_def)
qed

lemma compact_marshal: "canonical max_nesting v \<Longrightarrow> json_compact (json_marshal v) = Some (json_marshal v)"
  by (simp add: json_compact_def json_marshal_def parse_json_print wf_syntax_of)

lemma marshal_inject:
  "canonical max_nesting v \<Longrightarrow> canonical max_nesting w \<Longrightarrow> json_marshal v = json_marshal w \<Longrightarrow> v = w"
  by (metis decode_marshal option.inject)

lemma parse_json_decode: "parse_json s = Some v \<Longrightarrow> json_decode s = Some (value_of v)"
  by (auto simp: json_decode_def parse_json_def split: option.split_asm if_split_asm)

lemma compact_decode: "json_compact s = Some t \<Longrightarrow> json_decode t = json_decode s"
  by (auto simp: json_compact_def parse_json_decode
      intro!: parse_json_decode parse_json_print parse_json_wf)

end
