(* ===== verification/Go_Json_Struct.thy ===== *)
theory Go_Json_Struct
  imports Go_Json Go_Strings
begin

text \<open>
  \<open>encoding/json\<close> on Go types: the raw texts of the members of an object
  (\<open>map[string]json.RawMessage\<close>), decoding into strings and integers, the matching of
  keys with struct fields, and the writing of structs and raw messages.
\<close>

subsection \<open>Raw members and elements\<close>

text \<open>The bytes of the value at the head of the text, and what follows them.\<close>

definition raw_value :: "int \<Rightarrow> string \<Rightarrow> (string \<times> string) option" where
  "raw_value d s =
    (case parse_val d s of None \<Rightarrow> None | Some (v, r) \<Rightarrow> Some (take (length s - length r) s, r))"

function raw_members :: "int \<Rightarrow> string \<Rightarrow> (string \<times> string) list option" where
  "raw_members d s = (case s of [] \<Rightarrow> None | c # r \<Rightarrow>
     if c \<noteq> quote_c then None
     else case scan_string r of None \<Rightarrow> None | Some (k, r1) \<Rightarrow>
       (case skip_ws r1 of [] \<Rightarrow> None | c2 # r2 \<Rightarrow>
          if c2 \<noteq> CHR '':'' then None
          else case raw_value d (skip_ws r2) of None \<Rightarrow> None | Some (t, r3) \<Rightarrow>
            if \<not> length r3 < length s then None
            else case skip_ws r3 of [] \<Rightarrow> None | c4 # r4 \<Rightarrow>
              if c4 = CHR ''}'' then Some [(unquote k, t)]
              else if c4 = CHR '','' then
                map_option (\<lambda>ms. (unquote k, t) # ms) (raw_members d (skip_ws r4))
              else None))"
  by pat_completeness auto
termination
proof (relation "measure (\<lambda>(d, s). length s)", goal_cases)
  case (2 d s c r p k r1 c2 r2 q t r3 c4 r4)
  then show ?case using skip_ws_Cons_length [of r3 c4 r4] length_skip_ws [of r4] by simp
qed simp

function raw_elems :: "int \<Rightarrow> string \<Rightarrow> string list option" where
  "raw_elems d s = (case raw_value d s of None \<Rightarrow> None | Some (t, r) \<Rightarrow>
     if \<not> length r < length s then None
     else case skip_ws r of [] \<Rightarrow> None | c # r1 \<Rightarrow>
       if c = CHR '']'' then Some [t]
       else if c = CHR '','' then map_option (\<lambda>ts. t # ts) (raw_elems d (skip_ws r1))
       else None)"
  by pat_completeness auto
termination
proof (relation "measure (\<lambda>(d, s). length s)", goal_cases)
  case (2 d s p t r c r1)
  then show ?case using skip_ws_Cons_length [of r c r1] length_skip_ws [of r1] by simp
qed simp

declare raw_members.simps [simp del] raw_elems.simps [simp del]

definition object_fields :: "string \<Rightarrow> (string \<times> string) list option" where
  "object_fields s =
    (case skip_ws s of
       [] \<Rightarrow> None
     | c # r \<Rightarrow>
         if c \<noteq> CHR ''{'' then None
         else (case skip_ws r of
                 [] \<Rightarrow> None
               | c1 # r1 \<Rightarrow>
                   if c1 = CHR ''}'' then Some [] else raw_members (max_nesting - 1) (c1 # r1)))"

definition array_elems :: "string \<Rightarrow> string list option" where
  "array_elems s =
    (case skip_ws s of
       [] \<Rightarrow> None
     | c # r \<Rightarrow>
         if c \<noteq> CHR ''['' then None
         else (case skip_ws r of
                 [] \<Rightarrow> None
               | c1 # r1 \<Rightarrow>
                   if c1 = CHR '']'' then Some [] else raw_elems (max_nesting - 1) (c1 # r1)))"

subsection \<open>Unmarshal\<close>

text \<open>
  \<open>Unmarshal\<close> checks the whole text first. A JSON null leaves a string or an integer as it
  is (the inner None) and gives a nil map; a value of the wrong kind is an error (None).
\<close>

definition unmarshal_raw_map :: "string \<Rightarrow> (string, string) fmap option" where
  "unmarshal_raw_map s =
    (case parse_json s of
       Some SNull \<Rightarrow> Some fmempty
     | Some (SObj _) \<Rightarrow>
         (case object_fields s of None \<Rightarrow> None | Some ms \<Rightarrow> Some (foldl (\<lambda>m (k, t). fmupd k t m) fmempty ms))
     | _ \<Rightarrow> None)"

definition unmarshal_string :: "string \<Rightarrow> string option option" where
  "unmarshal_string s =
    (case parse_json s of
       Some SNull \<Rightarrow> Some None
     | Some (SStr t) \<Rightarrow> Some (Some (unquote t))
     | _ \<Rightarrow> None)"

definition unmarshal_int :: "string \<Rightarrow> int option option" where
  "unmarshal_int s =
    (case parse_json s of
       Some SNull \<Rightarrow> Some None
     | Some (SNum t) \<Rightarrow> map_option Some (atoi t)
     | _ \<Rightarrow> None)"

definition unmarshal_uint :: "string \<Rightarrow> u64 option option" where
  "unmarshal_uint s =
    (case parse_json s of
       Some SNull \<Rightarrow> Some None
     | Some (SNum t) \<Rightarrow> map_option Some (parse_uint t)
     | _ \<Rightarrow> None)"

text \<open>The value that a field starting at \<open>old\<close> has afterwards.\<close>

definition assign :: "'a \<Rightarrow> 'a option option \<Rightarrow> 'a option" where
  "assign old r = map_option (\<lambda>x. case x of None \<Rightarrow> old | Some v \<Rightarrow> v) r"

text \<open>
  A key names a field exactly or after folding case; U+017F folds to S and U+212A to K, and
  no other rune beyond ASCII folds to an ASCII letter.
\<close>

fun fold_name :: "string \<Rightarrow> string" where
  "fold_name [] = []"
| "fold_name (c # s) =
    (if in_range 0x61 0x7A c then chr (byte c - 0x20) # fold_name s
     else if byte c = 0xC5 \<and> s \<noteq> [] \<and> byte (hd s) = 0xBF then CHR ''S'' # fold_name (tl s)
     else if byte c = 0xE2 \<and> length s \<ge> 2 \<and> byte (hd s) = 0x84 \<and> byte (hd (tl s)) = 0xAA
       then CHR ''K'' # fold_name (drop 2 s)
     else c # fold_name s)"

definition field_of :: "string list \<Rightarrow> string \<Rightarrow> string option" where
  "field_of names key =
    (if key \<in> set names then Some key else find (\<lambda>n. fold_name n = fold_name key) names)"

subsection \<open>Marshal\<close>

text \<open>A raw message is compacted with the HTML-sensitive characters escaped.\<close>

fun html_escape :: "string \<Rightarrow> string" where
  "html_escape [] = []"
| "html_escape (c # s) =
    (if c = CHR ''<'' \<or> c = CHR ''>'' \<or> c = CHR ''&''
     then backslash_c # ''u00'' @ [hex_digit (byte c div 16), hex_digit (byte c mod 16)] @ html_escape s
     else if line_sep (c # s)
     then backslash_c # ''u202'' @ [hex_digit (byte (s ! 1) mod 16)] @ html_escape (drop 2 s)
     else c # html_escape s)"

definition raw_marshal :: "bytes \<Rightarrow> string option" where
  "raw_marshal raw = (if raw = [] then Some ''null'' else map_option html_escape (json_compact raw))"

definition quote_text :: "string \<Rightarrow> string" where
  "quote_text s = quote_c # quote_body s @ [quote_c]"

definition object_text :: "(string \<times> string) list \<Rightarrow> string" where
  "object_text ms = CHR ''{'' # join_comma (map (\<lambda>(k, t). print_member k t) ms) @ ''}''"

definition array_text :: "string list \<Rightarrow> string" where
  "array_text ts = CHR ''['' # join_comma ts @ '']''"

text \<open>The first error of a list of results, otherwise all of them.\<close>

fun all_some :: "'a option list \<Rightarrow> 'a list option" where
  "all_some [] = Some []"
| "all_some (x # xs) =
    (case x of None \<Rightarrow> None | Some v \<Rightarrow> (case all_some xs of None \<Rightarrow> None | Some vs \<Rightarrow> Some (v # vs)))"

lemma all_some_map [simp]: "all_some (map Some vs) = Some vs"
  by (induction vs) auto

lemma all_some_Some: "all_some xs = Some vs \<longleftrightarrow> xs = map Some vs"
proof
  show "all_some xs = Some vs \<Longrightarrow> xs = map Some vs"
    by (induction xs arbitrary: vs) (auto split: option.split_asm)
qed simp

end
