(* ===== verification/Engine_Events.thy ===== *)
theory Engine_Events
  imports Engine_Rooms Go_Json_Struct
begin

text \<open>
  Events that the engine builds and how a node treats the events of the others: names and
  types of room, comment and notification events, storage mutations on the wire, and the
  plans for events that arrive from the cluster.
\<close>

subsection \<open>Names and types\<close>

definition IsNotificationEvent :: "string \<Rightarrow> bool" where
  "IsNotificationEvent eventName \<longleftrightarrow>
    eventName \<in> set [NotificationInboxCreated, NotificationInboxRead, NotificationInboxDeleted,
      NotificationInboxDeletedAll]"

definition IsRoomEvent :: "string \<Rightarrow> bool" where
  "IsRoomEvent eventName \<longleftrightarrow> eventName \<in> set [RoomCreated, RoomUpdated, RoomDeleted]"

definition RoomEventType :: "string \<Rightarrow> string" where
  "RoomEventType eventName =
    (if eventName = RoomCreated then ''room-created''
     else if eventName = RoomUpdated then ''room-updated''
     else if eventName = RoomDeleted then ''room-deleted''
     else eventName)"

definition IsCommentEvent :: "string \<Rightarrow> bool" where
  "IsCommentEvent eventName \<longleftrightarrow>
    eventName \<in> set [CommentThreadCreated, CommentThreadUpdated, CommentThreadDeleted, CommentCreated,
      CommentUpdated]"

definition CommentEventType :: "string \<Rightarrow> string" where
  "CommentEventType eventName =
    (if eventName = CommentThreadCreated then ''thread-created''
     else if eventName = CommentThreadUpdated then ''thread-updated''
     else if eventName = CommentThreadDeleted then ''thread-deleted''
     else if eventName = CommentCreated then ''comment-created''
     else if eventName = CommentUpdated then ''comment-updated''
     else eventName)"

definition NotificationEventType :: "string \<Rightarrow> string" where
  "NotificationEventType eventName =
    (if eventName = NotificationInboxCreated then ''created''
     else if eventName = NotificationInboxRead then ''read''
     else if eventName = NotificationInboxDeleted then ''deleted''
     else if eventName = NotificationInboxDeletedAll then ''deleted-all''
     else eventName)"

definition NotificationEventRoom :: "string \<Rightarrow> room_id" where
  "NotificationEventRoom userID = ''notifications:'' @ userID"

definition NewEvent :: "room_id \<Rightarrow> string \<Rightarrow> bytes \<Rightarrow> EventOptions \<Rightarrow> PublishedEvent" where
  "NewEvent room eventName payload options =
    \<lparr>pe_Room = room, pe_Event = eventName, pe_Payload = payload,
     pe_ExcludeSenderConnID = eo_ExcludeSenderConnID options, pe_TraceID = eo_TraceID options,
     pe_Sequence = 0, pe_OriginNode = eo_OriginNode options\<rparr>"

subsection \<open>Plans for events from the cluster\<close>

definition NewClusterEventPlan :: "PublishedEvent \<Rightarrow> string \<Rightarrow> ClusterEventPlan" where
  "NewClusterEventPlan event localNode =
    \<lparr>cep_Event = event,
     cep_Kind =
       (if pe_OriginNode event = localNode then ClusterEventSkip
        else if pe_Event event = EventStorageUpdate then ClusterEventStorage
        else if IsNotificationEvent (pe_Event event) then ClusterEventNotification
        else ClusterEventRoom)\<rparr>"

definition NewClusterPresencePlan :: "PresenceEvent \<Rightarrow> string \<Rightarrow> ClusterPresencePlan" where
  "NewClusterPresencePlan event localNode =
    \<lparr>cpp_Event = event, cpp_Deliver = (pr_OriginNode event \<noteq> localNode)\<rparr>"

subsection \<open>Storage mutations as JSON\<close>

definition opt_field :: "bool \<Rightarrow> string \<Rightarrow> string \<Rightarrow> (string \<times> string) list" where
  "opt_field present name text = (if present then [(name, text)] else [])"

definition marshal_operation :: "JSONPatchOperation \<Rightarrow> string option" where
  "marshal_operation op =
    (case raw_marshal (po_Value op) of
       None \<Rightarrow> None
     | Some val \<Rightarrow> Some (object_text
         ([(''op'', quote_text (po_Op op)), (''path'', quote_text (po_Path op))]
          @ opt_field (po_From op \<noteq> []) ''from'' (quote_text (po_From op))
          @ opt_field (po_Value op \<noteq> []) ''value'' val)))"

definition marshal_operations :: "JSONPatchOperation list \<Rightarrow> string option" where
  "marshal_operations ops = map_option array_text (all_some (map marshal_operation ops))"

definition marshal_mutation :: "StorageMutation \<Rightarrow> string option" where
  "marshal_mutation m =
    (case (marshal_operations (sm_Operations m), raw_marshal (sm_Document m)) of
       (Some ops, Some doc) \<Rightarrow> Some (object_text
         ([(''kind'', quote_text (sm_Kind m))]
          @ opt_field (sm_OpID m \<noteq> []) ''op_id'' (quote_text (sm_OpID m))
          @ opt_field (sm_OriginConnID m \<noteq> []) ''origin_conn_id'' (quote_text (sm_OriginConnID m))
          @ opt_field (sm_Sequence m \<noteq> 0) ''seq'' (format_uint (sm_Sequence m))
          @ opt_field (sm_Operations m \<noteq> []) ''operations'' ops
          @ opt_field (sm_Document m \<noteq> []) ''document'' doc))
     | _ \<Rightarrow> None)"

definition NewStorageEvent ::
  "room_id \<Rightarrow> StorageMutation \<Rightarrow> StorageEventOptions \<Rightarrow> engine_error + PublishedEvent" where
  "NewStorageEvent room update options =
    (case marshal_mutation update of
       None \<Rightarrow> Inl (ErrCluster ErrJSON)
     | Some payload \<Rightarrow> Inr
         \<lparr>pe_Room = room, pe_Event = EventStorageUpdate, pe_Payload = payload,
          pe_ExcludeSenderConnID = seo_ExcludeSenderConnID options, pe_TraceID = [],
          pe_Sequence = seo_Sequence options, pe_OriginNode = seo_OriginNode options\<rparr>)"

text \<open>
  Reading a mutation back. An element of \<open>operations\<close> is decoded into the slot of the
  slice's backing array that it lands in; the backing array is kept for the case that the
  key comes twice in one object.
\<close>

definition no_operation :: JSONPatchOperation where
  "no_operation = \<lparr>po_Op = [], po_Path = [], po_From = [], po_Value = []\<rparr>"

definition no_mutation :: StorageMutation where
  "no_mutation = \<lparr>sm_Kind = [], sm_OpID = [], sm_OriginConnID = [], sm_Sequence = 0,
     sm_Operations = [], sm_Document = []\<rparr>"

fun decode_operation_fields ::
  "JSONPatchOperation \<Rightarrow> (string \<times> string) list \<Rightarrow> JSONPatchOperation option" where
  "decode_operation_fields op [] = Some op"
| "decode_operation_fields op ((k, t) # fs) =
    (case (case field_of [''op'', ''path'', ''from'', ''value''] k of
             None \<Rightarrow> Some op
           | Some n \<Rightarrow>
               if n = ''op'' then map_option (\<lambda>v. op\<lparr>po_Op := v\<rparr>) (assign (po_Op op) (unmarshal_string t))
               else if n = ''path'' then map_option (\<lambda>v. op\<lparr>po_Path := v\<rparr>) (assign (po_Path op) (unmarshal_string t))
               else if n = ''from'' then map_option (\<lambda>v. op\<lparr>po_From := v\<rparr>) (assign (po_From op) (unmarshal_string t))
               else Some (op\<lparr>po_Value := t\<rparr>)) of
       None \<Rightarrow> None | Some op \<Rightarrow> decode_operation_fields op fs)"

definition decode_operation :: "JSONPatchOperation \<Rightarrow> string \<Rightarrow> JSONPatchOperation option" where
  "decode_operation old t =
    (case parse_json t of
       Some SNull \<Rightarrow> Some old
     | Some (SObj _) \<Rightarrow>
         (case object_fields t of None \<Rightarrow> None | Some fs \<Rightarrow> decode_operation_fields old fs)
     | _ \<Rightarrow> None)"

fun decode_slots ::
  "JSONPatchOperation list \<Rightarrow> string list \<Rightarrow> JSONPatchOperation list option" where
  "decode_slots backing [] = Some []"
| "decode_slots backing (t # ts) =
    (case decode_operation (case backing of [] \<Rightarrow> no_operation | old # _ \<Rightarrow> old) t of
       None \<Rightarrow> None
     | Some op \<Rightarrow> map_option (\<lambda>ops. op # ops) (decode_slots (tl backing) ts))"

definition decode_operations ::
  "JSONPatchOperation list \<Rightarrow> string
     \<Rightarrow> (JSONPatchOperation list \<times> JSONPatchOperation list) option" where
  "decode_operations backing t =
    (case parse_json t of
       Some SNull \<Rightarrow> Some ([], [])
     | Some (SArr _) \<Rightarrow>
         (case array_elems t of
            None \<Rightarrow> None
          | Some ts \<Rightarrow>
              (case decode_slots backing ts of
                 None \<Rightarrow> None
               | Some ops \<Rightarrow> Some (ops, if ops = [] then [] else ops @ drop (length ops) backing)))
     | _ \<Rightarrow> None)"

fun decode_mutation_fields ::
  "StorageMutation \<Rightarrow> JSONPatchOperation list \<Rightarrow> (string \<times> string) list \<Rightarrow> StorageMutation option" where
  "decode_mutation_fields m backing [] = Some m"
| "decode_mutation_fields m backing ((k, t) # fs) =
    (case (case field_of [''kind'', ''op_id'', ''origin_conn_id'', ''seq'', ''operations'', ''document''] k of
             None \<Rightarrow> Some (m, backing)
           | Some n \<Rightarrow>
               if n = ''kind'' then map_option (\<lambda>v. (m\<lparr>sm_Kind := v\<rparr>, backing)) (assign (sm_Kind m) (unmarshal_string t))
               else if n = ''op_id'' then map_option (\<lambda>v. (m\<lparr>sm_OpID := v\<rparr>, backing)) (assign (sm_OpID m) (unmarshal_string t))
               else if n = ''origin_conn_id'' then
                 map_option (\<lambda>v. (m\<lparr>sm_OriginConnID := v\<rparr>, backing)) (assign (sm_OriginConnID m) (unmarshal_string t))
               else if n = ''seq'' then map_option (\<lambda>v. (m\<lparr>sm_Sequence := v\<rparr>, backing)) (assign (sm_Sequence m) (unmarshal_uint t))
               else if n = ''operations'' then
                 map_option (\<lambda>(ops, b). (m\<lparr>sm_Operations := ops\<rparr>, b)) (decode_operations backing t)
               else Some (m\<lparr>sm_Document := t\<rparr>, backing)) of
       None \<Rightarrow> None | Some (m, backing) \<Rightarrow> decode_mutation_fields m backing fs)"

definition unmarshal_mutation :: "bytes \<Rightarrow> StorageMutation option" where
  "unmarshal_mutation payload =
    (case parse_json payload of
       Some SNull \<Rightarrow> Some no_mutation
     | Some (SObj _) \<Rightarrow>
         (case object_fields payload of
            None \<Rightarrow> None | Some fs \<Rightarrow> decode_mutation_fields no_mutation [] fs)
     | _ \<Rightarrow> None)"

end
