(* ===== verification/Json_Patch.thy ===== *)
theory Json_Patch
  imports Go_Json Cluster_Types
begin

text \<open>
  JSON Patch over storage documents and the validation of a storage document
  (\<open>ApplyJSONPatch\<close>, \<open>ValidateStorageDocument\<close> and what they call in
  \<open>internal/cluster/redis.go\<close>). The code changes the decoded document in place; the
  document is local to the call and every error drops it, so the model returns the new
  value. An element is inserted into an array through a fresh copy of its tail, so the
  in-place updates never touch a value that is read later.
\<close>

subsection \<open>JSON pointers\<close>

fun escapes_ok :: "string \<Rightarrow> bool" where
  "escapes_ok [] = True"
| "escapes_ok (c # s) =
    (if c = CHR ''~''
     then (case s of [] \<Rightarrow> False | d # r \<Rightarrow> (d = CHR ''0'' \<or> d = CHR ''1'') \<and> escapes_ok r)
     else escapes_ok s)"

definition decodeJSONPointerToken :: "string \<Rightarrow> patch_reason + string" where
  "decodeJSONPointerToken token =
    (if \<not> escapes_ok token then Inl PointerEscape
     else (let token = replace_all2 (CHR ''~'') (CHR ''1'') [CHR 0x2F] token
           in Inr (replace_all2 (CHR ''~'') (CHR ''0'') [CHR ''~''] token)))"

fun decode_tokens :: "string list \<Rightarrow> patch_reason + string list" where
  "decode_tokens [] = Inr []"
| "decode_tokens (part # parts) =
    (case decodeJSONPointerToken part of
       Inl e \<Rightarrow> Inl e
     | Inr decoded \<Rightarrow>
         (case decode_tokens parts of Inl e \<Rightarrow> Inl e | Inr ds \<Rightarrow> Inr (decoded # ds)))"

definition parseJSONPointer :: "string \<Rightarrow> patch_reason + string list" where
  "parseJSONPointer pointer =
    (case pointer of
       [] \<Rightarrow> Inr []
     | c # rest \<Rightarrow>
         if c \<noteq> CHR 0x2F then Inl PointerSyntax else decode_tokens (split_on (CHR 0x2F) rest))"

definition parseArrayIndex :: "string \<Rightarrow> int \<Rightarrow> bool \<Rightarrow> patch_reason + int \<times> bool" where
  "parseArrayIndex token size_now allowAppend =
    (if token = ''-'' then if allowAppend then Inr (size_now, True) else Inl DashOnlyAdd
     else (case atoi token of
             None \<Rightarrow> Inl InvalidIndex
           | Some index \<Rightarrow>
               if index < 0 then Inl InvalidIndex
               else if allowAppend
                 then if index > size_now then Inl IndexRange else Inr (index, False)
               else if index \<ge> size_now then Inl IndexRange
               else Inr (index, False)))"

subsection \<open>The operations on a document\<close>

fun addJSONValue :: "json \<Rightarrow> string list \<Rightarrow> json \<Rightarrow> patch_reason + json" where
  "addJSONValue root [] value = Inr value"
| "addJSONValue root (key # rest) value =
    (case root of
       JObj current \<Rightarrow>
         if rest = [] then Inr (JObj (obj_put key value current))
         else (case map_of current key of
                 None \<Rightarrow> Inl (MissingParent key)
               | Some child \<Rightarrow>
                   (case addJSONValue child rest value of
                      Inl e \<Rightarrow> Inl e
                    | Inr updated \<Rightarrow> Inr (JObj (obj_put key updated current))))
     | JArr current \<Rightarrow>
         (case parseArrayIndex key (len current) True of
            Inl e \<Rightarrow> Inl e
          | Inr (index, appendValue) \<Rightarrow>
              if rest = [] then
                if appendValue then Inr (JArr (current @ [value]))
                else Inr (JArr (take (nat index) current @ value # drop (nat index) current))
              else if appendValue \<or> index \<ge> len current then Inl (MissingArrayParent key)
              else (case addJSONValue (current ! nat index) rest value of
                      Inl e \<Rightarrow> Inl e
                    | Inr updated \<Rightarrow> Inr (JArr (current[nat index := updated]))))
     | _ \<Rightarrow> Inl NotContainer)"

fun removeJSONValue :: "json \<Rightarrow> string list \<Rightarrow> patch_reason + json" where
  "removeJSONValue root [] = Inl RemoveRoot"
| "removeJSONValue root (key # rest) =
    (case root of
       JObj current \<Rightarrow>
         (case map_of current key of
            None \<Rightarrow> Inl PathMissing
          | Some child \<Rightarrow>
              if rest = [] then Inr (JObj (obj_del key current))
              else (case removeJSONValue child rest of
                      Inl e \<Rightarrow> Inl e
                    | Inr updated \<Rightarrow> Inr (JObj (obj_put key updated current))))
     | JArr current \<Rightarrow>
         (case parseArrayIndex key (len current) False of
            Inl e \<Rightarrow> Inl e
          | Inr (index, _) \<Rightarrow>
              if rest = [] then Inr (JArr (take (nat index) current @ drop (nat index + 1) current))
              else (case removeJSONValue (current ! nat index) rest of
                      Inl e \<Rightarrow> Inl e
                    | Inr updated \<Rightarrow> Inr (JArr (current[nat index := updated]))))
     | _ \<Rightarrow> Inl NotContainer)"

fun getJSONValue :: "json \<Rightarrow> string list \<Rightarrow> patch_reason + json" where
  "getJSONValue root [] = Inr root"
| "getJSONValue root (key # rest) =
    (case root of
       JObj current \<Rightarrow>
         (case map_of current key of None \<Rightarrow> Inl PathMissing | Some child \<Rightarrow> getJSONValue child rest)
     | JArr current \<Rightarrow>
         (case parseArrayIndex key (len current) False of
            Inl e \<Rightarrow> Inl e
          | Inr (index, _) \<Rightarrow> getJSONValue (current ! nat index) rest)
     | _ \<Rightarrow> Inl TargetNotContainer)"

text \<open>A value is cloned by writing and reading it; when that fails the clone stays nil.\<close>

definition cloneJSONValue :: "json \<Rightarrow> json" where
  "cloneJSONValue value = (case json_decode (json_marshal value) of None \<Rightarrow> JNull | Some v \<Rightarrow> v)"

definition operationValue :: "JSONPatchOperation \<Rightarrow> patch_reason + json" where
  "operationValue operation =
    (if po_Value operation = [] then Inl (ValueRequired (po_Op operation))
     else (case json_decode (po_Value operation) of
             None \<Rightarrow> Inl (InvalidValue (po_Op operation)) | Some value \<Rightarrow> Inr value))"

definition applyJSONPatchOperation :: "json \<Rightarrow> JSONPatchOperation \<Rightarrow> patch_reason + json" where
  "applyJSONPatchOperation root operation =
    (case parseJSONPointer (po_Path operation) of
       Inl e \<Rightarrow> Inl e
     | Inr tokens \<Rightarrow>
         if po_Op operation = ''add'' then
           (case operationValue operation of Inl e \<Rightarrow> Inl e | Inr value \<Rightarrow> addJSONValue root tokens value)
         else if po_Op operation = ''remove'' then removeJSONValue root tokens
         else if po_Op operation = ''replace'' then
           (case operationValue operation of
              Inl e \<Rightarrow> Inl e
            | Inr value \<Rightarrow>
                (case getJSONValue root tokens of
                   Inl e \<Rightarrow> Inl e | Inr _ \<Rightarrow> addJSONValue root tokens value))
         else if po_Op operation = ''test'' then
           (case operationValue operation of
              Inl e \<Rightarrow> Inl e
            | Inr value \<Rightarrow>
                (case getJSONValue root tokens of
                   Inl e \<Rightarrow> Inl e
                 | Inr current \<Rightarrow>
                     if current \<noteq> value then Inl (TestFailed (po_Path operation)) else Inr root))
         else if po_Op operation = ''copy'' then
           (case parseJSONPointer (po_From operation) of
              Inl e \<Rightarrow> Inl e
            | Inr source \<Rightarrow>
                (case getJSONValue root source of
                   Inl e \<Rightarrow> Inl e
                 | Inr value \<Rightarrow> addJSONValue root tokens (cloneJSONValue value)))
         else if po_Op operation = ''move'' then
           (case parseJSONPointer (po_From operation) of
              Inl e \<Rightarrow> Inl e
            | Inr source \<Rightarrow>
                (case getJSONValue root source of
                   Inl e \<Rightarrow> Inl e
                 | Inr value \<Rightarrow>
                     (let withoutSource =
                        (case removeJSONValue root source of Inl _ \<Rightarrow> JNull | Inr w \<Rightarrow> w)
                      in addJSONValue withoutSource tokens value)))
         else Inl (UnsupportedOperation (po_Op operation)))"

fun applyOperations :: "json \<Rightarrow> JSONPatchOperation list \<Rightarrow> patch_reason + json" where
  "applyOperations root [] = Inr root"
| "applyOperations root (operation # operations) =
    (case applyJSONPatchOperation root operation of
       Inl e \<Rightarrow> Inl e | Inr next_root \<Rightarrow> applyOperations next_root operations)"

definition isJSONObject :: "bytes \<Rightarrow> bool" where
  "isJSONObject raw = (case trim_space raw of [] \<Rightarrow> False | c # _ \<Rightarrow> c = CHR 0x7B)"

definition ApplyJSONPatch :: "bytes \<Rightarrow> JSONPatchOperation list \<Rightarrow> patch_reason + bytes" where
  "ApplyJSONPatch document operations =
    (case json_decode document of
       None \<Rightarrow> Inl InvalidDocument
     | Some root \<Rightarrow>
         (case applyOperations root operations of
            Inl e \<Rightarrow> Inl e
          | Inr root \<Rightarrow>
              (let raw = json_marshal root in
               if \<not> isJSONObject raw then Inl RootMustRemainObject else Inr raw)))"

subsection \<open>Validation of a storage document\<close>

text \<open>
  Go ranges over a map in an unspecified order, so of several errors any may be returned;
  the model takes the first in key order. What is proved is whether there is an error.
\<close>

fun first_error :: "'e option list \<Rightarrow> 'e option" where
  "first_error [] = None"
| "first_error (e # es) = (case e of None \<Rightarrow> first_error es | Some x \<Rightarrow> Some x)"

lemma first_error_None [simp]: "first_error es = None \<longleftrightarrow> (\<forall>e \<in> set es. e = None)"
  by (induction es) (auto split: option.split)

definition storageTypedNode :: "(string \<times> json) list \<Rightarrow> patch_reason + (string \<times> json) option" where
  "storageTypedNode node =
    (case map_of node storageTypeKey of
       None \<Rightarrow> Inr None
     | Some rawType \<Rightarrow>
         (case rawType of
            JStr typeName \<Rightarrow>
              (case map_of node storageDataKey of
                 None \<Rightarrow> Inl TypedDataMissing
               | Some data \<Rightarrow>
                   if typeName = storageTypeLiveObject \<or> typeName = storageTypeLiveList
                      \<or> typeName = storageTypeLiveMap
                   then Inr (Some (typeName, data))
                   else Inl (UnsupportedTyped typeName))
          | _ \<Rightarrow> Inl TypeNotString))"

lemma storageTypedNode_data:
  "storageTypedNode node = Inr (Some (t, data)) \<Longrightarrow> data \<in> snd ` set node"
  by (force simp: storageTypedNode_def split: option.split_asm json.split_asm if_split_asm
      dest: map_of_SomeD)

lemma size_obj_member: "(k, v) \<in> set ms \<Longrightarrow> size v < size (JObj ms)"
  by (induction ms) auto

lemma storageTypedNode_size:
  assumes "storageTypedNode node = Inr (Some (t, data))"
  shows "size data \<le> size_list (size_prod (\<lambda>_. 0) size) node"
  using storageTypedNode_data [OF assms] size_obj_member [of _ data node]
  by (auto simp: less_Suc_eq_le)

function validateStorageValue :: "json \<Rightarrow> bool \<Rightarrow> patch_reason option"
  and validateStorageTypedData :: "string \<Rightarrow> json \<Rightarrow> patch_reason option"
where
  "validateStorageValue value root =
    (case value of
       JObj current \<Rightarrow>
         (case storageTypedNode current of
            Inl e \<Rightarrow> Some e
          | Inr (Some (typeName, data)) \<Rightarrow>
              if root \<and> typeName \<noteq> storageTypeLiveObject then Some RootTypedNode
              else validateStorageTypedData typeName data
          | Inr None \<Rightarrow> first_error (map (\<lambda>m. validateStorageValue (snd m) False) current))
     | JArr current \<Rightarrow> first_error (map (\<lambda>child. validateStorageValue child False) current)
     | _ \<Rightarrow> None)"
| "validateStorageTypedData typeName data =
    (if typeName = storageTypeLiveObject \<or> typeName = storageTypeLiveMap then
       (case data of
          JObj children \<Rightarrow> first_error (map (\<lambda>m. validateStorageValue (snd m) False) children)
        | _ \<Rightarrow> Some (DataNotObject typeName))
     else if typeName = storageTypeLiveList then
       (case data of
          JArr children \<Rightarrow> first_error (map (\<lambda>child. validateStorageValue child False) children)
        | _ \<Rightarrow> Some DataNotArray)
     else None)"
  by pat_completeness auto
termination
  by (relation "measure (case_sum (\<lambda>(v, _). size v) (\<lambda>(_, v). size v))")
     (auto dest: size_obj_member storageTypedNode_size simp: less_Suc_eq_le
       intro: size_list_estimation')

declare validateStorageValue.simps [simp del] validateStorageTypedData.simps [simp del]

definition ValidateStorageDocument :: "bytes \<Rightarrow> patch_reason option" where
  "ValidateStorageDocument document =
    (case json_decode document of
       None \<Rightarrow> Some InvalidDocument
     | Some root \<Rightarrow>
         (case root of
            JObj rootObject \<Rightarrow> validateStorageValue (JObj rootObject) True
          | _ \<Rightarrow> Some RootMustBeObject))"

subsection \<open>Pointers are read back\<close>

text \<open>The pointer of a path as RFC 6901 writes it.\<close>

fun escape_token :: "string \<Rightarrow> string" where
  "escape_token [] = []"
| "escape_token (c # s) =
    (if c = CHR ''~'' then ''~0'' else if c = CHR 0x2F then ''~1'' else [c]) @ escape_token s"

definition format_pointer :: "string list \<Rightarrow> string" where
  "format_pointer tokens = concat (map (\<lambda>t. CHR 0x2F # escape_token t) tokens)"

text \<open>One pass over the token, against which the two passes of the code are checked.\<close>

fun unescape_token :: "string \<Rightarrow> string" where
  "unescape_token [] = []"
| "unescape_token [c] = [c]"
| "unescape_token (c # d # s) =
    (if c = CHR ''~'' then (if d = CHR ''0'' then CHR ''~'' else CHR 0x2F) # unescape_token s
     else c # unescape_token (d # s))"

lemma replace_all2_other: "c \<noteq> a \<Longrightarrow> replace_all2 a b new (c # s) = c # replace_all2 a b new s"
  by (cases s) auto

lemma replace_all2_second:
  "d \<noteq> b \<Longrightarrow> d \<noteq> a \<Longrightarrow> replace_all2 a b new (a # d # s) = a # d # replace_all2 a b new s"
  by (simp add: replace_all2_other)

lemma unescape_other: "c \<noteq> CHR ''~'' \<Longrightarrow> unescape_token (c # s) = c # unescape_token s"
  by (cases s) auto

lemma decode_token_eq:
  "decodeJSONPointerToken token = (if escapes_ok token then Inr (unescape_token token) else Inl PointerEscape)"
proof -
  have "escapes_ok token \<Longrightarrow>
      replace_all2 (CHR ''~'') (CHR ''0'') [CHR ''~'']
        (replace_all2 (CHR ''~'') (CHR ''1'') [CHR 0x2F] token) = unescape_token token"
    by (induction token rule: escapes_ok.induct)
       (auto simp: replace_all2_other replace_all2_second unescape_other split: list.split_asm if_split_asm)
  then show ?thesis by (simp add: decodeJSONPointerToken_def Let_def)
qed

lemma escape_token_ok: "escapes_ok (escape_token t)" "unescape_token (escape_token t) = t"
  "CHR 0x2F \<notin> set (escape_token t)"
  by (induction t) (auto simp: unescape_other)

lemma escape_unescape:
  "escapes_ok t \<Longrightarrow> CHR 0x2F \<notin> set t \<Longrightarrow> escape_token (unescape_token t) = t"
  by (induction t rule: escapes_ok.induct) (auto simp: unescape_other split: list.split_asm if_split_asm)

lemma decode_tokens_Inr:
  "decode_tokens parts =
    (if list_all escapes_ok parts then Inr (map unescape_token parts) else Inl PointerEscape)"
  by (induction parts) (auto simp: decode_token_eq)

lemma split_on_separator_free: "p \<in> set (split_on d s) \<Longrightarrow> d \<notin> set p"
  by (induction d s arbitrary: p rule: split_on.induct) (auto split: list.split_asm if_split_asm)

lemma join_split: "join_on d (split_on d s) = s"
  by (induction d s rule: split_on.induct) (auto split: list.split)

lemma format_pointer_join:
  "ts \<noteq> [] \<Longrightarrow> format_pointer ts = CHR 0x2F # join_on (CHR 0x2F) (map escape_token ts)"
  by (induction ts) (auto simp: format_pointer_def)

lemma parse_format_pointer: "parseJSONPointer (format_pointer ts) = Inr ts"
proof (cases "ts = []")
  case False
  then have "split_on (CHR 0x2F) (join_on (CHR 0x2F) (map escape_token ts)) = map escape_token ts"
    by (intro split_join) (auto simp: escape_token_ok)
  with False show ?thesis
    by (simp add: parseJSONPointer_def format_pointer_join decode_tokens_Inr list_all_iff
        escape_token_ok comp_def)
qed (simp add: parseJSONPointer_def format_pointer_def)

lemma format_parse_pointer: "parseJSONPointer p = Inr ts \<Longrightarrow> format_pointer ts = p"
proof (cases p)
  case (Cons c rest)
  assume "parseJSONPointer p = Inr ts"
  with Cons have c: "c = CHR 0x2F" and ok: "list_all escapes_ok (split_on (CHR 0x2F) rest)"
    and ts: "ts = map unescape_token (split_on (CHR 0x2F) rest)"
    by (auto simp: parseJSONPointer_def decode_tokens_Inr split: if_split_asm)
  have "map escape_token ts = split_on (CHR 0x2F) rest"
    using ok unfolding ts map_map
    by (intro map_idI) (auto simp: list_all_iff intro!: escape_unescape dest: split_on_separator_free)
  then show ?thesis using Cons c ts format_pointer_join [of ts] by (simp add: join_split)
qed (simp add: parseJSONPointer_def format_pointer_def)

subsection \<open>Array indices\<close>

lemma parse_index_append:
  "parseArrayIndex token n True = Inr (i, app) \<Longrightarrow> 0 \<le> n \<Longrightarrow>
     0 \<le> i \<and> i \<le> n \<and> (app \<longleftrightarrow> token = ''-'') \<and> (app \<longrightarrow> i = n)"
  by (auto simp: parseArrayIndex_def split: option.split_asm if_split_asm)

lemma parse_index_at:
  "parseArrayIndex token n False = Inr (i, app) \<Longrightarrow>
     0 \<le> i \<and> i < n \<and> \<not> app \<and> token \<noteq> ''-'' \<and> atoi token = Some i"
  by (auto simp: parseArrayIndex_def split: option.split_asm if_split_asm)

lemma parse_index_shrink:
  "parseArrayIndex token n True = Inr (i, False) \<Longrightarrow> i < m \<Longrightarrow> parseArrayIndex token m False = Inr (i, False)"
  by (auto simp: parseArrayIndex_def split: option.split_asm if_split_asm)

lemma parse_index_grow:
  "parseArrayIndex token n False = Inr (i, app) \<Longrightarrow> n \<le> m \<Longrightarrow> parseArrayIndex token m True = Inr (i, False)"
  by (auto simp: parseArrayIndex_def split: option.split_asm if_split_asm)

end
