(* ===== verification/Json_Patch_Laws.thy ===== *)
theory Json_Patch_Laws
  imports Json_Patch
begin

text \<open>
  What JSON Patch does to a storage document: the value added at a path is read back, an
  added element is removed again, paths that leave the changed path at an object or at
  another element keep their value, and the validation agrees with a declarative
  description of storage documents.
\<close>

subsection \<open>Reading back and undoing\<close>

lemma obj_del_put: "obj_del k (obj_put k v m) = obj_del k m"
  by (induction m) (auto simp: obj_del_def)

lemma obj_del_fresh: "map_of m k = None \<Longrightarrow> obj_del k m = m"
  unfolding obj_del_def map_of_eq_None_iff by (rule filter_True) force

lemma get_add:
  "addJSONValue root ts v = Inr r \<Longrightarrow> ''-'' \<notin> set ts \<Longrightarrow> getJSONValue r ts = Inr v"
proof (induction root ts v arbitrary: r rule: addJSONValue.induct)
  case (2 root key rest v)
  show ?case
  proof (cases root)
    case (JArr vs)
    from 2(3) JArr obtain i app where i: "parseArrayIndex key (len vs) True = Inr (i, app)"
      by (auto split: sum.split_asm)
    with 2(4) have app: "\<not> app" and le: "0 \<le> i" "i \<le> len vs"
      by (auto dest: parse_index_append)
    show ?thesis
    proof (cases "rest = []")
      case True
      with 2(3) JArr i app le have "r = JArr (take (nat i) vs @ v # drop (nat i) vs)" by auto
      moreover have "parseArrayIndex key (1 + len vs) False = Inr (i, False)"
        using i app le by (auto intro: parse_index_shrink)
      ultimately show ?thesis using True le by (auto simp: nth_append nat_le_iff)
    next
      case False
      with 2(3) JArr i app obtain u where "i < len vs" "addJSONValue (vs ! nat i) rest v = Inr u"
        "r = JArr (vs[nat i := u])"
        by (auto split: if_split_asm sum.split_asm)
      then show ?thesis using 2(1) [OF JArr i refl False] i app False 2(4) le
        by (auto dest!: parse_index_shrink [of _ _ _ "len vs"] simp: nat_less_iff)
    qed
  qed (use 2 in \<open>auto split: if_split_asm option.split_asm sum.split_asm\<close>)
qed simp

text \<open>The last token of the path names no member that is there already.\<close>

fun fresh_at :: "json \<Rightarrow> string list \<Rightarrow> bool" where
  "fresh_at root [] = False"
| "fresh_at root (key # rest) =
    (case root of
       JObj ms \<Rightarrow> (case map_of ms key of None \<Rightarrow> rest = [] | Some child \<Rightarrow> fresh_at child rest)
     | JArr vs \<Rightarrow>
         (case parseArrayIndex key (len vs) True of
            Inl _ \<Rightarrow> False
          | Inr (i, _) \<Rightarrow> key \<noteq> ''-'' \<and> (rest = [] \<or> i < len vs \<and> fresh_at (vs ! nat i) rest))
     | _ \<Rightarrow> False)"

fun sorted_objects :: "json \<Rightarrow> bool" where
  "sorted_objects (JObj ms) = (obj_sorted ms \<and> list_all (\<lambda>m. sorted_objects (snd m)) ms)"
| "sorted_objects (JArr vs) = list_all sorted_objects vs"
| "sorted_objects v = True"

lemma canonical_sorted_objects: "canonical d v \<Longrightarrow> sorted_objects v"
  by (induction d v rule: canonical.induct) (auto simp: list_all_iff)

lemma obj_put_same: "obj_sorted m \<Longrightarrow> map_of m k = Some v \<Longrightarrow> obj_put k v m = m"
proof (induction m)
  case (Cons p m)
  show ?case
  proof (cases "fst p = k")
    case False
    with Cons.prems have "map_of m k = Some v" by (cases p) auto
    moreover from this have "(k, v) \<in> set m" by (rule map_of_SomeD)
    ultimately show ?thesis using Cons False by (cases p) (force simp: obj_sorted_def)
  qed (use Cons in \<open>cases p; auto\<close>)
qed simp

lemma obj_put_twice: "obj_put k v (obj_put k u m) = obj_put k v m"
  by (induction m) auto

lemma sorted_objects_member: "sorted_objects (JObj ms) \<Longrightarrow> map_of ms k = Some v \<Longrightarrow> sorted_objects v"
  by (force simp: list_all_iff dest: map_of_SomeD)

lemma remove_added:
  "addJSONValue root ts v = Inr r \<Longrightarrow> fresh_at root ts \<Longrightarrow> sorted_objects root \<Longrightarrow>
     removeJSONValue r ts = Inr root"
proof (induction root ts v arbitrary: r rule: addJSONValue.induct)
  case (2 root key rest v)
  show ?case
  proof (cases root)
    case (JArr vs)
    from 2(3,4) JArr obtain i app where i: "parseArrayIndex key (len vs) True = Inr (i, app)"
      "key \<noteq> ''-''"
      by (auto split: sum.split_asm)
    then have app: "\<not> app" and le: "0 \<le> i" "i \<le> len vs"
      by (auto dest: parse_index_append)
    show ?thesis
    proof (cases "rest = []")
      case True
      with 2(3) JArr i app le have r: "r = JArr (take (nat i) vs @ v # drop (nat i) vs)" by auto
      moreover have "parseArrayIndex key (1 + len vs) False = Inr (i, False)"
        using i app le by (auto intro: parse_index_shrink)
      ultimately show ?thesis using True le JArr by (auto simp: nat_le_iff min_absorb1 of_nat_diff)
    next
      case False
      with 2(3) JArr i app obtain u where u: "i < len vs" "addJSONValue (vs ! nat i) rest v = Inr u"
        "r = JArr (vs[nat i := u])"
        by (auto split: if_split_asm sum.split_asm)
      moreover have "fresh_at (vs ! nat i) rest" "sorted_objects (vs ! nat i)"
        using 2(4,5) JArr i app False u le by (auto simp: list_all_iff nat_less_iff)
      ultimately have "removeJSONValue u rest = Inr (vs ! nat i)"
        using 2(1) [OF JArr i(1) refl False] app by auto
      then show ?thesis using u i app False le JArr
        by (auto dest!: parse_index_shrink [of _ _ _ "len vs"] simp: nat_less_iff)
    qed
  next
    case (JObj ms)
    show ?thesis
    proof (cases "map_of ms key")
      case None
      with 2(3,4) JObj show ?thesis by (auto simp: obj_del_put obj_del_fresh)
    next
      case (Some child)
      with 2(4) JObj have "rest \<noteq> []" "fresh_at child rest" by (auto split: if_split_asm)
      with 2(2) [OF JObj _ Some] 2(3,5) JObj Some sorted_objects_member [of ms key child] show ?thesis
        by (auto simp: obj_put_twice obj_put_same split: sum.split_asm)
    qed
  qed (use 2 in auto)
qed simp

subsection \<open>Paths that an operation leaves alone\<close>

text \<open>
  The two paths part at an object with different keys or, above the changed element of an
  array, at different elements.
\<close>

fun parts_at :: "json \<Rightarrow> string list \<Rightarrow> string list \<Rightarrow> bool" where
  "parts_at root (t # ts) (u # us) =
    (case root of
       JObj ms \<Rightarrow> t \<noteq> u \<or> (case map_of ms t of None \<Rightarrow> False | Some child \<Rightarrow> parts_at child ts us)
     | JArr vs \<Rightarrow>
         (case (parseArrayIndex t (len vs) False, parseArrayIndex u (len vs) False) of
            (Inr (i, _), Inr (j, _)) \<Rightarrow> ts \<noteq> [] \<and> (i \<noteq> j \<or> parts_at (vs ! nat i) ts us)
          | _ \<Rightarrow> False)
     | _ \<Rightarrow> False)"
| "parts_at root _ _ = False"

lemma parse_index_same:
  "parseArrayIndex t n True = Inr (i, False) \<Longrightarrow> parseArrayIndex t n False = Inr (j, b) \<Longrightarrow> i = j"
  by (auto simp: parseArrayIndex_def split: option.split_asm if_split_asm)

lemma get_add_elsewhere:
  "addJSONValue root ts v = Inr r \<Longrightarrow> parts_at root ts us \<Longrightarrow> getJSONValue r us = getJSONValue root us"
proof (induction root ts v arbitrary: r us rule: addJSONValue.induct)
  case (2 root key rest v)
  from 2(4) obtain u us' where us: "us = u # us'" by (cases us) auto
  show ?case
  proof (cases root)
    case (JArr vs)
    from 2(4) JArr us obtain i j b c where ij: "parseArrayIndex key (len vs) False = Inr (i, b)"
      "parseArrayIndex u (len vs) False = Inr (j, c)" "rest \<noteq> []"
      "i \<noteq> j \<or> parts_at (vs ! nat i) rest us'"
      by (auto split: sum.split_asm)
    then have ia: "parseArrayIndex key (len vs) True = Inr (i, False)" and
      b: "0 \<le> i" "i < len vs" "0 \<le> j" "j < len vs"
      by (auto dest: parse_index_grow parse_index_at)
    with 2(3) JArr ij obtain w where w: "addJSONValue (vs ! nat i) rest v = Inr w"
      "r = JArr (vs[nat i := w])"
      by (auto split: sum.split_asm)
    show ?thesis
    proof (cases "i = j")
      case True
      with ij have "parts_at (vs ! nat i) rest us'" by simp
      from 2(1) [OF JArr ia refl ij(3) _ w(1) this] b have
        "getJSONValue w us' = getJSONValue (vs ! nat i) us'" by simp
      then show ?thesis using True JArr us ij w b by (auto simp: nat_less_iff)
    next
      case False
      then have "nat i \<noteq> nat j" using b by simp
      then show ?thesis using JArr us ij w b by auto
    qed
  next
    case (JObj ms)
    then show ?thesis using 2 us
      by (auto split: if_split_asm option.split_asm sum.split_asm option.split)
  qed (use 2 us in auto)
qed simp

subsection \<open>What a storage document is\<close>

text \<open>
  A storage value is JSON in which each object with a \<open>liveblocksType\<close> member is a typed
  node: its type is one of the three live types and its \<open>data\<close> member has their shape.
\<close>

inductive storage_value :: "json \<Rightarrow> bool" where
  scalar: "\<lbrakk>\<And>ms. v \<noteq> JObj ms; \<And>vs. v \<noteq> JArr vs\<rbrakk> \<Longrightarrow> storage_value v"
| array: "(\<And>v. v \<in> set vs \<Longrightarrow> storage_value v) \<Longrightarrow> storage_value (JArr vs)"
| plain: "\<lbrakk>map_of ms storageTypeKey = None; \<And>k v. (k, v) \<in> set ms \<Longrightarrow> storage_value v\<rbrakk>
    \<Longrightarrow> storage_value (JObj ms)"
| live_map: "\<lbrakk>map_of ms storageTypeKey = Some (JStr t); t \<in> {storageTypeLiveObject, storageTypeLiveMap};
      map_of ms storageDataKey = Some (JObj cs); \<And>k v. (k, v) \<in> set cs \<Longrightarrow> storage_value v\<rbrakk>
    \<Longrightarrow> storage_value (JObj ms)"
| live_list: "\<lbrakk>map_of ms storageTypeKey = Some (JStr storageTypeLiveList);
      map_of ms storageDataKey = Some (JArr vs); \<And>v. v \<in> set vs \<Longrightarrow> storage_value v\<rbrakk>
    \<Longrightarrow> storage_value (JObj ms)"

inductive_cases storage_array: "storage_value (JArr vs)"
inductive_cases storage_object: "storage_value (JObj ms)"

lemmas storage_types = storageTypeLiveObject_def storageTypeLiveMap_def storageTypeLiveList_def

text \<open>At the root a typed node is a live object.\<close>

definition root_type_ok :: "(string \<times> json) list \<Rightarrow> bool" where
  "root_type_ok ms \<longleftrightarrow>
    (case map_of ms storageTypeKey of None \<Rightarrow> True | Some t \<Rightarrow> t = JStr storageTypeLiveObject)"

lemma typed_data_iff:
  "validateStorageTypedData t d = None \<longleftrightarrow>
    (if t = storageTypeLiveObject \<or> t = storageTypeLiveMap
     then (\<exists>cs. d = JObj cs \<and> (\<forall>(k, v) \<in> set cs. validateStorageValue v False = None))
     else if t = storageTypeLiveList
     then (\<exists>vs. d = JArr vs \<and> (\<forall>v \<in> set vs. validateStorageValue v False = None))
     else True)"
  by (subst validateStorageTypedData.simps) (auto split: json.split)

lemma validate_array_iff:
  "validateStorageValue (JArr vs) root = None \<longleftrightarrow> (\<forall>v \<in> set vs. validateStorageValue v False = None)"
  by (subst validateStorageValue.simps) auto

lemma validate_object_iff:
  "validateStorageValue (JObj ms) root = None \<longleftrightarrow>
    (case storageTypedNode ms of
       Inl _ \<Rightarrow> False
     | Inr None \<Rightarrow> \<forall>(k, v) \<in> set ms. validateStorageValue v False = None
     | Inr (Some (t, d)) \<Rightarrow>
         (root \<longrightarrow> t = storageTypeLiveObject) \<and> validateStorageTypedData t d = None)"
  by (subst validateStorageValue.simps) (auto split: sum.split option.split)

lemma validate_sound:
  "(validateStorageValue v root = None \<longrightarrow>
      storage_value v \<and> (root \<longrightarrow> (\<forall>ms. v = JObj ms \<longrightarrow> root_type_ok ms)))"
  "(validateStorageTypedData t d = None \<longrightarrow>
      (\<forall>cs k w. d = JObj cs \<longrightarrow> t \<noteq> storageTypeLiveList \<longrightarrow>
         t \<in> {storageTypeLiveObject, storageTypeLiveMap} \<longrightarrow> (k, w) \<in> set cs \<longrightarrow> storage_value w) \<and>
      (\<forall>vs w. d = JArr vs \<longrightarrow> t = storageTypeLiveList \<longrightarrow> w \<in> set vs \<longrightarrow> storage_value w))"
proof (induction v root and t d rule: validateStorageValue_validateStorageTypedData.induct)
  case (1 u root)
  show ?case
  proof (cases u)
    case (JObj ms)
    show ?thesis
    proof (intro impI)
      assume ok: "validateStorageValue u root = None"
      show "storage_value u \<and> (root \<longrightarrow> (\<forall>ms. u = JObj ms \<longrightarrow> root_type_ok ms))"
      proof (cases "storageTypedNode ms")
        case (Inl e)
        with ok JObj show ?thesis by (auto simp: validate_object_iff)
      next
        case (Inr n)
        show ?thesis
        proof (cases n)
          case None
          with ok JObj Inr have "\<forall>m \<in> set ms. validateStorageValue (snd m) False = None"
            by (force simp: validate_object_iff)
          with 1(2) [OF JObj Inr None] have all: "(k, v) \<in> set ms \<Longrightarrow> storage_value v" for k v
            by force
          from Inr None have "map_of ms storageTypeKey = None"
            by (auto simp: storageTypedNode_def split: option.split_asm json.split_asm if_split_asm)
          with all JObj show ?thesis by (auto intro!: plain simp: root_type_ok_def)
        next
          case (Some p)
          obtain t d where p: "p = (t, d)" by (cases p)
          with Inr Some have n: "map_of ms storageTypeKey = Some (JStr t)"
            "map_of ms storageDataKey = Some d"
            "t \<in> {storageTypeLiveObject, storageTypeLiveList, storageTypeLiveMap}"
            by (auto simp: storageTypedNode_def split: option.split_asm json.split_asm if_split_asm)
          from ok JObj Inr Some p have root: "root \<Longrightarrow> t = storageTypeLiveObject"
            and data: "validateStorageTypedData t d = None"
            by (auto simp: validate_object_iff)
          from data n(3) consider (m) cs where "d = JObj cs" "t \<in> {storageTypeLiveObject, storageTypeLiveMap}"
            | (l) vs where "d = JArr vs" "t = storageTypeLiveList"
            by (auto simp: typed_data_iff split: if_split_asm)
          then have "storage_value (JObj ms)"
          proof cases
            case m
            with 1(3) [OF JObj Inr Some p [symmetric]] data root n show ?thesis
              by (intro live_map [of ms t cs]) (auto simp: storage_types)
          next
            case l
            with 1(3) [OF JObj Inr Some p [symmetric]] data root n show ?thesis
              by (intro live_list [of ms vs]) (auto simp: storage_types)
          qed
          with JObj root n show ?thesis by (auto simp: root_type_ok_def)
        qed
      qed
    qed
  next
    case (JArr vs)
    with 1(1) [OF JArr] show ?thesis by (auto simp: validate_array_iff intro: array)
  qed (auto intro: scalar)
next
  case (2 t d)
  then show ?case by (auto simp: typed_data_iff)
qed

lemma validate_complete:
  "storage_value v \<Longrightarrow>
    validateStorageValue v root = None \<longleftrightarrow> (root \<longrightarrow> (\<forall>ms. v = JObj ms \<longrightarrow> root_type_ok ms))"
proof (induction arbitrary: root rule: storage_value.induct)
  case (scalar v)
  then show ?case by (cases v) (auto simp: validateStorageValue.simps)
next
  case (array vs)
  then show ?case by (simp add: validate_array_iff)
next
  case (plain ms)
  then show ?case
    by (fastforce simp: validate_object_iff storageTypedNode_def root_type_ok_def)
next
  case (live_map ms t cs)
  then show ?case
    by (fastforce simp: validate_object_iff storageTypedNode_def root_type_ok_def typed_data_iff)
next
  case (live_list ms vs)
  then show ?case
    by (auto simp: validate_object_iff storageTypedNode_def root_type_ok_def typed_data_iff storage_types)
qed

definition storage_document :: "bytes \<Rightarrow> bool" where
  "storage_document doc \<longleftrightarrow>
    (\<exists>ms. json_decode doc = Some (JObj ms) \<and> storage_value (JObj ms) \<and> root_type_ok ms)"

lemma ValidateStorageDocument_iff: "ValidateStorageDocument doc = None \<longleftrightarrow> storage_document doc"
proof -
  have "validateStorageValue (JObj ms) True = None \<longleftrightarrow> storage_value (JObj ms) \<and> root_type_ok ms" for ms
    using validate_sound(1) [of "JObj ms" True] validate_complete [of "JObj ms" True] by auto
  then show ?thesis
    by (auto simp: ValidateStorageDocument_def storage_document_def split: option.split json.split)
qed

subsection \<open>Whole patches\<close>

lemma applyOperations_append:
  "applyOperations root (ops @ ops') =
    (case applyOperations root ops of Inl e \<Rightarrow> Inl e | Inr r \<Rightarrow> applyOperations r ops')"
  by (induction root ops rule: applyOperations.induct) (auto split: sum.split)

lemma space_len_ascii:
  "c \<noteq> CHR 0x20 \<Longrightarrow> byte c < 0x80 \<Longrightarrow> \<not> in_range 0x09 0x0D c \<Longrightarrow> space_len (c # r) = 0"
  by (auto simp: space_len_def split: list.split)

lemma trim_space_hd:
  assumes "c \<noteq> CHR 0x20" "byte c < 0x80" "\<not> in_range 0x09 0x0D c"
  shows "\<exists>r'. trim_space (c # r) = c # r'"
proof -
  have keep: "space_tail (c # u) < length (c # u)" for u
  proof -
    have "space_len (c # u) = 0" using assms by (rule space_len_ascii)
    then show ?thesis by (auto simp: space_tail_def le_eq_less_or_eq)
  qed
  have "\<exists>u'. trim_right (c # u) = c # u'" for u
  proof (induction "length u" arbitrary: u rule: less_induct)
    case less
    show ?case
    proof (cases "space_tail (c # u) = 0")
      case False
      then have "take (length (c # u) - space_tail (c # u)) (c # u)
          = c # take (length u - space_tail (c # u)) u"
        using keep [of u] by (cases "length (c # u) - space_tail (c # u)") (auto simp: Suc_diff_le)
      then show ?thesis using False less [of "take (length u - space_tail (c # u)) u"] keep [of u]
        by (subst trim_right.simps) auto
    qed (simp add: trim_right_id)
  qed
  then show ?thesis using space_len_ascii [OF assms] by (simp add: trim_space_def trim_left_id)
qed

text \<open>Numbers keep a text that JSON accepts, also through every operation.\<close>

fun number_texts :: "json \<Rightarrow> bool" where
  "number_texts (JNum t) = number_lit t"
| "number_texts (JArr vs) = list_all number_texts vs"
| "number_texts (JObj ms) = list_all (\<lambda>m. number_texts (snd m)) ms"
| "number_texts v = True"

lemma canonical_number_texts: "canonical d v \<Longrightarrow> number_texts v"
  by (induction d v rule: canonical.induct) (auto simp: list_all_iff)

lemma decode_number_texts: "json_decode s = Some v \<Longrightarrow> number_texts v"
  by (blast intro: canonical_number_texts canonical_decode)

lemma number_texts_put:
  "number_texts (JObj ms) \<Longrightarrow> number_texts v \<Longrightarrow> number_texts (JObj (obj_put k v ms))"
  by (induction ms) (auto split: if_splits)

lemma number_texts_member:
  "number_texts (JObj ms) \<Longrightarrow> map_of ms k = Some v \<Longrightarrow> number_texts v"
  by (force simp: list_all_iff dest: map_of_SomeD)

lemma number_texts_set: "number_texts (JArr vs) \<Longrightarrow> number_texts v \<Longrightarrow> number_texts (JArr (vs[i := v]))"
  by (auto simp: list_all_iff dest!: set_update_subset_insert [THEN subsetD])

lemma number_texts_nth: "number_texts (JArr vs) \<Longrightarrow> i < len vs \<Longrightarrow> 0 \<le> i \<Longrightarrow> number_texts (vs ! nat i)"
  by (auto simp: list_all_length nat_less_iff)

lemma number_texts_get:
  "getJSONValue root ts = Inr v \<Longrightarrow> number_texts root \<Longrightarrow> number_texts v"
proof (induction root ts rule: getJSONValue.induct)
  case (2 root key rest)
  show ?case
  proof (cases root)
    case (JArr vs)
    with 2(3) obtain i app where i: "parseArrayIndex key (len vs) False = Inr (i, app)"
      "getJSONValue (vs ! nat i) rest = Inr v"
      by (auto split: sum.split_asm)
    moreover have "number_texts (vs ! nat i)"
      using number_texts_nth [of vs i] 2(4) JArr parse_index_at [OF i(1)] by auto
    ultimately show ?thesis using 2(1) [OF JArr i(1) refl] by simp
  next
    case (JObj ms)
    with 2 show ?thesis
      by (auto split: option.split_asm simp del: number_texts.simps intro: number_texts_member)
  qed (use 2 in auto)
qed simp

lemma number_texts_add:
  "addJSONValue root ts v = Inr r \<Longrightarrow> number_texts root \<Longrightarrow> number_texts v \<Longrightarrow> number_texts r"
proof (induction root ts v arbitrary: r rule: addJSONValue.induct)
  case (2 root key rest v)
  show ?case
  proof (cases root)
    case (JArr vs)
    with 2(3) obtain i app where i: "parseArrayIndex key (len vs) True = Inr (i, app)"
      by (auto split: sum.split_asm)
    show ?thesis
    proof (cases "rest = []")
      case True
      with i JArr 2(3-5) show ?thesis
        by (auto simp: list_all_iff split: if_split_asm dest!: in_set_takeD in_set_dropD)
    next
      case False
      with i JArr 2(3) obtain u where "\<not> (app \<or> len vs \<le> i)"
        "addJSONValue (vs ! nat i) rest v = Inr u" "r = JArr (vs[nat i := u])"
        by (auto split: if_split_asm sum.split_asm)
      moreover from this have "number_texts (vs ! nat i)"
        using number_texts_nth [of vs i] 2(4) JArr parse_index_append [OF i] by simp
      ultimately show ?thesis
        using 2(1) [OF JArr i refl False, of u] 2(4,5) JArr number_texts_set by simp
    qed
  next
    case (JObj ms)
    show ?thesis
    proof (cases "rest = []")
      case True
      with 2(3-5) JObj number_texts_put show ?thesis by fastforce
    next
      case False
      with 2(3) JObj obtain child u where "map_of ms key = Some child"
        "addJSONValue child rest v = Inr u" "r = JObj (obj_put key u ms)"
        by (auto split: option.split_asm sum.split_asm)
      then show ?thesis
        using 2(2) [OF JObj False, of child u] 2(4,5) JObj number_texts_put number_texts_member by blast
    qed
  qed (use 2 in auto)
qed simp

lemma number_texts_remove:
  "removeJSONValue root ts = Inr r \<Longrightarrow> number_texts root \<Longrightarrow> number_texts r"
proof (induction root ts arbitrary: r rule: removeJSONValue.induct)
  case (2 root key rest)
  show ?case
  proof (cases root)
    case (JArr vs)
    with 2(3) obtain i app where i: "parseArrayIndex key (len vs) False = Inr (i, app)"
      by (auto split: sum.split_asm)
    show ?thesis
    proof (cases "rest = []")
      case True
      with i JArr 2(3,4) show ?thesis
        by (auto simp: list_all_iff dest!: in_set_takeD in_set_dropD)
    next
      case False
      with i JArr 2(3) obtain u where
        "removeJSONValue (vs ! nat i) rest = Inr u" "r = JArr (vs[nat i := u])"
        by (auto split: sum.split_asm)
      moreover have "number_texts (vs ! nat i)"
        using number_texts_nth [of vs i] 2(4) JArr parse_index_at [OF i] by simp
      ultimately show ?thesis
        using 2(1) [OF JArr i refl False, of u] 2(4) JArr number_texts_set by simp
    qed
  next
    case (JObj ms)
    show ?thesis
    proof (cases "rest = []")
      case True
      with 2(3,4) JObj show ?thesis
        by (auto split: option.split_asm simp: obj_del_def list_all_iff)
    next
      case False
      with 2(3) JObj obtain child u where "map_of ms key = Some child"
        "removeJSONValue child rest = Inr u" "r = JObj (obj_put key u ms)"
        by (auto split: option.split_asm sum.split_asm)
      then show ?thesis
        using 2(2) [OF JObj _ False, of child u] 2(4) JObj number_texts_put number_texts_member by blast
    qed
  qed (use 2 in auto)
qed simp

lemma number_texts_clone: "number_texts (cloneJSONValue v)"
  by (auto simp: cloneJSONValue_def decode_number_texts split: option.split)

lemma operationValue_number_texts: "operationValue op = Inr v \<Longrightarrow> number_texts v"
  by (auto simp: operationValue_def decode_number_texts split: if_split_asm option.split_asm)

lemma number_texts_operation:
  "applyJSONPatchOperation root op = Inr r \<Longrightarrow> number_texts root \<Longrightarrow> number_texts r"
  by (auto simp: applyJSONPatchOperation_def Let_def
      split: sum.split_asm if_split_asm
      intro: number_texts_add number_texts_remove number_texts_get number_texts_clone
        operationValue_number_texts)

lemma number_texts_operations:
  "applyOperations root ops = Inr r \<Longrightarrow> number_texts root \<Longrightarrow> number_texts r"
  by (induction root ops rule: applyOperations.induct)
     (auto split: sum.split_asm intro: number_texts_operation)

lemma isJSONObject_marshal:
  assumes "number_texts v"
  shows "isJSONObject (json_marshal v) \<longleftrightarrow> (\<exists>ms. v = JObj ms)"
proof -
  have hd: "\<exists>r. json_marshal v = c # r \<Longrightarrow> byte c < 0x80 \<Longrightarrow> c \<noteq> CHR 0x20 \<Longrightarrow>
      \<not> in_range 0x09 0x0D c \<Longrightarrow> isJSONObject (json_marshal v) \<longleftrightarrow> c = CHR 0x7B" for c
  proof -
    assume "\<exists>r. json_marshal v = c # r" and c: "byte c < 0x80" "c \<noteq> CHR 0x20" "\<not> in_range 0x09 0x0D c"
    then obtain r where "json_marshal v = c # r" by blast
    moreover obtain r' where "trim_space (c # r) = c # r'" using trim_space_hd [OF c(2,1,3)] by blast
    ultimately show ?thesis by (simp add: isJSONObject_def)
  qed
  show ?thesis
  proof (cases v)
    case (JNum t)
    with assms number_lit_hd [of t] obtain c u where t: "t = c # u" "is_digit c \<or> c = CHR ''-''"
      by auto
    then have "byte c < 0x80 \<and> c \<noteq> CHR 0x20 \<and> \<not> in_range 0x09 0x0D c \<and> c \<noteq> CHR 0x7B"
      by (auto simp: is_digit_def in_range_def byte_def)
    with hd [of c] t JNum show ?thesis by (auto simp: json_marshal_def)
  qed (use hd [of "CHR ''n''"] hd [of "CHR ''t''"] hd [of "CHR ''f''"] hd [of quote_c]
      hd [of "CHR ''[''"] hd [of "CHR 0x7B"] in
      \<open>auto simp: json_marshal_def in_range_def byte_def split: if_split_asm\<close>)
qed

lemma ApplyJSONPatch_Inr:
  "ApplyJSONPatch doc ops = Inr raw \<longleftrightarrow>
    (\<exists>root ms. json_decode doc = Some root \<and> applyOperations root ops = Inr (JObj ms)
       \<and> raw = json_marshal (JObj ms))"
proof (cases "json_decode doc")
  case (Some root)
  show ?thesis
  proof (cases "applyOperations root ops")
    case (Inr v)
    with Some have "number_texts v" using number_texts_operations decode_number_texts by blast
    from isJSONObject_marshal [OF this] Some Inr show ?thesis by (auto simp: ApplyJSONPatch_def Let_def)
  qed (simp add: ApplyJSONPatch_def Some)
qed (simp add: ApplyJSONPatch_def)

end
