(* ===== verification/Go_Sha256.thy ===== *)
theory Go_Sha256
  imports Go_Prelude
begin

text \<open>
  \<open>sha256.Sum256\<close> and \<open>hex.EncodeToString\<close>, with which the storage operations are
  fingerprinted (FIPS 180-4). The proofs about the program only use that a fingerprint is a
  non-empty string that is a function of its input.
\<close>

unbundle bit_operations_syntax

type_synonym w32 = "32 word"

text \<open>The tables of the standard, in decimal.\<close>

definition sha_k :: "w32 list" where
  "sha_k =
    [1116352408, 1899447441, 3049323471, 3921009573, 961987163, 1508970993, 2453635748, 2870763221,
     3624381080, 310598401, 607225278, 1426881987, 1925078388, 2162078206, 2614888103, 3248222580,
     3835390401, 4022224774, 264347078, 604807628, 770255983, 1249150122, 1555081692, 1996064986,
     2554220882, 2821834349, 2952996808, 3210313671, 3336571891, 3584528711, 113926993, 338241895,
     666307205, 773529912, 1294757372, 1396182291, 1695183700, 1986661051, 2177026350, 2456956037,
     2730485921, 2820302411, 3259730800, 3345764771, 3516065817, 3600352804, 4094571909, 275423344,
     430227734, 506948616, 659060556, 883997877, 958139571, 1322822218, 1537002063, 1747873779,
     1955562222, 2024104815, 2227730452, 2361852424, 2428436474, 2756734187, 3204031479, 3329325298]"

definition sha_init :: "w32 list" where
  "sha_init =
    [1779033703, 3144134277, 1013904242, 2773480762, 1359893119, 2600822924, 528734635, 1541459225]"

definition ror :: "nat \<Rightarrow> w32 \<Rightarrow> w32" where
  "ror n x = word_rotr n x"

fun be_bytes :: "nat \<Rightarrow> int \<Rightarrow> string" where
  "be_bytes 0 n = []"
| "be_bytes (Suc k) n = be_bytes k (n div 256) @ [char_of (n mod 256)]"

definition be_word :: "string \<Rightarrow> w32" where
  "be_word s = foldl (\<lambda>n c. 256 * n + of_char c) 0 s"

definition sha_pad :: "string \<Rightarrow> string" where
  "sha_pad s =
    s @ CHR 0x80 # replicate ((119 - length s mod 64) mod 64) (CHR 0x00) @ be_bytes 8 (8 * len s)"

function chunks :: "nat \<Rightarrow> 'a list \<Rightarrow> 'a list list" where
  "chunks n xs = (if n = 0 \<or> xs = [] then [] else take n xs # chunks n (drop n xs))"
  by pat_completeness auto
termination by (relation "measure (\<lambda>(n, xs). length xs)") auto

declare chunks.simps [simp del]

text \<open>The message schedule is built newest word first.\<close>

fun extend :: "nat \<Rightarrow> w32 list \<Rightarrow> w32 list" where
  "extend 0 ws = ws"
| "extend (Suc n) ws =
    (let x = ws ! 14; y = ws ! 1;
         s0 = ror 7 x XOR ror 18 x XOR drop_bit 3 x;
         s1 = ror 17 y XOR ror 19 y XOR drop_bit 10 y
     in extend n ((ws ! 15 + s0 + ws ! 6 + s1) # ws))"

definition sha_round :: "w32 list \<Rightarrow> w32 \<times> w32 \<Rightarrow> w32 list" where
  "sha_round v kw =
    (case v of
       [a, b, c, d, e, f, g, h] \<Rightarrow>
         (let s1 = ror 6 e XOR ror 11 e XOR ror 25 e;
              ch = (e AND f) XOR (NOT e AND g);
              t1 = h + s1 + ch + fst kw + snd kw;
              s0 = ror 2 a XOR ror 13 a XOR ror 22 a;
              maj = (a AND b) XOR (a AND c) XOR (b AND c)
          in [t1 + s0 + maj, a, b, c, d + t1, e, f, g])
     | _ \<Rightarrow> v)"

definition sha_block :: "w32 list \<Rightarrow> string \<Rightarrow> w32 list" where
  "sha_block hs blk =
    (let ws = rev (extend 48 (rev (map be_word (chunks 4 blk))))
     in map2 (+) hs (foldl sha_round hs (zip sha_k ws)))"

definition sha256 :: "string \<Rightarrow> string" where
  "sha256 s =
    concat (map (\<lambda>w. be_bytes 4 (uint w)) (foldl sha_block sha_init (chunks 64 (sha_pad s))))"

definition hex_nibble :: "int \<Rightarrow> char" where
  "hex_nibble n = (if n < 10 then char_of (0x30 + n) else char_of (0x57 + n))"

definition hex_encode :: "string \<Rightarrow> string" where
  "hex_encode s =
    concat (map (\<lambda>c. [hex_nibble (of_char c div 16), hex_nibble (of_char c mod 16)]) s)"

lemma length_be_bytes [simp]: "length (be_bytes k n) = k"
  by (induction k arbitrary: n) auto

lemma length_sha_round: "length (sha_round v kw) = length v"
  by (auto simp: sha_round_def Let_def split: list.split)

lemma length_sha_rounds: "length (foldl sha_round v kws) = length v"
  by (induction kws arbitrary: v) (auto simp: length_sha_round)

lemma length_sha_block: "length (sha_block hs blk) = length hs"
  by (simp add: sha_block_def Let_def length_sha_rounds)

lemma length_sha_blocks: "length (foldl sha_block hs bs) = length hs"
  by (induction bs arbitrary: hs) (auto simp: length_sha_block)

lemma length_concat_const: "(\<And>x. x \<in> set xs \<Longrightarrow> length (f x) = k) \<Longrightarrow> length (concat (map f xs)) = length xs * k"
  by (induction xs) auto

lemma length_sha256: "length (sha256 s) = 32"
  unfolding sha256_def
  by (subst length_concat_const [where k = 4]) (simp_all add: length_sha_blocks sha_init_def)

lemma length_hex_encode: "length (hex_encode s) = 2 * length s"
  unfolding hex_encode_def by (subst length_concat_const [where k = 2]) simp_all

lemma hex_sha256_nonempty [simp]: "hex_encode (sha256 s) \<noteq> []"
proof -
  have "length (hex_encode (sha256 s)) = 64" by (simp add: length_hex_encode length_sha256)
  then show ?thesis by auto
qed

end
