(* ===== verification/Engine_Storage.thy ===== *)
theory Engine_Storage
  imports Engine_Events Json_Patch_Laws Go_Sha256
begin

text \<open>
  Storage documents of the engine: setting, patching and deleting a document with its
  sequence number, the compare-and-set on an expected sequence, the record of operation ids
  that makes a retried request return the first result, and the recording of mutations that
  other nodes made.

  The plans of storage mutations (the mutation, who is told of it and the event for the
  other nodes), and the recording of a mutation that another node made.
\<close>

subsection \<open>Mutations and fingerprints\<close>

definition validStorageMutationKind :: "string \<Rightarrow> bool" where
  "validStorageMutationKind kind \<longleftrightarrow>
    kind = StorageMutationSet \<or> kind = StorageMutationPatch \<or> kind = StorageMutationDelete"

definition newStorageMutation ::
  "string \<Rightarrow> bytes \<Rightarrow> JSONPatchOperation list \<Rightarrow> StorageMutationOptions \<Rightarrow> StorageMutation" where
  "newStorageMutation kind document operations options =
    \<lparr>sm_Kind = kind, sm_OpID = smo_OpID options, sm_OriginConnID = smo_OriginConnID options,
     sm_Sequence = smo_Sequence options, sm_Operations = operations, sm_Document = document\<rparr>"

definition NewStorageMutation ::
  "string \<Rightarrow> bytes \<Rightarrow> JSONPatchOperation list \<Rightarrow> StorageMutationOptions
     \<Rightarrow> engine_error + StorageMutation" where
  "NewStorageMutation kind document operations options =
    (if \<not> validStorageMutationKind kind then Inl ErrStorageMutationKind
     else
       (let operations = (if kind = StorageMutationSet \<or> kind = StorageMutationDelete then [] else operations);
            document = (if kind = StorageMutationDelete then [] else document)
        in Inr (newStorageMutation kind document operations options)))"

definition storageDocumentFingerprint :: "string \<Rightarrow> bytes \<Rightarrow> string" where
  "storageDocumentFingerprint kind document = hex_encode (sha256 (kind @ CHR 0x00 # document))"

definition storagePatchFingerprint :: "JSONPatchOperation list \<Rightarrow> engine_error + string" where
  "storagePatchFingerprint operations =
    (case marshal_operations operations of
       None \<Rightarrow> Inl (ErrCluster ErrJSON)
     | Some raw \<Rightarrow> Inr (hex_encode (sha256 (StorageMutationPatch @ CHR 0x00 # raw))))"

definition storageDeleteFingerprint :: string where
  "storageDeleteFingerprint = hex_encode (sha256 (StorageMutationDelete @ [CHR 0x00]))"

abbreviation conflict :: engine_error where "conflict \<equiv> ErrCluster ErrStorageConflict"
abbreviation not_found :: engine_error where "not_found \<equiv> ErrCluster ErrStorageNotFound"
abbreviation too_large :: engine_error where "too_large \<equiv> ErrCluster (ErrStoragePatch ResultTooLarge)"

text \<open>
  The recorded result of an operation id: an error when the id was used for a different
  operation, the first result when it is a repetition.
\<close>

definition storageOpMutationLocked ::
  "Engine \<Rightarrow> room_id \<Rightarrow> string \<Rightarrow> string \<Rightarrow> engine_error + StorageMutation option" where
  "storageOpMutationLocked e room opID fingerprint =
    (if opID = [] then Inr None
     else case fmlookup (gm_map (storageOps e) room) opID of
            None \<Rightarrow> Inr None
          | Some rec \<Rightarrow>
              if op_Fingerprint rec = [] then Inr None
              else if op_Fingerprint rec \<noteq> fingerprint then Inl conflict
              else Inr (Some (op_Mutation rec)))"

definition rememberStorageOpLocked ::
  "room_id \<Rightarrow> string \<Rightarrow> string \<Rightarrow> StorageMutation \<Rightarrow> Engine \<Rightarrow> Engine" where
  "rememberStorageOpLocked room opID fingerprint mutation e =
    (if opID = [] then e
     else e\<lparr>storageOps := gm_put room opID
            \<lparr>op_Fingerprint = fingerprint, op_Mutation = mutation\<rparr> (storageOps e)\<rparr>)"

subsection \<open>Reading\<close>

definition document_of :: "Engine \<Rightarrow> room_id \<Rightarrow> bytes" where
  "document_of e room = gm_bytes (storage e) room"

definition seq_of :: "Engine \<Rightarrow> room_id \<Rightarrow> u64" where
  "seq_of e room = gm_u64 (storageSeq e) room"

definition GetStorageWithSequence :: "Engine \<Rightarrow> room_id \<Rightarrow> engine_error + bytes \<times> u64" where
  "GetStorageWithSequence e room =
    (if document_of e room = [] then Inl not_found else Inr (document_of e room, seq_of e room))"

definition GetStorage :: "Engine \<Rightarrow> room_id \<Rightarrow> engine_error + bytes" where
  "GetStorage e room =
    (case GetStorageWithSequence e room of Inl err \<Rightarrow> Inl err | Inr (document, _) \<Rightarrow> Inr document)"

subsection \<open>The sequence of a mutation\<close>

text \<open>
  The checks on the sequence that every writing operation makes, and the sequence it
  stores: the given one if it is later than the current one, or the next one.
\<close>

definition next_sequence :: "u64 \<Rightarrow> StorageMutationOptions \<Rightarrow> engine_error + u64" where
  "next_sequence currentSequence options =
    (if smo_ExpectedSequenceSet options \<and> currentSequence \<noteq> smo_ExpectedSequence options then Inl conflict
     else if smo_Sequence options > 0 \<and> smo_Sequence options \<le> currentSequence then Inl conflict
     else Inr (if smo_Sequence options = 0 then currentSequence + 1 else smo_Sequence options))"

definition put_document :: "room_id \<Rightarrow> bytes \<Rightarrow> u64 \<Rightarrow> Engine \<Rightarrow> Engine" where
  "put_document room document sequence e =
    e\<lparr>storage := fmupd room document (storage e), storageSeq := fmupd room sequence (storageSeq e)\<rparr>"

definition drop_document :: "room_id \<Rightarrow> u64 \<Rightarrow> Engine \<Rightarrow> Engine" where
  "drop_document room sequence e =
    e\<lparr>storage := fmdrop room (storage e), storageSeq := fmupd room sequence (storageSeq e)\<rparr>"

text \<open>A document that is set is compacted, within the limit, and a storage document.\<close>

definition checked_document :: "bytes \<Rightarrow> int \<Rightarrow> engine_error + bytes" where
  "checked_document document maxBytes =
    (case json_compact document of
       None \<Rightarrow> Inl (ErrCluster ErrJSON)
     | Some compacted \<Rightarrow>
         if maxBytes > 0 \<and> len compacted > maxBytes then Inl too_large
         else (case ValidateStorageDocument compacted of
                 Some reason \<Rightarrow> Inl (ErrCluster (ErrStoragePatch reason))
               | None \<Rightarrow> Inr compacted))"

definition patched_document :: "bytes \<Rightarrow> JSONPatchOperation list \<Rightarrow> int \<Rightarrow> engine_error + bytes" where
  "patched_document current operations maxBytes =
    (case ApplyJSONPatch current operations of
       Inl reason \<Rightarrow> Inl (ErrCluster (ErrStoragePatch reason))
     | Inr patched \<Rightarrow>
         if maxBytes > 0 \<and> len patched > maxBytes then Inl too_large
         else (case ValidateStorageDocument patched of
                 Some reason \<Rightarrow> Inl (ErrCluster (ErrStoragePatch reason))
               | None \<Rightarrow> Inr patched))"

subsection \<open>Set\<close>

definition SetStorageWithOptions ::
  "Engine \<Rightarrow> room_id \<Rightarrow> bytes \<Rightarrow> StorageMutationOptions \<Rightarrow> (engine_error + bytes \<times> u64) \<times> Engine" where
  "SetStorageWithOptions e room document options =
    (case checked_document document (smo_MaxBytes options) of
       Inl err \<Rightarrow> (Inl err, e)
     | Inr compacted \<Rightarrow>
         (case next_sequence (seq_of e room) options of
            Inl err \<Rightarrow> (Inl err, e)
          | Inr sequence \<Rightarrow> (Inr (compacted, sequence), put_document room compacted sequence e)))"

definition no_options :: "int \<Rightarrow> StorageMutationOptions" where
  "no_options maxBytes = \<lparr>smo_MaxBytes = maxBytes, smo_OpID = [], smo_OriginConnID = [],
     smo_Sequence = 0, smo_ExpectedSequence = 0, smo_ExpectedSequenceSet = False\<rparr>"

definition SetStorage :: "Engine \<Rightarrow> room_id \<Rightarrow> bytes \<Rightarrow> int \<Rightarrow> (engine_error + bytes) \<times> Engine" where
  "SetStorage e room document maxBytes =
    (case SetStorageWithOptions e room document (no_options maxBytes) of
       (Inl err, e) \<Rightarrow> (Inl err, e) | (Inr (stored, _), e) \<Rightarrow> (Inr stored, e))"

text \<open>The flag tells that the result is the recorded one of an earlier request.\<close>

definition setStorageMutation ::
  "Engine \<Rightarrow> room_id \<Rightarrow> bytes \<Rightarrow> StorageMutationOptions
     \<Rightarrow> (engine_error + StorageMutation \<times> bool) \<times> Engine" where
  "setStorageMutation e room document options =
    (case checked_document document (smo_MaxBytes options) of
       Inl err \<Rightarrow> (Inl err, e)
     | Inr compacted \<Rightarrow>
         (let fingerprint = storageDocumentFingerprint StorageMutationSet compacted in
          case storageOpMutationLocked e room (smo_OpID options) fingerprint of
            Inl err \<Rightarrow> (Inl err, e)
          | Inr (Some mutation) \<Rightarrow> (Inr (mutation, True), e)
          | Inr None \<Rightarrow>
              (case next_sequence (seq_of e room) options of
                 Inl err \<Rightarrow> (Inl err, e)
               | Inr sequence \<Rightarrow>
                   (let options = options\<lparr>smo_Sequence := sequence\<rparr>;
                        e = put_document room compacted sequence e;
                        mutation = newStorageMutation StorageMutationSet compacted [] options
                    in (Inr (mutation, False),
                        rememberStorageOpLocked room (smo_OpID options) fingerprint mutation e)))))"

definition SetStorageMutation ::
  "Engine \<Rightarrow> room_id \<Rightarrow> bytes \<Rightarrow> StorageMutationOptions \<Rightarrow> (engine_error + StorageMutation) \<times> Engine" where
  "SetStorageMutation e room document options =
    (let (r, e) = setStorageMutation e room document options in (map_sum id fst r, e))"

subsection \<open>Patch\<close>

definition ApplyStoragePatchWithOptions ::
  "Engine \<Rightarrow> room_id \<Rightarrow> JSONPatchOperation list \<Rightarrow> StorageMutationOptions
     \<Rightarrow> (engine_error + bytes \<times> u64) \<times> Engine" where
  "ApplyStoragePatchWithOptions e room operations options =
    (let current = document_of e room in
     if current = [] then (Inl not_found, e)
     else case next_sequence (seq_of e room) options of
            Inl err \<Rightarrow> (Inl err, e)
          | Inr sequence \<Rightarrow>
              (case patched_document current operations (smo_MaxBytes options) of
                 Inl err \<Rightarrow> (Inl err, e)
               | Inr patched \<Rightarrow> (Inr (patched, sequence), put_document room patched sequence e)))"

definition ApplyStoragePatch ::
  "Engine \<Rightarrow> room_id \<Rightarrow> JSONPatchOperation list \<Rightarrow> int \<Rightarrow> (engine_error + bytes) \<times> Engine" where
  "ApplyStoragePatch e room operations maxBytes =
    (case ApplyStoragePatchWithOptions e room operations (no_options maxBytes) of
       (Inl err, e) \<Rightarrow> (Inl err, e) | (Inr (patched, _), e) \<Rightarrow> (Inr patched, e))"

definition applyStoragePatchMutation ::
  "Engine \<Rightarrow> room_id \<Rightarrow> JSONPatchOperation list \<Rightarrow> StorageMutationOptions
     \<Rightarrow> (engine_error + StorageMutation \<times> bool) \<times> Engine" where
  "applyStoragePatchMutation e room operations options =
    (case storagePatchFingerprint operations of
       Inl err \<Rightarrow> (Inl err, e)
     | Inr fingerprint \<Rightarrow>
         (case storageOpMutationLocked e room (smo_OpID options) fingerprint of
            Inl err \<Rightarrow> (Inl err, e)
          | Inr (Some mutation) \<Rightarrow> (Inr (mutation, True), e)
          | Inr None \<Rightarrow>
              (let current = document_of e room in
               if current = [] then (Inl not_found, e)
               else case next_sequence (seq_of e room) options of
                      Inl err \<Rightarrow> (Inl err, e)
                    | Inr sequence \<Rightarrow>
                        (case patched_document current operations (smo_MaxBytes options) of
                           Inl err \<Rightarrow> (Inl err, e)
                         | Inr patched \<Rightarrow>
                             (let options = options\<lparr>smo_Sequence := sequence\<rparr>;
                                  e = put_document room patched sequence e;
                                  mutation = newStorageMutation StorageMutationPatch patched operations options
                              in (Inr (mutation, False),
                                  rememberStorageOpLocked room (smo_OpID options) fingerprint mutation e))))))"

definition ApplyStoragePatchMutation ::
  "Engine \<Rightarrow> room_id \<Rightarrow> JSONPatchOperation list \<Rightarrow> StorageMutationOptions
     \<Rightarrow> (engine_error + StorageMutation) \<times> Engine" where
  "ApplyStoragePatchMutation e room operations options =
    (let (r, e) = applyStoragePatchMutation e room operations options in (map_sum id fst r, e))"

subsection \<open>Delete\<close>

text \<open>Deleting keeps the sequence of the room, so later documents continue it.\<close>

definition deleteStorageWithOptions ::
  "Engine \<Rightarrow> room_id \<Rightarrow> StorageMutationOptions \<Rightarrow> bool \<Rightarrow> (engine_error + u64) \<times> Engine" where
  "deleteStorageWithOptions e room options requireExisting =
    (if requireExisting \<and> document_of e room = [] then (Inl not_found, e)
     else case next_sequence (seq_of e room) options of
            Inl err \<Rightarrow> (Inl err, e)
          | Inr sequence \<Rightarrow> (Inr sequence, drop_document room sequence e))"

definition DeleteStorageWithOptions ::
  "Engine \<Rightarrow> room_id \<Rightarrow> StorageMutationOptions \<Rightarrow> (engine_error + u64) \<times> Engine" where
  "DeleteStorageWithOptions e room options = deleteStorageWithOptions e room options True"

definition deleteStorageMutation ::
  "Engine \<Rightarrow> room_id \<Rightarrow> StorageMutationOptions \<Rightarrow> bool
     \<Rightarrow> (engine_error + StorageMutation \<times> bool) \<times> Engine" where
  "deleteStorageMutation e room options requireExisting =
    (case storageOpMutationLocked e room (smo_OpID options) storageDeleteFingerprint of
       Inl err \<Rightarrow> (Inl err, e)
     | Inr (Some mutation) \<Rightarrow> (Inr (mutation, True), e)
     | Inr None \<Rightarrow>
         if requireExisting \<and> document_of e room = [] then (Inl not_found, e)
         else case next_sequence (seq_of e room) options of
                Inl err \<Rightarrow> (Inl err, e)
              | Inr sequence \<Rightarrow>
                  (let options = options\<lparr>smo_Sequence := sequence\<rparr>;
                       e = drop_document room sequence e;
                       mutation = newStorageMutation StorageMutationDelete [] [] options
                   in (Inr (mutation, False),
                       rememberStorageOpLocked room (smo_OpID options) storageDeleteFingerprint mutation e)))"

definition DeleteStorageMutation ::
  "Engine \<Rightarrow> room_id \<Rightarrow> StorageMutationOptions \<Rightarrow> (engine_error + StorageMutation) \<times> Engine" where
  "DeleteStorageMutation e room options =
    (let (r, e) = deleteStorageMutation e room options True in (map_sum id fst r, e))"

definition nextStorageSequence :: "Engine \<Rightarrow> room_id \<Rightarrow> u64 \<times> Engine" where
  "nextStorageSequence e room =
    (let sequence = seq_of e room + 1 in (sequence, e\<lparr>storageSeq := fmupd room sequence (storageSeq e)\<rparr>))"

subsection \<open>Plans\<close>

definition StorageFanout :: "Engine \<Rightarrow> room_id \<Rightarrow> StorageMutation \<Rightarrow> conn_id \<Rightarrow> StorageFanout" where
  "StorageFanout e room update excludeConnID =
    \<lparr>sf_Room = room, sf_Update = update, sf_Sequence = 0,
     sf_TargetConnIDs = memberIDsLocked e room excludeConnID\<rparr>"

text \<open>\<open>StorageMutationPlanOptions\<close> has one field, the duplicate flag.\<close>

definition StorageMutationPlanWithOptions ::
  "Engine \<Rightarrow> room_id \<Rightarrow> StorageMutation \<Rightarrow> StorageEventOptions \<Rightarrow> bool
     \<Rightarrow> engine_error + StorageMutationPlan" where
  "StorageMutationPlanWithOptions e room update options duplicate =
    (case NewStorageEvent room update options of
       Inl err \<Rightarrow> Inl err
     | Inr event \<Rightarrow>
         (let fanout = StorageFanout e room update (seo_ExcludeSenderConnID options);
              fanout = fanout\<lparr>sf_Sequence := seo_Sequence options\<rparr>;
              fanout = (if sf_Sequence fanout = 0
                        then fanout\<lparr>sf_Sequence := sm_Sequence update\<rparr> else fanout)
          in Inr \<lparr>smp_Mutation = update, smp_Fanout = fanout, smp_Event = event,
                  smp_Duplicate = duplicate\<rparr>))"

definition StorageMutationPlan ::
  "Engine \<Rightarrow> room_id \<Rightarrow> StorageMutation \<Rightarrow> StorageEventOptions \<Rightarrow> engine_error + StorageMutationPlan" where
  "StorageMutationPlan e room update options =
    StorageMutationPlanWithOptions e room update options False"

definition StorageMutationPlan_WithEvent ::
  "StorageMutationPlan \<Rightarrow> PublishedEvent \<Rightarrow> StorageMutationPlan" where
  "StorageMutationPlan_WithEvent plan event =
    (let fanout = smp_Fanout plan;
         fanout = (if sf_Sequence fanout = 0 then fanout\<lparr>sf_Sequence := pe_Sequence event\<rparr> else fanout)
     in \<lparr>smp_Mutation = smp_Mutation plan, smp_Fanout = fanout, smp_Event = event,
         smp_Duplicate = smp_Duplicate plan\<rparr>)"

text \<open>
  What the three planning operations do with the result of their mutation: the event takes
  the sequence of the mutation.
\<close>

definition plan_of ::
  "(engine_error + StorageMutation \<times> bool) \<times> Engine \<Rightarrow> room_id \<Rightarrow> StorageEventOptions
     \<Rightarrow> (engine_error + StorageMutationPlan) \<times> Engine" where
  "plan_of result room eventOptions =
    (case result of
       (Inl err, e) \<Rightarrow> (Inl err, e)
     | (Inr (mutation, duplicate), e) \<Rightarrow>
         (StorageMutationPlanWithOptions e room mutation
            (eventOptions\<lparr>seo_Sequence := sm_Sequence mutation\<rparr>) duplicate, e))"

definition SetStorageMutationPlan ::
  "Engine \<Rightarrow> room_id \<Rightarrow> bytes \<Rightarrow> StorageMutationOptions \<Rightarrow> StorageEventOptions
     \<Rightarrow> (engine_error + StorageMutationPlan) \<times> Engine" where
  "SetStorageMutationPlan e room document mutationOptions eventOptions =
    plan_of (setStorageMutation e room document mutationOptions) room eventOptions"

definition ApplyStoragePatchMutationPlan ::
  "Engine \<Rightarrow> room_id \<Rightarrow> JSONPatchOperation list \<Rightarrow> StorageMutationOptions \<Rightarrow> StorageEventOptions
     \<Rightarrow> (engine_error + StorageMutationPlan) \<times> Engine" where
  "ApplyStoragePatchMutationPlan e room operations mutationOptions eventOptions =
    plan_of (applyStoragePatchMutation e room operations mutationOptions) room eventOptions"

definition DeleteStorageMutationPlan ::
  "Engine \<Rightarrow> room_id \<Rightarrow> StorageMutationOptions \<Rightarrow> StorageEventOptions
     \<Rightarrow> (engine_error + StorageMutationPlan) \<times> Engine" where
  "DeleteStorageMutationPlan e room mutationOptions eventOptions =
    plan_of (deleteStorageMutation e room mutationOptions True) room eventOptions"

definition NewStorageMutationEventPlan ::
  "room_id \<Rightarrow> string \<Rightarrow> bytes \<Rightarrow> JSONPatchOperation list \<Rightarrow> StorageMutationOptions
     \<Rightarrow> StorageEventOptions \<Rightarrow> engine_error + StorageMutationEventPlan" where
  "NewStorageMutationEventPlan room kind document operations mutationOptions eventOptions =
    (case NewStorageMutation kind document operations mutationOptions of
       Inl err \<Rightarrow> Inl err
     | Inr mutation \<Rightarrow>
         (case NewStorageEvent room mutation eventOptions of
            Inl err \<Rightarrow> Inl err
          | Inr event \<Rightarrow> Inr \<lparr>sme_Mutation = mutation, sme_Event = event\<rparr>))"

subsection \<open>Recording the mutations of other nodes\<close>

definition RecordStorageMutation ::
  "Engine \<Rightarrow> room_id \<Rightarrow> string \<Rightarrow> bytes \<Rightarrow> JSONPatchOperation list \<Rightarrow> StorageMutationOptions
     \<Rightarrow> (engine_error + StorageMutation) \<times> Engine" where
  "RecordStorageMutation e room kind document operations options =
    (if \<not> validStorageMutationKind kind then (Inl ErrStorageMutationKind, e)
     else
       (let options = options\<lparr>smo_ExpectedSequenceSet := False\<rparr> in
        if kind = StorageMutationDelete then
          (case deleteStorageWithOptions e room options False of
             (Inl err, e) \<Rightarrow> (Inl err, e)
           | (Inr sequence, e) \<Rightarrow>
               (NewStorageMutation StorageMutationDelete [] [] (options\<lparr>smo_Sequence := sequence\<rparr>), e))
        else
          (case SetStorageWithOptions e room document options of
             (Inl err, e) \<Rightarrow> (Inl err, e)
           | (Inr (stored, sequence), e) \<Rightarrow>
               (NewStorageMutation kind stored operations (options\<lparr>smo_Sequence := sequence\<rparr>), e))))"

definition RecordStorageMutationPlan ::
  "Engine \<Rightarrow> room_id \<Rightarrow> string \<Rightarrow> bytes \<Rightarrow> JSONPatchOperation list \<Rightarrow> StorageMutationOptions
     \<Rightarrow> StorageEventOptions \<Rightarrow> (engine_error + StorageMutationPlan) \<times> Engine" where
  "RecordStorageMutationPlan e room kind document operations mutationOptions eventOptions =
    (case RecordStorageMutation e room kind document operations mutationOptions of
       (Inl err, e) \<Rightarrow> (Inl err, e)
     | (Inr mutation, e) \<Rightarrow> (StorageMutationPlan e room mutation eventOptions, e))"

definition RecordStorageEvent ::
  "Engine \<Rightarrow> PublishedEvent \<Rightarrow> int \<Rightarrow> (engine_error + StorageMutationPlan) \<times> Engine" where
  "RecordStorageEvent e event maxBytes =
    (case unmarshal_mutation (pe_Payload event) of
       None \<Rightarrow> (Inl (ErrCluster ErrJSON), e)
     | Some mutation \<Rightarrow>
         (let sequence = (if sm_Sequence mutation = 0 then pe_Sequence event else sm_Sequence mutation)
          in case RecordStorageMutationPlan e (pe_Room event) (sm_Kind mutation) (sm_Document mutation)
                    (sm_Operations mutation)
                    \<lparr>smo_MaxBytes = maxBytes, smo_OpID = sm_OpID mutation,
                     smo_OriginConnID = sm_OriginConnID mutation, smo_Sequence = sequence,
                     smo_ExpectedSequence = 0, smo_ExpectedSequenceSet = False\<rparr>
                    \<lparr>seo_OriginNode = pe_OriginNode event,
                     seo_ExcludeSenderConnID = pe_ExcludeSenderConnID event, seo_Sequence = sequence\<rparr> of
               (Inl err, e) \<Rightarrow> (Inl err, e)
             | (Inr plan, e) \<Rightarrow>
                 (Inr (plan\<lparr>smp_Event := (smp_Event plan)\<lparr>pe_Sequence := pe_Sequence event\<rparr>,
                            smp_Fanout := (smp_Fanout plan)\<lparr>sf_Sequence := sequence\<rparr>\<rparr>), e)))"

end
