(* ===== verification/Storage_Contract.thy ===== *)
theory Storage_Contract
  imports Engine_Storage
begin

text \<open>
  The contract that every writing storage operation keeps: an error changes nothing, a
  repetition changes nothing, a write takes the next admissible sequence of its room and
  leaves the other rooms alone, and only storage documents are stored. Sequence
  monotonicity, compare-and-set and the rest follow from the contract once for all.
\<close>

definition storage_docs :: "Engine \<Rightarrow> bool" where
  "storage_docs e \<longleftrightarrow> (\<forall>r d. fmlookup (storage e) r = Some d \<longrightarrow> d \<noteq> [] \<and> storage_document d)"

text \<open>The part of the engine that storage operations do not touch.\<close>

definition without_storage :: "Engine \<Rightarrow> Engine" where
  "without_storage e = e\<lparr>storage := fmempty, storageSeq := fmempty, storageOps := fmempty\<rparr>"

definition same_rest :: "Engine \<Rightarrow> Engine \<Rightarrow> bool" where
  "same_rest e e' \<longleftrightarrow> without_storage e' = without_storage e"

locale storage_operation =
  fixes op :: "Engine \<Rightarrow> room_id \<Rightarrow> (engine_error + 'r) \<times> Engine"
    and result_seq :: "'r \<Rightarrow> u64"
    and repeated :: "'r \<Rightarrow> bool"
    and options :: StorageMutationOptions
  assumes op_error: "op e room = (Inl err, e') \<Longrightarrow> e' = e"
    and op_repeated: "op e room = (Inr v, e') \<Longrightarrow> repeated v \<Longrightarrow> e' = e"
    and op_write: "op e room = (Inr v, e') \<Longrightarrow> \<not> repeated v \<Longrightarrow>
      next_sequence (seq_of e room) options = Inr (result_seq v) \<and> seq_of e' room = result_seq v"
    and op_frame: "op e room = (res, e') \<Longrightarrow> r \<noteq> room \<Longrightarrow>
      seq_of e' r = seq_of e r \<and> document_of e' r = document_of e r"
    and op_docs: "op e room = (res, e') \<Longrightarrow> storage_docs e \<Longrightarrow> storage_docs e'"
    and op_rest: "op e room = (res, e') \<Longrightarrow> same_rest e e'"
begin

lemma write_expected:
  assumes "op e room = (Inr v, e')" "\<not> repeated v" "smo_ExpectedSequenceSet options"
  shows "seq_of e room = smo_ExpectedSequence options"
  using op_write [OF assms(1,2)] assms(3) by (auto simp: next_sequence_def split: if_split_asm)

lemma write_advances:
  assumes "op e room = (Inr v, e')" "\<not> repeated v" "seq_of e room \<noteq> - 1"
  shows "seq_of e room < seq_of e' room"
proof -
  from op_write [OF assms(1,2)]
  have w: "next_sequence (seq_of e room) options = Inr (seq_of e' room)" by simp
  show ?thesis
  proof (cases "smo_Sequence options = 0")
    case True
    with w have "seq_of e' room = seq_of e room + 1" by (auto simp: next_sequence_def split: if_split_asm)
    with assms(3) u64_succ_greater [of "seq_of e room"] show ?thesis by simp
  next
    case False
    with w show ?thesis by (auto simp: next_sequence_def word_neq_0_conv split: if_split_asm)
  qed
qed

lemma write_given_sequence:
  assumes "op e room = (Inr v, e')" "\<not> repeated v" "smo_Sequence options \<noteq> 0"
  shows "result_seq v = smo_Sequence options" "seq_of e room < smo_Sequence options"
  using op_write [OF assms(1,2)] assms(3)
  by (auto simp: next_sequence_def word_neq_0_conv split: if_split_asm)

lemma write_next_sequence:
  assumes "op e room = (Inr v, e')" "\<not> repeated v" "smo_Sequence options = 0"
  shows "result_seq v = seq_of e room + 1"
  using op_write [OF assms(1,2)] assms(3) by (auto simp: next_sequence_def split: if_split_asm)

lemma seq_of_other: "op e room = (res, e') \<Longrightarrow> r \<noteq> room \<Longrightarrow> seq_of e' r = seq_of e r"
  using op_frame by blast

lemma seq_never_back:
  assumes "op e room = (res, e')" "seq_of e r \<noteq> - 1"
  shows "seq_of e r \<le> seq_of e' r"
proof (cases "r = room")
  case True
  show ?thesis
  proof (cases res)
    case (Inl err)
    with assms op_error show ?thesis by fastforce
  next
    case (Inr v)
    with assms True op_repeated [of e room v e'] write_advances [of e room v e'] show ?thesis
      by (cases "repeated v") auto
  qed
next
  case False
  with op_frame [OF assms(1)] show ?thesis by simp
qed

end

subsection \<open>Documents that may be stored\<close>

lemma storage_document_nonempty: "storage_document d \<Longrightarrow> d \<noteq> []"
  by (auto simp: storage_document_def json_decode_def parse_val.simps [of _ "[]"])

lemma checked_document_ok: "checked_document doc n = Inr d \<Longrightarrow> storage_document d"
  by (auto simp: checked_document_def ValidateStorageDocument_iff [symmetric]
      split: option.split_asm if_split_asm)

lemma patched_document_ok: "patched_document doc ops n = Inr d \<Longrightarrow> storage_document d"
  by (auto simp: patched_document_def ValidateStorageDocument_iff [symmetric]
      split: sum.split_asm option.split_asm if_split_asm)

lemma put_document_facts:
  "seq_of (put_document room d s e) r = (if r = room then s else seq_of e r)"
  "document_of (put_document room d s e) r = (if r = room then d else document_of e r)"
  "same_rest e (put_document room d s e)"
  "storageOps (put_document room d s e) = storageOps e"
  "storage (put_document room d s e) = fmupd room d (storage e)"
  by (simp_all add: put_document_def seq_of_def document_of_def same_rest_def without_storage_def)

lemma drop_document_facts:
  "seq_of (drop_document room s e) r = (if r = room then s else seq_of e r)"
  "document_of (drop_document room s e) r = (if r = room then [] else document_of e r)"
  "same_rest e (drop_document room s e)"
  "storageOps (drop_document room s e) = storageOps e"
  "storage (drop_document room s e) = fmdrop room (storage e)"
  by (simp_all add: drop_document_def seq_of_def document_of_def same_rest_def without_storage_def)

lemma remember_facts:
  "seq_of (rememberStorageOpLocked room i fp m e) r = seq_of e r"
  "document_of (rememberStorageOpLocked room i fp m e) r = document_of e r"
  "storage (rememberStorageOpLocked room i fp m e) = storage e"
  "same_rest e0 e \<Longrightarrow> same_rest e0 (rememberStorageOpLocked room i fp m e)"
  by (auto simp: rememberStorageOpLocked_def seq_of_def document_of_def same_rest_def without_storage_def)

lemma same_rest_refl [simp]: "same_rest e e"
  by (simp add: same_rest_def without_storage_def)

lemma storage_docs_put: "storage_docs e \<Longrightarrow> storage_document d \<Longrightarrow> storage_docs (put_document room d s e)"
  by (auto simp: storage_docs_def put_document_facts storage_document_nonempty)

lemma storage_docs_drop: "storage_docs e \<Longrightarrow> storage_docs (drop_document room s e)"
  by (auto simp: storage_docs_def drop_document_facts)

lemma storage_docs_remember:
  "storage_docs (rememberStorageOpLocked room i fp m e) = storage_docs e"
  by (simp add: storage_docs_def remember_facts)

lemmas storage_facts = put_document_facts drop_document_facts remember_facts storage_docs_put
  storage_docs_drop storage_docs_remember checked_document_ok patched_document_ok

subsection \<open>The operations keep the contract\<close>

interpretation set_op: storage_operation
  "\<lambda>e room. SetStorageWithOptions e room document options" snd "\<lambda>_. False" options
  for document options
  by unfold_locales
     (auto simp: SetStorageWithOptions_def storage_facts split: sum.split_asm)

interpretation patch_op: storage_operation
  "\<lambda>e room. ApplyStoragePatchWithOptions e room operations options" snd "\<lambda>_. False" options
  for operations options
  by unfold_locales
     (auto simp: ApplyStoragePatchWithOptions_def Let_def storage_facts split: sum.split_asm if_split_asm)

interpretation delete_op: storage_operation
  "\<lambda>e room. deleteStorageWithOptions e room options required" id "\<lambda>_. False" options
  for options required
  by unfold_locales
     (auto simp: deleteStorageWithOptions_def storage_facts split: sum.split_asm if_split_asm)

lemma new_mutation_seq: "sm_Sequence (newStorageMutation kind d ops options) = smo_Sequence options"
  by (simp add: newStorageMutation_def)

interpretation set_mutation: storage_operation
  "\<lambda>e room. setStorageMutation e room document options" "\<lambda>(m, _). sm_Sequence m" snd options
  for document options
  by unfold_locales
     (auto simp: setStorageMutation_def Let_def storage_facts new_mutation_seq
       split: sum.split_asm option.split_asm)

interpretation patch_mutation: storage_operation
  "\<lambda>e room. applyStoragePatchMutation e room operations options" "\<lambda>(m, _). sm_Sequence m" snd options
  for operations options
  by unfold_locales
     (auto simp: applyStoragePatchMutation_def Let_def storage_facts new_mutation_seq
       split: sum.split_asm option.split_asm if_split_asm)

interpretation delete_mutation: storage_operation
  "\<lambda>e room. deleteStorageMutation e room options required" "\<lambda>(m, _). sm_Sequence m" snd options
  for options required
  by unfold_locales
     (auto simp: deleteStorageMutation_def Let_def storage_facts new_mutation_seq
       split: sum.split_asm option.split_asm if_split_asm)

end
