(* ===== verification/Engine_Invariant.thy ===== *)
theory Engine_Invariant
  imports Engine_Query Storage_Contract
begin

text \<open>
  The interface that fan-outs use: an index from rooms to connections with the sorted list
  of the connections that an event goes to. The engine has two of them, for the rooms of
  the JSON protocol and for the Yjs documents; what holds of the targets is proved once.

  The invariant of an engine: the indexes agree with each other, no empty entry is left
  behind where the code deletes it, acknowledgements belong to joined rooms, Yjs documents
  number their updates without gaps, and every stored document is a storage document. The
  steps of the engine are its locked sections; every state that they reach satisfies the
  invariant.
\<close>

locale fanout_index =
  fixes members :: "'s \<Rightarrow> room_id \<Rightarrow> conn_id fset"
    and targets :: "'s \<Rightarrow> room_id \<Rightarrow> conn_id \<Rightarrow> conn_id list"
    and add :: "conn_id \<Rightarrow> room_id \<Rightarrow> 's \<Rightarrow> 's"
    and remove :: "conn_id \<Rightarrow> room_id \<Rightarrow> 's \<Rightarrow> 's"
  assumes targets_def: "targets s r x = sorted_ids (without (members s r) x)"
    and members_add: "members (add c r s) r' = (if r' = r then finsert c (members s r) else members s r')"
    and members_remove: "members (remove c r s) r' = (if r' = r then members s r |-| {|c|} else members s r')"
begin

lemma in_targets: "c \<in> set (targets s r x) \<longleftrightarrow> c |\<in>| members s r \<and> (x = [] \<or> c \<noteq> x)"
  by (auto simp: targets_def without_def)

lemma targets_sorted: "sorted_wrt (<) (targets s r x)"
  by (simp add: targets_def strict_sorted_ids)

lemma sender_excluded: "x \<noteq> [] \<Longrightarrow> x \<notin> set (targets s r x)"
  by (simp add: in_targets)

lemma all_targets: "targets s r [] = sorted_ids (members s r)"
proof -
  have "without (members s r) [] = members s r" by (auto simp: without_def)
  then show ?thesis by (simp add: targets_def)
qed

lemma added_is_target: "c \<noteq> x \<Longrightarrow> c \<in> set (targets (add c r s) r x)"
  by (auto simp: in_targets members_add)

lemma removed_is_no_target: "c \<notin> set (targets (remove c r s) r x)"
  by (simp add: in_targets members_remove)

lemma others_keep_targets:
  "r' \<noteq> r \<Longrightarrow> targets (add c r s) r' x = targets s r' x \<and> targets (remove c r s) r' x = targets s r' x"
  by (simp add: targets_def members_add members_remove)

lemma remove_add:
  "c |\<notin>| members s r \<Longrightarrow> members (remove c r (add c r s)) r' = members s r'"
  by (auto simp: members_add members_remove)

end

text \<open>The rooms of the JSON protocol.\<close>

definition add_member :: "conn_id \<Rightarrow> room_id \<Rightarrow> Engine \<Rightarrow> Engine" where
  "add_member connID room e = e\<lparr>rooms := gm_insert room connID (rooms e)\<rparr>"

interpretation room_index: fanout_index "\<lambda>e. members_of e" memberIDsLocked add_member removeRoomMemberLocked
  by unfold_locales (auto simp: memberIDsLocked_def add_member_def removeRoomMemberLocked_def)

text \<open>The Yjs documents.\<close>

definition add_yjs_member :: "conn_id \<Rightarrow> room_id \<Rightarrow> Engine \<Rightarrow> Engine" where
  "add_yjs_member connID room e = e\<lparr>yjsRooms := gm_insert room connID (yjsRooms e)\<rparr>"

interpretation yjs_index: fanout_index "\<lambda>e. yjs_members e" yjsTargetIDsLocked add_yjs_member removeYJSConnLocked
  by unfold_locales (auto simp: yjsTargetIDsLocked_def add_yjs_member_def removeYJSConnLocked_def)

subsection \<open>The parts of the invariant\<close>

definition rooms_ok :: "Engine \<Rightarrow> bool" where
  "rooms_ok e \<longleftrightarrow> (\<forall>c r. c |\<in>| members_of e r \<longleftrightarrow> r |\<in>| joined e c) \<and> no_empty (rooms e)"

definition presence_ok :: "Engine \<Rightarrow> bool" where
  "presence_ok e \<longleftrightarrow> no_empty_map (presence e)"

definition acks_ok :: "Engine \<Rightarrow> bool" where
  "acks_ok e \<longleftrightarrow> no_empty_map (eventAcks e)
    \<and> (\<forall>c r n. fmlookup (acks_of e c) r = Some n \<longrightarrow> n \<noteq> 0 \<and> r |\<in>| joined e c)"

definition sessions_ok :: "Engine \<Rightarrow> bool" where
  "sessions_ok e \<longleftrightarrow> (\<forall>c s. fmlookup (sessions e) c = Some s \<longrightarrow> c \<noteq> [] \<and> se_ConnID s = c)"

definition yjs_ok :: "Engine \<Rightarrow> bool" where
  "yjs_ok e \<longleftrightarrow> no_empty (yjsRooms e)
    \<and> (\<forall>c r. c |\<in>| yjs_members e r \<longleftrightarrow> map_option ys_Room (fmlookup (yjsSessions e) c) = Some r)
    \<and> (\<forall>c s. fmlookup (yjsSessions e) c = Some s \<longrightarrow> c \<noteq> [] \<and> ys_ConnID s = c \<and> ys_Room s \<noteq> [])"

definition doc_ok :: "memoryYJSDocument \<Rightarrow> bool" where
  "doc_ok d \<longleftrightarrow>
     length (md_UpdateKinds d) = length (md_Updates d)
   \<and> md_UpdateSequences d = map (\<lambda>i. of_nat (Suc i)) [0..<length (md_Updates d)]
   \<and> md_NextSequence d = of_nat (length (md_Updates d))
   \<and> list_all durableYJSEventKind (md_UpdateKinds d)
   \<and> md_SnapshotHash d = YJSSnapshotHash (md_Snapshot d)"

definition docs_ok :: "Engine \<Rightarrow> bool" where
  "docs_ok e \<longleftrightarrow> (\<forall>r d. fmlookup (yjsDocs e) r = Some d \<longrightarrow> doc_ok d)"

definition ops_ok :: "Engine \<Rightarrow> bool" where
  "ops_ok e \<longleftrightarrow> (\<forall>r i rec. fmlookup (gm_map (storageOps e) r) i = Some rec \<longrightarrow>
     i \<noteq> [] \<and> op_Fingerprint rec \<noteq> [] \<and> sm_OpID (op_Mutation rec) = i)"

definition wf_engine :: "Engine \<Rightarrow> bool" where
  "wf_engine e \<longleftrightarrow> rooms_ok e \<and> presence_ok e \<and> acks_ok e \<and> sessions_ok e \<and> yjs_ok e
     \<and> docs_ok e \<and> storage_docs e \<and> ops_ok e"

lemmas wf_parts = rooms_ok_def presence_ok_def acks_ok_def sessions_ok_def yjs_ok_def docs_ok_def
  storage_docs_def ops_ok_def

lemma wf_New: "wf_engine New"
  by (simp add: wf_engine_def wf_parts New_def)

subsection \<open>Rooms\<close>

lemma gm_set_same [simp]: "gm_set (fmupd k (gm_set m k) m) = gm_set m"
  by (rule ext) simp

lemma wf_RegisterSession: "wf_engine e \<Longrightarrow> wf_engine (snd (RegisterSession e info))"
  by (auto simp: RegisterSession_def wf_engine_def wf_parts)

lemma wf_Join:
  assumes "wf_engine e"
  shows "wf_engine (snd (JoinWithLimits e c r limits))"
proof -
  have "rooms_ok (e\<lparr>connRooms := gm_insert c r (fmupd c (joined e c) (connRooms e)),
      rooms := gm_insert r c (rooms e)\<rparr>)"
    using assms by (auto simp: wf_engine_def rooms_ok_def)
  then show ?thesis
    using assms by (auto simp: JoinWithLimits_def Let_def wf_engine_def wf_parts)
qed

lemma acks_subset:
  "fmlookup (gm_map (gm_delete c r m) c') r' = Some n \<longleftrightarrow>
     (c', r') \<noteq> (c, r) \<and> fmlookup (gm_map m c') r' = Some n"
  by auto

lemma wf_ApplyLeavePlan:
  assumes "wf_engine e"
  shows "wf_engine (snd (ApplyLeavePlan e plan))"
proof -
  have "wf_engine (removeEventAckLocked c r (removePresenceLocked c r (removeRoomMemberLocked c r
      (e\<lparr>connRooms := gm_remove c r (connRooms e)\<rparr>))))" for c r
    using assms
    by (auto simp: wf_engine_def wf_parts removeEventAckLocked_def removePresenceLocked_def
        removeRoomMemberLocked_def)
  then show ?thesis
    using assms by (auto simp: ApplyLeavePlan_def Let_def split: option.split)
qed

text \<open>Removing a connection from a list of rooms.\<close>

lemma removeFromRooms_step:
  "removeFromRoomsLocked c [] e = e"
  "removeFromRoomsLocked c (r # rs) e =
     removeFromRoomsLocked c rs (removePresenceLocked c r (removeRoomMemberLocked c r e))"
  by (simp_all add: removeFromRoomsLocked_def)

lemmas remove_one = removePresenceLocked_def removeRoomMemberLocked_def

lemma removeFromRooms_fields:
  "connRooms (removeFromRoomsLocked c rs e) = connRooms e"
  "sessions (removeFromRoomsLocked c rs e) = sessions e"
  "eventAcks (removeFromRoomsLocked c rs e) = eventAcks e"
  "yjsRooms (removeFromRoomsLocked c rs e) = yjsRooms e"
  "yjsSessions (removeFromRoomsLocked c rs e) = yjsSessions e"
  "yjsDocs (removeFromRoomsLocked c rs e) = yjsDocs e"
  "storage (removeFromRoomsLocked c rs e) = storage e"
  "storageSeq (removeFromRoomsLocked c rs e) = storageSeq e"
  "storageOps (removeFromRoomsLocked c rs e) = storageOps e"
  by (induction rs arbitrary: e) (simp_all add: removeFromRooms_step remove_one)

lemma removeFromRooms_members:
  "members_of (removeFromRoomsLocked c rs e) r =
     (if r \<in> set rs then members_of e r |-| {|c|} else members_of e r)"
  by (induction rs arbitrary: e) (auto simp: removeFromRooms_step remove_one)

lemma fmdrop_twice [simp]: "fmdrop c (fmdrop c m) = fmdrop c m"
  by (rule fmap_ext) simp

lemma removeFromRooms_presence:
  "presence_of (removeFromRoomsLocked c rs e) r =
     (if r \<in> set rs then fmdrop c (presence_of e r) else presence_of e r)"
  by (induction rs arbitrary: e) (simp_all add: removeFromRooms_step remove_one)

lemma removeFromRooms_no_empty:
  "no_empty (rooms e) \<Longrightarrow> no_empty (rooms (removeFromRoomsLocked c rs e))"
  "no_empty_map (presence e) \<Longrightarrow> no_empty_map (presence (removeFromRoomsLocked c rs e))"
  by (induction rs arbitrary: e)
     (simp_all add: removeFromRooms_step remove_one no_empty_remove no_empty_map_delete)

text \<open>Disconnecting by the plan of the same state.\<close>

lemma wf_DisconnectSession:
  assumes "wf_engine e"
  shows "wf_engine (snd (DisconnectSession e c options))"
  using assms
  by (auto simp: DisconnectSession_def NewDisconnectPlan_def newDisconnectPlan_def Let_def
      ApplyDisconnectPlan_def wf_engine_def wf_parts removeFromRooms_fields removeFromRooms_members
      intro: removeFromRooms_no_empty)

lemma wf_SetPresence: "wf_engine e \<Longrightarrow> wf_engine (SetPresence e c r payload)"
  by (auto simp: SetPresence_def setPresenceLocked_def wf_engine_def wf_parts)

lemma wf_AcknowledgeEvent:
  assumes "wf_engine e"
  shows "wf_engine (snd (AcknowledgeEvent e c r n))"
proof -
  have "fmlookup (acks_of e c) r = None \<Longrightarrow> gm_u64 (acks_of e c) r < n \<longleftrightarrow> n \<noteq> 0"
    by (auto simp: gm_u64_def word_neq_0_conv)
  moreover have "acks_of e c \<noteq> fmempty \<Longrightarrow>
      no_empty_map (fmupd c (acks_of e c) (eventAcks e))"
    using assms by (auto simp: wf_engine_def acks_ok_def no_empty_map_iff)
  moreover have "no_empty_map (fmupd c (fmupd r n (acks_of e c)) (eventAcks e))"
    using assms by (auto simp: wf_engine_def acks_ok_def no_empty_map_iff)
  moreover have "n \<noteq> 0 \<Longrightarrow> \<not> gm_u64 (acks_of e c) r < n \<Longrightarrow> acks_of e c \<noteq> fmempty"
    by (auto simp: gm_u64_def word_neq_0_conv)
  ultimately show ?thesis
    using assms
    by (auto simp: AcknowledgeEvent_def Let_def wf_engine_def wf_parts)
qed

subsection \<open>Yjs\<close>

lemma wf_RegisterYJS:
  assumes "wf_engine e"
  shows "wf_engine (snd (RegisterYJSSessionWithLimit e info n))"
proof -
  let ?c = "ys_ConnID info" and ?r = "ys_Room info"
  have fresh: "yjs_ok (e\<lparr>yjsSessions := fmupd ?c info (yjsSessions e),
      yjsRooms := gm_insert ?r ?c (yjsRooms e)\<rparr>)"
    if "fmlookup (yjsSessions e) ?c = None" "?c \<noteq> []" "?r \<noteq> []"
    using assms that by (auto simp: wf_engine_def yjs_ok_def)
  have moved: "yjs_ok (e\<lparr>yjsSessions := fmupd ?c info (yjsSessions e),
      yjsRooms := gm_insert ?r ?c (gm_remove (ys_Room old) ?c (yjsRooms e))\<rparr>)"
    if "fmlookup (yjsSessions e) ?c = Some old" "?c \<noteq> []" "?r \<noteq> []" for old
    using assms that by (auto simp: wf_engine_def yjs_ok_def)
  have same: "yjs_ok (e\<lparr>yjsSessions := fmupd ?c info (yjsSessions e)\<rparr>)"
    if "map_option ys_Room (fmlookup (yjsSessions e) ?c) = Some ?r" "?c \<noteq> []" "?r \<noteq> []"
    using assms that by (auto simp: wf_engine_def yjs_ok_def)
  from fresh moved same show ?thesis
    using assms
    by (auto simp: RegisterYJSSessionWithLimit_def Let_def removeYJSConnLocked_def wf_engine_def
        rooms_ok_def presence_ok_def acks_ok_def sessions_ok_def docs_ok_def storage_docs_def ops_ok_def
        split: option.split)
qed

lemma wf_UnregisterYJS:
  assumes "wf_engine e"
  shows "wf_engine (UnregisterYJSConn e c r)"
proof -
  have "yjs_ok (UnregisterYJSConn e c r)"
    using assms
    by (auto simp: UnregisterYJSConn_def Let_def removeYJSConnLocked_def wf_engine_def yjs_ok_def
        split: option.split)
  then show ?thesis
    using assms
    by (auto simp: UnregisterYJSConn_def Let_def removeYJSConnLocked_def wf_engine_def rooms_ok_def
        presence_ok_def acks_ok_def sessions_ok_def docs_ok_def storage_docs_def ops_ok_def
        split: option.split)
qed

lemma doc_ok_new: "doc_ok new_doc"
  by (simp add: doc_ok_def new_doc_def YJSSnapshotHash_def)

lemma doc_of_ok: "docs_ok e \<Longrightarrow> doc_ok (doc_of e r)"
  by (auto simp: docs_ok_def doc_of_def doc_ok_new split: option.split)

lemma wf_StoreYJSEvent:
  assumes "wf_engine e"
  shows "wf_engine (snd (StoreYJSEvent e event))"
proof -
  have "doc_ok (doc_of e r)" for r
    using assms doc_of_ok by (simp add: wf_engine_def)
  then show ?thesis
    using assms
    by (auto simp: StoreYJSEvent_def StoreYJSPersistence_def NewYJSPersistencePlan_def Let_def
        yjsPersistenceMode_def wf_engine_def wf_parts doc_ok_def durableYJSEventKind_def
        split: option.split_asm)
qed

subsection \<open>Storage\<close>

lemma same_rest_fields:
  assumes "same_rest e e'"
  shows "rooms e' = rooms e" "connRooms e' = connRooms e" "sessions e' = sessions e"
    "presence e' = presence e" "yjsRooms e' = yjsRooms e" "yjsSessions e' = yjsSessions e"
    "yjsDocs e' = yjsDocs e" "eventAcks e' = eventAcks e"
  using assms by (cases e; cases e'; simp add: same_rest_def without_storage_def)+

lemma wf_storage_step:
  assumes "wf_engine e" "same_rest e e'" "storage_docs e \<Longrightarrow> storage_docs e'" "ops_ok e \<Longrightarrow> ops_ok e'"
  shows "wf_engine e'"
  using assms same_rest_fields [OF assms(2)]
  by (simp add: wf_engine_def rooms_ok_def presence_ok_def acks_ok_def sessions_ok_def yjs_ok_def docs_ok_def)

lemma fingerprint_nonempty:
  "storageDocumentFingerprint kind d \<noteq> []" "storageDeleteFingerprint \<noteq> []"
  "storagePatchFingerprint ops = Inr fp \<Longrightarrow> fp \<noteq> []"
  by (auto simp: storageDocumentFingerprint_def storageDeleteFingerprint_def storagePatchFingerprint_def
      split: option.split_asm)

lemma patch_fingerprint_not_Nil [simp]: "storagePatchFingerprint ops \<noteq> Inr []"
  using fingerprint_nonempty(3) by blast

lemma ops_ok_remember:
  "ops_ok e \<Longrightarrow> fp \<noteq> [] \<Longrightarrow> sm_OpID m = i \<Longrightarrow> ops_ok (rememberStorageOpLocked r i fp m e)"
  by (auto simp: ops_ok_def rememberStorageOpLocked_def)

lemma ops_ok_storage [simp]:
  "ops_ok (put_document r d s e) = ops_ok e" "ops_ok (drop_document r s e) = ops_ok e"
  by (simp_all add: ops_ok_def put_document_facts drop_document_facts)

lemma new_mutation_op [simp]: "sm_OpID (newStorageMutation kind d ops options) = smo_OpID options"
  by (simp add: newStorageMutation_def)

lemma ops_ok_set: "ops_ok e \<Longrightarrow> ops_ok (snd (setStorageMutation e r d options))"
  by (auto simp: setStorageMutation_def Let_def fingerprint_nonempty intro!: ops_ok_remember
      split: sum.split option.split)

lemma ops_ok_patch: "ops_ok e \<Longrightarrow> ops_ok (snd (applyStoragePatchMutation e r ops options))"
  by (auto simp: applyStoragePatchMutation_def Let_def dest: fingerprint_nonempty(3)
      intro!: ops_ok_remember split: sum.split option.split)

lemma ops_ok_delete: "ops_ok e \<Longrightarrow> ops_ok (snd (deleteStorageMutation e r options required))"
  by (auto simp: deleteStorageMutation_def Let_def fingerprint_nonempty intro!: ops_ok_remember
      split: sum.split option.split)

lemma wf_set: "wf_engine e \<Longrightarrow> wf_engine (snd (setStorageMutation e r d options))"
  using set_mutation.op_rest [of e r d options, OF prod.collapse [symmetric]]
    set_mutation.op_docs [of e r d options, OF prod.collapse [symmetric]] ops_ok_set [of e r d options]
  by (elim wf_storage_step) (simp_all add: wf_engine_def)

lemma wf_patch: "wf_engine e \<Longrightarrow> wf_engine (snd (applyStoragePatchMutation e r ops options))"
  using patch_mutation.op_rest [of e r ops options, OF prod.collapse [symmetric]]
    patch_mutation.op_docs [of e r ops options, OF prod.collapse [symmetric]] ops_ok_patch [of e r ops options]
  by (elim wf_storage_step) (simp_all add: wf_engine_def)

lemma wf_delete: "wf_engine e \<Longrightarrow> wf_engine (snd (deleteStorageMutation e r options required))"
  using delete_mutation.op_rest [of e r options required, OF prod.collapse [symmetric]]
    delete_mutation.op_docs [of e r options required, OF prod.collapse [symmetric]]
    ops_ok_delete [of e r options required]
  by (elim wf_storage_step) (simp_all add: wf_engine_def)

text \<open>Operations that record no operation id.\<close>

lemma wf_set_plain: "wf_engine e \<Longrightarrow> wf_engine (snd (SetStorageWithOptions e r d options))"
proof -
  have "ops_ok (snd (SetStorageWithOptions e r d options)) = ops_ok e"
    by (auto simp: SetStorageWithOptions_def split: sum.split)
  then show "wf_engine e \<Longrightarrow> ?thesis"
    using set_op.op_rest [of e r d options, OF prod.collapse [symmetric]]
      set_op.op_docs [of e r d options, OF prod.collapse [symmetric]]
    by (elim wf_storage_step) (simp_all add: wf_engine_def)
qed

lemma wf_patch_plain: "wf_engine e \<Longrightarrow> wf_engine (snd (ApplyStoragePatchWithOptions e r ops options))"
proof -
  have "ops_ok (snd (ApplyStoragePatchWithOptions e r ops options)) = ops_ok e"
    by (auto simp: ApplyStoragePatchWithOptions_def Let_def split: sum.split)
  then show "wf_engine e \<Longrightarrow> ?thesis"
    using patch_op.op_rest [of e r ops options, OF prod.collapse [symmetric]]
      patch_op.op_docs [of e r ops options, OF prod.collapse [symmetric]]
    by (elim wf_storage_step) (simp_all add: wf_engine_def)
qed

lemma wf_delete_plain: "wf_engine e \<Longrightarrow> wf_engine (snd (deleteStorageWithOptions e r options required))"
proof -
  have "ops_ok (snd (deleteStorageWithOptions e r options required)) = ops_ok e"
    by (auto simp: deleteStorageWithOptions_def split: sum.split)
  then show "wf_engine e \<Longrightarrow> ?thesis"
    using delete_op.op_rest [of e r options required, OF prod.collapse [symmetric]]
      delete_op.op_docs [of e r options required, OF prod.collapse [symmetric]]
    by (elim wf_storage_step) (simp_all add: wf_engine_def)
qed

lemma record_state:
  "snd (RecordStorageMutation e r kind d ops options) \<in>
    {e, snd (deleteStorageWithOptions e r (options\<lparr>smo_ExpectedSequenceSet := False\<rparr>) False),
     snd (SetStorageWithOptions e r d (options\<lparr>smo_ExpectedSequenceSet := False\<rparr>))}"
  by (auto simp: RecordStorageMutation_def Let_def split: prod.split sum.split)

lemma wf_RecordStorageMutation:
  "wf_engine e \<Longrightarrow> wf_engine (snd (RecordStorageMutation e r kind d ops options))"
  using record_state [of e r kind d ops options] wf_delete_plain wf_set_plain by auto

lemma record_event_state:
  "snd (RecordStorageEvent e event n) = e \<or>
   (\<exists>r kind d ops options. snd (RecordStorageEvent e event n) = snd (RecordStorageMutation e r kind d ops options))"
proof (cases "unmarshal_mutation (pe_Payload event)")
  case (Some m)
  have snd_case: "snd (case x of (Inl a, e) \<Rightarrow> (Inl a, e) | (Inr b, e) \<Rightarrow> (Inr (f b), e)) = snd x"
    for x :: "('a + 'b) \<times> Engine" and f :: "'b \<Rightarrow> 'c"
    by (auto split: prod.split sum.split)
  have "snd (RecordStorageMutationPlan e r kind d ops options eo) = snd (RecordStorageMutation e r kind d ops options)"
    for r kind d ops options eo
    by (auto simp: RecordStorageMutationPlan_def split: prod.split sum.split)
  then show ?thesis
    by (simp add: RecordStorageEvent_def Some Let_def snd_case) blast
qed (simp add: RecordStorageEvent_def)

lemma wf_RecordStorageEvent: "wf_engine e \<Longrightarrow> wf_engine (snd (RecordStorageEvent e event n))"
  using record_event_state [of e event n] wf_RecordStorageMutation by auto

text \<open>Storage operations leave the rest of the engine alone.\<close>

lemmas storage_rest = set_mutation.op_rest [OF prod.collapse [symmetric]]
  patch_mutation.op_rest [OF prod.collapse [symmetric]] delete_mutation.op_rest [OF prod.collapse [symmetric]]
  set_op.op_rest [OF prod.collapse [symmetric]] patch_op.op_rest [OF prod.collapse [symmetric]]
  delete_op.op_rest [OF prod.collapse [symmetric]]

lemma record_rest:
  "same_rest e (snd (RecordStorageMutation e r kind d ops options))"
  "same_rest e (snd (RecordStorageEvent e event n))"
proof -
  show m: "same_rest e (snd (RecordStorageMutation e r kind d ops options))" for r kind d ops options
    using record_state [of e r kind d ops options] storage_rest by auto
  show "same_rest e (snd (RecordStorageEvent e event n))"
    using record_event_state [of e event n] m by auto
qed

lemma wf_next_sequence: "wf_engine e \<Longrightarrow> wf_engine (snd (nextStorageSequence e r))"
  by (auto simp: nextStorageSequence_def Let_def wf_engine_def wf_parts)

subsection \<open>Reachable states\<close>

text \<open>
  The locked sections as steps. A leave applies a plan that may have been made in an earlier
  state; \<open>DisconnectSession\<close> is here for a plan that is applied at once, plans that are applied
  later follow below. Every step but a join is quiet: it adds nobody to a room.
\<close>

inductive quiet_step :: "Engine \<Rightarrow> Engine \<Rightarrow> bool" where
  register: "quiet_step e (snd (RegisterSession e info))"
| leave: "quiet_step e (snd (ApplyLeavePlan e plan))"
| disconnect: "quiet_step e (snd (DisconnectSession e c options))"
| set_presence: "quiet_step e (SetPresence e c r payload)"
| acknowledge: "quiet_step e (snd (AcknowledgeEvent e c r n))"
| yjs_register: "quiet_step e (snd (RegisterYJSSessionWithLimit e yinfo limit))"
| yjs_unregister: "quiet_step e (UnregisterYJSConn e c r)"
| yjs_store: "quiet_step e (snd (StoreYJSEvent e yevent))"
| storage_set: "quiet_step e (snd (setStorageMutation e r d mo))"
| storage_patch: "quiet_step e (snd (applyStoragePatchMutation e r ops mo))"
| storage_delete: "quiet_step e (snd (deleteStorageMutation e r mo required))"
| storage_set_plain: "quiet_step e (snd (SetStorageWithOptions e r d mo))"
| storage_patch_plain: "quiet_step e (snd (ApplyStoragePatchWithOptions e r ops mo))"
| storage_delete_plain: "quiet_step e (snd (deleteStorageWithOptions e r mo required))"
| storage_mutation: "quiet_step e (snd (RecordStorageMutation e r kind d ops mo))"
| storage_record: "quiet_step e (snd (RecordStorageEvent e event maxBytes))"

inductive engine_step :: "Engine \<Rightarrow> Engine \<Rightarrow> bool" where
  join: "engine_step e (snd (JoinWithLimits e c r limits))"
| quiet: "quiet_step e e' \<Longrightarrow> engine_step e e'"

text \<open>
  Disconnecting makes a plan under one lock and applies it under another. Whatever plan is
  applied, nobody is added to a room, and sequences never fall.
\<close>

inductive engine_move :: "Engine \<Rightarrow> Engine \<Rightarrow> bool" where
  step: "engine_step e e' \<Longrightarrow> engine_move e e'"
| apply_plan: "engine_move e (snd (ApplyDisconnectPlan e plan))"

inductive_cases engine_stepE: "engine_step e e'"
inductive_cases engine_moveE: "engine_move e e'"

definition plan_of_conn :: "DisconnectPlan \<Rightarrow> conn_id \<Rightarrow> bool" where
  "plan_of_conn plan c \<longleftrightarrow> dp_Cleanup plan = Some \<lparr>cc_ConnID = c\<rparr>"

text \<open>
  The runs of an engine with the disconnect plans that were made and may still be applied, at
  any later time, any number of times, or never. A connection joins no room while it has such
  a plan: the runtime makes and applies the plan when the reader of the connection has ended,
  and only that reader joins rooms for it (\<open>defer s.unregisterConn\<close> in \<open>runtime/service.go\<close>).
\<close>

inductive running :: "DisconnectPlan set \<Rightarrow> Engine \<Rightarrow> bool" where
  start: "running {} New"
| join: "running plans e \<Longrightarrow> \<not> (\<exists>plan \<in> plans. plan_of_conn plan c) \<Longrightarrow> running plans (snd (JoinWithLimits e c r limits))"
| quiet: "running plans e \<Longrightarrow> quiet_step e e' \<Longrightarrow> running plans e'"
| make_plan: "running plans e \<Longrightarrow> running (insert (newDisconnectPlan e c options fanouts) plans) e"
| apply_plan: "running plans e \<Longrightarrow> plan \<in> plans \<Longrightarrow> running plans (snd (ApplyDisconnectPlan e plan))"
| forget: "running plans e \<Longrightarrow> kept \<subseteq> plans \<Longrightarrow> running kept e"

definition reachable :: "Engine \<Rightarrow> bool" where
  "reachable e \<longleftrightarrow> (\<exists>plans. running plans e)"

lemma wf_quiet_step: "quiet_step e e' \<Longrightarrow> wf_engine e \<Longrightarrow> wf_engine e'"
  by (induction rule: quiet_step.induct)
     (simp_all add: wf_RegisterSession wf_ApplyLeavePlan wf_DisconnectSession wf_SetPresence
        wf_AcknowledgeEvent wf_RegisterYJS wf_UnregisterYJS wf_StoreYJSEvent wf_set wf_patch wf_delete
        wf_set_plain wf_patch_plain wf_delete_plain wf_RecordStorageMutation wf_RecordStorageEvent)

lemma same_rest_rooms:
  "same_rest e e' \<Longrightarrow> members_of e' r |\<subseteq>| members_of e r \<and> joined e' c |\<subseteq>| joined e c"
  by (simp add: same_rest_fields)

lemma quiet_step_rooms:
  assumes "quiet_step e e'"
  shows "members_of e' r |\<subseteq>| members_of e r \<and> joined e' c |\<subseteq>| joined e c"
  using assms
proof (induction rule: quiet_step.induct)
  case (leave e plan)
  then show ?case
    by (auto simp: ApplyLeavePlan_def Let_def removeEventAckLocked_def removePresenceLocked_def
        removeRoomMemberLocked_def split: option.split)
next
  case (disconnect e c options)
  then show ?case
    by (auto simp: DisconnectSession_def ApplyDisconnectPlan_def NewDisconnectPlan_def newDisconnectPlan_def
        Let_def removeFromRooms_members removeFromRooms_fields)
next
  case (yjs_register e info limit)
  then show ?case
    by (auto simp: RegisterYJSSessionWithLimit_def removeYJSConnLocked_def Let_def split: option.split)
next
  case (yjs_unregister e c r)
  then show ?case
    by (auto simp: UnregisterYJSConn_def removeYJSConnLocked_def Let_def split: option.split)
next
  case (yjs_store e event)
  then show ?case
    by (auto simp: StoreYJSEvent_def StoreYJSPersistence_def Let_def split: sum.split)
qed ((rule same_rest_rooms, (rule storage_rest | rule record_rest))
    | (simp add: RegisterSession_def SetPresence_def setPresenceLocked_def AcknowledgeEvent_def Let_def))+

text \<open>A plan covers a connection whose rooms it lists, and then applying it keeps the invariant.\<close>

definition covers :: "DisconnectPlan \<Rightarrow> Engine \<Rightarrow> bool" where
  "covers plan e \<longleftrightarrow> (\<forall>c r. plan_of_conn plan c \<longrightarrow> r |\<in>| joined e c \<longrightarrow> r \<in> set (dp_Rooms plan))"

lemma covers_new: "covers (newDisconnectPlan e c options fanouts) e"
  by (auto simp: covers_def plan_of_conn_def newDisconnectPlan_def Let_def)

lemma covers_mono: "covers plan e \<Longrightarrow> (\<And>c. joined e' c |\<subseteq>| joined e c) \<Longrightarrow> covers plan e'"
  by (auto simp: covers_def)

lemma covers_join:
  "covers plan e \<Longrightarrow> \<not> plan_of_conn plan c \<Longrightarrow> covers plan (snd (JoinWithLimits e c r limits))"
  by (auto simp: covers_def JoinWithLimits_def Let_def)

lemma apply_plan_rooms:
  "members_of (snd (ApplyDisconnectPlan e plan)) r |\<subseteq>| members_of e r
   \<and> joined (snd (ApplyDisconnectPlan e plan)) c |\<subseteq>| joined e c"
  by (auto simp: ApplyDisconnectPlan_def Let_def removeFromRooms_members removeFromRooms_fields split: option.split)

lemmas storage_never_back = set_mutation.seq_never_back [OF prod.collapse [symmetric]]
  patch_mutation.seq_never_back [OF prod.collapse [symmetric]]
  delete_mutation.seq_never_back [OF prod.collapse [symmetric]] set_op.seq_never_back [OF prod.collapse [symmetric]]
  patch_op.seq_never_back [OF prod.collapse [symmetric]] delete_op.seq_never_back [OF prod.collapse [symmetric]]

lemma record_never_back:
  assumes "seq_of e room \<noteq> - 1"
  shows "seq_of e room \<le> seq_of (snd (RecordStorageMutation e r kind d ops options)) room"
    "seq_of e room \<le> seq_of (snd (RecordStorageEvent e event n)) room"
proof -
  show m: "seq_of e room \<le> seq_of (snd (RecordStorageMutation e r kind d ops options)) room" for r kind d ops options
    using record_state [of e r kind d ops options] storage_never_back [of e room] assms by auto
  show "seq_of e room \<le> seq_of (snd (RecordStorageEvent e event n)) room"
    using record_event_state [of e event n] m by auto
qed

lemma same_seq: "storageSeq e' = storageSeq e \<Longrightarrow> seq_of e room \<le> seq_of e' room"
  by (simp add: seq_of_def)

lemma quiet_step_seq: "quiet_step e e' \<Longrightarrow> seq_of e room \<noteq> - 1 \<Longrightarrow> seq_of e room \<le> seq_of e' room"
proof (induction rule: quiet_step.induct)
  case (leave e plan)
  then show ?case
    by (intro same_seq) (simp add: ApplyLeavePlan_def Let_def removeEventAckLocked_def removePresenceLocked_def
        removeRoomMemberLocked_def split: option.split)
next
  case (disconnect e c options)
  then show ?case
    by (intro same_seq) (simp add: DisconnectSession_def ApplyDisconnectPlan_def Let_def removeFromRooms_fields split: option.split)
next
  case (yjs_register e info limit)
  then show ?case
    by (intro same_seq) (simp add: RegisterYJSSessionWithLimit_def removeYJSConnLocked_def Let_def split: option.split)
next
  case (yjs_unregister e c r)
  then show ?case
    by (intro same_seq) (simp add: UnregisterYJSConn_def removeYJSConnLocked_def Let_def split: option.split)
next
  case (yjs_store e event)
  then show ?case
    by (intro same_seq) (simp add: StoreYJSEvent_def StoreYJSPersistence_def Let_def split: sum.split)
qed (erule storage_never_back record_never_back
    | (intro same_seq, simp add: RegisterSession_def SetPresence_def setPresenceLocked_def AcknowledgeEvent_def Let_def))+

lemma engine_move_seq:
  assumes "engine_move e e'" "seq_of e room \<noteq> - 1"
  shows "seq_of e room \<le> seq_of e' room"
  using assms(1)
proof (cases rule: engine_move.cases)
  case step
  then show ?thesis
  proof (cases rule: engine_step.cases)
    case (join c r limits)
    then show ?thesis by (intro same_seq) (simp add: JoinWithLimits_def Let_def)
  qed (use assms(2) quiet_step_seq in blast)
next
  case (apply_plan plan)
  then show ?thesis
    by (intro same_seq) (simp add: ApplyDisconnectPlan_def Let_def removeFromRooms_fields split: option.split)
qed

lemma wf_ApplyDisconnectPlan:
  assumes "wf_engine e" "covers plan e"
  shows "wf_engine (snd (ApplyDisconnectPlan e plan))"
proof (cases "dp_Cleanup plan")
  case (Some cleanup)
  then have "plan_of_conn plan (cc_ConnID cleanup)" by (simp add: plan_of_conn_def)
  then have "r |\<in>| joined e (cc_ConnID cleanup) \<Longrightarrow> r \<in> set (dp_Rooms plan)" for r
    using assms(2) unfolding covers_def by blast
  then show ?thesis
    using assms(1) Some
    by (auto simp: Let_def ApplyDisconnectPlan_def wf_engine_def wf_parts removeFromRooms_fields removeFromRooms_members
        intro: removeFromRooms_no_empty)
qed (simp add: ApplyDisconnectPlan_def assms(1))

lemma wf_running: "running plans e \<Longrightarrow> wf_engine e \<and> (\<forall>plan \<in> plans. covers plan e)"
proof (induction rule: running.induct)
  case start
  then show ?case by (simp add: wf_New)
next
  case (join plans e c r limits)
  then show ?case using wf_Join covers_join by blast
next
  case (quiet plans e e')
  then show ?case using wf_quiet_step quiet_step_rooms covers_mono by blast
next
  case (make_plan plans e c options fanouts)
  then show ?case by (simp add: covers_new)
next
  case (apply_plan plans e plan)
  then have "wf_engine (snd (ApplyDisconnectPlan e plan))" by (simp add: wf_ApplyDisconnectPlan)
  moreover have "covers q (snd (ApplyDisconnectPlan e plan))" if "q \<in> plans" for q
    using apply_plan.IH that apply_plan_rooms covers_mono by blast
  ultimately show ?case by blast
qed blast

lemma wf_reachable: "reachable e \<Longrightarrow> wf_engine e"
  using wf_running by (auto simp: reachable_def)

text \<open>A join between the plan and its application would leave a member that has no room.\<close>

lemma join_after_plan:
  assumes "r |\<notin>| joined e c"
  shows "\<not> wf_engine (snd (ApplyDisconnectPlan (snd (JoinWithLimits e c r \<lparr>jl_RoomsPerConnection = 0, jl_RoomConnections = 0\<rparr>))
    (newDisconnectPlan e c options fanouts)))"
proof -
  let ?e = "snd (ApplyDisconnectPlan (snd (JoinWithLimits e c r \<lparr>jl_RoomsPerConnection = 0, jl_RoomConnections = 0\<rparr>))
    (newDisconnectPlan e c options fanouts))"
  have "c |\<in>| members_of ?e r \<and> r |\<notin>| joined ?e c"
    using assms by (simp add: ApplyDisconnectPlan_def newDisconnectPlan_def Let_def JoinWithLimits_def
        removeFromRooms_members removeFromRooms_fields)
  then show ?thesis by (auto simp: wf_engine_def rooms_ok_def)
qed

end
