(* ===== verification/Room_Properties.thy ===== *)
theory Room_Properties
  imports Engine_Invariant
begin

text \<open>
  What the rooms of an engine guarantee: the invariant of all reachable states, joining
  within limits, leaving and disconnecting without traces, acknowledgements, paging and
  replay, and who receives an event.

  Paging a snapshot, replaying missed events and choosing the receivers of an event.
\<close>

subsection \<open>Library\<close>

lemma fcard_finsert_new: "c |\<notin>| s \<Longrightarrow> flen (finsert c s) = flen s + 1"
  by (simp add: fcard_finsert_disjoint)

lemma join_cases:
  assumes "JoinWithLimits e c r limits = (res, e')"
  obtains (again) "r |\<in>| joined e c"
      "res = Inr \<lparr>jr_AlreadyJoined = True, jr_Snapshot = snapshotLocked e r, jr_MembershipMutation = None\<rparr>"
      "gm_set (rooms e') = gm_set (rooms e)" "gm_set (connRooms e') = gm_set (connRooms e)"
  | (rooms_full) "r |\<notin>| joined e c" "0 < jl_RoomsPerConnection limits"
      "jl_RoomsPerConnection limits \<le> flen (joined e c)"
      "res = Inl ErrRoomLimitExceeded"
      "gm_set (rooms e') = gm_set (rooms e)" "gm_set (connRooms e') = gm_set (connRooms e)"
  | (room_full) "r |\<notin>| joined e c" "0 < jl_RoomConnections limits"
      "jl_RoomConnections limits \<le> flen (members_of e r)"
      "jl_RoomsPerConnection limits \<le> 0 \<or> flen (joined e c) < jl_RoomsPerConnection limits"
      "res = Inl ErrRoomCapacityExceeded"
      "gm_set (rooms e') = gm_set (rooms e)" "gm_set (connRooms e') = gm_set (connRooms e)"
  | (new) "r |\<notin>| joined e c"
      "jl_RoomsPerConnection limits \<le> 0 \<or> flen (joined e c) < jl_RoomsPerConnection limits"
      "jl_RoomConnections limits \<le> 0 \<or> flen (members_of e r) < jl_RoomConnections limits"
      "res = Inr \<lparr>jr_AlreadyJoined = False, jr_Snapshot = snapshotLocked e' r,
         jr_MembershipMutation = Some (newMembershipMutation MembershipMutationJoin c r)\<rparr>"
      "gm_set (rooms e') = (gm_set (rooms e))(r := finsert c (members_of e r))"
      "gm_set (connRooms e') = (gm_set (connRooms e))(c := finsert r (joined e c))"
proof -
  let ?e0 = "e\<lparr>connRooms := fmupd c (joined e c) (connRooms e)\<rparr>"
  let ?e1 = "?e0\<lparr>connRooms := gm_insert c r (connRooms ?e0), rooms := gm_insert r c (rooms ?e0)\<rparr>"
  let ?b = "jl_RoomsPerConnection limits > 0 \<and> flen (joined e c) \<ge> jl_RoomsPerConnection limits"
  let ?c = "jl_RoomConnections limits > 0 \<and> flen (members_of e r) \<ge> jl_RoomConnections limits"
  consider (a) "r |\<in>| joined e c" | (b) "r |\<notin>| joined e c" ?b
    | (c) "r |\<notin>| joined e c" "\<not> ?b" ?c | (d) "r |\<notin>| joined e c" "\<not> ?b" "\<not> ?c"
    by blast
  then show thesis
  proof cases
    case a
    with assms show thesis by (intro again) (auto simp: JoinWithLimits_def Let_def snapshotLocked_def)
  next
    case b
    with assms show thesis by (intro rooms_full) (auto simp: JoinWithLimits_def Let_def)
  next
    case c
    with assms show thesis by (intro room_full) (auto simp: JoinWithLimits_def Let_def)
  next
    case d
    with assms have e': "e' = ?e1" by (auto simp: JoinWithLimits_def Let_def)
    with d assms show thesis
      by (intro new) (auto simp: JoinWithLimits_def Let_def fun_eq_iff)
  qed
qed

subsection \<open>The invariant\<close>

text \<open>C1. In every state that an engine reaches the two indexes of room members agree, no empty
  room or presence map is kept, acknowledgements belong to joined rooms, Yjs sessions and
  documents are consistent, each stored document is a storage document and each recorded
  operation has a fingerprint. The operations of the engine come in any order, and the plans of
  leaves and disconnects are applied at any time after they were made; a connection joins no
  room between the making of a disconnect plan for it and its application, as in the
  runtime.\<close>

theorem reachable_invariant: "reachable e \<Longrightarrow> wf_engine e"
  by (rule wf_reachable)

definition plan_c1 :: "Engine \<Rightarrow> DisconnectPlan" where
  "plan_c1 e = newDisconnectPlan e ''c1'' no_origin True"

definition c1_in_r1 :: Engine where
  "c1_in_r1 = snd (JoinWithLimits New ''c1'' ''r1'' \<lparr>jl_RoomsPerConnection = 1, jl_RoomConnections = 2\<rparr>)"

text \<open>A plan is made, another connection joins the room, then the plan is applied.\<close>

theorem reachable_invariant_witness:
  "wf_engine (snd (ApplyDisconnectPlan
     (snd (JoinWithLimits c1_in_r1 ''c2'' ''r1'' \<lparr>jl_RoomsPerConnection = 1, jl_RoomConnections = 2\<rparr>)) (plan_c1 c1_in_r1)))"
proof -
  have "running {} c1_in_r1" unfolding c1_in_r1_def by (intro running.join running.start) simp
  then have "running {plan_c1 c1_in_r1} c1_in_r1" unfolding plan_c1_def by (rule running.make_plan)
  then have "running {plan_c1 c1_in_r1}
      (snd (JoinWithLimits c1_in_r1 ''c2'' ''r1'' \<lparr>jl_RoomsPerConnection = 1, jl_RoomConnections = 2\<rparr>))"
    by (rule running.join) (simp add: plan_of_conn_def plan_c1_def newDisconnectPlan_def Let_def)
  then have "reachable (snd (ApplyDisconnectPlan
      (snd (JoinWithLimits c1_in_r1 ''c2'' ''r1'' \<lparr>jl_RoomsPerConnection = 1, jl_RoomConnections = 2\<rparr>)) (plan_c1 c1_in_r1)))"
    unfolding reachable_def using running.apply_plan by blast
  then show ?thesis by (rule reachable_invariant)
qed

subsection \<open>Limits\<close>

text \<open>The states of an engine whose joins all use the same limits.\<close>

inductive reachable_with :: "JoinLimits \<Rightarrow> Engine \<Rightarrow> bool" for limits where
  start: "reachable_with limits New"
| join: "reachable_with limits e \<Longrightarrow> reachable_with limits (snd (JoinWithLimits e c r limits))"
| quiet: "reachable_with limits e \<Longrightarrow> quiet_step e e' \<Longrightarrow> reachable_with limits e'"

lemma reachable_with_reachable: "reachable_with limits e \<Longrightarrow> reachable e"
proof -
  assume "reachable_with limits e"
  then have "running {} e"
    by (induction rule: reachable_with.induct) (auto intro: running.start running.join running.quiet)
  then show ?thesis by (auto simp: reachable_def)
qed

definition within_limits :: "JoinLimits \<Rightarrow> Engine \<Rightarrow> bool" where
  "within_limits limits e \<longleftrightarrow>
     (\<forall>r. 0 < jl_RoomConnections limits \<longrightarrow> flen (members_of e r) \<le> jl_RoomConnections limits)
   \<and> (\<forall>c. 0 < jl_RoomsPerConnection limits \<longrightarrow> flen (joined e c) \<le> jl_RoomsPerConnection limits)"

lemma within_limits_mono:
  assumes "\<And>r c. members_of e' r |\<subseteq>| members_of e r \<and> joined e' c |\<subseteq>| joined e c" "within_limits limits e"
  shows "within_limits limits e'"
proof -
  have "flen (members_of e' r) \<le> flen (members_of e r)" "flen (joined e' c) \<le> flen (joined e c)" for r c
    using assms(1) by (auto intro: fcard_mono)
  with assms(2) show ?thesis unfolding within_limits_def by (meson order_trans)
qed

lemma within_limits_join:
  assumes "within_limits limits e"
  shows "within_limits limits (snd (JoinWithLimits e c r limits))"
proof -
  obtain res e' where j: "JoinWithLimits e c r limits = (res, e')" by fastforce
  from j show ?thesis
  proof (cases rule: join_cases)
    case new
    with assms show ?thesis
      by (cases "c |\<in>| members_of e r")
        (auto simp: j within_limits_def fcard_finsert_new finsert_absorb)
  qed (use assms j in \<open>simp_all add: within_limits_def\<close>)
qed

lemma reachable_within_limits: "reachable_with limits e \<Longrightarrow> within_limits limits e"
proof (induction rule: reachable_with.induct)
  case start
  then show ?case by (simp add: within_limits_def New_def fcard.rep_eq)
next
  case (quiet e e')
  then show ?case using quiet_step_rooms within_limits_mono by blast
qed (rule within_limits_join)

text \<open>C8. When all joins use the same limits, no room ever holds more connections and no
  connection is ever in more rooms than a positive limit allows, whatever else the engine
  does in between.\<close>

theorem limits_never_exceeded: "reachable_with limits e \<Longrightarrow> within_limits limits e"
  by (rule reachable_within_limits)

definition one_each :: JoinLimits where
  "one_each = \<lparr>jl_RoomsPerConnection = 1, jl_RoomConnections = 1\<rparr>"

theorem limits_never_exceeded_witness:
  "within_limits one_each
     (snd (JoinWithLimits (snd (JoinWithLimits New ''c1'' ''r1'' one_each)) ''c2'' ''r1'' one_each))"
  by (rule limits_never_exceeded [OF reachable_with.join [OF reachable_with.join [OF reachable_with.start]]])

subsection \<open>Joining\<close>

text \<open>C5. A join that succeeds makes the connection a member of the room, and changes no other
  membership; its snapshot lists the members of the room afterwards, the new one included,
  and it announces the join exactly when the connection was not a member before. A join
  that is refused changes no membership, and is refused only at a positive limit that is
  reached.\<close>

theorem join_effect:
  assumes "wf_engine e" "JoinWithLimits e c r limits = (res, e')"
  shows "case res of
      Inr result \<Rightarrow>
        (\<forall>c' r'. c' |\<in>| members_of e' r' \<longleftrightarrow> c' |\<in>| members_of e r' \<or> (c' = c \<and> r' = r))
      \<and> sn_Members (jr_Snapshot result) = MemberIDs e' r []
      \<and> c \<in> set (sn_Members (jr_Snapshot result))
      \<and> jr_AlreadyJoined result = (c |\<in>| members_of e r)
      \<and> (jr_MembershipMutation result =
           (if c |\<in>| members_of e r then None
            else Some \<lparr>mm_Kind = MembershipMutationJoin, mm_ConnID = c, mm_Room = r\<rparr>))
    | Inl err \<Rightarrow>
        (\<forall>r'. members_of e' r' = members_of e r') \<and> c |\<notin>| members_of e r
      \<and> (err = ErrRoomLimitExceeded \<and> 0 < jl_RoomsPerConnection limits
           \<and> jl_RoomsPerConnection limits \<le> len (JoinedRooms e c)
         \<or> err = ErrRoomCapacityExceeded \<and> 0 < jl_RoomConnections limits
           \<and> jl_RoomConnections limits \<le> len (MemberIDs e r []))"
proof -
  have agree: "r |\<in>| joined e c \<longleftrightarrow> c |\<in>| members_of e r"
    using assms(1) by (simp add: wf_engine_def rooms_ok_def)
  note facts = agree room_index.all_targets MemberIDs_def snapshotLocked_def newMembershipMutation_def
    JoinedRooms_def joinedRoomsLocked_def
  from assms(2) show ?thesis
    by (cases rule: join_cases) (auto simp: facts)
qed

theorem join_effect_witness:
  "(\<forall>c' r'. c' |\<in>| members_of (snd (Join New ''c1'' ''r1'' 3)) r' \<longleftrightarrow>
     c' |\<in>| members_of New r' \<or> (c' = ''c1'' \<and> r' = ''r1''))"
proof -
  obtain res where j: "JoinWithLimits New ''c1'' ''r1'' \<lparr>jl_RoomsPerConnection = 3, jl_RoomConnections = 0\<rparr>
      = (Inr res, snd (Join New ''c1'' ''r1'' 3))"
    by (simp add: Join_def JoinWithLimits_def New_def Let_def fcard.rep_eq)
  from join_effect [OF wf_New j] show ?thesis by simp
qed


subsection \<open>Leaving\<close>

text \<open>The state of a connection in a room: membership, presence and acknowledgement.\<close>

definition trace_of :: "Engine \<Rightarrow> conn_id \<Rightarrow> room_id \<Rightarrow> bool \<times> bytes option \<times> u64" where
  "trace_of e c r = (c |\<in>| members_of e r, fmlookup (presence_of e r) c, EventAckSequence e c r)"

definition no_trace :: "bool \<times> bytes option \<times> u64" where
  "no_trace = (False, None, 0)"

definition left_state :: "conn_id \<Rightarrow> room_id \<Rightarrow> Engine \<Rightarrow> Engine" where
  "left_state c r e = removeEventAckLocked c r (removePresenceLocked c r
     (removeRoomMemberLocked c r (e\<lparr>connRooms := gm_remove c r (connRooms e)\<rparr>)))"

lemma without_one: "c \<noteq> [] \<Longrightarrow> without s c = s |-| {|c|}" "without s [] = s"
  by (auto simp: without_def)

lemma left_trace:
  "trace_of (left_state c r e) c' r' = (if c' = c \<and> r' = r then no_trace else trace_of e c' r')"
  by (cases "c' = c"; cases "r' = r")
     (auto simp: left_state_def trace_of_def no_trace_def EventAckSequence_def removeEventAckLocked_def
       removePresenceLocked_def removeRoomMemberLocked_def gm_u64_def)

lemma left_members: "members_of (left_state c r e) r = members_of e r |-| {|c|}"
  by (simp add: left_state_def removeEventAckLocked_def removePresenceLocked_def removeRoomMemberLocked_def)

text \<open>C6. Leaving a room removes the membership, the presence and the acknowledgement of the
  connection in this room and nothing of anyone else; the offline event goes to the members
  that stay, and the removal is announced. Leaving a room without being in it does nothing.\<close>

theorem leave_effect:
  assumes "wf_engine e" "c \<noteq> []" "LeaveWithPresenceFanout e c r options = (res, e')"
  shows "if c |\<in>| members_of e r then
      (\<forall>c' r'. trace_of e' c' r' = (if c' = c \<and> r' = r then no_trace else trace_of e c' r'))
      \<and> res = \<lparr>lp_Left = True,
          lp_PresenceFanout = Some \<lparr>pf_Event = NewOfflinePresenceEvent c r options,
            pf_TargetConnIDs = MemberIDs e' r []\<rparr>,
          lp_MembershipMutation =
            Some \<lparr>mm_Kind = MembershipMutationLeave, mm_ConnID = c, mm_Room = r\<rparr>\<rparr>
    else e' = e \<and> res = no_leave"
proof -
  have agree: "r |\<in>| joined e c \<longleftrightarrow> c |\<in>| members_of e r"
    using assms(1) by (simp add: wf_engine_def rooms_ok_def)
  note defs = LeaveWithPresenceFanout_def NewLeavePlan_def newLeavePlan_def ApplyLeavePlan_def Let_def
    no_leave_def newMembershipMutation_def agree
  have "e' = left_state c r e" if "c |\<in>| members_of e r"
    using assms(3) that by (simp add: defs left_state_def)
  then show ?thesis
    using assms(2,3)
    by (auto simp: defs left_trace left_members MemberIDs_def memberIDsLocked_def without_one)
qed

text \<open>A room with two members, of whom one has a presence.\<close>

definition two_members :: Engine where
  "two_members = SetPresence (snd (Join (snd (Join New ''c1'' ''r1'' 0)) ''c2'' ''r1'' 0)) ''c1'' ''r1'' ''1''"

lemma wf_two_members: "wf_engine two_members"
  by (simp add: two_members_def Join_def wf_SetPresence wf_Join wf_New)

theorem leave_effect_witness:
  "trace_of two_members ''c1'' ''r1'' = (True, Some ''1'', 0)
   \<and> trace_of (snd (LeaveWithPresenceFanout two_members ''c1'' ''r1'' no_origin)) ''c1'' ''r1'' = no_trace
   \<and> trace_of (snd (LeaveWithPresenceFanout two_members ''c1'' ''r1'' no_origin)) ''c2'' ''r1'' = (True, None, 0)"
proof -
  have t: "trace_of two_members ''c1'' ''r1'' = (True, Some ''1'', 0)"
    "trace_of two_members ''c2'' ''r1'' = (True, None, 0)" by code_simp+
  then have m: "''c1'' |\<in>| members_of two_members ''r1''" by (simp add: trace_of_def)
  from leave_effect [OF wf_two_members _ prod.collapse [symmetric], of "''c1''" "''r1''" no_origin] m t
  show ?thesis by simp
qed

subsection \<open>Disconnecting\<close>

text \<open>C7. A disconnected connection is a member of no room, is in no room by its own index, has no
  session and no acknowledgement, and has lost its presence in the rooms it had joined; one
  offline event per joined room goes to the members that stay; nobody else's membership,
  presence or acknowledgement changes.\<close>

theorem disconnect_effect:
  assumes "wf_engine e" "c \<noteq> []" "DisconnectSession e c options = (res, e')"
  shows "(\<forall>r. trace_of e' c r =
            (if c |\<in>| members_of e r then no_trace else (False, fmlookup (presence_of e r) c, 0)))
    \<and> (\<forall>c' r. c' \<noteq> c \<longrightarrow> trace_of e' c' r = trace_of e c' r)
    \<and> JoinedRooms e' c = [] \<and> TouchSession e' c = None
    \<and> dp_Rooms res = JoinedRooms e c
    \<and> dp_PresenceFanouts res = map (\<lambda>r. \<lparr>pf_Event = NewOfflinePresenceEvent c r options,
          pf_TargetConnIDs = MemberIDs e' r []\<rparr>) (JoinedRooms e c)"
proof -
  have agree: "r |\<in>| joined e d \<longleftrightarrow> d |\<in>| members_of e r" for d r
    using assms(1) by (simp add: wf_engine_def rooms_ok_def)
  define e1 where "e1 = removeFromRoomsLocked c (sorted_ids (joined e c)) e"
  have e': "e' = e1\<lparr>connRooms := fmdrop c (connRooms e1), sessions := fmdrop c (sessions e1),
      eventAcks := fmdrop c (eventAcks e1)\<rparr>"
    and res: "res = newDisconnectPlan e c options True"
    using assms(3)
    by (simp_all add: DisconnectSession_def NewDisconnectPlan_def newDisconnectPlan_def ApplyDisconnectPlan_def
        Let_def e1_def)
  have m: "members_of e1 r = members_of e r |-| {|c|}" for r
    by (simp add: e1_def removeFromRooms_members agree)
  have p: "presence_of e1 r = (if c |\<in>| members_of e r then fmdrop c (presence_of e r) else presence_of e r)" for r
    by (simp add: e1_def removeFromRooms_presence agree)
  have acks: "eventAcks e1 = eventAcks e"
    by (simp add: e1_def removeFromRooms_fields)
  have "c |\<notin>| members_of e r \<Longrightarrow> EventAckSequence e c r = 0" for r
    using assms(1)
    by (cases "fmlookup (acks_of e c) r") (auto simp: wf_engine_def acks_ok_def EventAckSequence_def gm_u64_def agree)
  then show ?thesis
    using assms(2)
    by (auto simp: e' res m p acks trace_of_def no_trace_def EventAckSequence_def Let_def JoinedRooms_def joinedRoomsLocked_def TouchSession_def newDisconnectPlan_def MemberIDs_def
        memberIDsLocked_def without_one)
qed

theorem disconnect_effect_witness:
  "trace_of (snd (DisconnectSession two_members ''c1'' no_origin)) ''c1'' ''r1'' = no_trace"
proof -
  have "''c1'' |\<in>| members_of two_members ''r1''" by code_simp
  with disconnect_effect [OF wf_two_members _ prod.collapse [symmetric], of "''c1''" no_origin]
  show ?thesis by simp
qed

text \<open>C32. Presence that a connection sets in a room it never joined outlives the connection: the
  disconnect visits the joined rooms only, so the entry stays in the snapshot of the room.\<close>

theorem stray_presence_survives:
  assumes "wf_engine e" "c |\<notin>| members_of e r"
  shows "fmlookup (sn_Presence (Snapshot (snd (DisconnectSession (SetPresence e c r payload) c options)) r)) c
    = Some payload"
proof -
  have "r |\<notin>| joined e c"
    using assms by (simp add: wf_engine_def rooms_ok_def)
  then show ?thesis
    by (simp add: Snapshot_def snapshotLocked_def DisconnectSession_def NewDisconnectPlan_def
        newDisconnectPlan_def ApplyDisconnectPlan_def Let_def removeFromRooms_presence SetPresence_def
        setPresenceLocked_def)
qed

theorem stray_presence_survives_witness:
  "fmlookup (sn_Presence (Snapshot (snd (DisconnectSession
      (SetPresence New ''c9'' ''r1'' ''true'') ''c9'' no_origin)) ''r1'')) ''c9'' = Some ''true''"
  by (rule stray_presence_survives [OF wf_New]) (simp add: New_def)

subsection \<open>Acknowledgements\<close>

text \<open>An acknowledgement is accepted only for a sequence that is not zero, from a member; the
  recorded sequence is then the maximum of the old one and the new one, so that it never goes
  back, and the acknowledgements of others and of other rooms are untouched. A refused
  acknowledgement changes nothing.\<close>

theorem acknowledge_effect:
  assumes "AcknowledgeEvent e c r n = (ok, e')"
  shows "ok = (c \<noteq> [] \<and> r \<noteq> [] \<and> n \<noteq> 0 \<and> r \<in> set (JoinedRooms e c))
    \<and> (\<forall>c' r'. EventAckSequence e' c' r' =
         (if ok \<and> c' = c \<and> r' = r then max n (EventAckSequence e c r) else EventAckSequence e c' r'))
    \<and> (\<not> ok \<longrightarrow> e' = e)"
  using assms
  by (auto simp: AcknowledgeEvent_def Let_def EventAckSequence_def JoinedRooms_def joinedRoomsLocked_def
      max_def split: if_split_asm)

theorem acknowledge_effect_witness:
  "EventAckSequence (snd (AcknowledgeEvent (snd (AcknowledgeEvent two_members ''c1'' ''r1'' 7)) ''c1'' ''r1'' 3)) ''c1'' ''r1'' = 7"
proof -
  let ?e = "snd (AcknowledgeEvent two_members ''c1'' ''r1'' 7)"
  have "fst (AcknowledgeEvent ?e ''c1'' ''r1'' 3)" "EventAckSequence ?e ''c1'' ''r1'' = 7"
    by code_simp+
  with acknowledge_effect [OF prod.collapse [symmetric], of ?e "''c1''" "''r1''" 3]
  show ?thesis by (simp add: max_def)
qed

text \<open>The acknowledged sequences of the members of a room, without the missing ones.\<close>

definition acked :: "Engine \<Rightarrow> room_id \<Rightarrow> u64 set" where
  "acked e r = {EventAckSequence e c r | c. c |\<in>| members_of e r} - {0}"

lemma ack_step_zero: "foldl ack_step acc ns = foldl ack_step acc (filter (\<lambda>n. n \<noteq> 0) ns)"
  by (induction ns arbitrary: acc) (auto simp: ack_step_def split: prod.split)

lemma ack_step_fold:
  "a \<noteq> 0 \<Longrightarrow> 0 \<notin> set ns \<Longrightarrow> foldl ack_step (a, b) ns = (fold min ns a, fold max ns b)"
proof (induction ns arbitrary: a b)
  case (Cons n ns)
  then have "ack_step (a, b) n = (min n a, max n b)" "min n a \<noteq> 0"
    by (auto simp: ack_step_def min_def max_def)
  with Cons show ?case by simp
qed simp

lemma foldl_ack_step:
  assumes "s = set ns - {0}"
  shows "foldl ack_step (0, 0) ns = (if s = {} then (0, 0) else (Min s, Max s))"
proof (cases "filter (\<lambda>n. n \<noteq> 0) ns")
  case Nil
  moreover have "s = set (filter (\<lambda>n. n \<noteq> 0) ns)" using assms by auto
  ultimately show ?thesis by (simp add: ack_step_zero [of _ ns])
next
  case (Cons n ms)
  have s: "s = set (n # ms)" using assms Cons [symmetric] by auto
  have n: "n \<noteq> 0" "0 \<notin> set ms" using s assms by auto
  then have "ack_step (0, 0) n = (n, n)" by (auto simp: ack_step_def word_neq_0_conv)
  moreover have "Min s = fold min ms n" "Max s = fold max ms n"
    unfolding s by (rule Min.set_eq_fold Max.set_eq_fold)+
  ultimately show ?thesis
    using n s by (simp add: ack_step_zero [of _ ns] Cons ack_step_fold)
qed

text \<open>The range of acknowledged sequences that a room reports is the least and the greatest
  sequence that a member of the room has acknowledged, and (0, 0) when no member has.\<close>

theorem ack_range:
  "eventAckRangeLocked e r = (if acked e r = {} then (0, 0) else (Min (acked e r), Max (acked e r)))"
  unfolding eventAckRangeLocked_def
  by (rule foldl_ack_step) (auto simp: acked_def EventAckSequence_def)

subsection \<open>Paging\<close>

text \<open>A client that follows the cursors: the pages it gets, with fuel for the number of pages.\<close>

fun follow_pages :: "nat \<Rightarrow> Snapshot \<Rightarrow> int \<Rightarrow> string \<Rightarrow> SnapshotPage list option" where
  "follow_pages 0 snap limit cursor = None"
| "follow_pages (Suc fuel) snap limit cursor =
    (let page = PageSnapshot snap \<lparr>so_Limit = limit, so_Cursor = cursor\<rparr>
     in if sp_NextCursor page = [] then Some [page]
        else map_option (\<lambda>pages. page # pages) (follow_pages fuel snap limit (sp_NextCursor page)))"

lemma index_after_nth:
  "distinct xs \<Longrightarrow> k < length xs \<Longrightarrow> index_after (xs ! k) xs = Suc k"
proof (induction xs arbitrary: k)
  case (Cons x xs)
  then show ?case by (cases k) (auto simp: Let_def)
qed simp

text \<open>\<open>cursor_at xs k c\<close>: the cursor \<open>c\<close> stands for the first \<open>k\<close> members.\<close>

definition cursor_at :: "string list \<Rightarrow> nat \<Rightarrow> string \<Rightarrow> bool" where
  "cursor_at xs k c \<longleftrightarrow> k \<le> length xs \<and> (if k = 0 then c = [] else c = xs ! (k - 1))"

lemma page_at:
  assumes "distinct (sn_Members snap)" "[] \<notin> set (sn_Members snap)" "0 < limit"
    and xs: "xs = sort (sn_Members snap)" and k: "cursor_at xs k c" "k < length xs \<or> k = 0"
    and page: "page = PageSnapshot snap \<lparr>so_Limit = limit, so_Cursor = c\<rparr>"
  shows "sp_Members page = take (nat limit) (drop k xs)"
    and "sp_NextCursor page = (if k + nat limit < length xs then xs ! (k + nat limit - 1) else [])"
    and "sp_Presence page = fmrestrict_set (set (sp_Members page)) (sn_Presence snap)"
proof -
  have d: "distinct xs" "[] \<notin> set xs" using assms by auto
  have "(if c = [] then 0 else index_after c xs) = k"
  proof (cases "k = 0")
    case False
    with k have c: "c = xs ! (k - 1)" "k - 1 < length xs" by (auto simp: cursor_at_def)
    with d have "c \<noteq> []" by (metis nth_mem)
    moreover have "index_after c xs = Suc (k - 1)" using c d index_after_nth by simp
    ultimately show ?thesis using False by simp
  qed (use k in \<open>simp add: cursor_at_def\<close>)
  then have start: "c = [] \<Longrightarrow> k = 0" "c \<noteq> [] \<Longrightarrow> index_after c xs = k" by simp_all
  note p = page PageSnapshot_def Let_def xs [symmetric] start
  show "sp_Presence page = fmrestrict_set (set (sp_Members page)) (sn_Presence snap)"
    by (simp add: p)
  show "sp_Members page = take (nat limit) (drop k xs)"
    using assms(3) by (cases "c = []") (auto simp: p nat_add_distrib nat_diff_distrib)
  show "sp_NextCursor page = (if k + nat limit < length xs then xs ! (k + nat limit - 1) else [])"
    using assms(3) by (cases "c = []") (auto simp: p nat_add_distrib nat_diff_distrib)
qed

lemma follow_pages_at:
  assumes "distinct (sn_Members snap)" "[] \<notin> set (sn_Members snap)" "0 < limit"
    and "xs = sort (sn_Members snap)" "cursor_at xs k c" "k < length xs \<or> k = 0"
    and "length xs - k < fuel"
  shows "\<exists>pages. follow_pages fuel snap limit c = Some pages
    \<and> concat (map sp_Members pages) = drop k xs
    \<and> list_all (\<lambda>p. len (sp_Members p) \<le> limit
         \<and> sp_Presence p = fmrestrict_set (set (sp_Members p)) (sn_Presence snap)) pages"
  using assms(5-)
proof (induction fuel arbitrary: k c)
  case (Suc fuel)
  define page where "page = PageSnapshot snap \<lparr>so_Limit = limit, so_Cursor = c\<rparr>"
  note at = page_at [OF assms(1-4) Suc.prems(1,2) page_def]
  have small: "len (sp_Members page) \<le> limit" using assms(3) by (simp add: at)
  show ?case
  proof (cases "k + nat limit < length xs")
    case True
    let ?k = "k + nat limit"
    have ne: "xs ! (?k - 1) \<noteq> []"
      using True assms(2,4) nth_mem [of "?k - 1" xs] by (metis less_imp_diff_less set_sort)
    have "cursor_at xs ?k (xs ! (?k - 1))" using True assms(3) by (auto simp: cursor_at_def)
    moreover have "length xs - ?k < fuel" using True Suc.prems(3) assms(3) by linarith
    ultimately obtain pages where "follow_pages fuel snap limit (xs ! (?k - 1)) = Some pages"
      "concat (map sp_Members pages) = drop ?k xs"
      "list_all (\<lambda>p. len (sp_Members p) \<le> limit
         \<and> sp_Presence p = fmrestrict_set (set (sp_Members p)) (sn_Presence snap)) pages"
      using Suc.IH [of ?k] True by blast
    moreover have "take (nat limit) (drop k xs) @ drop ?k xs = drop k xs"
      by (metis add.commute append_take_drop_id drop_drop)
    ultimately show ?thesis
      using True ne small by (simp add: Let_def page_def [symmetric] at)
  next
    case False
    then show ?thesis
      using small by (simp add: Let_def page_def [symmetric] at)
  qed
qed simp

text \<open>C31. Following the cursors of a snapshot with a positive page size ends, lists every member
  exactly once in order, with pages of at most that size, each with the presence of its own
  members.\<close>

theorem paging_lists_everyone:
  assumes "distinct (sn_Members snap)" "[] \<notin> set (sn_Members snap)" "0 < limit"
  shows "\<exists>pages. follow_pages (Suc (length (sn_Members snap))) snap limit [] = Some pages
    \<and> concat (map sp_Members pages) = sort (sn_Members snap)
    \<and> list_all (\<lambda>p. len (sp_Members p) \<le> limit
         \<and> sp_Presence p = fmrestrict_set (set (sp_Members p)) (sn_Presence snap)) pages"
  using follow_pages_at [OF assms refl, of 0 "[]" "Suc (length (sn_Members snap))"]
  by (simp add: cursor_at_def)

definition three :: Snapshot where
  "three = \<lparr>sn_Members = [''c2'', ''c3'', ''c1''], sn_Presence = fmupd ''c1'' ''1'' fmempty\<rparr>"

theorem paging_lists_everyone_witness:
  "\<exists>pages. follow_pages 4 three 2 [] = Some pages
    \<and> concat (map sp_Members pages) = sort (sn_Members three) \<and> length pages = 2"
proof -
  have "distinct (sn_Members three)" "[] \<notin> set (sn_Members three)" "length (sn_Members three) = 3"
    by (simp_all add: three_def)
  with paging_lists_everyone [of three 2] obtain pages where
    "follow_pages 4 three 2 [] = Some pages" "concat (map sp_Members pages) = sort (sn_Members three)"
    by (auto simp: numeral_eq_Suc)
  moreover have "map_option length (follow_pages 4 three 2 []) = Some 2" by code_simp
  ultimately show ?thesis by simp
qed

subsection \<open>Receivers\<close>

text \<open>An event goes to exactly the members of its room except its sender, a presence event to
  all members, a Yjs event to the connections of its document except its origin, and a
  notification to the sessions of its user; every list is in order and names nobody twice.\<close>

theorem receivers:
  "(c \<in> set (ef_TargetConnIDs (EventFanout e event)) \<longleftrightarrow>
      c |\<in>| members_of e (pe_Room event)
      \<and> \<not> (pe_ExcludeSenderConnID event \<noteq> [] \<and> c = pe_ExcludeSenderConnID event))
   \<and> (c \<in> set (pf_TargetConnIDs (PresenceFanout e presence_event)) \<longleftrightarrow>
      c |\<in>| members_of e (pr_Room presence_event))
   \<and> (c \<in> set (yfo_TargetConnIDs (YJSFanout e yjs_event)) \<longleftrightarrow>
      c |\<in>| yjs_members e (ye_Room yjs_event)
      \<and> \<not> (ye_OriginConnID yjs_event \<noteq> [] \<and> c = ye_OriginConnID yjs_event))
   \<and> (c \<in> set (nf_TargetConnIDs (NotificationFanout e event user)) \<longleftrightarrow>
      user \<noteq> [] \<and> map_option se_Subject (fmlookup (sessions e) c) = Some user)
   \<and> sorted_wrt (<) (ef_TargetConnIDs (EventFanout e event))
   \<and> sorted_wrt (<) (pf_TargetConnIDs (PresenceFanout e presence_event))
   \<and> sorted_wrt (<) (yfo_TargetConnIDs (YJSFanout e yjs_event))
   \<and> sorted_wrt (<) (nf_TargetConnIDs (NotificationFanout e event user))"
  by (auto simp: EventFanout_def PresenceFanout_def YJSFanout_def NotificationFanout_def
      room_index.in_targets yjs_index.in_targets room_index.targets_sorted yjs_index.targets_sorted
      strict_sorted_ids fmlookup_dom_iff)

subsection \<open>Replay\<close>

text \<open>The replay of a join keeps the order of the logged events and drops exactly the events
  that the joining connection sent itself and those with an excluded name; a log that
  continues behind the replayed sequence is replayed piece by piece.\<close>

theorem replay_filters:
  "JoinPlan_ReplayEvents (NewJoinPlan result options) (events @ later) =
      filter (\<lambda>event. \<not> (jo_ExcludeConnID (jpo_Replay options) \<noteq> []
            \<and> pe_ExcludeSenderConnID event = jo_ExcludeConnID (jpo_Replay options))
          \<and> pe_Event event \<notin> set (jo_ExcludedEventNames (jpo_Replay options))) events
      @ JoinPlan_ReplayEvents (NewJoinPlan result options) later"
proof -
  have "ReplayEvents plan es = filter (\<lambda>event. \<not> skipReplayEvent plan event) es" for plan es
    by (induction es) simp_all
  then show ?thesis
    by (auto simp: JoinPlan_ReplayEvents_def NewJoinPlan_def NewJoinReplayPlan_def skipReplayEvent_def
        fset_of_list_elem intro!: filter_cong)
qed

end
