(* ===== verification/Yjs_Properties.thy ===== *)
theory Yjs_Properties
  imports Engine_Invariant
begin

text \<open>
  The Yjs side: a connection edits one document at a time within the limit of the document,
  and a document is the list of the durable updates that were stored, in order.
\<close>

subsection \<open>Sessions\<close>

lemma yjs_agree:
  "wf_engine e \<Longrightarrow> c |\<in>| yjs_members e r \<longleftrightarrow> map_option ys_Room (fmlookup (yjsSessions e) c) = Some r"
  by (simp add: wf_engine_def yjs_ok_def)

lemma yjs_register_cases [consumes 4, case_names same full moved]:
  assumes "wf_engine e" "RegisterYJSSessionWithLimit e info limit = (err, e')"
    and "ys_ConnID info \<noteq> []" "ys_Room info \<noteq> []"
  obtains
    "err = None" "\<And>r. yjs_members e' r = yjs_members e r"
    "\<And>r. ys_ConnID info |\<in>| yjs_members e r \<longleftrightarrow> r = ys_Room info"
  | "err = Some ErrYJSRoomCapacityExceeded" "e' = e" "0 < limit"
    "limit \<le> flen (yjs_members e (ys_Room info))" "ys_ConnID info |\<notin>| yjs_members e (ys_Room info)"
  | "err = None" "ys_ConnID info |\<notin>| yjs_members e (ys_Room info)"
    "limit \<le> 0 \<or> flen (yjs_members e (ys_Room info)) < limit"
    "\<And>r. yjs_members e' r = (if r = ys_Room info then finsert (ys_ConnID info) (yjs_members e r)
        else yjs_members e r |-| {|ys_ConnID info|})"
proof -
  let ?c = "ys_ConnID info" and ?r = "ys_Room info"
  note agree = yjs_agree [OF assms(1), of ?c]
  note step = assms(2) [symmetric]
  consider (a) "map_option ys_Room (fmlookup (yjsSessions e) ?c) = Some ?r"
    | (b) "map_option ys_Room (fmlookup (yjsSessions e) ?c) \<noteq> Some ?r" "0 < limit \<and> limit \<le> flen (yjs_members e ?r)"
    | (c) "map_option ys_Room (fmlookup (yjsSessions e) ?c) \<noteq> Some ?r" "\<not> (0 < limit \<and> limit \<le> flen (yjs_members e ?r))"
    by blast
  then show thesis
  proof cases
    case a
    show thesis
    proof (rule that(1))
      from a step assms(3,4) show "err = None" "\<And>r. yjs_members e' r = yjs_members e r"
        by (auto simp: RegisterYJSSessionWithLimit_def Let_def)
      from a show "\<And>r. ?c |\<in>| yjs_members e r \<longleftrightarrow> r = ?r" by (auto simp: agree)
    qed
  next
    case b
    with step assms(3,4) agree show thesis
      by (intro that(2); cases "fmlookup (yjsSessions e) ?c") (simp_all add: RegisterYJSSessionWithLimit_def Let_def)
  next
    case c
    have gone: "yjs_members e r |-| {|?c|} = yjs_members e r" if "?c |\<notin>| yjs_members e r" for r
      using that by auto
    show thesis
    proof (rule that(3))
      show fresh: "?c |\<notin>| yjs_members e ?r" using c(1) agree by simp
      show "yjs_members e' r =
          (if r = ?r then finsert ?c (yjs_members e r) else yjs_members e r |-| {|?c|})" for r
      proof (cases "fmlookup (yjsSessions e) ?c")
        case None
        with c step assms(3,4) have "e' = e\<lparr>yjsSessions := fmupd ?c info (yjsSessions e),
            yjsRooms := gm_insert ?r ?c (yjsRooms e)\<rparr>"
          by (auto simp: RegisterYJSSessionWithLimit_def Let_def split: if_split_asm)
        moreover have "?c |\<notin>| yjs_members e r" using None agree by simp
        ultimately show ?thesis using gone by simp
      next
        case (Some old)
        with c step assms(3,4) have "e' = e\<lparr>yjsSessions := fmupd ?c info (yjsSessions e),
            yjsRooms := gm_insert ?r ?c (gm_remove (ys_Room old) ?c (yjsRooms e))\<rparr>"
          by (auto simp: RegisterYJSSessionWithLimit_def removeYJSConnLocked_def Let_def split: if_split_asm)
        moreover have "?c |\<notin>| yjs_members e r" if "r \<noteq> ys_Room old" using Some that agree by simp
        moreover have "ys_Room old \<noteq> ?r" using c(1) Some by simp
        ultimately show ?thesis using gone by (cases "r = ys_Room old") simp_all
      qed
    qed (use c step assms(3,4) in \<open>auto simp: RegisterYJSSessionWithLimit_def Let_def not_less split: if_split_asm\<close>)
  qed
qed

text \<open>Registering a Yjs connection puts it into exactly the document it names, removing it from
  the document it had, and changes nobody else; with a positive limit a document that is full
  is refused to newcomers, nothing changes then, and the document never has more connections
  than before or than the limit.\<close>

theorem yjs_register_effect:
  assumes "wf_engine e" "RegisterYJSSessionWithLimit e info limit = (err, e')"
    and "ys_ConnID info \<noteq> []" "ys_Room info \<noteq> []"
  shows "(case err of
      None \<Rightarrow>
        (\<forall>r. ys_ConnID info |\<in>| yjs_members e' r \<longleftrightarrow> r = ys_Room info)
      \<and> (\<forall>c r. c \<noteq> ys_ConnID info \<longrightarrow> c |\<in>| yjs_members e' r \<longleftrightarrow> c |\<in>| yjs_members e r)
      \<and> (0 < limit \<longrightarrow> flen (yjs_members e' (ys_Room info)) \<le> max limit (flen (yjs_members e (ys_Room info))))
    | Some reason \<Rightarrow>
        reason = ErrYJSRoomCapacityExceeded \<and> e' = e \<and> 0 < limit
      \<and> limit \<le> flen (yjs_members e (ys_Room info))
      \<and> ys_ConnID info |\<notin>| yjs_members e (ys_Room info))"
proof -
  let ?c = "ys_ConnID info" and ?r = "ys_Room info"
  have card: "flen (finsert ?c (yjs_members e ?r)) \<le> flen (yjs_members e ?r) + 1"
    by (simp add: fcard_finsert_if)
  from assms show ?thesis
  proof (cases rule: yjs_register_cases)
    case moved
    with card show ?thesis by (auto simp: max_def)
  qed auto
qed

subsection \<open>Documents\<close>

definition store_all :: "Engine \<Rightarrow> YJSEvent list \<Rightarrow> Engine" where
  "store_all e events = foldl (\<lambda>e event. snd (StoreYJSEvent e event)) e events"

text \<open>The stored part of a history: the durable updates of a document, and its last snapshot.\<close>

definition durable_of :: "room_id \<Rightarrow> YJSEvent list \<Rightarrow> YJSEvent list" where
  "durable_of r events = filter (\<lambda>event. ye_Room event = r \<and> durableYJSEventKind (ye_Kind event)) events"

definition last_snapshot :: "room_id \<Rightarrow> YJSEvent list \<Rightarrow> bytes" where
  "last_snapshot r events =
    foldl (\<lambda>b event. if ye_Room event = r \<and> ye_Kind event = YJSEventSnapshot then ye_Update event else b) [] events"

lemmas kind_defs = YJSEventSnapshot_def YJSEventUpdate_def YJSEventStateVectorRequest_def
  YJSEventStateVectorDiff_def YJSEventSubdocUpdate_def YJSEventSubdocStateVector_def YJSEventSubdocDiff_def

lemma snapshot_not_durable [simp]: "\<not> durableYJSEventKind YJSEventSnapshot"
  by (simp add: durableYJSEventKind_def kind_defs)

lemma store_doc:
  "doc_of (snd (StoreYJSEvent e event)) r =
    (if ye_Room event \<noteq> r then doc_of e r
     else if ye_Kind event = YJSEventSnapshot then
       (doc_of e r)\<lparr>md_Snapshot := ye_Update event, md_SnapshotHash := YJSSnapshotHash (ye_Update event)\<rparr>
     else if durableYJSEventKind (ye_Kind event) then
       (let n = md_NextSequence (doc_of e r) + 1 in
        (doc_of e r)\<lparr>md_NextSequence := n, md_Updates := md_Updates (doc_of e r) @ [ye_Update event],
          md_UpdateSequences := md_UpdateSequences (doc_of e r) @ [n],
          md_UpdateKinds := md_UpdateKinds (doc_of e r) @ [ye_Kind event]\<rparr>)
     else doc_of e r)"
  by (auto simp: StoreYJSEvent_def StoreYJSPersistence_def NewYJSPersistencePlan_def yjsPersistenceMode_def
      durableYJSEventKind_def Let_def doc_of_def)

lemma store_all_doc:
  "md_Updates (doc_of (store_all New events) r) = map ye_Update (durable_of r events)"
  "md_UpdateKinds (doc_of (store_all New events) r) = map ye_Kind (durable_of r events)"
  "md_UpdateSequences (doc_of (store_all New events) r) =
     map (\<lambda>i. of_nat (Suc i)) [0..<length (durable_of r events)]"
  "md_NextSequence (doc_of (store_all New events) r) = of_nat (length (durable_of r events))"
  "md_Snapshot (doc_of (store_all New events) r) = last_snapshot r events"
  by (induction events rule: rev_induct)
     (auto simp: store_all_def durable_of_def last_snapshot_def doc_of_def new_doc_def New_def
       store_doc [unfolded doc_of_def] Let_def)

lemma LoadYJSDocument_doc:
  "LoadYJSDocument e r =
     \<lparr>yd_Snapshot = md_Snapshot (doc_of e r), yd_SnapshotHash = md_SnapshotHash (doc_of e r),
      yd_SnapshotCheckpoint = md_SnapshotCheckpoint (doc_of e r), yd_Updates = md_Updates (doc_of e r),
      yd_UpdateSequences = md_UpdateSequences (doc_of e r), yd_UpdateKinds = md_UpdateKinds (doc_of e r)\<rparr>"
  by (simp add: LoadYJSDocument_def doc_of_def new_doc_def split: option.split)

lemma frames_map:
  assumes "yd_Updates d = map ye_Update events" "yd_UpdateKinds d = map ye_Kind events"
  shows "NewYJSDocumentFrames d =
    (if yd_Snapshot d \<noteq> [] then [\<lparr>yf_Kind = YJSEventSnapshot, yf_Update = yd_Snapshot d\<rparr>] else [])
    @ map (\<lambda>event. \<lparr>yf_Kind = ye_Kind event, yf_Update = ye_Update event\<rparr>) events"
proof -
  have "map (\<lambda>(i, u). \<lparr>yf_Kind = map ye_Kind events ! i, yf_Update = u\<rparr>) (enumerate 0 (map ye_Update events)) =
      map (\<lambda>event. \<lparr>yf_Kind = ye_Kind event, yf_Update = ye_Update event\<rparr>) events"
    by (rule nth_equalityI) (simp_all add: nth_enumerate_eq)
  then show ?thesis by (simp add: NewYJSDocumentFrames_def assms)
qed

text \<open>C30. Whatever was stored for other rooms and in between, a document is loaded with the last
  stored snapshot and all the durable updates of its room in the order they were stored,
  numbered 1, 2, 3 and so on, and is sent to a client as these frames with their own kinds.\<close>

theorem document_history:
  "NewYJSDocumentFrames (LoadYJSDocument (store_all New events) r) =
     (if last_snapshot r events \<noteq> []
      then [\<lparr>yf_Kind = YJSEventSnapshot, yf_Update = last_snapshot r events\<rparr>] else [])
     @ map (\<lambda>event. \<lparr>yf_Kind = ye_Kind event, yf_Update = ye_Update event\<rparr>) (durable_of r events)
   \<and> yd_UpdateSequences (LoadYJSDocument (store_all New events) r) =
     map (\<lambda>i. of_nat (Suc i)) [0..<length (durable_of r events)]
   \<and> yd_SnapshotHash (LoadYJSDocument (store_all New events) r) = YJSSnapshotHash (last_snapshot r events)"
proof -
  have "md_SnapshotHash (doc_of (store_all New events) r) = YJSSnapshotHash (last_snapshot r events)"
    by (induction events rule: rev_induct)
       (auto simp: store_all_def last_snapshot_def doc_of_def new_doc_def New_def YJSSnapshotHash_def
         store_doc [unfolded doc_of_def] Let_def)
  moreover note frames_map [of "LoadYJSDocument (store_all New events) r" "durable_of r events"]
  ultimately show ?thesis by (simp add: LoadYJSDocument_doc store_all_doc)
qed

text \<open>The three classifications of Yjs events agree: a client can never send a snapshot, and an
  event that a client may send is durable exactly when it can be stored and the other nodes
  must be told of it; the durable event is stored as an update, never as a snapshot.\<close>

theorem yjs_kinds_agree:
  "NewYJSEventPlan room YJSEventSnapshot update options = None
   \<and> (case NewYJSEventPlan room kind update options of
        None \<Rightarrow> \<not> durableYJSEventKind kind
      | Some plan \<Rightarrow>
          yp_Durable plan = (yp_RequiresPublish plan \<and> (\<exists>stored. fst (StoreYJSEvent e (yp_Event plan)) = Inr stored))
        \<and> NewYJSPersistencePlan (yp_Event plan) =
            (if yp_Durable plan then Inr \<lparr>ypp_Event = yp_Event plan, ypp_Mode = YJSPersistenceAppendUpdate\<rparr>
             else Inl ErrYJSPersistenceKind))"
  by (auto simp: NewYJSEventPlan_def validClientYJSEventKind_def kind_defs durableYJSEventKind_def
      yjsEventRequiresPublish_def NewYJSPersistencePlan_def yjsPersistenceMode_def NewYJSEvent_def
      StoreYJSEvent_def Let_def split: prod.split)

theorem yjs_register_effect_witness:
  "''c1'' |\<in>| yjs_members (RegisterYJSConn (RegisterYJSConn New ''c1'' ''r1'') ''c1'' ''r2'') ''r2''
   \<and> ''c1'' |\<notin>| yjs_members (RegisterYJSConn (RegisterYJSConn New ''c1'' ''r1'') ''c1'' ''r2'') ''r1''"
proof -
  let ?e = "RegisterYJSConn New ''c1'' ''r1''"
  let ?info = "\<lparr>ys_ConnID = ''c1'', ys_Subject = [], ys_Tenant = [], ys_Room = ''r2''\<rparr>"
  have wf: "wf_engine ?e"
    by (simp add: RegisterYJSConn_def RegisterYJSSession_def wf_RegisterYJS wf_New)
  have step: "RegisterYJSSessionWithLimit ?e ?info 0 = (None, RegisterYJSConn ?e ''c1'' ''r2'')"
    by (auto simp: RegisterYJSConn_def RegisterYJSSession_def RegisterYJSSessionWithLimit_def Let_def)
  from yjs_register_effect [OF wf step] show ?thesis by simp
qed

end

