(* ===== verification/Storage_Properties.thy ===== *)
theory Storage_Properties
  imports Engine_Invariant
begin

text \<open>
  What clients of the storage documents rely on: sequences that only grow, compare-and-set
  without lost updates, requests that may be retried, and documents that stay valid.
\<close>

subsection \<open>Commands\<close>

datatype storage_command =
    SetCommand bytes StorageMutationOptions
  | PatchCommand "JSONPatchOperation list" StorageMutationOptions
  | DeleteCommand StorageMutationOptions bool

fun options_of :: "storage_command \<Rightarrow> StorageMutationOptions" where
  "options_of (SetCommand document options) = options"
| "options_of (PatchCommand operations options) = options"
| "options_of (DeleteCommand options required) = options"

fun run_command :: "storage_command \<Rightarrow> Engine \<Rightarrow> room_id \<Rightarrow> (engine_error + StorageMutation \<times> bool) \<times> Engine" where
  "run_command (SetCommand document options) e room = setStorageMutation e room document options"
| "run_command (PatchCommand operations options) e room = applyStoragePatchMutation e room operations options"
| "run_command (DeleteCommand options required) e room = deleteStorageMutation e room options required"

lemma run_command_ops:
  "run_command (SetCommand document options) = (\<lambda>e room. setStorageMutation e room document options)"
  "run_command (PatchCommand operations options) = (\<lambda>e room. applyStoragePatchMutation e room operations options)"
  "run_command (DeleteCommand options required) = (\<lambda>e room. deleteStorageMutation e room options required)"
  by (intro ext; simp)+

interpretation command: storage_operation "run_command cmd" "\<lambda>(m, _). sm_Sequence m" snd "options_of cmd"
  for cmd
proof (cases cmd)
  case (SetCommand document options)
  then show "storage_operation (run_command cmd) (\<lambda>(m, _). sm_Sequence m) snd (options_of cmd)"
    by (simp only: run_command_ops options_of.simps set_mutation.storage_operation_axioms)
next
  case (PatchCommand operations options)
  then show "storage_operation (run_command cmd) (\<lambda>(m, _). sm_Sequence m) snd (options_of cmd)"
    by (simp only: run_command_ops options_of.simps patch_mutation.storage_operation_axioms)
next
  case (DeleteCommand options required)
  then show "storage_operation (run_command cmd) (\<lambda>(m, _). sm_Sequence m) snd (options_of cmd)"
    by (simp only: run_command_ops options_of.simps delete_mutation.storage_operation_axioms)
qed

lemma not_written:
  assumes "run_command cmd e room = (res, e')" "\<nexists>m. res = Inr (m, False)"
  shows "e' = e"
proof (cases res)
  case (Inl err)
  with assms command.op_error show ?thesis by blast
next
  case (Inr v)
  with assms(2) have "snd v" by (cases v) auto
  with command.op_repeated [of cmd e room v e'] assms(1) Inr show ?thesis by simp
qed

text \<open>A history of commands, and the sequences that it newly writes in a room.\<close>

definition run_all :: "Engine \<Rightarrow> (room_id \<times> storage_command) list \<Rightarrow> Engine" where
  "run_all e cmds = foldl (\<lambda>e (r, cmd). snd (run_command cmd e r)) e cmds"

fun written :: "Engine \<Rightarrow> (room_id \<times> storage_command) list \<Rightarrow> room_id \<Rightarrow> u64 list" where
  "written e [] room = []"
| "written e ((r, cmd) # cmds) room =
    (case run_command cmd e r of
       (Inr (m, False), e') \<Rightarrow>
         if r = room then sm_Sequence m # written e' cmds room else written e' cmds room
     | (_, e') \<Rightarrow> written e' cmds room)"

subsection \<open>Sequences\<close>

lemma written_increases:
  assumes "seq_of e room \<noteq> - 1" "- 1 \<notin> set (written e cmds room)"
  shows "sorted_wrt (<) (seq_of e room # written e cmds room)"
  using assms
proof (induction cmds arbitrary: e)
  case (Cons p cmds)
  obtain r cmd where p: "p = (r, cmd)" by fastforce
  obtain res e' where run: "run_command cmd e r = (res, e')" by fastforce
  show ?case
  proof (cases "r = room \<and> (\<exists>m. res = Inr (m, False))")
    case True
    then obtain m where res: "r = room" "res = Inr (m, False)" by blast
    from command.op_write [OF run [unfolded res]] command.write_advances [OF run [unfolded res]] Cons.prems
    have s: "seq_of e' room = sm_Sequence m" "seq_of e room < sm_Sequence m" by auto
    from Cons.prems res run have "sm_Sequence m \<noteq> - 1" "- 1 \<notin> set (written e' cmds room)"
      by (auto simp: p)
    with Cons.IH [of e'] s have "sorted_wrt (<) (sm_Sequence m # written e' cmds room)" by simp
    with s res run show ?thesis by (auto simp: p)
  next
    case False
    have same: "seq_of e' room = seq_of e room"
    proof (cases "r = room")
      case True
      with False run not_written [of cmd e r res e'] show ?thesis by simp
    qed (use run command.seq_of_other in metis)
    have "written e (p # cmds) room = written e' cmds room"
      using False run by (auto simp: p split: sum.split bool.split)
    with Cons.IH [of e'] Cons.prems same show ?thesis by simp
  qed
qed simp

text \<open>C12. The sequences that any history of sets, patches and deletes writes in a room are strictly
  increasing and start above the current one, as long as the 64-bit counter does not reach
  its last value.\<close>

theorem sequences_increase:
  assumes "- 1 \<notin> set (seq_of e room # written e cmds room)"
  shows "sorted_wrt (<) (seq_of e room # written e cmds room)"
  using assms by (intro written_increases) auto

subsection \<open>Compare and set\<close>

text \<open>Anything that an engine does, as long as the counter of the room does not reach its last value.\<close>

inductive unwrapped :: "room_id \<Rightarrow> Engine \<Rightarrow> Engine \<Rightarrow> bool" for room where
  here: "unwrapped room e e"
| move: "seq_of e room \<noteq> - 1 \<Longrightarrow> engine_move e e' \<Longrightarrow> unwrapped room e' e'' \<Longrightarrow> unwrapped room e e''"

lemma unwrapped_seq: "unwrapped room e e' \<Longrightarrow> seq_of e room \<le> seq_of e' room"
  by (induction rule: unwrapped.induct) (auto dest: engine_move_seq intro: order_trans)

text \<open>C2. No update is lost: when two commands expect the same sequence of a room and the first one
  writes, the second one writes nothing, whatever it is and whatever the engine does in between:
  joins, leaves and disconnects, other commands with or without an expected sequence, mutations
  recorded from other nodes. It fails or repeats an earlier result. The sequence of the room is a
  64-bit counter; it is not at its last value when the first command runs or in between.\<close>

theorem no_lost_update:
  assumes "run_command cmd e room = (Inr (m, False), e1)" "seq_of e room \<noteq> - 1"
    and "unwrapped room e1 e2" and "run_command cmd' e2 room = (res, e3)"
    and "smo_ExpectedSequenceSet (options_of cmd)" "smo_ExpectedSequenceSet (options_of cmd')"
    and "smo_ExpectedSequence (options_of cmd) = smo_ExpectedSequence (options_of cmd')"
  shows "e3 = e2 \<and> (\<forall>m'. res \<noteq> Inr (m', False))"
proof (cases "\<exists>m'. res = Inr (m', False)")
  case True
  then obtain m' where "run_command cmd' e2 room = (Inr (m', False), e3)" using assms(4) by auto
  with assms have "seq_of e2 room = seq_of e room"
    using command.write_expected [of cmd' e2 room] command.write_expected [of cmd e room] by fastforce
  with command.write_advances [OF assms(1)] assms(2) unwrapped_seq [OF assms(3)] show ?thesis by simp
next
  case False
  with not_written [OF assms(4)] show ?thesis by simp
qed

subsection \<open>Retries\<close>

text \<open>What an operation id is bound to: the fingerprint of the command.\<close>

fun fingerprint_of :: "storage_command \<Rightarrow> engine_error + string" where
  "fingerprint_of (SetCommand document options) =
    (case checked_document document (smo_MaxBytes options) of
       Inl err \<Rightarrow> Inl err
     | Inr compacted \<Rightarrow> Inr (storageDocumentFingerprint StorageMutationSet compacted))"
| "fingerprint_of (PatchCommand operations options) = storagePatchFingerprint operations"
| "fingerprint_of (DeleteCommand options required) = Inr storageDeleteFingerprint"

abbreviation recorded :: "Engine \<Rightarrow> room_id \<Rightarrow> string \<Rightarrow> storageOpRecord option" where
  "recorded e room opID \<equiv> fmlookup (gm_map (storageOps e) room) opID"

lemma fingerprint_of_nonempty: "fingerprint_of cmd = Inr fp \<Longrightarrow> fp \<noteq> []"
  by (cases cmd) (auto simp: fingerprint_nonempty split: sum.split_asm)

lemma fresh_is_recorded:
  assumes "run_command cmd e room = (Inr (m, False), e')" "smo_OpID (options_of cmd) \<noteq> []"
  obtains fp where "fingerprint_of cmd = Inr fp"
    "recorded e' room (smo_OpID (options_of cmd)) = Some \<lparr>op_Fingerprint = fp, op_Mutation = m\<rparr>"
  using assms
  by (cases cmd)
     (auto simp: setStorageMutation_def applyStoragePatchMutation_def deleteStorageMutation_def Let_def
       rememberStorageOpLocked_def split: sum.split_asm option.split_asm if_split_asm)

lemma recorded_answers:
  assumes "recorded e room (smo_OpID (options_of cmd)) = Some \<lparr>op_Fingerprint = fp, op_Mutation = m\<rparr>"
    and "smo_OpID (options_of cmd) \<noteq> []" "fp \<noteq> []" "fingerprint_of cmd = Inr fp'"
  shows "run_command cmd e room = (if fp' = fp then Inr (m, True) else Inl conflict, e)"
  using assms
  by (cases cmd)
     (auto simp: setStorageMutation_def applyStoragePatchMutation_def deleteStorageMutation_def Let_def
       storageOpMutationLocked_def split: sum.split_asm)

lemma recorded_stays_step:
  assumes "recorded e room i = Some rec" "op_Fingerprint rec \<noteq> []"
  shows "recorded (snd (run_command cmd e r)) room i = Some rec"
  using assms
  by (cases cmd)
     (auto simp: setStorageMutation_def applyStoragePatchMutation_def deleteStorageMutation_def Let_def
       storageOpMutationLocked_def rememberStorageOpLocked_def put_document_def drop_document_def
       split: sum.split option.split)

lemma recorded_stays:
  assumes "recorded e room i = Some rec" "op_Fingerprint rec \<noteq> []"
  shows "recorded (run_all e cmds) room i = Some rec"
  using assms
  by (induction cmds arbitrary: e) (auto simp: run_all_def recorded_stays_step split: prod.split)

text \<open>C13. A request with an operation id can be retried at any later time, after any other
  commands: the retry changes nothing and returns the mutation of the first request, marked
  as a repetition; the same id for a different operation is a conflict.\<close>

theorem retries_repeat:
  assumes "run_command cmd e room = (Inr (m, False), e')"
    and "smo_OpID (options_of cmd) \<noteq> []" "smo_OpID (options_of cmd') = smo_OpID (options_of cmd)"
    and "fingerprint_of cmd' = Inr fp"
  shows "run_command cmd' (run_all e' cmds) room =
    (if fingerprint_of cmd = fingerprint_of cmd' then Inr (m, True) else Inl conflict, run_all e' cmds)"
proof -
  obtain fp0 where fp0: "fingerprint_of cmd = Inr fp0"
    "recorded e' room (smo_OpID (options_of cmd)) = Some \<lparr>op_Fingerprint = fp0, op_Mutation = m\<rparr>"
    by (rule fresh_is_recorded [OF assms(1,2)])
  note ne = fingerprint_of_nonempty [OF fp0(1)]
  from recorded_stays [OF fp0(2)] ne
  have "recorded (run_all e' cmds) room (smo_OpID (options_of cmd')) = Some \<lparr>op_Fingerprint = fp0, op_Mutation = m\<rparr>"
    by (simp add: assms(3))
  from recorded_answers [OF this _ ne assms(4)] assms(2,3) fp0(1) assms(4) show ?thesis by auto
qed

subsection \<open>An example history\<close>

text \<open>An empty LiveObject, its creation under an operation id, and its deletion.\<close>

definition empty_object :: bytes where
  "empty_object = object_text [(''liveblocksType'', quote_text ''LiveObject''), (''data'', ''{}'')]"

definition expecting :: "u64 \<Rightarrow> StorageMutationOptions" where
  "expecting n = (no_options 0)\<lparr>smo_OpID := ''op1'', smo_ExpectedSequence := n, smo_ExpectedSequenceSet := True\<rparr>"

definition create :: storage_command where
  "create = SetCommand empty_object (expecting 0)"

definition created :: Engine where
  "created = snd (run_command create New ''r1'')"

definition created_mutation :: StorageMutation where
  "created_mutation = newStorageMutation StorageMutationSet empty_object [] ((expecting 0)\<lparr>smo_Sequence := 1\<rparr>)"

lemma empty_object_checked: "checked_document empty_object 0 = Inr empty_object"
  by code_simp

lemma create_run: "run_command create New ''r1'' = (Inr (created_mutation, False), created)"
proof -
  have "fst (run_command create New ''r1'') = Inr (created_mutation, False)"
    by (simp add: create_def setStorageMutation_def empty_object_checked expecting_def no_options_def
        storageOpMutationLocked_def New_def next_sequence_def seq_of_def Let_def created_mutation_def)
  then show ?thesis by (simp add: created_def prod_eq_iff)
qed

lemma created_facts: "seq_of created ''r1'' = 1" "wf_engine created"
  using command.op_write [OF create_run] wf_set [OF wf_New, of "''r1''" empty_object "expecting 0"]
  by (simp_all add: created_mutation_def newStorageMutation_def created_def create_def)

lemma create_fingerprint:
  "fingerprint_of create = Inr (storageDocumentFingerprint StorageMutationSet empty_object)"
  by (simp add: create_def expecting_def no_options_def empty_object_checked)

theorem sequences_increase_witness:
  "sorted_wrt (<) (seq_of New ''r1'' # written New [(''r1'', create)] ''r1'')
    \<and> written New [(''r1'', create)] ''r1'' = [1]"
proof -
  have "written New [(''r1'', create)] ''r1'' = [1]"
    by (simp add: create_run created_mutation_def newStorageMutation_def)
  moreover have "seq_of New ''r1'' = 0" by (simp add: seq_of_def New_def)
  ultimately show ?thesis using sequences_increase [of New "''r1''" "[(''r1'', create)]"] by simp
qed

text \<open>After the creation the room of another connection is joined and another room is written.\<close>

definition meanwhile :: Engine where
  "meanwhile = snd (run_command create (snd (JoinWithLimits created ''c1'' ''r1'' \<lparr>jl_RoomsPerConnection = 0, jl_RoomConnections = 0\<rparr>)) ''r2'')"

lemma meanwhile_unwrapped: "unwrapped ''r1'' created meanwhile"
proof -
  let ?e = "snd (JoinWithLimits created ''c1'' ''r1'' \<lparr>jl_RoomsPerConnection = 0, jl_RoomConnections = 0\<rparr>)"
  have "seq_of ?e ''r1'' = 1"
    using created_facts(1) by (simp add: seq_of_def JoinWithLimits_def Let_def)
  then have seqs: "seq_of created ''r1'' \<noteq> - 1" "seq_of ?e ''r1'' \<noteq> - 1"
    by (simp_all add: created_facts(1))
  have "engine_move created ?e" by (intro engine_move.step engine_step.join)
  moreover have "engine_move ?e meanwhile"
    unfolding meanwhile_def create_def run_command.simps
    by (intro engine_move.step engine_step.quiet quiet_step.storage_set)
  ultimately show ?thesis by (rule unwrapped.move [OF seqs(1) _ unwrapped.move [OF seqs(2) _ unwrapped.here]])
qed

theorem no_lost_update_witness:
  "snd (run_command (DeleteCommand (expecting 0) True) meanwhile ''r1'') = meanwhile
    \<and> (\<forall>m'. fst (run_command (DeleteCommand (expecting 0) True) meanwhile ''r1'') \<noteq> Inr (m', False))"
  using no_lost_update [OF create_run _ meanwhile_unwrapped prod.collapse [symmetric], of "DeleteCommand (expecting 0) True"]
  by (simp add: create_def expecting_def seq_of_def New_def)

theorem retries_repeat_witness:
  "run_command create (run_all created [(''r2'', create)]) ''r1'' =
    (Inr (created_mutation, True), run_all created [(''r2'', create)])"
proof -
  have "smo_OpID (options_of create) \<noteq> []" by (simp add: create_def expecting_def)
  from retries_repeat [OF create_run this refl create_fingerprint, of "[(''r2'', create)]"]
  show ?thesis by simp
qed

subsection \<open>Documents\<close>

text \<open>C14. What is read from a reachable engine is always a valid storage document, and otherwise
  the only error is that the room has none.\<close>

theorem stored_documents_valid:
  assumes "reachable e"
  shows "case GetStorageWithSequence e room of
      Inl err \<Rightarrow> err = not_found \<and> fmlookup (storage e) room = None
    | Inr (document, sequence) \<Rightarrow> ValidateStorageDocument document = None \<and> fmlookup (storage e) room = Some document"
proof -
  from wf_reachable [OF assms] have "storage_docs e" by (simp add: wf_engine_def)
  then show ?thesis
    by (cases "fmlookup (storage e) room")
       (auto simp: GetStorageWithSequence_def document_of_def gm_bytes_def storage_docs_def
         ValidateStorageDocument_iff)
qed

theorem stored_documents_valid_witness:
  "ValidateStorageDocument empty_object = None \<and> GetStorageWithSequence created ''r1'' = Inr (empty_object, 1)"
proof -
  have "running {} created"
    unfolding created_def create_def run_command.simps by (intro running.quiet [OF running.start] quiet_step.storage_set)
  then have r: "reachable created" by (auto simp: reachable_def)
  have "document_of created ''r1'' = empty_object"
    by (simp add: created_def create_def setStorageMutation_def empty_object_checked expecting_def no_options_def
        storageOpMutationLocked_def New_def next_sequence_def seq_of_def Let_def remember_facts put_document_facts)
  moreover have "empty_object \<noteq> []" by (simp add: empty_object_def object_text_def)
  ultimately have "GetStorageWithSequence created ''r1'' = Inr (empty_object, 1)"
    by (simp add: GetStorageWithSequence_def created_facts)
  with stored_documents_valid [OF r, of "''r1''"] show ?thesis by simp
qed

text \<open>C28. Storing a document and reading it back gives a text with the same meaning, in the compact
  form that is stored as it is when it is set again, with the next sequence; deleting it
  then keeps counting, so that a document created later continues the sequence.\<close>

theorem set_then_get:
  assumes "SetStorage e room document maxBytes = (Inr stored, e')"
  shows "GetStorageWithSequence e' room = Inr (stored, seq_of e room + 1)
    \<and> json_decode stored = json_decode document
    \<and> fst (SetStorage e' room stored maxBytes) = Inr stored
    \<and> (0 < maxBytes \<longrightarrow> len stored \<le> maxBytes)
    \<and> fst (DeleteStorageWithOptions e' room (no_options 0)) = Inr (seq_of e room + 1 + 1)
    \<and> GetStorage (snd (DeleteStorageWithOptions e' room (no_options 0))) room = Inl not_found
    \<and> seq_of (snd (DeleteStorageWithOptions e' room (no_options 0))) room = seq_of e room + 1 + 1"
proof -
  from assms have checked: "checked_document document maxBytes = Inr stored"
    and e': "e' = put_document room stored (seq_of e room + 1) e"
    by (auto simp: SetStorage_def SetStorageWithOptions_def no_options_def next_sequence_def
        split: sum.split_asm)
  from checked have c: "json_compact document = Some stored" "0 < maxBytes \<longrightarrow> len stored \<le> maxBytes"
    and again: "checked_document stored maxBytes = Inr stored"
    by (auto simp: checked_document_def json_compact_idem split: option.split_asm if_split_asm)
  have ne: "stored \<noteq> []" using checked_document_ok [OF checked] storage_document_nonempty by blast
  show ?thesis
    using c again ne compact_decode [OF c(1)]
    by (simp add: e' GetStorageWithSequence_def GetStorage_def DeleteStorageWithOptions_def
        deleteStorageWithOptions_def SetStorage_def SetStorageWithOptions_def no_options_def next_sequence_def
        put_document_facts drop_document_facts)
qed

theorem set_then_get_witness:
  "GetStorageWithSequence (snd (SetStorage New ''r1'' empty_object 0)) ''r1'' = Inr (empty_object, 1)"
proof -
  have "fst (SetStorage New ''r1'' empty_object 0) = Inr empty_object"
    by (simp add: SetStorage_def SetStorageWithOptions_def empty_object_checked no_options_def next_sequence_def)
  then have "SetStorage New ''r1'' empty_object 0 = (Inr empty_object, snd (SetStorage New ''r1'' empty_object 0))"
    by (simp add: prod_eq_iff)
  from set_then_get [OF this] show ?thesis by (simp add: seq_of_def New_def)
qed

end
