(* ===== verification/Patch_Properties.thy ===== *)
theory Patch_Properties
  imports Json_Patch_Laws
begin

text \<open>
  What a JSON Patch does to a document and what a storage document is.
\<close>

subsection \<open>Pointers\<close>

text \<open>A pointer is accepted exactly when it is the printed form of a list of member names, and
  then stands for this list; so no two pointers mean the same path.\<close>

theorem pointers_are_paths: "parseJSONPointer p = Inr ts \<longleftrightarrow> p = format_pointer ts"
  using parse_format_pointer format_parse_pointer by metis

subsection \<open>Adding and removing\<close>

text \<open>After a value is added at a path, the path reads this value, and every path that parts from
  it above its last step reads what it read before.\<close>

theorem add_then_get:
  assumes "addJSONValue root ts v = Inr r"
  shows "(''-'' \<notin> set ts \<longrightarrow> getJSONValue r ts = Inr v)
    \<and> (\<forall>us. parts_at root ts us \<longrightarrow> getJSONValue r us = getJSONValue root us)"
  using assms get_add get_add_elsewhere by blast

definition sample_root :: json where
  "sample_root = JObj [(''a'', JArr [JNull, JBool True]), (''b'', JObj [(''c'', JNull)])]"

theorem add_then_get_witness:
  "getJSONValue (JObj [(''a'', JArr [JNull, JStr ''x'', JBool True]), (''b'', JObj [(''c'', JNull)])])
     [''a'', ''1''] = Inr (JStr ''x'')
   \<and> getJSONValue (JObj [(''a'', JArr [JNull, JStr ''x'', JBool True]), (''b'', JObj [(''c'', JNull)])])
     [''b'', ''c''] = getJSONValue sample_root [''b'', ''c'']"
proof -
  have "addJSONValue sample_root [''a'', ''1''] (JStr ''x'') =
    Inr (JObj [(''a'', JArr [JNull, JStr ''x'', JBool True]), (''b'', JObj [(''c'', JNull)])])"
    "parts_at sample_root [''a'', ''1''] [''b'', ''c'']" by code_simp+
  note at = add_then_get [OF this(1)] this(2)
  from at(1) at(2) show ?thesis by (simp del: getJSONValue.simps parts_at.simps)
qed

text \<open>Removing what was added at a new path gives the document back.\<close>

theorem remove_undoes_add:
  assumes "addJSONValue root ts v = Inr r" "fresh_at root ts" "sorted_objects root"
  shows "removeJSONValue r ts = Inr root"
  using assms by (rule remove_added)

theorem remove_undoes_add_witness:
  "removeJSONValue (JObj [(''a'', JArr [JNull, JStr ''x'', JBool True]), (''b'', JObj [(''c'', JNull)])])
     [''a'', ''1''] = Inr sample_root"
proof (rule remove_undoes_add)
  show "addJSONValue sample_root [''a'', ''1''] (JStr ''x'') =
    Inr (JObj [(''a'', JArr [JNull, JStr ''x'', JBool True]), (''b'', JObj [(''c'', JNull)])])" by code_simp
  show "fresh_at sample_root [''a'', ''1'']" by code_simp
  show "sorted_objects sample_root" by (simp add: sample_root_def obj_sorted_def)
qed

subsection \<open>Replacing\<close>

text \<open>C33. Replacing a member of an object changes this member. Replacing an element of an array does
  not: the new value is inserted before the element, which stays, and the array grows.\<close>

theorem replace_in_array_inserts:
  assumes "po_Op operation = ''replace''" "parseJSONPointer (po_Path operation) = Inr [k, i]"
    and "map_of ms k = Some (JArr vs)" "parseArrayIndex i (len vs) False = Inr (n, flag)"
    and "json_decode (po_Value operation) = Some v" "po_Value operation \<noteq> []"
  shows "applyJSONPatchOperation (JObj ms) operation =
    Inr (JObj (obj_put k (JArr (take (nat n) vs @ v # drop (nat n) vs)) ms))"
proof -
  from assms(4) have "parseArrayIndex i (len vs) True = Inr (n, False)"
    by (rule parse_index_grow) simp
  with assms show ?thesis
    by (simp add: applyJSONPatchOperation_def operationValue_def)
qed

definition replace_first :: JSONPatchOperation where
  "replace_first = \<lparr>po_Op = ''replace'', po_Path = CHR 0x2F # ''a'' @ CHR 0x2F # ''0'', po_From = [], po_Value = ''7''\<rparr>"

theorem replace_in_array_inserts_witness:
  "applyJSONPatchOperation (JObj [(''a'', JArr [JNull])]) replace_first =
    Inr (JObj [(''a'', JArr [JNum ''7'', JNull])])"
proof -
  have "parseJSONPointer (po_Path replace_first) = Inr [''a'', ''0'']"
    "parseArrayIndex ''0'' (len [JNull]) False = Inr (0, False)"
    "json_decode (po_Value replace_first) = Some (JNum ''7'')" by code_simp+
  from replace_in_array_inserts [OF _ this(1) _ this(2,3), of "[(''a'', JArr [JNull])]"]
  show ?thesis by (simp add: replace_first_def)
qed

subsection \<open>Whole patches\<close>

text \<open>A patch is applied in full or not at all: it succeeds exactly when the document is JSON,
  every operation succeeds on the value that the ones before it left, and the last value is
  an object; the result is the canonical text of this object.\<close>

theorem patch_all_or_nothing:
  "(ApplyJSONPatch doc (ops @ ops') = Inr raw) =
     (\<exists>root mid ms. json_decode doc = Some root \<and> applyOperations root ops = Inr mid
        \<and> applyOperations mid ops' = Inr (JObj ms) \<and> raw = json_marshal (JObj ms))"
  by (auto simp: ApplyJSONPatch_Inr applyOperations_append split: sum.split_asm)

text \<open>Writing a decoded value and reading it back gives the same value, so that the copies a
  patch makes are equal to their source, and compacting a text neither changes its value nor
  changes a compact text.\<close>

theorem clone_is_faithful:
  assumes "json_decode doc = Some v"
  shows "cloneJSONValue v = v \<and> json_decode (json_marshal v) = Some v
    \<and> (case json_compact doc of
         None \<Rightarrow> True
       | Some t \<Rightarrow> json_decode t = Some v \<and> json_compact t = Some t)"
  using assms decode_marshal [OF canonical_decode [OF assms]]
  by (auto simp: cloneJSONValue_def compact_decode json_compact_idem split: option.split)

definition spaced :: bytes where
  "spaced = CHR ''['' # '' 1 , null]''"

theorem clone_is_faithful_witness:
  "cloneJSONValue (JArr [JNum ''1'', JNull]) = JArr [JNum ''1'', JNull]"
proof -
  have "json_decode spaced = Some (JArr [JNum ''1'', JNull])" by code_simp
  from clone_is_faithful [OF this] show ?thesis by simp
qed

subsection \<open>Validation\<close>

text \<open>C29. The validation accepts exactly the storage documents: objects that are plain or a
  LiveObject, in which every typed node carries data of the shape of its type.\<close>

theorem validation_is_exact: "(ValidateStorageDocument doc = None) = storage_document doc"
  by (rule ValidateStorageDocument_iff)

end
