(* ===== verification/Room_Access.thy ===== *)
theory Room_Access
  imports Cluster_Types
begin

text \<open>
  Who may do what in a room (\<open>RoomRecord.Allows\<close>) and the normal forms in which records
  are stored (the \<open>normalize\<close> and \<open>clone\<close> functions of \<open>internal/cluster/redis.go\<close>).
\<close>

subsection \<open>Permissions\<close>

definition permissionAllowsAction :: "string \<Rightarrow> string \<Rightarrow> bool" where
  "permissionAllowsAction permission action =
    (if action = ''join'' \<or> action = ''room:read'' then
       permission = PermissionRoomRead \<or> permission = PermissionRoomWrite
     else if action = ''publish'' \<or> action = ''room:write'' then
       permission = PermissionRoomWrite
     else if action = ''presence'' then
       permission = PermissionRoomPresenceWrite \<or> permission = PermissionRoomWrite
     else if action = ''storage'' \<or> action = ''storage:read'' then
       permission = PermissionStorageRead \<or> permission = PermissionStorageWrite
         \<or> permission = PermissionRoomWrite
     else if action = ''storage:write'' then
       permission = PermissionStorageWrite \<or> permission = PermissionRoomWrite
     else if action = ''comments'' \<or> action = ''comments:write'' then
       permission = PermissionCommentsWrite \<or> permission = PermissionRoomWrite
     else if action = ''comments:read'' then
       permission = PermissionCommentsRead \<or> permission = PermissionCommentsWrite
         \<or> permission = PermissionRoomWrite
     else if action = ''feeds'' \<or> action = ''feeds:write'' then
       permission = PermissionFeedsWrite \<or> permission = PermissionRoomWrite
     else if action = ''feeds:read'' then
       permission = PermissionFeedsRead \<or> permission = PermissionFeedsWrite
         \<or> permission = PermissionRoomWrite
     else False)"

definition permissionsAllow :: "string list \<Rightarrow> string \<Rightarrow> bool" where
  "permissionsAllow permissions action =
    list_ex (\<lambda>permission. permissionAllowsAction permission action) permissions"

fun group_permissions :: "access_map \<Rightarrow> string list \<Rightarrow> bool \<times> string list" where
  "group_permissions accesses [] = (False, [])"
| "group_permissions accesses (groupID # groupIDs) =
    (let (matched, permissions) = group_permissions accesses groupIDs
     in case fmlookup accesses groupID of
          None \<Rightarrow> (matched, permissions)
        | Some own \<Rightarrow> (True, own @ permissions))"

definition RoomRecord_Allows :: "RoomRecord \<Rightarrow> string \<Rightarrow> string list \<Rightarrow> string \<Rightarrow> bool" where
  "RoomRecord_Allows r subject groupIDs action =
    (case (if subject \<noteq> [] then fmlookup (rr_UsersAccesses r) subject else None) of
       Some permissions \<Rightarrow> permissionsAllow permissions action
     | None \<Rightarrow>
         (let (matchedGroup, groupPermissions) = group_permissions (rr_GroupsAccesses r) groupIDs
          in if matchedGroup then permissionsAllow groupPermissions action
             else permissionsAllow (rr_DefaultAccesses r) action))"

subsection \<open>Normal forms\<close>

text \<open>Copies of access lists and maps: nil becomes empty, which is the same value here.\<close>

definition cloneAccessList :: "string list \<Rightarrow> string list" where
  "cloneAccessList input = input"

definition cloneAccessMap :: "access_map \<Rightarrow> access_map" where
  "cloneAccessMap input = fmmap cloneAccessList input"

definition or_empty_object :: "bytes \<Rightarrow> bytes" where
  "or_empty_object raw = (if raw = [] then ''{}'' else raw)"

definition normalizeRoomRecord :: "RoomRecord \<Rightarrow> RoomRecord" where
  "normalizeRoomRecord r =
    r\<lparr>rr_Metadata := or_empty_object (rr_Metadata r),
      rr_DefaultAccesses := cloneAccessList (rr_DefaultAccesses r),
      rr_UsersAccesses := cloneAccessMap (rr_UsersAccesses r),
      rr_GroupsAccesses := cloneAccessMap (rr_GroupsAccesses r)\<rparr>"

fun normalize_strings :: "string fset \<Rightarrow> string list \<Rightarrow> string list" where
  "normalize_strings seen [] = []"
| "normalize_strings seen (val # vals) =
    (let val = trim_space val in
     if val = [] then normalize_strings seen vals
     else if val |\<in>| seen then normalize_strings seen vals
     else val # normalize_strings (finsert val seen) vals)"

definition normalizeStringList :: "string list \<Rightarrow> string list" where
  "normalizeStringList input = normalize_strings {||} input"

fun normalize_reactions :: "string fset \<Rightarrow> CommentReaction list \<Rightarrow> CommentReaction list" where
  "normalize_reactions seen [] = []"
| "normalize_reactions seen (reaction # reactions) =
    (let reaction = reaction\<lparr>re_Emoji := trim_space (re_Emoji reaction),
                             re_UserID := trim_space (re_UserID reaction)\<rparr>;
         key = re_Emoji reaction @ CHR 0x00 # re_UserID reaction
     in if re_Emoji reaction = [] \<or> re_UserID reaction = [] then normalize_reactions seen reactions
        else if key |\<in>| seen then normalize_reactions seen reactions
        else reaction # normalize_reactions (finsert key seen) reactions)"

definition normalizeCommentReactionList :: "CommentReaction list \<Rightarrow> CommentReaction list" where
  "normalizeCommentReactionList input = normalize_reactions {||} input"

definition normalizeCommentRecord :: "CommentRecord \<Rightarrow> CommentRecord" where
  "normalizeCommentRecord r =
    r\<lparr>cr_Type := (if cr_Type r = [] then ''comment'' else cr_Type r),
      cr_Body := or_empty_object (cr_Body r), cr_Metadata := or_empty_object (cr_Metadata r),
      cr_Mentions := normalizeStringList (cr_Mentions r),
      cr_Reactions := normalizeCommentReactionList (cr_Reactions r)\<rparr>"

definition cloneCommentList :: "CommentRecord list \<Rightarrow> CommentRecord list" where
  "cloneCommentList input = map normalizeCommentRecord input"

definition normalizeThreadRecord :: "ThreadRecord \<Rightarrow> ThreadRecord" where
  "normalizeThreadRecord r =
    r\<lparr>tr_Type := (if tr_Type r = [] then ''thread'' else tr_Type r),
      tr_Metadata := or_empty_object (tr_Metadata r),
      tr_Comments := cloneCommentList (tr_Comments r)\<rparr>"

definition threadReadState ::
  "room_id \<Rightarrow> string \<Rightarrow> string \<Rightarrow> gtime \<Rightarrow> gtime option \<Rightarrow> ThreadReadState" where
  "threadReadState room threadID userID updatedAt readAt =
    \<lparr>trs_RoomID = room, trs_ThreadID = threadID, trs_UserID = userID, trs_ReadAt = readAt,
     trs_ThreadUpdatedAt = updatedAt,
     trs_Unread = (case readAt of None \<Rightarrow> True | Some at \<Rightarrow> at < updatedAt)\<rparr>"

definition normalizeInboxNotificationRecord ::
  "InboxNotificationRecord \<Rightarrow> InboxNotificationRecord" where
  "normalizeInboxNotificationRecord r = r\<lparr>in_ActivityData := or_empty_object (in_ActivityData r)\<rparr>"

definition normalizeRoomSubscriptionSettings ::
  "RoomSubscriptionSettings \<Rightarrow> RoomSubscriptionSettings" where
  "normalizeRoomSubscriptionSettings r =
    r\<lparr>rs_Threads := (if rs_Threads r = [] then ''all'' else rs_Threads r),
      rs_TextMentions := (if rs_TextMentions r = [] then ''mine'' else rs_TextMentions r)\<rparr>"

definition defaultRoomSubscriptionSettings :: "room_id \<Rightarrow> string \<Rightarrow> RoomSubscriptionSettings" where
  "defaultRoomSubscriptionSettings room userID =
    normalizeRoomSubscriptionSettings
      \<lparr>rs_RoomID = room, rs_UserID = userID, rs_Threads = ''all'', rs_TextMentions = ''mine'',
       rs_UpdatedAt = zero_time\<rparr>"

subsection \<open>What the permissions mean\<close>

lemmas permission_names = PermissionRoomWrite_def PermissionRoomRead_def
  PermissionRoomPresenceWrite_def PermissionStorageWrite_def PermissionStorageRead_def
  PermissionCommentsWrite_def PermissionCommentsRead_def PermissionFeedsWrite_def
  PermissionFeedsRead_def

definition room_actions :: "string list" where
  "room_actions = [''join'', ''room:read'', ''publish'', ''room:write'', ''presence'', ''storage'',
     ''storage:read'', ''storage:write'', ''comments'', ''comments:write'', ''comments:read'',
     ''feeds'', ''feeds:write'', ''feeds:read'']"

lemma group_permissions_eq:
  "group_permissions m gs =
    (\<exists>g \<in> set gs. g |\<in>| fmdom m, concat (map (\<lambda>g. case fmlookup m g of None \<Rightarrow> [] | Some p \<Rightarrow> p) gs))"
  by (induction m gs rule: group_permissions.induct) (auto simp: fmlookup_dom_iff split: option.split)

lemma permissionsAllow_iff:
  "permissionsAllow ps action \<longleftrightarrow> (\<exists>p \<in> set ps. permissionAllowsAction p action)"
  by (simp add: permissionsAllow_def list_ex_iff)

lemma action_unknown:
  "action \<notin> set room_actions \<Longrightarrow> \<not> permissionAllowsAction p action"
  by (simp add: permissionAllowsAction_def room_actions_def)

lemma room_write_all:
  assumes "action \<in> set room_actions"
  shows "permissionAllowsAction PermissionRoomWrite action"
proof -
  have "list_all (permissionAllowsAction PermissionRoomWrite) room_actions" by code_simp
  with assms show ?thesis by (simp add: list_all_iff)
qed

definition write_read_pairs :: "(string \<times> string) list" where
  "write_read_pairs = [(''room:write'', ''room:read''), (''storage:write'', ''storage:read''),
      (''comments:write'', ''comments:read''), (''feeds:write'', ''feeds:read'')]"

lemma write_actions:
  "permissionAllowsAction p ''room:write'' \<longleftrightarrow> p = PermissionRoomWrite"
  "permissionAllowsAction p ''storage:write'' \<longleftrightarrow> p \<in> {PermissionStorageWrite, PermissionRoomWrite}"
  "permissionAllowsAction p ''comments:write'' \<longleftrightarrow> p \<in> {PermissionCommentsWrite, PermissionRoomWrite}"
  "permissionAllowsAction p ''feeds:write'' \<longleftrightarrow> p \<in> {PermissionFeedsWrite, PermissionRoomWrite}"
  by (simp_all add: permissionAllowsAction_def)

lemma read_actions:
  "permissionAllowsAction p ''room:read'' \<longleftrightarrow> p \<in> {PermissionRoomRead, PermissionRoomWrite}"
  "permissionAllowsAction p ''storage:read'' \<longleftrightarrow>
     p \<in> {PermissionStorageRead, PermissionStorageWrite, PermissionRoomWrite}"
  "permissionAllowsAction p ''comments:read'' \<longleftrightarrow>
     p \<in> {PermissionCommentsRead, PermissionCommentsWrite, PermissionRoomWrite}"
  "permissionAllowsAction p ''feeds:read'' \<longleftrightarrow>
     p \<in> {PermissionFeedsRead, PermissionFeedsWrite, PermissionRoomWrite}"
  by (simp_all add: permissionAllowsAction_def)

lemma write_allows_read:
  assumes "(w, r) \<in> set write_read_pairs" "permissionAllowsAction p w"
  shows "permissionAllowsAction p r"
proof -
  have "list_all (\<lambda>(w, r). \<forall>p. permissionAllowsAction p w \<longrightarrow> permissionAllowsAction p r) write_read_pairs"
    by (simp add: write_read_pairs_def write_actions read_actions)
  with assms show ?thesis by (auto simp: list_all_iff)
qed

subsection \<open>Normal forms are stable\<close>

lemma normalize_strings_props:
  "distinct (normalize_strings seen xs) \<and>
   set (normalize_strings seen xs) = trim_space ` set xs - {[]} - fset seen"
proof (induction seen xs rule: normalize_strings.induct)
  case (2 seen v vs)
  then show ?case by (cases "trim_space v = []"; cases "trim_space v |\<in>| seen") (auto simp: Let_def)
qed simp

lemma normalize_strings_id:
  "distinct xs \<Longrightarrow> \<forall>x \<in> set xs. x \<noteq> [] \<and> trim_space x = x \<and> x |\<notin>| seen \<Longrightarrow>
     normalize_strings seen xs = xs"
  by (induction seen xs rule: normalize_strings.induct) (auto simp: Let_def)

lemma normalizeStringList_idem:
  "normalizeStringList (normalizeStringList xs) = normalizeStringList xs"
  unfolding normalizeStringList_def
  by (rule normalize_strings_id) (auto simp: normalize_strings_props trim_space_idem)

definition reaction_key :: "CommentReaction \<Rightarrow> string" where
  "reaction_key r = re_Emoji r @ CHR 0x00 # re_UserID r"

definition trimmed_reaction :: "CommentReaction \<Rightarrow> bool" where
  "trimmed_reaction r \<longleftrightarrow> re_Emoji r \<noteq> [] \<and> re_UserID r \<noteq> []
    \<and> trim_space (re_Emoji r) = re_Emoji r \<and> trim_space (re_UserID r) = re_UserID r"

definition trim_reaction :: "CommentReaction \<Rightarrow> CommentReaction" where
  "trim_reaction r = r\<lparr>re_Emoji := trim_space (re_Emoji r), re_UserID := trim_space (re_UserID r)\<rparr>"

lemma normalize_reactions_step:
  "normalize_reactions seen (r # rs) =
    (let r = trim_reaction r in
     if re_Emoji r = [] \<or> re_UserID r = [] then normalize_reactions seen rs
     else if reaction_key r |\<in>| seen then normalize_reactions seen rs
     else r # normalize_reactions (finsert (reaction_key r) seen) rs)"
  by (simp add: trim_reaction_def reaction_key_def Let_def)

lemma trimmed_trim:
  "re_Emoji (trim_reaction r) \<noteq> [] \<Longrightarrow> re_UserID (trim_reaction r) \<noteq> [] \<Longrightarrow>
     trimmed_reaction (trim_reaction r)"
  by (simp add: trim_reaction_def trimmed_reaction_def trim_space_idem)

lemma trim_trimmed: "trimmed_reaction r \<Longrightarrow> trim_reaction r = r"
  by (simp add: trim_reaction_def trimmed_reaction_def)

lemma normalize_reactions_props:
  "distinct (map reaction_key (normalize_reactions seen rs)) \<and>
   (\<forall>r \<in> set (normalize_reactions seen rs). trimmed_reaction r \<and> reaction_key r |\<notin>| seen)"
proof (induction rs arbitrary: seen)
  case (Cons r rs)
  show ?case
    using Cons.IH [of seen] Cons.IH [of "finsert (reaction_key (trim_reaction r)) seen"] trimmed_trim [of r]
    unfolding normalize_reactions_step Let_def by (auto simp del: normalize_reactions.simps)
qed simp

lemma normalize_reactions_id:
  "distinct (map reaction_key rs) \<Longrightarrow>
   \<forall>r \<in> set rs. trimmed_reaction r \<and> reaction_key r |\<notin>| seen \<Longrightarrow>
     normalize_reactions seen rs = rs"
proof (induction rs arbitrary: seen)
  case (Cons r rs)
  then have "distinct (map reaction_key rs)"
    and "\<forall>x \<in> set rs. trimmed_reaction x \<and> reaction_key x |\<notin>| finsert (reaction_key r) seen"
    by (simp_all add: image_iff) metis
  then have "normalize_reactions (finsert (reaction_key r) seen) rs = rs" by (rule Cons.IH)
  with Cons.prems show ?case
    by (simp add: normalize_reactions_step trim_trimmed del: normalize_reactions.simps)
       (simp add: trimmed_reaction_def)
qed simp

lemma normalizeCommentReactionList_idem:
  "normalizeCommentReactionList (normalizeCommentReactionList rs) = normalizeCommentReactionList rs"
  unfolding normalizeCommentReactionList_def
  using normalize_reactions_props [of "{||}" rs] by (intro normalize_reactions_id) auto

lemma or_empty_object_idem [simp]: "or_empty_object (or_empty_object raw) = or_empty_object raw"
  by (simp add: or_empty_object_def)

lemma normalizeCommentRecord_idem: "normalizeCommentRecord (normalizeCommentRecord r) = normalizeCommentRecord r"
  by (simp add: normalizeCommentRecord_def normalizeStringList_idem normalizeCommentReactionList_idem)

lemma normalizeThreadRecord_idem: "normalizeThreadRecord (normalizeThreadRecord r) = normalizeThreadRecord r"
  by (simp add: normalizeThreadRecord_def cloneCommentList_def normalizeCommentRecord_idem comp_def)

end
