(* ===== verification/Go_Path_Match.thy ===== *)
theory Go_Path_Match
  imports Go_Strings
begin

text \<open>
  \<open>path.Match\<close>, with which room patterns of a token are matched: the algorithm of the
  standard library, with its errors for malformed patterns. The facts that the
  authorization rests on are about the patterns it meets: a pattern without special
  characters matches itself only, and one that ends in a star matches the names that
  extend the prefix without a slash.
\<close>

definition ibyte :: "string \<Rightarrow> nat \<Rightarrow> int" where
  "ibyte s i = int (byte (s ! i))"

definition decode_rune :: "string \<Rightarrow> int \<times> nat" where
  "decode_rune s =
    (let n = rune_len s in
     if n = 0 then (0xFFFD, if s = [] then 0 else 1)
     else if n = 1 then (ibyte s 0, 1)
     else if n = 2 then ((ibyte s 0 mod 0x20) * 0x40 + ibyte s 1 mod 0x40, 2)
     else if n = 3 then
       ((ibyte s 0 mod 0x10) * 0x1000 + (ibyte s 1 mod 0x40) * 0x40 + ibyte s 2 mod 0x40, 3)
     else
       ((ibyte s 0 mod 0x08) * 0x40000 + (ibyte s 1 mod 0x40) * 0x1000
          + (ibyte s 2 mod 0x40) * 0x40 + ibyte s 3 mod 0x40, 4))"

text \<open>A malformed pattern is None; a rune of a class must not be the last one of the chunk.\<close>

definition class_rune :: "string \<Rightarrow> (int \<times> string) option" where
  "class_rune chunk =
    (let (rn, n) = decode_rune chunk
     in if rn = 0xFFFD \<and> n = 1 then None
        else if drop n chunk = [] then None else Some (rn, drop n chunk))"

definition getEsc :: "string \<Rightarrow> (int \<times> string) option" where
  "getEsc chunk =
    (case chunk of
       [] \<Rightarrow> None
     | c # r \<Rightarrow>
         if c = CHR ''-'' \<or> c = CHR '']'' then None
         else if c = CHR 0x5C then (if r = [] then None else class_rune r)
         else class_rune chunk)"

lemma rune_len_bound: "s \<noteq> [] \<Longrightarrow> 0 < snd (decode_rune s)"
  by (auto simp: decode_rune_def Let_def)

lemma class_rune_length:
  assumes "class_rune chunk = Some (rn, r)"
  shows "length r < length chunk \<and> r \<noteq> []"
proof -
  obtain u n where u: "decode_rune chunk = (u, n)" by fastforce
  with assms have r: "r = drop n chunk" "r \<noteq> []"
    by (auto simp: class_rune_def split: if_split_asm)
  then have "chunk \<noteq> []" by auto
  from rune_len_bound [OF this] u r show ?thesis by (cases chunk) auto
qed

lemma getEsc_length: "getEsc chunk = Some (rn, r) \<Longrightarrow> length r < length chunk \<and> r \<noteq> []"
  by (auto simp: getEsc_def split: list.split_asm if_split_asm dest: class_rune_length)

text \<open>The ranges of a character class; \<open>first\<close> while none has been read.\<close>

function match_ranges :: "int \<Rightarrow> bool \<Rightarrow> bool \<Rightarrow> string \<Rightarrow> (bool \<times> string) option" where
  "match_ranges rn first matched chunk =
    (if chunk \<noteq> [] \<and> hd chunk = CHR '']'' \<and> \<not> first then Some (matched, tl chunk)
     else case getEsc chunk of
            None \<Rightarrow> None
          | Some (lo, chunk1) \<Rightarrow>
              (if hd chunk1 = CHR ''-'' then
                 (case getEsc (tl chunk1) of
                    None \<Rightarrow> None
                  | Some (hi, chunk2) \<Rightarrow>
                      match_ranges rn False (matched \<or> (lo \<le> rn \<and> rn \<le> hi)) chunk2)
               else match_ranges rn False (matched \<or> lo = rn) chunk1))"
  by pat_completeness auto
termination
  by (relation "measure (\<lambda>(_, _, _, c). length c)") (auto dest!: getEsc_length)

declare match_ranges.simps [simp del]

lemma match_ranges_length:
  "match_ranges rn first matched chunk = Some (b, r) \<Longrightarrow> length r < length chunk"
proof (induction rn first matched chunk rule: match_ranges.induct)
  case (1 rn first matched chunk)
  show ?case
  proof (cases "chunk \<noteq> [] \<and> hd chunk = CHR '']'' \<and> \<not> first")
    case True
    with 1(3) show ?thesis by (subst (asm) match_ranges.simps) auto
  next
    case False
    with 1(3) obtain lo c1 where g: "getEsc chunk = Some (lo, c1)"
      by (subst (asm) match_ranges.simps) (auto split: option.split_asm)
    note L = getEsc_length [OF g]
    show ?thesis
    proof (cases "hd c1 = CHR ''-''")
      case True
      with 1(3) False g obtain hi c2 where h: "getEsc (tl c1) = Some (hi, c2)"
        and m: "match_ranges rn False (matched \<or> lo \<le> rn \<and> rn \<le> hi) c2 = Some (b, r)"
        by (subst (asm) match_ranges.simps) (auto split: option.split_asm)
      from 1(1) [OF False g refl True h refl m] L getEsc_length [OF h] show ?thesis
        by (cases c1) auto
    next
      case no: False
      with 1(3) False g have "match_ranges rn False (matched \<or> lo = rn) c1 = Some (b, r)"
        by (subst (asm) match_ranges.simps) auto
      from 1(2) [OF False g refl no this] L show ?thesis by simp
    qed
  qed
qed

text \<open>
  \<open>matchChunk\<close>: None is a malformed pattern, \<open>Some None\<close> no match, \<open>Some (Some r)\<close> a match
  that leaves \<open>r\<close>. After a failure the rest of the chunk is only checked.
\<close>

function match_chunk :: "bool \<Rightarrow> string \<Rightarrow> string \<Rightarrow> string option option" where
  "match_chunk failed chunk s =
    (case chunk of
       [] \<Rightarrow> Some (if failed then None else Some s)
     | c # rest \<Rightarrow>
         (let failed = (failed \<or> s = []) in
          if c = CHR ''['' then
            (let (rn, n) = (if failed then (0, 0) else decode_rune s);
                 negated = (rest \<noteq> [] \<and> hd rest = CHR ''^'')
             in case match_ranges rn True False (if negated then tl rest else rest) of
                  None \<Rightarrow> None
                | Some (matched, chunk) \<Rightarrow>
                    if \<not> length chunk < length (c # rest) then None
                    else match_chunk (failed \<or> matched = negated) chunk (drop n s))
          else if c = CHR ''?'' then
            (if failed then match_chunk True rest s
             else match_chunk (hd s = CHR 0x2F) rest (drop (snd (decode_rune s)) s))
          else
            (case (if c = CHR 0x5C then rest else chunk) of
               [] \<Rightarrow> None
             | d # rest1 \<Rightarrow>
                 if failed then match_chunk True rest1 s
                 else match_chunk (d \<noteq> hd s) rest1 (tl s))))"
  by pat_completeness auto
termination
  by (relation "measure (\<lambda>(_, c, _). length c)") (auto split: if_split_asm)

declare match_chunk.simps [simp del]

fun scan_to_star :: "bool \<Rightarrow> string \<Rightarrow> string \<times> string" where
  "scan_to_star inrange [] = ([], [])"
| "scan_to_star inrange [c] =
    (if c = CHR ''*'' \<and> \<not> inrange then ([], [c]) else ([c], []))"
| "scan_to_star inrange (c # d # s) =
    (if c = CHR 0x5C then
       (let (chunk, rest) = scan_to_star inrange s in (c # d # chunk, rest))
     else if c = CHR ''*'' \<and> \<not> inrange then ([], c # d # s)
     else
       (let (chunk, rest) =
          scan_to_star (if c = CHR ''['' then True else if c = CHR '']'' then False else inrange) (d # s)
        in (c # chunk, rest)))"

definition scanChunk :: "string \<Rightarrow> bool \<times> string \<times> string" where
  "scanChunk pattern =
    (let p = dropWhile (\<lambda>c. c = CHR ''*'') pattern;
         star = (pattern \<noteq> [] \<and> hd pattern = CHR ''*'');
         (chunk, rest) = scan_to_star False p
     in (star, chunk, rest))"

lemma scan_to_star_length: "scan_to_star r s = (chunk, rest) \<Longrightarrow> length rest \<le> length s"
  by (induction r s arbitrary: chunk rest rule: scan_to_star.induct)
     (auto split: prod.split_asm if_split_asm simp: Let_def intro: le_SucI)

lemma scan_to_star_shrinks:
  "scan_to_star False s = (chunk, rest) \<Longrightarrow> s \<noteq> [] \<Longrightarrow> hd s \<noteq> CHR ''*'' \<Longrightarrow> length rest < length s"
  by (cases "(False, s)" rule: scan_to_star.cases)
     (auto split: prod.split_asm if_split_asm dest!: scan_to_star_length)

lemma scanChunk_shrinks:
  assumes "scanChunk pattern = (star, chunk, rest)" "pattern \<noteq> []"
  shows "length rest < length pattern"
proof -
  let ?p = "dropWhile (\<lambda>c. c = CHR ''*'') pattern"
  from assms have s: "scan_to_star False ?p = (chunk, rest)"
    by (auto simp: scanChunk_def Let_def split: prod.split_asm)
  show ?thesis
  proof (cases "hd pattern = CHR ''*''")
    case True
    then have "length ?p < length pattern"
      using assms(2) by (cases pattern) (auto simp: less_Suc_eq_le length_dropWhile_le)
    with scan_to_star_length [OF s] show ?thesis by simp
  next
    case False
    then have "?p = pattern" using assms(2) by (cases pattern) auto
    with s scan_to_star_shrinks [of pattern] assms(2) False show ?thesis by simp
  qed
qed

lemma scanChunk_shrinks':
  "(star, chunk, rest) = scanChunk pattern \<Longrightarrow> pattern \<noteq> [] \<Longrightarrow> length rest < length pattern"
  using scanChunk_shrinks by metis

text \<open>The tails of the name that a star may skip to, in the order they are tried.\<close>

fun star_tails :: "string \<Rightarrow> string list" where
  "star_tails [] = []"
| "star_tails (c # s) = (if c = CHR 0x2F then [] else s # star_tails s)"

text \<open>The first tail on which the chunk matches (at the end of the name if it is the last one).\<close>

fun try_tails :: "string \<Rightarrow> bool \<Rightarrow> string list \<Rightarrow> string option option" where
  "try_tails chunk final [] = Some None"
| "try_tails chunk final (s # ss) =
    (case match_chunk False chunk s of
       None \<Rightarrow> None
     | Some None \<Rightarrow> try_tails chunk final ss
     | Some (Some t) \<Rightarrow> if final \<and> t \<noteq> [] then try_tails chunk final ss else Some (Some t))"

function pattern_ok :: "string \<Rightarrow> bool" where
  "pattern_ok pattern =
    (if pattern = [] then True
     else (let (star, chunk, rest) = scanChunk pattern
           in match_chunk False chunk [] \<noteq> None \<and> pattern_ok rest))"
  by pat_completeness auto
termination by (relation "measure length") (auto intro: scanChunk_shrinks')

declare pattern_ok.simps [simp del]

function path_match :: "string \<Rightarrow> string \<Rightarrow> bool option" where
  "path_match pattern name =
    (if pattern = [] then Some (name = [])
     else (let (star, chunk, rest) = scanChunk pattern in
           if star \<and> chunk = [] then Some (CHR 0x2F \<notin> set name)
           else case match_chunk False chunk name of
                  Some (Some t) \<Rightarrow>
                    if t = [] \<or> rest \<noteq> [] then path_match rest t
                    else (case (if star then try_tails chunk True (star_tails name) else Some None) of
                            None \<Rightarrow> None
                          | Some (Some t) \<Rightarrow> path_match rest t
                          | Some None \<Rightarrow> Some False)
                | None \<Rightarrow> None
                | Some None \<Rightarrow>
                    (case (if star then try_tails chunk (rest = []) (star_tails name) else Some None) of
                       None \<Rightarrow> None
                     | Some (Some t) \<Rightarrow> path_match rest t
                     | Some None \<Rightarrow> if pattern_ok rest then Some False else None)))"
  by pat_completeness auto
termination by (relation "measure (\<lambda>(p, _). length p)") (auto intro: scanChunk_shrinks' split: if_split_asm)

declare path_match.simps [simp del]

subsection \<open>Patterns without special characters\<close>

definition plain_char :: "char \<Rightarrow> bool" where
  "plain_char c \<longleftrightarrow> c \<notin> set [CHR ''*'', CHR ''?'', CHR ''['', CHR 0x5C]"

lemma scan_to_star_plain:
  "list_all plain_char p \<Longrightarrow> rest = [] \<or> hd rest = CHR ''*'' \<Longrightarrow>
     scan_to_star False (p @ rest) = (p, rest)"
proof (induction p)
  case Nil
  then show ?case by (cases "(False, rest)" rule: scan_to_star.cases) auto
next
  case (Cons c p)
  then show ?case
    by (cases "p @ rest") (auto simp: plain_char_def)
qed

lemma match_chunk_plain:
  "list_all plain_char p \<Longrightarrow>
     match_chunk failed p s = Some (if failed \<or> \<not> prefix p s then None else Some (drop (length p) s))"
proof (induction p arbitrary: failed s)
  case Nil
  then show ?case by (subst match_chunk.simps) simp
next
  case (Cons c p)
  then show ?case
    by (subst match_chunk.simps) (cases s; auto simp: plain_char_def Let_def)
qed

lemma path_match_Nil [simp]: "path_match [] name = Some (name = [])"
  by (subst path_match.simps) simp

lemma scanChunk_plain:
  assumes "list_all plain_char p" "p \<noteq> []" "rest = [] \<or> hd rest = CHR ''*''"
  shows "scanChunk (p @ rest) = (False, p, rest)"
proof -
  obtain c q where "p = c # q" "c \<noteq> CHR ''*''" using assms by (cases p) (auto simp: plain_char_def)
  with scan_to_star_plain [OF assms(1,3)] show ?thesis by (simp add: scanChunk_def Let_def)
qed

lemma scanChunk_star: "scanChunk ''*'' = (True, [], [])"
  by (simp add: scanChunk_def)

lemma path_match_star: "path_match ''*'' name = Some (CHR 0x2F \<notin> set name)"
  by (subst path_match.simps) (simp add: scanChunk_star)

lemma path_match_plain: "list_all plain_char p \<Longrightarrow> path_match p name = Some (name = p)"
proof (cases "p = []")
  case False
  assume p: "list_all plain_char p"
  from scanChunk_plain [OF this False, of "[]"] match_chunk_plain [OF p, of False name] show ?thesis
    by (subst path_match.simps) (auto simp: False prefix_def pattern_ok.simps [of "[]"])
qed simp

lemma path_match_prefix:
  assumes p: "list_all plain_char p"
  shows "path_match (p @ ''*'') name = Some (prefix p name \<and> CHR 0x2F \<notin> set (drop (length p) name))"
proof (cases "p = []")
  case True
  then show ?thesis by (simp add: path_match_star)
next
  case False
  have "match_chunk False [] [] \<noteq> None" by (subst match_chunk.simps) simp
  then have "pattern_ok ''*''"
    by (subst pattern_ok.simps) (simp add: scanChunk_star pattern_ok.simps [of "[]"])
  with scanChunk_plain [OF p False, of "''*''"] match_chunk_plain [OF p, of False name] show ?thesis
    by (subst path_match.simps) (auto simp: path_match_star)
qed

end
