(* ===== verification/Auth_Claims.thy ===== *)
theory Auth_Claims
  imports Room_Access Go_Path_Match
begin

text \<open>
  Authorization: what a verified token allows (\<open>Claims\<close> in \<open>internal/auth/verifier.go\<close>),
  the decision for a room (\<open>internal/roomengine/authorization.go\<close>) and the cache of
  signing keys. The token library, the HTTP fetch of the key set and the room store are
  arguments of the definitions that use them.

  Who is allowed into a room: the tenants are separated, scope patterns mean what they look
  like, and the record of a room decides for everyone else.
\<close>

subsection \<open>Claims\<close>

record Claims =
  cl_Subject :: string
  cl_Tenant :: string
  cl_Join :: "string list"
  cl_Publish :: "string list"
  cl_Presence :: "string list"
  cl_Groups :: "string list"
  cl_GroupIDs :: "string list"
  cl_Scope :: string

definition scopePrefixesForAction :: "string \<Rightarrow> string list" where
  "scopePrefixesForAction action =
    (if action = ''join'' \<or> action = ''room:read'' then [''join:'', ''room:read:'', ''room:write:'']
     else if action = ''publish'' \<or> action = ''room:write'' then [''publish:'', ''room:write:'']
     else if action = ''presence'' then [''presence:'', ''room:presence:write:'', ''room:write:'']
     else if action = ''storage'' then [''storage:read:'', ''storage:write:'', ''storage:'']
     else if action = ''storage:read'' then [''storage:read:'', ''storage:write:'', ''storage:'']
     else if action = ''storage:write'' then [''storage:write:'', ''storage:'']
     else if action = ''comments'' then [''comments:write:'', ''comments:'']
     else if action = ''comments:read'' then [''comments:read:'', ''comments:write:'', ''comments:'']
     else if action = ''comments:write'' then [''comments:write:'', ''comments:'']
     else if action = ''feeds'' then [''feeds:read:'', ''feeds:write:'', ''feeds:'']
     else if action = ''feeds:read'' then [''feeds:read:'', ''feeds:write:'', ''feeds:'']
     else if action = ''feeds:write'' then [''feeds:write:'', ''feeds:'']
     else [action @ '':''])"

text \<open>The pattern of a scope token: what follows the first prefix that it has.\<close>

fun strip_first :: "string list \<Rightarrow> string \<Rightarrow> string list" where
  "strip_first [] token = []"
| "strip_first (p # ps) token =
    (if prefix p token then [drop (length p) token] else strip_first ps token)"

definition patternsFor :: "Claims \<Rightarrow> string \<Rightarrow> string list" where
  "patternsFor c action =
    (if action = ''join'' then cl_Join c
     else if action = ''publish'' then cl_Publish c
     else if action = ''presence'' then cl_Presence c
     else [])
    @ concat (map (strip_first (scopePrefixesForAction action)) (split_fields (cl_Scope c)))"

definition Claims_Allows :: "Claims \<Rightarrow> string \<Rightarrow> room_id \<Rightarrow> bool \<Rightarrow> string \<Rightarrow> bool" where
  "Claims_Allows c action room enforcePrefix separator =
    (if enforcePrefix \<and> cl_Tenant c = [] then False
     else if enforcePrefix \<and> \<not> prefix (cl_Tenant c @ separator) room then False
     else list_ex (\<lambda>pattern. path_match pattern room = Some True) (patternsFor c action))"

fun dedupe :: "string fset \<Rightarrow> string list \<Rightarrow> string list" where
  "dedupe seen [] = []"
| "dedupe seen (groupID # rest) =
    (if groupID = [] then dedupe seen rest
     else if groupID |\<in>| seen then dedupe seen rest
     else groupID # dedupe (finsert groupID seen) rest)"

definition RoomGroupIDs :: "Claims \<Rightarrow> string list" where
  "RoomGroupIDs c = dedupe {||} (cl_GroupIDs c @ cl_Groups c)"

subsection \<open>The decision for a room\<close>

text \<open>The store answers with the room's record, or with None for any error.\<close>

type_synonym RoomGetter = "room_id \<Rightarrow> RoomRecord option"

record RoomAuthorizationOptions =
  rao_EnforceTenantPrefix :: bool
  rao_TenantSeparator :: string

definition tenant_separator :: "RoomAuthorizationOptions \<Rightarrow> string" where
  "tenant_separator options =
    (if rao_TenantSeparator options = [] then '':'' else rao_TenantSeparator options)"

definition AllowsRoomAction ::
  "Claims option \<Rightarrow> RoomGetter option \<Rightarrow> string \<Rightarrow> room_id \<Rightarrow> RoomAuthorizationOptions \<Rightarrow> bool" where
  "AllowsRoomAction claims store action room options =
    (case claims of
       None \<Rightarrow> False
     | Some c \<Rightarrow>
         (let separator = tenant_separator options in
          if Claims_Allows c action room (rao_EnforceTenantPrefix options) separator then True
          else if rao_EnforceTenantPrefix options
                  \<and> (cl_Tenant c = [] \<or> \<not> prefix (cl_Tenant c @ separator) room) then False
          else case store of
                 None \<Rightarrow> False
               | Some getRoom \<Rightarrow>
                   (case getRoom room of
                      None \<Rightarrow> False
                    | Some r \<Rightarrow> RoomRecord_Allows r (cl_Subject c) (RoomGroupIDs c) action)))"

subsection \<open>Signing keys\<close>

record rsa_key =
  rk_N :: int
  rk_E :: int

record JWK =
  jwk_Kty :: string
  jwk_Kid :: string
  jwk_N :: string
  jwk_E :: string

datatype key_error =
    ErrRequest | ErrStatus int | ErrDecode | ErrBase64 | ErrInvalidKey | ErrNoRSAKeys
  | ErrKeyNotFound string

text \<open>
  \<open>base64.RawURLEncoding\<close>: carriage returns and line feeds are skipped, six bits per
  character, no padding, and a single left-over character is an error.
\<close>

definition b64_value :: "char \<Rightarrow> int option" where
  "b64_value c =
    (if in_range 0x41 0x5A c then Some (of_char c - 0x41)
     else if in_range 0x61 0x7A c then Some (of_char c - 0x61 + 26)
     else if in_range 0x30 0x39 c then Some (of_char c - 0x30 + 52)
     else if c = CHR ''-'' then Some 62
     else if c = CHR ''_'' then Some 63
     else None)"

fun b64_groups :: "int list \<Rightarrow> int list option" where
  "b64_groups [] = Some []"
| "b64_groups [a] = None"
| "b64_groups [a, b] = Some [a * 4 + b div 16]"
| "b64_groups [a, b, c] = Some [a * 4 + b div 16, (b mod 16) * 16 + c div 4]"
| "b64_groups (a # b # c # d # r) =
    map_option (\<lambda>bs. (a * 4 + b div 16) # ((b mod 16) * 16 + c div 4) # ((c mod 4) * 64 + d) # bs)
      (b64_groups r)"

fun b64_values :: "string \<Rightarrow> int list option" where
  "b64_values [] = Some []"
| "b64_values (c # s) =
    (if c = CHR 0x0A \<or> c = CHR 0x0D then b64_values s
     else case b64_value c of
            None \<Rightarrow> None
          | Some v \<Rightarrow> map_option (\<lambda>vs. v # vs) (b64_values s))"

definition b64url_decode :: "string \<Rightarrow> int list option" where
  "b64url_decode s = (case b64_values s of None \<Rightarrow> None | Some vs \<Rightarrow> b64_groups vs)"

definition big_endian :: "int list \<Rightarrow> int" where
  "big_endian bs = foldl (\<lambda>n b. 256 * n + b) 0 bs"

text \<open>\<open>Int64\<close> of a big integer keeps its low 64 bits.\<close>

definition low_int64 :: "int \<Rightarrow> int" where
  "low_int64 n = (let m = n mod 2 ^ 64 in if m < 2 ^ 63 then m else m - 2 ^ 64)"

definition rsaKeyFromJWK :: "string \<Rightarrow> string \<Rightarrow> key_error + rsa_key" where
  "rsaKeyFromJWK nValue eValue =
    (case b64url_decode nValue of
       None \<Rightarrow> Inl ErrBase64
     | Some modulusBytes \<Rightarrow>
         (case b64url_decode eValue of
            None \<Rightarrow> Inl ErrBase64
          | Some exponentBytes \<Rightarrow>
              (let publicKey = \<lparr>rk_N = big_endian modulusBytes,
                                rk_E = low_int64 (big_endian exponentBytes)\<rparr>
               in if rk_E publicKey \<le> 0 \<or> rk_N publicKey = 0 then Inl ErrInvalidKey
                  else Inr publicKey)))"

fun collect_keys :: "(string, rsa_key) fmap \<Rightarrow> JWK list \<Rightarrow> key_error + (string, rsa_key) fmap" where
  "collect_keys keys [] = Inr keys"
| "collect_keys keys (key # jwks) =
    (if jwk_Kty key \<noteq> ''RSA'' then collect_keys keys jwks
     else case rsaKeyFromJWK (jwk_N key) (jwk_E key) of
            Inl err \<Rightarrow> Inl err
          | Inr publicKey \<Rightarrow> collect_keys (fmupd (jwk_Kid key) publicKey keys) jwks)"

text \<open>
  The answer of the key server: none, or a status with the decoded key list (None when the
  body does not decode).
\<close>

definition fetchKeys :: "(int \<times> JWK list option) option \<Rightarrow> key_error + (string, rsa_key) fmap" where
  "fetchKeys response =
    (case response of
       None \<Rightarrow> Inl ErrRequest
     | Some (status, body) \<Rightarrow>
         if status < 200 \<or> status \<ge> 300 then Inl (ErrStatus status)
         else (case body of
                 None \<Rightarrow> Inl ErrDecode
               | Some jwks \<Rightarrow>
                   (case collect_keys fmempty jwks of
                      Inl err \<Rightarrow> Inl err
                    | Inr keys \<Rightarrow> if keys = fmempty then Inl ErrNoRSAKeys else Inr keys)))"

record Verifier =
  vf_cachedAt :: gtime
  vf_cachedTTL :: int
  vf_keys :: "(string, rsa_key) fmap"

text \<open>The client is asked for keys at \<open>now\<close>; \<open>fetched_at\<close> is the clock after its answer.\<close>

definition lookupKey ::
  "Verifier \<Rightarrow> gtime \<Rightarrow> (int \<times> JWK list option) option \<Rightarrow> gtime \<Rightarrow> string
     \<Rightarrow> (key_error + rsa_key) \<times> Verifier" where
  "lookupKey v now response fetched_at kid =
    (case (if now - vf_cachedAt v > vf_cachedTTL v \<or> vf_keys v = fmempty
           then (case fetchKeys response of
                   Inl err \<Rightarrow> Inl err
                 | Inr keys \<Rightarrow> Inr (v\<lparr>vf_keys := keys, vf_cachedAt := fetched_at\<rparr>))
           else Inr v) of
       Inl err \<Rightarrow> (Inl err, v)
     | Inr v \<Rightarrow>
         (case (if kid = [] then sorted_ids (fmdom (vf_keys v)) else []) of
            [only] \<Rightarrow> (Inr (the (fmlookup (vf_keys v) only)), v)
          | _ \<Rightarrow> (case fmlookup (vf_keys v) kid of
                     None \<Rightarrow> (Inl (ErrKeyNotFound kid), v)
                   | Some key \<Rightarrow> (Inr key, v))))"

subsection \<open>Facts\<close>

lemma strip_first_iff:
  "x \<in> set (strip_first ps token) \<Longrightarrow> \<exists>p \<in> set ps. token = p @ x"
  by (induction ps token rule: strip_first.induct) (auto simp: prefix_def split: if_split_asm)

lemma dedupe_props:
  "distinct (dedupe seen xs) \<and> set (dedupe seen xs) = set xs - {[]} - fset seen"
  by (induction seen xs rule: dedupe.induct) auto

lemma RoomGroupIDs_set:
  "distinct (RoomGroupIDs c)" "set (RoomGroupIDs c) = set (cl_Groups c) \<union> set (cl_GroupIDs c) - {[]}"
  by (auto simp: RoomGroupIDs_def dedupe_props)

lemma Claims_Allows_iff:
  "Claims_Allows c action room enforce sep \<longleftrightarrow>
    (enforce \<longrightarrow> cl_Tenant c \<noteq> [] \<and> prefix (cl_Tenant c @ sep) room)
    \<and> (\<exists>pat \<in> set (patternsFor c action). path_match pat room = Some True)"
  by (auto simp: Claims_Allows_def list_ex_iff)

subsection \<open>Tenants\<close>

lemma tenant_prefix_unique:
  assumes "prefix (t @ s # u) room" "prefix (t' @ s # u') room" "s \<notin> set t" "s \<notin> set t'"
  shows "t = t'"
proof -
  have "takeWhile (\<lambda>c. c \<noteq> s) room = t" if "prefix (t @ s # u) room" "s \<notin> set t" for t u
  proof -
    from that(1) obtain a where "room = t @ s # u @ a" by (auto simp: prefix_def)
    then show ?thesis using that(2) by (metis (mono_tags, lifting) append_Nil2 takeWhile.simps(2) takeWhile_append2)
  qed
  then show ?thesis using assms by metis
qed

lemma tenant_of_room:
  assumes "AllowsRoomAction (Some c) store action room options" "rao_EnforceTenantPrefix options"
  shows "cl_Tenant c \<noteq> [] \<and> prefix (cl_Tenant c @ tenant_separator options) room"
  using assms
  by (auto simp: AllowsRoomAction_def Let_def Claims_Allows_iff split: if_split_asm)

text \<open>C26. With the tenant prefix enforced nobody acts in a room outside the tenant, whatever the
  scopes, the groups and the record of the room say: whoever may do anything in a room has a
  tenant, and the name of the room starts with it and the separator. And when the separator
  begins with a character that is in neither tenant's name, two tokens that may both act in a
  room are of the same tenant.\<close>

theorem tenants_isolated:
  assumes "rao_EnforceTenantPrefix options"
  shows "(AllowsRoomAction (Some c) store action room options \<longrightarrow>
      cl_Tenant c \<noteq> [] \<and> prefix (cl_Tenant c @ tenant_separator options) room)
    \<and> (AllowsRoomAction (Some c) store action room options \<and> AllowsRoomAction (Some c') store' action' room options
       \<and> tenant_separator options = s # u \<and> s \<notin> set (cl_Tenant c) \<and> s \<notin> set (cl_Tenant c') \<longrightarrow>
         cl_Tenant c = cl_Tenant c')"
proof (intro conjI impI)
  assume "AllowsRoomAction (Some c) store action room options \<and> AllowsRoomAction (Some c') store' action' room options
       \<and> tenant_separator options = s # u \<and> s \<notin> set (cl_Tenant c) \<and> s \<notin> set (cl_Tenant c')"
  then show "cl_Tenant c = cl_Tenant c'"
    using tenant_of_room [of c store action room options] tenant_of_room [of c' store' action' room options] assms
      tenant_prefix_unique by auto
qed (use tenant_of_room [OF _ assms] in blast)+

definition bare_token :: "string \<Rightarrow> string list \<Rightarrow> string \<Rightarrow> Claims" where
  "bare_token tenant publish scope = \<lparr>cl_Subject = ''u1'', cl_Tenant = tenant, cl_Join = [], cl_Publish = publish,
     cl_Presence = [], cl_Groups = [], cl_GroupIDs = [], cl_Scope = scope\<rparr>"

definition enforced :: RoomAuthorizationOptions where
  "enforced = \<lparr>rao_EnforceTenantPrefix = True, rao_TenantSeparator = []\<rparr>"

text \<open>A token of the tenant may publish in its lobby, so no token of another tenant may do anything there.\<close>

theorem tenants_isolated_witness:
  "AllowsRoomAction (Some (bare_token ''acme'' [''acme:*''] [])) None ''publish'' ''acme:lobby'' enforced
   \<and> \<not> AllowsRoomAction (Some (bare_token ''evil'' [''*''] ''publish:*'')) None ''publish'' ''acme:lobby'' enforced"
proof -
  have a: "AllowsRoomAction (Some (bare_token ''acme'' [''acme:*''] [])) None ''publish'' ''acme:lobby'' enforced"
    by code_simp
  from a tenants_isolated [of enforced "bare_token ''acme'' [''acme:*''] []" None "''publish''" "''acme:lobby''"
      "bare_token ''evil'' [''*''] ''publish:*''" None "''publish''" "CHR '':''" "[]"]
  show ?thesis by (auto simp: enforced_def tenant_separator_def bare_token_def)
qed

subsection \<open>Patterns\<close>

text \<open>A publish pattern that is a plain text with a star at its end allows exactly the rooms that
  continue the text without a slash; a plain text allows only itself.\<close>

theorem star_pattern_rooms:
  assumes "list_all plain_char p"
  shows "Claims_Allows ((bare_token tenant [p @ ''*''] [])) ''publish'' room False sep =
      (prefix p room \<and> CHR 0x2F \<notin> set (drop (length p) room))
    \<and> Claims_Allows (bare_token tenant [p] []) ''publish'' room False sep = (room = p)"
proof -
  have "split_fields [] = []"
    by (simp add: split_fields_def split_fields_from.simps [of "[]" "[]"])
  then have "patternsFor (bare_token tenant ps []) ''publish'' = ps" for ps
    by (simp add: patternsFor_def bare_token_def)
  with path_match_prefix [OF assms] path_match_plain [OF assms] show ?thesis
    by (simp add: Claims_Allows_def)
qed

theorem star_pattern_rooms_witness:
  "Claims_Allows (bare_token [] [''doc-'' @ ''*''] []) ''publish'' ''doc-7'' False ''''"
  using star_pattern_rooms [of "''doc-''" "[]" "''doc-7''" "''''"] by (simp add: plain_char_def)

text \<open>C34. A scope that is meant for reading can allow writing: the token ``storage:read'' followed by
  a pattern is also read as the scope ``storage'' with the pattern ``read:...'', so a token of
  the tenant ``read'' that may only read may write every room of its tenant.\<close>

theorem read_scope_writes:
  assumes "cl_Tenant c = ''read''" "cl_Scope c = ''storage:read:*''" "CHR 0x2F \<notin> set x"
  shows "AllowsRoomAction (Some c) store ''storage:write'' (''read:'' @ x) enforced"
proof -
  have "split_fields ''storage:read:*'' = [''storage:read:*'']" by code_simp
  then have "patternsFor c ''storage:write'' = [''read:'' @ ''*'']"
    by (simp add: patternsFor_def assms(2) scopePrefixesForAction_def)
  moreover have "path_match (''read:'' @ ''*'') (''read:'' @ x) = Some True"
    using path_match_prefix [of "''read:''" "''read:'' @ x"] assms(3) by (simp add: plain_char_def)
  ultimately show ?thesis
    using assms(1) by (simp add: AllowsRoomAction_def Claims_Allows_def enforced_def tenant_separator_def)
qed

theorem read_scope_writes_witness:
  "AllowsRoomAction (Some (bare_token ''read'' [] ''storage:read:*'')) None ''storage:write'' ''read:plan'' enforced"
  using read_scope_writes [of "bare_token ''read'' [] ''storage:read:*''" "''plan''" None]
  by (simp add: bare_token_def)

subsection \<open>Records\<close>

text \<open>The permissions that a record gives to a subject with groups: its own entry alone if it has one,
  else those of all its groups that the record names, else the default ones.\<close>

definition permissions_for :: "RoomRecord \<Rightarrow> string \<Rightarrow> string list \<Rightarrow> string set" where
  "permissions_for r subject gs =
    (if subject \<noteq> [] \<and> subject |\<in>| fmdom (rr_UsersAccesses r)
     then set (the (fmlookup (rr_UsersAccesses r) subject))
     else if \<exists>g \<in> set gs. g |\<in>| fmdom (rr_GroupsAccesses r)
     then {p. \<exists>g \<in> set gs. \<exists>ps. fmlookup (rr_GroupsAccesses r) g = Some ps \<and> p \<in> set ps}
     else set (rr_DefaultAccesses r))"

lemma RoomRecord_Allows_iff:
  "RoomRecord_Allows r subject gs action \<longleftrightarrow>
     (\<exists>p \<in> permissions_for r subject gs. permissionAllowsAction p action)"
proof -
  have "(\<exists>p \<in> set (concat (map (\<lambda>g. case fmlookup (rr_GroupsAccesses r) g of None \<Rightarrow> [] | Some p \<Rightarrow> p) gs)).
          permissionAllowsAction p action) \<longleftrightarrow>
        (\<exists>p \<in> {p. \<exists>g \<in> set gs. \<exists>ps. fmlookup (rr_GroupsAccesses r) g = Some ps \<and> p \<in> set ps}.
          permissionAllowsAction p action)"
    by (force split: option.split_asm)
  then show ?thesis
    by (auto simp: RoomRecord_Allows_def permissions_for_def permissionsAllow_iff group_permissions_eq
        fmlookup_dom_iff split: option.split_asm)
qed

text \<open>A verified token decides a room action as follows: its scopes may allow it; otherwise, inside
  the tenant, the record of the room does, by the subject's own entry, which replaces all
  others even when it is empty, else by its groups, else by the default. Without a token or a
  record nothing is allowed, and an action that the code does not name never is by a record.\<close>

theorem room_decision:
  "AllowsRoomAction (Some c) (Some getRoom) action room options =
    ((if rao_EnforceTenantPrefix options
      then cl_Tenant c \<noteq> [] \<and> prefix (cl_Tenant c @ tenant_separator options) room else True)
     \<and> ((\<exists>pat \<in> set (patternsFor c action). path_match pat room = Some True)
        \<or> (\<exists>r. getRoom room = Some r \<and> action \<in> set room_actions
             \<and> (\<exists>p \<in> permissions_for r (cl_Subject c) (RoomGroupIDs c). permissionAllowsAction p action))))
   \<and> \<not> AllowsRoomAction None (Some getRoom) action room options"
  using action_unknown [of action]
  by (auto simp: AllowsRoomAction_def Let_def Claims_Allows_iff RoomRecord_Allows_iff split: option.split)

text \<open>In a room record, who may write may read, for the room, its storage, its comments and its
  feeds, and the permission to write the room allows every action there is.\<close>

theorem record_write_implies_read:
  assumes "RoomRecord_Allows r subject gs w" "(w, a) \<in> set write_read_pairs \<or> w = ''room:write'' \<and> a \<in> set room_actions"
  shows "RoomRecord_Allows r subject gs a"
  using assms write_allows_read room_write_all write_actions(1)
  unfolding RoomRecord_Allows_iff by (metis insert_iff)

theorem record_write_implies_read_witness:
  "RoomRecord_Allows \<lparr>rr_ID = ''r1'', rr_Metadata = [], rr_DefaultAccesses = [PermissionStorageWrite],
     rr_UsersAccesses = fmempty, rr_GroupsAccesses = fmempty, rr_CreatedAt = zero_time, rr_UpdatedAt = zero_time\<rparr>
     ''u1'' [] ''storage:read''"
proof (rule record_write_implies_read)
  show "(''storage:write'', ''storage:read'') \<in> set write_read_pairs \<or> ''storage:write'' = ''room:write'' \<and> ''storage:read'' \<in> set room_actions"
    by (simp add: write_read_pairs_def)
qed code_simp

end
