(* ===== verification/Error_Catalog.thy ===== *)
theory Error_Catalog
  imports Go_Strings
begin

text \<open>
  The catalog of error codes with their HTTP status, websocket close code and whether a
  client may retry (\<open>internal/errors/catalog.go\<close>), and the merging of statistics
  (\<open>internal/stats/stats.go\<close>).
\<close>

datatype Code =
    CodeAuthInvalid | CodeAuthExpired | CodeRoomForbidden | CodeRoomNotFound | CodeRoomConflict
  | CodeRoomCapacity | CodeThreadNotFound | CodeThreadConflict | CodeInboxNotificationNotFound
  | CodeInboxNotificationConflict | CodeStorageNotFound | CodeStorageConflict | CodePatchFailed
  | CodeRateLimited | CodePayloadTooLarge | CodeQueueOverflow | CodeBadRequest | CodeInternal

fun code_text :: "Code \<Rightarrow> string" where
  "code_text CodeAuthInvalid = ''AUTH_INVALID''"
| "code_text CodeAuthExpired = ''AUTH_EXPIRED''"
| "code_text CodeRoomForbidden = ''ROOM_FORBIDDEN''"
| "code_text CodeRoomNotFound = ''ROOM_NOT_FOUND''"
| "code_text CodeRoomConflict = ''ROOM_CONFLICT''"
| "code_text CodeRoomCapacity = ''ROOM_CAPACITY''"
| "code_text CodeThreadNotFound = ''THREAD_NOT_FOUND''"
| "code_text CodeThreadConflict = ''THREAD_CONFLICT''"
| "code_text CodeInboxNotificationNotFound = ''INBOX_NOTIFICATION_NOT_FOUND''"
| "code_text CodeInboxNotificationConflict = ''INBOX_NOTIFICATION_CONFLICT''"
| "code_text CodeStorageNotFound = ''STORAGE_NOT_FOUND''"
| "code_text CodeStorageConflict = ''STORAGE_CONFLICT''"
| "code_text CodePatchFailed = ''PATCH_FAILED''"
| "code_text CodeRateLimited = ''RATE_LIMITED''"
| "code_text CodePayloadTooLarge = ''PAYLOAD_TOO_LARGE''"
| "code_text CodeQueueOverflow = ''QUEUE_OVERFLOW''"
| "code_text CodeBadRequest = ''BAD_REQUEST''"
| "code_text CodeInternal = ''INTERNAL''"

record Descriptor =
  ds_Code :: Code
  ds_HTTPStatus :: nat
  ds_WSCloseCode :: nat
  ds_Retryable :: bool

definition descriptor :: "Code \<Rightarrow> nat \<Rightarrow> nat \<Rightarrow> bool \<Rightarrow> Descriptor" where
  "descriptor code http ws retryable =
    \<lparr>ds_Code = code, ds_HTTPStatus = http, ds_WSCloseCode = ws, ds_Retryable = retryable\<rparr>"

text \<open>Every code has an entry, so the look-up is a total function on the codes.\<close>

fun DescriptorFor :: "Code \<Rightarrow> Descriptor" where
  "DescriptorFor CodeAuthInvalid = descriptor CodeAuthInvalid 401 4001 False"
| "DescriptorFor CodeAuthExpired = descriptor CodeAuthExpired 401 4002 True"
| "DescriptorFor CodeRoomForbidden = descriptor CodeRoomForbidden 403 4403 False"
| "DescriptorFor CodeRoomNotFound = descriptor CodeRoomNotFound 404 4404 False"
| "DescriptorFor CodeRoomConflict = descriptor CodeRoomConflict 409 4411 False"
| "DescriptorFor CodeRoomCapacity = descriptor CodeRoomCapacity 429 4429 True"
| "DescriptorFor CodeThreadNotFound = descriptor CodeThreadNotFound 404 4414 False"
| "DescriptorFor CodeThreadConflict = descriptor CodeThreadConflict 409 4415 False"
| "DescriptorFor CodeInboxNotificationNotFound = descriptor CodeInboxNotificationNotFound 404 4416 False"
| "DescriptorFor CodeInboxNotificationConflict = descriptor CodeInboxNotificationConflict 409 4417 False"
| "DescriptorFor CodeStorageNotFound = descriptor CodeStorageNotFound 404 4412 False"
| "DescriptorFor CodeStorageConflict = descriptor CodeStorageConflict 409 4418 False"
| "DescriptorFor CodePatchFailed = descriptor CodePatchFailed 422 4413 False"
| "DescriptorFor CodeRateLimited = descriptor CodeRateLimited 429 4408 True"
| "DescriptorFor CodePayloadTooLarge = descriptor CodePayloadTooLarge 413 4409 False"
| "DescriptorFor CodeQueueOverflow = descriptor CodeQueueOverflow 503 4410 True"
| "DescriptorFor CodeBadRequest = descriptor CodeBadRequest 400 4400 False"
| "DescriptorFor CodeInternal = descriptor CodeInternal 500 4500 True"

definition WSCloseReason :: "Code \<Rightarrow> string" where
  "WSCloseReason code =
    int_digits (int (ds_WSCloseCode (DescriptorFor code))) @ '' '' @ code_text (ds_Code (DescriptorFor code))"

definition all_codes :: "Code list" where
  "all_codes = [CodeAuthInvalid, CodeAuthExpired, CodeRoomForbidden, CodeRoomNotFound,
     CodeRoomConflict, CodeRoomCapacity, CodeThreadNotFound, CodeThreadConflict,
     CodeInboxNotificationNotFound, CodeInboxNotificationConflict, CodeStorageNotFound,
     CodeStorageConflict, CodePatchFailed, CodeRateLimited, CodePayloadTooLarge,
     CodeQueueOverflow, CodeBadRequest, CodeInternal]"

lemma all_codes_complete: "code \<in> set all_codes"
  by (cases code) (simp_all add: all_codes_def)

lemma DescriptorFor_code: "ds_Code (DescriptorFor code) = code"
  by (cases code) (simp_all add: descriptor_def)

lemma close_codes_distinct: "distinct (map (\<lambda>c. ds_WSCloseCode (DescriptorFor c)) all_codes)"
  by (simp add: all_codes_def descriptor_def)

lemma code_texts_distinct: "distinct (map code_text all_codes)"
  by code_simp

lemma distinct_map_inj:
  "distinct (map f xs) \<Longrightarrow> x \<in> set xs \<Longrightarrow> y \<in> set xs \<Longrightarrow> f x = f y \<Longrightarrow> x = y"
  by (auto simp: distinct_map dest: inj_onD)

lemma close_code_inj: "ds_WSCloseCode (DescriptorFor c) = ds_WSCloseCode (DescriptorFor d) \<Longrightarrow> c = d"
  by (rule distinct_map_inj [OF close_codes_distinct]) (auto simp: all_codes_complete)

lemma code_text_inj: "code_text c = code_text d \<Longrightarrow> c = d"
  by (rule distinct_map_inj [OF code_texts_distinct]) (auto simp: all_codes_complete)

subsection \<open>Statistics\<close>

record Stats =
  st_ActiveConnections :: u64
  st_ActiveRooms :: u64
  st_JoinsTotal :: u64
  st_LeavesTotal :: u64
  st_EventsTotal :: u64
  st_PresenceUpdatesTotal :: u64
  st_QueueOverflowsTotal :: u64
  st_AdminPublishesTotal :: u64

definition Merge :: "Stats \<Rightarrow> Stats \<Rightarrow> Stats" where
  "Merge s other =
    \<lparr>st_ActiveConnections = st_ActiveConnections s + st_ActiveConnections other,
     st_ActiveRooms = st_ActiveRooms s + st_ActiveRooms other,
     st_JoinsTotal = st_JoinsTotal s + st_JoinsTotal other,
     st_LeavesTotal = st_LeavesTotal s + st_LeavesTotal other,
     st_EventsTotal = st_EventsTotal s + st_EventsTotal other,
     st_PresenceUpdatesTotal = st_PresenceUpdatesTotal s + st_PresenceUpdatesTotal other,
     st_QueueOverflowsTotal = st_QueueOverflowsTotal s + st_QueueOverflowsTotal other,
     st_AdminPublishesTotal = st_AdminPublishesTotal s + st_AdminPublishesTotal other\<rparr>"

definition no_stats :: Stats where
  "no_stats = \<lparr>st_ActiveConnections = 0, st_ActiveRooms = 0, st_JoinsTotal = 0, st_LeavesTotal = 0,
     st_EventsTotal = 0, st_PresenceUpdatesTotal = 0, st_QueueOverflowsTotal = 0,
     st_AdminPublishesTotal = 0\<rparr>"

lemma Merge_assoc: "Merge (Merge a b) c = Merge a (Merge b c)"
  by (simp add: Merge_def ac_simps)

lemma Merge_commute: "Merge a b = Merge b a"
  by (simp add: Merge_def ac_simps)

lemma Merge_zero: "Merge no_stats a = a"
  by (simp add: Merge_def no_stats_def)

end
