(* ===== verification/Protocol_Parse.thy ===== *)
theory Protocol_Parse
  imports Error_Catalog Go_Json_Struct
begin

text \<open>
  The parser of the client's messages (\<open>ParseClientMessage\<close> in
  \<open>internal/protocol/messages.go\<close>): the size limits, the strict envelope, the checks on
  identifiers and the metadata of each message type. A nil payload or metadata is [].
\<close>

definition MaxPayloadBytesDefault :: int where "MaxPayloadBytesDefault = 16 * 1024"
definition MaxEnvelopeBytesDefault :: int where "MaxEnvelopeBytesDefault = 20 * 1024"
definition MaxMessageIDBytes :: int where "MaxMessageIDBytes = 128"
definition MaxRoomNameBytes :: int where "MaxRoomNameBytes = 256"
definition MaxEventNameBytes :: int where "MaxEventNameBytes = 128"
definition MaxConnectionIDBytes :: int where "MaxConnectionIDBytes = 128"

definition TypeJoin :: string where "TypeJoin = ''JOIN''"
definition TypeLeave :: string where "TypeLeave = ''LEAVE''"
definition TypeEmit :: string where "TypeEmit = ''EMIT''"
definition TypeEventAck :: string where "TypeEventAck = ''EVENT_ACK''"
definition TypePresenceSet :: string where "TypePresenceSet = ''PRESENCE_SET''"
definition TypeStorageGet :: string where "TypeStorageGet = ''STORAGE_GET''"
definition TypeStorageSet :: string where "TypeStorageSet = ''STORAGE_SET''"
definition TypeStoragePatch :: string where "TypeStoragePatch = ''STORAGE_PATCH''"

definition message_types :: "string list" where
  "message_types = [TypeJoin, TypeLeave, TypeEmit, TypeEventAck, TypePresenceSet, TypeStorageGet,
     TypeStorageSet, TypeStoragePatch]"

lemmas type_names = TypeJoin_def TypeLeave_def TypeEmit_def TypeEventAck_def TypePresenceSet_def
  TypeStorageGet_def TypeStorageSet_def TypeStoragePatch_def

record JoinMeta =
  jm_Limit :: int
  jm_Cursor :: string
  jm_AfterSequence :: u64

record EmitMeta =
  em_TraceID :: string

record EventAckMeta =
  am_Sequence :: u64

record StorageMeta =
  stm_OpID :: string
  stm_ExpectedSequence :: u64
  stm_ExpectedSequenceSet :: bool

record Message =
  mg_Type :: string
  mg_ID :: string
  mg_Room :: string
  mg_Event :: string
  mg_Payload :: bytes
  mg_JoinMeta :: "JoinMeta option"
  mg_EmitMeta :: "EmitMeta option"
  mg_EventAckMeta :: "EventAckMeta option"
  mg_StorageMeta :: "StorageMeta option"

definition no_message :: Message where
  "no_message = \<lparr>mg_Type = [], mg_ID = [], mg_Room = [], mg_Event = [], mg_Payload = [],
     mg_JoinMeta = None, mg_EmitMeta = None, mg_EventAckMeta = None, mg_StorageMeta = None\<rparr>"

record ParseOptions =
  pao_MaxEnvelopeBytes :: int
  pao_MaxPayloadBytes :: int
  pao_TenantPrefix :: string

record ParseError =
  pse_Code :: Code
  pse_Message :: string

type_synonym 'a parsed = "ParseError + 'a"

abbreviation bad_request :: "string \<Rightarrow> 'a parsed" where
  "bad_request msg \<equiv> Inl \<lparr>pse_Code = CodeBadRequest, pse_Message = msg\<rparr>"

definition andThen :: "'a parsed \<Rightarrow> ('a \<Rightarrow> 'b parsed) \<Rightarrow> 'b parsed" where
  "andThen r f = (case r of Inl err \<Rightarrow> Inl err | Inr v \<Rightarrow> f v)"

lemma andThen_Inr: "andThen r f = Inr v \<longleftrightarrow> (\<exists>u. r = Inr u \<and> f u = Inr v)"
  by (cases r) (auto simp: andThen_def)

subsection \<open>Identifiers\<close>

text \<open>
  The code looks at runes. A byte beyond ASCII belongs to a rune that is none of the allowed
  ones, so looking at bytes decides the same.
\<close>

definition safe_char :: "char \<Rightarrow> bool" where
  "safe_char c \<longleftrightarrow> in_range 0x61 0x7A c \<or> in_range 0x41 0x5A c \<or> in_range 0x30 0x39 c
     \<or> c \<in> set ''-_.:@''"

definition isSafeIdentifier :: "string \<Rightarrow> bool" where
  "isSafeIdentifier s = list_all safe_char s"

definition ValidateMessageID :: "string \<Rightarrow> unit parsed" where
  "ValidateMessageID i =
    (if i = [] then bad_request ''Message id `id` is required''
     else if len i > MaxMessageIDBytes \<or> \<not> isSafeIdentifier i
       then bad_request ''Message id must be 1-128 safe ASCII characters''
     else Inr ())"

definition ValidateRoomName :: "string \<Rightarrow> unit parsed" where
  "ValidateRoomName room =
    (if room = [] then bad_request ''Room is required''
     else if len room > MaxRoomNameBytes \<or> \<not> isSafeIdentifier room
       then bad_request ''Room must be 1-256 safe ASCII characters''
     else Inr ())"

definition ValidateRoomPrefix :: "string \<Rightarrow> unit parsed" where
  "ValidateRoomPrefix pre =
    (if len pre > MaxRoomNameBytes \<or> \<not> isSafeIdentifier pre
     then bad_request ''Room prefix must be at most 256 safe ASCII characters''
     else Inr ())"

definition ValidateEventName :: "string \<Rightarrow> unit parsed" where
  "ValidateEventName event =
    (if event = [] then bad_request ''Event is required''
     else if len event > MaxEventNameBytes \<or> \<not> isSafeIdentifier event
       then bad_request ''Event must be 1-128 safe ASCII characters''
     else Inr ())"

definition ValidateConnectionID :: "string \<Rightarrow> unit parsed" where
  "ValidateConnectionID connID =
    (if connID = [] then bad_request ''Connection id is required''
     else if len connID > MaxConnectionIDBytes \<or> \<not> isSafeIdentifier connID
       then bad_request ''Connection id must be 1-128 safe ASCII characters''
     else Inr ())"

subsection \<open>Fields\<close>

definition readRequiredString :: "(string, string) fmap \<Rightarrow> string \<Rightarrow> string \<Rightarrow> string parsed" where
  "readRequiredString envelope key failure =
    (let raw = gm_bytes envelope key in
     if raw = [] then bad_request failure
     else case assign [] (unmarshal_string raw) of
            None \<Rightarrow> bad_request failure
          | Some val \<Rightarrow> if val = [] then bad_request failure else Inr val)"

definition only_keys :: "string list \<Rightarrow> (string, string) fmap \<Rightarrow> bool" where
  "only_keys ks m \<longleftrightarrow> list_all (\<lambda>k. k \<in> set ks) (sorted_ids (fmdom m))"

definition read_meta :: "string \<Rightarrow> string list \<Rightarrow> string \<Rightarrow> (string, string) fmap parsed" where
  "read_meta meta ks failure =
    (case unmarshal_raw_map meta of
       None \<Rightarrow> bad_request ''Meta must be an object when present''
     | Some m \<Rightarrow> if only_keys ks m then Inr m else bad_request failure)"

text \<open>An optional member: absent keeps the default; present it has to decode and be accepted.\<close>

definition opt_member ::
  "(string, string) fmap \<Rightarrow> string \<Rightarrow> 'a \<Rightarrow> (string \<Rightarrow> 'a option option) \<Rightarrow> ('a \<Rightarrow> bool) \<Rightarrow> string
     \<Rightarrow> 'a parsed" where
  "opt_member m key dflt decode accept failure =
    (case fmlookup m key of
       None \<Rightarrow> Inr dflt
     | Some raw \<Rightarrow>
         (case assign dflt (decode raw) of
            None \<Rightarrow> bad_request failure
          | Some v \<Rightarrow> if accept v then Inr v else bad_request failure))"

subsection \<open>The metadata and payload of each type\<close>

definition parse_join :: "string \<Rightarrow> Message \<Rightarrow> Message parsed" where
  "parse_join meta message =
    (if meta = [] then Inr message
     else andThen (read_meta meta [''limit'', ''cursor'', ''after_seq'']
                     ''JOIN meta includes unsupported fields'') (\<lambda>joinMeta.
       andThen (opt_member joinMeta ''limit'' 0 unmarshal_int (\<lambda>n. 1 \<le> n \<and> n \<le> 200)
                  ''JOIN meta.limit must be an integer between 1 and 200'') (\<lambda>limit.
       andThen (opt_member joinMeta ''cursor'' [] unmarshal_string (\<lambda>s. s \<noteq> [])
                  ''JOIN meta.cursor must be a non-empty string'') (\<lambda>cursor.
       andThen (opt_member joinMeta ''after_seq'' 0 unmarshal_uint (\<lambda>_. True)
                  ''JOIN meta.after_seq must be an integer greater than or equal to 0'') (\<lambda>after.
       Inr (message\<lparr>mg_JoinMeta :=
         Some \<lparr>jm_Limit = limit, jm_Cursor = cursor, jm_AfterSequence = after\<rparr>\<rparr>))))))"

definition parse_emit :: "(string, string) fmap \<Rightarrow> string \<Rightarrow> Message \<Rightarrow> Message parsed" where
  "parse_emit envelope meta message =
    andThen (readRequiredString envelope ''event'' ''EMIT requires `event`'') (\<lambda>event.
    andThen (ValidateEventName event) (\<lambda>_.
    (let message = message\<lparr>mg_Event := event\<rparr> in
     if mg_Payload message = [] then bad_request ''EMIT requires `payload`''
     else if meta = [] then Inr message
     else andThen (read_meta meta [''trace_id''] ''EMIT meta includes unsupported fields'') (\<lambda>emitMeta.
       andThen (opt_member emitMeta ''trace_id'' [] unmarshal_string (\<lambda>s. s \<noteq> [])
                  ''EMIT meta.trace_id must be a non-empty string'') (\<lambda>trace.
       Inr (message\<lparr>mg_EmitMeta := Some \<lparr>em_TraceID = trace\<rparr>\<rparr>))))))"

definition parse_event_ack :: "string \<Rightarrow> Message \<Rightarrow> Message parsed" where
  "parse_event_ack meta message =
    (if mg_Payload message \<noteq> [] then bad_request ''EVENT_ACK does not accept payload''
     else if meta = [] then bad_request ''EVENT_ACK requires meta.seq''
     else andThen (read_meta meta [''seq''] ''EVENT_ACK meta includes unsupported fields'') (\<lambda>ackMeta.
       case fmlookup ackMeta ''seq'' of
         None \<Rightarrow> bad_request ''EVENT_ACK requires meta.seq''
       | Some sequenceRaw \<Rightarrow>
           (case assign 0 (unmarshal_uint sequenceRaw) of
              None \<Rightarrow> bad_request ''EVENT_ACK meta.seq must be an integer greater than or equal to 1''
            | Some sequence \<Rightarrow>
                if sequence = 0
                then bad_request ''EVENT_ACK meta.seq must be an integer greater than or equal to 1''
                else Inr (message\<lparr>mg_EventAckMeta := Some \<lparr>am_Sequence = sequence\<rparr>\<rparr>))))"

definition parse_presence_set :: "Message \<Rightarrow> Message parsed" where
  "parse_presence_set message =
    (if mg_Payload message = [] \<or> \<not> json_valid (mg_Payload message)
        \<or> hd (mg_Payload message) \<noteq> CHR ''{''
     then bad_request ''PRESENCE_SET requires object payload'' else Inr message)"

definition parse_storage_get :: "string \<Rightarrow> Message \<Rightarrow> Message parsed" where
  "parse_storage_get meta message =
    (if mg_Payload message \<noteq> [] then bad_request ''STORAGE_GET does not accept payload''
     else if meta \<noteq> [] then bad_request ''STORAGE_GET does not accept meta''
     else Inr message)"

definition starts_with :: "char \<Rightarrow> string \<Rightarrow> bool" where
  "starts_with c s \<longleftrightarrow> s \<noteq> [] \<and> hd s = c"

definition parse_storage_meta :: "string \<Rightarrow> string \<Rightarrow> StorageMeta parsed" where
  "parse_storage_meta kind meta =
    andThen (read_meta meta [''op_id'', ''expected_seq''] (kind @ '' meta includes unsupported fields''))
      (\<lambda>storageMeta.
    andThen (opt_member storageMeta ''op_id'' [] unmarshal_string (\<lambda>s. s \<noteq> [])
               (kind @ '' meta.op_id must be a non-empty string'')) (\<lambda>opID.
    andThen (if fmlookup storageMeta ''op_id'' = None then Inr () else ValidateMessageID opID) (\<lambda>_.
    andThen (opt_member storageMeta ''expected_seq'' 0 unmarshal_uint (\<lambda>_. True)
               (kind @ '' meta.expected_seq must be an integer greater than or equal to 0'')) (\<lambda>expected.
    Inr \<lparr>stm_OpID = opID, stm_ExpectedSequence = expected,
         stm_ExpectedSequenceSet = (fmlookup storageMeta ''expected_seq'' \<noteq> None)\<rparr>))))"

definition parse_storage_write :: "string \<Rightarrow> Message \<Rightarrow> Message parsed" where
  "parse_storage_write meta message =
    (let kind = mg_Type message; trimmedPayload = trim_space (mg_Payload message) in
     if mg_Payload message = [] \<or> \<not> json_valid (mg_Payload message)
       then bad_request (kind @ '' requires JSON payload'')
     else if kind = TypeStorageSet \<and> \<not> starts_with (CHR ''{'') trimmedPayload
       then bad_request ''STORAGE_SET requires object payload''
     else if kind = TypeStoragePatch \<and> \<not> starts_with (CHR ''['') trimmedPayload
       then bad_request ''STORAGE_PATCH requires JSON Patch array payload''
     else if meta = [] then Inr message
     else andThen (parse_storage_meta kind meta) (\<lambda>parsed.
       Inr (message\<lparr>mg_StorageMeta := Some parsed\<rparr>)))"

definition parse_by_type :: "(string, string) fmap \<Rightarrow> Message \<Rightarrow> Message parsed" where
  "parse_by_type envelope message =
    (let meta = gm_bytes envelope ''meta''; kind = mg_Type message in
     if kind = TypeJoin then parse_join meta message
     else if kind = TypeLeave then Inr message
     else if kind = TypeEmit then parse_emit envelope meta message
     else if kind = TypeEventAck then parse_event_ack meta message
     else if kind = TypePresenceSet then parse_presence_set message
     else if kind = TypeStorageGet then parse_storage_get meta message
     else parse_storage_write meta message)"

subsection \<open>The envelope\<close>

definition parse_room :: "(string, string) fmap \<Rightarrow> ParseOptions \<Rightarrow> string parsed" where
  "parse_room envelope options =
    andThen (readRequiredString envelope ''room'' ''Room is required for this message type'') (\<lambda>room.
    andThen (ValidateRoomName room) (\<lambda>_.
    if pao_TenantPrefix options \<noteq> [] \<and> \<not> prefix (pao_TenantPrefix options) room
    then Inl \<lparr>pse_Code = CodeRoomForbidden, pse_Message = ''Room is outside the allowed tenant prefix''\<rparr>
    else Inr room))"

definition parse_payload :: "(string, string) fmap \<Rightarrow> int \<Rightarrow> bytes parsed" where
  "parse_payload envelope maxPayload =
    (let payload = gm_bytes envelope ''payload'' in
     if len payload > maxPayload \<and> payload \<noteq> []
     then Inl \<lparr>pse_Code = CodePayloadTooLarge, pse_Message = ''Payload exceeds max size''\<rparr>
     else Inr payload)"

definition ParseClientMessage :: "bytes \<Rightarrow> ParseOptions \<Rightarrow> Message parsed" where
  "ParseClientMessage raw options =
    (let maxEnvelope = (if pao_MaxEnvelopeBytes options = 0 then MaxEnvelopeBytesDefault
                        else pao_MaxEnvelopeBytes options);
         maxPayload = (if pao_MaxPayloadBytes options = 0 then MaxPayloadBytesDefault
                       else pao_MaxPayloadBytes options)
     in if len raw > maxEnvelope
        then Inl \<lparr>pse_Code = CodePayloadTooLarge, pse_Message = ''Envelope exceeds max size''\<rparr>
        else case unmarshal_raw_map raw of
               None \<Rightarrow> bad_request ''Message must be valid JSON''
             | Some envelope \<Rightarrow>
                 if \<not> only_keys [''t'', ''id'', ''room'', ''event'', ''payload'', ''meta''] envelope
                 then bad_request ''Envelope includes unsupported fields''
                 else andThen (readRequiredString envelope ''t'' ''Message type `t` is required'') (\<lambda>t.
                   andThen (readRequiredString envelope ''id'' ''Message id `id` is required'') (\<lambda>i.
                   andThen (ValidateMessageID i) (\<lambda>_.
                   if t \<notin> set message_types then bad_request (''Unsupported message type: '' @ t)
                   else andThen (parse_room envelope options) (\<lambda>room.
                     andThen (parse_payload envelope maxPayload) (\<lambda>payload.
                     parse_by_type envelope
                       (no_message\<lparr>mg_Type := t, mg_ID := i, mg_Room := room, mg_Payload := payload\<rparr>)))))))"

end
