(* ===== verification/Protocol_Properties.thy ===== *)
theory Protocol_Properties
  imports Protocol_Parse
begin

text \<open>
  What a message that the parser accepts is known to satisfy, and the codes of its errors.
\<close>

subsection \<open>Accepted messages\<close>

definition accepted_meta :: "Message \<Rightarrow> bool" where
  "accepted_meta m \<longleftrightarrow>
     (\<forall>j. mg_JoinMeta m = Some j \<longrightarrow> mg_Type m = TypeJoin \<and> jm_Limit j \<in> {0..200})
   \<and> (\<forall>x. mg_EmitMeta m = Some x \<longrightarrow> mg_Type m = TypeEmit)
   \<and> (\<forall>a. mg_EventAckMeta m = Some a \<longrightarrow> mg_Type m = TypeEventAck \<and> am_Sequence a \<noteq> 0)
   \<and> (\<forall>s. mg_StorageMeta m = Some s \<longrightarrow> mg_Type m \<in> {TypeStorageSet, TypeStoragePatch}
        \<and> (stm_OpID s \<noteq> [] \<longrightarrow> ValidateMessageID (stm_OpID s) = Inr ())
        \<and> (\<not> stm_ExpectedSequenceSet s \<longrightarrow> stm_ExpectedSequence s = 0))"

definition accepted_payload :: "Message \<Rightarrow> bool" where
  "accepted_payload m \<longleftrightarrow>
     (mg_Type m = TypeEmit \<longrightarrow> mg_Payload m \<noteq> [] \<and> ValidateEventName (mg_Event m) = Inr ())
   \<and> (mg_Type m \<noteq> TypeEmit \<longrightarrow> mg_Event m = [])
   \<and> (mg_Type m = TypeEventAck \<longrightarrow> mg_Payload m = [] \<and> mg_EventAckMeta m \<noteq> None)
   \<and> (mg_Type m = TypeStorageGet \<longrightarrow> mg_Payload m = [])
   \<and> (mg_Type m = TypePresenceSet \<longrightarrow> json_valid (mg_Payload m) \<and> starts_with (CHR ''{'') (mg_Payload m))
   \<and> (mg_Type m = TypeStorageSet \<longrightarrow>
        json_valid (mg_Payload m) \<and> starts_with (CHR ''{'') (trim_space (mg_Payload m)))
   \<and> (mg_Type m = TypeStoragePatch \<longrightarrow>
        json_valid (mg_Payload m) \<and> starts_with (CHR ''['') (trim_space (mg_Payload m)))"

text \<open>A message before its type is looked at.\<close>

definition bare :: "Message \<Rightarrow> bool" where
  "bare m \<longleftrightarrow> mg_Type m \<in> set message_types \<and> mg_Event m = [] \<and> mg_JoinMeta m = None \<and> mg_EmitMeta m = None
     \<and> mg_EventAckMeta m = None \<and> mg_StorageMeta m = None"

definition same_head :: "Message \<Rightarrow> Message \<Rightarrow> bool" where
  "same_head m m' \<longleftrightarrow> mg_Type m' = mg_Type m \<and> mg_ID m' = mg_ID m \<and> mg_Room m' = mg_Room m
     \<and> mg_Payload m' = mg_Payload m"

lemma type_neq:
  "TypeJoin \<noteq> TypeLeave" "TypeJoin \<noteq> TypeEmit" "TypeJoin \<noteq> TypeEventAck"
  "TypeJoin \<noteq> TypePresenceSet" "TypeJoin \<noteq> TypeStorageGet" "TypeJoin \<noteq> TypeStorageSet"
  "TypeJoin \<noteq> TypeStoragePatch" "TypeLeave \<noteq> TypeJoin" "TypeLeave \<noteq> TypeEmit"
  "TypeLeave \<noteq> TypeEventAck" "TypeLeave \<noteq> TypePresenceSet" "TypeLeave \<noteq> TypeStorageGet"
  "TypeLeave \<noteq> TypeStorageSet" "TypeLeave \<noteq> TypeStoragePatch" "TypeEmit \<noteq> TypeJoin"
  "TypeEmit \<noteq> TypeLeave" "TypeEmit \<noteq> TypeEventAck" "TypeEmit \<noteq> TypePresenceSet"
  "TypeEmit \<noteq> TypeStorageGet" "TypeEmit \<noteq> TypeStorageSet" "TypeEmit \<noteq> TypeStoragePatch"
  "TypeEventAck \<noteq> TypeJoin" "TypeEventAck \<noteq> TypeLeave" "TypeEventAck \<noteq> TypeEmit"
  "TypeEventAck \<noteq> TypePresenceSet" "TypeEventAck \<noteq> TypeStorageGet" "TypeEventAck \<noteq> TypeStorageSet"
  "TypeEventAck \<noteq> TypeStoragePatch" "TypePresenceSet \<noteq> TypeJoin" "TypePresenceSet \<noteq> TypeLeave"
  "TypePresenceSet \<noteq> TypeEmit" "TypePresenceSet \<noteq> TypeEventAck" "TypePresenceSet \<noteq> TypeStorageGet"
  "TypePresenceSet \<noteq> TypeStorageSet" "TypePresenceSet \<noteq> TypeStoragePatch" "TypeStorageGet \<noteq> TypeJoin"
  "TypeStorageGet \<noteq> TypeLeave" "TypeStorageGet \<noteq> TypeEmit" "TypeStorageGet \<noteq> TypeEventAck"
  "TypeStorageGet \<noteq> TypePresenceSet" "TypeStorageGet \<noteq> TypeStorageSet" "TypeStorageGet \<noteq> TypeStoragePatch"
  "TypeStorageSet \<noteq> TypeJoin" "TypeStorageSet \<noteq> TypeLeave" "TypeStorageSet \<noteq> TypeEmit"
  "TypeStorageSet \<noteq> TypeEventAck" "TypeStorageSet \<noteq> TypePresenceSet" "TypeStorageSet \<noteq> TypeStorageGet"
  "TypeStorageSet \<noteq> TypeStoragePatch" "TypeStoragePatch \<noteq> TypeJoin" "TypeStoragePatch \<noteq> TypeLeave"
  "TypeStoragePatch \<noteq> TypeEmit" "TypeStoragePatch \<noteq> TypeEventAck" "TypeStoragePatch \<noteq> TypePresenceSet"
  "TypeStoragePatch \<noteq> TypeStorageGet" "TypeStoragePatch \<noteq> TypeStorageSet"
  by (simp_all add: type_names)

lemma opt_member_accept: "opt_member m key dflt decode accept failure = Inr v \<Longrightarrow> v = dflt \<or> accept v"
  by (auto simp: opt_member_def split: option.split_asm if_split_asm)

lemma opt_member_default: "opt_member m key dflt decode accept failure = Inr v \<Longrightarrow> fmlookup m key = None \<Longrightarrow> v = dflt"
  by (simp add: opt_member_def)

lemmas accept_defs = accepted_meta_def accepted_payload_def bare_def same_head_def type_neq

lemma join_shape:
  "parse_join meta m = Inr m' \<Longrightarrow> m' = m \<or> (\<exists>j. m' = m\<lparr>mg_JoinMeta := Some j\<rparr> \<and> jm_Limit j \<in> {0..200})"
  unfolding parse_join_def
  by (auto simp: andThen_Inr split: if_split_asm dest!: opt_member_accept)

lemma emit_shape:
  "parse_emit envelope meta m = Inr m' \<Longrightarrow> mg_Payload m \<noteq> []
     \<and> (\<exists>event. ValidateEventName event = Inr ()
          \<and> (m' = m\<lparr>mg_Event := event\<rparr> \<or> (\<exists>x. m' = m\<lparr>mg_Event := event, mg_EmitMeta := Some x\<rparr>)))"
  unfolding parse_emit_def Let_def
  by (fastforce simp: andThen_Inr split: if_split_asm)

lemma event_ack_shape:
  "parse_event_ack meta m = Inr m' \<Longrightarrow> mg_Payload m = []
     \<and> (\<exists>a. m' = m\<lparr>mg_EventAckMeta := Some a\<rparr> \<and> am_Sequence a \<noteq> 0)"
  unfolding parse_event_ack_def
  by (clarsimp simp: andThen_Inr split: if_split_asm) (auto split: option.split_asm if_split_asm)

lemma storage_meta_shape:
  assumes "parse_storage_meta kind meta = Inr s"
  shows "(stm_OpID s \<noteq> [] \<longrightarrow> ValidateMessageID (stm_OpID s) = Inr ())
    \<and> (\<not> stm_ExpectedSequenceSet s \<longrightarrow> stm_ExpectedSequence s = 0)"
  using assms
  by (auto simp: parse_storage_meta_def andThen_Inr dest: opt_member_default split: if_split_asm)

lemma storage_write_shape:
  "parse_storage_write meta m = Inr m' \<Longrightarrow> json_valid (mg_Payload m)
     \<and> (mg_Type m = TypeStorageSet \<longrightarrow> starts_with (CHR ''{'') (trim_space (mg_Payload m)))
     \<and> (mg_Type m = TypeStoragePatch \<longrightarrow> starts_with (CHR ''['') (trim_space (mg_Payload m)))
     \<and> (m' = m \<or> (\<exists>s. m' = m\<lparr>mg_StorageMeta := Some s\<rparr>
          \<and> (stm_OpID s \<noteq> [] \<longrightarrow> ValidateMessageID (stm_OpID s) = Inr ())
          \<and> (\<not> stm_ExpectedSequenceSet s \<longrightarrow> stm_ExpectedSequence s = 0)))"
  unfolding parse_storage_write_def Let_def
  by (auto simp: andThen_Inr storage_meta_shape split: if_split_asm)

lemma accept_join:
  "parse_join meta m = Inr m' \<Longrightarrow> bare m \<Longrightarrow> mg_Type m = TypeJoin \<Longrightarrow>
     accepted_meta m' \<and> accepted_payload m' \<and> same_head m m'"
  by (drule join_shape) (elim conjE exE disjE; simp add: accept_defs)

lemma accept_emit:
  "parse_emit envelope meta m = Inr m' \<Longrightarrow> bare m \<Longrightarrow> mg_Type m = TypeEmit \<Longrightarrow>
     accepted_meta m' \<and> accepted_payload m' \<and> same_head m m'"
  by (drule emit_shape) (elim conjE exE disjE; simp add: accept_defs)

lemma accept_event_ack:
  "parse_event_ack meta m = Inr m' \<Longrightarrow> bare m \<Longrightarrow> mg_Type m = TypeEventAck \<Longrightarrow>
     accepted_meta m' \<and> accepted_payload m' \<and> same_head m m'"
  by (drule event_ack_shape) (elim conjE exE disjE; simp add: accept_defs)

lemma accept_storage_write:
  "parse_storage_write meta m = Inr m' \<Longrightarrow> bare m \<Longrightarrow> mg_Type m \<in> {TypeStorageSet, TypeStoragePatch} \<Longrightarrow>
     accepted_meta m' \<and> accepted_payload m' \<and> same_head m m'"
  by (drule storage_write_shape) (elim conjE exE disjE insertE emptyE; simp add: accept_defs)

lemma accept_rest:
  assumes "bare m"
  shows "mg_Type m = TypeLeave \<Longrightarrow> accepted_meta m \<and> accepted_payload m \<and> same_head m m"
    and "mg_Type m = TypePresenceSet \<Longrightarrow> parse_presence_set m = Inr m' \<Longrightarrow>
      accepted_meta m' \<and> accepted_payload m' \<and> same_head m m'"
    and "mg_Type m = TypeStorageGet \<Longrightarrow> parse_storage_get meta m = Inr m' \<Longrightarrow>
      accepted_meta m' \<and> accepted_payload m' \<and> same_head m m'"
  using assms
  by (auto simp: parse_presence_set_def parse_storage_get_def accept_defs starts_with_def split: if_split_asm)

lemma accept_by_type:
  assumes "parse_by_type envelope m = Inr m'" "bare m"
  shows "accepted_meta m' \<and> accepted_payload m' \<and> same_head m m'"
proof -
  note step = assms(1) [unfolded parse_by_type_def Let_def]
  have "mg_Type m \<in> set message_types" using assms(2) by (simp add: bare_def)
  then consider (join) "mg_Type m = TypeJoin" | (leave) "mg_Type m = TypeLeave" | (emit) "mg_Type m = TypeEmit"
    | (ack) "mg_Type m = TypeEventAck" | (presence) "mg_Type m = TypePresenceSet"
    | (get) "mg_Type m = TypeStorageGet" | (set) "mg_Type m = TypeStorageSet"
    | (patch) "mg_Type m = TypeStoragePatch"
    by (auto simp: message_types_def)
  then show ?thesis
  proof cases
    case join
    with step show ?thesis by (intro accept_join [OF _ assms(2)]) simp_all
  next
    case leave
    with step accept_rest(1) [OF assms(2)] show ?thesis by (simp add: type_neq)
  next
    case emit
    with step show ?thesis by (intro accept_emit [OF _ assms(2)]) (simp_all add: type_neq)
  next
    case ack
    with step show ?thesis by (intro accept_event_ack [OF _ assms(2)]) (simp_all add: type_neq)
  next
    case presence
    with step show ?thesis by (intro accept_rest(2) [OF assms(2)]) (simp_all add: type_neq)
  next
    case get
    with step show ?thesis by (intro accept_rest(3) [OF assms(2)]) (simp_all add: type_neq)
  next
    case set
    with step show ?thesis by (intro accept_storage_write [OF _ assms(2)]) (simp_all add: type_neq)
  next
    case patch
    with step show ?thesis by (intro accept_storage_write [OF _ assms(2)]) (simp_all add: type_neq)
  qed
qed

lemma parsed_parts:
  assumes "ParseClientMessage raw options = Inr m"
  obtains envelope t i room payload where
    "\<not> len raw > (if pao_MaxEnvelopeBytes options = 0 then MaxEnvelopeBytesDefault
                      else pao_MaxEnvelopeBytes options)"
    "ValidateMessageID i = Inr ()" "t \<in> set message_types"
    "parse_room envelope options = Inr room"
    "parse_payload envelope (if pao_MaxPayloadBytes options = 0 then MaxPayloadBytesDefault
          else pao_MaxPayloadBytes options) = Inr payload"
    "parse_by_type envelope
          (no_message\<lparr>mg_Type := t, mg_ID := i, mg_Room := room, mg_Payload := payload\<rparr>) = Inr m"
  using assms unfolding ParseClientMessage_def Let_def
  by (auto simp: andThen_Inr split: if_split_asm option.split_asm)

lemma parsed_head:
  assumes "ParseClientMessage raw options = Inr m"
  shows "prefix (pao_TenantPrefix options) (mg_Room m)" "mg_Type m \<in> set message_types" "mg_Room m \<noteq> []"
proof -
  from assms obtain envelope t i room payload where
    ok: "t \<in> set message_types" and room: "parse_room envelope options = Inr room"
    and type: "parse_by_type envelope
          (no_message\<lparr>mg_Type := t, mg_ID := i, mg_Room := room, mg_Payload := payload\<rparr>) = Inr m"
    by (rule parsed_parts)
  have "bare (no_message\<lparr>mg_Type := t, mg_ID := i, mg_Room := room, mg_Payload := payload\<rparr>)"
    using ok by (simp add: bare_def no_message_def)
  with type have "mg_Room m = room" "mg_Type m = t" by (auto dest: accept_by_type simp: same_head_def)
  with room ok show "prefix (pao_TenantPrefix options) (mg_Room m)" "mg_Type m \<in> set message_types" "mg_Room m \<noteq> []"
    by (auto simp: parse_room_def andThen_Inr ValidateRoomName_def split: if_split_asm)
qed

text \<open>C25. A message that the parser accepts came in an envelope within its limit and has a known type,
  a safe id and room name of bounded length, a room inside the tenant prefix, and a payload
  within its limit; its payload, event and metadata are the ones that its type demands and
  no others, with a page size of at most 200 and an acknowledged sequence that is not zero.\<close>

theorem accepted_messages:
  assumes "ParseClientMessage raw options = Inr m"
  shows "len raw \<le> (if pao_MaxEnvelopeBytes options = 0 then MaxEnvelopeBytesDefault
                    else pao_MaxEnvelopeBytes options)
    \<and> mg_Type m \<in> set message_types
    \<and> ValidateMessageID (mg_ID m) = Inr () \<and> ValidateRoomName (mg_Room m) = Inr ()
    \<and> prefix (pao_TenantPrefix options) (mg_Room m)
    \<and> (mg_Payload m = [] \<or> len (mg_Payload m) \<le>
         (if pao_MaxPayloadBytes options = 0 then MaxPayloadBytesDefault else pao_MaxPayloadBytes options))
    \<and> accepted_payload m \<and> accepted_meta m"
proof -
  from assms obtain envelope t i room payload where
    size: "\<not> len raw > (if pao_MaxEnvelopeBytes options = 0 then MaxEnvelopeBytesDefault
                      else pao_MaxEnvelopeBytes options)"
    and ok: "ValidateMessageID i = Inr ()" "t \<in> set message_types"
    and room: "parse_room envelope options = Inr room"
    and payload: "parse_payload envelope (if pao_MaxPayloadBytes options = 0 then MaxPayloadBytesDefault
          else pao_MaxPayloadBytes options) = Inr payload"
    and type: "parse_by_type envelope
          (no_message\<lparr>mg_Type := t, mg_ID := i, mg_Room := room, mg_Payload := payload\<rparr>) = Inr m"
    by (rule parsed_parts)
  have "bare (no_message\<lparr>mg_Type := t, mg_ID := i, mg_Room := room, mg_Payload := payload\<rparr>)"
    using ok(2) by (simp add: bare_def no_message_def)
  note by_type = accept_by_type [OF type this]
  have "ValidateRoomName room = Inr ()" "prefix (pao_TenantPrefix options) room"
    using room by (auto simp: parse_room_def andThen_Inr split: if_split_asm)
  moreover have "payload = [] \<or> len payload \<le> (if pao_MaxPayloadBytes options = 0 then MaxPayloadBytesDefault
      else pao_MaxPayloadBytes options)"
    using payload by (auto simp: parse_payload_def Let_def split: if_split_asm)
  ultimately show ?thesis
    using by_type size ok by (auto simp: same_head_def)
qed

text \<open>A join message of the form a client sends.\<close>

definition join_text :: bytes where
  "join_text = object_text [(''t'', quote_text ''JOIN''), (''id'', quote_text ''m1''), (''room'', quote_text ''r:1''),
     (''meta'', object_text [(''limit'', ''50'')])]"

theorem accepted_messages_witness:
  "\<exists>m. ParseClientMessage join_text \<lparr>pao_MaxEnvelopeBytes = 0, pao_MaxPayloadBytes = 0, pao_TenantPrefix = ''r:''\<rparr> = Inr m
     \<and> prefix ''r:'' (mg_Room m)"
proof -
  let ?o = "\<lparr>pao_MaxEnvelopeBytes = 0, pao_MaxPayloadBytes = 0, pao_TenantPrefix = ''r:''\<rparr>"
  have "case ParseClientMessage join_text ?o of Inl _ \<Rightarrow> False | Inr m \<Rightarrow> True" by code_simp
  then obtain m where m: "ParseClientMessage join_text ?o = Inr m" by (auto split: sum.split_asm)
  from accepted_messages [OF m] m show ?thesis by simp
qed

text \<open>The errors are told apart by their text as well as by their close code, the HTTP status of
  an error is a client or a server error, and only errors of the server and of its limits and
  an expired token invite a retry.\<close>

theorem catalog_is_unambiguous:
  "(ds_WSCloseCode (DescriptorFor c) = ds_WSCloseCode (DescriptorFor d)) = (c = d)
    \<and> (code_text c = code_text d) = (c = d) \<and> ds_Code (DescriptorFor c) = c
    \<and> 400 \<le> ds_HTTPStatus (DescriptorFor c) \<and> ds_HTTPStatus (DescriptorFor c) < 600
    \<and> ds_Retryable (DescriptorFor c) =
        (c = CodeAuthExpired \<or> ds_HTTPStatus (DescriptorFor c) \<in> {429, 500, 503})"
proof -
  have "400 \<le> ds_HTTPStatus (DescriptorFor c) \<and> ds_HTTPStatus (DescriptorFor c) < 600
    \<and> ds_Retryable (DescriptorFor c) =
        (c = CodeAuthExpired \<or> ds_HTTPStatus (DescriptorFor c) \<in> {429, 500, 503})"
    by (cases c) (simp_all add: descriptor_def)
  then show ?thesis using close_code_inj code_text_inj DescriptorFor_code by blast
qed

end

