(* ===== verification/Go_Url.thy ===== *)
theory Go_Url
  imports Go_Json Go_Strings
begin

text \<open>
  What the code uses of \<open>strings.Cut\<close>, \<open>strings.ToLower\<close> and the \<open>net/url\<close> package:
  percent decoding, \<open>url.Parse\<close>, \<open>url.PathUnescape\<close> and the values of a query.
\<close>

subsection \<open>Cutting\<close>

text \<open>\<open>strings.Cut\<close> at a byte: what is before it and, if it occurs, what is behind it.\<close>

fun cut :: "char \<Rightarrow> string \<Rightarrow> string \<times> string option" where
  "cut d [] = ([], None)"
| "cut d (c # s) =
    (if c = d then ([], Some s) else (let (before, behind) = cut d s in (c # before, behind)))"

definition last_cut :: "char \<Rightarrow> string \<Rightarrow> string \<times> string option" where
  "last_cut d s =
    (case cut d (rev s) of
       (behind, None) \<Rightarrow> (s, None)
     | (behind, Some before) \<Rightarrow> (rev before, Some (rev behind)))"

text \<open>\<open>strings.ToLower\<close> where only ASCII letters matter.\<close>

definition to_lower :: "string \<Rightarrow> string" where
  "to_lower s = map (\<lambda>c. if in_range 0x41 0x5A c then chr (byte c + 0x20) else c) s"

lemma cut_join: "cut d s = (before, behind) \<Longrightarrow>
    d \<notin> set before \<and> s = before @ (case behind of None \<Rightarrow> [] | Some r \<Rightarrow> d # r)"
  by (induction d s arbitrary: before behind rule: cut.induct)
     (auto split: if_split_asm prod.split_asm option.splits)

lemma cut_free: "d \<notin> set p \<Longrightarrow> cut d (p @ d # r) = (p, Some r)" "d \<notin> set p \<Longrightarrow> cut d p = (p, None)"
  by (induction p) auto

subsection \<open>Percent decoding\<close>

fun pct_decode :: "bool \<Rightarrow> string \<Rightarrow> string option" where
  "pct_decode query [] = Some []"
| "pct_decode query (c # s) =
    (if c = CHR ''%'' then
       (case s of
          a # b # r \<Rightarrow>
            if is_hex a \<and> is_hex b
            then map_option (\<lambda>t. chr (16 * hex_val a + hex_val b) # t) (pct_decode query r) else None
        | _ \<Rightarrow> None)
     else map_option (\<lambda>t. (if query \<and> c = CHR ''+'' then CHR '' '' else c) # t) (pct_decode query s))"

definition PathUnescape :: "string \<Rightarrow> string option" where
  "PathUnescape s = pct_decode False s"

definition QueryUnescape :: "string \<Rightarrow> string option" where
  "QueryUnescape s = pct_decode True s"

definition unreserved :: "char \<Rightarrow> bool" where
  "unreserved c \<longleftrightarrow> in_range 0x61 0x7A c \<or> in_range 0x41 0x5A c \<or> in_range 0x30 0x39 c \<or> c \<in> set ''-_.~''"

text \<open>What stands for itself in a host (\<open>!shouldEscape (c, encodeHost)\<close>).\<close>

definition host_char :: "char \<Rightarrow> bool" where
  "host_char c \<longleftrightarrow> unreserved c \<or> c \<in> set (CHR 0x27 # CHR 0x22 # ''!$&()*+,;=:[]<>'')"

text \<open>
  A host escapes only bytes beyond ASCII and the percent sign, and has no other ASCII bytes
  than these; a zone may escape what a host may contain, and the space.
\<close>

fun host_decode :: "bool \<Rightarrow> string \<Rightarrow> string option" where
  "host_decode zone [] = Some []"
| "host_decode zone (c # s) =
    (if c = CHR ''%'' then
       (case s of
          a # b # r \<Rightarrow>
            (let v = chr (16 * hex_val a + hex_val b) in
             if \<not> (is_hex a \<and> is_hex b) then None
             else if \<not> zone \<and> hex_val a < 8 \<and> \<not> (a = CHR ''2'' \<and> b = CHR ''5'') then None
             else if zone \<and> \<not> (a = CHR ''2'' \<and> b = CHR ''5'') \<and> v \<noteq> CHR '' '' \<and> \<not> host_char v then None
             else map_option (\<lambda>t. v # t) (host_decode zone r))
        | _ \<Rightarrow> None)
     else if byte c < 0x80 \<and> \<not> host_char c then None
     else map_option (\<lambda>t. c # t) (host_decode zone s))"

subsection \<open>Parsing\<close>

record url =
  url_Scheme :: string
  url_Opaque :: string
  url_Host :: string
  url_Path :: string
  url_RawQuery :: string

definition letter :: "char \<Rightarrow> bool" where
  "letter c \<longleftrightarrow> in_range 0x61 0x7A c \<or> in_range 0x41 0x5A c"

text \<open>The scheme and the rest; None when a colon comes first.\<close>

fun scan_scheme :: "bool \<Rightarrow> string \<Rightarrow> (string \<times> string) option option" where
  "scan_scheme first [] = Some None"
| "scan_scheme first (c # s) =
    (if letter c then map_option (map_option (\<lambda>(t, r). (c # t, r))) (scan_scheme False s)
     else if in_range 0x30 0x39 c \<or> c \<in> set ''+-.'' then
       (if first then Some None else map_option (map_option (\<lambda>(t, r). (c # t, r))) (scan_scheme False s))
     else if c = CHR '':'' then (if first then None else Some (Some ([], s)))
     else Some None)"

definition getScheme :: "string \<Rightarrow> (string \<times> string) option" where
  "getScheme s =
    (case scan_scheme True s of
       None \<Rightarrow> None | Some None \<Rightarrow> Some ([], s) | Some (Some (scheme, rest)) \<Rightarrow> Some (scheme, rest))"

definition validOptionalPort :: "string \<Rightarrow> bool" where
  "validOptionalPort port =
    (case port of [] \<Rightarrow> True | c # ds \<Rightarrow> c = CHR '':'' \<and> list_all (in_range 0x30 0x39) ds)"

fun zone_split :: "string \<Rightarrow> (string \<times> string) option" where
  "zone_split [] = None"
| "zone_split (c # s) =
    (if prefix ''%25'' (c # s) then Some ([], c # s)
     else map_option (\<lambda>(before, zone). (c # before, zone)) (zone_split s))"

definition parseHost :: "string \<Rightarrow> string option" where
  "parseHost host =
    (if prefix ''['' host then
       (case last_cut (CHR '']'') host of
          (_, None) \<Rightarrow> None
        | (inside, Some colonPort) \<Rightarrow>
            if \<not> validOptionalPort colonPort then None
            else (case zone_split inside of
                    None \<Rightarrow> host_decode False host
                  | Some (before, zone) \<Rightarrow>
                      (case (host_decode False before, host_decode True zone,
                             host_decode False (CHR '']'' # colonPort)) of
                         (Some a, Some b, Some c) \<Rightarrow> Some (a @ b @ c)
                       | _ \<Rightarrow> None)))
     else
       (case last_cut (CHR '':'') host of
          (_, Some port) \<Rightarrow> if \<not> validOptionalPort (CHR '':'' # port) then None else host_decode False host
        | (_, None) \<Rightarrow> host_decode False host))"

definition valid_userinfo :: "string \<Rightarrow> bool" where
  "valid_userinfo s = list_all
    (\<lambda>c. in_range 0x61 0x7A c \<or> in_range 0x41 0x5A c \<or> in_range 0x30 0x39 c
       \<or> c \<in> set (CHR 0x27 # ''-._:~!$&()*+,;=%@'')) s"

definition parseAuthority :: "string \<Rightarrow> string option" where
  "parseAuthority authority =
    (case last_cut (CHR ''@'') authority of
       (host, None) \<Rightarrow> parseHost host
     | (userinfo, Some host) \<Rightarrow>
         (case parseHost host of
            None \<Rightarrow> None
          | Some h \<Rightarrow>
              if \<not> valid_userinfo userinfo then None
              else if pct_decode False (fst (cut (CHR '':'') userinfo)) = None
                \<or> pct_decode False (case snd (cut (CHR '':'') userinfo) of None \<Rightarrow> [] | Some p \<Rightarrow> p) = None
              then None else Some h))"

definition ctl_byte :: "char \<Rightarrow> bool" where
  "ctl_byte c \<longleftrightarrow> byte c < 0x20 \<or> byte c = 0x7F"

text \<open>A trailing question mark that is the only one is dropped, else the query is cut off.\<close>

definition cut_query :: "string \<Rightarrow> string \<times> string" where
  "cut_query rest =
    (case cut (CHR ''?'') rest of (before, None) \<Rightarrow> (before, []) | (before, Some query) \<Rightarrow> (before, query))"

definition url_parse_path :: "string \<Rightarrow> string \<Rightarrow> string \<Rightarrow> string \<Rightarrow> url option" where
  "url_parse_path scheme host path query =
    map_option (\<lambda>p. \<lparr>url_Scheme = to_lower scheme, url_Opaque = [], url_Host = host, url_Path = p,
       url_RawQuery = query\<rparr>) (PathUnescape path)"

definition url_parse_nofrag :: "string \<Rightarrow> url option" where
  "url_parse_nofrag rawURL =
    (if list_ex ctl_byte rawURL then None
     else if rawURL = ''*'' then url_parse_path [] [] rawURL []
     else case getScheme rawURL of
       None \<Rightarrow> None
     | Some (scheme, rest) \<Rightarrow>
         (let (rest, query) = cut_query rest in
          if \<not> prefix [CHR 0x2F] rest \<and> scheme \<noteq> [] then
            Some \<lparr>url_Scheme = to_lower scheme, url_Opaque = rest, url_Host = [], url_Path = [],
                  url_RawQuery = query\<rparr>
          else if \<not> prefix [CHR 0x2F] rest \<and> CHR '':'' \<in> set (fst (cut (CHR 0x2F) rest)) then None
          else if prefix [CHR 0x2F, CHR 0x2F] rest \<and> (scheme \<noteq> [] \<or> \<not> prefix [CHR 0x2F, CHR 0x2F, CHR 0x2F] rest) then
            (let (authority, behind) = cut (CHR 0x2F) (drop 2 rest);
                 path = (case behind of None \<Rightarrow> [] | Some p \<Rightarrow> CHR 0x2F # p)
             in case parseAuthority authority of
                  None \<Rightarrow> None
                | Some host \<Rightarrow> url_parse_path scheme host path query)
          else url_parse_path scheme [] rest query))"

definition url_parse :: "string \<Rightarrow> url option" where
  "url_parse rawURL =
    (let (u, frag) = cut (CHR ''#'') rawURL in
     case url_parse_nofrag u of
       None \<Rightarrow> None
     | Some parsed \<Rightarrow>
         (case frag of
            None \<Rightarrow> Some parsed
          | Some f \<Rightarrow> if pct_decode False f = None then None else Some parsed))"

subsection \<open>Queries\<close>

text \<open>\<open>URL.Query\<close>: pairs that cannot be read are left out.\<close>

definition query_pair :: "string \<Rightarrow> (string \<times> string) list" where
  "query_pair item =
    (if CHR '';'' \<in> set item \<or> item = [] then []
     else
       (let (key, val) = cut (CHR ''='') item;
            val = (case val of None \<Rightarrow> [] | Some v \<Rightarrow> v)
        in case (QueryUnescape key, QueryUnescape val) of
             (Some k, Some v) \<Rightarrow> [(k, v)]
           | _ \<Rightarrow> []))"

definition query_values :: "string \<Rightarrow> (string \<times> string) list" where
  "query_values rawQuery = concat (map query_pair (split_on (CHR ''&'') rawQuery))"

definition query_get :: "string \<Rightarrow> string \<Rightarrow> string" where
  "query_get rawQuery key =
    (case map_of (query_values rawQuery) key of None \<Rightarrow> [] | Some v \<Rightarrow> v)"

end
