(* ===== verification/Runtime_Config.thy ===== *)
theory Runtime_Config
  imports Go_Url
begin

text \<open>
  The configuration (\<open>internal/config/config.go\<close>): a map of environment variables becomes
  a configuration or an error. An \<open>*Error\<close> is its message. The anonymous structs of
  \<open>RuntimeConfig\<close> get a record each.

  What a process may rely on once its configuration has loaded.
\<close>

subsection \<open>Data\<close>

definition ModeSingle :: string where "ModeSingle = ''single''"
definition ModeCluster :: string where "ModeCluster = ''cluster''"
definition ServerName :: string where "ServerName = ''openrtc-server''"
definition DefaultRedisEventLogMaxEntries :: int where "DefaultRedisEventLogMaxEntries = 1000"

record LimitsConfig =
  li_PayloadMaxBytes :: int
  li_EnvelopeMaxBytes :: int
  li_YJSMaxBytes :: int
  li_RoomsPerConnection :: int
  li_RoomConnections :: int
  li_YJSRoomConnections :: int
  li_EmitsPerSecond :: int
  li_OutboundQueueDepth :: int

record WebhooksConfig =
  wh_URLs :: "string list"
  wh_Secret :: string
  wh_TimeoutMS :: int

record RedisConfig =
  rd_URL :: string
  rd_ChannelPrefix :: string
  rd_EventLogMaxEntries :: int

record ServerConfig =
  svc_Host :: string
  svc_Port :: int
  svc_WSPath :: string
  svc_AllowedOrigins :: "string list"

record AuthConfig =
  ac_Issuer :: string
  ac_Audience :: string
  ac_JWKSURL :: string

record TenantConfig =
  tc_EnforcePrefix :: bool
  tc_Separator :: string

record RuntimeConfig =
  cfg_Mode :: string
  cfg_NodeID :: string
  cfg_Server :: ServerConfig
  cfg_Redis :: "RedisConfig option"
  cfg_Auth :: AuthConfig
  cfg_AdminAuth :: "AuthConfig option"
  cfg_Tenant :: TenantConfig
  cfg_Limits :: LimitsConfig
  cfg_Webhooks :: "WebhooksConfig option"

type_synonym env = "(string, string) fmap"

subsection \<open>Reading variables\<close>

text \<open>\<open>os.Environ\<close> lists KEY=VALUE items; an item without the sign is skipped.\<close>

fun mapFromEnviron :: "string list \<Rightarrow> env" where
  "mapFromEnviron [] = fmempty"
| "mapFromEnviron (item # items) =
    (case cut (CHR ''='') item of
       (key, None) \<Rightarrow> mapFromEnviron items
     | (key, Some val) \<Rightarrow>
         (let later = mapFromEnviron items
          in if key |\<in>| fmdom later then later else fmupd key val later))"

definition readString :: "env \<Rightarrow> string \<Rightarrow> string" where
  "readString env key = trim_space (gm_bytes env key)"

definition requireString :: "env \<Rightarrow> string \<Rightarrow> string + string" where
  "requireString env key =
    (let val = readString env key in if val = [] then Inl (key @ '' is required'') else Inr val)"

definition csv_values :: "string \<Rightarrow> string list" where
  "csv_values raw =
    (if raw = [] then []
     else filter (\<lambda>val. val \<noteq> []) (map trim_space (split_on (CHR '','') raw)))"

definition readCSV :: "env \<Rightarrow> string \<Rightarrow> string list" where
  "readCSV env key = csv_values (readString env key)"

definition readInt :: "env \<Rightarrow> string \<Rightarrow> int \<Rightarrow> string + int" where
  "readInt env key defaultValue =
    (let val = readString env key in
     if val = [] then Inr defaultValue
     else case atoi val of
            None \<Rightarrow> Inl (key @ '' must be a positive integer'')
          | Some parsed \<Rightarrow>
              if parsed \<le> 0 then Inl (key @ '' must be a positive integer'') else Inr parsed)"

definition readNonNegativeInt :: "env \<Rightarrow> string \<Rightarrow> int \<Rightarrow> string + int" where
  "readNonNegativeInt env key defaultValue =
    (let val = readString env key in
     if val = [] then Inr defaultValue
     else case atoi val of
            None \<Rightarrow> Inl (key @ '' must be a non-negative integer'')
          | Some parsed \<Rightarrow>
              if parsed < 0 then Inl (key @ '' must be a non-negative integer'') else Inr parsed)"

definition readBool :: "env \<Rightarrow> string \<Rightarrow> bool \<Rightarrow> string + bool" where
  "readBool env key defaultValue =
    (let val = to_lower (readString env key) in
     if val = [] then Inr defaultValue
     else if val = ''true'' then Inr True
     else if val = ''false'' then Inr False
     else Inl (key @ '' must be true or false''))"

definition defaultString :: "string \<Rightarrow> string \<Rightarrow> string" where
  "defaultString val defaultValue = (if val = [] then defaultValue else val)"

definition validWebhookURL :: "string \<Rightarrow> bool" where
  "validWebhookURL rawURL =
    (case url_parse rawURL of
       None \<Rightarrow> False
     | Some parsed \<Rightarrow>
         if url_Host parsed = [] then False
         else (let scheme = to_lower (url_Scheme parsed) in scheme = ''http'' \<or> scheme = ''https''))"

subsection \<open>Loading\<close>

definition load_limits :: "env \<Rightarrow> string + LimitsConfig" where
  "load_limits env =
    bind_err (readInt env ''OPENRTC_LIMIT_PAYLOAD_MAX_BYTES'' (16 * 1024)) (\<lambda>payloadMaxBytes.
    bind_err (readInt env ''OPENRTC_LIMIT_ENVELOPE_MAX_BYTES'' (20 * 1024)) (\<lambda>envelopeMaxBytes.
    bind_err (readInt env ''OPENRTC_LIMIT_YJS_MAX_BYTES'' (1024 * 1024)) (\<lambda>yjsMaxBytes.
    bind_err (readInt env ''OPENRTC_LIMIT_ROOMS_PER_CONNECTION'' 50) (\<lambda>roomsPerConnection.
    bind_err (readNonNegativeInt env ''OPENRTC_LIMIT_ROOM_CONNECTIONS'' 0) (\<lambda>roomConnections.
    bind_err (readNonNegativeInt env ''OPENRTC_LIMIT_YJS_ROOM_CONNECTIONS'' 0) (\<lambda>yjsRoomConnections.
    bind_err (readInt env ''OPENRTC_LIMIT_EMITS_PER_SECOND'' 100) (\<lambda>emitsPerSecond.
    bind_err (readInt env ''OPENRTC_LIMIT_OUTBOUND_QUEUE_DEPTH'' 256) (\<lambda>outboundQueueDepth.
    Inr \<lparr>li_PayloadMaxBytes = payloadMaxBytes, li_EnvelopeMaxBytes = envelopeMaxBytes,
         li_YJSMaxBytes = yjsMaxBytes, li_RoomsPerConnection = roomsPerConnection,
         li_RoomConnections = roomConnections, li_YJSRoomConnections = yjsRoomConnections,
         li_EmitsPerSecond = emitsPerSecond, li_OutboundQueueDepth = outboundQueueDepth\<rparr>))))))))"

definition load_admin_auth :: "env \<Rightarrow> string \<Rightarrow> string + AuthConfig option" where
  "load_admin_auth env authJWKSURL =
    (let adminIssuer = readString env ''OPENRTC_ADMIN_AUTH_ISSUER'';
         adminAudience = readString env ''OPENRTC_ADMIN_AUTH_AUDIENCE'';
         adminJWKSURL = readString env ''OPENRTC_ADMIN_AUTH_JWKS_URL''
     in if adminIssuer \<noteq> [] \<or> adminAudience \<noteq> [] then
          if adminIssuer = [] \<or> adminAudience = []
          then Inl ''OPENRTC_ADMIN_AUTH_ISSUER and OPENRTC_ADMIN_AUTH_AUDIENCE must both be set''
          else Inr (Some \<lparr>ac_Issuer = adminIssuer, ac_Audience = adminAudience,
                          ac_JWKSURL = defaultString adminJWKSURL authJWKSURL\<rparr>)
        else Inr None)"

definition load_webhooks :: "env \<Rightarrow> string + WebhooksConfig option" where
  "load_webhooks env =
    (let webhookURL = readString env ''OPENRTC_WEBHOOK_URL'';
         webhookURLs = (if webhookURL \<noteq> [] then [webhookURL] else []) @ readCSV env ''OPENRTC_WEBHOOK_URLS''
     in if webhookURLs = [] then Inr None
        else
          (let webhookSecret = readString env ''OPENRTC_WEBHOOK_SECRET'' in
           if webhookSecret = []
           then Inl ''OPENRTC_WEBHOOK_SECRET is required when webhooks are configured''
           else bind_err (readInt env ''OPENRTC_WEBHOOK_TIMEOUT_MS'' 2000) (\<lambda>webhookTimeoutMS.
             if \<not> list_all validWebhookURL webhookURLs
             then Inl ''OPENRTC_WEBHOOK_URLS must contain absolute http(s) URLs''
             else Inr (Some \<lparr>wh_URLs = webhookURLs, wh_Secret = webhookSecret,
                             wh_TimeoutMS = webhookTimeoutMS\<rparr>))))"

definition load_redis :: "env \<Rightarrow> string \<Rightarrow> string + RedisConfig option" where
  "load_redis env mode =
    (if mode \<noteq> ModeCluster then Inr None
     else
       (let redisURL = readString env ''OPENRTC_REDIS_URL'' in
        if redisURL = [] then Inl ''OPENRTC_REDIS_URL is required when OPENRTC_MODE=cluster''
        else bind_err (readInt env ''OPENRTC_REDIS_EVENT_LOG_MAX_ENTRIES'' DefaultRedisEventLogMaxEntries)
          (\<lambda>entries. Inr (Some \<lparr>rd_URL = redisURL,
             rd_ChannelPrefix = defaultString (readString env ''OPENRTC_REDIS_CHANNEL_PREFIX'') ''room:'',
             rd_EventLogMaxEntries = entries\<rparr>))))"

definition LoadFromMap :: "env \<Rightarrow> string + RuntimeConfig" where
  "LoadFromMap env =
    (let modeRaw = readString env ''OPENRTC_MODE'';
         mode = (if modeRaw = [] then ModeSingle else modeRaw)
     in if mode \<noteq> ModeSingle \<and> mode \<noteq> ModeCluster
        then Inl ''OPENRTC_MODE must be either single or cluster''
        else
          bind_err (requireString env ''OPENRTC_NODE_ID'') (\<lambda>nodeID.
          bind_err (requireString env ''OPENRTC_AUTH_ISSUER'') (\<lambda>authIssuer.
          bind_err (requireString env ''OPENRTC_AUTH_AUDIENCE'') (\<lambda>authAudience.
          bind_err (requireString env ''OPENRTC_AUTH_JWKS_URL'') (\<lambda>authJWKSURL.
          (let separator = defaultString (readString env ''OPENRTC_TENANT_SEPARATOR'') '':'' in
           if len separator \<noteq> 1 then Inl ''OPENRTC_TENANT_SEPARATOR must be a single character''
           else
             bind_err (load_limits env) (\<lambda>limits.
             bind_err (readInt env ''OPENRTC_SERVER_PORT'' 8080) (\<lambda>serverPort.
             bind_err (readBool env ''OPENRTC_TENANT_ENFORCE_PREFIX'' True) (\<lambda>enforcePrefix.
             bind_err (load_admin_auth env authJWKSURL) (\<lambda>adminAuth.
             bind_err (load_webhooks env) (\<lambda>webhooks.
             bind_err (load_redis env mode) (\<lambda>redis.
             if li_EnvelopeMaxBytes limits < li_PayloadMaxBytes limits
             then Inl ''OPENRTC_LIMIT_ENVELOPE_MAX_BYTES must be >= OPENRTC_LIMIT_PAYLOAD_MAX_BYTES''
             else Inr
               \<lparr>cfg_Mode = mode, cfg_NodeID = nodeID,
                cfg_Server = \<lparr>svc_Host = defaultString (readString env ''OPENRTC_SERVER_HOST'') ''0.0.0.0'',
                  svc_Port = serverPort,
                  svc_WSPath = defaultString (readString env ''OPENRTC_WS_PATH'') ''/ws'',
                  svc_AllowedOrigins = readCSV env ''OPENRTC_ALLOWED_ORIGINS''\<rparr>,
                cfg_Redis = redis,
                cfg_Auth = \<lparr>ac_Issuer = authIssuer, ac_Audience = authAudience, ac_JWKSURL = authJWKSURL\<rparr>,
                cfg_AdminAuth = adminAuth,
                cfg_Tenant = \<lparr>tc_EnforcePrefix = enforcePrefix, tc_Separator = separator\<rparr>,
                cfg_Limits = limits, cfg_Webhooks = webhooks\<rparr>))))))))))))"

text \<open>\<open>LoadFromOS\<close> reads the environment of the process.\<close>

definition LoadFromOS :: "string list \<Rightarrow> string + RuntimeConfig" where
  "LoadFromOS environ = LoadFromMap (mapFromEnviron environ)"

lemma requireString_ok: "requireString env key = Inr v \<longleftrightarrow> v = readString env key \<and> v \<noteq> []"
  by (auto simp: requireString_def Let_def)

lemma readInt_ok:
  "readInt env key d = Inr n \<Longrightarrow> 0 < d \<Longrightarrow> 0 < n"
  by (auto simp: readInt_def Let_def split: if_split_asm option.split_asm)

lemma readNonNegativeInt_ok:
  "readNonNegativeInt env key d = Inr n \<Longrightarrow> 0 \<le> d \<Longrightarrow> 0 \<le> n"
  by (auto simp: readNonNegativeInt_def Let_def split: if_split_asm option.split_asm)

definition limits_ok :: "LimitsConfig \<Rightarrow> bool" where
  "limits_ok l \<longleftrightarrow> 0 < li_PayloadMaxBytes l \<and> 0 < li_EnvelopeMaxBytes l \<and> 0 < li_YJSMaxBytes l
     \<and> 0 < li_RoomsPerConnection l \<and> 0 \<le> li_RoomConnections l \<and> 0 \<le> li_YJSRoomConnections l
     \<and> 0 < li_EmitsPerSecond l \<and> 0 < li_OutboundQueueDepth l"

lemma load_limits_ok: "load_limits env = Inr l \<Longrightarrow> limits_ok l"
  by (clarsimp simp: load_limits_def bind_err_Inr limits_ok_def readInt_ok readNonNegativeInt_ok)

definition auth_ok :: "AuthConfig \<Rightarrow> bool" where
  "auth_ok a \<longleftrightarrow> ac_Issuer a \<noteq> [] \<and> ac_Audience a \<noteq> [] \<and> ac_JWKSURL a \<noteq> []"

lemma defaultString_nonempty [simp]: "defaultString v d = [] \<longleftrightarrow> v = [] \<and> d = []"
  by (simp add: defaultString_def)

lemma load_admin_auth_ok:
  "load_admin_auth env jwks = Inr a \<Longrightarrow> jwks \<noteq> [] \<Longrightarrow> pred_option auth_ok a"
  by (auto simp: load_admin_auth_def Let_def auth_ok_def split: if_split_asm)

definition webhooks_ok :: "WebhooksConfig \<Rightarrow> bool" where
  "webhooks_ok w \<longleftrightarrow> wh_URLs w \<noteq> [] \<and> list_all validWebhookURL (wh_URLs w) \<and> wh_Secret w \<noteq> []
     \<and> 0 < wh_TimeoutMS w"

lemma load_webhooks_ok: "load_webhooks env = Inr w \<Longrightarrow> pred_option webhooks_ok w"
  by (auto simp: load_webhooks_def Let_def bind_err_Inr webhooks_ok_def dest: readInt_ok
      split: if_split_asm)

definition redis_ok :: "RedisConfig \<Rightarrow> bool" where
  "redis_ok r \<longleftrightarrow> rd_URL r \<noteq> [] \<and> rd_ChannelPrefix r \<noteq> [] \<and> 0 < rd_EventLogMaxEntries r"

lemma load_redis_ok:
  "load_redis env mode = Inr r \<Longrightarrow> pred_option redis_ok r \<and> (r \<noteq> None) = (mode = ModeCluster)"
  by (auto simp: load_redis_def Let_def bind_err_Inr redis_ok_def DefaultRedisEventLogMaxEntries_def
      dest: readInt_ok split: if_split_asm)

definition config_ok :: "RuntimeConfig \<Rightarrow> bool" where
  "config_ok cfg \<longleftrightarrow>
     cfg_Mode cfg \<in> {ModeSingle, ModeCluster} \<and> cfg_NodeID cfg \<noteq> [] \<and> 0 < svc_Port (cfg_Server cfg)
     \<and> auth_ok (cfg_Auth cfg) \<and> pred_option auth_ok (cfg_AdminAuth cfg)
     \<and> length (tc_Separator (cfg_Tenant cfg)) = 1
     \<and> limits_ok (cfg_Limits cfg)
     \<and> li_PayloadMaxBytes (cfg_Limits cfg) \<le> li_EnvelopeMaxBytes (cfg_Limits cfg)
     \<and> pred_option webhooks_ok (cfg_Webhooks cfg)
     \<and> pred_option redis_ok (cfg_Redis cfg)
     \<and> (cfg_Redis cfg \<noteq> None) = (cfg_Mode cfg = ModeCluster)"

lemma LoadFromMap_parts:
  assumes "LoadFromMap env = Inr cfg"
  shows "cfg_Mode cfg \<in> {ModeSingle, ModeCluster} \<and> cfg_NodeID cfg \<noteq> []
     \<and> auth_ok (cfg_Auth cfg) \<and> ac_JWKSURL (cfg_Auth cfg) \<noteq> []
     \<and> length (tc_Separator (cfg_Tenant cfg)) = 1
     \<and> load_limits env = Inr (cfg_Limits cfg)
     \<and> readInt env ''OPENRTC_SERVER_PORT'' 8080 = Inr (svc_Port (cfg_Server cfg))
     \<and> load_admin_auth env (ac_JWKSURL (cfg_Auth cfg)) = Inr (cfg_AdminAuth cfg)
     \<and> load_webhooks env = Inr (cfg_Webhooks cfg)
     \<and> load_redis env (cfg_Mode cfg) = Inr (cfg_Redis cfg)
     \<and> li_PayloadMaxBytes (cfg_Limits cfg) \<le> li_EnvelopeMaxBytes (cfg_Limits cfg)"
  using assms
  by (clarsimp simp: LoadFromMap_def Let_def bind_err_Inr requireString_ok auth_ok_def not_less
      split: if_split_asm)

text \<open>C35.
  A process that starts has a usable configuration: the mode is known, the identity and the
  issuers are not empty, the separator of tenants is one byte, all sizes and rates are
  positive, an envelope can hold the largest payload, every webhook is an absolute URL of
  HTTP with a secret, and Redis is configured exactly in cluster mode.
\<close>

theorem loaded_config_ok:
  assumes "LoadFromMap env = Inr cfg"
  shows "config_ok cfg"
proof -
  note parts = LoadFromMap_parts [OF assms]
  then have "0 < svc_Port (cfg_Server cfg)" "limits_ok (cfg_Limits cfg)"
    "pred_option auth_ok (cfg_AdminAuth cfg)" "pred_option webhooks_ok (cfg_Webhooks cfg)"
    by (auto intro: readInt_ok load_limits_ok load_admin_auth_ok load_webhooks_ok)
  moreover have "pred_option redis_ok (cfg_Redis cfg)
      \<and> (cfg_Redis cfg \<noteq> None) = (cfg_Mode cfg = ModeCluster)"
    using parts by (intro load_redis_ok) blast
  ultimately show ?thesis using parts by (simp add: config_ok_def)
qed

theorem loaded_config_ok_witness:
  "config_ok (projr (LoadFromMap (fmap_of_list
     [(''OPENRTC_NODE_ID'', ''n1''), (''OPENRTC_AUTH_ISSUER'', '' iss''),
      (''OPENRTC_AUTH_AUDIENCE'', ''aud''), (''OPENRTC_AUTH_JWKS_URL'', ''http://j''),
      (''OPENRTC_MODE'', ''cluster''), (''OPENRTC_REDIS_URL'', ''redis'')])))"
proof (rule loaded_config_ok)
  show "LoadFromMap (fmap_of_list
     [(''OPENRTC_NODE_ID'', ''n1''), (''OPENRTC_AUTH_ISSUER'', '' iss''),
      (''OPENRTC_AUTH_AUDIENCE'', ''aud''), (''OPENRTC_AUTH_JWKS_URL'', ''http://j''),
      (''OPENRTC_MODE'', ''cluster''), (''OPENRTC_REDIS_URL'', ''redis'')]) =
    Inr (projr (LoadFromMap (fmap_of_list
     [(''OPENRTC_NODE_ID'', ''n1''), (''OPENRTC_AUTH_ISSUER'', '' iss''),
      (''OPENRTC_AUTH_AUDIENCE'', ''aud''), (''OPENRTC_AUTH_JWKS_URL'', ''http://j''),
      (''OPENRTC_MODE'', ''cluster''), (''OPENRTC_REDIS_URL'', ''redis'')])))"
    by code_simp
qed

end
