(* ===== verification/Runtime_Metrics.thy ===== *)
theory Runtime_Metrics
  imports Go_Strings
begin

text \<open>
  The metrics of a process (\<open>internal/observability/metrics.go\<close>). A counter is an atomic
  \<open>int64\<close>; a handler answers with one line per counter. The \<open>float64\<close> that sets a gauge
  is the number of connections or rooms, an integer here.
\<close>

record Counter =
  counter_value :: u64

record Gauge =
  gauge_value :: u64

definition Counter_Inc :: "Counter \<Rightarrow> Counter" where
  "Counter_Inc c = c\<lparr>counter_value := counter_value c + 1\<rparr>"

definition Counter_Load :: "Counter \<Rightarrow> int" where
  "Counter_Load c = sint (counter_value c)"

definition Gauge_Inc :: "Gauge \<Rightarrow> Gauge" where
  "Gauge_Inc g = g\<lparr>gauge_value := gauge_value g + 1\<rparr>"

definition Gauge_Dec :: "Gauge \<Rightarrow> Gauge" where
  "Gauge_Dec g = g\<lparr>gauge_value := gauge_value g - 1\<rparr>"

definition Gauge_Set :: "int \<Rightarrow> Gauge \<Rightarrow> Gauge" where
  "Gauge_Set n g = g\<lparr>gauge_value := word_of_int n\<rparr>"

definition Gauge_Load :: "Gauge \<Rightarrow> int" where
  "Gauge_Load g = sint (gauge_value g)"

record RuntimeMetrics =
  met_ActiveConnections :: Gauge
  met_ActiveRooms :: Gauge
  met_JoinsTotal :: Counter
  met_LeavesTotal :: Counter
  met_EventsTotal :: Counter
  met_PresenceUpdatesTotal :: Counter
  met_QueueOverflowsTotal :: Counter

record AdminMetrics =
  met_AdminPublishesTotal :: Counter

definition NewRuntimeMetrics :: RuntimeMetrics where
  "NewRuntimeMetrics =
    \<lparr>met_ActiveConnections = \<lparr>gauge_value = 0\<rparr>, met_ActiveRooms = \<lparr>gauge_value = 0\<rparr>,
     met_JoinsTotal = \<lparr>counter_value = 0\<rparr>, met_LeavesTotal = \<lparr>counter_value = 0\<rparr>,
     met_EventsTotal = \<lparr>counter_value = 0\<rparr>, met_PresenceUpdatesTotal = \<lparr>counter_value = 0\<rparr>,
     met_QueueOverflowsTotal = \<lparr>counter_value = 0\<rparr>\<rparr>"

definition NewAdminMetrics :: AdminMetrics where
  "NewAdminMetrics = \<lparr>met_AdminPublishesTotal = \<lparr>counter_value = 0\<rparr>\<rparr>"

record metricLine =
  metric_name :: string
  metric_value :: int

text \<open>\<open>%d\<close> of an \<open>int64\<close>.\<close>

definition format_int :: "int \<Rightarrow> string" where
  "format_int n = (if n < 0 then CHR ''-'' # int_digits (- n) else int_digits n)"

definition writeMetrics :: "metricLine list \<Rightarrow> string" where
  "writeMetrics metrics =
    join_on (CHR 0x0A) (map (\<lambda>metric. metric_name metric @ '' '' @ format_int (metric_value metric)) metrics)
      @ [CHR 0x0A]"

definition RuntimeMetrics_Handler :: "RuntimeMetrics \<Rightarrow> string" where
  "RuntimeMetrics_Handler m = writeMetrics
    [\<lparr>metric_name = ''openrtc_runtime_active_connections'', metric_value = Gauge_Load (met_ActiveConnections m)\<rparr>,
     \<lparr>metric_name = ''openrtc_runtime_active_rooms'', metric_value = Gauge_Load (met_ActiveRooms m)\<rparr>,
     \<lparr>metric_name = ''openrtc_runtime_joins_total'', metric_value = Counter_Load (met_JoinsTotal m)\<rparr>,
     \<lparr>metric_name = ''openrtc_runtime_leaves_total'', metric_value = Counter_Load (met_LeavesTotal m)\<rparr>,
     \<lparr>metric_name = ''openrtc_runtime_events_total'', metric_value = Counter_Load (met_EventsTotal m)\<rparr>,
     \<lparr>metric_name = ''openrtc_runtime_presence_updates_total'',
      metric_value = Counter_Load (met_PresenceUpdatesTotal m)\<rparr>,
     \<lparr>metric_name = ''openrtc_runtime_queue_overflows_total'',
      metric_value = Counter_Load (met_QueueOverflowsTotal m)\<rparr>]"

definition AdminMetrics_Handler :: "AdminMetrics \<Rightarrow> string" where
  "AdminMetrics_Handler m = writeMetrics
    [\<lparr>metric_name = ''openrtc_admin_publishes_total'',
      metric_value = Counter_Load (met_AdminPublishesTotal m)\<rparr>]"

end
