(* ===== verification/Go_Time.thy ===== *)
theory Go_Time
  imports Go_Strings
begin

text \<open>
  What the code uses of the \<open>time\<close> package: the civil date of an instant, its text, and
  RFC 3339 as \<open>time.Time\<close> reads and writes it in JSON. An instant is a number of
  nanoseconds since 0001-01-01 00:00 UTC, the zero time; the offset of a text is applied and
  forgotten. The laxer forms that the parser of the package falls back to (a comma for the
  decimal point, hours of one digit) are errors here.
\<close>

definition second :: int where "second = 1000000000"
definition day :: int where "day = 86400 * second"

definition leap :: "int \<Rightarrow> bool" where
  "leap y \<longleftrightarrow> y mod 4 = 0 \<and> (y mod 100 \<noteq> 0 \<or> y mod 400 = 0)"

definition month_days :: "int \<Rightarrow> int list" where
  "month_days y = [31, if leap y then 29 else 28, 31, 30, 31, 30, 31, 31, 30, 31, 30, 31]"

text \<open>The days before the first of January of a year.\<close>

definition days_before :: "int \<Rightarrow> int" where
  "days_before y = (let p = y - 1 in 365 * p + p div 4 - p div 100 + p div 400)"

fun month_and_day :: "int \<Rightarrow> int list \<Rightarrow> int \<Rightarrow> int \<times> int" where
  "month_and_day m [] d = (m, d + 1)"
| "month_and_day m (n # ns) d = (if d < n then (m, d + 1) else month_and_day (m + 1) ns (d - n))"

definition year_of_days :: "int \<Rightarrow> int" where
  "year_of_days days =
    (let n400 = days div 146097; r = days mod 146097;
         n100 = min 3 (r div 36524); r = r - 36524 * n100;
         n4 = r div 1461; r = r mod 1461;
         n1 = min 3 (r div 365)
     in 400 * n400 + 100 * n100 + 4 * n4 + n1 + 1)"

definition civil_of_days :: "int \<Rightarrow> int \<times> int \<times> int" where
  "civil_of_days days =
    (let y = year_of_days days in (y, month_and_day 1 (month_days y) (days - days_before y)))"

definition days_of_civil :: "int \<Rightarrow> int \<Rightarrow> int \<Rightarrow> int" where
  "days_of_civil y m d = days_before y + sum_list (take (nat (m - 1)) (month_days y)) + (d - 1)"

definition pad2 :: "int \<Rightarrow> string" where
  "pad2 n = [chr (0x30 + nat (n div 10)), chr (0x30 + nat (n mod 10))]"

definition pad4 :: "int \<Rightarrow> string" where
  "pad4 n = pad2 (n div 100) @ pad2 (n mod 100)"

text \<open>\<open>Format ("2006-01-02")\<close> for the years 0 to 9999.\<close>

definition format_date :: "int \<Rightarrow> string" where
  "format_date t =
    (let (y, m, d) = civil_of_days (t div day) in pad4 y @ ''-'' @ pad2 m @ ''-'' @ pad2 d)"

definition strip_zeros :: "string \<Rightarrow> string" where
  "strip_zeros s = rev (dropWhile (\<lambda>c. c = CHR ''0'') (rev s))"

definition fraction_text :: "int \<Rightarrow> string" where
  "fraction_text ns =
    (if ns = 0 then []
     else CHR ''.'' # strip_zeros (tl (int_digits (second + ns))))"

text \<open>\<open>RFC3339Nano\<close> of an instant in UTC.\<close>

definition format_time :: "int \<Rightarrow> string" where
  "format_time t =
    (let s = (t mod day) div second
     in format_date t @ ''T'' @ pad2 (s div 3600) @ '':'' @ pad2 (s div 60 mod 60) @ '':'' @ pad2 (s mod 60)
        @ fraction_text (t mod second) @ ''Z'')"

text \<open>A number of exactly so many digits within bounds, and the rest of the text.\<close>

definition take_num :: "nat \<Rightarrow> int \<Rightarrow> int \<Rightarrow> string \<Rightarrow> (int \<times> string) option" where
  "take_num n lo hi s =
    (if length s < n then None
     else case parse_digits 0 (take n s) of
            None \<Rightarrow> None
          | Some v \<Rightarrow> if v < lo \<or> hi < v then None else Some (v, drop n s))"

definition take_char :: "char \<Rightarrow> string \<Rightarrow> string option" where
  "take_char c s = (case s of [] \<Rightarrow> None | d # r \<Rightarrow> if d = c then Some r else None)"

definition take_fraction :: "string \<Rightarrow> (int \<times> string) option" where
  "take_fraction s =
    (case s of
       c # r \<Rightarrow>
         if c = CHR ''.'' then
           (let ds = takeWhile (\<lambda>c. digit_val c \<noteq> None) r in
            if ds = [] then Some (0, s)
            else map_option (\<lambda>n. (n, drop (length ds) r))
                   (parse_digits 0 (take 9 (ds @ replicate 9 (CHR ''0'')))))
         else Some (0, s)
     | [] \<Rightarrow> Some (0, s))"

definition take_zone :: "string \<Rightarrow> int option" where
  "take_zone s =
    (case s of
       [] \<Rightarrow> None
     | c # r \<Rightarrow>
         if c = CHR ''Z'' then (if r = [] then Some 0 else None)
         else if c = CHR ''+'' \<or> c = CHR ''-'' then
           (case take_num 2 0 23 r of
              None \<Rightarrow> None
            | Some (h, r) \<Rightarrow>
                (case take_char (CHR '':'') r of
                   None \<Rightarrow> None
                 | Some r \<Rightarrow>
                     (case take_num 2 0 59 r of
                        Some (m, []) \<Rightarrow> Some ((if c = CHR ''-'' then -1 else 1) * (3600 * h + 60 * m))
                      | _ \<Rightarrow> None)))
         else None)"

definition andT :: "'a option \<Rightarrow> ('a \<Rightarrow> 'b option) \<Rightarrow> 'b option" where
  "andT x f = (case x of None \<Rightarrow> None | Some v \<Rightarrow> f v)"

definition parse_time :: "string \<Rightarrow> int option" where
  "parse_time s =
    andT (take_num 4 0 9999 s) (\<lambda>(y, s).
    andT (take_char (CHR ''-'') s) (\<lambda>s.
    andT (take_num 2 1 12 s) (\<lambda>(m, s).
    andT (take_char (CHR ''-'') s) (\<lambda>s.
    andT (take_num 2 1 (month_days y ! nat (m - 1)) s) (\<lambda>(d, s).
    andT (take_char (CHR ''T'') s) (\<lambda>s.
    andT (take_num 2 0 23 s) (\<lambda>(h, s).
    andT (take_char (CHR '':'') s) (\<lambda>s.
    andT (take_num 2 0 59 s) (\<lambda>(mi, s).
    andT (take_char (CHR '':'') s) (\<lambda>s.
    andT (take_num 2 0 59 s) (\<lambda>(sec, s).
    andT (take_fraction s) (\<lambda>(ns, s).
    andT (take_zone s) (\<lambda>offset.
      Some (days_of_civil y m d * day + (3600 * h + 60 * mi + sec - offset) * second + ns))))))))))))))"

end
