(* ===== verification/Runtime_Types.thy ===== *)
theory Runtime_Types
  imports Engine_Storage Engine_Query Auth_Claims Protocol_Parse Runtime_Config Runtime_Metrics
    Go_Time
begin

text \<open>
  The state of the runtime service (\<open>Service\<close>, \<open>clientConn\<close>, \<open>yjsConn\<close> in
  \<open>internal/runtime/service.go\<close>), the messages it sends and the interface of the cluster
  store that it calls.

  \<^item> A connection is found by its id; the pointer to it that a handler holds is that id.
  \<^item> The socket of a connection is the list of the messages written to it, and closing
    it is the close frame. \<open>closed\<close> and \<open>done\<close> are this frame being there.
  \<^item> The store is a record of functions on its state \<open>'st\<close>. A read is a function of the
    state, every other operation also changes it. The optional interfaces that the code asks
    for with a type assertion are options.
  \<^item> \<open>select\<close> takes any of its ready cases: the choices are a stream in the state.
\<close>

subsection \<open>Errors\<close>

text \<open>\<open>ErrWrap\<close> is \<open>fmt.Errorf "%w: ..."\<close>; \<open>ErrText\<close> is an error without a sentinel.\<close>

datatype product_error =
    ErrTenantNotFound | ErrTenantAlreadyExists | ErrProjectNotFound | ErrProjectAlreadyExists
  | ErrAPIKeyNotFound | ErrAPIKeyAlreadyExists | ErrWebhookDeliveryNotFound | ErrVersionSnapshotNotFound
  | ErrRichTextDocumentNotFound

datatype go_error =
    ErrEngine engine_error | ErrProduct product_error | ErrResumeSessionNotFound | ErrMissingRuntimeToken
  | ErrWrap go_error string | ErrText string

fun errors_Is :: "go_error \<Rightarrow> (go_error \<Rightarrow> bool) \<Rightarrow> bool" where
  "errors_Is (ErrWrap err t) target \<longleftrightarrow> target (ErrWrap err t) \<or> errors_Is err target"
| "errors_Is err target \<longleftrightarrow> target err"

fun is_storage_patch :: "go_error \<Rightarrow> bool" where
  "is_storage_patch (ErrEngine (ErrCluster (ErrStoragePatch r))) = True"
| "is_storage_patch err = False"

text \<open>The message of an error frame is a text of the service or an error's own text.\<close>

datatype message_text = Text string | Error_of go_error

record APIError =
  ae_Code :: Code
  ae_Message :: message_text
  ae_RequestID :: string

subsection \<open>Records of the cluster that the runtime uses\<close>

record StorageWriteOptions =
  swo_MaxBytes :: int
  swo_OpID :: string
  swo_ExpectedSequence :: u64
  swo_ExpectedSequenceSet :: bool

record StorageWriteResult =
  swr_Kind :: string
  swr_Document :: bytes
  swr_Sequence :: u64
  swr_Duplicate :: bool

record ConnectionMeta =
  cm_NodeID :: string
  cm_Subject :: string
  cm_Tenant :: string
  cm_ConnectedAt :: gtime

record ResumeSessionRecord =
  rsr_ID :: string
  rsr_TenantID :: string
  rsr_ProjectID :: string
  rsr_Subject :: string
  rsr_Rooms :: "string list"
  rsr_RoomCursors :: "(room_id, u64) fmap"
  rsr_Metadata :: bytes
  rsr_CreatedAt :: gtime
  rsr_UpdatedAt :: gtime
  rsr_ExpiresAt :: gtime

record UsageIncrement =
  ui_TenantID :: string
  ui_ProjectID :: string
  ui_RoomID :: string
  ui_Metric :: string
  ui_Window :: string
  ui_Count :: int

record APIKeyRecord =
  ak_ID :: string
  ak_TenantID :: string
  ak_ProjectID :: string
  ak_Name :: string
  ak_Prefix :: string
  ak_SecretHash :: string
  ak_Scopes :: "string list"
  ak_Revoked :: bool
  ak_CreatedAt :: gtime
  ak_UpdatedAt :: gtime
  ak_LastUsedAt :: "gtime option"

type_synonym ('st, 'a) store_op = "'st \<Rightarrow> (go_error + 'a) \<times> 'st"

record 'st IdempotentStorageWriter =
  iw_SetStorageWithResult ::
    "room_id \<Rightarrow> bytes \<Rightarrow> StorageWriteOptions \<Rightarrow> ('st, StorageWriteResult) store_op"
  iw_ApplyStoragePatchWithResult ::
    "room_id \<Rightarrow> JSONPatchOperation list \<Rightarrow> StorageWriteOptions \<Rightarrow> ('st, StorageWriteResult) store_op"

record 'st SequencedStorageWriter =
  sw_SetStorageWithOptions ::
    "room_id \<Rightarrow> bytes \<Rightarrow> StorageWriteOptions \<Rightarrow> ('st, bytes \<times> u64) store_op"
  sw_ApplyStoragePatchWithOptions ::
    "room_id \<Rightarrow> JSONPatchOperation list \<Rightarrow> StorageWriteOptions \<Rightarrow> ('st, bytes \<times> u64) store_op"

record 'st EventAckStore =
  ea_GetRoomEventAck :: "'st \<Rightarrow> room_id \<Rightarrow> string \<Rightarrow> go_error + u64"
  ea_SetRoomEventAck :: "room_id \<Rightarrow> string \<Rightarrow> u64 \<Rightarrow> ('st, unit) store_op"

record 'st Store =
  os_Healthy :: "'st \<Rightarrow> go_error option"
  os_PublishEvent :: "PublishedEvent \<Rightarrow> ('st, PublishedEvent) store_op"
  os_ListPublishedEvents :: "'st \<Rightarrow> room_id \<Rightarrow> u64 \<Rightarrow> int \<Rightarrow> go_error + PublishedEvent list"
  os_PublishPresence :: "PresenceEvent \<Rightarrow> ('st, unit) store_op"
  os_PublishYJSEvent :: "YJSEvent \<Rightarrow> ('st, unit) store_op"
  os_TouchConnection :: "conn_id \<Rightarrow> ConnectionMeta \<Rightarrow> ('st, unit) store_op"
  os_JoinRoom :: "conn_id \<Rightarrow> room_id \<Rightarrow> ('st, unit) store_op"
  os_LeaveRoom :: "conn_id \<Rightarrow> room_id \<Rightarrow> ('st, unit) store_op"
  os_SetPresence :: "conn_id \<Rightarrow> room_id \<Rightarrow> bytes \<Rightarrow> ('st, unit) store_op"
  os_SnapshotRoom :: "'st \<Rightarrow> room_id \<Rightarrow> go_error + Snapshot"
  os_GetRoom :: "'st \<Rightarrow> room_id \<Rightarrow> go_error + RoomRecord"
  os_GetStorage :: "'st \<Rightarrow> room_id \<Rightarrow> go_error + bytes"
  os_SetStorage :: "room_id \<Rightarrow> bytes \<Rightarrow> ('st, bytes) store_op"
  os_ApplyStoragePatch :: "room_id \<Rightarrow> JSONPatchOperation list \<Rightarrow> int \<Rightarrow> ('st, bytes) store_op"
  os_LoadYJSDocument :: "'st \<Rightarrow> room_id \<Rightarrow> go_error + YJSDocument"
  os_AppendYJSUpdate :: "room_id \<Rightarrow> YJSEventKind \<Rightarrow> bytes \<Rightarrow> ('st, u64) store_op"
  os_StoreYJSSnapshot :: "room_id \<Rightarrow> bytes \<Rightarrow> ('st, unit) store_op"
  os_CleanupConnection :: "string \<Rightarrow> conn_id \<Rightarrow> ('st, unit) store_op"
  os_ReconcileNode :: "string \<Rightarrow> ('st, unit) store_op"
  os_SyncStats :: "string \<Rightarrow> Stats \<Rightarrow> ('st, unit) store_op"
  os_EventAcks :: "'st EventAckStore option"
  os_GetStorageWithSequence :: "('st \<Rightarrow> room_id \<Rightarrow> go_error + bytes \<times> u64) option"
  os_Sequenced :: "'st SequencedStorageWriter option"
  os_Idempotent :: "'st IdempotentStorageWriter option"
  os_GetResumeSession :: "('st \<Rightarrow> string \<Rightarrow> go_error + ResumeSessionRecord) option"
  os_UpsertResumeSession :: "(ResumeSessionRecord \<Rightarrow> ('st, ResumeSessionRecord) store_op) option"
  os_IncrementUsage :: "(UsageIncrement \<Rightarrow> ('st, unit) store_op) option"
  os_VerifyAPIKey :: "(string \<Rightarrow> ('st, APIKeyRecord) store_op) option"

subsection \<open>Messages to the clients\<close>

record notificationDeltaPayload =
  nd_Type :: string
  nd_UserID :: string
  nd_NotificationID :: string
  nd_Notification :: "InboxNotificationRecord option"

text \<open>What the code puts into the \<open>interface{}\<close> of a payload and into the meta map.\<close>

datatype payload =
    NoPayload
  | HelloPayload conn_id string string string string
  | ErrorPayload APIError
  | ConflictPayload APIError room_id bytes u64
  | RawPayload bytes
  | PagePayload SnapshotPage
  | DocumentPayload bytes
  | AckPayload string string bytes
  | UpdatePayload StorageMutation
  | PresencePayload conn_id "bytes option"
  | DeltaPayload notificationDeltaPayload

datatype meta_value = MetaText string | MetaSeq u64

record outboundMessage =
  om_T :: string
  om_ID :: string
  om_Room :: room_id
  om_Event :: string
  om_Payload :: payload
  om_Meta :: "(string \<times> meta_value) list"

definition no_outbound :: outboundMessage where
  "no_outbound = \<lparr>om_T = [], om_ID = [], om_Room = [], om_Event = [], om_Payload = NoPayload, om_Meta = []\<rparr>"

subsection \<open>Connections and the service\<close>

record emitLimiter =
  el_limit :: int
  el_window :: int
  el_count :: int

record clientConn =
  cc_claims :: "Claims option"
  cc_projectID :: string
  cc_resumeSessionID :: string
  cc_resumeSession :: "ResumeSessionRecord option"
  cc_send :: "outboundMessage list"
  cc_capacity :: int
  cc_wire :: "outboundMessage list"
  cc_closed :: "(nat \<times> string) option"
  cc_limiter :: emitLimiter

record yjsConn =
  yn_claims :: "Claims option"
  yn_projectID :: string
  yn_room :: room_id
  yn_send :: "bytes list"
  yn_capacity :: int
  yn_wire :: "bytes list"
  yn_closed :: "(nat \<times> string) option"
  yn_limiter :: emitLimiter

record 'st Service =
  sv_cfg :: RuntimeConfig
  sv_store :: "'st Store option"
  sv_storeState :: 'st
  sv_metrics :: RuntimeMetrics
  sv_conns :: "(conn_id, clientConn) fmap"
  sv_rooms :: Engine
  sv_yjsConns :: "(conn_id, yjsConn) fmap"
  sv_stats :: Stats
  sv_now :: gtime
  sv_choices :: "nat \<Rightarrow> bool"

type_synonym ('st, 'a) act = "'st Service \<Rightarrow> (go_error + 'a) \<times> 'st Service"

subsection \<open>Sequencing\<close>

text \<open>
  \<open>if err := f(); err != nil { return err }\<close> is \<open>andDo\<close>; \<open>_ = f()\<close> is \<open>ignore\<close>.
\<close>

definition ok :: "'a \<Rightarrow> ('st, 'a) act" where
  "ok x s = (Inr x, s)"

definition fail :: "go_error \<Rightarrow> ('st, 'a) act" where
  "fail err s = (Inl err, s)"

definition andDo :: "('st, 'a) act \<Rightarrow> ('a \<Rightarrow> ('st, 'b) act) \<Rightarrow> ('st, 'b) act" where
  "andDo m f s = (case m s of (Inl err, s) \<Rightarrow> (Inl err, s) | (Inr x, s) \<Rightarrow> f x s)"

definition ignore :: "('st, 'a) act \<Rightarrow> 'st Service \<Rightarrow> 'st Service" where
  "ignore m s = snd (m s)"

definition modify :: "('st Service \<Rightarrow> 'st Service) \<Rightarrow> ('st, unit) act" where
  "modify f s = (Inr (), f s)"

text \<open>An operation of the store, of the engine, and a read of the store.\<close>

definition on_store :: "('st, 'a) store_op \<Rightarrow> ('st, 'a) act" where
  "on_store op s = (case op (sv_storeState s) of (r, st) \<Rightarrow> (r, s\<lparr>sv_storeState := st\<rparr>))"

definition on_engine :: "(Engine \<Rightarrow> (engine_error + 'a) \<times> Engine) \<Rightarrow> ('st, 'a) act" where
  "on_engine op s =
    (case op (sv_rooms s) of
       (Inl err, e) \<Rightarrow> (Inl (ErrEngine err), s\<lparr>sv_rooms := e\<rparr>)
     | (Inr x, e) \<Rightarrow> (Inr x, s\<lparr>sv_rooms := e\<rparr>))"

definition reading :: "('st Service \<Rightarrow> go_error + 'a) \<Rightarrow> ('st, 'a) act" where
  "reading f s = (f s, s)"

definition engine_result :: "(engine_error + 'a) \<Rightarrow> go_error + 'a" where
  "engine_result r = (case r of Inl err \<Rightarrow> Inl (ErrEngine err) | Inr x \<Rightarrow> Inr x)"

end
