(* ===== verification/Runtime_Access.thy ===== *)
theory Runtime_Access
  imports Runtime_Types
begin

text \<open>
  The outbound queues of the connections: enqueueing with its overflow, closing, the write
  loop, the limiter of emits, the statistics, and the broadcasts to the members that the
  engine names.

  Who is at the other end: the token and the project of a request, API keys, resume
  sessions, the decision for a room and the metering of usage.
\<close>

subsection \<open>Statistics\<close>

definition on_metrics :: "(RuntimeMetrics \<Rightarrow> RuntimeMetrics) \<Rightarrow> 'st Service \<Rightarrow> 'st Service" where
  "on_metrics f s = s\<lparr>sv_metrics := f (sv_metrics s)\<rparr>"

text \<open>The error of the store is dropped.\<close>

definition syncStatsLocked :: "'st Service \<Rightarrow> 'st Service" where
  "syncStatsLocked s =
    (let stats = sv_stats s;
         snap = \<lparr>st_ActiveConnections = of_nat (fcard (fmdom (sv_conns s))),
           st_ActiveRooms = of_int (ActiveRoomCount (sv_rooms s)),
           st_JoinsTotal = st_JoinsTotal stats, st_LeavesTotal = st_LeavesTotal stats,
           st_EventsTotal = st_EventsTotal stats,
           st_PresenceUpdatesTotal = st_PresenceUpdatesTotal stats,
           st_QueueOverflowsTotal = st_QueueOverflowsTotal stats, st_AdminPublishesTotal = 0\<rparr>;
         s = on_metrics (\<lambda>m. m\<lparr>
               met_ActiveConnections := Gauge_Set (sint (st_ActiveConnections snap)) (met_ActiveConnections m),
               met_ActiveRooms := Gauge_Set (sint (st_ActiveRooms snap)) (met_ActiveRooms m)\<rparr>) s
     in case sv_store s of
          None \<Rightarrow> s
        | Some store \<Rightarrow> ignore (on_store (os_SyncStats store (cfg_NodeID (sv_cfg s)) snap)) s)"

definition recordLeave :: "'st Service \<Rightarrow> 'st Service" where
  "recordLeave s =
    on_metrics (\<lambda>m. m\<lparr>met_LeavesTotal := Counter_Inc (met_LeavesTotal m)\<rparr>)
      (syncStatsLocked (s\<lparr>sv_stats := (sv_stats s)\<lparr>st_LeavesTotal := st_LeavesTotal (sv_stats s) + 1\<rparr>\<rparr>))"

definition recordPresenceUpdate :: "'st Service \<Rightarrow> 'st Service" where
  "recordPresenceUpdate s =
    on_metrics (\<lambda>m. m\<lparr>met_PresenceUpdatesTotal := Counter_Inc (met_PresenceUpdatesTotal m)\<rparr>)
      (syncStatsLocked (s\<lparr>sv_stats :=
        (sv_stats s)\<lparr>st_PresenceUpdatesTotal := st_PresenceUpdatesTotal (sv_stats s) + 1\<rparr>\<rparr>))"

definition recordJoin :: "'st Service \<Rightarrow> 'st Service" where
  "recordJoin s =
    on_metrics (\<lambda>m. m\<lparr>met_JoinsTotal := Counter_Inc (met_JoinsTotal m)\<rparr>)
      (syncStatsLocked (s\<lparr>sv_stats := (sv_stats s)\<lparr>st_JoinsTotal := st_JoinsTotal (sv_stats s) + 1\<rparr>\<rparr>))"

definition recordEvent :: "'st Service \<Rightarrow> 'st Service" where
  "recordEvent s =
    on_metrics (\<lambda>m. m\<lparr>met_EventsTotal := Counter_Inc (met_EventsTotal m)\<rparr>)
      (syncStatsLocked (s\<lparr>sv_stats := (sv_stats s)\<lparr>st_EventsTotal := st_EventsTotal (sv_stats s) + 1\<rparr>\<rparr>))"

definition recordOverflow :: "'st Service \<Rightarrow> 'st Service" where
  "recordOverflow s =
    on_metrics (\<lambda>m. m\<lparr>met_QueueOverflowsTotal := Counter_Inc (met_QueueOverflowsTotal m)\<rparr>)
      (syncStatsLocked (s\<lparr>sv_stats :=
        (sv_stats s)\<lparr>st_QueueOverflowsTotal := st_QueueOverflowsTotal (sv_stats s) + 1\<rparr>\<rparr>))"

subsection \<open>Closing\<close>

definition CloseNormalClosure :: nat where "CloseNormalClosure = 1000"
definition CloseGoingAway :: nat where "CloseGoingAway = 1001"

text \<open>Only the first close sends its frame.\<close>

definition clientConn_close :: "nat \<Rightarrow> string \<Rightarrow> clientConn \<Rightarrow> clientConn" where
  "clientConn_close code reason c =
    (if cc_closed c \<noteq> None then c else c\<lparr>cc_closed := Some (code, reason)\<rparr>)"

definition yjsConn_close :: "nat \<Rightarrow> string \<Rightarrow> yjsConn \<Rightarrow> yjsConn" where
  "yjsConn_close code reason c =
    (if yn_closed c \<noteq> None then c else c\<lparr>yn_closed := Some (code, reason)\<rparr>)"

definition close_code :: "Code \<Rightarrow> clientConn \<Rightarrow> clientConn" where
  "close_code code = clientConn_close (ds_WSCloseCode (DescriptorFor code)) (WSCloseReason code)"

definition close_yjs_code :: "Code \<Rightarrow> yjsConn \<Rightarrow> yjsConn" where
  "close_yjs_code code = yjsConn_close (ds_WSCloseCode (DescriptorFor code)) (WSCloseReason code)"

definition closeActiveSockets :: "'st Service \<Rightarrow> 'st Service" where
  "closeActiveSockets s = s\<lparr>
     sv_conns := fmmap (clientConn_close CloseGoingAway ''runtime closing'') (sv_conns s),
     sv_yjsConns := fmmap (yjsConn_close CloseGoingAway ''runtime closing'') (sv_yjsConns s)\<rparr>"

subsection \<open>Enqueueing\<close>

definition put_conn :: "conn_id \<Rightarrow> clientConn \<Rightarrow> 'st Service \<Rightarrow> 'st Service" where
  "put_conn connID c s = s\<lparr>sv_conns := fmupd connID c (sv_conns s)\<rparr>"

definition put_yjs :: "conn_id \<Rightarrow> yjsConn \<Rightarrow> 'st Service \<Rightarrow> 'st Service" where
  "put_yjs connID c s = s\<lparr>sv_yjsConns := fmupd connID c (sv_yjsConns s)\<rparr>"

text \<open>The next choice of \<open>select\<close> between two cases that are ready.\<close>

definition pick :: "'st Service \<Rightarrow> bool \<times> 'st Service" where
  "pick s = (sv_choices s 0, s\<lparr>sv_choices := \<lambda>n. sv_choices s (Suc n)\<rparr>)"

definition connection_closed :: go_error where
  "connection_closed = ErrText ''connection is closed''"

definition queue_overflow :: go_error where
  "queue_overflow = ErrText ''outbound queue overflow''"

definition enqueue :: "conn_id \<Rightarrow> outboundMessage \<Rightarrow> ('st, unit) act" where
  "enqueue connID message s =
    (case fmlookup (sv_conns s) connID of
       None \<Rightarrow> (Inl connection_closed, s)
     | Some c \<Rightarrow>
         (let send = put_conn connID (c\<lparr>cc_send := cc_send c @ [message]\<rparr>);
              space = (len (cc_send c) < cc_capacity c)
          in if cc_closed c \<noteq> None then
               (if \<not> space then (Inl connection_closed, s)
                else case pick s of
                       (True, s) \<Rightarrow> (Inl connection_closed, s)
                     | (False, s) \<Rightarrow> (Inr (), send s))
             else if space then (Inr (), send s)
             else (Inl queue_overflow, put_conn connID (close_code CodeQueueOverflow c) (recordOverflow s))))"

definition enqueueFrame :: "conn_id \<Rightarrow> YJSEventKind \<Rightarrow> bytes \<Rightarrow> ('st, unit) act" where
  "enqueueFrame connID kind update s =
    (case fmlookup (sv_yjsConns s) connID of
       None \<Rightarrow> (Inl connection_closed, s)
     | Some c \<Rightarrow>
         (let frame = chr (unat kind) # update;
              send = put_yjs connID (c\<lparr>yn_send := yn_send c @ [frame]\<rparr>);
              space = (len (yn_send c) < yn_capacity c)
          in if yn_closed c \<noteq> None then
               (if \<not> space then (Inl connection_closed, s)
                else case pick s of
                       (True, s) \<Rightarrow> (Inl connection_closed, s)
                     | (False, s) \<Rightarrow> (Inr (), send s))
             else if space then (Inr (), send s)
             else (Inl queue_overflow, put_yjs connID (close_yjs_code CodeQueueOverflow c) s)))"

text \<open>
  One turn of the write loop: a message of the queue is written. The loop of a closed
  connection may take either case; a write to a closed socket fails and ends the loop, which
  leaves the queue one message shorter and the socket as it is.
\<close>

definition writeLoop :: "conn_id \<Rightarrow> 'st Service \<Rightarrow> 'st Service" where
  "writeLoop connID s =
    (case fmlookup (sv_conns s) connID of
       None \<Rightarrow> s
     | Some c \<Rightarrow>
         (case cc_send c of
            [] \<Rightarrow> s
          | message # rest \<Rightarrow>
              if cc_closed c = None
              then put_conn connID (c\<lparr>cc_send := rest, cc_wire := cc_wire c @ [message]\<rparr>) s
              else (case pick s of
                      (True, s) \<Rightarrow> s
                    | (False, s) \<Rightarrow> put_conn connID (c\<lparr>cc_send := rest\<rparr>) s)))"

definition yjs_writeLoop :: "conn_id \<Rightarrow> 'st Service \<Rightarrow> 'st Service" where
  "yjs_writeLoop connID s =
    (case fmlookup (sv_yjsConns s) connID of
       None \<Rightarrow> s
     | Some c \<Rightarrow>
         (case yn_send c of
            [] \<Rightarrow> s
          | message # rest \<Rightarrow>
              if yn_closed c = None
              then put_yjs connID (c\<lparr>yn_send := rest, yn_wire := yn_wire c @ [message]\<rparr>) s
              else (case pick s of
                      (True, s) \<Rightarrow> s
                    | (False, s) \<Rightarrow> put_yjs connID (c\<lparr>yn_send := rest\<rparr>) s)))"

subsection \<open>The limiter\<close>

text \<open>\<open>Unix ()\<close> counts the seconds from 1970; here the window is the second itself.\<close>

definition unix_epoch :: int where "unix_epoch = days_of_civil 1970 1 1 * 86400"

definition Allow :: "gtime \<Rightarrow> emitLimiter \<Rightarrow> bool \<times> emitLimiter" where
  "Allow now l =
    (let nowWindow = now div second - unix_epoch;
         l = (if el_window l \<noteq> nowWindow then l\<lparr>el_window := nowWindow, el_count := 0\<rparr> else l)
     in if el_count l \<ge> el_limit l then (False, l)
        else (True, l\<lparr>el_count := el_count l + 1\<rparr>))"

definition allow_emit :: "conn_id \<Rightarrow> 'st Service \<Rightarrow> bool \<times> 'st Service" where
  "allow_emit connID s =
    (case fmlookup (sv_conns s) connID of
       None \<Rightarrow> (False, s)
     | Some c \<Rightarrow>
         (case Allow (sv_now s) (cc_limiter c) of
            (allowed, l) \<Rightarrow> (allowed, put_conn connID (c\<lparr>cc_limiter := l\<rparr>) s)))"

definition allow_yjs :: "conn_id \<Rightarrow> 'st Service \<Rightarrow> bool \<times> 'st Service" where
  "allow_yjs connID s =
    (case fmlookup (sv_yjsConns s) connID of
       None \<Rightarrow> (False, s)
     | Some c \<Rightarrow>
         (case Allow (sv_now s) (yn_limiter c) of
            (allowed, l) \<Rightarrow> (allowed, put_yjs connID (c\<lparr>yn_limiter := l\<rparr>) s)))"

subsection \<open>Broadcasts\<close>

text \<open>
  The targets are the connections of the node among the ids; the first one that cannot take
  the message ends the broadcast.
\<close>

definition targets_of :: "'st Service \<Rightarrow> conn_id list \<Rightarrow> conn_id list" where
  "targets_of s ids = filter (\<lambda>connID. connID |\<in>| fmdom (sv_conns s)) ids"

definition yjs_targets_of :: "'st Service \<Rightarrow> conn_id list \<Rightarrow> conn_id list" where
  "yjs_targets_of s ids = filter (\<lambda>connID. connID |\<in>| fmdom (sv_yjsConns s)) ids"

fun enqueue_all :: "conn_id list \<Rightarrow> outboundMessage \<Rightarrow> ('st, unit) act" where
  "enqueue_all [] message = ok ()"
| "enqueue_all (target # targets) message =
    andDo (enqueue target message) (\<lambda>_. enqueue_all targets message)"

fun enqueue_frames :: "conn_id list \<Rightarrow> YJSEventKind \<Rightarrow> bytes \<Rightarrow> ('st, unit) act" where
  "enqueue_frames [] kind update = ok ()"
| "enqueue_frames (target # targets) kind update =
    andDo (enqueueFrame target kind update) (\<lambda>_. enqueue_frames targets kind update)"

definition eventOutboundMessage :: "PublishedEvent \<Rightarrow> outboundMessage" where
  "eventOutboundMessage event =
    no_outbound\<lparr>om_T := ''EVENT'', om_Room := pe_Room event, om_Event := pe_Event event,
      om_Payload := RawPayload (pe_Payload event),
      om_Meta := (if pe_TraceID event \<noteq> [] then [(''trace_id'', MetaText (pe_TraceID event))] else [])
        @ (if pe_Sequence event > 0 then [(''seq'', MetaSeq (pe_Sequence event))] else [])\<rparr>"

definition storageUpdateOutboundMessage :: "StorageFanout \<Rightarrow> outboundMessage" where
  "storageUpdateOutboundMessage fanout =
    no_outbound\<lparr>om_T := ''STORAGE_UPDATE'', om_Room := sf_Room fanout,
      om_Payload := UpdatePayload (sf_Update fanout),
      om_Meta := (if sf_Sequence fanout > 0 then [(''seq'', MetaSeq (sf_Sequence fanout))] else [])\<rparr>"

definition presenceOutboundMessage :: "PresenceEvent \<Rightarrow> outboundMessage" where
  "presenceOutboundMessage event =
    no_outbound\<lparr>om_T := ''PRESENCE'', om_Room := pr_Room event,
      om_Payload := PresencePayload (pr_ConnID event)
        (if pr_Offline event then None else Some (pr_State event))\<rparr>"

definition broadcastEventFanout :: "EventFanout \<Rightarrow> bool \<Rightarrow> ('st, unit) act" where
  "broadcastEventFanout fanout countMetric s =
    andDo (enqueue_all (targets_of s (ef_TargetConnIDs fanout)) (eventOutboundMessage (ef_Event fanout)))
      (\<lambda>_. modify (if countMetric then recordEvent else (\<lambda>s. s))) s"

definition broadcastEvent :: "PublishedEvent \<Rightarrow> bool \<Rightarrow> ('st, unit) act" where
  "broadcastEvent event countMetric s =
    broadcastEventFanout (EventFanout (sv_rooms s) event) countMetric s"

definition broadcastPresenceFanout :: "PresenceFanout \<Rightarrow> ('st, unit) act" where
  "broadcastPresenceFanout fanout s =
    enqueue_all (targets_of s (pf_TargetConnIDs fanout)) (presenceOutboundMessage (pf_Event fanout)) s"

definition broadcastPresenceEvent :: "PresenceEvent \<Rightarrow> ('st, unit) act" where
  "broadcastPresenceEvent event s = broadcastPresenceFanout (PresenceFanout (sv_rooms s) event) s"

definition broadcastStorageFanout :: "StorageFanout \<Rightarrow> ('st, unit) act" where
  "broadcastStorageFanout fanout s =
    enqueue_all (targets_of s (sf_TargetConnIDs fanout)) (storageUpdateOutboundMessage fanout) s"

definition broadcastNotificationFanout ::
  "NotificationFanout \<Rightarrow> notificationDeltaPayload \<Rightarrow> ('st, unit) act" where
  "broadcastNotificationFanout fanout delta s =
    enqueue_all (targets_of s (nf_TargetConnIDs fanout))
      (no_outbound\<lparr>om_T := ''NOTIFICATION'', om_Event := pe_Event (nf_Event fanout),
         om_Payload := DeltaPayload delta\<rparr>) s"

definition broadcastYJSFanout :: "YJSFanout \<Rightarrow> ('st, unit) act" where
  "broadcastYJSFanout fanout s =
    enqueue_frames (yjs_targets_of s (yfo_TargetConnIDs fanout)) (ye_Kind (yfo_Event fanout))
      (ye_Update (yfo_Event fanout)) s"

definition broadcastYJSEvent :: "YJSEvent \<Rightarrow> ('st, unit) act" where
  "broadcastYJSEvent event s = broadcastYJSFanout (YJSFanout (sv_rooms s) event) s"

definition publishPresenceFanout :: "PresenceFanout \<Rightarrow> ('st, unit) act" where
  "publishPresenceFanout fanout s =
    (case sv_store s of
       None \<Rightarrow> (Inr (), s)
     | Some store \<Rightarrow> on_store (os_PublishPresence store (pf_Event fanout)) s)"

subsection \<open>Requests\<close>

text \<open>The keys of the header are in their canonical form.\<close>

record HttpRequest =
  hr_Header :: "(string, string) fmap"
  hr_Path :: string
  hr_RawQuery :: string

definition header_get :: "'a HttpRequest_scheme \<Rightarrow> string \<Rightarrow> string" where
  "header_get r key = gm_bytes (hr_Header r) key"

definition url_query :: "'a HttpRequest_scheme \<Rightarrow> string \<Rightarrow> string" where
  "url_query r key = query_get (hr_RawQuery r) key"

fun firstNonEmpty :: "string list \<Rightarrow> string" where
  "firstNonEmpty [] = []"
| "firstNonEmpty (v # vs) = (if v \<noteq> [] then v else firstNonEmpty vs)"

definition tokenFromRequest :: "HttpRequest \<Rightarrow> string" where
  "tokenFromRequest r =
    (let authHeader = header_get r ''Authorization''; pre = ''Bearer '' in
     if length authHeader > length pre \<and> take (length pre) authHeader = pre
     then drop (length pre) authHeader
     else url_query r ''token'')"

definition projectIDFromRuntimeRequest :: "HttpRequest \<Rightarrow> string" where
  "projectIDFromRuntimeRequest r =
    firstNonEmpty [header_get r ''Openrtc-Project-Id'', url_query r ''project_id'', url_query r ''projectId'']"

definition stringListContains :: "string list \<Rightarrow> string \<Rightarrow> bool" where
  "stringListContains values needle = list_ex (\<lambda>v. v = needle) values"

definition checkOrigin :: "RuntimeConfig \<Rightarrow> HttpRequest \<Rightarrow> bool" where
  "checkOrigin cfg r =
    (let allowed = svc_AllowedOrigins (cfg_Server cfg); origin = header_get r ''Origin'' in
     if allowed = [] then True
     else if origin = [] then False
     else list_ex (\<lambda>a. origin = a) allowed)"

text \<open>\<open>strings.Cut\<close> at a separator of any length.\<close>

fun cut_text :: "string \<Rightarrow> string \<Rightarrow> (string \<times> string) option" where
  "cut_text sep s =
    (if prefix sep s then Some ([], drop (length sep) s)
     else case s of
            [] \<Rightarrow> None
          | c # r \<Rightarrow> map_option (\<lambda>(before, behind). (c # before, behind)) (cut_text sep r))"

declare cut_text.simps [simp del]

definition tenantFromRoom :: "room_id \<Rightarrow> string \<Rightarrow> string" where
  "tenantFromRoom room separator =
    (let separator = (if separator = [] then '':'' else separator) in
     case cut_text separator room of None \<Rightarrow> [] | Some (before, _) \<Rightarrow> before)"

definition yjsPathPrefix :: string where
  "yjsPathPrefix = CHR 0x2F # ''yjs'' @ [CHR 0x2F]"

definition roomFromYJSPath :: "string \<Rightarrow> string + room_id" where
  "roomFromYJSPath pathValue =
    (if \<not> prefix yjsPathPrefix pathValue then Inl ''invalid yjs path''
     else
       (let escaped = drop (length yjsPathPrefix) pathValue in
        if escaped = [] then Inl ''room is required''
        else case PathUnescape escaped of
               None \<Rightarrow> Inl ''room must be URL-escaped''
             | Some room \<Rightarrow>
                 (case ValidateRoomName room of
                    Inl err \<Rightarrow> Inl (pse_Message err)
                  | Inr _ \<Rightarrow> Inr room)))"

text \<open>Twelve random bytes in hexadecimal digits, or an error of the source of randomness.\<close>

definition newConnID :: "bytes option \<Rightarrow> go_error + conn_id" where
  "newConnID random =
    (case random of
       None \<Rightarrow> Inl (ErrText ''random'')
     | Some raw \<Rightarrow> Inr (concat (map (\<lambda>c. hex_lower 2 (byte c)) (take 12 raw))))"

subsection \<open>Rooms\<close>

definition tenantPrefix :: "RuntimeConfig \<Rightarrow> Claims \<Rightarrow> string" where
  "tenantPrefix cfg claims =
    (if \<not> tc_EnforcePrefix (cfg_Tenant cfg) \<or> cl_Tenant claims = [] then []
     else cl_Tenant claims @ tc_Separator (cfg_Tenant cfg))"

definition room_getter :: "'st Service \<Rightarrow> RoomGetter option" where
  "room_getter s =
    map_option (\<lambda>store room. case os_GetRoom store (sv_storeState s) room of Inl _ \<Rightarrow> None | Inr r \<Rightarrow> Some r)
      (sv_store s)"

definition allowsRoomAction :: "'st Service \<Rightarrow> Claims option \<Rightarrow> string \<Rightarrow> room_id \<Rightarrow> bool" where
  "allowsRoomAction s claims action room =
    AllowsRoomAction claims (room_getter s) action room
      \<lparr>rao_EnforceTenantPrefix = tc_EnforcePrefix (cfg_Tenant (sv_cfg s)),
       rao_TenantSeparator = tc_Separator (cfg_Tenant (sv_cfg s))\<rparr>"

subsection \<open>Authentication\<close>

text \<open>
  \<open>verify\<close> is the verifier of signed tokens, None when the service has none. The claims of
  an API key come from its record.
\<close>

record runtimeAuthResult =
  ra_claims :: "Claims option"
  ra_projectID :: string

definition api_key_claims :: "APIKeyRecord \<Rightarrow> Claims" where
  "api_key_claims rec =
    \<lparr>cl_Subject = ''api-key:'' @ ak_ID rec, cl_Tenant = ak_TenantID rec, cl_Join = [], cl_Publish = [],
     cl_Presence = [], cl_Groups = [], cl_GroupIDs = [],
     cl_Scope = join_on (CHR '' '') (ak_Scopes rec)\<rparr>"

definition authenticate_key :: "string \<Rightarrow> string \<Rightarrow> ('st, runtimeAuthResult) act" where
  "authenticate_key token projectID s =
    (case sv_store s of
       None \<Rightarrow> (Inl (ErrText ''api key authentication is not configured''), s)
     | Some store \<Rightarrow>
         (case os_VerifyAPIKey store of
            None \<Rightarrow> (Inl (ErrText ''api key authentication is not configured''), s)
          | Some verifyKey \<Rightarrow>
              andDo (on_store (verifyKey token))
                (\<lambda>rec. ok \<lparr>ra_claims = Some (api_key_claims rec),
                  ra_projectID = firstNonEmpty [projectID, ak_ProjectID rec]\<rparr>) s))"

definition authenticateRequest ::
  "(string \<Rightarrow> go_error + Claims) option \<Rightarrow> HttpRequest \<Rightarrow> ('st, runtimeAuthResult) act" where
  "authenticateRequest verify r s =
    (let token = tokenFromRequest r; projectID = projectIDFromRuntimeRequest r in
     if token = [] then (Inl ErrMissingRuntimeToken, s)
     else case verify of
            None \<Rightarrow> authenticate_key token projectID s
          | Some v \<Rightarrow>
              (case v token of
                 Inr claims \<Rightarrow> (Inr \<lparr>ra_claims = Some claims, ra_projectID = projectID\<rparr>, s)
               | Inl err \<Rightarrow>
                   if \<not> prefix ''ortc_sk_'' token then (Inl err, s)
                   else authenticate_key token projectID s))"

subsection \<open>Usage\<close>

text \<open>An error of the meter is only logged.\<close>

definition recordUsage ::
  "Claims option \<Rightarrow> string \<Rightarrow> room_id \<Rightarrow> string \<Rightarrow> int \<Rightarrow> 'st Service \<Rightarrow> 'st Service" where
  "recordUsage claims projectID room metric count s =
    (case sv_store s of
       None \<Rightarrow> s
     | Some store \<Rightarrow>
         (case (os_IncrementUsage store, claims) of
            (Some increment, Some c) \<Rightarrow>
              (let tenantID = firstNonEmpty [cl_Tenant c, tenantFromRoom room (tc_Separator (cfg_Tenant (sv_cfg s)))] in
               if metric = [] \<or> tenantID = [] \<or> projectID = [] then s
               else ignore (on_store (increment
                      \<lparr>ui_TenantID = tenantID, ui_ProjectID = projectID, ui_RoomID = room,
                       ui_Metric = metric, ui_Window = format_date (sv_now s), ui_Count = count\<rparr>)) s)
          | _ \<Rightarrow> s))"

definition recordConnUsage :: "conn_id \<Rightarrow> room_id \<Rightarrow> string \<Rightarrow> int \<Rightarrow> 'st Service \<Rightarrow> 'st Service" where
  "recordConnUsage connID room metric count s =
    (case fmlookup (sv_conns s) connID of
       None \<Rightarrow> s
     | Some c \<Rightarrow> recordUsage (cc_claims c) (cc_projectID c) room metric count s)"

definition recordYJSUsage :: "conn_id \<Rightarrow> string \<Rightarrow> int \<Rightarrow> 'st Service \<Rightarrow> 'st Service" where
  "recordYJSUsage connID metric count s =
    (case fmlookup (sv_yjsConns s) connID of
       None \<Rightarrow> s
     | Some c \<Rightarrow> recordUsage (yn_claims c) (yn_projectID c) (yn_room c) metric count s)"

subsection \<open>Resume sessions\<close>

definition resumeSessionTTLFromRequest :: "HttpRequest \<Rightarrow> int" where
  "resumeSessionTTLFromRequest r =
    (let raw = firstNonEmpty [url_query r ''resume_ttl_seconds'', url_query r ''resumeTtlSeconds''] in
     if raw = [] then 24 * 3600 * second
     else case atoi raw of
            None \<Rightarrow> 24 * 3600 * second
          | Some seconds \<Rightarrow>
              if seconds \<le> 0 then 24 * 3600 * second
              else (if seconds > 30 * 24 * 60 * 60 then 30 * 24 * 60 * 60 else seconds) * second)"

text \<open>A copy of the cursors is the map itself.\<close>

definition copyRoomCursors :: "(room_id, u64) fmap \<Rightarrow> (room_id, u64) fmap" where
  "copyRoomCursors input = input"

definition new_resume_session :: "string \<Rightarrow> Claims \<Rightarrow> string \<Rightarrow> gtime \<Rightarrow> ResumeSessionRecord" where
  "new_resume_session sessionID claims projectID expires =
    \<lparr>rsr_ID = sessionID, rsr_TenantID = cl_Tenant claims, rsr_ProjectID = projectID,
     rsr_Subject = cl_Subject claims, rsr_Rooms = [], rsr_RoomCursors = fmempty,
     rsr_Metadata = ''{'' @ quote_text ''source'' @ '':'' @ quote_text ''runtime'' @ ''}'',
     rsr_CreatedAt = zero_time, rsr_UpdatedAt = zero_time, rsr_ExpiresAt = expires\<rparr>"

text \<open>What the code checks of a session that it found.\<close>

definition resume_session_fault :: "ResumeSessionRecord \<Rightarrow> Claims \<Rightarrow> string \<Rightarrow> gtime \<Rightarrow> string option" where
  "resume_session_fault rec claims projectID now =
    (if rsr_Subject rec \<noteq> cl_Subject claims then Some ''resume session subject does not match token subject''
     else if rsr_TenantID rec \<noteq> [] \<and> cl_Tenant claims \<noteq> [] \<and> rsr_TenantID rec \<noteq> cl_Tenant claims
     then Some ''resume session tenant does not match token tenant''
     else if rsr_ProjectID rec \<noteq> [] \<and> projectID \<noteq> [] \<and> rsr_ProjectID rec \<noteq> projectID
     then Some ''resume session project does not match connection project''
     else if \<not> now < rsr_ExpiresAt rec then Some ''resume session has expired''
     else None)"

definition resume_session_id :: "HttpRequest \<Rightarrow> string" where
  "resume_session_id r = trim_space (firstNonEmpty
     [url_query r ''resume_session_id'', url_query r ''resumeSessionId'',
      header_get r ''Openrtc-Resume-Session-Id''])"

definition resumeSessionFromRequest ::
  "HttpRequest \<Rightarrow> Claims option \<Rightarrow> string \<Rightarrow> ('st, ResumeSessionRecord option) act" where
  "resumeSessionFromRequest r claims projectID s =
    (let sessionID = resume_session_id r in
     if sessionID = [] then (Inr None, s)
     else case ValidateConnectionID sessionID of
       Inl err \<Rightarrow> (Inl (ErrText (pse_Message err)), s)
     | Inr _ \<Rightarrow>
         (case claims of
            None \<Rightarrow> (Inl (ErrText ''resume sessions require an authenticated subject''), s)
          | Some c \<Rightarrow>
              if cl_Subject c = [] then (Inl (ErrText ''resume sessions require an authenticated subject''), s)
              else case sv_store s of
                None \<Rightarrow> (Inl (ErrText ''resume sessions require redis backing''), s)
              | Some store \<Rightarrow>
                  (case (os_GetResumeSession store, os_UpsertResumeSession store) of
                     (Some get, Some upsert) \<Rightarrow>
                       (case get (sv_storeState s) sessionID of
                          Inl err \<Rightarrow>
                            if errors_Is err (\<lambda>e. e = ErrResumeSessionNotFound)
                            then andDo (on_store (upsert (new_resume_session sessionID c projectID
                                   (sv_now s + resumeSessionTTLFromRequest r)))) (\<lambda>created. ok (Some created)) s
                            else (Inl err, s)
                        | Inr rec \<Rightarrow>
                            (case resume_session_fault rec c projectID (sv_now s) of
                               Some message \<Rightarrow> (Inl (ErrText message), s)
                             | None \<Rightarrow>
                                 if rsr_ProjectID rec = [] \<and> projectID \<noteq> []
                                 then andDo (on_store (upsert (rec\<lparr>rsr_ProjectID := projectID\<rparr>)))
                                        (\<lambda>updated. ok (Some updated)) s
                                 else (Inr (Some rec), s)))
                   | _ \<Rightarrow> (Inl (ErrText ''resume sessions require redis backing''), s))))"

definition upsertConnResumeSession :: "conn_id \<Rightarrow> ('st, unit) act" where
  "upsertConnResumeSession connID s =
    (case (sv_store s, fmlookup (sv_conns s) connID) of
       (Some store, Some c) \<Rightarrow>
         (case (os_UpsertResumeSession store, cc_resumeSession c) of
            (Some upsert, Some rec) \<Rightarrow>
              (let rec = rec\<lparr>rsr_ID := cc_resumeSessionID c\<rparr>;
                   rec = (case cc_claims c of
                            None \<Rightarrow> rec
                          | Some cl \<Rightarrow>
                              rec\<lparr>rsr_TenantID := firstNonEmpty [rsr_TenantID rec, cl_Tenant cl],
                                  rsr_Subject := firstNonEmpty [rsr_Subject rec, cl_Subject cl]\<rparr>);
                   rec = rec\<lparr>rsr_ProjectID := firstNonEmpty [rsr_ProjectID rec, cc_projectID c],
                             rsr_RoomCursors := copyRoomCursors (rsr_RoomCursors rec)\<rparr>
               in andDo (on_store (upsert rec))
                    (\<lambda>updated. modify (put_conn connID (c\<lparr>cc_resumeSession := Some updated\<rparr>))) s)
          | _ \<Rightarrow> (Inr (), s))
     | _ \<Rightarrow> (Inr (), s))"

definition session_with_room :: "room_id \<Rightarrow> ResumeSessionRecord \<Rightarrow> ResumeSessionRecord" where
  "session_with_room room rec =
    (if stringListContains (rsr_Rooms rec) room then rec else rec\<lparr>rsr_Rooms := rsr_Rooms rec @ [room]\<rparr>)"

definition touchResumeSessionRoom :: "conn_id \<Rightarrow> room_id \<Rightarrow> ('st, unit) act" where
  "touchResumeSessionRoom connID room s =
    (case fmlookup (sv_conns s) connID of
       None \<Rightarrow> (Inr (), s)
     | Some c \<Rightarrow>
         (case cc_resumeSession c of
            None \<Rightarrow> (Inr (), s)
          | Some rec \<Rightarrow>
              if cc_resumeSessionID c = [] \<or> room = [] then (Inr (), s)
              else
                (let rec = (if room |\<in>| fmdom (rsr_RoomCursors rec) then rec
                            else rec\<lparr>rsr_RoomCursors := fmupd room 0 (rsr_RoomCursors rec)\<rparr>);
                     rec = session_with_room room rec
                 in upsertConnResumeSession connID (put_conn connID (c\<lparr>cc_resumeSession := Some rec\<rparr>) s))))"

definition persistResumeSessionCursor :: "conn_id \<Rightarrow> room_id \<Rightarrow> u64 \<Rightarrow> ('st, unit) act" where
  "persistResumeSessionCursor connID room sequence s =
    (case fmlookup (sv_conns s) connID of
       None \<Rightarrow> (Inr (), s)
     | Some c \<Rightarrow>
         (case cc_resumeSession c of
            None \<Rightarrow> (Inr (), s)
          | Some rec \<Rightarrow>
              if cc_resumeSessionID c = [] \<or> room = [] \<or> sequence = 0 then (Inr (), s)
              else if sequence \<le> gm_u64 (rsr_RoomCursors rec) room then (Inr (), s)
              else
                (let rec = rec\<lparr>rsr_RoomCursors := fmupd room sequence (rsr_RoomCursors rec)\<rparr>;
                     rec = session_with_room room rec
                 in upsertConnResumeSession connID (put_conn connID (c\<lparr>cc_resumeSession := Some rec\<rparr>) s))))"

end
