(* ===== verification/Runtime_Storage.thy ===== *)
theory Runtime_Storage
  imports Runtime_Access
begin

text \<open>
  Storage documents in the runtime: reading from the store or the engine, writing through
  the richest interface that the store has, publication to the other nodes, and the three
  handlers with their replies.
\<close>

subsection \<open>Options of a message\<close>

definition maxStoragePatchOperations :: int where "maxStoragePatchOperations = 100"

definition storageOpID :: "Message \<Rightarrow> string" where
  "storageOpID message = (case mg_StorageMeta message of None \<Rightarrow> [] | Some m \<Rightarrow> stm_OpID m)"

definition storageExpectedSequence :: "Message \<Rightarrow> u64" where
  "storageExpectedSequence message =
    (case mg_StorageMeta message of None \<Rightarrow> 0 | Some m \<Rightarrow> stm_ExpectedSequence m)"

definition storageExpectedSequenceSet :: "Message \<Rightarrow> bool" where
  "storageExpectedSequenceSet message =
    (case mg_StorageMeta message of None \<Rightarrow> False | Some m \<Rightarrow> stm_ExpectedSequenceSet m)"

definition storageWriteOptions :: "StorageMutationOptions \<Rightarrow> StorageWriteOptions" where
  "storageWriteOptions options =
    \<lparr>swo_MaxBytes = smo_MaxBytes options, swo_OpID = smo_OpID options,
     swo_ExpectedSequence = smo_ExpectedSequence options,
     swo_ExpectedSequenceSet = smo_ExpectedSequenceSet options\<rparr>"

definition mutation_options :: "'st Service \<Rightarrow> conn_id \<Rightarrow> Message \<Rightarrow> StorageMutationOptions" where
  "mutation_options s connID message =
    \<lparr>smo_MaxBytes = li_PayloadMaxBytes (cfg_Limits (sv_cfg s)), smo_OpID = storageOpID message,
     smo_OriginConnID = connID, smo_Sequence = 0,
     smo_ExpectedSequence = storageExpectedSequence message,
     smo_ExpectedSequenceSet = storageExpectedSequenceSet message\<rparr>"

definition storage_event_options :: "'st Service \<Rightarrow> conn_id \<Rightarrow> StorageEventOptions" where
  "storage_event_options s connID =
    \<lparr>seo_OriginNode = cfg_NodeID (sv_cfg s), seo_ExcludeSenderConnID = connID, seo_Sequence = 0\<rparr>"

subsection \<open>Reading\<close>

definition getStorageSnapshot :: "'st Service \<Rightarrow> room_id \<Rightarrow> go_error + bytes \<times> u64" where
  "getStorageSnapshot s room =
    (case sv_store s of
       Some store \<Rightarrow>
         (case os_GetStorageWithSequence store of
            Some get \<Rightarrow> get (sv_storeState s) room
          | None \<Rightarrow> (case os_GetStorage store (sv_storeState s) room of
                       Inl err \<Rightarrow> Inl err | Inr document \<Rightarrow> Inr (document, 0)))
     | None \<Rightarrow> engine_result (GetStorageWithSequence (sv_rooms s) room))"

definition getStorage :: "'st Service \<Rightarrow> room_id \<Rightarrow> go_error + bytes" where
  "getStorage s room =
    (case getStorageSnapshot s room of Inl err \<Rightarrow> Inl err | Inr (document, _) \<Rightarrow> Inr document)"

subsection \<open>Writing\<close>

definition storageMutationPlanFromWriteResult ::
  "room_id \<Rightarrow> string \<Rightarrow> StorageWriteResult \<Rightarrow> JSONPatchOperation list \<Rightarrow> StorageMutationOptions
     \<Rightarrow> StorageEventOptions \<Rightarrow> ('st, StorageMutationPlan) act" where
  "storageMutationPlanFromWriteResult room kind res operations mutationOptions eventOptions s =
    (let mutationOptions = mutationOptions\<lparr>smo_Sequence := swr_Sequence res\<rparr> in
     if swr_Duplicate res then
       (let mutationKind = (if swr_Kind res \<noteq> [] then swr_Kind res else kind) in
        case NewStorageMutation mutationKind (swr_Document res) operations mutationOptions of
          Inl err \<Rightarrow> (Inl (ErrEngine err), s)
        | Inr mutation \<Rightarrow>
            (engine_result (StorageMutationPlanWithOptions (sv_rooms s) room mutation
               (eventOptions\<lparr>seo_Sequence := swr_Sequence res\<rparr>) True), s))
     else on_engine (\<lambda>e. RecordStorageMutationPlan e room kind (swr_Document res) operations
            mutationOptions eventOptions) s)"

definition setStorageMutationPlan ::
  "room_id \<Rightarrow> bytes \<Rightarrow> StorageMutationOptions \<Rightarrow> StorageEventOptions \<Rightarrow> ('st, StorageMutationPlan) act" where
  "setStorageMutationPlan room document mutationOptions eventOptions s =
    (case sv_store s of
       None \<Rightarrow> on_engine (\<lambda>e. SetStorageMutationPlan e room document mutationOptions eventOptions) s
     | Some store \<Rightarrow>
         (case (os_Idempotent store, os_Sequenced store) of
            (Some idempotent, _) \<Rightarrow>
              andDo (on_store (iw_SetStorageWithResult idempotent room document
                       (storageWriteOptions mutationOptions)))
                (\<lambda>res. storageMutationPlanFromWriteResult room StorageMutationSet res []
                   mutationOptions eventOptions) s
          | (None, Some sequenced) \<Rightarrow>
              andDo (on_store (sw_SetStorageWithOptions sequenced room document
                       (storageWriteOptions mutationOptions)))
                (\<lambda>(stored, sequence). on_engine (\<lambda>e. RecordStorageMutationPlan e room StorageMutationSet
                   stored [] (mutationOptions\<lparr>smo_Sequence := sequence\<rparr>) eventOptions)) s
          | (None, None) \<Rightarrow>
              if smo_ExpectedSequenceSet mutationOptions
              then (Inl (ErrEngine (ErrCluster ErrStorageConflict)), s)
              else andDo (on_store (os_SetStorage store room document))
                (\<lambda>stored. on_engine (\<lambda>e. RecordStorageMutationPlan e room StorageMutationSet
                   stored [] mutationOptions eventOptions)) s))"

definition applyStoragePatchMutationPlan ::
  "room_id \<Rightarrow> JSONPatchOperation list \<Rightarrow> StorageMutationOptions \<Rightarrow> StorageEventOptions
     \<Rightarrow> ('st, StorageMutationPlan) act" where
  "applyStoragePatchMutationPlan room operations mutationOptions eventOptions s =
    (case sv_store s of
       None \<Rightarrow>
         on_engine (\<lambda>e. ApplyStoragePatchMutationPlan e room operations mutationOptions eventOptions) s
     | Some store \<Rightarrow>
         (case (os_Idempotent store, os_Sequenced store) of
            (Some idempotent, _) \<Rightarrow>
              andDo (on_store (iw_ApplyStoragePatchWithResult idempotent room operations
                       (storageWriteOptions mutationOptions)))
                (\<lambda>res. storageMutationPlanFromWriteResult room StorageMutationPatch res operations
                   mutationOptions eventOptions) s
          | (None, Some sequenced) \<Rightarrow>
              andDo (on_store (sw_ApplyStoragePatchWithOptions sequenced room operations
                       (storageWriteOptions mutationOptions)))
                (\<lambda>(patched, sequence). on_engine (\<lambda>e. RecordStorageMutationPlan e room StorageMutationPatch
                   patched operations (mutationOptions\<lparr>smo_Sequence := sequence\<rparr>) eventOptions)) s
          | (None, None) \<Rightarrow>
              if smo_ExpectedSequenceSet mutationOptions
              then (Inl (ErrEngine (ErrCluster ErrStorageConflict)), s)
              else andDo (on_store (os_ApplyStoragePatch store room operations (smo_MaxBytes mutationOptions)))
                (\<lambda>patched. on_engine (\<lambda>e. RecordStorageMutationPlan e room StorageMutationPatch
                   patched operations mutationOptions eventOptions)) s))"

definition publishStoragePlan :: "StorageMutationPlan \<Rightarrow> ('st, StorageMutationPlan) act" where
  "publishStoragePlan plan s =
    (case sv_store s of
       None \<Rightarrow> (Inr plan, s)
     | Some store \<Rightarrow>
         if smp_Duplicate plan then (Inr plan, s)
         else andDo (on_store (os_PublishEvent store (smp_Event plan)))
                (\<lambda>event. ok (StorageMutationPlan_WithEvent plan event)) s)"

subsection \<open>Replies\<close>

definition runtimeErrorMessage :: "string \<Rightarrow> Code \<Rightarrow> message_text \<Rightarrow> outboundMessage" where
  "runtimeErrorMessage requestID code message =
    no_outbound\<lparr>om_T := ''ERROR'', om_ID := requestID,
      om_Payload := ErrorPayload \<lparr>ae_Code = code, ae_Message = message, ae_RequestID = requestID\<rparr>\<rparr>"

definition storageErrorMessage :: "'st Service \<Rightarrow> string \<Rightarrow> room_id \<Rightarrow> go_error \<Rightarrow> outboundMessage" where
  "storageErrorMessage s requestID room err =
    (if errors_Is err (\<lambda>e. e = ErrEngine (ErrCluster ErrStorageNotFound))
     then runtimeErrorMessage requestID CodeStorageNotFound (Text ''storage document not found'')
     else if errors_Is err (\<lambda>e. e = ErrEngine (ErrCluster ErrStorageConflict))
     then
       (let outbound = runtimeErrorMessage requestID CodeStorageConflict (Error_of err) in
        case getStorageSnapshot s room of
          Inl _ \<Rightarrow> outbound
        | Inr (document, sequence) \<Rightarrow>
            outbound\<lparr>om_Room := room,
              om_Payload := ConflictPayload \<lparr>ae_Code = CodeStorageConflict, ae_Message = Error_of err,
                ae_RequestID = requestID\<rparr> room document sequence\<rparr>)
     else if errors_Is err is_storage_patch
     then runtimeErrorMessage requestID CodePatchFailed (Error_of err)
     else runtimeErrorMessage requestID CodeInternal (Error_of err))"

definition storageAckMessage :: "Message \<Rightarrow> string \<Rightarrow> bytes \<Rightarrow> u64 \<Rightarrow> outboundMessage" where
  "storageAckMessage message kind document sequence =
    no_outbound\<lparr>om_T := ''STORAGE_ACK'', om_ID := mg_ID message, om_Room := mg_Room message,
      om_Payload := AckPayload kind (storageOpID message) document,
      om_Meta := (if sequence > 0 then [(''seq'', MetaSeq sequence)] else [])\<rparr>"

subsection \<open>Patch payloads\<close>

text \<open>
  The decoder refuses unknown fields, reads one value and leaves what follows it. Of the
  elements it is enough to know the fields: an element starts from the zero operation, since
  the slice of the decoder is new.
\<close>

definition known_fields :: "string \<Rightarrow> bool" where
  "known_fields t =
    (case parse_json t of
       Some (SObj _) \<Rightarrow>
         (case object_fields t of
            None \<Rightarrow> False
          | Some fs \<Rightarrow> list_all (\<lambda>(k, _). field_of [''op'', ''path'', ''from'', ''value''] k \<noteq> None) fs)
     | _ \<Rightarrow> True)"

definition decode_strict_operations :: "bytes \<Rightarrow> JSONPatchOperation list option" where
  "decode_strict_operations payload =
    (case raw_value max_nesting (skip_ws payload) of
       None \<Rightarrow> None
     | Some (t, _) \<Rightarrow>
         (case decode_operations [] t of
            None \<Rightarrow> None
          | Some (operations, _) \<Rightarrow>
              (case parse_json t of
                 Some (SArr _) \<Rightarrow>
                   (case array_elems t of
                      None \<Rightarrow> None
                    | Some ts \<Rightarrow> if list_all known_fields ts then Some operations else None)
               | _ \<Rightarrow> Some operations)))"

definition patch_ops :: "string list" where
  "patch_ops = [''add'', ''remove'', ''replace'', ''test'', ''copy'', ''move'']"

fun check_patch_operations :: "JSONPatchOperation list \<Rightarrow> ParseError option" where
  "check_patch_operations [] = None"
| "check_patch_operations (operation # operations) =
    (if po_Op operation = []
     then Some \<lparr>pse_Code = CodeBadRequest, pse_Message = ''storage patch operation requires op''\<rparr>
     else if po_Op operation \<notin> set patch_ops
     then Some \<lparr>pse_Code = CodePatchFailed, pse_Message = ''unsupported storage patch operation''\<rparr>
     else if po_Path operation = [] \<and> po_Op operation = ''remove''
     then Some \<lparr>pse_Code = CodePatchFailed, pse_Message = ''removing storage root is not supported''\<rparr>
     else check_patch_operations operations)"

definition decodeStoragePatchPayload :: "bytes \<Rightarrow> ParseError + JSONPatchOperation list" where
  "decodeStoragePatchPayload payload =
    (case decode_strict_operations payload of
       None \<Rightarrow> Inl \<lparr>pse_Code = CodeBadRequest,
                 pse_Message = ''storage patch must be a valid JSON Patch array''\<rparr>
     | Some operations \<Rightarrow>
         if operations = [] \<or> len operations > maxStoragePatchOperations
         then Inl \<lparr>pse_Code = CodeBadRequest,
                pse_Message = ''storage patch must contain 1-100 operations''\<rparr>
         else case check_patch_operations operations of
                Some err \<Rightarrow> Inl err
              | None \<Rightarrow> Inr operations)"

subsection \<open>Handlers\<close>

definition claims_of :: "'st Service \<Rightarrow> conn_id \<Rightarrow> Claims option" where
  "claims_of s connID = (case fmlookup (sv_conns s) connID of None \<Rightarrow> None | Some c \<Rightarrow> cc_claims c)"

definition storage_forbidden :: "Message \<Rightarrow> outboundMessage" where
  "storage_forbidden message =
    runtimeErrorMessage (mg_ID message) CodeRoomForbidden (Text ''room storage is not permitted'')"

definition handleStorageGet :: "conn_id \<Rightarrow> Message \<Rightarrow> ('st, unit) act" where
  "handleStorageGet connID message s =
    (if \<not> allowsRoomAction s (claims_of s connID) ''storage:read'' (mg_Room message)
     then enqueue connID (storage_forbidden message) s
     else case getStorageSnapshot s (mg_Room message) of
            Inl err \<Rightarrow> enqueue connID (storageErrorMessage s (mg_ID message) (mg_Room message) err) s
          | Inr (document, sequence) \<Rightarrow>
              enqueue connID (no_outbound\<lparr>om_T := ''STORAGE_SNAPSHOT'', om_ID := mg_ID message,
                om_Room := mg_Room message, om_Payload := DocumentPayload document,
                om_Meta := (if sequence > 0 then [(''seq'', MetaSeq sequence)] else [])\<rparr>)
                (recordConnUsage connID (mg_Room message) ''storage.get'' 1 s))"

text \<open>What the handlers of set and patch do with the plan or the error of the write.\<close>

definition finish_storage_write ::
  "conn_id \<Rightarrow> Message \<Rightarrow> string \<Rightarrow> ('st, StorageMutationPlan) act \<Rightarrow> ('st, unit) act" where
  "finish_storage_write connID message metric write s =
    (case andDo write publishStoragePlan s of
       (Inl err, s) \<Rightarrow> enqueue connID (storageErrorMessage s (mg_ID message) (mg_Room message) err) s
     | (Inr plan, s) \<Rightarrow>
         andDo (if smp_Duplicate plan then ok () else broadcastStorageFanout (smp_Fanout plan)) (\<lambda>_ s.
           enqueue connID (storageAckMessage message (sm_Kind (smp_Mutation plan))
               (sm_Document (smp_Mutation plan)) (sf_Sequence (smp_Fanout plan)))
             (recordConnUsage connID (mg_Room message) metric 1 s)) s)"

definition handleStorageSet :: "conn_id \<Rightarrow> Message \<Rightarrow> ('st, unit) act" where
  "handleStorageSet connID message s =
    (if \<not> allowsRoomAction s (claims_of s connID) ''storage:write'' (mg_Room message)
     then enqueue connID (storage_forbidden message) s
     else finish_storage_write connID message ''storage.set''
            (setStorageMutationPlan (mg_Room message) (mg_Payload message)
               (mutation_options s connID message) (storage_event_options s connID)) s)"

definition handleStoragePatch :: "conn_id \<Rightarrow> Message \<Rightarrow> ('st, unit) act" where
  "handleStoragePatch connID message s =
    (if \<not> allowsRoomAction s (claims_of s connID) ''storage:write'' (mg_Room message)
     then enqueue connID (storage_forbidden message) s
     else case decodeStoragePatchPayload (mg_Payload message) of
            Inl err \<Rightarrow>
              enqueue connID (runtimeErrorMessage (mg_ID message) (pse_Code err) (Text (pse_Message err))) s
          | Inr operations \<Rightarrow>
              finish_storage_write connID message ''storage.patch''
                (applyStoragePatchMutationPlan (mg_Room message) operations
                   (mutation_options s connID message) (storage_event_options s connID)) s)"

end
