(* ===== verification/Runtime_Handlers.thy ===== *)
theory Runtime_Handlers
  imports Runtime_Storage
begin

text \<open>
  The handlers of the messages of a client, and their dispatch. A handler runs without
  another one in between; its error ends the connection.
\<close>

subsection \<open>Joining\<close>

definition defaultJoinLimit :: int where "defaultJoinLimit = 100"
definition eventCatchupMaxEvents :: int where "eventCatchupMaxEvents = 1000"

definition joinReplayExcludedEventNames :: "string list" where
  "joinReplayExcludedEventNames = [EventStorageUpdate, NotificationInboxCreated, NotificationInboxRead,
     NotificationInboxDeleted, NotificationInboxDeletedAll]"

definition snapshotPageOptions :: "JoinMeta option \<Rightarrow> SnapshotPageOptions" where
  "snapshotPageOptions joinMeta =
    (case joinMeta of
       None \<Rightarrow> \<lparr>so_Limit = defaultJoinLimit, so_Cursor = []\<rparr>
     | Some m \<Rightarrow> \<lparr>so_Limit = (if jm_Limit m > 0 then jm_Limit m else defaultJoinLimit),
                  so_Cursor = jm_Cursor m\<rparr>)"

definition joinPlanOptions :: "conn_id \<Rightarrow> JoinMeta option \<Rightarrow> JoinPlanOptions" where
  "joinPlanOptions connID joinMeta =
    \<lparr>jpo_SnapshotPage = snapshotPageOptions joinMeta,
     jpo_Replay = \<lparr>jo_AfterSequence = (case joinMeta of None \<Rightarrow> 0 | Some m \<Rightarrow> jm_AfterSequence m),
       jo_MaxEvents = eventCatchupMaxEvents, jo_ExcludeConnID = connID,
       jo_ExcludedEventNames = joinReplayExcludedEventNames\<rparr>\<rparr>"

text \<open>The store, the subject and the interface that durable acknowledgements need.\<close>

definition ack_store :: "'st Service \<Rightarrow> conn_id \<Rightarrow> ('st EventAckStore \<times> string) option" where
  "ack_store s connID =
    (case (sv_store s, claims_of s connID) of
       (Some store, Some c) \<Rightarrow>
         if cl_Subject c = [] then None else map_option (\<lambda>a. (a, cl_Subject c)) (os_EventAcks store)
     | _ \<Rightarrow> None)"

definition durableRoomEventAck :: "'st Service \<Rightarrow> conn_id \<Rightarrow> room_id \<Rightarrow> go_error + u64" where
  "durableRoomEventAck s connID room =
    (case ack_store s connID of
       None \<Rightarrow> Inr 0
     | Some (acks, subject) \<Rightarrow> ea_GetRoomEventAck acks (sv_storeState s) room subject)"

definition persistRoomEventAck :: "conn_id \<Rightarrow> room_id \<Rightarrow> u64 \<Rightarrow> ('st, unit) act" where
  "persistRoomEventAck connID room sequence s =
    (case ack_store s connID of
       None \<Rightarrow> (Inr (), s)
     | Some (acks, subject) \<Rightarrow> on_store (ea_SetRoomEventAck acks room subject sequence) s)"

definition resume_cursor :: "'st Service \<Rightarrow> conn_id \<Rightarrow> room_id \<Rightarrow> u64" where
  "resume_cursor s connID room =
    (case fmlookup (sv_conns s) connID of
       None \<Rightarrow> 0
     | Some c \<Rightarrow> (case cc_resumeSession c of None \<Rightarrow> 0 | Some rec \<Rightarrow> gm_u64 (rsr_RoomCursors rec) room))"

definition joinMetaWithDurableEventAck ::
  "'st Service \<Rightarrow> conn_id \<Rightarrow> room_id \<Rightarrow> JoinMeta option \<Rightarrow> go_error + JoinMeta option" where
  "joinMetaWithDurableEventAck s connID room joinMeta =
    (case durableRoomEventAck s connID room of
       Inl err \<Rightarrow> Inl err
     | Inr durable \<Rightarrow>
         (let resume = resume_cursor s connID room;
              durable = (if resume > durable then resume else durable);
              after = (case joinMeta of None \<Rightarrow> 0 | Some m \<Rightarrow> jm_AfterSequence m)
          in if durable = 0 then Inr joinMeta
             else if durable \<le> after then Inr joinMeta
             else case joinMeta of
                    None \<Rightarrow> Inr (Some \<lparr>jm_Limit = 0, jm_Cursor = [], jm_AfterSequence = durable\<rparr>)
                  | Some m \<Rightarrow> Inr (Some (m\<lparr>jm_AfterSequence := durable\<rparr>))))"

definition applyRoomMembershipMutation :: "MembershipMutation option \<Rightarrow> ('st, unit) act" where
  "applyRoomMembershipMutation mutation s =
    (case (mutation, sv_store s) of
       (Some m, Some store) \<Rightarrow>
         if mm_Kind m = MembershipMutationJoin then on_store (os_JoinRoom store (mm_ConnID m) (mm_Room m)) s
         else if mm_Kind m = MembershipMutationLeave
         then on_store (os_LeaveRoom store (mm_ConnID m) (mm_Room m)) s
         else (Inl (ErrText ''invalid room membership mutation kind''), s)
     | _ \<Rightarrow> (Inr (), s))"

definition snapshotStoreRoomWithPlan ::
  "'st Service \<Rightarrow> 'st Store \<Rightarrow> room_id \<Rightarrow> JoinPlan \<Rightarrow> go_error + SnapshotPage" where
  "snapshotStoreRoomWithPlan s store room plan =
    (case os_SnapshotRoom store (sv_storeState s) room of
       Inl err \<Rightarrow> Inl err
     | Inr snap \<Rightarrow> Inr (JoinPlan_SnapshotPage plan snap))"

definition snapshotJoinedRoom :: "'st Service \<Rightarrow> room_id \<Rightarrow> JoinPlan \<Rightarrow> go_error + SnapshotPage" where
  "snapshotJoinedRoom s room plan =
    (case sv_store s of
       Some store \<Rightarrow> snapshotStoreRoomWithPlan s store room plan
     | None \<Rightarrow> Inr (JoinPlan_LocalSnapshotPage plan))"

definition snapshotRoom :: "'st Service \<Rightarrow> room_id \<Rightarrow> JoinMeta option \<Rightarrow> go_error + SnapshotPage" where
  "snapshotRoom s room joinMeta =
    (case sv_store s of
       Some store \<Rightarrow> snapshotStoreRoomWithPlan s store room
         (NewJoinPlan \<lparr>jr_AlreadyJoined = False, jr_Snapshot = \<lparr>sn_Members = [], sn_Presence = fmempty\<rparr>,
            jr_MembershipMutation = None\<rparr>
           \<lparr>jpo_SnapshotPage = snapshotPageOptions joinMeta,
            jpo_Replay = \<lparr>jo_AfterSequence = 0, jo_MaxEvents = 0, jo_ExcludeConnID = [],
              jo_ExcludedEventNames = []\<rparr>\<rparr>)
     | None \<Rightarrow> Inr (PageSnapshot (Snapshot (sv_rooms s) room) (snapshotPageOptions joinMeta)))"

definition replayablePublishedEvents ::
  "'st Service \<Rightarrow> room_id \<Rightarrow> JoinPlan \<Rightarrow> go_error + PublishedEvent list" where
  "replayablePublishedEvents s room plan =
    (case (sv_store s, JoinPlan_ReplayLogRequest plan) of
       (Some store, (afterSequence, maxEvents, True)) \<Rightarrow>
         (case os_ListPublishedEvents store (sv_storeState s) room afterSequence maxEvents of
            Inl err \<Rightarrow> Inl err
          | Inr events \<Rightarrow> Inr (JoinPlan_ReplayEvents plan events))
     | _ \<Rightarrow> Inr [])"

fun sendReplayEvents :: "conn_id \<Rightarrow> PublishedEvent list \<Rightarrow> ('st, unit) act" where
  "sendReplayEvents connID [] = ok ()"
| "sendReplayEvents connID (event # events) =
    andDo (enqueue connID (eventOutboundMessage event)) (\<lambda>_. sendReplayEvents connID events)"

definition reply :: "Message \<Rightarrow> Code \<Rightarrow> string \<Rightarrow> outboundMessage" where
  "reply message code msg = runtimeErrorMessage (mg_ID message) code (Text msg)"

text \<open>What follows a join that the engine has accepted.\<close>

definition finish_join :: "conn_id \<Rightarrow> Message \<Rightarrow> JoinPlan \<Rightarrow> ('st, unit) act" where
  "finish_join connID message joinPlan s =
    (let room = mg_Room message;
         s = (if JoinPlan_AlreadyJoined joinPlan then s else recordJoin s)
     in andDo (applyRoomMembershipMutation (JoinPlan_MembershipMutation joinPlan)) (\<lambda>_.
        andDo (reading (\<lambda>s. snapshotJoinedRoom s room joinPlan)) (\<lambda>page.
        andDo (reading (\<lambda>s. replayablePublishedEvents s room joinPlan)) (\<lambda>events.
        andDo (enqueue connID (no_outbound\<lparr>om_T := ''JOINED'', om_ID := mg_ID message, om_Room := room,
                 om_Payload := PagePayload page\<rparr>)) (\<lambda>_.
        andDo (modify (recordConnUsage connID room ''room.joins'' 1)) (\<lambda>_.
        andDo (touchResumeSessionRoom connID room) (\<lambda>_.
        sendReplayEvents connID events)))))) s)"

definition handleJoin :: "conn_id \<Rightarrow> Message \<Rightarrow> ('st, unit) act" where
  "handleJoin connID message s =
    (if \<not> allowsRoomAction s (claims_of s connID) ''join'' (mg_Room message)
     then enqueue connID (reply message CodeRoomForbidden ''room join is not permitted'') s
     else case joinMetaWithDurableEventAck s connID (mg_Room message) (mg_JoinMeta message) of
       Inl err \<Rightarrow> (Inl err, s)
     | Inr joinMeta \<Rightarrow>
         (case on_engine (\<lambda>e. JoinWithLimits e connID (mg_Room message)
                 \<lparr>jl_RoomsPerConnection = li_RoomsPerConnection (cfg_Limits (sv_cfg s)),
                  jl_RoomConnections = li_RoomConnections (cfg_Limits (sv_cfg s))\<rparr>) s of
            (Inl err, s) \<Rightarrow>
              if errors_Is err (\<lambda>e. e = ErrEngine ErrRoomLimitExceeded)
              then enqueue connID (reply message CodeBadRequest ''maximum rooms per connection exceeded'') s
              else if errors_Is err (\<lambda>e. e = ErrEngine ErrRoomCapacityExceeded)
              then enqueue connID (reply message CodeRoomCapacity ''room capacity exceeded'') s
              else (Inl err, s)
          | (Inr joinResult, s) \<Rightarrow>
              finish_join connID message (NewJoinPlan joinResult (joinPlanOptions connID joinMeta)) s))"

subsection \<open>Leaving\<close>

definition node_origin :: "'st Service \<Rightarrow> PresenceEventOptions" where
  "node_origin s = \<lparr>pro_OriginNode = cfg_NodeID (sv_cfg s)\<rparr>"

definition apply_leave :: "LeavePlan \<Rightarrow> 'st Service \<Rightarrow> 'st Service" where
  "apply_leave plan s = s\<lparr>sv_rooms := snd (ApplyLeavePlan (sv_rooms s) plan)\<rparr>"

definition handleLeave :: "conn_id \<Rightarrow> Message \<Rightarrow> ('st, unit) act" where
  "handleLeave connID message s =
    (let room = mg_Room message;
         plan = NewLeavePlan (sv_rooms s) connID room (node_origin s)
     in andDo (applyRoomMembershipMutation (lp_MembershipMutation plan)) (\<lambda>_.
        andDo
          (if \<not> lp_Left plan then ok ()
           else andDo
             (case lp_PresenceFanout plan of
                Some fanout \<Rightarrow>
                  andDo (publishPresenceFanout fanout) (\<lambda>_.
                  andDo (modify (apply_leave plan)) (\<lambda>_. broadcastPresenceFanout fanout))
              | None \<Rightarrow> modify (apply_leave plan))
             (\<lambda>_. modify (\<lambda>s. recordConnUsage connID room ''room.leaves'' 1 (recordLeave s))))
          (\<lambda>_. enqueue connID (no_outbound\<lparr>om_T := ''LEFT'', om_ID := mg_ID message, om_Room := room\<rparr>))) s)"

subsection \<open>Events\<close>

definition publish_event :: "PublishedEvent \<Rightarrow> ('st, PublishedEvent) act" where
  "publish_event event s =
    (case sv_store s of
       None \<Rightarrow> (Inr event, s) | Some store \<Rightarrow> on_store (os_PublishEvent store event) s)"

definition handleEmit :: "conn_id \<Rightarrow> Message \<Rightarrow> ('st, unit) act" where
  "handleEmit connID message s =
    (if \<not> allowsRoomAction s (claims_of s connID) ''publish'' (mg_Room message)
     then enqueue connID (reply message CodeRoomForbidden ''room publish is not permitted'') s
     else case allow_emit connID s of
       (False, s) \<Rightarrow> enqueue connID (reply message CodeRateLimited ''emit rate limit exceeded'') s
     | (True, s) \<Rightarrow>
         (let traceID = (case mg_EmitMeta message of None \<Rightarrow> [] | Some m \<Rightarrow> em_TraceID m);
              event = NewEvent (mg_Room message) (mg_Event message) (mg_Payload message)
                \<lparr>eo_OriginNode = cfg_NodeID (sv_cfg s), eo_TraceID = traceID, eo_ExcludeSenderConnID = []\<rparr>
          in andDo (publish_event event) (\<lambda>event.
             andDo (broadcastEvent event True) (\<lambda>_.
             modify (recordConnUsage connID (mg_Room message) ''events.emitted'' 1))) s))"

definition acknowledge :: "conn_id \<Rightarrow> room_id \<Rightarrow> u64 \<Rightarrow> 'st Service \<Rightarrow> bool \<times> 'st Service" where
  "acknowledge connID room sequence s =
    (case AcknowledgeEvent (sv_rooms s) connID room sequence of (done, e) \<Rightarrow> (done, s\<lparr>sv_rooms := e\<rparr>))"

definition handleEventAck :: "conn_id \<Rightarrow> Message \<Rightarrow> ('st, unit) act" where
  "handleEventAck connID message s =
    (case mg_EventAckMeta message of
       None \<Rightarrow> enqueue connID (reply message CodeBadRequest ''event ack sequence is required'') s
     | Some meta \<Rightarrow>
         (let room = mg_Room message; sequence = am_Sequence meta in
          case acknowledge connID room sequence s of
            (False, s) \<Rightarrow> enqueue connID (reply message CodeRoomForbidden ''event ack requires joined room'') s
          | (True, s) \<Rightarrow>
              andDo (persistRoomEventAck connID room sequence) (\<lambda>_.
              andDo (persistResumeSessionCursor connID room sequence) (\<lambda>_.
              andDo (modify (recordConnUsage connID room ''events.acked'' 1)) (\<lambda>_.
              enqueue connID (no_outbound\<lparr>om_T := ''EVENT_ACKED'', om_ID := mg_ID message,
                om_Room := room, om_Meta := [(''seq'', MetaSeq sequence)]\<rparr>)))) s))"

subsection \<open>Presence\<close>

text \<open>The handler asks for the permission but not for the membership in the room.\<close>

definition handlePresence :: "conn_id \<Rightarrow> Message \<Rightarrow> ('st, unit) act" where
  "handlePresence connID message s =
    (if \<not> allowsRoomAction s (claims_of s connID) ''presence'' (mg_Room message)
     then enqueue connID (reply message CodeRoomForbidden ''room presence is not permitted'') s
     else
       (let room = mg_Room message;
            fanout = NewPresenceSetPlan (sv_rooms s) connID room (mg_Payload message) (node_origin s)
        in andDo (case sv_store s of
                    None \<Rightarrow> ok ()
                  | Some store \<Rightarrow> on_store (os_SetPresence store connID room (mg_Payload message))) (\<lambda>_.
           andDo (publishPresenceFanout fanout) (\<lambda>_ s.
             case ApplyPresenceSetPlan (sv_rooms s) fanout of
               (fanout, e) \<Rightarrow>
                 andDo (broadcastPresenceFanout fanout) (\<lambda>_.
                 modify (\<lambda>s. recordConnUsage connID room ''presence.upserted'' 1 (recordPresenceUpdate s)))
                 (s\<lparr>sv_rooms := e\<rparr>))) s))"

subsection \<open>Dispatch\<close>

text \<open>
  A parse error loses the id of the message, since the parser returns an empty message. A
  connection always has claims; without them \<open>tenantPrefix\<close> of the code panics, which ends
  the connection like an error.
\<close>

definition handler_for :: "string \<Rightarrow> conn_id \<Rightarrow> Message \<Rightarrow> ('st, unit) act" where
  "handler_for t =
    (if t = TypeJoin then handleJoin else if t = TypeLeave then handleLeave
     else if t = TypeEmit then handleEmit else if t = TypeEventAck then handleEventAck
     else if t = TypePresenceSet then handlePresence else if t = TypeStorageGet then handleStorageGet
     else if t = TypeStorageSet then handleStorageSet else handleStoragePatch)"

definition handleClientMessage :: "conn_id \<Rightarrow> bytes \<Rightarrow> ('st, unit) act" where
  "handleClientMessage connID payload s =
    (let limits = cfg_Limits (sv_cfg s) in
     case claims_of s connID of
       None \<Rightarrow> (Inl (ErrText ''no claims''), s)
     | Some claims \<Rightarrow>
         (case ParseClientMessage payload
                 \<lparr>pao_MaxEnvelopeBytes = li_EnvelopeMaxBytes limits,
                  pao_MaxPayloadBytes = li_PayloadMaxBytes limits,
                  pao_TenantPrefix = tenantPrefix (sv_cfg s) claims\<rparr> of
            Inl err \<Rightarrow>
              enqueue connID (no_outbound\<lparr>om_T := ''ERROR'', om_Payload :=
                ErrorPayload \<lparr>ae_Code = pse_Code err, ae_Message = Text (pse_Message err), ae_RequestID = []\<rparr>\<rparr>) s
          | Inr message \<Rightarrow> handler_for (mg_Type message) connID message s))"

end
