(* ===== verification/Go_Json_Values.thy ===== *)
theory Go_Json_Values
  imports Go_Json_Struct Go_Time
begin

text \<open>
  \<open>time.Time\<close> in JSON: a time is read from the raw text between the quotes; null leaves the
  time as it is.

  \<open>base64.StdEncoding\<close>, in which \<open>encoding/json\<close> writes and reads byte slices: four
  characters for three bytes, padded with \<open>=\<close>; carriage returns and line feeds are skipped.
\<close>

definition unmarshal_time :: "string \<Rightarrow> int option option" where
  "unmarshal_time t =
    (case parse_json t of
       Some SNull \<Rightarrow> Some None
     | Some (SStr raw) \<Rightarrow> map_option Some (parse_time raw)
     | _ \<Rightarrow> None)"

definition decode_time :: "int \<Rightarrow> string \<Rightarrow> int option" where
  "decode_time old t = assign old (unmarshal_time t)"

definition std_char :: "nat \<Rightarrow> char" where
  "std_char n =
    (if n < 26 then chr (0x41 + n)
     else if n < 52 then chr (0x61 + (n - 26))
     else if n < 62 then chr (0x30 + (n - 52))
     else if n = 62 then CHR ''+'' else CHR 0x2F)"

definition std_value :: "char \<Rightarrow> nat option" where
  "std_value c =
    (if in_range 0x41 0x5A c then Some (byte c - 0x41)
     else if in_range 0x61 0x7A c then Some (byte c - 0x61 + 26)
     else if in_range 0x30 0x39 c then Some (byte c - 0x30 + 52)
     else if c = CHR ''+'' then Some 62
     else if c = CHR 0x2F then Some 63
     else None)"

fun base64_encode :: "bytes \<Rightarrow> string" where
  "base64_encode [] = []"
| "base64_encode [x] = [std_char (byte x div 4), std_char (byte x mod 4 * 16), CHR ''='', CHR ''='']"
| "base64_encode [x, y] =
    [std_char (byte x div 4), std_char (byte x mod 4 * 16 + byte y div 16), std_char (byte y mod 16 * 4), CHR ''='']"
| "base64_encode (x # y # z # r) =
    std_char (byte x div 4) # std_char (byte x mod 4 * 16 + byte y div 16)
      # std_char (byte y mod 16 * 4 + byte z div 64) # std_char (byte z mod 64) # base64_encode r"

text \<open>The bytes of a group of two, three or four values.\<close>

definition group2 :: "nat \<Rightarrow> nat \<Rightarrow> char" where "group2 a b = chr (a * 4 + b div 16)"
definition group3 :: "nat \<Rightarrow> nat \<Rightarrow> char" where "group3 b c = chr ((b mod 16) * 16 + c div 4)"
definition group4 :: "nat \<Rightarrow> nat \<Rightarrow> char" where "group4 c d = chr ((c mod 4) * 64 + d)"

fun base64_groups :: "string \<Rightarrow> bytes option" where
  "base64_groups (a # b # c # d # r) =
    (case (std_value a, std_value b) of
       (Some va, Some vb) \<Rightarrow>
         (if d = CHR ''='' then
            (if r \<noteq> [] then None
             else if c = CHR ''='' then Some [group2 va vb]
             else map_option (\<lambda>vc. [group2 va vb, group3 vb vc]) (std_value c))
          else
            (case (std_value c, std_value d) of
               (Some vc, Some vd) \<Rightarrow>
                 map_option (\<lambda>bs. group2 va vb # group3 vb vc # group4 vc vd # bs) (base64_groups r)
             | _ \<Rightarrow> None))
     | _ \<Rightarrow> None)"
| "base64_groups [] = Some []"
| "base64_groups s = None"

definition base64_decode :: "string \<Rightarrow> bytes option" where
  "base64_decode s = base64_groups (filter (\<lambda>c. c \<noteq> CHR 0x0A \<and> c \<noteq> CHR 0x0D) s)"

text \<open>A byte slice in JSON; the nil slice is null.\<close>

definition bytes_text :: "bytes \<Rightarrow> string" where
  "bytes_text b = (if b = [] then ''null'' else quote_text (base64_encode b))"

definition unmarshal_bytes :: "string \<Rightarrow> bytes option" where
  "unmarshal_bytes t =
    (case parse_json t of
       Some SNull \<Rightarrow> Some []
     | Some (SStr raw) \<Rightarrow> base64_decode (unquote raw)
     | _ \<Rightarrow> None)"

subsection \<open>Round trip\<close>

lemma std_char_value:
  assumes "n < 64"
  shows "std_value (std_char n) = Some n" "0x2A < byte (std_char n)" "byte (std_char n) < 0x80"
    "std_char n \<noteq> CHR ''=''"
proof -
  have b: "byte (std_char n) =
    (if n < 26 then 0x41 + n else if n < 52 then 0x61 + (n - 26) else if n < 62 then 0x30 + (n - 52)
     else if n = 62 then 0x2B else 0x2F)"
    by (simp add: std_char_def byte_def chr_def)
  have "n = 62 \<or> n = 63" if "\<not> n < 62" using assms that by auto
  then show "std_value (std_char n) = Some n" unfolding std_value_def in_range_def b
    by (auto simp: std_char_def chr_def)
  show "0x2A < byte (std_char n)" "byte (std_char n) < 0x80" using b by auto
  have "byte (std_char n) \<noteq> 0x3D" using b by auto
  then show "std_char n \<noteq> CHR ''=''" by (auto simp: byte_def)
qed

lemma byte_parts: "byte x div 4 < 64" "byte x mod 4 * 16 + byte y div 16 < 64"
  "byte y mod 16 * 4 + byte z div 64 < 64" "byte z mod 64 < 64" "byte x mod 4 * 16 < 64" "byte y mod 16 * 4 < 64"
proof -
  have x: "byte x < 256" and y: "byte y < 256" and z: "byte z < 256" by simp_all
  show "byte x div 4 < 64" using x by (simp add: less_mult_imp_div_less)
  have "byte x mod 4 < 4" "byte y div 16 < 16" using y by (simp_all add: less_mult_imp_div_less)
  then show "byte x mod 4 * 16 + byte y div 16 < 64" "byte x mod 4 * 16 < 64" by linarith+
  have "byte y mod 16 < 16" "byte z div 64 < 4" using z by (simp_all add: less_mult_imp_div_less)
  then show "byte y mod 16 * 4 + byte z div 64 < 64" "byte y mod 16 * 4 < 64" by linarith+
qed simp

lemma groups_of_bytes:
  "group2 (byte x div 4) (byte x mod 4 * 16) = x"
  "group2 (byte x div 4) (byte x mod 4 * 16 + byte y div 16) = x"
  "group3 (byte x mod 4 * 16 + byte y div 16) (byte y mod 16 * 4) = y"
  "group3 (byte x mod 4 * 16 + byte y div 16) (byte y mod 16 * 4 + byte z div 64) = y"
  "group4 (byte y mod 16 * 4 + byte z div 64) (byte z mod 64) = z"
proof -
  have "byte y < 256" "byte z < 256" by simp_all
  then have y: "byte y div 16 < 16" and z: "byte z div 64 < 4" by (simp_all add: less_mult_imp_div_less)
  have m: "(a * 16 + b) mod 16 = b" "(a * 16 + b) div 16 = a" if "b < 16" for a b :: nat
    using that by simp_all
  have q: "(a * 4 + b) mod 4 = b" "(a * 4 + b) div 4 = a" if "b < 4" for a b :: nat
    using that by simp_all
  show "group2 (byte x div 4) (byte x mod 4 * 16) = x" by (simp add: group2_def)
  show "group2 (byte x div 4) (byte x mod 4 * 16 + byte y div 16) = x"
    using m(2) [OF y, of "byte x mod 4"] by (simp add: group2_def)
  show "group3 (byte x mod 4 * 16 + byte y div 16) (byte y mod 16 * 4) = y"
    using m(1) [OF y, of "byte x mod 4"] by (simp add: group3_def)
  show "group3 (byte x mod 4 * 16 + byte y div 16) (byte y mod 16 * 4 + byte z div 64) = y"
    using m(1) [OF y, of "byte x mod 4"] q(2) [OF z, of "byte y mod 16"] by (simp add: group3_def)
  show "group4 (byte y mod 16 * 4 + byte z div 64) (byte z mod 64) = z"
    using q(1) [OF z, of "byte y mod 16"] by (simp add: group4_def)
qed

lemma base64_encode_plain: "c \<in> set (base64_encode s) \<Longrightarrow> 0x2A < byte c \<and> byte c < 0x80"
proof (induction s rule: base64_encode.induct)
  case (4 x y z r)
  then show ?case using std_char_value(2,3) byte_parts by auto
qed (use std_char_value(2,3) byte_parts in \<open>auto simp: byte_def\<close>)

lemma base64_groups_encode: "base64_groups (base64_encode s) = Some s"
  by (induction s rule: base64_encode.induct)
    (simp_all add: std_char_value byte_parts groups_of_bytes)

theorem base64_round_trip: "base64_decode (base64_encode s) = Some s"
proof -
  have "filter (\<lambda>c. c \<noteq> CHR 0x0A \<and> c \<noteq> CHR 0x0D) (base64_encode s) = base64_encode s"
    by (intro filter_True ballI) (use base64_encode_plain in \<open>fastforce simp: byte_def\<close>)
  then show ?thesis by (simp add: base64_decode_def base64_groups_encode)
qed

end
