(* ===== verification/Runtime_Cluster.thy ===== *)
theory Runtime_Cluster
  imports Runtime_Handlers Go_Json_Values
begin

text \<open>
  Events of the other nodes, Yjs documents and the frames of Yjs connections.
\<close>

subsection \<open>Notification payloads\<close>

definition no_notification :: InboxNotificationRecord where
  "no_notification = \<lparr>in_ID = [], in_UserID = [], in_Kind = [], in_SubjectID = [], in_ThreadID = [],
     in_RoomID = [], in_ReadAt = None, in_NotifiedAt = zero_time, in_ActivityData = []\<rparr>"

definition decode_notification_field ::
  "InboxNotificationRecord \<Rightarrow> string \<Rightarrow> string \<Rightarrow> InboxNotificationRecord option" where
  "decode_notification_field rec n t =
    (let str = (\<lambda>old. assign old (unmarshal_string t)) in
     if n = ''id'' then map_option (\<lambda>v. rec\<lparr>in_ID := v\<rparr>) (str (in_ID rec))
     else if n = ''userId'' then map_option (\<lambda>v. rec\<lparr>in_UserID := v\<rparr>) (str (in_UserID rec))
     else if n = ''kind'' then map_option (\<lambda>v. rec\<lparr>in_Kind := v\<rparr>) (str (in_Kind rec))
     else if n = ''subjectId'' then map_option (\<lambda>v. rec\<lparr>in_SubjectID := v\<rparr>) (str (in_SubjectID rec))
     else if n = ''threadId'' then map_option (\<lambda>v. rec\<lparr>in_ThreadID := v\<rparr>) (str (in_ThreadID rec))
     else if n = ''roomId'' then map_option (\<lambda>v. rec\<lparr>in_RoomID := v\<rparr>) (str (in_RoomID rec))
     else if n = ''readAt'' then map_option (\<lambda>v. rec\<lparr>in_ReadAt := v\<rparr>) (unmarshal_time t)
     else if n = ''notifiedAt''
     then map_option (\<lambda>v. rec\<lparr>in_NotifiedAt := v\<rparr>) (assign (in_NotifiedAt rec) (unmarshal_time t))
     else Some (rec\<lparr>in_ActivityData := t\<rparr>))"

definition notification_names :: "string list" where
  "notification_names = [''id'', ''userId'', ''kind'', ''subjectId'', ''threadId'', ''roomId'', ''readAt'',
     ''notifiedAt'', ''activityData'']"

fun decode_notification_fields ::
  "InboxNotificationRecord \<Rightarrow> (string \<times> string) list \<Rightarrow> InboxNotificationRecord option" where
  "decode_notification_fields rec [] = Some rec"
| "decode_notification_fields rec ((k, t) # fs) =
    (case field_of notification_names k of
       None \<Rightarrow> decode_notification_fields rec fs
     | Some n \<Rightarrow> andT (decode_notification_field rec n t) (\<lambda>rec. decode_notification_fields rec fs))"

definition decode_notification ::
  "InboxNotificationRecord option \<Rightarrow> string \<Rightarrow> InboxNotificationRecord option option" where
  "decode_notification old t =
    (case parse_json t of
       Some SNull \<Rightarrow> Some None
     | Some (SObj _) \<Rightarrow>
         andT (object_fields t) (\<lambda>fs. map_option Some
           (decode_notification_fields (case old of None \<Rightarrow> no_notification | Some rec \<Rightarrow> rec) fs))
     | _ \<Rightarrow> None)"

fun decode_delta_fields ::
  "notificationDeltaPayload \<Rightarrow> (string \<times> string) list \<Rightarrow> notificationDeltaPayload option" where
  "decode_delta_fields d [] = Some d"
| "decode_delta_fields d ((k, t) # fs) =
    andT (case field_of [''type'', ''userId'', ''notificationId'', ''notification''] k of
            None \<Rightarrow> Some d
          | Some n \<Rightarrow>
              if n = ''type'' then map_option (\<lambda>v. d\<lparr>nd_Type := v\<rparr>) (assign (nd_Type d) (unmarshal_string t))
              else if n = ''userId''
              then map_option (\<lambda>v. d\<lparr>nd_UserID := v\<rparr>) (assign (nd_UserID d) (unmarshal_string t))
              else if n = ''notificationId''
              then map_option (\<lambda>v. d\<lparr>nd_NotificationID := v\<rparr>) (assign (nd_NotificationID d) (unmarshal_string t))
              else map_option (\<lambda>v. d\<lparr>nd_Notification := v\<rparr>) (decode_notification (nd_Notification d) t))
      (\<lambda>d. decode_delta_fields d fs)"

definition no_delta :: notificationDeltaPayload where
  "no_delta = \<lparr>nd_Type = [], nd_UserID = [], nd_NotificationID = [], nd_Notification = None\<rparr>"

definition unmarshal_delta :: "bytes \<Rightarrow> notificationDeltaPayload option" where
  "unmarshal_delta t =
    (case parse_json t of
       Some SNull \<Rightarrow> Some no_delta
     | Some (SObj _) \<Rightarrow> andT (object_fields t) (decode_delta_fields no_delta)
     | _ \<Rightarrow> None)"

subsection \<open>Events\<close>

definition broadcastNotificationDelta :: "PublishedEvent \<Rightarrow> ('st, unit) act" where
  "broadcastNotificationDelta event s =
    (case unmarshal_delta (pe_Payload event) of
       None \<Rightarrow> (Inr (), s)
     | Some delta \<Rightarrow>
         if nd_UserID delta = [] then (Inr (), s)
         else
           (let delta = (case (nd_NotificationID delta, nd_Notification delta) of
                           ([], Some rec) \<Rightarrow> delta\<lparr>nd_NotificationID := in_ID rec\<rparr>
                         | _ \<Rightarrow> delta)
            in broadcastNotificationFanout (NotificationFanout (sv_rooms s) event (nd_UserID delta)) delta s))"

definition handleClusterEvent :: "PublishedEvent \<Rightarrow> 'st Service \<Rightarrow> 'st Service" where
  "handleClusterEvent event s =
    (let plan = NewClusterEventPlan event (cfg_NodeID (sv_cfg s)) in
     case cep_Kind plan of
       ClusterEventSkip \<Rightarrow> s
     | ClusterEventNotification \<Rightarrow> ignore (broadcastNotificationDelta (cep_Event plan)) s
     | ClusterEventStorage \<Rightarrow>
         (case on_engine (\<lambda>e. RecordStorageEvent e (cep_Event plan) (li_PayloadMaxBytes (cfg_Limits (sv_cfg s)))) s of
            (Inl _, s) \<Rightarrow> s
          | (Inr storagePlan, s) \<Rightarrow> ignore (broadcastStorageFanout (smp_Fanout storagePlan)) s)
     | ClusterEventRoom \<Rightarrow> ignore (broadcastEvent (cep_Event plan) False) s)"

definition handleClusterPresence :: "PresenceEvent \<Rightarrow> 'st Service \<Rightarrow> 'st Service" where
  "handleClusterPresence event s =
    (let plan = NewClusterPresencePlan event (cfg_NodeID (sv_cfg s)) in
     if \<not> cpp_Deliver plan then s
     else ignore (broadcastPresenceFanout (PresenceFanout (sv_rooms s) (cpp_Event plan))) s)"

definition handleClusterYJSEvent :: "YJSEvent \<Rightarrow> 'st Service \<Rightarrow> 'st Service" where
  "handleClusterYJSEvent event s =
    (let plan = NewClusterYJSEventPlan event (cfg_NodeID (sv_cfg s)) in
     if \<not> cyp_Deliver plan then s else ignore (broadcastYJSEvent (cyp_Event plan)) s)"

subsection \<open>Yjs documents\<close>

definition loadYJSDocument :: "'st Service \<Rightarrow> room_id \<Rightarrow> go_error + YJSDocument" where
  "loadYJSDocument s room =
    (case sv_store s of
       Some store \<Rightarrow> os_LoadYJSDocument store (sv_storeState s) room
     | None \<Rightarrow> Inr (LoadYJSDocument (sv_rooms s) room))"

definition storeYJSEvent :: "YJSEvent \<Rightarrow> ('st, YJSEvent) act" where
  "storeYJSEvent event s =
    (case NewYJSPersistencePlan event of
       Inl err \<Rightarrow> (Inl (ErrEngine err), s)
     | Inr plan \<Rightarrow>
         (let event = ypp_Event plan in
          case sv_store s of
            Some store \<Rightarrow>
              if ypp_Mode plan = YJSPersistenceStoreSnapshot
              then andDo (on_store (os_StoreYJSSnapshot store (ye_Room event) (ye_Update event))) (\<lambda>_. ok event) s
              else andDo (on_store (os_AppendYJSUpdate store (ye_Room event) (ye_Kind event) (ye_Update event)))
                     (\<lambda>sequence. ok (YJSPersistencePlan_WithSequence plan sequence)) s
          | None \<Rightarrow> (case StoreYJSPersistence (sv_rooms s) plan of
                       (stored, e) \<Rightarrow> (Inr stored, s\<lparr>sv_rooms := e\<rparr>))))"

fun sendYJSDocument :: "conn_id \<Rightarrow> YJSFrame list \<Rightarrow> ('st, unit) act" where
  "sendYJSDocument connID [] = ok ()"
| "sendYJSDocument connID (frame # frames) =
    andDo (enqueueFrame connID (yf_Kind frame) (yf_Update frame)) (\<lambda>_. sendYJSDocument connID frames)"

definition yjsEventKindLabel :: "YJSEventKind \<Rightarrow> string" where
  "yjsEventKindLabel kind =
    (if kind = YJSEventUpdate then ''update''
     else if kind = YJSEventSnapshot then ''snapshot''
     else if kind = YJSEventStateVectorRequest then ''state-vector''
     else if kind = YJSEventStateVectorDiff then ''state-vector-diff''
     else if kind = YJSEventSubdocUpdate then ''subdoc-update''
     else if kind = YJSEventSubdocStateVector then ''subdoc-state-vector''
     else if kind = YJSEventSubdocDiff then ''subdoc-state-vector-diff''
     else ''unknown-'' @ int_digits (uint kind))"

definition yjsUsageMetric :: "YJSEventKind \<Rightarrow> string" where
  "yjsUsageMetric kind = ''yjs.'' @ yjsEventKindLabel kind"

subsection \<open>Yjs frames\<close>

text \<open>Closing with the code of an error ends the connection, so it is an error here.\<close>

definition closing :: "conn_id \<Rightarrow> Code \<Rightarrow> ('st, 'a) act" where
  "closing connID code s =
    (Inl (ErrText (code_text code)),
     case fmlookup (sv_yjsConns s) connID of None \<Rightarrow> s | Some c \<Rightarrow> put_yjs connID (close_yjs_code code c) s)"

definition or_close :: "conn_id \<Rightarrow> ('st, 'a) act \<Rightarrow> ('st, 'a) act" where
  "or_close connID m s =
    (case m s of (Inl _, s) \<Rightarrow> closing connID CodeInternal s | (Inr x, s) \<Rightarrow> (Inr x, s))"

definition publish_yjs :: "YJSMutationEffects \<Rightarrow> ('st, unit) act" where
  "publish_yjs effects s =
    (case sv_store s of
       None \<Rightarrow> (Inr (), s)
     | Some store \<Rightarrow>
         if yme_PublishCluster effects then on_store (os_PublishYJSEvent store (yme_Event effects)) s
         else (Inr (), s))"

text \<open>Storing a durable event, telling the others, and telling the other nodes.\<close>

definition apply_yjs_plan :: "conn_id \<Rightarrow> YJSEventKind \<Rightarrow> YJSEventPlan \<Rightarrow> ('st, unit) act" where
  "apply_yjs_plan connID kind plan =
    andDo
      (if yp_Durable plan
       then andDo (or_close connID (storeYJSEvent (yp_Event plan)))
              (\<lambda>stored. ok (YJSEventPlan_WithEvent plan stored))
       else ok plan) (\<lambda>plan.
     andDo (reading (\<lambda>s. Inr (YJSMutationEffects (sv_rooms s) plan))) (\<lambda>effects.
     andDo (broadcastYJSFanout (yme_Fanout effects)) (\<lambda>_.
     andDo (or_close connID (publish_yjs effects)) (\<lambda>_.
     modify (recordYJSUsage connID (yjsUsageMetric kind) 1)))))"

text \<open>One turn of the read loop, after the message was read.\<close>

definition handleYJSFrame :: "conn_id \<Rightarrow> bool \<Rightarrow> bytes \<Rightarrow> ('st, unit) act" where
  "handleYJSFrame connID binary frame s =
    (case (fmlookup (sv_yjsConns s) connID, frame) of
       (Some c, k # update) \<Rightarrow>
         if \<not> binary \<or> update = [] then closing connID CodeBadRequest s
         else (case allow_yjs connID s of
           (False, s) \<Rightarrow> closing connID CodeRateLimited s
         | (True, s) \<Rightarrow>
             (let kind = of_nat (byte k); room = yn_room c in
              case NewYJSEventPlan room kind update
                     \<lparr>yo_OriginNode = cfg_NodeID (sv_cfg s), yo_OriginConnID = connID\<rparr> of
                None \<Rightarrow> closing connID CodeBadRequest s
              | Some plan \<Rightarrow>
                  if yp_RequiresPublish plan \<and> \<not> allowsRoomAction s (yn_claims c) ''publish'' room
                  then closing connID CodeRoomForbidden s
                  else apply_yjs_plan connID kind plan s))
     | (Some c, []) \<Rightarrow> closing connID CodeBadRequest s
     | (None, _) \<Rightarrow> (Inl connection_closed, s))"

end
