(* ===== verification/Runtime_Service.thy ===== *)
theory Runtime_Service
  imports Runtime_Cluster
begin

text \<open>
  The life of a connection: acceptance of a request, registration, the messages it sends,
  unregistration; heartbeats, health and the views for development. The upgrade of the
  socket and the timers are the environment's.
\<close>

subsection \<open>The service\<close>

text \<open>\<open>NewService\<close> of a configuration whose store could be reached and subscribed to.\<close>

definition NewService :: "RuntimeConfig \<Rightarrow> 'st Store option \<Rightarrow> 'st \<Rightarrow> gtime \<Rightarrow> (nat \<Rightarrow> bool) \<Rightarrow> 'st Service" where
  "NewService cfg store st now choices =
    \<lparr>sv_cfg = cfg, sv_store = (if cfg_Redis cfg = None then None else store), sv_storeState = st,
     sv_metrics = NewRuntimeMetrics, sv_conns = fmempty, sv_rooms = New, sv_yjsConns = fmempty,
     sv_stats = no_stats, sv_now = now, sv_choices = choices\<rparr>"

definition handleReady :: "'st Service \<Rightarrow> nat \<times> go_error option" where
  "handleReady s =
    (case sv_store s of
       None \<Rightarrow> (200, None)
     | Some store \<Rightarrow>
         (case os_Healthy store (sv_storeState s) of None \<Rightarrow> (200, None) | Some err \<Rightarrow> (503, Some err)))"

definition reconcile :: "'st Service \<Rightarrow> 'st Service" where
  "reconcile s =
    (case sv_store s of
       None \<Rightarrow> s | Some store \<Rightarrow> ignore (on_store (os_ReconcileNode store (cfg_NodeID (sv_cfg s)))) s)"

subsection \<open>Sessions\<close>

definition sessionInfoFromConn :: "conn_id \<Rightarrow> clientConn \<Rightarrow> SessionInfo" where
  "sessionInfoFromConn connID c =
    (case cc_claims c of
       None \<Rightarrow> \<lparr>se_ConnID = connID, se_Subject = [], se_Tenant = []\<rparr>
     | Some cl \<Rightarrow> \<lparr>se_ConnID = connID, se_Subject = cl_Subject cl, se_Tenant = cl_Tenant cl\<rparr>)"

definition yjsSessionInfoFromConn :: "conn_id \<Rightarrow> yjsConn \<Rightarrow> YJSSessionInfo" where
  "yjsSessionInfoFromConn connID c =
    (case yn_claims c of
       None \<Rightarrow> \<lparr>ys_ConnID = connID, ys_Subject = [], ys_Tenant = [], ys_Room = yn_room c\<rparr>
     | Some cl \<Rightarrow> \<lparr>ys_ConnID = connID, ys_Subject = cl_Subject cl, ys_Tenant = cl_Tenant cl,
                   ys_Room = yn_room c\<rparr>)"

definition applyConnectionTouch :: "ConnectionTouch option \<Rightarrow> 'st Service \<Rightarrow> 'st Service" where
  "applyConnectionTouch touch s =
    (case (sv_store s, touch) of
       (Some store, Some t) \<Rightarrow>
         ignore (on_store (os_TouchConnection store (ct_ConnID t)
           \<lparr>cm_NodeID = cfg_NodeID (sv_cfg s), cm_Subject = ct_Subject t, cm_Tenant = ct_Tenant t,
            cm_ConnectedAt = sv_now s\<rparr>)) s
     | _ \<Rightarrow> s)"

definition applyConnectionCleanup :: "ConnectionCleanup option \<Rightarrow> 'st Service \<Rightarrow> 'st Service" where
  "applyConnectionCleanup cleanup s =
    (case (sv_store s, cleanup) of
       (Some store, Some c) \<Rightarrow>
         ignore (on_store (os_CleanupConnection store (cfg_NodeID (sv_cfg s)) (cc_ConnID c))) s
     | _ \<Rightarrow> s)"

text \<open>The turn of the heartbeat that refreshes the connection in the store.\<close>

definition heartbeat :: "conn_id \<Rightarrow> 'st Service \<Rightarrow> 'st Service" where
  "heartbeat connID s = applyConnectionTouch (TouchSession (sv_rooms s) connID) s"

definition registerConn :: "conn_id \<Rightarrow> clientConn \<Rightarrow> 'st Service \<Rightarrow> 'st Service" where
  "registerConn connID c s =
    (case RegisterSession (sv_rooms s) (sessionInfoFromConn connID c) of
       (touch, e) \<Rightarrow>
         applyConnectionTouch touch
           (on_metrics (\<lambda>m. m\<lparr>met_ActiveConnections := Gauge_Inc (met_ActiveConnections m)\<rparr>)
             (syncStatsLocked (put_conn connID c (s\<lparr>sv_rooms := e\<rparr>)))))"

text \<open>A fan-out that cannot be published is not broadcast, the next one is tried.\<close>

fun disconnect_fanouts :: "PresenceFanout list \<Rightarrow> 'st Service \<Rightarrow> 'st Service" where
  "disconnect_fanouts [] s = s"
| "disconnect_fanouts (fanout # fanouts) s =
    disconnect_fanouts fanouts
      (case publishPresenceFanout fanout s of
         (Inl _, s) \<Rightarrow> s
       | (Inr _, s) \<Rightarrow> ignore (broadcastPresenceFanout fanout) s)"

text \<open>The connection is closed and leaves the map; no message can reach it any more.\<close>

definition unregisterConn :: "conn_id \<Rightarrow> 'st Service \<Rightarrow> 'st Service" where
  "unregisterConn connID s =
    (case ApplyDisconnectPlan (sv_rooms s) (NewDisconnectPlan (sv_rooms s) connID (node_origin s)) of
       (disconnectResult, e) \<Rightarrow>
         (let s = syncStatsLocked (s\<lparr>sv_rooms := e, sv_conns := fmdrop connID (sv_conns s)\<rparr>);
              s = on_metrics (\<lambda>m. m\<lparr>met_ActiveConnections := Gauge_Dec (met_ActiveConnections m)\<rparr>) s
          in disconnect_fanouts (dp_PresenceFanouts disconnectResult)
               (applyConnectionCleanup (dp_Cleanup disconnectResult) s)))"

definition registerReservedYJSConn :: "conn_id \<Rightarrow> yjsConn \<Rightarrow> 'st Service \<Rightarrow> 'st Service" where
  "registerReservedYJSConn connID c s = put_yjs connID c s"

definition registerYJSConn :: "conn_id \<Rightarrow> yjsConn \<Rightarrow> ('st, unit) act" where
  "registerYJSConn connID c s =
    (case RegisterYJSSessionWithLimit (sv_rooms s) (yjsSessionInfoFromConn connID c)
            (li_YJSRoomConnections (cfg_Limits (sv_cfg s))) of
       (Some err, e) \<Rightarrow> (Inl (ErrEngine err), s\<lparr>sv_rooms := e\<rparr>)
     | (None, e) \<Rightarrow> (Inr (), registerReservedYJSConn connID c (s\<lparr>sv_rooms := e\<rparr>)))"

definition unregisterYJSConn :: "conn_id \<Rightarrow> 'st Service \<Rightarrow> 'st Service" where
  "unregisterYJSConn connID s =
    (case fmlookup (sv_yjsConns s) connID of
       None \<Rightarrow> s
     | Some c \<Rightarrow>
         s\<lparr>sv_yjsConns := fmdrop connID (sv_yjsConns s),
           sv_rooms := UnregisterYJSConn (sv_rooms s) connID (yn_room c)\<rparr>)"

subsection \<open>Client connections\<close>

text \<open>An HTTP answer before the upgrade.\<close>

record http_error =
  he_status :: nat
  he_text :: message_text

definition unauthorized :: "go_error \<Rightarrow> http_error" where
  "unauthorized err =
    \<lparr>he_status = 401, he_text = Text (if err = ErrMissingRuntimeToken then ''missing bearer token''
                                       else ''invalid bearer token'')\<rparr>"

definition new_conn :: "RuntimeConfig \<Rightarrow> runtimeAuthResult \<Rightarrow> ResumeSessionRecord option \<Rightarrow> clientConn" where
  "new_conn cfg authn resumeSession =
    \<lparr>cc_claims = ra_claims authn, cc_projectID = ra_projectID authn,
     cc_resumeSessionID = (case resumeSession of None \<Rightarrow> [] | Some rec \<Rightarrow> rsr_ID rec),
     cc_resumeSession = resumeSession,
     cc_send = [], cc_capacity = li_OutboundQueueDepth (cfg_Limits cfg), cc_wire = [], cc_closed = None,
     cc_limiter = \<lparr>el_limit = li_EmitsPerSecond (cfg_Limits cfg), el_window = 0, el_count = 0\<rparr>\<rparr>"

definition hello :: "RuntimeConfig \<Rightarrow> conn_id \<Rightarrow> clientConn \<Rightarrow> outboundMessage" where
  "hello cfg connID c =
    no_outbound\<lparr>om_T := ''HELLO'', om_Payload :=
      HelloPayload connID ServerName (cfg_NodeID cfg) (cc_projectID c) (cc_resumeSessionID c)\<rparr>"

text \<open>\<open>handleWS\<close> until the upgrade: who connects, and the session to resume.\<close>

definition accept_ws ::
  "(string \<Rightarrow> go_error + Claims) option \<Rightarrow> HttpRequest \<Rightarrow> 'st Service
     \<Rightarrow> (http_error + clientConn) \<times> 'st Service" where
  "accept_ws verify r s =
    (case authenticateRequest verify r s of
       (Inl err, s) \<Rightarrow> (Inl (unauthorized err), s)
     | (Inr authn, s) \<Rightarrow>
         (case resumeSessionFromRequest r (ra_claims authn) (ra_projectID authn) s of
            (Inl err, s) \<Rightarrow> (Inl \<lparr>he_status = 403, he_text = Error_of err\<rparr>, s)
          | (Inr resumeSession, s) \<Rightarrow>
              if \<not> checkOrigin (sv_cfg s) r
              then (Inl \<lparr>he_status = 403, he_text = Text ''Forbidden''\<rparr>, s)
              else (Inr (new_conn (sv_cfg s) authn resumeSession), s)))"

text \<open>\<open>handleWS\<close> after the upgrade: an error unregisters the connection.\<close>

definition open_conn :: "conn_id \<Rightarrow> clientConn \<Rightarrow> 'st Service \<Rightarrow> 'st Service" where
  "open_conn connID c s =
    (let s = recordConnUsage connID [] ''runtime.connections'' 1 (registerConn connID c s) in
     case enqueue connID (hello (sv_cfg s) connID c) s of
       (Inl _, s) \<Rightarrow> unregisterConn connID s
     | (Inr _, s) \<Rightarrow> s)"

definition handleWS ::
  "(string \<Rightarrow> go_error + Claims) option \<Rightarrow> HttpRequest \<Rightarrow> conn_id \<Rightarrow> 'st Service
     \<Rightarrow> http_error option \<times> 'st Service" where
  "handleWS verify r connID s =
    (case accept_ws verify r s of
       (Inl err, s) \<Rightarrow> (Some err, s)
     | (Inr c, s) \<Rightarrow> (None, open_conn connID c s))"

definition read_message :: "conn_id \<Rightarrow> bytes \<Rightarrow> 'st Service \<Rightarrow> 'st Service" where
  "read_message connID payload s =
    (case handleClientMessage connID payload s of
       (Inl _, s) \<Rightarrow> unregisterConn connID s
     | (Inr _, s) \<Rightarrow> s)"

subsection \<open>Yjs connections\<close>

definition new_yjs_conn :: "RuntimeConfig \<Rightarrow> runtimeAuthResult \<Rightarrow> room_id \<Rightarrow> yjsConn" where
  "new_yjs_conn cfg authn room =
    \<lparr>yn_claims = ra_claims authn, yn_projectID = ra_projectID authn, yn_room = room, yn_send = [],
     yn_capacity = li_OutboundQueueDepth (cfg_Limits cfg), yn_wire = [], yn_closed = None,
     yn_limiter = \<lparr>el_limit = li_EmitsPerSecond (cfg_Limits cfg), el_window = 0, el_count = 0\<rparr>\<rparr>"

definition open_yjs_conn :: "conn_id \<Rightarrow> yjsConn \<Rightarrow> 'st Service \<Rightarrow> 'st Service" where
  "open_yjs_conn connID c s =
    (let s = recordYJSUsage connID ''yjs.connections'' 1 (registerReservedYJSConn connID c s) in
     case andDo (or_close connID (reading (\<lambda>s. loadYJSDocument s (yn_room c))))
            (\<lambda>document. sendYJSDocument connID (NewYJSDocumentFrames document)) s of
       (Inl _, s) \<Rightarrow> unregisterYJSConn connID s
     | (Inr _, s) \<Rightarrow> s)"

text \<open>
  The session is reserved before the upgrade and given back when the upgrade fails, which a
  foreign origin makes it do.
\<close>

definition handleYJS ::
  "(string \<Rightarrow> go_error + Claims) option \<Rightarrow> HttpRequest \<Rightarrow> conn_id \<Rightarrow> 'st Service
     \<Rightarrow> http_error option \<times> 'st Service" where
  "handleYJS verify r connID s =
    (case roomFromYJSPath (hr_Path r) of
       Inl msg \<Rightarrow> (Some \<lparr>he_status = 400, he_text = Text msg\<rparr>, s)
     | Inr room \<Rightarrow>
         (case authenticateRequest verify r s of
            (Inl err, s) \<Rightarrow> (Some (unauthorized err), s)
          | (Inr authn, s) \<Rightarrow>
              if \<not> allowsRoomAction s (ra_claims authn) ''join'' room
              then (Some \<lparr>he_status = 403, he_text = Text ''room join is not permitted''\<rparr>, s)
              else
                (let c = new_yjs_conn (sv_cfg s) authn room in
                 case RegisterYJSSessionWithLimit (sv_rooms s) (yjsSessionInfoFromConn connID c)
                        (li_YJSRoomConnections (cfg_Limits (sv_cfg s))) of
                   (Some _, e) \<Rightarrow>
                     (Some \<lparr>he_status = 429, he_text = Text ''yjs room capacity exceeded''\<rparr>, s\<lparr>sv_rooms := e\<rparr>)
                 | (None, e) \<Rightarrow>
                     if \<not> checkOrigin (sv_cfg s) r
                     then (Some \<lparr>he_status = 403, he_text = Text ''Forbidden''\<rparr>,
                           s\<lparr>sv_rooms := UnregisterYJSConn e connID room\<rparr>)
                     else (None, open_yjs_conn connID c (s\<lparr>sv_rooms := e\<rparr>)))))"

definition read_frame :: "conn_id \<Rightarrow> bool \<Rightarrow> bytes \<Rightarrow> 'st Service \<Rightarrow> 'st Service" where
  "read_frame connID binary frame s =
    (case handleYJSFrame connID binary frame s of
       (Inl _, s) \<Rightarrow> unregisterYJSConn connID s
     | (Inr _, s) \<Rightarrow> s)"

subsection \<open>Views for development\<close>

record DevStorageSnapshot =
  dss_NodeID :: string
  dss_Room :: room_id
  dss_Found :: bool
  dss_StoreBacked :: bool
  dss_Sequence :: u64
  dss_Document :: bytes

definition Service_DevStorageSnapshot :: "'st Service \<Rightarrow> room_id \<Rightarrow> DevStorageSnapshot" where
  "Service_DevStorageSnapshot s room =
    (let snap = \<lparr>dss_NodeID = cfg_NodeID (sv_cfg s), dss_Room = room, dss_Found = False,
           dss_StoreBacked = (sv_store s \<noteq> None), dss_Sequence = 0, dss_Document = []\<rparr>
     in case GetStorageWithSequence (sv_rooms s) room of
          Inl _ \<Rightarrow> snap
        | Inr (document, sequence) \<Rightarrow>
            snap\<lparr>dss_Found := True, dss_Sequence := sequence, dss_Document := document\<rparr>)"

record DevYJSDocumentSnapshot =
  dy_NodeID :: string
  dy_Room :: room_id
  dy_Found :: bool
  dy_StoreBacked :: bool
  dy_SnapshotFound :: bool
  dy_SnapshotBytes :: int
  dy_SnapshotHash :: string
  dy_SnapshotCheckpoint :: u64
  dy_UpdateCount :: int
  dy_UpdateBytes :: int
  dy_UpdateSequences :: "u64 list"
  dy_UpdateKinds :: "string list"

definition summarizeYJSDocument :: "string \<Rightarrow> room_id \<Rightarrow> bool \<Rightarrow> YJSDocument \<Rightarrow> DevYJSDocumentSnapshot" where
  "summarizeYJSDocument nodeID room storeBacked document =
    (let found = (yd_Snapshot document \<noteq> []); count = len (yd_Updates document);
         kinds = map (\<lambda>index. yjsEventKindLabel
           (if index < length (yd_UpdateKinds document) then yd_UpdateKinds document ! index else YJSEventUpdate))
           [0..<length (yd_Updates document)]
     in \<lparr>dy_NodeID = nodeID, dy_Room = room,
         dy_Found = (found \<or> count > 0 \<or> 0 <s yd_SnapshotCheckpoint document),
         dy_StoreBacked = storeBacked, dy_SnapshotFound = found, dy_SnapshotBytes = len (yd_Snapshot document),
         dy_SnapshotHash = yd_SnapshotHash document, dy_SnapshotCheckpoint = yd_SnapshotCheckpoint document,
         dy_UpdateCount = count, dy_UpdateBytes = sum_list (map len (yd_Updates document)),
         dy_UpdateSequences = yd_UpdateSequences document, dy_UpdateKinds = kinds\<rparr>)"

definition Service_DevYJSDocumentSnapshot :: "'st Service \<Rightarrow> room_id \<Rightarrow> DevYJSDocumentSnapshot" where
  "Service_DevYJSDocumentSnapshot s room =
    summarizeYJSDocument (cfg_NodeID (sv_cfg s)) room (sv_store s \<noteq> None) (LoadYJSDocument (sv_rooms s) room)"

record DevConnectionLimits =
  dcl_RoomConnections :: int
  dcl_YJSRoomConnections :: int

record DevConnectionsSnapshot =
  dcs_NodeID :: string
  dcs_Connections :: "ConnectionSnapshot list"
  dcs_YJSConnections :: "YJSConnectionSnapshot list"
  dcs_Rooms :: "RoomActivitySnapshot list"
  dcs_Limits :: DevConnectionLimits
  dcs_ActiveSockets :: int
  dcs_ActiveRoomCount :: int

definition devConnectionLimits :: "'st Service \<Rightarrow> DevConnectionLimits" where
  "devConnectionLimits s =
    \<lparr>dcl_RoomConnections = li_RoomConnections (cfg_Limits (sv_cfg s)),
     dcl_YJSRoomConnections = li_YJSRoomConnections (cfg_Limits (sv_cfg s))\<rparr>"

definition Service_DevConnectionsSnapshot :: "'st Service \<Rightarrow> DevConnectionsSnapshot" where
  "Service_DevConnectionsSnapshot s =
    (let snap = ConnectionsSnapshot (sv_rooms s)
     in \<lparr>dcs_NodeID = cfg_NodeID (sv_cfg s), dcs_Connections = cn_Connections snap,
         dcs_YJSConnections = cn_YJSConnections snap, dcs_Rooms = cn_Rooms snap,
         dcs_Limits = devConnectionLimits s,
         dcs_ActiveSockets = len (cn_Connections snap) + len (cn_YJSConnections snap),
         dcs_ActiveRoomCount = cn_ActiveRoomCount snap\<rparr>)"

end
