(* ===== verification/Runtime_Invariant.thy ===== *)
theory Runtime_Invariant
  imports Runtime_Service Room_Properties Protocol_Properties Auth_Claims
begin

text \<open>
  The invariant of the service and the rules by which its operations keep it. An operation
  of the service changes queues, the engine and the store, but not who is connected with
  which token: \<open>static\<close> is that part of the state.
\<close>

subsection \<open>What a connection may see\<close>

definition may_see :: "RuntimeConfig \<Rightarrow> Claims option \<Rightarrow> room_id \<Rightarrow> bool" where
  "may_see cfg claims room \<longleftrightarrow>
     room = [] \<or> (\<exists>cl. claims = Some cl \<and> prefix (tenantPrefix cfg cl) room)"

definition may_join :: "RuntimeConfig \<Rightarrow> Claims option \<Rightarrow> room_id \<Rightarrow> bool" where
  "may_join cfg claims room \<longleftrightarrow>
     (\<exists>cl. claims = Some cl \<and>
        (if tc_EnforcePrefix (cfg_Tenant cfg)
         then cl_Tenant cl \<noteq> [] \<and> prefix (cl_Tenant cl @ tc_Separator (cfg_Tenant cfg)) room else True))"

lemma join_see: "may_join cfg claims room \<Longrightarrow> may_see cfg claims room"
  by (auto simp: may_join_def may_see_def tenantPrefix_def split: if_split_asm)

lemma see_nothing [simp]: "may_see cfg claims []"
  by (simp add: may_see_def)

lemma allows_may_join:
  assumes "allowsRoomAction s claims action room"
  shows "may_join (sv_cfg s) claims room"
proof (cases claims)
  case None
  with assms show ?thesis by (simp add: allowsRoomAction_def AllowsRoomAction_def)
next
  case (Some cl)
  let ?o = "\<lparr>rao_EnforceTenantPrefix = tc_EnforcePrefix (cfg_Tenant (sv_cfg s)),
       rao_TenantSeparator = tc_Separator (cfg_Tenant (sv_cfg s))\<rparr>"
  from tenant_of_room [of cl "room_getter s" action room ?o] assms Some
  show ?thesis
    by (auto simp: allowsRoomAction_def may_join_def tenant_separator_def prefix_def split: if_split_asm)
qed

subsection \<open>The invariant\<close>

type_synonym 'st statics =
  "RuntimeConfig \<times> 'st Store option \<times> (conn_id, Claims option) fmap \<times> (conn_id, Claims option \<times> room_id) fmap"

definition static :: "'st Service \<Rightarrow> 'st statics" where
  "static s = (sv_cfg s, sv_store s, fmmap cc_claims (sv_conns s),
     fmmap (\<lambda>c. (yn_claims c, yn_room c)) (sv_yjsConns s))"

definition z_cfg :: "'st statics \<Rightarrow> RuntimeConfig" where "z_cfg z = fst z"
definition z_claims :: "'st statics \<Rightarrow> (conn_id, Claims option) fmap" where "z_claims z = fst (snd (snd z))"
definition z_yjs :: "'st statics \<Rightarrow> (conn_id, Claims option \<times> room_id) fmap" where "z_yjs z = snd (snd (snd z))"

lemma static_simps [simp]:
  "z_cfg (static s) = sv_cfg s" "z_claims (static s) = fmmap cc_claims (sv_conns s)"
  "z_yjs (static s) = fmmap (\<lambda>c. (yn_claims c, yn_room c)) (sv_yjsConns s)"
  by (simp_all add: static_def z_cfg_def z_claims_def z_yjs_def)

definition conn_ok :: "RuntimeConfig \<Rightarrow> clientConn \<Rightarrow> bool" where
  "conn_ok cfg c \<longleftrightarrow> cc_claims c \<noteq> None \<and> cc_capacity c = li_OutboundQueueDepth (cfg_Limits cfg)
     \<and> length (cc_send c) \<le> nat (cc_capacity c)
     \<and> list_all (\<lambda>m. may_see cfg (cc_claims c) (om_Room m)) (cc_send c @ cc_wire c)"

definition yconn_ok :: "RuntimeConfig \<Rightarrow> yjsConn \<Rightarrow> bool" where
  "yconn_ok cfg c \<longleftrightarrow> yn_claims c \<noteq> None \<and> yn_capacity c = li_OutboundQueueDepth (cfg_Limits cfg)
     \<and> length (yn_send c) \<le> nat (yn_capacity c)"

definition session_of :: "conn_id \<Rightarrow> Claims option \<Rightarrow> SessionInfo" where
  "session_of connID claims =
    (case claims of
       None \<Rightarrow> \<lparr>se_ConnID = connID, se_Subject = [], se_Tenant = []\<rparr>
     | Some cl \<Rightarrow> \<lparr>se_ConnID = connID, se_Subject = cl_Subject cl, se_Tenant = cl_Tenant cl\<rparr>)"

lemma sessionInfoFromConn_eq: "sessionInfoFromConn connID c = session_of connID (cc_claims c)"
  by (simp add: sessionInfoFromConn_def session_of_def)

definition limits_of :: "RuntimeConfig \<Rightarrow> JoinLimits" where
  "limits_of cfg = \<lparr>jl_RoomsPerConnection = li_RoomsPerConnection (cfg_Limits cfg),
     jl_RoomConnections = li_RoomConnections (cfg_Limits cfg)\<rparr>"

definition members_ok :: "'st statics \<Rightarrow> Engine \<Rightarrow> bool" where
  "members_ok z e \<longleftrightarrow> (\<forall>r connID. connID |\<in>| members_of e r \<longrightarrow>
     (\<exists>claims. fmlookup (z_claims z) connID = Some claims \<and> may_join (z_cfg z) claims r))"

definition sessions_match :: "'st statics \<Rightarrow> Engine \<Rightarrow> bool" where
  "sessions_match z e \<longleftrightarrow>
     (\<forall>connID. fmlookup (sessions e) connID = map_option (session_of connID) (fmlookup (z_claims z) connID))"

definition yjs_match :: "'st statics \<Rightarrow> Engine \<Rightarrow> bool" where
  "yjs_match z e \<longleftrightarrow> (\<forall>r connID. connID |\<in>| yjs_members e r \<longrightarrow>
     (\<exists>claims. fmlookup (z_yjs z) connID = Some (claims, r) \<and> may_join (z_cfg z) claims r))"

definition eng_ok :: "'st statics \<Rightarrow> Engine \<Rightarrow> bool" where
  "eng_ok z e \<longleftrightarrow> reachable_with (limits_of (z_cfg z)) e \<and> members_ok z e \<and> sessions_match z e \<and> yjs_match z e"

definition conns_ok :: "'st Service \<Rightarrow> bool" where
  "conns_ok s \<longleftrightarrow> (\<forall>connID c. fmlookup (sv_conns s) connID = Some c \<longrightarrow> conn_ok (sv_cfg s) c)
     \<and> (\<forall>connID c. fmlookup (sv_yjsConns s) connID = Some c \<longrightarrow> yconn_ok (sv_cfg s) c)"

definition Inv :: "'st statics \<Rightarrow> 'st Service \<Rightarrow> bool" where
  "Inv z s \<longleftrightarrow> static s = z \<and> conns_ok s \<and> eng_ok z (sv_rooms s)"

definition holds :: "'st statics \<Rightarrow> (go_error + 'a) \<times> 'st Service \<Rightarrow> ('a \<Rightarrow> bool) \<Rightarrow> bool" where
  "holds z p Q \<longleftrightarrow> Inv z (snd p) \<and> (case fst p of Inl _ \<Rightarrow> True | Inr x \<Rightarrow> Q x)"

named_theorems holds_intros \<open>operations that keep the invariant\<close>
named_theorems inv_intros \<open>state changes that keep the invariant\<close>

subsection \<open>Rules\<close>

lemma holds_mono: "holds z p Q \<Longrightarrow> (\<And>x. Q x \<Longrightarrow> Q' x) \<Longrightarrow> holds z p Q'"
  by (auto simp: holds_def split: sum.splits)

lemma holds_any: "holds z p Q \<Longrightarrow> holds z p (\<lambda>_. True)"
  by (erule holds_mono) simp

lemma holds_Inr: "Inv z s \<Longrightarrow> Q x \<Longrightarrow> holds z (Inr x, s) Q"
  by (simp add: holds_def)

lemma holds_Inl: "Inv z s \<Longrightarrow> holds z (Inl err, s) Q"
  by (simp add: holds_def)

lemma holds_ok: "Inv z s \<Longrightarrow> Q x \<Longrightarrow> holds z (ok x s) Q"
  by (simp add: ok_def holds_Inr)

lemma holds_andDo:
  assumes "holds z (m s) Q" "\<And>x s'. Inv z s' \<Longrightarrow> Q x \<Longrightarrow> holds z (f x s') Q'"
  shows "holds z (andDo m f s) Q'"
  using assms by (cases "m s"; cases "fst (m s)") (simp_all add: andDo_def holds_def)

lemma holds_then:
  assumes "holds z (m s) (\<lambda>_. True)" "\<And>x s'. Inv z s' \<Longrightarrow> holds z (f x s') Q'"
  shows "holds z (andDo m f s) Q'"
  using assms by (auto intro: holds_andDo)

lemma holds_modify: "Inv z (f s) \<Longrightarrow> holds z (modify f s) (\<lambda>_. True)"
  by (simp add: modify_def holds_def)

lemma holds_reading:
  "Inv z s \<Longrightarrow> (\<And>x. f s = Inr x \<Longrightarrow> Q x) \<Longrightarrow> holds z (reading f s) Q"
  by (auto simp: reading_def holds_def split: sum.split)

lemma Inv_ignore: "holds z (m s) Q \<Longrightarrow> Inv z (ignore m s)"
  by (simp add: ignore_def holds_def)

lemma holds_case:
  assumes "holds z p Q" "\<And>err s'. Inv z s' \<Longrightarrow> holds z (f err s') Q'"
    and "\<And>x s'. Inv z s' \<Longrightarrow> Q x \<Longrightarrow> holds z (g x s') Q'"
  shows "holds z (case p of (Inl err, s') \<Rightarrow> f err s' | (Inr x, s') \<Rightarrow> g x s') Q'"
  using assms by (cases p; cases "fst p") (simp_all add: holds_def)

lemma Inv_case:
  assumes "holds z p Q" "\<And>err s'. Inv z s' \<Longrightarrow> Inv z (f err s')"
    and "\<And>x s'. Inv z s' \<Longrightarrow> Q x \<Longrightarrow> Inv z (g x s')"
  shows "Inv z (case p of (Inl err, s') \<Rightarrow> f err s' | (Inr x, s') \<Rightarrow> g x s')"
  using assms by (cases p; cases "fst p") (simp_all add: holds_def)

subsection \<open>Parts of the state that do not matter\<close>

lemma Inv_cong:
  assumes "Inv z s" "sv_cfg s' = sv_cfg s" "sv_store s' = sv_store s" "sv_conns s' = sv_conns s"
    "sv_rooms s' = sv_rooms s" "sv_yjsConns s' = sv_yjsConns s"
  shows "Inv z s'"
  using assms by (simp add: Inv_def static_def conns_ok_def)

lemma Inv_storeState [simp]: "Inv z (s\<lparr>sv_storeState := st\<rparr>) \<longleftrightarrow> Inv z s"
  by (auto elim: Inv_cong [rotated 0])

lemma Inv_stats [simp]: "Inv z (s\<lparr>sv_stats := x\<rparr>) \<longleftrightarrow> Inv z s"
  by (auto elim: Inv_cong [rotated 0])

lemma Inv_metrics [simp]: "Inv z (on_metrics f s) \<longleftrightarrow> Inv z s"
  by (auto simp: on_metrics_def elim: Inv_cong [rotated 0])

lemma Inv_choices [simp]: "Inv z (s\<lparr>sv_choices := x\<rparr>) \<longleftrightarrow> Inv z s"
  by (auto elim: Inv_cong [rotated 0])

lemma Inv_now [simp]: "Inv z (s\<lparr>sv_now := x\<rparr>) \<longleftrightarrow> Inv z s"
  by (auto elim: Inv_cong [rotated 0])

lemma on_store_holds [holds_intros]: "Inv z s \<Longrightarrow> holds z (on_store op s) (\<lambda>_. True)"
  by (auto simp: on_store_def holds_def split: prod.split sum.split)

lemma Inv_on_store [inv_intros]: "Inv z s \<Longrightarrow> Inv z (ignore (on_store op) s)"
  by (rule Inv_ignore [OF on_store_holds])

lemma Inv_syncStats [simp]: "Inv z (syncStatsLocked s) \<longleftrightarrow> Inv z s"
  by (auto simp: syncStatsLocked_def Let_def ignore_def on_store_def split: option.split prod.split)

lemma Inv_records [simp]:
  "Inv z (recordLeave s) \<longleftrightarrow> Inv z s" "Inv z (recordPresenceUpdate s) \<longleftrightarrow> Inv z s"
  "Inv z (recordJoin s) \<longleftrightarrow> Inv z s" "Inv z (recordEvent s) \<longleftrightarrow> Inv z s"
  "Inv z (recordOverflow s) \<longleftrightarrow> Inv z s"
  by (simp_all add: recordLeave_def recordPresenceUpdate_def recordJoin_def recordEvent_def recordOverflow_def)

lemma Inv_recordUsage [simp]: "Inv z (recordUsage cl p r m n s) \<longleftrightarrow> Inv z s"
  by (auto simp: recordUsage_def Let_def ignore_def on_store_def split: option.split prod.split)

lemma Inv_recordConnUsage [simp]:
  "Inv z (recordConnUsage c r m n s) \<longleftrightarrow> Inv z s" "Inv z (recordYJSUsage c m n s) \<longleftrightarrow> Inv z s"
  by (simp_all add: recordConnUsage_def recordYJSUsage_def split: option.split)

end
