(* ===== verification/Runtime_Steps.thy ===== *)
theory Runtime_Steps
  imports Runtime_Invariant
begin

text \<open>
  The operations of the service keep its invariant: queues, broadcasts, the engine, and from
  them the handlers of client messages and of the events of other nodes.

  The handlers keep the invariant of the service.
\<close>

subsection \<open>Queues\<close>

lemma fmupd_same: "fmlookup m k = Some v \<Longrightarrow> fmupd k v m = m"
  by (rule fmap_ext) auto

lemma fmmap_upd: "fmmap f (fmupd k v m) = fmupd k (f v) (fmmap f m)"
  by (rule fmap_ext) simp

lemma Inv_conn: "Inv z s \<Longrightarrow> fmlookup (sv_conns s) connID = Some c \<Longrightarrow> conn_ok (sv_cfg s) c"
  by (auto simp: Inv_def conns_ok_def)

lemma Inv_yconn: "Inv z s \<Longrightarrow> fmlookup (sv_yjsConns s) connID = Some c \<Longrightarrow> yconn_ok (sv_cfg s) c"
  by (auto simp: Inv_def conns_ok_def)

lemma Inv_cfg: "Inv z s \<Longrightarrow> z_cfg z = sv_cfg s"
  by (auto simp: Inv_def)

lemma Inv_claims: "Inv z s \<Longrightarrow> fmlookup (z_claims z) connID = map_option cc_claims (fmlookup (sv_conns s) connID)"
  by (auto simp: Inv_def)

lemma Inv_yjs: "Inv z s \<Longrightarrow>
    fmlookup (z_yjs z) connID = map_option (\<lambda>c. (yn_claims c, yn_room c)) (fmlookup (sv_yjsConns s) connID)"
  by (auto simp: Inv_def)

lemma Inv_claims_of: "Inv z s \<Longrightarrow> fmlookup (z_claims z) connID = Some claims \<Longrightarrow> claims_of s connID = claims"
  by (auto simp: Inv_claims claims_of_def)

lemma Inv_put_conn:
  assumes "Inv z s" "fmlookup (sv_conns s) connID = Some c" "cc_claims c' = cc_claims c"
    "conn_ok (sv_cfg s) c'"
  shows "Inv z (put_conn connID c' s)"
proof -
  have "fmmap cc_claims (fmupd connID c' (sv_conns s)) = fmmap cc_claims (sv_conns s)"
    using assms(2,3) by (simp add: fmmap_upd fmupd_same)
  with assms show ?thesis by (simp add: Inv_def static_def conns_ok_def put_conn_def)
qed

lemma Inv_put_yjs:
  assumes "Inv z s" "fmlookup (sv_yjsConns s) connID = Some c"
    "yn_claims c' = yn_claims c" "yn_room c' = yn_room c" "yconn_ok (sv_cfg s) c'"
  shows "Inv z (put_yjs connID c' s)"
proof -
  have "fmmap (\<lambda>c. (yn_claims c, yn_room c)) (fmupd connID c' (sv_yjsConns s))
      = fmmap (\<lambda>c. (yn_claims c, yn_room c)) (sv_yjsConns s)"
    using assms(2-4) by (simp add: fmmap_upd fmupd_same)
  with assms show ?thesis by (simp add: Inv_def static_def conns_ok_def put_yjs_def)
qed

definition can_see :: "'st statics \<Rightarrow> conn_id \<Rightarrow> room_id \<Rightarrow> bool" where
  "can_see z connID room \<longleftrightarrow>
     (\<forall>claims. fmlookup (z_claims z) connID = Some claims \<longrightarrow> may_see (z_cfg z) claims room)"

lemma can_see_nothing [simp]: "can_see z connID []"
  by (simp add: can_see_def)

lemma conn_ok_send:
  "conn_ok cfg c \<Longrightarrow> may_see cfg (cc_claims c) (om_Room m) \<Longrightarrow> len (cc_send c) < cc_capacity c \<Longrightarrow>
     conn_ok cfg (c\<lparr>cc_send := cc_send c @ [m]\<rparr>)"
  by (auto simp: conn_ok_def)

lemma conn_ok_close: "conn_ok cfg c \<Longrightarrow> conn_ok cfg (close_code code c)"
  by (auto simp: conn_ok_def close_code_def clientConn_close_def)

lemma recordOverflow_conns [simp]:
  "sv_conns (recordOverflow s) = sv_conns s" "sv_cfg (recordOverflow s) = sv_cfg s"
  by (simp_all add: recordOverflow_def on_metrics_def syncStatsLocked_def Let_def ignore_def on_store_def
      split: option.split prod.split)

lemma close_code_claims [simp]: "cc_claims (close_code code c) = cc_claims c"
  by (simp add: close_code_def clientConn_close_def)

lemma enqueue_holds [holds_intros]:
  assumes "Inv z s" "can_see z connID (om_Room m)"
  shows "holds z (enqueue connID m s) (\<lambda>_. True)"
proof (cases "fmlookup (sv_conns s) connID")
  case None
  then show ?thesis using assms(1) by (simp add: enqueue_def holds_def)
next
  case (Some c)
  note ok = Inv_conn [OF assms(1) Some]
  have see: "may_see (sv_cfg s) (cc_claims c) (om_Room m)"
    using assms Some by (simp add: can_see_def Inv_claims [OF assms(1)] Inv_cfg [OF assms(1)])
  have sent: "Inv z (put_conn connID (c\<lparr>cc_send := cc_send c @ [m]\<rparr>) s')"
    if "Inv z s'" "sv_conns s' = sv_conns s" "sv_cfg s' = sv_cfg s" "len (cc_send c) < cc_capacity c" for s'
    using that conn_ok_send [OF ok see] Some by (intro Inv_put_conn [where c = c]) simp_all
  have closed: "Inv z (put_conn connID (close_code CodeQueueOverflow c) (recordOverflow s))"
    using assms(1) ok Some by (intro Inv_put_conn [where c = c]) (simp_all add: conn_ok_close)
  show ?thesis
    using assms(1) sent closed
    by (simp add: enqueue_def Some Let_def holds_def pick_def split: bool.split)
qed

lemma enqueueFrame_holds [holds_intros]:
  assumes "Inv z s"
  shows "holds z (enqueueFrame connID kind update s) (\<lambda>_. True)"
proof (cases "fmlookup (sv_yjsConns s) connID")
  case None
  then show ?thesis using assms by (simp add: enqueueFrame_def holds_def)
next
  case (Some c)
  note ok = Inv_yconn [OF assms Some]
  have sent: "Inv z (put_yjs connID (c\<lparr>yn_send := yn_send c @ [f]\<rparr>) s')"
    if "Inv z s'" "sv_yjsConns s' = sv_yjsConns s" "sv_cfg s' = sv_cfg s" "len (yn_send c) < yn_capacity c" for s' f
    using that ok Some by (intro Inv_put_yjs [where c = c]) (auto simp: yconn_ok_def)
  have closed: "Inv z (put_yjs connID (close_yjs_code CodeQueueOverflow c) s)"
    using assms ok Some
    by (intro Inv_put_yjs [where c = c]) (auto simp: yconn_ok_def close_yjs_code_def yjsConn_close_def)
  show ?thesis
    using assms sent closed
    by (simp add: enqueueFrame_def Some Let_def holds_def pick_def split: bool.split)
qed

lemma writeLoop_Inv [inv_intros]:
  assumes "Inv z s"
  shows "Inv z (writeLoop connID s)"
proof (cases "fmlookup (sv_conns s) connID")
  case (Some c)
  note ok = Inv_conn [OF assms Some]
  have "Inv z (put_conn connID (c\<lparr>cc_send := rest, cc_wire := cc_wire c @ [m]\<rparr>) s)"
    "Inv z (put_conn connID (c\<lparr>cc_send := rest\<rparr>) (s\<lparr>sv_choices := x\<rparr>))"
    if "cc_send c = m # rest" for m rest x
    using assms ok Some that by (intro Inv_put_conn [where c = c]; simp add: conn_ok_def)+
  then show ?thesis
    using assms by (simp add: writeLoop_def Some pick_def split: list.split bool.split)
qed (use assms in \<open>simp add: writeLoop_def\<close>)

lemma yjs_writeLoop_Inv [inv_intros]:
  assumes "Inv z s"
  shows "Inv z (yjs_writeLoop connID s)"
proof (cases "fmlookup (sv_yjsConns s) connID")
  case (Some c)
  note ok = Inv_yconn [OF assms Some]
  have "Inv z (put_yjs connID (c\<lparr>yn_send := rest, yn_wire := yn_wire c @ [m]\<rparr>) s)"
    "Inv z (put_yjs connID (c\<lparr>yn_send := rest\<rparr>) (s\<lparr>sv_choices := x\<rparr>))"
    if "yn_send c = m # rest" for m rest x
    using assms ok Some that by (intro Inv_put_yjs [where c = c]; simp add: yconn_ok_def)+
  then show ?thesis
    using assms by (simp add: yjs_writeLoop_def Some pick_def split: list.split bool.split)
qed (use assms in \<open>simp add: yjs_writeLoop_def\<close>)

lemma allow_emit_Inv: "Inv z s \<Longrightarrow> Inv z (snd (allow_emit connID s))"
proof (cases "fmlookup (sv_conns s) connID")
  case (Some c)
  assume "Inv z s"
  with Inv_conn [OF this Some] show ?thesis
    by (auto simp: allow_emit_def Some conn_ok_def split: prod.split intro!: Inv_put_conn [OF _ Some])
qed (simp add: allow_emit_def)

lemma allow_yjs_Inv: "Inv z s \<Longrightarrow> Inv z (snd (allow_yjs connID s))"
proof (cases "fmlookup (sv_yjsConns s) connID")
  case (Some c)
  assume "Inv z s"
  with Inv_yconn [OF this Some] show ?thesis
    by (auto simp: allow_yjs_def Some yconn_ok_def split: prod.split intro!: Inv_put_yjs [OF _ Some])
qed (simp add: allow_yjs_def)

subsection \<open>Broadcasts\<close>

lemma enqueue_all_holds:
  "Inv z s \<Longrightarrow> (\<And>connID. connID \<in> set ids \<Longrightarrow> can_see z connID (om_Room m)) \<Longrightarrow>
     holds z (enqueue_all ids m s) (\<lambda>_. True)"
  by (induction ids arbitrary: s) (auto intro!: holds_ok holds_then holds_intros)

lemma enqueue_frames_holds: "Inv z s \<Longrightarrow> holds z (enqueue_frames ids kind update s) (\<lambda>_. True)"
  by (induction ids arbitrary: s) (auto intro!: holds_ok holds_then holds_intros)

definition see_all :: "'st statics \<Rightarrow> conn_id list \<Rightarrow> room_id \<Rightarrow> bool" where
  "see_all z ids room \<longleftrightarrow> list_all (\<lambda>connID. can_see z connID room) ids"

lemma to_targets:
  "Inv z s \<Longrightarrow> see_all z ids (om_Room m) \<Longrightarrow> holds z (enqueue_all (targets_of s ids) m s) (\<lambda>_. True)"
  by (rule enqueue_all_holds) (auto simp: targets_of_def see_all_def list_all_iff)

lemma members_see:
  assumes "Inv z s"
  shows "see_all z (memberIDsLocked (sv_rooms s) room x) room"
  using assms
  by (auto simp: see_all_def list_all_iff can_see_def memberIDsLocked_def without_def Inv_def eng_ok_def
      members_ok_def join_see dest!: spec)

lemma see_all_nothing [simp]: "see_all z ids []"
  by (simp add: see_all_def list_all_iff)

lemma broadcastEvent_holds [holds_intros]:
  assumes "Inv z s"
  shows "holds z (broadcastEvent event count s) (\<lambda>_. True)"
proof -
  let ?ids = "memberIDsLocked (sv_rooms s) (pe_Room event) (pe_ExcludeSenderConnID event)"
  have "holds z (enqueue_all (targets_of s ?ids) (eventOutboundMessage event) s) (\<lambda>_. True)"
    by (rule to_targets) (simp_all add: assms members_see eventOutboundMessage_def no_outbound_def)
  then show ?thesis
    unfolding broadcastEvent_def broadcastEventFanout_def EventFanout_def
    by (auto intro!: holds_then holds_modify)
qed

lemma broadcastPresenceFanout_holds [holds_intros]:
  "Inv z s \<Longrightarrow> see_all z (pf_TargetConnIDs fanout) (pr_Room (pf_Event fanout)) \<Longrightarrow>
     holds z (broadcastPresenceFanout fanout s) (\<lambda>_. True)"
  by (simp add: broadcastPresenceFanout_def to_targets presenceOutboundMessage_def no_outbound_def)

lemma broadcastStorageFanout_holds [holds_intros]:
  "Inv z s \<Longrightarrow> see_all z (sf_TargetConnIDs fanout) (sf_Room fanout) \<Longrightarrow>
     holds z (broadcastStorageFanout fanout s) (\<lambda>_. True)"
  by (simp add: broadcastStorageFanout_def to_targets storageUpdateOutboundMessage_def no_outbound_def)

lemma broadcastNotificationFanout_holds [holds_intros]:
  "Inv z s \<Longrightarrow> holds z (broadcastNotificationFanout fanout delta s) (\<lambda>_. True)"
  by (simp add: broadcastNotificationFanout_def to_targets no_outbound_def)

lemma broadcastYJSFanout_holds [holds_intros]:
  "Inv z s \<Longrightarrow> holds z (broadcastYJSFanout fanout s) (\<lambda>_. True)"
  by (simp add: broadcastYJSFanout_def enqueue_frames_holds)

lemma publishPresenceFanout_holds [holds_intros]:
  "Inv z s \<Longrightarrow> holds z (publishPresenceFanout fanout s) (\<lambda>_. True)"
  by (auto simp: publishPresenceFanout_def intro: holds_intros holds_Inr split: option.split)

lemma sendReplayEvents_holds [holds_intros]:
  "Inv z s \<Longrightarrow> (\<And>event. event \<in> set events \<Longrightarrow> can_see z connID (pe_Room event)) \<Longrightarrow>
     holds z (sendReplayEvents connID events s) (\<lambda>_. True)"
  by (induction events arbitrary: s)
     (auto simp: eventOutboundMessage_def no_outbound_def intro!: holds_ok holds_then holds_intros)

subsection \<open>The engine\<close>

lemma Inv_engine: "Inv z s \<Longrightarrow> eng_ok z (sv_rooms s)"
  by (simp add: Inv_def)

lemma Inv_set_engine: "Inv z s \<Longrightarrow> eng_ok z e \<Longrightarrow> Inv z (s\<lparr>sv_rooms := e\<rparr>)"
  by (simp add: Inv_def static_def conns_ok_def)

lemma eng_see: "eng_ok z e \<Longrightarrow> see_all z (memberIDsLocked e room x) room"
  by (auto simp: see_all_def list_all_iff can_see_def memberIDsLocked_def without_def eng_ok_def
      members_ok_def join_see dest!: spec)

lemma eng_shrink:
  assumes "eng_ok z e" "quiet_step e e'" "sessions e' = sessions e" "yjsRooms e' = yjsRooms e"
  shows "eng_ok z e'"
proof -
  have "members_of e' r |\<subseteq>| members_of e r" for r using quiet_step_rooms [OF assms(2)] by blast
  with assms(1) have "members_ok z e'" unfolding eng_ok_def members_ok_def by (meson fsubsetD)
  with assms show ?thesis
    by (auto simp: eng_ok_def sessions_match_def yjs_match_def intro: reachable_with.quiet)
qed

lemma eng_storage: "eng_ok z e \<Longrightarrow> quiet_step e e' \<Longrightarrow> same_rest e e' \<Longrightarrow> eng_ok z e'"
  by (rule eng_shrink) (simp_all add: same_rest_fields)

lemma on_engine_holds:
  assumes "Inv z s" "eng_ok z (snd (op (sv_rooms s)))"
    and "\<And>x e. op (sv_rooms s) = (Inr x, e) \<Longrightarrow> Q x"
  shows "holds z (on_engine op s) Q"
  using assms(2,3) Inv_set_engine [OF assms(1)]
  by (cases "op (sv_rooms s)"; cases "fst (op (sv_rooms s))") (auto simp: on_engine_def holds_def)

subsection \<open>Storage plans\<close>

definition plan_seen :: "'st statics \<Rightarrow> room_id \<Rightarrow> StorageMutationPlan \<Rightarrow> bool" where
  "plan_seen z room plan \<longleftrightarrow>
     sf_Room (smp_Fanout plan) = room \<and> see_all z (sf_TargetConnIDs (smp_Fanout plan)) room"

lemma plan_with_options_seen:
  "StorageMutationPlanWithOptions e room m options d = Inr plan \<Longrightarrow> eng_ok z e \<Longrightarrow> plan_seen z room plan"
  by (auto simp: StorageMutationPlanWithOptions_def StorageFanout_def plan_seen_def Let_def eng_see
      split: sum.split_asm if_split_asm)

lemma plan_of_seen:
  "plan_of p room options = (Inr plan, e) \<Longrightarrow> eng_ok z (snd p) \<Longrightarrow> plan_seen z room plan"
  by (auto simp: plan_of_def intro: plan_with_options_seen split: prod.split_asm sum.split_asm)

lemma plan_of_state: "snd (plan_of p room options) = snd p"
  by (auto simp: plan_of_def split: prod.split sum.split)

lemma record_plan_state:
  "snd (RecordStorageMutationPlan e room kind d ops mo eo) = snd (RecordStorageMutation e room kind d ops mo)"
  by (auto simp: RecordStorageMutationPlan_def split: prod.split sum.split)

lemma record_plan_seen:
  "RecordStorageMutationPlan e room kind d ops mo eo = (Inr plan, e') \<Longrightarrow> eng_ok z e' \<Longrightarrow> plan_seen z room plan"
  by (auto simp: RecordStorageMutationPlan_def StorageMutationPlan_def intro: plan_with_options_seen
      split: prod.split_asm sum.split_asm)

lemma eng_record: "eng_ok z e \<Longrightarrow> eng_ok z (snd (RecordStorageMutation e room kind d ops mo))"
  by (rule eng_storage [OF _ quiet_step.storage_mutation record_rest(1)])

lemma record_plan_holds [holds_intros]:
  assumes "Inv z s"
  shows "holds z (on_engine (\<lambda>e. RecordStorageMutationPlan e room kind d ops mo eo) s) (plan_seen z room)"
proof -
  note e = eng_record [OF Inv_engine [OF assms], of room kind d ops mo]
  show ?thesis
  proof (rule on_engine_holds [OF assms])
    show "eng_ok z (snd (RecordStorageMutationPlan (sv_rooms s) room kind d ops mo eo))"
      using e by (simp add: record_plan_state)
  next
    fix x e'
    assume r: "RecordStorageMutationPlan (sv_rooms s) room kind d ops mo eo = (Inr x, e')"
    then have "e' = snd (RecordStorageMutation (sv_rooms s) room kind d ops mo)"
      using record_plan_state [of "sv_rooms s" room kind d ops mo eo] by simp
    with r e show "plan_seen z room x" by (intro record_plan_seen) simp_all
  qed
qed

lemma engine_plan_holds:
  assumes "Inv z s" "quiet_step (sv_rooms s) (snd (op (sv_rooms s)))" "same_rest (sv_rooms s) (snd (op (sv_rooms s)))"
  shows "holds z (on_engine (\<lambda>e. plan_of (op e) room options) s) (plan_seen z room)"
proof (rule on_engine_holds [OF assms(1)])
  have e: "eng_ok z (snd (op (sv_rooms s)))"
    by (rule eng_storage [OF Inv_engine [OF assms(1)] assms(2,3)])
  then show "eng_ok z (snd (plan_of (op (sv_rooms s)) room options))" by (simp add: plan_of_state)
  show "plan_seen z room x" if "plan_of (op (sv_rooms s)) room options = (Inr x, e')" for x e'
    by (rule plan_of_seen [OF that e])
qed

lemma write_result_holds [holds_intros]:
  assumes "Inv z s"
  shows "holds z (storageMutationPlanFromWriteResult room kind res ops mo eo s) (plan_seen z room)"
  using assms plan_with_options_seen [OF _ Inv_engine [OF assms]]
  by (auto simp: storageMutationPlanFromWriteResult_def Let_def engine_result_def holds_Inl holds_Inr
      intro: holds_intros split: sum.split)

lemma setStorageMutationPlan_holds [holds_intros]:
  assumes "Inv z s"
  shows "holds z (setStorageMutationPlan room document mo eo s) (plan_seen z room)"
proof -
  have "holds z (on_engine (\<lambda>e. SetStorageMutationPlan e room document mo eo) s) (plan_seen z room)"
    unfolding SetStorageMutationPlan_def
    by (rule engine_plan_holds [OF assms], rule quiet_step.storage_set, rule storage_rest(1))
  with assms show ?thesis
    by (auto simp: setStorageMutationPlan_def holds_Inl intro!: holds_then holds_intros
        split: option.split prod.split)
qed

lemma applyStoragePatchMutationPlan_holds [holds_intros]:
  assumes "Inv z s"
  shows "holds z (applyStoragePatchMutationPlan room ops mo eo s) (plan_seen z room)"
proof -
  have "holds z (on_engine (\<lambda>e. ApplyStoragePatchMutationPlan e room ops mo eo) s) (plan_seen z room)"
    unfolding ApplyStoragePatchMutationPlan_def
    by (rule engine_plan_holds [OF assms], rule quiet_step.storage_patch, rule storage_rest(2))
  with assms show ?thesis
    by (auto simp: applyStoragePatchMutationPlan_def holds_Inl intro!: holds_then holds_intros
        split: option.split prod.split)
qed

lemma publishStoragePlan_holds [holds_intros]:
  assumes "Inv z s" "plan_seen z room plan"
  shows "holds z (publishStoragePlan plan s) (plan_seen z room)"
  using assms
  by (auto simp: publishStoragePlan_def StorageMutationPlan_WithEvent_def plan_seen_def Let_def holds_Inr
      intro!: holds_then holds_ok holds_intros split: option.split)

subsection \<open>Replies\<close>

lemma reply_room [simp]:
  "om_Room (runtimeErrorMessage i code m) = []" "om_Room (reply message code t) = []"
  "om_Room (storage_forbidden message) = []"
  by (simp_all add: runtimeErrorMessage_def no_outbound_def reply_def storage_forbidden_def)

lemma no_outbound_room [simp]: "om_Room no_outbound = []"
  by (simp add: no_outbound_def)

lemma event_message_room [simp]: "om_Room (eventOutboundMessage event) = pe_Room event"
  by (simp add: eventOutboundMessage_def)

lemma storage_error_see: "can_see z connID room \<Longrightarrow> can_see z connID (om_Room (storageErrorMessage s i room err))"
  by (simp add: storageErrorMessage_def Let_def split: sum.split prod.split)

lemma storage_ack_room [simp]: "om_Room (storageAckMessage message k d n) = mg_Room message"
  by (simp add: storageAckMessage_def)

subsection \<open>Storage handlers\<close>

lemma handleStorageGet_holds [holds_intros]:
  "Inv z s \<Longrightarrow> can_see z connID (mg_Room message) \<Longrightarrow>
     holds z (handleStorageGet connID message s) (\<lambda>_. True)"
  by (auto simp: handleStorageGet_def storage_error_see intro!: holds_intros split: sum.split)

lemma finish_storage_write_holds:
  assumes "holds z (write s) (plan_seen z (mg_Room message))" "can_see z connID (mg_Room message)"
  shows "holds z (finish_storage_write connID message metric write s) (\<lambda>_. True)"
  unfolding finish_storage_write_def
proof (rule holds_case)
  show "holds z (andDo write publishStoragePlan s) (plan_seen z (mg_Room message))"
    by (rule holds_andDo [where m = "write", OF assms(1)]) (rule publishStoragePlan_holds)
qed (use assms(2) in \<open>auto simp: storage_error_see plan_seen_def intro!: holds_intros holds_then holds_ok\<close>)

lemma storage_writes_hold [holds_intros]:
  assumes "Inv z s" "can_see z connID (mg_Room message)"
  shows "holds z (handleStorageSet connID message s) (\<lambda>_. True)"
    "holds z (handleStoragePatch connID message s) (\<lambda>_. True)"
  using assms
  by (auto simp: handleStorageSet_def handleStoragePatch_def
      intro!: holds_intros finish_storage_write_holds split: sum.split)

end
