(* ===== verification/Runtime_Lifecycle.thy ===== *)
theory Runtime_Lifecycle
  imports Runtime_Steps Yjs_Properties
begin

text \<open>
  The remaining handlers keep the invariant: joins, leaves, events, acknowledgements,
  presence, the dispatch of client messages and the events of other nodes.

  Dispatch, events of other nodes, Yjs frames, and the operations that change who is
  connected.
\<close>

subsection \<open>Resume sessions\<close>

lemma Inv_put_static:
  assumes "Inv z s" "fmlookup (z_claims z) connID = Some (cc_claims c')" "conn_ok (z_cfg z) c'"
  shows "Inv z (put_conn connID c' s)"
proof -
  from assms(1,2) obtain c where "fmlookup (sv_conns s) connID = Some c" "cc_claims c' = cc_claims c"
    by (auto simp: Inv_claims)
  with assms show ?thesis by (intro Inv_put_conn) (simp_all add: Inv_cfg)
qed

lemma conn_ok_session [simp]: "conn_ok cfg (c\<lparr>cc_resumeSession := x\<rparr>) = conn_ok cfg c"
  by (simp add: conn_ok_def)

lemma upsert_holds [holds_intros]:
  assumes "Inv z s"
  shows "holds z (upsertConnResumeSession connID s) (\<lambda>_. True)"
proof (cases "fmlookup (sv_conns s) connID")
  case None
  then show ?thesis using assms by (simp add: upsertConnResumeSession_def holds_Inr split: option.split)
next
  case (Some c)
  have "holds z (modify (put_conn connID (c\<lparr>cc_resumeSession := Some x\<rparr>)) s') (\<lambda>_. True)" if "Inv z s'" for x s'
    using that Inv_conn [OF assms Some] Some
    by (intro holds_modify Inv_put_static)
       (simp_all add: Inv_claims [OF assms] Inv_cfg [OF assms])
  with assms show ?thesis
    by (auto simp: upsertConnResumeSession_def Some Let_def holds_Inr intro!: holds_then holds_intros
        split: option.split)
qed

lemma put_session_Inv:
  assumes "Inv z s" "fmlookup (sv_conns s) connID = Some c"
  shows "Inv z (put_conn connID (c\<lparr>cc_resumeSession := Some rec\<rparr>) s)"
  using assms Inv_conn [OF assms] by (intro Inv_put_conn [OF assms]) simp_all

lemma session_holds [holds_intros]:
  assumes "Inv z s"
  shows "holds z (touchResumeSessionRoom connID room s) (\<lambda>_. True)"
    "holds z (persistResumeSessionCursor connID room n s) (\<lambda>_. True)"
  using assms
  by (auto simp: touchResumeSessionRoom_def persistResumeSessionCursor_def Let_def holds_Inr
      intro!: holds_intros put_session_Inv split: option.split)

lemma persistRoomEventAck_holds [holds_intros]:
  "Inv z s \<Longrightarrow> holds z (persistRoomEventAck connID room n s) (\<lambda>_. True)"
  by (auto simp: persistRoomEventAck_def holds_Inr intro: holds_intros split: option.split)

lemma membership_holds [holds_intros]:
  "Inv z s \<Longrightarrow> holds z (applyRoomMembershipMutation mutation s) (\<lambda>_. True)"
  by (auto simp: applyRoomMembershipMutation_def holds_Inr holds_Inl intro: holds_intros split: option.split)

subsection \<open>Joining\<close>

text \<open>The event log of a room holds events of that room.\<close>

definition faithful_log :: "'st Store option \<Rightarrow> bool" where
  "faithful_log st \<longleftrightarrow>
     (\<forall>store state room after n events. st = Some store \<longrightarrow>
        os_ListPublishedEvents store state room after n = Inr events \<longrightarrow>
        list_all (\<lambda>event. pe_Room event = room) events)"

definition z_store :: "'st statics \<Rightarrow> 'st Store option" where "z_store z = fst (snd z)"

lemma Inv_store: "Inv z s \<Longrightarrow> sv_store s = z_store z"
  by (auto simp: Inv_def static_def z_store_def)

lemma ReplayEvents_subset: "set (ReplayEvents plan events) \<subseteq> set events"
  by (induction plan events rule: ReplayEvents.induct) auto

lemma replayable_room:
  assumes "replayablePublishedEvents s room plan = Inr events" "faithful_log (sv_store s)" "event \<in> set events"
  shows "pe_Room event = room"
proof (cases "sv_store s")
  case None
  with assms(1,3) show ?thesis by (auto simp: replayablePublishedEvents_def)
next
  case (Some store)
  with assms(1,3) obtain after n all where
    "os_ListPublishedEvents store (sv_storeState s) room after n = Inr all" "event \<in> set all"
    using ReplayEvents_subset
    by (fastforce simp: replayablePublishedEvents_def JoinPlan_ReplayEvents_def
        split: prod.split_asm bool.split_asm sum.split_asm)
  with assms(2) Some show ?thesis by (auto simp: faithful_log_def list_all_iff)
qed

lemma finish_join_holds:
  assumes "Inv z s" "can_see z connID (mg_Room message)" "faithful_log (z_store z)"
  shows "holds z (finish_join connID message plan s) (\<lambda>_. True)"
proof -
  let ?room = "mg_Room message"
  have replay: "holds z (reading (\<lambda>s. replayablePublishedEvents s ?room plan) s')
      (\<lambda>events. list_all (\<lambda>event. pe_Room event = ?room) events)" if "Inv z s'" for s'
    using that assms(3) by (auto intro!: holds_reading dest: replayable_room simp: Inv_store list_all_iff)
  with assms(1,2) show ?thesis
    unfolding finish_join_def Let_def
    by (auto intro!: holds_then [where m = "applyRoomMembershipMutation _"]
        holds_then [where m = "reading (\<lambda>s. snapshotJoinedRoom s _ _)"] holds_andDo [OF replay]
        holds_then [where m = "enqueue _ _"] holds_then [where m = "modify _"]
        holds_then [where m = "touchResumeSessionRoom _ _"] holds_reading holds_modify holds_intros
        simp: list_all_iff)
qed

lemma eng_join:
  assumes "eng_ok z e" "fmlookup (z_claims z) connID = Some claims" "may_join (z_cfg z) claims room"
  shows "eng_ok z (snd (JoinWithLimits e connID room (limits_of (z_cfg z))))"
proof -
  obtain res e' where j: "JoinWithLimits e connID room (limits_of (z_cfg z)) = (res, e')" by fastforce
  have rest: "sessions e' = sessions e" "yjsRooms e' = yjsRooms e"
    using j by (auto simp: JoinWithLimits_def Let_def split: if_split_asm)
  have "reachable_with (limits_of (z_cfg z)) e'"
    using reachable_with.join [of "limits_of (z_cfg z)" e connID room] assms(1) j by (simp add: eng_ok_def)
  moreover have "members_ok z e'"
    using j assms by (cases rule: join_cases) (auto simp: members_ok_def eng_ok_def split: if_split_asm)
  ultimately show ?thesis
    using assms(1) rest by (simp add: eng_ok_def sessions_match_def yjs_match_def j)
qed

lemma handleJoin_holds [holds_intros]:
  assumes "Inv z s" "can_see z connID (mg_Room message)" "faithful_log (z_store z)"
    and "fmlookup (z_claims z) connID = Some claims"
  shows "holds z (handleJoin connID message s) (\<lambda>_. True)"
proof (cases "allowsRoomAction s (claims_of s connID) ''join'' (mg_Room message)")
  case False
  with assms show ?thesis by (auto simp: handleJoin_def intro: holds_intros)
next
  case True
  have "claims_of s connID = claims" by (rule Inv_claims_of [OF assms(1,4)])
  with True allows_may_join have "may_join (z_cfg z) claims (mg_Room message)"
    by (metis Inv_cfg [OF assms(1)])
  note e = eng_join [OF Inv_engine [OF assms(1)] assms(4) this]
  have "holds z (on_engine (\<lambda>e. JoinWithLimits e connID (mg_Room message) (limits_of (sv_cfg s))) s) (\<lambda>_. True)"
    using e by (intro on_engine_holds assms(1)) (simp_all add: Inv_cfg [OF assms(1)])
  note join = this [unfolded limits_of_def]
  from True assms show ?thesis
    unfolding handleJoin_def
    by (auto simp: holds_Inl intro!: holds_case [OF join] finish_join_holds holds_intros split: sum.split)
qed

subsection \<open>Leaving, events, presence\<close>

lemma apply_leave_Inv: "Inv z s \<Longrightarrow> Inv z (apply_leave plan s)"
  unfolding apply_leave_def
  by (rule Inv_set_engine, assumption, rule eng_shrink [OF Inv_engine quiet_step.leave])
     (auto simp: ApplyLeavePlan_def Let_def removeEventAckLocked_def removePresenceLocked_def
        removeRoomMemberLocked_def split: option.split)

lemma leave_plan_see:
  assumes "Inv z s" "lp_PresenceFanout (NewLeavePlan (sv_rooms s) connID room options) = Some fanout"
  shows "see_all z (pf_TargetConnIDs fanout) (pr_Room (pf_Event fanout))"
  using assms(2) eng_see [OF Inv_engine [OF assms(1)]]
  by (auto simp: NewLeavePlan_def newLeavePlan_def no_leave_def NewOfflinePresenceEvent_def split: if_split_asm)

lemma handleLeave_holds [holds_intros]:
  assumes "Inv z s" "can_see z connID (mg_Room message)"
  shows "holds z (handleLeave connID message s) (\<lambda>_. True)"
  unfolding handleLeave_def Let_def
  using assms leave_plan_see [OF assms(1)]
  by (intro holds_then) (auto intro!: holds_then holds_intros holds_modify holds_ok apply_leave_Inv
      split: option.split)

lemma publish_event_holds [holds_intros]: "Inv z s \<Longrightarrow> holds z (publish_event event s) (\<lambda>_. True)"
  by (auto simp: publish_event_def holds_Inr intro: holds_intros split: option.split)

lemma handleEmit_holds [holds_intros]:
  assumes "Inv z s"
  shows "holds z (handleEmit connID message s) (\<lambda>_. True)"
proof -
  obtain b s' where a: "allow_emit connID s = (b, s')" by fastforce
  then have "Inv z s'" using allow_emit_Inv [OF assms, of connID] by simp
  with assms a show ?thesis
    by (auto simp: handleEmit_def Let_def intro!: holds_then holds_intros holds_modify split: bool.split)
qed

lemma acknowledge_Inv: "Inv z s \<Longrightarrow> Inv z (snd (acknowledge connID room n s))"
  using eng_shrink [OF Inv_engine quiet_step.acknowledge, of z s connID room n]
  by (auto simp: acknowledge_def AcknowledgeEvent_def Let_def intro!: Inv_set_engine)

lemma handleEventAck_holds [holds_intros]:
  assumes "Inv z s" "can_see z connID (mg_Room message)"
  shows "holds z (handleEventAck connID message s) (\<lambda>_. True)"
proof (cases "mg_EventAckMeta message")
  case None
  with assms show ?thesis by (auto simp: handleEventAck_def intro: holds_intros)
next
  case (Some meta)
  obtain b s' where a: "acknowledge connID (mg_Room message) (am_Sequence meta) s = (b, s')" by fastforce
  then have "Inv z s'" using acknowledge_Inv [OF assms(1)] by (metis snd_conv)
  with assms a Some show ?thesis
    by (auto simp: handleEventAck_def Let_def intro!: holds_then holds_intros holds_modify split: bool.split)
qed

lemma set_presence_Inv:
  "Inv z s \<Longrightarrow> Inv z (s\<lparr>sv_rooms := snd (ApplyPresenceSetPlan (sv_rooms s) fanout)\<rparr>)"
  using eng_shrink [OF Inv_engine quiet_step.set_presence, of z s "pr_ConnID (pf_Event fanout)"
      "pr_Room (pf_Event fanout)" "pr_State (pf_Event fanout)"]
  by (auto simp: ApplyPresenceSetPlan_def SetPresence_def setPresenceLocked_def intro!: Inv_set_engine)

lemma handlePresence_holds [holds_intros]:
  assumes "Inv z s"
  shows "holds z (handlePresence connID message s) (\<lambda>_. True)"
proof -
  let ?f = "NewPresenceSetPlan (sv_rooms s) connID (mg_Room message) (mg_Payload message) (node_origin s)"
  have see: "see_all z (pf_TargetConnIDs ?f) (pr_Room (pf_Event ?f))"
    using eng_see [OF Inv_engine [OF assms]] by (simp add: NewPresenceSetPlan_def NewPresenceEvent_def)
  have "holds z (case ApplyPresenceSetPlan (sv_rooms s') ?f of (fanout, e) \<Rightarrow>
      andDo (broadcastPresenceFanout fanout)
        (\<lambda>_. modify (\<lambda>s. recordConnUsage connID (mg_Room message) ''presence.upserted'' 1 (recordPresenceUpdate s)))
        (s'\<lparr>sv_rooms := e\<rparr>)) (\<lambda>_. True)" if "Inv z s'" for s'
    using set_presence_Inv [OF that, of ?f] see
    by (auto simp: ApplyPresenceSetPlan_def intro!: holds_then holds_intros holds_modify)
  with assms show ?thesis
    unfolding handlePresence_def Let_def
    by (auto intro!: holds_then [where m = "publishPresenceFanout _"] holds_then [where m = "ok ()"]
        holds_then [where m = "on_store _"] holds_ok holds_intros split: option.split)
qed

subsection \<open>Client messages\<close>

lemma message_see:
  assumes "Inv z s" "claims_of s connID = Some cl" "prefix (tenantPrefix (sv_cfg s) cl) room"
  shows "can_see z connID room"
  using assms by (auto simp: can_see_def Inv_claims [OF assms(1)] Inv_cfg [OF assms(1)] claims_of_def may_see_def)

lemma handleClientMessage_holds [holds_intros]:
  assumes "Inv z s" "faithful_log (z_store z)"
  shows "holds z (handleClientMessage connID payload s) (\<lambda>_. True)"
proof (cases "claims_of s connID")
  case None
  with assms show ?thesis by (simp add: handleClientMessage_def holds_Inl)
next
  case (Some cl)
  let ?o = "\<lparr>pao_MaxEnvelopeBytes = li_EnvelopeMaxBytes (cfg_Limits (sv_cfg s)),
       pao_MaxPayloadBytes = li_PayloadMaxBytes (cfg_Limits (sv_cfg s)),
       pao_TenantPrefix = tenantPrefix (sv_cfg s) cl\<rparr>"
  show ?thesis
  proof (cases "ParseClientMessage payload ?o")
    case (Inl err)
    with Some assms show ?thesis
      by (auto simp: handleClientMessage_def Let_def intro!: enqueue_holds)
  next
    case (Inr message)
    have see: "can_see z connID (mg_Room message)"
      using parsed_head(1) [OF Inr] by (intro message_see [OF assms(1) Some]) simp
    obtain claims where "fmlookup (z_claims z) connID = Some claims"
      using Some by (auto simp: Inv_claims [OF assms(1)] claims_of_def split: option.split_asm)
    with see assms Some Inr show ?thesis
      by (auto simp: handleClientMessage_def Let_def handler_for_def intro!: holds_intros)
  qed
qed

subsection \<open>Other nodes\<close>

lemma record_event_seen:
  assumes "RecordStorageEvent e event n = (Inr plan, e')" "eng_ok z e'"
  shows "see_all z (sf_TargetConnIDs (smp_Fanout plan)) (sf_Room (smp_Fanout plan))"
proof -
  from assms(1) obtain room kind d ops mo eo plan' where
    r: "RecordStorageMutationPlan e room kind d ops mo eo = (Inr plan', e')"
    and p: "sf_TargetConnIDs (smp_Fanout plan) = sf_TargetConnIDs (smp_Fanout plan')"
      "sf_Room (smp_Fanout plan) = sf_Room (smp_Fanout plan')"
    by (auto simp: RecordStorageEvent_def Let_def split: option.split_asm prod.split_asm sum.split_asm)
  from record_plan_seen [OF r assms(2)] p show ?thesis by (simp add: plan_seen_def)
qed

lemma record_event_holds:
  assumes "Inv z s"
  shows "holds z (on_engine (\<lambda>e. RecordStorageEvent e event n) s)
    (\<lambda>plan. see_all z (sf_TargetConnIDs (smp_Fanout plan)) (sf_Room (smp_Fanout plan)))"
proof (rule on_engine_holds [OF assms])
  show e: "eng_ok z (snd (RecordStorageEvent (sv_rooms s) event n))"
    by (rule eng_storage [OF Inv_engine [OF assms] quiet_step.storage_record record_rest(2)])
  fix x e'
  assume "RecordStorageEvent (sv_rooms s) event n = (Inr x, e')"
  with e show "see_all z (sf_TargetConnIDs (smp_Fanout x)) (sf_Room (smp_Fanout x))"
    by (intro record_event_seen) simp_all
qed

lemma handleClusterEvent_Inv [inv_intros]:
  assumes "Inv z s"
  shows "Inv z (handleClusterEvent event s)"
proof -
  have "holds z (broadcastNotificationDelta event s) (\<lambda>_. True)"
    using assms by (auto simp: broadcastNotificationDelta_def holds_Inr Let_def intro!: holds_intros split: option.split)
  with assms show ?thesis
    unfolding handleClusterEvent_def Let_def
    by (auto simp: NewClusterEventPlan_def intro!: Inv_case [OF record_event_holds]
        Inv_ignore [OF broadcastEvent_holds] Inv_ignore [OF broadcastStorageFanout_holds]
        intro: Inv_ignore split: ClusterEventKind.split)
qed

lemma cluster_fanouts_Inv [inv_intros]:
  assumes "Inv z s"
  shows "Inv z (handleClusterPresence pevent s)" "Inv z (handleClusterYJSEvent yevent s)"
proof -
  have "see_all z (pf_TargetConnIDs (PresenceFanout (sv_rooms s) pevent)) (pr_Room pevent)"
    using eng_see [OF Inv_engine [OF assms]] by (simp add: PresenceFanout_def)
  with assms show "Inv z (handleClusterPresence pevent s)"
    by (auto simp: handleClusterPresence_def Let_def NewClusterPresencePlan_def PresenceFanout_def
        intro!: Inv_ignore [OF broadcastPresenceFanout_holds])
  from assms show "Inv z (handleClusterYJSEvent yevent s)"
    by (auto simp: handleClusterYJSEvent_def Let_def broadcastYJSEvent_def
        intro!: Inv_ignore [where m = "broadcastYJSEvent _"] holds_intros)
qed

subsection \<open>Yjs frames\<close>

lemma yconn_ok_close [simp]: "yconn_ok cfg (close_yjs_code code c) = yconn_ok cfg c"
  by (auto simp: yconn_ok_def close_yjs_code_def yjsConn_close_def)

lemma close_yjs_static [simp]:
  "yn_claims (close_yjs_code code c) = yn_claims c" "yn_room (close_yjs_code code c) = yn_room c"
  by (simp_all add: close_yjs_code_def yjsConn_close_def)

lemma closing_holds [holds_intros]: "Inv z s \<Longrightarrow> holds z (closing connID code s) Q"
  by (auto simp: closing_def holds_def dest: Inv_yconn intro!: Inv_put_yjs split: option.split)

lemma or_close_holds:
  assumes "holds z (m s) Q"
  shows "holds z (or_close connID m s) Q"
proof (cases "m s")
  case (Pair r s')
  with assms closing_holds [of z s' connID CodeInternal Q] show ?thesis
    by (cases r) (simp_all add: or_close_def holds_def)
qed

lemma store_yjs_eng:
  assumes "eng_ok z e" "NewYJSPersistencePlan event = Inr plan"
  shows "eng_ok z (snd (StoreYJSPersistence e plan))"
proof -
  have "snd (StoreYJSEvent e event) = snd (StoreYJSPersistence e plan)"
    using assms(2) by (simp add: StoreYJSEvent_def split: prod.split)
  then have "quiet_step e (snd (StoreYJSPersistence e plan))"
    using quiet_step.yjs_store [of e event] by simp
  then show ?thesis
    by (rule eng_shrink [OF assms(1)]) (auto simp: StoreYJSPersistence_def Let_def)
qed

lemma storeYJSEvent_holds [holds_intros]:
  assumes "Inv z s"
  shows "holds z (storeYJSEvent event s) (\<lambda>_. True)"
proof (cases "NewYJSPersistencePlan event")
  case (Inl err)
  with assms show ?thesis by (simp add: storeYJSEvent_def holds_Inl)
next
  case (Inr plan)
  note e = Inv_set_engine [OF assms store_yjs_eng [OF Inv_engine [OF assms] Inr]]
  with assms show ?thesis
    by (auto simp: storeYJSEvent_def Inr Let_def holds_def [of _ "(_, _)"] intro!: holds_then holds_ok
        on_store_holds split: option.split prod.split)
qed

lemma publish_yjs_holds [holds_intros]: "Inv z s \<Longrightarrow> holds z (publish_yjs effects s) (\<lambda>_. True)"
  by (auto simp: publish_yjs_def holds_Inr intro: holds_intros split: option.split)

lemma apply_yjs_plan_holds [holds_intros]:
  assumes "Inv z s"
  shows "holds z (apply_yjs_plan connID kind plan s) (\<lambda>_. True)"
  unfolding apply_yjs_plan_def using assms
  by (intro holds_then) (auto intro!: holds_then holds_ok holds_modify holds_reading or_close_holds
      storeYJSEvent_holds publish_yjs_holds broadcastYJSFanout_holds)

lemma handleYJSFrame_holds [holds_intros]:
  assumes "Inv z s"
  shows "holds z (handleYJSFrame connID binary frame s) (\<lambda>_. True)"
proof -
  obtain b s' where a: "allow_yjs connID s = (b, s')" by fastforce
  then have "Inv z s'" using allow_yjs_Inv [OF assms, of connID] by simp
  with a assms show ?thesis
    unfolding handleYJSFrame_def Let_def
    by (auto simp: holds_Inl intro: holds_intros split: option.split list.split bool.split)
qed

end
