(* ===== verification/Runtime_Reachable.thy ===== *)
theory Runtime_Reachable
  imports Runtime_Lifecycle
begin

text \<open>
  Connecting and disconnecting keep the invariant, and so does every step of the service:
  the states of a service that are reachable from its start.

  A small service for the examples of the properties: one node without a store, a client
  that has connected and joined a room.
\<close>

definition origin :: "'st Service \<Rightarrow> RuntimeConfig \<times> 'st Store option" where
  "origin s = (sv_cfg s, sv_store s)"

definition z_origin :: "'st statics \<Rightarrow> RuntimeConfig \<times> 'st Store option" where
  "z_origin z = (fst z, fst (snd z))"

text \<open>The service still has the configuration and the store of its start.\<close>

definition svc_ok :: "RuntimeConfig \<times> 'st Store option \<Rightarrow> 'st Service \<Rightarrow> bool" where
  "svc_ok u s \<longleftrightarrow> origin s = u \<and> Inv (static s) s"

lemma z_origin_static [simp]: "z_origin (static s) = origin s"
  by (simp add: z_origin_def static_def origin_def)

lemma Inv_svc_ok: "Inv z s \<Longrightarrow> z_origin z = u \<Longrightarrow> svc_ok u s"
  by (auto simp: svc_ok_def Inv_def)

lemma origin_congs [simp]:
  "origin (s\<lparr>sv_rooms := e\<rparr>) = origin s" "origin (s\<lparr>sv_conns := c\<rparr>) = origin s"
  "origin (s\<lparr>sv_yjsConns := y\<rparr>) = origin s" "origin (put_conn connID cc s) = origin s"
  "origin (put_yjs connID yc s) = origin s"
  by (simp_all add: origin_def put_conn_def put_yjs_def)

lemma svc_ok_origin: "svc_ok u s \<Longrightarrow> origin s = u"
  by (simp add: svc_ok_def)

lemma svc_ok_by_Inv: "(\<And>z. Inv z s \<Longrightarrow> Inv z s') \<Longrightarrow> svc_ok u s \<Longrightarrow> svc_ok u s'"
  using Inv_svc_ok [of "static s" s' u] by (simp add: svc_ok_def)

lemma svc_ok_engine: "svc_ok u s \<Longrightarrow> eng_ok (static s) (sv_rooms s) \<and> wf_engine (sv_rooms s)"
  by (auto simp: svc_ok_def Inv_def eng_ok_def intro: wf_reachable reachable_with_reachable)

subsection \<open>Who may be there\<close>

text \<open>An engine is right for more connections than before, as long as nobody's entry changes.\<close>

lemma members_ok_extend:
  assumes "members_ok z e" "z_cfg z' = z_cfg z" "\<And>r. members_of e' r |\<subseteq>| members_of e r"
    and "\<And>connID claims r. fmlookup (z_claims z) connID = Some claims \<Longrightarrow> connID |\<in>| members_of e' r
      \<Longrightarrow> fmlookup (z_claims z') connID = Some claims"
  shows "members_ok z' e'"
  using assms unfolding members_ok_def by (metis fsubsetD)

lemma yjs_match_extend:
  assumes "yjs_match z e" "z_cfg z' = z_cfg z" "\<And>r. yjs_members e' r |\<subseteq>| yjs_members e r"
    and "\<And>connID claims r. fmlookup (z_yjs z) connID = Some (claims, r) \<Longrightarrow> connID |\<in>| yjs_members e' r
      \<Longrightarrow> fmlookup (z_yjs z') connID = Some (claims, r)"
  shows "yjs_match z' e'"
  using assms unfolding yjs_match_def by (metis fsubsetD)

subsection \<open>Registration\<close>

lemma touch_Inv [simp]: "Inv z (applyConnectionTouch touch s) \<longleftrightarrow> Inv z s"
  by (auto simp: applyConnectionTouch_def ignore_def on_store_def split: option.split prod.split)

lemma cleanup_Inv [simp]: "Inv z (applyConnectionCleanup cleanup s) \<longleftrightarrow> Inv z s"
  by (auto simp: applyConnectionCleanup_def ignore_def on_store_def split: option.split prod.split)

lemma heartbeat_Inv [simp]: "Inv z (heartbeat connID s) \<longleftrightarrow> Inv z s"
  by (simp add: heartbeat_def)

lemma reconcile_Inv [simp]: "Inv z (reconcile s) \<longleftrightarrow> Inv z s"
  by (auto simp: reconcile_def ignore_def on_store_def split: option.split prod.split)

lemma registerConn_ok:
  assumes "svc_ok u s" "connID \<noteq> []" "fmlookup (sv_conns s) connID = None" "conn_ok (sv_cfg s) c"
  shows "svc_ok u (registerConn connID c s)"
proof -
  let ?e = "snd (RegisterSession (sv_rooms s) (sessionInfoFromConn connID c))"
  let ?s = "put_conn connID c (s\<lparr>sv_rooms := ?e\<rparr>)"
  have e: "?e = (sv_rooms s)\<lparr>sessions := fmupd connID (session_of connID (cc_claims c)) (sessions (sv_rooms s))\<rparr>"
    using assms(2) by (simp add: RegisterSession_def sessionInfoFromConn_eq session_of_def split: option.split)
  have eng: "eng_ok (static s) (sv_rooms s)" using svc_ok_engine [OF assms(1)] by simp
  have "reachable_with (limits_of (sv_cfg s)) ?e"
    using eng quiet_step.register by (auto simp: eng_ok_def intro: reachable_with.quiet)
  moreover have "members_ok (static ?s) ?e" "yjs_match (static ?s) ?e"
    using eng assms(3)
    by (auto simp: eng_ok_def put_conn_def e intro!: members_ok_extend [of "static s" "sv_rooms s"]
        yjs_match_extend [of "static s" "sv_rooms s"])
  moreover have "sessions_match (static ?s) ?e"
    using eng by (auto simp: eng_ok_def sessions_match_def put_conn_def e)
  ultimately have "Inv (static ?s) ?s"
    using assms(1,4) by (auto simp: Inv_def eng_ok_def svc_ok_def conns_ok_def put_conn_def)
  then have "Inv (static ?s) (registerConn connID c s)"
    by (cases "RegisterSession (sv_rooms s) (sessionInfoFromConn connID c)") (simp add: registerConn_def)
  then show ?thesis by (rule Inv_svc_ok) (simp add: svc_ok_origin [OF assms(1)])
qed

lemma disconnect_fanout_Inv:
  assumes "Inv z s" "see_all z (pf_TargetConnIDs f) (pr_Room (pf_Event f))"
  shows "Inv z (case publishPresenceFanout f s of
      (Inl _, s) \<Rightarrow> s | (Inr _, s) \<Rightarrow> ignore (broadcastPresenceFanout f) s)"
  by (rule Inv_case [OF publishPresenceFanout_holds [OF assms(1)]])
     (auto intro: Inv_ignore [OF broadcastPresenceFanout_holds] assms(2))

lemma disconnect_fanouts_Inv:
  "Inv z s \<Longrightarrow> list_all (\<lambda>f. see_all z (pf_TargetConnIDs f) (pr_Room (pf_Event f))) fanouts \<Longrightarrow>
     Inv z (disconnect_fanouts fanouts s)"
  by (induction fanouts arbitrary: s)
     (simp_all add: disconnect_fanout_Inv)

lemma unregisterConn_ok:
  assumes "svc_ok u s"
  shows "svc_ok u (unregisterConn connID s)"
proof -
  let ?plan = "NewDisconnectPlan (sv_rooms s) connID (node_origin s)"
  have "fst (ApplyDisconnectPlan (sv_rooms s) ?plan) = ?plan"
    by (simp add: ApplyDisconnectPlan_def NewDisconnectPlan_def newDisconnectPlan_def Let_def)
  then obtain e where res: "ApplyDisconnectPlan (sv_rooms s) ?plan = (?plan, e)" by (metis prod.collapse)
  then have e: "e = snd (ApplyDisconnectPlan (sv_rooms s) ?plan)" by simp
  let ?s = "s\<lparr>sv_rooms := e, sv_conns := fmdrop connID (sv_conns s)\<rparr>"
  have eng: "eng_ok (static s) (sv_rooms s)" and wf: "wf_engine (sv_rooms s)"
    using svc_ok_engine [OF assms] by simp_all
  have fields: "sessions e = fmdrop connID (sessions (sv_rooms s))" "yjsRooms e = yjsRooms (sv_rooms s)"
    "members_of e r = members_of (sv_rooms s) r |-| {|connID|}" for r
    using wf
    by (auto simp: e ApplyDisconnectPlan_def NewDisconnectPlan_def newDisconnectPlan_def Let_def
        removeFromRooms_fields removeFromRooms_members wf_engine_def rooms_ok_def)
  have "quiet_step (sv_rooms s) e"
    using quiet_step.disconnect [of "sv_rooms s" connID "node_origin s"] by (simp add: DisconnectSession_def e)
  then have "reachable_with (limits_of (sv_cfg s)) e"
    using eng by (auto simp: eng_ok_def intro: reachable_with.quiet)
  moreover have "members_ok (static ?s) e" "yjs_match (static ?s) e"
    using eng
    by (auto simp: eng_ok_def fields intro!: members_ok_extend [of "static s" "sv_rooms s"]
        yjs_match_extend [of "static s" "sv_rooms s"])
  moreover have "sessions_match (static ?s) e"
    using eng by (auto simp: eng_ok_def sessions_match_def fields)
  ultimately have inv: "Inv (static ?s) ?s"
    using assms by (auto simp: Inv_def eng_ok_def svc_ok_def conns_ok_def)
  have "can_see (static ?s) x room" if "can_see (static s) x room" for x room
    using that by (auto simp: can_see_def)
  then have "see_all (static ?s) ids room" if "see_all (static s) ids room" for ids room
    using that by (auto simp: see_all_def list_all_iff)
  then have "list_all (\<lambda>f. see_all (static ?s) (pf_TargetConnIDs f) (pr_Room (pf_Event f))) (dp_PresenceFanouts ?plan)"
    using eng_see [OF eng]
    by (auto simp: NewDisconnectPlan_def newDisconnectPlan_def Let_def list_all_iff NewOfflinePresenceEvent_def)
  with inv have "Inv (static ?s) (unregisterConn connID s)"
    by (simp add: unregisterConn_def res Let_def disconnect_fanouts_Inv)
  then show ?thesis by (rule Inv_svc_ok) (simp add: svc_ok_origin [OF assms])
qed

subsection \<open>Requests\<close>

lemma authenticate_key_Inv: "Inv z s \<Longrightarrow> holds z (authenticate_key tok projectID s) (\<lambda>a. ra_claims a \<noteq> None)"
  by (auto simp: authenticate_key_def holds_Inl intro!: holds_then [OF on_store_holds] holds_ok split: option.split)

lemma authenticateRequest_holds:
  "Inv z s \<Longrightarrow> holds z (authenticateRequest verify r s) (\<lambda>a. ra_claims a \<noteq> None)"
  by (auto simp: authenticateRequest_def Let_def holds_Inl holds_Inr intro: authenticate_key_Inv [simplified]
      split: option.split sum.split)

lemma resumeSession_holds: "Inv z s \<Longrightarrow> holds z (resumeSessionFromRequest r claims p s) (\<lambda>_. True)"
  by (auto simp: resumeSessionFromRequest_def Let_def holds_Inl holds_Inr
      intro!: holds_then [OF on_store_holds] holds_ok split: option.split sum.split)

lemma new_conn_ok: "ra_claims a \<noteq> None \<Longrightarrow> conn_ok cfg (new_conn cfg a rs)"
  by (simp add: conn_ok_def new_conn_def)

lemma open_conn_ok:
  assumes "svc_ok u s" "connID \<noteq> []" "fmlookup (sv_conns s) connID = None" "conn_ok (sv_cfg s) c"
  shows "svc_ok u (open_conn connID c s)"
proof -
  let ?s = "recordConnUsage connID [] ''runtime.connections'' 1 (registerConn connID c s)"
  have inv: "Inv (static (registerConn connID c s)) ?s"
    using registerConn_ok [OF assms] by (simp add: svc_ok_def)
  have "holds (static (registerConn connID c s)) (enqueue connID (hello (sv_cfg ?s) connID c) ?s) (\<lambda>_. True)"
    by (rule enqueue_holds [OF inv]) (simp add: hello_def)
  then have "Inv (static (registerConn connID c s)) (snd (enqueue connID (hello (sv_cfg ?s) connID c) ?s))"
    by (simp add: holds_def)
  then have "svc_ok u (snd (enqueue connID (hello (sv_cfg ?s) connID c) ?s))"
    by (rule Inv_svc_ok) (simp add: svc_ok_origin [OF registerConn_ok [OF assms]])
  then show ?thesis
    by (auto simp: open_conn_def Let_def intro!: unregisterConn_ok split: prod.split sum.split)
qed

lemma handleWS_ok:
  assumes "svc_ok u s" "connID \<noteq> []" "fmlookup (sv_conns s) connID = None"
  shows "svc_ok u (snd (handleWS verify r connID s))"
proof -
  let ?z = "static s"
  have inv: "Inv ?z s" using assms(1) by (simp add: svc_ok_def)
  have u: "z_origin ?z = u" using assms(1) by (simp add: svc_ok_def)
  note keep = Inv_svc_ok [OF _ u]
  obtain ra s1 where a: "authenticateRequest verify r s = (ra, s1)" by fastforce
  with authenticateRequest_holds [OF inv, of verify r] have inv1: "Inv ?z s1"
    and claims: "\<And>x. ra = Inr x \<Longrightarrow> ra_claims x \<noteq> None"
    by (auto simp: holds_def)
  show ?thesis
  proof (cases ra)
    case (Inl err)
    with a keep [OF inv1] show ?thesis by (simp add: handleWS_def accept_ws_def)
  next
    case (Inr authn)
    obtain rs s2 where b: "resumeSessionFromRequest r (ra_claims authn) (ra_projectID authn) s1 = (rs, s2)"
      by fastforce
    with resumeSession_holds [OF inv1, of r "ra_claims authn" "ra_projectID authn"] have inv2: "Inv ?z s2"
      by (simp add: holds_def)
    have "fmlookup (sv_conns s2) connID = None"
      using Inv_claims [OF inv2, of connID] Inv_claims [OF inv, of connID] assms(3) by simp
    with keep [OF inv2] claims Inr a b assms(2) show ?thesis
      by (auto simp: handleWS_def accept_ws_def intro!: open_conn_ok new_conn_ok split: sum.split)
  qed
qed

subsection \<open>Yjs connections\<close>

lemma unregister_yjs_members:
  assumes "wf_engine e"
  shows "yjs_members (UnregisterYJSConn e connID room) r = yjs_members e r |-| {|connID|}"
  using yjs_agree [OF assms, of connID] 
  by (auto simp: UnregisterYJSConn_def Let_def removeYJSConnLocked_def split: option.split)

lemma unregister_yjs_rest:
  "sessions (UnregisterYJSConn e connID room) = sessions e" "rooms (UnregisterYJSConn e connID room) = rooms e"
  by (auto simp: UnregisterYJSConn_def Let_def removeYJSConnLocked_def split: option.split)

lemma unregisterYJSConn_ok:
  assumes "svc_ok u s"
  shows "svc_ok u (unregisterYJSConn connID s)"
proof (cases "fmlookup (sv_yjsConns s) connID")
  case None
  with assms show ?thesis by (simp add: unregisterYJSConn_def)
next
  case (Some c)
  let ?e = "UnregisterYJSConn (sv_rooms s) connID (yn_room c)"
  let ?s = "s\<lparr>sv_yjsConns := fmdrop connID (sv_yjsConns s), sv_rooms := ?e\<rparr>"
  have eng: "eng_ok (static s) (sv_rooms s)" and wf: "wf_engine (sv_rooms s)"
    using svc_ok_engine [OF assms] by simp_all
  have "members_ok (static ?s) ?e" "yjs_match (static ?s) ?e"
    using eng unregister_yjs_members [OF wf]
    by (auto simp: eng_ok_def unregister_yjs_rest intro!: members_ok_extend [of "static s" "sv_rooms s"]
        yjs_match_extend [of "static s" "sv_rooms s"])
  moreover have "reachable_with (limits_of (sv_cfg s)) ?e"
    using eng quiet_step.yjs_unregister by (auto simp: eng_ok_def intro: reachable_with.quiet)
  ultimately have "Inv (static ?s) ?s"
    using assms eng
    by (auto simp: Inv_def eng_ok_def svc_ok_def conns_ok_def sessions_match_def unregister_yjs_rest)
  then have "svc_ok u ?s" by (rule Inv_svc_ok) (simp add: svc_ok_origin [OF assms])
  then show ?thesis by (simp add: unregisterYJSConn_def Some)
qed

lemma register_yjs_rest:
  assumes "RegisterYJSSessionWithLimit e info n = (err, e')"
  shows "sessions e' = sessions e" "rooms e' = rooms e" "err \<noteq> None \<Longrightarrow> e' = e"
  using assms by (auto simp: RegisterYJSSessionWithLimit_def Let_def removeYJSConnLocked_def
      split: if_split_asm option.split_asm)

lemma register_yjs_members:
  assumes "wf_engine e" "RegisterYJSSessionWithLimit e info n = (err, e')"
  shows "yjs_members e' r |\<subseteq>| (if r = ys_Room info then finsert (ys_ConnID info) (yjs_members e r) else yjs_members e r)"
proof (cases "ys_ConnID info = [] \<or> ys_Room info = []")
  case True
  with assms(2) show ?thesis by (auto simp: RegisterYJSSessionWithLimit_def Let_def)
next
  case False
  then have "ys_ConnID info \<noteq> []" "ys_Room info \<noteq> []" by simp_all
  with assms show ?thesis by (cases rule: yjs_register_cases) (auto split: if_split_asm)
qed

lemma reserve_yjs_ok:
  assumes "svc_ok u s" "fmlookup (sv_yjsConns s) connID = None"
    and "RegisterYJSSessionWithLimit (sv_rooms s) (yjsSessionInfoFromConn connID c) n = (None, e)"
    and "yconn_ok (sv_cfg s) c" "may_join (sv_cfg s) (yn_claims c) (yn_room c)"
  shows "svc_ok u (registerReservedYJSConn connID c (s\<lparr>sv_rooms := e\<rparr>))"
    "svc_ok u (s\<lparr>sv_rooms := UnregisterYJSConn e connID room\<rparr>)"
proof -
  let ?s = "put_yjs connID c (s\<lparr>sv_rooms := e\<rparr>)" and ?e = "UnregisterYJSConn e connID room"
  have eng: "eng_ok (static s) (sv_rooms s)" and wf: "wf_engine (sv_rooms s)"
    using svc_ok_engine [OF assms(1)] by simp_all
  note rest = register_yjs_rest [OF assms(3)]
  have info: "ys_ConnID (yjsSessionInfoFromConn connID c) = connID" "ys_Room (yjsSessionInfoFromConn connID c) = yn_room c"
    by (simp_all add: yjsSessionInfoFromConn_def split: option.split)
  have new: "yjs_members e r |\<subseteq>| (if r = yn_room c then finsert connID (yjs_members (sv_rooms s) r) else yjs_members (sv_rooms s) r)" for r
    using register_yjs_members [OF wf assms(3), of r] unfolding info .
  have reach: "reachable_with (limits_of (sv_cfg s)) e"
    using eng quiet_step.yjs_register [of "sv_rooms s" "yjsSessionInfoFromConn connID c" n] assms(3)
    by (auto simp: eng_ok_def intro: reachable_with.quiet)
  then have reach': "reachable_with (limits_of (sv_cfg s)) ?e"
    by (rule reachable_with.quiet) (rule quiet_step.yjs_unregister)
  have wf': "wf_engine e" using reach by (intro wf_reachable reachable_with_reachable)
  have "fmlookup (z_yjs (static s)) connID = None" using assms(2) by simp
  then have old: "connID |\<notin>| yjs_members (sv_rooms s) r" for r
    using eng unfolding eng_ok_def yjs_match_def by (metis option.distinct(1))
  have match: "yjs_match (static ?s) e"
    unfolding yjs_match_def
  proof (intro allI impI)
    fix r x assume x: "x |\<in>| yjs_members e r"
    show "\<exists>claims. fmlookup (z_yjs (static ?s)) x = Some (claims, r) \<and> may_join (z_cfg (static ?s)) claims r"
    proof (cases "x = connID")
      case True
      with fsubsetD [OF new x] old have "r = yn_room c" by (auto split: if_split_asm)
      with True assms(5) show ?thesis by (simp add: put_yjs_def)
    next
      case False
      with fsubsetD [OF new x] have "x |\<in>| yjs_members (sv_rooms s) r" by (auto split: if_split_asm)
      with eng False show ?thesis by (auto simp: eng_ok_def yjs_match_def put_yjs_def)
    qed
  qed
  have "members_ok (static ?s) e" "sessions_match (static ?s) e"
    using eng rest(1,2) by (auto simp: eng_ok_def members_ok_def sessions_match_def put_yjs_def)
  with match reach assms(1,4) have "Inv (static ?s) ?s"
    by (auto simp: Inv_def eng_ok_def svc_ok_def conns_ok_def put_yjs_def)
  then have "svc_ok u ?s" by (rule Inv_svc_ok) (simp add: svc_ok_origin [OF assms(1)])
  then show "svc_ok u (registerReservedYJSConn connID c (s\<lparr>sv_rooms := e\<rparr>))"
    by (simp add: registerReservedYJSConn_def)
  have "yjs_members ?e r |\<subseteq>| yjs_members (sv_rooms s) r" for r
    using new [of r] unregister_yjs_members [OF wf', of connID room r]
    by (intro fsubsetI) (auto dest: fsubsetD split: if_split_asm)
  then have "yjs_match (static s) ?e"
    using eng by (auto simp: eng_ok_def intro!: yjs_match_extend [of "static s" "sv_rooms s"])
  with eng rest(1,2) reach' have "eng_ok (static s) ?e"
    by (auto simp: eng_ok_def members_ok_def sessions_match_def unregister_yjs_rest)
  with assms(1) have "Inv (static s) (s\<lparr>sv_rooms := ?e\<rparr>)"
    by (simp add: svc_ok_def Inv_set_engine)
  then show "svc_ok u (s\<lparr>sv_rooms := ?e\<rparr>)"
    by (rule Inv_svc_ok) (simp add: svc_ok_origin [OF assms(1)])
qed

lemma open_yjs_conn_ok:
  assumes "svc_ok u (registerReservedYJSConn connID c s)"
  shows "svc_ok u (open_yjs_conn connID c s)"
proof -
  let ?s = "recordYJSUsage connID ''yjs.connections'' 1 (registerReservedYJSConn connID c s)"
  let ?z = "static (registerReservedYJSConn connID c s)"
  have inv: "Inv ?z ?s" using assms by (simp add: svc_ok_def)
  have send: "holds z (sendYJSDocument connID frames s') (\<lambda>_. True)" if "Inv z s'"
    for z frames and s' :: "'a Service"
    using that by (induction frames arbitrary: s') (auto intro!: holds_ok holds_then holds_intros)
  have "holds ?z (andDo (or_close connID (reading (\<lambda>s. loadYJSDocument s (yn_room c))))
      (\<lambda>document. sendYJSDocument connID (NewYJSDocumentFrames document)) ?s) (\<lambda>_. True)"
    using inv by (auto intro!: holds_then [OF or_close_holds] holds_reading send)
  then show ?thesis
    by (auto simp: open_yjs_conn_def Let_def holds_def intro!: unregisterYJSConn_ok Inv_svc_ok
        svc_ok_origin [OF assms] split: prod.split sum.split)
qed

lemma new_yjs_conn_ok [simp]:
  "ra_claims a \<noteq> None \<Longrightarrow> yconn_ok cfg (new_yjs_conn cfg a room)"
  "yn_claims (new_yjs_conn cfg a room) = ra_claims a" "yn_room (new_yjs_conn cfg a room) = room"
  by (simp_all add: yconn_ok_def new_yjs_conn_def)

lemma handleYJS_ok:
  assumes "svc_ok u s" "fmlookup (sv_yjsConns s) connID = None"
  shows "svc_ok u (snd (handleYJS verify r connID s))"
proof (cases "roomFromYJSPath (hr_Path r)")
  case (Inl msg)
  with assms(1) show ?thesis by (simp add: handleYJS_def)
next
  case (Inr room)
  let ?z = "static s"
  have inv: "Inv ?z s" using assms(1) by (simp add: svc_ok_def)
  have u: "z_origin ?z = u" using assms(1) by (simp add: svc_ok_def)
  note keep = Inv_svc_ok [OF _ u]
  obtain ra s1 where a: "authenticateRequest verify r s = (ra, s1)" by fastforce
  with authenticateRequest_holds [OF inv, of verify r] have inv1: "Inv ?z s1"
    and claims: "\<And>x. ra = Inr x \<Longrightarrow> ra_claims x \<noteq> None"
    by (auto simp: holds_def)
  note ok1 = keep [OF inv1]
  have fresh: "fmlookup (sv_yjsConns s1) connID = None"
    using Inv_yjs [OF inv1, of connID] Inv_yjs [OF inv, of connID] assms(2) by simp
  show ?thesis
  proof (cases ra)
    case (Inl err)
    with a ok1 Inr show ?thesis by (simp add: handleYJS_def)
  next
    case ra: (Inr authn)
    show ?thesis
    proof (cases "allowsRoomAction s1 (ra_claims authn) ''join'' room")
      case False
      with a ra ok1 Inr show ?thesis by (simp add: handleYJS_def)
    next
      case True
      let ?c = "new_yjs_conn (sv_cfg s1) authn room"
      let ?n = "li_YJSRoomConnections (cfg_Limits (sv_cfg s1))"
      obtain err e where reg: "RegisterYJSSessionWithLimit (sv_rooms s1) (yjsSessionInfoFromConn connID ?c) ?n = (err, e)"
        by fastforce
      show ?thesis
      proof (cases err)
        case None
        note reserved = reserve_yjs_ok [OF ok1 fresh reg [unfolded None]]
        have "yconn_ok (sv_cfg s1) ?c" "may_join (sv_cfg s1) (yn_claims ?c) (yn_room ?c)"
          using claims [OF ra] allows_may_join [OF True] by simp_all
        note reserved = reserved [OF this]
        with open_yjs_conn_ok [OF reserved(1)] a ra Inr True reg None show ?thesis
          by (simp add: handleYJS_def)
      next
        case (Some x)
        with register_yjs_rest(3) [OF reg] a ra Inr True reg ok1 show ?thesis
          by (simp add: handleYJS_def)
      qed
    qed
  qed
qed

subsection \<open>Steps\<close>

text \<open>
  \<open>verify\<close> is the verifier of tokens. A new connection has an id that is not in use. The
  other nodes change the store, and time passes, between any two steps.
\<close>

inductive service_step ::
  "(string \<Rightarrow> go_error + Claims) option \<Rightarrow> 'st Service \<Rightarrow> 'st Service \<Rightarrow> bool" for verify where
  connect: "connID \<noteq> [] \<Longrightarrow> connID |\<notin>| fmdom (sv_conns s) \<Longrightarrow>
    service_step verify s (snd (handleWS verify r connID s))"
| message: "connID |\<in>| fmdom (sv_conns s) \<Longrightarrow> service_step verify s (read_message connID payload s)"
| written: "service_step verify s (writeLoop connID s)"
| disconnect: "connID |\<in>| fmdom (sv_conns s) \<Longrightarrow> service_step verify s (unregisterConn connID s)"
| heartbeat: "service_step verify s (heartbeat connID s)"
| connect_yjs: "connID \<noteq> [] \<Longrightarrow> connID |\<notin>| fmdom (sv_yjsConns s) \<Longrightarrow>
    service_step verify s (snd (handleYJS verify r connID s))"
| frame: "service_step verify s (read_frame connID binary bytes s)"
| frame_written: "service_step verify s (yjs_writeLoop connID s)"
| disconnect_yjs: "service_step verify s (unregisterYJSConn connID s)"
| cluster_event: "service_step verify s (handleClusterEvent event s)"
| cluster_presence: "service_step verify s (handleClusterPresence pevent s)"
| cluster_yjs: "service_step verify s (handleClusterYJSEvent yevent s)"
| reconcile: "service_step verify s (reconcile s)"
| shutdown: "service_step verify s (closeActiveSockets s)"
| environment: "service_step verify s (s\<lparr>sv_storeState := st, sv_now := now\<rparr>)"

inductive service_reachable ::
  "(string \<Rightarrow> go_error + Claims) option \<Rightarrow> RuntimeConfig \<Rightarrow> 'st Store option \<Rightarrow> 'st Service \<Rightarrow> bool"
  for verify cfg store where
  start: "service_reachable verify cfg store (NewService cfg store st now choices)"
| step: "service_reachable verify cfg store s \<Longrightarrow> service_step verify s s' \<Longrightarrow>
    service_reachable verify cfg store s'"

inductive_cases service_stepE: "service_step verify s s'"

lemma svc_ok_New: "svc_ok (cfg, if cfg_Redis cfg = None then None else store) (NewService cfg store st now choices)"
  by (simp add: svc_ok_def origin_def Inv_def NewService_def conns_ok_def eng_ok_def members_ok_def sessions_match_def
      yjs_match_def New_def reachable_with.start [unfolded New_def])

lemma fmmap_keeps: "(\<And>c. f (g c) = f c) \<Longrightarrow> fmmap f (fmmap g m) = fmmap f m"
  by (rule fmap_ext) (simp add: option.map_comp comp_def)

lemma closing_keeps:
  "cc_claims (clientConn_close code reason c) = cc_claims c"
  "yn_claims (yjsConn_close code reason d) = yn_claims d" "yn_room (yjsConn_close code reason d) = yn_room d"
  "conn_ok cfg (clientConn_close code reason c) = conn_ok cfg c"
  "yconn_ok cfg (yjsConn_close code reason d) = yconn_ok cfg d"
  by (simp_all add: clientConn_close_def yjsConn_close_def conn_ok_def yconn_ok_def)

lemma closeActiveSockets_Inv [simp]: "Inv z s \<Longrightarrow> Inv z (closeActiveSockets s)"
proof -
  assume inv: "Inv z s"
  have "static (closeActiveSockets s) = static s"
    by (simp add: static_def closeActiveSockets_def fmmap_keeps closing_keeps)
  moreover have "conns_ok (closeActiveSockets s)"
    using inv by (auto simp: Inv_def conns_ok_def closeActiveSockets_def closing_keeps)
  ultimately show ?thesis using inv by (simp add: Inv_def closeActiveSockets_def)
qed

lemma read_message_ok:
  assumes "svc_ok u s" "faithful_log (snd u)"
  shows "svc_ok u (read_message connID payload s)"
proof -
  have "holds (static s) (handleClientMessage connID payload s) (\<lambda>_. True)"
    by (rule handleClientMessage_holds) (use assms in \<open>auto simp: svc_ok_def static_def z_store_def origin_def\<close>)
  then show ?thesis
    by (auto simp: read_message_def holds_def intro!: unregisterConn_ok Inv_svc_ok svc_ok_origin [OF assms(1)]
        split: prod.split sum.split)
qed

lemma read_frame_ok:
  assumes "svc_ok u s"
  shows "svc_ok u (read_frame connID binary bytes s)"
proof -
  have "holds (static s) (handleYJSFrame connID binary bytes s) (\<lambda>_. True)"
    by (rule handleYJSFrame_holds) (use assms in \<open>simp add: svc_ok_def\<close>)
  then show ?thesis
    by (auto simp: read_frame_def holds_def intro!: unregisterYJSConn_ok Inv_svc_ok svc_ok_origin [OF assms]
        split: prod.split sum.split)
qed

lemma environment_Inv: "Inv z s \<Longrightarrow> Inv z (s\<lparr>sv_storeState := st, sv_now := now\<rparr>)"
  by (auto elim: Inv_cong [rotated 0])

lemma service_step_ok:
  assumes "service_step verify s s'" "svc_ok u s" "faithful_log (snd u)"
  shows "svc_ok u s'"
  using assms(1)
proof (cases rule: service_step.cases)
  case (connect connID r)
  with assms(2) show ?thesis by (simp add: handleWS_ok fmdom_notD)
next
  case (connect_yjs connID r)
  with assms(2) show ?thesis by (simp add: handleYJS_ok fmdom_notD)
next
  case (environment st now)
  with assms(2) show ?thesis by (auto intro: svc_ok_by_Inv environment_Inv)
qed (use assms(2,3) in \<open>auto simp: read_message_ok read_frame_ok unregisterConn_ok unregisterYJSConn_ok
      intro: svc_ok_by_Inv [OF _ assms(2)] writeLoop_Inv yjs_writeLoop_Inv handleClusterEvent_Inv
        cluster_fanouts_Inv\<close>)

definition store_of :: "RuntimeConfig \<Rightarrow> 'st Store option \<Rightarrow> 'st Store option" where
  "store_of cfg store = (if cfg_Redis cfg = None then None else store)"

theorem service_reachable_ok:
  assumes "service_reachable verify cfg store s" "faithful_log (store_of cfg store)"
  shows "svc_ok (cfg, store_of cfg store) s"
  using assms
proof (induction rule: service_reachable.induct)
  case (start st now choices)
  show ?case by (simp only: store_of_def svc_ok_New)
next
  case (step s s')
  then show ?case by (auto intro: service_step_ok)
qed

text \<open>A node without a store, a token that every verifier accepts, and its connection.\<close>

definition demo_limits :: LimitsConfig where
  "demo_limits = \<lparr>li_PayloadMaxBytes = 100, li_EnvelopeMaxBytes = 200, li_YJSMaxBytes = 100,
     li_RoomsPerConnection = 2, li_RoomConnections = 2, li_YJSRoomConnections = 2,
     li_EmitsPerSecond = 1, li_OutboundQueueDepth = 2\<rparr>"

definition demo_cfg :: RuntimeConfig where
  "demo_cfg = \<lparr>cfg_Mode = ModeSingle, cfg_NodeID = ''n1'',
     cfg_Server = \<lparr>svc_Host = [], svc_Port = 0, svc_WSPath = ''/ws'', svc_AllowedOrigins = []\<rparr>,
     cfg_Redis = None, cfg_Auth = \<lparr>ac_Issuer = [], ac_Audience = [], ac_JWKSURL = []\<rparr>,
     cfg_AdminAuth = None, cfg_Tenant = \<lparr>tc_EnforcePrefix = True, tc_Separator = '':''\<rparr>,
     cfg_Limits = demo_limits, cfg_Webhooks = None\<rparr>"

definition demo_claims :: Claims where
  "demo_claims = \<lparr>cl_Subject = ''u1'', cl_Tenant = ''t1'', cl_Join = [''*''], cl_Publish = [''*''],
     cl_Presence = [''*''], cl_Groups = [], cl_GroupIDs = [], cl_Scope = ''storage:*''\<rparr>"

definition demo_request :: HttpRequest where
  "demo_request = \<lparr>hr_Header = fmap_of_list [(''Authorization'', ''Bearer tok'')],
     hr_Path = ''/ws'', hr_RawQuery = []\<rparr>"

definition demo_verify :: "(string \<Rightarrow> go_error + Claims) option" where
  "demo_verify = Some (\<lambda>tok. Inr demo_claims)"

definition demo_join :: bytes where
  "demo_join = object_text [(''t'', quote_text ''JOIN''), (''id'', quote_text ''m1''), (''room'', quote_text ''t1:r'')]"

definition demo_start :: "unit Service" where
  "demo_start = NewService demo_cfg None () 0 (\<lambda>_. True)"

definition demo_connected :: "unit Service" where
  "demo_connected = snd (handleWS demo_verify demo_request ''c1'' demo_start)"

definition demo_joined :: "unit Service" where
  "demo_joined = read_message ''c1'' demo_join demo_connected"

definition demo_conn :: clientConn where
  "demo_conn = new_conn demo_cfg \<lparr>ra_claims = Some demo_claims, ra_projectID = []\<rparr> None"

lemma demo_request_read:
  "tokenFromRequest demo_request = ''tok''" "projectIDFromRuntimeRequest demo_request = []"
  "checkOrigin demo_cfg demo_request" "resume_session_id demo_request = []"
  by code_simp+

lemma demo_cfg_fields [simp]:
  "cfg_Limits demo_cfg = demo_limits" "cfg_Redis demo_cfg = None"
  "cfg_Tenant demo_cfg = \<lparr>tc_EnforcePrefix = True, tc_Separator = '':''\<rparr>"
  "li_OutboundQueueDepth demo_limits = 2" "li_PayloadMaxBytes demo_limits = 100"
  "li_EnvelopeMaxBytes demo_limits = 200" "li_RoomsPerConnection demo_limits = 2" "li_RoomConnections demo_limits = 2"
  "li_EmitsPerSecond demo_limits = 1"
  by (simp_all add: demo_cfg_def demo_limits_def)

lemma demo_start_fields [simp]:
  "sv_cfg demo_start = demo_cfg" "sv_store demo_start = None" "sv_conns demo_start = fmempty"
  "sv_rooms demo_start = New" "sv_now demo_start = 0"
  by (simp_all add: demo_start_def NewService_def)

lemma demo_conn_fields [simp]:
  "cc_send demo_conn = []" "cc_capacity demo_conn = 2" "cc_closed demo_conn = None" "cc_wire demo_conn = []"
  "cc_claims demo_conn = Some demo_claims" "cc_resumeSession demo_conn = None" "cc_projectID demo_conn = []"
  by (simp_all add: demo_conn_def new_conn_def)

lemma demo_accept: "accept_ws demo_verify demo_request demo_start = (Inr demo_conn, demo_start)"
  by (simp add: accept_ws_def authenticateRequest_def demo_request_read demo_verify_def resumeSessionFromRequest_def
      demo_conn_def)

lemma demo_connected_fields [simp]:
  "fmlookup (sv_conns demo_connected) ''c1'' = Some (demo_conn\<lparr>cc_send := [hello demo_cfg ''c1'' demo_conn]\<rparr>)"
  "sv_cfg demo_connected = demo_cfg" "sv_store demo_connected = None"
  "sv_rooms demo_connected = New\<lparr>sessions := fmupd ''c1'' (session_of ''c1'' (Some demo_claims)) fmempty\<rparr>"
  "sv_now demo_connected = 0"
  by (simp_all add: demo_connected_def handleWS_def demo_accept open_conn_def registerConn_def RegisterSession_def
      sessionInfoFromConn_eq session_of_def New_def
      enqueue_def put_conn_def applyConnectionTouch_def syncStatsLocked_def on_metrics_def recordConnUsage_def
      recordUsage_def Let_def)

lemma demo_join_parsed:
  "\<exists>m. ParseClientMessage demo_join
     \<lparr>pao_MaxEnvelopeBytes = 200, pao_MaxPayloadBytes = 100, pao_TenantPrefix = ''t1:''\<rparr> = Inr m
     \<and> mg_Type m = TypeJoin \<and> mg_Room m = ''t1:r'' \<and> mg_JoinMeta m = None"
proof -
  have "case ParseClientMessage demo_join
     \<lparr>pao_MaxEnvelopeBytes = 200, pao_MaxPayloadBytes = 100, pao_TenantPrefix = ''t1:''\<rparr> of Inl _ \<Rightarrow> False
     | Inr m \<Rightarrow> mg_Type m = TypeJoin \<and> mg_Room m = ''t1:r'' \<and> mg_JoinMeta m = None" by code_simp
  then show ?thesis by (auto split: sum.split_asm)
qed

lemma demo_may_join:
  "AllowsRoomAction (Some demo_claims) None ''join'' ''t1:r''
     \<lparr>rao_EnforceTenantPrefix = True, rao_TenantSeparator = '':''\<rparr>"
  by code_simp

lemma recording_fields [simp]:
  "sv_conns (recordConnUsage c r t n s) = sv_conns s" "sv_rooms (recordConnUsage c r t n s) = sv_rooms s"
  "sv_conns (recordJoin s) = sv_conns s" "sv_rooms (recordJoin s) = sv_rooms s"
  "sv_store (recordJoin s) = sv_store s" "sv_store (recordConnUsage c r t n s) = sv_store s"
  "sv_conns (recordEvent s) = sv_conns s" "sv_rooms (recordEvent s) = sv_rooms s"
  by (auto simp: recordConnUsage_def recordUsage_def recordJoin_def recordEvent_def syncStatsLocked_def on_metrics_def Let_def
      ignore_def on_store_def split: option.split prod.split)

lemma finish_join_local:
  assumes "sv_store s = None" "fmlookup (sv_conns s) connID = Some c" "cc_closed c = None"
    "len (cc_send c) < cc_capacity c" "cc_resumeSession c = None"
  shows "\<exists>s' page. finish_join connID message plan s = (Inr (), s') \<and> sv_rooms s' = sv_rooms s
    \<and> fmlookup (sv_conns s') connID = Some (c\<lparr>cc_send := cc_send c @ [no_outbound\<lparr>om_T := ''JOINED'',
         om_ID := mg_ID message, om_Room := mg_Room message, om_Payload := PagePayload page\<rparr>]\<rparr>)"
  using assms
  by (cases "JoinPlan_ReplayLogRequest plan")
     (auto simp: finish_join_def andDo_def applyRoomMembershipMutation_def reading_def modify_def Let_def
       snapshotJoinedRoom_def replayablePublishedEvents_def enqueue_def put_conn_def touchResumeSessionRoom_def ok_def
       split: option.split)

lemma demo_engine_join:
  "\<exists>jr e. JoinWithLimits (sv_rooms demo_connected) ''c1'' ''t1:r''
      \<lparr>jl_RoomsPerConnection = 2, jl_RoomConnections = 2\<rparr> = (Inr jr, e) \<and> JoinedRooms e ''c1'' = [''t1:r'']
      \<and> memberIDsLocked e ''t1:r'' [] = [''c1''] \<and> members_of e ''t1:r'' = {|''c1''|}"
  by (simp add: JoinWithLimits_def New_def Let_def JoinedRooms_def joinedRoomsLocked_def gm_insert_def sorted_ids_def
      memberIDsLocked_def without_def sorted_list_of_fset.rep_eq fcard_fempty ffilter.rep_eq)

lemma demo_joined_fields:
  "JoinedRooms (sv_rooms demo_joined) ''c1'' = [''t1:r'']"
  "map_option (\<lambda>c. (map om_T (cc_send c), cc_closed c)) (fmlookup (sv_conns demo_joined) ''c1'') = Some ([''HELLO'', ''JOINED''], None)"
  "map_option cc_claims (fmlookup (sv_conns demo_joined) ''c1'') = Some (Some demo_claims)"
proof -
  obtain m where m: "ParseClientMessage demo_join
     \<lparr>pao_MaxEnvelopeBytes = 200, pao_MaxPayloadBytes = 100, pao_TenantPrefix = ''t1:''\<rparr> = Inr m"
     "mg_Type m = TypeJoin" "mg_Room m = ''t1:r''" "mg_JoinMeta m = None"
    using demo_join_parsed by blast
  have "claims_of demo_connected ''c1'' = Some demo_claims" "tenantPrefix demo_cfg demo_claims = ''t1:''"
    by (simp_all add: claims_of_def tenantPrefix_def demo_claims_def)
  with m have "handleClientMessage ''c1'' demo_join demo_connected = handleJoin ''c1'' m demo_connected"
    by (simp add: handleClientMessage_def handler_for_def)
  moreover obtain jr e where j: "JoinWithLimits (sv_rooms demo_connected) ''c1'' ''t1:r''
      \<lparr>jl_RoomsPerConnection = 2, jl_RoomConnections = 2\<rparr> = (Inr jr, e)" "JoinedRooms e ''c1'' = [''t1:r'']"
    using demo_engine_join by blast
  moreover have "joinMetaWithDurableEventAck demo_connected ''c1'' ''t1:r'' None = Inr None"
    by (simp add: joinMetaWithDurableEventAck_def durableRoomEventAck_def ack_store_def resume_cursor_def Let_def)
  then have "handleJoin ''c1'' m demo_connected =
      finish_join ''c1'' m (NewJoinPlan jr (joinPlanOptions ''c1'' None)) (demo_connected\<lparr>sv_rooms := e\<rparr>)"
    using m demo_may_join j(1)
    by (simp add: handleJoin_def allowsRoomAction_def claims_of_def room_getter_def on_engine_def
        del: demo_connected_fields(4))
  moreover obtain s page where "finish_join ''c1'' m (NewJoinPlan jr (joinPlanOptions ''c1'' None)) (demo_connected\<lparr>sv_rooms := e\<rparr>) = (Inr (), s)" "sv_rooms s = e"
    "map_option (\<lambda>c. (map om_T (cc_send c), cc_closed c)) (fmlookup (sv_conns s) ''c1'') = Some ([''HELLO'', ''JOINED''], None)"
    "map_option cc_claims (fmlookup (sv_conns s) ''c1'') = Some (Some demo_claims)"
    using finish_join_local [of "demo_connected\<lparr>sv_rooms := e\<rparr>" "''c1''" _ m]
    by (force simp: hello_def no_outbound_def)
  ultimately show "JoinedRooms (sv_rooms demo_joined) ''c1'' = [''t1:r'']"
    "map_option (\<lambda>c. (map om_T (cc_send c), cc_closed c)) (fmlookup (sv_conns demo_joined) ''c1'') = Some ([''HELLO'', ''JOINED''], None)"
    "map_option cc_claims (fmlookup (sv_conns demo_joined) ''c1'') = Some (Some demo_claims)"
    by (simp_all add: demo_joined_def read_message_def)
qed

end
