(* ===== verification/Runtime_Yjs.thy ===== *)
theory Runtime_Yjs
  imports Runtime_Reachable
begin

text \<open>
  What Yjs connections are sent: nothing by the operations of the other connections, and by a
  frame or an event of another node only what belongs to their room.
\<close>

subsection \<open>Operations without Yjs frames\<close>

lemma yjs_andDo:
  assumes "sv_yjsConns (snd (m s)) = Y"
    and "\<And>x t. sv_yjsConns t = Y \<Longrightarrow> sv_yjsConns (snd (f x t)) = Y"
  shows "sv_yjsConns (snd (andDo m f s)) = Y"
  using assms by (auto simp: andDo_def split: prod.split sum.split)

lemma yjs_case:
  assumes "sv_yjsConns (snd p) = Y" and "\<And>err t. sv_yjsConns t = Y \<Longrightarrow> sv_yjsConns (snd (f err t)) = Y"
    and "\<And>x t. sv_yjsConns t = Y \<Longrightarrow> sv_yjsConns (snd (g x t)) = Y"
  shows "sv_yjsConns (snd (case p of (Inl err, t) \<Rightarrow> f err t | (Inr x, t) \<Rightarrow> g x t)) = Y"
  using assms by (auto split: prod.split sum.split)

lemma yjs_state_case:
  assumes "sv_yjsConns (snd p) = Y" and "\<And>err t. sv_yjsConns t = Y \<Longrightarrow> sv_yjsConns (f err t) = Y"
    and "\<And>x t. sv_yjsConns t = Y \<Longrightarrow> sv_yjsConns (g x t) = Y"
  shows "sv_yjsConns (case p of (Inl err, t) \<Rightarrow> f err t | (Inr x, t) \<Rightarrow> g x t) = Y"
  using assms by (auto split: prod.split sum.split)

lemmas yjs_rules = yjs_andDo yjs_case yjs_state_case

lemma yjs_basic [simp]:
  "sv_yjsConns (snd (ok x s)) = sv_yjsConns s" "sv_yjsConns (snd (reading r s)) = sv_yjsConns s"
  "sv_yjsConns (snd (modify f s)) = sv_yjsConns (f s)" "sv_yjsConns (ignore m s) = sv_yjsConns (snd (m s))"
  "sv_yjsConns (snd (on_store op s)) = sv_yjsConns s" "sv_yjsConns (snd (on_engine eop s)) = sv_yjsConns s"
  "sv_yjsConns (put_conn connID c s) = sv_yjsConns s" "sv_yjsConns (on_metrics g s) = sv_yjsConns s"
  by (simp_all add: ok_def reading_def modify_def ignore_def on_store_def on_engine_def put_conn_def on_metrics_def
      split: prod.split sum.split)

lemma yjs_records [simp]:
  "sv_yjsConns (syncStatsLocked s) = sv_yjsConns s" "sv_yjsConns (recordLeave s) = sv_yjsConns s"
  "sv_yjsConns (recordPresenceUpdate s) = sv_yjsConns s" "sv_yjsConns (recordJoin s) = sv_yjsConns s"
  "sv_yjsConns (recordEvent s) = sv_yjsConns s" "sv_yjsConns (recordOverflow s) = sv_yjsConns s"
  "sv_yjsConns (recordUsage cl p r m n s) = sv_yjsConns s" "sv_yjsConns (recordConnUsage c r m n s) = sv_yjsConns s"
  "sv_yjsConns (recordYJSUsage c m n s) = sv_yjsConns s" "sv_yjsConns (snd (pick s)) = sv_yjsConns s"
  by (simp_all add: syncStatsLocked_def recordLeave_def recordPresenceUpdate_def recordJoin_def recordEvent_def
      recordOverflow_def recordUsage_def recordConnUsage_def recordYJSUsage_def pick_def Let_def split: option.split)

lemma yjs_enqueue [simp]: "sv_yjsConns (snd (enqueue connID m s)) = sv_yjsConns s"
  by (auto simp: enqueue_def Let_def pick_def split: option.split bool.split)

lemma yjs_enqueue_all [simp]: "sv_yjsConns (snd (enqueue_all ids m s)) = sv_yjsConns s"
  by (induction ids arbitrary: s) (auto intro!: yjs_rules)

lemma yjs_broadcasts [simp]:
  "sv_yjsConns (snd (broadcastEventFanout ef b s)) = sv_yjsConns s"
  "sv_yjsConns (snd (broadcastPresenceFanout pf s)) = sv_yjsConns s"
  "sv_yjsConns (snd (broadcastStorageFanout sf s)) = sv_yjsConns s"
  "sv_yjsConns (snd (broadcastNotificationFanout nf d s)) = sv_yjsConns s"
  by (auto simp: broadcastEventFanout_def broadcastPresenceFanout_def broadcastStorageFanout_def
      broadcastNotificationFanout_def intro!: yjs_rules)

lemma yjs_publications [simp]:
  "sv_yjsConns (snd (broadcastEvent ev b s)) = sv_yjsConns s"
  "sv_yjsConns (snd (broadcastNotificationDelta ev s)) = sv_yjsConns s"
  "sv_yjsConns (snd (publishPresenceFanout pf s)) = sv_yjsConns s"
  "sv_yjsConns (snd (publish_event ev s)) = sv_yjsConns s"
  "sv_yjsConns (snd (publishStoragePlan plan s)) = sv_yjsConns s"
  "sv_yjsConns (snd (applyRoomMembershipMutation mutation s)) = sv_yjsConns s"
  by (auto simp: broadcastEvent_def broadcastNotificationDelta_def publishPresenceFanout_def publish_event_def
      publishStoragePlan_def applyRoomMembershipMutation_def Let_def intro!: yjs_rules split: option.split)

lemma yjs_sessions [simp]:
  "sv_yjsConns (snd (upsertConnResumeSession connID s)) = sv_yjsConns s"
  "sv_yjsConns (snd (touchResumeSessionRoom connID room s)) = sv_yjsConns s"
  "sv_yjsConns (snd (persistResumeSessionCursor connID room n s)) = sv_yjsConns s"
  "sv_yjsConns (snd (persistRoomEventAck connID room n s)) = sv_yjsConns s"
proof -
  show upsert: "sv_yjsConns (snd (upsertConnResumeSession connID s)) = sv_yjsConns s" for s
    by (auto simp: upsertConnResumeSession_def Let_def intro!: yjs_rules split: option.split)
  show "sv_yjsConns (snd (touchResumeSessionRoom connID room s)) = sv_yjsConns s"
    "sv_yjsConns (snd (persistResumeSessionCursor connID room n s)) = sv_yjsConns s"
    "sv_yjsConns (snd (persistRoomEventAck connID room n s)) = sv_yjsConns s"
    by (auto simp: touchResumeSessionRoom_def persistResumeSessionCursor_def persistRoomEventAck_def upsert Let_def
        split: option.split)
qed

lemma yjs_storage [simp]:
  "sv_yjsConns (snd (storageMutationPlanFromWriteResult room kind res ops mo eo s)) = sv_yjsConns s"
  "sv_yjsConns (snd (setStorageMutationPlan room document mo eo s)) = sv_yjsConns s"
  "sv_yjsConns (snd (applyStoragePatchMutationPlan room ops mo eo s)) = sv_yjsConns s"
proof -
  show plan: "sv_yjsConns (snd (storageMutationPlanFromWriteResult room kind res ops mo eo s)) = sv_yjsConns s"
    for kind res ops mo s
    by (simp add: storageMutationPlanFromWriteResult_def Let_def split: sum.split)
  show "sv_yjsConns (snd (setStorageMutationPlan room document mo eo s)) = sv_yjsConns s"
    "sv_yjsConns (snd (applyStoragePatchMutationPlan room ops mo eo s)) = sv_yjsConns s"
    by (auto simp: setStorageMutationPlan_def applyStoragePatchMutationPlan_def plan intro!: yjs_rules split: option.split)
qed

lemma yjs_storage_handlers [simp]:
  "sv_yjsConns (snd (handleStorageGet connID message s)) = sv_yjsConns s"
  "sv_yjsConns (snd (handleStorageSet connID message s)) = sv_yjsConns s"
  "sv_yjsConns (snd (handleStoragePatch connID message s)) = sv_yjsConns s"
  by (auto simp: handleStorageGet_def handleStorageSet_def handleStoragePatch_def finish_storage_write_def
      intro!: yjs_rules split: sum.split)

lemma yjs_replay [simp]: "sv_yjsConns (snd (sendReplayEvents connID events s)) = sv_yjsConns s"
  by (induction events arbitrary: s) (auto intro!: yjs_rules)

lemma yjs_apply_leave [simp]: "sv_yjsConns (apply_leave plan s) = sv_yjsConns s"
  by (simp add: apply_leave_def)

lemma yjs_room_handlers [simp]:
  "sv_yjsConns (snd (handleJoin connID message s)) = sv_yjsConns s"
  "sv_yjsConns (snd (handleLeave connID message s)) = sv_yjsConns s"
proof -
  have finish: "sv_yjsConns (snd (finish_join connID message plan s)) = sv_yjsConns s" for plan s
    by (auto simp: finish_join_def Let_def intro!: yjs_rules)
  show "sv_yjsConns (snd (handleJoin connID message s)) = sv_yjsConns s"
    by (auto simp: handleJoin_def finish intro!: yjs_rules split: sum.split)
  show "sv_yjsConns (snd (handleLeave connID message s)) = sv_yjsConns s"
    by (auto simp: handleLeave_def Let_def intro!: yjs_rules split: option.split)
qed

lemma yjs_event_handlers [simp]:
  "sv_yjsConns (snd (handleEmit connID message s)) = sv_yjsConns s"
  "sv_yjsConns (snd (handleEventAck connID message s)) = sv_yjsConns s"
  "sv_yjsConns (snd (handlePresence connID message s)) = sv_yjsConns s"
proof -
  have emit: "sv_yjsConns (snd (allow_emit connID s)) = sv_yjsConns s"
    by (simp add: allow_emit_def split: option.split prod.split)
  obtain b t where t: "allow_emit connID s = (b, t)" by fastforce
  show "sv_yjsConns (snd (handleEmit connID message s)) = sv_yjsConns s"
    using emit t by (cases b) (auto simp: handleEmit_def Let_def intro!: yjs_rules)
  show "sv_yjsConns (snd (handleEventAck connID message s)) = sv_yjsConns s"
    by (auto simp: handleEventAck_def acknowledge_def Let_def intro!: yjs_rules split: option.split prod.split bool.split)
  show "sv_yjsConns (snd (handlePresence connID message s)) = sv_yjsConns s"
    by (auto simp: handlePresence_def Let_def intro!: yjs_rules split: option.split prod.split)
qed

lemma yjs_client_message [simp]: "sv_yjsConns (snd (handleClientMessage connID payload s)) = sv_yjsConns s"
  by (auto simp: handleClientMessage_def handler_for_def Let_def split: option.split sum.split)

lemma yjs_cluster [simp]:
  "sv_yjsConns (handleClusterEvent event s) = sv_yjsConns s" "sv_yjsConns (handleClusterPresence pevent s) = sv_yjsConns s"
  "sv_yjsConns (reconcile s) = sv_yjsConns s"
  by (auto simp: handleClusterEvent_def handleClusterPresence_def reconcile_def Let_def
      intro!: yjs_rules split: ClusterEventKind.split option.split)

lemma yjs_touches [simp]:
  "sv_yjsConns (applyConnectionTouch touch s) = sv_yjsConns s"
  "sv_yjsConns (applyConnectionCleanup cleanup s) = sv_yjsConns s"
  "sv_yjsConns (heartbeat connID s) = sv_yjsConns s" "sv_yjsConns (registerConn connID c s) = sv_yjsConns s"
  by (auto simp: applyConnectionTouch_def applyConnectionCleanup_def heartbeat_def registerConn_def
      split: option.split prod.split)

lemma yjs_fanouts [simp]: "sv_yjsConns (disconnect_fanouts fanouts s) = sv_yjsConns s"
proof (induction fanouts arbitrary: s)
  case (Cons fanout fanouts)
  have "sv_yjsConns (case publishPresenceFanout fanout s of (Inl _, s) \<Rightarrow> s
      | (Inr _, s) \<Rightarrow> ignore (broadcastPresenceFanout fanout) s) = sv_yjsConns s"
    by (intro yjs_rules) auto
  then show ?case by (simp add: Cons.IH)
qed simp

lemma yjs_unregister [simp]: "sv_yjsConns (unregisterConn connID s) = sv_yjsConns s"
  by (simp add: unregisterConn_def Let_def split: prod.split)

lemma yjs_read_message [simp]: "sv_yjsConns (read_message connID payload s) = sv_yjsConns s"
  unfolding read_message_def by (intro yjs_rules) auto

lemma yjs_authenticate [simp]:
  "sv_yjsConns (snd (authenticateRequest verify r s)) = sv_yjsConns s"
  "sv_yjsConns (snd (resumeSessionFromRequest r claims projectID s)) = sv_yjsConns s"
proof -
  have key: "sv_yjsConns (snd (authenticate_key tok projectID s)) = sv_yjsConns s" for tok projectID
    by (auto simp: authenticate_key_def intro!: yjs_rules split: option.split)
  then show "sv_yjsConns (snd (authenticateRequest verify r s)) = sv_yjsConns s"
    by (simp add: authenticateRequest_def Let_def split: option.split sum.split)
  show "sv_yjsConns (snd (resumeSessionFromRequest r claims projectID s)) = sv_yjsConns s"
    by (auto simp: resumeSessionFromRequest_def Let_def intro!: yjs_rules split: option.split sum.split)
qed

lemma yjs_open_conn [simp]: "sv_yjsConns (open_conn connID c s) = sv_yjsConns s"
  unfolding open_conn_def Let_def by (intro yjs_rules) auto

lemma yjs_handleWS [simp]: "sv_yjsConns (snd (handleWS verify r connID s)) = sv_yjsConns s"
proof -
  have "sv_yjsConns (snd (accept_ws verify r s)) = sv_yjsConns s"
    unfolding accept_ws_def by (intro yjs_rules) auto
  then show ?thesis unfolding handleWS_def by (intro yjs_rules) auto
qed

lemma yjs_writeLoop [simp]: "sv_yjsConns (writeLoop connID s) = sv_yjsConns s"
  by (auto simp: writeLoop_def pick_def split: option.split list.split bool.split)

subsection \<open>Frames of a room\<close>

text \<open>
  From one map of Yjs connections to the next there are no new ones, they keep their room and
  their claims, nothing is written to a socket, and only those of the room are given frames: the
  queue of another one can only get shorter.
\<close>

definition only_room :: "(room_id \<Rightarrow> bool) \<Rightarrow> (conn_id, yjsConn) fmap \<Rightarrow> (conn_id, yjsConn) fmap \<Rightarrow> bool" where
  "only_room R m m' \<longleftrightarrow> (\<forall>x y'. fmlookup m' x = Some y' \<longrightarrow>
     (\<exists>y. fmlookup m x = Some y \<and> yn_room y' = yn_room y \<and> yn_claims y' = yn_claims y \<and> yn_wire y' = yn_wire y
        \<and> (R (yn_room y) \<or> suffix (yn_send y') (yn_send y))))"

lemma only_room_refl [simp]: "only_room R m m"
  by (simp add: only_room_def)

lemma only_room_trans: "only_room R m m' \<Longrightarrow> only_room R m' m'' \<Longrightarrow> only_room R m m''"
proof -
  assume a: "only_room R m m'" and b: "only_room R m' m''"
  have "\<exists>y. fmlookup m x = Some y \<and> yn_room z = yn_room y \<and> yn_claims z = yn_claims y \<and> yn_wire z = yn_wire y
        \<and> (R (yn_room y) \<or> suffix (yn_send z) (yn_send y))" if z: "fmlookup m'' x = Some z" for x z
  proof -
    obtain y' where y': "fmlookup m' x = Some y'" "yn_room z = yn_room y'" "yn_claims z = yn_claims y'" "yn_wire z = yn_wire y'"
      "R (yn_room y') \<or> suffix (yn_send z) (yn_send y')"
      using b z unfolding only_room_def by blast
    obtain y where "fmlookup m x = Some y" "yn_room y' = yn_room y" "yn_claims y' = yn_claims y" "yn_wire y' = yn_wire y"
      "R (yn_room y) \<or> suffix (yn_send y') (yn_send y)"
      using a y'(1) unfolding only_room_def by blast
    then show ?thesis using y' suffix_order.trans by auto
  qed
  then show ?thesis unfolding only_room_def by blast
qed

lemma only_room_put:
  assumes "fmlookup m x = Some y" and "yn_room y' = yn_room y" "yn_claims y' = yn_claims y" "yn_wire y' = yn_wire y"
    and "R (yn_room y) \<or> suffix (yn_send y') (yn_send y)"
  shows "only_room R m (fmupd x y' m)"
  using assms by (auto simp: only_room_def)

lemma only_room_drop: "only_room R m m' \<Longrightarrow> only_room R m (fmdrop x m')"
  by (auto simp: only_room_def split: if_split_asm)

definition in_room :: "(room_id \<Rightarrow> bool) \<Rightarrow> ('st, 'a) act \<Rightarrow> 'st Service \<Rightarrow> bool" where
  "in_room R m s \<longleftrightarrow> only_room R (sv_yjsConns s) (sv_yjsConns (snd (m s)))"

lemma in_room_same: "sv_yjsConns (snd (m s)) = sv_yjsConns s \<Longrightarrow> in_room R m s"
  by (simp add: in_room_def)

lemma in_room_andDo:
  assumes "in_room R m s" and "\<And>x t. m s = (Inr x, t) \<Longrightarrow> in_room R (f x) t"
  shows "in_room R (andDo m f) s"
proof (cases "m s")
  case (Pair r t)
  show ?thesis
  proof (cases r)
    case (Inl err)
    then show ?thesis using assms(1) Pair by (simp add: in_room_def andDo_def)
  next
    case (Inr x)
    then have "only_room R (sv_yjsConns s) (sv_yjsConns t)" "only_room R (sv_yjsConns t) (sv_yjsConns (snd (f x t)))"
      using assms Pair by (simp_all add: in_room_def)
    then show ?thesis using Pair Inr only_room_trans by (auto simp: in_room_def andDo_def)
  qed
qed

lemma enqueueFrame_in_room:
  assumes "\<And>y. fmlookup (sv_yjsConns s) x = Some y \<Longrightarrow> R (yn_room y)"
  shows "in_room R (enqueueFrame x kind update) s"
proof (cases "fmlookup (sv_yjsConns s) x")
  case None
  then show ?thesis by (simp add: in_room_def enqueueFrame_def)
next
  case (Some y)
  have put: "only_room R (sv_yjsConns s) (sv_yjsConns (put_yjs x y' t))"
    if "sv_yjsConns t = sv_yjsConns s" "yn_room y' = yn_room y" "yn_claims y' = yn_claims y" "yn_wire y' = yn_wire y" for y' t
    using that assms Some by (auto simp: put_yjs_def intro: only_room_put)
  show ?thesis
    using Some by (auto simp: in_room_def enqueueFrame_def Let_def pick_def close_yjs_code_def yjsConn_close_def
        intro!: put split: bool.split)
qed

lemma in_room_stays:
  "in_room R m s \<Longrightarrow> fmlookup (sv_yjsConns (snd (m s))) x = Some y' \<Longrightarrow>
     \<exists>y. fmlookup (sv_yjsConns s) x = Some y \<and> yn_room y' = yn_room y"
  by (auto simp: in_room_def only_room_def)

lemma enqueue_frames_in_room:
  "(\<And>x y. x \<in> set ids \<Longrightarrow> fmlookup (sv_yjsConns s) x = Some y \<Longrightarrow> R (yn_room y)) \<Longrightarrow>
     in_room R (enqueue_frames ids kind update) s"
proof (induction ids arbitrary: s)
  case Nil
  then show ?case by (simp add: in_room_same)
next
  case (Cons x ids)
  have first: "in_room R (enqueueFrame x kind update) s" by (rule enqueueFrame_in_room, rule Cons.prems [of x]) simp_all
  have "in_room R (enqueue_frames ids kind update) t" if "enqueueFrame x kind update s = (r, t)" for r t
  proof (rule Cons.IH)
    fix z y'
    assume "z \<in> set ids" "fmlookup (sv_yjsConns t) z = Some y'"
    then show "R (yn_room y')" using in_room_stays [OF first, of z y'] that Cons.prems [of z] by auto
  qed
  then show ?case unfolding enqueue_frames.simps by (intro in_room_andDo first) auto
qed

lemma closing_in_room: "in_room R (closing connID code) s"
  by (auto simp: in_room_def closing_def put_yjs_def close_yjs_code_def yjsConn_close_def intro!: only_room_put split: option.split)

lemma or_close_in_room:
  assumes "in_room R m s"
  shows "in_room R (or_close connID m) s"
proof (cases "m s")
  case (Pair r t)
  show ?thesis
  proof (cases r)
    case (Inl err)
    have "only_room R (sv_yjsConns t) (sv_yjsConns (snd (closing connID CodeInternal t)))"
      using closing_in_room by (simp add: in_room_def)
    then show ?thesis using assms Pair Inl only_room_trans by (auto simp: in_room_def or_close_def)
  next
    case (Inr x)
    then show ?thesis using assms Pair by (simp add: in_room_def or_close_def)
  qed
qed

lemma storeYJSEvent_keeps:
  "sv_yjsConns (snd (storeYJSEvent event s)) = sv_yjsConns s"
  "storeYJSEvent event s = (Inr stored, t) \<Longrightarrow> ye_Room stored = ye_Room event"
  by (auto simp: storeYJSEvent_def Let_def andDo_def ok_def on_store_def NewYJSPersistencePlan_def
      YJSPersistencePlan_WithSequence_def StoreYJSPersistence_def
      split: sum.splits option.splits prod.splits if_splits)

lemma publish_yjs_keeps: "sv_yjsConns (snd (publish_yjs effects s)) = sv_yjsConns s"
  by (simp add: publish_yjs_def split: option.split)

subsection \<open>Fan-outs\<close>

lemma yjs_targets_room:
  assumes "Inv z s" and "x |\<in>| yjs_members (sv_rooms s) room" and "fmlookup (sv_yjsConns s) x = Some y"
  shows "yn_room y = room"
proof -
  have "yjs_match z (sv_rooms s)" "static s = z" using assms(1) by (simp_all add: Inv_def eng_ok_def)
  then obtain claims where "fmlookup (z_yjs (static s)) x = Some (claims, room)"
    using assms(2) unfolding yjs_match_def by blast
  then show ?thesis using assms(3) by simp
qed

lemma broadcastYJSFanout_in_room:
  assumes "Inv z s"
  shows "in_room (\<lambda>r. r = ye_Room event) (broadcastYJSFanout (YJSFanout (sv_rooms s) event)) s"
proof -
  have "in_room (\<lambda>r. r = ye_Room event)
      (enqueue_frames (yjs_targets_of s (yjsTargetIDsLocked (sv_rooms s) (ye_Room event) (ye_OriginConnID event)))
         (ye_Kind event) (ye_Update event)) s"
    by (rule enqueue_frames_in_room)
       (auto simp: yjs_targets_of_def yjsTargetIDsLocked_def without_def intro: yjs_targets_room [OF assms])
  then show ?thesis by (simp add: in_room_def broadcastYJSFanout_def YJSFanout_def)
qed

lemma in_room_after:
  assumes "Inv z s" and "holds z (m s) (\<lambda>_. True)" and "in_room R m s" and "\<And>x t. m s = (Inr x, t) \<Longrightarrow> Inv z t \<Longrightarrow> in_room R (f x) t"
  shows "in_room R (andDo m f) s"
proof (rule in_room_andDo [OF assms(3)])
  fix x t assume "m s = (Inr x, t)"
  then show "in_room R (f x) t" using assms(2,4) by (simp add: holds_def)
qed

lemma or_close_Inr: "or_close connID m s = (Inr x, t) \<Longrightarrow> m s = (Inr x, t)"
  by (auto simp: or_close_def closing_def split: prod.splits sum.splits)

lemma apply_yjs_plan_in_room:
  assumes "Inv z s"
  shows "in_room (\<lambda>r. r = ye_Room (yp_Event plan)) (apply_yjs_plan connID kind plan) s"
proof -
  let ?R = "\<lambda>r. r = ye_Room (yp_Event plan)"
  let ?store = "if yp_Durable plan
       then andDo (or_close connID (storeYJSEvent (yp_Event plan))) (\<lambda>stored. ok (YJSEventPlan_WithEvent plan stored))
       else ok plan"
  have store: "in_room ?R ?store s"
  proof (cases "yp_Durable plan")
    case True
    have "in_room ?R (or_close connID (storeYJSEvent (yp_Event plan))) s"
      by (intro or_close_in_room in_room_same storeYJSEvent_keeps)
    then have "in_room ?R (andDo (or_close connID (storeYJSEvent (yp_Event plan))) (\<lambda>stored. ok (YJSEventPlan_WithEvent plan stored))) s"
      by (rule in_room_andDo) (simp add: in_room_same)
    then show ?thesis using True by simp
  next
    case False
    then show ?thesis by (simp add: in_room_same)
  qed
  have stored: "ye_Room (yp_Event plan') = ye_Room (yp_Event plan)" if "?store s = (Inr plan', t)" for plan' t
    using that by (auto simp: andDo_def ok_def YJSEventPlan_WithEvent_def storeYJSEvent_keeps(2)
        dest!: or_close_Inr split: if_splits prod.splits sum.splits)
  have keeps: "holds z (?store s) (\<lambda>_. True)"
    using assms by (auto intro!: holds_then holds_ok or_close_holds storeYJSEvent_holds)
  show ?thesis unfolding apply_yjs_plan_def
  proof (rule in_room_after [OF assms keeps store])
    fix plan' t
    assume p: "?store s = (Inr plan', t)" and inv: "Inv z t"
    have "in_room ?R (broadcastYJSFanout (YJSFanout (sv_rooms t) (yp_Event plan'))) t"
      using broadcastYJSFanout_in_room [OF inv, of "yp_Event plan'"] stored [OF p] by simp
    then have "in_room ?R (andDo (broadcastYJSFanout (yme_Fanout (YJSMutationEffects (sv_rooms t) plan'))) (\<lambda>_.
        andDo (or_close connID (publish_yjs (YJSMutationEffects (sv_rooms t) plan'))) (\<lambda>_.
        modify (recordYJSUsage connID (yjsUsageMetric kind) 1)))) t"
      by (intro in_room_andDo or_close_in_room)
         (auto intro!: in_room_same publish_yjs_keeps simp: YJSMutationEffects_def)
    then show "in_room ?R (andDo (reading (\<lambda>s. Inr (YJSMutationEffects (sv_rooms s) plan'))) (\<lambda>effects.
        andDo (broadcastYJSFanout (yme_Fanout effects)) (\<lambda>_.
        andDo (or_close connID (publish_yjs effects)) (\<lambda>_.
        modify (recordYJSUsage connID (yjsUsageMetric kind) 1))))) t"
      by (simp add: in_room_def andDo_def [of "reading _"] reading_def)
  qed
qed

lemma allow_yjs_in_room: "only_room R (sv_yjsConns s) (sv_yjsConns (snd (allow_yjs connID s)))"
  by (auto simp: allow_yjs_def put_yjs_def intro!: only_room_put split: option.split prod.split)

lemma unregisterYJSConn_in_room: "only_room R m (sv_yjsConns s) \<Longrightarrow> only_room R m (sv_yjsConns (unregisterYJSConn connID s))"
  by (auto simp: unregisterYJSConn_def intro: only_room_drop split: option.split)

lemma handleYJSFrame_in_room:
  assumes "Inv z s" and "fmlookup (sv_yjsConns s) connID = Some c"
  shows "in_room (\<lambda>r. r = yn_room c) (handleYJSFrame connID binary frame) s"
proof -
  obtain b t where a: "allow_yjs connID s = (b, t)" by fastforce
  then have t: "only_room (\<lambda>r. r = yn_room c) (sv_yjsConns s) (sv_yjsConns t)" "Inv z t"
    using allow_yjs_in_room [of "\<lambda>r. r = yn_room c" s connID] allow_yjs_Inv [OF assms(1), of connID] by simp_all
  have step: "only_room (\<lambda>r. r = yn_room c) (sv_yjsConns s) (sv_yjsConns (snd (m t)))"
    if "in_room (\<lambda>r. r = yn_room c) m t" for m :: "('a, unit) act"
    using that t(1) only_room_trans by (auto simp: in_room_def)
  have plan: "in_room (\<lambda>r. r = yn_room c) (apply_yjs_plan connID kind plan) t"
    if "NewYJSEventPlan (yn_room c) kind update options = Some plan" for kind update options plan
    using apply_yjs_plan_in_room [OF t(2), of plan] that
    by (auto simp: NewYJSEventPlan_def NewYJSEvent_def split: if_splits)
  show ?thesis
    using assms(2) a closing_in_room
    by (auto simp: in_room_def [of _ _ s] handleYJSFrame_def Let_def intro!: step plan closing_in_room [unfolded in_room_def]
        split: list.split bool.split option.split)
qed

lemma read_frame_in_room:
  assumes "Inv z s"
  shows "only_room (\<lambda>r. map_option yn_room (fmlookup (sv_yjsConns s) connID) = Some r)
    (sv_yjsConns s) (sv_yjsConns (read_frame connID binary frame s))"
proof (cases "fmlookup (sv_yjsConns s) connID")
  case None
  then show ?thesis by (simp add: read_frame_def handleYJSFrame_def unregisterYJSConn_def)
next
  case (Some c)
  obtain r t where r: "handleYJSFrame connID binary frame s = (r, t)" by fastforce
  have "only_room (\<lambda>r. r = yn_room c) (sv_yjsConns s) (sv_yjsConns t)"
    using handleYJSFrame_in_room [OF assms Some, of binary frame] r by (simp add: in_room_def)
  moreover have "(\<lambda>r. map_option yn_room (fmlookup (sv_yjsConns s) connID) = Some r) = (\<lambda>r. r = yn_room c)"
    by (auto simp: Some fun_eq_iff)
  ultimately show ?thesis
    using r by (cases r) (simp_all add: read_frame_def unregisterYJSConn_in_room)
qed

lemma cluster_yjs_in_room:
  assumes "Inv z s"
  shows "only_room (\<lambda>r. r = ye_Room event) (sv_yjsConns s) (sv_yjsConns (handleClusterYJSEvent event s))"
  using broadcastYJSFanout_in_room [OF assms, of event]
  by (simp add: handleClusterYJSEvent_def Let_def NewClusterYJSEventPlan_def broadcastYJSEvent_def in_room_def)

subsection \<open>Opening\<close>

definition frame_bytes :: "YJSFrame \<Rightarrow> bytes" where
  "frame_bytes f = chr (unat (yf_Kind f)) # yf_Update f"

lemma enqueueFrame_others: "x \<noteq> connID \<Longrightarrow>
    fmlookup (sv_yjsConns (snd (enqueueFrame connID kind update s))) x = fmlookup (sv_yjsConns s) x"
  by (auto simp: enqueueFrame_def Let_def pick_def put_yjs_def split: option.split bool.split)

lemma sendYJSDocument_others: "x \<noteq> connID \<Longrightarrow>
    fmlookup (sv_yjsConns (snd (sendYJSDocument connID frames s))) x = fmlookup (sv_yjsConns s) x"
proof (induction frames arbitrary: s)
  case (Cons frame frames)
  then show ?case
    using enqueueFrame_others [OF Cons.prems, of "yf_Kind frame" "yf_Update frame" s]
    by (cases "enqueueFrame connID (yf_Kind frame) (yf_Update frame) s") (auto simp: andDo_def split: sum.split)
qed (simp add: ok_def)

lemma sendYJSDocument_queue:
  "fmlookup (sv_yjsConns s) connID = Some y \<Longrightarrow> yn_closed y = None \<Longrightarrow> sendYJSDocument connID frames s = (Inr u, t) \<Longrightarrow>
     fmlookup (sv_yjsConns t) connID = Some (y\<lparr>yn_send := yn_send y @ map frame_bytes frames\<rparr>)
     \<and> loadYJSDocument t = loadYJSDocument s"
proof (induction frames arbitrary: s y)
  case Nil
  then show ?case by (auto simp: ok_def)
next
  case (Cons frame frames)
  let ?y = "y\<lparr>yn_send := yn_send y @ [frame_bytes frame]\<rparr>"
  have "len (yn_send y) < yn_capacity y" "sendYJSDocument connID frames (put_yjs connID ?y s) = (Inr u, t)"
    using Cons.prems by (auto simp: andDo_def enqueueFrame_def Let_def frame_bytes_def split: if_splits)
  from Cons.IH [OF _ _ this(2), of ?y] Cons.prems(2) show ?case
    by (simp add: put_yjs_def loadYJSDocument_def fun_eq_iff cong: option.case_cong)
qed

text \<open>
  A connection that \<open>open_yjs_conn\<close> leaves open has the document of its room in its queue; the
  other connections are as before.
\<close>

lemma unregisterYJSConn_lookup:
  "fmlookup (sv_yjsConns (unregisterYJSConn connID s)) x = (if x = connID then None else fmlookup (sv_yjsConns s) x)"
  by (simp add: unregisterYJSConn_def split: option.split)

lemma closing_others: "x \<noteq> connID \<Longrightarrow> fmlookup (sv_yjsConns (snd (closing connID code s))) x = fmlookup (sv_yjsConns s) x"
  by (simp add: closing_def put_yjs_def split: option.split)

lemma open_yjs_conn_effect:
  assumes "fmlookup (sv_yjsConns (open_yjs_conn connID c s)) x = Some y'"
    and "yn_closed c = None" "yn_send c = []" "yn_wire c = []"
  shows "if x \<noteq> connID then fmlookup (sv_yjsConns s) x = Some y'
    else \<exists>document. loadYJSDocument (open_yjs_conn connID c s) (yn_room c) = Inr document
      \<and> y' = c\<lparr>yn_send := map frame_bytes (NewYJSDocumentFrames document)\<rparr>"
proof -
  define t where "t = recordYJSUsage connID ''yjs.connections'' 1 (registerReservedYJSConn connID c s)"
  have t: "sv_yjsConns t = fmupd connID c (sv_yjsConns s)" by (simp add: t_def registerReservedYJSConn_def put_yjs_def)
  show ?thesis
  proof (cases "loadYJSDocument t (yn_room c)")
    case (Inl err)
    have "open_yjs_conn connID c s = unregisterYJSConn connID (snd (closing connID CodeInternal t :: (go_error + unit) \<times> _))"
      using Inl by (simp add: open_yjs_conn_def Let_def t_def [symmetric] andDo_def or_close_def reading_def closing_def
          split: option.split)
    then show ?thesis using assms(1) by (auto simp: unregisterYJSConn_lookup closing_others t split: if_splits)
  next
    case (Inr document)
    obtain r t' where r: "sendYJSDocument connID (NewYJSDocumentFrames document) t = (r, t')" by fastforce
    have opened: "open_yjs_conn connID c s = (case r of Inl _ \<Rightarrow> unregisterYJSConn connID t' | Inr _ \<Rightarrow> t')"
      using Inr r by (simp add: open_yjs_conn_def Let_def t_def [symmetric] andDo_def or_close_def reading_def split: sum.split)
    have others: "fmlookup (sv_yjsConns t') x = fmlookup (sv_yjsConns s) x" if "x \<noteq> connID"
      using sendYJSDocument_others [OF that, of "NewYJSDocumentFrames document" t] r t that by simp
    have "\<exists>document. loadYJSDocument t' (yn_room c) = Inr document
        \<and> fmlookup (sv_yjsConns t') connID = Some (c\<lparr>yn_send := map frame_bytes (NewYJSDocumentFrames document)\<rparr>)"
      if "r = Inr u" for u
      using sendYJSDocument_queue [OF _ assms(2), of t connID "NewYJSDocumentFrames document"] r t that Inr assms(3) by simp
    then show ?thesis using assms(1) others opened
      by (cases r) (auto simp: unregisterYJSConn_lookup split: if_splits)
  qed
qed

lemma handleYJS_effect:
  assumes "fmlookup (sv_yjsConns (snd (handleYJS verify r connID s))) x = Some y'"
    and "fmlookup (sv_yjsConns s) connID = None" and "Inv z s"
  shows "fmlookup (sv_yjsConns s) x = Some y' \<or>
    fmlookup (sv_yjsConns s) x = None \<and> yn_wire y' = [] \<and> may_join (sv_cfg s) (yn_claims y') (yn_room y')
      \<and> (\<exists>document. loadYJSDocument (snd (handleYJS verify r connID s)) (yn_room y') = Inr document
           \<and> yn_send y' = map frame_bytes (NewYJSDocumentFrames document))"
proof (cases "roomFromYJSPath (hr_Path r)")
  case (Inl msg)
  with assms(1) show ?thesis by (simp add: handleYJS_def)
next
  case path: (Inr room)
  obtain ra s1 where a: "authenticateRequest verify r s = (ra, s1)" by fastforce
  then have conns: "sv_yjsConns s1 = sv_yjsConns s"
    using yjs_authenticate(1) [of verify r s] by simp
  have "Inv z s1" using authenticateRequest_holds [OF assms(3), of verify r] a by (simp add: holds_def)
  then have cfg: "sv_cfg s1 = sv_cfg s" using Inv_cfg assms(3) by metis
  show ?thesis
  proof (cases ra)
    case (Inl err)
    with a assms(1) conns path show ?thesis by (simp add: handleYJS_def)
  next
    case ra: (Inr authn)
    let ?c = "new_yjs_conn (sv_cfg s1) authn room"
    show ?thesis
    proof (cases "\<exists>e. allowsRoomAction s1 (ra_claims authn) ''join'' room
        \<and> snd (handleYJS verify r connID s) = open_yjs_conn connID ?c (s1\<lparr>sv_rooms := e\<rparr>)")
      case True
      then obtain e where e: "allowsRoomAction s1 (ra_claims authn) ''join'' room"
        "snd (handleYJS verify r connID s) = open_yjs_conn connID ?c (s1\<lparr>sv_rooms := e\<rparr>)" by blast
      have fresh: "yn_closed ?c = None" "yn_send ?c = []" "yn_wire ?c = []" by (simp_all add: new_yjs_conn_def)
      note effect = open_yjs_conn_effect [OF assms(1) [unfolded e(2)] fresh]
      show ?thesis
      proof (cases "x = connID")
        case True
        with effect obtain document where "loadYJSDocument (snd (handleYJS verify r connID s)) room = Inr document"
          "y' = ?c\<lparr>yn_send := map frame_bytes (NewYJSDocumentFrames document)\<rparr>"
          by (auto simp: e(2))
        then show ?thesis using allows_may_join [OF e(1)] True assms(2) fresh cfg by simp
      next
        case False
        then show ?thesis using effect conns by simp
      qed
    next
      case False
      have "sv_yjsConns (snd (handleYJS verify r connID s)) = sv_yjsConns s"
        using False a ra path conns
        by (auto simp: handleYJS_def Let_def split: prod.split option.split)
      then show ?thesis using assms(1) by simp
    qed
  qed
qed

subsection \<open>Steps\<close>

text \<open>
  Somebody speaks in the room: a connection that has opened it has sent the frame that is read,
  or another node has published the event for the room that is received.
\<close>

definition spoken_in :: "room_id \<Rightarrow> 'st Service \<Rightarrow> 'st Service \<Rightarrow> bool" where
  "spoken_in room s s' \<longleftrightarrow>
     (\<exists>connID sender binary frame. fmlookup (sv_yjsConns s) connID = Some sender \<and> yn_room sender = room
        \<and> s' = read_frame connID binary frame s)
   \<or> (\<exists>event. ye_Room event = room \<and> s' = handleClusterYJSEvent event s)"

text \<open>
  How a Yjs connection comes to its frames in a step: it was there, with the same token and room,
  and has nothing that it did not have, or somebody has spoken in its room; or it is new, its token
  may join the room, nothing is written, and in its queue is the document of the room.
\<close>

definition frames_of_room :: "'st Service \<Rightarrow> 'st Service \<Rightarrow> conn_id \<Rightarrow> yjsConn \<Rightarrow> bool" where
  "frames_of_room s s' connID y' \<longleftrightarrow>
     (case fmlookup (sv_yjsConns s) connID of
        Some y \<Rightarrow> yn_room y' = yn_room y \<and> yn_claims y' = yn_claims y
          \<and> (subseq (yn_wire y' @ yn_send y') (yn_wire y @ yn_send y) \<or> spoken_in (yn_room y) s s')
      | None \<Rightarrow> yn_wire y' = [] \<and> may_join (sv_cfg s) (yn_claims y') (yn_room y')
          \<and> (\<exists>document. loadYJSDocument s' (yn_room y') = Inr document
               \<and> yn_send y' = map frame_bytes (NewYJSDocumentFrames document)))"

lemma frames_same: "fmlookup (sv_yjsConns s) x = Some y' \<Longrightarrow> frames_of_room s s' x y'"
  by (simp add: frames_of_room_def)

lemma frames_only_room:
  assumes "only_room R (sv_yjsConns s) (sv_yjsConns s')" "fmlookup (sv_yjsConns s') x = Some y'"
    and "\<And>room. R room \<Longrightarrow> spoken_in room s s'"
  shows "frames_of_room s s' x y'"
proof -
  obtain y where y: "fmlookup (sv_yjsConns s) x = Some y" "yn_room y' = yn_room y" "yn_claims y' = yn_claims y"
    "yn_wire y' = yn_wire y" "R (yn_room y) \<or> suffix (yn_send y') (yn_send y)"
    using assms(1,2) unfolding only_room_def by blast
  have "subseq (yn_wire y' @ yn_send y') (yn_wire y @ yn_send y)" if "suffix (yn_send y') (yn_send y)"
    using that y(4) by (simp add: subseq_append' suffix_imp_subseq)
  then show ?thesis using y assms(3) by (auto simp: frames_of_room_def)
qed

lemma yjs_writeLoop_frames:
  assumes "fmlookup (sv_yjsConns (yjs_writeLoop connID s)) x = Some y'"
  shows "frames_of_room s (yjs_writeLoop connID s) x y'"
  using assms
  by (auto simp: yjs_writeLoop_def pick_def put_yjs_def frames_of_room_def subseq_append'
      split: option.splits list.splits bool.splits if_splits)

lemma step_frames:
  assumes "service_step verify s s'" "Inv z s" "fmlookup (sv_yjsConns s') x = Some y'"
  shows "frames_of_room s s' x y'"
  using assms(1)
proof (cases rule: service_step.cases)
  case (connect_yjs connID r)
  then have "fmlookup (sv_yjsConns s) connID = None" by (simp add: fmdom_notD)
  from handleYJS_effect [OF assms(3) [unfolded connect_yjs(1)] this assms(2)] show ?thesis
    unfolding connect_yjs(1) by (elim disjE) (simp_all add: frames_of_room_def)
next
  case (frame connID binary bytes)
  show ?thesis
    by (rule frames_only_room [OF read_frame_in_room [OF assms(2), of connID binary bytes, folded frame] assms(3)])
       (auto simp: spoken_in_def frame)
next
  case (frame_written connID)
  then show ?thesis using yjs_writeLoop_frames assms(3) by simp
next
  case (disconnect_yjs connID)
  then show ?thesis using assms(3) by (auto simp: unregisterYJSConn_lookup intro: frames_same split: if_splits)
next
  case (cluster_yjs event)
  show ?thesis
    by (rule frames_only_room [OF cluster_yjs_in_room [OF assms(2), of event, folded cluster_yjs] assms(3)])
       (auto simp: spoken_in_def cluster_yjs)
next
  case shutdown
  then show ?thesis using assms(3)
    by (auto simp: closeActiveSockets_def yjsConn_close_def frames_of_room_def split: if_splits)
qed (use assms(3) in \<open>simp_all add: frames_same\<close>)

lemma yjs_rooms_joinable:
  assumes "service_reachable verify cfg store s" "faithful_log (store_of cfg store)"
    and "fmlookup (sv_yjsConns s) x = Some y"
  shows "may_join cfg (yn_claims y) (yn_room y)"
  using assms(1,3)
proof (induction arbitrary: x y rule: service_reachable.induct)
  case (start st now choices)
  then show ?case by (simp add: NewService_def)
next
  case (step s s')
  have "svc_ok (cfg, store_of cfg store) s" using service_reachable_ok [OF step.hyps(1) assms(2)] .
  then have inv: "Inv (static s) s" and cfg: "sv_cfg s = cfg" by (simp_all add: svc_ok_def origin_def)
  have "frames_of_room s s' x y" by (rule step_frames [OF step.hyps(2) inv step.prems])
  then show ?case
    using step.IH cfg by (auto simp: frames_of_room_def split: option.splits)
qed

end
