(* ===== verification/Runtime_Properties.thy ===== *)
theory Runtime_Properties
  imports Runtime_Yjs Storage_Properties
begin

text \<open>
  What a running service promises: tenants do not see each other, the engine knows exactly
  the connections of the service, the queues are bounded, the limiter limits, stale writes
  are refused with the current document, an event reaches the room.
\<close>

lemma faithful_store_of: "faithful_log store \<Longrightarrow> faithful_log (store_of cfg store)"
  by (simp add: store_of_def faithful_log_def)

lemma reachable_inv:
  assumes "service_reachable verify cfg store s" "faithful_log store"
  shows "Inv (static s) s" "sv_cfg s = cfg" "sv_store s = store_of cfg store" "wf_engine (sv_rooms s)"
proof -
  have "svc_ok (cfg, store_of cfg store) s"
    using service_reachable_ok [OF assms(1)] assms(2) by (simp add: faithful_store_of)
  then show "Inv (static s) s" "sv_cfg s = cfg" "sv_store s = store_of cfg store" "wf_engine (sv_rooms s)"
    using svc_ok_engine by (auto simp: svc_ok_def origin_def)
qed

lemma in_joined: "wf_engine e \<Longrightarrow> room \<in> set (JoinedRooms e connID) \<longleftrightarrow> connID |\<in>| members_of e room"
  by (auto simp: wf_engine_def rooms_ok_def JoinedRooms_def joinedRoomsLocked_def)

subsection \<open>Tenants\<close>

lemma conn_sees_tenant:
  assumes "service_reachable verify cfg store s" "faithful_log store" "tc_EnforcePrefix (cfg_Tenant cfg)"
    and "fmlookup (sv_conns s) connID = Some c"
  shows "case cc_claims c of
      None \<Rightarrow> False
    | Some cl \<Rightarrow>
        list_all (\<lambda>m. om_Room m = [] \<or> prefix (tenantPrefix cfg cl) (om_Room m)) (cc_wire c @ cc_send c)
      \<and> list_all (\<lambda>room. cl_Tenant cl \<noteq> [] \<and> prefix (cl_Tenant cl @ tc_Separator (cfg_Tenant cfg)) room)
          (JoinedRooms (sv_rooms s) connID)"
proof -
  note inv = reachable_inv [OF assms(1,2)]
  have ok: "conn_ok cfg c" using Inv_conn [OF inv(1) assms(4)] inv(2) by simp
  then obtain cl where cl: "cc_claims c = Some cl" by (auto simp: conn_ok_def)
  have "may_join cfg (Some cl) room" if "room \<in> set (JoinedRooms (sv_rooms s) connID)" for room
  proof -
    have "connID |\<in>| members_of (sv_rooms s) room" using that in_joined [OF inv(4)] by simp
    then have "\<exists>claims. fmlookup (z_claims (static s)) connID = Some claims \<and> may_join cfg claims room"
      using Inv_engine [OF inv(1)] inv(2) unfolding eng_ok_def members_ok_def by fastforce
    then show ?thesis using assms(4) cl by simp
  qed
  then have "list_all (\<lambda>room. cl_Tenant cl \<noteq> [] \<and> prefix (cl_Tenant cl @ tc_Separator (cfg_Tenant cfg)) room)
      (JoinedRooms (sv_rooms s) connID)"
    using assms(3) by (auto simp: list_all_iff may_join_def)
  with ok cl show ?thesis by (auto simp: conn_ok_def may_see_def list_all_iff)
qed

text \<open>C3. With the tenant prefix enforced, in every state of a service that runs on a store with a
  faithful event log: every message that a JSON connection has been sent or is about to be sent
  names no room or a room under the prefix of the tenant in its token, and the connection is a
  member only of rooms under the prefix, which needs a token with a tenant; every Yjs connection
  has a token with a tenant and edits a room under its prefix; and in every further step, whatever
  it is, a Yjs connection keeps its token and its room and comes to new frames only when a
  connection of the same room has sent a frame or an event for this room comes from another node,
  except for the document of its room, with which a new connection starts.\<close>

theorem service_isolates_tenants:
  assumes "service_reachable verify cfg store s" "faithful_log store" "tc_EnforcePrefix (cfg_Tenant cfg)"
  shows "(\<forall>connID c. fmlookup (sv_conns s) connID = Some c \<longrightarrow>
      (case cc_claims c of
         None \<Rightarrow> False
       | Some cl \<Rightarrow>
           list_all (\<lambda>m. om_Room m = [] \<or> prefix (tenantPrefix cfg cl) (om_Room m)) (cc_wire c @ cc_send c)
         \<and> list_all (\<lambda>room. cl_Tenant cl \<noteq> [] \<and> prefix (cl_Tenant cl @ tc_Separator (cfg_Tenant cfg)) room)
             (JoinedRooms (sv_rooms s) connID)))
    \<and> (\<forall>connID y. fmlookup (sv_yjsConns s) connID = Some y \<longrightarrow>
      (\<exists>cl. yn_claims y = Some cl \<and> cl_Tenant cl \<noteq> []
         \<and> prefix (cl_Tenant cl @ tc_Separator (cfg_Tenant cfg)) (yn_room y)))
    \<and> (\<forall>s' connID y'. service_step verify s s' \<longrightarrow> fmlookup (sv_yjsConns s') connID = Some y' \<longrightarrow>
      frames_of_room s s' connID y')"
proof (intro conjI allI impI)
  note inv = reachable_inv [OF assms(1,2)]
  fix connID
  {
    fix c assume conn: "fmlookup (sv_conns s) connID = Some c"
    show "case cc_claims c of
         None \<Rightarrow> False
       | Some cl \<Rightarrow>
           list_all (\<lambda>m. om_Room m = [] \<or> prefix (tenantPrefix cfg cl) (om_Room m)) (cc_wire c @ cc_send c)
         \<and> list_all (\<lambda>room. cl_Tenant cl \<noteq> [] \<and> prefix (cl_Tenant cl @ tc_Separator (cfg_Tenant cfg)) room)
             (JoinedRooms (sv_rooms s) connID)"
      by (rule conn_sees_tenant [OF assms conn])
  next
    fix y assume "fmlookup (sv_yjsConns s) connID = Some y"
    then show "\<exists>cl. yn_claims y = Some cl \<and> cl_Tenant cl \<noteq> []
         \<and> prefix (cl_Tenant cl @ tc_Separator (cfg_Tenant cfg)) (yn_room y)"
      using yjs_rooms_joinable [OF assms(1) faithful_store_of [OF assms(2)]] assms(3) by (auto simp: may_join_def)
  next
    fix s' y' assume "service_step verify s s'" "fmlookup (sv_yjsConns s') connID = Some y'"
    then show "frames_of_room s s' connID y'" using step_frames inv(1) by blast
  }
qed

subsection \<open>Connections and the engine\<close>

text \<open>C15. The engine of a running service has exactly one session for each connection, with the
  subject and tenant of its token; members of rooms are connections, the connections that edit a
  document have opened it, and no room and no connection exceeds the configured limits.\<close>

theorem engine_knows_connections:
  assumes "service_reachable verify cfg store s" "faithful_log store"
  shows "sessions (sv_rooms s) = fmmap_keys (\<lambda>connID c. session_of connID (cc_claims c)) (sv_conns s)
    \<and> members_of (sv_rooms s) room |\<subseteq>| fmdom (sv_conns s)
    \<and> yjs_members (sv_rooms s) room |\<subseteq>| fmdom (fmfilter (\<lambda>connID. map_option yn_room (fmlookup (sv_yjsConns s) connID) = Some room) (sv_yjsConns s))
    \<and> within_limits (limits_of cfg) (sv_rooms s)"
proof -
  note inv = reachable_inv [OF assms]
  have eng: "eng_ok (static s) (sv_rooms s)" by (rule Inv_engine [OF inv(1)])
  have "sessions (sv_rooms s) = fmmap_keys (\<lambda>connID c. session_of connID (cc_claims c)) (sv_conns s)"
  proof (rule fmap_ext)
    fix x show "fmlookup (sessions (sv_rooms s)) x =
        fmlookup (fmmap_keys (\<lambda>connID c. session_of connID (cc_claims c)) (sv_conns s)) x"
      using eng by (cases "fmlookup (sv_conns s) x") (simp_all add: eng_ok_def sessions_match_def)
  qed
  moreover have "members_of (sv_rooms s) room |\<subseteq>| fmdom (sv_conns s)"
    using eng by (fastforce simp: eng_ok_def members_ok_def intro: fmdomI)
  moreover have "yjs_members (sv_rooms s) room |\<subseteq>| fmdom (fmfilter (\<lambda>connID. map_option yn_room (fmlookup (sv_yjsConns s) connID) = Some room) (sv_yjsConns s))"
    using eng by (fastforce simp: eng_ok_def yjs_match_def intro: fmdomI)
  moreover have "within_limits (limits_of cfg) (sv_rooms s)"
    using eng inv(2) by (auto simp: eng_ok_def intro: reachable_within_limits)
  ultimately show ?thesis by blast
qed

subsection \<open>Queues\<close>

definition takes :: "'st Service \<Rightarrow> conn_id \<Rightarrow> bool" where
  "takes s connID =
    (case fmlookup (sv_conns s) connID of
       None \<Rightarrow> True | Some c \<Rightarrow> cc_closed c = None \<and> len (cc_send c) < cc_capacity c)"

definition deliver :: "conn_id list \<Rightarrow> outboundMessage \<Rightarrow> (conn_id, clientConn) fmap \<Rightarrow> (conn_id, clientConn) fmap" where
  "deliver ids m = fmmap_keys (\<lambda>connID c. if connID \<in> set ids then c\<lparr>cc_send := cc_send c @ [m]\<rparr> else c)"

lemma deliver_nobody: "deliver [] m conns = conns"
  by (rule fmap_ext) (simp add: deliver_def option.map_ident)

lemma deliver_cons:
  "fmlookup conns x = Some c \<Longrightarrow> x \<notin> set ids \<Longrightarrow>
     deliver ids m (fmupd x (c\<lparr>cc_send := cc_send c @ [m]\<rparr>) conns) = deliver (x # ids) m conns"
  by (rule fmap_ext) (auto simp: deliver_def split: option.split)

lemma enqueue_all_delivers:
  "distinct ids \<Longrightarrow> set ids \<subseteq> fset (fmdom (sv_conns s)) \<Longrightarrow> list_all (takes s) ids \<Longrightarrow>
     enqueue_all ids m s = (Inr (), s\<lparr>sv_conns := deliver ids m (sv_conns s)\<rparr>)"
proof (induction ids arbitrary: s)
  case Nil
  then show ?case by (simp add: ok_def deliver_nobody)
next
  case (Cons x ids)
  then obtain c where c: "fmlookup (sv_conns s) x = Some c" by (auto simp: fmlookup_dom_iff)
  let ?s = "put_conn x (c\<lparr>cc_send := cc_send c @ [m]\<rparr>) s"
  have "enqueue x m s = (Inr (), ?s)"
    using Cons.prems c by (simp add: enqueue_def takes_def)
  moreover have "takes ?s y \<longleftrightarrow> takes s y" if "y \<in> set ids" for y
    using Cons.prems(1) that by (auto simp: takes_def put_conn_def)
  then have "list_all (takes ?s) ids" using Cons.prems(3) by (simp add: list_all_iff)
  moreover have "set ids \<subseteq> fset (fmdom (sv_conns ?s))"
    using Cons.prems(2) by (auto simp: put_conn_def)
  ultimately show ?case
    using Cons.IH [of ?s] Cons.prems(1) deliver_cons [OF c, of ids m] by (simp add: andDo_def put_conn_def)
qed

lemma targets_deliver:
  assumes "distinct ids" "list_all (takes s) ids"
  shows "enqueue_all (targets_of s ids) m s = (Inr (), s\<lparr>sv_conns := deliver ids m (sv_conns s)\<rparr>)"
proof -
  have "deliver (targets_of s ids) m (sv_conns s) = deliver ids m (sv_conns s)"
  proof (rule fmap_ext)
    fix x show "fmlookup (deliver (targets_of s ids) m (sv_conns s)) x = fmlookup (deliver ids m (sv_conns s)) x"
      by (cases "fmlookup (sv_conns s) x") (auto simp: deliver_def targets_of_def intro: fmdomI)
  qed
  then show ?thesis
    using enqueue_all_delivers [of "targets_of s ids" s m] assms
    by (auto simp: targets_of_def list_all_iff)
qed

text \<open>C20. The queue of a connection never holds more messages than the configured depth. A message
  for an open connection is appended while there is room; otherwise the connection is closed
  with the code of an overflow, keeps what it has, the overflow is counted, and no other
  connection and nothing in the engine changes.\<close>

theorem slow_consumers_are_cut:
  assumes "service_reachable verify cfg store s" "faithful_log store"
    and "fmlookup (sv_conns s) connID = Some c" "cc_closed c = None" "enqueue connID m s = (r, s')"
  shows "length (cc_send c) \<le> nat (li_OutboundQueueDepth (cfg_Limits cfg))
    \<and> (if length (cc_send c) < nat (li_OutboundQueueDepth (cfg_Limits cfg))
       then r = Inr () \<and> s' = s\<lparr>sv_conns := fmupd connID (c\<lparr>cc_send := cc_send c @ [m]\<rparr>) (sv_conns s)\<rparr>
       else r = Inl queue_overflow
         \<and> sv_conns s' = fmupd connID (c\<lparr>cc_closed := Some (4410, ''4410 QUEUE_OVERFLOW'')\<rparr>) (sv_conns s)
         \<and> st_QueueOverflowsTotal (sv_stats s') = st_QueueOverflowsTotal (sv_stats s) + 1
         \<and> sv_rooms s' = sv_rooms s)"
proof -
  have ok: "conn_ok cfg c"
    using Inv_conn [OF reachable_inv(1) [OF assms(1,2)] assms(3)] reachable_inv(2) [OF assms(1,2)] by simp
  have "WSCloseReason CodeQueueOverflow = ''4410 QUEUE_OVERFLOW''" by code_simp
  then have "close_code CodeQueueOverflow c = c\<lparr>cc_closed := Some (4410, ''4410 QUEUE_OVERFLOW'')\<rparr>"
    using assms(4) by (simp add: close_code_def clientConn_close_def descriptor_def)
  moreover have "sv_conns (recordOverflow s) = sv_conns s" "sv_rooms (recordOverflow s) = sv_rooms s"
    "st_QueueOverflowsTotal (sv_stats (recordOverflow s)) = st_QueueOverflowsTotal (sv_stats s) + 1"
    by (auto simp: recordOverflow_def syncStatsLocked_def on_metrics_def Let_def ignore_def on_store_def
        split: option.split prod.split)
  ultimately show ?thesis
    using assms(3-5) ok by (auto simp: enqueue_def conn_ok_def put_conn_def Let_def split: if_split_asm)
qed

subsection \<open>The limiter\<close>

fun allow_all :: "gtime list \<Rightarrow> emitLimiter \<Rightarrow> bool list" where
  "allow_all [] l = []"
| "allow_all (now # nows) l = (case Allow now l of (allowed, l) \<Rightarrow> allowed # allow_all nows l)"

definition window_of :: "gtime \<Rightarrow> int" where
  "window_of now = now div second - unix_epoch"

definition attempts :: "int \<Rightarrow> gtime list \<Rightarrow> int" where
  "attempts w nows = len (filter (\<lambda>now. window_of now = w) nows)"

text \<open>What a limiter knows of the attempts so far: those of its window, and that none is later.\<close>

definition counts :: "int \<Rightarrow> gtime list \<Rightarrow> emitLimiter \<Rightarrow> bool" where
  "counts n past l \<longleftrightarrow> el_limit l = n \<and> el_count l = min n (attempts (el_window l) past)
     \<and> (\<forall>w. el_window l < w \<longrightarrow> attempts w past = 0)"

lemma attempts_snoc: "attempts w (past @ [now]) = attempts w past + (if window_of now = w then 1 else 0)"
  by (simp add: attempts_def)

lemma window_mono: "now \<le> now' \<Longrightarrow> window_of now \<le> window_of now'"
  by (simp add: window_of_def second_def zdiv_mono1)

lemma Allow_counts:
  assumes "counts n past l" "0 \<le> n" "el_window l \<le> window_of now" "Allow now l = (allowed, l')"
  shows "allowed = (attempts (window_of now) past < n)" "counts n (past @ [now]) l'" "el_window l' = window_of now"
  using assms by (auto simp: Allow_def counts_def Let_def attempts_snoc window_of_def [symmetric] split: if_split_asm)

lemma allow_all_counts:
  "counts n past l \<Longrightarrow> 0 \<le> n \<Longrightarrow> sorted nows \<Longrightarrow> list_all (\<lambda>now. el_window l \<le> window_of now) nows \<Longrightarrow>
     allow_all nows l = map (\<lambda>i. attempts (window_of (nows ! i)) (past @ take i nows) < n) [0..<length nows]"
proof (induction nows arbitrary: past l)
  case (Cons now nows)
  obtain allowed l' where a: "Allow now l = (allowed, l')" by fastforce
  note step = Allow_counts [OF Cons.prems(1,2) _ a]
  have "el_window l \<le> window_of now" using Cons.prems(4) by simp
  note step = step [OF this]
  have "list_all (\<lambda>now. el_window l' \<le> window_of now) nows"
    using Cons.prems(3) step(3) window_mono by (auto simp: list_all_iff)
  with Cons.IH [OF step(2) Cons.prems(2)] Cons.prems(3) a step(1) show ?case
    by (simp add: map_upt_Suc del: upt_Suc)
qed simp

text \<open>C37. For a clock that does not run backwards, the limiter of a connection allows an emit exactly
  when fewer than its limit have been attempted before in the same second; so no second has more
  than the limit, and no emit is refused that would stay within it.\<close>

theorem limiter_counts_seconds:
  assumes "sorted nows" "list_all (\<lambda>now. 0 \<le> window_of now) nows" "0 \<le> n"
  shows "allow_all nows \<lparr>el_limit = n, el_window = 0, el_count = 0\<rparr> =
    map (\<lambda>i. attempts (window_of (nows ! i)) (take i nows) < n) [0..<length nows]"
  using assms allow_all_counts [of n "[]" "\<lparr>el_limit = n, el_window = 0, el_count = 0\<rparr>" nows]
  by (simp add: counts_def attempts_def)

theorem limiter_counts_seconds_witness:
  "allow_all (map (\<lambda>t. unix_epoch * second + t) [5, 6, 7, 8 + second]) \<lparr>el_limit = 2, el_window = 0, el_count = 0\<rparr>
     = [True, True, False, True]"
proof -
  let ?nows = "map (\<lambda>t. unix_epoch * second + t) [5, 6, 7, 8 + second]"
  have "allow_all ?nows \<lparr>el_limit = 2, el_window = 0, el_count = 0\<rparr> =
      map (\<lambda>i. attempts (window_of (?nows ! i)) (take i ?nows) < 2) [0..<length ?nows]"
    by (rule limiter_counts_seconds) (simp_all add: window_of_def second_def)
  then show ?thesis
    by (simp add: upt_rec window_of_def second_def attempts_def)
qed

subsection \<open>Examples\<close>

lemma demo_reachable: "service_reachable demo_verify demo_cfg None demo_joined"
proof -
  have "service_reachable demo_verify demo_cfg None demo_start"
    unfolding demo_start_def by (rule service_reachable.start)
  then have "service_reachable demo_verify demo_cfg None demo_connected"
    unfolding demo_connected_def by (rule service_reachable.step) (rule service_step.connect, simp_all)
  then show ?thesis
    unfolding demo_joined_def
    by (rule service_reachable.step) (rule service_step.message, rule fmdomI, simp)
qed

lemma demo_log: "faithful_log None"
  by (simp add: faithful_log_def)

text \<open>A client that opens the document of a room.\<close>

definition demo_yjs_request :: HttpRequest where
  "demo_yjs_request = demo_request\<lparr>hr_Path := ''/yjs/t1:r''\<rparr>"

definition demo_opened :: "unit Service" where
  "demo_opened = snd (handleYJS demo_verify demo_yjs_request ''y1'' demo_start)"

lemma demo_yjs_request_read:
  "tokenFromRequest demo_yjs_request = ''tok''" "projectIDFromRuntimeRequest demo_yjs_request = []"
  "checkOrigin demo_cfg demo_yjs_request" "roomFromYJSPath (hr_Path demo_yjs_request) = Inr ''t1:r''"
  by code_simp+

lemma demo_opened_conn:
  "\<exists>y. fmlookup (sv_yjsConns demo_opened) ''y1'' = Some y \<and> yn_room y = ''t1:r'' \<and> yn_claims y = Some demo_claims"
proof -
  have "authenticateRequest demo_verify demo_yjs_request demo_start = (Inr \<lparr>ra_claims = Some demo_claims, ra_projectID = []\<rparr>, demo_start)"
    by (simp add: authenticateRequest_def demo_yjs_request_read demo_verify_def)
  moreover have "sv_yjsConns demo_start = fmempty" by (simp add: demo_start_def NewService_def)
  ultimately show ?thesis
    using demo_may_join
    by (simp add: demo_opened_def handleYJS_def demo_yjs_request_read allowsRoomAction_def RegisterYJSSessionWithLimit_def
        yjsSessionInfoFromConn_def new_yjs_conn_def demo_claims_def New_def Let_def open_yjs_conn_def
        registerReservedYJSConn_def put_yjs_def andDo_def or_close_def reading_def ok_def
        recordYJSUsage_def recordUsage_def loadYJSDocument_def LoadYJSDocument_def NewYJSDocumentFrames_def
        demo_limits_def room_getter_def fcard_fempty)
qed

lemma demo_opened_step: "service_step demo_verify demo_start demo_opened"
  unfolding demo_opened_def by (rule service_step.connect_yjs) (simp_all add: demo_start_def NewService_def)

theorem service_isolates_tenants_witness:
  "(\<exists>c. fmlookup (sv_conns demo_joined) ''c1'' = Some c \<and> map om_T (cc_send c) = [''HELLO'', ''JOINED'']
      \<and> list_all (\<lambda>m. om_Room m = [] \<or> prefix ''t1:'' (om_Room m)) (cc_send c)
      \<and> JoinedRooms (sv_rooms demo_joined) ''c1'' = [''t1:r''])
   \<and> (\<exists>y. fmlookup (sv_yjsConns demo_opened) ''y1'' = Some y \<and> prefix ''t1:'' (yn_room y)
      \<and> frames_of_room demo_start demo_opened ''y1'' y)"
proof (rule conjI)
  have enforced: "tc_EnforcePrefix (cfg_Tenant demo_cfg)" by simp
  obtain c where c: "fmlookup (sv_conns demo_joined) ''c1'' = Some c" "map om_T (cc_send c) = [''HELLO'', ''JOINED'']"
    using demo_joined_fields(2) by auto
  have "cc_claims c = Some demo_claims" using demo_joined_fields(3) c(1) by simp
  with service_isolates_tenants [OF demo_reachable demo_log enforced, THEN conjunct1] c
  have "list_all (\<lambda>m. om_Room m = [] \<or> prefix ''t1:'' (om_Room m)) (cc_send c)"
    by (fastforce simp: tenantPrefix_def demo_claims_def)
  with c demo_joined_fields(1) show "\<exists>c. fmlookup (sv_conns demo_joined) ''c1'' = Some c \<and> map om_T (cc_send c) = [''HELLO'', ''JOINED'']
      \<and> list_all (\<lambda>m. om_Room m = [] \<or> prefix ''t1:'' (om_Room m)) (cc_send c)
      \<and> JoinedRooms (sv_rooms demo_joined) ''c1'' = [''t1:r'']"
    by simp
  have start: "service_reachable demo_verify demo_cfg None demo_start"
    unfolding demo_start_def by (rule service_reachable.start)
  then have opened: "service_reachable demo_verify demo_cfg None demo_opened"
    by (rule service_reachable.step) (rule demo_opened_step)
  obtain y where y: "fmlookup (sv_yjsConns demo_opened) ''y1'' = Some y" "yn_claims y = Some demo_claims"
    using demo_opened_conn by blast
  have "prefix ''t1:'' (yn_room y)"
    using service_isolates_tenants [OF opened demo_log enforced] y by (fastforce simp: demo_claims_def)
  moreover have "frames_of_room demo_start demo_opened ''y1'' y"
    using service_isolates_tenants [OF start demo_log enforced] demo_opened_step y(1) by blast
  ultimately show "\<exists>y. fmlookup (sv_yjsConns demo_opened) ''y1'' = Some y \<and> prefix ''t1:'' (yn_room y)
      \<and> frames_of_room demo_start demo_opened ''y1'' y"
    using y(1) by blast
qed

theorem engine_knows_connections_witness:
  "fmlookup (sessions (sv_rooms demo_joined)) ''c1'' \<noteq> None \<and> members_of (sv_rooms demo_joined) ''t1:r'' \<noteq> {||}"
proof -
  have "''c1'' |\<in>| members_of (sv_rooms demo_joined) ''t1:r''"
    using demo_joined_fields(1) in_joined [OF reachable_inv(4) [OF demo_reachable demo_log]] by (metis list.set_intros(1))
  with engine_knows_connections [OF demo_reachable demo_log, of "''t1:r''"] show ?thesis
    by (auto dest!: fsubsetD elim: fmdomE)
qed

theorem slow_consumers_are_cut_witness:
  "fst (enqueue ''c1'' no_outbound demo_joined) = Inl queue_overflow"
proof -
  obtain c where c: "fmlookup (sv_conns demo_joined) ''c1'' = Some c" "map om_T (cc_send c) = [''HELLO'', ''JOINED'']"
    "cc_closed c = None"
    using demo_joined_fields(2) by auto
  from arg_cong [OF c(2), of length] have "length (cc_send c) = 2" by simp
  with slow_consumers_are_cut [OF demo_reachable demo_log c(1,3) prod.collapse [symmetric], of no_outbound]
  show ?thesis by simp
qed

subsection \<open>Events\<close>

lemma sorted_ids_distinct: "distinct (sorted_ids X)" "set (sorted_ids X) = fset X"
  by (simp_all add: sorted_ids_def sorted_list_of_fset.rep_eq)

lemma allow_emit_cases:
  assumes "allow_emit connID s = (True, s')"
  obtains c l where "fmlookup (sv_conns s) connID = Some c" "s' = put_conn connID (c\<lparr>cc_limiter := l\<rparr>) s"
  using assms by (auto simp: allow_emit_def split: option.split_asm prod.split_asm)

lemma takes_limiter:
  "fmlookup (sv_conns s) connID = Some c \<Longrightarrow> takes (put_conn connID (c\<lparr>cc_limiter := l\<rparr>) s) x \<longleftrightarrow> takes s x"
  by (auto simp: takes_def put_conn_def)

text \<open>C19. On a single node, an emit that is permitted and within the rate of its connection puts the
  event into the queue of every member of the room, the sender included when it is one, exactly
  once and behind what is there, into no other queue, and changes nothing in the engine; this
  holds when no member is closed or full.\<close>

theorem emit_reaches_room:
  assumes "sv_store s = None" "allowsRoomAction s (claims_of s connID) ''publish'' (mg_Room message)"
    and "fst (allow_emit connID s)" "handleEmit connID message s = (r, s')"
    and "list_all (takes s) (memberIDsLocked (sv_rooms s) (mg_Room message) [])"
  shows "r = Inr () \<and> sv_rooms s' = sv_rooms s
    \<and> fmmap cc_send (sv_conns s') =
        fmmap_keys (\<lambda>x c. cc_send c @ (if x |\<in>| members_of (sv_rooms s) (mg_Room message)
          then [no_outbound\<lparr>om_T := ''EVENT'', om_Room := mg_Room message, om_Event := mg_Event message,
                  om_Payload := RawPayload (mg_Payload message),
                  om_Meta := (case mg_EmitMeta message of
                     None \<Rightarrow> []
                   | Some m \<Rightarrow> if em_TraceID m = [] then [] else [(''trace_id'', MetaText (em_TraceID m))])\<rparr>]
          else [])) (sv_conns s)"
proof -
  obtain s1 where "allow_emit connID s = (True, s1)" using assms(3) by (cases "allow_emit connID s") auto
  then obtain c l where c: "fmlookup (sv_conns s) connID = Some c"
    and allow: "allow_emit connID s = (True, put_conn connID (c\<lparr>cc_limiter := l\<rparr>) s)"
    by (auto elim: allow_emit_cases)
  let ?s = "put_conn connID (c\<lparr>cc_limiter := l\<rparr>) s"
  let ?ids = "memberIDsLocked (sv_rooms s) (mg_Room message) []"
  let ?m = "no_outbound\<lparr>om_T := ''EVENT'', om_Room := mg_Room message, om_Event := mg_Event message,
                  om_Payload := RawPayload (mg_Payload message),
                  om_Meta := (case mg_EmitMeta message of
                     None \<Rightarrow> []
                   | Some m \<Rightarrow> if em_TraceID m = [] then [] else [(''trace_id'', MetaText (em_TraceID m))])\<rparr>"
  have "list_all (takes ?s) ?ids" using assms(5) takes_limiter [OF c] by (simp add: list_all_iff)
  then have "enqueue_all (targets_of ?s ?ids) ?m ?s = (Inr (), ?s\<lparr>sv_conns := deliver ?ids ?m (sv_conns ?s)\<rparr>)"
    by (intro targets_deliver) (simp add: memberIDsLocked_def sorted_ids_distinct)
  moreover let ?event = "NewEvent (mg_Room message) (mg_Event message) (mg_Payload message)
    \<lparr>eo_OriginNode = cfg_NodeID (sv_cfg s),
     eo_TraceID = (case mg_EmitMeta message of None \<Rightarrow> [] | Some m \<Rightarrow> em_TraceID m), eo_ExcludeSenderConnID = []\<rparr>"
  have "eventOutboundMessage ?event = ?m" "ef_TargetConnIDs (EventFanout (sv_rooms ?s) ?event) = ?ids"
    by (auto simp: eventOutboundMessage_def NewEvent_def EventFanout_def put_conn_def split: option.split)
  ultimately have "broadcastEvent ?event True ?s = (Inr (), recordEvent (?s\<lparr>sv_conns := deliver ?ids ?m (sv_conns ?s)\<rparr>))"
    by (simp add: broadcastEvent_def broadcastEventFanout_def andDo_def modify_def EventFanout_def)
  moreover have "publish_event ?event ?s = (Inr ?event, ?s)" "sv_cfg ?s = sv_cfg s" "sv_rooms ?s = sv_rooms s"
    using assms(1) by (simp_all add: publish_event_def put_conn_def)
  ultimately have run: "r = Inr ()" "sv_rooms s' = sv_rooms s" "sv_conns s' = deliver ?ids ?m (sv_conns ?s)"
    using assms(2,4) allow by (auto simp: handleEmit_def andDo_def modify_def)
  have ids: "x \<in> set ?ids \<longleftrightarrow> x |\<in>| members_of (sv_rooms s) (mg_Room message)" for x
    by (simp add: memberIDsLocked_def sorted_ids_distinct without_def)
  have "fmlookup (fmmap cc_send (sv_conns s')) x =
      fmlookup (fmmap_keys (\<lambda>x c. cc_send c @ (if x |\<in>| members_of (sv_rooms s) (mg_Room message)
          then [?m] else [])) (sv_conns s)) x" for x
    using c ids by (cases "fmlookup (sv_conns s) x") (auto simp: run(3) deliver_def put_conn_def)
  with run show ?thesis by (auto intro!: fmap_ext)
qed

lemma demo_allows:
  "AllowsRoomAction (Some demo_claims) None ''publish'' ''t1:r''
     \<lparr>rao_EnforceTenantPrefix = True, rao_TenantSeparator = '':''\<rparr>"
  "AllowsRoomAction (Some demo_claims) None ''storage:write'' ''t1:r''
     \<lparr>rao_EnforceTenantPrefix = True, rao_TenantSeparator = '':''\<rparr>"
  by code_simp+

lemma demo_claims_of: "claims_of (demo_connected\<lparr>sv_rooms := e\<rparr>) ''c1'' = Some demo_claims"
  by (simp add: claims_of_def)

theorem emit_reaches_room_witness:
  "\<exists>e. members_of e ''t1:r'' = {|''c1''|}
    \<and> map_option (map om_T) (fmlookup (fmmap cc_send (sv_conns (snd (handleEmit ''c1''
         (no_message\<lparr>mg_Room := ''t1:r'', mg_Event := ''ping'', mg_Payload := ''1''\<rparr>) (demo_connected\<lparr>sv_rooms := e\<rparr>))))) ''c1'')
      = Some [''HELLO'', ''EVENT'']"
proof -
  obtain e where e: "memberIDsLocked e ''t1:r'' [] = [''c1'']" "members_of e ''t1:r'' = {|''c1''|}"
    using demo_engine_join by blast
  let ?s = "demo_connected\<lparr>sv_rooms := e\<rparr>"
  let ?m = "no_message\<lparr>mg_Room := ''t1:r'', mg_Event := ''ping'', mg_Payload := ''1''\<rparr>"
  have h2: "allowsRoomAction ?s (claims_of ?s ''c1'') ''publish'' (mg_Room ?m)"
    using demo_allows(1) by (simp add: demo_claims_of allowsRoomAction_def room_getter_def)
  have h3: "fst (allow_emit ''c1'' ?s)"
    by (simp add: allow_emit_def Allow_def demo_conn_def new_conn_def Let_def)
  have h5: "list_all (takes ?s) (memberIDsLocked (sv_rooms ?s) (mg_Room ?m) [])"
    by (simp add: e takes_def)
  have h1: "sv_store ?s = None" by simp
  have eq: "fmmap cc_send (sv_conns (snd (handleEmit ''c1'' ?m ?s))) =
      fmmap_keys (\<lambda>x c. cc_send c @ (if x |\<in>| members_of (sv_rooms ?s) (mg_Room ?m)
          then [no_outbound\<lparr>om_T := ''EVENT'', om_Room := mg_Room ?m, om_Event := mg_Event ?m,
                  om_Payload := RawPayload (mg_Payload ?m),
                  om_Meta := (case mg_EmitMeta ?m of
                     None \<Rightarrow> []
                   | Some m \<Rightarrow> if em_TraceID m = [] then [] else [(''trace_id'', MetaText (em_TraceID m))])\<rparr>]
          else [])) (sv_conns ?s)"
    using emit_reaches_room [OF h1 h2 h3 prod.collapse [symmetric] h5] by (elim conjE)
  have "map_option (map om_T) (fmlookup (fmmap cc_send (sv_conns (snd (handleEmit ''c1'' ?m ?s)))) ''c1'')
      = Some [''HELLO'', ''EVENT'']"
    unfolding eq fmlookup_fmmap_keys by (simp add: e hello_def)
  with e(2) show ?thesis by (intro exI conjI)
qed

subsection \<open>Stale writes\<close>

text \<open>
  The answer to a stale write, and whether its operation id is recorded for the very same request:
  such a repeated request is not stale, it gets its first result again.
\<close>

definition conflict_reply :: "Message \<Rightarrow> bytes \<Rightarrow> u64 \<Rightarrow> outboundMessage" where
  "conflict_reply message document sequence =
    no_outbound\<lparr>om_T := ''ERROR'', om_ID := mg_ID message, om_Room := mg_Room message,
      om_Payload := ConflictPayload
        \<lparr>ae_Code = CodeStorageConflict, ae_Message = Error_of (ErrEngine (ErrCluster ErrStorageConflict)),
         ae_RequestID = mg_ID message\<rparr> (mg_Room message) document sequence\<rparr>"

definition repeated :: "Engine \<Rightarrow> Message \<Rightarrow> string \<Rightarrow> bool" where
  "repeated e message fingerprint \<longleftrightarrow> storageOpID message \<noteq> [] \<and>
    (case fmlookup (gm_map (storageOps e) (mg_Room message)) (storageOpID message) of
       None \<Rightarrow> False | Some record \<Rightarrow> op_Fingerprint record = fingerprint)"

lemma not_repeated:
  assumes "\<not> repeated e message fingerprint"
  shows "storageOpMutationLocked e (mg_Room message) (storageOpID message) fingerprint = Inr None
    \<or> storageOpMutationLocked e (mg_Room message) (storageOpID message) fingerprint = Inl conflict"
  using assms by (auto simp: repeated_def storageOpMutationLocked_def split: option.splits)

text \<open>C36. On a single node, take a permitted STORAGE_SET with a valid document, or a permitted
  STORAGE_PATCH whose payload is a list of operations, that expects another sequence than the
  current one, and whose operation id, if it has one, is not recorded for the very same request (a
  repeated request is answered with its first result instead). Then nothing changes, except that the
  sender, whose queue is open and has room, is told STORAGE_CONFLICT with the current document and
  its sequence, under the id of the request.\<close>

theorem stale_write_answers_document:
  assumes "sv_store s = None" "fmlookup (sv_conns s) connID = Some c" "takes s connID"
    and "allowsRoomAction s (cc_claims c) ''storage:write'' (mg_Room message)"
    and "GetStorageWithSequence (sv_rooms s) (mg_Room message) = Inr (document, sequence)"
    and "storageExpectedSequenceSet message" "storageExpectedSequence message \<noteq> sequence"
  shows "(\<forall>compacted. checked_document (mg_Payload message) (li_PayloadMaxBytes (cfg_Limits (sv_cfg s))) = Inr compacted \<longrightarrow>
       \<not> repeated (sv_rooms s) message (storageDocumentFingerprint StorageMutationSet compacted) \<longrightarrow>
       handleStorageSet connID message s =
         (Inr (), s\<lparr>sv_conns := fmupd connID (c\<lparr>cc_send := cc_send c @ [conflict_reply message document sequence]\<rparr>) (sv_conns s)\<rparr>))
    \<and> (\<forall>operations fingerprint. decodeStoragePatchPayload (mg_Payload message) = Inr operations \<longrightarrow>
       storagePatchFingerprint operations = Inr fingerprint \<longrightarrow> \<not> repeated (sv_rooms s) message fingerprint \<longrightarrow>
       handleStoragePatch connID message s =
         (Inr (), s\<lparr>sv_conns := fmupd connID (c\<lparr>cc_send := cc_send c @ [conflict_reply message document sequence]\<rparr>) (sv_conns s)\<rparr>))"
proof (intro conjI allI impI)
  let ?room = "mg_Room message" and ?mo = "mutation_options s connID message"
  let ?told = "s\<lparr>sv_conns := fmupd connID (c\<lparr>cc_send := cc_send c @ [conflict_reply message document sequence]\<rparr>) (sv_conns s)\<rparr>"
  have seq: "seq_of (sv_rooms s) ?room = sequence" "document_of (sv_rooms s) ?room \<noteq> []"
    using assms(5) by (auto simp: GetStorageWithSequence_def Let_def split: if_split_asm)
  have finish: "finish_storage_write connID message metric plan s = (Inr (), ?told)"
    if "plan s = (Inl (ErrEngine conflict), s)" for metric plan
    using assms that
    by (simp add: claims_of_def finish_storage_write_def andDo_def enqueue_def takes_def conflict_reply_def
        put_conn_def storageErrorMessage_def runtimeErrorMessage_def getStorageSnapshot_def
        engine_result_def no_outbound_def)
  {
    fix compacted
    assume c: "checked_document (mg_Payload message) (li_PayloadMaxBytes (cfg_Limits (sv_cfg s))) = Inr compacted"
      and new: "\<not> repeated (sv_rooms s) message (storageDocumentFingerprint StorageMutationSet compacted)"
    have "setStorageMutation (sv_rooms s) ?room (mg_Payload message) ?mo = (Inl conflict, sv_rooms s)"
      using not_repeated [OF new] c seq assms(6,7)
      by (auto simp: setStorageMutation_def mutation_options_def Let_def next_sequence_def)
    then have "setStorageMutationPlan ?room (mg_Payload message) ?mo eo s = (Inl (ErrEngine conflict), s)" for eo
      using assms(1) by (simp add: setStorageMutationPlan_def on_engine_def SetStorageMutationPlan_def plan_of_def)
    then show "handleStorageSet connID message s = (Inr (), ?told)"
      using assms(2,4) by (simp add: handleStorageSet_def claims_of_def finish)
  next
    fix operations fingerprint
    assume ops: "decodeStoragePatchPayload (mg_Payload message) = Inr operations" "storagePatchFingerprint operations = Inr fingerprint"
      and new: "\<not> repeated (sv_rooms s) message fingerprint"
    have "applyStoragePatchMutation (sv_rooms s) ?room operations ?mo = (Inl conflict, sv_rooms s)"
      using not_repeated [OF new] ops(2) seq assms(6,7)
      by (auto simp: applyStoragePatchMutation_def mutation_options_def Let_def next_sequence_def)
    then have "applyStoragePatchMutationPlan ?room operations ?mo eo s = (Inl (ErrEngine conflict), s)" for eo
      using assms(1) by (simp add: applyStoragePatchMutationPlan_def on_engine_def ApplyStoragePatchMutationPlan_def plan_of_def)
    then show "handleStoragePatch connID message s = (Inr (), ?told)"
      using assms(2,4) ops(1) by (simp add: handleStoragePatch_def claims_of_def finish)
  }
qed

text \<open>The room has the empty object under sequence 5; the client expects 3.\<close>

definition demo_stored :: "unit Service" where
  "demo_stored = demo_connected\<lparr>sv_rooms := New\<lparr>storage := fmupd ''t1:r'' empty_object fmempty,
     storageSeq := fmupd ''t1:r'' 5 fmempty\<rparr>\<rparr>"

definition demo_stale :: "bytes \<Rightarrow> Message" where
  "demo_stale payload = no_message\<lparr>mg_ID := ''m1'', mg_Room := ''t1:r'', mg_Payload := payload,
     mg_StorageMeta := Some \<lparr>stm_OpID = ''op1'', stm_ExpectedSequence = 3, stm_ExpectedSequenceSet = True\<rparr>\<rparr>"

definition demo_patch :: bytes where
  "demo_patch = array_text [object_text [(''op'', quote_text ''add''), (''path'', quote_text ''/a''), (''value'', quote_text ''x'')]]"

lemma demo_patch_read:
  "\<exists>operations raw. decodeStoragePatchPayload demo_patch = Inr operations \<and> marshal_operations operations = Some raw"
proof -
  have "case decodeStoragePatchPayload demo_patch of Inl _ \<Rightarrow> False | Inr operations \<Rightarrow> marshal_operations operations \<noteq> None"
    by code_simp
  then show ?thesis by (auto split: sum.split_asm)
qed

theorem stale_write_answers_document_witness:
  "map_option cc_send (fmlookup (sv_conns (snd (handleStorageSet ''c1'' (demo_stale empty_object) demo_stored))) ''c1'')
     = Some [hello demo_cfg ''c1'' demo_conn, conflict_reply (demo_stale empty_object) empty_object 5]
   \<and> map_option cc_send (fmlookup (sv_conns (snd (handleStoragePatch ''c1'' (demo_stale demo_patch) demo_stored))) ''c1'')
     = Some [hello demo_cfg ''c1'' demo_conn, conflict_reply (demo_stale demo_patch) empty_object 5]
   \<and> conflict_reply (demo_stale empty_object) empty_object 5 = no_outbound\<lparr>om_T := ''ERROR'', om_ID := ''m1'', om_Room := ''t1:r'',
       om_Payload := ConflictPayload \<lparr>ae_Code = CodeStorageConflict, ae_Message = Error_of (ErrEngine conflict),
         ae_RequestID = ''m1''\<rparr> ''t1:r'' empty_object 5\<rparr>"
proof -
  let ?c = "demo_conn\<lparr>cc_send := [hello demo_cfg ''c1'' demo_conn]\<rparr>"
  have 1: "sv_store demo_stored = None" by (simp add: demo_stored_def)
  have 2: "fmlookup (sv_conns demo_stored) ''c1'' = Some ?c" by (simp add: demo_stored_def)
  have 3: "takes demo_stored ''c1''" by (simp add: takes_def demo_stored_def)
  have 4: "allowsRoomAction demo_stored (cc_claims ?c) ''storage:write'' (mg_Room (demo_stale p))" for p
    using demo_allows(2) by (simp add: allowsRoomAction_def room_getter_def demo_stored_def demo_stale_def)
  have 5: "GetStorageWithSequence (sv_rooms demo_stored) (mg_Room (demo_stale p)) = Inr (empty_object, 5)" for p
    by (simp add: GetStorageWithSequence_def document_of_def gm_bytes_def seq_of_def gm_u64_def empty_object_def
        object_text_def demo_stored_def demo_stale_def)
  have 6: "storageExpectedSequenceSet (demo_stale p)" "storageExpectedSequence (demo_stale p) \<noteq> 5" for p
    by (simp_all add: storageExpectedSequenceSet_def storageExpectedSequence_def demo_stale_def)
  have new: "\<not> repeated (sv_rooms demo_stored) (demo_stale p) fingerprint" for p fingerprint
    by (simp add: repeated_def demo_stored_def gm_map_def New_def)
  have checked: "checked_document (mg_Payload (demo_stale empty_object)) (li_PayloadMaxBytes (cfg_Limits (sv_cfg demo_stored))) = Inr empty_object"
    by (simp add: demo_stored_def demo_stale_def, code_simp)
  obtain operations fingerprint where patch: "decodeStoragePatchPayload (mg_Payload (demo_stale demo_patch)) = Inr operations"
    "storagePatchFingerprint operations = Inr fingerprint"
    using demo_patch_read by (auto simp: demo_stale_def storagePatchFingerprint_def)
  note refused = stale_write_answers_document [OF 1 2 3 4 5 6]
  have "handleStorageSet ''c1'' (demo_stale empty_object) demo_stored =
      (Inr (), demo_stored\<lparr>sv_conns := fmupd ''c1'' (?c\<lparr>cc_send := cc_send ?c @ [conflict_reply (demo_stale empty_object) empty_object 5]\<rparr>)
        (sv_conns demo_stored)\<rparr>)"
    using refused [of empty_object] checked new by blast
  moreover have "handleStoragePatch ''c1'' (demo_stale demo_patch) demo_stored =
      (Inr (), demo_stored\<lparr>sv_conns := fmupd ''c1'' (?c\<lparr>cc_send := cc_send ?c @ [conflict_reply (demo_stale demo_patch) empty_object 5]\<rparr>)
        (sv_conns demo_stored)\<rparr>)"
    using refused [of demo_patch] patch new by blast
  ultimately show ?thesis by (simp add: conflict_reply_def demo_stale_def)
qed

end
