(* ===== verification/Cluster_Product.thy ===== *)
theory Cluster_Product
  imports Runtime_Types
begin

text \<open>
  The records that the administration API exchanges with the cluster store: updates and pages
  of rooms, threads and notifications (\<open>cluster/redis.go\<close>) and the records of tenants,
  projects, audit logs, webhook deliveries and documents (\<open>cluster/product.go\<close>).
  A field \<open>X\<close> of an update that comes with an \<open>XSet\<close> flag counts only when the flag is set.
\<close>

subsection \<open>Rooms, threads, notifications\<close>

record ActiveUser =
  au_Type :: string
  au_ConnectionID :: conn_id
  au_ID :: string
  au_Tenant :: string
  au_NodeID :: string
  au_ConnectedAt :: gtime
  au_Presence :: bytes

record RoomList =
  rl_Rooms :: "RoomRecord list"
  rl_NextCursor :: u64

record RoomUpdate =
  ru_Metadata :: bytes
  ru_MetadataSet :: bool
  ru_DefaultAccesses :: "string list"
  ru_DefaultAccessesSet :: bool
  ru_UsersAccesses :: access_map
  ru_UsersAccessesSet :: bool
  ru_GroupsAccesses :: access_map
  ru_GroupsAccessesSet :: bool

record ThreadUpdate =
  tu_Metadata :: bytes
  tu_MetadataSet :: bool
  tu_Resolved :: bool
  tu_ResolvedSet :: bool

record CommentUpdate =
  cu_Body :: bytes
  cu_BodySet :: bool
  cu_Metadata :: bytes
  cu_MetadataSet :: bool
  cu_Mentions :: "string list"
  cu_MentionsSet :: bool
  cu_Reactions :: "CommentReaction list"
  cu_ReactionsSet :: bool

record InboxNotificationList =
  nl_Data :: "InboxNotificationRecord list"
  nl_NextCursor :: u64

record InboxNotificationListFilter =
  nf_UnreadOnly :: bool
  nf_Cursor :: u64
  nf_Limit :: int

record RoomSubscriptionSettingsList =
  sl_Data :: "RoomSubscriptionSettings list"
  sl_NextCursor :: u64

record StorageDeleteOptions =
  sdo_OpID :: string
  sdo_ExpectedSequence :: u64
  sdo_ExpectedSequenceSet :: bool

definition no_room_update :: RoomUpdate where
  "no_room_update = \<lparr>ru_Metadata = [], ru_MetadataSet = False, ru_DefaultAccesses = [],
     ru_DefaultAccessesSet = False, ru_UsersAccesses = fmempty, ru_UsersAccessesSet = False,
     ru_GroupsAccesses = fmempty, ru_GroupsAccessesSet = False\<rparr>"

definition no_thread_update :: ThreadUpdate where
  "no_thread_update = \<lparr>tu_Metadata = [], tu_MetadataSet = False, tu_Resolved = False, tu_ResolvedSet = False\<rparr>"

definition no_comment_update :: CommentUpdate where
  "no_comment_update = \<lparr>cu_Body = [], cu_BodySet = False, cu_Metadata = [], cu_MetadataSet = False,
     cu_Mentions = [], cu_MentionsSet = False, cu_Reactions = [], cu_ReactionsSet = False\<rparr>"

subsection \<open>Tenants and projects\<close>

record TenantRecord =
  tn_ID :: string
  tn_Name :: string
  tn_Metadata :: bytes
  tn_CreatedAt :: gtime
  tn_UpdatedAt :: gtime

record TenantUpdate =
  tnu_Name :: string
  tnu_NameSet :: bool
  tnu_Metadata :: bytes
  tnu_MetadataSet :: bool

record ProjectRecord =
  pj_ID :: string
  pj_TenantID :: string
  pj_Name :: string
  pj_Metadata :: bytes
  pj_CreatedAt :: gtime
  pj_UpdatedAt :: gtime

record ProjectUpdate =
  pju_Name :: string
  pju_NameSet :: bool
  pju_Metadata :: bytes
  pju_MetadataSet :: bool

record AuditLogRecord =
  al_ID :: string
  al_TenantID :: string
  al_ProjectID :: string
  al_ActorID :: string
  al_Action :: string
  al_ResourceType :: string
  al_ResourceID :: string
  al_Metadata :: bytes
  al_CreatedAt :: gtime

record UsageRecord =
  us_TenantID :: string
  us_ProjectID :: string
  us_RoomID :: string
  us_Metric :: string
  us_Window :: string
  us_Count :: int
  us_UpdatedAt :: gtime

subsection \<open>Deliveries and documents\<close>

record WebhookDeliveryRecord =
  wd_ID :: string
  wd_WebhookID :: string
  wd_Event :: string
  wd_URL :: string
  wd_Status :: string
  wd_Attempts :: int
  wd_LastStatusCode :: int
  wd_LastError :: message_text
  wd_Payload :: bytes
  wd_CreatedAt :: gtime
  wd_UpdatedAt :: gtime
  wd_NextAttemptAt :: "gtime option"

record VersionSnapshotRecord =
  vs_ID :: string
  vs_RoomID :: room_id
  vs_DocumentID :: string
  vs_Label :: string
  vs_Document :: bytes
  vs_Metadata :: bytes
  vs_CreatedAt :: gtime

record RichTextDocumentRecord =
  rt_ID :: string
  rt_RoomID :: room_id
  rt_Content :: bytes
  rt_Metadata :: bytes
  rt_CreatedAt :: gtime
  rt_UpdatedAt :: gtime

end
