(* ===== verification/Engine_Records.thy ===== *)
theory Engine_Records
  imports Engine_Storage Go_Time
begin

text \<open>
  Events about rooms, threads and notifications (\<open>NewRoomEvent\<close>, \<open>NewCommentEvent\<close>,
  \<open>NewNotificationEvent\<close> of \<open>roomengine/engine.go\<close>) with the JSON of their payloads.
  The records are cloned
  by the code; a clone of a value is the value. Cloning makes empty lists and maps nil, which
  are encoded as null.
\<close>

subsection \<open>JSON of the records\<close>

text \<open>A time with a year of more than four digits cannot be encoded.\<close>

definition time_text :: "gtime \<Rightarrow> string option" where
  "time_text t =
    (if days_of_civil 0 1 1 * day \<le> t \<and> t < days_of_civil 10000 1 1 * day
     then Some (quote_text (format_time t)) else None)"

definition bool_text :: "bool \<Rightarrow> string" where
  "bool_text b = (if b then ''true'' else ''false'')"

definition null_text :: string where "null_text = ''null''"

definition strings_text :: "string list \<Rightarrow> string" where
  "strings_text xs = (if xs = [] then null_text else array_text (map quote_text xs))"

definition access_map_text :: "access_map \<Rightarrow> string" where
  "access_map_text m =
    (if m = fmempty then null_text
     else object_text (map (\<lambda>k. (quote_body k, strings_text (the (fmlookup m k)))) (sorted_ids (fmdom m))))"

text \<open>A member with its text, left out when \<open>omitempty\<close> says so; an error in any text.\<close>

definition member :: "string \<Rightarrow> string option \<Rightarrow> (string \<times> string) list option" where
  "member name text = map_option (\<lambda>t. [(name, t)]) text"

definition optional_member :: "bool \<Rightarrow> string \<Rightarrow> string option \<Rightarrow> (string \<times> string) list option" where
  "optional_member present name text = (if present then member name text else Some [])"

definition members_text :: "(string \<times> string) list option list \<Rightarrow> string option" where
  "members_text ms = map_option (\<lambda>mss. object_text (concat mss)) (all_some ms)"

definition optional_time :: "string \<Rightarrow> gtime option \<Rightarrow> (string \<times> string) list option" where
  "optional_time name t = (case t of None \<Rightarrow> Some [] | Some t \<Rightarrow> member name (time_text t))"

definition text_member :: "string \<Rightarrow> string \<Rightarrow> (string \<times> string) list option" where
  "text_member name s = Some [(name, quote_text s)]"

definition RoomRecord_text :: "RoomRecord \<Rightarrow> string option" where
  "RoomRecord_text r = members_text
    [text_member ''id'' (rr_ID r),
     member ''metadata'' (raw_marshal (rr_Metadata r)),
     member ''defaultAccesses'' (Some (strings_text (rr_DefaultAccesses r))),
     member ''usersAccesses'' (Some (access_map_text (rr_UsersAccesses r))),
     member ''groupsAccesses'' (Some (access_map_text (rr_GroupsAccesses r))),
     member ''created_at'' (time_text (rr_CreatedAt r)),
     member ''updated_at'' (time_text (rr_UpdatedAt r))]"

definition CommentReaction_text :: "CommentReaction \<Rightarrow> string" where
  "CommentReaction_text r =
    object_text [(''emoji'', quote_text (re_Emoji r)), (''userId'', quote_text (re_UserID r))]"

definition CommentRecord_text :: "CommentRecord \<Rightarrow> string option" where
  "CommentRecord_text c = members_text
    [text_member ''type'' (cr_Type c), text_member ''threadId'' (cr_ThreadID c),
     text_member ''roomId'' (cr_RoomID c), text_member ''id'' (cr_ID c), text_member ''userId'' (cr_UserID c),
     member ''createdAt'' (time_text (cr_CreatedAt c)),
     optional_time ''editedAt'' (cr_EditedAt c), optional_time ''deletedAt'' (cr_DeletedAt c),
     member ''body'' (raw_marshal (cr_Body c)), member ''metadata'' (raw_marshal (cr_Metadata c)),
     optional_member (cr_Mentions c \<noteq> []) ''mentions'' (Some (array_text (map quote_text (cr_Mentions c)))),
     optional_member (cr_Reactions c \<noteq> []) ''reactions''
       (Some (array_text (map CommentReaction_text (cr_Reactions c))))]"

text \<open>A thread without comments, which no operation of the store makes, has an empty array.\<close>

definition ThreadRecord_text :: "ThreadRecord \<Rightarrow> string option" where
  "ThreadRecord_text t = members_text
    [text_member ''type'' (tr_Type t), text_member ''id'' (tr_ID t), text_member ''roomId'' (tr_RoomID t),
     member ''comments'' (map_option array_text (all_some (map CommentRecord_text (tr_Comments t)))),
     member ''resolved'' (Some (bool_text (tr_Resolved t))),
     member ''metadata'' (raw_marshal (tr_Metadata t)),
     optional_time ''readAt'' (tr_ReadAt t),
     (case tr_Unread t of None \<Rightarrow> Some [] | Some b \<Rightarrow> member ''unread'' (Some (bool_text b))),
     member ''createdAt'' (time_text (tr_CreatedAt t)), member ''updatedAt'' (time_text (tr_UpdatedAt t))]"

definition InboxNotification_text :: "InboxNotificationRecord \<Rightarrow> string option" where
  "InboxNotification_text n = members_text
    [text_member ''id'' (in_ID n), text_member ''userId'' (in_UserID n), text_member ''kind'' (in_Kind n),
     optional_member (in_SubjectID n \<noteq> []) ''subjectId'' (Some (quote_text (in_SubjectID n))),
     optional_member (in_ThreadID n \<noteq> []) ''threadId'' (Some (quote_text (in_ThreadID n))),
     optional_member (in_RoomID n \<noteq> []) ''roomId'' (Some (quote_text (in_RoomID n))),
     optional_time ''readAt'' (in_ReadAt n),
     member ''notifiedAt'' (time_text (in_NotifiedAt n)),
     optional_member (in_ActivityData n \<noteq> []) ''activityData'' (raw_marshal (in_ActivityData n))]"

subsection \<open>Payloads and events\<close>

record RoomEventPayload =
  rep_Type :: string
  rep_RoomID :: room_id
  rep_Room :: "RoomRecord option"

record CommentEventPayload =
  cep_Type :: string
  cep_RoomID :: room_id
  cep_ThreadID :: string
  cep_CommentID :: string
  cep_Thread :: ThreadRecord
  cep_Comment :: "CommentRecord option"

record NotificationEventPayload =
  nep_Type :: string
  nep_UserID :: string
  nep_NotificationID :: string
  nep_Notification :: "InboxNotificationRecord option"

definition optional_record :: "string \<Rightarrow> ('a \<Rightarrow> string option) \<Rightarrow> 'a option \<Rightarrow> (string \<times> string) list option" where
  "optional_record name text r = (case r of None \<Rightarrow> Some [] | Some x \<Rightarrow> member name (text x))"

definition RoomEventPayload_text :: "RoomEventPayload \<Rightarrow> string option" where
  "RoomEventPayload_text p = members_text
    [text_member ''type'' (rep_Type p), text_member ''roomId'' (rep_RoomID p),
     optional_record ''room'' RoomRecord_text (rep_Room p)]"

definition CommentEventPayload_text :: "CommentEventPayload \<Rightarrow> string option" where
  "CommentEventPayload_text p = members_text
    [text_member ''type'' (cep_Type p), text_member ''roomId'' (cep_RoomID p),
     text_member ''threadId'' (cep_ThreadID p),
     optional_member (cep_CommentID p \<noteq> []) ''commentId'' (Some (quote_text (cep_CommentID p))),
     member ''thread'' (ThreadRecord_text (cep_Thread p)),
     optional_record ''comment'' CommentRecord_text (cep_Comment p)]"

definition NotificationEventPayload_text :: "NotificationEventPayload \<Rightarrow> string option" where
  "NotificationEventPayload_text p = members_text
    [text_member ''type'' (nep_Type p), text_member ''userId'' (nep_UserID p),
     optional_member (nep_NotificationID p \<noteq> []) ''notificationId'' (Some (quote_text (nep_NotificationID p))),
     optional_record ''notification'' InboxNotification_text (nep_Notification p)]"

definition NewRoomEvent ::
  "string \<Rightarrow> room_id \<Rightarrow> RoomRecord option \<Rightarrow> EventOptions \<Rightarrow> engine_error + PublishedEvent \<times> RoomEventPayload" where
  "NewRoomEvent eventName roomID room options =
    (let payload = \<lparr>rep_Type = RoomEventType eventName,
           rep_RoomID = (case room of None \<Rightarrow> roomID | Some r \<Rightarrow> if roomID = [] then rr_ID r else roomID),
           rep_Room = room\<rparr>
     in case RoomEventPayload_text payload of
          None \<Rightarrow> Inl (ErrCluster ErrJSON)
        | Some raw \<Rightarrow> Inr (NewEvent (rep_RoomID payload) eventName raw options, payload))"

definition NewCommentEvent ::
  "string \<Rightarrow> ThreadRecord \<Rightarrow> CommentRecord option \<Rightarrow> EventOptions
     \<Rightarrow> engine_error + PublishedEvent \<times> CommentEventPayload" where
  "NewCommentEvent eventName thread comment options =
    (let payload = \<lparr>cep_Type = CommentEventType eventName, cep_RoomID = tr_RoomID thread,
           cep_ThreadID = tr_ID thread, cep_CommentID = (case comment of None \<Rightarrow> [] | Some c \<Rightarrow> cr_ID c),
           cep_Thread = thread, cep_Comment = comment\<rparr>
     in case CommentEventPayload_text payload of
          None \<Rightarrow> Inl (ErrCluster ErrJSON)
        | Some raw \<Rightarrow> Inr (NewEvent (tr_RoomID thread) eventName raw options, payload))"

definition NewNotificationEvent ::
  "string \<Rightarrow> string \<Rightarrow> InboxNotificationRecord option \<Rightarrow> EventOptions
     \<Rightarrow> engine_error + PublishedEvent \<times> NotificationEventPayload" where
  "NewNotificationEvent eventName userID notification options =
    (let payload = \<lparr>nep_Type = NotificationEventType eventName,
           nep_UserID = (case notification of None \<Rightarrow> userID | Some n \<Rightarrow> if userID = [] then in_UserID n else userID),
           nep_NotificationID = (case notification of None \<Rightarrow> [] | Some n \<Rightarrow> in_ID n),
           nep_Notification = notification\<rparr>
     in case NotificationEventPayload_text payload of
          None \<Rightarrow> Inl (ErrCluster ErrJSON)
        | Some raw \<Rightarrow> Inr (NewEvent (NotificationEventRoom (nep_UserID payload)) eventName raw options, payload))"

end
