(* ===== verification/Admin_Types.thy ===== *)
theory Admin_Types
  imports Cluster_Product Runtime_Access Runtime_Storage Engine_Records
begin

text \<open>
  The state of the administration service (\<open>Service\<close> in \<open>internal/admin/service.go\<close>), its
  requests and responses, the part of the store that only it uses, and the way its handlers
  run.

  \<^item> A handler is a function of the state that ends with a response. Its steps end early
    with \<open>Inl response\<close>, which is the code's ``write an error and return''.
  \<^item> The body of a response is the value that the code hands to the encoder.
  \<^item> Random bytes, the clock, the verifier of signed tokens and the servers that webhooks are
    posted to are the environment: fields that no handler writes, and a log of the posts.
    A nil random source is an option, the clock stands still during a request.
\<close>

subsection \<open>The store\<close>

text \<open>
  \<open>productionStore\<close> without the operations that the code also asks for one at a time; those
  are options of \<open>AdminStore\<close>. The code gets each interface from the store by a type
  assertion, whose failure is None.
\<close>

record 'st productionStore =
  ps_CreateTenant :: "TenantRecord \<Rightarrow> ('st, TenantRecord) store_op"
  ps_GetTenant :: "'st \<Rightarrow> string \<Rightarrow> go_error + TenantRecord"
  ps_UpdateTenant :: "string \<Rightarrow> TenantUpdate \<Rightarrow> ('st, TenantRecord) store_op"
  ps_ListTenants :: "'st \<Rightarrow> go_error + TenantRecord list"
  ps_CreateProject :: "ProjectRecord \<Rightarrow> ('st, ProjectRecord) store_op"
  ps_GetProject :: "'st \<Rightarrow> string \<Rightarrow> string \<Rightarrow> go_error + ProjectRecord"
  ps_UpdateProject :: "string \<Rightarrow> string \<Rightarrow> ProjectUpdate \<Rightarrow> ('st, ProjectRecord) store_op"
  ps_ListProjects :: "'st \<Rightarrow> string \<Rightarrow> go_error + ProjectRecord list"
  ps_CreateAPIKey :: "APIKeyRecord \<Rightarrow> ('st, APIKeyRecord) store_op"
  ps_GetAPIKey :: "'st \<Rightarrow> string \<Rightarrow> go_error + APIKeyRecord"
  ps_ListAPIKeys :: "'st \<Rightarrow> string \<Rightarrow> string \<Rightarrow> go_error + APIKeyRecord list"
  ps_RevokeAPIKey :: "string \<Rightarrow> ('st, APIKeyRecord) store_op"
  ps_ListAuditLogs :: "'st \<Rightarrow> string \<Rightarrow> string \<Rightarrow> int \<Rightarrow> go_error + AuditLogRecord list"
  ps_ListUsage :: "'st \<Rightarrow> string \<Rightarrow> string \<Rightarrow> string \<Rightarrow> string \<Rightarrow> go_error + UsageRecord list"
  ps_GetWebhookDelivery :: "'st \<Rightarrow> string \<Rightarrow> go_error + WebhookDeliveryRecord"
  ps_UpdateWebhookDelivery :: "WebhookDeliveryRecord \<Rightarrow> ('st, WebhookDeliveryRecord) store_op"
  ps_ListWebhookDeliveries :: "'st \<Rightarrow> string \<Rightarrow> int \<Rightarrow> go_error + WebhookDeliveryRecord list"
  ps_CreateVersionSnapshot :: "VersionSnapshotRecord \<Rightarrow> ('st, VersionSnapshotRecord) store_op"
  ps_GetVersionSnapshot :: "'st \<Rightarrow> room_id \<Rightarrow> string \<Rightarrow> string \<Rightarrow> go_error + VersionSnapshotRecord"
  ps_ListVersionSnapshots :: "'st \<Rightarrow> room_id \<Rightarrow> string \<Rightarrow> int \<Rightarrow> go_error + VersionSnapshotRecord list"
  ps_UpsertRichTextDocument :: "RichTextDocumentRecord \<Rightarrow> ('st, RichTextDocumentRecord) store_op"
  ps_GetRichTextDocument :: "'st \<Rightarrow> room_id \<Rightarrow> string \<Rightarrow> go_error + RichTextDocumentRecord"
  ps_ListRichTextDocuments :: "'st \<Rightarrow> room_id \<Rightarrow> go_error + RichTextDocumentRecord list"
  ps_UpsertResumeSession :: "ResumeSessionRecord \<Rightarrow> ('st, ResumeSessionRecord) store_op"
  ps_GetResumeSession :: "'st \<Rightarrow> string \<Rightarrow> go_error + ResumeSessionRecord"
  ps_DeleteResumeSession :: "string \<Rightarrow> ('st, unit) store_op"
  ps_ListResumeSessions ::
    "'st \<Rightarrow> string \<Rightarrow> string \<Rightarrow> string \<Rightarrow> string \<Rightarrow> bool \<Rightarrow> int \<Rightarrow> go_error + ResumeSessionRecord list"

record 'st webhookDeliveryStore =
  ws_CreateWebhookDelivery :: "WebhookDeliveryRecord \<Rightarrow> ('st, WebhookDeliveryRecord) store_op"
  ws_UpdateWebhookDelivery :: "WebhookDeliveryRecord \<Rightarrow> ('st, WebhookDeliveryRecord) store_op"

record 'st webhookRetryStore =
  wr_ListWebhookDeliveries :: "'st \<Rightarrow> string \<Rightarrow> int \<Rightarrow> go_error + WebhookDeliveryRecord list"
  wr_UpdateWebhookDelivery :: "WebhookDeliveryRecord \<Rightarrow> ('st, WebhookDeliveryRecord) store_op"

record 'st AdminStore = "'st Store" +
  as_SetEphemeralPresence :: "conn_id \<Rightarrow> room_id \<Rightarrow> bytes \<Rightarrow> int \<Rightarrow> ('st, unit) store_op"
  as_ActiveUsers :: "'st \<Rightarrow> room_id \<Rightarrow> go_error + ActiveUser list"
  as_CreateRoom :: "RoomRecord \<Rightarrow> ('st, RoomRecord) store_op"
  as_UpdateRoom :: "room_id \<Rightarrow> RoomUpdate \<Rightarrow> ('st, RoomRecord) store_op"
  as_DeleteRoom :: "room_id \<Rightarrow> ('st, unit) store_op"
  as_ListRooms :: "'st \<Rightarrow> string \<Rightarrow> u64 \<Rightarrow> int \<Rightarrow> go_error + RoomList"
  as_CreateThread :: "room_id \<Rightarrow> ThreadRecord \<Rightarrow> ('st, ThreadRecord) store_op"
  as_GetThread :: "'st \<Rightarrow> room_id \<Rightarrow> string \<Rightarrow> go_error + ThreadRecord"
  as_ListThreads :: "'st \<Rightarrow> room_id \<Rightarrow> go_error + ThreadRecord list"
  as_UpdateThread :: "room_id \<Rightarrow> string \<Rightarrow> ThreadUpdate \<Rightarrow> ('st, ThreadRecord) store_op"
  as_DeleteThread :: "room_id \<Rightarrow> string \<Rightarrow> ('st, ThreadRecord) store_op"
  as_GetThreadReadState :: "'st \<Rightarrow> room_id \<Rightarrow> string \<Rightarrow> string \<Rightarrow> go_error + ThreadReadState"
  as_MarkThreadRead :: "room_id \<Rightarrow> string \<Rightarrow> string \<Rightarrow> ('st, ThreadReadState) store_op"
  as_MarkThreadUnread :: "room_id \<Rightarrow> string \<Rightarrow> string \<Rightarrow> ('st, ThreadReadState) store_op"
  as_AddComment :: "room_id \<Rightarrow> string \<Rightarrow> CommentRecord \<Rightarrow> ('st, ThreadRecord) store_op"
  as_UpdateComment :: "room_id \<Rightarrow> string \<Rightarrow> string \<Rightarrow> CommentUpdate \<Rightarrow> ('st, ThreadRecord) store_op"
  as_CreateInboxNotification :: "InboxNotificationRecord \<Rightarrow> ('st, InboxNotificationRecord) store_op"
  as_ListInboxNotifications ::
    "'st \<Rightarrow> string \<Rightarrow> InboxNotificationListFilter \<Rightarrow> go_error + InboxNotificationList"
  as_GetInboxNotification :: "'st \<Rightarrow> string \<Rightarrow> string \<Rightarrow> go_error + InboxNotificationRecord"
  as_MarkInboxNotificationRead :: "string \<Rightarrow> ('st, InboxNotificationRecord) store_op"
  as_DeleteInboxNotification :: "string \<Rightarrow> string \<Rightarrow> ('st, unit) store_op"
  as_DeleteAllInboxNotifications :: "string \<Rightarrow> ('st, unit) store_op"
  as_GetNotificationSettings :: "'st \<Rightarrow> string \<Rightarrow> go_error + bytes"
  as_SetNotificationSettings :: "string \<Rightarrow> bytes \<Rightarrow> ('st, bytes) store_op"
  as_DeleteNotificationSettings :: "string \<Rightarrow> ('st, unit) store_op"
  as_GetRoomSubscriptionSettings :: "'st \<Rightarrow> room_id \<Rightarrow> string \<Rightarrow> go_error + RoomSubscriptionSettings"
  as_SetRoomSubscriptionSettings :: "RoomSubscriptionSettings \<Rightarrow> ('st, RoomSubscriptionSettings) store_op"
  as_DeleteRoomSubscriptionSettings :: "room_id \<Rightarrow> string \<Rightarrow> ('st, unit) store_op"
  as_ListRoomSubscriptionSettings ::
    "'st \<Rightarrow> string \<Rightarrow> u64 \<Rightarrow> int \<Rightarrow> go_error + RoomSubscriptionSettingsList"
  as_DeleteStorage :: "room_id \<Rightarrow> ('st, unit) store_op"
  as_AggregateStats :: "'st \<Rightarrow> go_error + Stats"
  as_DeleteStorageWithOptions :: "(room_id \<Rightarrow> StorageDeleteOptions \<Rightarrow> ('st, u64) store_op) option"
  as_RecordAuditLog :: "(AuditLogRecord \<Rightarrow> ('st, AuditLogRecord) store_op) option"
  as_CreateVersionSnapshot :: "(VersionSnapshotRecord \<Rightarrow> ('st, VersionSnapshotRecord) store_op) option"
  as_WebhookDeliveries :: "'st webhookDeliveryStore option"
  as_WebhookRetries :: "'st webhookRetryStore option"
  as_Production :: "'st productionStore option"

subsection \<open>Requests and responses\<close>

text \<open>The body is what the client sends in full.\<close>

record AdminRequest = HttpRequest +
  rq_Method :: string
  rq_Body :: bytes

record productEnvironmentSummary =
  env_Environment :: string
  env_Region :: string

record productStorageSnapshot =
  pss_Found :: bool
  pss_Document :: bytes

record productConsoleError =
  pce_Source :: string
  pce_Message :: message_text
  pce_Status :: string
  pce_Resource :: string
  pce_CreatedAt :: gtime
  pce_UpdatedAt :: gtime

record productDashboardSummary =
  pds_Rooms :: int
  pds_ActiveUsers :: int
  pds_Events :: int
  pds_StorageDocs :: int
  pds_Errors :: int

record productDashboardObservability =
  pdo_Logs :: "AuditLogRecord list"
  pdo_Errors :: "productConsoleError list"
  pdo_Usage :: "UsageRecord list"
  pdo_Webhooks :: "WebhookDeliveryRecord list"

record productDashboardResponse =
  pd_GeneratedAt :: gtime
  pd_TenantID :: string
  pd_ProjectID :: string
  pd_RoomID :: room_id
  pd_Tenant :: TenantRecord
  pd_Project :: ProjectRecord
  pd_Environment :: productEnvironmentSummary
  pd_Summary :: productDashboardSummary
  pd_APIKeys :: "APIKeyRecord list"
  pd_Rooms :: "RoomRecord list"
  pd_ActiveUsers :: "ActiveUser list"
  pd_Events :: "PublishedEvent list"
  pd_Storage :: productStorageSnapshot
  pd_Stats :: Stats
  pd_Usage :: "UsageRecord list"
  pd_AuditLogs :: "AuditLogRecord list"
  pd_WebhookDeliveries :: "WebhookDeliveryRecord list"
  pd_ResumeSessions :: "ResumeSessionRecord list"
  pd_RichTextDocuments :: "RichTextDocumentRecord list"
  pd_VersionSnapshots :: "VersionSnapshotRecord list"
  pd_Errors :: "productConsoleError list"
  pd_Observability :: productDashboardObservability

record productStatusCheck =
  psc_Name :: string
  psc_Status :: string
  psc_Message :: message_text
  psc_CheckedAt :: gtime

record productPublicStatusPage =
  psp_Title :: string
  psp_Message :: string

record productStatusResponse =
  psr_GeneratedAt :: gtime
  psr_Status :: string
  psr_TenantID :: string
  psr_ProjectID :: string
  psr_RoomID :: room_id
  psr_Environment :: productEnvironmentSummary
  psr_Checks :: "productStatusCheck list"
  psr_Errors :: "productConsoleError list"
  psr_PublicPage :: productPublicStatusPage

record productSafeConfig =
  scf_Mode :: string
  scf_NodeID :: string
  scf_RedisConfigured :: bool
  scf_RuntimeAuthConfigured :: bool
  scf_AdminAuthConfigured :: bool
  scf_WebhooksConfigured :: bool
  scf_WebhookEndpointCount :: int
  scf_WebSocketPath :: string
  scf_TenantEnforcePrefix :: bool
  scf_TenantSeparator :: string
  scf_PayloadMaxBytes :: int
  scf_EnvelopeMaxBytes :: int

record productSupportDebugBundleResponse =
  pdb_GeneratedAt :: gtime
  pdb_TenantID :: string
  pdb_ProjectID :: string
  pdb_RoomID :: room_id
  pdb_Environment :: productEnvironmentSummary
  pdb_Dashboard :: productDashboardResponse
  pdb_Status :: productStatusResponse
  pdb_SafeConfig :: productSafeConfig
  pdb_SuggestedActions :: "string list"

text \<open>
  The values given to the JSON encoder, with the cursor of a page as its text. \<open>TextBody\<close>
  is a text written as it is, \<open>RawBody\<close> a document of the store.
\<close>

datatype Body =
    NoBody | ErrorBody APIError | RawBody bytes | TextBody message_text | Location string string
  | RoomBody RoomRecord | RoomListBody "RoomRecord list" string
  | ActiveUsersBody "ActiveUser list"
  | ThreadBody ThreadRecord | ThreadListBody "ThreadRecord list" string
  | ReadStateBody ThreadReadState
  | NotificationBody InboxNotificationRecord
  | NotificationListBody "InboxNotificationRecord list" string
  | SettingsBody RoomSubscriptionSettings
  | SettingsListBody "RoomSubscriptionSettings list" string
  | StatsBody Stats
  | TenantBody TenantRecord | TenantsBody "TenantRecord list"
  | ProjectBody ProjectRecord | ProjectsBody "ProjectRecord list"
  | APIKeyBody APIKeyRecord | APIKeySecretBody APIKeyRecord string | APIKeysBody "APIKeyRecord list"
  | AuditLogsBody "AuditLogRecord list" | UsageBody "UsageRecord list"
  | DashboardBody productDashboardResponse | StatusBody productStatusResponse
  | BundleBody productSupportDebugBundleResponse
  | DeliveryBody WebhookDeliveryRecord | DeliveriesBody "WebhookDeliveryRecord list"
  | ResumeSessionBody ResumeSessionRecord | ResumeSessionsBody "ResumeSessionRecord list"
  | VersionBody VersionSnapshotRecord | VersionsBody "VersionSnapshotRecord list"
  | RichTextBody RichTextDocumentRecord | RichTextsBody "RichTextDocumentRecord list"

record Response =
  rp_Status :: int
  rp_Body :: Body

subsection \<open>The service\<close>

text \<open>
  A request to a webhook server; its outcome is an error of the transport or a status code with
  the place that the Location header names, resolved against the URL of the request.
\<close>

record WebhookPost =
  wp_Method :: string
  wp_URL :: string
  wp_Header :: "(string \<times> string) list"
  wp_Body :: bytes

datatype location = NoLocation | BadLocation | Leads string

datatype post_outcome = Unsent go_error | Answered int location

record 'st Admin =
  ad_cfg :: RuntimeConfig
  ad_verify :: "(string \<Rightarrow> go_error + Claims) option"
  ad_store :: "'st AdminStore option"
  ad_storeState :: 'st
  ad_stats :: Stats
  ad_metrics :: AdminMetrics
  ad_now :: gtime
  ad_random :: "nat \<Rightarrow> nat \<Rightarrow> bytes option"
  ad_draws :: nat
  ad_outcomes :: "nat \<Rightarrow> post_outcome"
  ad_posts :: "WebhookPost list"

type_synonym ('st, 'a) step = "'st Admin \<Rightarrow> (Response + 'a) \<times> 'st Admin"
type_synonym 'st handler = "'st Admin \<Rightarrow> Response \<times> 'st Admin"

subsection \<open>Writing responses\<close>

definition write_status :: "int \<Rightarrow> Response" where
  "write_status status = \<lparr>rp_Status = status, rp_Body = NoBody\<rparr>"

definition writeJSON :: "int \<Rightarrow> Body \<Rightarrow> Response" where
  "writeJSON status payload = \<lparr>rp_Status = status, rp_Body = payload\<rparr>"

definition writeRawJSON :: "int \<Rightarrow> bytes \<Rightarrow> Response" where
  "writeRawJSON status payload = \<lparr>rp_Status = status, rp_Body = RawBody payload\<rparr>"

definition writeError :: "Code \<Rightarrow> message_text \<Rightarrow> string \<Rightarrow> int \<Rightarrow> Response" where
  "writeError code message requestID status =
    \<lparr>rp_Status = status,
     rp_Body = ErrorBody \<lparr>ae_Code = code, ae_Message = message, ae_RequestID = requestID\<rparr>\<rparr>"

text \<open>The statuses that the code writes next to a code, and that of a \<open>ParseError\<close>.\<close>

definition bad_request_response :: "string \<Rightarrow> Response" where
  "bad_request_response message = writeError CodeBadRequest (Text message) [] 400"

definition forbidden_response :: "string \<Rightarrow> Response" where
  "forbidden_response message = writeError CodeRoomForbidden (Text message) [] 403"

definition parse_error_response :: "ParseError \<Rightarrow> Response" where
  "parse_error_response err =
    writeError (pse_Code err) (Text (pse_Message err)) []
      (int (ds_HTTPStatus (DescriptorFor (pse_Code err))))"

definition internal_response :: "go_error \<Rightarrow> Response" where
  "internal_response err = writeError CodeInternal (Error_of err) [] 500"

definition method_not_allowed :: Response where
  "method_not_allowed = write_status 405"

subsection \<open>Sequencing\<close>

definition give :: "'a \<Rightarrow> ('st, 'a) step" where
  "give x s = (Inr x, s)"

definition stop :: "Response \<Rightarrow> ('st, 'a) step" where
  "stop response s = (Inl response, s)"

definition andNext :: "('st, 'a) step \<Rightarrow> ('a \<Rightarrow> ('st, 'b) step) \<Rightarrow> ('st, 'b) step" where
  "andNext m f s = (case m s of (Inl response, s) \<Rightarrow> (Inl response, s) | (Inr x, s) \<Rightarrow> f x s)"

definition respond :: "('st, Response) step \<Rightarrow> 'st handler" where
  "respond m s = (case m s of (Inl response, s) \<Rightarrow> (response, s) | (Inr response, s) \<Rightarrow> (response, s))"

definition permit :: "('st Admin \<Rightarrow> bool) \<Rightarrow> Response \<Rightarrow> ('st, unit) step" where
  "permit c response s = (if c s then (Inr (), s) else (Inl response, s))"

definition require :: "bool \<Rightarrow> Response \<Rightarrow> ('st, unit) step" where
  "require c = permit (\<lambda>_. c)"

definition effect :: "('st Admin \<Rightarrow> 'st Admin) \<Rightarrow> ('st, unit) step" where
  "effect f s = (Inr (), f s)"

text \<open>\<open>if err != nil\<close> with the response for the error.\<close>

definition orElse :: "'e + 'a \<Rightarrow> ('e \<Rightarrow> Response) \<Rightarrow> ('st, 'a) step" where
  "orElse r failure s = (case r of Inl err \<Rightarrow> (Inl (failure err), s) | Inr x \<Rightarrow> (Inr x, s))"

text \<open>
  A call of the store: reads take its state, writes also give a new one. The cases of
  \<open>errors.Is\<close> come in the order of the code; any other error is internal.
\<close>

type_synonym error_case = "(go_error \<Rightarrow> bool) \<times> Response"

definition store_failure :: "error_case list \<Rightarrow> go_error \<Rightarrow> Response" where
  "store_failure cases err =
    (case find (\<lambda>(target, _). errors_Is err target) cases of
       Some (_, response) \<Rightarrow> response
     | None \<Rightarrow> internal_response err)"

definition reads :: "('st \<Rightarrow> go_error + 'a) \<Rightarrow> error_case list \<Rightarrow> ('st, 'a) step" where
  "reads op cases s =
    (case op (ad_storeState s) of
       Inl err \<Rightarrow> (Inl (store_failure cases err), s)
     | Inr x \<Rightarrow> (Inr x, s))"

definition writes :: "('st, 'a) store_op \<Rightarrow> error_case list \<Rightarrow> ('st, 'a) step" where
  "writes op cases s =
    (case op (ad_storeState s) of
       (Inl err, st) \<Rightarrow> (Inl (store_failure cases err), s\<lparr>ad_storeState := st\<rparr>)
     | (Inr x, st) \<Rightarrow> (Inr x, s\<lparr>ad_storeState := st\<rparr>))"

text \<open>The state after a call whose error is only logged.\<close>

definition calling :: "('st, 'a) store_op \<Rightarrow> 'st Admin \<Rightarrow> 'st Admin" where
  "calling op s = s\<lparr>ad_storeState := snd (op (ad_storeState s))\<rparr>"

definition is_cluster :: "cluster_error \<Rightarrow> go_error \<Rightarrow> bool" where
  "is_cluster c err \<longleftrightarrow> err = ErrEngine (ErrCluster c)"

definition not_found_case :: "(go_error \<Rightarrow> bool) \<Rightarrow> Code \<Rightarrow> string \<Rightarrow> error_case" where
  "not_found_case target code message = (target, writeError code (Text message) [] 404)"

definition conflict_case :: "(go_error \<Rightarrow> bool) \<Rightarrow> Code \<Rightarrow> string \<Rightarrow> error_case" where
  "conflict_case target code message = (target, writeError code (Text message) [] 409)"

text \<open>\<open>randomRead\<close> of \<open>n\<close> bytes.\<close>

definition randomRead :: "nat \<Rightarrow> 'st Admin \<Rightarrow> bytes option \<times> 'st Admin" where
  "randomRead n s = (map_option (take n) (ad_random s (ad_draws s) n), s\<lparr>ad_draws := ad_draws s + 1\<rparr>)"

definition newRecordID :: "string \<Rightarrow> 'st Admin \<Rightarrow> string option \<times> 'st Admin" where
  "newRecordID pre s =
    (case randomRead 12 s of
       (None, s) \<Rightarrow> (None, s)
     | (Some raw, s) \<Rightarrow> (Some (pre @ ''_'' @ concat (map (\<lambda>c. hex_lower 2 (byte c)) raw)), s))"

definition new_id :: "string \<Rightarrow> ('st, string) step" where
  "new_id pre s =
    (case newRecordID pre s of
       (None, s) \<Rightarrow> (Inl (writeError CodeInternal (Text ''record id generation failed'') [] 500), s)
     | (Some recordID, s) \<Rightarrow> (Inr recordID, s))"

end
