(* ===== verification/Admin_Decode.thy ===== *)
theory Admin_Decode
  imports Admin_Types
begin

text \<open>
  The bodies of requests: \<open>decodeRequest\<close> and the request types of \<open>admin/service.go\<close> and
  \<open>admin/product.go\<close>.

  \<open>Decode\<close> reads the first JSON value of the body and ignores what follows it; of a body
  beyond the limit it sees the first bytes only. A key that names no field is an error. A
  JSON null leaves a struct, a string, a number or a bool as it was and makes a pointer, a
  slice or a map nil; a raw message is the text of its value, null included.
\<close>

subsection \<open>Values\<close>

text \<open>
  A slice is its elements and what is left of its backing array: when a key comes twice, the
  elements are decoded into the slots that the first value left.
\<close>

type_synonym 'a slice = "'a list \<times> 'a list"

definition items :: "'a slice \<Rightarrow> 'a list" where
  "items s = fst s"

fun decode_into :: "('a \<Rightarrow> string \<Rightarrow> 'a option) \<Rightarrow> 'a \<Rightarrow> 'a list \<Rightarrow> string list \<Rightarrow> 'a list option" where
  "decode_into dec zero backing [] = Some []"
| "decode_into dec zero backing (t # ts) =
    (case dec (case backing of [] \<Rightarrow> zero | old # _ \<Rightarrow> old) t of
       None \<Rightarrow> None
     | Some x \<Rightarrow> map_option (\<lambda>xs. x # xs) (decode_into dec zero (tl backing) ts))"

definition unmarshal_slice ::
  "('a \<Rightarrow> string \<Rightarrow> 'a option) \<Rightarrow> 'a \<Rightarrow> 'a slice \<Rightarrow> string \<Rightarrow> 'a slice option" where
  "unmarshal_slice dec zero old t =
    (case parse_json t of
       Some SNull \<Rightarrow> Some ([], [])
     | Some (SArr _) \<Rightarrow>
         andT (array_elems t) (\<lambda>ts.
         andT (decode_into dec zero (fst old @ snd old) ts) (\<lambda>xs.
         Some (xs, if xs = [] then [] else drop (length xs) (fst old @ snd old))))
     | _ \<Rightarrow> None)"

definition decode_text :: "string \<Rightarrow> string \<Rightarrow> string option" where
  "decode_text old t = assign old (unmarshal_string t)"

definition decode_int :: "int \<Rightarrow> string \<Rightarrow> int option" where
  "decode_int old t = assign old (unmarshal_int t)"

definition decode_uint :: "u64 \<Rightarrow> string \<Rightarrow> u64 option" where
  "decode_uint old t = assign old (unmarshal_uint t)"

definition decode_bool :: "bool \<Rightarrow> string \<Rightarrow> bool option" where
  "decode_bool old t =
    (case parse_json t of Some SNull \<Rightarrow> Some old | Some (SBool b) \<Rightarrow> Some b | _ \<Rightarrow> None)"

definition decode_strings :: "string slice \<Rightarrow> string \<Rightarrow> string slice option" where
  "decode_strings old t = unmarshal_slice decode_text [] old t"

text \<open>A pointer: null makes it nil, any other value is decoded into what it points to.\<close>

definition decode_pointer ::
  "('a \<Rightarrow> string \<Rightarrow> 'a option) \<Rightarrow> 'a \<Rightarrow> 'a option \<Rightarrow> string \<Rightarrow> 'a option option" where
  "decode_pointer dec zero old t =
    (case parse_json t of
       Some SNull \<Rightarrow> Some None
     | _ \<Rightarrow> map_option Some (dec (case old of None \<Rightarrow> zero | Some x \<Rightarrow> x) t))"

definition decode_raw :: "bytes \<Rightarrow> string \<Rightarrow> bytes option" where
  "decode_raw old t = Some t"

text \<open>A map keeps its entries, each new value starts from the zero value; None is nil.\<close>

fun decode_entries ::
  "('a \<Rightarrow> string \<Rightarrow> 'a option) \<Rightarrow> 'a \<Rightarrow> (string, 'a) fmap \<Rightarrow> (string \<times> string) list \<Rightarrow> (string, 'a) fmap option" where
  "decode_entries dec zero m [] = Some m"
| "decode_entries dec zero m ((k, t) # fs) =
    andT (dec zero t) (\<lambda>x. decode_entries dec zero (fmupd k x m) fs)"

definition decode_map ::
  "('a \<Rightarrow> string \<Rightarrow> 'a option) \<Rightarrow> 'a \<Rightarrow> (string, 'a) fmap option \<Rightarrow> string
     \<Rightarrow> (string, 'a) fmap option option" where
  "decode_map dec zero old t =
    (case parse_json t of
       Some SNull \<Rightarrow> Some None
     | Some (SObj _) \<Rightarrow>
         andT (object_fields t) (\<lambda>fs.
           map_option Some (decode_entries dec zero (case old of None \<Rightarrow> fmempty | Some m \<Rightarrow> m) fs))
     | _ \<Rightarrow> None)"

definition decode_access_map :: "access_map option \<Rightarrow> string \<Rightarrow> access_map option option" where
  "decode_access_map old t = decode_map (\<lambda>old t. map_option items (decode_strings ([], []) t)) [] old t"

text \<open>A struct, field by field; \<open>store n t r\<close> decodes the text into the field named \<open>n\<close>.\<close>

fun decode_fields ::
  "string list \<Rightarrow> (string \<Rightarrow> string \<Rightarrow> 'r \<Rightarrow> 'r option) \<Rightarrow> 'r \<Rightarrow> (string \<times> string) list \<Rightarrow> 'r option" where
  "decode_fields names store r [] = Some r"
| "decode_fields names store r ((k, t) # fs) =
    (case field_of names k of
       None \<Rightarrow> None
     | Some n \<Rightarrow> andT (store n t r) (\<lambda>r. decode_fields names store r fs))"

definition decode_struct ::
  "string list \<Rightarrow> (string \<Rightarrow> string \<Rightarrow> 'r \<Rightarrow> 'r option) \<Rightarrow> 'r \<Rightarrow> string \<Rightarrow> 'r option" where
  "decode_struct names store old t =
    (case parse_json t of
       Some SNull \<Rightarrow> Some old
     | Some (SObj _) \<Rightarrow> andT (object_fields t) (decode_fields names store old)
     | _ \<Rightarrow> None)"

subsection \<open>Bodies\<close>

text \<open>
  The end of an object or array is its bracket; any other value ends with the byte behind it,
  which is missing when a longer body is cut off there.
\<close>

definition body_value :: "AdminRequest \<Rightarrow> int \<Rightarrow> string option" where
  "body_value r maxBytes =
    (let body = take (nat maxBytes) (rq_Body r) in
     case raw_value max_nesting (skip_ws body) of
       None \<Rightarrow> None
     | Some (t, rest) \<Rightarrow>
         if rest = [] \<and> length body < length (rq_Body r) \<and> hd t \<notin> set ''{['' then None else Some t)"

definition decodeRequest :: "AdminRequest \<Rightarrow> int \<Rightarrow> ('r \<Rightarrow> string \<Rightarrow> 'r option) \<Rightarrow> 'r \<Rightarrow> 'r option" where
  "decodeRequest r maxBytes dec zero = andT (body_value r maxBytes) (dec zero)"

text \<open>The operations of a patch: \<open>decodeStoragePatch\<close> decodes as the runtime does.\<close>

definition decodeStoragePatch :: "AdminRequest \<Rightarrow> int \<Rightarrow> ParseError + JSONPatchOperation list" where
  "decodeStoragePatch r maxBytes =
    (case body_value r maxBytes of
       None \<Rightarrow> Inl \<lparr>pse_Code = CodeBadRequest,
                 pse_Message = ''storage patch must be a valid JSON Patch array''\<rparr>
     | Some t \<Rightarrow> decodeStoragePatchPayload t)"

definition read_all :: "AdminRequest \<Rightarrow> int \<Rightarrow> bytes option" where
  "read_all r maxBytes = (if len (rq_Body r) > max 0 maxBytes then None else Some (rq_Body r))"

definition readNotificationSettings :: "AdminRequest \<Rightarrow> int \<Rightarrow> ParseError + bytes" where
  "readNotificationSettings r maxBytes =
    (case read_all r maxBytes of
       None \<Rightarrow> Inl \<lparr>pse_Code = CodePayloadTooLarge, pse_Message = ''notification settings exceed max size''\<rparr>
     | Some raw \<Rightarrow>
         if \<not> isJSONObject raw then bad_request ''notification settings must be a JSON object''
         else case json_compact raw of
                None \<Rightarrow> bad_request ''notification settings must be valid JSON''
              | Some compacted \<Rightarrow> Inr compacted)"

text \<open>The text of a validation error is that of the error itself.\<close>

definition readStorageDocument :: "AdminRequest \<Rightarrow> int \<Rightarrow> Response + bytes" where
  "readStorageDocument r maxBytes =
    (case read_all r maxBytes of
       None \<Rightarrow> Inl (parse_error_response
                \<lparr>pse_Code = CodePayloadTooLarge, pse_Message = ''storage document exceeds max size''\<rparr>)
     | Some raw \<Rightarrow>
         if \<not> isJSONObject raw then Inl (bad_request_response ''storage document must be a JSON object'')
         else case json_compact raw of
                None \<Rightarrow> Inl (bad_request_response ''storage document must be valid JSON'')
              | Some document \<Rightarrow>
                  (case ValidateStorageDocument document of
                     Some reason \<Rightarrow>
                       Inl (writeError CodeBadRequest (Error_of (ErrEngine (ErrCluster (ErrStoragePatch reason)))) [] 400)
                   | None \<Rightarrow> Inr document))"

subsection \<open>Request types\<close>

text \<open>Each with its zero value and its decoder. The keys are those of the struct tags.\<close>

definition decode_reaction :: "CommentReaction \<Rightarrow> string \<Rightarrow> CommentReaction option" where
  "decode_reaction = decode_struct [''emoji'', ''userId'']
    (\<lambda>n t r.
       if n = ''emoji'' then map_option (\<lambda>v. r\<lparr>re_Emoji := v\<rparr>) (decode_text (re_Emoji r) t)
       else map_option (\<lambda>v. r\<lparr>re_UserID := v\<rparr>) (decode_text (re_UserID r) t))"

definition decode_reactions :: "CommentReaction slice \<Rightarrow> string \<Rightarrow> CommentReaction slice option" where
  "decode_reactions = unmarshal_slice decode_reaction \<lparr>re_Emoji = [], re_UserID = []\<rparr>"

record PublishRequest =
  pq_Room :: string
  pq_Event :: string
  pq_Payload :: bytes
  pq_ExcludeSenderConnID :: string
  pq_TraceID :: string

definition no_PublishRequest :: PublishRequest where
  "no_PublishRequest = \<lparr>pq_Room = [], pq_Event = [], pq_Payload = [],
     pq_ExcludeSenderConnID = [], pq_TraceID = []\<rparr>"

definition decode_PublishRequest :: "PublishRequest \<Rightarrow> string \<Rightarrow> PublishRequest
     option" where
  "decode_PublishRequest = decode_struct [''room'', ''event'', ''payload'', ''exclude_sender_conn_id'',
     ''trace_id'']
    (\<lambda>n t r.
       if n = ''room'' then map_option (\<lambda>v. r\<lparr>pq_Room := v\<rparr>) (decode_text (pq_Room r) t)
       else if n = ''event'' then map_option (\<lambda>v. r\<lparr>pq_Event := v\<rparr>) (decode_text (pq_Event r) t)
       else if n = ''payload'' then map_option (\<lambda>v. r\<lparr>pq_Payload := v\<rparr>) (decode_raw (pq_Payload r) t)
       else if n = ''exclude_sender_conn_id'' then map_option (\<lambda>v. r\<lparr>pq_ExcludeSenderConnID := v\<rparr>) (decode_text (pq_ExcludeSenderConnID r) t)
       else map_option (\<lambda>v. r\<lparr>pq_TraceID := v\<rparr>) (decode_text (pq_TraceID r) t))"

record PresenceRequest =
  prq_Room :: string
  prq_ConnID :: string
  prq_State :: bytes
  prq_TTLSeconds :: int

definition no_PresenceRequest :: PresenceRequest where
  "no_PresenceRequest = \<lparr>prq_Room = [], prq_ConnID = [], prq_State = [],
     prq_TTLSeconds = 0\<rparr>"

definition decode_PresenceRequest :: "PresenceRequest \<Rightarrow> string \<Rightarrow>
     PresenceRequest option" where
  "decode_PresenceRequest = decode_struct [''room'', ''conn_id'', ''state'', ''ttl_seconds'']
    (\<lambda>n t r.
       if n = ''room'' then map_option (\<lambda>v. r\<lparr>prq_Room := v\<rparr>) (decode_text (prq_Room r) t)
       else if n = ''conn_id'' then map_option (\<lambda>v. r\<lparr>prq_ConnID := v\<rparr>) (decode_text (prq_ConnID r) t)
       else if n = ''state'' then map_option (\<lambda>v. r\<lparr>prq_State := v\<rparr>) (decode_raw (prq_State r) t)
       else map_option (\<lambda>v. r\<lparr>prq_TTLSeconds := v\<rparr>) (decode_int (prq_TTLSeconds r) t))"

record RoomCreateRequest =
  rcq_ID :: string
  rcq_Metadata :: bytes
  rcq_DefaultAccesses :: "string slice"
  rcq_UsersAccesses :: "access_map option"
  rcq_GroupsAccesses :: "access_map option"

definition no_RoomCreateRequest :: RoomCreateRequest where
  "no_RoomCreateRequest = \<lparr>rcq_ID = [], rcq_Metadata = [], rcq_DefaultAccesses = ([], []),
     rcq_UsersAccesses = None, rcq_GroupsAccesses = None\<rparr>"

definition decode_RoomCreateRequest :: "RoomCreateRequest \<Rightarrow> string \<Rightarrow>
     RoomCreateRequest option" where
  "decode_RoomCreateRequest = decode_struct [''id'', ''metadata'', ''defaultAccesses'',
     ''usersAccesses'', ''groupsAccesses'']
    (\<lambda>n t r.
       if n = ''id'' then map_option (\<lambda>v. r\<lparr>rcq_ID := v\<rparr>) (decode_text (rcq_ID r) t)
       else if n = ''metadata'' then map_option (\<lambda>v. r\<lparr>rcq_Metadata := v\<rparr>) (decode_raw (rcq_Metadata r) t)
       else if n = ''defaultAccesses'' then map_option (\<lambda>v. r\<lparr>rcq_DefaultAccesses := v\<rparr>) (decode_strings (rcq_DefaultAccesses r) t)
       else if n = ''usersAccesses'' then map_option (\<lambda>v. r\<lparr>rcq_UsersAccesses := v\<rparr>) (decode_access_map (rcq_UsersAccesses r) t)
       else map_option (\<lambda>v. r\<lparr>rcq_GroupsAccesses := v\<rparr>) (decode_access_map (rcq_GroupsAccesses r) t))"

record RoomUpdateRequest =
  ruq_Metadata :: "bytes option"
  ruq_DefaultAccesses :: "string slice option"
  ruq_UsersAccesses :: "access_map option"
  ruq_GroupsAccesses :: "access_map option"

definition no_RoomUpdateRequest :: RoomUpdateRequest where
  "no_RoomUpdateRequest = \<lparr>ruq_Metadata = None, ruq_DefaultAccesses = None,
     ruq_UsersAccesses = None, ruq_GroupsAccesses = None\<rparr>"

definition decode_RoomUpdateRequest :: "RoomUpdateRequest \<Rightarrow> string \<Rightarrow>
     RoomUpdateRequest option" where
  "decode_RoomUpdateRequest = decode_struct [''metadata'', ''defaultAccesses'', ''usersAccesses'',
     ''groupsAccesses'']
    (\<lambda>n t r.
       if n = ''metadata'' then map_option (\<lambda>v. r\<lparr>ruq_Metadata := v\<rparr>) (decode_pointer decode_raw [] (ruq_Metadata r) t)
       else if n = ''defaultAccesses'' then map_option (\<lambda>v. r\<lparr>ruq_DefaultAccesses := v\<rparr>) (decode_pointer decode_strings ([], []) (ruq_DefaultAccesses r) t)
       else if n = ''usersAccesses'' then map_option (\<lambda>v. r\<lparr>ruq_UsersAccesses := v\<rparr>) (decode_access_map (ruq_UsersAccesses r) t)
       else map_option (\<lambda>v. r\<lparr>ruq_GroupsAccesses := v\<rparr>) (decode_access_map (ruq_GroupsAccesses r) t))"

record CommentCreateRequest =
  ccq_ID :: string
  ccq_UserID :: string
  ccq_Body :: bytes
  ccq_Metadata :: bytes
  ccq_Mentions :: "string slice"
  ccq_Reactions :: "CommentReaction slice"

definition no_CommentCreateRequest :: CommentCreateRequest where
  "no_CommentCreateRequest = \<lparr>ccq_ID = [], ccq_UserID = [], ccq_Body = [], ccq_Metadata = [],
     ccq_Mentions = ([], []), ccq_Reactions = ([], [])\<rparr>"

definition decode_CommentCreateRequest :: "CommentCreateRequest \<Rightarrow> string \<Rightarrow>
     CommentCreateRequest option" where
  "decode_CommentCreateRequest = decode_struct [''id'', ''userId'', ''body'', ''metadata'',
     ''mentions'', ''reactions'']
    (\<lambda>n t r.
       if n = ''id'' then map_option (\<lambda>v. r\<lparr>ccq_ID := v\<rparr>) (decode_text (ccq_ID r) t)
       else if n = ''userId'' then map_option (\<lambda>v. r\<lparr>ccq_UserID := v\<rparr>) (decode_text (ccq_UserID r) t)
       else if n = ''body'' then map_option (\<lambda>v. r\<lparr>ccq_Body := v\<rparr>) (decode_raw (ccq_Body r) t)
       else if n = ''metadata'' then map_option (\<lambda>v. r\<lparr>ccq_Metadata := v\<rparr>) (decode_raw (ccq_Metadata r) t)
       else if n = ''mentions'' then map_option (\<lambda>v. r\<lparr>ccq_Mentions := v\<rparr>) (decode_strings (ccq_Mentions r) t)
       else map_option (\<lambda>v. r\<lparr>ccq_Reactions := v\<rparr>) (decode_reactions (ccq_Reactions r) t))"

record CommentUpdateRequest =
  cuq_Body :: "bytes option"
  cuq_Metadata :: "bytes option"
  cuq_Mentions :: "string slice option"
  cuq_Reactions :: "CommentReaction slice option"

definition no_CommentUpdateRequest :: CommentUpdateRequest where
  "no_CommentUpdateRequest = \<lparr>cuq_Body = None, cuq_Metadata = None, cuq_Mentions = None,
     cuq_Reactions = None\<rparr>"

definition decode_CommentUpdateRequest :: "CommentUpdateRequest \<Rightarrow> string \<Rightarrow>
     CommentUpdateRequest option" where
  "decode_CommentUpdateRequest = decode_struct [''body'', ''metadata'', ''mentions'', ''reactions'']
    (\<lambda>n t r.
       if n = ''body'' then map_option (\<lambda>v. r\<lparr>cuq_Body := v\<rparr>) (decode_pointer decode_raw [] (cuq_Body r) t)
       else if n = ''metadata'' then map_option (\<lambda>v. r\<lparr>cuq_Metadata := v\<rparr>) (decode_pointer decode_raw [] (cuq_Metadata r) t)
       else if n = ''mentions'' then map_option (\<lambda>v. r\<lparr>cuq_Mentions := v\<rparr>) (decode_pointer decode_strings ([], []) (cuq_Mentions r) t)
       else map_option (\<lambda>v. r\<lparr>cuq_Reactions := v\<rparr>) (decode_pointer decode_reactions ([], []) (cuq_Reactions r) t))"

record ThreadCreateRequest =
  tcq_ID :: string
  tcq_Metadata :: bytes
  tcq_Comment :: CommentCreateRequest

definition no_ThreadCreateRequest :: ThreadCreateRequest where
  "no_ThreadCreateRequest = \<lparr>tcq_ID = [], tcq_Metadata = [],
     tcq_Comment = no_CommentCreateRequest\<rparr>"

definition decode_ThreadCreateRequest :: "ThreadCreateRequest \<Rightarrow> string \<Rightarrow>
     ThreadCreateRequest option" where
  "decode_ThreadCreateRequest = decode_struct [''id'', ''metadata'', ''comment'']
    (\<lambda>n t r.
       if n = ''id'' then map_option (\<lambda>v. r\<lparr>tcq_ID := v\<rparr>) (decode_text (tcq_ID r) t)
       else if n = ''metadata'' then map_option (\<lambda>v. r\<lparr>tcq_Metadata := v\<rparr>) (decode_raw (tcq_Metadata r) t)
       else map_option (\<lambda>v. r\<lparr>tcq_Comment := v\<rparr>) (decode_CommentCreateRequest (tcq_Comment r) t))"

record ThreadUpdateRequest =
  tuq_Metadata :: "bytes option"
  tuq_Resolved :: "bool option"

definition no_ThreadUpdateRequest :: ThreadUpdateRequest where
  "no_ThreadUpdateRequest = \<lparr>tuq_Metadata = None, tuq_Resolved = None\<rparr>"

definition decode_ThreadUpdateRequest :: "ThreadUpdateRequest \<Rightarrow> string \<Rightarrow>
     ThreadUpdateRequest option" where
  "decode_ThreadUpdateRequest = decode_struct [''metadata'', ''resolved'']
    (\<lambda>n t r.
       if n = ''metadata'' then map_option (\<lambda>v. r\<lparr>tuq_Metadata := v\<rparr>) (decode_pointer decode_raw [] (tuq_Metadata r) t)
       else map_option (\<lambda>v. r\<lparr>tuq_Resolved := v\<rparr>) (decode_pointer decode_bool False (tuq_Resolved r) t))"

record ThreadReadStateRequest =
  trq_UserID :: string

definition no_ThreadReadStateRequest :: ThreadReadStateRequest where
  "no_ThreadReadStateRequest = \<lparr>trq_UserID = []\<rparr>"

definition decode_ThreadReadStateRequest :: "ThreadReadStateRequest \<Rightarrow> string \<Rightarrow>
     ThreadReadStateRequest option" where
  "decode_ThreadReadStateRequest = decode_struct [''userId'']
    (\<lambda>n t r.
       map_option (\<lambda>v. r\<lparr>trq_UserID := v\<rparr>) (decode_text (trq_UserID r) t))"

record InboxNotificationTriggerRequest =
  inq_ID :: string
  inq_UserID :: string
  inq_Kind :: string
  inq_SubjectID :: string
  inq_ThreadID :: string
  inq_RoomID :: string
  inq_ActivityData :: bytes

definition no_InboxNotificationTriggerRequest :: InboxNotificationTriggerRequest where
  "no_InboxNotificationTriggerRequest = \<lparr>inq_ID = [], inq_UserID = [], inq_Kind = [],
     inq_SubjectID = [], inq_ThreadID = [], inq_RoomID = [], inq_ActivityData = []\<rparr>"

definition decode_InboxNotificationTriggerRequest :: "InboxNotificationTriggerRequest \<Rightarrow>
     string \<Rightarrow> InboxNotificationTriggerRequest option" where
  "decode_InboxNotificationTriggerRequest = decode_struct [''id'', ''userId'', ''kind'', ''subjectId'',
     ''threadId'', ''roomId'', ''activityData'']
    (\<lambda>n t r.
       if n = ''id'' then map_option (\<lambda>v. r\<lparr>inq_ID := v\<rparr>) (decode_text (inq_ID r) t)
       else if n = ''userId'' then map_option (\<lambda>v. r\<lparr>inq_UserID := v\<rparr>) (decode_text (inq_UserID r) t)
       else if n = ''kind'' then map_option (\<lambda>v. r\<lparr>inq_Kind := v\<rparr>) (decode_text (inq_Kind r) t)
       else if n = ''subjectId'' then map_option (\<lambda>v. r\<lparr>inq_SubjectID := v\<rparr>) (decode_text (inq_SubjectID r) t)
       else if n = ''threadId'' then map_option (\<lambda>v. r\<lparr>inq_ThreadID := v\<rparr>) (decode_text (inq_ThreadID r) t)
       else if n = ''roomId'' then map_option (\<lambda>v. r\<lparr>inq_RoomID := v\<rparr>) (decode_text (inq_RoomID r) t)
       else map_option (\<lambda>v. r\<lparr>inq_ActivityData := v\<rparr>) (decode_raw (inq_ActivityData r) t))"

record RoomSubscriptionSettingsRequest =
  rsq_Threads :: string
  rsq_TextMentions :: string

definition no_RoomSubscriptionSettingsRequest :: RoomSubscriptionSettingsRequest where
  "no_RoomSubscriptionSettingsRequest = \<lparr>rsq_Threads = [], rsq_TextMentions = []\<rparr>"

definition decode_RoomSubscriptionSettingsRequest :: "RoomSubscriptionSettingsRequest \<Rightarrow>
     string \<Rightarrow> RoomSubscriptionSettingsRequest option" where
  "decode_RoomSubscriptionSettingsRequest = decode_struct [''threads'', ''textMentions'']
    (\<lambda>n t r.
       if n = ''threads'' then map_option (\<lambda>v. r\<lparr>rsq_Threads := v\<rparr>) (decode_text (rsq_Threads r) t)
       else map_option (\<lambda>v. r\<lparr>rsq_TextMentions := v\<rparr>) (decode_text (rsq_TextMentions r) t))"

record tenantRequest =
  tnq_ID :: string
  tnq_Name :: string
  tnq_Metadata :: bytes

definition no_tenantRequest :: tenantRequest where
  "no_tenantRequest = \<lparr>tnq_ID = [], tnq_Name = [], tnq_Metadata = []\<rparr>"

definition decode_tenantRequest :: "tenantRequest \<Rightarrow> string \<Rightarrow> tenantRequest
     option" where
  "decode_tenantRequest = decode_struct [''id'', ''name'', ''metadata'']
    (\<lambda>n t r.
       if n = ''id'' then map_option (\<lambda>v. r\<lparr>tnq_ID := v\<rparr>) (decode_text (tnq_ID r) t)
       else if n = ''name'' then map_option (\<lambda>v. r\<lparr>tnq_Name := v\<rparr>) (decode_text (tnq_Name r) t)
       else map_option (\<lambda>v. r\<lparr>tnq_Metadata := v\<rparr>) (decode_raw (tnq_Metadata r) t))"

record tenantUpdateRequest =
  tnuq_Name :: "string option"
  tnuq_Metadata :: "bytes option"

definition no_tenantUpdateRequest :: tenantUpdateRequest where
  "no_tenantUpdateRequest = \<lparr>tnuq_Name = None, tnuq_Metadata = None\<rparr>"

definition decode_tenantUpdateRequest :: "tenantUpdateRequest \<Rightarrow> string \<Rightarrow>
     tenantUpdateRequest option" where
  "decode_tenantUpdateRequest = decode_struct [''name'', ''metadata'']
    (\<lambda>n t r.
       if n = ''name'' then map_option (\<lambda>v. r\<lparr>tnuq_Name := v\<rparr>) (decode_pointer decode_text [] (tnuq_Name r) t)
       else map_option (\<lambda>v. r\<lparr>tnuq_Metadata := v\<rparr>) (decode_pointer decode_raw [] (tnuq_Metadata r) t))"

record projectRequest =
  pjq_ID :: string
  pjq_Name :: string
  pjq_Metadata :: bytes

definition no_projectRequest :: projectRequest where
  "no_projectRequest = \<lparr>pjq_ID = [], pjq_Name = [], pjq_Metadata = []\<rparr>"

definition decode_projectRequest :: "projectRequest \<Rightarrow> string \<Rightarrow> projectRequest
     option" where
  "decode_projectRequest = decode_struct [''id'', ''name'', ''metadata'']
    (\<lambda>n t r.
       if n = ''id'' then map_option (\<lambda>v. r\<lparr>pjq_ID := v\<rparr>) (decode_text (pjq_ID r) t)
       else if n = ''name'' then map_option (\<lambda>v. r\<lparr>pjq_Name := v\<rparr>) (decode_text (pjq_Name r) t)
       else map_option (\<lambda>v. r\<lparr>pjq_Metadata := v\<rparr>) (decode_raw (pjq_Metadata r) t))"

record projectUpdateRequest =
  pjuq_Name :: "string option"
  pjuq_Metadata :: "bytes option"

definition no_projectUpdateRequest :: projectUpdateRequest where
  "no_projectUpdateRequest = \<lparr>pjuq_Name = None, pjuq_Metadata = None\<rparr>"

definition decode_projectUpdateRequest :: "projectUpdateRequest \<Rightarrow> string \<Rightarrow>
     projectUpdateRequest option" where
  "decode_projectUpdateRequest = decode_struct [''name'', ''metadata'']
    (\<lambda>n t r.
       if n = ''name'' then map_option (\<lambda>v. r\<lparr>pjuq_Name := v\<rparr>) (decode_pointer decode_text [] (pjuq_Name r) t)
       else map_option (\<lambda>v. r\<lparr>pjuq_Metadata := v\<rparr>) (decode_pointer decode_raw [] (pjuq_Metadata r) t))"

record apiKeyCreateRequest =
  akq_TenantID :: string
  akq_ProjectID :: string
  akq_Name :: string
  akq_Scopes :: "string slice"

definition no_apiKeyCreateRequest :: apiKeyCreateRequest where
  "no_apiKeyCreateRequest = \<lparr>akq_TenantID = [], akq_ProjectID = [], akq_Name = [],
     akq_Scopes = ([], [])\<rparr>"

definition decode_apiKeyCreateRequest :: "apiKeyCreateRequest \<Rightarrow> string \<Rightarrow>
     apiKeyCreateRequest option" where
  "decode_apiKeyCreateRequest = decode_struct [''tenantId'', ''projectId'', ''name'', ''scopes'']
    (\<lambda>n t r.
       if n = ''tenantId'' then map_option (\<lambda>v. r\<lparr>akq_TenantID := v\<rparr>) (decode_text (akq_TenantID r) t)
       else if n = ''projectId'' then map_option (\<lambda>v. r\<lparr>akq_ProjectID := v\<rparr>) (decode_text (akq_ProjectID r) t)
       else if n = ''name'' then map_option (\<lambda>v. r\<lparr>akq_Name := v\<rparr>) (decode_text (akq_Name r) t)
       else map_option (\<lambda>v. r\<lparr>akq_Scopes := v\<rparr>) (decode_strings (akq_Scopes r) t))"

record versionSnapshotRequest =
  vsq_ID :: string
  vsq_DocumentID :: string
  vsq_Label :: string
  vsq_Document :: bytes
  vsq_Metadata :: bytes

definition no_versionSnapshotRequest :: versionSnapshotRequest where
  "no_versionSnapshotRequest = \<lparr>vsq_ID = [], vsq_DocumentID = [], vsq_Label = [],
     vsq_Document = [], vsq_Metadata = []\<rparr>"

definition decode_versionSnapshotRequest :: "versionSnapshotRequest \<Rightarrow> string \<Rightarrow>
     versionSnapshotRequest option" where
  "decode_versionSnapshotRequest = decode_struct [''id'', ''documentId'', ''label'', ''document'',
     ''metadata'']
    (\<lambda>n t r.
       if n = ''id'' then map_option (\<lambda>v. r\<lparr>vsq_ID := v\<rparr>) (decode_text (vsq_ID r) t)
       else if n = ''documentId'' then map_option (\<lambda>v. r\<lparr>vsq_DocumentID := v\<rparr>) (decode_text (vsq_DocumentID r) t)
       else if n = ''label'' then map_option (\<lambda>v. r\<lparr>vsq_Label := v\<rparr>) (decode_text (vsq_Label r) t)
       else if n = ''document'' then map_option (\<lambda>v. r\<lparr>vsq_Document := v\<rparr>) (decode_raw (vsq_Document r) t)
       else map_option (\<lambda>v. r\<lparr>vsq_Metadata := v\<rparr>) (decode_raw (vsq_Metadata r) t))"

record richTextDocumentRequest =
  rtq_Content :: bytes
  rtq_Metadata :: bytes

definition no_richTextDocumentRequest :: richTextDocumentRequest where
  "no_richTextDocumentRequest = \<lparr>rtq_Content = [], rtq_Metadata = []\<rparr>"

definition decode_richTextDocumentRequest :: "richTextDocumentRequest \<Rightarrow> string
     \<Rightarrow> richTextDocumentRequest option" where
  "decode_richTextDocumentRequest = decode_struct [''content'', ''metadata'']
    (\<lambda>n t r.
       if n = ''content'' then map_option (\<lambda>v. r\<lparr>rtq_Content := v\<rparr>) (decode_raw (rtq_Content r) t)
       else map_option (\<lambda>v. r\<lparr>rtq_Metadata := v\<rparr>) (decode_raw (rtq_Metadata r) t))"

record resumeSessionRequest =
  rsrq_ID :: string
  rsrq_TenantID :: string
  rsrq_ProjectID :: string
  rsrq_Subject :: string
  rsrq_Rooms :: "string slice"
  rsrq_RoomCursors :: "(room_id, u64) fmap option"
  rsrq_Metadata :: bytes
  rsrq_TTLSeconds :: int

definition no_resumeSessionRequest :: resumeSessionRequest where
  "no_resumeSessionRequest = \<lparr>rsrq_ID = [], rsrq_TenantID = [], rsrq_ProjectID = [],
     rsrq_Subject = [], rsrq_Rooms = ([], []), rsrq_RoomCursors = None, rsrq_Metadata = [],
     rsrq_TTLSeconds = 0\<rparr>"

definition decode_resumeSessionRequest :: "resumeSessionRequest \<Rightarrow> string \<Rightarrow>
     resumeSessionRequest option" where
  "decode_resumeSessionRequest = decode_struct [''id'', ''tenantId'', ''projectId'', ''subject'',
     ''rooms'', ''roomCursors'', ''metadata'', ''ttlSeconds'']
    (\<lambda>n t r.
       if n = ''id'' then map_option (\<lambda>v. r\<lparr>rsrq_ID := v\<rparr>) (decode_text (rsrq_ID r) t)
       else if n = ''tenantId'' then map_option (\<lambda>v. r\<lparr>rsrq_TenantID := v\<rparr>) (decode_text (rsrq_TenantID r) t)
       else if n = ''projectId'' then map_option (\<lambda>v. r\<lparr>rsrq_ProjectID := v\<rparr>) (decode_text (rsrq_ProjectID r) t)
       else if n = ''subject'' then map_option (\<lambda>v. r\<lparr>rsrq_Subject := v\<rparr>) (decode_text (rsrq_Subject r) t)
       else if n = ''rooms'' then map_option (\<lambda>v. r\<lparr>rsrq_Rooms := v\<rparr>) (decode_strings (rsrq_Rooms r) t)
       else if n = ''roomCursors'' then map_option (\<lambda>v. r\<lparr>rsrq_RoomCursors := v\<rparr>) (decode_map decode_uint 0 (rsrq_RoomCursors r) t)
       else if n = ''metadata'' then map_option (\<lambda>v. r\<lparr>rsrq_Metadata := v\<rparr>) (decode_raw (rsrq_Metadata r) t)
       else map_option (\<lambda>v. r\<lparr>rsrq_TTLSeconds := v\<rparr>) (decode_int (rsrq_TTLSeconds r) t))"

end
