(* ===== verification/Admin_Paths.thy ===== *)
theory Admin_Paths
  imports Admin_Decode
begin

text \<open>
  How the administration API reads ids and subresources out of the path of a request, and
  the limits, cursors and switches of its query. The path is the one that \<open>net/url\<close> has
  already decoded once; an error is its text.

  What the administration API checks of decoded requests, and the records and updates that
  it makes of them. A check gives \<open>Inr ()\<close> for the nil error.
\<close>

definition slash :: char where "slash = CHR 0x2F"

text \<open>A path constant: its segments, each with a slash before it, and a slash at the end.\<close>

definition path_prefix :: "string list \<Rightarrow> string" where
  "path_prefix segments = concat (map (\<lambda>s. slash # s) segments) @ [slash]"

definition trim_prefix :: "string \<Rightarrow> string \<Rightarrow> string" where
  "trim_prefix pre s = (if prefix pre s then drop (length pre) s else s)"

text \<open>\<open>strings.SplitN (raw, "/", 2)\<close>: the first part, and the second one if there is any.\<close>

definition head_and_child :: "string \<Rightarrow> string \<times> string" where
  "head_and_child raw =
    (case cut slash raw of (part, None) \<Rightarrow> (part, []) | (part, Some child) \<Rightarrow> (part, child))"

definition valid_id :: "(string \<Rightarrow> unit parsed) \<Rightarrow> string \<Rightarrow> string \<Rightarrow> string + string" where
  "valid_id validate unescape_error part =
    (case PathUnescape part of
       None \<Rightarrow> Inl unescape_error
     | Some i \<Rightarrow> (case validate i of Inl err \<Rightarrow> Inl (pse_Message err) | Inr _ \<Rightarrow> Inr i))"

text \<open>An id and what follows its slash.\<close>

definition id_and_child ::
  "(string \<Rightarrow> unit parsed) \<Rightarrow> string \<Rightarrow> string \<Rightarrow> string + string \<times> string" where
  "id_and_child validate unescape_error raw =
    (let (part, child) = head_and_child raw in
     case valid_id validate unescape_error part of Inl err \<Rightarrow> Inl err | Inr i \<Rightarrow> Inr (i, child))"

definition roomPathParts :: "string \<Rightarrow> string + room_id \<times> string" where
  "roomPathParts path =
    (let raw = trim_prefix (path_prefix [''v1'', ''rooms'']) path in
     if raw = [] then Inl ''room id is required''
     else id_and_child ValidateRoomName ''room id must be URL-escaped'' raw)"

definition roomFromPath :: "string \<Rightarrow> string + room_id" where
  "roomFromPath path =
    (case roomPathParts path of
       Inl err \<Rightarrow> Inl err
     | Inr (room, subresource) \<Rightarrow>
         if subresource \<noteq> [] then Inl ''unsupported room subresource'' else Inr room)"

definition threadPathParts :: "string \<Rightarrow> string + string \<times> string" where
  "threadPathParts subresource =
    (let raw = trim_prefix (''threads'' @ [slash]) subresource in
     if raw = [] \<or> raw = subresource then Inl ''thread id is required''
     else id_and_child ValidateConnectionID ''thread id must be URL-escaped'' raw)"

definition commentPathPart :: "string \<Rightarrow> string + string" where
  "commentPathPart child =
    (let raw = trim_prefix (''comments'' @ [slash]) child in
     if raw = [] \<or> raw = child then Inl ''comment id is required''
     else if slash \<in> set raw then Inl ''unsupported comment subresource''
     else valid_id ValidateConnectionID ''comment id must be URL-escaped'' raw)"

definition roomUserPathParts :: "string \<Rightarrow> string + string \<times> string" where
  "roomUserPathParts subresource =
    (let raw = trim_prefix (''users'' @ [slash]) subresource in
     if raw = [] \<or> raw = subresource then Inl ''user id is required''
     else id_and_child ValidateConnectionID ''user id must be URL-escaped'' raw)"

text \<open>The user, the subresource and the id of an item, which may be missing.\<close>

definition userPathParts :: "string \<Rightarrow> string + string \<times> string \<times> string" where
  "userPathParts path =
    (let raw = trim_prefix (path_prefix [''v1'', ''users'']) path in
     if raw = [] \<or> raw = path then Inl ''user id is required''
     else
       (let parts = split_on slash raw in
        case valid_id ValidateConnectionID ''user id must be URL-escaped'' (hd parts) of
          Inl err \<Rightarrow> Inl err
        | Inr userID \<Rightarrow>
            (case tl parts of
               [] \<Rightarrow> Inl ''user subresource is required''
             | subresource # rest \<Rightarrow>
                 if subresource = [] then Inl ''user subresource is required''
                 else case rest of
                        [] \<Rightarrow> Inr (userID, subresource, [])
                      | item # others \<Rightarrow>
                          (case valid_id ValidateConnectionID ''subresource id must be URL-escaped'' item of
                             Inl err \<Rightarrow> Inl err
                           | Inr itemID \<Rightarrow>
                               if others \<noteq> [] then Inl ''unsupported user path''
                               else Inr (userID, subresource, itemID)))))"

definition inboxNotificationActionParts :: "string \<Rightarrow> string + string \<times> string" where
  "inboxNotificationActionParts path =
    (let raw = trim_prefix (path_prefix [''v1'', ''inbox-notifications'']) path in
     if raw = [] \<or> raw = path then Inl ''inbox notification id is required''
     else id_and_child ValidateConnectionID ''inbox notification id must be URL-escaped'' raw)"

subsection \<open>Product records\<close>

definition product_char :: "char \<Rightarrow> bool" where
  "product_char c \<longleftrightarrow> in_range 0x61 0x7A c \<or> in_range 0x41 0x5A c \<or> in_range 0x30 0x39 c \<or> c \<in> set ''-_.''"

text \<open>The code looks at runes, of which only ASCII ones are allowed.\<close>

definition validateProductID :: "string \<Rightarrow> string \<Rightarrow> unit parsed" where
  "validateProductID label i =
    (if i = [] then bad_request (label @ '' is required'')
     else if len i > 128 then bad_request (label @ '' is too long'')
     else if \<not> list_all product_char i
     then bad_request (label @ '' must use letters, numbers, dash, underscore, or dot'')
     else Inr ())"

definition tenantPathParts :: "string \<Rightarrow> string + string \<times> string" where
  "tenantPathParts path =
    (let raw = trim_prefix (path_prefix [''v1'', ''tenants'']) path in
     if raw = [] \<or> raw = path then Inl ''tenant id is required''
     else id_and_child (validateProductID ''tenant id'') ''tenant id must be URL-escaped'' raw)"

definition valid_item :: "string \<Rightarrow> unit parsed" where
  "valid_item i = (if trim_space i = [] \<or> slash \<in> set i then bad_request ''item id is invalid'' else Inr ())"

definition itemIDFromPath :: "string \<Rightarrow> string \<Rightarrow> string + string" where
  "itemIDFromPath path pre =
    (let raw = trim_prefix pre path in
     if raw = [] \<or> raw = path \<or> slash \<in> set raw then Inl ''item id is required''
     else valid_id valid_item ''item id must be URL-escaped'' raw)"

definition itemActionParts :: "string \<Rightarrow> string \<Rightarrow> string + string \<times> string" where
  "itemActionParts path pre =
    (let raw = trim_prefix pre path in
     if raw = [] \<or> raw = path then Inl ''item id is required''
     else if snd (head_and_child raw) = [] then Inl ''item action is required''
     else id_and_child valid_item ''item id must be URL-escaped'' raw)"

subsection \<open>Limits and cursors\<close>

definition parse_limit :: "int \<Rightarrow> int \<Rightarrow> string \<Rightarrow> string \<Rightarrow> string + int" where
  "parse_limit dflt most failure raw =
    (if raw = [] then Inr dflt
     else case atoi raw of
            None \<Rightarrow> Inl failure
          | Some limit \<Rightarrow> if limit < 1 \<or> limit > most then Inl failure else Inr limit)"

definition parseListLimit :: "string \<Rightarrow> string + int" where
  "parseListLimit raw = parse_limit 50 200 ''limit must be an integer between 1 and 200'' raw"

text \<open>Without a limit and a cursor there is no limit, which is 0.\<close>

definition parseThreadListLimit :: "string \<Rightarrow> string \<Rightarrow> string + int" where
  "parseThreadListLimit raw cursor =
    parse_limit (if cursor = [] then 0 else 50) 200 ''limit must be an integer between 1 and 200'' raw"

definition parseNotificationListLimit :: "string \<Rightarrow> string + int" where
  "parseNotificationListLimit raw = parse_limit 50 50 ''limit must be an integer between 1 and 50'' raw"

text \<open>An error of \<open>Atoi\<close> is passed on with its own text.\<close>

definition parseProductListLimit :: "string \<Rightarrow> message_text + int" where
  "parseProductListLimit raw =
    (if raw = [] then Inr 100
     else case atoi raw of
            None \<Rightarrow> Inl (Error_of (ErrText ''strconv.Atoi''))
          | Some limit \<Rightarrow>
              if limit \<le> 0 \<or> limit > 200 then Inl (Text ''limit must be between 1 and 200'') else Inr limit)"

definition parseCursor :: "string \<Rightarrow> string + u64" where
  "parseCursor raw =
    (if raw = [] then Inr 0
     else case parse_uint raw of
            None \<Rightarrow> Inl ''cursor must be an unsigned integer''
          | Some cursor \<Rightarrow> Inr cursor)"

text \<open>The letters of the two words fold with ASCII letters only.\<close>

definition unreadOnlyQuery :: "string \<Rightarrow> string \<Rightarrow> bool" where
  "unreadOnlyQuery query unread \<longleftrightarrow>
    to_lower unread = ''true'' \<or> to_lower (trim_space query) = ''unread:true''"

definition next_cursor_text :: "u64 \<Rightarrow> string" where
  "next_cursor_text cursor = (if cursor = 0 then [] else format_uint cursor)"

definition projectFromRequest :: "AdminRequest \<Rightarrow> string" where
  "projectFromRequest r = firstNonEmpty [header_get r ''Openrtc-Project-Id'', url_query r ''projectId'']"

definition maxCommentMentions :: int where "maxCommentMentions = 100"
definition maxCommentReactions :: int where "maxCommentReactions = 500"
definition maxCommentReactionEmojiBytes :: int where "maxCommentReactionEmojiBytes = 64"

definition with_message :: "(string \<Rightarrow> string) \<Rightarrow> unit parsed \<Rightarrow> unit parsed" where
  "with_message f r =
    (case r of Inl err \<Rightarrow> Inl (err\<lparr>pse_Message := f (pse_Message err)\<rparr>) | Inr _ \<Rightarrow> Inr ())"

text \<open>The first error of a list of checks.\<close>

fun check_all :: "('a \<Rightarrow> unit parsed) \<Rightarrow> 'a list \<Rightarrow> unit parsed" where
  "check_all f [] = Inr ()"
| "check_all f (x # xs) = andThen (f x) (\<lambda>_. check_all f xs)"

definition check_option :: "('a \<Rightarrow> unit parsed) \<Rightarrow> 'a option \<Rightarrow> unit parsed" where
  "check_option f x = (case x of None \<Rightarrow> Inr () | Some v \<Rightarrow> f v)"

subsection \<open>Metadata and accesses\<close>

definition validateMetadata :: "bytes \<Rightarrow> bool \<Rightarrow> int \<Rightarrow> unit parsed" where
  "validateMetadata metadata optional maxBytes =
    (if metadata = [] then (if optional then Inr () else bad_request ''metadata is required'')
     else if len metadata > maxBytes
     then Inl \<lparr>pse_Code = CodePayloadTooLarge, pse_Message = ''metadata exceeds max size''\<rparr>
     else if \<not> json_valid metadata \<or> hd metadata \<noteq> CHR ''{''
     then bad_request ''metadata must be a JSON object''
     else Inr ())"

definition validateProductMetadata :: "bytes \<Rightarrow> bool \<Rightarrow> int \<Rightarrow> unit parsed" where
  "validateProductMetadata raw optional maxBytes = validateMetadata raw optional maxBytes"

definition room_permissions :: "string list" where
  "room_permissions = [PermissionRoomWrite, PermissionRoomRead, PermissionRoomPresenceWrite,
     PermissionStorageWrite, PermissionStorageRead, PermissionCommentsWrite, PermissionCommentsRead,
     PermissionFeedsWrite, PermissionFeedsRead]"

definition validateAccessList :: "string list \<Rightarrow> unit parsed" where
  "validateAccessList permissions =
    check_all (\<lambda>permission. if permission \<in> set room_permissions then Inr ()
       else bad_request ''unsupported room access permission'') permissions"

text \<open>Go ranges over a map in any order, so any of its errors may be returned; here the first by key.\<close>

definition validateAccessMap :: "access_map \<Rightarrow> string \<Rightarrow> unit parsed" where
  "validateAccessMap accesses field =
    (if int (fcard (fmdom accesses)) > 1000 then bad_request (field @ '' supports at most 1000 ids'')
     else check_all (\<lambda>i. if i = [] \<or> len i > MaxRoomNameBytes
         then bad_request (field @ '' ids must be 1-256 characters'')
         else validateAccessList (the (fmlookup accesses i))) (sorted_ids (fmdom accesses)))"

definition validateRoomAccesses :: "string list \<Rightarrow> access_map \<Rightarrow> access_map \<Rightarrow> unit parsed" where
  "validateRoomAccesses defaultAccesses usersAccesses groupsAccesses =
    andThen (validateAccessList defaultAccesses) (\<lambda>_.
    andThen (validateAccessMap usersAccesses ''usersAccesses'') (\<lambda>_.
    validateAccessMap groupsAccesses ''groupsAccesses''))"

definition validateRoomRequest :: "room_id \<Rightarrow> bytes \<Rightarrow> bool \<Rightarrow> int \<Rightarrow> unit parsed" where
  "validateRoomRequest room metadata metadataOptional maxBytes =
    andThen (ValidateRoomName room) (\<lambda>_. validateMetadata metadata metadataOptional maxBytes)"

subsection \<open>Threads and comments\<close>

definition validateCommentMentions :: "string list \<Rightarrow> unit parsed" where
  "validateCommentMentions mentions =
    (if len mentions > maxCommentMentions
     then bad_request ''comment mentions support at most 100 user ids''
     else check_all (\<lambda>userID. with_message (\<lambda>_. ''comment mentions must contain safe user ids'')
            (ValidateConnectionID userID)) mentions)"

definition validateCommentReactions :: "CommentReaction list \<Rightarrow> unit parsed" where
  "validateCommentReactions reactions =
    (if len reactions > maxCommentReactions
     then bad_request ''comment reactions support at most 500 entries''
     else check_all (\<lambda>reaction.
            if trim_space (re_Emoji reaction) = [] \<or> len (re_Emoji reaction) > maxCommentReactionEmojiBytes
            then bad_request ''comment reaction emoji must be 1-64 bytes''
            else with_message (\<lambda>_. ''comment reaction userId must be safe ASCII'')
                   (ValidateConnectionID (re_UserID reaction))) reactions)"

definition validateCommentRequest :: "CommentCreateRequest \<Rightarrow> int \<Rightarrow> unit parsed" where
  "validateCommentRequest comment maxBytes =
    andThen (ValidateConnectionID (ccq_ID comment)) (\<lambda>_.
    andThen (ValidateConnectionID (ccq_UserID comment)) (\<lambda>_.
    andThen (with_message (\<lambda>m. ''comment body '' @ m) (validateMetadata (ccq_Body comment) False maxBytes)) (\<lambda>_.
    andThen (with_message (\<lambda>m. ''comment metadata '' @ m)
               (validateMetadata (ccq_Metadata comment) True maxBytes)) (\<lambda>_.
    andThen (validateCommentMentions (items (ccq_Mentions comment))) (\<lambda>_.
    validateCommentReactions (items (ccq_Reactions comment)))))))"

definition validateCommentUpdateRequest :: "CommentUpdateRequest \<Rightarrow> int \<Rightarrow> unit parsed" where
  "validateCommentUpdateRequest request maxBytes =
    (if cuq_Body request = None \<and> cuq_Metadata request = None \<and> cuq_Mentions request = None
        \<and> cuq_Reactions request = None
     then bad_request ''comment update must include body, metadata, mentions, or reactions''
     else andThen (check_option (\<lambda>body. with_message (\<lambda>m. ''comment body '' @ m)
                     (validateMetadata body False maxBytes)) (cuq_Body request)) (\<lambda>_.
       andThen (check_option (\<lambda>metadata. with_message (\<lambda>m. ''comment metadata '' @ m)
                  (validateMetadata metadata False maxBytes)) (cuq_Metadata request)) (\<lambda>_.
       andThen (check_option (\<lambda>s. validateCommentMentions (items s)) (cuq_Mentions request)) (\<lambda>_.
       check_option (\<lambda>s. validateCommentReactions (items s)) (cuq_Reactions request)))))"

definition validateThreadRequest :: "string \<Rightarrow> bytes \<Rightarrow> CommentCreateRequest \<Rightarrow> int \<Rightarrow> unit parsed" where
  "validateThreadRequest threadID metadata comment maxBytes =
    andThen (ValidateConnectionID threadID) (\<lambda>_.
    andThen (validateMetadata metadata True maxBytes) (\<lambda>_.
    validateCommentRequest comment maxBytes))"

definition validateThreadUpdateRequest :: "ThreadUpdateRequest \<Rightarrow> int \<Rightarrow> unit parsed" where
  "validateThreadUpdateRequest request maxBytes =
    (if tuq_Metadata request = None \<and> tuq_Resolved request = None
     then bad_request ''thread update must include metadata or resolved''
     else check_option (\<lambda>metadata. with_message (\<lambda>m. ''thread metadata '' @ m)
            (validateMetadata metadata False maxBytes)) (tuq_Metadata request))"

definition validateThreadReadStateUserID :: "string \<Rightarrow> unit parsed" where
  "validateThreadReadStateUserID userID =
    (if trim_space userID = [] then bad_request ''userId is required''
     else with_message (\<lambda>m. ''userId '' @ m) (ValidateConnectionID userID))"

subsection \<open>Notifications\<close>

text \<open>Runes beyond ASCII are neither letters nor underscores here, so looking at bytes decides the same.\<close>

definition validateNotificationKind :: "string \<Rightarrow> unit parsed" where
  "validateNotificationKind kind =
    (if kind = [] \<or> len kind > MaxEventNameBytes
     then bad_request ''notification kind must be 1-128 characters''
     else if hd kind \<noteq> CHR ''$''
     then with_message (\<lambda>_. ''notification kind must be safe ASCII'') (ValidateEventName kind)
     else if len kind = 1 then bad_request ''custom notification kind is required after $''
     else if \<not> list_all (\<lambda>c. in_range 0x61 0x7A c \<or> in_range 0x41 0x5A c \<or> c = CHR ''_'') (tl kind)
     then bad_request ''custom notification kind must contain only letters and underscores''
     else Inr ())"

definition scalar :: "json \<Rightarrow> bool" where
  "scalar v = (case v of JArr _ \<Rightarrow> False | JObj _ \<Rightarrow> False | _ \<Rightarrow> True)"

definition validateActivityData :: "bytes \<Rightarrow> bool \<Rightarrow> int \<Rightarrow> unit parsed" where
  "validateActivityData data optional maxBytes =
    (if data = [] then (if optional then Inr () else bad_request ''activityData is required'')
     else if len data > maxBytes
     then Inl \<lparr>pse_Code = CodePayloadTooLarge, pse_Message = ''activityData exceeds max size''\<rparr>
     else case json_decode data of
            Some (JObj values) \<Rightarrow>
              if list_all (\<lambda>(_, v). scalar v) values then Inr ()
              else bad_request ''activityData values must be scalar''
          | Some JNull \<Rightarrow> bad_request ''activityData must be a JSON object''
          | _ \<Rightarrow> bad_request ''activityData must be valid JSON'')"

definition check_if :: "string \<Rightarrow> (string \<Rightarrow> unit parsed) \<Rightarrow> unit parsed" where
  "check_if s f = (if s = [] then Inr () else f s)"

definition validateInboxNotificationRequest :: "InboxNotificationTriggerRequest \<Rightarrow> int \<Rightarrow> unit parsed" where
  "validateInboxNotificationRequest request maxBytes =
    andThen (ValidateConnectionID (inq_ID request)) (\<lambda>_.
    andThen (ValidateConnectionID (inq_UserID request)) (\<lambda>_.
    andThen (validateNotificationKind (inq_Kind request)) (\<lambda>_.
    andThen (check_if (inq_SubjectID request) ValidateConnectionID) (\<lambda>_.
    andThen (check_if (inq_ThreadID request) ValidateConnectionID) (\<lambda>_.
    andThen (check_if (inq_RoomID request) ValidateRoomName) (\<lambda>_.
    validateActivityData (inq_ActivityData request) True maxBytes))))))"

definition validateRoomSubscriptionSettingsRequest :: "RoomSubscriptionSettingsRequest \<Rightarrow> unit parsed" where
  "validateRoomSubscriptionSettingsRequest request =
    (if rsq_Threads request \<noteq> [] \<and> rsq_Threads request \<notin> set [''all'', ''replies_and_mentions'', ''none'']
     then bad_request ''threads must be all, replies_and_mentions, or none''
     else if rsq_TextMentions request \<noteq> [] \<and> rsq_TextMentions request \<notin> set [''mine'', ''none'']
     then bad_request ''textMentions must be mine or none''
     else Inr ())"

subsection \<open>Records and updates\<close>

definition normalizedMetadata :: "bytes \<Rightarrow> bytes" where
  "normalizedMetadata metadata = (if metadata = [] then ''{}'' else metadata)"

definition no_access :: "access_map option \<Rightarrow> access_map" where
  "no_access m = (case m of None \<Rightarrow> fmempty | Some a \<Rightarrow> a)"

definition commentRecordFromRequest ::
  "room_id \<Rightarrow> string \<Rightarrow> CommentCreateRequest \<Rightarrow> CommentRecord" where
  "commentRecordFromRequest room threadID request =
    \<lparr>cr_Type = [], cr_ThreadID = threadID, cr_RoomID = room, cr_ID = ccq_ID request,
     cr_UserID = ccq_UserID request, cr_CreatedAt = zero_time, cr_EditedAt = None, cr_DeletedAt = None,
     cr_Body = normalizedMetadata (ccq_Body request), cr_Metadata = normalizedMetadata (ccq_Metadata request),
     cr_Mentions = items (ccq_Mentions request), cr_Reactions = items (ccq_Reactions request)\<rparr>"

definition commentUpdateFromRequest :: "CommentUpdateRequest \<Rightarrow> CommentUpdate" where
  "commentUpdateFromRequest request =
    (let u = no_comment_update;
         u = (case cuq_Body request of None \<Rightarrow> u
              | Some b \<Rightarrow> u\<lparr>cu_Body := normalizedMetadata b, cu_BodySet := True\<rparr>);
         u = (case cuq_Metadata request of None \<Rightarrow> u
              | Some m \<Rightarrow> u\<lparr>cu_Metadata := normalizedMetadata m, cu_MetadataSet := True\<rparr>);
         u = (case cuq_Mentions request of None \<Rightarrow> u
              | Some m \<Rightarrow> u\<lparr>cu_Mentions := items m, cu_MentionsSet := True\<rparr>)
     in case cuq_Reactions request of None \<Rightarrow> u
        | Some rs \<Rightarrow> u\<lparr>cu_Reactions := items rs, cu_ReactionsSet := True\<rparr>)"

definition threadUpdateFromRequest :: "ThreadUpdateRequest \<Rightarrow> ThreadUpdate" where
  "threadUpdateFromRequest request =
    (let u = no_thread_update;
         u = (case tuq_Metadata request of None \<Rightarrow> u
              | Some m \<Rightarrow> u\<lparr>tu_Metadata := normalizedMetadata m, tu_MetadataSet := True\<rparr>)
     in case tuq_Resolved request of None \<Rightarrow> u
        | Some b \<Rightarrow> u\<lparr>tu_Resolved := b, tu_ResolvedSet := True\<rparr>)"

end
