(* ===== verification/Go_Float.thy ===== *)
theory Go_Float
  imports Go_Url
begin

text \<open>
  \<open>strconv.ParseFloat (s, 64)\<close>: the syntax of floating-point literals and the nearest
  64-bit float. A finite float is \<open>m * 2 ^ e\<close> in the only form with \<open>|m| < 2 ^ 53\<close>,
  \<open>e \<ge> -1074\<close> and \<open>|m| \<ge> 2 ^ 52\<close> unless \<open>e = -1074\<close>; the two zeros, which compare equal, are
  the same value here.
\<close>

datatype float64 = NotANumber | Infinite bool | Finite int int

text \<open>\<open>==\<close> on floats.\<close>

definition f64_eq :: "float64 \<Rightarrow> float64 \<Rightarrow> bool" where
  "f64_eq x y \<longleftrightarrow> x \<noteq> NotANumber \<and> x = y"

subsection \<open>Rounding\<close>

fun bits :: "nat \<Rightarrow> nat" where
  "bits n = (if n = 0 then 0 else Suc (bits (n div 2)))"

declare bits.simps [simp del]

text \<open>The exponent of the highest bit of \<open>n / d\<close>.\<close>

definition top_bit :: "nat \<Rightarrow> nat \<Rightarrow> int" where
  "top_bit n d =
    (let e = int (bits n) - int (bits d) in
     if d * 2 ^ nat e \<le> n * 2 ^ nat (- e) then e else e - 1)"

text \<open>\<open>n / d\<close> divided by \<open>2 ^ k\<close>, rounded to the nearest integer, ties to the even one.\<close>

definition round_scaled :: "nat \<Rightarrow> nat \<Rightarrow> int \<Rightarrow> nat" where
  "round_scaled n d k =
    (let a = n * 2 ^ nat (- k); b = d * 2 ^ nat k; q = a div b; r = a mod b in
     if 2 * r > b \<or> 2 * r = b \<and> odd q then q + 1 else q)"

text \<open>None when the result is out of range.\<close>

definition f64_round :: "nat \<Rightarrow> nat \<Rightarrow> (nat \<times> int) option" where
  "f64_round n d =
    (if n = 0 then Some (0, -1074)
     else
       (let k = max (-1074) (top_bit n d - 52);
            q = round_scaled n d k;
            (m, e) = (if q = 2 ^ 53 then (2 ^ 52, k + 1) else (q, k))
        in if e > 971 then None else Some (m, e)))"

subsection \<open>Syntax\<close>

definition digit_in :: "bool \<Rightarrow> char \<Rightarrow> nat option" where
  "digit_in hex c =
    (if in_range 0x30 0x39 c then Some (byte c - 0x30)
     else if hex \<and> in_range 0x61 0x66 c then Some (byte c - 0x57)
     else if hex \<and> in_range 0x41 0x46 c then Some (byte c - 0x37)
     else None)"

text \<open>
  The digits as a number, how many of them come after the point, whether there was a digit,
  and what follows. Underscores are skipped; where they may stand is checked at the end.
\<close>

fun scan_mantissa :: "bool \<Rightarrow> nat \<Rightarrow> nat \<Rightarrow> bool \<Rightarrow> bool \<Rightarrow> string \<Rightarrow> nat \<times> nat \<times> bool \<times> string" where
  "scan_mantissa hex n places dot digits [] = (n, places, digits, [])"
| "scan_mantissa hex n places dot digits (c # s) =
    (if c = CHR ''_'' then scan_mantissa hex n places dot digits s
     else if c = CHR ''.'' then
       (if dot then (n, places, digits, c # s) else scan_mantissa hex n places True digits s)
     else case digit_in hex c of
            None \<Rightarrow> (n, places, digits, c # s)
          | Some v \<Rightarrow>
              scan_mantissa hex ((if hex then 16 else 10) * n + v) (if dot then Suc places else places) dot True s)"

text \<open>The digits of an exponent, which stops growing beyond 10000; None for another byte.\<close>

fun scan_exponent :: "nat \<Rightarrow> string \<Rightarrow> nat option" where
  "scan_exponent e [] = Some e"
| "scan_exponent e (c # s) =
    (if c = CHR ''_'' then scan_exponent e s
     else case digit_in False c of
            None \<Rightarrow> None
          | Some v \<Rightarrow> scan_exponent (if e < 10000 then 10 * e + v else e) s)"

definition cut_sign :: "string \<Rightarrow> bool \<times> string" where
  "cut_sign s =
    (case s of [] \<Rightarrow> (False, []) | c # r \<Rightarrow>
       if c = CHR ''-'' then (True, r) else if c = CHR ''+'' then (False, r) else (False, s))"

definition exponent_part :: "bool \<Rightarrow> string \<Rightarrow> int option" where
  "exponent_part hex s =
    (case s of
       [] \<Rightarrow> if hex then None else Some 0
     | c # r \<Rightarrow>
         if to_lower [c] \<noteq> (if hex then ''p'' else ''e'') then None
         else (let (neg, ds) = cut_sign r in
               if ds = [] \<or> digit_in False (hd ds) = None then None
               else map_option (\<lambda>e. if neg then - int e else int e) (scan_exponent 0 ds)))"

fun underscores_from :: "bool \<Rightarrow> bool \<Rightarrow> bool \<Rightarrow> string \<Rightarrow> bool" where
  "underscores_from hex digit underscore [] = (\<not> underscore)"
| "underscores_from hex digit underscore (c # s) =
    (if digit_in hex c \<noteq> None then underscores_from hex True False s
     else if c = CHR ''_'' then digit \<and> underscores_from hex False True s
     else \<not> underscore \<and> underscores_from hex False False s)"

definition hex_prefix :: "string \<Rightarrow> bool" where
  "hex_prefix s \<longleftrightarrow> to_lower (take 2 s) = ''0x''"

definition underscoreOK :: "string \<Rightarrow> bool" where
  "underscoreOK s =
    (let u = snd (cut_sign s) in
     if to_lower (take 2 u) \<in> set [''0x'', ''0b'', ''0o'']
     then underscores_from (hex_prefix u) True False (drop 2 u)
     else underscores_from False False False u)"

definition scaled :: "bool \<Rightarrow> nat \<Rightarrow> nat \<Rightarrow> int \<Rightarrow> nat \<times> nat" where
  "scaled hex n places e =
    (if hex then (let k = e - 4 * int places in (n * 2 ^ nat k, 2 ^ nat (- k)))
     else (let k = e - int places in (n * 10 ^ nat k, 10 ^ nat (- k))))"

definition ParseFloat :: "string \<Rightarrow> float64 option" where
  "ParseFloat s =
    (let (neg, u) = cut_sign s in
     if to_lower u = ''inf'' \<or> to_lower u = ''infinity'' then Some (Infinite neg)
     else if to_lower s = ''nan'' then Some NotANumber
     else
       (let hex = (hex_prefix u \<and> length u > 2);
            (n, places, digits, rest) = scan_mantissa hex 0 0 False False (if hex then drop 2 u else u)
        in if \<not> digits then None
           else case exponent_part hex rest of
                  None \<Rightarrow> None
                | Some e \<Rightarrow>
                    if CHR ''_'' \<in> set s \<and> \<not> underscoreOK s then None
                    else map_option (\<lambda>(m, k). Finite (if neg then - int m else int m) k)
                           (let (a, b) = scaled hex n places e in f64_round a b)))"

end
