(* ===== verification/Admin_Query.thy ===== *)
theory Admin_Query
  imports Admin_Paths Go_Float
begin

text \<open>
  The query language of the room and thread lists: clauses \<open>field:value\<close> separated by white
  space, how they are parsed and which records they match, and the pages of a thread list.
\<close>

definition maxRoomListQueryBytes :: int where "maxRoomListQueryBytes = 1024"
definition maxRoomListQueryClauses :: int where "maxRoomListQueryClauses = 20"
definition maxRoomListQueryPathDepth :: int where "maxRoomListQueryPathDepth = 8"
definition maxRoomListQueryPathKeyBytes :: int where "maxRoomListQueryPathKeyBytes = 64"

text \<open>The \<open>any\<close> that a clause compares with; QNull is nil.\<close>

datatype query_value = QString string | QNumber float64 | QBool bool | QNull

text \<open>A clause has the fields that its kind uses. A metadata value of None asks for existence.\<close>

datatype roomListQueryClause =
    IDContains string
  | RoomMetadata "string list" "query_value option"

datatype threadListQueryClause =
    ThreadResolved bool
  | ThreadUnread bool
  | ThreadMetadata "string list" "query_value option"

type_synonym roomListQuery = "roomListQueryClause list"
type_synonym threadListQuery = "threadListQueryClause list"

subsection \<open>Splitting\<close>

definition isRoomQuerySpace :: "char \<Rightarrow> bool" where
  "isRoomQuerySpace ch \<longleftrightarrow> ch = CHR '' '' \<or> ch = CHR 0x09 \<or> ch = CHR 0x0A \<or> ch = CHR 0x0D"

text \<open>
  The parts so far, the part that is being read (None between parts), whether it is inside
  quotes and whether the next byte is escaped.
\<close>

fun split_loop ::
  "string list \<Rightarrow> string option \<Rightarrow> bool \<Rightarrow> bool \<Rightarrow> string \<Rightarrow> string list \<times> string option \<times> bool \<times> bool" where
  "split_loop parts part inQuote escaped [] = (parts, part, inQuote, escaped)"
| "split_loop parts part inQuote escaped (ch # raw) =
    (if part = None \<and> isRoomQuerySpace ch then split_loop parts part inQuote escaped raw
     else
       (let read = (case part of None \<Rightarrow> [] | Some p \<Rightarrow> p) in
        if escaped then split_loop parts (Some (read @ [ch])) inQuote False raw
        else if ch = backslash_c \<and> inQuote then split_loop parts (Some (read @ [ch])) inQuote True raw
        else if ch = quote_c then split_loop parts (Some (read @ [ch])) (\<not> inQuote) escaped raw
        else if isRoomQuerySpace ch \<and> \<not> inQuote then split_loop (parts @ [read]) None inQuote escaped raw
        else split_loop parts (Some (read @ [ch])) inQuote escaped raw))"

definition splitRoomListQuery :: "string \<Rightarrow> string list parsed" where
  "splitRoomListQuery raw =
    (let (parts, part, inQuote, escaped) = split_loop [] None False False raw in
     if escaped \<or> inQuote then bad_request ''room query contains an unterminated quoted value''
     else
       (let parts = (case part of None \<Rightarrow> parts | Some p \<Rightarrow> parts @ [p]) in
        if parts = [] then bad_request ''room query must include at least one clause'' else Inr parts))"

subsection \<open>Clauses\<close>

definition parseRoomQueryStringValue :: "string \<Rightarrow> string parsed" where
  "parseRoomQueryStringValue raw =
    (if raw = ''*'' then bad_request ''id room query does not support wildcard exists''
     else if prefix [quote_c] raw then
       (case decode_text [] raw of
          None \<Rightarrow> bad_request ''room query string value must be valid JSON string syntax''
        | Some v \<Rightarrow> if v = [] then bad_request ''room query string value must not be empty'' else Inr v)
     else Inr raw)"

definition parseRoomQueryScalarValue :: "string \<Rightarrow> query_value parsed" where
  "parseRoomQueryScalarValue raw =
    (if prefix [quote_c] raw then
       (case decode_text [] raw of
          None \<Rightarrow> bad_request ''room query string value must be valid JSON string syntax''
        | Some v \<Rightarrow> Inr (QString v))
     else if raw = ''true'' then Inr (QBool True)
     else if raw = ''false'' then Inr (QBool False)
     else if raw = ''null'' then Inr QNull
     else if prefix ''{'' raw \<or> prefix ''['' raw then bad_request ''room query values must be scalar''
     else case ParseFloat raw of Some number \<Rightarrow> Inr (QNumber number) | None \<Rightarrow> Inr (QString raw))"

definition path_key_char :: "char \<Rightarrow> bool" where
  "path_key_char c \<longleftrightarrow>
    in_range 0x61 0x7A c \<or> in_range 0x41 0x5A c \<or> in_range 0x30 0x39 c \<or> c = CHR ''_'' \<or> c = CHR ''-''"

definition isRoomQueryPathKey :: "string \<Rightarrow> bool" where
  "isRoomQueryPathKey key \<longleftrightarrow>
    key \<noteq> [] \<and> len key \<le> maxRoomListQueryPathKeyBytes \<and> list_all path_key_char key"

definition validateRoomQueryMetadataPath :: "string list \<Rightarrow> string list parsed" where
  "validateRoomQueryMetadataPath path =
    (if path = [] \<or> len path > maxRoomListQueryPathDepth
     then bad_request ''metadata query path depth must be between 1 and 8''
     else if \<not> list_all isRoomQueryPathKey path
     then bad_request ''metadata query path keys must be 1-64 characters using letters, numbers, underscore, or dash''
     else Inr path)"

definition bracket_open :: string where "bracket_open = [CHR ''['', quote_c]"
definition bracket_close :: string where "bracket_close = [quote_c, CHR '']'']"

lemma cut_text_length: "cut_text sep s = Some (before, behind) \<Longrightarrow> length before + length sep + length behind = length s"
proof (induction sep s arbitrary: before behind rule: cut_text.induct)
  case (1 sep s)
  then show ?case
    by (subst (asm) (2) cut_text.simps)
       (fastforce simp: prefix_def split: if_split_asm list.split_asm)
qed

text \<open>The keys of \<open>["a"]["b"]\<close>; None for another syntax.\<close>

function bracket_path :: "string \<Rightarrow> string list option" where
  "bracket_path rest =
    (if rest = [] then Some []
     else if \<not> prefix bracket_open rest then None
     else case cut_text bracket_close (drop (length bracket_open) rest) of
            None \<Rightarrow> None
          | Some (key, behind) \<Rightarrow> map_option (\<lambda>path. key # path) (bracket_path behind))"
  by pat_completeness auto
termination
  by (relation "measure length") (auto simp: bracket_open_def bracket_close_def dest!: cut_text_length)

declare bracket_path.simps [simp del]

definition parseRoomQueryBracketPath :: "string \<Rightarrow> string list parsed" where
  "parseRoomQueryBracketPath raw =
    (case bracket_path (trim_prefix ''metadata'' raw) of
       None \<Rightarrow> bad_request (''metadata bracket paths must use metadata['' @ quote_c # ''key'' @ quote_c # ''] syntax'')
     | Some path \<Rightarrow> validateRoomQueryMetadataPath path)"

text \<open>\<open>parseRoomQueryMetadataPath\<close> and \<open>parseThreadQueryMetadataPath\<close> differ in the last message.\<close>

definition metadata_path :: "string \<Rightarrow> string \<Rightarrow> string list parsed" where
  "metadata_path failure raw =
    (if prefix ''metadata.'' raw
     then validateRoomQueryMetadataPath (split_on (CHR ''.'') (drop (length ''metadata.'') raw))
     else if prefix ''metadata['' raw then parseRoomQueryBracketPath raw
     else bad_request failure)"

definition parseRoomQueryMetadataPath :: "string \<Rightarrow> string list parsed" where
  "parseRoomQueryMetadataPath = metadata_path ''room query fields must be id or metadata paths''"

definition parseThreadQueryMetadataPath :: "string \<Rightarrow> string list parsed" where
  "parseThreadQueryMetadataPath =
    metadata_path ''thread query fields must be resolved, unread, or metadata paths''"

definition field_and_value :: "string \<Rightarrow> string \<Rightarrow> (string \<times> string) parsed" where
  "field_and_value failure raw =
    (case cut (CHR '':'') raw of
       (field, Some v) \<Rightarrow> if field = [] \<or> v = [] then bad_request failure else Inr (field, v)
     | (_, None) \<Rightarrow> bad_request failure)"

definition metadata_value :: "string \<Rightarrow> query_value option parsed" where
  "metadata_value v =
    (if v = ''*'' then Inr None else andThen (parseRoomQueryScalarValue v) (\<lambda>parsed. Inr (Some parsed)))"

definition parseRoomListQueryClause :: "string \<Rightarrow> roomListQueryClause parsed" where
  "parseRoomListQueryClause raw =
    andThen (field_and_value ''room query clauses must use field:value'' raw) (\<lambda>(field, v).
     if field = ''id'' then andThen (parseRoomQueryStringValue v) (\<lambda>idValue. Inr (IDContains idValue))
     else andThen (parseRoomQueryMetadataPath field) (\<lambda>path.
       andThen (metadata_value v) (\<lambda>parsed. Inr (RoomMetadata path parsed))))"

text \<open>The value of \<open>resolved\<close> and \<open>unread\<close>.\<close>

definition bool_clause :: "string \<Rightarrow> string \<Rightarrow> bool parsed" where
  "bool_clause field v =
    (if v = ''*'' then bad_request (field @ '' thread query does not support wildcard exists'')
     else andThen (parseRoomQueryScalarValue v) (\<lambda>parsed.
       case parsed of
         QBool b \<Rightarrow> Inr b
       | _ \<Rightarrow> bad_request (field @ '' thread query value must be true or false'')))"

definition parseThreadListQueryClause :: "string \<Rightarrow> threadListQueryClause parsed" where
  "parseThreadListQueryClause raw =
    andThen (field_and_value ''thread query clauses must use field:value'' raw) (\<lambda>(field, v).
     if field = ''resolved'' then andThen (bool_clause ''resolved'' v) (\<lambda>b. Inr (ThreadResolved b))
     else if field = ''unread'' then andThen (bool_clause ''unread'' v) (\<lambda>b. Inr (ThreadUnread b))
     else andThen (parseThreadQueryMetadataPath field) (\<lambda>path.
       andThen (metadata_value v) (\<lambda>parsed. Inr (ThreadMetadata path parsed))))"

fun parse_clauses :: "(string \<Rightarrow> 'c parsed) \<Rightarrow> string list \<Rightarrow> 'c list parsed" where
  "parse_clauses parse [] = Inr []"
| "parse_clauses parse (part # parts) =
    andThen (parse part) (\<lambda>clause. andThen (parse_clauses parse parts) (\<lambda>clauses. Inr (clause # clauses)))"

text \<open>The empty query has no clauses.\<close>

definition parse_query :: "string \<Rightarrow> (string \<Rightarrow> 'c parsed) \<Rightarrow> string \<Rightarrow> 'c list parsed" where
  "parse_query kind parse raw =
    (let raw = trim_space raw in
     if raw = [] then Inr []
     else if len raw > maxRoomListQueryBytes then bad_request (kind @ '' query must be at most 1024 bytes'')
     else andThen (splitRoomListQuery raw) (\<lambda>parts.
       if len parts > maxRoomListQueryClauses
       then bad_request (kind @ '' query supports at most 20 clauses'')
       else parse_clauses parse parts))"

definition parseRoomListQuery :: "string \<Rightarrow> roomListQuery parsed" where
  "parseRoomListQuery = parse_query ''room'' parseRoomListQueryClause"

definition parseThreadListQuery :: "string \<Rightarrow> threadListQuery parsed" where
  "parseThreadListQuery = parse_query ''thread'' parseThreadListQueryClause"

subsection \<open>Matching\<close>

text \<open>A number beyond the floats makes the decoding of the whole metadata fail.\<close>

fun numbers_ok :: "json_syntax \<Rightarrow> bool" where
  "numbers_ok (SNum t) \<longleftrightarrow> ParseFloat t \<noteq> None"
| "numbers_ok (SArr vs) \<longleftrightarrow> list_all numbers_ok vs"
| "numbers_ok (SObj ms) \<longleftrightarrow> list_all (\<lambda>m. numbers_ok (snd m)) ms"
| "numbers_ok _ \<longleftrightarrow> True"

fun value_at :: "string list \<Rightarrow> json \<Rightarrow> json option" where
  "value_at [] current = Some current"
| "value_at (key # path) current =
    (case current of
       JObj members \<Rightarrow> (case map_of members key of None \<Rightarrow> None | Some v \<Rightarrow> value_at path v)
     | _ \<Rightarrow> None)"

definition roomMetadataValue :: "bytes \<Rightarrow> string list \<Rightarrow> json option" where
  "roomMetadataValue metadata path =
    (case parse_json metadata of
       None \<Rightarrow> None
     | Some v \<Rightarrow> if numbers_ok v then value_at path (value_of v) else None)"

definition roomQueryScalarEqual :: "json \<Rightarrow> query_value \<Rightarrow> bool" where
  "roomQueryScalarEqual actual expected =
    (case (actual, expected) of
       (JStr a, QString e) \<Rightarrow> a = e
     | (JNum t, QNumber e) \<Rightarrow> (case ParseFloat t of None \<Rightarrow> False | Some a \<Rightarrow> f64_eq a e)
     | (JBool a, QBool e) \<Rightarrow> a = e
     | (JNull, QNull) \<Rightarrow> True
     | _ \<Rightarrow> False)"

definition metadata_matches :: "bytes \<Rightarrow> string list \<Rightarrow> query_value option \<Rightarrow> bool" where
  "metadata_matches metadata path expected =
    (case roomMetadataValue metadata path of
       None \<Rightarrow> False
     | Some v \<Rightarrow> (case expected of None \<Rightarrow> True | Some e \<Rightarrow> roomQueryScalarEqual v e))"

fun contains_text :: "string \<Rightarrow> string \<Rightarrow> bool" where
  "contains_text needle s =
    (prefix needle s \<or> (case s of [] \<Rightarrow> False | _ # r \<Rightarrow> contains_text needle r))"

declare contains_text.simps [simp del]

fun roomListQueryClause_Matches :: "roomListQueryClause \<Rightarrow> RoomRecord \<Rightarrow> bool" where
  "roomListQueryClause_Matches (IDContains part) room = contains_text part (rr_ID room)"
| "roomListQueryClause_Matches (RoomMetadata path expected) room =
    metadata_matches (rr_Metadata room) path expected"

fun threadListQueryClause_Matches :: "threadListQueryClause \<Rightarrow> ThreadRecord \<Rightarrow> bool" where
  "threadListQueryClause_Matches (ThreadResolved b) thread = (tr_Resolved thread = b)"
| "threadListQueryClause_Matches (ThreadUnread b) thread = (tr_Unread thread = Some b)"
| "threadListQueryClause_Matches (ThreadMetadata path expected) thread =
    metadata_matches (tr_Metadata thread) path expected"

definition roomListQuery_Active :: "roomListQuery \<Rightarrow> bool" where
  "roomListQuery_Active q \<longleftrightarrow> q \<noteq> []"

definition roomListQuery_Matches :: "roomListQuery \<Rightarrow> RoomRecord \<Rightarrow> bool" where
  "roomListQuery_Matches q room \<longleftrightarrow> list_all (\<lambda>c. roomListQueryClause_Matches c room) q"

definition threadListQuery_Active :: "threadListQuery \<Rightarrow> bool" where
  "threadListQuery_Active q \<longleftrightarrow> q \<noteq> []"

definition threadListQuery_NeedsReadState :: "threadListQuery \<Rightarrow> bool" where
  "threadListQuery_NeedsReadState q \<longleftrightarrow> list_ex (\<lambda>c. case c of ThreadUnread _ \<Rightarrow> True | _ \<Rightarrow> False) q"

definition threadListQuery_Matches :: "threadListQuery \<Rightarrow> ThreadRecord \<Rightarrow> bool" where
  "threadListQuery_Matches q thread \<longleftrightarrow> list_all (\<lambda>c. threadListQueryClause_Matches c thread) q"

subsection \<open>Lists of threads\<close>

definition filterThreads :: "ThreadRecord list \<Rightarrow> threadListQuery \<Rightarrow> ThreadRecord list" where
  "filterThreads threads query =
    (if \<not> threadListQuery_Active query then threads else filter (threadListQuery_Matches query) threads)"

text \<open>The page at a cursor and the next cursor, 0 at the end.\<close>

definition paginateThreads :: "ThreadRecord list \<Rightarrow> u64 \<Rightarrow> int \<Rightarrow> ThreadRecord list \<times> u64" where
  "paginateThreads threads cursor limit =
    (if uint cursor \<ge> len threads then ([], 0)
     else
       (let start = unat cursor; stop = start + nat limit in
        if limit \<le> 0 then (drop start threads, 0)
        else if stop \<ge> length threads then (drop start threads, 0)
        else (take (nat limit) (drop start threads), of_nat stop)))"

subsection \<open>Lists of rooms\<close>

text \<open>
  The loop of \<open>listRooms\<close>: pages of the store from \<open>scanCursor\<close> on, of which the matching
  rooms are kept until there are \<open>limit\<close> of them, which is at least 1. None: the cursors of the
  store never end.
\<close>

partial_function (option) scan_rooms ::
  "(u64 \<Rightarrow> go_error + RoomList) \<Rightarrow> (RoomRecord \<Rightarrow> bool) \<Rightarrow> nat \<Rightarrow> RoomRecord list \<Rightarrow> u64
     \<Rightarrow> (go_error + RoomList) option" where
  "scan_rooms page matching limit found scanCursor =
    (case page scanCursor of
       Inl err \<Rightarrow> Some (Inl err)
     | Inr l \<Rightarrow>
         (let found = found @ take (limit - length found) (filter matching (rl_Rooms l));
              nextCursor = rl_NextCursor l
          in if length found \<ge> limit \<or> nextCursor = 0 \<or> nextCursor = scanCursor
             then Some (Inr \<lparr>rl_Rooms = found, rl_NextCursor = nextCursor\<rparr>)
             else scan_rooms page matching limit found nextCursor))"

definition listRooms ::
  "'st AdminStore \<Rightarrow> 'st \<Rightarrow> string \<Rightarrow> u64 \<Rightarrow> int \<Rightarrow> roomListQuery \<Rightarrow> (go_error + RoomList) option" where
  "listRooms store st pre cursor limit query =
    (if \<not> roomListQuery_Active query then Some (as_ListRooms store st pre cursor limit)
     else scan_rooms (\<lambda>c. as_ListRooms store st pre c limit) (roomListQuery_Matches query)
            (nat limit) [] cursor)"

end
