(* ===== verification/Admin_Webhooks.thy ===== *)
theory Admin_Webhooks
  imports Admin_Paths Go_Sha256
begin

text \<open>
  Signed webhooks (\<open>admin/webhooks.go\<close>): delivery of an event to every configured URL, the
  record that the store keeps of each delivery, its retries with growing delays and its end
  as delivered or dead. Log lines are left out, and so are the bodies of answers.
\<close>

definition webhookUserAgent :: string where
  "webhookUserAgent = ''OpenRTC-Webhooks'' @ [slash] @ ''1''"

text \<open>An interval in nanoseconds.\<close>

definition webhookRetryWorkerInterval :: int where "webhookRetryWorkerInterval = 30 * second"

subsection \<open>Signatures\<close>

text \<open>HMAC (RFC 2104) with SHA-256, whose blocks have 64 bytes.\<close>

definition xor_bytes :: "nat \<Rightarrow> bytes \<Rightarrow> bytes" where
  "xor_bytes pad key = map (\<lambda>c. chr (unat ((of_nat (byte c) :: 8 word) XOR of_nat pad))) key"

definition hmac_key :: "bytes \<Rightarrow> bytes" where
  "hmac_key key = (let k = (if length key > 64 then sha256 key else key) in k @ replicate (64 - length k) (CHR 0x00))"

definition hmac_sha256 :: "bytes \<Rightarrow> bytes \<Rightarrow> bytes" where
  "hmac_sha256 key message =
    sha256 (xor_bytes 0x5C (hmac_key key) @ sha256 (xor_bytes 0x36 (hmac_key key) @ message))"

definition signWebhookPayload :: "string \<Rightarrow> string \<Rightarrow> bytes \<Rightarrow> string" where
  "signWebhookPayload secret timestamp body = hex_encode (hmac_sha256 secret (timestamp @ ''.'' @ body))"

subsection \<open>Deliveries\<close>

definition webhookStatusError :: "int \<Rightarrow> message_text" where
  "webhookStatusError code = Text (''webhook endpoint returned HTTP '' @ format_int code)"

definition webhookRetryDelay :: "int \<Rightarrow> int" where
  "webhookRetryDelay attempts = 2 ^ nat (min 6 (max 1 attempts) - 1) * (60 * second)"

text \<open>What an attempt makes of the record of a delivery.\<close>

definition attempted :: "gtime \<Rightarrow> int \<Rightarrow> message_text option \<Rightarrow> WebhookDeliveryRecord \<Rightarrow> WebhookDeliveryRecord" where
  "attempted now statusCode deliveryErr rec =
    (let rec = rec\<lparr>wd_Attempts := wd_Attempts rec + 1, wd_LastStatusCode := statusCode, wd_UpdatedAt := now\<rparr>
     in case deliveryErr of
          Some err \<Rightarrow>
            (let rec = rec\<lparr>wd_Status := ''failed'', wd_LastError := err,
                           wd_NextAttemptAt := Some (now + webhookRetryDelay (wd_Attempts rec))\<rparr>
             in if wd_Attempts rec \<ge> 10 then rec\<lparr>wd_Status := ''dead'', wd_NextAttemptAt := None\<rparr> else rec)
        | None \<Rightarrow> rec\<lparr>wd_Status := ''delivered'', wd_LastError := Text [], wd_NextAttemptAt := None\<rparr>)"

definition updateWebhookDeliveryRecord ::
  "(WebhookDeliveryRecord \<Rightarrow> ('st, WebhookDeliveryRecord) store_op) option \<Rightarrow> WebhookDeliveryRecord
     \<Rightarrow> int \<Rightarrow> message_text option \<Rightarrow> 'st Admin \<Rightarrow> WebhookDeliveryRecord \<times> 'st Admin" where
  "updateWebhookDeliveryRecord store rec statusCode deliveryErr s =
    (case store of
       None \<Rightarrow> (rec, s)
     | Some updateDelivery \<Rightarrow>
         (let rec = attempted (ad_now s) statusCode deliveryErr rec in
          case updateDelivery rec (ad_storeState s) of
            (Inl _, st) \<Rightarrow> (rec, s\<lparr>ad_storeState := st\<rparr>)
          | (Inr updated, st) \<Rightarrow> (updated, s\<lparr>ad_storeState := st\<rparr>)))"

text \<open>
  \<open>http.Client\<close>, which follows redirects: 301, 302 and 303 are followed with a GET without a
  body, 307 and 308 with the same method and the body of the first request; the headers of the
  first request are sent again (none of them is one that the client keeps from other hosts; the
  Referer that it may add is left out). After ten requests it gives up.
\<close>

definition redirect_status :: "int \<Rightarrow> bool" where
  "redirect_status status \<longleftrightarrow> status \<in> {301, 302, 303, 307, 308}"

definition redirected :: "int \<Rightarrow> string \<Rightarrow> WebhookPost \<Rightarrow> WebhookPost \<Rightarrow> WebhookPost" where
  "redirected status url first_request request =
    (if status \<in> {307, 308}
     then \<lparr>wp_Method = wp_Method request, wp_URL = url, wp_Header = wp_Header first_request, wp_Body = wp_Body first_request\<rparr>
     else \<lparr>wp_Method = (if wp_Method request \<in> {''GET'', ''HEAD''} then wp_Method request else ''GET''), wp_URL = url,
           wp_Header = wp_Header first_request, wp_Body = []\<rparr>)"

definition too_many_redirects :: go_error where "too_many_redirects = ErrText ''stopped after 10 redirects''"
definition bad_location :: go_error where "bad_location = ErrText ''failed to parse Location header''"

text \<open>The requests are kept in their order, and each takes the next answer of the environment.\<close>

fun send_requests :: "nat \<Rightarrow> WebhookPost \<Rightarrow> WebhookPost \<Rightarrow> 'st Admin \<Rightarrow> (go_error + int) \<times> 'st Admin" where
  "send_requests 0 first_request request s = (Inl too_many_redirects, s)"
| "send_requests (Suc n) first_request request s =
    (let outcome = ad_outcomes s (length (ad_posts s)); s = s\<lparr>ad_posts := ad_posts s @ [request]\<rparr> in
     case outcome of
       Unsent err \<Rightarrow> (Inl err, s)
     | Answered status target \<Rightarrow>
         if \<not> redirect_status status then (Inr status, s)
         else case target of
                NoLocation \<Rightarrow> (Inr status, s)
              | BadLocation \<Rightarrow> (Inl bad_location, s)
              | Leads url \<Rightarrow> send_requests n first_request (redirected status url first_request request) s)"

definition client_Do :: "WebhookPost \<Rightarrow> 'st Admin \<Rightarrow> (go_error + int) \<times> 'st Admin" where
  "client_Do post s = send_requests 10 post post s"

definition unix_text :: "gtime \<Rightarrow> string" where
  "unix_text now = format_int (now div second)"

definition webhook_post :: "string \<Rightarrow> gtime \<Rightarrow> WebhookDeliveryRecord \<Rightarrow> WebhookPost" where
  "webhook_post secret now delivery =
    \<lparr>wp_Method = ''POST'', wp_URL = wd_URL delivery,
     wp_Header =
       [(''Content-Type'', ''application'' @ [slash] @ ''json''), (''User-Agent'', webhookUserAgent),
        (''OpenRTC-Webhook-Id'', wd_WebhookID delivery), (''OpenRTC-Webhook-Event'', wd_Event delivery),
        (''OpenRTC-Webhook-Timestamp'', unix_text now),
        (''OpenRTC-Webhook-Signature'', ''v1='' @ signWebhookPayload secret (unix_text now) (wd_Payload delivery))],
     wp_Body = wd_Payload delivery\<rparr>"

definition bad_url :: message_text where
  "bad_url = Error_of (ErrText ''net/url: parse'')"

text \<open>
  One attempt, with what is recorded of it. A URL that \<open>net/url\<close> does not parse makes no
  request.
\<close>

definition attempt_delivery :: "WebhookPost \<Rightarrow> 'st Admin \<Rightarrow> (int \<times> message_text option) \<times> 'st Admin" where
  "attempt_delivery post s =
    (if url_parse (wp_URL post) = None then ((0, Some bad_url), s)
     else case client_Do post s of
            (Inl err, s) \<Rightarrow> ((0, Some (Error_of err)), s)
          | (Inr status, s) \<Rightarrow>
              if status < 200 \<or> status \<ge> 300
              then ((status, Some (webhookStatusError status)), s)
              else ((status, None), s))"

subsection \<open>Dispatch\<close>

definition webhook_envelope :: "string \<Rightarrow> string \<Rightarrow> gtime \<Rightarrow> string \<Rightarrow> string" where
  "webhook_envelope webhookID eventName now data =
    object_text [(''id'', quote_text webhookID), (''event'', quote_text eventName),
      (''createdAt'', quote_text (format_time now)), (''data'', data)]"

definition pending_delivery :: "string \<Rightarrow> string \<Rightarrow> string \<Rightarrow> string \<Rightarrow> bytes \<Rightarrow> gtime \<Rightarrow> WebhookDeliveryRecord" where
  "pending_delivery deliveryID webhookID eventName url body now =
    \<lparr>wd_ID = deliveryID, wd_WebhookID = webhookID, wd_Event = eventName, wd_URL = url,
     wd_Status = ''pending'', wd_Attempts = 0, wd_LastStatusCode = 0, wd_LastError = Text [],
     wd_Payload = body, wd_CreatedAt = now, wd_UpdatedAt = now, wd_NextAttemptAt = None\<rparr>"

definition create_delivery ::
  "'st webhookDeliveryStore option \<Rightarrow> WebhookDeliveryRecord \<Rightarrow> 'st Admin \<Rightarrow> WebhookDeliveryRecord \<times> 'st Admin" where
  "create_delivery store delivery s =
    (case store of
       None \<Rightarrow> (delivery, s)
     | Some ds \<Rightarrow>
         (case ws_CreateWebhookDelivery ds delivery (ad_storeState s) of
            (Inl _, st) \<Rightarrow> (delivery, s\<lparr>ad_storeState := st\<rparr>)
          | (Inr stored, st) \<Rightarrow> (stored, s\<lparr>ad_storeState := st\<rparr>)))"

definition delivery_store :: "'st Admin \<Rightarrow> 'st webhookDeliveryStore option" where
  "delivery_store s = (case ad_store s of None \<Rightarrow> None | Some store \<Rightarrow> as_WebhookDeliveries store)"

text \<open>The post has the URL, headers and body of the envelope, whatever the store has stored.\<close>

definition deliver_to :: "string \<Rightarrow> string \<Rightarrow> string \<Rightarrow> bytes \<Rightarrow> string \<Rightarrow> 'st Admin \<Rightarrow> 'st Admin" where
  "deliver_to secret webhookID eventName body targetURL s =
    (case newRecordID ''wd'' s of
       (None, s) \<Rightarrow> s
     | (Some deliveryID, s) \<Rightarrow>
         (let fresh = pending_delivery deliveryID webhookID eventName targetURL body (ad_now s);
              (delivery, s) = create_delivery (delivery_store s) fresh s;
              ((statusCode, err), s) = attempt_delivery (webhook_post secret (ad_now s) fresh) s
          in snd (updateWebhookDeliveryRecord (map_option ws_UpdateWebhookDelivery (delivery_store s))
               delivery statusCode err s)))"

fun deliver_all :: "string \<Rightarrow> string \<Rightarrow> string \<Rightarrow> bytes \<Rightarrow> string list \<Rightarrow> 'st Admin \<Rightarrow> 'st Admin" where
  "deliver_all secret webhookID eventName body [] s = s"
| "deliver_all secret webhookID eventName body (targetURL # urls) s =
    deliver_all secret webhookID eventName body urls (deliver_to secret webhookID eventName body targetURL s)"

text \<open>\<open>data\<close> is the JSON of the payload, None when it cannot be encoded.\<close>

definition dispatchWebhook :: "string \<Rightarrow> string option \<Rightarrow> 'st Admin \<Rightarrow> 'st Admin" where
  "dispatchWebhook eventName data s =
    (case cfg_Webhooks (ad_cfg s) of
       None \<Rightarrow> s
     | Some webhooks \<Rightarrow>
         if wh_URLs webhooks = [] then s
         else case newRecordID ''evt'' s of
                (None, s) \<Rightarrow> s
              | (Some webhookID, s) \<Rightarrow>
                  (case data of
                     None \<Rightarrow> s
                   | Some text \<Rightarrow>
                       deliver_all (wh_Secret webhooks) webhookID eventName
                         (webhook_envelope webhookID eventName (ad_now s) text) (wh_URLs webhooks) s))"

subsection \<open>Retries\<close>

definition retryWebhookDelivery ::
  "(WebhookDeliveryRecord \<Rightarrow> ('st, WebhookDeliveryRecord) store_op) \<Rightarrow> WebhookDeliveryRecord
     \<Rightarrow> 'st Admin \<Rightarrow> (message_text + WebhookDeliveryRecord) \<times> 'st Admin" where
  "retryWebhookDelivery store rec s =
    (case cfg_Webhooks (ad_cfg s) of
       None \<Rightarrow> (Inl (Text ''webhook retry requires webhook configuration''), s)
     | Some webhooks \<Rightarrow>
         (let post = webhook_post (wh_Secret webhooks) (ad_now s) rec;
              ((statusCode, err), s) = attempt_delivery post s;
              (updated, s) = updateWebhookDeliveryRecord (Some store) rec statusCode err s
          in (if url_parse (wd_URL rec) = None then Inl bad_url else Inr updated, s)))"

definition retry_due :: "gtime \<Rightarrow> WebhookDeliveryRecord \<Rightarrow> bool" where
  "retry_due now rec \<longleftrightarrow>
    wd_Status rec \<noteq> ''dead'' \<and> (case wd_NextAttemptAt rec of None \<Rightarrow> True | Some t \<Rightarrow> \<not> now < t)"

fun retry_records ::
  "'st webhookRetryStore \<Rightarrow> gtime \<Rightarrow> WebhookDeliveryRecord list \<Rightarrow> int \<Rightarrow> 'st Admin \<Rightarrow> int \<times> 'st Admin" where
  "retry_records store now [] retried s = (retried, s)"
| "retry_records store now (rec # records) retried s =
    (if \<not> retry_due now rec then retry_records store now records retried s
     else retry_records store now records (retried + 1)
            (snd (retryWebhookDelivery (wr_UpdateWebhookDelivery store) rec s)))"

definition retryDueWebhookDeliveries :: "gtime \<Rightarrow> int \<Rightarrow> 'st Admin \<Rightarrow> int \<times> 'st Admin" where
  "retryDueWebhookDeliveries now limit s =
    (case ad_store s of
       None \<Rightarrow> (0, s)
     | Some store \<Rightarrow>
         (case (as_WebhookRetries store, cfg_Webhooks (ad_cfg s)) of
            (Some retries, Some _) \<Rightarrow>
              (case wr_ListWebhookDeliveries retries (ad_storeState s) ''failed'' limit of
                 Inl _ \<Rightarrow> (0, s)
               | Inr records \<Rightarrow> retry_records retries now records 0 s)
          | _ \<Rightarrow> (0, s)))"

text \<open>A tick of the worker, which runs only when there are URLs and a store for it.\<close>

definition startWebhookRetryWorker :: "'st Admin \<Rightarrow> bool" where
  "startWebhookRetryWorker s \<longleftrightarrow>
    (case (cfg_Webhooks (ad_cfg s), ad_store s) of
       (Some webhooks, Some store) \<Rightarrow> wh_URLs webhooks \<noteq> [] \<and> as_WebhookRetries store \<noteq> None
     | _ \<Rightarrow> False)"

definition retry_worker_tick :: "'st Admin \<Rightarrow> 'st Admin" where
  "retry_worker_tick s =
    (if startWebhookRetryWorker s then snd (retryDueWebhookDeliveries (ad_now s) 100 s) else s)"

end
