(* ===== verification/Admin_Access.thy ===== *)
theory Admin_Access
  imports Admin_Query Admin_Webhooks
begin

text \<open>
  What the handlers of the administration API share: who is asking, what they may do, the
  audit log, the meters of usage, version snapshots and the events that follow a change.
\<close>

subsection \<open>Authentication\<close>

definition authenticateAPIKey :: "string \<Rightarrow> 'st Admin \<Rightarrow> (go_error + Claims) \<times> 'st Admin" where
  "authenticateAPIKey token s =
    (case ad_store s of
       None \<Rightarrow> (Inl (ErrText ''api key authentication is not configured''), s)
     | Some store \<Rightarrow>
         (case os_VerifyAPIKey store of
            None \<Rightarrow> (Inl (ErrText ''api key authentication is not configured''), s)
          | Some verifyKey \<Rightarrow>
              (case verifyKey token (ad_storeState s) of
                 (Inl err, st) \<Rightarrow> (Inl err, s\<lparr>ad_storeState := st\<rparr>)
               | (Inr rec, st) \<Rightarrow> (Inr (api_key_claims rec), s\<lparr>ad_storeState := st\<rparr>))))"

definition bearer :: string where "bearer = ''Bearer ''"

definition authenticate :: "AdminRequest \<Rightarrow> 'st Admin \<Rightarrow> (go_error + Claims) \<times> 'st Admin" where
  "authenticate r s =
    (let authHeader = header_get r ''Authorization''; token = trim_prefix bearer authHeader in
     if \<not> prefix bearer authHeader then (Inl (ErrText ''missing bearer token''), s)
     else case ad_verify s of
            None \<Rightarrow> authenticateAPIKey token s
          | Some verify \<Rightarrow>
              (case verify token of
                 Inr claims \<Rightarrow> (Inr claims, s)
               | Inl err \<Rightarrow>
                   if \<not> prefix ''ortc_sk_'' token then (Inl err, s) else authenticateAPIKey token s))"

definition admin_unauthorized :: Response where
  "admin_unauthorized = writeError CodeAuthInvalid (Text ''invalid bearer token'') [] 401"

definition authenticated :: "AdminRequest \<Rightarrow> ('st, Claims) step" where
  "authenticated r s =
    (case authenticate r s of (Inl _, s) \<Rightarrow> (Inl admin_unauthorized, s) | (Inr claims, s) \<Rightarrow> (Inr claims, s))"

text \<open>The method of a handler, the store and the decoded body, or the response that says it is missing.\<close>

definition has_method :: "AdminRequest \<Rightarrow> string \<Rightarrow> ('st, unit) step" where
  "has_method r m = require (rq_Method r = m) method_not_allowed"

definition unavailable :: "string \<Rightarrow> Response" where
  "unavailable message = writeError CodeInternal (Text message) [] 503"

definition require_store :: "string \<Rightarrow> ('st, 'st AdminStore) step" where
  "require_store message s =
    (case ad_store s of None \<Rightarrow> (Inl (unavailable message), s) | Some store \<Rightarrow> (Inr store, s))"

definition decoded :: "AdminRequest \<Rightarrow> ('r \<Rightarrow> string \<Rightarrow> 'r option) \<Rightarrow> 'r \<Rightarrow> ('st, 'r) step" where
  "decoded r dec zero s =
    (case decodeRequest r (li_EnvelopeMaxBytes (cfg_Limits (ad_cfg s))) dec zero of
       None \<Rightarrow> (Inl (bad_request_response ''request body must be valid JSON''), s)
     | Some request \<Rightarrow> (Inr request, s))"

text \<open>
  The three ways of answering a failed check: with the error's code and the status of its
  descriptor, with its message as a bad request, and with a text as a bad request.
\<close>

definition valid :: "'a parsed \<Rightarrow> ('st, 'a) step" where
  "valid r = orElse r parse_error_response"

definition valid_message :: "'a parsed \<Rightarrow> ('st, 'a) step" where
  "valid_message r = orElse r (\<lambda>err. bad_request_response (pse_Message err))"

definition valid_text :: "string + 'a \<Rightarrow> ('st, 'a) step" where
  "valid_text r = orElse r bad_request_response"

text \<open>A write whose errors are answered by \<open>failure\<close>.\<close>

definition writes_or :: "('st, 'a) store_op \<Rightarrow> (go_error \<Rightarrow> Response) \<Rightarrow> ('st, 'a) step" where
  "writes_or op failure s =
    (case op (ad_storeState s) of
       (Inl err, st) \<Rightarrow> (Inl (failure err), s\<lparr>ad_storeState := st\<rparr>)
     | (Inr x, st) \<Rightarrow> (Inr x, s\<lparr>ad_storeState := st\<rparr>))"

definition payload_limit :: "'st Admin \<Rightarrow> int" where
  "payload_limit s = li_PayloadMaxBytes (cfg_Limits (ad_cfg s))"

subsection \<open>Permissions\<close>

definition admin_room_getter :: "'st Admin \<Rightarrow> RoomGetter option" where
  "admin_room_getter s =
    map_option (\<lambda>store room. case os_GetRoom store (ad_storeState s) room of Inl _ \<Rightarrow> None | Inr r \<Rightarrow> Some r)
      (ad_store s)"

definition admin_allowsRoomAction :: "Claims \<Rightarrow> string \<Rightarrow> room_id \<Rightarrow> 'st Admin \<Rightarrow> bool" where
  "admin_allowsRoomAction claims action room s =
    AllowsRoomAction (Some claims) (admin_room_getter s) action room
      \<lparr>rao_EnforceTenantPrefix = tc_EnforcePrefix (cfg_Tenant (ad_cfg s)),
       rao_TenantSeparator = tc_Separator (cfg_Tenant (ad_cfg s))\<rparr>"

text \<open>\<open>claims.Allows ("rooms", room, ...)\<close> of the room handlers.\<close>

definition administers_room :: "Claims \<Rightarrow> room_id \<Rightarrow> 'st Admin \<Rightarrow> bool" where
  "administers_room claims room s =
    Claims_Allows claims ''rooms'' room (tc_EnforcePrefix (cfg_Tenant (ad_cfg s))) (tc_Separator (cfg_Tenant (ad_cfg s)))"

definition notificationAllowed :: "Claims \<Rightarrow> string \<Rightarrow> 'st Admin \<Rightarrow> bool" where
  "notificationAllowed claims userID s =
    Claims_Allows claims ''notifications'' userID False (tc_Separator (cfg_Tenant (ad_cfg s)))"

definition admin_room :: string where "admin_room = ''__admin''"

definition allowsTenantAdmin :: "Claims \<Rightarrow> string \<Rightarrow> 'st Admin \<Rightarrow> bool" where
  "allowsTenantAdmin claims tenantID s =
    (let tenant = cfg_Tenant (ad_cfg s); enforce = tc_EnforcePrefix tenant; separator = tc_Separator tenant in
     if tenantID = ''*'' then
       Claims_Allows claims ''admin'' (cl_Tenant claims @ separator @ admin_room) enforce separator
       \<or> Claims_Allows claims ''admin'' admin_room False separator
     else if enforce \<and> cl_Tenant claims \<noteq> [] \<and> tenantID \<noteq> cl_Tenant claims then False
     else
       (let probeRoom = tenantID @ separator @ admin_room in
        Claims_Allows claims ''admin'' probeRoom enforce separator
        \<or> Claims_Allows claims ''rooms'' probeRoom enforce separator))"

definition room_probe :: string where "room_probe = ''__probe''"

definition authorizedRoomListPrefix :: "Claims \<Rightarrow> string \<Rightarrow> 'st Admin \<Rightarrow> string parsed" where
  "authorizedRoomListPrefix claims requested s =
    (let tenant = cfg_Tenant (ad_cfg s); fill = (requested = [] \<and> tc_EnforcePrefix tenant) in
     if fill \<and> cl_Tenant claims = []
     then Inl \<lparr>pse_Code = CodeRoomForbidden, pse_Message = ''tenant claim is required for room listing''\<rparr>
     else
       (let pre = (if fill then cl_Tenant claims @ tc_Separator tenant else requested) in
        andThen (ValidateRoomPrefix pre) (\<lambda>_.
        if len pre + len room_probe > MaxRoomNameBytes then bad_request ''room prefix is too long''
        else if \<not> administers_room claims (pre @ room_probe) s
        then Inl \<lparr>pse_Code = CodeRoomForbidden, pse_Message = ''room administration is not permitted''\<rparr>
        else Inr pre)))"

subsection \<open>Audit log, usage and versions\<close>

text \<open>The metadata is its JSON; the text of an object with one member or the empty object.\<close>

definition audit_metadata :: "string \<Rightarrow> string \<Rightarrow> string" where
  "audit_metadata name text = object_text [(name, text)]"

definition no_audit_metadata :: string where "no_audit_metadata = ''{}''"

definition recordAuditLog ::
  "Claims \<Rightarrow> string \<Rightarrow> string \<Rightarrow> string \<Rightarrow> string \<Rightarrow> string \<Rightarrow> string \<Rightarrow> 'st Admin \<Rightarrow> 'st Admin" where
  "recordAuditLog claims action resourceType resourceID tenantID projectID metadata s =
    (case ad_store s of
       None \<Rightarrow> s
     | Some store \<Rightarrow>
         (case as_RecordAuditLog store of
            None \<Rightarrow> s
          | Some record_log \<Rightarrow>
              (case newRecordID ''aud'' s of
                 (None, s) \<Rightarrow> s
               | (Some i, s) \<Rightarrow>
                   calling (record_log
                     \<lparr>al_ID = i, al_TenantID = (if tenantID = [] then cl_Tenant claims else tenantID),
                      al_ProjectID = projectID, al_ActorID = cl_Subject claims, al_Action = action,
                      al_ResourceType = resourceType, al_ResourceID = resourceID, al_Metadata = metadata,
                      al_CreatedAt = zero_time\<rparr>) s)))"

text \<open>The log entry of an action on a room.\<close>

definition audit_room :: "AdminRequest \<Rightarrow> Claims \<Rightarrow> string \<Rightarrow> room_id \<Rightarrow> string \<Rightarrow> 'st Admin \<Rightarrow> 'st Admin" where
  "audit_room r claims action room metadata s =
    recordAuditLog claims action ''room'' room (tenantFromRoom room (tc_Separator (cfg_Tenant (ad_cfg s))))
      (projectFromRequest r) metadata s"

definition admin_recordUsage :: "AdminRequest \<Rightarrow> room_id \<Rightarrow> string \<Rightarrow> int \<Rightarrow> 'st Admin \<Rightarrow> 'st Admin" where
  "admin_recordUsage r room metric count s =
    (case ad_store s of
       None \<Rightarrow> s
     | Some store \<Rightarrow>
         (case os_IncrementUsage store of
            None \<Rightarrow> s
          | Some increment \<Rightarrow>
              (let tenantID = firstNonEmpty [header_get r ''Openrtc-Tenant-Id'',
                     tenantFromRoom room (tc_Separator (cfg_Tenant (ad_cfg s)))];
                   projectID = projectFromRequest r
               in if tenantID = [] \<or> projectID = [] \<or> metric = [] then s
                  else calling (increment
                    \<lparr>ui_TenantID = tenantID, ui_ProjectID = projectID, ui_RoomID = room, ui_Metric = metric,
                     ui_Window = format_date (ad_now s), ui_Count = count\<rparr>) s)))"

definition recordVersionSnapshot :: "room_id \<Rightarrow> string \<Rightarrow> string \<Rightarrow> bytes \<Rightarrow> 'st Admin \<Rightarrow> 'st Admin" where
  "recordVersionSnapshot room documentID label document s =
    (case ad_store s of
       None \<Rightarrow> s
     | Some store \<Rightarrow>
         (case as_CreateVersionSnapshot store of
            None \<Rightarrow> s
          | Some create_version \<Rightarrow>
              if document = [] \<or> \<not> json_valid document then s
              else case newRecordID ''ver'' s of
                     (None, s) \<Rightarrow> s
                   | (Some i, s) \<Rightarrow>
                       calling (create_version
                         \<lparr>vs_ID = i, vs_RoomID = room, vs_DocumentID = firstNonEmpty [documentID, ''storage''],
                          vs_Label = label, vs_Document = document, vs_Metadata = [],
                          vs_CreatedAt = zero_time\<rparr>) s))"

subsection \<open>Events\<close>

definition admin_origin :: "'st Admin \<Rightarrow> string" where
  "admin_origin s = ''admin:'' @ cfg_NodeID (ad_cfg s)"

definition event_options :: "'st Admin \<Rightarrow> EventOptions" where
  "event_options s = \<lparr>eo_OriginNode = admin_origin s, eo_TraceID = [], eo_ExcludeSenderConnID = []\<rparr>"

definition dispatchRoomWebhook :: "string \<Rightarrow> room_id \<Rightarrow> RoomRecord option \<Rightarrow> 'st Admin \<Rightarrow> 'st Admin" where
  "dispatchRoomWebhook eventName roomID room s =
    (case NewRoomEvent eventName roomID room (event_options s) of
       Inl _ \<Rightarrow> s
     | Inr (_, payload) \<Rightarrow> dispatchWebhook eventName (RoomEventPayload_text payload) s)"

text \<open>An event goes to the store first and to the webhooks when the store has taken it.\<close>

definition publish_and_dispatch ::
  "'st AdminStore \<Rightarrow> string \<Rightarrow> (engine_error + PublishedEvent \<times> 'p) \<Rightarrow> ('p \<Rightarrow> string option) \<Rightarrow> ('st, unit) step" where
  "publish_and_dispatch store eventName built text =
    andNext (orElse built (\<lambda>err. internal_response (ErrEngine err))) (\<lambda>(event, payload).
    andNext (writes (os_PublishEvent store event) []) (\<lambda>_.
    effect (dispatchWebhook eventName (text payload))))"

definition publishCommentEvent ::
  "'st AdminStore \<Rightarrow> string \<Rightarrow> ThreadRecord \<Rightarrow> CommentRecord option \<Rightarrow> ('st, unit) step" where
  "publishCommentEvent store eventName thread comment s =
    publish_and_dispatch store eventName (NewCommentEvent eventName thread comment (event_options s))
      CommentEventPayload_text s"

definition publishNotificationEvent ::
  "'st AdminStore \<Rightarrow> string \<Rightarrow> string \<Rightarrow> InboxNotificationRecord option \<Rightarrow> ('st, unit) step" where
  "publishNotificationEvent store eventName userID notification s =
    publish_and_dispatch store eventName (NewNotificationEvent eventName userID notification (event_options s))
      NotificationEventPayload_text s"

end
