(* ===== verification/Admin_Rooms.thy ===== *)
theory Admin_Rooms
  imports Admin_Access
begin

text \<open>
  Handlers of \<open>admin/service.go\<close> for publishing, presence, rooms and storage documents. Each
  is the list of its checks and effects in the order of the code.

  Storage documents over HTTP: reading, setting, patching and deleting the document of a room.
\<close>

subsection \<open>Publish and presence\<close>

definition handlePublish :: "AdminRequest \<Rightarrow> 'st handler" where
  "handlePublish r = respond (
    andNext (has_method r ''POST'') (\<lambda>_.
    andNext (authenticated r) (\<lambda>claims.
    andNext (require_store ''admin publish requires redis backing'') (\<lambda>store.
    andNext (decoded r decode_PublishRequest no_PublishRequest) (\<lambda>request.
    andNext (require (pq_Room request \<noteq> [] \<and> pq_Event request \<noteq> [] \<and> pq_Payload request \<noteq> []
               \<and> json_valid (pq_Payload request))
             (bad_request_response ''room, event, and payload are required'')) (\<lambda>_.
    andNext (valid_message (ValidateRoomName (pq_Room request))) (\<lambda>_.
    andNext (valid_message (ValidateEventName (pq_Event request))) (\<lambda>_.
    andNext (valid_message (check_if (pq_ExcludeSenderConnID request) ValidateConnectionID)) (\<lambda>_.
    andNext (permit (\<lambda>s. len (pq_Payload request) \<le> payload_limit s)
             (writeError CodePayloadTooLarge (Text ''payload exceeds max size'') [] 413)) (\<lambda>_.
    andNext (permit (admin_allowsRoomAction claims ''publish'' (pq_Room request))
             (forbidden_response ''room publish is not permitted'')) (\<lambda>_.
    andNext (\<lambda>s. writes (os_PublishEvent store (NewEvent (pq_Room request) (pq_Event request) (pq_Payload request)
               \<lparr>eo_OriginNode = admin_origin s, eo_TraceID = pq_TraceID request,
                eo_ExcludeSenderConnID = pq_ExcludeSenderConnID request\<rparr>)) [] s) (\<lambda>_.
    andNext (effect (\<lambda>s. s\<lparr>ad_stats := (ad_stats s)\<lparr>st_AdminPublishesTotal := st_AdminPublishesTotal (ad_stats s) + 1\<rparr>,
               ad_metrics := (ad_metrics s)\<lparr>met_AdminPublishesTotal := Counter_Inc (met_AdminPublishesTotal (ad_metrics s))\<rparr>\<rparr>)) (\<lambda>_.
    andNext (effect (\<lambda>s. calling (os_SyncStats store (admin_origin s) (ad_stats s)) s)) (\<lambda>_.
    andNext (effect (admin_recordUsage r (pq_Room request) ''events.published'' 1)) (\<lambda>_.
    andNext (effect (audit_room r claims ''event.publish'' (pq_Room request)
               (audit_metadata ''event'' (quote_text (pq_Event request))))) (\<lambda>_.
    give (write_status 202)))))))))))))))))"

text \<open>The seconds of a presence entry.\<close>

definition presence_ttl :: "int \<Rightarrow> int" where
  "presence_ttl seconds = (if seconds > 0 then seconds * second else 60 * second)"

definition admin_handlePresence :: "AdminRequest \<Rightarrow> 'st handler" where
  "admin_handlePresence r = respond (
    andNext (has_method r ''POST'') (\<lambda>_.
    andNext (authenticated r) (\<lambda>claims.
    andNext (require_store ''admin presence requires redis backing'') (\<lambda>store.
    andNext (decoded r decode_PresenceRequest no_PresenceRequest) (\<lambda>request.
    andNext (require (prq_Room request \<noteq> [] \<and> prq_ConnID request \<noteq> [] \<and> prq_State request \<noteq> []
               \<and> json_valid (prq_State request) \<and> hd (prq_State request) = CHR ''{'')
             (bad_request_response ''room, conn_id, and object state are required'')) (\<lambda>_.
    andNext (valid_message (ValidateRoomName (prq_Room request))) (\<lambda>_.
    andNext (valid_message (ValidateConnectionID (prq_ConnID request))) (\<lambda>_.
    andNext (permit (\<lambda>s. len (prq_State request) \<le> payload_limit s)
             (writeError CodePayloadTooLarge (Text ''state exceeds max size'') [] 413)) (\<lambda>_.
    andNext (permit (admin_allowsRoomAction claims ''presence'' (prq_Room request))
             (forbidden_response ''room presence is not permitted'')) (\<lambda>_.
    andNext (require (prq_TTLSeconds request \<le> 3600)
             (bad_request_response ''ttl_seconds must be between 1 and 3600'')) (\<lambda>_.
    andNext (writes (as_SetEphemeralPresence store (prq_ConnID request) (prq_Room request) (prq_State request)
               (presence_ttl (prq_TTLSeconds request))) []) (\<lambda>_.
    andNext (\<lambda>s. writes (os_PublishPresence store
               \<lparr>pr_Room = prq_Room request, pr_ConnID = prq_ConnID request, pr_State = prq_State request,
                pr_Offline = False, pr_OriginNode = admin_origin s\<rparr>) [] s) (\<lambda>_.
    andNext (effect (admin_recordUsage r (prq_Room request) ''presence.upserted'' 1)) (\<lambda>_.
    andNext (effect (audit_room r claims ''presence.set'' (prq_Room request)
               (audit_metadata ''connId'' (quote_text (prq_ConnID request))))) (\<lambda>_.
    give (write_status 202))))))))))))))))"

definition handleActiveUsers :: "AdminRequest \<Rightarrow> room_id \<Rightarrow> 'st handler" where
  "handleActiveUsers r room = respond (
    andNext (has_method r ''GET'') (\<lambda>_.
    andNext (authenticated r) (\<lambda>claims.
    andNext (require_store ''active users API requires redis backing'') (\<lambda>store.
    andNext (permit (admin_allowsRoomAction claims ''presence'' room)
             (forbidden_response ''room presence is not permitted'')) (\<lambda>_.
    andNext (reads (\<lambda>st. as_ActiveUsers store st room) []) (\<lambda>users.
    give (writeJSON 200 (ActiveUsersBody users))))))))"

subsection \<open>Rooms\<close>

definition room_store :: "('st, 'st AdminStore) step" where
  "room_store = require_store ''room APIs require redis backing''"

definition may_administer :: "Claims \<Rightarrow> room_id \<Rightarrow> ('st, unit) step" where
  "may_administer claims room =
    permit (administers_room claims room) (forbidden_response ''room administration is not permitted'')"

definition room_not_found :: error_case where
  "room_not_found = not_found_case (is_cluster ErrRoomNotFound) CodeRoomNotFound ''room not found''"

definition new_room :: "RoomCreateRequest \<Rightarrow> RoomRecord" where
  "new_room request =
    \<lparr>rr_ID = rcq_ID request, rr_Metadata = normalizedMetadata (rcq_Metadata request),
     rr_DefaultAccesses = items (rcq_DefaultAccesses request),
     rr_UsersAccesses = no_access (rcq_UsersAccesses request),
     rr_GroupsAccesses = no_access (rcq_GroupsAccesses request),
     rr_CreatedAt = zero_time, rr_UpdatedAt = zero_time\<rparr>"

definition handleCreateRoom :: "AdminRequest \<Rightarrow> 'st handler" where
  "handleCreateRoom r = respond (
    andNext (authenticated r) (\<lambda>claims.
    andNext room_store (\<lambda>store.
    andNext (decoded r decode_RoomCreateRequest no_RoomCreateRequest) (\<lambda>request.
    andNext (\<lambda>s. valid (validateRoomRequest (rcq_ID request) (rcq_Metadata request) True (payload_limit s)) s) (\<lambda>_.
    andNext (valid (validateRoomAccesses (items (rcq_DefaultAccesses request))
               (no_access (rcq_UsersAccesses request)) (no_access (rcq_GroupsAccesses request)))) (\<lambda>_.
    andNext (may_administer claims (rcq_ID request)) (\<lambda>_.
    andNext (writes (as_CreateRoom store (new_room request))
             [conflict_case (is_cluster ErrRoomAlreadyExists) CodeRoomConflict ''room already exists'']) (\<lambda>rec.
    andNext (effect (dispatchRoomWebhook RoomCreated (rr_ID rec) (Some rec))) (\<lambda>_.
    andNext (effect (admin_recordUsage r (rr_ID rec) ''rooms.created'' 1)) (\<lambda>_.
    andNext (effect (audit_room r claims ''room.create'' (rr_ID rec) no_audit_metadata)) (\<lambda>_.
    give (writeJSON 201 (RoomBody rec)))))))))))))"

definition handleGetRoom :: "AdminRequest \<Rightarrow> room_id \<Rightarrow> 'st handler" where
  "handleGetRoom r room = respond (
    andNext (authenticated r) (\<lambda>claims.
    andNext room_store (\<lambda>store.
    andNext (may_administer claims room) (\<lambda>_.
    andNext (reads (\<lambda>st. os_GetRoom store st room) [room_not_found]) (\<lambda>rec.
    give (writeJSON 200 (RoomBody rec)))))))"

definition room_update :: "RoomUpdateRequest \<Rightarrow> RoomUpdate" where
  "room_update request =
    (let u = no_room_update;
         u = (case ruq_Metadata request of None \<Rightarrow> u
              | Some m \<Rightarrow> u\<lparr>ru_Metadata := normalizedMetadata m, ru_MetadataSet := True\<rparr>);
         u = (case ruq_DefaultAccesses request of None \<Rightarrow> u
              | Some a \<Rightarrow> u\<lparr>ru_DefaultAccesses := items a, ru_DefaultAccessesSet := True\<rparr>);
         u = (case ruq_UsersAccesses request of None \<Rightarrow> u
              | Some a \<Rightarrow> u\<lparr>ru_UsersAccesses := a, ru_UsersAccessesSet := True\<rparr>)
     in case ruq_GroupsAccesses request of None \<Rightarrow> u
        | Some a \<Rightarrow> u\<lparr>ru_GroupsAccesses := a, ru_GroupsAccessesSet := True\<rparr>)"

definition handleUpdateRoom :: "AdminRequest \<Rightarrow> room_id \<Rightarrow> 'st handler" where
  "handleUpdateRoom r room = respond (
    andNext (authenticated r) (\<lambda>claims.
    andNext room_store (\<lambda>store.
    andNext (may_administer claims room) (\<lambda>_.
    andNext (decoded r decode_RoomUpdateRequest no_RoomUpdateRequest) (\<lambda>request.
    andNext (\<lambda>s. valid (check_option (\<lambda>m. validateMetadata m False (payload_limit s)) (ruq_Metadata request)) s) (\<lambda>_.
    andNext (valid (validateRoomAccesses (ru_DefaultAccesses (room_update request))
               (ru_UsersAccesses (room_update request)) (ru_GroupsAccesses (room_update request)))) (\<lambda>_.
    andNext (writes (as_UpdateRoom store room (room_update request)) [room_not_found]) (\<lambda>rec.
    andNext (effect (dispatchRoomWebhook RoomUpdated (rr_ID rec) (Some rec))) (\<lambda>_.
    andNext (effect (audit_room r claims ''room.update'' (rr_ID rec) no_audit_metadata)) (\<lambda>_.
    give (writeJSON 200 (RoomBody rec))))))))))))"

definition handleDeleteRoom :: "AdminRequest \<Rightarrow> room_id \<Rightarrow> 'st handler" where
  "handleDeleteRoom r room = respond (
    andNext (authenticated r) (\<lambda>claims.
    andNext room_store (\<lambda>store.
    andNext (may_administer claims room) (\<lambda>_.
    andNext (writes (as_DeleteRoom store room) [room_not_found]) (\<lambda>_.
    andNext (effect (dispatchRoomWebhook RoomDeleted room None)) (\<lambda>_.
    andNext (effect (admin_recordUsage r room ''rooms.deleted'' 1)) (\<lambda>_.
    andNext (effect (audit_room r claims ''room.delete'' room no_audit_metadata)) (\<lambda>_.
    give (write_status 204)))))))))"

text \<open>A request whose scan of the store never ends is never answered: status 0.\<close>

definition never_answered :: Response where
  "never_answered = write_status 0"

definition list_rooms ::
  "'st AdminStore \<Rightarrow> string \<Rightarrow> u64 \<Rightarrow> int \<Rightarrow> roomListQuery \<Rightarrow> ('st, RoomList) step" where
  "list_rooms store pre cursor limit query s =
    (case listRooms store (ad_storeState s) pre cursor limit query of
       None \<Rightarrow> (Inl never_answered, s)
     | Some res \<Rightarrow> reads (\<lambda>_. res) [] s)"

definition handleListRooms :: "AdminRequest \<Rightarrow> 'st handler" where
  "handleListRooms r = respond (
    andNext (authenticated r) (\<lambda>claims.
    andNext room_store (\<lambda>store.
    andNext (\<lambda>s. valid (authorizedRoomListPrefix claims (url_query r ''prefix'') s) s) (\<lambda>pre.
    andNext (valid_text (parseListLimit (url_query r ''limit''))) (\<lambda>limit.
    andNext (valid_text (parseCursor (url_query r ''cursor''))) (\<lambda>cursor.
    andNext (valid (parseRoomListQuery (url_query r ''query''))) (\<lambda>query.
    andNext (list_rooms store pre cursor limit query) (\<lambda>l.
    give (writeJSON 200 (RoomListBody (rl_Rooms l) (next_cursor_text (rl_NextCursor l))))))))))))"

definition handleRooms :: "AdminRequest \<Rightarrow> 'st handler" where
  "handleRooms r =
    (if rq_Method r = ''POST'' then handleCreateRoom r
     else if rq_Method r = ''GET'' then handleListRooms r
     else respond (stop method_not_allowed))"

definition storage_store :: "('st, 'st AdminStore) step" where
  "storage_store = require_store ''storage APIs require redis backing''"

definition may_use_storage :: "Claims \<Rightarrow> string \<Rightarrow> room_id \<Rightarrow> ('st, unit) step" where
  "may_use_storage claims action room =
    permit (admin_allowsRoomAction claims action room) (forbidden_response ''room storage is not permitted'')"

definition storage_not_found :: error_case where
  "storage_not_found = not_found_case (is_cluster ErrStorageNotFound) CodeStorageNotFound ''storage document not found''"

subsection \<open>Plans\<close>

definition admin_write_options :: "'st Admin \<Rightarrow> StorageWriteOptions" where
  "admin_write_options s =
    \<lparr>swo_MaxBytes = payload_limit s, swo_OpID = [], swo_ExpectedSequence = 0, swo_ExpectedSequenceSet = False\<rparr>"

definition sequence_options :: "u64 \<Rightarrow> StorageMutationOptions" where
  "sequence_options sequence =
    \<lparr>smo_MaxBytes = 0, smo_OpID = [], smo_OriginConnID = [], smo_Sequence = sequence,
     smo_ExpectedSequence = 0, smo_ExpectedSequenceSet = False\<rparr>"

definition admin_event_plan ::
  "room_id \<Rightarrow> string \<Rightarrow> bytes \<Rightarrow> JSONPatchOperation list \<Rightarrow> u64 \<Rightarrow> ('st, StorageMutationEventPlan) step" where
  "admin_event_plan room kind document operations sequence s =
    orElse (NewStorageMutationEventPlan room kind document operations (sequence_options sequence)
        \<lparr>seo_OriginNode = admin_origin s, seo_ExcludeSenderConnID = [], seo_Sequence = sequence\<rparr>)
      (\<lambda>err. internal_response (ErrEngine err)) s"

definition setStorageMutationEventPlan ::
  "'st AdminStore \<Rightarrow> room_id \<Rightarrow> bytes \<Rightarrow> ('st, StorageMutationEventPlan) step" where
  "setStorageMutationEventPlan store room document =
    (case os_Sequenced store of
       Some sequenced \<Rightarrow>
         andNext (\<lambda>s. writes (sw_SetStorageWithOptions sequenced room document (admin_write_options s)) [] s)
           (\<lambda>(stored, sequence). admin_event_plan room StorageMutationSet stored [] sequence)
     | None \<Rightarrow>
         andNext (writes (os_SetStorage store room document) [])
           (\<lambda>stored. admin_event_plan room StorageMutationSet stored [] 0))"

definition is_patch_error :: "go_error \<Rightarrow> bool" where
  "is_patch_error err = is_storage_patch err"

text \<open>The text of a patch error goes to the client, so its case depends on the error.\<close>

definition patch_failure :: "go_error \<Rightarrow> Response" where
  "patch_failure err =
    (if errors_Is err (is_cluster ErrStorageNotFound)
     then writeError CodeStorageNotFound (Text ''storage document not found'') [] 404
     else if errors_Is err is_patch_error then writeError CodePatchFailed (Error_of err) [] 422
     else internal_response err)"

definition applyStoragePatchMutationEventPlan ::
  "'st AdminStore \<Rightarrow> room_id \<Rightarrow> JSONPatchOperation list \<Rightarrow> ('st, StorageMutationEventPlan) step" where
  "applyStoragePatchMutationEventPlan store room operations =
    (case os_Sequenced store of
       Some sequenced \<Rightarrow>
         andNext (\<lambda>s. writes_or (sw_ApplyStoragePatchWithOptions sequenced room operations (admin_write_options s))
                   patch_failure s)
           (\<lambda>(document, sequence). admin_event_plan room StorageMutationPatch document operations sequence)
     | None \<Rightarrow>
         andNext (\<lambda>s. writes_or (os_ApplyStoragePatch store room operations (payload_limit s)) patch_failure s)
           (\<lambda>document. admin_event_plan room StorageMutationPatch document operations 0))"

definition deleteStorageMutationEventPlan ::
  "'st AdminStore \<Rightarrow> room_id \<Rightarrow> ('st, StorageMutationEventPlan) step" where
  "deleteStorageMutationEventPlan store room =
    (case as_DeleteStorageWithOptions store of
       Some delete \<Rightarrow>
         andNext (writes (delete room
               \<lparr>sdo_OpID = [], sdo_ExpectedSequence = 0, sdo_ExpectedSequenceSet = False\<rparr>) [storage_not_found])
           (\<lambda>sequence. admin_event_plan room StorageMutationDelete [] [] sequence)
     | None \<Rightarrow>
         andNext (writes (as_DeleteStorage store room) [storage_not_found])
           (\<lambda>_. admin_event_plan room StorageMutationDelete [] [] 0))"

definition publishStorageMutationEventPlan ::
  "'st AdminStore \<Rightarrow> StorageMutationEventPlan \<Rightarrow> ('st, PublishedEvent) step" where
  "publishStorageMutationEventPlan store plan = writes (os_PublishEvent store (sme_Event plan)) []"

subsection \<open>Handlers\<close>

definition handleGetStorage :: "AdminRequest \<Rightarrow> room_id \<Rightarrow> 'st handler" where
  "handleGetStorage r room = respond (
    andNext (authenticated r) (\<lambda>claims.
    andNext storage_store (\<lambda>store.
    andNext (may_use_storage claims ''storage:read'' room) (\<lambda>_.
    andNext (reads (\<lambda>st. os_GetStorage store st room) [storage_not_found]) (\<lambda>document.
    give (writeRawJSON 200 document))))))"

definition handleSetStorage :: "AdminRequest \<Rightarrow> room_id \<Rightarrow> 'st handler" where
  "handleSetStorage r room = respond (
    andNext (authenticated r) (\<lambda>claims.
    andNext storage_store (\<lambda>store.
    andNext (may_use_storage claims ''storage:write'' room) (\<lambda>_.
    andNext (\<lambda>s. orElse (readStorageDocument r (payload_limit s)) (\<lambda>response. response) s) (\<lambda>document.
    andNext (setStorageMutationEventPlan store room document) (\<lambda>plan.
    andNext (publishStorageMutationEventPlan store plan) (\<lambda>_.
    andNext (effect (recordVersionSnapshot room ''storage'' ''storage.set'' (sm_Document (sme_Mutation plan)))) (\<lambda>_.
    andNext (effect (admin_recordUsage r room ''storage.set'' 1)) (\<lambda>_.
    andNext (effect (audit_room r claims ''storage.set'' room no_audit_metadata)) (\<lambda>_.
    give (writeRawJSON 200 (sm_Document (sme_Mutation plan)))))))))))))"

definition handleDeleteStorage :: "AdminRequest \<Rightarrow> room_id \<Rightarrow> 'st handler" where
  "handleDeleteStorage r room = respond (
    andNext (authenticated r) (\<lambda>claims.
    andNext storage_store (\<lambda>store.
    andNext (may_use_storage claims ''storage:write'' room) (\<lambda>_.
    andNext (deleteStorageMutationEventPlan store room) (\<lambda>plan.
    andNext (publishStorageMutationEventPlan store plan) (\<lambda>_.
    andNext (effect (admin_recordUsage r room ''storage.deleted'' 1)) (\<lambda>_.
    andNext (effect (audit_room r claims ''storage.delete'' room no_audit_metadata)) (\<lambda>_.
    give (write_status 204)))))))))"

definition admin_handleStoragePatch :: "AdminRequest \<Rightarrow> room_id \<Rightarrow> 'st handler" where
  "admin_handleStoragePatch r room = respond (
    andNext (has_method r ''PATCH'') (\<lambda>_.
    andNext (authenticated r) (\<lambda>claims.
    andNext storage_store (\<lambda>store.
    andNext (may_use_storage claims ''storage:write'' room) (\<lambda>_.
    andNext (\<lambda>s. valid (decodeStoragePatch r (payload_limit s)) s) (\<lambda>operations.
    andNext (applyStoragePatchMutationEventPlan store room operations) (\<lambda>plan.
    andNext (publishStorageMutationEventPlan store plan) (\<lambda>_.
    andNext (effect (recordVersionSnapshot room ''storage'' ''storage.patch'' (sm_Document (sme_Mutation plan)))) (\<lambda>_.
    andNext (effect (admin_recordUsage r room ''storage.patch'' 1)) (\<lambda>_.
    andNext (effect (audit_room r claims ''storage.patch'' room
               (audit_metadata ''operations'' (format_int (len operations))))) (\<lambda>_.
    give (writeRawJSON 200 (sm_Document (sme_Mutation plan))))))))))))))"

definition handleStorage :: "AdminRequest \<Rightarrow> room_id \<Rightarrow> 'st handler" where
  "handleStorage r room =
    (if rq_Method r = ''GET'' then handleGetStorage r room
     else if rq_Method r = ''PUT'' then handleSetStorage r room
     else if rq_Method r = ''DELETE'' then handleDeleteStorage r room
     else respond (stop method_not_allowed))"

end
