(* ===== verification/Admin_Threads.thy ===== *)
theory Admin_Threads
  imports Admin_Rooms
begin

text \<open>
  Threads, comments and read states: the handlers below \<open>/v1/rooms/<room>/threads\<close>.

  Inbox notifications, notification settings and room subscription settings of the users.
\<close>

definition thread_store :: "('st, 'st AdminStore) step" where
  "thread_store = require_store ''thread APIs require redis backing''"

definition may_use_comments :: "Claims \<Rightarrow> string \<Rightarrow> room_id \<Rightarrow> ('st, unit) step" where
  "may_use_comments claims action room =
    permit (admin_allowsRoomAction claims action room) (forbidden_response ''room comments are not permitted'')"

definition may_notify :: "Claims \<Rightarrow> string \<Rightarrow> ('st, unit) step" where
  "may_notify claims userID =
    permit (notificationAllowed claims userID) (forbidden_response ''user notifications are not permitted'')"

definition thread_not_found :: error_case where
  "thread_not_found = not_found_case (is_cluster ErrThreadNotFound) CodeThreadNotFound ''thread not found''"

subsection \<open>Reading\<close>

definition threadWithReadState :: "ThreadRecord \<Rightarrow> ThreadReadState \<Rightarrow> ThreadRecord" where
  "threadWithReadState thread state =
    thread\<lparr>tr_ReadAt := trs_ReadAt state, tr_Unread := Some (trs_Unread state)\<rparr>"

text \<open>A thread that is gone is left out, any other error ends the list.\<close>

fun enrichThreadReadStates ::
  "'st AdminStore \<Rightarrow> 'st \<Rightarrow> room_id \<Rightarrow> string \<Rightarrow> ThreadRecord list \<Rightarrow> go_error + ThreadRecord list" where
  "enrichThreadReadStates store st room userID [] = Inr []"
| "enrichThreadReadStates store st room userID (thread # threads) =
    (case as_GetThreadReadState store st room (tr_ID thread) userID of
       Inl err \<Rightarrow>
         if errors_Is err (is_cluster ErrThreadNotFound)
         then enrichThreadReadStates store st room userID threads else Inl err
     | Inr state \<Rightarrow>
         (case enrichThreadReadStates store st room userID threads of
            Inl err \<Rightarrow> Inl err
          | Inr enriched \<Rightarrow> Inr (threadWithReadState thread state # enriched)))"

definition with_read_states ::
  "'st AdminStore \<Rightarrow> room_id \<Rightarrow> string \<Rightarrow> ThreadRecord list \<Rightarrow> ('st, ThreadRecord list) step" where
  "with_read_states store room userID threads =
    (if userID = [] then give threads
     else reads (\<lambda>st. enrichThreadReadStates store st room userID threads) [])"

text \<open>A user has to be valid and allowed; without one a query cannot ask for unread threads.\<close>

definition list_user :: "Claims \<Rightarrow> string \<Rightarrow> threadListQuery \<Rightarrow> ('st, unit) step" where
  "list_user claims userID query =
    (if userID \<noteq> [] then
       andNext (valid (validateThreadReadStateUserID userID)) (\<lambda>_. may_notify claims userID)
     else require (\<not> threadListQuery_NeedsReadState query)
            (bad_request_response ''unread thread query requires userId''))"

definition handleListThreads :: "AdminRequest \<Rightarrow> room_id \<Rightarrow> 'st handler" where
  "handleListThreads r room = respond (
    andNext (authenticated r) (\<lambda>claims.
    andNext thread_store (\<lambda>store.
    andNext (may_use_comments claims ''comments:read'' room) (\<lambda>_.
    andNext (valid_text (parseThreadListLimit (url_query r ''limit'') (url_query r ''cursor''))) (\<lambda>limit.
    andNext (valid_text (parseCursor (url_query r ''cursor''))) (\<lambda>cursor.
    andNext (valid (parseThreadListQuery (url_query r ''query''))) (\<lambda>query.
    andNext (list_user claims (trim_space (url_query r ''userId'')) query) (\<lambda>_.
    andNext (reads (\<lambda>st. as_ListThreads store st room) []) (\<lambda>threads.
    andNext (with_read_states store room (trim_space (url_query r ''userId'')) threads) (\<lambda>threads.
    give (case paginateThreads (filterThreads threads query) cursor limit of
            (page, nextCursor) \<Rightarrow> writeJSON 200 (ThreadListBody page (next_cursor_text nextCursor)))))))))))))"

definition handleGetThread :: "AdminRequest \<Rightarrow> room_id \<Rightarrow> string \<Rightarrow> 'st handler" where
  "handleGetThread r room threadID = respond (
    andNext (authenticated r) (\<lambda>claims.
    andNext thread_store (\<lambda>store.
    andNext (may_use_comments claims ''comments:read'' room) (\<lambda>_.
    andNext (reads (\<lambda>st. as_GetThread store st room threadID) [thread_not_found]) (\<lambda>thread.
    give (writeJSON 200 (ThreadBody thread)))))))"

subsection \<open>Read states\<close>

definition authorizeThreadReadState :: "Claims \<Rightarrow> room_id \<Rightarrow> string \<Rightarrow> ('st, unit) step" where
  "authorizeThreadReadState claims room userID =
    andNext (may_use_comments claims ''comments:read'' room) (\<lambda>_. may_notify claims userID)"

definition handleGetThreadReadState :: "AdminRequest \<Rightarrow> room_id \<Rightarrow> string \<Rightarrow> 'st handler" where
  "handleGetThreadReadState r room threadID = respond (
    andNext (has_method r ''GET'') (\<lambda>_.
    andNext (authenticated r) (\<lambda>claims.
    andNext thread_store (\<lambda>store.
    andNext (valid (validateThreadReadStateUserID (trim_space (url_query r ''userId'')))) (\<lambda>_.
    andNext (authorizeThreadReadState claims room (trim_space (url_query r ''userId''))) (\<lambda>_.
    andNext (reads (\<lambda>st. as_GetThreadReadState store st room threadID (trim_space (url_query r ''userId'')))
               [thread_not_found]) (\<lambda>state.
    give (writeJSON 200 (ReadStateBody state)))))))))"

definition handleThreadReadStateMutation ::
  "AdminRequest \<Rightarrow> room_id \<Rightarrow> string \<Rightarrow> bool \<Rightarrow> 'st handler" where
  "handleThreadReadStateMutation r room threadID read = respond (
    andNext (has_method r ''POST'') (\<lambda>_.
    andNext (authenticated r) (\<lambda>claims.
    andNext thread_store (\<lambda>store.
    andNext (decoded r decode_ThreadReadStateRequest no_ThreadReadStateRequest) (\<lambda>request.
    andNext (valid (validateThreadReadStateUserID (trq_UserID request))) (\<lambda>_.
    andNext (authorizeThreadReadState claims room (trq_UserID request)) (\<lambda>_.
    andNext (writes (if read then as_MarkThreadRead store room threadID (trq_UserID request)
                     else as_MarkThreadUnread store room threadID (trq_UserID request)) [thread_not_found]) (\<lambda>state.
    give (writeJSON 200 (ReadStateBody state))))))))))"

definition handleMarkThreadRead :: "AdminRequest \<Rightarrow> room_id \<Rightarrow> string \<Rightarrow> 'st handler" where
  "handleMarkThreadRead r room threadID = handleThreadReadStateMutation r room threadID True"

definition handleMarkThreadUnread :: "AdminRequest \<Rightarrow> room_id \<Rightarrow> string \<Rightarrow> 'st handler" where
  "handleMarkThreadUnread r room threadID = handleThreadReadStateMutation r room threadID False"

subsection \<open>Changing threads\<close>

definition id_or_new :: "string \<Rightarrow> string \<Rightarrow> ('st, string) step" where
  "id_or_new i pre = (if i = [] then new_id pre else give i)"

definition firstThreadComment :: "ThreadRecord \<Rightarrow> CommentRecord option" where
  "firstThreadComment thread = (case tr_Comments thread of [] \<Rightarrow> None | c # _ \<Rightarrow> Some c)"

definition findThreadComment :: "ThreadRecord \<Rightarrow> string \<Rightarrow> CommentRecord option" where
  "findThreadComment thread commentID = find (\<lambda>c. cr_ID c = commentID) (tr_Comments thread)"

definition new_thread :: "room_id \<Rightarrow> string \<Rightarrow> ThreadCreateRequest \<Rightarrow> CommentCreateRequest \<Rightarrow> ThreadRecord" where
  "new_thread room threadID request comment =
    \<lparr>tr_Type = [], tr_ID = threadID, tr_RoomID = room,
     tr_Comments = [commentRecordFromRequest room threadID comment], tr_Resolved = False,
     tr_Metadata = normalizedMetadata (tcq_Metadata request), tr_ReadAt = None, tr_Unread = None,
     tr_CreatedAt = zero_time, tr_UpdatedAt = zero_time\<rparr>"

definition handleCreateThread :: "AdminRequest \<Rightarrow> room_id \<Rightarrow> 'st handler" where
  "handleCreateThread r room = respond (
    andNext (authenticated r) (\<lambda>claims.
    andNext thread_store (\<lambda>store.
    andNext (may_use_comments claims ''comments:write'' room) (\<lambda>_.
    andNext (decoded r decode_ThreadCreateRequest no_ThreadCreateRequest) (\<lambda>request.
    andNext (id_or_new (tcq_ID request) ''th'') (\<lambda>threadID.
    andNext (id_or_new (ccq_ID (tcq_Comment request)) ''cm'') (\<lambda>commentID.
    andNext (give ((tcq_Comment request)\<lparr>ccq_ID := commentID\<rparr>)) (\<lambda>comment.
    andNext (\<lambda>s. valid (validateThreadRequest threadID (tcq_Metadata request) comment (payload_limit s)) s) (\<lambda>_.
    andNext (writes (as_CreateThread store room (new_thread room threadID request comment))
             [conflict_case (is_cluster ErrThreadAlreadyExists) CodeThreadConflict ''thread already exists'']) (\<lambda>thread.
    andNext (publishCommentEvent store CommentThreadCreated thread (firstThreadComment thread)) (\<lambda>_.
    give (writeJSON 201 (ThreadBody thread)))))))))))))"

definition handleUpdateThread :: "AdminRequest \<Rightarrow> room_id \<Rightarrow> string \<Rightarrow> 'st handler" where
  "handleUpdateThread r room threadID = respond (
    andNext (authenticated r) (\<lambda>claims.
    andNext thread_store (\<lambda>store.
    andNext (may_use_comments claims ''comments:write'' room) (\<lambda>_.
    andNext (decoded r decode_ThreadUpdateRequest no_ThreadUpdateRequest) (\<lambda>request.
    andNext (\<lambda>s. valid (validateThreadUpdateRequest request (payload_limit s)) s) (\<lambda>_.
    andNext (writes (as_UpdateThread store room threadID (threadUpdateFromRequest request)) [thread_not_found]) (\<lambda>thread.
    andNext (publishCommentEvent store CommentThreadUpdated thread None) (\<lambda>_.
    give (writeJSON 200 (ThreadBody thread))))))))))"

definition handleDeleteThread :: "AdminRequest \<Rightarrow> room_id \<Rightarrow> string \<Rightarrow> 'st handler" where
  "handleDeleteThread r room threadID = respond (
    andNext (authenticated r) (\<lambda>claims.
    andNext thread_store (\<lambda>store.
    andNext (may_use_comments claims ''comments:write'' room) (\<lambda>_.
    andNext (writes (as_DeleteThread store room threadID) [thread_not_found]) (\<lambda>thread.
    andNext (publishCommentEvent store CommentThreadDeleted thread None) (\<lambda>_.
    give (write_status 204)))))))"

subsection \<open>Comments\<close>

definition handleAddComment :: "AdminRequest \<Rightarrow> room_id \<Rightarrow> string \<Rightarrow> 'st handler" where
  "handleAddComment r room threadID = respond (
    andNext (has_method r ''POST'') (\<lambda>_.
    andNext (authenticated r) (\<lambda>claims.
    andNext thread_store (\<lambda>store.
    andNext (may_use_comments claims ''comments:write'' room) (\<lambda>_.
    andNext (decoded r decode_CommentCreateRequest no_CommentCreateRequest) (\<lambda>request.
    andNext (id_or_new (ccq_ID request) ''cm'') (\<lambda>commentID.
    andNext (give (request\<lparr>ccq_ID := commentID\<rparr>)) (\<lambda>request.
    andNext (\<lambda>s. valid (validateCommentRequest request (payload_limit s)) s) (\<lambda>_.
    andNext (writes (as_AddComment store room threadID (commentRecordFromRequest room threadID request))
             [thread_not_found]) (\<lambda>thread.
    andNext (publishCommentEvent store CommentCreated thread (findThreadComment thread (ccq_ID request))) (\<lambda>_.
    give (writeJSON 201 (ThreadBody thread)))))))))))))"

definition comment_failure :: "go_error \<Rightarrow> Response" where
  "comment_failure err =
    (if errors_Is err (is_cluster ErrThreadNotFound) \<or> errors_Is err (is_cluster ErrCommentNotFound)
     then writeError CodeThreadNotFound (Error_of err) [] 404 else internal_response err)"

definition handleUpdateComment :: "AdminRequest \<Rightarrow> room_id \<Rightarrow> string \<Rightarrow> string \<Rightarrow> 'st handler" where
  "handleUpdateComment r room threadID commentID = respond (
    andNext (has_method r ''PATCH'') (\<lambda>_.
    andNext (authenticated r) (\<lambda>claims.
    andNext thread_store (\<lambda>store.
    andNext (may_use_comments claims ''comments:write'' room) (\<lambda>_.
    andNext (decoded r decode_CommentUpdateRequest no_CommentUpdateRequest) (\<lambda>request.
    andNext (\<lambda>s. valid (validateCommentUpdateRequest request (payload_limit s)) s) (\<lambda>_.
    andNext (writes_or (as_UpdateComment store room threadID commentID (commentUpdateFromRequest request))
               comment_failure) (\<lambda>thread.
    andNext (publishCommentEvent store CommentUpdated thread (findThreadComment thread commentID)) (\<lambda>_.
    give (writeJSON 200 (ThreadBody thread)))))))))))"

subsection \<open>Routes\<close>

definition handleThreads :: "AdminRequest \<Rightarrow> room_id \<Rightarrow> 'st handler" where
  "handleThreads r room =
    (if rq_Method r = ''GET'' then handleListThreads r room
     else if rq_Method r = ''POST'' then handleCreateThread r room
     else respond (stop method_not_allowed))"

definition handleThread :: "AdminRequest \<Rightarrow> room_id \<Rightarrow> string \<Rightarrow> 'st handler" where
  "handleThread r room threadID =
    (if rq_Method r = ''GET'' then handleGetThread r room threadID
     else if rq_Method r = ''PATCH'' then handleUpdateThread r room threadID
     else if rq_Method r = ''DELETE'' then handleDeleteThread r room threadID
     else respond (stop method_not_allowed))"

definition handleThreadSubresource :: "AdminRequest \<Rightarrow> room_id \<Rightarrow> string \<Rightarrow> 'st handler" where
  "handleThreadSubresource r room subresource =
    (case threadPathParts subresource of
       Inl err \<Rightarrow> respond (stop (bad_request_response err))
     | Inr (threadID, child) \<Rightarrow>
         if child = [] then handleThread r room threadID
         else if child = ''comments'' then handleAddComment r room threadID
         else if child = ''read-state'' then handleGetThreadReadState r room threadID
         else if child = ''read'' then handleMarkThreadRead r room threadID
         else if child = ''unread'' then handleMarkThreadUnread r room threadID
         else if prefix (''comments'' @ [slash]) child then
           (case commentPathPart child of
              Inl err \<Rightarrow> respond (stop (bad_request_response err))
            | Inr commentID \<Rightarrow> handleUpdateComment r room threadID commentID)
         else respond (stop (bad_request_response ''unsupported thread subresource'')))"

definition notification_store :: "('st, 'st AdminStore) step" where
  "notification_store = require_store ''notification APIs require redis backing''"

definition notification_not_found :: error_case where
  "notification_not_found =
    not_found_case (is_cluster ErrInboxNotFound) CodeInboxNotificationNotFound ''inbox notification not found''"

text \<open>Every handler of a user starts like this.\<close>

definition for_user :: "AdminRequest \<Rightarrow> string \<Rightarrow> ('st, 'st AdminStore) step" where
  "for_user r userID =
    andNext (authenticated r) (\<lambda>claims.
    andNext notification_store (\<lambda>store.
    andNext (may_notify claims userID) (\<lambda>_. give store)))"

definition page_cursor :: "AdminRequest \<Rightarrow> string" where
  "page_cursor r = firstNonEmpty [url_query r ''cursor'', url_query r ''startingAfter'']"

subsection \<open>Inbox\<close>

definition list_inbox :: "AdminRequest \<Rightarrow> string \<Rightarrow> 'st AdminStore \<Rightarrow> ('st, Response) step" where
  "list_inbox r userID store =
    andNext (valid_text (parseNotificationListLimit (url_query r ''limit''))) (\<lambda>limit.
    andNext (valid_text (parseCursor (page_cursor r))) (\<lambda>cursor.
    andNext (reads (\<lambda>st. as_ListInboxNotifications store st userID
               \<lparr>nf_UnreadOnly = unreadOnlyQuery (url_query r ''query'') (url_query r ''unread''),
                nf_Cursor = cursor, nf_Limit = limit\<rparr>) []) (\<lambda>l.
    give (writeJSON 200 (NotificationListBody (nl_Data l) (next_cursor_text (nl_NextCursor l)))))))"

definition clear_inbox :: "string \<Rightarrow> 'st AdminStore \<Rightarrow> ('st, Response) step" where
  "clear_inbox userID store =
    andNext (writes (as_DeleteAllInboxNotifications store userID) []) (\<lambda>_.
    andNext (publishNotificationEvent store NotificationInboxDeletedAll userID None) (\<lambda>_.
    give (write_status 204)))"

definition get_notification :: "string \<Rightarrow> string \<Rightarrow> 'st AdminStore \<Rightarrow> ('st, Response) step" where
  "get_notification userID notificationID store =
    andNext (reads (\<lambda>st. as_GetInboxNotification store st userID notificationID) [notification_not_found]) (\<lambda>n.
    give (writeJSON 200 (NotificationBody n)))"

definition delete_notification :: "string \<Rightarrow> string \<Rightarrow> 'st AdminStore \<Rightarrow> ('st, Response) step" where
  "delete_notification userID notificationID store =
    andNext (reads (\<lambda>st. as_GetInboxNotification store st userID notificationID) [notification_not_found]) (\<lambda>n.
    andNext (writes (as_DeleteInboxNotification store userID notificationID) [notification_not_found]) (\<lambda>_.
    andNext (publishNotificationEvent store NotificationInboxDeleted userID (Some n)) (\<lambda>_.
    give (write_status 204))))"

definition handleUserInboxNotifications :: "AdminRequest \<Rightarrow> string \<Rightarrow> string \<Rightarrow> 'st handler" where
  "handleUserInboxNotifications r userID notificationID = respond (
    andNext (for_user r userID) (\<lambda>store.
     if notificationID = [] then
       (if rq_Method r = ''GET'' then list_inbox r userID store
        else if rq_Method r = ''DELETE'' then clear_inbox userID store
        else stop method_not_allowed)
     else
       (if rq_Method r = ''GET'' then get_notification userID notificationID store
        else if rq_Method r = ''DELETE'' then delete_notification userID notificationID store
        else stop method_not_allowed)))"

definition new_notification :: "InboxNotificationTriggerRequest \<Rightarrow> InboxNotificationRecord" where
  "new_notification request =
    \<lparr>in_ID = inq_ID request, in_UserID = inq_UserID request, in_Kind = inq_Kind request,
     in_SubjectID = inq_SubjectID request, in_ThreadID = inq_ThreadID request, in_RoomID = inq_RoomID request,
     in_ReadAt = None, in_NotifiedAt = zero_time,
     in_ActivityData = normalizedMetadata (inq_ActivityData request)\<rparr>"

definition handleTriggerInboxNotification :: "AdminRequest \<Rightarrow> 'st handler" where
  "handleTriggerInboxNotification r = respond (
    andNext (has_method r ''POST'') (\<lambda>_.
    andNext (authenticated r) (\<lambda>claims.
    andNext notification_store (\<lambda>store.
    andNext (decoded r decode_InboxNotificationTriggerRequest no_InboxNotificationTriggerRequest) (\<lambda>request.
    andNext (id_or_new (inq_ID request) ''in'') (\<lambda>i.
    andNext (give (request\<lparr>inq_ID := i\<rparr>)) (\<lambda>request.
    andNext (\<lambda>s. valid (validateInboxNotificationRequest request (payload_limit s)) s) (\<lambda>_.
    andNext (may_notify claims (inq_UserID request)) (\<lambda>_.
    andNext (writes (as_CreateInboxNotification store (new_notification request))
             [conflict_case (is_cluster ErrInboxAlreadyExists) CodeInboxNotificationConflict
                ''inbox notification already exists'']) (\<lambda>n.
    andNext (publishNotificationEvent store NotificationInboxCreated (in_UserID n) (Some n)) (\<lambda>_.
    give (writeJSON 201 (NotificationBody n)))))))))))))"

text \<open>The user of the notification is known only after it was read.\<close>

definition handleInboxNotificationAction :: "AdminRequest \<Rightarrow> 'st handler" where
  "handleInboxNotificationAction r = respond (
    andNext (valid_text (inboxNotificationActionParts (hr_Path r))) (\<lambda>(notificationID, child).
    andNext (require (child = ''read'') (bad_request_response ''unsupported inbox notification action'')) (\<lambda>_.
    andNext (has_method r ''POST'') (\<lambda>_.
    andNext (authenticated r) (\<lambda>claims.
    andNext notification_store (\<lambda>store.
    andNext (reads (\<lambda>st. as_GetInboxNotification store st [] notificationID) [notification_not_found]) (\<lambda>existing.
    andNext (may_notify claims (in_UserID existing)) (\<lambda>_.
    andNext (writes (as_MarkInboxNotificationRead store notificationID) [notification_not_found]) (\<lambda>n.
    andNext (publishNotificationEvent store NotificationInboxRead (in_UserID n) (Some n)) (\<lambda>_.
    give (writeJSON 200 (NotificationBody n))))))))))))"

subsection \<open>Settings\<close>

definition set_notification_settings :: "AdminRequest \<Rightarrow> string \<Rightarrow> 'st AdminStore \<Rightarrow> ('st, Response) step" where
  "set_notification_settings r userID store =
    andNext (\<lambda>s. valid (readNotificationSettings r (payload_limit s)) s) (\<lambda>settings.
    andNext (writes (as_SetNotificationSettings store userID settings) []) (\<lambda>stored.
    give (writeRawJSON 200 stored)))"

definition handleNotificationSettings :: "AdminRequest \<Rightarrow> string \<Rightarrow> 'st handler" where
  "handleNotificationSettings r userID = respond (
    andNext (for_user r userID) (\<lambda>store.
     if rq_Method r = ''GET'' then
       andNext (reads (\<lambda>st. as_GetNotificationSettings store st userID) []) (\<lambda>settings.
       give (writeRawJSON 200 settings))
     else if rq_Method r = ''POST'' then set_notification_settings r userID store
     else if rq_Method r = ''DELETE'' then
       andNext (writes (as_DeleteNotificationSettings store userID) []) (\<lambda>_. give (write_status 204))
     else stop method_not_allowed))"

definition set_room_settings ::
  "AdminRequest \<Rightarrow> room_id \<Rightarrow> string \<Rightarrow> 'st AdminStore \<Rightarrow> ('st, Response) step" where
  "set_room_settings r room userID store =
    andNext (decoded r decode_RoomSubscriptionSettingsRequest no_RoomSubscriptionSettingsRequest) (\<lambda>request.
    andNext (valid (validateRoomSubscriptionSettingsRequest request)) (\<lambda>_.
    andNext (writes (as_SetRoomSubscriptionSettings store
               \<lparr>rs_RoomID = room, rs_UserID = userID, rs_Threads = rsq_Threads request,
                rs_TextMentions = rsq_TextMentions request, rs_UpdatedAt = zero_time\<rparr>) []) (\<lambda>settings.
    give (writeJSON 200 (SettingsBody settings)))))"

definition handleRoomSubscriptionSettings :: "AdminRequest \<Rightarrow> room_id \<Rightarrow> string \<Rightarrow> 'st handler" where
  "handleRoomSubscriptionSettings r room userID = respond (
    andNext (for_user r userID) (\<lambda>store.
     if rq_Method r = ''GET'' then
       andNext (reads (\<lambda>st. as_GetRoomSubscriptionSettings store st room userID) []) (\<lambda>settings.
       give (writeJSON 200 (SettingsBody settings)))
     else if rq_Method r = ''POST'' then set_room_settings r room userID store
     else if rq_Method r = ''DELETE'' then
       andNext (writes (as_DeleteRoomSubscriptionSettings store room userID) []) (\<lambda>_. give (write_status 204))
     else stop method_not_allowed))"

definition handleUserRoomSubscriptionSettings :: "AdminRequest \<Rightarrow> string \<Rightarrow> 'st handler" where
  "handleUserRoomSubscriptionSettings r userID = respond (
    andNext (has_method r ''GET'') (\<lambda>_.
    andNext (for_user r userID) (\<lambda>store.
    andNext (valid_text (parseNotificationListLimit (url_query r ''limit''))) (\<lambda>limit.
    andNext (valid_text (parseCursor (page_cursor r))) (\<lambda>cursor.
    andNext (reads (\<lambda>st. as_ListRoomSubscriptionSettings store st userID cursor limit) []) (\<lambda>l.
    give (writeJSON 200 (SettingsListBody (sl_Data l) (next_cursor_text (sl_NextCursor l))))))))))"

subsection \<open>Routes\<close>

definition handleRoomUserSubresource :: "AdminRequest \<Rightarrow> room_id \<Rightarrow> string \<Rightarrow> 'st handler" where
  "handleRoomUserSubresource r room subresource =
    (case roomUserPathParts subresource of
       Inl err \<Rightarrow> respond (stop (bad_request_response err))
     | Inr (userID, child) \<Rightarrow>
         if child = ''subscription-settings'' then handleRoomSubscriptionSettings r room userID
         else respond (stop (bad_request_response ''unsupported room user subresource'')))"

definition handleUser :: "AdminRequest \<Rightarrow> 'st handler" where
  "handleUser r =
    (case userPathParts (hr_Path r) of
       Inl err \<Rightarrow> respond (stop (bad_request_response err))
     | Inr (userID, subresource, itemID) \<Rightarrow>
         if subresource = ''inbox-notifications'' then handleUserInboxNotifications r userID itemID
         else if subresource = ''notification-settings'' then
           (if itemID \<noteq> []
            then respond (stop (bad_request_response ''unsupported notification settings subresource''))
            else handleNotificationSettings r userID)
         else if subresource = ''room-subscription-settings'' then
           (if itemID \<noteq> []
            then respond (stop (bad_request_response ''unsupported room subscription settings subresource''))
            else handleUserRoomSubscriptionSettings r userID)
         else respond (stop (bad_request_response ''unsupported user subresource'')))"

end
