(* ===== verification/Admin_Product.thy ===== *)
theory Admin_Product
  imports Admin_Threads
begin

text \<open>
  The product records of \<open>admin/product.go\<close>: tenants, projects, API keys, audit logs, usage,
  webhook deliveries, resume sessions, version snapshots and rich-text documents.

  Resume sessions, version snapshots and rich-text documents (\<open>admin/product.go\<close>).
\<close>

subsection \<open>Access\<close>

definition is_product :: "product_error \<Rightarrow> go_error \<Rightarrow> bool" where
  "is_product e err \<longleftrightarrow> err = ErrProduct e"

text \<open>The claims, the store and its interface for product records.\<close>

definition authenticateProduction ::
  "AdminRequest \<Rightarrow> ('st, Claims \<times> 'st AdminStore \<times> 'st productionStore) step" where
  "authenticateProduction r =
    andNext (authenticated r) (\<lambda>claims s.
      case ad_store s of
        None \<Rightarrow> (Inl (unavailable ''production product APIs require redis backing''), s)
      | Some store \<Rightarrow>
          (case as_Production store of
             None \<Rightarrow> (Inl (unavailable ''production product APIs require redis backing''), s)
           | Some ps \<Rightarrow> (Inr (claims, store, ps), s)))"

definition may_administer_tenant :: "Claims \<Rightarrow> string \<Rightarrow> string \<Rightarrow> ('st, unit) step" where
  "may_administer_tenant claims tenantID what =
    permit (allowsTenantAdmin claims tenantID) (forbidden_response (what @ '' is not permitted''))"

definition gone :: "product_error \<Rightarrow> string \<Rightarrow> error_case" where
  "gone e message = not_found_case (is_product e) CodeRoomNotFound message"

definition taken :: "product_error \<Rightarrow> string \<Rightarrow> error_case" where
  "taken e message = conflict_case (is_product e) CodeRoomConflict message"

definition list_limit :: "AdminRequest \<Rightarrow> ('st, int) step" where
  "list_limit r =
    orElse (parseProductListLimit (url_query r ''limit'')) (\<lambda>message. writeError CodeBadRequest message [] 400)"

subsection \<open>Tenants\<close>

definition visible_tenants :: "Claims \<Rightarrow> 'st Admin \<Rightarrow> TenantRecord list \<Rightarrow> TenantRecord list" where
  "visible_tenants claims s tenants =
    (if tc_EnforcePrefix (cfg_Tenant (ad_cfg s)) \<and> cl_Tenant claims \<noteq> [] \<and> \<not> allowsTenantAdmin claims ''*'' s
     then filter (\<lambda>t. tn_ID t = cl_Tenant claims) tenants else tenants)"

definition handleListTenants :: "AdminRequest \<Rightarrow> 'st handler" where
  "handleListTenants r = respond (
    andNext (authenticateProduction r) (\<lambda>(claims, _, ps).
    andNext (reads (ps_ListTenants ps) []) (\<lambda>tenants.
    andNext (\<lambda>s. give (visible_tenants claims s tenants) s) (\<lambda>tenants.
    give (writeJSON 200 (TenantsBody tenants))))))"

definition handleCreateTenant :: "AdminRequest \<Rightarrow> 'st handler" where
  "handleCreateTenant r = respond (
    andNext (authenticateProduction r) (\<lambda>(claims, _, ps).
    andNext (decoded r decode_tenantRequest no_tenantRequest) (\<lambda>request.
    andNext (valid_message (validateProductID ''tenant id'' (tnq_ID request))) (\<lambda>_.
    andNext (\<lambda>s. valid (validateProductMetadata (tnq_Metadata request) True (payload_limit s)) s) (\<lambda>_.
    andNext (may_administer_tenant claims (tnq_ID request) ''tenant administration'') (\<lambda>_.
    andNext (writes (ps_CreateTenant ps
               \<lparr>tn_ID = tnq_ID request, tn_Name = tnq_Name request,
                tn_Metadata = normalizedMetadata (tnq_Metadata request), tn_CreatedAt = zero_time,
                tn_UpdatedAt = zero_time\<rparr>) [taken ErrTenantAlreadyExists ''tenant already exists'']) (\<lambda>rec.
    andNext (effect (recordAuditLog claims ''tenant.create'' ''tenant'' (tn_ID rec) (tn_ID rec) []
               (audit_metadata ''name'' (quote_text (tn_Name rec))))) (\<lambda>_.
    give (writeJSON 201 (TenantBody rec))))))))))"

definition handleGetTenant :: "AdminRequest \<Rightarrow> string \<Rightarrow> 'st handler" where
  "handleGetTenant r tenantID = respond (
    andNext (authenticateProduction r) (\<lambda>(claims, _, ps).
    andNext (may_administer_tenant claims tenantID ''tenant administration'') (\<lambda>_.
    andNext (reads (\<lambda>st. ps_GetTenant ps st tenantID) [gone ErrTenantNotFound ''tenant not found'']) (\<lambda>rec.
    give (writeJSON 200 (TenantBody rec))))))"

definition tenant_update :: "tenantUpdateRequest \<Rightarrow> TenantUpdate" where
  "tenant_update request =
    \<lparr>tnu_Name = (case tnuq_Name request of None \<Rightarrow> [] | Some n \<Rightarrow> trim_space n),
     tnu_NameSet = (tnuq_Name request \<noteq> None),
     tnu_Metadata = (case tnuq_Metadata request of None \<Rightarrow> [] | Some m \<Rightarrow> normalizedMetadata m),
     tnu_MetadataSet = (tnuq_Metadata request \<noteq> None)\<rparr>"

definition handleUpdateTenant :: "AdminRequest \<Rightarrow> string \<Rightarrow> 'st handler" where
  "handleUpdateTenant r tenantID = respond (
    andNext (authenticateProduction r) (\<lambda>(claims, _, ps).
    andNext (may_administer_tenant claims tenantID ''tenant administration'') (\<lambda>_.
    andNext (decoded r decode_tenantUpdateRequest no_tenantUpdateRequest) (\<lambda>request.
    andNext (\<lambda>s. valid (check_option (\<lambda>m. validateProductMetadata m False (payload_limit s))
               (tnuq_Metadata request)) s) (\<lambda>_.
    andNext (writes (ps_UpdateTenant ps tenantID (tenant_update request))
             [gone ErrTenantNotFound ''tenant not found'']) (\<lambda>rec.
    andNext (effect (recordAuditLog claims ''tenant.update'' ''tenant'' tenantID tenantID [] no_audit_metadata)) (\<lambda>_.
    give (writeJSON 200 (TenantBody rec)))))))))"

definition handleTenants :: "AdminRequest \<Rightarrow> 'st handler" where
  "handleTenants r =
    (if rq_Method r = ''GET'' then handleListTenants r
     else if rq_Method r = ''POST'' then handleCreateTenant r
     else respond (stop method_not_allowed))"

subsection \<open>Projects\<close>

definition handleListProjects :: "AdminRequest \<Rightarrow> string \<Rightarrow> 'st handler" where
  "handleListProjects r tenantID = respond (
    andNext (authenticateProduction r) (\<lambda>(claims, _, ps).
    andNext (may_administer_tenant claims tenantID ''project administration'') (\<lambda>_.
    andNext (reads (\<lambda>st. ps_ListProjects ps st tenantID) []) (\<lambda>projects.
    give (writeJSON 200 (ProjectsBody projects))))))"

definition handleCreateProject :: "AdminRequest \<Rightarrow> string \<Rightarrow> 'st handler" where
  "handleCreateProject r tenantID = respond (
    andNext (authenticateProduction r) (\<lambda>(claims, _, ps).
    andNext (may_administer_tenant claims tenantID ''project administration'') (\<lambda>_.
    andNext (decoded r decode_projectRequest no_projectRequest) (\<lambda>request.
    andNext (valid_message (validateProductID ''project id'' (pjq_ID request))) (\<lambda>_.
    andNext (\<lambda>s. valid (validateProductMetadata (pjq_Metadata request) True (payload_limit s)) s) (\<lambda>_.
    andNext (writes (ps_CreateProject ps
               \<lparr>pj_ID = pjq_ID request, pj_TenantID = tenantID, pj_Name = pjq_Name request,
                pj_Metadata = normalizedMetadata (pjq_Metadata request), pj_CreatedAt = zero_time,
                pj_UpdatedAt = zero_time\<rparr>)
             [gone ErrTenantNotFound ''tenant not found'', taken ErrProjectAlreadyExists ''project already exists''])
             (\<lambda>rec.
    andNext (effect (recordAuditLog claims ''project.create'' ''project'' (pj_ID rec) tenantID (pj_ID rec)
               (audit_metadata ''name'' (quote_text (pj_Name rec))))) (\<lambda>_.
    give (writeJSON 201 (ProjectBody rec))))))))))"

definition handleGetProject :: "AdminRequest \<Rightarrow> string \<Rightarrow> string \<Rightarrow> 'st handler" where
  "handleGetProject r tenantID projectID = respond (
    andNext (authenticateProduction r) (\<lambda>(claims, _, ps).
    andNext (may_administer_tenant claims tenantID ''project administration'') (\<lambda>_.
    andNext (reads (\<lambda>st. ps_GetProject ps st tenantID projectID)
             [gone ErrProjectNotFound ''project not found'']) (\<lambda>rec.
    give (writeJSON 200 (ProjectBody rec))))))"

definition project_update :: "projectUpdateRequest \<Rightarrow> ProjectUpdate" where
  "project_update request =
    \<lparr>pju_Name = (case pjuq_Name request of None \<Rightarrow> [] | Some n \<Rightarrow> trim_space n),
     pju_NameSet = (pjuq_Name request \<noteq> None),
     pju_Metadata = (case pjuq_Metadata request of None \<Rightarrow> [] | Some m \<Rightarrow> normalizedMetadata m),
     pju_MetadataSet = (pjuq_Metadata request \<noteq> None)\<rparr>"

definition handleUpdateProject :: "AdminRequest \<Rightarrow> string \<Rightarrow> string \<Rightarrow> 'st handler" where
  "handleUpdateProject r tenantID projectID = respond (
    andNext (authenticateProduction r) (\<lambda>(claims, _, ps).
    andNext (may_administer_tenant claims tenantID ''project administration'') (\<lambda>_.
    andNext (decoded r decode_projectUpdateRequest no_projectUpdateRequest) (\<lambda>request.
    andNext (\<lambda>s. valid (check_option (\<lambda>m. validateProductMetadata m False (payload_limit s))
               (pjuq_Metadata request)) s) (\<lambda>_.
    andNext (writes (ps_UpdateProject ps tenantID projectID (project_update request))
             [gone ErrProjectNotFound ''project not found'']) (\<lambda>rec.
    andNext (effect (recordAuditLog claims ''project.update'' ''project'' projectID tenantID projectID
               no_audit_metadata)) (\<lambda>_.
    give (writeJSON 200 (ProjectBody rec)))))))))"

text \<open>The project of the path behind \<open>projects/\<close>; none for the list itself.\<close>

definition project_of_path :: "string \<Rightarrow> string + string" where
  "project_of_path child =
    (if \<not> prefix (''projects'' @ [slash]) child then Inr []
     else
       (let raw = trim_prefix (''projects'' @ [slash]) child in
        if slash \<in> set raw then Inl ''unsupported project subresource''
        else valid_id (validateProductID ''project id'') ''project id must be URL-escaped'' raw))"

definition handleTenantProjects :: "AdminRequest \<Rightarrow> string \<Rightarrow> string \<Rightarrow> 'st handler" where
  "handleTenantProjects r tenantID child =
    (case project_of_path child of
       Inl err \<Rightarrow> respond (stop (bad_request_response err))
     | Inr projectID \<Rightarrow>
         if projectID = [] then
           (if rq_Method r = ''GET'' then handleListProjects r tenantID
            else if rq_Method r = ''POST'' then handleCreateProject r tenantID
            else respond (stop method_not_allowed))
         else
           (if rq_Method r = ''GET'' then handleGetProject r tenantID projectID
            else if rq_Method r = ''PATCH'' then handleUpdateProject r tenantID projectID
            else respond (stop method_not_allowed)))"

definition handleTenant :: "AdminRequest \<Rightarrow> 'st handler" where
  "handleTenant r =
    (case tenantPathParts (hr_Path r) of
       Inl err \<Rightarrow> respond (stop (bad_request_response err))
     | Inr (tenantID, child) \<Rightarrow>
         if child = ''projects'' \<or> prefix (''projects'' @ [slash]) child then handleTenantProjects r tenantID child
         else if child \<noteq> [] then respond (stop (bad_request_response ''unsupported tenant subresource''))
         else if rq_Method r = ''GET'' then handleGetTenant r tenantID
         else if rq_Method r = ''PATCH'' then handleUpdateTenant r tenantID
         else respond (stop method_not_allowed))"

subsection \<open>API keys\<close>

definition hex_bytes :: "bytes \<Rightarrow> string" where
  "hex_bytes raw = concat (map (\<lambda>c. hex_lower 2 (byte c)) raw)"

text \<open>The prefix, the secret that only the creator sees and its hash.\<close>

definition newAPIKeyMaterial :: "'st Admin \<Rightarrow> (string \<times> string \<times> string) option \<times> 'st Admin" where
  "newAPIKeyMaterial s =
    (case randomRead 28 s of
       (None, s) \<Rightarrow> (None, s)
     | (Some raw, s) \<Rightarrow>
         (let pre = ''ortc_'' @ hex_bytes (take 4 raw);
              secret = ''ortc_sk_'' @ pre @ ''_'' @ hex_bytes (drop 4 raw)
          in (Some (pre, secret, ''sha256:'' @ hex_bytes (sha256 secret)), s)))"

definition key_material :: "('st, string \<times> string \<times> string) step" where
  "key_material s =
    (case newAPIKeyMaterial s of
       (None, s) \<Rightarrow> (Inl (writeError CodeInternal (Text ''api key secret generation failed'') [] 500), s)
     | (Some material, s) \<Rightarrow> (Inr material, s))"

definition new_key :: "string \<Rightarrow> apiKeyCreateRequest \<Rightarrow> string \<Rightarrow> string \<Rightarrow> APIKeyRecord" where
  "new_key recordID request pre secretHash =
    \<lparr>ak_ID = recordID, ak_TenantID = akq_TenantID request, ak_ProjectID = akq_ProjectID request,
     ak_Name = trim_space (akq_Name request), ak_Prefix = pre, ak_SecretHash = secretHash,
     ak_Scopes = items (akq_Scopes request), ak_Revoked = False, ak_CreatedAt = zero_time,
     ak_UpdatedAt = zero_time, ak_LastUsedAt = None\<rparr>"

definition handleCreateAPIKey :: "AdminRequest \<Rightarrow> 'st handler" where
  "handleCreateAPIKey r = respond (
    andNext (authenticateProduction r) (\<lambda>(claims, _, ps).
    andNext (decoded r decode_apiKeyCreateRequest no_apiKeyCreateRequest) (\<lambda>request.
    andNext (valid_message (validateProductID ''tenant id'' (akq_TenantID request))) (\<lambda>_.
    andNext (valid_message (validateProductID ''project id'' (akq_ProjectID request))) (\<lambda>_.
    andNext (require (trim_space (akq_Name request) \<noteq> []) (bad_request_response ''api key name is required'')) (\<lambda>_.
    andNext (may_administer_tenant claims (akq_TenantID request) ''api key administration'') (\<lambda>_.
    andNext key_material (\<lambda>(pre, secret, secretHash).
    andNext (new_id ''key'') (\<lambda>recordID.
    andNext (writes (ps_CreateAPIKey ps (new_key recordID request pre secretHash))
             [gone ErrProjectNotFound ''project not found'', taken ErrAPIKeyAlreadyExists ''api key already exists''])
             (\<lambda>rec.
    andNext (effect (recordAuditLog claims ''api_key.create'' ''api_key'' (ak_ID rec) (ak_TenantID rec) (ak_ProjectID rec)
               (audit_metadata ''name'' (quote_text (ak_Name rec))))) (\<lambda>_.
    give (writeJSON 201 (APIKeySecretBody rec secret)))))))))))))"

definition handleListAPIKeys :: "AdminRequest \<Rightarrow> 'st handler" where
  "handleListAPIKeys r = respond (
    andNext (authenticateProduction r) (\<lambda>(claims, _, ps).
    andNext (valid_message (validateProductID ''tenant id'' (url_query r ''tenantId''))) (\<lambda>_.
    andNext (valid_message (validateProductID ''project id'' (url_query r ''projectId''))) (\<lambda>_.
    andNext (may_administer_tenant claims (url_query r ''tenantId'') ''api key administration'') (\<lambda>_.
    andNext (reads (\<lambda>st. ps_ListAPIKeys ps st (url_query r ''tenantId'') (url_query r ''projectId'')) []) (\<lambda>keys.
    give (writeJSON 200 (APIKeysBody keys))))))))"

definition handleAPIKeys :: "AdminRequest \<Rightarrow> 'st handler" where
  "handleAPIKeys r =
    (if rq_Method r = ''GET'' then handleListAPIKeys r
     else if rq_Method r = ''POST'' then handleCreateAPIKey r
     else respond (stop method_not_allowed))"

definition handleAPIKeyAction :: "AdminRequest \<Rightarrow> 'st handler" where
  "handleAPIKeyAction r = respond (
    andNext (valid_text (itemActionParts (hr_Path r) (path_prefix [''v1'', ''api-keys'']))) (\<lambda>(i, action).
    andNext (require (action = ''revoke'') (bad_request_response ''unsupported API key action'')) (\<lambda>_.
    andNext (has_method r ''POST'') (\<lambda>_.
    andNext (authenticateProduction r) (\<lambda>(claims, _, ps).
    andNext (reads (\<lambda>st. ps_GetAPIKey ps st i) [gone ErrAPIKeyNotFound ''api key not found'']) (\<lambda>current.
    andNext (may_administer_tenant claims (ak_TenantID current) ''api key administration'') (\<lambda>_.
    andNext (writes (ps_RevokeAPIKey ps i) []) (\<lambda>rec.
    andNext (effect (recordAuditLog claims ''api_key.revoke'' ''api_key'' i (ak_TenantID rec) (ak_ProjectID rec)
               no_audit_metadata)) (\<lambda>_.
    give (writeJSON 200 (APIKeyBody rec)))))))))))"

subsection \<open>Audit logs and usage\<close>

definition query_tenant :: "AdminRequest \<Rightarrow> Claims \<Rightarrow> string" where
  "query_tenant r claims = firstNonEmpty [url_query r ''tenantId'', cl_Tenant claims]"

definition handleAuditLogs :: "AdminRequest \<Rightarrow> 'st handler" where
  "handleAuditLogs r = respond (
    andNext (has_method r ''GET'') (\<lambda>_.
    andNext (authenticateProduction r) (\<lambda>(claims, _, ps).
    andNext (permit (\<lambda>s. query_tenant r claims = [] \<or> allowsTenantAdmin claims (query_tenant r claims) s)
             (forbidden_response ''audit log access is not permitted'')) (\<lambda>_.
    andNext (list_limit r) (\<lambda>limit.
    andNext (reads (\<lambda>st. ps_ListAuditLogs ps st (query_tenant r claims) (url_query r ''projectId'') limit) []) (\<lambda>records.
    give (writeJSON 200 (AuditLogsBody records))))))))"

definition tenant_and_project :: "AdminRequest \<Rightarrow> Claims \<Rightarrow> ('st, unit) step" where
  "tenant_and_project r claims =
    require (query_tenant r claims \<noteq> [] \<and> url_query r ''projectId'' \<noteq> [])
      (bad_request_response ''tenantId and projectId are required'')"

definition handleUsage :: "AdminRequest \<Rightarrow> 'st handler" where
  "handleUsage r = respond (
    andNext (has_method r ''GET'') (\<lambda>_.
    andNext (authenticateProduction r) (\<lambda>(claims, _, ps).
    andNext (tenant_and_project r claims) (\<lambda>_.
    andNext (may_administer_tenant claims (query_tenant r claims) ''usage access'') (\<lambda>_.
    andNext (reads (\<lambda>st. ps_ListUsage ps st (query_tenant r claims) (url_query r ''projectId'')
               (url_query r ''roomId'') (url_query r ''window'')) []) (\<lambda>records.
    give (writeJSON 200 (UsageBody records))))))))"

subsection \<open>Webhook deliveries\<close>

definition handleWebhookDeliveries :: "AdminRequest \<Rightarrow> 'st handler" where
  "handleWebhookDeliveries r = respond (
    andNext (has_method r ''GET'') (\<lambda>_.
    andNext (authenticateProduction r) (\<lambda>(_, _, ps).
    andNext (list_limit r) (\<lambda>limit.
    andNext (reads (\<lambda>st. ps_ListWebhookDeliveries ps st (url_query r ''status'') limit) []) (\<lambda>records.
    give (writeJSON 200 (DeliveriesBody records)))))))"

definition audit_delivery :: "Claims \<Rightarrow> string \<Rightarrow> string \<Rightarrow> WebhookDeliveryRecord \<Rightarrow> ('st, unit) step" where
  "audit_delivery claims action i rec =
    effect (recordAuditLog claims action ''webhook_delivery'' i [] []
      (audit_metadata ''event'' (quote_text (wd_Event rec))))"

definition retry_step ::
  "'st productionStore \<Rightarrow> WebhookDeliveryRecord \<Rightarrow> ('st, WebhookDeliveryRecord) step" where
  "retry_step ps rec s =
    (case retryWebhookDelivery (ps_UpdateWebhookDelivery ps) rec s of
       (Inl message, s) \<Rightarrow> (Inl (writeError CodeInternal message [] 500), s)
     | (Inr updated, s) \<Rightarrow> (Inr updated, s))"

definition dead_letter_step ::
  "'st productionStore \<Rightarrow> WebhookDeliveryRecord \<Rightarrow> ('st, WebhookDeliveryRecord) step" where
  "dead_letter_step ps rec s =
    writes (ps_UpdateWebhookDelivery ps (rec\<lparr>wd_Status := ''dead'', wd_UpdatedAt := ad_now s\<rparr>)) [] s"

definition handleWebhookDeliveryAction :: "AdminRequest \<Rightarrow> 'st handler" where
  "handleWebhookDeliveryAction r = respond (
    andNext (valid_text (itemActionParts (hr_Path r) (path_prefix [''v1'', ''webhook-deliveries'']))) (\<lambda>(i, action).
    andNext (has_method r ''POST'') (\<lambda>_.
    andNext (authenticateProduction r) (\<lambda>(claims, _, ps).
    andNext (reads (\<lambda>st. ps_GetWebhookDelivery ps st i)
             [gone ErrWebhookDeliveryNotFound ''webhook delivery not found'']) (\<lambda>rec.
     if action = ''retry'' then
       andNext (retry_step ps rec) (\<lambda>updated.
       andNext (audit_delivery claims ''webhook_delivery.retry'' i rec) (\<lambda>_.
       give (writeJSON 200 (DeliveryBody updated))))
     else if action = ''dlq'' \<or> action = ''dead-letter'' then
       andNext (dead_letter_step ps rec) (\<lambda>updated.
       andNext (audit_delivery claims ''webhook_delivery.dlq'' i rec) (\<lambda>_.
       give (writeJSON 200 (DeliveryBody updated))))
     else stop (bad_request_response ''unsupported webhook delivery action''))))))"

subsection \<open>Resume sessions\<close>

definition session_gone :: error_case where
  "session_gone = not_found_case (\<lambda>err. err = ErrResumeSessionNotFound) CodeRoomNotFound ''resume session not found''"

definition handleListResumeSessions :: "AdminRequest \<Rightarrow> 'st handler" where
  "handleListResumeSessions r = respond (
    andNext (authenticateProduction r) (\<lambda>(claims, _, ps).
    andNext (tenant_and_project r claims) (\<lambda>_.
    andNext (may_administer_tenant claims (query_tenant r claims) ''resume session access'') (\<lambda>_.
    andNext (list_limit r) (\<lambda>limit.
    andNext (reads (\<lambda>st. ps_ListResumeSessions ps st (query_tenant r claims) (url_query r ''projectId'')
               (url_query r ''roomId'') (url_query r ''subject'') (url_query r ''active'' \<noteq> ''false'') limit) [])
             (\<lambda>records.
    give (writeJSON 200 (ResumeSessionsBody records))))))))"

definition max_session_seconds :: int where "max_session_seconds = 86400 * 30"

definition session_ttl :: "int \<Rightarrow> int" where
  "session_ttl seconds = (if seconds > 0 then seconds * second else 24 * 3600 * second)"

definition new_session :: "string \<Rightarrow> string \<Rightarrow> resumeSessionRequest \<Rightarrow> gtime \<Rightarrow> ResumeSessionRecord" where
  "new_session i tenantID request now =
    \<lparr>rsr_ID = i, rsr_TenantID = tenantID, rsr_ProjectID = rsrq_ProjectID request,
     rsr_Subject = trim_space (rsrq_Subject request), rsr_Rooms = items (rsrq_Rooms request),
     rsr_RoomCursors = (case rsrq_RoomCursors request of None \<Rightarrow> fmempty | Some m \<Rightarrow> m),
     rsr_Metadata = normalizedMetadata (rsrq_Metadata request), rsr_CreatedAt = zero_time,
     rsr_UpdatedAt = zero_time, rsr_ExpiresAt = now + session_ttl (rsrq_TTLSeconds request)\<rparr>"

definition handleUpsertResumeSession :: "AdminRequest \<Rightarrow> 'st handler" where
  "handleUpsertResumeSession r = respond (
    andNext (authenticateProduction r) (\<lambda>(claims, _, ps).
    andNext (decoded r decode_resumeSessionRequest no_resumeSessionRequest) (\<lambda>request.
    andNext (give (firstNonEmpty [rsrq_TenantID request, cl_Tenant claims])) (\<lambda>tenantID.
    andNext (valid_message (validateProductID ''tenant id'' tenantID)) (\<lambda>_.
    andNext (valid_message (validateProductID ''project id'' (rsrq_ProjectID request))) (\<lambda>_.
    andNext (require (trim_space (rsrq_Subject request) \<noteq> []) (bad_request_response ''subject is required'')) (\<lambda>_.
    andNext (require (items (rsrq_Rooms request) \<noteq> []) (bad_request_response ''at least one room is required'')) (\<lambda>_.
    andNext (valid_message (check_all ValidateRoomName (items (rsrq_Rooms request)))) (\<lambda>_.
    andNext (may_administer_tenant claims tenantID ''resume session administration'') (\<lambda>_.
    andNext (require (rsrq_TTLSeconds request \<le> max_session_seconds)
             (bad_request_response ''ttlSeconds must be at most 30 days'')) (\<lambda>_.
    andNext (id_or_new (rsrq_ID request) ''rs'') (\<lambda>i.
    andNext (\<lambda>s. writes (ps_UpsertResumeSession ps (new_session i tenantID request (ad_now s))) [] s) (\<lambda>rec.
    andNext (effect (recordAuditLog claims ''resume_session.upsert'' ''resume_session'' (rsr_ID rec) (rsr_TenantID rec)
               (rsr_ProjectID rec) no_audit_metadata)) (\<lambda>_.
    give (writeJSON 201 (ResumeSessionBody rec))))))))))))))))"

definition handleResumeSessions :: "AdminRequest \<Rightarrow> 'st handler" where
  "handleResumeSessions r =
    (if rq_Method r = ''GET'' then handleListResumeSessions r
     else if rq_Method r = ''POST'' then handleUpsertResumeSession r
     else respond (stop method_not_allowed))"

definition handleResumeSession :: "AdminRequest \<Rightarrow> 'st handler" where
  "handleResumeSession r = respond (
    andNext (valid_text (itemIDFromPath (hr_Path r) (path_prefix [''v1'', ''resume-sessions'']))) (\<lambda>i.
    andNext (authenticateProduction r) (\<lambda>(claims, _, ps).
    andNext (reads (\<lambda>st. ps_GetResumeSession ps st i) [session_gone]) (\<lambda>rec.
    andNext (may_administer_tenant claims (rsr_TenantID rec) ''resume session access'') (\<lambda>_.
     if rq_Method r = ''GET'' then give (writeJSON 200 (ResumeSessionBody rec))
     else if rq_Method r = ''DELETE'' then
       andNext (writes (ps_DeleteResumeSession ps i) []) (\<lambda>_.
       andNext (effect (recordAuditLog claims ''resume_session.delete'' ''resume_session'' i (rsr_TenantID rec)
                  (rsr_ProjectID rec) no_audit_metadata)) (\<lambda>_.
       give (write_status 204)))
     else stop method_not_allowed)))))"

subsection \<open>Version snapshots\<close>

definition may_use_versions :: "Claims \<Rightarrow> string \<Rightarrow> room_id \<Rightarrow> ('st, unit) step" where
  "may_use_versions claims action room =
    permit (admin_allowsRoomAction claims action room) (forbidden_response ''room version history is not permitted'')"

definition document_id :: "string \<Rightarrow> string" where
  "document_id i = firstNonEmpty [i, ''storage'']"

definition handleVersionSnapshot :: "AdminRequest \<Rightarrow> room_id \<Rightarrow> string \<Rightarrow> 'st handler" where
  "handleVersionSnapshot r room subresource = respond (
    andNext (has_method r ''GET'') (\<lambda>_.
    andNext (valid_text (itemIDFromPath subresource (''versions'' @ [slash]))) (\<lambda>versionID.
    andNext (authenticateProduction r) (\<lambda>(claims, _, ps).
    andNext (may_use_versions claims ''storage:read'' room) (\<lambda>_.
    andNext (reads (\<lambda>st. ps_GetVersionSnapshot ps st room (document_id (url_query r ''documentId'')) versionID)
             [gone ErrVersionSnapshotNotFound ''version snapshot not found'']) (\<lambda>rec.
    give (writeJSON 200 (VersionBody rec))))))))"

definition handleListVersionSnapshots :: "AdminRequest \<Rightarrow> room_id \<Rightarrow> 'st handler" where
  "handleListVersionSnapshots r room = respond (
    andNext (authenticateProduction r) (\<lambda>(claims, _, ps).
    andNext (may_use_versions claims ''storage:read'' room) (\<lambda>_.
    andNext (list_limit r) (\<lambda>limit.
    andNext (reads (\<lambda>st. ps_ListVersionSnapshots ps st room (document_id (url_query r ''documentId'')) limit) [])
             (\<lambda>records.
    give (writeJSON 200 (VersionsBody records)))))))"

text \<open>The document of the request, or else the stored one.\<close>

definition snapshot_document :: "'st AdminStore \<Rightarrow> room_id \<Rightarrow> bytes \<Rightarrow> ('st, bytes) step" where
  "snapshot_document store room document =
    (if document = [] then reads (\<lambda>st. os_GetStorage store st room) [storage_not_found] else give document)"

definition handleCreateVersionSnapshot :: "AdminRequest \<Rightarrow> room_id \<Rightarrow> 'st handler" where
  "handleCreateVersionSnapshot r room = respond (
    andNext (authenticateProduction r) (\<lambda>(claims, store, ps).
    andNext (may_use_versions claims ''storage:write'' room) (\<lambda>_.
    andNext (decoded r decode_versionSnapshotRequest no_versionSnapshotRequest) (\<lambda>request.
    andNext (snapshot_document store room (vsq_Document request)) (\<lambda>document.
    andNext (require (json_valid document) (bad_request_response ''document must be valid JSON'')) (\<lambda>_.
    andNext (id_or_new (vsq_ID request) ''ver'') (\<lambda>i.
    andNext (writes (ps_CreateVersionSnapshot ps
               \<lparr>vs_ID = i, vs_RoomID = room, vs_DocumentID = document_id (vsq_DocumentID request),
                vs_Label = trim_space (vsq_Label request), vs_Document = document,
                vs_Metadata = normalizedMetadata (vsq_Metadata request), vs_CreatedAt = zero_time\<rparr>) []) (\<lambda>rec.
    andNext (effect (admin_recordUsage r room ''version_snapshots.created'' 1)) (\<lambda>_.
    andNext (effect (audit_room r claims ''version_snapshot.create'' room
               (audit_metadata ''documentId'' (quote_text (vs_DocumentID rec))))) (\<lambda>_.
    give (writeJSON 201 (VersionBody rec))))))))))))"

definition handleVersionSnapshots :: "AdminRequest \<Rightarrow> room_id \<Rightarrow> 'st handler" where
  "handleVersionSnapshots r room =
    (if rq_Method r = ''GET'' then handleListVersionSnapshots r room
     else if rq_Method r = ''POST'' then handleCreateVersionSnapshot r room
     else respond (stop method_not_allowed))"

subsection \<open>Rich-text documents\<close>

definition may_use_rich_text :: "Claims \<Rightarrow> string \<Rightarrow> room_id \<Rightarrow> ('st, unit) step" where
  "may_use_rich_text claims action room =
    permit (admin_allowsRoomAction claims action room) (forbidden_response ''rich-text document access is not permitted'')"

definition handleListRichTextDocuments :: "AdminRequest \<Rightarrow> room_id \<Rightarrow> 'st handler" where
  "handleListRichTextDocuments r room = respond (
    andNext (authenticateProduction r) (\<lambda>(claims, _, ps).
    andNext (may_use_rich_text claims ''storage:read'' room) (\<lambda>_.
    andNext (reads (\<lambda>st. ps_ListRichTextDocuments ps st room) []) (\<lambda>records.
    give (writeJSON 200 (RichTextsBody records))))))"

definition handleGetRichTextDocument :: "AdminRequest \<Rightarrow> room_id \<Rightarrow> string \<Rightarrow> 'st handler" where
  "handleGetRichTextDocument r room documentID = respond (
    andNext (authenticateProduction r) (\<lambda>(claims, _, ps).
    andNext (may_use_rich_text claims ''storage:read'' room) (\<lambda>_.
    andNext (reads (\<lambda>st. ps_GetRichTextDocument ps st room documentID)
             [gone ErrRichTextDocumentNotFound ''rich-text document not found'']) (\<lambda>rec.
    give (writeJSON 200 (RichTextBody rec))))))"

text \<open>Every update also leaves a version, when there is an id for it; its error is ignored.\<close>

definition rich_text_version :: "'st productionStore \<Rightarrow> room_id \<Rightarrow> string \<Rightarrow> bytes \<Rightarrow> 'st Admin \<Rightarrow> 'st Admin" where
  "rich_text_version ps room documentID content s =
    (case newRecordID ''ver'' s of
       (None, s) \<Rightarrow> s
     | (Some i, s) \<Rightarrow>
         calling (ps_CreateVersionSnapshot ps
           \<lparr>vs_ID = i, vs_RoomID = room, vs_DocumentID = ''rich:'' @ documentID, vs_Label = ''rich-text.update'',
            vs_Document = content, vs_Metadata = [], vs_CreatedAt = zero_time\<rparr>) s)"

definition handleUpsertRichTextDocument :: "AdminRequest \<Rightarrow> room_id \<Rightarrow> string \<Rightarrow> 'st handler" where
  "handleUpsertRichTextDocument r room documentID = respond (
    andNext (authenticateProduction r) (\<lambda>(claims, _, ps).
    andNext (may_use_rich_text claims ''storage:write'' room) (\<lambda>_.
    andNext (decoded r decode_richTextDocumentRequest no_richTextDocumentRequest) (\<lambda>request.
    andNext (require (rtq_Content request \<noteq> [] \<and> json_valid (rtq_Content request))
             (bad_request_response ''content must be valid JSON'')) (\<lambda>_.
    andNext (\<lambda>s. valid (validateProductMetadata (rtq_Metadata request) True (payload_limit s)) s) (\<lambda>_.
    andNext (writes (ps_UpsertRichTextDocument ps
               \<lparr>rt_ID = documentID, rt_RoomID = room, rt_Content = rtq_Content request,
                rt_Metadata = normalizedMetadata (rtq_Metadata request), rt_CreatedAt = zero_time,
                rt_UpdatedAt = zero_time\<rparr>) []) (\<lambda>rec.
    andNext (effect (rich_text_version ps room documentID (rtq_Content request))) (\<lambda>_.
    andNext (effect (admin_recordUsage r room ''rich_text_documents.upserted'' 1)) (\<lambda>_.
    andNext (effect (audit_room r claims ''rich_text_document.upsert'' room
               (audit_metadata ''documentId'' (quote_text documentID)))) (\<lambda>_.
    give (writeJSON 200 (RichTextBody rec))))))))))))"

definition handleRichTextDocuments :: "AdminRequest \<Rightarrow> room_id \<Rightarrow> string \<Rightarrow> 'st handler" where
  "handleRichTextDocuments r room subresource =
    (if subresource = ''rich-text'' then
       (if rq_Method r \<noteq> ''GET'' then respond (stop method_not_allowed) else handleListRichTextDocuments r room)
     else case itemIDFromPath subresource (''rich-text'' @ [slash]) of
            Inl err \<Rightarrow> respond (stop (bad_request_response err))
          | Inr documentID \<Rightarrow>
              if rq_Method r = ''GET'' then handleGetRichTextDocument r room documentID
              else if rq_Method r = ''PUT'' then handleUpsertRichTextDocument r room documentID
              else respond (stop method_not_allowed))"

end
