(* ===== verification/Admin_Service.thy ===== *)
theory Admin_Service
  imports Admin_Product
begin

text \<open>
  The product console of \<open>admin/product.go\<close>: dashboard, status page and debug bundle. They
  only read the store.

  The administration service as a whole (\<open>NewService\<close>, \<open>Handler\<close> and the handlers that
  only dispatch, in \<open>admin/service.go\<close>): the initial state, the routes of the multiplexer
  and the handlers behind them. The multiplexer is the one of \<open>net/http\<close> with the rules that
  the \<open>go 1.18\<close> of \<open>go.mod\<close> selects: patterns are paths, one with a slash at its end also
  matches everything below it, and a path that is not clean is redirected. The line end after a text of \<open>http.Error\<close> is left out.
\<close>

subsection \<open>Selection\<close>

record productConsoleSelection =
  sel_TenantID :: string
  sel_ProjectID :: string
  sel_RoomID :: room_id
  sel_Limit :: int

text \<open>\<open>ConsoleForbidden\<close> is \<open>errProductConsoleForbidden\<close>.\<close>

datatype console_error = ConsoleForbidden | ConsoleInvalid message_text

definition productConsoleSelection ::
  "AdminRequest \<Rightarrow> Claims \<Rightarrow> 'st Admin \<Rightarrow> console_error + productConsoleSelection" where
  "productConsoleSelection r claims s =
    (let tenantID = query_tenant r claims; projectID = url_query r ''projectId''; roomID = url_query r ''roomId'' in
     case andThen (validateProductID ''tenant id'' tenantID) (\<lambda>_.
          andThen (validateProductID ''project id'' projectID) (\<lambda>_. check_if roomID ValidateRoomName)) of
       Inl err \<Rightarrow> Inl (ConsoleInvalid (Text (pse_Message err)))
     | Inr _ \<Rightarrow>
         if \<not> allowsTenantAdmin claims tenantID s then Inl ConsoleForbidden
         else case parseProductListLimit (url_query r ''limit'') of
                Inl message \<Rightarrow> Inl (ConsoleInvalid message)
              | Inr limit \<Rightarrow>
                  Inr \<lparr>sel_TenantID = tenantID, sel_ProjectID = projectID, sel_RoomID = roomID, sel_Limit = limit\<rparr>)"

definition console_response :: "console_error \<Rightarrow> Response" where
  "console_response err =
    (case err of
       ConsoleForbidden \<Rightarrow> forbidden_response ''product console access is not permitted''
     | ConsoleInvalid message \<Rightarrow> writeError CodeBadRequest message [] 400)"

definition selected :: "AdminRequest \<Rightarrow> Claims \<Rightarrow> ('st, productConsoleSelection) step" where
  "selected r claims s = orElse (productConsoleSelection r claims s) console_response s"

subsection \<open>Pieces\<close>

definition metadataString :: "(string \<times> json) list \<Rightarrow> string \<Rightarrow> string" where
  "metadataString metadata key = (case map_of metadata key of Some (JStr text) \<Rightarrow> trim_space text | _ \<Rightarrow> [])"

text \<open>Metadata that is no object counts as an empty one.\<close>

definition productEnvironmentFromProject :: "ProjectRecord \<Rightarrow> productEnvironmentSummary" where
  "productEnvironmentFromProject project =
    (let metadata = (case map_option value_of (parse_json (pj_Metadata project)) of
                       Some (JObj members) \<Rightarrow> members | _ \<Rightarrow> [])
     in \<lparr>env_Environment = metadataString metadata ''environment'', env_Region = metadataString metadata ''region''\<rparr>)"

definition delivery_message :: "WebhookDeliveryRecord \<Rightarrow> message_text" where
  "delivery_message delivery =
    (if wd_LastError delivery \<noteq> Text [] then wd_LastError delivery
     else if wd_LastStatusCode delivery > 0
     then Text (''webhook returned HTTP '' @ format_int (wd_LastStatusCode delivery))
     else Text (''webhook delivery is '' @ wd_Status delivery))"

definition productErrorsFromDeliveries :: "WebhookDeliveryRecord list \<Rightarrow> productConsoleError list" where
  "productErrorsFromDeliveries deliveries =
    map (\<lambda>d. \<lparr>pce_Source = ''webhook'', pce_Message = delivery_message d, pce_Status = wd_Status d,
              pce_Resource = wd_ID d, pce_CreatedAt = wd_CreatedAt d, pce_UpdatedAt = wd_UpdatedAt d\<rparr>)
      (filter (\<lambda>d. wd_Status d = ''failed'' \<or> wd_Status d = ''dead'') deliveries)"

fun status_from :: "string \<Rightarrow> productStatusCheck list \<Rightarrow> string" where
  "status_from status [] = status"
| "status_from status (check # checks) =
    (if psc_Status check = ''error'' then ''error''
     else status_from (if psc_Status check = ''degraded'' then ''degraded'' else status) checks)"

definition productStatusFromChecks :: "productStatusCheck list \<Rightarrow> string" where
  "productStatusFromChecks checks = status_from ''ok'' checks"

definition productPublicPage :: "string \<Rightarrow> int \<Rightarrow> productPublicStatusPage" where
  "productPublicPage status errorCount =
    (if status = ''ok'' then
       \<lparr>psp_Title = ''All systems operational'',
        psp_Message = ''Realtime rooms, storage, webhooks, and product records are available.''\<rparr>
     else if status = ''degraded'' then
       \<lparr>psp_Title = ''Partial service degradation'',
        psp_Message = format_int errorCount @ '' recent issue(s) need review.''\<rparr>
     else
       \<lparr>psp_Title = ''Service disruption'',
        psp_Message = ''One or more required product systems are unavailable.''\<rparr>)"

definition roomInList :: "RoomRecord list \<Rightarrow> room_id \<Rightarrow> bool" where
  "roomInList found roomID = list_ex (\<lambda>room. rr_ID room = roomID) found"

definition boolInt :: "bool \<Rightarrow> int" where
  "boolInt b = (if b then 1 else 0)"

definition safeProductConfig :: "'st Admin \<Rightarrow> productSafeConfig" where
  "safeProductConfig s =
    (let cfg = ad_cfg s;
         endpoints = (case cfg_Webhooks cfg of None \<Rightarrow> 0 | Some webhooks \<Rightarrow> len (wh_URLs webhooks));
         auth = cfg_Auth cfg
     in \<lparr>scf_Mode = cfg_Mode cfg, scf_NodeID = cfg_NodeID cfg,
         scf_RedisConfigured = (cfg_Redis cfg \<noteq> None \<or> ad_store s \<noteq> None),
         scf_RuntimeAuthConfigured = (ac_Issuer auth \<noteq> [] \<and> ac_Audience auth \<noteq> [] \<and> ac_JWKSURL auth \<noteq> []),
         scf_AdminAuthConfigured = (cfg_AdminAuth cfg \<noteq> None),
         scf_WebhooksConfigured = (cfg_Webhooks cfg \<noteq> None \<and> endpoints > 0),
         scf_WebhookEndpointCount = endpoints, scf_WebSocketPath = svc_WSPath (cfg_Server cfg),
         scf_TenantEnforcePrefix = tc_EnforcePrefix (cfg_Tenant cfg),
         scf_TenantSeparator = tc_Separator (cfg_Tenant cfg),
         scf_PayloadMaxBytes = li_PayloadMaxBytes (cfg_Limits cfg),
         scf_EnvelopeMaxBytes = li_EnvelopeMaxBytes (cfg_Limits cfg)\<rparr>)"

subsection \<open>Dashboard\<close>

definition andOk :: "'e + 'a \<Rightarrow> ('a \<Rightarrow> 'e + 'b) \<Rightarrow> 'e + 'b" where
  "andOk r f = (case r of Inl err \<Rightarrow> Inl err | Inr x \<Rightarrow> f x)"

text \<open>The rooms of the tenant, with the selected one in front when it is not among them.\<close>

definition console_rooms ::
  "'st AdminStore \<Rightarrow> 'st \<Rightarrow> string \<Rightarrow> productConsoleSelection \<Rightarrow> go_error + room_id \<times> RoomRecord list" where
  "console_rooms store st separator selection =
    andOk (as_ListRooms store st (sel_TenantID selection @ separator) 0 (sel_Limit selection)) (\<lambda>roomList.
      (let found = rl_Rooms roomList;
           roomID = (if sel_RoomID selection = [] \<and> found \<noteq> [] then rr_ID (hd found) else sel_RoomID selection)
       in if roomID \<noteq> [] \<and> \<not> roomInList found roomID
          then andOk (os_GetRoom store st roomID) (\<lambda>room. Inr (roomID, room # found))
          else Inr (roomID, found)))"

definition console_storage :: "'st AdminStore \<Rightarrow> 'st \<Rightarrow> room_id \<Rightarrow> go_error + productStorageSnapshot" where
  "console_storage store st roomID =
    (case os_GetStorage store st roomID of
       Inr document \<Rightarrow> Inr \<lparr>pss_Found = True, pss_Document = document\<rparr>
     | Inl err \<Rightarrow>
         if errors_Is err (is_cluster ErrStorageNotFound) then Inr \<lparr>pss_Found = False, pss_Document = []\<rparr>
         else Inl err)"

type_synonym room_details =
  "ActiveUser list \<times> PublishedEvent list \<times> productStorageSnapshot
     \<times> RichTextDocumentRecord list \<times> VersionSnapshotRecord list"

definition console_details ::
  "'st AdminStore \<Rightarrow> 'st productionStore \<Rightarrow> 'st \<Rightarrow> room_id \<Rightarrow> int \<Rightarrow> go_error + room_details" where
  "console_details store ps st roomID limit =
    (if roomID = [] then Inr ([], [], \<lparr>pss_Found = False, pss_Document = []\<rparr>, [], [])
     else
       andOk (as_ActiveUsers store st roomID) (\<lambda>activeUsers.
       andOk (os_ListPublishedEvents store st roomID 0 limit) (\<lambda>events.
       andOk (console_storage store st roomID) (\<lambda>storage.
       andOk (ps_ListRichTextDocuments ps st roomID) (\<lambda>richDocs.
       andOk (ps_ListVersionSnapshots ps st roomID ''storage'' limit) (\<lambda>versions.
       Inr (activeUsers, events, storage, richDocs, versions)))))))"

definition buildProductDashboard ::
  "'st AdminStore \<Rightarrow> 'st productionStore \<Rightarrow> productConsoleSelection \<Rightarrow> 'st Admin
     \<Rightarrow> go_error + productDashboardResponse" where
  "buildProductDashboard store ps selection s =
    (let st = ad_storeState s; tenantID = sel_TenantID selection; projectID = sel_ProjectID selection;
         limit = sel_Limit selection in
     andOk (ps_GetTenant ps st tenantID) (\<lambda>tenant.
     andOk (ps_GetProject ps st tenantID projectID) (\<lambda>project.
     andOk (ps_ListAPIKeys ps st tenantID projectID) (\<lambda>apiKeys.
     andOk (ps_ListUsage ps st tenantID projectID (sel_RoomID selection) []) (\<lambda>usage.
     andOk (ps_ListAuditLogs ps st tenantID projectID limit) (\<lambda>audits.
     andOk (ps_ListWebhookDeliveries ps st [] limit) (\<lambda>deliveries.
     andOk (ps_ListResumeSessions ps st tenantID projectID (sel_RoomID selection) [] True limit) (\<lambda>resumeSessions.
     andOk (console_rooms store st (tc_Separator (cfg_Tenant (ad_cfg s))) selection) (\<lambda>(roomID, found).
     andOk (console_details store ps st roomID limit) (\<lambda>(activeUsers, events, storage, richDocs, versions).
     andOk (as_AggregateStats store st) (\<lambda>statsSnapshot.
       (let errorsList = productErrorsFromDeliveries deliveries in
        Inr \<lparr>pd_GeneratedAt = ad_now s, pd_TenantID = tenantID, pd_ProjectID = projectID, pd_RoomID = roomID,
             pd_Tenant = tenant, pd_Project = project, pd_Environment = productEnvironmentFromProject project,
             pd_Summary = \<lparr>pds_Rooms = len found, pds_ActiveUsers = len activeUsers, pds_Events = len events,
               pds_StorageDocs = boolInt (pss_Found storage) + len richDocs, pds_Errors = len errorsList\<rparr>,
             pd_APIKeys = apiKeys, pd_Rooms = found, pd_ActiveUsers = activeUsers, pd_Events = events,
             pd_Storage = storage, pd_Stats = statsSnapshot, pd_Usage = usage, pd_AuditLogs = audits,
             pd_WebhookDeliveries = deliveries, pd_ResumeSessions = resumeSessions,
             pd_RichTextDocuments = richDocs, pd_VersionSnapshots = versions, pd_Errors = errorsList,
             pd_Observability = \<lparr>pdo_Logs = audits, pdo_Errors = errorsList, pdo_Usage = usage,
               pdo_Webhooks = deliveries\<rparr>\<rparr>))))))))))))"

subsection \<open>Status\<close>

definition status_check :: "gtime \<Rightarrow> string \<Rightarrow> string \<Rightarrow> message_text \<Rightarrow> productStatusCheck" where
  "status_check now name status message =
    \<lparr>psc_Name = name, psc_Status = status, psc_Message = message, psc_CheckedAt = now\<rparr>"

text \<open>The check of a lookup: missing, failed or found.\<close>

definition lookup_check ::
  "gtime \<Rightarrow> string \<Rightarrow> (go_error \<Rightarrow> bool) \<Rightarrow> string \<Rightarrow> ('a \<Rightarrow> string) \<Rightarrow> go_error + 'a \<Rightarrow> productStatusCheck" where
  "lookup_check now name target missing found res =
    (case res of
       Inl err \<Rightarrow> status_check now name ''error'' (if errors_Is err target then Text missing else Error_of err)
     | Inr x \<Rightarrow> status_check now name ''ok'' (Text (found x)))"

definition base_checks ::
  "'st AdminStore \<Rightarrow> 'st productionStore \<Rightarrow> productConsoleSelection \<Rightarrow> 'st Admin \<Rightarrow> productStatusCheck list" where
  "base_checks store ps selection s =
    (let st = ad_storeState s; check = status_check (ad_now s) in
     [check ''admin'' ''ok'' (Text ''Admin API is serving customer console requests.''),
      (case os_Healthy store st of
         Some err \<Rightarrow> check ''storage'' ''error'' (Error_of err)
       | None \<Rightarrow> check ''storage'' ''ok'' (Text ''Redis-backed product storage is reachable.'')),
      lookup_check (ad_now s) ''tenant'' (is_product ErrTenantNotFound) ''Tenant record is missing.'' tn_Name
        (ps_GetTenant ps st (sel_TenantID selection)),
      lookup_check (ad_now s) ''project'' (is_product ErrProjectNotFound) ''Project record is missing.'' pj_Name
        (ps_GetProject ps st (sel_TenantID selection) (sel_ProjectID selection))]
     @ (if sel_RoomID selection = [] then []
        else [lookup_check (ad_now s) ''room'' (is_cluster ErrRoomNotFound) ''Room record is missing.''
                (\<lambda>_. sel_RoomID selection) (os_GetRoom store st (sel_RoomID selection))])
     @ [case as_AggregateStats store st of
          Inl err \<Rightarrow> check ''runtime_stats'' ''degraded'' (Error_of err)
        | Inr _ \<Rightarrow> check ''runtime_stats'' ''ok'' (Text ''Runtime aggregate stats are available.'')])"

definition webhook_check :: "gtime \<Rightarrow> go_error + productConsoleError list \<Rightarrow> productStatusCheck" where
  "webhook_check now errorsList =
    (case errorsList of
       Inl err \<Rightarrow> status_check now ''webhooks'' ''degraded'' (Error_of err)
     | Inr es \<Rightarrow>
         if es \<noteq> []
         then status_check now ''webhooks'' ''degraded''
                (Text ''Failed or dead-lettered webhook deliveries need attention.'')
         else status_check now ''webhooks'' ''ok''
                (Text ''No failed webhook deliveries in recent history.''))"

definition buildProductStatus ::
  "'st AdminStore \<Rightarrow> 'st productionStore \<Rightarrow> productConsoleSelection \<Rightarrow> 'st Admin \<Rightarrow> productStatusResponse" where
  "buildProductStatus store ps selection s =
    (let st = ad_storeState s;
         errorsList = andOk (ps_ListWebhookDeliveries ps st [] (sel_Limit selection))
           (\<lambda>deliveries. Inr (productErrorsFromDeliveries deliveries));
         checks = base_checks store ps selection s @ [webhook_check (ad_now s) errorsList];
         status = productStatusFromChecks checks;
         es = (case errorsList of Inl _ \<Rightarrow> [] | Inr es \<Rightarrow> es)
     in \<lparr>psr_GeneratedAt = ad_now s, psr_Status = status, psr_TenantID = sel_TenantID selection,
         psr_ProjectID = sel_ProjectID selection, psr_RoomID = sel_RoomID selection,
         psr_Environment =
           (case ps_GetProject ps st (sel_TenantID selection) (sel_ProjectID selection) of
              Inl _ \<Rightarrow> \<lparr>env_Environment = [], env_Region = []\<rparr>
            | Inr project \<Rightarrow> productEnvironmentFromProject project),
         psr_Checks = checks, psr_Errors = es, psr_PublicPage = productPublicPage status (len es)\<rparr>)"

definition productSuggestedActions :: "productStatusResponse \<Rightarrow> productDashboardResponse \<Rightarrow> string list" where
  "productSuggestedActions status dashboard =
    (let actions =
       (if psr_Status status \<noteq> ''ok''
        then [''Review failing status checks and recent customer-visible errors.''] else [])
       @ (if pds_Errors (pd_Summary dashboard) > 0
          then [''Retry failed webhooks or move permanently failing deliveries to the DLQ.''] else [])
       @ (if pd_APIKeys dashboard = []
          then [''Create a scoped server API key before integrating this workspace.''] else [])
       @ (if pd_Rooms dashboard = [] then [''Create a first room for the selected workspace.''] else [])
     in if actions = [] then [''No immediate support actions are required.''] else actions)"

subsection \<open>Handlers\<close>

definition dashboard_of ::
  "'st AdminStore \<Rightarrow> 'st productionStore \<Rightarrow> productConsoleSelection \<Rightarrow> error_case list
     \<Rightarrow> ('st, productDashboardResponse) step" where
  "dashboard_of store ps selection cases s =
    orElse (buildProductDashboard store ps selection s) (store_failure cases) s"

definition handleProductDashboard :: "AdminRequest \<Rightarrow> 'st handler" where
  "handleProductDashboard r = respond (
    andNext (has_method r ''GET'') (\<lambda>_.
    andNext (authenticateProduction r) (\<lambda>(claims, store, ps).
    andNext (selected r claims) (\<lambda>selection.
    andNext (dashboard_of store ps selection
               [gone ErrTenantNotFound ''tenant not found'', gone ErrProjectNotFound ''project not found'']) (\<lambda>dashboard.
    give (writeJSON 200 (DashboardBody dashboard)))))))"

definition handleProductStatus :: "AdminRequest \<Rightarrow> 'st handler" where
  "handleProductStatus r = respond (
    andNext (has_method r ''GET'') (\<lambda>_.
    andNext (authenticateProduction r) (\<lambda>(claims, store, ps).
    andNext (selected r claims) (\<lambda>selection s.
    give (writeJSON 200 (StatusBody (buildProductStatus store ps selection s))) s))))"

definition handleSupportDebugBundle :: "AdminRequest \<Rightarrow> 'st handler" where
  "handleSupportDebugBundle r = respond (
    andNext (has_method r ''GET'') (\<lambda>_.
    andNext (authenticateProduction r) (\<lambda>(claims, store, ps).
    andNext (selected r claims) (\<lambda>selection.
    andNext (dashboard_of store ps selection []) (\<lambda>dashboard s.
    give (let status = buildProductStatus store ps selection s in
      writeJSON 200 (BundleBody
        \<lparr>pdb_GeneratedAt = ad_now s, pdb_TenantID = sel_TenantID selection, pdb_ProjectID = sel_ProjectID selection,
         pdb_RoomID = sel_RoomID selection, pdb_Environment = pd_Environment dashboard, pdb_Dashboard = dashboard,
         pdb_Status = status, pdb_SafeConfig = safeProductConfig s,
         pdb_SuggestedActions = productSuggestedActions status dashboard\<rparr>)) s)))))"

subsection \<open>Construction\<close>

text \<open>
  The verifier of \<open>auth.NewVerifier\<close> and the store that is opened for a Redis configuration
  are arguments, as are the state of the store and the environment.
\<close>

definition admin_NewService ::
  "RuntimeConfig \<Rightarrow> (AuthConfig \<Rightarrow> string \<Rightarrow> go_error + Claims) \<Rightarrow> (RedisConfig \<Rightarrow> go_error + 'st AdminStore)
     \<Rightarrow> 'st \<Rightarrow> gtime \<Rightarrow> (nat \<Rightarrow> nat \<Rightarrow> bytes option) \<Rightarrow> (nat \<Rightarrow> post_outcome) \<Rightarrow> go_error + 'st Admin" where
  "admin_NewService cfg verifier open_store st now random outcomes =
    (let s = \<lparr>ad_cfg = cfg, ad_verify = map_option verifier (cfg_AdminAuth cfg), ad_store = None,
              ad_storeState = st, ad_stats = no_stats, ad_metrics = NewAdminMetrics, ad_now = now,
              ad_random = random, ad_draws = 0, ad_outcomes = outcomes, ad_posts = []\<rparr>
     in case cfg_Redis cfg of
          None \<Rightarrow> Inr s
        | Some redis \<Rightarrow>
            (case open_store redis of Inl err \<Rightarrow> Inl err | Inr store \<Rightarrow> Inr (s\<lparr>ad_store := Some store\<rparr>)))"

subsection \<open>Rooms\<close>

definition room_methods :: "AdminRequest \<Rightarrow> room_id \<Rightarrow> 'st handler" where
  "room_methods r room =
    (if rq_Method r = ''GET'' then handleGetRoom r room
     else if rq_Method r = ''PATCH'' then handleUpdateRoom r room
     else if rq_Method r = ''DELETE'' then handleDeleteRoom r room
     else respond (stop method_not_allowed))"

definition handleRoom :: "AdminRequest \<Rightarrow> 'st handler" where
  "handleRoom r =
    (case roomPathParts (hr_Path r) of
       Inl err \<Rightarrow> respond (stop (bad_request_response err))
     | Inr (room, subresource) \<Rightarrow>
         if subresource = ''storage'' then handleStorage r room
         else if subresource = ''storage'' @ slash # ''json-patch'' then admin_handleStoragePatch r room
         else if subresource = ''versions'' then handleVersionSnapshots r room
         else if prefix (''versions'' @ [slash]) subresource then handleVersionSnapshot r room subresource
         else if subresource = ''rich-text'' \<or> prefix (''rich-text'' @ [slash]) subresource
         then handleRichTextDocuments r room subresource
         else if subresource = ''active_users'' \<or> subresource = ''active-users'' then handleActiveUsers r room
         else if subresource = ''threads'' then handleThreads r room
         else if prefix (''threads'' @ [slash]) subresource then handleThreadSubresource r room subresource
         else if prefix (''users'' @ [slash]) subresource then handleRoomUserSubresource r room subresource
         else if subresource \<noteq> [] then respond (stop (bad_request_response ''unsupported room subresource''))
         else room_methods r room)"

subsection \<open>Statistics and health\<close>

definition aggregate :: "('st, Stats) step" where
  "aggregate s =
    (case ad_store s of
       None \<Rightarrow> give no_stats s
     | Some store \<Rightarrow> reads (as_AggregateStats store) [] s)"

definition admin_handleStats :: "AdminRequest \<Rightarrow> 'st handler" where
  "admin_handleStats r = respond (
    andNext (has_method r ''GET'') (\<lambda>_.
    andNext (authenticated r) (\<lambda>_.
    andNext aggregate (\<lambda>snapshot.
    give (writeJSON 200 (StatsBody snapshot))))))"

definition admin_handleHealth :: "'st handler" where
  "admin_handleHealth = respond (give \<lparr>rp_Status = 200, rp_Body = TextBody (Text ''ok'')\<rparr>)"

definition admin_ready :: Response where
  "admin_ready = \<lparr>rp_Status = 200, rp_Body = TextBody (Text ''ready'')\<rparr>"

definition admin_handleReady :: "'st handler" where
  "admin_handleReady s =
    (case (cfg_Mode (ad_cfg s) = ModeCluster, ad_store s) of
       (True, Some store) \<Rightarrow>
         (case os_Healthy store (ad_storeState s) of
            Some err \<Rightarrow> (\<lparr>rp_Status = 503, rp_Body = TextBody (Error_of err)\<rparr>, s)
          | None \<Rightarrow> (admin_ready, s))
     | _ \<Rightarrow> (admin_ready, s))"

definition admin_handleMetrics :: "'st handler" where
  "admin_handleMetrics s =
    (\<lparr>rp_Status = 200, rp_Body = TextBody (Text (AdminMetrics_Handler (ad_metrics s)))\<rparr>, s)"

subsection \<open>The multiplexer\<close>

datatype route =
    Publish | Presence | TriggerInboxNotification | InboxNotificationAction | Tenants | Tenant
  | APIKeys | APIKeyAction | AuditLogs | Usage | ProductDashboard | ProductStatus
  | SupportDebugBundle | WebhookDeliveries | WebhookDeliveryAction | ResumeSessions
  | ResumeSession | Rooms | Room | User | Statistics | Health | Ready | Metrics

definition v1 :: "string \<Rightarrow> string" where
  "v1 name = slash # ''v1'' @ slash # name"

definition below :: "string \<Rightarrow> string" where
  "below path = path @ [slash]"

definition patterns :: "(string \<times> route) list" where
  "patterns =
    [(v1 ''publish'', Publish), (v1 ''presence'', Presence),
     (below (v1 ''inbox-notifications'') @ ''trigger'', TriggerInboxNotification),
     (below (v1 ''inbox-notifications''), InboxNotificationAction),
     (v1 ''tenants'', Tenants), (below (v1 ''tenants''), Tenant),
     (v1 ''api-keys'', APIKeys), (below (v1 ''api-keys''), APIKeyAction),
     (v1 ''audit-logs'', AuditLogs), (v1 ''usage'', Usage), (v1 ''dashboard'', ProductDashboard),
     (v1 ''status'', ProductStatus), (below (v1 ''support'') @ ''debug-bundle'', SupportDebugBundle),
     (v1 ''webhook-deliveries'', WebhookDeliveries), (below (v1 ''webhook-deliveries''), WebhookDeliveryAction),
     (v1 ''resume-sessions'', ResumeSessions), (below (v1 ''resume-sessions''), ResumeSession),
     (v1 ''rooms'', Rooms), (below (v1 ''rooms''), Room), (below (v1 ''users''), User),
     (v1 ''stats'', Statistics), (slash # ''healthz'', Health), (slash # ''readyz'', Ready),
     (slash # ''metrics'', Metrics)]"

definition handler_of :: "route \<Rightarrow> AdminRequest \<Rightarrow> 'st handler" where
  "handler_of route r =
    (case route of
       Publish \<Rightarrow> handlePublish r | Presence \<Rightarrow> admin_handlePresence r
     | TriggerInboxNotification \<Rightarrow> handleTriggerInboxNotification r
     | InboxNotificationAction \<Rightarrow> handleInboxNotificationAction r
     | Tenants \<Rightarrow> handleTenants r | Tenant \<Rightarrow> handleTenant r
     | APIKeys \<Rightarrow> handleAPIKeys r | APIKeyAction \<Rightarrow> handleAPIKeyAction r
     | AuditLogs \<Rightarrow> handleAuditLogs r | Usage \<Rightarrow> handleUsage r
     | ProductDashboard \<Rightarrow> handleProductDashboard r | ProductStatus \<Rightarrow> handleProductStatus r
     | SupportDebugBundle \<Rightarrow> handleSupportDebugBundle r
     | WebhookDeliveries \<Rightarrow> handleWebhookDeliveries r
     | WebhookDeliveryAction \<Rightarrow> handleWebhookDeliveryAction r
     | ResumeSessions \<Rightarrow> handleResumeSessions r | ResumeSession \<Rightarrow> handleResumeSession r
     | Rooms \<Rightarrow> handleRooms r | Room \<Rightarrow> handleRoom r | User \<Rightarrow> handleUser r
     | Statistics \<Rightarrow> admin_handleStats r | Health \<Rightarrow> admin_handleHealth | Ready \<Rightarrow> admin_handleReady
     | Metrics \<Rightarrow> admin_handleMetrics)"

text \<open>The longest pattern that ends with a slash and starts the path.\<close>

definition longer :: "string \<times> route \<Rightarrow> (string \<times> route) option \<Rightarrow> (string \<times> route) option" where
  "longer p best =
    (case best of None \<Rightarrow> Some p | Some q \<Rightarrow> if length (fst q) < length (fst p) then Some p else best)"

definition subtree :: "string \<Rightarrow> (string \<times> route) option" where
  "subtree path =
    foldr longer (filter (\<lambda>(pattern, _). suffix [slash] pattern \<and> prefix pattern path) patterns) None"

definition mux_match :: "string \<Rightarrow> route option" where
  "mux_match path =
    (case map_of patterns path of Some route \<Rightarrow> Some route | None \<Rightarrow> map_option snd (subtree path))"

text \<open>\<open>path.Clean\<close> of a rooted path: the elements that are left.\<close>

fun clean_elements :: "string list \<Rightarrow> string list \<Rightarrow> string list" where
  "clean_elements kept [] = rev kept"
| "clean_elements kept (e # es) =
    (if e = [] \<or> e = ''.'' then clean_elements kept es
     else if e = ''..'' then clean_elements (drop 1 kept) es
     else clean_elements (e # kept) es)"

definition path_Clean :: "string \<Rightarrow> string" where
  "path_Clean path =
    (let kept = clean_elements [] (split_on slash path) in
     if kept = [] then [slash] else concat (map (\<lambda>e. slash # e) kept))"

text \<open>A path that ends with a slash keeps it.\<close>

definition cleanPath :: "string \<Rightarrow> string" where
  "cleanPath path =
    (let rooted = (if path \<noteq> [] \<and> hd path = slash then path else slash # path);
         cleaned = path_Clean rooted
     in if suffix [slash] rooted \<and> cleaned \<noteq> [slash] then cleaned @ [slash] else cleaned)"

definition redirectToPathSlash :: "string \<Rightarrow> bool" where
  "redirectToPathSlash path \<longleftrightarrow>
    map_of patterns path = None \<and> \<not> suffix [slash] path \<and> map_of patterns (below path) \<noteq> None"

definition redirect :: "AdminRequest \<Rightarrow> string \<Rightarrow> Response" where
  "redirect r path = \<lparr>rp_Status = 301, rp_Body = Location path (hr_RawQuery r)\<rparr>"

definition http_not_found :: Response where
  "http_not_found = \<lparr>rp_Status = 404, rp_Body = TextBody (Text ''404 page not found'')\<rparr>"

definition routed :: "AdminRequest \<Rightarrow> 'st handler" where
  "routed r =
    (case mux_match (hr_Path r) of
       Some route \<Rightarrow> handler_of route r
     | None \<Rightarrow> respond (give http_not_found))"

definition Handler :: "AdminRequest \<Rightarrow> 'st handler" where
  "Handler r =
    (let path = (if rq_Method r = ''CONNECT'' then hr_Path r else cleanPath (hr_Path r)) in
     if hr_Path r = ''*'' then respond (give (write_status 400))
     else if redirectToPathSlash path then respond (give (redirect r (below path)))
     else if path \<noteq> hr_Path r then respond (give (redirect r path))
     else routed r)"

end
