(* ===== verification/Admin_Refusals.thy ===== *)
theory Admin_Refusals
  imports Admin_Service
begin

text \<open>
  How facts about the handlers of the administration API are put together from facts about
  their steps. Each notion has a law for \<open>andNext\<close> and one for every kind of step; the laws are
  rewrite rules, so that a fact about a handler is its definition and these rules.

  \<^item> \<open>untouched s t\<close>: from \<open>s\<close> to \<open>t\<close> only random bytes were drawn and API keys verified.
  \<^item> \<open>harmless m\<close>: the step leaves the state untouched, whatever its outcome.
  \<^item> \<open>answers P m\<close>: a response that the step stops with satisfies \<open>P\<close>; \<open>ends P m\<close> also speaks
    of the response that the last step gives.
  \<^item> \<open>refuses m\<close>: a refusal leaves the state untouched.

  A refused request leaves the service untouched: in every handler all the checks come before
  the first effect, and what fails afterwards is answered as an internal error, a conflict or
  a missing record.
\<close>

named_theorems harmless_rules \<open>steps that leave the state untouched\<close>
named_theorems answer_rules \<open>the responses of steps and handlers\<close>
named_theorems refuse_rules \<open>refusals that leave the state untouched\<close>

subsection \<open>Untouched states\<close>

inductive untouched :: "'st Admin \<Rightarrow> 'st Admin \<Rightarrow> bool" where
  untouched_refl: "untouched s s"
| untouched_draw: "untouched s t \<Longrightarrow> untouched s (t\<lparr>ad_draws := n\<rparr>)"
| untouched_key:
    "untouched s t \<Longrightarrow> ad_store t = Some store \<Longrightarrow> os_VerifyAPIKey store = Some verifyKey \<Longrightarrow>
     untouched s (t\<lparr>ad_storeState := snd (verifyKey token (ad_storeState t))\<rparr>)"

lemma untouched_trans:
  assumes "untouched t u" and "untouched s t"
  shows "untouched s u"
  using assms by induction (auto intro: untouched.intros)

lemma untouched_keeps:
  "untouched s t \<Longrightarrow>
     ad_cfg t = ad_cfg s \<and> ad_store t = ad_store s \<and> ad_verify t = ad_verify s \<and> ad_stats t = ad_stats s
     \<and> ad_metrics t = ad_metrics s \<and> ad_posts t = ad_posts s \<and> ad_now t = ad_now s"
  by (induction rule: untouched.induct) auto

subsection \<open>Notions\<close>

definition harmless :: "('st, 'a) step \<Rightarrow> bool" where
  "harmless m \<longleftrightarrow> (\<forall>s. untouched s (snd (m s)))"

definition answers :: "(Response \<Rightarrow> bool) \<Rightarrow> ('st, 'a) step \<Rightarrow> bool" where
  "answers P m \<longleftrightarrow> (\<forall>s response. fst (m s) = Inl response \<longrightarrow> P response)"

definition ends :: "(Response \<Rightarrow> bool) \<Rightarrow> ('st, Response) step \<Rightarrow> bool" where
  "ends P m \<longleftrightarrow> (\<forall>s response. fst (m s) = Inl response \<or> fst (m s) = Inr response \<longrightarrow> P response)"

definition replies :: "(Response \<Rightarrow> bool) \<Rightarrow> 'st handler \<Rightarrow> bool" where
  "replies P h \<longleftrightarrow> (\<forall>s. P (fst (h s)))"

definition refusals :: "int set" where
  "refusals = {400, 401, 403, 405, 413}"

definition lawful :: "Response \<Rightarrow> bool" where
  "lawful response \<longleftrightarrow> rp_Status response \<notin> refusals"

definition refuses :: "('st, Response) step \<Rightarrow> bool" where
  "refuses m \<longleftrightarrow>
    (\<forall>s response. (fst (m s) = Inl response \<or> fst (m s) = Inr response) \<and> \<not> lawful response
       \<longrightarrow> untouched s (snd (m s)))"

definition refused :: "'st handler \<Rightarrow> bool" where
  "refused h \<longleftrightarrow> (\<forall>s. \<not> lawful (fst (h s)) \<longrightarrow> untouched s (snd (h s)))"

subsection \<open>Harmless steps\<close>

lemma harmless_simple [harmless_rules]:
  "harmless (give x)" "harmless (stop response)" "harmless (permit c response)" "harmless (require b response)"
  "harmless (orElse res failure)" "harmless (reads read cases)" "harmless (decoded r dec zero)"
  "harmless (require_store message)" "harmless aggregate" "harmless (list_rooms store pre cursor limit query)"
  by (auto simp: harmless_def give_def stop_def permit_def require_def orElse_def reads_def decoded_def
      require_store_def aggregate_def list_rooms_def intro: untouched_refl split: sum.split option.split)

lemma harmless_state [harmless_rules]:
  "harmless (\<lambda>s. orElse (res s) failure s)" "harmless (\<lambda>s. give (f s) s)" "harmless (\<lambda>s. valid (p s) s)"
  by (auto simp: harmless_def orElse_def give_def valid_def intro: untouched_refl split: sum.split)

lemma harmless_wrappers [harmless_rules]:
  "harmless (valid p)" "harmless (valid_message p)" "harmless (valid_text t)" "harmless (has_method r m)"
  "harmless (may_administer claims room)" "harmless (may_use_storage claims action room)"
  "harmless (may_use_comments claims action room)" "harmless (may_notify claims userID)"
  "harmless (may_administer_tenant claims tenantID what)" "harmless (may_use_versions claims action room)"
  "harmless (may_use_rich_text claims action room)" "harmless (tenant_and_project r claims)" "harmless (list_limit r)"
  "harmless room_store" "harmless storage_store" "harmless thread_store" "harmless notification_store"
  "harmless (selected r claims)" "harmless (dashboard_of store ps selection cases)"
  "harmless (snapshot_document store room document)" "harmless (with_read_states store room userID threads)"
  by (simp_all add: harmless_rules valid_def [abs_def] valid_message_def [abs_def] valid_text_def [abs_def] has_method_def
      may_administer_def may_use_storage_def may_use_comments_def may_notify_def may_administer_tenant_def
      may_use_versions_def may_use_rich_text_def tenant_and_project_def list_limit_def room_store_def storage_store_def
      thread_store_def notification_store_def selected_def [abs_def] dashboard_of_def [abs_def] snapshot_document_def
      with_read_states_def)

lemma harmless_next [harmless_rules]:
  "harmless m \<Longrightarrow> (\<And>x. harmless (f x)) \<Longrightarrow> harmless (andNext m f)"
  unfolding harmless_def andNext_def
  by (auto split: sum.split prod.split) (metis snd_conv untouched_trans)+

lemma harmless_prod [harmless_rules]:
  "(\<And>a b. harmless (f a b)) \<Longrightarrow> harmless (case_prod f p)"
  by (cases p) simp

lemma harmless_if [harmless_rules]:
  "harmless m \<Longrightarrow> harmless n \<Longrightarrow> harmless (if c then m else n)"
  by simp

lemma untouched_authenticate: "untouched s (snd (authenticate r s))"
  by (auto simp: authenticate_def authenticateAPIKey_def Let_def intro: untouched_refl
      split: option.split sum.split prod.split)
     (metis snd_conv untouched_key untouched_refl)+

lemma harmless_authenticated [harmless_rules]: "harmless (authenticated r)"
  unfolding harmless_def authenticated_def
  by (auto split: sum.split prod.split) (metis snd_conv untouched_authenticate)+

lemma harmless_production [harmless_rules]: "harmless (authenticateProduction r)"
proof -
  have "harmless (\<lambda>s. case ad_store s of
          None \<Rightarrow> (Inl (unavailable ''production product APIs require redis backing''), s)
        | Some store \<Rightarrow>
            (case as_Production store of
               None \<Rightarrow> (Inl (unavailable ''production product APIs require redis backing''), s)
             | Some ps \<Rightarrow> (Inr (claims, store, ps), s)))" for claims
    by (auto simp: harmless_def intro: untouched_refl split: option.split)
  then show ?thesis
    unfolding authenticateProduction_def by (rule harmless_next [OF harmless_authenticated])
qed

lemma harmless_draw [harmless_rules]:
  "harmless (new_id pre)" "harmless (id_or_new i pre)" "harmless key_material"
  by (auto simp: harmless_def new_id_def id_or_new_def newRecordID_def randomRead_def key_material_def give_def
      newAPIKeyMaterial_def Let_def intro: untouched.intros split: option.split prod.split)

lemma harmless_users [harmless_rules]:
  "harmless (for_user r userID)" "harmless (list_user claims userID query)"
  "harmless (authorizeThreadReadState claims room userID)"
  by (simp_all add: for_user_def list_user_def authorizeThreadReadState_def harmless_rules)

subsection \<open>Responses of steps\<close>

lemma answers_check [answer_rules]:
  "answers P (give x)" "answers P (effect g)" "P response \<Longrightarrow> answers P (stop response)"
  "P response \<Longrightarrow> answers P (permit c response)" "P response \<Longrightarrow> answers P (require b response)"
  "P (unavailable message) \<Longrightarrow> answers P (require_store message)"
  "P (bad_request_response ''request body must be valid JSON'') \<Longrightarrow> answers P (decoded r dec zero)"
  "P admin_unauthorized \<Longrightarrow> answers P (authenticated r)"
  by (auto simp: answers_def give_def effect_def stop_def permit_def require_def require_store_def decoded_def
      authenticated_def split: option.splits sum.splits prod.splits if_splits)

lemma answers_orElse [answer_rules]:
  "(\<And>err. P (failure err)) \<Longrightarrow> answers P (orElse res failure)"
  "(\<And>err. P (failure err)) \<Longrightarrow> answers P (\<lambda>s. orElse (res' s) failure s)"
  "(\<And>err. P (parse_error_response err)) \<Longrightarrow> answers P (\<lambda>s. valid (p s) s)"
  "answers P (\<lambda>s. give (f s) s)"
  by (auto simp: answers_def orElse_def valid_def give_def split: sum.splits)

lemma store_failure_cases:
  assumes "list_all (\<lambda>p. P (snd p)) cases" and "\<And>err. P (internal_response err)"
  shows "P (store_failure cases err)"
proof (cases "find (\<lambda>(target, _). errors_Is err target) cases")
  case None
  then show ?thesis using assms(2) by (simp add: store_failure_def)
next
  case (Some p)
  then have "p \<in> set cases" by (metis find_Some_iff nth_mem)
  then show ?thesis using assms(1) Some by (auto simp: store_failure_def list_all_iff split: prod.split)
qed

lemma answers_store [answer_rules]:
  "list_all (\<lambda>p. P (snd p)) cases \<Longrightarrow> (\<And>err. P (internal_response err)) \<Longrightarrow> answers P (reads read cases)"
  "list_all (\<lambda>p. P (snd p)) cases \<Longrightarrow> (\<And>err. P (internal_response err)) \<Longrightarrow> answers P (writes op cases)"
  "list_all (\<lambda>p. P (snd p)) cases \<Longrightarrow> (\<And>err. P (internal_response err)) \<Longrightarrow> answers P (\<lambda>s. writes (op' s) cases s)"
  "(\<And>err. P (failure err)) \<Longrightarrow> answers P (writes_or op failure)"
  "(\<And>err. P (failure err)) \<Longrightarrow> answers P (\<lambda>s. writes_or (op' s) failure s)"
  by (auto simp: answers_def reads_def writes_def writes_or_def intro: store_failure_cases
      split: sum.splits prod.splits)

lemma answers_next [answer_rules]:
  "answers P m \<Longrightarrow> (\<And>x. answers P (f x)) \<Longrightarrow> answers P (andNext m f)"
  unfolding answers_def andNext_def
  by (auto split: sum.splits prod.splits) (metis fst_conv)+

lemma answers_case [answer_rules]:
  "(\<And>a b. answers P (g a b)) \<Longrightarrow> answers P (case_prod g p)"
  "answers P m \<Longrightarrow> answers P n \<Longrightarrow> answers P (if c then m else n)"
  "answers P m \<Longrightarrow> (\<And>x. answers P (k x)) \<Longrightarrow> answers P (case_option m k z)"
  by (auto split: prod.split option.split)

lemma ends_rules [answer_rules]:
  "P response \<Longrightarrow> ends P (give response)"
  "P response \<Longrightarrow> ends P (stop response)"
  "(\<And>s. P (f s)) \<Longrightarrow> ends P (\<lambda>s. give (f s) s)"
  "ends P n \<Longrightarrow> ends P n' \<Longrightarrow> ends P (if c then n else n')"
  "(\<And>a b. ends P (g a b)) \<Longrightarrow> ends P (case_prod g p)"
  by (auto simp: ends_def give_def stop_def split: prod.split)

lemma ends_next [answer_rules]:
  "answers P m \<Longrightarrow> (\<And>x. ends P (f x)) \<Longrightarrow> ends P (andNext m f)"
  unfolding answers_def ends_def andNext_def
  by (auto split: sum.splits prod.splits) (metis fst_conv)+

lemma replies_rules [answer_rules]:
  "ends P m \<Longrightarrow> replies P (respond m)"
  "replies P h \<Longrightarrow> replies P h' \<Longrightarrow> replies P (if c then h else h')"
  "(\<And>a b. replies P (g a b)) \<Longrightarrow> replies P (case_prod g p)"
  "(\<And>e. replies P (l e)) \<Longrightarrow> (\<And>x. replies P (k x)) \<Longrightarrow> replies P (case_sum l k z)"
  by (auto simp: ends_def replies_def respond_def split: sum.splits prod.splits) (metis fst_conv)+

subsection \<open>Refusals\<close>

lemma refuses_rules [refuse_rules]:
  "refuses (give response)" "refuses (stop response)" "refuses (\<lambda>s. give (f s) s)"
  "refuses n \<Longrightarrow> refuses n' \<Longrightarrow> refuses (if c then n else n')"
  "(\<And>a b. refuses (g a b)) \<Longrightarrow> refuses (case_prod g p)"
  by (auto simp: refuses_def give_def stop_def intro: untouched_refl split: prod.split)

lemma refuses_next [refuse_rules]:
  assumes "harmless m" and "\<And>x. refuses (f x)"
  shows "refuses (andNext m f)"
proof -
  have "untouched s (snd (andNext m f s))"
    if "fst (andNext m f s) = Inl response \<or> fst (andNext m f s) = Inr response" "\<not> lawful response" for s response
  proof (cases "m s")
    case (Pair res t)
    have "untouched s t" using assms(1) Pair unfolding harmless_def by (metis snd_conv)
    moreover have "untouched t (snd (f x t))" if "res = Inr x" for x
      using assms(2) [of x] that Pair \<open>fst (andNext m f s) = _ \<or> _\<close> \<open>\<not> lawful response\<close>
      unfolding refuses_def andNext_def by auto
    ultimately show ?thesis using Pair unfolding andNext_def
      by (cases res) (auto intro: untouched_trans)
  qed
  then show ?thesis unfolding refuses_def by blast
qed

text \<open>After the first effect nothing may be refused.\<close>

lemma refuses_lawful [refuse_rules]:
  "ends lawful (andNext m f) \<Longrightarrow> refuses (andNext m f)"
  unfolding refuses_def ends_def by blast

lemma refused_rules [refuse_rules]:
  "refuses m \<Longrightarrow> refused (respond m)"
  "refused h \<Longrightarrow> refused h' \<Longrightarrow> refused (if c then h else h')"
  "(\<And>a b. refused (g a b)) \<Longrightarrow> refused (case_prod g p)"
  "(\<And>e. refused (l e)) \<Longrightarrow> (\<And>x. refused (k x)) \<Longrightarrow> refused (case_sum l k z)"
  by (auto simp: refuses_def refused_def respond_def split: sum.splits prod.splits) (metis fst_conv snd_conv)+

subsection \<open>Handlers by theory\<close>

lemmas room_handlers =
  handlePublish_def admin_handlePresence_def handleActiveUsers_def handleCreateRoom_def handleGetRoom_def
  handleUpdateRoom_def handleDeleteRoom_def handleListRooms_def handleRooms_def

lemmas storage_handlers =
  handleGetStorage_def handleSetStorage_def handleDeleteStorage_def admin_handleStoragePatch_def
  handleStorage_def

lemmas thread_handlers =
  handleListThreads_def handleGetThread_def handleGetThreadReadState_def
  handleThreadReadStateMutation_def handleMarkThreadRead_def handleMarkThreadUnread_def
  handleCreateThread_def handleUpdateThread_def handleDeleteThread_def handleAddComment_def
  handleUpdateComment_def handleThreads_def handleThread_def handleThreadSubresource_def

lemmas notification_handlers =
  handleUserInboxNotifications_def handleTriggerInboxNotification_def
  handleInboxNotificationAction_def handleNotificationSettings_def handleRoomSubscriptionSettings_def
  handleUserRoomSubscriptionSettings_def handleRoomUserSubresource_def handleUser_def list_inbox_def
  clear_inbox_def get_notification_def delete_notification_def set_notification_settings_def
  set_room_settings_def

lemmas product_handlers =
  handleListTenants_def handleCreateTenant_def handleGetTenant_def handleUpdateTenant_def
  handleTenants_def handleListProjects_def handleCreateProject_def handleGetProject_def
  handleUpdateProject_def handleTenantProjects_def handleTenant_def handleCreateAPIKey_def
  handleListAPIKeys_def handleAPIKeys_def handleAPIKeyAction_def handleAuditLogs_def handleUsage_def
  handleWebhookDeliveries_def handleWebhookDeliveryAction_def audit_delivery_def

lemmas document_handlers =
  handleListResumeSessions_def handleUpsertResumeSession_def handleResumeSessions_def
  handleResumeSession_def handleVersionSnapshot_def handleListVersionSnapshots_def
  handleCreateVersionSnapshot_def handleVersionSnapshots_def handleListRichTextDocuments_def
  handleGetRichTextDocument_def handleUpsertRichTextDocument_def handleRichTextDocuments_def

lemmas console_handlers =
  handleProductDashboard_def handleProductStatus_def handleSupportDebugBundle_def

subsection \<open>Steps with effects\<close>

lemma answers_events [answer_rules]:
  assumes "\<And>message. P (writeError CodeInternal message [] 500)"
  shows "answers P (new_id pre)" "answers P (id_or_new i pre)" "answers P key_material"
    "answers P (publish_and_dispatch store eventName built text)"
    "answers P (publishCommentEvent store eventName thread comment)"
    "answers P (publishNotificationEvent store eventName userID notification)"
    "answers P (admin_event_plan room kind document operations sequence)"
    "answers P (setStorageMutationEventPlan store room document)"
    "answers P (publishStorageMutationEventPlan store plan)"
    "answers P (retry_step ps rec)" "answers P (dead_letter_step ps rec)"
proof -
  have internal: "P (internal_response err)" for err
    using assms by (simp add: internal_response_def)
  show "answers P (new_id pre)"
    using assms by (auto simp: answers_def new_id_def split: option.splits prod.splits)
  then show "answers P (id_or_new i pre)"
    by (auto simp: id_or_new_def intro: answer_rules)
  show "answers P key_material"
    using assms by (auto simp: answers_def key_material_def split: option.splits prod.splits)
  show published: "answers P (publish_and_dispatch store eventName built render)" for store eventName built render
    using internal by (auto simp: publish_and_dispatch_def intro!: answer_rules)
  show "answers P (publishCommentEvent store eventName thread comment)"
    using published unfolding answers_def publishCommentEvent_def by blast
  show "answers P (publishNotificationEvent store eventName userID notification)"
    using published unfolding answers_def publishNotificationEvent_def by blast
  show planned: "answers P (admin_event_plan room kind document operations sequence)" for kind document operations sequence
    using internal by (auto simp: admin_event_plan_def [abs_def] intro!: answer_rules)
  show "answers P (setStorageMutationEventPlan store room document)"
    using internal planned by (auto simp: setStorageMutationEventPlan_def intro!: answer_rules)
  show "answers P (publishStorageMutationEventPlan store plan)"
    using internal by (auto simp: publishStorageMutationEventPlan_def intro!: answer_rules)
  show "answers P (retry_step ps rec)"
    using assms by (auto simp: answers_def retry_step_def split: sum.splits prod.splits)
  show "answers P (dead_letter_step ps rec)"
    using internal by (auto simp: dead_letter_step_def [abs_def] intro!: answer_rules)
qed

lemma answers_plans [answer_rules]:
  assumes "\<And>message. P (writeError CodeInternal message [] 500)"
  shows "(\<And>err. P (patch_failure err)) \<Longrightarrow> answers P (applyStoragePatchMutationEventPlan store room operations)"
    and "P (snd storage_not_found) \<Longrightarrow> answers P (deleteStorageMutationEventPlan store room)"
proof -
  have internal: "P (internal_response err)" for err
    using assms by (simp add: internal_response_def)
  show "answers P (applyStoragePatchMutationEventPlan store room operations)" if "\<And>err. P (patch_failure err)"
    using that assms internal by (auto simp: applyStoragePatchMutationEventPlan_def intro!: answer_rules)
  show "answers P (deleteStorageMutationEventPlan store room)" if "P (snd storage_not_found)"
    using that assms internal by (auto simp: deleteStorageMutationEventPlan_def intro!: answer_rules)
qed

lemma lawful_status [simp]:
  "lawful (write_status status) = (status \<notin> refusals)"
  "lawful (writeJSON status body) = (status \<notin> refusals)"
  "lawful (writeRawJSON status raw) = (status \<notin> refusals)"
  "lawful (writeError code message requestID status) = (status \<notin> refusals)"
  "lawful (internal_response err)"
  by (simp_all add: lawful_def write_status_def writeJSON_def writeRawJSON_def writeError_def internal_response_def
      refusals_def)

lemma lawful_cases [simp]:
  "lawful (snd (not_found_case target code message))" "lawful (snd (conflict_case target code message))"
  "lawful (snd (gone e message))" "lawful (snd (taken e message))" "lawful (snd session_gone)"
  "lawful (snd room_not_found)" "lawful (snd storage_not_found)" "lawful (snd thread_not_found)"
  "lawful (snd notification_not_found)" "lawful (comment_failure err)" "lawful (patch_failure err)"
  by (simp_all add: not_found_case_def conflict_case_def gone_def taken_def session_gone_def room_not_found_def
      storage_not_found_def thread_not_found_def notification_not_found_def comment_failure_def patch_failure_def
      refusals_def)

subsection \<open>Handlers\<close>

lemma refused_room [refuse_rules]:
  "refused (handlePublish r)" "refused (admin_handlePresence r)" "refused (handleActiveUsers r room)"
  "refused (handleCreateRoom r)" "refused (handleGetRoom r room)" "refused (handleUpdateRoom r room)"
  "refused (handleDeleteRoom r room)" "refused (handleListRooms r)" "refused (handleRooms r)"
  by (simp_all add: room_handlers harmless_rules answer_rules refuse_rules refusals_def)

lemma refused_storage [refuse_rules]:
  "refused (handleGetStorage r room)" "refused (handleSetStorage r room)"
  "refused (handleDeleteStorage r room)" "refused (admin_handleStoragePatch r room)"
  "refused (handleStorage r room)"
  by (simp_all add: storage_handlers harmless_rules answer_rules refuse_rules refusals_def)

lemma refused_thread [refuse_rules]:
  "refused (handleListThreads r room)" "refused (handleGetThread r room i)"
  "refused (handleGetThreadReadState r room i)" "refused (handleThreadReadStateMutation r room i b)"
  "refused (handleMarkThreadRead r room i)" "refused (handleMarkThreadUnread r room i)"
  "refused (handleCreateThread r room)" "refused (handleUpdateThread r room i)"
  "refused (handleDeleteThread r room i)" "refused (handleAddComment r room i)"
  "refused (handleUpdateComment r room i j)" "refused (handleThreads r room)"
  "refused (handleThread r room i)" "refused (handleThreadSubresource r room i)"
  by (simp_all add: thread_handlers harmless_rules answer_rules refuse_rules refusals_def)

lemma refused_notification [refuse_rules]:
  "refused (handleUserInboxNotifications r i j)" "refused (handleTriggerInboxNotification r)"
  "refused (handleInboxNotificationAction r)" "refused (handleNotificationSettings r i)"
  "refused (handleRoomSubscriptionSettings r room i)" "refused (handleUserRoomSubscriptionSettings r i)"
  "refused (handleRoomUserSubresource r room i)" "refused (handleUser r)"
  by (simp_all add: notification_handlers harmless_rules answer_rules refuse_rules refusals_def)

lemma refused_product [refuse_rules]:
  "refused (handleListTenants r)" "refused (handleCreateTenant r)" "refused (handleGetTenant r i)"
  "refused (handleUpdateTenant r i)" "refused (handleTenants r)" "refused (handleListProjects r i)"
  "refused (handleCreateProject r i)" "refused (handleGetProject r i j)" "refused (handleUpdateProject r i j)"
  "refused (handleTenantProjects r i j)" "refused (handleTenant r)" "refused (handleCreateAPIKey r)"
  "refused (handleListAPIKeys r)" "refused (handleAPIKeys r)" "refused (handleAPIKeyAction r)"
  "refused (handleAuditLogs r)" "refused (handleUsage r)" "refused (handleWebhookDeliveries r)"
  "refused (handleWebhookDeliveryAction r)"
  by (simp_all add: product_handlers harmless_rules answer_rules refuse_rules refusals_def)

lemma refused_document [refuse_rules]:
  "refused (handleListResumeSessions r)" "refused (handleUpsertResumeSession r)"
  "refused (handleResumeSessions r)" "refused (handleResumeSession r)"
  "refused (handleVersionSnapshot r room i)" "refused (handleListVersionSnapshots r room)"
  "refused (handleCreateVersionSnapshot r room)" "refused (handleVersionSnapshots r room)"
  "refused (handleListRichTextDocuments r room)" "refused (handleGetRichTextDocument r room i)"
  "refused (handleUpsertRichTextDocument r room i)" "refused (handleRichTextDocuments r room i)"
  by (simp_all add: document_handlers harmless_rules answer_rules refuse_rules refusals_def)

lemma refused_console [refuse_rules]:
  "refused (handleProductDashboard r)" "refused (handleProductStatus r)"
  "refused (handleSupportDebugBundle r)"
  by (simp_all add: console_handlers harmless_rules answer_rules refuse_rules refusals_def)

lemma refused_service [refuse_rules]:
  "refused (handleRoom r)" "refused (admin_handleStats r)" "refused admin_handleHealth"
  by (simp_all add: handleRoom_def room_methods_def admin_handleStats_def admin_handleHealth_def
      harmless_rules answer_rules refuse_rules)

lemma refused_probes [refuse_rules]: "refused admin_handleReady" "refused admin_handleMetrics"
  by (auto simp: refused_def admin_handleReady_def admin_handleMetrics_def intro: untouched_refl
      split: option.split bool.split)

lemma refused_handler_of [refuse_rules]: "refused (handler_of route r)"
  by (cases route) (simp_all add: handler_of_def refuse_rules)

lemma refused_routed [refuse_rules]: "refused (routed r)"
  by (auto simp: routed_def refuse_rules split: option.split)

lemma refused_Handler: "refused (Handler r)"
  by (simp add: Handler_def Let_def refuse_rules)

end
