(* ===== verification/Admin_Responses.thy ===== *)
theory Admin_Responses
  imports Admin_Refusals
begin

text \<open>
  What the administration API answers: every response has a body that fits its status, and
  every error has the status that the error catalogue gives its code, except for what is
  unavailable without a store.
\<close>

definition success_body :: "Body \<Rightarrow> bool" where
  "success_body body \<longleftrightarrow>
    (case body of NoBody \<Rightarrow> False | ErrorBody _ \<Rightarrow> False | TextBody _ \<Rightarrow> False | Location _ _ \<Rightarrow> False | _ \<Rightarrow> True)"

text \<open>Status 0 is the request that is never answered.\<close>

definition catalogued :: "Response \<Rightarrow> bool" where
  "catalogued response \<longleftrightarrow>
    (case rp_Body response of
       ErrorBody err \<Rightarrow>
         rp_Status response = int (ds_HTTPStatus (DescriptorFor (ae_Code err)))
         \<or> (ae_Code err = CodeInternal \<and> rp_Status response = 503)
     | NoBody \<Rightarrow> rp_Status response \<in> {0, 202, 204, 400, 405}
     | TextBody _ \<Rightarrow> rp_Status response \<in> {200, 404, 503}
     | Location _ _ \<Rightarrow> rp_Status response = 301
     | _ \<Rightarrow> rp_Status response \<in> {200, 201})"

subsection \<open>Responses\<close>

lemma catalogued_error [simp]:
  "catalogued (writeError code message requestID status) \<longleftrightarrow>
     status = int (ds_HTTPStatus (DescriptorFor code)) \<or> (code = CodeInternal \<and> status = 503)"
  "catalogued (bad_request_response reason)" "catalogued (forbidden_response reason)" "catalogued (unavailable reason)"
  "catalogued (internal_response e)" "catalogued (parse_error_response err)" "catalogued admin_unauthorized"
  by (simp_all add: catalogued_def writeError_def bad_request_response_def forbidden_response_def unavailable_def
      internal_response_def parse_error_response_def admin_unauthorized_def descriptor_def)

lemma catalogued_status [simp]:
  "catalogued (write_status status) \<longleftrightarrow> status \<in> {0, 202, 204, 400, 405}"
  "catalogued method_not_allowed" "catalogued never_answered" "catalogued http_not_found"
  "catalogued (redirect r path)" "catalogued admin_ready" "catalogued \<lparr>rp_Status = 200, rp_Body = TextBody message\<rparr>"
  "catalogued (writeRawJSON status raw) \<longleftrightarrow> status \<in> {200, 201}"
  by (simp_all add: catalogued_def write_status_def method_not_allowed_def never_answered_def http_not_found_def
      redirect_def admin_ready_def writeRawJSON_def)

lemma catalogued_success [simp]:
  "success_body body \<Longrightarrow> catalogued (writeJSON status body) \<longleftrightarrow> status \<in> {200, 201}"
  by (cases body) (simp_all add: catalogued_def writeJSON_def success_body_def)

lemma catalogued_cases [simp]:
  "catalogued (snd (gone e message))" "catalogued (snd (taken e message))" "catalogued (snd session_gone)"
  "catalogued (snd room_not_found)" "catalogued (snd storage_not_found)" "catalogued (snd thread_not_found)"
  "catalogued (snd notification_not_found)" "catalogued (comment_failure err)" "catalogued (patch_failure err)"
  "catalogued (snd (conflict_case target code message)) \<longleftrightarrow> ds_HTTPStatus (DescriptorFor code) = 409"
  by (auto simp: not_found_case_def conflict_case_def gone_def taken_def session_gone_def room_not_found_def
      storage_not_found_def thread_not_found_def notification_not_found_def comment_failure_def patch_failure_def
      descriptor_def)

subsection \<open>Steps that only read\<close>

lemma answers_document [answer_rules]:
  "answers catalogued (\<lambda>s. orElse (readStorageDocument r (limit s)) (\<lambda>response. response) s)"
  by (auto simp: answers_def orElse_def readStorageDocument_def descriptor_def split: sum.splits option.splits if_splits)

lemma answers_catalogued [answer_rules]:
  "answers catalogued (valid p)" "answers catalogued (valid_message p)" "answers catalogued (valid_text t)"
  "answers catalogued (has_method r m)"
  "answers catalogued (may_administer claims room)" "answers catalogued (may_use_storage claims action room)"
  "answers catalogued (may_use_comments claims action room)" "answers catalogued (may_notify claims userID)"
  "answers catalogued (may_administer_tenant claims tenantID what)" "answers catalogued (may_use_versions claims action room)"
  "answers catalogued (may_use_rich_text claims action room)" "answers catalogued (tenant_and_project r claims)"
  "answers catalogued (list_limit r)" "answers catalogued room_store" "answers catalogued storage_store"
  "answers catalogued thread_store" "answers catalogued notification_store" "answers catalogued aggregate"
  by (auto simp: valid_def [abs_def] valid_message_def [abs_def] valid_text_def [abs_def] has_method_def
      may_administer_def may_use_storage_def may_use_comments_def may_notify_def may_administer_tenant_def
      may_use_versions_def may_use_rich_text_def tenant_and_project_def list_limit_def room_store_def storage_store_def
      thread_store_def notification_store_def answers_def permit_def require_def orElse_def require_store_def
      aggregate_def reads_def store_failure_def give_def descriptor_def split: sum.splits option.splits if_splits)

lemma answers_production [answer_rules]: "answers catalogued (authenticateProduction r)"
proof -
  have "answers catalogued (authenticated r)" by (simp add: answer_rules)
  then show ?thesis
    unfolding authenticateProduction_def
    by (rule answers_next) (auto simp: answers_def split: option.splits)
qed

lemma answers_composed [answer_rules]:
  "answers catalogued (list_rooms store pre cursor limit query)" "answers catalogued (for_user r userID)"
  "answers catalogued (list_user claims userID query')" "answers catalogued (authorizeThreadReadState claims room userID)"
  "answers catalogued (dashboard_of store ps selection [gone e1 m1, gone e2 m2])"
  "answers catalogued (dashboard_of store ps selection [])"
  "answers catalogued (snapshot_document store room document)"
  "answers catalogued (with_read_states store room userID threads)" "answers catalogued (selected r claims)"
proof -
  show "answers catalogued (list_rooms store pre cursor limit query)"
    by (auto simp: answers_def list_rooms_def reads_def store_failure_def split: option.splits sum.splits)
  show "answers catalogued (for_user r userID)" by (simp add: for_user_def answer_rules)
  show "answers catalogued (list_user claims userID query')" by (simp add: list_user_def answer_rules)
  show "answers catalogued (authorizeThreadReadState claims room userID)"
    by (simp add: authorizeThreadReadState_def answer_rules)
  have failure: "catalogued (store_failure [gone e1 m1, gone e2 m2] err)" "catalogued (store_failure [] err)" for err
    by (rule store_failure_cases; simp)+
  show "answers catalogued (dashboard_of store ps selection [gone e1 m1, gone e2 m2])"
    "answers catalogued (dashboard_of store ps selection [])"
    unfolding dashboard_of_def [abs_def] by (simp_all add: answer_rules failure)
  show "answers catalogued (snapshot_document store room document)"
    by (simp add: snapshot_document_def answer_rules)
  show "answers catalogued (with_read_states store room userID threads)"
    by (simp add: with_read_states_def answer_rules)
  show "answers catalogued (selected r claims)"
    by (auto simp: answers_def selected_def orElse_def console_response_def descriptor_def
        split: sum.splits console_error.splits)
qed

subsection \<open>Handlers\<close>

lemma replies_room [answer_rules]:
  "replies catalogued (handlePublish r)" "replies catalogued (admin_handlePresence r)"
  "replies catalogued (handleActiveUsers r room)" "replies catalogued (handleCreateRoom r)"
  "replies catalogued (handleGetRoom r room)" "replies catalogued (handleUpdateRoom r room)"
  "replies catalogued (handleDeleteRoom r room)" "replies catalogued (handleListRooms r)"
  "replies catalogued (handleRooms r)"
  by (simp_all add: room_handlers answer_rules success_body_def descriptor_def split: prod.split)

lemma replies_storage [answer_rules]:
  "replies catalogued (handleGetStorage r room)" "replies catalogued (handleSetStorage r room)"
  "replies catalogued (handleDeleteStorage r room)" "replies catalogued (admin_handleStoragePatch r room)"
  "replies catalogued (handleStorage r room)"
  by (simp_all add: storage_handlers answer_rules success_body_def descriptor_def split: prod.split)

lemma replies_thread [answer_rules]:
  "replies catalogued (handleListThreads r room)" "replies catalogued (handleGetThread r room i)"
  "replies catalogued (handleGetThreadReadState r room i)"
  "replies catalogued (handleThreadReadStateMutation r room i b)"
  "replies catalogued (handleMarkThreadRead r room i)" "replies catalogued (handleMarkThreadUnread r room i)"
  "replies catalogued (handleCreateThread r room)" "replies catalogued (handleUpdateThread r room i)"
  "replies catalogued (handleDeleteThread r room i)" "replies catalogued (handleAddComment r room i)"
  "replies catalogued (handleUpdateComment r room i j)" "replies catalogued (handleThreads r room)"
  "replies catalogued (handleThread r room i)" "replies catalogued (handleThreadSubresource r room i)"
  by (simp_all add: thread_handlers answer_rules success_body_def descriptor_def split: prod.split)

lemma replies_notification [answer_rules]:
  "replies catalogued (handleUserInboxNotifications r i j)"
  "replies catalogued (handleTriggerInboxNotification r)"
  "replies catalogued (handleInboxNotificationAction r)" "replies catalogued (handleNotificationSettings r i)"
  "replies catalogued (handleRoomSubscriptionSettings r room i)"
  "replies catalogued (handleUserRoomSubscriptionSettings r i)"
  "replies catalogued (handleRoomUserSubresource r room i)" "replies catalogued (handleUser r)"
  by (simp_all add: notification_handlers answer_rules success_body_def descriptor_def split: prod.split)

lemma replies_product [answer_rules]:
  "replies catalogued (handleListTenants r)" "replies catalogued (handleCreateTenant r)"
  "replies catalogued (handleGetTenant r i)" "replies catalogued (handleUpdateTenant r i)"
  "replies catalogued (handleTenants r)" "replies catalogued (handleListProjects r i)"
  "replies catalogued (handleCreateProject r i)" "replies catalogued (handleGetProject r i j)"
  "replies catalogued (handleUpdateProject r i j)" "replies catalogued (handleTenantProjects r i j)"
  "replies catalogued (handleTenant r)" "replies catalogued (handleCreateAPIKey r)"
  "replies catalogued (handleListAPIKeys r)" "replies catalogued (handleAPIKeys r)"
  "replies catalogued (handleAPIKeyAction r)" "replies catalogued (handleAuditLogs r)"
  "replies catalogued (handleUsage r)" "replies catalogued (handleWebhookDeliveries r)"
  "replies catalogued (handleWebhookDeliveryAction r)"
  by (simp_all add: product_handlers answer_rules success_body_def descriptor_def split: prod.split)

lemma replies_document [answer_rules]:
  "replies catalogued (handleListResumeSessions r)" "replies catalogued (handleUpsertResumeSession r)"
  "replies catalogued (handleResumeSessions r)" "replies catalogued (handleResumeSession r)"
  "replies catalogued (handleVersionSnapshot r room i)"
  "replies catalogued (handleListVersionSnapshots r room)"
  "replies catalogued (handleCreateVersionSnapshot r room)"
  "replies catalogued (handleVersionSnapshots r room)"
  "replies catalogued (handleListRichTextDocuments r room)"
  "replies catalogued (handleGetRichTextDocument r room i)"
  "replies catalogued (handleUpsertRichTextDocument r room i)"
  "replies catalogued (handleRichTextDocuments r room i)"
  by (simp_all add: document_handlers answer_rules success_body_def descriptor_def split: prod.split)

lemma replies_console [answer_rules]:
  "replies catalogued (handleProductDashboard r)" "replies catalogued (handleProductStatus r)"
  "replies catalogued (handleSupportDebugBundle r)"
  by (simp_all add: console_handlers Let_def answer_rules success_body_def descriptor_def split: prod.split)

lemma replies_service [answer_rules]:
  "replies catalogued (handleRoom r)" "replies catalogued (admin_handleStats r)" "replies catalogued admin_handleHealth"
  by (simp_all add: handleRoom_def room_methods_def admin_handleStats_def admin_handleHealth_def answer_rules
      success_body_def)

lemma replies_probes [answer_rules]:
  "replies catalogued admin_handleReady" "replies catalogued admin_handleMetrics"
  by (auto simp: replies_def admin_handleReady_def admin_handleMetrics_def catalogued_def admin_ready_def
      split: option.split bool.split)

lemma replies_handler_of [answer_rules]: "replies catalogued (handler_of route r)"
  by (cases route) (simp_all add: handler_of_def answer_rules)

lemma replies_routed [answer_rules]: "replies catalogued (routed r)"
  by (auto simp: routed_def answer_rules split: option.split)

lemma replies_Handler: "replies catalogued (Handler r)"
  by (simp add: Handler_def Let_def answer_rules)

end
