(* ===== verification/Admin_Room_Access.thy ===== *)
theory Admin_Room_Access
  imports Admin_Refusals Auth_Claims
begin

text \<open>
  No route does anything for a caller that it cannot authenticate, except for the health
  checks and the metrics. Before the credentials are checked a handler only looks at the
  request.

  Who gets anything from the routes below a room: a caller with the right that the route and the
  method need, to that room or, for the subscription settings of a user, to the notifications of
  that user. A step demands what holds whenever it goes on to a success or touches the service.
\<close>

named_theorems reject_rules \<open>steps that stop a caller without credentials\<close>

definition stranger :: "AdminRequest \<Rightarrow> 'st Admin \<Rightarrow> bool" where
  "stranger r s \<longleftrightarrow> (\<exists>err t. authenticate r s = (Inl err, t))"

definition rejections :: "int set" where
  "rejections = {400, 401, 405}"

definition rejects :: "AdminRequest \<Rightarrow> ('st, 'a) step \<Rightarrow> bool" where
  "rejects r m \<longleftrightarrow>
    (\<forall>s. stranger r s \<longrightarrow> (\<exists>response. fst (m s) = Inl response \<and> rp_Status response \<in> rejections))"

definition rejected :: "AdminRequest \<Rightarrow> 'st handler \<Rightarrow> bool" where
  "rejected r h \<longleftrightarrow> (\<forall>s. stranger r s \<longrightarrow> rp_Status (fst (h s)) \<in> rejections)"

text \<open>A look at the request: nothing changes and only a rejection stops it.\<close>

definition looks :: "('st, 'a) step \<Rightarrow> bool" where
  "looks m \<longleftrightarrow> (\<forall>s. snd (m s) = s) \<and> answers (\<lambda>response. rp_Status response \<in> rejections) m"

lemma looks_rules [reject_rules]:
  "looks (valid_text t)" "looks (has_method r m)" "looks (require c (bad_request_response reason))"
  by (auto simp: looks_def answers_def valid_text_def has_method_def require_def permit_def orElse_def
      rejections_def bad_request_response_def writeError_def method_not_allowed_def write_status_def split: sum.splits)

lemma rejects_authenticated [reject_rules]: "rejects r (authenticated r)"
  by (auto simp: rejects_def stranger_def authenticated_def admin_unauthorized_def writeError_def rejections_def)

lemma rejects_next [reject_rules]:
  "rejects r m \<Longrightarrow> rejects r (andNext m f)"
  unfolding rejects_def andNext_def by (fastforce split: sum.split prod.split)

lemma rejects_look [reject_rules]:
  assumes "looks m" and "\<And>x. rejects r (f x)"
  shows "rejects r (andNext m f)"
proof -
  have "\<exists>response. fst (andNext m f s) = Inl response \<and> rp_Status response \<in> rejections" if "stranger r s" for s
  proof (cases "fst (m s)")
    case (Inl response)
    moreover have "rp_Status response \<in> rejections"
      using assms(1) Inl unfolding looks_def answers_def by blast
    ultimately show ?thesis by (cases "m s") (auto simp: andNext_def)
  next
    case (Inr x)
    moreover have "snd (m s) = s" using assms(1) by (simp add: looks_def)
    ultimately have "andNext m f s = f x s" by (cases "m s") (simp add: andNext_def)
    then show ?thesis using assms(2) [of x] that by (simp add: rejects_def)
  qed
  then show ?thesis by (simp add: rejects_def)
qed

lemma rejects_cases [reject_rules]:
  "(\<And>a b. rejects r (g a b)) \<Longrightarrow> rejects r (case_prod g p)"
  "rejects r (stop method_not_allowed)"
  by (auto simp: rejects_def stop_def rejections_def method_not_allowed_def write_status_def split: prod.split)

lemma rejects_for_user [reject_rules]: "rejects r (for_user r userID)"
  by (simp add: for_user_def reject_rules)

lemma rejects_production [reject_rules]: "rejects r (authenticateProduction r)"
  unfolding authenticateProduction_def by (rule rejects_next [OF rejects_authenticated])

lemma rejected_rules [reject_rules]:
  "rejects r m \<Longrightarrow> rejected r (respond m)"
  "rejected r (respond (stop (bad_request_response reason)))"
  "rejected r (respond (stop method_not_allowed))"
  "rejected r h \<Longrightarrow> rejected r h' \<Longrightarrow> rejected r (if c then h else h')"
  "(\<And>a b. rejected r (g a b)) \<Longrightarrow> rejected r (case_prod g p)"
  "(\<And>e. rejected r (l e)) \<Longrightarrow> (\<And>x. rejected r (k x)) \<Longrightarrow> rejected r (case_sum l k z)"
  by (fastforce simp: rejects_def rejected_def respond_def stop_def rejections_def bad_request_response_def
      writeError_def method_not_allowed_def write_status_def split: sum.split prod.split)+

subsection \<open>Handlers\<close>

lemma rejected_room [reject_rules]:
  "rejected r (handlePublish r)" "rejected r (admin_handlePresence r)" "rejected r (handleActiveUsers r room)"
  "rejected r (handleCreateRoom r)" "rejected r (handleGetRoom r room)" "rejected r (handleUpdateRoom r room)"
  "rejected r (handleDeleteRoom r room)" "rejected r (handleListRooms r)" "rejected r (handleRooms r)"
  by (simp_all add: room_handlers reject_rules)

lemma rejected_storage [reject_rules]:
  "rejected r (handleGetStorage r room)" "rejected r (handleSetStorage r room)"
  "rejected r (handleDeleteStorage r room)" "rejected r (admin_handleStoragePatch r room)"
  "rejected r (handleStorage r room)"
  by (simp_all add: storage_handlers reject_rules)

lemma rejected_thread [reject_rules]:
  "rejected r (handleListThreads r room)" "rejected r (handleGetThread r room i)"
  "rejected r (handleGetThreadReadState r room i)" "rejected r (handleThreadReadStateMutation r room i b)"
  "rejected r (handleMarkThreadRead r room i)" "rejected r (handleMarkThreadUnread r room i)"
  "rejected r (handleCreateThread r room)" "rejected r (handleUpdateThread r room i)"
  "rejected r (handleDeleteThread r room i)" "rejected r (handleAddComment r room i)"
  "rejected r (handleUpdateComment r room i j)" "rejected r (handleThreads r room)"
  "rejected r (handleThread r room i)" "rejected r (handleThreadSubresource r room i)"
  by (simp_all add: thread_handlers reject_rules)

lemma rejected_notification [reject_rules]:
  "rejected r (handleUserInboxNotifications r i j)" "rejected r (handleTriggerInboxNotification r)"
  "rejected r (handleInboxNotificationAction r)" "rejected r (handleNotificationSettings r i)"
  "rejected r (handleRoomSubscriptionSettings r room i)" "rejected r (handleUserRoomSubscriptionSettings r i)"
  "rejected r (handleRoomUserSubresource r room i)" "rejected r (handleUser r)"
  by (simp_all add: notification_handlers reject_rules)

lemma rejected_product [reject_rules]:
  "rejected r (handleListTenants r)" "rejected r (handleCreateTenant r)" "rejected r (handleGetTenant r i)"
  "rejected r (handleUpdateTenant r i)" "rejected r (handleTenants r)" "rejected r (handleListProjects r i)"
  "rejected r (handleCreateProject r i)" "rejected r (handleGetProject r i j)"
  "rejected r (handleUpdateProject r i j)" "rejected r (handleTenantProjects r i j)"
  "rejected r (handleTenant r)" "rejected r (handleCreateAPIKey r)" "rejected r (handleListAPIKeys r)"
  "rejected r (handleAPIKeys r)" "rejected r (handleAPIKeyAction r)" "rejected r (handleAuditLogs r)"
  "rejected r (handleUsage r)" "rejected r (handleWebhookDeliveries r)"
  "rejected r (handleWebhookDeliveryAction r)"
  by (simp_all add: product_handlers reject_rules)

lemma rejected_document [reject_rules]:
  "rejected r (handleListResumeSessions r)" "rejected r (handleUpsertResumeSession r)"
  "rejected r (handleResumeSessions r)" "rejected r (handleResumeSession r)"
  "rejected r (handleVersionSnapshot r room i)" "rejected r (handleListVersionSnapshots r room)"
  "rejected r (handleCreateVersionSnapshot r room)" "rejected r (handleVersionSnapshots r room)"
  "rejected r (handleListRichTextDocuments r room)" "rejected r (handleGetRichTextDocument r room i)"
  "rejected r (handleUpsertRichTextDocument r room i)" "rejected r (handleRichTextDocuments r room i)"
  by (simp_all add: document_handlers reject_rules)

lemma rejected_console [reject_rules]:
  "rejected r (handleProductDashboard r)" "rejected r (handleProductStatus r)"
  "rejected r (handleSupportDebugBundle r)"
  by (simp_all add: console_handlers reject_rules)

lemma rejected_service [reject_rules]: "rejected r (handleRoom r)" "rejected r (admin_handleStats r)"
  by (simp_all add: handleRoom_def room_methods_def admin_handleStats_def reject_rules)

lemma rejected_handler_of:
  "route \<notin> {Health, Ready, Metrics} \<Longrightarrow> rejected r (handler_of route r)"
  by (cases route) (simp_all add: handler_of_def reject_rules)

lemma rejected_routed:
  assumes "stranger r s" and "mux_match (hr_Path r) \<notin> Some ` {Health, Ready, Metrics}"
  shows "rp_Status (fst (routed r s)) \<in> {400, 401, 404, 405}"
proof (cases "mux_match (hr_Path r)")
  case None
  then show ?thesis by (simp add: routed_def respond_def give_def http_not_found_def)
next
  case (Some route)
  then have "route \<notin> {Health, Ready, Metrics}" using assms(2) by auto
  from rejected_handler_of [OF this] show ?thesis
    using assms(1) Some by (auto simp: routed_def rejected_def rejections_def)
qed

named_theorems demand_rules \<open>steps that demand a right\<close>

definition success :: "Response \<Rightarrow> bool" where
  "success response \<longleftrightarrow> rp_Status response \<in> {200, 201, 202, 204}"

text \<open>What a route below a room needs: which right, in the room or to the notifications of a user.\<close>

datatype room_need = RoomAdministration | RoomAction string | NotificationsOf string | NobodyAtAll

fun meets :: "room_need \<Rightarrow> room_id \<Rightarrow> Claims \<Rightarrow> 'st Admin \<Rightarrow> bool" where
  "meets RoomAdministration room = (\<lambda>claims. administers_room claims room)"
| "meets (RoomAction action) room = (\<lambda>claims. admin_allowsRoomAction claims action room)"
| "meets (NotificationsOf userID) room = (\<lambda>claims. notificationAllowed claims userID)"
| "meets NobodyAtAll room = (\<lambda>claims s. False)"

definition read_or_write :: "string \<Rightarrow> string \<Rightarrow> string \<Rightarrow> room_need" where
  "read_or_write m r w = RoomAction (if m = ''GET'' then r else w)"

text \<open>Threads: reading one and its read states, and changing it and its comments.\<close>

definition thread_need :: "string \<Rightarrow> string \<Rightarrow> room_need" where
  "thread_need m subresource =
    (case threadPathParts subresource of
       Inl _ \<Rightarrow> NobodyAtAll
     | Inr (_, child) \<Rightarrow>
         if child = [] then read_or_write m ''comments:read'' ''comments:write''
         else if child \<in> {''read-state'', ''read'', ''unread''} then RoomAction ''comments:read''
         else RoomAction ''comments:write'')"

definition settings_need :: "string \<Rightarrow> room_need" where
  "settings_need subresource =
    (case roomUserPathParts subresource of
       Inr (userID, child) \<Rightarrow> if child = ''subscription-settings'' then NotificationsOf userID else NobodyAtAll
     | Inl _ \<Rightarrow> NobodyAtAll)"

text \<open>By method and the part of the path behind the room.\<close>

definition room_need :: "string \<Rightarrow> string \<Rightarrow> room_need" where
  "room_need m subresource =
    (if subresource = ''storage'' then read_or_write m ''storage:read'' ''storage:write''
     else if subresource = ''storage'' @ slash # ''json-patch'' then RoomAction ''storage:write''
     else if subresource = ''versions'' then read_or_write m ''storage:read'' ''storage:write''
     else if prefix (''versions'' @ [slash]) subresource then RoomAction ''storage:read''
     else if subresource = ''rich-text'' \<or> prefix (''rich-text'' @ [slash]) subresource
     then read_or_write m ''storage:read'' ''storage:write''
     else if subresource = ''active_users'' \<or> subresource = ''active-users'' then RoomAction ''presence''
     else if subresource = ''threads'' then read_or_write m ''comments:read'' ''comments:write''
     else if prefix (''threads'' @ [slash]) subresource then thread_need m subresource
     else if prefix (''users'' @ [slash]) subresource then settings_need subresource
     else if subresource \<noteq> [] then NobodyAtAll
     else RoomAdministration)"

text \<open>The caller of the request has a right in the state after its credentials were checked.\<close>

definition holds_right :: "AdminRequest \<Rightarrow> (Claims \<Rightarrow> 'st Admin \<Rightarrow> bool) \<Rightarrow> 'st Admin \<Rightarrow> bool" where
  "holds_right r C s \<longleftrightarrow> (\<exists>claims t. authenticate r s = (Inr claims, t) \<and> C claims t)"

text \<open>A step acts when it goes on to a success or when it touches the service.\<close>

definition acts :: "('st, Response) step \<Rightarrow> 'st Admin \<Rightarrow> bool" where
  "acts m s \<longleftrightarrow> (\<exists>response. (fst (m s) = Inl response \<or> fst (m s) = Inr response) \<and> success response)
     \<or> \<not> untouched s (snd (m s))"

definition demands :: "('st Admin \<Rightarrow> bool) \<Rightarrow> ('st, Response) step \<Rightarrow> bool" where
  "demands D m \<longleftrightarrow> (\<forall>s. acts m s \<longrightarrow> D s)"

definition demanded :: "('st Admin \<Rightarrow> bool) \<Rightarrow> 'st handler \<Rightarrow> bool" where
  "demanded D h \<longleftrightarrow> (\<forall>s. success (fst (h s)) \<or> \<not> untouched s (snd (h s)) \<longrightarrow> D s)"

text \<open>A check changes nothing and answers with no success; if it ensures \<open>D\<close> it goes on only with \<open>D\<close>.\<close>

definition checks :: "('st, 'a) step \<Rightarrow> bool" where
  "checks m \<longleftrightarrow> (\<forall>s. snd (m s) = s) \<and> answers (\<lambda>response. \<not> success response) m"

definition ensures :: "('st Admin \<Rightarrow> bool) \<Rightarrow> ('st, 'a) step \<Rightarrow> bool" where
  "ensures D m \<longleftrightarrow> (\<forall>s x. fst (m s) = Inr x \<longrightarrow> D s) \<and> checks m"

subsection \<open>Laws\<close>

lemma descriptor_no_success: "int (ds_HTTPStatus (DescriptorFor code)) \<notin> {200, 201, 202, 204}"
  by (cases code) (simp_all add: descriptor_def)

lemma no_success [simp]:
  "success (writeError code message requestID status) \<longleftrightarrow> status \<in> {200, 201, 202, 204}"
  "\<not> success (bad_request_response reason)" "\<not> success (forbidden_response reason)"
  "\<not> success (parse_error_response err)" "\<not> success (unavailable reason)" "\<not> success method_not_allowed"
  "\<not> success admin_unauthorized"
  using descriptor_no_success
  by (auto simp: success_def writeError_def bad_request_response_def forbidden_response_def parse_error_response_def
      unavailable_def method_not_allowed_def write_status_def admin_unauthorized_def)

lemma checks_rules [demand_rules]:
  "checks (require_store message)" "checks (valid p)" "checks (valid_text t)" "checks (has_method r m)"
  "checks (decoded r dec zero)" "checks room_store" "checks storage_store" "checks thread_store"
  "checks notification_store"
  by (auto simp: checks_def answers_def require_store_def valid_def valid_text_def has_method_def require_def
      permit_def orElse_def decoded_def room_store_def storage_store_def thread_store_def notification_store_def
      split: sum.splits option.splits if_splits)

lemma ensures_room [demand_rules]:
  "ensures (administers_room claims room) (may_administer claims room)"
  "ensures (admin_allowsRoomAction claims action room) (may_use_storage claims action room)"
  "ensures (admin_allowsRoomAction claims action room) (may_use_comments claims action room)"
  "ensures (admin_allowsRoomAction claims action room) (may_use_versions claims action room)"
  "ensures (admin_allowsRoomAction claims action room) (may_use_rich_text claims action room)"
  "ensures (admin_allowsRoomAction claims ''comments:read'' room) (authorizeThreadReadState claims room userID)"
  "ensures (admin_allowsRoomAction claims action room) (permit (admin_allowsRoomAction claims action room) (forbidden_response reason))"
  "ensures (notificationAllowed claims userID) (may_notify claims userID)"
  by (auto simp: ensures_def checks_def answers_def may_administer_def may_use_storage_def may_use_comments_def
      may_use_versions_def may_use_rich_text_def authorizeThreadReadState_def may_notify_def permit_def andNext_def
      split: if_splits prod.splits sum.splits)

text \<open>What is behind a check acts when the whole step does.\<close>

lemma acts_behind_check:
  assumes "checks m" and "acts (andNext m f) s"
  obtains x where "fst (m s) = Inr x" and "acts (f x) s"
proof (cases "fst (m s)")
  case (Inl response)
  then have "\<not> success response" "m s = (Inl response, s)"
    using assms(1) unfolding checks_def answers_def by (auto simp: prod_eq_iff)
  then show ?thesis using assms(2) untouched_refl [of s] by (simp add: acts_def andNext_def)
next
  case (Inr x)
  then have "m s = (Inr x, s)" using assms(1) by (simp add: checks_def prod_eq_iff)
  then have "andNext m f s = f x s" by (simp add: andNext_def)
  then show ?thesis using assms(2) that Inr by (simp add: acts_def)
qed

lemma demands_checked:
  assumes "checks m" and "\<And>s x. fst (m s) = Inr x \<Longrightarrow> D s \<or> demands D (f x)"
  shows "demands D (andNext m f)"
  using assms acts_behind_check unfolding demands_def by metis

lemma demands_check [demand_rules]: "checks m \<Longrightarrow> (\<And>x. demands D (f x)) \<Longrightarrow> demands D (andNext m f)"
  by (rule demands_checked) simp_all

lemma demands_ensured [demand_rules]: "ensures D m \<Longrightarrow> demands D (andNext m f)"
  by (rule demands_checked) (simp_all add: ensures_def)

lemma demands_cases [demand_rules]:
  "(\<And>a b. demands D (g a b)) \<Longrightarrow> demands D (case_prod g p)"
  "demands D n \<Longrightarrow> demands D n' \<Longrightarrow> demands D (if c then n else n')"
  "demands D (stop method_not_allowed)"
  by (auto simp: demands_def acts_def stop_def intro: untouched_refl split: prod.split)

lemma andNext_assoc: "andNext (andNext m f) g = andNext m (\<lambda>x. andNext (f x) g)"
  by (auto simp: andNext_def fun_eq_iff split: prod.split sum.split)

lemma acts_authenticated:
  assumes "acts (andNext (authenticated r) f) s"
  obtains claims t where "authenticate r s = (Inr claims, t)" and "acts (f claims) t"
proof (cases "authenticate r s")
  case (Pair result t)
  have t: "untouched s t" using untouched_authenticate [of s r] Pair by simp
  show ?thesis
  proof (cases result)
    case (Inl err)
    then have "andNext (authenticated r) f s = (Inl admin_unauthorized, t)"
      using Pair by (simp add: andNext_def authenticated_def)
    then show ?thesis using assms t by (simp add: acts_def)
  next
    case (Inr claims)
    then have "andNext (authenticated r) f s = f claims t" using Pair by (simp add: andNext_def authenticated_def)
    then have "acts (f claims) t" using assms t untouched_trans by (auto simp: acts_def)
    then show ?thesis using that Pair Inr by simp
  qed
qed

lemma demands_authenticated [demand_rules]:
  "(\<And>claims. demands (C claims) (f claims)) \<Longrightarrow> demands (holds_right r C) (andNext (authenticated r) f)"
  unfolding demands_def holds_right_def by (metis acts_authenticated)

lemma demands_production [demand_rules]:
  assumes "\<And>claims store ps. demands (C claims) (f (claims, store, ps))"
  shows "demands (holds_right r C) (andNext (authenticateProduction r) f)"
  unfolding authenticateProduction_def andNext_assoc
proof (rule demands_authenticated, rule demands_checked)
  fix claims :: Claims
  let ?production = "\<lambda>s. case ad_store s of
      None \<Rightarrow> (Inl (unavailable ''production product APIs require redis backing''), s)
    | Some store \<Rightarrow>
        (case as_Production store of
           None \<Rightarrow> (Inl (unavailable ''production product APIs require redis backing''), s)
         | Some ps \<Rightarrow> (Inr (claims, store, ps), s))"
  show "checks ?production" by (auto simp: checks_def answers_def split: option.split_asm option.split)
  show "C claims s \<or> demands (C claims) (f x)" if "fst (?production s) = Inr x" for s x
    using that assms by (auto split: option.splits)
qed

lemma demands_for_user [demand_rules]:
  "demands (holds_right r (\<lambda>claims. notificationAllowed claims userID)) (andNext (for_user r userID) f)"
  unfolding for_user_def andNext_assoc
  by (intro demands_authenticated demands_check demands_ensured ensures_room checks_rules)

lemma demanded_rules [demand_rules]:
  "demands D m \<Longrightarrow> demanded D (respond m)"
  "demanded D (respond (stop (bad_request_response reason)))" "demanded D (respond (stop method_not_allowed))"
  "demanded D h \<Longrightarrow> demanded D h' \<Longrightarrow> demanded D (if c then h else h')"
  "(\<And>a b. demanded D (g a b)) \<Longrightarrow> demanded D (case_prod g p)"
  "(\<And>e. demanded D (l e)) \<Longrightarrow> (\<And>x. demanded D (k x)) \<Longrightarrow> demanded D (case_sum l k z)"
  by (fastforce simp: demands_def acts_def demanded_def respond_def stop_def intro: untouched_refl split: sum.split prod.split)+

subsection \<open>Handlers below a room\<close>

abbreviation (input) needs_action :: "string \<Rightarrow> AdminRequest \<Rightarrow> room_id \<Rightarrow> 'st handler \<Rightarrow> bool" where
  "needs_action action r room \<equiv> demanded (holds_right r (\<lambda>claims. admin_allowsRoomAction claims action room))"

lemma demanded_room [demand_rules]:
  "demanded (holds_right r (\<lambda>claims. administers_room claims room)) (room_methods r room)"
  "needs_action ''presence'' r room (handleActiveUsers r room)"
  by (simp_all add: room_methods_def room_handlers demand_rules)

lemma demanded_storage [demand_rules]:
  "needs_action ''storage:read'' r room (handleGetStorage r room)"
  "needs_action ''storage:write'' r room (handleSetStorage r room)"
  "needs_action ''storage:write'' r room (handleDeleteStorage r room)"
  "needs_action ''storage:write'' r room (admin_handleStoragePatch r room)"
  by (simp_all add: storage_handlers demand_rules)

lemma demanded_documents [demand_rules]:
  "needs_action ''storage:read'' r room (handleListVersionSnapshots r room)"
  "needs_action ''storage:write'' r room (handleCreateVersionSnapshot r room)"
  "needs_action ''storage:read'' r room (handleVersionSnapshot r room i)"
  "needs_action ''storage:read'' r room (handleListRichTextDocuments r room)"
  "needs_action ''storage:read'' r room (handleGetRichTextDocument r room i)"
  "needs_action ''storage:write'' r room (handleUpsertRichTextDocument r room i)"
  by (simp_all add: document_handlers demand_rules)

lemma demanded_threads [demand_rules]:
  "needs_action ''comments:read'' r room (handleListThreads r room)"
  "needs_action ''comments:write'' r room (handleCreateThread r room)"
  "needs_action ''comments:read'' r room (handleGetThread r room i)"
  "needs_action ''comments:write'' r room (handleUpdateThread r room i)"
  "needs_action ''comments:write'' r room (handleDeleteThread r room i)"
  "needs_action ''comments:write'' r room (handleAddComment r room i)"
  "needs_action ''comments:read'' r room (handleGetThreadReadState r room i)"
  "needs_action ''comments:read'' r room (handleThreadReadStateMutation r room i b)"
  "needs_action ''comments:write'' r room (handleUpdateComment r room i j)"
  by (simp_all add: thread_handlers demand_rules)

lemma demanded_settings [demand_rules]:
  "demanded (holds_right r (\<lambda>claims. notificationAllowed claims userID)) (handleRoomSubscriptionSettings r room userID)"
  by (simp add: handleRoomSubscriptionSettings_def demand_rules)

subsection \<open>Routes below a room\<close>

definition needs :: "room_need \<Rightarrow> AdminRequest \<Rightarrow> room_id \<Rightarrow> 'st handler \<Rightarrow> bool" where
  "needs need r room h \<longleftrightarrow> demanded (holds_right r (meets need room)) h"

lemma needs_if: "needs n r room h \<Longrightarrow> needs n' r room h' \<Longrightarrow> needs (if c then n else n') r room (if c then h else h')"
  by simp

lemma needs_refused [demand_rules]:
  "needs need r room (respond (stop (bad_request_response reason)))" "needs need r room (respond (stop method_not_allowed))"
  by (simp_all add: needs_def demand_rules)

lemma needs_read_or_write: "needs (read_or_write m a b) r room h \<longleftrightarrow>
    demanded (holds_right r (\<lambda>claims. admin_allowsRoomAction claims (if m = ''GET'' then a else b) room)) h"
  by (simp add: needs_def read_or_write_def)

lemma needs_storage: "needs (read_or_write (rq_Method r) ''storage:read'' ''storage:write'') r room (handleStorage r room)"
  by (simp add: needs_read_or_write handleStorage_def demand_rules)

lemma needs_versions: "needs (read_or_write (rq_Method r) ''storage:read'' ''storage:write'') r room (handleVersionSnapshots r room)"
  by (simp add: needs_read_or_write handleVersionSnapshots_def demand_rules)

lemma needs_rich_text:
  "needs (read_or_write (rq_Method r) ''storage:read'' ''storage:write'') r room (handleRichTextDocuments r room subresource)"
  by (simp add: needs_read_or_write handleRichTextDocuments_def demand_rules split: sum.split)

lemma needs_threads: "needs (read_or_write (rq_Method r) ''comments:read'' ''comments:write'') r room (handleThreads r room)"
  by (simp add: needs_read_or_write handleThreads_def demand_rules)

lemma needs_thread: "needs (read_or_write (rq_Method r) ''comments:read'' ''comments:write'') r room (handleThread r room i)"
  by (simp add: needs_read_or_write handleThread_def demand_rules)

lemma needs_thread_subresource:
  "needs (thread_need (rq_Method r) subresource) r room (handleThreadSubresource r room subresource)"
proof (cases "threadPathParts subresource")
  case (Inl err)
  then show ?thesis by (simp add: handleThreadSubresource_def demand_rules)
next
  case (Inr parts)
  obtain i child where parts: "parts = (i, child)" by fastforce
  show ?thesis
  proof (cases "child = []")
    case True
    then show ?thesis using needs_thread Inr parts by (simp add: handleThreadSubresource_def thread_need_def)
  next
    case False
    then show ?thesis using Inr parts
      by (auto simp: handleThreadSubresource_def thread_need_def needs_def handleMarkThreadRead_def handleMarkThreadUnread_def
          demand_rules split: sum.split)
  qed
qed

lemma needs_settings: "needs (settings_need subresource) r room (handleRoomUserSubresource r room subresource)"
  by (auto simp: settings_need_def handleRoomUserSubresource_def needs_def demand_rules split: sum.split prod.split)

lemma needs_room:
  assumes "roomPathParts (hr_Path r) = Inr (room, subresource)"
  shows "needs (room_need (rq_Method r) subresource) r room (handleRoom r)"
proof -
  have "needs (RoomAction ''storage:write'') r room (admin_handleStoragePatch r room)"
    "needs (RoomAction ''storage:read'') r room (handleVersionSnapshot r room subresource)"
    "needs (RoomAction ''presence'') r room (handleActiveUsers r room)" "needs RoomAdministration r room (room_methods r room)"
    by (simp_all add: needs_def demand_rules)
  note routes = this needs_storage needs_versions needs_rich_text needs_threads needs_thread_subresource needs_settings
    needs_refused
  show ?thesis unfolding handleRoom_def assms sum.case prod.case room_need_def by (intro needs_if routes)
qed

end
