(* ===== verification/Admin_Properties.thy ===== *)
theory Admin_Properties
  imports Admin_Responses Admin_Room_Access
begin

text \<open>
  What the administration API promises on all of its routes.
\<close>

text \<open>C4. A request that is refused, because of its method, its credentials, missing rights, a
  malformed or an oversized body, has no effect on any route: nothing is written to the
  store, nothing is counted and nothing is posted. All that can have happened is that random
  bytes were drawn and that the store verified an API key.\<close>

theorem refusals_have_no_effect:
  assumes "rp_Status (fst (Handler r s)) \<in> {400, 401, 403, 405, 413}"
  shows "untouched s (snd (Handler r s))"
  using refused_Handler [of r] assms by (auto simp: refused_def lawful_def refusals_def)

definition example_request :: "string \<Rightarrow> string \<Rightarrow> AdminRequest" where
  "example_request m path =
    \<lparr>hr_Header = fmempty, hr_Path = path, hr_RawQuery = [], rq_Method = m, rq_Body = []\<rparr>"

text \<open>A request to \<open>/v1/publish\<close> is not redirected, and reaches its handler.\<close>

lemma publish_route [simp]:
  "Handler (example_request m (v1 ''publish'')) = handlePublish (example_request m (v1 ''publish''))"
proof -
  have "cleanPath (v1 ''publish'') = v1 ''publish''" "\<not> redirectToPathSlash (v1 ''publish'')"
    "mux_match (v1 ''publish'') = Some Publish" "v1 ''publish'' \<noteq> ''*''"
    by code_simp+
  then show ?thesis by (auto simp: Handler_def routed_def handler_of_def example_request_def fun_eq_iff Let_def)
qed

theorem refusals_have_no_effect_witness:
  "\<forall>s :: unit Admin. untouched s (snd (Handler (example_request ''GET'' (v1 ''publish'')) s))"
proof
  fix s :: "unit Admin"
  have "rp_Status (fst (Handler (example_request ''GET'' (v1 ''publish'')) s)) = 405"
    unfolding publish_route
    by (simp add: handlePublish_def respond_def andNext_def has_method_def require_def permit_def
        example_request_def method_not_allowed_def write_status_def)
  then show "untouched s (snd (Handler (example_request ''GET'' (v1 ''publish'')) s))"
    by (intro refusals_have_no_effect) simp
qed

text \<open>C16. A caller without valid credentials gets nothing but rejections from every route except
  the health checks and the metrics: a redirection, a bad request, no such route, a wrong
  method or 401, and the service is left untouched.\<close>

theorem strangers_get_nothing:
  assumes "authenticate r s = (Inl err, t)" and "mux_match (hr_Path r) \<notin> Some ` {Health, Ready, Metrics}"
  shows "rp_Status (fst (Handler r s)) \<in> {301, 400, 401, 404, 405} \<and> untouched s (snd (Handler r s))"
proof -
  have "stranger r s" using assms(1) by (auto simp: stranger_def)
  note status = rejected_routed [OF this assms(2)]
  have "untouched s (snd (routed r s))"
  proof (cases "mux_match (hr_Path r)")
    case None
    then show ?thesis by (simp add: routed_def respond_def give_def untouched_refl)
  next
    case (Some route)
    then have "rp_Status (fst (routed r s)) \<in> rejections"
      using assms(2) rejected_handler_of [of route r] \<open>stranger r s\<close> by (auto simp: routed_def rejected_def)
    then show ?thesis using refused_routed [of r]
      by (auto simp: refused_def lawful_def refusals_def rejections_def)
  qed
  then show ?thesis using status
    by (auto simp: Handler_def Let_def respond_def give_def redirect_def write_status_def untouched_refl)
qed

theorem strangers_get_nothing_witness:
  "\<forall>s :: unit Admin. rp_Status (fst (Handler (example_request ''POST'' (v1 ''publish'')) s)) \<in> {301, 400, 401, 404, 405}"
proof
  fix s :: "unit Admin"
  have "authenticate (example_request ''POST'' (v1 ''publish'')) s = (Inl (ErrText ''missing bearer token''), s)"
    by (simp add: authenticate_def header_get_def example_request_def bearer_def gm_bytes_def)
  moreover have "mux_match (v1 ''publish'') = Some Publish" by code_simp
  ultimately show "rp_Status (fst (Handler (example_request ''POST'' (v1 ''publish'')) s)) \<in> {301, 400, 401, 404, 405}"
    using strangers_get_nothing [of "example_request ''POST'' (v1 ''publish'')" s "ErrText ''missing bearer token''" s]
    by (auto simp: example_request_def)
qed

text \<open>C27. Every response of the service has a body that fits its status: JSON only with 200 and
  201, no body with 202 and 204, and an error always with the status that the catalogue gives
  its code, or 503 for an internal error where a store is missing.\<close>

theorem responses_are_catalogued: "catalogued (fst (Handler r s))"
  by (rule replies_Handler [unfolded replies_def, rule_format])

lemma room_right_tenant:
  assumes "meets need room claims t" and "\<And>userID. need \<noteq> NotificationsOf userID"
    and "tc_EnforcePrefix (cfg_Tenant (ad_cfg t))" "tc_Separator (cfg_Tenant (ad_cfg t)) \<noteq> []"
  shows "cl_Tenant claims \<noteq> [] \<and> prefix (cl_Tenant claims @ tc_Separator (cfg_Tenant (ad_cfg t))) room"
  using assms tenant_of_room [of claims "admin_room_getter t" _ room]
  by (cases need) (fastforce simp: admin_allowsRoomAction_def administers_room_def Claims_Allows_iff tenant_separator_def)+

text \<open>C17. A route below a room does something, that is it answers with a success or touches the
  service, only for a caller with the right that the route and the method need: to administer the
  room for the room itself, \<open>storage:read\<close> or \<open>storage:write\<close> for its storage, versions and rich
  texts, \<open>presence\<close> for its active users, \<open>comments:read\<close> or \<open>comments:write\<close> for its threads,
  and for the subscription settings of a user no right to the room but to the notifications of
  that user. With the tenant prefix enforced, all of these but the settings also need a caller of
  the tenant whose name the room starts with.\<close>

theorem room_routes_need_a_right:
  assumes "roomPathParts (hr_Path r) = Inr (room, subresource)"
    and "rp_Status (fst (handleRoom r s)) \<in> {200, 201, 202, 204} \<or> \<not> untouched s (snd (handleRoom r s))"
  shows "\<exists>claims t. authenticate r s = (Inr claims, t)
    \<and> meets (room_need (rq_Method r) subresource) room claims t
    \<and> (tc_EnforcePrefix (cfg_Tenant (ad_cfg s)) \<and> tc_Separator (cfg_Tenant (ad_cfg s)) \<noteq> []
          \<and> (\<forall>userID. room_need (rq_Method r) subresource \<noteq> NotificationsOf userID)
        \<longrightarrow> cl_Tenant claims \<noteq> [] \<and> prefix (cl_Tenant claims @ tc_Separator (cfg_Tenant (ad_cfg s))) room)"
proof -
  obtain claims t where auth: "authenticate r s = (Inr claims, t)"
    and right: "meets (room_need (rq_Method r) subresource) room claims t"
    using needs_room [OF assms(1)] assms(2) unfolding needs_def demanded_def holds_right_def success_def by blast
  have "ad_cfg t = ad_cfg s" using untouched_keeps [OF untouched_authenticate [of s r]] auth by simp
  then show ?thesis using auth right room_right_tenant [OF right] by metis
qed

definition lobby_request :: AdminRequest where
  "lobby_request =
    \<lparr>hr_Header = fmupd ''Authorization'' (bearer @ ''t'') fmempty, hr_Path = below (v1 ''rooms'') @ ''acme:lobby'',
     hr_RawQuery = [], rq_Method = ''GET'', rq_Body = []\<rparr>"

definition for_acme :: "unit AdminStore \<Rightarrow> RoomRecord \<Rightarrow> unit Admin \<Rightarrow> unit Admin" where
  "for_acme store room s =
    s\<lparr>ad_cfg := (ad_cfg s)\<lparr>cfg_Tenant := \<lparr>tc_EnforcePrefix = True, tc_Separator = '':''\<rparr>\<rparr>,
      ad_verify := Some (\<lambda>_. Inr (bare_token ''acme'' [] ''rooms:acme:*'')),
      ad_store := Some (store\<lparr>os_GetRoom := \<lambda>_ _. Inr room\<rparr>)\<rparr>"

theorem room_routes_need_a_right_witness:
  "\<forall>store room s. \<exists>claims t. authenticate lobby_request (for_acme store room s) = (Inr claims, t)
     \<and> administers_room claims ''acme:lobby'' t \<and> cl_Tenant claims \<noteq> [] \<and> prefix (cl_Tenant claims @ '':'') ''acme:lobby''"
proof (intro allI)
  fix store room s
  let ?s = "for_acme store room s"
  have route: "roomPathParts (hr_Path lobby_request) = Inr (''acme:lobby'', [])" by code_simp
  have auth: "authenticate lobby_request ?s = (Inr (bare_token ''acme'' [] ''rooms:acme:*''), ?s)"
    by (simp add: authenticate_def lobby_request_def header_get_def gm_bytes_def for_acme_def)
  have allowed: "Claims_Allows (bare_token ''acme'' [] ''rooms:acme:*'') ''rooms'' ''acme:lobby'' True '':''"
    by code_simp
  have get: "handleRoom lobby_request = handleGetRoom lobby_request ''acme:lobby''"
    using route by (simp add: handleRoom_def room_methods_def) (simp add: lobby_request_def)
  have "rp_Status (fst (handleRoom lobby_request ?s)) = 200"
    unfolding get using auth allowed
    by (simp add: handleGetRoom_def respond_def andNext_def authenticated_def room_store_def require_store_def
        may_administer_def permit_def administers_room_def for_acme_def reads_def give_def writeJSON_def)
  moreover have need: "room_need (rq_Method lobby_request) [] = RoomAdministration" by code_simp
  ultimately have "\<exists>claims t. authenticate lobby_request ?s = (Inr claims, t)
      \<and> meets (room_need (rq_Method lobby_request) []) ''acme:lobby'' claims t
      \<and> (tc_EnforcePrefix (cfg_Tenant (ad_cfg ?s)) \<and> tc_Separator (cfg_Tenant (ad_cfg ?s)) \<noteq> []
            \<and> (\<forall>userID. room_need (rq_Method lobby_request) [] \<noteq> NotificationsOf userID)
          \<longrightarrow> cl_Tenant claims \<noteq> [] \<and> prefix (cl_Tenant claims @ tc_Separator (cfg_Tenant (ad_cfg ?s))) ''acme:lobby'')"
    by (intro room_routes_need_a_right [OF route]) simp
  then
  show "\<exists>claims t. authenticate lobby_request ?s = (Inr claims, t)
     \<and> administers_room claims ''acme:lobby'' t \<and> cl_Tenant claims \<noteq> [] \<and> prefix (cl_Tenant claims @ '':'') ''acme:lobby''"
    unfolding need by (simp add: for_acme_def)
qed

text \<open>
  The list of webhook deliveries asks for credentials only: whatever the claims of the caller,
  it shows the deliveries of all tenants, with their payloads.
\<close>

lemma deliveries_shown_to_all_tenants:
  assumes "authenticate r s = (Inr claims, t)" and "rq_Method r = ''GET''"
    and "ad_store t = Some store" "as_Production store = Some ps"
    and "parseProductListLimit (url_query r ''limit'') = Inr limit"
    and "ps_ListWebhookDeliveries ps (ad_storeState t) (url_query r ''status'') limit = Inr records"
  shows "handleWebhookDeliveries r s = (writeJSON 200 (DeliveriesBody records), t)"
  using assms
  by (simp add: handleWebhookDeliveries_def respond_def andNext_def has_method_def require_def permit_def
      authenticateProduction_def authenticated_def list_limit_def orElse_def reads_def give_def)

end
