(* ===== verification/Webhook_Properties.thy ===== *)
theory Webhook_Properties
  imports Admin_Webhooks Admin_Query
begin

text \<open>
  Webhooks: what is posted for an event, and that the retries of a delivery come to an end.

  Lists of the administration API: the pages of a thread list are a partition of it, and the
  search for rooms comes to an end.
\<close>

subsection \<open>Dispatch\<close>

text \<open>The random source never fails, and every URL parses.\<close>

definition random_works :: "'st Admin \<Rightarrow> bool" where
  "random_works s \<longleftrightarrow> (\<forall>draw n. ad_random s draw n \<noteq> None)"

definition envelope_post :: "string \<Rightarrow> string \<Rightarrow> string \<Rightarrow> gtime \<Rightarrow> bytes \<Rightarrow> string \<Rightarrow> WebhookPost" where
  "envelope_post secret webhookID eventName now body url =
    webhook_post secret now (pending_delivery [] webhookID eventName url body now)"

lemma newRecordID_works:
  assumes "random_works s"
  shows "\<exists>i. newRecordID pre s = (Some i, s\<lparr>ad_draws := Suc (ad_draws s)\<rparr>)"
proof -
  obtain raw where "ad_random s (ad_draws s) 12 = Some raw" using assms by (auto simp: random_works_def)
  then show ?thesis by (simp add: newRecordID_def randomRead_def)
qed

text \<open>What no step of a delivery changes.\<close>

definition same_service :: "'st Admin \<Rightarrow> 'st Admin \<Rightarrow> bool" where
  "same_service s t \<longleftrightarrow> ad_cfg t = ad_cfg s \<and> ad_store t = ad_store s \<and> ad_now t = ad_now s
     \<and> ad_random t = ad_random s \<and> ad_outcomes t = ad_outcomes s"

text \<open>
  What an answer makes of a request: where the client follows it, the next request. The requests
  of one post: each after the first is the one that the answer to the request before leads to,
  and the last one's answer leads nowhere, unless no redirects are left.
\<close>

definition next_request :: "post_outcome \<Rightarrow> WebhookPost \<Rightarrow> WebhookPost \<Rightarrow> WebhookPost option" where
  "next_request outcome first_request request =
    (case outcome of
       Answered status (Leads url) \<Rightarrow>
         if redirect_status status then Some (redirected status url first_request request) else None
     | _ \<Rightarrow> None)"

fun redirect_chain :: "(nat \<Rightarrow> post_outcome) \<Rightarrow> nat \<Rightarrow> nat \<Rightarrow> WebhookPost \<Rightarrow> WebhookPost list \<Rightarrow> bool" where
  "redirect_chain outcomes n left first_request [] = False"
| "redirect_chain outcomes n left first_request [request] =
    (left = 0 \<or> next_request (outcomes n) first_request request = None)"
| "redirect_chain outcomes n left first_request (request # request' # requests) =
    (0 < left \<and> next_request (outcomes n) first_request request = Some request'
     \<and> redirect_chain outcomes (Suc n) (left - 1) first_request (request' # requests))"

text \<open>The requests of several posts, one after the other, each with nine redirects at most.\<close>

fun redirect_chains :: "(nat \<Rightarrow> post_outcome) \<Rightarrow> nat \<Rightarrow> WebhookPost list list \<Rightarrow> bool" where
  "redirect_chains outcomes n [] = True"
| "redirect_chains outcomes n (chain # trails) =
    (redirect_chain outcomes n 9 (hd chain) chain \<and> redirect_chains outcomes (n + length chain) trails)"

lemma redirect_chain_length:
  "redirect_chain outcomes n left first_request chain \<Longrightarrow> 0 < length chain \<and> length chain \<le> Suc left"
  by (induction outcomes n left first_request chain rule: redirect_chain.induct) auto

lemma redirect_chains_append:
  "redirect_chains outcomes n (cs @ ds) \<longleftrightarrow>
     redirect_chains outcomes n cs \<and> redirect_chains outcomes (n + length (concat cs)) ds"
  by (induction cs arbitrary: n) (auto simp: add.assoc)

lemma send_requests_next:
  "\<exists>answer. send_requests (Suc n) first_request request s =
     (let t = s\<lparr>ad_posts := ad_posts s @ [request]\<rparr> in
      case next_request (ad_outcomes s (length (ad_posts s))) first_request request of
        None \<Rightarrow> (answer, t) | Some request' \<Rightarrow> send_requests n first_request request' t)"
  by (auto simp: Let_def next_request_def split: post_outcome.split location.split)

lemma send_requests_chain:
  "send_requests (Suc left) first_request request s = (answer, t) \<Longrightarrow>
     same_service s t \<and> ad_storeState t = ad_storeState s \<and>
     (\<exists>rest. ad_posts t = ad_posts s @ request # rest
        \<and> redirect_chain (ad_outcomes s) (length (ad_posts s)) left first_request (request # rest))"
proof (induction left arbitrary: request s)
  case 0
  let ?next = "next_request (ad_outcomes s (length (ad_posts s))) first_request request"
  obtain answer' where "send_requests (Suc 0) first_request request s =
     (case ?next of None \<Rightarrow> (answer', s\<lparr>ad_posts := ad_posts s @ [request]\<rparr>)
      | Some request' \<Rightarrow> send_requests 0 first_request request' (s\<lparr>ad_posts := ad_posts s @ [request]\<rparr>))"
    using send_requests_next [of 0 first_request request s] unfolding Let_def by blast
  then have "t = s\<lparr>ad_posts := ad_posts s @ [request]\<rparr>"
    using "0.prems" by (auto split: option.splits)
  then show ?case by (intro conjI exI [of _ "[]"]) (simp_all add: same_service_def)
next
  case (Suc left)
  let ?s = "s\<lparr>ad_posts := ad_posts s @ [request]\<rparr>"
  let ?next = "next_request (ad_outcomes s (length (ad_posts s))) first_request request"
  obtain answer' where run: "send_requests (Suc (Suc left)) first_request request s =
     (case ?next of None \<Rightarrow> (answer', ?s) | Some request' \<Rightarrow> send_requests (Suc left) first_request request' ?s)"
    using send_requests_next [of "Suc left" first_request request s] unfolding Let_def by blast
  show ?case
  proof (cases ?next)
    case None
    then have "t = ?s" using run Suc.prems by simp
    then show ?thesis using None by (intro conjI exI [of _ "[]"]) (simp_all add: same_service_def)
  next
    case (Some request')
    then have "send_requests (Suc left) first_request request' ?s = (answer, t)" using run Suc.prems by simp
    from Suc.IH [OF this] obtain rest where rest: "ad_posts t = ad_posts ?s @ request' # rest"
      "redirect_chain (ad_outcomes s) (Suc (length (ad_posts s))) left first_request (request' # rest)"
      and same: "same_service ?s t" "ad_storeState t = ad_storeState s"
      by auto
    then show ?thesis using Some
      by (intro conjI exI [of _ "request' # rest"]) (simp_all add: same_service_def)
  qed
qed

lemma create_delivery_same:
  "create_delivery store delivery s = (d, t) \<Longrightarrow> same_service s t \<and> ad_posts t = ad_posts s"
  by (auto simp: create_delivery_def same_service_def split: option.splits sum.splits prod.splits)

lemma update_record_same:
  "updateWebhookDeliveryRecord store rec code err s = (d, t) \<Longrightarrow> same_service s t \<and> ad_posts t = ad_posts s"
  by (auto simp: updateWebhookDeliveryRecord_def same_service_def Let_def split: option.splits sum.splits prod.splits)

text \<open>One post, or none when its URL does not parse.\<close>

definition posted :: "(nat \<Rightarrow> post_outcome) \<Rightarrow> nat \<Rightarrow> WebhookPost \<Rightarrow> WebhookPost list list \<Rightarrow> bool" where
  "posted outcomes n post trails \<longleftrightarrow> map hd trails = filter (\<lambda>post. url_parse (wp_URL post) \<noteq> None) [post]
     \<and> redirect_chains outcomes n trails"

lemma attempt_delivery_posts:
  assumes "attempt_delivery post s = (outcome, t)"
  shows "same_service s t \<and> ad_storeState t = ad_storeState s \<and>
     (\<exists>trails. ad_posts t = ad_posts s @ concat trails
        \<and> posted (ad_outcomes s) (length (ad_posts s)) post trails)"
proof (cases "url_parse (wp_URL post)")
  case None
  then have "t = s" using assms by (simp add: attempt_delivery_def)
  then show ?thesis using None by (intro conjI exI [of _ "[]"]) (simp_all add: same_service_def posted_def)
next
  case (Some u)
  have ten: "(10::nat) = Suc 9" by simp
  obtain answer t' where "client_Do post s = (answer, t')" by fastforce
  moreover from this have "t' = t"
    using assms Some by (auto simp: attempt_delivery_def split: sum.splits if_splits)
  ultimately have sent: "send_requests (Suc 9) post post s = (answer, t)"
    using ten by (simp only: client_Do_def)
  from send_requests_chain [OF this] obtain rest where rest: "ad_posts t = ad_posts s @ post # rest"
    "redirect_chain (ad_outcomes s) (length (ad_posts s)) 9 post (post # rest)"
    and same: "same_service s t" "ad_storeState t = ad_storeState s"
    by blast
  then show ?thesis using Some
    by (intro conjI exI [of _ "[post # rest]"]) (simp_all add: posted_def)
qed

lemma deliver_to_posts:
  assumes "random_works s"
  shows "same_service s (deliver_to secret webhookID eventName body url s)"
    and "\<exists>trails. ad_posts (deliver_to secret webhookID eventName body url s) = ad_posts s @ concat trails
           \<and> posted (ad_outcomes s) (length (ad_posts s)) (envelope_post secret webhookID eventName (ad_now s) body url) trails"
proof -
  define s1 where "s1 = s\<lparr>ad_draws := Suc (ad_draws s)\<rparr>"
  obtain i where i: "newRecordID ''wd'' s = (Some i, s1)"
    using newRecordID_works [OF assms] unfolding s1_def by blast
  define fresh where "fresh = pending_delivery i webhookID eventName url body (ad_now s1)"
  obtain d s2 where d: "create_delivery (delivery_store s1) fresh s1 = (d, s2)" by fastforce
  define post where "post = webhook_post secret (ad_now s2) fresh"
  obtain code err s3 where o: "attempt_delivery post s2 = ((code, err), s3)"
    by (metis surj_pair)
  obtain d' s4 where u: "updateWebhookDeliveryRecord (map_option ws_UpdateWebhookDelivery (delivery_store s3)) d code err s3 = (d', s4)"
    by fastforce
  have s4: "deliver_to secret webhookID eventName body url s = s4"
    by (simp add: deliver_to_def i d [unfolded fresh_def] o [unfolded post_def fresh_def] u Let_def)
  have s2: "ad_posts s2 = ad_posts s" "same_service s s2"
    using create_delivery_same [OF d] by (simp_all add: same_service_def s1_def)
  have post: "post = envelope_post secret webhookID eventName (ad_now s) body url"
    using s2(2) by (simp add: post_def envelope_post_def fresh_def webhook_post_def pending_delivery_def same_service_def s1_def)
  show "same_service s (deliver_to secret webhookID eventName body url s)"
    unfolding s4 using s2(2) attempt_delivery_posts [OF o] update_record_same [OF u] by (simp add: same_service_def)
  show "\<exists>trails. ad_posts (deliver_to secret webhookID eventName body url s) = ad_posts s @ concat trails
           \<and> posted (ad_outcomes s) (length (ad_posts s)) (envelope_post secret webhookID eventName (ad_now s) body url) trails"
    unfolding s4
    using s2 attempt_delivery_posts [OF o] update_record_same [OF u] post by (simp add: same_service_def)
qed

lemma deliver_all_posts:
  "random_works s \<Longrightarrow>
     \<exists>trails. ad_posts (deliver_all secret webhookID eventName body urls s) = ad_posts s @ concat trails
       \<and> map hd trails = map (envelope_post secret webhookID eventName (ad_now s) body)
                            (filter (\<lambda>url. url_parse url \<noteq> None) urls)
       \<and> redirect_chains (ad_outcomes s) (length (ad_posts s)) trails"
proof (induction urls arbitrary: s)
  case Nil
  then show ?case by (intro exI [of _ "[]"]) simp
next
  case (Cons url urls)
  let ?t = "deliver_to secret webhookID eventName body url s"
  let ?post = "envelope_post secret webhookID eventName (ad_now s) body"
  have same: "same_service s ?t" by (rule deliver_to_posts(1) [OF Cons.prems])
  obtain cs where cs: "ad_posts ?t = ad_posts s @ concat cs"
    "posted (ad_outcomes s) (length (ad_posts s)) (?post url) cs"
    using deliver_to_posts(2) [OF Cons.prems] by blast
  have "random_works ?t" using same Cons.prems by (simp add: random_works_def same_service_def)
  from Cons.IH [OF this] obtain ds where ds:
    "ad_posts (deliver_all secret webhookID eventName body urls ?t) = ad_posts ?t @ concat ds"
    "map hd ds = map ?post (filter (\<lambda>url. url_parse url \<noteq> None) urls)"
    "redirect_chains (ad_outcomes s) (length (ad_posts ?t)) ds"
    using same by (auto simp: same_service_def)
  have "wp_URL (?post url) = url"
    by (simp add: envelope_post_def webhook_post_def pending_delivery_def)
  then show ?case using cs ds
    by (intro exI [of _ "cs @ ds"]) (simp add: posted_def redirect_chains_append)
qed

text \<open>The value of a header of a post.\<close>

definition post_header :: "WebhookPost \<Rightarrow> string \<Rightarrow> string option" where
  "post_header post name = map_of (wp_Header post) name"

definition genuine :: "string \<Rightarrow> WebhookPost \<Rightarrow> bool" where
  "genuine secret post \<longleftrightarrow>
    (\<exists>timestamp. post_header post ''OpenRTC-Webhook-Timestamp'' = Some timestamp
       \<and> post_header post ''OpenRTC-Webhook-Signature''
           = Some (''v1='' @ signWebhookPayload secret timestamp (wp_Body post)))"

lemma envelope_genuine: "genuine secret (envelope_post secret webhookID eventName now body url)"
  by (simp add: genuine_def envelope_post_def webhook_post_def post_header_def)

lemma unredirected_chain:
  "redirect_chain outcomes n left first_request chain \<Longrightarrow> \<forall>k first_request post. next_request (outcomes k) first_request post = None
     \<Longrightarrow> length chain = 1"
  by (induction outcomes n left first_request chain rule: redirect_chain.induct) auto

lemma unredirected_chains:
  "redirect_chains outcomes n trails \<Longrightarrow> \<forall>k first_request post. next_request (outcomes k) first_request post = None
     \<Longrightarrow> list_all (\<lambda>chain. length chain = 1) trails"
  by (induction trails arbitrary: n) (auto dest: unredirected_chain)

text \<open>C24. When the random source works, an event is posted once by the service to every configured
  URL that is a URL, in the order of the configuration, all posts with the same id and body, and
  every post carries a timestamp and the signature of that timestamp and its body under the
  secret, whatever the store does. The only other requests are those to which the HTTP client is
  redirected: the requests are one chain for each post, in which every request after the first is
  the one that the answer to the request before leads to, a chain ends where an answer leads
  nowhere or after ten requests, and every chain has length one when no server redirects.\<close>

theorem dispatch_posts_once:
  assumes "random_works s" and "cfg_Webhooks (ad_cfg s) = Some webhooks"
  shows "\<exists>trails. ad_posts (dispatchWebhook eventName (Some data) s) = ad_posts s @ concat trails
    \<and> map (\<lambda>chain. wp_URL (hd chain)) trails = filter (\<lambda>url. url_parse url \<noteq> None) (wh_URLs webhooks)
    \<and> (\<exists>webhookID. list_all (\<lambda>post. genuine (wh_Secret webhooks) post \<and> wp_Method post = ''POST''
          \<and> post_header post ''OpenRTC-Webhook-Id'' = Some webhookID
          \<and> post_header post ''OpenRTC-Webhook-Event'' = Some eventName
          \<and> wp_Body post = webhook_envelope webhookID eventName (ad_now s) data) (map hd trails))
    \<and> redirect_chains (ad_outcomes s) (length (ad_posts s)) trails
    \<and> ((\<forall>n first_request post. next_request (ad_outcomes s n) first_request post = None)
        \<longrightarrow> list_all (\<lambda>chain. length chain = 1) trails)"
proof (cases "wh_URLs webhooks = []")
  case True
  then show ?thesis using assms(2) by (intro exI [of _ "[]"]) (simp add: dispatchWebhook_def)
next
  case False
  define s1 where "s1 = s\<lparr>ad_draws := Suc (ad_draws s)\<rparr>"
  obtain i where i: "newRecordID ''evt'' s = (Some i, s1)"
    using newRecordID_works [OF assms(1)] unfolding s1_def by blast
  define body where "body = webhook_envelope i eventName (ad_now s) data"
  have "random_works s1" using assms(1) by (simp add: s1_def random_works_def)
  from deliver_all_posts [OF this, of "wh_Secret webhooks" i eventName body "wh_URLs webhooks"] obtain trails where
    "ad_posts (dispatchWebhook eventName (Some data) s) = ad_posts s @ concat trails"
    and heads: "map hd trails = map (envelope_post (wh_Secret webhooks) i eventName (ad_now s) body)
       (filter (\<lambda>url. url_parse url \<noteq> None) (wh_URLs webhooks))"
    and follow: "redirect_chains (ad_outcomes s) (length (ad_posts s)) trails"
    using assms(2) False i by (auto simp: dispatchWebhook_def body_def s1_def)
  moreover have "map wp_URL (map hd trails) = filter (\<lambda>url. url_parse url \<noteq> None) (wh_URLs webhooks)"
    unfolding heads by (simp add: comp_def envelope_post_def webhook_post_def pending_delivery_def)
  then have "map (\<lambda>chain. wp_URL (hd chain)) trails = filter (\<lambda>url. url_parse url \<noteq> None) (wh_URLs webhooks)"
    by (simp add: comp_def)
  moreover have "list_all (\<lambda>post. genuine (wh_Secret webhooks) post \<and> wp_Method post = ''POST''
          \<and> post_header post ''OpenRTC-Webhook-Id'' = Some i
          \<and> post_header post ''OpenRTC-Webhook-Event'' = Some eventName
          \<and> wp_Body post = body) (map hd trails)"
    unfolding heads using envelope_genuine
    by (auto simp: list_all_iff envelope_post_def webhook_post_def pending_delivery_def post_header_def)
  ultimately show ?thesis unfolding body_def using unredirected_chains [OF follow] by blast
qed

subsection \<open>Retries\<close>

lemma attempted_id [simp]: "wd_ID (attempted now code err rec) = wd_ID rec"
  by (simp add: attempted_def Let_def split: option.split)

lemma webhookRetryDelay_bounds:
  "60 * second \<le> webhookRetryDelay attempts \<and> webhookRetryDelay attempts \<le> 32 * (60 * second)"
proof -
  have "nat (min 6 (max 1 attempts) - 1) \<le> 5" by (simp add: nat_le_iff)
  then have "(2::int) ^ nat (min 6 (max 1 attempts) - 1) \<le> 2 ^ 5"
    by (intro power_increasing) auto
  moreover have "1 \<le> (2::int) ^ nat (min 6 (max 1 attempts) - 1)" by simp
  ultimately show ?thesis by (simp add: webhookRetryDelay_def second_def)
qed

text \<open>The ticks of the worker at the given clock.\<close>

fun ticks :: "gtime list \<Rightarrow> 'st Admin \<Rightarrow> 'st Admin" where
  "ticks [] s = s"
| "ticks (now # clock) s = ticks clock (retry_worker_tick (s\<lparr>ad_now := now\<rparr>))"

text \<open>The longest delay between two attempts.\<close>

definition longest_delay :: int where "longest_delay = 32 * (60 * second)"

fun ticks_apart :: "gtime \<Rightarrow> gtime list \<Rightarrow> bool" where
  "ticks_apart start [] = True"
| "ticks_apart start (now # clock) = (start \<le> now \<and> ticks_apart (now + longest_delay) clock)"

text \<open>A delivery that has ended, or that has attempts left and is due by the given time.\<close>

definition ended :: "WebhookDeliveryRecord \<Rightarrow> bool" where
  "ended rec \<longleftrightarrow> wd_Status rec \<in> {''delivered'', ''dead''} \<and> wd_Attempts rec \<le> 10"

definition waiting :: "nat \<Rightarrow> gtime \<Rightarrow> WebhookDeliveryRecord \<Rightarrow> bool" where
  "waiting left due rec \<longleftrightarrow>
    wd_Status rec = ''failed'' \<and> 10 - int left \<le> wd_Attempts rec \<and> wd_Attempts rec < 10
    \<and> (\<exists>next. wd_NextAttemptAt rec = Some next \<and> next \<le> due)"

lemma attempted_progress:
  assumes "waiting (Suc left) due rec"
  shows "ended (attempted now code err rec) \<or> waiting left (now + longest_delay) (attempted now code err rec)"
  using assms webhookRetryDelay_bounds [of "wd_Attempts rec + 1"]
  by (auto simp: waiting_def ended_def attempted_def Let_def longest_delay_def split: option.split)

text \<open>Two records that agree on how far the delivery is.\<close>

definition same_progress :: "WebhookDeliveryRecord \<Rightarrow> WebhookDeliveryRecord \<Rightarrow> bool" where
  "same_progress a b \<longleftrightarrow> wd_ID b = wd_ID a \<and> wd_Status b = wd_Status a \<and> wd_Attempts b = wd_Attempts a
     \<and> wd_NextAttemptAt b = wd_NextAttemptAt a"

lemma same_progress_simps:
  "same_progress a b \<Longrightarrow> ended b = ended a" "same_progress a b \<Longrightarrow> waiting left due b = waiting left due a"
  by (simp_all add: same_progress_def ended_def waiting_def)

text \<open>The status codes of HTTP have three digits.\<close>

definition answers_fit :: "'st Admin \<Rightarrow> bool" where
  "answers_fit s \<longleftrightarrow> (\<forall>n status target. ad_outcomes s n = Answered status target \<longrightarrow> 0 \<le> status \<and> status < 1000)"

lemma send_requests_fit:
  "answers_fit s \<Longrightarrow> send_requests n first_request request s = (Inr code, t) \<Longrightarrow> 0 \<le> code \<and> code < 1000"
proof (induction n arbitrary: request s)
  case (Suc n)
  have fit: "answers_fit (s\<lparr>ad_posts := ad_posts s @ [request]\<rparr>)" using Suc.prems(1) by (simp add: answers_fit_def)
  show ?case
    using Suc.prems Suc.IH [OF fit]
    by (auto simp: Let_def answers_fit_def split: post_outcome.splits location.splits if_splits)
qed simp

lemma attempt_delivery_fit:
  "answers_fit s \<Longrightarrow> attempt_delivery post s = ((code, err), t) \<Longrightarrow> 0 \<le> code \<and> code < 1000"
  by (auto simp: attempt_delivery_def client_Do_def split: if_splits prod.splits sum.splits dest: send_requests_fit)

text \<open>
  What the retries need of the store, in its valid states and seen through the record that it
  keeps under an id: its list of failed deliveries is complete, and what an attempt makes of a
  failed delivery is kept, up to fields on which the progress does not depend.
\<close>

locale retry_store =
  fixes store :: "'st webhookRetryStore"
    and valid :: "'st \<Rightarrow> bool"
    and kept :: "'st \<Rightarrow> string \<Rightarrow> WebhookDeliveryRecord option"
    and timely :: "gtime \<Rightarrow> bool"
  assumes failed_list: "valid st \<Longrightarrow> \<exists>records. wr_ListWebhookDeliveries store st ''failed'' 100 = Inr records
      \<and> distinct (map wd_ID records)
      \<and> (\<forall>rec. rec \<in> set records \<longleftrightarrow> kept st (wd_ID rec) = Some rec \<and> wd_Status rec = ''failed'')"
    and kept_id: "valid st \<Longrightarrow> kept st i = Some rec \<Longrightarrow> wd_ID rec = i"
    and update_kept: "valid st \<Longrightarrow> kept st (wd_ID rec) = Some rec \<Longrightarrow> wd_Status rec = ''failed'' \<Longrightarrow> timely now
      \<Longrightarrow> 0 \<le> code \<Longrightarrow> code < 1000
      \<Longrightarrow> \<exists>answer stored st'. wr_UpdateWebhookDelivery store (attempted now code err rec) st = (Inr answer, st')
        \<and> valid st' \<and> kept st' = (kept st)(wd_ID rec \<mapsto> stored) \<and> same_progress (attempted now code err rec) stored"
begin

lemma retry_one:
  assumes "valid (ad_storeState s)" and "kept (ad_storeState s) (wd_ID rec) = Some rec" and "wd_Status rec = ''failed''"
    and "timely (ad_now s)" and "answers_fit s" and "cfg_Webhooks (ad_cfg s) = Some webhooks"
    and "snd (retryWebhookDelivery (wr_UpdateWebhookDelivery store) rec s) = t"
  shows "same_service s t \<and> valid (ad_storeState t) \<and> (\<exists>code err stored.
      kept (ad_storeState t) = (kept (ad_storeState s))(wd_ID rec \<mapsto> stored)
      \<and> same_progress (attempted (ad_now s) code err rec) stored)"
proof -
  define post where "post = webhook_post (wh_Secret webhooks) (ad_now s) rec"
  obtain code err s1 where o: "attempt_delivery post s = ((code, err), s1)" by (metis surj_pair)
  have s1: "same_service s s1" "ad_storeState s1 = ad_storeState s" using attempt_delivery_posts [OF o] by simp_all
  then have now: "ad_now s1 = ad_now s" by (simp add: same_service_def)
  obtain answer stored st where st:
    "wr_UpdateWebhookDelivery store (attempted (ad_now s) code err rec) (ad_storeState s) = (Inr answer, st)"
    "valid st" "kept st = (kept (ad_storeState s))(wd_ID rec \<mapsto> stored)"
    "same_progress (attempted (ad_now s) code err rec) stored"
    using update_kept [OF assms(1-4)] attempt_delivery_fit [OF assms(5) o] by blast
  have "t = s1\<lparr>ad_storeState := st\<rparr>"
    using assms(6,7) o st(1) s1(2) now
    by (simp add: retryWebhookDelivery_def updateWebhookDeliveryRecord_def post_def Let_def)
  then show ?thesis using s1(1) st(2-4) by (auto simp: same_service_def)
qed

lemma retry_records_keeps:
  assumes "valid (ad_storeState s)" and "timely (ad_now s)" and "answers_fit s"
    and "cfg_Webhooks (ad_cfg s) = Some webhooks" and "distinct (map wd_ID records)"
    and "\<forall>rec \<in> set records. kept (ad_storeState s) (wd_ID rec) = Some rec \<and> wd_Status rec = ''failed''"
  shows "same_service s (snd (retry_records store now records n s))
    \<and> valid (ad_storeState (snd (retry_records store now records n s)))
    \<and> (i \<notin> wd_ID ` set records \<longrightarrow>
         kept (ad_storeState (snd (retry_records store now records n s))) i = kept (ad_storeState s) i)
    \<and> (\<forall>rec. rec \<in> set records \<and> wd_ID rec = i \<and> retry_due now rec \<longrightarrow>
         (\<exists>code err stored. kept (ad_storeState (snd (retry_records store now records n s))) i = Some stored
            \<and> same_progress (attempted (ad_now s) code err rec) stored))"
  using assms
proof (induction records arbitrary: n s)
  case Nil
  then show ?case by (simp add: same_service_def)
next
  case (Cons rec records)
  define t where "t = (if retry_due now rec then snd (retryWebhookDelivery (wr_UpdateWebhookDelivery store) rec s) else s)"
  define m where "m = (if retry_due now rec then n + 1 else n)"
  have run: "retry_records store now (rec # records) n s = retry_records store now records m t"
    by (simp add: t_def m_def)
  have t: "same_service s t" "valid (ad_storeState t)"
    "kept (ad_storeState t) = kept (ad_storeState s) \<and> \<not> retry_due now rec
      \<or> (\<exists>code err stored. kept (ad_storeState t) = (kept (ad_storeState s))(wd_ID rec \<mapsto> stored)
          \<and> same_progress (attempted (ad_now s) code err rec) stored)"
    using retry_one [OF Cons.prems(1) _ _ Cons.prems(2-4) refl, of rec] Cons.prems(1,6)
    by (auto simp: t_def same_service_def)
  have "timely (ad_now t)" "answers_fit t" "cfg_Webhooks (ad_cfg t) = Some webhooks" "ad_now t = ad_now s"
    using t(1) Cons.prems(2-4) by (auto simp: same_service_def answers_fit_def)
  moreover have "\<forall>rec \<in> set records. kept (ad_storeState t) (wd_ID rec) = Some rec \<and> wd_Status rec = ''failed''"
    using t(3) Cons.prems(5,6) by (auto simp: image_iff)
  ultimately have IH: "same_service t (snd (retry_records store now records m t))
    \<and> valid (ad_storeState (snd (retry_records store now records m t)))
    \<and> (i \<notin> wd_ID ` set records \<longrightarrow>
         kept (ad_storeState (snd (retry_records store now records m t))) i = kept (ad_storeState t) i)
    \<and> (\<forall>rec. rec \<in> set records \<and> wd_ID rec = i \<and> retry_due now rec \<longrightarrow>
         (\<exists>code err stored. kept (ad_storeState (snd (retry_records store now records m t))) i = Some stored
            \<and> same_progress (attempted (ad_now s) code err rec) stored))"
    using Cons.IH [of t m] t(2) Cons.prems(5) by simp
  show ?case unfolding run
    using IH t(1,3) Cons.prems(5)
    by (auto simp: same_service_def image_iff)
qed

lemma tick_progress:
  assumes store: "ad_store s = Some admin" "as_WebhookRetries admin = Some store"
    and cfg: "cfg_Webhooks (ad_cfg s) = Some webhooks" "wh_URLs webhooks \<noteq> []"
    and env: "valid (ad_storeState s)" "timely now" "answers_fit s"
    and rec: "kept (ad_storeState s) i = Some rec" "ended rec \<or> waiting (Suc left) now rec"
  defines "t \<equiv> retry_worker_tick (s\<lparr>ad_now := now\<rparr>)"
  shows "ad_store t = ad_store s \<and> ad_cfg t = ad_cfg s \<and> valid (ad_storeState t) \<and> answers_fit t
    \<and> (\<exists>rec. kept (ad_storeState t) i = Some rec \<and> (ended rec \<or> waiting left (now + longest_delay) rec))"
proof -
  let ?s = "s\<lparr>ad_now := now\<rparr>"
  obtain records where records: "wr_ListWebhookDeliveries store (ad_storeState s) ''failed'' 100 = Inr records"
    "distinct (map wd_ID records)"
    "\<And>rec. rec \<in> set records \<longleftrightarrow> kept (ad_storeState s) (wd_ID rec) = Some rec \<and> wd_Status rec = ''failed''"
    using failed_list [OF env(1)] by blast
  have id: "wd_ID rec = i" by (rule kept_id [OF env(1) rec(1)])
  have t: "t = snd (retry_records store now records 0 ?s)"
    using store cfg records(1)
    by (simp add: t_def retry_worker_tick_def startWebhookRetryWorker_def retryDueWebhookDeliveries_def)
  have run: "same_service ?s t" "valid (ad_storeState t)"
    "i \<notin> wd_ID ` set records \<Longrightarrow> kept (ad_storeState t) i = Some rec"
    "rec \<in> set records \<Longrightarrow> retry_due now rec \<Longrightarrow>
       \<exists>code err stored. kept (ad_storeState t) i = Some stored \<and> same_progress (attempted now code err rec) stored"
    using retry_records_keeps [of ?s webhooks records now 0 i] cfg(1) records(2,3) env rec(1) id
    by (simp_all add: t [symmetric] answers_fit_def)
  have "\<exists>rec. kept (ad_storeState t) i = Some rec \<and> (ended rec \<or> waiting left (now + longest_delay) rec)"
  proof (cases "ended rec")
    case True
    then have "i \<notin> wd_ID ` set records" using records(3) rec(1) by (auto simp: ended_def)
    with run(3) True show ?thesis by blast
  next
    case False
    then have w: "waiting (Suc left) now rec" using rec(2) by simp
    then have "rec \<in> set records" "retry_due now rec"
      using records(3) rec(1) id by (auto simp: waiting_def retry_due_def)
    from run(4) [OF this] attempted_progress [OF w] show ?thesis by (metis same_progress_simps)
  qed
  then show ?thesis using run(1,2) env(3) by (auto simp: same_service_def answers_fit_def)
qed

lemma ticks_progress:
  assumes "as_WebhookRetries admin = Some store" and "wh_URLs webhooks \<noteq> []"
  shows "\<lbrakk>ad_store s = Some admin; cfg_Webhooks (ad_cfg s) = Some webhooks; valid (ad_storeState s); answers_fit s;
      list_all timely clock; kept (ad_storeState s) i = Some rec;
      ended rec \<or> waiting left start rec; ticks_apart start clock; left \<le> length clock\<rbrakk>
    \<Longrightarrow> \<exists>rec. kept (ad_storeState (ticks clock s)) i = Some rec \<and> ended rec"
proof (induction clock arbitrary: s left start rec)
  case Nil
  then show ?case by (auto simp: waiting_def)
next
  case (Cons now clock)
  have "ended rec \<or> waiting (Suc (left - 1)) now rec"
    using Cons.prems(7,8) by (cases left) (auto simp: waiting_def)
  moreover have "timely now" using Cons.prems(5) by simp
  ultimately obtain rec' where tick: "kept (ad_storeState (retry_worker_tick (s\<lparr>ad_now := now\<rparr>))) i = Some rec'"
    "ended rec' \<or> waiting (left - 1) (now + longest_delay) rec'"
    "ad_store (retry_worker_tick (s\<lparr>ad_now := now\<rparr>)) = ad_store s"
    "ad_cfg (retry_worker_tick (s\<lparr>ad_now := now\<rparr>)) = ad_cfg s"
    "valid (ad_storeState (retry_worker_tick (s\<lparr>ad_now := now\<rparr>)))" "answers_fit (retry_worker_tick (s\<lparr>ad_now := now\<rparr>))"
    using tick_progress [OF Cons.prems(1) assms(1) Cons.prems(2) assms(2) Cons.prems(3) _ Cons.prems(4,6)] by blast
  show ?case
    using Cons.IH [OF _ _ tick(5,6) _ tick(1,2)] Cons.prems tick(3,4) by auto
qed

end

subsection \<open>Witnesses\<close>

definition example_url :: "string \<Rightarrow> string" where
  "example_url host = ''https:'' @ [slash, slash] @ host"

definition example_webhooks :: WebhooksConfig where
  "example_webhooks = \<lparr>wh_URLs = [example_url ''a.example'', example_url ''b.example''], wh_Secret = ''s'',
     wh_TimeoutMS = 1000\<rparr>"

definition with_webhooks :: "'st Admin \<Rightarrow> 'st Admin" where
  "with_webhooks s = s\<lparr>ad_cfg := (ad_cfg s)\<lparr>cfg_Webhooks := Some example_webhooks\<rparr>, ad_random := \<lambda>_ _. Some []\<rparr>"

text \<open>The first of two servers redirects with 307 to a third host.\<close>

definition redirecting :: "'st Admin \<Rightarrow> 'st Admin" where
  "redirecting s = (with_webhooks s)\<lparr>ad_posts := [],
     ad_outcomes := (\<lambda>n. if n = 0 then Answered 307 (Leads (example_url ''c.example'')) else Answered 200 NoLocation)\<rparr>"

lemma chain_stops:
  "redirect_chain outcomes n left first_request (request # rest) \<Longrightarrow> outcomes n = Answered 200 NoLocation \<Longrightarrow> rest = []"
  by (cases rest) (simp_all add: next_request_def)

theorem dispatch_posts_once_witness:
  "\<forall>s :: unit Admin. \<exists>a c b.
     ad_posts (dispatchWebhook ''room.created'' (Some ''{}'') (redirecting s)) = [a, c, b]
     \<and> wp_URL a = example_url ''a.example'' \<and> wp_URL b = example_url ''b.example''
     \<and> genuine ''s'' a \<and> genuine ''s'' b \<and> c = a\<lparr>wp_URL := example_url ''c.example''\<rparr>"
proof
  fix s :: "unit Admin"
  let ?s = "redirecting s"
  define outcomes where "outcomes = ad_outcomes ?s"
  have o: "outcomes 0 = Answered 307 (Leads (example_url ''c.example''))"
    "outcomes (Suc n) = Answered 200 NoLocation" for n
    by (simp_all add: outcomes_def redirecting_def)
  have works: "random_works ?s" "cfg_Webhooks (ad_cfg ?s) = Some example_webhooks"
    by (simp_all add: random_works_def redirecting_def with_webhooks_def)
  have start: "ad_posts ?s = []" "wh_Secret example_webhooks = ''s''"
    by (simp_all add: redirecting_def example_webhooks_def)
  have urls: "filter (\<lambda>url. url_parse url \<noteq> None) (wh_URLs example_webhooks)
      = [example_url ''a.example'', example_url ''b.example'']"
    by code_simp
  obtain trails webhookID where trails:
    "ad_posts (dispatchWebhook ''room.created'' (Some ''{}'') ?s) = ad_posts ?s @ concat trails"
    "map (\<lambda>chain. wp_URL (hd chain)) trails = filter (\<lambda>url. url_parse url \<noteq> None) (wh_URLs example_webhooks)"
    "redirect_chains (ad_outcomes ?s) (length (ad_posts ?s)) trails"
    "list_all (\<lambda>post. genuine (wh_Secret example_webhooks) post \<and> wp_Method post = ''POST''
       \<and> post_header post ''OpenRTC-Webhook-Id'' = Some webhookID
       \<and> post_header post ''OpenRTC-Webhook-Event'' = Some ''room.created''
       \<and> wp_Body post = webhook_envelope webhookID ''room.created'' (ad_now ?s) ''{}'') (map hd trails)"
    using dispatch_posts_once [OF works, of "''room.created''" "''{}''"] by blast
  obtain as bs where ab: "trails = [as, bs]" "wp_URL (hd as) = example_url ''a.example''"
    "wp_URL (hd bs) = example_url ''b.example''"
    using trails(2) unfolding urls by (auto simp: map_eq_Cons_conv)
  have chain: "redirect_chain outcomes 0 9 (hd as) as" "redirect_chain outcomes (length as) 9 (hd bs) bs"
    using trails(3) by (simp_all add: ab(1) start outcomes_def)
  have good: "genuine ''s'' (hd as)" "wp_Method (hd as) = ''POST''" "genuine ''s'' (hd bs)"
    using trails(4) by (simp_all add: ab(1) start)
  obtain a rest where a: "as = a # rest" using redirect_chain_length [OF chain(1)] by (cases as) auto
  obtain c rest' where c: "rest = c # rest'" using chain(1) o(1) a by (cases rest) (auto simp: next_request_def redirect_status_def)
  have leads: "c = redirected 307 (example_url ''c.example'') a a" "redirect_chain outcomes 1 8 a (c # rest')"
    using chain(1) o(1) by (simp_all add: a c next_request_def redirect_status_def)
  have "rest' = []" using chain_stops [OF leads(2)] o(2) [of 0] by simp
  then have as: "as = [a, c]" using a c by simp
  obtain b rest where b: "bs = b # rest" using redirect_chain_length [OF chain(2)] by (cases bs) auto
  have "bs = [b]" using chain_stops [of outcomes 2 9 b b rest] chain(2) o(2) [of 1] by (simp add: as b numeral_2_eq_2)
  then show "\<exists>a c b. ad_posts (dispatchWebhook ''room.created'' (Some ''{}'') ?s) = [a, c, b]
     \<and> wp_URL a = example_url ''a.example'' \<and> wp_URL b = example_url ''b.example''
     \<and> genuine ''s'' a \<and> genuine ''s'' b \<and> c = a\<lparr>wp_URL := example_url ''c.example''\<rparr>"
    using trails(1) ab good leads(1)
    by (intro exI [of _ a] exI [of _ c] exI [of _ b]) (simp add: start as redirected_def)
qed

subsection \<open>Threads\<close>

text \<open>A client that follows the cursors: the pages it gets, None if they take more than the fuel.\<close>

fun follow_thread_pages :: "nat \<Rightarrow> ThreadRecord list \<Rightarrow> u64 \<Rightarrow> int \<Rightarrow> ThreadRecord list list option" where
  "follow_thread_pages 0 threads cursor limit = None"
| "follow_thread_pages (Suc fuel) threads cursor limit =
    (case paginateThreads threads cursor limit of
       (page, nextCursor) \<Rightarrow>
         if nextCursor = 0 then Some [page]
         else map_option (\<lambda>pages. page # pages) (follow_thread_pages fuel threads nextCursor limit))"

lemma paginate_page:
  assumes "0 < limit" and "length threads < 2 ^ 64"
  shows "paginateThreads threads cursor limit =
    (if length threads \<le> unat cursor + nat limit then (drop (unat cursor) threads, 0)
     else (take (nat limit) (drop (unat cursor) threads), of_nat (unat cursor + nat limit)))"
proof -
  have "int (unat cursor) = uint cursor" by simp
  then have "uint cursor \<ge> len threads \<longleftrightarrow> length threads \<le> unat cursor" by linarith
  then show ?thesis using assms by (simp add: paginateThreads_def Let_def)
qed

lemma follow_thread_pages_from:
  assumes "0 < limit" and "length threads < 2 ^ 64"
  shows "length threads - unat cursor < fuel \<Longrightarrow>
    \<exists>pages. follow_thread_pages fuel threads cursor limit = Some pages \<and> concat pages = drop (unat cursor) threads
    \<and> list_all (\<lambda>page. int (length page) \<le> limit) pages"
proof (induction fuel arbitrary: cursor)
  case (Suc fuel)
  show ?case
  proof (cases "length threads \<le> unat cursor + nat limit")
    case True
    then show ?thesis using assms(1) by (auto simp: paginate_page [OF assms])
  next
    case False
    let ?next = "of_nat (unat cursor + nat limit) :: u64"
    have "unat cursor + nat limit < 2 ^ 64" using False assms(2) by linarith
    then have n: "unat ?next = unat cursor + nat limit" by (simp only: unat_of_nat) simp
    then have more: "?next \<noteq> 0" using assms(1) by (metis add_is_0 nat_0_less_mult_iff not_less0 unat_0 zero_less_nat_eq)
    have "length threads - unat ?next < fuel" using Suc.prems False assms(1) n by linarith
    from Suc.IH [OF this] obtain pages where pages: "follow_thread_pages fuel threads ?next limit = Some pages"
      "concat pages = drop (unat cursor + nat limit) threads" "list_all (\<lambda>page. int (length page) \<le> limit) pages"
      unfolding n by blast
    have "take (nat limit) (drop (unat cursor) threads) @ drop (unat cursor + nat limit) threads
        = drop (unat cursor) threads"
      by (metis add.commute append_take_drop_id drop_drop)
    then show ?thesis using False assms(1) more pages by (simp add: paginate_page [OF assms])
  qed
qed simp

text \<open>C38. A client that follows the cursors of a thread list from its start comes to the end, with
  at most one request more than there are threads, and has got every thread exactly once, in the
  order of the list and in pages of at most the limit.\<close>

theorem thread_pages_complete:
  assumes "0 < limit" and "length threads < 2 ^ 64"
  shows "\<exists>pages. follow_thread_pages (length threads + 1) threads 0 limit = Some pages \<and> concat pages = threads
    \<and> list_all (\<lambda>page. int (length page) \<le> limit) pages"
  using follow_thread_pages_from [OF assms, of 0 "length threads + 1"] by simp

theorem thread_pages_complete_witness:
  "\<forall>a b c. \<exists>pages. follow_thread_pages 4 [a, b, c] 0 2 = Some pages \<and> concat pages = [a, b, c]
    \<and> list_all (\<lambda>page. int (length page) \<le> 2) pages"
proof (intro allI)
  fix a b c :: ThreadRecord
  have l: "length [a, b, c] + 1 = 4" by simp
  show "\<exists>pages. follow_thread_pages 4 [a, b, c] 0 2 = Some pages \<and> concat pages = [a, b, c]
    \<and> list_all (\<lambda>page. int (length page) \<le> 2) pages"
    by (rule thread_pages_complete [of 2 "[a, b, c]", unfolded l]) simp_all
qed

subsection \<open>Rooms\<close>

text \<open>The cursors of the store end, as those of Redis do, or the store fails.\<close>

fun cursors_end :: "(u64 \<Rightarrow> go_error + RoomList) \<Rightarrow> nat \<Rightarrow> u64 \<Rightarrow> bool" where
  "cursors_end page 0 cursor = False"
| "cursors_end page (Suc n) cursor =
    (case page cursor of Inl _ \<Rightarrow> True | Inr l \<Rightarrow> rl_NextCursor l = 0 \<or> cursors_end page n (rl_NextCursor l))"

definition listed :: "(u64 \<Rightarrow> go_error + RoomList) \<Rightarrow> RoomRecord \<Rightarrow> bool" where
  "listed page room \<longleftrightarrow> (\<exists>cursor l. page cursor = Inr l \<and> room \<in> set (rl_Rooms l))"

lemma scan_rooms_ends:
  "cursors_end page n cursor \<Longrightarrow> list_all (\<lambda>room. matching room \<and> listed page room) found \<Longrightarrow> length found \<le> limit \<Longrightarrow>
    \<exists>res. scan_rooms page matching limit found cursor = Some res
      \<and> (case res of Inl err \<Rightarrow> \<exists>c. page c = Inl err
         | Inr l \<Rightarrow> length (rl_Rooms l) \<le> limit \<and> list_all (\<lambda>room. matching room \<and> listed page room) (rl_Rooms l))"
proof (induction n arbitrary: cursor found)
  case (Suc n)
  show ?case
  proof (cases "page cursor")
    case (Inl err)
    then show ?thesis by (subst scan_rooms.simps) auto
  next
    case (Inr l)
    let ?found = "found @ take (limit - length found) (filter matching (rl_Rooms l))"
    have all: "list_all (\<lambda>room. matching room \<and> listed page room) ?found"
      using Suc.prems(2) Inr unfolding list_all_iff listed_def
      by (auto dest!: in_set_takeD) blast
    have small: "length ?found \<le> limit" using Suc.prems(3) by simp
    show ?thesis
    proof (cases "length ?found \<ge> limit \<or> rl_NextCursor l = 0 \<or> rl_NextCursor l = cursor")
      case True
      then show ?thesis using all small Inr
        by (subst scan_rooms.simps) (auto simp: Let_def)
    next
      case False
      have "cursors_end page n (rl_NextCursor l)" using Suc.prems(1) Inr False by simp
      from Suc.IH [OF this all small] show ?thesis
        using False Inr by (subst scan_rooms.simps) (auto simp: Let_def)
    qed
  qed
qed simp

text \<open>The search for rooms ends when the cursors of the store do: it answers with an error of
  the store or with at most the limit of rooms, all of them rooms that the store listed and
  that match the query.\<close>

theorem room_search_ends:
  assumes "cursors_end (\<lambda>c. as_ListRooms store st pre c limit) n cursor" and "0 < limit" and "query \<noteq> []"
  shows "\<exists>res. listRooms store st pre cursor limit query = Some res
    \<and> (case res of
         Inl err \<Rightarrow> \<exists>c. as_ListRooms store st pre c limit = Inl err
       | Inr l \<Rightarrow> int (length (rl_Rooms l)) \<le> limit
           \<and> list_all (\<lambda>room. roomListQuery_Matches query room
                \<and> listed (\<lambda>c. as_ListRooms store st pre c limit) room) (rl_Rooms l))"
proof -
  obtain res where res: "scan_rooms (\<lambda>c. as_ListRooms store st pre c limit) (roomListQuery_Matches query) (nat limit) []
      cursor = Some res"
    and rest: "case res of Inl err \<Rightarrow> \<exists>c. as_ListRooms store st pre c limit = Inl err
      | Inr l \<Rightarrow> length (rl_Rooms l) \<le> nat limit
          \<and> list_all (\<lambda>room. roomListQuery_Matches query room
               \<and> listed (\<lambda>c. as_ListRooms store st pre c limit) room) (rl_Rooms l)"
    using scan_rooms_ends [OF assms(1), of "roomListQuery_Matches query" "[]" "nat limit"]
    by (fastforce split: sum.splits)
  have "listRooms store st pre cursor limit query = Some res"
    using assms(3) res by (simp add: listRooms_def roomListQuery_Active_def)
  then show ?thesis using rest assms(2) by (intro exI [of _ res]) (auto split: sum.splits)
qed

text \<open>A store with two pages.\<close>

definition two_pages :: "RoomRecord \<Rightarrow> unit \<Rightarrow> string \<Rightarrow> u64 \<Rightarrow> int \<Rightarrow> go_error + RoomList" where
  "two_pages room st pre cursor limit =
    Inr (if cursor = 0 then \<lparr>rl_Rooms = [], rl_NextCursor = 7\<rparr> else \<lparr>rl_Rooms = [room], rl_NextCursor = 0\<rparr>)"

theorem room_search_ends_witness:
  "\<forall>(store :: unit AdminStore) room.
     \<exists>res. listRooms (store\<lparr>as_ListRooms := two_pages room\<rparr>) () [] 0 5 [IDContains ''a''] = Some res"
proof (intro allI)
  fix store :: "unit AdminStore" and room
  have "cursors_end (\<lambda>c. as_ListRooms (store\<lparr>as_ListRooms := two_pages room\<rparr>) () [] c 5) 2 0"
    by (simp add: two_pages_def numeral_2_eq_2)
  from room_search_ends [OF this]
  show "\<exists>res. listRooms (store\<lparr>as_ListRooms := two_pages room\<rparr>) () [] 0 5 [IDContains ''a''] = Some res"
    by fastforce
qed

text \<open>
  A page of the store with more matches than the limit leaves: the other matches are not in
  the answer, and its cursor is behind them.
\<close>

lemma search_drops_matches:
  assumes "page cursor = Inr l" and "limit \<le> length (filter matching (rl_Rooms l))"
  shows "scan_rooms page matching limit [] cursor
    = Some (Inr \<lparr>rl_Rooms = take limit (filter matching (rl_Rooms l)), rl_NextCursor = rl_NextCursor l\<rparr>)"
  using assms by (subst scan_rooms.simps) (simp add: Let_def)

end
