(* ===== verification/Redis_Client.thy ===== *)
theory Redis_Client
  imports Runtime_Types Go_Float
begin

text \<open>
  How \<open>RedisStore\<close> talks to Redis through the go-redis client. The client and the server are
  not part of the repository: an operation of the store is a program that sends requests and
  goes on with their answers, and the server is a parameter that answers them.

  \<^item> \<open>Ask\<close> sends one request of a connection and waits for its answer. Between two requests
    of an operation other clients may send theirs.
  \<^item> \<open>Clock\<close> is \<open>time.Now ()\<close>.
  \<^item> A request is a command, a list of commands between MULTI and EXEC (\<open>TxPipeline\<close>,
    \<open>TxPipelined\<close>), WATCH or UNWATCH. An error of the answer is one of the connection.
\<close>

subsection \<open>Requests and answers\<close>

datatype command =
    EXISTS "string list" | DEL "string list" | EXPIREAT string gtime
  | GET string | SET string bytes int | INCRBY string int
  | HGET string string | HGETALL string | HSET string "(string \<times> string) list" | HDEL string string
  | SMEMBERS string | SADD string string | SREM string string
  | ZADD string float64 string | ZREM string string | ZRANGE string int int | ZREVRANGE string int int
  | ZRANGEBYSCORE string string string int | ZREMRANGEBYRANK string int int | ZREMRANGEBYSCORE string string string
  | RPUSH string "string list" | LRANGE string int int | LSET string int string
  | SCAN u64 string int | PUBLISH string bytes | PING

text \<open>The answer to one command; \<open>Fault\<close> is an error of the server, \<open>Absent\<close> the null reply.\<close>

datatype redis_reply =
    Status | Absent | Number int | Bulk string | Texts "string list" | Pairs "(string, string) fmap"
  | Page u64 "string list" | Fault string

text \<open>EXEC answers \<open>Aborted\<close> when a watched key was changed.\<close>

datatype request = Command command | Transaction "command list" | Watch "string list" | Unwatch

datatype answer = Replies "redis_reply list" | Aborted

type_synonym outcome = "go_error + answer"

type_synonym 'db redis_server = "gtime \<Rightarrow> nat \<Rightarrow> request \<Rightarrow> 'db \<Rightarrow> outcome \<times> 'db"

subsection \<open>Programs\<close>

datatype 'a redis = Return 'a | Ask request "outcome \<Rightarrow> 'a redis" | Clock "gtime \<Rightarrow> 'a redis"

type_synonym 'a redis_op = "(go_error + 'a) redis"

primrec next_redis :: "'a redis \<Rightarrow> ('a \<Rightarrow> 'b redis) \<Rightarrow> 'b redis" where
  "next_redis (Return x) f = f x"
| "next_redis (Ask q k) f = Ask q (\<lambda>a. next_redis (k a) f)"
| "next_redis (Clock k) f = Clock (\<lambda>t. next_redis (k t) f)"

text \<open>\<open>if err != nil { return err }\<close> after a step.\<close>

definition thenDo :: "'a redis_op \<Rightarrow> ('a \<Rightarrow> 'b redis_op) \<Rightarrow> 'b redis_op" where
  "thenDo m f = next_redis m (\<lambda>r. case r of Inl err \<Rightarrow> Return (Inl err) | Inr x \<Rightarrow> f x)"

definition give_back :: "'a \<Rightarrow> 'a redis_op" where
  "give_back x = Return (Inr x)"

definition refuse :: "go_error \<Rightarrow> 'a redis_op" where
  "refuse err = Return (Inl err)"

text \<open>A result computed without Redis.\<close>

definition lift :: "go_error + 'a \<Rightarrow> 'a redis_op" where
  "lift r = Return r"

definition check_that :: "bool \<Rightarrow> go_error \<Rightarrow> unit redis_op" where
  "check_that b err = (if b then give_back () else refuse err)"

definition time_now :: "gtime redis_op" where
  "time_now = Clock give_back"

text \<open>A program alone at the server, with the clock standing still.\<close>

primrec run_redis :: "'db redis_server \<Rightarrow> gtime \<Rightarrow> nat \<Rightarrow> 'a redis \<Rightarrow> 'db \<Rightarrow> 'a \<times> 'db" where
  "run_redis srv now c (Return x) db = (x, db)"
| "run_redis srv now c (Ask q k) db =
    (case srv now c q db of (a, db) \<Rightarrow> run_redis srv now c (k a) db)"
| "run_redis srv now c (Clock k) db = run_redis srv now c (k now) db"

text \<open>
  Several operations, each on a connection of its own, at one server: the schedule names the
  connection whose operation takes its next step.
\<close>

definition step_redis :: "'db redis_server \<Rightarrow> gtime \<Rightarrow> nat \<Rightarrow> 'a redis \<Rightarrow> 'db \<Rightarrow> 'a redis \<times> 'db" where
  "step_redis srv now c p db =
    (case p of
       Return x \<Rightarrow> (p, db)
     | Ask q k \<Rightarrow> (case srv now c q db of (a, db) \<Rightarrow> (k a, db))
     | Clock k \<Rightarrow> (k now, db))"

fun run_schedule ::
  "'db redis_server \<Rightarrow> gtime \<Rightarrow> nat list \<Rightarrow> (nat \<Rightarrow> 'a redis) \<Rightarrow> 'db \<Rightarrow> (nat \<Rightarrow> 'a redis) \<times> 'db" where
  "run_schedule srv now [] ps db = (ps, db)"
| "run_schedule srv now (c # cs) ps db =
    (case step_redis srv now c (ps c) db of (p, db) \<Rightarrow> run_schedule srv now cs (ps(c := p)) db)"

subsection \<open>Calls of the client\<close>

text \<open>The texts of these errors are those of go-redis; \<open>redis.Nil\<close> is an absent value here.\<close>

definition TxFailedErr :: go_error where "TxFailedErr = ErrText ''redis: transaction failed''"
definition unexpected_reply :: go_error where "unexpected_reply = ErrText ''redis: unexpected reply''"

definition single :: "outcome \<Rightarrow> go_error + redis_reply" where
  "single a =
    (case a of
       Inr (Replies [r]) \<Rightarrow> (case r of Fault t \<Rightarrow> Inl (ErrText t) | _ \<Rightarrow> Inr r)
     | Inr _ \<Rightarrow> Inl unexpected_reply
     | Inl err \<Rightarrow> Inl err)"

definition ask :: "command \<Rightarrow> redis_reply redis_op" where
  "ask cmd = Ask (Command cmd) (\<lambda>a. Return (single a))"

text \<open>\<open>Result ()\<close> for each kind of reply.\<close>

definition as_number :: "redis_reply \<Rightarrow> go_error + int" where
  "as_number r = (case r of Number n \<Rightarrow> Inr n | _ \<Rightarrow> Inl unexpected_reply)"

definition as_texts :: "redis_reply \<Rightarrow> go_error + string list" where
  "as_texts r = (case r of Texts xs \<Rightarrow> Inr xs | _ \<Rightarrow> Inl unexpected_reply)"

definition as_pairs :: "redis_reply \<Rightarrow> go_error + (string, string) fmap" where
  "as_pairs r = (case r of Pairs m \<Rightarrow> Inr m | _ \<Rightarrow> Inl unexpected_reply)"

definition as_text :: "redis_reply \<Rightarrow> go_error + string option" where
  "as_text r = (case r of Bulk s \<Rightarrow> Inr (Some s) | Absent \<Rightarrow> Inr None | _ \<Rightarrow> Inl unexpected_reply)"

definition ask_for :: "(redis_reply \<Rightarrow> go_error + 'a) \<Rightarrow> command \<Rightarrow> 'a redis_op" where
  "ask_for conv cmd = thenDo (ask cmd) (\<lambda>r. lift (conv r))"

definition redis_Exists :: "string list \<Rightarrow> int redis_op" where
  "redis_Exists keys = ask_for as_number (EXISTS keys)"

definition redis_Del :: "string list \<Rightarrow> int redis_op" where
  "redis_Del keys = ask_for as_number (DEL keys)"

definition redis_Get :: "string \<Rightarrow> string option redis_op" where
  "redis_Get key = ask_for as_text (GET key)"

definition redis_HGet :: "string \<Rightarrow> string \<Rightarrow> string option redis_op" where
  "redis_HGet key field = ask_for as_text (HGET key field)"

definition redis_HGetAll :: "string \<Rightarrow> (string, string) fmap redis_op" where
  "redis_HGetAll key = ask_for as_pairs (HGETALL key)"

definition redis_SMembers :: "string \<Rightarrow> string list redis_op" where
  "redis_SMembers key = ask_for as_texts (SMEMBERS key)"

definition redis_IncrBy :: "string \<Rightarrow> int \<Rightarrow> int redis_op" where
  "redis_IncrBy key n = ask_for as_number (INCRBY key n)"

text \<open>A write whose reply is not looked at.\<close>

definition redis_write :: "command \<Rightarrow> unit redis_op" where
  "redis_write cmd = thenDo (ask cmd) (\<lambda>_. give_back ())"

text \<open>EXEC returns the first error among the replies.\<close>

fun first_fault :: "redis_reply list \<Rightarrow> string option" where
  "first_fault [] = None"
| "first_fault (Fault t # rs) = Some t"
| "first_fault (r # rs) = first_fault rs"

definition exec_result :: "outcome \<Rightarrow> go_error + redis_reply list" where
  "exec_result a =
    (case a of
       Inl err \<Rightarrow> Inl err
     | Inr Aborted \<Rightarrow> Inl TxFailedErr
     | Inr (Replies rs) \<Rightarrow> (case first_fault rs of Some t \<Rightarrow> Inl (ErrText t) | None \<Rightarrow> Inr rs))"

text \<open>Without commands nothing is sent.\<close>

definition redis_Exec :: "command list \<Rightarrow> redis_reply list redis_op" where
  "redis_Exec cmds =
    (if cmds = [] then give_back [] else Ask (Transaction cmds) (\<lambda>a. Return (exec_result a)))"

definition TxPipelined :: "command list \<Rightarrow> unit redis_op" where
  "TxPipelined cmds = thenDo (redis_Exec cmds) (\<lambda>_. give_back ())"

text \<open>\<open>client.Watch\<close>: the body runs between WATCH and UNWATCH, whose own answer is ignored.\<close>

definition unwatched :: "(go_error + 'a) \<Rightarrow> 'a redis_op" where
  "unwatched r = Ask Unwatch (\<lambda>_. Return r)"

definition redis_Watch :: "string list \<Rightarrow> 'a redis_op \<Rightarrow> 'a redis_op" where
  "redis_Watch keys body =
    Ask (Watch keys) (\<lambda>a.
      case exec_result a of
        Inl err \<Rightarrow> unwatched (Inl err)
      | Inr _ \<Rightarrow> next_redis body unwatched)"

text \<open>
  One call for each element; the results in order. Elements whose record is gone are passed
  over, any other error ends the loop.
\<close>

fun collect_found :: "(go_error \<Rightarrow> bool) \<Rightarrow> ('k \<Rightarrow> 'a redis_op) \<Rightarrow> 'k list \<Rightarrow> 'a list redis_op" where
  "collect_found gone load [] = give_back []"
| "collect_found gone load (k # ks) =
    next_redis (load k) (\<lambda>r.
      case r of
        Inl err \<Rightarrow> if errors_Is err gone then collect_found gone load ks else refuse err
      | Inr x \<Rightarrow> thenDo (collect_found gone load ks) (\<lambda>xs. give_back (x # xs)))"

text \<open>The same with a filter, until there are as many as asked for.\<close>

fun collect_matching ::
  "(go_error \<Rightarrow> bool) \<Rightarrow> ('k \<Rightarrow> 'a redis_op) \<Rightarrow> ('a \<Rightarrow> bool) \<Rightarrow> nat \<Rightarrow> 'k list \<Rightarrow> 'a list redis_op" where
  "collect_matching gone load keep n [] = give_back []"
| "collect_matching gone load keep n (k # ks) =
    next_redis (load k) (\<lambda>r.
      case r of
        Inl err \<Rightarrow> if errors_Is err gone then collect_matching gone load keep n ks else refuse err
      | Inr x \<Rightarrow>
          if \<not> keep x then collect_matching gone load keep n ks
          else if n \<le> 1 then give_back [x]
          else thenDo (collect_matching gone load keep (n - 1) ks) (\<lambda>xs. give_back (x # xs)))"

subsection \<open>Laws of programs\<close>

lemma next_redis_assoc: "next_redis (next_redis m f) g = next_redis m (\<lambda>x. next_redis (f x) g)"
  by (induction m) simp_all

lemma next_redis_Return [simp]: "next_redis m Return = m"
  by (induction m) simp_all

lemma run_next_redis:
  "run_redis srv now c (next_redis m f) db =
    (case run_redis srv now c m db of (x, db) \<Rightarrow> run_redis srv now c (f x) db)"
  by (induction m arbitrary: db) (simp_all split: prod.split)

lemma run_thenDo:
  "run_redis srv now c (thenDo m f) db =
    (case run_redis srv now c m db of
       (Inl err, db) \<Rightarrow> (Inl err, db) | (Inr x, db) \<Rightarrow> run_redis srv now c (f x) db)"
  by (simp add: thenDo_def run_next_redis split: prod.split sum.split)

lemma run_simple [simp]:
  "run_redis srv now c (give_back x) db = (Inr x, db)"
  "run_redis srv now c (refuse err) db = (Inl err, db)"
  "run_redis srv now c (lift r) db = (r, db)"
  "run_redis srv now c time_now db = (Inr now, db)"
  "run_redis srv now c (check_that b err) db = ((if b then Inr () else Inl err), db)"
  by (simp_all add: give_back_def refuse_def lift_def time_now_def check_that_def)

end
