(* ===== verification/Redis_Contract.thy ===== *)
theory Redis_Contract
  imports Redis_Client "HOL-Library.Multiset"
begin

text \<open>
  What the store relies on of the Redis server, from the documentation of the commands it
  uses: the effect of each command on the keys, the atomicity of MULTI and EXEC and the check
  of the watched keys. \<open>implements_redis\<close> states it of a server given by a function; the state
  of that server is seen through an abstraction. An implementation may lose a connection
  before or after a request took effect, may abort a transaction for no reason, and lists the
  members of a set in any order. The properties take it as their hypothesis; \<open>reference\<close>, the
  server that does exactly what the documentation says, is their witness.
\<close>

subsection \<open>Keys\<close>

datatype entry =
    EString bytes | EHash "(string, string) fmap" | ESet "string fset" | ESorted "(string, float64) fmap"
  | EList "string list"

text \<open>\<open>rs_watched\<close> has the keys a connection watches and whether one of them was changed since.\<close>

record redis_state =
  rs_keys :: "(string, entry) fmap"
  rs_expiry :: "(string, gtime) fmap"
  rs_watched :: "(nat, string list \<times> bool) fmap"
  rs_messages :: "(string \<times> bytes) list"

definition empty_redis :: redis_state where
  "empty_redis = \<lparr>rs_keys = fmempty, rs_expiry = fmempty, rs_watched = fmempty, rs_messages = []\<rparr>"

definition key_of :: "redis_state \<Rightarrow> string \<Rightarrow> entry option" where
  "key_of s k = fmlookup (rs_keys s) k"

text \<open>A key that holds nothing is gone, and its expiry with it.\<close>

definition is_empty :: "entry \<Rightarrow> bool" where
  "is_empty e \<longleftrightarrow> e = EHash fmempty \<or> e = ESet {||} \<or> e = ESorted fmempty \<or> e = EList []"

definition drop_key :: "string \<Rightarrow> redis_state \<Rightarrow> redis_state" where
  "drop_key k s = s\<lparr>rs_keys := fmdrop k (rs_keys s), rs_expiry := fmdrop k (rs_expiry s)\<rparr>"

definition put_key :: "string \<Rightarrow> entry \<Rightarrow> redis_state \<Rightarrow> redis_state" where
  "put_key k e s = (if is_empty e then drop_key k s else s\<lparr>rs_keys := fmupd k e (rs_keys s)\<rparr>)"

text \<open>Keys whose time has come are gone before a request is served.\<close>

definition expire :: "gtime \<Rightarrow> redis_state \<Rightarrow> redis_state" where
  "expire now s =
    (let old = ffilter (\<lambda>k. case fmlookup (rs_expiry s) k of None \<Rightarrow> False | Some t \<Rightarrow> t \<le> now) (fmdom (rs_expiry s))
     in s\<lparr>rs_keys := fmdrop_fset old (rs_keys s), rs_expiry := fmdrop_fset old (rs_expiry s)\<rparr>)"

subsection \<open>Values of one type\<close>

definition wrong_type :: redis_reply where
  "wrong_type = Fault ''WRONGTYPE Operation against a key holding the wrong kind of value''"

text \<open>What the key holds when it is of the type, the empty value when it is missing.\<close>

definition hash_of :: "entry option \<Rightarrow> (string, string) fmap option" where
  "hash_of e = (case e of None \<Rightarrow> Some fmempty | Some (EHash m) \<Rightarrow> Some m | _ \<Rightarrow> None)"

definition set_of :: "entry option \<Rightarrow> string fset option" where
  "set_of e = (case e of None \<Rightarrow> Some {||} | Some (ESet m) \<Rightarrow> Some m | _ \<Rightarrow> None)"

definition sorted_of :: "entry option \<Rightarrow> (string, float64) fmap option" where
  "sorted_of e = (case e of None \<Rightarrow> Some fmempty | Some (ESorted m) \<Rightarrow> Some m | _ \<Rightarrow> None)"

definition list_of :: "entry option \<Rightarrow> string list option" where
  "list_of e = (case e of None \<Rightarrow> Some [] | Some (EList m) \<Rightarrow> Some m | _ \<Rightarrow> None)"

definition typed :: "'a option \<Rightarrow> redis_state \<Rightarrow> ('a \<Rightarrow> redis_reply \<times> redis_state) \<Rightarrow> redis_reply \<times> redis_state" where
  "typed v s f = (case v of None \<Rightarrow> (wrong_type, s) | Some x \<Rightarrow> f x)"

definition put_pairs :: "(string \<times> string) list \<Rightarrow> (string, string) fmap \<Rightarrow> (string, string) fmap" where
  "put_pairs ps m = foldl (\<lambda>m (k, v). fmupd k v m) m ps"

subsection \<open>Ranges\<close>

text \<open>A score as an integer of the same order; no score is not a number.\<close>

definition score_key :: "float64 \<Rightarrow> int" where
  "score_key x =
    (case x of Finite m e \<Rightarrow> m * 2 ^ nat (e + 1074)
     | Infinite neg \<Rightarrow> (if neg then - (2 ^ 2200) else 2 ^ 2200) | NotANumber \<Rightarrow> 0)"

definition score_of :: "(string, float64) fmap \<Rightarrow> string \<Rightarrow> int" where
  "score_of z m = (case fmlookup z m of None \<Rightarrow> 0 | Some x \<Rightarrow> score_key x)"

text \<open>The members by score, those of equal scores by their bytes.\<close>

definition ranked :: "(string, float64) fmap \<Rightarrow> string list" where
  "ranked z = sort_key (score_of z) (sorted_ids (fmdom z))"

text \<open>Indexes from \<open>start\<close> to \<open>stop\<close>, negative ones from the end.\<close>

definition from_index :: "int \<Rightarrow> int \<Rightarrow> int" where
  "from_index n i = (if i < 0 then max 0 (n + i) else i)"

definition index_range :: "int \<Rightarrow> int \<Rightarrow> 'a list \<Rightarrow> 'a list" where
  "index_range start stop xs =
    (let n = int (length xs); a = from_index n start; b = (if stop < 0 then n + stop else stop)
     in take (nat (b + 1 - a)) (drop (nat a) xs))"

text \<open>A bound of scores: \<open>(\<close> excludes it.\<close>

definition above :: "string \<Rightarrow> int \<Rightarrow> bool" where
  "above bound x =
    (case bound of
       c # t \<Rightarrow> if c = CHR ''('' then (case ParseFloat t of None \<Rightarrow> False | Some y \<Rightarrow> score_key y < x)
                else (case ParseFloat bound of None \<Rightarrow> False | Some y \<Rightarrow> score_key y \<le> x)
     | [] \<Rightarrow> False)"

definition within_bound :: "string \<Rightarrow> int \<Rightarrow> bool" where
  "within_bound bound x =
    (case bound of
       c # t \<Rightarrow> if c = CHR ''('' then (case ParseFloat t of None \<Rightarrow> False | Some y \<Rightarrow> x < score_key y)
                else (case ParseFloat bound of None \<Rightarrow> False | Some y \<Rightarrow> x \<le> score_key y)
     | [] \<Rightarrow> False)"

definition between :: "string \<Rightarrow> string \<Rightarrow> (string, float64) fmap \<Rightarrow> string list" where
  "between lo hi z = filter (\<lambda>m. above lo (score_of z m) \<and> within_bound hi (score_of z m)) (ranked z)"

subsection \<open>Commands\<close>

definition int64_text :: "bytes \<Rightarrow> int option" where
  "int64_text s =
    (case atoi s of None \<Rightarrow> None | Some n \<Rightarrow> if - (2 ^ 63) \<le> n \<and> n < 2 ^ 63 then Some n else None)"

definition increase :: "string \<Rightarrow> int \<Rightarrow> redis_state \<Rightarrow> redis_reply \<times> redis_state" where
  "increase k n s =
    (case key_of s k of
       None \<Rightarrow> (Number n, put_key k (EString (format_int n)) s)
     | Some (EString v) \<Rightarrow>
         (case int64_text v of
            None \<Rightarrow> (Fault ''ERR value is not an integer or out of range'', s)
          | Some m \<Rightarrow>
              if - (2 ^ 63) \<le> m + n \<and> m + n < 2 ^ 63
              then (Number (m + n), put_key k (EString (format_int (m + n))) s)
              else (Fault ''ERR increment or decrement would overflow'', s))
     | Some _ \<Rightarrow> (wrong_type, s))"

definition removed :: "string list \<Rightarrow> redis_state \<Rightarrow> int" where
  "removed ks s = int (length (filter (\<lambda>k. key_of s k \<noteq> None) (remdups ks)))"

fun redis_command :: "gtime \<Rightarrow> command \<Rightarrow> redis_state \<Rightarrow> redis_reply \<times> redis_state" where
  "redis_command now (EXISTS ks) s = (Number (int (length (filter (\<lambda>k. key_of s k \<noteq> None) ks))), s)"
| "redis_command now (DEL ks) s = (Number (removed ks s), foldl (\<lambda>s k. drop_key k s) s ks)"
| "redis_command now (EXPIREAT k t) s =
    (if key_of s k = None then (Number 0, s)
     else if t \<le> now then (Number 1, drop_key k s)
     else (Number 1, s\<lparr>rs_expiry := fmupd k t (rs_expiry s)\<rparr>))"
| "redis_command now (GET k) s =
    (case key_of s k of None \<Rightarrow> (Absent, s) | Some (EString v) \<Rightarrow> (Bulk v, s) | Some _ \<Rightarrow> (wrong_type, s))"
| "redis_command now (SET k v ttl) s =
    (Status, (put_key k (EString v) s)
       \<lparr>rs_expiry := (if ttl > 0 then fmupd k (now + ttl) (rs_expiry s) else fmdrop k (rs_expiry s))\<rparr>)"
| "redis_command now (INCRBY k n) s = increase k n s"
| "redis_command now (HGET k f) s =
    typed (hash_of (key_of s k)) s (\<lambda>m. (case fmlookup m f of None \<Rightarrow> Absent | Some v \<Rightarrow> Bulk v, s))"
| "redis_command now (HGETALL k) s = typed (hash_of (key_of s k)) s (\<lambda>m. (Pairs m, s))"
| "redis_command now (HSET k ps) s =
    typed (hash_of (key_of s k)) s (\<lambda>m.
      (Number (int (length (filter (\<lambda>f. f |\<notin>| fmdom m) (remdups (map fst ps))))), put_key k (EHash (put_pairs ps m)) s))"
| "redis_command now (HDEL k f) s =
    typed (hash_of (key_of s k)) s (\<lambda>m.
      (Number (if f |\<in>| fmdom m then 1 else 0), put_key k (EHash (fmdrop f m)) s))"
| "redis_command now (SMEMBERS k) s = typed (set_of (key_of s k)) s (\<lambda>m. (Texts (sorted_ids m), s))"
| "redis_command now (SADD k x) s =
    typed (set_of (key_of s k)) s (\<lambda>m. (Number (if x |\<in>| m then 0 else 1), put_key k (ESet (finsert x m)) s))"
| "redis_command now (SREM k x) s =
    typed (set_of (key_of s k)) s (\<lambda>m. (Number (if x |\<in>| m then 1 else 0), put_key k (ESet (m |-| {|x|})) s))"
| "redis_command now (ZADD k score x) s =
    typed (sorted_of (key_of s k)) s (\<lambda>z.
      if score = NotANumber then (Fault ''ERR value is not a valid float'', s)
      else (Number (if x |\<in>| fmdom z then 0 else 1), put_key k (ESorted (fmupd x score z)) s))"
| "redis_command now (ZREM k x) s =
    typed (sorted_of (key_of s k)) s (\<lambda>z.
      (Number (if x |\<in>| fmdom z then 1 else 0), put_key k (ESorted (fmdrop x z)) s))"
| "redis_command now (ZRANGE k a b) s =
    typed (sorted_of (key_of s k)) s (\<lambda>z. (Texts (index_range a b (ranked z)), s))"
| "redis_command now (ZREVRANGE k a b) s =
    typed (sorted_of (key_of s k)) s (\<lambda>z. (Texts (index_range a b (rev (ranked z))), s))"
| "redis_command now (ZRANGEBYSCORE k lo hi limit) s =
    typed (sorted_of (key_of s k)) s (\<lambda>z.
      (Texts (if limit > 0 then take (nat limit) (between lo hi z) else between lo hi z), s))"
| "redis_command now (ZREMRANGEBYRANK k a b) s =
    typed (sorted_of (key_of s k)) s (\<lambda>z.
      let gone = index_range a b (ranked z) in
      (Number (int (length gone)), put_key k (ESorted (fmdrop_fset (fset_of_list gone) z)) s))"
| "redis_command now (ZREMRANGEBYSCORE k lo hi) s =
    typed (sorted_of (key_of s k)) s (\<lambda>z.
      let gone = between lo hi z in
      (Number (int (length gone)), put_key k (ESorted (fmdrop_fset (fset_of_list gone) z)) s))"
| "redis_command now (RPUSH k xs) s =
    typed (list_of (key_of s k)) s (\<lambda>l. (Number (int (length l + length xs)), put_key k (EList (l @ xs)) s))"
| "redis_command now (LRANGE k a b) s = typed (list_of (key_of s k)) s (\<lambda>l. (Texts (index_range a b l), s))"
| "redis_command now (LSET k i v) s =
    typed (list_of (key_of s k)) s (\<lambda>l.
      let n = int (length l); j = (if i < 0 then n + i else i) in
      if key_of s k = None then (Fault ''ERR no such key'', s)
      else if j < 0 \<or> n \<le> j then (Fault ''ERR index out of range'', s)
      else (Status, put_key k (EList (l[nat j := v])) s))"
| "redis_command now (SCAN cursor pattern n) s = (Page 0 (sorted_ids (fmdom (rs_keys s))), s)"
| "redis_command now (PUBLISH channel payload) s =
    (Number 0, s\<lparr>rs_messages := rs_messages s @ [(channel, payload)]\<rparr>)"
| "redis_command now PING s = (Status, s)"

fun redis_commands :: "gtime \<Rightarrow> command list \<Rightarrow> redis_state \<Rightarrow> redis_reply list \<times> redis_state" where
  "redis_commands now [] s = ([], s)"
| "redis_commands now (cmd # cmds) s =
    (case redis_command now cmd s of (r, s) \<Rightarrow>
       case redis_commands now cmds s of (rs, s) \<Rightarrow> (r # rs, s))"

subsection \<open>Requests\<close>

definition watched_by :: "redis_state \<Rightarrow> nat \<Rightarrow> string list \<times> bool" where
  "watched_by s c = (case fmlookup (rs_watched s) c of None \<Rightarrow> ([], False) | Some w \<Rightarrow> w)"

text \<open>The keys that changed since the state \<open>old\<close> disturb those who watch them.\<close>

definition disturb :: "redis_state \<Rightarrow> redis_state \<Rightarrow> redis_state" where
  "disturb old s =
    s\<lparr>rs_watched := fmmap (\<lambda>(ks, b). (ks, b \<or> list_ex (\<lambda>k. key_of s k \<noteq> key_of old k) ks)) (rs_watched s)\<rparr>"

definition settled :: "gtime \<Rightarrow> redis_state \<Rightarrow> redis_state" where
  "settled now s = disturb s (expire now s)"

definition forget :: "nat \<Rightarrow> redis_state \<Rightarrow> redis_state" where
  "forget c s = s\<lparr>rs_watched := fmdrop c (rs_watched s)\<rparr>"

fun serve :: "gtime \<Rightarrow> nat \<Rightarrow> request \<Rightarrow> redis_state \<Rightarrow> answer \<times> redis_state" where
  "serve now c (Command cmd) s = (case redis_command now cmd s of (r, s) \<Rightarrow> (Replies [r], s))"
| "serve now c (Transaction cmds) s =
    (if \<not> snd (watched_by s c) then (case redis_commands now cmds s of (rs, s) \<Rightarrow> (Replies rs, forget c s))
     else (Aborted, forget c s))"
| "serve now c (Watch ks) s =
    (Replies [Status],
     s\<lparr>rs_watched := fmupd c (fst (watched_by s c) @ ks, snd (watched_by s c)) (rs_watched s)\<rparr>)"
| "serve now c Unwatch s = (Replies [Status], forget c s)"

definition documented :: "gtime \<Rightarrow> nat \<Rightarrow> request \<Rightarrow> redis_state \<Rightarrow> answer \<times> redis_state" where
  "documented now c q s =
    (case serve now c q (settled now s) of (a, s') \<Rightarrow> (a, disturb (settled now s) s'))"

definition reference :: "redis_state redis_server" where
  "reference now c q s = (case documented now c q s of (a, s) \<Rightarrow> (Inr a, s))"

subsection \<open>Implementations\<close>

text \<open>
  The members of a set come in any order, and SCAN gives any page of existing keys; the other
  replies are the documented ones.
\<close>

fun reply_fits :: "redis_state \<Rightarrow> command \<Rightarrow> redis_reply \<Rightarrow> redis_reply \<Rightarrow> bool" where
  "reply_fits s (SMEMBERS k) r r' \<longleftrightarrow>
    (case (r, r') of (Texts xs, Texts ys) \<Rightarrow> mset xs = mset ys | _ \<Rightarrow> r = r')"
| "reply_fits s (SCAN cursor pattern n) r r' \<longleftrightarrow>
    (case r of Page next ks \<Rightarrow> fset_of_list ks |\<subseteq>| fmdom (rs_keys s) | _ \<Rightarrow> False)"
| "reply_fits s cmd r r' \<longleftrightarrow> r = r'"

fun replies_fit :: "gtime \<Rightarrow> command list \<Rightarrow> redis_state \<Rightarrow> redis_reply list \<Rightarrow> bool" where
  "replies_fit now [] s rs \<longleftrightarrow> rs = []"
| "replies_fit now (cmd # cmds) s rs \<longleftrightarrow>
    (case rs of
       [] \<Rightarrow> False
     | r # rs \<Rightarrow>
         reply_fits s cmd r (fst (redis_command now cmd s)) \<and> replies_fit now cmds (snd (redis_command now cmd s)) rs)"

fun answer_fits :: "gtime \<Rightarrow> request \<Rightarrow> redis_state \<Rightarrow> answer \<Rightarrow> answer \<Rightarrow> bool" where
  "answer_fits now q s (Replies rs) (Replies rs') \<longleftrightarrow>
    (case q of
       Command cmd \<Rightarrow> replies_fit now [cmd] s rs
     | Transaction cmds \<Rightarrow> replies_fit now cmds s rs
     | _ \<Rightarrow> rs = rs')"
| "answer_fits now q s a a' \<longleftrightarrow> a = a'"

text \<open>
  A request of connection \<open>c\<close> either takes its documented effect with a fitting answer, or it
  is a transaction that is aborted, or it fails, and then it had its effect or none.
\<close>

definition allowed_answer ::
  "gtime \<Rightarrow> nat \<Rightarrow> request \<Rightarrow> redis_state \<Rightarrow> outcome \<Rightarrow> redis_state \<Rightarrow> bool" where
  "allowed_answer now c q s a s' \<longleftrightarrow>
    (case a of
       Inl err \<Rightarrow> s' = settled now s \<or> s' = snd (documented now c q s)
     | Inr r \<Rightarrow>
         (s' = snd (documented now c q s) \<and> answer_fits now q (settled now s) r (fst (documented now c q s)))
         \<or> ((\<exists>cmds. q = Transaction cmds) \<and> r = Aborted \<and> s' = forget c (settled now s)))"

definition implements_redis :: "'db redis_server \<Rightarrow> ('db \<Rightarrow> redis_state) \<Rightarrow> bool" where
  "implements_redis srv view \<longleftrightarrow>
    (\<forall>now c q db. allowed_answer now c q (view db) (fst (srv now c q db)) (view (snd (srv now c q db))))"

text \<open>The reference server is an implementation.\<close>

lemma reply_fits_refl: "(\<And>cursor pattern n. cmd \<noteq> SCAN cursor pattern n) \<Longrightarrow> reply_fits s cmd r r"
  by (cases cmd) (auto split: redis_reply.split)

lemma reply_fits_run: "reply_fits s cmd (fst (redis_command now cmd s)) (fst (redis_command now cmd s))"
proof (cases "\<exists>cursor pattern n. cmd = SCAN cursor pattern n")
  case True
  then show ?thesis by (auto simp: less_eq_fset.rep_eq fset_of_list.rep_eq)
next
  case False
  then show ?thesis by (intro reply_fits_refl) auto
qed

lemma replies_fit_run: "replies_fit now cmds s (fst (redis_commands now cmds s))"
  by (induction cmds arbitrary: s) (simp_all add: reply_fits_run case_prod_unfold)

lemma reference_implements: "implements_redis reference (\<lambda>s. s)"
proof -
  have "answer_fits now q s (fst (serve now c q s)) (fst (serve now c q s))" for now c q s
  proof (cases q)
    case (Command cmd)
    then show ?thesis by (simp add: reply_fits_run case_prod_unfold)
  next
    case (Transaction cmds)
    then show ?thesis by (simp add: replies_fit_run case_prod_unfold)
  qed simp_all
  then show ?thesis
    by (simp add: implements_redis_def allowed_answer_def reference_def documented_def case_prod_unfold)
qed

end
