(* ===== verification/Redis_Laws.thy ===== *)
theory Redis_Laws
  imports Redis_Contract
begin

text \<open>
  What an operation of the store may rely on while other connections work at the same server.
  \<open>interleaved\<close> runs a program on one connection; between its requests the other connections
  send any requests they like. A body that runs under WATCH either changes nothing or takes
  effect at one instant, as if it had run alone there (\<open>watched_at_once\<close>).
\<close>

subsection \<open>What requests leave alone\<close>

lemma put_key_simps [simp]:
  "rs_watched (put_key k e s) = rs_watched s" "rs_watched (drop_key k s) = rs_watched s"
  by (simp_all add: put_key_def drop_key_def)

lemma typed_watched:
  "(\<And>x. rs_watched (snd (f x)) = rs_watched s) \<Longrightarrow> rs_watched (snd (typed v s f)) = rs_watched s"
  by (cases v) (simp_all add: typed_def)

lemma drop_keys_watched: "rs_watched (foldl (\<lambda>s k. drop_key k s) s ks) = rs_watched s"
  by (induction ks arbitrary: s) simp_all

lemma command_watched: "rs_watched (snd (redis_command now cmd s)) = rs_watched s"
  by (cases cmd)
    (auto simp: drop_keys_watched Let_def increase_def split: option.split entry.split intro!: typed_watched)

lemma commands_watched: "rs_watched (snd (redis_commands now cmds s)) = rs_watched s"
  by (induction cmds arbitrary: s) (simp_all add: case_prod_unfold command_watched)

text \<open>Reading a key changes nothing and depends on that key only.\<close>

fun reads_only :: "string list \<Rightarrow> command \<Rightarrow> bool" where
  "reads_only ks (EXISTS l) \<longleftrightarrow> set l \<subseteq> set ks"
| "reads_only ks (GET k) \<longleftrightarrow> k \<in> set ks"
| "reads_only ks (HGET k f) \<longleftrightarrow> k \<in> set ks"
| "reads_only ks (HGETALL k) \<longleftrightarrow> k \<in> set ks"
| "reads_only ks (LRANGE k a b) \<longleftrightarrow> k \<in> set ks"
| "reads_only ks cmd \<longleftrightarrow> False"

lemma read_changes_nothing: "reads_only ks cmd \<Longrightarrow> snd (redis_command now cmd s) = s"
  by (cases cmd) (simp_all add: typed_def split: option.split entry.split)

lemma read_depends:
  assumes "reads_only ks cmd" and "\<And>k. k \<in> set ks \<Longrightarrow> key_of s k = key_of s' k"
  shows "fst (redis_command now cmd s) = fst (redis_command now' cmd s')"
proof (cases cmd)
  case (EXISTS l)
  then have "filter (\<lambda>k. key_of s k \<noteq> None) l = filter (\<lambda>k. key_of s' k \<noteq> None) l"
    using assms by (intro filter_cong) auto
  then show ?thesis using EXISTS by simp
qed (use assms in \<open>simp_all add: typed_def split: option.split entry.split\<close>)

text \<open>Commands whose reply is determined.\<close>

fun exact :: "command \<Rightarrow> bool" where
  "exact (SMEMBERS k) \<longleftrightarrow> False"
| "exact (SCAN cursor pattern n) \<longleftrightarrow> False"
| "exact cmd \<longleftrightarrow> True"

lemma exact_replies:
  "list_all exact cmds \<Longrightarrow> replies_fit now cmds s rs \<longleftrightarrow> rs = fst (redis_commands now cmds s)"
proof (induction cmds arbitrary: s rs)
  case (Cons cmd cmds)
  then show ?case by (cases rs; cases cmd) (auto simp: case_prod_unfold)
qed (auto split: list.split)

lemma read_fits: "reads_only ks cmd \<Longrightarrow> replies_fit now [cmd] s rs \<longleftrightarrow> rs = [fst (redis_command now cmd s)]"
  by (cases cmd; cases rs) auto

subsection \<open>Watching\<close>

lemma key_of_simps [simp]:
  "key_of (disturb s0 s) k = key_of s k" "key_of (forget c s) k = key_of s k"
  "rs_keys (disturb s0 s) = rs_keys s" "rs_keys (forget c s) = rs_keys s"
  by (simp_all add: disturb_def forget_def key_of_def)

lemma disturb_watched:
  "fmlookup (rs_watched (disturb s0 s)) c =
    map_option (\<lambda>(ks, b). (ks, b \<or> list_ex (\<lambda>k. key_of s k \<noteq> key_of s0 k) ks)) (fmlookup (rs_watched s) c)"
  by (simp add: disturb_def key_of_def)

lemma expire_watched [simp]: "rs_watched (expire now s) = rs_watched s"
  by (simp add: expire_def Let_def)

text \<open>Connection \<open>c\<close> watches the keys, and it is disturbed or they have the values \<open>v\<close>.\<close>

definition watching :: "nat \<Rightarrow> string list \<Rightarrow> (string \<Rightarrow> entry option) \<Rightarrow> redis_state \<Rightarrow> bool" where
  "watching c ks v s \<longleftrightarrow>
    (\<exists>ws b. fmlookup (rs_watched s) c = Some (ws, b) \<and> set ks \<subseteq> set ws \<and> (b \<or> (\<forall>k \<in> set ks. key_of s k = v k)))"

lemma watching_disturb:
  assumes "watching c ks v s0" and "fmlookup (rs_watched s) c = fmlookup (rs_watched s0) c"
  shows "watching c ks v (disturb s0 s)"
proof -
  obtain ws b where w: "fmlookup (rs_watched s0) c = Some (ws, b)" "set ks \<subseteq> set ws"
      "b \<or> (\<forall>k \<in> set ks. key_of s0 k = v k)"
    using assms(1) by (auto simp: watching_def)
  show ?thesis
  proof (cases "\<forall>k \<in> set ws. key_of s k = key_of s0 k")
    case True
    then show ?thesis using w assms(2) by (auto simp: watching_def disturb_watched list_ex_iff)
  next
    case False
    then show ?thesis using w assms(2) by (auto simp: watching_def disturb_watched list_ex_iff)
  qed
qed

lemma watching_settled: "watching c ks v s \<Longrightarrow> watching c ks v (settled now s)"
  unfolding settled_def by (rule watching_disturb) simp_all

text \<open>A request of another connection, and one of \<open>c\<close> that is a command.\<close>

lemma serve_watched:
  assumes "c' \<noteq> c \<or> (\<exists>cmd. q = Command cmd)"
  shows "fmlookup (rs_watched (snd (serve now c' q s))) c = fmlookup (rs_watched s) c"
  using assms
  by (cases q) (auto simp: case_prod_unfold command_watched commands_watched forget_def)

lemma watching_documented:
  assumes "watching c ks v s" and "c' \<noteq> c \<or> (\<exists>cmd. q = Command cmd)"
  shows "watching c ks v (snd (documented now c' q s))"
  unfolding documented_def case_prod_unfold snd_conv
  using watching_settled[OF assms(1)] serve_watched[OF assms(2)] by (intro watching_disturb)

lemma watching_allowed:
  assumes "watching c ks v s" and "allowed_answer now c' q s a s'" and "c' \<noteq> c \<or> (\<exists>cmd. q = Command cmd)"
  shows "watching c ks v s'"
proof -
  have "watching c ks v (forget c' (settled now s))" if "c' \<noteq> c"
    using watching_settled[OF assms(1)] that by (simp add: watching_def forget_def key_of_def)
  then show ?thesis
    using assms watching_settled[OF assms(1)] watching_documented[OF assms(1,3)]
    by (auto simp: allowed_answer_def split: sum.splits)
qed

subsection \<open>Interleaved runs\<close>

text \<open>A request of the program with its time, its outcome and the states before and after it.\<close>

record redis_step =
  sp_at :: gtime
  sp_request :: request
  sp_outcome :: outcome
  sp_before :: redis_state
  sp_after :: redis_state

text \<open>The state in which the request is served.\<close>

definition served :: "redis_step \<Rightarrow> redis_state" where
  "served st = settled (sp_at st) (sp_before st)"

text \<open>The step changed no key.\<close>

definition quiet :: "redis_step \<Rightarrow> bool" where
  "quiet st \<longleftrightarrow> rs_keys (sp_after st) = rs_keys (served st)"

inductive interleaved :: "nat \<Rightarrow> 'a redis \<Rightarrow> redis_state \<Rightarrow> redis_step list \<Rightarrow> 'a \<Rightarrow> redis_state \<Rightarrow> bool" for c where
  interleaved_Return: "interleaved c (Return x) s [] x s"
| interleaved_Clock: "interleaved c (k now) s sts x s' \<Longrightarrow> interleaved c (Clock k) s sts x s'"
| interleaved_Ask:
    "allowed_answer now c q s a s1 \<Longrightarrow> interleaved c (k a) s1 sts x s'
     \<Longrightarrow> interleaved c (Ask q k) s
          (\<lparr>sp_at = now, sp_request = q, sp_outcome = a, sp_before = s, sp_after = s1\<rparr> # sts) x s'"
| interleaved_other:
    "c' \<noteq> c \<Longrightarrow> allowed_answer now c' q s a s1 \<Longrightarrow> interleaved c p s1 sts x s' \<Longrightarrow> interleaved c p s sts x s'"

text \<open>What the others do between two requests of \<open>c\<close>.\<close>

definition others :: "nat \<Rightarrow> redis_state \<Rightarrow> redis_state \<Rightarrow> bool" where
  "others c = (\<lambda>s s'. \<exists>now c' q a. c' \<noteq> c \<and> allowed_answer now c' q s a s')\<^sup>*\<^sup>*"

lemma others_refl: "others c s s"
  by (simp add: others_def)

lemma others_step: "c' \<noteq> c \<Longrightarrow> allowed_answer now c' q s a s1 \<Longrightarrow> others c s1 s2 \<Longrightarrow> others c s s2"
  unfolding others_def by (rule converse_rtranclp_into_rtranclp) blast+

lemma watching_others: "others c s s' \<Longrightarrow> watching c ks v s \<Longrightarrow> watching c ks v s'"
  unfolding others_def by (induction rule: rtranclp_induct) (auto intro: watching_allowed)

lemma interleaved_ReturnD:
  "interleaved c p s sts x s' \<Longrightarrow> p = Return y \<Longrightarrow> sts = [] \<and> x = y"
  by (induction rule: interleaved.induct) simp_all

lemma interleaved_ClockD:
  "interleaved c p s sts x s' \<Longrightarrow> p = Clock k
   \<Longrightarrow> \<exists>now s0. others c s s0 \<and> interleaved c (k now) s0 sts x s'"
proof (induction rule: interleaved.induct)
  case (interleaved_Clock k' now s sts x s')
  then show ?case using others_refl by blast
next
  case (interleaved_other c' now q s a s1 p sts x s')
  then show ?case using others_step by meson
qed simp_all

lemma interleaved_AskD:
  "interleaved c p s sts x s' \<Longrightarrow> p = Ask q k
   \<Longrightarrow> \<exists>st sts' s0. sts = st # sts' \<and> others c s s0 \<and> sp_before st = s0 \<and> sp_request st = q
         \<and> allowed_answer (sp_at st) c q s0 (sp_outcome st) (sp_after st)
         \<and> interleaved c (k (sp_outcome st)) (sp_after st) sts' x s'"
proof (induction rule: interleaved.induct)
  case (interleaved_Ask now q' s a s1 k' sts x s')
  then show ?case using others_refl by fastforce
next
  case (interleaved_other c' now q' s a s1 p sts x s')
  then show ?case using others_step by meson
qed simp_all

lemma next_ClockE:
  assumes "interleaved c (next_redis (Clock k) f) s sts x s'"
  obtains now s0 where "others c s s0" and "interleaved c (next_redis (k now) f) s0 sts x s'"
  using interleaved_ClockD[OF assms, of "\<lambda>t. next_redis (k t) f"] by auto

lemma next_AskE:
  assumes "interleaved c (next_redis (Ask q k) f) s sts x s'"
  obtains st sts' where "sts = st # sts'" and "others c s (sp_before st)" and "sp_request st = q"
    and "allowed_answer (sp_at st) c q (sp_before st) (sp_outcome st) (sp_after st)"
    and "interleaved c (next_redis (k (sp_outcome st)) f) (sp_after st) sts' x s'"
  using interleaved_AskD[OF assms, of q "\<lambda>a. next_redis (k a) f"] by auto

text \<open>A program alone at the server, only the clock moves.\<close>

primrec alone :: "nat \<Rightarrow> gtime \<Rightarrow> 'a redis \<Rightarrow> redis_state \<Rightarrow> 'a \<Rightarrow> redis_state \<Rightarrow> bool" where
  "alone c now (Return x) = (\<lambda>s y s'. y = x \<and> s' = s)"
| "alone c now (Clock k) = (\<lambda>s y s'. \<exists>t. alone c now (k t) s y s')"
| "alone c now (Ask q k) =
    (\<lambda>s y s'. alone c now (k (Inr (fst (serve now c q s)))) (snd (serve now c q s)) y s')"

text \<open>
  A body for WATCH: it reads watched keys, gives up when the connection fails, and ends with its
  transaction, of which only an executed one is a success.
\<close>

primrec watched_body :: "string list \<Rightarrow> (go_error + 'a) redis \<Rightarrow> bool" where
  "watched_body ks (Return x) = True"
| "watched_body ks (Clock k) = (\<forall>t. watched_body ks (k t))"
| "watched_body ks (Ask q k) =
    (case q of
       Command cmd \<Rightarrow>
         reads_only ks cmd \<and> (\<forall>a. watched_body ks (k a)) \<and> (\<forall>err. \<exists>e. k (Inl err) = Return (Inl e))
     | Transaction cmds \<Rightarrow>
         list_all exact cmds \<and> (\<forall>a. \<exists>y. k a = Return y) \<and> (\<exists>e. k (Inr Aborted) = Return (Inl e))
         \<and> (\<forall>err. \<exists>e. k (Inl err) = Return (Inl e))
     | _ \<Rightarrow> False)"

text \<open>The results of the body when it commits nothing.\<close>

primrec without_commit :: "'a redis \<Rightarrow> 'a \<Rightarrow> bool" where
  "without_commit (Return x) = (\<lambda>y. y = x)"
| "without_commit (Clock k) = (\<lambda>y. \<exists>t. without_commit (k t) y)"
| "without_commit (Ask q k) =
    (\<lambda>y. \<exists>a. (\<forall>cmds rs. q = Transaction cmds \<longrightarrow> a \<noteq> Inr (Replies rs)) \<and> without_commit (k a) y)"

text \<open>An operation that takes effect in the one step \<open>st\<close>, as if it had run alone there.\<close>

definition commits_at :: "nat \<Rightarrow> (go_error + 'a) redis \<Rightarrow> redis_step list \<Rightarrow> (go_error + 'a) \<Rightarrow> bool" where
  "commits_at c body sts x \<longleftrightarrow>
    (\<exists>pre st post y s'. sts = pre @ st # post \<and> list_all quiet pre \<and> list_all quiet post
       \<and> alone c (sp_at st) body (served st) y s' \<and> rs_keys (sp_after st) = rs_keys s' \<and> (x = y \<or> isl x))"

subsection \<open>Own steps\<close>

definition spoilt :: "nat \<Rightarrow> redis_state \<Rightarrow> bool" where
  "spoilt c s \<longleftrightarrow> (\<exists>ws. fmlookup (rs_watched s) c = Some (ws, True))"

lemma spoilt_disturb: "fmlookup (rs_watched s) c = fmlookup (rs_watched s0) c \<Longrightarrow> spoilt c s0 \<Longrightarrow> spoilt c (disturb s1 s)"
  by (auto simp: spoilt_def disturb_watched)

lemma spoilt_settled: "spoilt c s \<Longrightarrow> spoilt c (settled now s)"
  unfolding settled_def by (rule spoilt_disturb) simp_all

lemma spoilt_allowed:
  assumes "spoilt c (settled now s)" and "allowed_answer now c' q s a s'" and "c' \<noteq> c \<or> (\<exists>cmd. q = Command cmd)"
  shows "spoilt c s'"
proof -
  have "spoilt c (snd (documented now c' q s))"
    unfolding documented_def case_prod_unfold snd_conv
    by (rule spoilt_disturb[OF serve_watched[OF assms(3)] assms(1)])
  moreover have "spoilt c (forget c' (settled now s))" if "c' \<noteq> c"
    using assms(1) that by (simp add: spoilt_def forget_def)
  ultimately show ?thesis
    using assms by (auto simp: allowed_answer_def split: sum.splits)
qed

lemma spoilt_others: "others c s s' \<Longrightarrow> spoilt c s \<Longrightarrow> spoilt c s'"
  unfolding others_def by (induction rule: rtranclp_induct) (auto intro: spoilt_allowed spoilt_settled)

lemma read_answer:
  assumes "reads_only ks cmd" and "answer_fits now (Command cmd) s a (Replies rs)"
  shows "a = Replies [fst (redis_command now cmd s)]"
proof (cases a)
  case (Replies rs')
  then have "replies_fit now [cmd] s rs'" using assms(2) by (simp del: replies_fit.simps)
  then show ?thesis using Replies read_fits[OF assms(1)] by simp
next
  case Aborted
  then show ?thesis using assms(2) by simp
qed

lemma aborted_answer: "answer_fits now q s a Aborted \<Longrightarrow> a = Aborted"
  by (cases a) simp_all

lemma read_step:
  assumes "allowed_answer now c (Command cmd) s a s'" and "reads_only ks cmd"
  shows "rs_keys s' = rs_keys (settled now s)
         \<and> (\<forall>r. a = Inr r \<longrightarrow> r = Replies [fst (redis_command now cmd (settled now s))])"
proof -
  have d: "documented now c (Command cmd) s
      = (Replies [fst (redis_command now cmd (settled now s))], disturb (settled now s) (settled now s))"
    using read_changes_nothing[OF assms(2)] by (simp add: documented_def case_prod_unfold)
  show ?thesis
  proof (cases a)
    case (Inl err)
    then show ?thesis using assms(1) d by (auto simp: allowed_answer_def)
  next
    case (Inr r)
    then show ?thesis using assms(1) d by (auto simp: allowed_answer_def simp del: answer_fits.simps dest: read_answer[OF assms(2)])
  qed
qed

text \<open>A disturbed connection commits nothing.\<close>

lemma spoilt_transaction:
  assumes "allowed_answer now c (Transaction cmds) s a s'" and "spoilt c (settled now s)"
  shows "(a = Inr Aborted \<or> isl a) \<and> rs_keys s' = rs_keys (settled now s)"
proof -
  have d: "documented now c (Transaction cmds) s = (Aborted, disturb (settled now s) (forget c (settled now s)))"
    using assms(2) by (auto simp: documented_def spoilt_def watched_by_def)
  show ?thesis
  proof (cases a)
    case (Inl err)
    then show ?thesis using assms(1) d by (auto simp: allowed_answer_def)
  next
    case (Inr r)
    then show ?thesis using assms(1) d by (auto simp: allowed_answer_def dest: aborted_answer)
  qed
qed

lemma unwatch_step:
  assumes "interleaved c (unwatched r) s sts x s'"
  shows "list_all quiet sts \<and> x = r"
proof -
  obtain st sts' where st: "sts = st # sts'" "sp_request st = Unwatch"
      "allowed_answer (sp_at st) c Unwatch (sp_before st) (sp_outcome st) (sp_after st)"
      "interleaved c (Return r) (sp_after st) sts' x s'"
    using interleaved_AskD[OF assms] by (auto simp: unwatched_def)
  then have "quiet st"
    by (auto simp: allowed_answer_def quiet_def served_def documented_def split: sum.splits)
  then show ?thesis using st interleaved_ReturnD by fastforce
qed

lemma spoilt_ask:
  assumes "allowed_answer (sp_at st) c q (sp_before st) (sp_outcome st) (sp_after st)"
    and "interleaved c (next_redis (k (sp_outcome st)) unwatched) (sp_after st) sts' x s'"
    and "watched_body ks (Ask q k)" and "spoilt c (served st)"
    and rest: "\<And>s sts. interleaved c (next_redis (k (sp_outcome st)) unwatched) s sts x s'
        \<Longrightarrow> watched_body ks (k (sp_outcome st)) \<Longrightarrow> spoilt c s
        \<Longrightarrow> list_all quiet sts \<and> (without_commit (k (sp_outcome st)) x \<or> isl x)"
  shows "list_all quiet (st # sts') \<and> (without_commit (Ask q k) x \<or> isl x)"
proof (cases q)
  case (Command cmd)
  have "spoilt c (sp_after st)" using spoilt_allowed[OF _ assms(1)] assms(4) Command by (simp add: served_def)
  then have "list_all quiet sts' \<and> (without_commit (k (sp_outcome st)) x \<or> isl x)"
    using assms(3) Command by (intro rest[OF assms(2)]) simp_all
  moreover have "quiet st"
    using assms(1,3) Command by (auto simp: quiet_def served_def dest!: read_step)
  ultimately show ?thesis using Command by auto
next
  case (Transaction cmds)
  have a: "(sp_outcome st = Inr Aborted \<or> isl (sp_outcome st)) \<and> quiet st"
    using spoilt_transaction[of _ c cmds] assms(1,4) Transaction by (auto simp: quiet_def served_def)
  then obtain e where "k (sp_outcome st) = Return (Inl e)"
    using assms(3) Transaction by (cases "sp_outcome st") auto
  then have "x = Inl e \<and> list_all quiet sts'" using assms(2) unwatch_step[of c "Inl e" _ sts' x s'] by simp
  then show ?thesis using a by simp
qed (use assms(3) in auto)

lemma spoilt_commits_nothing:
  assumes "interleaved c (next_redis body unwatched) s sts x s'" and "watched_body ks body" and "spoilt c s"
  shows "list_all quiet sts \<and> (without_commit body x \<or> isl x)"
  using assms
proof (induction body arbitrary: s sts)
  case (Return r)
  then show ?case using unwatch_step[of c r s sts x s'] by simp
next
  case (Clock k)
  obtain now s0 where k: "others c s s0" "interleaved c (next_redis (k now) unwatched) s0 sts x s'"
    using Clock.prems(1) by (rule next_ClockE)
  have "list_all quiet sts \<and> (without_commit (k now) x \<or> isl x)"
    using Clock.prems spoilt_others k by (intro Clock.IH[OF rangeI, of now s0]) auto
  then show ?case by auto
next
  case (Ask q k)
  obtain st sts' where st: "sts = st # sts'" "others c s (sp_before st)" "sp_request st = q"
      "allowed_answer (sp_at st) c q (sp_before st) (sp_outcome st) (sp_after st)"
      "interleaved c (next_redis (k (sp_outcome st)) unwatched) (sp_after st) sts' x s'"
    using Ask.prems(1) by (rule next_AskE)
  have "spoilt c (served st)"
    using Ask.prems(3) st(2) spoilt_others spoilt_settled unfolding served_def by blast
  then show ?case
    unfolding st(1) by (rule spoilt_ask[OF st(4,5) Ask.prems(2)]) (rule Ask.IH[OF rangeI])
qed

text \<open>
  A body that runs while its connection watches the keys of values \<open>v\<close>: nothing is changed, or
  everything happens at a step before which the keys still had these values.
\<close>

lemma undisturbed_transaction:
  assumes "allowed_answer now c (Transaction cmds) s a s'" and "list_all exact cmds"
    and "fmlookup (rs_watched (settled now s)) c = Some (ws, False)"
  shows "rs_keys s' = rs_keys (settled now s) \<and> (a = Inr Aborted \<or> isl a)
    \<or> rs_keys s' = rs_keys (snd (serve now c (Transaction cmds) (settled now s)))
      \<and> (a = Inr (fst (serve now c (Transaction cmds) (settled now s))) \<or> isl a)"
proof -
  let ?s = "settled now s"
  have d: "documented now c (Transaction cmds) s
      = (Replies (fst (redis_commands now cmds ?s)), disturb ?s (forget c (snd (redis_commands now cmds ?s))))"
    using assms(3) by (simp add: documented_def watched_by_def case_prod_unfold)
  have a: "a' = Replies (fst (redis_commands now cmds ?s))"
    if "answer_fits now (Transaction cmds) ?s a' (Replies rs)" for a' rs
    using that exact_replies[OF assms(2), of now ?s] by (cases a') auto
  show ?thesis
    using assms(1,3) d a by (auto simp: allowed_answer_def watched_by_def case_prod_unfold split: sum.splits)
qed

lemma watched_run:
  assumes "interleaved c (next_redis body unwatched) s sts x s'" and "watched_body ks body" and "watching c ks v s"
  shows "list_all quiet sts \<and> (without_commit body x \<or> isl x)
    \<or> (\<exists>pre st post y s2. sts = pre @ st # post \<and> list_all quiet pre \<and> list_all quiet post
         \<and> (\<forall>k \<in> set ks. key_of (served st) k = v k)
         \<and> alone c (sp_at st) body (served st) y s2 \<and> rs_keys (sp_after st) = rs_keys s2 \<and> (x = y \<or> isl x))"
  (is "?nothing sts body \<or> ?commit sts body")
  using assms
proof (induction body arbitrary: s sts)
  case (Return r)
  then show ?case using unwatch_step[of c r s sts x s'] by simp
next
  case (Clock k)
  obtain now s0 where k: "others c s s0" "interleaved c (next_redis (k now) unwatched) s0 sts x s'"
    using Clock.prems(1) by (rule next_ClockE)
  have "?nothing sts (k now) \<or> ?commit sts (k now)"
    using Clock.prems watching_others k by (intro Clock.IH[OF rangeI, of now s0]) auto
  then show ?case by simp blast
next
  case (Ask q k)
  obtain st sts' where st: "sts = st # sts'" "others c s (sp_before st)" "sp_request st = q"
      "allowed_answer (sp_at st) c q (sp_before st) (sp_outcome st) (sp_after st)"
      "interleaved c (next_redis (k (sp_outcome st)) unwatched) (sp_after st) sts' x s'"
    using Ask.prems(1) by (rule next_AskE)
  have w: "watching c ks v (sp_before st)" "watching c ks v (served st)"
    using Ask.prems(3) st(2) watching_others watching_settled unfolding served_def by blast+
  show ?case
  proof (cases "spoilt c (served st)")
    case True
    have "list_all quiet sts \<and> (without_commit (Ask q k) x \<or> isl x)"
      unfolding st(1) by (rule spoilt_ask[OF st(4,5) Ask.prems(2) True spoilt_commits_nothing])
    then show ?thesis by blast
  next
    case False
    then have v: "\<forall>j \<in> set ks. key_of (served st) j = v j"
      using w(2) by (auto simp: watching_def spoilt_def)
    show ?thesis
    proof (cases q)
      case (Command cmd)
      have r: "reads_only ks cmd" using Ask.prems(2) Command by simp
      have q: "quiet st" using st(4) r Command by (auto simp: quiet_def served_def dest!: read_step)
      show ?thesis
      proof (cases "sp_outcome st")
        case (Inl err)
        then obtain e where "k (sp_outcome st) = Return (Inl e)" using Ask.prems(2) Command by auto
        then have "x = Inl e \<and> list_all quiet sts'" using st(5) unwatch_step[of c "Inl e" _ sts' x s'] by simp
        then have "?nothing sts (Ask q k)" using st(1) q by simp
        then show ?thesis by blast
      next
        case (Inr a)
        have a: "sp_outcome st = Inr (Replies [fst (redis_command (sp_at st) cmd (served st))])"
          using st(4) r Inr Command by (auto simp: served_def dest!: read_step)
        have "watching c ks v (sp_after st)" using watching_allowed[OF w(1) st(4)] Command by simp
        then have "?nothing sts' (k (sp_outcome st)) \<or> ?commit sts' (k (sp_outcome st))"
          using Ask.prems(2) Command by (intro Ask.IH[OF rangeI st(5)]) auto
        then show ?thesis
        proof
          assume "?nothing sts' (k (sp_outcome st))"
          then have "?nothing sts (Ask q k)" using st(1) q Command by auto
          then show ?thesis by blast
        next
          assume "?commit sts' (k (sp_outcome st))"
          then obtain pre st' post y s2 where c: "sts' = pre @ st' # post" "list_all quiet pre" "list_all quiet post"
              "\<forall>j \<in> set ks. key_of (served st') j = v j" "alone c (sp_at st') (k (sp_outcome st)) (served st') y s2"
              "rs_keys (sp_after st') = rs_keys s2" "x = y \<or> isl x"
            by blast
          have "fst (redis_command (sp_at st) cmd (served st)) = fst (redis_command (sp_at st') cmd (served st'))"
            using r v c(4) by (intro read_depends) auto
          then have "alone c (sp_at st') (Ask q k) (served st') y s2"
            using c(5) a Command r by (simp add: case_prod_unfold read_changes_nothing)
          then have "?commit sts (Ask q k)"
            using c st(1) q by (intro exI[of _ "st # pre"] exI[of _ st'] exI[of _ post]) auto
          then show ?thesis by blast
        qed
      qed
    next
      case (Transaction cmds)
      obtain ws where ws: "fmlookup (rs_watched (served st)) c = Some (ws, False)"
        using w(2) False by (auto simp: watching_def spoilt_def)
      obtain y where y: "k (sp_outcome st) = Return y" using Ask.prems(2) Transaction by auto
      have x: "x = y" "list_all quiet sts'" using st(5) y unwatch_step[of c y _ sts' x s'] by simp_all
      have isl: "isl y" if failed: "sp_outcome st = Inr Aborted \<or> isl (sp_outcome st)"
      proof -
        obtain e where "k (sp_outcome st) = Return (Inl e)"
          using failed Ask.prems(2) Transaction by (cases "sp_outcome st") auto
        then show ?thesis using y by simp
      qed
      have "rs_keys (sp_after st) = rs_keys (served st) \<and> (sp_outcome st = Inr Aborted \<or> isl (sp_outcome st))
          \<or> rs_keys (sp_after st) = rs_keys (snd (serve (sp_at st) c q (served st)))
            \<and> (sp_outcome st = Inr (fst (serve (sp_at st) c q (served st))) \<or> isl (sp_outcome st))"
        using undisturbed_transaction[of "sp_at st" c cmds "sp_before st" "sp_outcome st" "sp_after st" ws]
          st(4) Ask.prems(2) ws Transaction unfolding served_def by simp
      then show ?thesis
      proof
        assume "rs_keys (sp_after st) = rs_keys (served st) \<and> (sp_outcome st = Inr Aborted \<or> isl (sp_outcome st))"
        then have "quiet st \<and> isl x" using x(1) isl by (auto simp: quiet_def)
        then have "?nothing sts (Ask q k)" using x(2) st(1) by simp
        then show ?thesis by blast
      next
        assume o: "rs_keys (sp_after st) = rs_keys (snd (serve (sp_at st) c q (served st)))
            \<and> (sp_outcome st = Inr (fst (serve (sp_at st) c q (served st))) \<or> isl (sp_outcome st))"
        obtain y' where y': "k (Inr (fst (serve (sp_at st) c q (served st)))) = Return y'"
          using Ask.prems(2) Transaction by auto
        have "x = y' \<or> isl x" using o y y' x(1) isl by auto
        then have "?commit sts (Ask q k)"
          using o y' x(2) st(1) v by (intro exI[of _ "[]"] exI[of _ st] exI[of _ sts']) simp
        then show ?thesis by blast
      qed
    qed (use Ask.prems(2) in auto)
  qed
qed

text \<open>The whole of WATCH, body and UNWATCH.\<close>

definition at_once :: "nat \<Rightarrow> (go_error + 'a) redis \<Rightarrow> redis_step list \<Rightarrow> go_error + 'a \<Rightarrow> bool" where
  "at_once c body sts x \<longleftrightarrow>
    list_all quiet sts \<and> (without_commit body x \<or> isl x) \<or> commits_at c body sts x"

theorem watched_at_once:
  assumes "interleaved c (redis_Watch ks body) s sts x s'" and "watched_body ks body"
  shows "at_once c body sts x"
proof -
  let ?k = "\<lambda>a. case exec_result a of Inl err \<Rightarrow> unwatched (Inl err) | Inr _ \<Rightarrow> next_redis body unwatched"
  obtain st sts' s0 where st: "sts = st # sts'" "sp_before st = s0"
      "allowed_answer (sp_at st) c (Watch ks) s0 (sp_outcome st) (sp_after st)"
      "interleaved c (?k (sp_outcome st)) (sp_after st) sts' x s'"
    using interleaved_AskD[OF assms(1)] by (auto simp: redis_Watch_def)
  have q: "quiet st"
    using st(2,3) by (auto simp: quiet_def served_def allowed_answer_def documented_def split: sum.splits)
  show ?thesis
  proof (cases "exec_result (sp_outcome st)")
    case (Inl err)
    then have "x = Inl err \<and> list_all quiet sts'" using st(4) unwatch_step[of c "Inl err" _ sts' x s'] by simp
    then show ?thesis using st(1) q by (simp add: at_once_def)
  next
    case (Inr rs)
    then have k: "interleaved c (next_redis body unwatched) (sp_after st) sts' x s'" using st(4) by simp
    obtain r where "sp_outcome st = Inr r" using Inr by (cases "sp_outcome st") (auto simp: exec_result_def)
    then have "watching c ks (key_of (sp_after st)) (sp_after st)"
      using st(2,3) by (auto simp: allowed_answer_def documented_def watching_def disturb_watched)
    from watched_run[OF k assms(2) this] show ?thesis
    proof
      assume "list_all quiet sts' \<and> (without_commit body x \<or> isl x)"
      then show ?thesis using st(1) q by (simp add: at_once_def)
    next
      assume "\<exists>pre st' post y s2. sts' = pre @ st' # post \<and> list_all quiet pre \<and> list_all quiet post
          \<and> (\<forall>k \<in> set ks. key_of (served st') k = key_of (sp_after st) k)
          \<and> alone c (sp_at st') body (served st') y s2 \<and> rs_keys (sp_after st') = rs_keys s2 \<and> (x = y \<or> isl x)"
      then obtain pre st' post y s2 where "sts' = pre @ st' # post" "list_all quiet pre" "list_all quiet post"
          "alone c (sp_at st') body (served st') y s2" "rs_keys (sp_after st') = rs_keys s2" "x = y \<or> isl x"
        by blast
      then have "commits_at c body sts x"
        using st(1) q unfolding commits_at_def by (intro exI[of _ "st # pre"] exI[of _ st'] exI[of _ post]) auto
      then show ?thesis by (simp add: at_once_def)
    qed
  qed
qed

subsection \<open>Servers and schedules\<close>

text \<open>A run at an implementation is an interleaved one.\<close>

lemma run_interleaved:
  assumes "implements_redis srv view"
  shows "\<exists>sts. interleaved c p (view db) sts (fst (run_redis srv now c p db)) (view (snd (run_redis srv now c p db)))"
proof (induction p arbitrary: db)
  case (Ask q k)
  have "allowed_answer now c q (view db) (fst (srv now c q db)) (view (snd (srv now c q db)))"
    using assms by (simp add: implements_redis_def)
  then show ?case
    using Ask[OF rangeI, of "fst (srv now c q db)" "snd (srv now c q db)"] interleaved_Ask
    by (fastforce simp: case_prod_unfold)
next
  case (Clock k)
  then show ?case using interleaved_Clock[of c k now "view db"] by fastforce
qed (auto intro: interleaved.intros)

lemma schedule_interleaved:
  assumes "implements_redis srv view" and "fst (run_schedule srv now cs ps db) c = Return x"
  shows "\<exists>sts. interleaved c (ps c) (view db) sts x (view (snd (run_schedule srv now cs ps db)))"
  using assms(2)
proof (induction cs arbitrary: ps db)
  case Nil
  then show ?case using interleaved_Return by fastforce
next
  case (Cons c' cs)
  let ?p = "step_redis srv now c' (ps c') db"
  have IH: "\<exists>sts. interleaved c ((ps(c' := fst ?p)) c) (view (snd ?p)) sts x
      (view (snd (run_schedule srv now cs (ps(c' := fst ?p)) (snd ?p))))"
    using Cons.prems by (intro Cons.IH) (simp add: case_prod_unfold fun_upd_def)
  have a: "allowed_answer now c' q (view db) (fst (srv now c' q db)) (view (snd (srv now c' q db)))" for q
    using assms(1) by (simp add: implements_redis_def)
  show ?case
  proof (cases "c' = c")
    case True
    show ?thesis
    proof (cases "ps c")
      case (Ask q k)
      then show ?thesis
        using IH a[of q] True by (auto simp: step_redis_def case_prod_unfold intro: interleaved_Ask)
    qed (use IH True in \<open>auto simp: step_redis_def case_prod_unfold intro: interleaved.intros\<close>)
  next
    case False
    then show ?thesis
    proof (cases "ps c'")
      case (Ask q k)
      then show ?thesis
        using IH a[of q] False interleaved_other[OF False] by (fastforce simp: step_redis_def case_prod_unfold)
    qed (use IH False in \<open>auto simp: step_redis_def case_prod_unfold\<close>)
  qed
qed

end
