(* ===== verification/Store_Fields.thy ===== *)
theory Store_Fields
  imports Redis_Client Go_Json_Values Admin_Decode Engine_Records
begin

text \<open>
  What the records of the store share: the fields of hashes, the JSON of structs, scores, and
  the operations that read or change one hash or list an index.

  \<^item> An empty list is the nil slice. A hash is the list of the fields that \<open>HSET\<close> sends.
  \<^item> The errors of the \<open>time\<close> and \<open>strconv\<close> packages are named without their texts.
\<close>

subsection \<open>Fields\<close>

type_synonym hash_fields = "(string \<times> string) list"
type_synonym hash = "(string, string) fmap"

definition time_parse_error :: go_error where "time_parse_error = ErrText ''parsing time''"
definition number_parse_error :: go_error where "number_parse_error = ErrText ''strconv: parsing''"
definition json_error :: go_error where "json_error = ErrEngine (ErrCluster ErrJSON)"

definition or_error :: "go_error \<Rightarrow> 'a option \<Rightarrow> go_error + 'a" where
  "or_error err x = (case x of None \<Rightarrow> Inl err | Some v \<Rightarrow> Inr v)"

definition field_time :: "hash \<Rightarrow> string \<Rightarrow> go_error + gtime" where
  "field_time m f = or_error time_parse_error (parse_time (gm_bytes m f))"

text \<open>A time that may be missing is the empty text.\<close>

definition optional_time_text :: "gtime option \<Rightarrow> string" where
  "optional_time_text t = (case t of None \<Rightarrow> [] | Some t \<Rightarrow> format_time t)"

definition field_optional_time :: "hash \<Rightarrow> string \<Rightarrow> go_error + gtime option" where
  "field_optional_time m f =
    (if gm_bytes m f = [] then Inr None
     else bind_err (field_time m f) (\<lambda>t. Inr (Some t)))"

definition field_int :: "hash \<Rightarrow> string \<Rightarrow> go_error + int" where
  "field_int m f = or_error number_parse_error (atoi (defaultString (gm_bytes m f) ''0''))"

definition ParseBool :: "string \<Rightarrow> bool option" where
  "ParseBool s =
    (if s \<in> set [''1'', ''t'', ''T'', ''TRUE'', ''true'', ''True''] then Some True
     else if s \<in> set [''0'', ''f'', ''F'', ''FALSE'', ''false'', ''False''] then Some False else None)"

definition field_bool :: "hash \<Rightarrow> string \<Rightarrow> go_error + bool" where
  "field_bool m f = or_error number_parse_error (ParseBool (defaultString (gm_bytes m f) ''false''))"

definition field_json :: "hash \<Rightarrow> string \<Rightarrow> bytes" where
  "field_json m f = defaultString (gm_bytes m f) ''{}''"

definition field_strings :: "hash \<Rightarrow> string \<Rightarrow> go_error + string list" where
  "field_strings m f =
    (if gm_bytes m f = [] then Inr []
     else or_error json_error (map_option items (decode_strings ([], []) (gm_bytes m f))))"

definition or_now :: "gtime \<Rightarrow> gtime \<Rightarrow> gtime" where
  "or_now now t = (if t = zero_time then now else t)"

subsection \<open>JSON of structs\<close>

text \<open>As \<open>decode_struct\<close>, but a key that names no field is passed over.\<close>

fun read_fields ::
  "string list \<Rightarrow> (string \<Rightarrow> string \<Rightarrow> 'r \<Rightarrow> 'r option) \<Rightarrow> 'r \<Rightarrow> (string \<times> string) list \<Rightarrow> 'r option" where
  "read_fields names store r [] = Some r"
| "read_fields names store r ((k, t) # fs) =
    (case field_of names k of
       None \<Rightarrow> read_fields names store r fs
     | Some n \<Rightarrow> andT (store n t r) (\<lambda>r. read_fields names store r fs))"

definition read_struct ::
  "string list \<Rightarrow> (string \<Rightarrow> string \<Rightarrow> 'r \<Rightarrow> 'r option) \<Rightarrow> 'r \<Rightarrow> string \<Rightarrow> 'r option" where
  "read_struct names store old t =
    (case parse_json t of
       Some SNull \<Rightarrow> Some old
     | Some (SObj _) \<Rightarrow> andT (object_fields t) (read_fields names store old)
     | _ \<Rightarrow> None)"

text \<open>A string left out when it is empty.\<close>

definition omitted_member :: "string \<Rightarrow> string \<Rightarrow> (string \<times> string) list option" where
  "omitted_member name s = optional_member (s \<noteq> []) name (Some (quote_text s))"

subsection \<open>Scores\<close>

text \<open>\<open>UnixNano\<close>, which wraps around, and its conversion to a float.\<close>

definition unix_nano :: "gtime \<Rightarrow> int" where
  "unix_nano t = sint (word_of_int (t - unix_epoch * second) :: 64 word)"

definition float_of_int :: "int \<Rightarrow> float64" where
  "float_of_int n =
    (case f64_round (nat \<bar>n\<bar>) 1 of
       None \<Rightarrow> Infinite (n < 0)
     | Some (m, e) \<Rightarrow> Finite (if n < 0 then - int m else int m) e)"

definition time_score :: "gtime \<Rightarrow> float64" where
  "time_score t = float_of_int (unix_nano t)"

subsection \<open>Hashes\<close>

text \<open>Reading a hash; without fields it is missing. Changing it under WATCH.\<close>

definition load_hash :: "string \<Rightarrow> go_error \<Rightarrow> (gtime \<Rightarrow> hash \<Rightarrow> go_error + 'r) \<Rightarrow> 'r redis_op" where
  "load_hash key missing decode =
    thenDo (redis_HGetAll key) (\<lambda>m.
      if m = fmempty then refuse missing else thenDo time_now (\<lambda>now. lift (decode now m)))"

definition change_hash ::
  "string \<Rightarrow> go_error \<Rightarrow> (hash \<Rightarrow> go_error + 'r) \<Rightarrow> (gtime \<Rightarrow> 'r \<Rightarrow> 'r) \<Rightarrow> ('r \<Rightarrow> hash_fields) \<Rightarrow> 'r redis_op" where
  "change_hash key missing decode change encode =
    redis_Watch [key]
      (thenDo (redis_HGetAll key) (\<lambda>m.
         if m = fmempty then refuse missing
         else
           thenDo (lift (decode m)) (\<lambda>current.
           thenDo time_now (\<lambda>now.
           thenDo (TxPipelined [HSET key (encode (change now current))]) (\<lambda>_.
           give_back (change now current))))))"

definition is_error :: "go_error \<Rightarrow> go_error \<Rightarrow> bool" where
  "is_error target err \<longleftrightarrow> err = target"

text \<open>The records of an index.\<close>

definition list_found :: "string \<Rightarrow> go_error \<Rightarrow> (string \<Rightarrow> 'r redis_op) \<Rightarrow> 'r list redis_op" where
  "list_found index missing load =
    thenDo (redis_SMembers index) (\<lambda>ids. collect_found (is_error missing) load ids)"

text \<open>The time of creation of the stored record, if there is one.\<close>

definition created_before :: "string \<Rightarrow> (gtime \<Rightarrow> hash \<Rightarrow> go_error + 'r) \<Rightarrow> ('r \<Rightarrow> gtime) \<Rightarrow> gtime \<Rightarrow> gtime redis_op" where
  "created_before key decode created now =
    thenDo (redis_HGetAll key) (\<lambda>m.
      if m = fmempty then give_back now
      else thenDo (lift (decode now m)) (\<lambda>current. give_back (created current)))"

end
