(* ===== verification/Store_Laws.thy ===== *)
theory Store_Laws
  imports Redis_Laws Store_Fields
begin

text \<open>
  The pieces operations of the store are made of: whether they may run under WATCH
  (\<open>watched_body\<close>), what they give without a transaction (\<open>without_commit\<close>), and what they do
  alone at the server (\<open>alone\<close>). \<open>change_hash\<close>, the change of one record, is put together here.

  Runs at the reference server, alone and with no key that expires: the rules that compute them.
\<close>

lemmas program_defs = thenDo_def give_back_def refuse_def lift_def time_now_def check_that_def
lemmas call_defs = redis_Exists_def redis_Get_def redis_HGet_def redis_HGetAll_def

lemma thenDo_assoc: "thenDo (thenDo m f) g = thenDo m (\<lambda>x. thenDo (f x) g)"
  by (auto simp: thenDo_def next_redis_assoc intro!: arg_cong[where f = "next_redis m"] split: sum.split)

lemma thenDo_pure [simp]:
  "thenDo (give_back x) f = f x" "thenDo (refuse err) f = refuse err"
  "thenDo (lift (Inr x)) f = f x" "thenDo (lift (Inl err)) f = refuse err"
  by (simp_all add: program_defs)

subsection \<open>Bodies for WATCH\<close>

lemma watched_ends [simp]:
  "watched_body ks (give_back x)" "watched_body ks (refuse err)" "watched_body ks (lift r)"
  by (simp_all add: program_defs)

lemma watched_pure [simp]:
  "watched_body ks (thenDo (lift r) f) \<longleftrightarrow> (\<forall>x. r = Inr x \<longrightarrow> watched_body ks (f x))"
  "watched_body ks (thenDo (give_back x) f) \<longleftrightarrow> watched_body ks (f x)"
  "watched_body ks (thenDo (refuse err) f)"
  "watched_body ks (thenDo time_now g) \<longleftrightarrow> (\<forall>t. watched_body ks (g t))"
  "watched_body ks (thenDo (check_that b err) h) \<longleftrightarrow> (b \<longrightarrow> watched_body ks (h ()))"
  by (auto simp: program_defs split: sum.split)

lemma watched_ask:
  assumes "reads_only ks cmd" and "\<And>x. watched_body ks (f x)"
  shows "watched_body ks (thenDo (ask_for conv cmd) f)"
  using assms by (simp add: ask_for_def ask_def program_defs single_def split: sum.split)

lemma watched_reads:
  "set l \<subseteq> set ks \<Longrightarrow> (\<And>x. watched_body ks (f x)) \<Longrightarrow> watched_body ks (thenDo (redis_Exists l) f)"
  "k \<in> set ks \<Longrightarrow> (\<And>x. watched_body ks (g x)) \<Longrightarrow> watched_body ks (thenDo (redis_Get k) g)"
  "k \<in> set ks \<Longrightarrow> (\<And>x. watched_body ks (g x)) \<Longrightarrow> watched_body ks (thenDo (redis_HGet k n) g)"
  "k \<in> set ks \<Longrightarrow> (\<And>x. watched_body ks (h x)) \<Longrightarrow> watched_body ks (thenDo (redis_HGetAll k) h)"
  "k \<in> set ks \<Longrightarrow> (\<And>x. watched_body ks (t x)) \<Longrightarrow> watched_body ks (thenDo (ask_for as_texts (LRANGE k a b)) t)"
  unfolding call_defs by (intro watched_ask; simp)+

lemma TxPipelined_Ask:
  "cmds \<noteq> [] \<Longrightarrow> TxPipelined cmds = Ask (Transaction cmds) (\<lambda>a. Return (map_sum id (\<lambda>_. ()) (exec_result a)))"
  by (auto simp: TxPipelined_def redis_Exec_def program_defs fun_eq_iff split: sum.split)

lemma watched_commit:
  assumes "list_all exact cmds"
  shows "watched_body ks (TxPipelined cmds)" "watched_body ks (thenDo (TxPipelined cmds) (\<lambda>_. give_back x))"
  using assms
  by (auto simp: TxPipelined_def redis_Exec_def program_defs exec_result_def split: sum.split option.split answer.split)

subsection \<open>Without a transaction\<close>

lemma without_commit_next:
  "without_commit (next_redis m f) y \<longleftrightarrow> (\<exists>x. without_commit m x \<and> without_commit (f x) y)"
  by (induction m) auto

lemma without_commit_thenDo:
  "without_commit (thenDo m f) y \<longleftrightarrow>
    (\<exists>err. without_commit m (Inl err) \<and> y = Inl err) \<or> (\<exists>x. without_commit m (Inr x) \<and> without_commit (f x) y)"
  by (simp add: thenDo_def without_commit_next split_sum_ex)

lemma without_commit_ends [simp]:
  "without_commit (give_back x) y \<longleftrightarrow> y = Inr x" "without_commit (refuse err) y \<longleftrightarrow> y = Inl err"
  "without_commit (lift r) y \<longleftrightarrow> r = y" "without_commit time_now z \<longleftrightarrow> (\<exists>t. z = Inr t)"
  "without_commit (check_that b err) u \<longleftrightarrow> u = (if b then Inr () else Inl err)"
  by (auto simp: program_defs)

lemma no_commit_fails:
  assumes "without_commit (TxPipelined (cmd # cmds)) y"
  shows "isl y"
proof -
  obtain a where a: "\<And>rs. a \<noteq> Inr (Replies rs)" "y = map_sum id (\<lambda>_. ()) (exec_result a)"
    using assms by (auto simp: TxPipelined_Ask)
  then have "isl (exec_result a)"
    by (cases a) (auto simp: exec_result_def split: answer.split)
  then show ?thesis using a(2) by (cases "exec_result a") simp_all
qed

subsection \<open>Alone at the server\<close>

lemma alone_next:
  "alone c now (next_redis m f) s y s' \<longleftrightarrow> (\<exists>x s1. alone c now m s x s1 \<and> alone c now (f x) s1 y s')"
  by (induction m arbitrary: s) auto

lemma alone_thenDo:
  "alone c now (thenDo m f) s y s' \<longleftrightarrow>
    (\<exists>err. alone c now m s (Inl err) s' \<and> y = Inl err)
    \<or> (\<exists>x s1. alone c now m s (Inr x) s1 \<and> alone c now (f x) s1 y s')"
  by (simp add: thenDo_def alone_next split_sum_ex)

lemma alone_ends [simp]:
  "alone c now (give_back x) s y s' \<longleftrightarrow> y = Inr x \<and> s' = s"
  "alone c now (refuse err) s y s' \<longleftrightarrow> y = Inl err \<and> s' = s"
  "alone c now (lift r) s y s' \<longleftrightarrow> r = y \<and> s' = s"
  "alone c now time_now s z s' \<longleftrightarrow> (\<exists>t. z = Inr t) \<and> s' = s"
  "alone c now (check_that b err) s u s' \<longleftrightarrow> u = (if b then Inr () else Inl err) \<and> s' = s"
  by (auto simp: program_defs)

definition fault_of :: "redis_reply \<Rightarrow> go_error" where
  "fault_of r = (case r of Fault t \<Rightarrow> ErrText t | _ \<Rightarrow> unexpected_reply)"

lemma alone_reads [simp]:
  "alone c now (redis_Exists l) s y s' \<longleftrightarrow>
    y = Inr (int (length (filter (\<lambda>k. key_of s k \<noteq> None) l))) \<and> s' = s"
  "alone c now (redis_Get k) s v s' \<longleftrightarrow>
    v = (case key_of s k of None \<Rightarrow> Inr None | Some (EString t) \<Rightarrow> Inr (Some t) | _ \<Rightarrow> Inl (fault_of wrong_type)) \<and> s' = s"
  "alone c now (redis_HGetAll k) s p s' \<longleftrightarrow>
    p = (case hash_of (key_of s k) of None \<Rightarrow> Inl (fault_of wrong_type) | Some m \<Rightarrow> Inr m) \<and> s' = s"
  by (auto simp: call_defs ask_for_def ask_def alone_thenDo single_def as_number_def as_text_def as_pairs_def
      typed_def wrong_type_def fault_of_def split: option.splits entry.splits)

lemma alone_HGet [simp]:
  "alone c now (redis_HGet k f) s v s' \<longleftrightarrow>
    v = (case hash_of (key_of s k) of None \<Rightarrow> Inl (fault_of wrong_type) | Some m \<Rightarrow> Inr (fmlookup m f)) \<and> s' = s"
  by (auto simp: call_defs ask_for_def ask_def alone_thenDo single_def as_text_def
      typed_def wrong_type_def fault_of_def split: option.splits)

lemma alone_transaction:
  assumes "alone c now (TxPipelined cmds) s y s'" and "cmds \<noteq> []"
  shows "rs_keys s' = rs_keys s \<or> rs_keys s' = rs_keys (snd (redis_commands now cmds s))"
  using assms by (auto simp: TxPipelined_Ask case_prod_unfold)

text \<open>A transaction that succeeds.\<close>

lemma alone_commit:
  assumes "alone c now (TxPipelined cmds) s (Inr u) s'" and "cmds \<noteq> []"
  shows "\<not> snd (watched_by s c) \<and> s' = forget c (snd (redis_commands now cmds s))
         \<and> first_fault (fst (redis_commands now cmds s)) = None"
  using assms
  by (auto simp: TxPipelined_def redis_Exec_def alone_thenDo exec_result_def case_prod_unfold
      split: if_splits option.splits)

subsection \<open>The change of one record\<close>

definition change_body ::
  "string \<Rightarrow> go_error \<Rightarrow> (hash \<Rightarrow> go_error + 'r) \<Rightarrow> (gtime \<Rightarrow> 'r \<Rightarrow> 'r) \<Rightarrow> ('r \<Rightarrow> hash_fields) \<Rightarrow> 'r redis_op" where
  "change_body key missing decode change encode =
    thenDo (redis_HGetAll key) (\<lambda>m.
      if m = fmempty then refuse missing
      else
        thenDo (lift (decode m)) (\<lambda>current.
        thenDo time_now (\<lambda>now.
        thenDo (TxPipelined [HSET key (encode (change now current))]) (\<lambda>_.
        give_back (change now current)))))"

lemma change_hash_watches: "change_hash key missing decode change encode = redis_Watch [key] (change_body key missing decode change encode)"
  by (simp add: change_hash_def change_body_def)

lemma change_body_watched: "watched_body [key] (change_body key missing decode change encode)"
  unfolding change_body_def by (intro watched_reads) (auto intro: watched_commit)

lemma change_body_commits: "without_commit (change_body key missing decode change encode) y \<Longrightarrow> isl y"
  unfolding change_body_def
  by (auto simp: without_commit_thenDo dest!: no_commit_fails split: if_splits)

lemma fmupd_nonempty [simp]: "fmupd k v m \<noteq> fmempty"
proof
  assume "fmupd k v m = fmempty"
  then have "fmlookup (fmupd k v m) k = None" by simp
  then show False by simp
qed

lemma put_pairs_nonempty: "m \<noteq> fmempty \<Longrightarrow> put_pairs ps m \<noteq> fmempty"
  by (induction ps arbitrary: m) (simp_all add: put_pairs_def case_prod_unfold)

lemma put_pairs_Cons: "put_pairs (p # ps) m = put_pairs ps (fmupd (fst p) (snd p) m)"
  by (simp add: put_pairs_def case_prod_unfold)

lemma change_body_alone:
  assumes "alone c t (change_body key missing decode change encode) s (Inr r) s'"
  shows "\<exists>m current now. key_of s key = Some (EHash m) \<and> decode m = Inr current \<and> r = change now current
    \<and> rs_keys s' = fmupd key (EHash (put_pairs (encode r) m)) (rs_keys s)"
proof -
  from assms obtain m current now u where m: "hash_of (key_of s key) = Some m" "m \<noteq> fmempty" "decode m = Inr current"
      "r = change now current" and tx: "alone c t (TxPipelined [HSET key (encode r)]) s (Inr u) s'"
    by (auto simp: change_body_def alone_thenDo split: option.splits if_splits)
  have k: "key_of s key = Some (EHash m)" using m(1,2) by (auto simp: hash_of_def split: option.splits entry.splits)
  have "rs_keys s' = fmupd key (EHash (put_pairs (encode r) m)) (rs_keys s)"
    using alone_commit[OF tx] k put_pairs_nonempty[OF m(2)]
    by (simp add: typed_def hash_of_def put_key_def is_empty_def)
  then show ?thesis using k m(3,4) by blast
qed

text \<open>A change that succeeds is made of the record that is stored when it takes effect.\<close>

theorem change_hash_at_once:
  assumes "interleaved c (change_hash key missing decode change encode) s sts (Inr r) s'"
  shows "\<exists>pre st post m current now. sts = pre @ st # post \<and> list_all quiet pre \<and> list_all quiet post
    \<and> key_of (served st) key = Some (EHash m) \<and> decode m = Inr current \<and> r = change now current
    \<and> rs_keys (sp_after st) = fmupd key (EHash (put_pairs (encode r) m)) (rs_keys (served st))"
proof -
  have "at_once c (change_body key missing decode change encode) sts (Inr r)"
    using watched_at_once[OF assms[unfolded change_hash_watches] change_body_watched] .
  then have "commits_at c (change_body key missing decode change encode) sts (Inr r)"
    unfolding at_once_def using change_body_commits by fastforce
  then show ?thesis unfolding commits_at_def using change_body_alone by fastforce
qed

definition lasting :: "redis_state \<Rightarrow> bool" where
  "lasting s \<longleftrightarrow> rs_expiry s = fmempty"

lemma disturb_same: "rs_keys s = rs_keys s0 \<Longrightarrow> disturb s0 s = s"
proof -
  assume "rs_keys s = rs_keys s0"
  then have "(\<lambda>(ks, b). (ks, b \<or> list_ex (\<lambda>k. key_of s k \<noteq> key_of s0 k) ks)) = (id :: string list \<times> bool \<Rightarrow> _)"
    by (auto simp: key_of_def fun_eq_iff list_ex_iff)
  then show ?thesis by (simp add: disturb_def fmap.map_id)
qed

lemma settled_lasting: "lasting s \<Longrightarrow> settled now s = s"
  by (simp add: lasting_def settled_def expire_def Let_def disturb_same)

lemma reference_read: "lasting s \<Longrightarrow> reads_only ks cmd \<Longrightarrow>
   reference now c (Command cmd) s = (Inr (Replies [fst (redis_command now cmd s)]), s)"
  by (simp add: reference_def documented_def settled_lasting case_prod_unfold read_changes_nothing disturb_same)

lemma run_ask_for:
  assumes "lasting s" and "reads_only ks cmd"
  shows "run_redis reference now c (ask_for conv cmd) s
    = (case single (Inr (Replies [fst (redis_command now cmd s)])) of Inl err \<Rightarrow> Inl err | Inr r \<Rightarrow> conv r, s)"
  using reference_read[OF assms] by (simp add: ask_for_def ask_def run_thenDo split: sum.split)

lemmas reply_defs = single_def as_number_def as_text_def as_pairs_def fault_of_def wrong_type_def typed_def

lemma run_Exists:
  "lasting s \<Longrightarrow>
   run_redis reference now c (redis_Exists l) s = (Inr (int (length (filter (\<lambda>k. key_of s k \<noteq> None) l))), s)"
  by (simp add: call_defs run_ask_for[where ks = l] reply_defs)

lemma run_Get:
  assumes "lasting s"
  shows "run_redis reference now c (redis_Get k) s =
      (case key_of s k of None \<Rightarrow> Inr None | Some (EString t) \<Rightarrow> Inr (Some t) | _ \<Rightarrow> Inl (fault_of wrong_type), s)"
proof (cases "key_of s k")
  case (Some x)
  then show ?thesis using assms by (cases x) (simp_all add: call_defs run_ask_for[where ks = "[k]"] reply_defs)
qed (use assms in \<open>simp add: call_defs run_ask_for[where ks = "[k]"] reply_defs\<close>)

lemma run_HGetAll:
  "lasting s \<Longrightarrow> run_redis reference now c (redis_HGetAll k) s =
      (case hash_of (key_of s k) of None \<Rightarrow> Inl (fault_of wrong_type) | Some m \<Rightarrow> Inr m, s)"
  by (cases "hash_of (key_of s k)") (simp_all add: call_defs run_ask_for[where ks = "[k]"] reply_defs)

lemma run_HGet:
  "lasting s \<Longrightarrow> run_redis reference now c (redis_HGet k f) s =
      (case hash_of (key_of s k) of None \<Rightarrow> Inl (fault_of wrong_type) | Some m \<Rightarrow> Inr (fmlookup m f), s)"
  by (cases "hash_of (key_of s k)")
    (simp_all add: call_defs run_ask_for[where ks = "[k]"] reply_defs split: option.split)

lemmas run_reads = run_Exists run_Get run_HGetAll run_HGet

lemma run_commit:
  assumes "lasting s" and "\<not> snd (watched_by s c)" and "cmds \<noteq> []"
    and "first_fault (fst (redis_commands now cmds s)) = None"
  shows "run_redis reference now c (TxPipelined cmds) s
    = (Inr (), disturb s (forget c (snd (redis_commands now cmds s))))"
  using assms
  by (simp add: TxPipelined_Ask reference_def documented_def settled_lasting case_prod_unfold exec_result_def)

text \<open>The state in which the body of WATCH starts.\<close>

definition watched_state :: "nat \<Rightarrow> string list \<Rightarrow> redis_state \<Rightarrow> redis_state" where
  "watched_state c ks s = s\<lparr>rs_watched := fmupd c (fst (watched_by s c) @ ks, snd (watched_by s c)) (rs_watched s)\<rparr>"

lemma watched_state_simps [simp]:
  "lasting (watched_state c ks s) \<longleftrightarrow> lasting s" "key_of (watched_state c ks s) k = key_of s k"
  "rs_keys (watched_state c ks s) = rs_keys s" "rs_expiry (watched_state c ks s) = rs_expiry s"
  "snd (watched_by (watched_state c ks s) c) = snd (watched_by s c)"
  by (simp_all add: watched_state_def lasting_def key_of_def watched_by_def)

lemma run_Watch:
  assumes "lasting s"
  shows "fst (run_redis reference now c (redis_Watch ks body) s) = fst (run_redis reference now c body (watched_state c ks s))"
proof -
  have "reference now c (Watch ks) s = (Inr (Replies [Status]), watched_state c ks s)"
    using assms
    by (simp add: reference_def documented_def settled_lasting watched_state_def[symmetric] disturb_same)
  then show ?thesis
    by (simp add: redis_Watch_def exec_result_def run_next_redis unwatched_def case_prod_unfold)
qed

lemma run_Watch_state:
  assumes "lasting s" and "run_redis reference now c body (watched_state c ks s) = (x, s1)" and "lasting s1"
  shows "\<exists>s2. run_redis reference now c (redis_Watch ks body) s = (x, s2) \<and> rs_keys s2 = rs_keys s1 \<and> lasting s2"
proof -
  have "reference now c (Watch ks) s = (Inr (Replies [Status]), watched_state c ks s)"
    using assms(1)
    by (simp add: reference_def documented_def settled_lasting watched_state_def[symmetric] disturb_same)
  moreover have "lasting (disturb s1 (forget c s1))" using assms(3) by (simp add: lasting_def disturb_def forget_def)
  ultimately show ?thesis
    using assms(2,3)
    by (simp add: redis_Watch_def exec_result_def run_next_redis unwatched_def reference_def documented_def settled_lasting)
qed

lemma reference_run:
  "fst (run_redis reference now c p s) = x \<Longrightarrow> \<exists>sts s'. interleaved c p s sts x s'"
  using run_interleaved[OF reference_implements, of c p s now] by auto

text \<open>The change of a record succeeds when the record can be read.\<close>

lemma change_hash_runs:
  assumes "lasting s" and "\<not> snd (watched_by s c)" and "key_of s key = Some (EHash m)" and "m \<noteq> fmempty"
    and "decode m = Inr current"
  shows "fst (run_redis reference now c (change_hash key missing decode change encode) s) = Inr (change now current)"
  using assms
  by (simp add: change_hash_def run_Watch run_thenDo run_reads hash_of_def run_commit typed_def)

lemma change_hash_state:
  assumes "lasting s" and "\<not> snd (watched_by s c)" and "key_of s key = Some (EHash m)" and "m \<noteq> fmempty"
    and "decode m = Inr current"
  shows "\<exists>s'. run_redis reference now c (change_hash key missing decode change encode) s = (Inr (change now current), s')
    \<and> rs_keys s' = fmupd key (EHash (put_pairs (encode (change now current)) m)) (rs_keys s) \<and> lasting s'"
proof -
  let ?ws = "watched_state c [key] s"
  let ?s1 = "disturb ?ws (forget c (put_key key (EHash (put_pairs (encode (change now current)) m)) ?ws))"
  have "run_redis reference now c (change_body key missing decode change encode) ?ws = (Inr (change now current), ?s1)"
    using assms by (simp add: change_body_def run_thenDo run_reads hash_of_def run_commit typed_def)
  moreover have "lasting ?s1 \<and> rs_keys ?s1 = fmupd key (EHash (put_pairs (encode (change now current)) m)) (rs_keys s)"
    using assms(1) put_pairs_nonempty[OF assms(4)] by (simp add: put_key_def is_empty_def lasting_def disturb_def forget_def)
  ultimately show ?thesis using run_Watch_state[OF assms(1)] by (fastforce simp: change_hash_watches)
qed

lemma run_HSET:
  assumes "lasting s" and "key_of s k = Some (EHash m)" and "m \<noteq> fmempty"
  shows "\<exists>s'. run_redis reference now c (redis_write (HSET k ps)) s = (Inr (), s')
    \<and> rs_keys s' = fmupd k (EHash (put_pairs ps m)) (rs_keys s) \<and> lasting s'"
proof -
  let ?s1 = "disturb s (put_key k (EHash (put_pairs ps m)) s)"
  have "run_redis reference now c (redis_write (HSET k ps)) s = (Inr (), ?s1)"
    using assms
    by (simp add: redis_write_def ask_def run_thenDo reference_def documented_def settled_lasting typed_def hash_of_def single_def)
  moreover have "lasting ?s1 \<and> rs_keys ?s1 = fmupd k (EHash (put_pairs ps m)) (rs_keys s)"
    using assms(1) put_pairs_nonempty[OF assms(3)] by (simp add: put_key_def is_empty_def lasting_def disturb_def)
  ultimately show ?thesis by blast
qed

text \<open>In a schedule, a connection may run the first part of its program in one go.\<close>

lemma schedule_part:
  "run_redis srv now c m db = (x, db') \<Longrightarrow>
   \<exists>n. \<forall>cs. run_schedule srv now (replicate n c @ cs) (ps(c := next_redis m f)) db = run_schedule srv now cs (ps(c := f x)) db'"
proof (induction m arbitrary: db)
  case (Return z)
  then show ?case by (intro exI[of _ 0]) simp
next
  case (Ask q k)
  have "run_redis srv now c (k (fst (srv now c q db))) (snd (srv now c q db)) = (x, db')"
    using Ask.prems by (simp add: case_prod_unfold)
  from Ask.IH[OF rangeI this] obtain n where "\<forall>cs. run_schedule srv now (replicate n c @ cs)
      (ps(c := next_redis (k (fst (srv now c q db))) f)) (snd (srv now c q db)) = run_schedule srv now cs (ps(c := f x)) db'" ..
  then show ?case by (intro exI[of _ "Suc n"]) (simp add: step_redis_def case_prod_unfold fun_upd_def cong: if_cong)
next
  case (Clock k)
  have "run_redis srv now c (k now) db = (x, db')" using Clock.prems by simp
  from Clock.IH[OF rangeI this] obtain n where "\<forall>cs. run_schedule srv now (replicate n c @ cs)
      (ps(c := next_redis (k now) f)) db = run_schedule srv now cs (ps(c := f x)) db'" ..
  then show ?case by (intro exI[of _ "Suc n"]) (simp add: step_redis_def fun_upd_def cong: if_cong)
qed

end
