(* ===== verification/Store_Records.thy ===== *)
theory Store_Records
  imports Store_Fields Room_Access
begin

text \<open>
  The records of \<open>cluster/redis.go\<close> as they are kept in Redis: the names of the keys, the
  fields of the hashes of rooms, threads, notifications and settings, and the JSON of
  comments, of the messages between the nodes and of the Yjs records.

  A key that comes twice in a comment decodes the elements of its list into those that the
  first one left; the spare capacity behind them is not modelled.
\<close>

subsection \<open>Keys\<close>

definition connAliveKey :: "conn_id \<Rightarrow> string" where
  "connAliveKey connID = ''conn:'' @ connID @ '':alive''"

definition connMetaKey :: "conn_id \<Rightarrow> string" where
  "connMetaKey connID = ''conn:'' @ connID @ '':meta''"

definition connRoomsKey :: "conn_id \<Rightarrow> string" where
  "connRoomsKey connID = ''conn:'' @ connID @ '':rooms''"

definition roomMembersKey :: "room_id \<Rightarrow> string" where
  "roomMembersKey room = ''room:'' @ room @ '':members''"

definition roomPresenceKey :: "room_id \<Rightarrow> string" where
  "roomPresenceKey room = ''room:'' @ room @ '':presence''"

definition roomRecordKey :: "room_id \<Rightarrow> string" where
  "roomRecordKey room = ''room:'' @ room @ '':record''"

definition roomRecordScanPattern :: "string \<Rightarrow> string" where
  "roomRecordScanPattern pre = ''room:'' @ pre @ ''*:record''"

definition roomStorageKey :: "room_id \<Rightarrow> string" where
  "roomStorageKey room = ''room:'' @ room @ '':storage''"

definition roomStorageSequenceKey :: "room_id \<Rightarrow> string" where
  "roomStorageSequenceKey room = ''room:'' @ room @ '':storage:seq''"

definition roomStorageOpKey :: "room_id \<Rightarrow> string \<Rightarrow> string" where
  "roomStorageOpKey room opID = ''room:'' @ room @ '':storage:op:'' @ opID"

definition roomEventLogKey :: "room_id \<Rightarrow> string" where
  "roomEventLogKey room = ''room:'' @ room @ '':events''"

definition roomEventSequenceKey :: "room_id \<Rightarrow> string" where
  "roomEventSequenceKey room = ''room:'' @ room @ '':events:seq''"

definition roomEventAckKey :: "room_id \<Rightarrow> string" where
  "roomEventAckKey room = ''room:'' @ room @ '':events:acks''"

definition roomThreadsKey :: "room_id \<Rightarrow> string" where
  "roomThreadsKey room = ''room:'' @ room @ '':threads''"

definition roomThreadKey :: "room_id \<Rightarrow> string \<Rightarrow> string" where
  "roomThreadKey room threadID = ''room:'' @ room @ '':thread:'' @ threadID"

definition roomThreadCommentsKey :: "room_id \<Rightarrow> string \<Rightarrow> string" where
  "roomThreadCommentsKey room threadID = ''room:'' @ room @ '':thread:'' @ threadID @ '':comments''"

definition roomThreadReadStateKey :: "room_id \<Rightarrow> string \<Rightarrow> string" where
  "roomThreadReadStateKey room threadID = ''room:'' @ room @ '':thread:'' @ threadID @ '':read''"

definition inboxNotificationKey :: "string \<Rightarrow> string" where
  "inboxNotificationKey notificationID = ''inbox:'' @ notificationID"

definition userInboxKey :: "string \<Rightarrow> string" where
  "userInboxKey userID = ''user:'' @ userID @ '':inbox''"

definition userInboxUnreadKey :: "string \<Rightarrow> string" where
  "userInboxUnreadKey userID = ''user:'' @ userID @ '':inbox:unread''"

definition userNotificationSettingsKey :: "string \<Rightarrow> string" where
  "userNotificationSettingsKey userID = ''user:'' @ userID @ '':notification_settings''"

definition userRoomSubscriptionSettingsKey :: "string \<Rightarrow> string" where
  "userRoomSubscriptionSettingsKey userID = ''user:'' @ userID @ '':room_subscription_settings''"

definition roomSubscriptionSettingsKey :: "room_id \<Rightarrow> string \<Rightarrow> string" where
  "roomSubscriptionSettingsKey room userID = ''room:'' @ room @ '':user:'' @ userID @ '':subscription_settings''"

definition roomFromRecordKey :: "string \<Rightarrow> room_id option" where
  "roomFromRecordKey key =
    (if length key \<le> 12 \<or> take 5 key \<noteq> ''room:'' \<or> drop (length key - 7) key \<noteq> '':record'' then None
     else Some (drop 5 (take (length key - 7) key)))"

definition roomEphemeralPresenceKey :: "room_id \<Rightarrow> string" where
  "roomEphemeralPresenceKey room = ''room:'' @ room @ '':presence:ephemeral''"

definition roomEphemeralPresenceAliveKey :: "room_id \<Rightarrow> conn_id \<Rightarrow> string" where
  "roomEphemeralPresenceAliveKey room connID = ''room:'' @ room @ '':presence:ephemeral:'' @ connID @ '':alive''"

definition roomYJSSnapshotKey :: "room_id \<Rightarrow> string" where
  "roomYJSSnapshotKey room = ''room:'' @ room @ '':yjs:snapshot''"

definition roomYJSUpdatesKey :: "room_id \<Rightarrow> string" where
  "roomYJSUpdatesKey room = ''room:'' @ room @ '':yjs:updates''"

definition roomYJSSnapshotV2Key :: "room_id \<Rightarrow> string" where
  "roomYJSSnapshotV2Key room = ''room:'' @ room @ '':yjs:snapshot:v2''"

definition roomYJSUpdatesV2Key :: "room_id \<Rightarrow> string" where
  "roomYJSUpdatesV2Key room = ''room:'' @ room @ '':yjs:updates:v2''"

definition roomYJSSequenceKey :: "room_id \<Rightarrow> string" where
  "roomYJSSequenceKey room = ''room:'' @ room @ '':yjs:seq''"

definition nodeConnsKey :: "string \<Rightarrow> string" where
  "nodeConnsKey nodeID = ''node:'' @ nodeID @ '':conns''"

definition nodeStatsKey :: "string \<Rightarrow> string" where
  "nodeStatsKey nodeID = ''stats:node:'' @ nodeID"

definition statsNodesKey :: string where
  "statsNodesKey = ''stats:nodes''"

subsection \<open>Rooms\<close>

text \<open>Lists and maps that were cloned are not nil, and written as such when empty.\<close>

definition access_list_text :: "string list \<Rightarrow> string" where
  "access_list_text xs = array_text (map quote_text xs)"

definition cloned_map_text :: "access_map \<Rightarrow> string" where
  "cloned_map_text m =
    object_text (map (\<lambda>k. (quote_body k, access_list_text (the (fmlookup m k)))) (sorted_ids (fmdom m)))"

definition field_access_map :: "hash \<Rightarrow> string \<Rightarrow> go_error + access_map" where
  "field_access_map m f =
    (if gm_bytes m f = [] then Inr fmempty
     else or_error json_error
       (map_option (\<lambda>c. case c of None \<Rightarrow> fmempty | Some c \<Rightarrow> c) (decode_access_map None (gm_bytes m f))))"

definition encodeRoomRecord :: "RoomRecord \<Rightarrow> hash_fields" where
  "encodeRoomRecord r =
    (let r = normalizeRoomRecord r in
     [(''id'', rr_ID r), (''metadata'', rr_Metadata r),
      (''default_accesses'', access_list_text (rr_DefaultAccesses r)),
      (''users_accesses'', cloned_map_text (rr_UsersAccesses r)),
      (''groups_accesses'', cloned_map_text (rr_GroupsAccesses r)),
      (''created_at'', format_time (rr_CreatedAt r)), (''updated_at'', format_time (rr_UpdatedAt r))])"

definition decodeRoomRecord :: "hash \<Rightarrow> go_error + RoomRecord" where
  "decodeRoomRecord m =
    bind_err (field_time m ''created_at'') (\<lambda>created.
    bind_err (field_time m ''updated_at'') (\<lambda>updated.
    bind_err (field_strings m ''default_accesses'') (\<lambda>defaults.
    bind_err (field_access_map m ''users_accesses'') (\<lambda>users.
    bind_err (field_access_map m ''groups_accesses'') (\<lambda>groups.
    Inr (normalizeRoomRecord
      \<lparr>rr_ID = gm_bytes m ''id'', rr_Metadata = field_json m ''metadata'', rr_DefaultAccesses = defaults,
       rr_UsersAccesses = users, rr_GroupsAccesses = groups, rr_CreatedAt = created, rr_UpdatedAt = updated\<rparr>))))))"

subsection \<open>Threads and comments\<close>

definition encodeThreadRecord :: "ThreadRecord \<Rightarrow> hash_fields" where
  "encodeThreadRecord r =
    (let r = normalizeThreadRecord r in
     [(''type'', tr_Type r), (''id'', tr_ID r), (''room_id'', tr_RoomID r), (''resolved'', bool_text (tr_Resolved r)),
      (''metadata'', tr_Metadata r), (''created_at'', format_time (tr_CreatedAt r)),
      (''updated_at'', format_time (tr_UpdatedAt r))])"

definition decodeThreadRecord :: "hash \<Rightarrow> go_error + ThreadRecord" where
  "decodeThreadRecord m =
    bind_err (field_time m ''created_at'') (\<lambda>created.
    bind_err (field_time m ''updated_at'') (\<lambda>updated.
    bind_err (field_bool m ''resolved'') (\<lambda>resolved.
    Inr (normalizeThreadRecord
      \<lparr>tr_Type = defaultString (gm_bytes m ''type'') ''thread'', tr_ID = gm_bytes m ''id'',
       tr_RoomID = gm_bytes m ''room_id'', tr_Comments = [], tr_Resolved = resolved,
       tr_Metadata = field_json m ''metadata'', tr_ReadAt = None, tr_Unread = None, tr_CreatedAt = created,
       tr_UpdatedAt = updated\<rparr>))))"

definition encodeCommentRecord :: "CommentRecord \<Rightarrow> go_error + string" where
  "encodeCommentRecord r = or_error json_error (CommentRecord_text (normalizeCommentRecord r))"

definition no_reaction :: CommentReaction where
  "no_reaction = \<lparr>re_Emoji = [], re_UserID = []\<rparr>"

definition store_reaction :: "string \<Rightarrow> string \<Rightarrow> CommentReaction \<Rightarrow> CommentReaction option" where
  "store_reaction n t r =
    (if n = ''emoji'' then map_option (\<lambda>v. r\<lparr>re_Emoji := v\<rparr>) (decode_text (re_Emoji r) t)
     else map_option (\<lambda>v. r\<lparr>re_UserID := v\<rparr>) (decode_text (re_UserID r) t))"

definition unmarshal_reactions :: "CommentReaction list \<Rightarrow> string \<Rightarrow> CommentReaction list option" where
  "unmarshal_reactions old t =
    map_option items (unmarshal_slice (read_struct [''emoji'', ''userId''] store_reaction) no_reaction (old, []) t)"

definition store_comment :: "string \<Rightarrow> string \<Rightarrow> CommentRecord \<Rightarrow> CommentRecord option" where
  "store_comment n t r =
    (if n = ''type'' then map_option (\<lambda>v. r\<lparr>cr_Type := v\<rparr>) (decode_text (cr_Type r) t)
     else if n = ''threadId'' then map_option (\<lambda>v. r\<lparr>cr_ThreadID := v\<rparr>) (decode_text (cr_ThreadID r) t)
     else if n = ''roomId'' then map_option (\<lambda>v. r\<lparr>cr_RoomID := v\<rparr>) (decode_text (cr_RoomID r) t)
     else if n = ''id'' then map_option (\<lambda>v. r\<lparr>cr_ID := v\<rparr>) (decode_text (cr_ID r) t)
     else if n = ''userId'' then map_option (\<lambda>v. r\<lparr>cr_UserID := v\<rparr>) (decode_text (cr_UserID r) t)
     else if n = ''createdAt'' then map_option (\<lambda>v. r\<lparr>cr_CreatedAt := v\<rparr>) (decode_time (cr_CreatedAt r) t)
     else if n = ''editedAt'' then map_option (\<lambda>v. r\<lparr>cr_EditedAt := v\<rparr>) (unmarshal_time t)
     else if n = ''deletedAt'' then map_option (\<lambda>v. r\<lparr>cr_DeletedAt := v\<rparr>) (unmarshal_time t)
     else if n = ''body'' then Some (r\<lparr>cr_Body := t\<rparr>)
     else if n = ''metadata'' then Some (r\<lparr>cr_Metadata := t\<rparr>)
     else if n = ''mentions''
     then map_option (\<lambda>v. r\<lparr>cr_Mentions := items v\<rparr>) (decode_strings (cr_Mentions r, []) t)
     else map_option (\<lambda>v. r\<lparr>cr_Reactions := v\<rparr>) (unmarshal_reactions (cr_Reactions r) t))"

definition no_comment :: CommentRecord where
  "no_comment = \<lparr>cr_Type = [], cr_ThreadID = [], cr_RoomID = [], cr_ID = [], cr_UserID = [], cr_CreatedAt = zero_time,
     cr_EditedAt = None, cr_DeletedAt = None, cr_Body = [], cr_Metadata = [], cr_Mentions = [], cr_Reactions = []\<rparr>"

definition comment_names :: "string list" where
  "comment_names = [''type'', ''threadId'', ''roomId'', ''id'', ''userId'', ''createdAt'', ''editedAt'', ''deletedAt'',
     ''body'', ''metadata'', ''mentions'', ''reactions'']"

definition decodeCommentRecord :: "string \<Rightarrow> go_error + CommentRecord" where
  "decodeCommentRecord raw =
    or_error json_error (map_option normalizeCommentRecord (read_struct comment_names store_comment no_comment raw))"

subsection \<open>Notifications and settings\<close>

definition encodeInboxNotificationRecord :: "InboxNotificationRecord \<Rightarrow> hash_fields" where
  "encodeInboxNotificationRecord r =
    (let r = normalizeInboxNotificationRecord r in
     [(''id'', in_ID r), (''user_id'', in_UserID r), (''kind'', in_Kind r), (''subject_id'', in_SubjectID r),
      (''thread_id'', in_ThreadID r), (''room_id'', in_RoomID r), (''read_at'', optional_time_text (in_ReadAt r)),
      (''notified_at'', format_time (in_NotifiedAt r)), (''activity_data'', in_ActivityData r)])"

definition decodeInboxNotificationRecord :: "hash \<Rightarrow> go_error + InboxNotificationRecord" where
  "decodeInboxNotificationRecord m =
    bind_err (field_time m ''notified_at'') (\<lambda>notified.
    bind_err (field_optional_time m ''read_at'') (\<lambda>readAt.
    Inr (normalizeInboxNotificationRecord
      \<lparr>in_ID = gm_bytes m ''id'', in_UserID = gm_bytes m ''user_id'', in_Kind = gm_bytes m ''kind'',
       in_SubjectID = gm_bytes m ''subject_id'', in_ThreadID = gm_bytes m ''thread_id'', in_RoomID = gm_bytes m ''room_id'',
       in_ReadAt = readAt, in_NotifiedAt = notified, in_ActivityData = field_json m ''activity_data''\<rparr>)))"

definition encodeRoomSubscriptionSettings :: "RoomSubscriptionSettings \<Rightarrow> hash_fields" where
  "encodeRoomSubscriptionSettings r =
    (let r = normalizeRoomSubscriptionSettings r in
     [(''room_id'', rs_RoomID r), (''user_id'', rs_UserID r), (''threads'', rs_Threads r),
      (''text_mentions'', rs_TextMentions r), (''updated_at'', format_time (rs_UpdatedAt r))])"

definition decodeRoomSubscriptionSettings :: "hash \<Rightarrow> go_error + RoomSubscriptionSettings" where
  "decodeRoomSubscriptionSettings m =
    bind_err (field_time m ''updated_at'') (\<lambda>updated.
    Inr (normalizeRoomSubscriptionSettings
      \<lparr>rs_RoomID = gm_bytes m ''room_id'', rs_UserID = gm_bytes m ''user_id'', rs_Threads = gm_bytes m ''threads'',
       rs_TextMentions = gm_bytes m ''text_mentions'', rs_UpdatedAt = updated\<rparr>))"

subsection \<open>Messages between the nodes\<close>

definition PublishedEvent_text :: "PublishedEvent \<Rightarrow> string option" where
  "PublishedEvent_text e = members_text
    [text_member ''room'' (pe_Room e), text_member ''event'' (pe_Event e), member ''payload'' (raw_marshal (pe_Payload e)),
     omitted_member ''exclude_sender_conn_id'' (pe_ExcludeSenderConnID e), omitted_member ''trace_id'' (pe_TraceID e),
     optional_member (pe_Sequence e \<noteq> 0) ''seq'' (Some (format_uint (pe_Sequence e))),
     text_member ''origin_node'' (pe_OriginNode e)]"

definition store_event :: "string \<Rightarrow> string \<Rightarrow> PublishedEvent \<Rightarrow> PublishedEvent option" where
  "store_event n t e =
    (if n = ''room'' then map_option (\<lambda>v. e\<lparr>pe_Room := v\<rparr>) (decode_text (pe_Room e) t)
     else if n = ''event'' then map_option (\<lambda>v. e\<lparr>pe_Event := v\<rparr>) (decode_text (pe_Event e) t)
     else if n = ''payload'' then Some (e\<lparr>pe_Payload := t\<rparr>)
     else if n = ''exclude_sender_conn_id''
     then map_option (\<lambda>v. e\<lparr>pe_ExcludeSenderConnID := v\<rparr>) (decode_text (pe_ExcludeSenderConnID e) t)
     else if n = ''trace_id'' then map_option (\<lambda>v. e\<lparr>pe_TraceID := v\<rparr>) (decode_text (pe_TraceID e) t)
     else if n = ''seq'' then map_option (\<lambda>v. e\<lparr>pe_Sequence := v\<rparr>) (decode_uint (pe_Sequence e) t)
     else map_option (\<lambda>v. e\<lparr>pe_OriginNode := v\<rparr>) (decode_text (pe_OriginNode e) t))"

definition no_event :: PublishedEvent where
  "no_event = \<lparr>pe_Room = [], pe_Event = [], pe_Payload = [], pe_ExcludeSenderConnID = [], pe_TraceID = [],
     pe_Sequence = 0, pe_OriginNode = []\<rparr>"

definition unmarshal_event :: "string \<Rightarrow> PublishedEvent option" where
  "unmarshal_event t =
    read_struct [''room'', ''event'', ''payload'', ''exclude_sender_conn_id'', ''trace_id'', ''seq'', ''origin_node'']
      store_event no_event t"

definition PresenceEvent_text :: "PresenceEvent \<Rightarrow> string option" where
  "PresenceEvent_text e = members_text
    [text_member ''room'' (pr_Room e), text_member ''conn_id'' (pr_ConnID e),
     optional_member (pr_State e \<noteq> []) ''state'' (raw_marshal (pr_State e)),
     optional_member (pr_Offline e) ''offline'' (Some (bool_text True)),
     text_member ''origin_node'' (pr_OriginNode e)]"

definition store_presence :: "string \<Rightarrow> string \<Rightarrow> PresenceEvent \<Rightarrow> PresenceEvent option" where
  "store_presence n t e =
    (if n = ''room'' then map_option (\<lambda>v. e\<lparr>pr_Room := v\<rparr>) (decode_text (pr_Room e) t)
     else if n = ''conn_id'' then map_option (\<lambda>v. e\<lparr>pr_ConnID := v\<rparr>) (decode_text (pr_ConnID e) t)
     else if n = ''state'' then Some (e\<lparr>pr_State := t\<rparr>)
     else if n = ''offline'' then map_option (\<lambda>v. e\<lparr>pr_Offline := v\<rparr>) (decode_bool (pr_Offline e) t)
     else map_option (\<lambda>v. e\<lparr>pr_OriginNode := v\<rparr>) (decode_text (pr_OriginNode e) t))"

definition no_presence :: PresenceEvent where
  "no_presence = \<lparr>pr_Room = [], pr_ConnID = [], pr_State = [], pr_Offline = False, pr_OriginNode = []\<rparr>"

definition unmarshal_presence :: "string \<Rightarrow> PresenceEvent option" where
  "unmarshal_presence t =
    read_struct [''room'', ''conn_id'', ''state'', ''offline'', ''origin_node''] store_presence no_presence t"

text \<open>The sequence is an \<open>int64\<close>, the kind a byte.\<close>

definition YJSEvent_text :: "YJSEvent \<Rightarrow> string option" where
  "YJSEvent_text e = members_text
    [text_member ''room'' (ye_Room e), member ''kind'' (Some (int_digits (uint (ye_Kind e)))),
     member ''update'' (Some (bytes_text (ye_Update e))),
     optional_member (ye_Sequence e \<noteq> 0) ''sequence'' (Some (format_int (sint (ye_Sequence e)))),
     text_member ''origin_node'' (ye_OriginNode e), omitted_member ''origin_conn_id'' (ye_OriginConnID e)]"

definition decode_byte :: "8 word \<Rightarrow> string \<Rightarrow> 8 word option" where
  "decode_byte old t =
    (case unmarshal_uint t of
       None \<Rightarrow> None
     | Some None \<Rightarrow> Some old
     | Some (Some n) \<Rightarrow> if uint n \<le> 255 then Some (word_of_int (uint n)) else None)"

definition store_yjs_event :: "string \<Rightarrow> string \<Rightarrow> YJSEvent \<Rightarrow> YJSEvent option" where
  "store_yjs_event n t e =
    (if n = ''room'' then map_option (\<lambda>v. e\<lparr>ye_Room := v\<rparr>) (decode_text (ye_Room e) t)
     else if n = ''kind'' then map_option (\<lambda>v. e\<lparr>ye_Kind := v\<rparr>) (decode_byte (ye_Kind e) t)
     else if n = ''update'' then map_option (\<lambda>v. e\<lparr>ye_Update := v\<rparr>) (unmarshal_bytes t)
     else if n = ''sequence''
     then map_option (\<lambda>v. e\<lparr>ye_Sequence := word_of_int v\<rparr>) (decode_int (sint (ye_Sequence e)) t)
     else if n = ''origin_node'' then map_option (\<lambda>v. e\<lparr>ye_OriginNode := v\<rparr>) (decode_text (ye_OriginNode e) t)
     else map_option (\<lambda>v. e\<lparr>ye_OriginConnID := v\<rparr>) (decode_text (ye_OriginConnID e) t))"

definition no_yjs_event :: YJSEvent where
  "no_yjs_event = \<lparr>ye_Room = [], ye_Kind = 0, ye_Update = [], ye_Sequence = 0, ye_OriginNode = [], ye_OriginConnID = []\<rparr>"

definition unmarshal_yjs_event :: "string \<Rightarrow> YJSEvent option" where
  "unmarshal_yjs_event t =
    read_struct [''room'', ''kind'', ''update'', ''sequence'', ''origin_node'', ''origin_conn_id'']
      store_yjs_event no_yjs_event t"

subsection \<open>Yjs records\<close>

record yjsUpdateRecord =
  yu_Seq :: int
  yu_Kind :: YJSEventKind
  yu_Update :: bytes

definition KindValue :: "yjsUpdateRecord \<Rightarrow> YJSEventKind" where
  "KindValue r = (if yu_Kind r = 0 then YJSEventUpdate else yu_Kind r)"

record yjsSnapshotRecord =
  ysr_CheckpointSeq :: int
  ysr_Snapshot :: bytes
  ysr_Hash :: string

definition encodeYJSUpdateRecord :: "yjsUpdateRecord \<Rightarrow> string" where
  "encodeYJSUpdateRecord r =
    object_text
      ([(''seq'', format_int (yu_Seq r))]
       @ (if yu_Kind r = 0 then [] else [(''kind'', int_digits (uint (yu_Kind r)))])
       @ [(''update'', bytes_text (yu_Update r))])"

definition store_update :: "string \<Rightarrow> string \<Rightarrow> yjsUpdateRecord \<Rightarrow> yjsUpdateRecord option" where
  "store_update n t r =
    (if n = ''seq'' then map_option (\<lambda>v. r\<lparr>yu_Seq := v\<rparr>) (decode_int (yu_Seq r) t)
     else if n = ''kind'' then map_option (\<lambda>v. r\<lparr>yu_Kind := v\<rparr>) (decode_byte (yu_Kind r) t)
     else map_option (\<lambda>v. r\<lparr>yu_Update := v\<rparr>) (unmarshal_bytes t))"

definition decodeYJSUpdateRecord :: "string \<Rightarrow> go_error + yjsUpdateRecord" where
  "decodeYJSUpdateRecord raw =
    (case read_struct [''seq'', ''kind'', ''update''] store_update \<lparr>yu_Seq = 0, yu_Kind = 0, yu_Update = []\<rparr> raw of
       None \<Rightarrow> Inl json_error
     | Some r \<Rightarrow>
         if yu_Seq r \<le> 0 \<or> yu_Update r = [] then Inl (ErrText ''invalid yjs update record'')
         else if \<not> isDurableYJSEventKind (KindValue r) then Inl (ErrText ''invalid yjs update kind'')
         else Inr r)"

definition encodeYJSSnapshotRecord :: "yjsSnapshotRecord \<Rightarrow> string" where
  "encodeYJSSnapshotRecord r =
    (let hash = YJSSnapshotHash (ysr_Snapshot r) in
     object_text
       ([(''checkpoint_seq'', format_int (ysr_CheckpointSeq r)), (''snapshot'', bytes_text (ysr_Snapshot r))]
        @ (if hash = [] then [] else [(''hash'', quote_text hash)])))"

definition store_yjs_snapshot :: "string \<Rightarrow> string \<Rightarrow> yjsSnapshotRecord \<Rightarrow> yjsSnapshotRecord option" where
  "store_yjs_snapshot n t r =
    (if n = ''checkpoint_seq'' then map_option (\<lambda>v. r\<lparr>ysr_CheckpointSeq := v\<rparr>) (decode_int (ysr_CheckpointSeq r) t)
     else if n = ''snapshot'' then map_option (\<lambda>v. r\<lparr>ysr_Snapshot := v\<rparr>) (unmarshal_bytes t)
     else map_option (\<lambda>v. r\<lparr>ysr_Hash := v\<rparr>) (decode_text (ysr_Hash r) t))"

definition no_yjs_snapshot :: yjsSnapshotRecord where
  "no_yjs_snapshot = \<lparr>ysr_CheckpointSeq = 0, ysr_Snapshot = [], ysr_Hash = []\<rparr>"

definition decodeYJSSnapshotRecord :: "string \<Rightarrow> go_error + yjsSnapshotRecord" where
  "decodeYJSSnapshotRecord raw =
    (case read_struct [''checkpoint_seq'', ''snapshot'', ''hash''] store_yjs_snapshot no_yjs_snapshot raw of
       None \<Rightarrow> Inl json_error
     | Some r \<Rightarrow>
         if ysr_CheckpointSeq r < 0 \<or> ysr_Snapshot r = [] then Inl (ErrText ''invalid yjs snapshot record'')
         else if ysr_Hash r \<noteq> [] \<and> ysr_Hash r \<noteq> YJSSnapshotHash (ysr_Snapshot r)
         then Inl (ErrText ''invalid yjs snapshot hash'')
         else Inr (r\<lparr>ysr_Hash := YJSSnapshotHash (ysr_Snapshot r)\<rparr>))"

end
