(* ===== verification/Store_Rooms.thy ===== *)
theory Store_Rooms
  imports Store_Records Cluster_Product
begin

text \<open>
  \<open>RedisStore\<close> of \<open>cluster/redis.go\<close>: the event log and its acknowledgements, the messages
  between the nodes, connections, presence, rooms and statistics.

  What PSUBSCRIBE delivers is not modelled; \<open>received_event\<close> and its siblings are what the
  handlers of a subscription make of a message.
\<close>

record RedisStore =
  rst_channelPrefix :: string
  rst_eventLogMaxEntries :: int

definition DefaultEventLogMaxEntries :: int where "DefaultEventLogMaxEntries = 1000"
definition aliveTTL :: int where "aliveTTL = 45 * second"

definition NewRedisStoreWithOptions :: "string \<Rightarrow> int \<Rightarrow> RedisStore" where
  "NewRedisStoreWithOptions channelPrefix eventLogMaxEntries =
    \<lparr>rst_channelPrefix = channelPrefix,
     rst_eventLogMaxEntries = (if eventLogMaxEntries \<le> 0 then DefaultEventLogMaxEntries else eventLogMaxEntries)\<rparr>"

abbreviation cluster_err :: "cluster_error \<Rightarrow> go_error" where
  "cluster_err err \<equiv> ErrEngine (ErrCluster err)"

definition RedisStore_Healthy :: "unit redis_op" where
  "RedisStore_Healthy = redis_write PING"

subsection \<open>The event log\<close>

definition with_sequence :: "PublishedEvent \<Rightarrow> PublishedEvent redis_op" where
  "with_sequence event =
    (if pe_Sequence event = 0
     then thenDo (redis_IncrBy (roomEventSequenceKey (pe_Room event)) 1)
            (\<lambda>n. give_back (event\<lparr>pe_Sequence := word_of_int n\<rparr>))
     else give_back event)"

definition RedisStore_PublishEvent :: "RedisStore \<Rightarrow> PublishedEvent \<Rightarrow> PublishedEvent redis_op" where
  "RedisStore_PublishEvent s event =
    thenDo (with_sequence event) (\<lambda>event.
    thenDo (lift (or_error json_error (PublishedEvent_text event))) (\<lambda>payload.
    thenDo (TxPipelined
      [ZADD (roomEventLogKey (pe_Room event)) (float_of_int (uint (pe_Sequence event))) payload,
       ZREMRANGEBYRANK (roomEventLogKey (pe_Room event)) 0 (- rst_eventLogMaxEntries s - 1),
       PUBLISH (rst_channelPrefix s @ pe_Room event) payload]) (\<lambda>_.
    give_back event)))"

text \<open>A log entry counts when it names a room, an event and a sequence.\<close>

definition logged_event :: "string \<Rightarrow> PublishedEvent option" where
  "logged_event raw =
    (case unmarshal_event raw of
       None \<Rightarrow> None
     | Some e \<Rightarrow> if pe_Room e = [] \<or> pe_Event e = [] \<or> pe_Sequence e = 0 then None else Some e)"

definition RedisStore_ListPublishedEvents ::
  "RedisStore \<Rightarrow> room_id \<Rightarrow> u64 \<Rightarrow> int \<Rightarrow> PublishedEvent list redis_op" where
  "RedisStore_ListPublishedEvents s room afterSequence limit =
    (let limit = min (if limit \<le> 0 then 100 else limit) (rst_eventLogMaxEntries s) in
     thenDo (ask_for as_texts
         (ZRANGEBYSCORE (roomEventLogKey room) (CHR ''('' # format_uint afterSequence) ''+inf'' limit)) (\<lambda>vals.
     give_back (List.map_filter logged_event vals)))"

subsection \<open>Acknowledgements\<close>

definition RedisStore_GetRoomEventAck :: "room_id \<Rightarrow> string \<Rightarrow> u64 redis_op" where
  "RedisStore_GetRoomEventAck room subject =
    (if room = [] \<or> subject = [] then give_back 0
     else thenDo (redis_HGet (roomEventAckKey room) subject) (\<lambda>raw.
       case raw of
         None \<Rightarrow> give_back 0
       | Some raw \<Rightarrow> lift (or_error number_parse_error (parse_uint raw))))"

definition ack_attempt :: "room_id \<Rightarrow> string \<Rightarrow> u64 \<Rightarrow> unit redis_op" where
  "ack_attempt room subject sequence =
    (let key = roomEventAckKey room; put = TxPipelined [HSET key [(subject, format_uint sequence)]] in
     redis_Watch [key]
       (thenDo (redis_HGet key subject) (\<lambda>raw.
          case raw of
            None \<Rightarrow> put
          | Some raw \<Rightarrow>
              if raw = [] then put
              else thenDo (lift (or_error number_parse_error (parse_uint raw))) (\<lambda>current.
                if sequence \<le> current then give_back () else put))))"

text \<open>Up to so many attempts, as long as the transaction fails.\<close>

fun ack_attempts :: "nat \<Rightarrow> room_id \<Rightarrow> string \<Rightarrow> u64 \<Rightarrow> unit redis_op" where
  "ack_attempts 0 room subject sequence = refuse TxFailedErr"
| "ack_attempts (Suc n) room subject sequence =
    next_redis (ack_attempt room subject sequence) (\<lambda>r.
      case r of
        Inl err \<Rightarrow> if errors_Is err (is_error TxFailedErr) then ack_attempts n room subject sequence else refuse err
      | Inr _ \<Rightarrow> give_back ())"

definition RedisStore_SetRoomEventAck :: "room_id \<Rightarrow> string \<Rightarrow> u64 \<Rightarrow> unit redis_op" where
  "RedisStore_SetRoomEventAck room subject sequence =
    (if room = [] \<or> subject = [] \<or> sequence = 0 then give_back () else ack_attempts 8 room subject sequence)"

subsection \<open>Messages between the nodes\<close>

definition presence_channel :: "RedisStore \<Rightarrow> room_id \<Rightarrow> string" where
  "presence_channel s room = rst_channelPrefix s @ ''presence:'' @ room"

definition yjs_channel :: "RedisStore \<Rightarrow> room_id \<Rightarrow> string" where
  "yjs_channel s room = rst_channelPrefix s @ ''yjs:'' @ room"

definition RedisStore_PublishPresence :: "RedisStore \<Rightarrow> PresenceEvent \<Rightarrow> unit redis_op" where
  "RedisStore_PublishPresence s event =
    thenDo (lift (or_error json_error (PresenceEvent_text event))) (\<lambda>payload.
    redis_write (PUBLISH (presence_channel s (pr_Room event)) payload))"

definition RedisStore_PublishYJSEvent :: "RedisStore \<Rightarrow> YJSEvent \<Rightarrow> unit redis_op" where
  "RedisStore_PublishYJSEvent s event =
    (let payload = (case YJSEvent_text event of None \<Rightarrow> [] | Some t \<Rightarrow> t) in
     redis_write (PUBLISH (yjs_channel s (ye_Room event)) payload))"

text \<open>The channels a subscription matches, and the event it hands to the handler, if any.\<close>

definition received_event :: "RedisStore \<Rightarrow> string \<Rightarrow> bytes \<Rightarrow> PublishedEvent option" where
  "received_event s channel payload =
    (if \<not> prefix (rst_channelPrefix s) channel then None
     else case unmarshal_event payload of
            None \<Rightarrow> None
          | Some e \<Rightarrow> if pe_Room e = [] \<or> pe_Event e = [] then None else Some e)"

definition received_presence :: "RedisStore \<Rightarrow> string \<Rightarrow> bytes \<Rightarrow> PresenceEvent option" where
  "received_presence s channel payload =
    (if \<not> prefix (presence_channel s []) channel then None
     else case unmarshal_presence payload of
            None \<Rightarrow> None
          | Some e \<Rightarrow> if pr_Room e = [] \<or> pr_ConnID e = [] then None else Some e)"

definition received_yjs_event :: "RedisStore \<Rightarrow> string \<Rightarrow> bytes \<Rightarrow> YJSEvent option" where
  "received_yjs_event s channel payload =
    (if \<not> prefix (yjs_channel s []) channel then None
     else case unmarshal_yjs_event payload of
            None \<Rightarrow> None
          | Some e \<Rightarrow> if ye_Room e = [] \<or> ye_Update e = [] then None else Some e)"

subsection \<open>Connections\<close>

definition RedisStore_TouchConnection :: "conn_id \<Rightarrow> ConnectionMeta \<Rightarrow> unit redis_op" where
  "RedisStore_TouchConnection connID meta =
    TxPipelined
      [SET (connAliveKey connID) ''1'' aliveTTL,
       HSET (connMetaKey connID)
         [(''subject'', cm_Subject meta), (''tenant'', cm_Tenant meta), (''node'', cm_NodeID meta),
          (''connected_at'', format_time (cm_ConnectedAt meta))],
       SADD (nodeConnsKey (cm_NodeID meta)) connID]"

definition RedisStore_JoinRoom :: "conn_id \<Rightarrow> room_id \<Rightarrow> unit redis_op" where
  "RedisStore_JoinRoom connID room =
    TxPipelined [SADD (roomMembersKey room) connID, SADD (connRoomsKey connID) room]"

definition RedisStore_LeaveRoom :: "conn_id \<Rightarrow> room_id \<Rightarrow> unit redis_op" where
  "RedisStore_LeaveRoom connID room =
    TxPipelined [SREM (roomMembersKey room) connID, SREM (connRoomsKey connID) room, HDEL (roomPresenceKey room) connID]"

definition RedisStore_SetPresence :: "conn_id \<Rightarrow> room_id \<Rightarrow> bytes \<Rightarrow> unit redis_op" where
  "RedisStore_SetPresence connID room payload = redis_write (HSET (roomPresenceKey room) [(connID, payload)])"

definition RedisStore_SetEphemeralPresence :: "conn_id \<Rightarrow> room_id \<Rightarrow> bytes \<Rightarrow> int \<Rightarrow> unit redis_op" where
  "RedisStore_SetEphemeralPresence connID room payload ttl =
    TxPipelined
      [SADD (roomMembersKey room) connID, HSET (roomPresenceKey room) [(connID, payload)],
       SADD (roomEphemeralPresenceKey room) connID, SET (roomEphemeralPresenceAliveKey room connID) ''1'' ttl]"

definition RedisStore_ClearPresence :: "conn_id \<Rightarrow> room_id \<Rightarrow> unit redis_op" where
  "RedisStore_ClearPresence connID room = redis_write (HDEL (roomPresenceKey room) connID)"

text \<open>Ephemeral presence whose time is over is left out and removed; errors of the removal are ignored.\<close>

fun drop_stale :: "room_id \<Rightarrow> string list \<Rightarrow> Snapshot \<Rightarrow> Snapshot redis_op" where
  "drop_stale room [] snapshot = give_back snapshot"
| "drop_stale room (connID # ids) snapshot =
    thenDo (redis_Exists [roomEphemeralPresenceAliveKey room connID]) (\<lambda>exists.
      if exists = 0 then
        next_redis
          (TxPipelined [HDEL (roomPresenceKey room) connID, SREM (roomMembersKey room) connID,
             SREM (roomEphemeralPresenceKey room) connID])
          (\<lambda>_. drop_stale room ids
             \<lparr>sn_Members = filter (\<lambda>m. m \<noteq> connID) (sn_Members snapshot), sn_Presence = fmdrop connID (sn_Presence snapshot)\<rparr>)
      else drop_stale room ids snapshot)"

definition RedisStore_SnapshotRoom :: "room_id \<Rightarrow> Snapshot redis_op" where
  "RedisStore_SnapshotRoom room =
    thenDo (redis_Exec [SMEMBERS (roomMembersKey room), HGETALL (roomPresenceKey room), SMEMBERS (roomEphemeralPresenceKey room)])
      (\<lambda>rs. case rs of
         [Texts members, Pairs state, Texts ephemeral] \<Rightarrow>
           drop_stale room ephemeral \<lparr>sn_Members = remdups members, sn_Presence = state\<rparr>
       | _ \<Rightarrow> refuse unexpected_reply)"

definition active_user :: "Snapshot \<Rightarrow> conn_id \<Rightarrow> hash \<Rightarrow> ActiveUser" where
  "active_user snapshot connID m =
    \<lparr>au_Type = ''user'', au_ConnectionID = connID, au_ID = defaultString (gm_bytes m ''subject'') connID,
     au_Tenant = gm_bytes m ''tenant'', au_NodeID = gm_bytes m ''node'',
     au_ConnectedAt = (case parse_time (gm_bytes m ''connected_at'') of None \<Rightarrow> zero_time | Some t \<Rightarrow> t),
     au_Presence = (case fmlookup (sn_Presence snapshot) connID of
                      None \<Rightarrow> [] | Some p \<Rightarrow> if json_valid p then p else [])\<rparr>"

fun active_users :: "Snapshot \<Rightarrow> conn_id list \<Rightarrow> ActiveUser list redis_op" where
  "active_users snapshot [] = give_back []"
| "active_users snapshot (connID # ids) =
    thenDo (redis_HGetAll (connMetaKey connID)) (\<lambda>m.
    thenDo (active_users snapshot ids) (\<lambda>users. give_back (active_user snapshot connID m # users)))"

definition RedisStore_ActiveUsers :: "room_id \<Rightarrow> ActiveUser list redis_op" where
  "RedisStore_ActiveUsers room =
    thenDo (RedisStore_SnapshotRoom room) (\<lambda>snapshot. active_users snapshot (sort (sn_Members snapshot)))"

definition RedisStore_CleanupConnection :: "string \<Rightarrow> conn_id \<Rightarrow> unit redis_op" where
  "RedisStore_CleanupConnection nodeID connID =
    thenDo (redis_SMembers (connRoomsKey connID)) (\<lambda>rooms.
    TxPipelined
      (concat (map (\<lambda>room. [SREM (roomMembersKey room) connID, HDEL (roomPresenceKey room) connID]) rooms)
       @ [DEL [connAliveKey connID, connMetaKey connID, connRoomsKey connID], SREM (nodeConnsKey nodeID) connID]))"

fun cleanup_dead :: "string \<Rightarrow> conn_id list \<Rightarrow> unit redis_op" where
  "cleanup_dead nodeID [] = give_back ()"
| "cleanup_dead nodeID (connID # ids) =
    thenDo (redis_Exists [connAliveKey connID]) (\<lambda>exists.
    thenDo (if exists = 0 then RedisStore_CleanupConnection nodeID connID else give_back ()) (\<lambda>_.
    cleanup_dead nodeID ids))"

definition RedisStore_ReconcileNode :: "string \<Rightarrow> unit redis_op" where
  "RedisStore_ReconcileNode nodeID = thenDo (redis_SMembers (nodeConnsKey nodeID)) (cleanup_dead nodeID)"

subsection \<open>Rooms\<close>

definition loadRoomRecord :: "room_id \<Rightarrow> RoomRecord redis_op" where
  "loadRoomRecord room = load_hash (roomRecordKey room) (cluster_err ErrRoomNotFound) (\<lambda>_. decodeRoomRecord)"

definition RedisStore_CreateRoom :: "RoomRecord \<Rightarrow> RoomRecord redis_op" where
  "RedisStore_CreateRoom room =
    thenDo time_now (\<lambda>now.
      let room = normalizeRoomRecord (room\<lparr>rr_CreatedAt := now, rr_UpdatedAt := now\<rparr>); key = roomRecordKey (rr_ID room)
      in thenDo
           (redis_Watch [key]
             (thenDo (redis_Exists [key]) (\<lambda>exists.
              thenDo (check_that (exists \<le> 0) (cluster_err ErrRoomAlreadyExists)) (\<lambda>_.
              TxPipelined [HSET key (encodeRoomRecord room)]))))
           (\<lambda>_. give_back room))"

definition RedisStore_GetRoom :: "room_id \<Rightarrow> RoomRecord redis_op" where
  "RedisStore_GetRoom room = loadRoomRecord room"

definition change_room :: "RoomUpdate \<Rightarrow> gtime \<Rightarrow> RoomRecord \<Rightarrow> RoomRecord" where
  "change_room update now current =
    normalizeRoomRecord
      (current\<lparr>rr_Metadata := (if ru_MetadataSet update then ru_Metadata update else rr_Metadata current),
               rr_DefaultAccesses := (if ru_DefaultAccessesSet update then ru_DefaultAccesses update
                                      else rr_DefaultAccesses current),
               rr_UsersAccesses := (if ru_UsersAccessesSet update then cloneAccessMap (ru_UsersAccesses update)
                                    else rr_UsersAccesses current),
               rr_GroupsAccesses := (if ru_GroupsAccessesSet update then cloneAccessMap (ru_GroupsAccesses update)
                                     else rr_GroupsAccesses current),
               rr_UpdatedAt := now\<rparr>)"

definition RedisStore_UpdateRoom :: "room_id \<Rightarrow> RoomUpdate \<Rightarrow> RoomRecord redis_op" where
  "RedisStore_UpdateRoom room update =
    change_hash (roomRecordKey room) (cluster_err ErrRoomNotFound) decodeRoomRecord (change_room update) encodeRoomRecord"

definition RedisStore_DeleteRoom :: "room_id \<Rightarrow> unit redis_op" where
  "RedisStore_DeleteRoom room =
    thenDo (redis_Del [roomRecordKey room]) (\<lambda>deleted. check_that (deleted \<noteq> 0) (cluster_err ErrRoomNotFound))"

definition as_page :: "redis_reply \<Rightarrow> go_error + string list \<times> u64" where
  "as_page r = (case r of Page next keys \<Rightarrow> Inr (keys, next) | _ \<Rightarrow> Inl unexpected_reply)"

definition RedisStore_ListRooms :: "string \<Rightarrow> u64 \<Rightarrow> int \<Rightarrow> RoomList redis_op" where
  "RedisStore_ListRooms pre cursor limit =
    thenDo (ask_for as_page (SCAN cursor (roomRecordScanPattern pre) (if limit \<le> 0 then 50 else limit))) (\<lambda>(keys, next).
    thenDo (collect_found (is_error (cluster_err ErrRoomNotFound)) loadRoomRecord
        (List.map_filter roomFromRecordKey keys)) (\<lambda>rooms.
    give_back \<lparr>rl_Rooms = sort_key rr_ID rooms, rl_NextCursor = next\<rparr>))"

subsection \<open>Statistics\<close>

definition count_text :: "u64 \<Rightarrow> string" where
  "count_text n = format_int (sint n)"

definition RedisStore_SyncStats :: "string \<Rightarrow> Stats \<Rightarrow> unit redis_op" where
  "RedisStore_SyncStats nodeID s =
    TxPipelined
      [SADD statsNodesKey nodeID,
       HSET (nodeStatsKey nodeID)
         [(''active_connections'', count_text (st_ActiveConnections s)), (''active_rooms'', count_text (st_ActiveRooms s)),
          (''joins_total'', count_text (st_JoinsTotal s)), (''leaves_total'', count_text (st_LeavesTotal s)),
          (''events_total'', count_text (st_EventsTotal s)),
          (''presence_updates_total'', count_text (st_PresenceUpdatesTotal s)),
          (''queue_overflows_total'', count_text (st_QueueOverflowsTotal s)),
          (''admin_publishes_total'', count_text (st_AdminPublishesTotal s))]]"

text \<open>\<open>ParseInt\<close> gives 0 with a syntax error and the nearest bound with a range error.\<close>

definition parseInt64 :: "string \<Rightarrow> u64" where
  "parseInt64 s =
    (case s of
       [] \<Rightarrow> 0
     | c # r \<Rightarrow>
         (case parse_number (if c = CHR ''-'' \<or> c = CHR ''+'' then r else s) of
            None \<Rightarrow> 0
          | Some n \<Rightarrow> word_of_int (if c = CHR ''-'' then max (- (2 ^ 63)) (- n) else min (2 ^ 63 - 1) n)))"

definition node_stats :: "hash \<Rightarrow> Stats" where
  "node_stats m =
    \<lparr>st_ActiveConnections = parseInt64 (gm_bytes m ''active_connections''),
     st_ActiveRooms = parseInt64 (gm_bytes m ''active_rooms''),
     st_JoinsTotal = parseInt64 (gm_bytes m ''joins_total''),
     st_LeavesTotal = parseInt64 (gm_bytes m ''leaves_total''),
     st_EventsTotal = parseInt64 (gm_bytes m ''events_total''),
     st_PresenceUpdatesTotal = parseInt64 (gm_bytes m ''presence_updates_total''),
     st_QueueOverflowsTotal = parseInt64 (gm_bytes m ''queue_overflows_total''),
     st_AdminPublishesTotal = parseInt64 (gm_bytes m ''admin_publishes_total'')\<rparr>"

definition no_activity :: Stats where
  "no_activity = \<lparr>st_ActiveConnections = 0, st_ActiveRooms = 0, st_JoinsTotal = 0, st_LeavesTotal = 0, st_EventsTotal = 0,
     st_PresenceUpdatesTotal = 0, st_QueueOverflowsTotal = 0, st_AdminPublishesTotal = 0\<rparr>"

fun merge_nodes :: "Stats \<Rightarrow> string list \<Rightarrow> Stats redis_op" where
  "merge_nodes acc [] = give_back acc"
| "merge_nodes acc (nodeID # ids) =
    thenDo (redis_HGetAll (nodeStatsKey nodeID)) (\<lambda>m. merge_nodes (Merge acc (node_stats m)) ids)"

definition RedisStore_AggregateStats :: "Stats redis_op" where
  "RedisStore_AggregateStats = thenDo (redis_SMembers statsNodesKey) (merge_nodes no_activity)"

end
