(* ===== verification/Store_Documents.thy ===== *)
theory Store_Documents
  imports Store_Rooms Engine_Storage
begin

text \<open>
  \<open>RedisStore\<close> of \<open>cluster/redis.go\<close>: storage documents with their sequences and the records of
  operation ids, and Yjs documents. The errors that \<open>fmt.Errorf\<close> wraps are the sentinels, as in
  the engine; their texts are not modelled.
\<close>

subsection \<open>Reading documents\<close>

definition parseStorageSequence :: "string \<Rightarrow> go_error + u64" where
  "parseStorageSequence raw = or_error (cluster_err (ErrStoragePatch InvalidSequence)) (parse_uint raw)"

text \<open>\<open>Pipeline\<close> sends the commands together, without MULTI: others may come between them.\<close>

definition optional_sequence :: "string option \<Rightarrow> go_error + u64" where
  "optional_sequence raw = (case raw of None \<Rightarrow> Inr 0 | Some raw \<Rightarrow> parseStorageSequence raw)"

definition RedisStore_GetStorageWithSequence :: "room_id \<Rightarrow> (bytes \<times> u64) redis_op" where
  "RedisStore_GetStorageWithSequence room =
    next_redis (redis_Get (roomStorageKey room)) (\<lambda>document.
    next_redis (redis_Get (roomStorageSequenceKey room)) (\<lambda>sequence.
      case document of
        Inl err \<Rightarrow> refuse err
      | Inr None \<Rightarrow> (case sequence of Inl err \<Rightarrow> refuse err | Inr _ \<Rightarrow> refuse (cluster_err ErrStorageNotFound))
      | Inr (Some raw) \<Rightarrow>
          thenDo (lift sequence) (\<lambda>sequence.
          thenDo (lift (optional_sequence sequence)) (\<lambda>sequence. give_back (raw, sequence)))))"

definition RedisStore_GetStorage :: "room_id \<Rightarrow> bytes redis_op" where
  "RedisStore_GetStorage room = thenDo (RedisStore_GetStorageWithSequence room) (\<lambda>(document, _). give_back document)"

definition redisStorageSequence :: "string \<Rightarrow> u64 redis_op" where
  "redisStorageSequence key = thenDo (redis_Get key) (\<lambda>raw. lift (optional_sequence raw))"

subsection \<open>Operation ids\<close>

record storageOpEntry =
  soe_Kind :: string
  soe_Fingerprint :: string
  soe_Document :: bytes
  soe_Sequence :: u64

definition storageOpEntry_text :: "storageOpEntry \<Rightarrow> string option" where
  "storageOpEntry_text r = members_text
    [text_member ''kind'' (soe_Kind r), text_member ''fingerprint'' (soe_Fingerprint r),
     optional_member (soe_Document r \<noteq> []) ''document'' (raw_marshal (soe_Document r)),
     member ''seq'' (Some (format_uint (soe_Sequence r)))]"

definition encodeStorageOpRecord :: "storageOpEntry \<Rightarrow> go_error + string" where
  "encodeStorageOpRecord r = or_error json_error (storageOpEntry_text r)"

definition store_op_entry :: "string \<Rightarrow> string \<Rightarrow> storageOpEntry \<Rightarrow> storageOpEntry option" where
  "store_op_entry n t r =
    (if n = ''kind'' then map_option (\<lambda>v. r\<lparr>soe_Kind := v\<rparr>) (decode_text (soe_Kind r) t)
     else if n = ''fingerprint'' then map_option (\<lambda>v. r\<lparr>soe_Fingerprint := v\<rparr>) (decode_text (soe_Fingerprint r) t)
     else if n = ''document'' then Some (r\<lparr>soe_Document := t\<rparr>)
     else map_option (\<lambda>v. r\<lparr>soe_Sequence := v\<rparr>) (decode_uint (soe_Sequence r) t))"

definition no_op_entry :: storageOpEntry where
  "no_op_entry = \<lparr>soe_Kind = [], soe_Fingerprint = [], soe_Document = [], soe_Sequence = 0\<rparr>"

definition decode_op_entry :: "string \<Rightarrow> go_error + storageOpEntry" where
  "decode_op_entry raw =
    (case read_struct [''kind'', ''fingerprint'', ''document'', ''seq''] store_op_entry no_op_entry raw of
       None \<Rightarrow> Inl (cluster_err (ErrStoragePatch InvalidOpRecord))
     | Some r \<Rightarrow>
         if soe_Kind r = [] \<or> soe_Sequence r = 0 then Inl (cluster_err (ErrStoragePatch InvalidOpRecord)) else Inr r)"

definition loadStorageOpRecord :: "string \<Rightarrow> storageOpEntry option redis_op" where
  "loadStorageOpRecord key =
    thenDo (redis_Get key) (\<lambda>raw.
      case raw of None \<Rightarrow> give_back None | Some raw \<Rightarrow> lift (map_sum id Some (decode_op_entry raw)))"

definition storageWriteResultFromRecord :: "storageOpEntry \<Rightarrow> bool \<Rightarrow> StorageWriteResult" where
  "storageWriteResultFromRecord r duplicate =
    \<lparr>swr_Kind = soe_Kind r, swr_Document = soe_Document r, swr_Sequence = soe_Sequence r, swr_Duplicate = duplicate\<rparr>"

text \<open>The result recorded for an operation id, if the id was used before, and used for the same.\<close>

definition recorded_op :: "room_id \<Rightarrow> string \<Rightarrow> string \<Rightarrow> storageOpEntry option redis_op" where
  "recorded_op room opID fingerprint =
    (if opID = [] then give_back None
     else
       thenDo (loadStorageOpRecord (roomStorageOpKey room opID)) (\<lambda>r.
         case r of
           None \<Rightarrow> give_back None
         | Some r \<Rightarrow>
             if soe_Fingerprint r \<noteq> fingerprint then refuse (cluster_err ErrStorageConflict) else give_back (Some r)))"

subsection \<open>Writing documents\<close>

text \<open>The current sequence, which must be the expected one if one is given.\<close>

definition expected_sequence :: "room_id \<Rightarrow> bool \<Rightarrow> u64 \<Rightarrow> u64 redis_op" where
  "expected_sequence room given expected =
    thenDo (redisStorageSequence (roomStorageSequenceKey room)) (\<lambda>current.
    thenDo (check_that (\<not> (given \<and> current \<noteq> expected)) (cluster_err ErrStorageConflict)) (\<lambda>_.
    give_back current))"

text \<open>The transaction: the change of the document, the new sequence and the record of the id.\<close>

definition commit_storage :: "room_id \<Rightarrow> string \<Rightarrow> storageOpEntry \<Rightarrow> command \<Rightarrow> unit redis_op" where
  "commit_storage room opID entry cmd =
    thenDo (lift (encodeStorageOpRecord entry)) (\<lambda>raw.
    TxPipelined
      ([cmd, SET (roomStorageSequenceKey room) (format_uint (soe_Sequence entry)) 0]
       @ (if opID = [] then [] else [SET (roomStorageOpKey room opID) raw 0])))"

definition storage_keys :: "room_id \<Rightarrow> string \<Rightarrow> string list" where
  "storage_keys room opID = [roomStorageKey room, roomStorageSequenceKey room, roomStorageOpKey room opID]"

definition RedisStore_SetStorageWithResult ::
  "room_id \<Rightarrow> bytes \<Rightarrow> StorageWriteOptions \<Rightarrow> StorageWriteResult redis_op" where
  "RedisStore_SetStorageWithResult room document options =
    thenDo (lift (engine_result (checked_document document (swo_MaxBytes options)))) (\<lambda>compacted.
      let fingerprint = storageDocumentFingerprint StorageMutationSet compacted in
      redis_Watch (storage_keys room (swo_OpID options))
        (thenDo (recorded_op room (swo_OpID options) fingerprint) (\<lambda>rec.
           case rec of
             Some r \<Rightarrow> give_back (storageWriteResultFromRecord r True)
           | None \<Rightarrow>
               thenDo (expected_sequence room (swo_ExpectedSequenceSet options) (swo_ExpectedSequence options)) (\<lambda>current.
                 let entry = \<lparr>soe_Kind = StorageMutationSet, soe_Fingerprint = fingerprint, soe_Document = compacted,
                       soe_Sequence = current + 1\<rparr>
                 in thenDo (commit_storage room (swo_OpID options) entry (SET (roomStorageKey room) compacted 0))
                      (\<lambda>_. give_back (storageWriteResultFromRecord entry False))))))"

definition RedisStore_SetStorageWithOptions ::
  "room_id \<Rightarrow> bytes \<Rightarrow> StorageWriteOptions \<Rightarrow> (bytes \<times> u64) redis_op" where
  "RedisStore_SetStorageWithOptions room document options =
    thenDo (RedisStore_SetStorageWithResult room document options)
      (\<lambda>r. give_back (swr_Document r, swr_Sequence r))"

definition no_write_options :: "int \<Rightarrow> StorageWriteOptions" where
  "no_write_options maxBytes = \<lparr>swo_MaxBytes = maxBytes, swo_OpID = [], swo_ExpectedSequence = 0,
     swo_ExpectedSequenceSet = False\<rparr>"

text \<open>The document is compacted and checked before \<open>SetStorageWithOptions\<close> does it again.\<close>

definition RedisStore_SetStorage :: "room_id \<Rightarrow> bytes \<Rightarrow> bytes redis_op" where
  "RedisStore_SetStorage room document =
    thenDo (lift (engine_result (checked_document document 0))) (\<lambda>compacted.
    thenDo (RedisStore_SetStorageWithOptions room compacted (no_write_options 0)) (\<lambda>(stored, _). give_back stored))"

definition RedisStore_ApplyStoragePatchWithResult ::
  "room_id \<Rightarrow> JSONPatchOperation list \<Rightarrow> StorageWriteOptions \<Rightarrow> StorageWriteResult redis_op" where
  "RedisStore_ApplyStoragePatchWithResult room operations options =
    thenDo (lift (engine_result (storagePatchFingerprint operations))) (\<lambda>fingerprint.
    redis_Watch (storage_keys room (swo_OpID options))
      (thenDo (recorded_op room (swo_OpID options) fingerprint) (\<lambda>rec.
         case rec of
           Some r \<Rightarrow> give_back (storageWriteResultFromRecord r True)
         | None \<Rightarrow>
             thenDo (redis_Get (roomStorageKey room)) (\<lambda>raw.
               case raw of
                 None \<Rightarrow> refuse (cluster_err ErrStorageNotFound)
               | Some raw \<Rightarrow>
                   thenDo (expected_sequence room (swo_ExpectedSequenceSet options) (swo_ExpectedSequence options)) (\<lambda>current.
                   thenDo (lift (engine_result (patched_document raw operations (swo_MaxBytes options)))) (\<lambda>patched.
                     let entry = \<lparr>soe_Kind = StorageMutationPatch, soe_Fingerprint = fingerprint, soe_Document = patched,
                           soe_Sequence = current + 1\<rparr>
                     in thenDo (commit_storage room (swo_OpID options) entry (SET (roomStorageKey room) patched 0))
                          (\<lambda>_. give_back (storageWriteResultFromRecord entry False))))))))"

definition RedisStore_ApplyStoragePatchWithOptions ::
  "room_id \<Rightarrow> JSONPatchOperation list \<Rightarrow> StorageWriteOptions \<Rightarrow> (bytes \<times> u64) redis_op" where
  "RedisStore_ApplyStoragePatchWithOptions room operations options =
    thenDo (RedisStore_ApplyStoragePatchWithResult room operations options)
      (\<lambda>r. give_back (swr_Document r, swr_Sequence r))"

definition RedisStore_ApplyStoragePatch :: "room_id \<Rightarrow> JSONPatchOperation list \<Rightarrow> int \<Rightarrow> bytes redis_op" where
  "RedisStore_ApplyStoragePatch room operations maxBytes =
    thenDo (RedisStore_ApplyStoragePatchWithOptions room operations (no_write_options maxBytes))
      (\<lambda>(patched, _). give_back patched)"

definition RedisStore_DeleteStorageWithOptions :: "room_id \<Rightarrow> StorageDeleteOptions \<Rightarrow> u64 redis_op" where
  "RedisStore_DeleteStorageWithOptions room options =
    redis_Watch (storage_keys room (sdo_OpID options))
      (thenDo (recorded_op room (sdo_OpID options) storageDeleteFingerprint) (\<lambda>rec.
         case rec of
           Some r \<Rightarrow> give_back (soe_Sequence r)
         | None \<Rightarrow>
             thenDo (redis_Exists [roomStorageKey room]) (\<lambda>exists.
             thenDo (check_that (exists \<noteq> 0) (cluster_err ErrStorageNotFound)) (\<lambda>_.
             thenDo (expected_sequence room (sdo_ExpectedSequenceSet options) (sdo_ExpectedSequence options)) (\<lambda>current.
               let entry = \<lparr>soe_Kind = StorageMutationDelete, soe_Fingerprint = storageDeleteFingerprint, soe_Document = [],
                     soe_Sequence = current + 1\<rparr>
               in thenDo (commit_storage room (sdo_OpID options) entry (DEL [roomStorageKey room]))
                    (\<lambda>_. give_back (current + 1)))))))"

definition RedisStore_DeleteStorage :: "room_id \<Rightarrow> unit redis_op" where
  "RedisStore_DeleteStorage room =
    thenDo (RedisStore_DeleteStorageWithOptions room \<lparr>sdo_OpID = [], sdo_ExpectedSequence = 0, sdo_ExpectedSequenceSet = False\<rparr>)
      (\<lambda>_. give_back ())"

subsection \<open>Yjs documents\<close>

text \<open>The snapshot record, or a snapshot that was stored without one.\<close>

definition loadYJSSnapshotRecord :: "room_id \<Rightarrow> yjsSnapshotRecord redis_op" where
  "loadYJSSnapshotRecord room =
    thenDo (redis_Get (roomYJSSnapshotV2Key room)) (\<lambda>raw.
      case raw of
        Some raw \<Rightarrow> lift (decodeYJSSnapshotRecord raw)
      | None \<Rightarrow>
          thenDo (redis_Get (roomYJSSnapshotKey room)) (\<lambda>legacy.
            case legacy of
              None \<Rightarrow> give_back no_yjs_snapshot
            | Some s \<Rightarrow> give_back (no_yjs_snapshot\<lparr>ysr_Snapshot := s, ysr_Hash := YJSSnapshotHash s\<rparr>)))"

definition storeYJSSnapshotRecord :: "room_id \<Rightarrow> yjsSnapshotRecord \<Rightarrow> unit redis_op" where
  "storeYJSSnapshotRecord room r = redis_write (SET (roomYJSSnapshotV2Key room) (encodeYJSSnapshotRecord r) 0)"

definition later_update :: "int \<Rightarrow> string \<Rightarrow> yjsUpdateRecord option" where
  "later_update checkpoint raw =
    (case decodeYJSUpdateRecord raw of
       Inl _ \<Rightarrow> None | Inr r \<Rightarrow> if yu_Seq r \<le> checkpoint then None else Some r)"

definition RedisStore_LoadYJSDocument :: "room_id \<Rightarrow> YJSDocument redis_op" where
  "RedisStore_LoadYJSDocument room =
    thenDo (loadYJSSnapshotRecord room) (\<lambda>snapshot.
    thenDo (ask_for as_texts (LRANGE (roomYJSUpdatesKey room) 0 (-1))) (\<lambda>legacy.
    thenDo (ask_for as_texts
        (ZRANGEBYSCORE (roomYJSUpdatesV2Key room) (CHR ''('' # format_int (ysr_CheckpointSeq snapshot)) ''+inf'' 0)) (\<lambda>raws.
      let updates = List.map_filter (later_update (ysr_CheckpointSeq snapshot)) raws in
      give_back
        \<lparr>yd_Snapshot = ysr_Snapshot snapshot, yd_SnapshotHash = ysr_Hash snapshot,
         yd_SnapshotCheckpoint = word_of_int (ysr_CheckpointSeq snapshot),
         yd_Updates = legacy @ map yu_Update updates,
         yd_UpdateSequences = map (\<lambda>_. 0) legacy @ map (\<lambda>r. word_of_int (yu_Seq r)) updates,
         yd_UpdateKinds = map (\<lambda>_. YJSEventUpdate) legacy @ map KindValue updates\<rparr>)))"

text \<open>The number is drawn first, the update is stored after it.\<close>

definition RedisStore_AppendYJSUpdate :: "room_id \<Rightarrow> YJSEventKind \<Rightarrow> bytes \<Rightarrow> int redis_op" where
  "RedisStore_AppendYJSUpdate room kind update =
    thenDo (check_that (update \<noteq> []) (ErrText ''yjs update is required'')) (\<lambda>_.
    thenDo (check_that (isDurableYJSEventKind kind) (ErrText ''unsupported durable yjs update kind'')) (\<lambda>_.
    thenDo (redis_IncrBy (roomYJSSequenceKey room) 1) (\<lambda>n.
    thenDo (redis_write (ZADD (roomYJSUpdatesV2Key room) (float_of_int n)
        (encodeYJSUpdateRecord \<lparr>yu_Seq = n, yu_Kind = kind, yu_Update = update\<rparr>))) (\<lambda>_.
    give_back n))))"

definition RedisStore_StoreYJSSnapshot :: "room_id \<Rightarrow> bytes \<Rightarrow> unit redis_op" where
  "RedisStore_StoreYJSSnapshot room snapshot =
    thenDo (check_that (snapshot \<noteq> []) (ErrText ''snapshot is required'')) (\<lambda>_.
    thenDo (loadYJSSnapshotRecord room) (\<lambda>current.
    storeYJSSnapshotRecord room
      \<lparr>ysr_CheckpointSeq = ysr_CheckpointSeq current, ysr_Snapshot = snapshot, ysr_Hash = YJSSnapshotHash snapshot\<rparr>))"

definition RedisStore_CompactYJSDocument :: "room_id \<Rightarrow> int \<Rightarrow> bytes \<Rightarrow> unit redis_op" where
  "RedisStore_CompactYJSDocument room checkpointSeq snapshot =
    thenDo (check_that (checkpointSeq \<ge> 0) (ErrText ''checkpoint sequence must be non-negative'')) (\<lambda>_.
    thenDo (check_that (snapshot \<noteq> []) (ErrText ''snapshot is required'')) (\<lambda>_.
    TxPipelined
      [SET (roomYJSSnapshotV2Key room)
         (encodeYJSSnapshotRecord \<lparr>ysr_CheckpointSeq = checkpointSeq, ysr_Snapshot = snapshot, ysr_Hash = YJSSnapshotHash snapshot\<rparr>) 0,
       ZREMRANGEBYSCORE (roomYJSUpdatesV2Key room) ''-inf'' (format_int checkpointSeq)]))"

end
