(* ===== verification/Store_Refinement.thy ===== *)
theory Store_Refinement
  imports Store_Laws Store_Documents Storage_Contract
begin

text \<open>
  The storage documents in Redis against those of the engine: a write that succeeds takes effect
  at one instant, and at that instant it does what the engine's mutation does
  (\<open>mirrors\<close> relates the keys of a room to an engine).
\<close>

subsection \<open>The keys of a room\<close>

lemma storage_keys_apart:
  "roomStorageKey room \<noteq> roomStorageSequenceKey room" "roomStorageSequenceKey room \<noteq> roomStorageKey room"
  "roomStorageKey room \<noteq> roomStorageOpKey room opID" "roomStorageOpKey room opID \<noteq> roomStorageKey room"
  "roomStorageSequenceKey room \<noteq> roomStorageOpKey room opID" "roomStorageOpKey room opID \<noteq> roomStorageSequenceKey room"
  by (simp_all add: roomStorageKey_def roomStorageSequenceKey_def roomStorageOpKey_def)

lemma key_of_put: "key_of (put_key k (EString v) s) j = (if j = k then Some (EString v) else key_of s j)"
  by (simp add: put_key_def is_empty_def key_of_def)

lemma key_of_drop: "key_of (drop_key k s) j = (if j = k then None else key_of s j)"
  by (simp add: drop_key_def key_of_def)

lemma key_of_expiry [simp]: "key_of (s\<lparr>rs_expiry := x\<rparr>) j = key_of s j"
  by (simp add: key_of_def)

subsection \<open>Documents and sequences\<close>

definition sequence_stored :: "redis_state \<Rightarrow> room_id \<Rightarrow> u64 \<Rightarrow> bool" where
  "sequence_stored s room n \<longleftrightarrow>
    (case key_of s (roomStorageSequenceKey room) of
       None \<Rightarrow> n = 0 | Some (EString t) \<Rightarrow> parse_uint t = Some n | _ \<Rightarrow> False)"

definition document_stored :: "redis_state \<Rightarrow> room_id \<Rightarrow> bytes \<Rightarrow> bool" where
  "document_stored s room d \<longleftrightarrow>
    (case key_of s (roomStorageKey room) of None \<Rightarrow> d = [] | Some (EString t) \<Rightarrow> d \<noteq> [] \<and> t = d | _ \<Rightarrow> False)"

definition mirrors :: "Engine \<Rightarrow> room_id \<Rightarrow> redis_state \<Rightarrow> bool" where
  "mirrors e room s \<longleftrightarrow> document_stored s room (document_of e room) \<and> sequence_stored s room (seq_of e room)"

lemma sequence_stored_unique: "sequence_stored s room n \<Longrightarrow> sequence_stored s room m \<Longrightarrow> m = n"
  by (auto simp: sequence_stored_def split: option.splits entry.splits)

text \<open>The options of a write as the engine takes them, and an operation id the engine has not seen.\<close>

definition write_options :: "StorageWriteOptions \<Rightarrow> StorageMutationOptions" where
  "write_options w = \<lparr>smo_MaxBytes = swo_MaxBytes w, smo_OpID = swo_OpID w, smo_OriginConnID = [], smo_Sequence = 0,
     smo_ExpectedSequence = swo_ExpectedSequence w, smo_ExpectedSequenceSet = swo_ExpectedSequenceSet w\<rparr>"

definition delete_options :: "StorageDeleteOptions \<Rightarrow> StorageMutationOptions" where
  "delete_options w = \<lparr>smo_MaxBytes = 0, smo_OpID = sdo_OpID w, smo_OriginConnID = [], smo_Sequence = 0,
     smo_ExpectedSequence = sdo_ExpectedSequence w, smo_ExpectedSequenceSet = sdo_ExpectedSequenceSet w\<rparr>"

definition fresh_op :: "Engine \<Rightarrow> room_id \<Rightarrow> string \<Rightarrow> bool" where
  "fresh_op e room opID \<longleftrightarrow> fmlookup (gm_map (storageOps e) room) opID = None"

subsection \<open>The pieces\<close>

lemma alone_storage_sequence:
  "alone c t (redisStorageSequence (roomStorageSequenceKey room)) s (Inr n) s' \<longleftrightarrow> s' = s \<and> sequence_stored s room n"
proof (cases "key_of s (roomStorageSequenceKey room)")
  case None
  then show ?thesis by (auto simp: redisStorageSequence_def alone_thenDo sequence_stored_def optional_sequence_def)
next
  case (Some x)
  then show ?thesis
    by (cases x) (auto simp: redisStorageSequence_def alone_thenDo sequence_stored_def optional_sequence_def
        parseStorageSequence_def or_error_def split: option.splits)
qed

lemma alone_sequence:
  "alone c t (expected_sequence room given expected) s (Inr n) s'
    \<longleftrightarrow> s' = s \<and> sequence_stored s room n \<and> (given \<longrightarrow> n = expected)"
  by (auto simp: expected_sequence_def alone_thenDo alone_storage_sequence)

lemma alone_recorded:
  "alone c t (recorded_op room opID fingerprint) s (Inr rec) s' \<Longrightarrow> s' = s"
  by (auto simp: recorded_op_def loadStorageOpRecord_def alone_thenDo split: if_splits option.splits)

lemma alone_commit_storage:
  assumes "alone c t (commit_storage room opID entry cmd) s (Inr u) s'"
  shows "cmd = SET (roomStorageKey room) d 0 \<Longrightarrow> key_of s' (roomStorageKey room) = Some (EString d)"
    and "cmd = DEL [roomStorageKey room] \<Longrightarrow> key_of s' (roomStorageKey room) = None"
    and "cmd = SET (roomStorageKey room) d 0 \<or> cmd = DEL [roomStorageKey room]
      \<Longrightarrow> sequence_stored s' room (soe_Sequence entry)"
proof -
  obtain raw where tx: "alone c t (TxPipelined ([cmd, SET (roomStorageSequenceKey room) (format_uint (soe_Sequence entry)) 0]
      @ (if opID = [] then [] else [SET (roomStorageOpKey room opID) raw 0]))) s (Inr u) s'"
    using assms by (auto simp: commit_storage_def alone_thenDo)
  note s' = alone_commit[OF tx]
  show "cmd = SET (roomStorageKey room) d 0 \<Longrightarrow> key_of s' (roomStorageKey room) = Some (EString d)"
    and "cmd = DEL [roomStorageKey room] \<Longrightarrow> key_of s' (roomStorageKey room) = None"
    and "cmd = SET (roomStorageKey room) d 0 \<or> cmd = DEL [roomStorageKey room]
      \<Longrightarrow> sequence_stored s' room (soe_Sequence entry)"
    using s' by (auto simp: case_prod_unfold key_of_put key_of_drop storage_keys_apart sequence_stored_def parse_format_uint)
qed

lemmas storage_body_simps = alone_thenDo without_commit_thenDo Let_def

lemma watched_recorded:
  assumes "\<And>x. watched_body (storage_keys room opID) (f x)"
  shows "watched_body (storage_keys room opID) (thenDo (recorded_op room opID fingerprint) f)"
proof (cases "opID = []")
  case True
  then show ?thesis using assms by (simp add: recorded_op_def)
next
  case False
  then show ?thesis
    using assms
    by (auto simp: recorded_op_def loadStorageOpRecord_def thenDo_assoc storage_keys_def
        intro!: watched_reads(2) split: option.split)
qed

text \<open>The part of a write that a recorded operation id skips.\<close>

definition unless_recorded ::
  "room_id \<Rightarrow> string \<Rightarrow> string \<Rightarrow> (storageOpEntry \<Rightarrow> 'a) \<Rightarrow> 'a redis_op \<Rightarrow> 'a redis_op" where
  "unless_recorded room opID fingerprint again body =
    thenDo (recorded_op room opID fingerprint) (\<lambda>rec. case rec of Some r \<Rightarrow> give_back (again r) | None \<Rightarrow> body)"

lemma watched_unless:
  "watched_body (storage_keys room opID) body
   \<Longrightarrow> watched_body (storage_keys room opID) (unless_recorded room opID fingerprint again body)"
  unfolding unless_recorded_def by (rule watched_recorded) (simp split: option.split)

lemma without_commit_unless:
  "without_commit (unless_recorded room opID fingerprint again body) (Inr r)
   \<Longrightarrow> (\<exists>x. r = again x \<and> opID \<noteq> []) \<or> without_commit body (Inr r)"
  by (cases "opID = []") (auto simp: unless_recorded_def recorded_op_def without_commit_thenDo split: option.splits)

lemma alone_unless:
  "alone c t (unless_recorded room opID fingerprint again body) s (Inr r) s'
   \<Longrightarrow> (\<exists>x. r = again x \<and> opID \<noteq> [] \<and> s' = s) \<or> alone c t body s (Inr r) s'"
proof (cases "opID = []")
  case False
  then show "?thesis" if "alone c t (unless_recorded room opID fingerprint again body) s (Inr r) s'"
    using that by (auto simp: unless_recorded_def alone_thenDo dest!: alone_recorded split: option.splits)
qed (auto simp: unless_recorded_def recorded_op_def alone_thenDo)

lemma watched_sequence:
  assumes "\<And>x. watched_body (storage_keys room opID) (f x)"
  shows "watched_body (storage_keys room opID) (thenDo (expected_sequence room given expected) f)"
  using assms
  by (auto simp: expected_sequence_def redisStorageSequence_def thenDo_assoc storage_keys_def intro!: watched_reads(2))

lemma watched_commit_storage:
  assumes "exact cmd"
  shows "watched_body ks (thenDo (commit_storage room opID entry cmd) (\<lambda>_. give_back x))"
  using assms by (auto simp: commit_storage_def thenDo_assoc intro!: watched_commit)

lemma commit_storage_fails: "without_commit (commit_storage room opID entry cmd) y \<Longrightarrow> isl y"
  by (auto simp: commit_storage_def without_commit_thenDo dest!: no_commit_fails)

subsection \<open>The bodies of the three writes\<close>

definition repeats :: "storageOpEntry \<Rightarrow> StorageWriteResult" where
  "repeats r = storageWriteResultFromRecord r True"

definition written_as :: "string \<Rightarrow> bytes \<Rightarrow> u64 \<Rightarrow> StorageWriteResult" where
  "written_as kind document n = \<lparr>swr_Kind = kind, swr_Document = document, swr_Sequence = n, swr_Duplicate = False\<rparr>"

text \<open>The sequence is checked, then the new document \<open>d\<close> is stored with the next one.\<close>

definition store_next ::
  "room_id \<Rightarrow> string \<Rightarrow> bool \<Rightarrow> u64 \<Rightarrow> (u64 \<Rightarrow> go_error + 'd) \<Rightarrow> ('d \<Rightarrow> u64 \<Rightarrow> storageOpEntry) \<Rightarrow> ('d \<Rightarrow> command)
     \<Rightarrow> ('d \<Rightarrow> u64 \<Rightarrow> 'a) \<Rightarrow> 'a redis_op" where
  "store_next room opID given expected produce entry cmd answer =
    thenDo (expected_sequence room given expected) (\<lambda>current.
    thenDo (lift (produce current)) (\<lambda>d.
    thenDo (commit_storage room opID (entry d (current + 1)) (cmd d)) (\<lambda>_. give_back (answer d (current + 1)))))"

lemma watched_store_next:
  "(\<And>d. exact (cmd d)) \<Longrightarrow> watched_body (storage_keys room opID) (store_next room opID given expected produce entry cmd answer)"
  by (auto simp: store_next_def intro!: watched_sequence watched_commit_storage)

lemma without_commit_store_next: "without_commit (store_next room opID given expected produce entry cmd answer) y \<Longrightarrow> isl y"
  by (auto simp: store_next_def without_commit_thenDo dest!: commit_storage_fails)

lemma alone_store_next:
  assumes "alone c t (store_next room opID given expected produce entry cmd answer) s (Inr r) s'"
  shows "\<exists>n d. sequence_stored s room n \<and> (given \<longrightarrow> n = expected) \<and> produce n = Inr d \<and> r = answer d (n + 1)
    \<and> alone c t (commit_storage room opID (entry d (n + 1)) (cmd d)) s (Inr ()) s'"
  using assms by (auto simp: store_next_def alone_thenDo alone_sequence)

definition set_body :: "room_id \<Rightarrow> bytes \<Rightarrow> StorageWriteOptions \<Rightarrow> StorageWriteResult redis_op" where
  "set_body room compacted options =
    (let fingerprint = storageDocumentFingerprint StorageMutationSet compacted in
     unless_recorded room (swo_OpID options) fingerprint repeats
       (store_next room (swo_OpID options) (swo_ExpectedSequenceSet options) (swo_ExpectedSequence options)
          (\<lambda>_. Inr compacted)
          (\<lambda>d n. \<lparr>soe_Kind = StorageMutationSet, soe_Fingerprint = fingerprint, soe_Document = d, soe_Sequence = n\<rparr>)
          (\<lambda>d. SET (roomStorageKey room) d 0) (written_as StorageMutationSet)))"

definition patch_body ::
  "room_id \<Rightarrow> JSONPatchOperation list \<Rightarrow> string \<Rightarrow> StorageWriteOptions \<Rightarrow> StorageWriteResult redis_op" where
  "patch_body room operations fingerprint options =
     unless_recorded room (swo_OpID options) fingerprint repeats
       (thenDo (redis_Get (roomStorageKey room)) (\<lambda>raw.
          case raw of
            None \<Rightarrow> refuse (cluster_err ErrStorageNotFound)
          | Some raw \<Rightarrow>
              store_next room (swo_OpID options) (swo_ExpectedSequenceSet options) (swo_ExpectedSequence options)
                (\<lambda>_. engine_result (patched_document raw operations (swo_MaxBytes options)))
                (\<lambda>d n. \<lparr>soe_Kind = StorageMutationPatch, soe_Fingerprint = fingerprint, soe_Document = d, soe_Sequence = n\<rparr>)
                (\<lambda>d. SET (roomStorageKey room) d 0) (written_as StorageMutationPatch)))"

definition delete_body :: "room_id \<Rightarrow> StorageDeleteOptions \<Rightarrow> u64 redis_op" where
  "delete_body room options =
     unless_recorded room (sdo_OpID options) storageDeleteFingerprint soe_Sequence
       (thenDo (redis_Exists [roomStorageKey room]) (\<lambda>exists.
        thenDo (check_that (exists \<noteq> 0) (cluster_err ErrStorageNotFound)) (\<lambda>_.
        store_next room (sdo_OpID options) (sdo_ExpectedSequenceSet options) (sdo_ExpectedSequence options)
          (\<lambda>_. Inr ())
          (\<lambda>d n. \<lparr>soe_Kind = StorageMutationDelete, soe_Fingerprint = storageDeleteFingerprint, soe_Document = [], soe_Sequence = n\<rparr>)
          (\<lambda>_. DEL [roomStorageKey room]) (\<lambda>_ n. n))))"

lemmas body_defs = unless_recorded_def store_next_def repeats_def written_as_def storageWriteResultFromRecord_def Let_def

lemma set_watches:
  "RedisStore_SetStorageWithResult room document options =
    thenDo (lift (engine_result (checked_document document (swo_MaxBytes options))))
      (\<lambda>compacted. redis_Watch (storage_keys room (swo_OpID options)) (set_body room compacted options))"
  by (simp add: RedisStore_SetStorageWithResult_def set_body_def body_defs cong: option.case_cong)

lemma patch_watches:
  "RedisStore_ApplyStoragePatchWithResult room operations options =
    thenDo (lift (engine_result (storagePatchFingerprint operations)))
      (\<lambda>fingerprint. redis_Watch (storage_keys room (swo_OpID options)) (patch_body room operations fingerprint options))"
  by (simp add: RedisStore_ApplyStoragePatchWithResult_def patch_body_def body_defs cong: option.case_cong)

lemma delete_watches:
  "RedisStore_DeleteStorageWithOptions room options =
    redis_Watch (storage_keys room (sdo_OpID options)) (delete_body room options)"
  by (simp add: RedisStore_DeleteStorageWithOptions_def delete_body_def body_defs cong: option.case_cong)

lemma bodies_watched:
  "watched_body (storage_keys room (swo_OpID options)) (set_body room compacted options)"
  "watched_body (storage_keys room (swo_OpID options)) (patch_body room operations fingerprint options)"
  "watched_body (storage_keys room (sdo_OpID o')) (delete_body room o')"
  unfolding set_body_def patch_body_def delete_body_def Let_def
  by (intro watched_unless watched_store_next watched_reads;
      auto simp: storage_keys_def intro!: watched_store_next[unfolded storage_keys_def] split: option.split)+

lemma bodies_repeat:
  "without_commit (set_body room compacted options) (Inr r) \<Longrightarrow> swr_Duplicate r"
  "without_commit (patch_body room operations fingerprint options) (Inr r) \<Longrightarrow> swr_Duplicate r"
  by (auto simp: set_body_def patch_body_def Let_def repeats_def storageWriteResultFromRecord_def
      without_commit_thenDo dest!: without_commit_unless without_commit_store_next split: option.splits)

subsection \<open>What they do at their instant\<close>

lemma set_body_alone:
  assumes "alone c t (set_body room compacted options) s (Inr r) s'" and "\<not> swr_Duplicate r"
  shows "\<exists>n. sequence_stored s room n \<and> (swo_ExpectedSequenceSet options \<longrightarrow> n = swo_ExpectedSequence options)
    \<and> r = written_as StorageMutationSet compacted (n + 1)
    \<and> key_of s' (roomStorageKey room) = Some (EString compacted) \<and> sequence_stored s' room (n + 1)"
proof -
  have "\<not> (\<exists>x. r = repeats x \<and> swo_OpID options \<noteq> [] \<and> s' = s)" using assms(2) by (auto simp: repeats_def storageWriteResultFromRecord_def)
  from alone_unless[OF assms(1)[unfolded set_body_def Let_def]] this obtain n where
    n: "sequence_stored s room n" "swo_ExpectedSequenceSet options \<longrightarrow> n = swo_ExpectedSequence options"
      "r = written_as StorageMutationSet compacted (n + 1)"
    and tx: "alone c t (commit_storage room (swo_OpID options)
        \<lparr>soe_Kind = StorageMutationSet, soe_Fingerprint = storageDocumentFingerprint StorageMutationSet compacted,
         soe_Document = compacted, soe_Sequence = n + 1\<rparr> (SET (roomStorageKey room) compacted 0)) s (Inr ()) s'"
    by (auto dest!: alone_store_next)
  show ?thesis using n alone_commit_storage(1,3)[OF tx, of compacted] by auto
qed

lemma patch_body_alone:
  assumes "alone c t (patch_body room operations fingerprint options) s (Inr r) s'" and "\<not> swr_Duplicate r"
  shows "\<exists>n raw patched. key_of s (roomStorageKey room) = Some (EString raw) \<and> sequence_stored s room n
    \<and> (swo_ExpectedSequenceSet options \<longrightarrow> n = swo_ExpectedSequence options)
    \<and> patched_document raw operations (swo_MaxBytes options) = Inr patched
    \<and> r = written_as StorageMutationPatch patched (n + 1)
    \<and> key_of s' (roomStorageKey room) = Some (EString patched) \<and> sequence_stored s' room (n + 1)"
proof -
  have "\<not> (\<exists>x. r = repeats x \<and> swo_OpID options \<noteq> [] \<and> s' = s)" using assms(2) by (auto simp: repeats_def storageWriteResultFromRecord_def)
  from alone_unless[OF assms(1)[unfolded patch_body_def]] this obtain n raw patched where
    n: "key_of s (roomStorageKey room) = Some (EString raw)" "sequence_stored s room n"
      "swo_ExpectedSequenceSet options \<longrightarrow> n = swo_ExpectedSequence options"
      "engine_result (patched_document raw operations (swo_MaxBytes options)) = Inr patched"
      "r = written_as StorageMutationPatch patched (n + 1)"
    and tx: "alone c t (commit_storage room (swo_OpID options)
        \<lparr>soe_Kind = StorageMutationPatch, soe_Fingerprint = fingerprint, soe_Document = patched, soe_Sequence = n + 1\<rparr>
        (SET (roomStorageKey room) patched 0)) s (Inr ()) s'"
    by (auto simp: alone_thenDo dest!: alone_store_next split: option.splits entry.splits)
  show ?thesis using n alone_commit_storage(1,3)[OF tx, of patched]
    by (auto simp: engine_result_def split: sum.splits)
qed

lemma delete_body_alone:
  assumes "alone c t (delete_body room options) s (Inr r) s'"
  shows "sdo_OpID options \<noteq> [] \<and> s' = s
    \<or> (\<exists>n. key_of s (roomStorageKey room) \<noteq> None \<and> sequence_stored s room n
         \<and> (sdo_ExpectedSequenceSet options \<longrightarrow> n = sdo_ExpectedSequence options) \<and> r = n + 1
         \<and> key_of s' (roomStorageKey room) = None \<and> sequence_stored s' room (n + 1))"
proof -
  from alone_unless[OF assms[unfolded delete_body_def]] show ?thesis
  proof
    assume "alone c t (thenDo (redis_Exists [roomStorageKey room]) (\<lambda>exists.
        thenDo (check_that (exists \<noteq> 0) (cluster_err ErrStorageNotFound)) (\<lambda>_.
        store_next room (sdo_OpID options) (sdo_ExpectedSequenceSet options) (sdo_ExpectedSequence options)
          (\<lambda>_. Inr ())
          (\<lambda>d n. \<lparr>soe_Kind = StorageMutationDelete, soe_Fingerprint = storageDeleteFingerprint, soe_Document = [], soe_Sequence = n\<rparr>)
          (\<lambda>_. DEL [roomStorageKey room]) (\<lambda>_ n. n)))) s (Inr r) s'"
    then obtain n where n: "key_of s (roomStorageKey room) \<noteq> None" "sequence_stored s room n"
        "sdo_ExpectedSequenceSet options \<longrightarrow> n = sdo_ExpectedSequence options" "r = n + 1"
      and tx: "alone c t (commit_storage room (sdo_OpID options)
          \<lparr>soe_Kind = StorageMutationDelete, soe_Fingerprint = storageDeleteFingerprint, soe_Document = [], soe_Sequence = n + 1\<rparr>
          (DEL [roomStorageKey room])) s (Inr ()) s'"
      by (auto simp: alone_thenDo dest!: alone_store_next split: if_splits)
    show ?thesis using n alone_commit_storage(2,3)[OF tx] by auto
  qed blast
qed

subsection \<open>The same as the engine\<close>

text \<open>
  One step of the operation takes effect. It takes the next sequence of the room, and of every
  engine that mirrors the room it makes the same change as the mutation of the engine.
\<close>

definition performs ::
  "redis_step list \<Rightarrow> room_id \<Rightarrow> string \<Rightarrow> (Engine \<Rightarrow> (engine_error + StorageMutation \<times> bool) \<times> Engine) \<Rightarrow> bytes \<Rightarrow> u64 \<Rightarrow> bool" where
  "performs sts room opID mutate document n \<longleftrightarrow>
    (\<exists>pre st post. sts = pre @ st # post \<and> list_all quiet pre \<and> list_all quiet post
       \<and> sequence_stored (served st) room (n - 1) \<and> sequence_stored (sp_after st) room n
       \<and> (\<forall>e. mirrors e room (served st) \<longrightarrow> fresh_op e room opID \<longrightarrow>
            (\<exists>m e'. mutate e = (Inr (m, False), e') \<and> sm_Document m = document \<and> sm_Sequence m = n
               \<and> mirrors e' room (sp_after st))))"

lemma performsI:
  assumes "sts = pre @ st # post" and "list_all quiet pre" and "list_all quiet post"
    and "sequence_stored (served st) room m" and "sequence_stored (sp_after st) room n" and "n = m + 1"
    and "\<And>e. mirrors e room (served st) \<Longrightarrow> fresh_op e room opID \<Longrightarrow> \<exists>mu e'. mutate e = (Inr (mu, False), e')
      \<and> sm_Document mu = document \<and> sm_Sequence mu = n \<and> mirrors e' room (sp_after st)"
  shows "performs sts room opID mutate document n"
  unfolding performs_def using assms by (intro exI[of _ pre] exI[of _ st] exI[of _ post]) simp

lemma no_recorded: "fresh_op e room opID \<Longrightarrow> storageOpMutationLocked e room opID fingerprint = Inr None"
  by (simp add: fresh_op_def storageOpMutationLocked_def)

lemma next_of_options:
  "(swo_ExpectedSequenceSet w \<longrightarrow> n = swo_ExpectedSequence w) \<Longrightarrow> next_sequence n (write_options w) = Inr (n + 1)"
  "(sdo_ExpectedSequenceSet d \<longrightarrow> n = sdo_ExpectedSequence d) \<Longrightarrow> next_sequence n (delete_options d) = Inr (n + 1)"
  by (simp_all add: next_sequence_def write_options_def delete_options_def)

lemma remember_keeps:
  "document_of (rememberStorageOpLocked room opID fp m e) r = document_of e r"
  "seq_of (rememberStorageOpLocked room opID fp m e) r = seq_of e r"
  by (simp_all add: rememberStorageOpLocked_def document_of_def seq_of_def)

lemma stored_keys:
  "rs_keys s' = rs_keys s \<Longrightarrow> sequence_stored s' room n \<longleftrightarrow> sequence_stored s room n"
  "rs_keys s' = rs_keys s \<Longrightarrow> document_stored s' room d \<longleftrightarrow> document_stored s room d"
  by (simp_all add: sequence_stored_def document_stored_def key_of_def)

lemma commit_step:
  assumes "at_once c body sts (Inr r)" and "\<not> without_commit body (Inr r)"
  obtains pre st post s' where "sts = pre @ st # post" and "list_all quiet pre" and "list_all quiet post"
    and "alone c (sp_at st) body (served st) (Inr r) s'" and "rs_keys (sp_after st) = rs_keys s'"
  using assms by (auto simp: at_once_def commits_at_def)

lemma set_performs:
  assumes "interleaved c (RedisStore_SetStorageWithResult room document w) s sts (Inr r) s'" and "\<not> swr_Duplicate r"
  shows "performs sts room (swo_OpID w) (\<lambda>e. setStorageMutation e room document (write_options w))
    (swr_Document r) (swr_Sequence r)"
proof -
  obtain d where d: "checked_document document (swo_MaxBytes w) = Inr d"
      and run: "interleaved c (redis_Watch (storage_keys room (swo_OpID w)) (set_body room d w)) s sts (Inr r) s'"
    using assms(1) by (cases "checked_document document (swo_MaxBytes w)")
      (auto simp: set_watches engine_result_def refuse_def dest: interleaved_ReturnD)
  obtain pre st post s2 where st: "sts = pre @ st # post" "list_all quiet pre" "list_all quiet post"
      "alone c (sp_at st) (set_body room d w) (served st) (Inr r) s2" "rs_keys (sp_after st) = rs_keys s2"
    using commit_step[OF watched_at_once[OF run bodies_watched(1)]] bodies_repeat(1) assms(2) by metis
  obtain n where n: "sequence_stored (served st) room n" "swo_ExpectedSequenceSet w \<longrightarrow> n = swo_ExpectedSequence w"
      "r = written_as StorageMutationSet d (n + 1)" "key_of s2 (roomStorageKey room) = Some (EString d)"
      "sequence_stored s2 room (n + 1)"
    using set_body_alone[OF st(4) assms(2)] by blast
  have after: "document_stored (sp_after st) room d" "sequence_stored (sp_after st) room (n + 1)"
    using n(4,5) storage_document_nonempty[OF checked_document_ok[OF d]] stored_keys[OF st(5)]
    by (simp_all add: document_stored_def)
  have "\<exists>m e'. setStorageMutation e room document (write_options w) = (Inr (m, False), e')
      \<and> sm_Document m = d \<and> sm_Sequence m = n + 1 \<and> mirrors e' room (sp_after st)"
    if e: "mirrors e room (served st)" "fresh_op e room (swo_OpID w)" for e
  proof -
    have "seq_of e room = n" using e(1) n(1) sequence_stored_unique by (auto simp: mirrors_def)
    then show ?thesis
      using d next_of_options(1)[OF n(2)] no_recorded[OF e(2)] after
      by (simp add: setStorageMutation_def Let_def write_options_def newStorageMutation_def mirrors_def remember_keeps
          put_document_facts)
  qed
  then show ?thesis
    using performsI[OF st(1-3) n(1) after(2)] n(3) by (simp add: written_as_def)
qed

lemma patch_performs:
  assumes "interleaved c (RedisStore_ApplyStoragePatchWithResult room operations w) s sts (Inr r) s'"
    and "\<not> swr_Duplicate r"
  shows "performs sts room (swo_OpID w) (\<lambda>e. applyStoragePatchMutation e room operations (write_options w))
    (swr_Document r) (swr_Sequence r)"
proof -
  obtain fp where fp: "storagePatchFingerprint operations = Inr fp"
      and run: "interleaved c (redis_Watch (storage_keys room (swo_OpID w)) (patch_body room operations fp w)) s sts (Inr r) s'"
    using assms(1) by (cases "storagePatchFingerprint operations")
      (auto simp: patch_watches engine_result_def refuse_def dest: interleaved_ReturnD)
  obtain pre st post s2 where st: "sts = pre @ st # post" "list_all quiet pre" "list_all quiet post"
      "alone c (sp_at st) (patch_body room operations fp w) (served st) (Inr r) s2" "rs_keys (sp_after st) = rs_keys s2"
    using commit_step[OF watched_at_once[OF run bodies_watched(2)]] bodies_repeat(2) assms(2) by metis
  obtain n raw d where n: "key_of (served st) (roomStorageKey room) = Some (EString raw)"
      "sequence_stored (served st) room n" "swo_ExpectedSequenceSet w \<longrightarrow> n = swo_ExpectedSequence w"
      "patched_document raw operations (swo_MaxBytes w) = Inr d" "r = written_as StorageMutationPatch d (n + 1)"
      "key_of s2 (roomStorageKey room) = Some (EString d)" "sequence_stored s2 room (n + 1)"
    using patch_body_alone[OF st(4) assms(2)] by blast
  have after: "document_stored (sp_after st) room d" "sequence_stored (sp_after st) room (n + 1)"
    using n(6,7) storage_document_nonempty[OF patched_document_ok[OF n(4)]] stored_keys[OF st(5)]
    by (simp_all add: document_stored_def)
  have "\<exists>m e'. applyStoragePatchMutation e room operations (write_options w) = (Inr (m, False), e')
      \<and> sm_Document m = d \<and> sm_Sequence m = n + 1 \<and> mirrors e' room (sp_after st)"
    if e: "mirrors e room (served st)" "fresh_op e room (swo_OpID w)" for e
  proof -
    have "seq_of e room = n" "document_of e room = raw" "raw \<noteq> []"
      using e(1) n(1,2) sequence_stored_unique by (auto simp: mirrors_def document_stored_def)
    then show ?thesis
      using fp n(4) next_of_options(1)[OF n(3)] no_recorded[OF e(2)] after
      by (simp add: applyStoragePatchMutation_def Let_def write_options_def newStorageMutation_def mirrors_def
          remember_keeps put_document_facts)
  qed
  then show ?thesis
    using performsI[OF st(1-3) n(2) after(2)] n(5) by (simp add: written_as_def)
qed

lemma delete_performs:
  assumes "interleaved c (RedisStore_DeleteStorageWithOptions room w) s sts (Inr n) s'"
  shows "list_all quiet sts \<and> sdo_OpID w \<noteq> []
    \<or> performs sts room (sdo_OpID w) (\<lambda>e. deleteStorageMutation e room (delete_options w) True) [] n"
proof -
  have once: "at_once c (delete_body room w) sts (Inr n)"
    using watched_at_once[OF assms[unfolded delete_watches] bodies_watched(3)] .
  show ?thesis
  proof (cases "without_commit (delete_body room w) (Inr n) \<and> list_all quiet sts")
    case True
    then have "sdo_OpID w \<noteq> []"
      by (auto simp: delete_body_def without_commit_thenDo dest!: without_commit_unless without_commit_store_next
          split: if_splits)
    then show ?thesis using True by simp
  next
    case False
    then obtain pre st post s2 where st: "sts = pre @ st # post" "list_all quiet pre" "list_all quiet post"
        "alone c (sp_at st) (delete_body room w) (served st) (Inr n) s2" "rs_keys (sp_after st) = rs_keys s2"
      using once by (auto simp: at_once_def commits_at_def)
    from delete_body_alone[OF st(4)] show ?thesis
    proof
      assume "sdo_OpID w \<noteq> [] \<and> s2 = served st"
      then show ?thesis using st by (simp add: quiet_def)
    next
      assume "\<exists>m. key_of (served st) (roomStorageKey room) \<noteq> None \<and> sequence_stored (served st) room m
         \<and> (sdo_ExpectedSequenceSet w \<longrightarrow> m = sdo_ExpectedSequence w) \<and> n = m + 1
         \<and> key_of s2 (roomStorageKey room) = None \<and> sequence_stored s2 room (m + 1)"
      then obtain m where m: "key_of (served st) (roomStorageKey room) \<noteq> None" "sequence_stored (served st) room m"
          "sdo_ExpectedSequenceSet w \<longrightarrow> m = sdo_ExpectedSequence w" "n = m + 1"
          "key_of s2 (roomStorageKey room) = None" "sequence_stored s2 room (m + 1)"
        by blast
      have after: "document_stored (sp_after st) room []" "sequence_stored (sp_after st) room (m + 1)"
        using m(5,6) stored_keys[OF st(5)] by (simp_all add: document_stored_def)
      have "\<exists>mu e'. deleteStorageMutation e room (delete_options w) True = (Inr (mu, False), e')
          \<and> sm_Document mu = [] \<and> sm_Sequence mu = n \<and> mirrors e' room (sp_after st)"
        if e: "mirrors e room (served st)" "fresh_op e room (sdo_OpID w)" for e
      proof -
        have "seq_of e room = m" "document_of e room \<noteq> []"
          using e(1) m(1,2) sequence_stored_unique
          by (auto simp: mirrors_def document_stored_def split: option.splits entry.splits)
        then show ?thesis
          using next_of_options(2)[OF m(3)] no_recorded[OF e(2)] after m(4)
          by (simp add: deleteStorageMutation_def Let_def delete_options_def newStorageMutation_def mirrors_def
              remember_keeps drop_document_facts)
      qed
      then show ?thesis
        using performsI[OF st(1-3) m(2) after(2)] m(4) by simp
    qed
  qed
qed

subsection \<open>Writes that succeed\<close>

lemma checked_raw: "checked_document document n = Inr d \<Longrightarrow> raw_marshal d \<noteq> None"
  by (auto simp: checked_document_def raw_marshal_def dest: json_compact_idem split: option.splits if_splits)

lemma entry_encodes:
  assumes "raw_marshal (soe_Document r) \<noteq> None"
  obtains raw where "encodeStorageOpRecord r = Inr raw"
proof -
  have "\<exists>raw. encodeStorageOpRecord r = Inr raw"
    using assms by (auto simp: encodeStorageOpRecord_def storageOpEntry_text_def members_text_def text_member_def
        optional_member_def member_def or_error_def)
  then show thesis using that by blast
qed

lemma run_sequence:
  assumes "lasting s" and "sequence_stored s room n" and "given \<longrightarrow> n = expected"
  shows "run_redis reference now c (expected_sequence room given expected) s = (Inr n, s)"
  using assms
  by (auto simp: expected_sequence_def redisStorageSequence_def run_thenDo run_Get sequence_stored_def
      optional_sequence_def parseStorageSequence_def or_error_def split: option.splits entry.splits)

lemma run_commit_storage:
  assumes "lasting s" and "\<not> snd (watched_by s c)" and "raw_marshal (soe_Document entry) \<noteq> None"
    and "cmd = SET (roomStorageKey room) d 0 \<or> cmd = DEL [roomStorageKey room]"
  shows "fst (run_redis reference now c (commit_storage room opID entry cmd) s) = Inr ()"
proof -
  obtain raw where "encodeStorageOpRecord entry = Inr raw" using assms(3) by (rule entry_encodes)
  then show ?thesis
    using assms(4) by (auto simp: commit_storage_def run_thenDo run_commit[OF assms(1,2)] case_prod_unfold)
qed

lemma run_unless:
  assumes "lasting s" and "key_of s (roomStorageOpKey room opID) = None \<or> opID = []"
  shows "run_redis reference now c (unless_recorded room opID fingerprint again body) s
    = run_redis reference now c body s"
  using assms
  by (auto simp: unless_recorded_def recorded_op_def loadStorageOpRecord_def run_thenDo run_Get)

lemma run_store_next:
  assumes "lasting s" and "\<not> snd (watched_by s c)" and "sequence_stored s room n" and "given \<longrightarrow> n = expected"
    and "produce n = Inr d" and "raw_marshal (soe_Document (entry d (n + 1))) \<noteq> None"
    and "cmd d = SET (roomStorageKey room) d' 0 \<or> cmd d = DEL [roomStorageKey room]"
  shows "fst (run_redis reference now c (store_next room opID given expected produce entry cmd answer) s) = Inr (answer d (n + 1))"
  using run_commit_storage[OF assms(1,2,6,7), of now opID] assms(5)
  by (simp add: store_next_def run_thenDo run_sequence[OF assms(1,3,4)] case_prod_unfold split: sum.split)

lemma set_runs:
  assumes "lasting s" and "\<not> snd (watched_by s c)" and "sequence_stored s room n"
    and "swo_ExpectedSequenceSet w \<longrightarrow> n = swo_ExpectedSequence w"
    and "key_of s (roomStorageOpKey room (swo_OpID w)) = None \<or> swo_OpID w = []"
    and "checked_document document (swo_MaxBytes w) = Inr d"
  shows "fst (run_redis reference now c (RedisStore_SetStorageWithResult room document w) s)
    = Inr (written_as StorageMutationSet d (n + 1))"
  using assms checked_raw[OF assms(6)]
  by (simp add: set_watches engine_result_def run_Watch set_body_def Let_def run_unless
      run_store_next[where n = n and d = d and d' = d] sequence_stored_def)

lemma patch_runs:
  assumes "lasting s" and "\<not> snd (watched_by s c)" and "sequence_stored s room n"
    and "swo_ExpectedSequenceSet w \<longrightarrow> n = swo_ExpectedSequence w"
    and "key_of s (roomStorageOpKey room (swo_OpID w)) = None \<or> swo_OpID w = []"
    and "storagePatchFingerprint operations = Inr fp" and "key_of s (roomStorageKey room) = Some (EString raw)"
    and "patched_document raw operations (swo_MaxBytes w) = Inr d"
    and "raw_marshal d \<noteq> None"
  shows "fst (run_redis reference now c (RedisStore_ApplyStoragePatchWithResult room operations w) s)
    = Inr (written_as StorageMutationPatch d (n + 1))"
  using assms
  by (simp add: patch_watches engine_result_def run_Watch patch_body_def Let_def run_unless run_thenDo run_Get
      run_store_next[where n = n and d = d and d' = d] sequence_stored_def)

lemma delete_runs:
  assumes "lasting s" and "\<not> snd (watched_by s c)" and "sequence_stored s room n"
    and "sdo_ExpectedSequenceSet w \<longrightarrow> n = sdo_ExpectedSequence w"
    and "key_of s (roomStorageOpKey room (sdo_OpID w)) = None \<or> sdo_OpID w = []"
    and "key_of s (roomStorageKey room) \<noteq> None"
  shows "fst (run_redis reference now c (RedisStore_DeleteStorageWithOptions room w) s) = Inr (n + 1)"
  using assms
  by (simp add: raw_marshal_def delete_watches run_Watch delete_body_def Let_def run_unless run_thenDo run_Exists
      run_store_next[where n = n and d = "()" and d' = "[]"] sequence_stored_def)

end
