(* ===== verification/Product_Records.thy ===== *)
theory Product_Records
  imports Admin_Product Store_Fields Room_Access
begin

text \<open>
  The records of \<open>cluster/product.go\<close> as they are kept in Redis: the names of the keys, the
  normalisation of each record, the fields of its hash and the JSON of the records that are
  kept as JSON.

  The last error of a delivery is stored as its text; \<open>errorText\<close> gives the text of an error.
\<close>

subsection \<open>Keys\<close>

definition productTenantIndexKey :: string where
  "productTenantIndexKey = ''product:tenants''"

definition productTenantKey :: "string \<Rightarrow> string" where
  "productTenantKey i = ''product:tenant:'' @ i"

definition productProjectIndexKey :: "string \<Rightarrow> string" where
  "productProjectIndexKey tenantID = ''product:tenant:'' @ tenantID @ '':projects''"

definition productProjectKey :: "string \<Rightarrow> string \<Rightarrow> string" where
  "productProjectKey tenantID projectID = ''product:tenant:'' @ tenantID @ '':project:'' @ projectID"

definition productAPIKeyIndexKey :: "string \<Rightarrow> string \<Rightarrow> string" where
  "productAPIKeyIndexKey tenantID projectID =
    ''product:tenant:'' @ tenantID @ '':project:'' @ projectID @ '':api_keys''"

definition productAPIKeyKey :: "string \<Rightarrow> string" where
  "productAPIKeyKey i = ''product:api_key:'' @ i"

definition productAPIKeyPrefixKey :: "string \<Rightarrow> string" where
  "productAPIKeyPrefixKey pre = ''product:api_key_prefix:'' @ pre"

definition productAuditIndexKey :: "string \<Rightarrow> string" where
  "productAuditIndexKey tenantID =
    (if tenantID = [] then ''product:audit'' else ''product:tenant:'' @ tenantID @ '':audit'')"

definition productUsageIndexKey :: "string \<Rightarrow> string \<Rightarrow> string" where
  "productUsageIndexKey tenantID projectID =
    ''product:tenant:'' @ tenantID @ '':project:'' @ projectID @ '':usage''"

definition productUsageKey :: "string \<Rightarrow> string \<Rightarrow> string \<Rightarrow> string \<Rightarrow> string \<Rightarrow> string" where
  "productUsageKey tenantID projectID roomID metric window =
    join_on (CHR 0x00) [tenantID, projectID, roomID, metric, window]"

definition productUsageRecordKey :: "string \<Rightarrow> string" where
  "productUsageRecordKey key = ''product:usage:'' @ key"

definition productWebhookDeliveryIndexKey :: string where
  "productWebhookDeliveryIndexKey = ''product:webhook_deliveries''"

definition productWebhookDeliveryKey :: "string \<Rightarrow> string" where
  "productWebhookDeliveryKey i = ''product:webhook_delivery:'' @ i"

definition productVersionSnapshotIndexKey :: "room_id \<Rightarrow> string \<Rightarrow> string" where
  "productVersionSnapshotIndexKey roomID documentID = ''product:room:'' @ roomID @ '':versions:'' @ documentID"

definition productVersionSnapshotKey :: "room_id \<Rightarrow> string \<Rightarrow> string \<Rightarrow> string" where
  "productVersionSnapshotKey roomID documentID i = productVersionSnapshotIndexKey roomID documentID @ '':'' @ i"

definition productRichTextDocumentIndexKey :: "room_id \<Rightarrow> string" where
  "productRichTextDocumentIndexKey roomID = ''product:room:'' @ roomID @ '':rich_text''"

definition productRichTextDocumentKey :: "room_id \<Rightarrow> string \<Rightarrow> string" where
  "productRichTextDocumentKey roomID i = productRichTextDocumentIndexKey roomID @ '':'' @ i"

definition productResumeSessionIndexKey :: "string \<Rightarrow> string \<Rightarrow> string" where
  "productResumeSessionIndexKey tenantID projectID =
    ''product:tenant:'' @ tenantID @ '':project:'' @ projectID @ '':resume_sessions''"

definition productResumeSessionRoomIndexKey :: "room_id \<Rightarrow> string" where
  "productResumeSessionRoomIndexKey roomID = ''product:room:'' @ roomID @ '':resume_sessions''"

definition productResumeSessionKey :: "string \<Rightarrow> string" where
  "productResumeSessionKey i = ''product:resume_session:'' @ i"

subsection \<open>Secrets\<close>

definition apiKeyPrefixFromSecret :: "string \<Rightarrow> string option" where
  "apiKeyPrefixFromSecret secret =
    (if \<not> prefix ''ortc_sk_'' secret then None
     else
       (let remainder = drop 8 secret in
        if length remainder \<le> 13 \<or> remainder ! 13 \<noteq> CHR ''_'' then None
        else (let pre = take 13 remainder in if \<not> prefix ''ortc_'' pre then None else Some pre)))"

definition apiKeySecretHash :: "string \<Rightarrow> string" where
  "apiKeySecretHash secret = ''sha256:'' @ hex_bytes (sha256 secret)"

subsection \<open>Normalisation\<close>

definition normalizedJSON :: "bytes \<Rightarrow> bytes" where
  "normalizedJSON raw = (if raw = [] then ''{}'' else raw)"

definition normalizeTenantRecord :: "TenantRecord \<Rightarrow> TenantRecord" where
  "normalizeTenantRecord r =
    (let i = trim_space (tn_ID r); name = trim_space (tn_Name r) in
     r\<lparr>tn_ID := i, tn_Name := (if name = [] then i else name), tn_Metadata := normalizedJSON (tn_Metadata r)\<rparr>)"

definition normalizeProjectRecord :: "ProjectRecord \<Rightarrow> ProjectRecord" where
  "normalizeProjectRecord r =
    (let i = trim_space (pj_ID r); name = trim_space (pj_Name r) in
     r\<lparr>pj_ID := i, pj_TenantID := trim_space (pj_TenantID r), pj_Name := (if name = [] then i else name),
       pj_Metadata := normalizedJSON (pj_Metadata r)\<rparr>)"

definition normalizeAuditLogRecord :: "gtime \<Rightarrow> AuditLogRecord \<Rightarrow> AuditLogRecord" where
  "normalizeAuditLogRecord now r =
    r\<lparr>al_CreatedAt := or_now now (al_CreatedAt r), al_Metadata := normalizedJSON (al_Metadata r)\<rparr>"

definition normalizeWebhookDeliveryRecord :: "gtime \<Rightarrow> WebhookDeliveryRecord \<Rightarrow> WebhookDeliveryRecord" where
  "normalizeWebhookDeliveryRecord now r =
    (let created = or_now now (wd_CreatedAt r) in
     r\<lparr>wd_Status := (if wd_Status r = [] then ''pending'' else wd_Status r), wd_CreatedAt := created,
       wd_UpdatedAt := or_now created (wd_UpdatedAt r), wd_Payload := normalizedJSON (wd_Payload r)\<rparr>)"

definition normalizeVersionSnapshotRecord :: "gtime \<Rightarrow> VersionSnapshotRecord \<Rightarrow> VersionSnapshotRecord" where
  "normalizeVersionSnapshotRecord now r =
    r\<lparr>vs_DocumentID := (if vs_DocumentID r = [] then ''storage'' else vs_DocumentID r),
      vs_CreatedAt := or_now now (vs_CreatedAt r), vs_Document := normalizedJSON (vs_Document r),
      vs_Metadata := normalizedJSON (vs_Metadata r)\<rparr>"

definition normalizeRichTextDocumentRecord :: "RichTextDocumentRecord \<Rightarrow> RichTextDocumentRecord" where
  "normalizeRichTextDocumentRecord r =
    r\<lparr>rt_Content := normalizedJSON (rt_Content r), rt_Metadata := normalizedJSON (rt_Metadata r)\<rparr>"

definition normalizeResumeSessionRecord :: "gtime \<Rightarrow> ResumeSessionRecord \<Rightarrow> ResumeSessionRecord" where
  "normalizeResumeSessionRecord now r =
    r\<lparr>rsr_Rooms := normalizeStringList (rsr_Rooms r), rsr_Metadata := normalizedJSON (rsr_Metadata r),
      rsr_ExpiresAt := or_now (now + 24 * 3600 * second) (rsr_ExpiresAt r)\<rparr>"

subsection \<open>Fields\<close>

text \<open>\<open>json.Marshal\<close> of a normalised list, and its reading; nothing is read from an empty text.\<close>

definition normalized_list_text :: "string list \<Rightarrow> string" where
  "normalized_list_text xs = (if xs = [] then null_text else array_text (map quote_text (normalizeStringList xs)))"

definition cursors_text :: "(string, u64) fmap \<Rightarrow> string" where
  "cursors_text m = object_text (map (\<lambda>k. (quote_body k, format_uint (the (fmlookup m k)))) (sorted_ids (fmdom m)))"

definition field_cursors :: "hash \<Rightarrow> string \<Rightarrow> go_error + (string, u64) fmap" where
  "field_cursors m f =
    (if gm_bytes m f = [] then Inr fmempty
     else or_error json_error
       (map_option (\<lambda>c. case c of None \<Rightarrow> fmempty | Some c \<Rightarrow> c) (decode_map decode_uint 0 (Some fmempty) (gm_bytes m f))))"

subsection \<open>Hashes\<close>

definition encodeTenantRecord :: "TenantRecord \<Rightarrow> hash_fields" where
  "encodeTenantRecord r =
    (let r = normalizeTenantRecord r in
     [(''id'', tn_ID r), (''name'', tn_Name r), (''metadata'', tn_Metadata r),
      (''created_at'', format_time (tn_CreatedAt r)), (''updated_at'', format_time (tn_UpdatedAt r))])"

definition decodeTenantRecord :: "hash \<Rightarrow> go_error + TenantRecord" where
  "decodeTenantRecord m =
    bind_err (field_time m ''created_at'') (\<lambda>created.
    bind_err (field_time m ''updated_at'') (\<lambda>updated.
    Inr (normalizeTenantRecord
      \<lparr>tn_ID = gm_bytes m ''id'', tn_Name = gm_bytes m ''name'', tn_Metadata = field_json m ''metadata'',
       tn_CreatedAt = created, tn_UpdatedAt = updated\<rparr>)))"

definition encodeProjectRecord :: "ProjectRecord \<Rightarrow> hash_fields" where
  "encodeProjectRecord r =
    (let r = normalizeProjectRecord r in
     [(''id'', pj_ID r), (''tenant_id'', pj_TenantID r), (''name'', pj_Name r), (''metadata'', pj_Metadata r),
      (''created_at'', format_time (pj_CreatedAt r)), (''updated_at'', format_time (pj_UpdatedAt r))])"

definition decodeProjectRecord :: "hash \<Rightarrow> go_error + ProjectRecord" where
  "decodeProjectRecord m =
    bind_err (field_time m ''created_at'') (\<lambda>created.
    bind_err (field_time m ''updated_at'') (\<lambda>updated.
    Inr (normalizeProjectRecord
      \<lparr>pj_ID = gm_bytes m ''id'', pj_TenantID = gm_bytes m ''tenant_id'', pj_Name = gm_bytes m ''name'',
       pj_Metadata = field_json m ''metadata'', pj_CreatedAt = created, pj_UpdatedAt = updated\<rparr>)))"

definition encodeAPIKeyRecord :: "APIKeyRecord \<Rightarrow> hash_fields" where
  "encodeAPIKeyRecord r =
    [(''id'', ak_ID r), (''tenant_id'', ak_TenantID r), (''project_id'', ak_ProjectID r), (''name'', ak_Name r),
     (''prefix'', ak_Prefix r), (''secret_hash'', ak_SecretHash r),
     (''scopes'', normalized_list_text (ak_Scopes r)), (''revoked'', bool_text (ak_Revoked r)),
     (''created_at'', format_time (ak_CreatedAt r)), (''updated_at'', format_time (ak_UpdatedAt r)),
     (''last_used_at'', optional_time_text (ak_LastUsedAt r))]"

definition decodeAPIKeyRecord :: "hash \<Rightarrow> go_error + APIKeyRecord" where
  "decodeAPIKeyRecord m =
    bind_err (field_time m ''created_at'') (\<lambda>created.
    bind_err (field_time m ''updated_at'') (\<lambda>updated.
    bind_err (field_bool m ''revoked'') (\<lambda>revoked.
    bind_err (field_strings m ''scopes'') (\<lambda>scopes.
    bind_err (field_optional_time m ''last_used_at'') (\<lambda>lastUsed.
    Inr \<lparr>ak_ID = gm_bytes m ''id'', ak_TenantID = gm_bytes m ''tenant_id'', ak_ProjectID = gm_bytes m ''project_id'',
      ak_Name = gm_bytes m ''name'', ak_Prefix = gm_bytes m ''prefix'', ak_SecretHash = gm_bytes m ''secret_hash'',
      ak_Scopes = normalizeStringList scopes, ak_Revoked = revoked, ak_CreatedAt = created,
      ak_UpdatedAt = updated, ak_LastUsedAt = lastUsed\<rparr>)))))"

definition message_string :: "(go_error \<Rightarrow> string) \<Rightarrow> message_text \<Rightarrow> string" where
  "message_string errorText t = (case t of Text s \<Rightarrow> s | Error_of err \<Rightarrow> errorText err)"

definition encodeWebhookDeliveryRecord ::
  "(go_error \<Rightarrow> string) \<Rightarrow> gtime \<Rightarrow> WebhookDeliveryRecord \<Rightarrow> hash_fields" where
  "encodeWebhookDeliveryRecord errorText now r =
    (let r = normalizeWebhookDeliveryRecord now r in
     [(''id'', wd_ID r), (''webhook_id'', wd_WebhookID r), (''event'', wd_Event r), (''url'', wd_URL r),
      (''status'', wd_Status r), (''attempts'', format_int (wd_Attempts r)),
      (''last_status_code'', format_int (wd_LastStatusCode r)),
      (''last_error'', message_string errorText (wd_LastError r)), (''payload'', wd_Payload r),
      (''created_at'', format_time (wd_CreatedAt r)), (''updated_at'', format_time (wd_UpdatedAt r)),
      (''next_attempt_at'', optional_time_text (wd_NextAttemptAt r))])"

definition decodeWebhookDeliveryRecord :: "gtime \<Rightarrow> hash \<Rightarrow> go_error + WebhookDeliveryRecord" where
  "decodeWebhookDeliveryRecord now m =
    bind_err (field_time m ''created_at'') (\<lambda>created.
    bind_err (field_time m ''updated_at'') (\<lambda>updated.
    bind_err (field_int m ''attempts'') (\<lambda>attempts.
    bind_err (field_int m ''last_status_code'') (\<lambda>statusCode.
    bind_err (field_optional_time m ''next_attempt_at'') (\<lambda>nextAttempt.
    Inr (normalizeWebhookDeliveryRecord now
      \<lparr>wd_ID = gm_bytes m ''id'', wd_WebhookID = gm_bytes m ''webhook_id'', wd_Event = gm_bytes m ''event'',
       wd_URL = gm_bytes m ''url'', wd_Status = gm_bytes m ''status'', wd_Attempts = attempts,
       wd_LastStatusCode = statusCode, wd_LastError = Text (gm_bytes m ''last_error''),
       wd_Payload = field_json m ''payload'', wd_CreatedAt = created, wd_UpdatedAt = updated,
       wd_NextAttemptAt = nextAttempt\<rparr>))))))"

definition encodeRichTextDocumentRecord :: "RichTextDocumentRecord \<Rightarrow> hash_fields" where
  "encodeRichTextDocumentRecord r =
    (let r = normalizeRichTextDocumentRecord r in
     [(''id'', rt_ID r), (''room_id'', rt_RoomID r), (''content'', rt_Content r), (''metadata'', rt_Metadata r),
      (''created_at'', format_time (rt_CreatedAt r)), (''updated_at'', format_time (rt_UpdatedAt r))])"

definition decodeRichTextDocumentRecord :: "hash \<Rightarrow> go_error + RichTextDocumentRecord" where
  "decodeRichTextDocumentRecord m =
    bind_err (field_time m ''created_at'') (\<lambda>created.
    bind_err (field_time m ''updated_at'') (\<lambda>updated.
    Inr (normalizeRichTextDocumentRecord
      \<lparr>rt_ID = gm_bytes m ''id'', rt_RoomID = gm_bytes m ''room_id'', rt_Content = field_json m ''content'',
       rt_Metadata = field_json m ''metadata'', rt_CreatedAt = created, rt_UpdatedAt = updated\<rparr>)))"

definition encodeResumeSessionRecord :: "gtime \<Rightarrow> ResumeSessionRecord \<Rightarrow> hash_fields" where
  "encodeResumeSessionRecord now r =
    (let n = normalizeResumeSessionRecord now r in
     [(''id'', rsr_ID n), (''tenant_id'', rsr_TenantID n), (''project_id'', rsr_ProjectID n),
      (''subject'', rsr_Subject n), (''rooms'', normalized_list_text (rsr_Rooms r)),
      (''room_cursors'', cursors_text (rsr_RoomCursors n)), (''metadata'', rsr_Metadata n),
      (''created_at'', format_time (rsr_CreatedAt n)), (''updated_at'', format_time (rsr_UpdatedAt n)),
      (''expires_at'', format_time (rsr_ExpiresAt n))])"

definition decodeResumeSessionRecord :: "gtime \<Rightarrow> hash \<Rightarrow> go_error + ResumeSessionRecord" where
  "decodeResumeSessionRecord now m =
    bind_err (field_time m ''created_at'') (\<lambda>created.
    bind_err (field_time m ''updated_at'') (\<lambda>updated.
    bind_err (field_time m ''expires_at'') (\<lambda>expires.
    bind_err (field_strings m ''rooms'') (\<lambda>rooms.
    bind_err (field_cursors m ''room_cursors'') (\<lambda>cursors.
    Inr (normalizeResumeSessionRecord now
      \<lparr>rsr_ID = gm_bytes m ''id'', rsr_TenantID = gm_bytes m ''tenant_id'', rsr_ProjectID = gm_bytes m ''project_id'',
       rsr_Subject = gm_bytes m ''subject'', rsr_Rooms = rooms, rsr_RoomCursors = cursors,
       rsr_Metadata = field_json m ''metadata'', rsr_CreatedAt = created, rsr_UpdatedAt = updated,
       rsr_ExpiresAt = expires\<rparr>))))))"

end
