(* ===== verification/Go_Time_Laws.thy ===== *)
theory Go_Time_Laws
  imports Go_Time
begin

text \<open>
  The calendar of \<open>Go_Time\<close>: every day has exactly one civil date, and what \<open>format_time\<close>
  writes is read back by \<open>parse_time\<close>.
\<close>

lemma div_bounds:
  fixes a b :: int
  assumes "0 < b"
  shows "b * (a div b) \<le> a" "a < b * (a div b) + b"
proof -
  have "a = b * (a div b) + a mod b" "0 \<le> a mod b" "a mod b < b" using assms by simp_all
  then show "b * (a div b) \<le> a" "a < b * (a div b) + b" by linarith+
qed

lemma div_unique:
  fixes a b q :: int
  assumes "b * q \<le> a" "a < b * q + b"
  shows "a div b = q"
  by (rule int_div_pos_eq [of a b q "a - b * q"]) (use assms in auto)

subsection \<open>Years\<close>

lemma year_parts:
  fixes days :: int
  assumes "0 \<le> days"
  obtains n400 n100 n4 n1 d where
    "year_of_days days = 400 * n400 + 100 * n100 + 4 * n4 + n1 + 1"
    "days = 146097 * n400 + 36524 * n100 + 1461 * n4 + 365 * n1 + d"
    "0 \<le> n400" "0 \<le> n100" "n100 \<le> 3" "0 \<le> n4" "n4 \<le> 24" "0 \<le> n1" "n1 \<le> 3" "0 \<le> d" "d \<le> 365"
    "d = 365 \<Longrightarrow> n1 = 3 \<and> (n4 = 24 \<longrightarrow> n100 = 3)"
proof -
  define r where "r = days mod 146097"
  define n100 where "n100 = min 3 (r div 36524)"
  define r1 where "r1 = r - 36524 * n100"
  define r2 where "r2 = r1 mod 1461"
  define n1 where "n1 = min 3 (r2 div 365)"
  have r: "0 \<le> r" "r < 146097" by (simp_all add: r_def)
  have n100: "0 \<le> n100" "n100 \<le> 3" "0 \<le> r1" "r1 \<le> 36524" "n100 < 3 \<Longrightarrow> r1 < 36524"
    using r div_bounds [of 36524 r] pos_imp_zdiv_nonneg_iff [of 36524 r] by (auto simp: n100_def r1_def min_def)
  have n4: "0 \<le> r1 div 1461" "r1 div 1461 \<le> 24"
    using n100(3,4) div_bounds [of 1461 r1] pos_imp_zdiv_nonneg_iff [of 1461 r1] by auto
  have r2: "0 \<le> r2" "r2 < 1461" "r1 = 1461 * (r1 div 1461) + r2" by (simp_all add: r2_def)
  have n1: "0 \<le> n1" "n1 \<le> 3" "0 \<le> r2 - 365 * n1" "r2 - 365 * n1 \<le> 365"
    using r2(1,2) div_bounds [of 365 r2] pos_imp_zdiv_nonneg_iff [of 365 r2] by (auto simp: n1_def min_def)
  have full: "n1 = 3" if "r2 - 365 * n1 = 365"
  proof (rule ccontr)
    assume "n1 \<noteq> 3"
    then have "n1 = r2 div 365" by (auto simp: n1_def min_def split: if_split_asm)
    then show False using that div_bounds(2) [of 365 r2] by simp
  qed
  show thesis
  proof (rule that [of "days div 146097" n100 "r1 div 1461" n1 "r2 - 365 * n1"])
    show "year_of_days days = 400 * (days div 146097) + 100 * n100 + 4 * (r1 div 1461) + n1 + 1"
      by (simp only: year_of_days_def Let_def r_def [symmetric] n100_def [symmetric] r1_def [symmetric]
          r2_def [symmetric] n1_def [symmetric])
    show "days = 146097 * (days div 146097) + 36524 * n100 + 1461 * (r1 div 1461) + 365 * n1 + (r2 - 365 * n1)"
      using r2(3) by (simp add: r_def r1_def)
    show "n1 = 3 \<and> (r1 div 1461 = 24 \<longrightarrow> n100 = 3)" if "r2 - 365 * n1 = 365"
      using full [OF that] that n100 r2 by linarith
  qed (use assms n100 n4 n1 in \<open>auto simp: pos_imp_zdiv_nonneg_iff\<close>)
qed

lemma days_before_parts:
  fixes n400 n100 n4 n1 :: int
  assumes "0 \<le> n100" "n100 \<le> 3" "0 \<le> n4" "n4 \<le> 24" "0 \<le> n1" "n1 \<le> 3"
  shows "days_before (400 * n400 + 100 * n100 + 4 * n4 + n1 + 1)
    = 146097 * n400 + 36524 * n100 + 1461 * n4 + 365 * n1"
proof -
  define p where "p = 400 * n400 + 100 * n100 + 4 * n4 + n1"
  have "p div 400 = n400"
    by (rule div_unique) (use assms in \<open>simp_all add: p_def\<close>)
  moreover have "p div 100 = 4 * n400 + n100"
    by (rule div_unique) (use assms in \<open>simp_all add: p_def\<close>)
  moreover have "p div 4 = 100 * n400 + 25 * n100 + n4"
    by (rule div_unique) (use assms in \<open>simp_all add: p_def\<close>)
  ultimately show ?thesis using p_def by (simp add: days_before_def Let_def)
qed

lemma day_of_year:
  assumes "0 \<le> days"
  shows "0 \<le> days - days_before (year_of_days days)
    \<and> days - days_before (year_of_days days) < sum_list (month_days (year_of_days days))
    \<and> 1 \<le> year_of_days days"
proof -
  obtain n400 n100 n4 n1 d where p:
    "year_of_days days = 400 * n400 + 100 * n100 + 4 * n4 + n1 + 1"
    "days = 146097 * n400 + 36524 * n100 + 1461 * n4 + 365 * n1 + d"
    "0 \<le> n400" "0 \<le> n100" "n100 \<le> 3" "0 \<le> n4" "n4 \<le> 24" "0 \<le> n1" "n1 \<le> 3" "0 \<le> d" "d \<le> 365"
    "d = 365 \<Longrightarrow> n1 = 3 \<and> (n4 = 24 \<longrightarrow> n100 = 3)"
    using year_parts [OF assms] by blast
  have before: "days_before (year_of_days days) = 146097 * n400 + 36524 * n100 + 1461 * n4 + 365 * n1"
    unfolding p(1) using p by (intro days_before_parts) auto
  have "leap (year_of_days days)" if "d = 365"
  proof -
    from p(12) [OF that] have y: "year_of_days days = 400 * n400 + 100 * n100 + 4 * n4 + 4" "n4 = 24 \<longrightarrow> n100 = 3"
      using p(1) by auto
    have "year_of_days days = 4 * (100 * n400 + 25 * n100 + n4 + 1)" using y(1) by simp
    then have "year_of_days days mod 4 = 0" by (metis mod_mult_self1_is_0)
    moreover have "year_of_days days mod 100 \<noteq> 0 \<or> year_of_days days mod 400 = 0"
    proof (cases "n4 = 24")
      case True
      then show ?thesis using y by simp
    next
      case False
      have "year_of_days days = 4 * n4 + 4 + (4 * n400 + n100) * 100" using y(1) by simp
      then have "year_of_days days mod 100 = (4 * n4 + 4) mod 100" by (metis mod_mult_self1)
      then show ?thesis using p(6,7) False by (simp add: mod_pos_pos_trivial)
    qed
    ultimately show ?thesis by (simp add: leap_def)
  qed
  then have "d < sum_list (month_days (year_of_days days))"
    using p(11) by (cases "d = 365") (auto simp: month_days_def)
  then show ?thesis using p before by simp
qed

subsection \<open>Months\<close>

lemma month_and_day_spec:
  assumes "0 \<le> d" "d < sum_list ns" "\<forall>n \<in> set ns. 0 \<le> n"
  shows "\<exists>k e. month_and_day m ns d = (m + int k, e + 1) \<and> k < length ns \<and> 0 \<le> e \<and> e < ns ! k
    \<and> d = sum_list (take k ns) + e"
  using assms
proof (induction m ns d rule: month_and_day.induct)
  case (2 m n ns d)
  show ?case
  proof (cases "d < n")
    case True
    then show ?thesis using 2(2) by (intro exI [of _ 0] exI [of _ d]) simp
  next
    case False
    then obtain k e where "month_and_day (m + 1) ns (d - n) = (m + 1 + int k, e + 1)" "k < length ns" "0 \<le> e"
      "e < ns ! k" "d - n = sum_list (take k ns) + e"
      using 2 by (fastforce simp: not_less)
    then show ?thesis using False by (intro exI [of _ "Suc k"] exI [of _ e]) simp
  qed
qed simp

lemma civil_of_days_spec:
  assumes "0 \<le> days" and "civil_of_days days = (y, m, d)"
  shows "days_of_civil y m d = days \<and> 1 \<le> y \<and> 1 \<le> m \<and> m \<le> 12 \<and> 1 \<le> d \<and> d \<le> month_days y ! nat (m - 1)"
proof -
  have y: "y = year_of_days days" and md: "month_and_day 1 (month_days y) (days - days_before y) = (m, d)"
    using assms(2) by (auto simp: civil_of_days_def Let_def)
  have "\<forall>n \<in> set (month_days y). 0 \<le> n" by (simp add: month_days_def)
  with month_and_day_spec [of "days - days_before y" "month_days y" 1] day_of_year [OF assms(1)] md y
  obtain k e where "m = 1 + int k" "d = e + 1" "k < length (month_days y)" "0 \<le> e" "e < month_days y ! k"
    "days - days_before y = sum_list (take k (month_days y)) + e" by auto
  moreover have "length (month_days y) = 12" by (simp add: month_days_def)
  ultimately show ?thesis using day_of_year [OF assms(1)] y by (simp add: days_of_civil_def)
qed

lemma days_before_mono: "y \<le> z \<Longrightarrow> days_before y \<le> days_before z"
proof -
  have step: "days_before y \<le> days_before (y + 1)" for y
    using div_bounds [of 4 "y - 1"] div_bounds [of 4 y] div_bounds [of 100 "y - 1"] div_bounds [of 100 y]
      div_bounds [of 400 "y - 1"] div_bounds [of 400 y]
    by (simp add: days_before_def Let_def)
  show "y \<le> z \<Longrightarrow> days_before y \<le> days_before z"
    by (induction z rule: int_ge_induct) (use step order_trans in \<open>blast+\<close>)
qed

lemma year_bound:
  assumes "0 \<le> days" and "days < days_before 10000"
  shows "year_of_days days \<le> 9999"
proof (rule ccontr)
  assume "\<not> year_of_days days \<le> 9999"
  then have "days_before 10000 \<le> days_before (year_of_days days)" by (intro days_before_mono) simp
  then show False using day_of_year [OF assms(1)] assms(2) by simp
qed

subsection \<open>Texts\<close>

lemma take_num_pad2:
  assumes "0 \<le> n" "n < 100" "lo \<le> n" "n \<le> hi"
  shows "take_num 2 lo hi (pad2 n @ s) = Some (n, s)"
proof -
  have "digit_val (chr (0x30 + nat (n div 10))) = Some (n div 10)"
    using assms div_bounds [of 10 n] by (intro digit_val_char) auto
  moreover have "digit_val (chr (0x30 + nat (n mod 10))) = Some (n mod 10)" by (intro digit_val_char) auto
  ultimately show ?thesis using assms by (simp add: take_num_def pad2_def numeral_2_eq_2)
qed

lemma parse_pad2:
  assumes "0 \<le> n" "n < 100"
  shows "parse_digits m (pad2 n @ s) = parse_digits (100 * m + n) s"
proof -
  have "digit_val (chr (0x30 + nat (n div 10))) = Some (n div 10)"
    using assms div_bounds [of 10 n] by (intro digit_val_char) auto
  moreover have "digit_val (chr (0x30 + nat (n mod 10))) = Some (n mod 10)" by (intro digit_val_char) auto
  moreover have "10 * (10 * m + n div 10) + n mod 10 = 100 * m + n" by simp
  ultimately show ?thesis by (simp add: pad2_def add.commute)
qed

lemma take_num_pad4:
  assumes "0 \<le> n" "n \<le> 9999"
  shows "take_num 4 0 9999 (pad4 n @ s) = Some (n, s)"
proof -
  have "0 \<le> n div 100" "n div 100 < 100" using assms div_bounds [of 100 n] by auto
  then have "parse_digits 0 (pad4 n) = Some n"
    using parse_pad2 [of "n div 100" 0 "pad2 (n mod 100)"] parse_pad2 [of "n mod 100" "n div 100" "[]"]
    by (simp add: pad4_def)
  moreover have "length (pad4 n) = 4" by (simp add: pad4_def pad2_def)
  ultimately show ?thesis using assms by (simp add: take_num_def)
qed

lemma parse_zeros: "parse_digits m (replicate k (CHR ''0'')) = Some (10 ^ k * m)"
  by (induction k arbitrary: m) (simp_all add: digit_val_def in_range_def byte_def)

lemma length_int_digits: "10 ^ k \<le> n \<Longrightarrow> n < 10 ^ Suc k \<Longrightarrow> length (int_digits n) = Suc k"
proof (induction k arbitrary: n)
  case 0
  then show ?case by (simp add: int_digits.simps [of n])
next
  case (Suc k)
  have "\<not> n < 10" using Suc.prems by (auto simp: not_less intro: order_trans [of 10 "10 * 10 ^ k"])
  moreover have "length (int_digits (n div 10)) = Suc k"
    by (rule Suc.IH) (use Suc.prems div_bounds [of 10 n] in \<open>simp_all add: mult.commute\<close>)
  ultimately show ?case by (simp add: int_digits.simps [of n])
qed

lemma parse_digits_all: "parse_digits m s = Some k \<Longrightarrow> \<forall>c \<in> set s. digit_val c \<noteq> None"
  by (induction m s rule: parse_digits.induct) (auto split: option.splits)

lemma digit_val_range: "digit_val c = Some d \<Longrightarrow> 0 \<le> d \<and> d \<le> 9"
  by (auto simp: digit_val_def in_range_def split: if_splits)

lemma parse_digits_shift:
  "parse_digits m s = map_option (\<lambda>k. 10 ^ length s * m + k) (parse_digits 0 s)"
proof (induction s arbitrary: m)
  case (Cons c s)
  show ?case
  proof (cases "digit_val c")
    case (Some d)
    then show ?thesis
      using Cons.IH [of "10 * m + d"] Cons.IH [of d] by (simp add: option.map_comp comp_def algebra_simps)
  qed simp
qed simp

lemma parse_digits_bound:
  "parse_digits 0 s = Some k \<Longrightarrow> 0 \<le> k \<and> k < 10 ^ length s"
proof (induction s arbitrary: k)
  case (Cons c s)
  then obtain d where d: "digit_val c = Some d" by (cases "digit_val c") auto
  then obtain j where j: "parse_digits 0 s = Some j" "k = 10 ^ length s * d + j"
    using Cons.prems parse_digits_shift [of d s] by auto
  have "10 ^ length s * d \<le> 10 ^ length s * (9 :: int)"
    using digit_val_range [OF d] by (intro mult_left_mono) auto
  moreover have "0 \<le> 10 ^ length s * d" using digit_val_range [OF d] by simp
  moreover have "(10 :: int) ^ length (c # s) = 10 * 10 ^ length s" by simp
  ultimately show ?case using Cons.IH [OF j(1)] j(2) by linarith
qed simp

lemma fraction_digits:
  assumes "0 \<le> ns" "ns < second"
  defines "ds \<equiv> tl (int_digits (second + ns))"
  shows "length ds = 9" "parse_digits 0 ds = Some ns" "\<forall>c \<in> set ds. digit_val c \<noteq> None"
proof -
  have l: "length (int_digits (second + ns)) = 10"
    using length_int_digits [of 9 "second + ns"] assms(1,2) by (simp add: second_def)
  then show len: "length ds = 9" by (simp add: ds_def)
  obtain c where cr: "int_digits (second + ns) = c # ds"
    using l unfolding ds_def by (cases "int_digits (second + ns)") auto
  have whole: "parse_digits 0 (c # ds) = Some (second + ns)"
    using parse_int_digits [of "second + ns"] assms(1) by (simp add: cr [symmetric] second_def)
  from parse_digits_all [OF this] show "\<forall>c \<in> set ds. digit_val c \<noteq> None" by simp
  obtain v where v: "digit_val c = Some v" using parse_digits_all [OF whole] by auto
  then have "parse_digits v ds = Some (second + ns)" using whole by simp
  then obtain k where k: "parse_digits 0 ds = Some k" "second + ns = 10 ^ 9 * v + k"
    using parse_digits_shift [of v ds] len by (cases "parse_digits 0 ds") auto
  have "0 \<le> k" "k < 10 ^ 9" using parse_digits_bound [OF k(1)] len by auto
  then have "v = 1" using k(2) assms(1,2) by (simp add: second_def)
  then show "parse_digits 0 ds = Some ns" using k by (simp add: second_def)
qed

lemma strip_zeros_spec: "\<exists>k. ds = strip_zeros ds @ replicate k (CHR ''0'')"
proof -
  let ?z = "\<lambda>c. c = CHR ''0''"
  have "rev ds = takeWhile ?z (rev ds) @ dropWhile ?z (rev ds)" by simp
  then have "ds = rev (dropWhile ?z (rev ds)) @ rev (takeWhile ?z (rev ds))"
    by (metis rev_append rev_rev_ident)
  moreover have "takeWhile ?z (rev ds) = replicate (length (takeWhile ?z (rev ds))) (CHR ''0'')"
    by (metis (full_types) replicate_length_same set_takeWhileD)
  ultimately show ?thesis unfolding strip_zeros_def by (metis rev_replicate)
qed

lemma take_fraction_text:
  assumes "0 \<le> ns" "ns < second"
  shows "take_fraction (fraction_text ns @ ''Z'') = Some (ns, ''Z'')"
proof (cases "ns = 0")
  case True
  then show ?thesis by (simp add: fraction_text_def take_fraction_def)
next
  case False
  define ds where "ds = tl (int_digits (second + ns))"
  note d = fraction_digits [OF assms, folded ds_def]
  obtain k where k: "ds = strip_zeros ds @ replicate k (CHR ''0'')" using strip_zeros_spec by blast
  have "parse_digits 0 (replicate k (CHR ''0'')) = Some 0" for k by (simp add: parse_zeros)
  then have "strip_zeros ds \<noteq> []" using k d(2) False by (metis append_Nil option.inject)
  moreover have "\<forall>c \<in> set (strip_zeros ds). digit_val c \<noteq> None"
    using d(3) k by (metis Un_iff set_append)
  moreover have "digit_val (CHR ''Z'') = None" by (simp add: digit_val_def in_range_def byte_def)
  ultimately have tw: "takeWhile (\<lambda>c. digit_val c \<noteq> None) (strip_zeros ds @ ''Z'') = strip_zeros ds"
    by (simp add: takeWhile_append2)
  have "take 9 (strip_zeros ds @ replicate 9 (CHR ''0'')) = ds"
  proof -
    have "length (strip_zeros ds) + k = 9" using d(1) k by (metis length_append length_replicate)
    then show ?thesis by (subst (2) k) (simp add: take_replicate)
  qed
  then show ?thesis using tw \<open>strip_zeros ds \<noteq> []\<close> d(2) False
    by (simp add: fraction_text_def ds_def [symmetric] take_fraction_def Let_def)
qed

subsection \<open>Round trip\<close>

lemma month_days_bound: "0 \<le> k \<Longrightarrow> k < 12 \<Longrightarrow> month_days y ! nat k \<le> 31"
proof -
  assume "0 \<le> k" "k < 12"
  then have "month_days y ! nat k \<in> set (month_days y)" by (intro nth_mem) (simp add: month_days_def)
  then show ?thesis by (auto simp: month_days_def split: if_splits)
qed

lemma andT_cong: "x = y \<Longrightarrow> andT x f = andT y f"
  by simp

lemma andT_Some: "andT (Some v) f = f v"
  by (simp add: andT_def)

theorem parse_format_time:
  assumes "0 \<le> t" "t < days_before 10000 * day"
  shows "parse_time (format_time t) = Some t"
proof -
  define s where "s = (t mod day) div second"
  obtain y m d where c: "civil_of_days (t div day) = (y, m, d)" by (metis surj_pair)
  have days: "0 \<le> t div day" "t div day < days_before 10000"
    using assms div_bounds [of day t] by (auto simp: pos_imp_zdiv_nonneg_iff day_def second_def)
  note spec = civil_of_days_spec [OF days(1) c]
  have y: "y \<le> 9999" using year_bound [OF days] c by (auto simp: civil_of_days_def Let_def)
  have d31: "d \<le> 31" using spec month_days_bound [of "m - 1" y] by simp
  have s: "0 \<le> s" "s < 86400"
    using div_bounds [of second "t mod day"] pos_mod_bound [of day t]
    by (auto simp: s_def pos_imp_zdiv_nonneg_iff day_def second_def)
  have hms: "0 \<le> s div 3600" "s div 3600 \<le> 23" "0 \<le> s div 60 mod 60" "s div 60 mod 60 \<le> 59"
    "0 \<le> s mod 60" "s mod 60 \<le> 59" "3600 * (s div 3600) + 60 * (s div 60 mod 60) + s mod 60 = s"
  proof -
    show "0 \<le> s div 3600" "s div 3600 \<le> 23" using s div_bounds [of 3600 s] by (auto simp: pos_imp_zdiv_nonneg_iff)
    show "0 \<le> s div 60 mod 60" "s div 60 mod 60 \<le> 59" "0 \<le> s mod 60" "s mod 60 \<le> 59"
      using pos_mod_bound [of 60 "s div 60"] pos_mod_bound [of 60 s] by auto
    have "s div 3600 = s div 60 div 60" by (simp add: zdiv_zmult2_eq [symmetric])
    then show "3600 * (s div 3600) + 60 * (s div 60 mod 60) + s mod 60 = s"
      using div_mult_mod_eq [of "s div 60" 60] div_mult_mod_eq [of s 60] by linarith
  qed
  have ns: "0 \<le> t mod second" "t mod second < second" by (simp_all add: second_def)
  have sub: "t mod day mod second = t mod second"
    by (rule mod_mod_cancel) (simp add: day_def)
  have total: "days_of_civil y m d * day + (s * second + t mod second) = t"
    using spec div_mult_mod_eq [of t day] div_mult_mod_eq [of "t mod day" second] sub by (simp add: s_def)
  have written: "format_time t = pad4 y @ CHR ''-'' # pad2 m @ CHR ''-'' # pad2 d @ CHR ''T'' #
      pad2 (s div 3600) @ CHR '':'' # pad2 (s div 60 mod 60) @ CHR '':'' # pad2 (s mod 60) @
      fraction_text (t mod second) @ ''Z''"
    by (simp add: format_time_def format_date_def c s_def Let_def)
  have char: "take_char a (a # r) = Some r" for a r by (simp add: take_char_def)
  have zone: "take_zone ''Z'' = Some 0" by (simp add: take_zone_def)
  have year: "take_num 4 0 9999 (pad4 y @ r) = Some (y, r)" for r
    using spec y by (intro take_num_pad4) linarith+
  have month: "take_num 2 1 12 (pad2 m @ r) = Some (m, r)" for r
    using spec by (intro take_num_pad2) linarith+
  have dom: "take_num 2 1 (month_days y ! nat (m - 1)) (pad2 d @ r) = Some (d, r)" for r
    using spec d31 by (intro take_num_pad2) linarith+
  have hour: "take_num 2 0 23 (pad2 (s div 3600) @ r) = Some (s div 3600, r)" for r
    using hms(1,2) by (intro take_num_pad2) linarith+
  have sixty: "take_num 2 0 59 (pad2 n @ r) = Some (n, r)" if "0 \<le> n" "n \<le> 59" for n r
    using that by (intro take_num_pad2) linarith+
  note minute = sixty [OF hms(3,4)] and sec = sixty [OF hms(5,6)]
  have "parse_time (format_time t) = Some (days_of_civil y m d * day
      + (3600 * (s div 3600) + 60 * (s div 60 mod 60) + s mod 60 - 0) * second + t mod second)"
    unfolding parse_time_def written
    by (simp only: year month dom hour minute sec char take_fraction_text [OF ns] zone
        andT_Some prod.case cong: andT_cong)
  also have "days_of_civil y m d * day
      + (3600 * (s div 3600) + 60 * (s div 60 mod 60) + s mod 60 - 0) * second + t mod second = t"
    by (simp only: hms(7) diff_0_right) (simp only: add.assoc total)
  finally show ?thesis .
qed

end
