(* ===== verification/Store_Round_Trips.thy ===== *)
theory Store_Round_Trips
  imports Admin_Decode Product_Records Store_Records Redis_Contract Go_Time_Laws
begin

text \<open>
  Reading what was written: the members of a printed object and the elements of a printed array
  are the texts they were printed from, and decoding gives back lists and maps.

  A record that is written to its hash is read back in its normal form. The times must be
  ones that RFC 3339 can print (years 1 to 9999), and texts inside JSON must be valid UTF-8,
  since the encoder replaces other bytes.
\<close>

subsection \<open>Elements and members\<close>

lemma raw_value_print:
  "wf_syn d v \<Longrightarrow> num_stop r \<Longrightarrow> raw_value d (print_syn v @ r) = Some (print_syn v, r)"
  by (simp add: raw_value_def parse_print)

lemma skip_ws_print:
  assumes "wf_syn d v"
  shows "skip_ws (print_syn v @ r) = print_syn v @ r" "skip_ws (join_comma (map print_syn (v # vs)) @ r)
    = join_comma (map print_syn (v # vs)) @ r"
proof -
  obtain c u where u: "print_syn v = c # u" "\<not> is_space c" using assms by (auto elim: print_syn_hd)
  then show "skip_ws (print_syn v @ r) = print_syn v @ r"
    "skip_ws (join_comma (map print_syn (v # vs)) @ r) = join_comma (map print_syn (v # vs)) @ r"
    by simp_all
qed

lemma raw_elems_print:
  "\<forall>v \<in> set vs. wf_syn d v \<Longrightarrow> vs \<noteq> []
   \<Longrightarrow> raw_elems d (join_comma (map print_syn vs) @ CHR '']'' # r) = Some (map print_syn vs)"
proof (induction vs)
  case (Cons v vs)
  have v: "wf_syn d v" "print_syn v \<noteq> []" using Cons.prems(1) print_syn_nonempty by auto
  show ?case
  proof (cases vs)
    case Nil
    then show ?thesis using v raw_value_print[OF v(1), of "CHR '']'' # r"] by (subst raw_elems.simps) simp
  next
    case (Cons w ws)
    have "wf_syn d w" using Cons.prems(1) Cons by simp
    then show ?thesis
      using v raw_value_print[OF v(1), of "CHR '','' # join_comma (map print_syn vs) @ CHR '']'' # r"]
        skip_ws_print(2)[of d w ws "CHR '']'' # r"] Cons.IH Cons.prems(1) Cons
      by (subst raw_elems.simps) simp
  qed
qed simp

lemma raw_members_print:
  "\<forall>m \<in> set ms. raw_string (fst m) \<and> wf_syn d (snd m) \<Longrightarrow> ms \<noteq> []
   \<Longrightarrow> raw_members d (join_comma (map print_mem ms) @ CHR ''}'' # r)
     = Some (map (\<lambda>m. (unquote (fst m), print_syn (snd m))) ms)"
proof (induction ms)
  case (Cons m ms)
  obtain k v where m: "m = (k, v)" by fastforce
  have k: "raw_string k" and v: "wf_syn d v" using Cons.prems(1) m by auto
  note kv = raw_string_scan[OF k] skip_ws_print(1)[OF v]
  show ?case
  proof (cases ms)
    case Nil
    then show ?thesis using kv raw_value_print[OF v, of "CHR ''}'' # r"] m
      by (subst raw_members.simps) (simp add: print_member_def)
  next
    case (Cons n ns)
    have "skip_ws (join_comma (map print_mem ms) @ CHR ''}'' # r) = join_comma (map print_mem ms) @ CHR ''}'' # r"
      by (simp add: Cons print_member_def)
    then show ?thesis
      using kv raw_value_print[OF v, of "CHR '','' # join_comma (map print_mem ms) @ CHR ''}'' # r"] m Cons
        Cons.IH Cons.prems(1)
      by (subst raw_members.simps) (simp add: print_member_def)
  qed
qed simp

lemma array_elems_print:
  assumes "wf_syn max_nesting (SArr vs)"
  shows "array_elems (print_syn (SArr vs)) = Some (map print_syn vs)"
proof (cases vs)
  case (Cons v ws)
  have w: "\<forall>v \<in> set vs. wf_syn (max_nesting - 1) v" using assms by (simp add: list_all_iff)
  then obtain c u where u: "print_syn v = c # u" "\<not> is_space c" "c \<noteq> CHR '']''"
    using Cons by (auto elim: print_syn_hd)
  then show ?thesis using raw_elems_print[OF w, of "[]"] Cons by (auto simp: array_elems_def)
qed (simp add: array_elems_def)

lemma object_fields_print:
  assumes "wf_syn max_nesting (SObj ms)"
  shows "object_fields (print_syn (SObj ms)) = Some (map (\<lambda>m. (unquote (fst m), print_syn (snd m))) ms)"
proof (cases ms)
  case (Cons m ns)
  have w: "\<forall>m \<in> set ms. raw_string (fst m) \<and> wf_syn (max_nesting - 1) (snd m)"
    using assms by (simp add: list_all_iff)
  then show ?thesis using raw_members_print[OF w, of "[]"] Cons
    by (auto simp: object_fields_def print_member_def)
qed (simp add: object_fields_def)

subsection \<open>Strings, lists and maps\<close>

definition syn_of_text :: "string \<Rightarrow> json_syntax" where
  "syn_of_text s = SStr (quote_body s)"

lemma quote_text_print: "quote_text s = print_syn (syn_of_text s)"
  by (simp add: quote_text_def syn_of_text_def)

lemma wf_syn_of_text [simp]: "wf_syn d (syn_of_text s)"
  by (simp add: syn_of_text_def raw_quote)

lemma quote_texts_print: "map quote_text xs = map print_syn (map syn_of_text xs)"
  by (simp add: quote_text_print)

lemma array_text_print: "array_text (map quote_text xs) = print_syn (SArr (map syn_of_text xs))"
  by (simp add: array_text_def quote_texts_print)

lemma unmarshal_string_quote: "unmarshal_string (quote_text s) = Some (Some (to_valid s))"
proof -
  have "parse_json (quote_text s) = Some (SStr (quote_body s))"
    using parse_json_print[of "syn_of_text s"] by (simp add: quote_text_print syn_of_text_def raw_quote)
  then show ?thesis by (simp add: unmarshal_string_def unquote_quote)
qed

lemma decode_into_quotes:
  "decode_into decode_text [] [] (map quote_text xs) = Some (map to_valid xs)"
  by (induction xs) (simp_all add: decode_text_def unmarshal_string_quote assign_def)

lemma wf_texts [simp]: "wf_syn d (SArr (map syn_of_text xs)) \<longleftrightarrow> 0 < d"
  by (simp add: list_all_iff)

theorem decode_strings_array: "decode_strings ([], []) (array_text (map quote_text xs)) = Some (map to_valid xs, [])"
proof -
  have "array_elems (array_text (map quote_text xs)) = Some (map quote_text xs)"
    unfolding array_text_print unfolding quote_texts_print by (rule array_elems_print) (simp add: max_nesting_def list_all_iff)
  moreover have "parse_json (array_text (map quote_text xs)) = Some (SArr (map syn_of_text xs))"
    unfolding array_text_print by (rule parse_json_print) (simp add: max_nesting_def list_all_iff)
  ultimately show ?thesis
    by (simp add: decode_strings_def unmarshal_slice_def decode_into_quotes andT_def)
qed

lemma decode_strings_null: "decode_strings ([], []) null_text = Some ([], [])"
  by code_simp

lemma in_sorted_ids: "k \<in> set (sorted_ids m) \<longleftrightarrow> k |\<in>| m"
  by (simp add: sorted_ids_def)

text \<open>A map printed in the order of its keys, from a function that prints its values as syntax.\<close>

lemma decode_entries_lookup:
  assumes "decode_entries dec zero m fs = Some m'"
  shows "fmlookup m' k = (case map_of (rev fs) k of None \<Rightarrow> fmlookup m k | Some t \<Rightarrow> dec zero t)"
  using assms
proof (induction fs arbitrary: m)
  case (Cons f fs)
  obtain j t where f: "f = (j, t)" by fastforce
  with Cons.prems obtain x where x: "dec zero t = Some x" "decode_entries dec zero (fmupd j x m) fs = Some m'"
    by (auto simp: andT_def split: option.splits)
  show ?case using Cons.IH[OF x(2)] x(1) f
    by (auto simp: map_add_def split: option.splits)
qed simp

lemma decode_entries_all:
  "list_all (\<lambda>p. dec zero (snd p) \<noteq> None) fs \<Longrightarrow> \<exists>m'. decode_entries dec zero m fs = Some m'"
  by (induction fs arbitrary: m) (auto simp: andT_def)

theorem decode_map_object:
  assumes keys: "\<And>k. k |\<in>| fmdom m \<Longrightarrow> to_valid k = k"
    and vals: "\<And>k x. fmlookup m k = Some x \<Longrightarrow> wf_syn (max_nesting - 1) (pr x) \<and> dec zero (print_syn (pr x)) = Some x"
    and old: "old = None \<or> old = Some fmempty"
  shows "decode_map dec zero old
      (object_text (map (\<lambda>k. (quote_body k, print_syn (pr (the (fmlookup m k))))) (sorted_ids (fmdom m)))) = Some (Some m)"
proof -
  let ?ks = "sorted_ids (fmdom m)"
  let ?ms = "map (\<lambda>k. (quote_body k, pr (the (fmlookup m k)))) ?ks"
  let ?fs = "map (\<lambda>k. (k, print_syn (pr (the (fmlookup m k))))) ?ks"
  have in_dom: "k |\<in>| fmdom m" if "k \<in> set ?ks" for k using that by (simp add: in_sorted_ids)
  have wf: "wf_syn max_nesting (SObj ?ms)"
    using vals in_dom by (auto simp: list_all_iff raw_quote max_nesting_def fmdom_notI)
  have t: "object_text (map (\<lambda>k. (quote_body k, print_syn (pr (the (fmlookup m k))))) ?ks) = print_syn (SObj ?ms)"
    by (simp add: object_text_def comp_def)
  have fs: "object_fields (print_syn (SObj ?ms)) = Some ?fs"
    unfolding object_fields_print[OF wf] using keys in_dom by (simp add: unquote_quote)
  have dec: "dec zero (print_syn (pr (the (fmlookup m k)))) \<noteq> None" if k: "k \<in> set ?ks" for k
  proof -
    obtain x where "fmlookup m k = Some x" using in_dom[OF k] by (auto elim: fmdomE)
    then show ?thesis using vals[of k x] by simp
  qed
  have "list_all (\<lambda>p. dec zero (snd p) \<noteq> None) ?fs"
    unfolding list_all_iff set_map by (intro ballI, elim imageE) (simp only: snd_conv dec not_False_eq_True)
  from decode_entries_all[where dec = dec and zero = zero and m = fmempty, OF this]
  obtain m' where m': "decode_entries dec zero fmempty ?fs = Some m'" ..
  have "m' = m"
  proof (rule fmap_ext)
    fix k
    have m: "map_of (rev ?fs) k = (if k |\<in>| fmdom m then Some (print_syn (pr (the (fmlookup m k)))) else None)"
      using in_sorted_ids[of k "fmdom m"] by (auto simp: rev_map map_of_map_restrict restrict_map_def)
    show "fmlookup m' k = fmlookup m k"
    proof (cases "fmlookup m k")
      case None
      then show ?thesis using m decode_entries_lookup[OF m', of k] by (simp add: fmdom_notI)
    next
      case (Some x)
      then show ?thesis using m vals[OF Some] decode_entries_lookup[OF m', of k] by (simp add: fmdomI)
    qed
  qed
  then show ?thesis unfolding t decode_map_def using old by (auto simp: parse_json_print[OF wf] fs m' andT_def simp del: print_syn.simps)
qed

definition printable_time :: "gtime \<Rightarrow> bool" where
  "printable_time t \<longleftrightarrow> 0 \<le> t \<and> t < days_before 10000 * day"

definition valid_texts :: "string list \<Rightarrow> bool" where
  "valid_texts xs \<longleftrightarrow> list_all (\<lambda>x. to_valid x = x) xs"

definition valid_access_map :: "access_map \<Rightarrow> bool" where
  "valid_access_map m \<longleftrightarrow> (\<forall>k xs. fmlookup m k = Some xs \<longrightarrow> to_valid k = k \<and> valid_texts xs)"

subsection \<open>Fields\<close>

lemma stored_field:
  "gm_bytes (put_pairs ps m) f = (case map_of (rev ps) f of None \<Rightarrow> gm_bytes m f | Some v \<Rightarrow> v)"
proof (induction ps arbitrary: m)
  case (Cons p ps)
  then show ?case
    by (cases p) (auto simp: put_pairs_def gm_bytes_def map_add_def split: option.split)
qed (simp add: put_pairs_def)

lemma time_field: "printable_time t \<Longrightarrow> gm_bytes m f = format_time t \<Longrightarrow> field_time m f = Inr t"
  by (simp add: field_time_def printable_time_def parse_format_time or_error_def)

lemma format_time_nonempty: "printable_time t \<Longrightarrow> format_time t \<noteq> []"
proof
  assume "printable_time t" and e: "format_time t = []"
  then have "parse_time [] = Some t" using parse_format_time[of t] unfolding e by (simp add: printable_time_def)
  moreover have "parse_time [] = None" by code_simp
  ultimately show False by simp
qed

lemma optional_time_field:
  "(\<And>u. t = Some u \<Longrightarrow> printable_time u) \<Longrightarrow> gm_bytes m f = optional_time_text t \<Longrightarrow> field_optional_time m f = Inr t"
  by (auto simp: field_optional_time_def optional_time_text_def time_field bind_err_def format_time_nonempty split: option.splits)

lemma bool_field: "gm_bytes m f = bool_text b \<Longrightarrow> field_bool m f = Inr b"
  by (cases b) (simp_all add: field_bool_def bool_text_def ParseBool_def defaultString_def or_error_def)

lemma valid_texts_map: "valid_texts xs \<Longrightarrow> map to_valid xs = xs"
  by (induction xs) (simp_all add: valid_texts_def)

lemma array_text_nonempty: "array_text ts \<noteq> []"
  by (simp add: array_text_def)

lemma strings_field:
  "valid_texts xs \<Longrightarrow> gm_bytes m f = array_text (map quote_text xs) \<Longrightarrow> field_strings m f = Inr xs"
  by (simp add: field_strings_def array_text_nonempty decode_strings_array valid_texts_map items_def or_error_def)

lemma normalized_list_field:
  assumes "valid_texts (normalizeStringList xs)" and "gm_bytes m f = normalized_list_text xs"
  shows "map_sum id normalizeStringList (field_strings m f) = Inr (normalizeStringList xs)"
proof (cases "xs = []")
  case True
  then have "field_strings m f = Inr []"
    using assms(2) by (simp add: field_strings_def normalized_list_text_def decode_strings_null[unfolded null_text_def] items_def or_error_def null_text_def)
  then show ?thesis using True by simp
next
  case False
  then show ?thesis
    using assms strings_field[of "normalizeStringList xs" m f] normalizeStringList_idem
    by (simp add: normalized_list_text_def)
qed

lemma access_map_field:
  assumes "valid_access_map am" and "gm_bytes m f = cloned_map_text am"
  shows "field_access_map m f = Inr am"
proof -
  let ?pr = "\<lambda>xs. SArr (map syn_of_text xs)"
  have t: "cloned_map_text am
      = object_text (map (\<lambda>k. (quote_body k, print_syn (?pr (the (fmlookup am k))))) (sorted_ids (fmdom am)))"
    by (simp add: cloned_map_text_def access_list_text_def array_text_print del: print_syn.simps)
  have "decode_map (\<lambda>old t. map_option items (decode_strings ([], []) t)) [] None (cloned_map_text am) = Some (Some am)"
    unfolding t
  proof (rule decode_map_object)
    show "to_valid k = k" if "k |\<in>| fmdom am" for k
      using assms(1) that by (auto simp: valid_access_map_def elim: fmdomE)
    show "wf_syn (max_nesting - 1) (?pr xs)
        \<and> map_option items (decode_strings ([], []) (print_syn (?pr xs))) = Some xs" if "fmlookup am k = Some xs" for k xs
      using assms(1) that
      by (auto simp: valid_access_map_def array_text_print[symmetric] decode_strings_array valid_texts_map items_def
          max_nesting_def list_all_iff simp del: print_syn.simps)
  qed simp
  moreover have "cloned_map_text am \<noteq> []" by (simp add: cloned_map_text_def object_text_def)
  ultimately show ?thesis using assms(2) by (simp add: field_access_map_def decode_access_map_def or_error_def)
qed

subsection \<open>Records\<close>

lemma clone_nothing [simp]: "cloneAccessMap m = m" "cloneAccessList xs = xs"
proof -
  show "cloneAccessMap m = m"
    by (rule fmap_ext) (simp add: cloneAccessMap_def cloneAccessList_def[abs_def] option.map_ident)
qed (simp add: cloneAccessList_def)

lemma room_reads_back:
  assumes "printable_time (rr_CreatedAt r)" and "printable_time (rr_UpdatedAt r)" and "valid_texts (rr_DefaultAccesses r)"
    and "valid_access_map (rr_UsersAccesses r)" and "valid_access_map (rr_GroupsAccesses r)"
  shows "decodeRoomRecord (put_pairs (encodeRoomRecord r) m) = Inr (normalizeRoomRecord r)"
proof -
  let ?m = "put_pairs (encodeRoomRecord r) m"
  have n: "normalizeRoomRecord r = r\<lparr>rr_Metadata := or_empty_object (rr_Metadata r)\<rparr>"
    by (simp add: normalizeRoomRecord_def)
  note f = stored_field[of "encodeRoomRecord r" m]
  have "gm_bytes ?m ''id'' = rr_ID r" "gm_bytes ?m ''metadata'' = or_empty_object (rr_Metadata r)"
    "gm_bytes ?m ''default_accesses'' = array_text (map quote_text (rr_DefaultAccesses r))"
    "gm_bytes ?m ''users_accesses'' = cloned_map_text (rr_UsersAccesses r)"
    "gm_bytes ?m ''groups_accesses'' = cloned_map_text (rr_GroupsAccesses r)"
    "gm_bytes ?m ''created_at'' = format_time (rr_CreatedAt r)" "gm_bytes ?m ''updated_at'' = format_time (rr_UpdatedAt r)"
    unfolding f by (simp_all add: encodeRoomRecord_def n access_list_text_def)
  then show ?thesis
    using assms
    by (simp add: decodeRoomRecord_def time_field strings_field access_map_field bind_err_def field_json_def
        defaultString_def or_empty_object_def n normalizeRoomRecord_def)
qed

lemma tenant_reads_back:
  assumes "printable_time (tn_CreatedAt r)" and "printable_time (tn_UpdatedAt r)"
  shows "decodeTenantRecord (put_pairs (encodeTenantRecord r) m) = Inr (normalizeTenantRecord r)"
proof -
  let ?m = "put_pairs (encodeTenantRecord r) m"
  let ?n = "normalizeTenantRecord r"
  note f = stored_field[of "encodeTenantRecord r" m]
  have "gm_bytes ?m ''id'' = tn_ID ?n" "gm_bytes ?m ''name'' = tn_Name ?n" "gm_bytes ?m ''metadata'' = tn_Metadata ?n"
    "gm_bytes ?m ''created_at'' = format_time (tn_CreatedAt r)" "gm_bytes ?m ''updated_at'' = format_time (tn_UpdatedAt r)"
    unfolding f by (simp_all add: encodeTenantRecord_def normalizeTenantRecord_def Let_def)
  then show ?thesis
    using assms
    by (simp add: decodeTenantRecord_def time_field bind_err_def field_json_def defaultString_def
        normalizeTenantRecord_def normalizedJSON_def Let_def trim_space_idem)
qed

lemma project_reads_back:
  assumes "printable_time (pj_CreatedAt r)" and "printable_time (pj_UpdatedAt r)"
  shows "decodeProjectRecord (put_pairs (encodeProjectRecord r) m) = Inr (normalizeProjectRecord r)"
proof -
  let ?m = "put_pairs (encodeProjectRecord r) m"
  let ?n = "normalizeProjectRecord r"
  note f = stored_field[of "encodeProjectRecord r" m]
  have "gm_bytes ?m ''id'' = pj_ID ?n" "gm_bytes ?m ''tenant_id'' = pj_TenantID ?n" "gm_bytes ?m ''name'' = pj_Name ?n"
    "gm_bytes ?m ''metadata'' = pj_Metadata ?n"
    "gm_bytes ?m ''created_at'' = format_time (pj_CreatedAt r)" "gm_bytes ?m ''updated_at'' = format_time (pj_UpdatedAt r)"
    unfolding f by (simp_all add: encodeProjectRecord_def normalizeProjectRecord_def Let_def)
  then show ?thesis
    using assms
    by (simp add: decodeProjectRecord_def time_field bind_err_def field_json_def defaultString_def
        normalizeProjectRecord_def normalizedJSON_def Let_def trim_space_idem)
qed

definition printable_key :: "APIKeyRecord \<Rightarrow> bool" where
  "printable_key r \<longleftrightarrow> printable_time (ak_CreatedAt r) \<and> printable_time (ak_UpdatedAt r)
    \<and> (\<forall>t. ak_LastUsedAt r = Some t \<longrightarrow> printable_time t) \<and> valid_texts (normalizeStringList (ak_Scopes r))"

lemma key_reads_back:
  assumes "printable_key r"
  shows "decodeAPIKeyRecord (put_pairs (encodeAPIKeyRecord r) m) = Inr (r\<lparr>ak_Scopes := normalizeStringList (ak_Scopes r)\<rparr>)"
proof -
  let ?m = "put_pairs (encodeAPIKeyRecord r) m"
  note f = stored_field[of "encodeAPIKeyRecord r" m]
  have p: "printable_time (ak_CreatedAt r)" "printable_time (ak_UpdatedAt r)"
    "\<And>t. ak_LastUsedAt r = Some t \<Longrightarrow> printable_time t" "valid_texts (normalizeStringList (ak_Scopes r))"
    using assms by (simp_all add: printable_key_def)
  have g: "gm_bytes ?m ''id'' = ak_ID r" "gm_bytes ?m ''tenant_id'' = ak_TenantID r"
    "gm_bytes ?m ''project_id'' = ak_ProjectID r" "gm_bytes ?m ''name'' = ak_Name r" "gm_bytes ?m ''prefix'' = ak_Prefix r"
    "gm_bytes ?m ''secret_hash'' = ak_SecretHash r" "gm_bytes ?m ''scopes'' = normalized_list_text (ak_Scopes r)"
    "gm_bytes ?m ''revoked'' = bool_text (ak_Revoked r)" "gm_bytes ?m ''created_at'' = format_time (ak_CreatedAt r)"
    "gm_bytes ?m ''updated_at'' = format_time (ak_UpdatedAt r)"
    "gm_bytes ?m ''last_used_at'' = optional_time_text (ak_LastUsedAt r)"
    unfolding f by (simp_all add: encodeAPIKeyRecord_def)
  have "map_sum id normalizeStringList (field_strings ?m ''scopes'') = Inr (normalizeStringList (ak_Scopes r))"
    by (rule normalized_list_field[OF p(4) g(7)])
  then obtain xs where xs: "field_strings ?m ''scopes'' = Inr xs" "normalizeStringList xs = normalizeStringList (ak_Scopes r)"
    by (cases "field_strings ?m ''scopes''") auto
  have "field_time ?m ''created_at'' = Inr (ak_CreatedAt r)" "field_time ?m ''updated_at'' = Inr (ak_UpdatedAt r)"
    "field_bool ?m ''revoked'' = Inr (ak_Revoked r)" "field_optional_time ?m ''last_used_at'' = Inr (ak_LastUsedAt r)"
    by (rule time_field[OF p(1) g(9)], rule time_field[OF p(2) g(10)], rule bool_field[OF g(8)],
        rule optional_time_field[OF p(3) g(11)])
  then show ?thesis
    using xs g by (simp add: decodeAPIKeyRecord_def bind_err_def)
qed

end
