(* ===== verification/Product_Store.thy ===== *)
theory Product_Store
  imports Product_Records
begin

text \<open>
  The operations of \<open>RedisStore\<close> in \<open>cluster/product.go\<close>, as programs over the Redis client.
  Records of equal keys come out of \<open>sort.Slice\<close> in any order; here they keep the order in
  which they were found.
\<close>

subsection \<open>JSON of records\<close>

definition AuditLogRecord_text :: "AuditLogRecord \<Rightarrow> string option" where
  "AuditLogRecord_text r = members_text
    [text_member ''id'' (al_ID r), omitted_member ''tenantId'' (al_TenantID r),
     omitted_member ''projectId'' (al_ProjectID r), omitted_member ''actorId'' (al_ActorID r),
     text_member ''action'' (al_Action r), text_member ''resourceType'' (al_ResourceType r),
     text_member ''resourceId'' (al_ResourceID r), member ''metadata'' (raw_marshal (al_Metadata r)),
     member ''createdAt'' (time_text (al_CreatedAt r))]"

definition store_audit :: "string \<Rightarrow> string \<Rightarrow> AuditLogRecord \<Rightarrow> AuditLogRecord option" where
  "store_audit n t r =
    (if n = ''id'' then map_option (\<lambda>v. r\<lparr>al_ID := v\<rparr>) (decode_text (al_ID r) t)
     else if n = ''tenantId'' then map_option (\<lambda>v. r\<lparr>al_TenantID := v\<rparr>) (decode_text (al_TenantID r) t)
     else if n = ''projectId'' then map_option (\<lambda>v. r\<lparr>al_ProjectID := v\<rparr>) (decode_text (al_ProjectID r) t)
     else if n = ''actorId'' then map_option (\<lambda>v. r\<lparr>al_ActorID := v\<rparr>) (decode_text (al_ActorID r) t)
     else if n = ''action'' then map_option (\<lambda>v. r\<lparr>al_Action := v\<rparr>) (decode_text (al_Action r) t)
     else if n = ''resourceType''
     then map_option (\<lambda>v. r\<lparr>al_ResourceType := v\<rparr>) (decode_text (al_ResourceType r) t)
     else if n = ''resourceId'' then map_option (\<lambda>v. r\<lparr>al_ResourceID := v\<rparr>) (decode_text (al_ResourceID r) t)
     else if n = ''metadata'' then Some (r\<lparr>al_Metadata := t\<rparr>)
     else map_option (\<lambda>v. r\<lparr>al_CreatedAt := v\<rparr>) (decode_time (al_CreatedAt r) t))"

definition no_audit :: AuditLogRecord where
  "no_audit = \<lparr>al_ID = [], al_TenantID = [], al_ProjectID = [], al_ActorID = [], al_Action = [],
     al_ResourceType = [], al_ResourceID = [], al_Metadata = [], al_CreatedAt = zero_time\<rparr>"

definition unmarshal_audit :: "string \<Rightarrow> AuditLogRecord option" where
  "unmarshal_audit t =
    read_struct [''id'', ''tenantId'', ''projectId'', ''actorId'', ''action'', ''resourceType'', ''resourceId'',
      ''metadata'', ''createdAt''] store_audit no_audit t"

definition UsageRecord_text :: "UsageRecord \<Rightarrow> string option" where
  "UsageRecord_text r = members_text
    [omitted_member ''tenantId'' (us_TenantID r), omitted_member ''projectId'' (us_ProjectID r),
     omitted_member ''roomId'' (us_RoomID r), text_member ''metric'' (us_Metric r),
     text_member ''window'' (us_Window r), member ''count'' (Some (format_int (us_Count r))),
     member ''updatedAt'' (time_text (us_UpdatedAt r))]"

definition store_usage :: "string \<Rightarrow> string \<Rightarrow> UsageRecord \<Rightarrow> UsageRecord option" where
  "store_usage n t r =
    (if n = ''tenantId'' then map_option (\<lambda>v. r\<lparr>us_TenantID := v\<rparr>) (decode_text (us_TenantID r) t)
     else if n = ''projectId'' then map_option (\<lambda>v. r\<lparr>us_ProjectID := v\<rparr>) (decode_text (us_ProjectID r) t)
     else if n = ''roomId'' then map_option (\<lambda>v. r\<lparr>us_RoomID := v\<rparr>) (decode_text (us_RoomID r) t)
     else if n = ''metric'' then map_option (\<lambda>v. r\<lparr>us_Metric := v\<rparr>) (decode_text (us_Metric r) t)
     else if n = ''window'' then map_option (\<lambda>v. r\<lparr>us_Window := v\<rparr>) (decode_text (us_Window r) t)
     else if n = ''count'' then map_option (\<lambda>v. r\<lparr>us_Count := v\<rparr>) (decode_int (us_Count r) t)
     else map_option (\<lambda>v. r\<lparr>us_UpdatedAt := v\<rparr>) (decode_time (us_UpdatedAt r) t))"

definition no_usage :: UsageRecord where
  "no_usage = \<lparr>us_TenantID = [], us_ProjectID = [], us_RoomID = [], us_Metric = [], us_Window = [], us_Count = 0,
     us_UpdatedAt = zero_time\<rparr>"

definition unmarshal_usage :: "string \<Rightarrow> UsageRecord option" where
  "unmarshal_usage t =
    read_struct [''tenantId'', ''projectId'', ''roomId'', ''metric'', ''window'', ''count'', ''updatedAt'']
      store_usage no_usage t"

definition VersionSnapshotRecord_text :: "VersionSnapshotRecord \<Rightarrow> string option" where
  "VersionSnapshotRecord_text r = members_text
    [text_member ''id'' (vs_ID r), text_member ''roomId'' (vs_RoomID r),
     text_member ''documentId'' (vs_DocumentID r), omitted_member ''label'' (vs_Label r),
     member ''document'' (raw_marshal (vs_Document r)), member ''metadata'' (raw_marshal (vs_Metadata r)),
     member ''createdAt'' (time_text (vs_CreatedAt r))]"

definition store_snapshot :: "string \<Rightarrow> string \<Rightarrow> VersionSnapshotRecord \<Rightarrow> VersionSnapshotRecord option" where
  "store_snapshot n t r =
    (if n = ''id'' then map_option (\<lambda>v. r\<lparr>vs_ID := v\<rparr>) (decode_text (vs_ID r) t)
     else if n = ''roomId'' then map_option (\<lambda>v. r\<lparr>vs_RoomID := v\<rparr>) (decode_text (vs_RoomID r) t)
     else if n = ''documentId'' then map_option (\<lambda>v. r\<lparr>vs_DocumentID := v\<rparr>) (decode_text (vs_DocumentID r) t)
     else if n = ''label'' then map_option (\<lambda>v. r\<lparr>vs_Label := v\<rparr>) (decode_text (vs_Label r) t)
     else if n = ''document'' then Some (r\<lparr>vs_Document := t\<rparr>)
     else if n = ''metadata'' then Some (r\<lparr>vs_Metadata := t\<rparr>)
     else map_option (\<lambda>v. r\<lparr>vs_CreatedAt := v\<rparr>) (decode_time (vs_CreatedAt r) t))"

definition no_snapshot :: VersionSnapshotRecord where
  "no_snapshot = \<lparr>vs_ID = [], vs_RoomID = [], vs_DocumentID = [], vs_Label = [], vs_Document = [], vs_Metadata = [],
     vs_CreatedAt = zero_time\<rparr>"

definition unmarshal_snapshot :: "string \<Rightarrow> VersionSnapshotRecord option" where
  "unmarshal_snapshot t =
    read_struct [''id'', ''roomId'', ''documentId'', ''label'', ''document'', ''metadata'', ''createdAt'']
      store_snapshot no_snapshot t"

subsection \<open>Tenants\<close>

definition loadTenantRecord :: "string \<Rightarrow> TenantRecord redis_op" where
  "loadTenantRecord tenantID =
    load_hash (productTenantKey tenantID) (ErrProduct ErrTenantNotFound) (\<lambda>_. decodeTenantRecord)"

definition CreateTenant :: "TenantRecord \<Rightarrow> TenantRecord redis_op" where
  "CreateTenant tenant =
    thenDo time_now (\<lambda>now.
      let tenant = normalizeTenantRecord (tenant\<lparr>tn_CreatedAt := now, tn_UpdatedAt := now\<rparr>);
          key = productTenantKey (tn_ID tenant)
      in thenDo
           (redis_Watch [key]
             (thenDo (redis_Exists [key]) (\<lambda>exists.
              thenDo (check_that (exists \<le> 0) (ErrProduct ErrTenantAlreadyExists)) (\<lambda>_.
              TxPipelined [HSET key (encodeTenantRecord tenant), SADD productTenantIndexKey (tn_ID tenant)]))))
           (\<lambda>_. give_back tenant))"

definition GetTenant :: "string \<Rightarrow> TenantRecord redis_op" where
  "GetTenant tenantID = loadTenantRecord tenantID"

definition change_tenant :: "TenantUpdate \<Rightarrow> gtime \<Rightarrow> TenantRecord \<Rightarrow> TenantRecord" where
  "change_tenant update now current =
    normalizeTenantRecord
      (current\<lparr>tn_Name := (if tnu_NameSet update then tnu_Name update else tn_Name current),
               tn_Metadata := (if tnu_MetadataSet update then tnu_Metadata update else tn_Metadata current),
               tn_UpdatedAt := now\<rparr>)"

definition UpdateTenant :: "string \<Rightarrow> TenantUpdate \<Rightarrow> TenantRecord redis_op" where
  "UpdateTenant tenantID update =
    change_hash (productTenantKey tenantID) (ErrProduct ErrTenantNotFound) decodeTenantRecord
      (change_tenant update) encodeTenantRecord"

definition ListTenants :: "TenantRecord list redis_op" where
  "ListTenants =
    thenDo (list_found productTenantIndexKey (ErrProduct ErrTenantNotFound) loadTenantRecord)
      (\<lambda>tenants. give_back (sort_key tn_ID tenants))"

subsection \<open>Projects\<close>

definition loadProjectRecord :: "string \<Rightarrow> string \<Rightarrow> ProjectRecord redis_op" where
  "loadProjectRecord tenantID projectID =
    load_hash (productProjectKey tenantID projectID) (ErrProduct ErrProjectNotFound) (\<lambda>_. decodeProjectRecord)"

text \<open>One of the two keys may exist, whichever it is.\<close>

definition CreateProject :: "ProjectRecord \<Rightarrow> ProjectRecord redis_op" where
  "CreateProject project =
    thenDo time_now (\<lambda>now.
      let project = normalizeProjectRecord (project\<lparr>pj_CreatedAt := now, pj_UpdatedAt := now\<rparr>);
          tenantKey = productTenantKey (pj_TenantID project);
          key = productProjectKey (pj_TenantID project) (pj_ID project)
      in thenDo
           (redis_Watch [tenantKey, key]
             (thenDo (redis_Exists [tenantKey, key]) (\<lambda>exists.
              thenDo (check_that (exists \<noteq> 0) (ErrProduct ErrTenantNotFound)) (\<lambda>_.
              thenDo (check_that (exists \<noteq> 2) (ErrProduct ErrProjectAlreadyExists)) (\<lambda>_.
              TxPipelined [HSET key (encodeProjectRecord project),
                SADD (productProjectIndexKey (pj_TenantID project)) (pj_ID project)])))))
           (\<lambda>_. give_back project))"

definition GetProject :: "string \<Rightarrow> string \<Rightarrow> ProjectRecord redis_op" where
  "GetProject tenantID projectID = loadProjectRecord tenantID projectID"

definition change_project :: "ProjectUpdate \<Rightarrow> gtime \<Rightarrow> ProjectRecord \<Rightarrow> ProjectRecord" where
  "change_project update now current =
    normalizeProjectRecord
      (current\<lparr>pj_Name := (if pju_NameSet update then pju_Name update else pj_Name current),
               pj_Metadata := (if pju_MetadataSet update then pju_Metadata update else pj_Metadata current),
               pj_UpdatedAt := now\<rparr>)"

definition UpdateProject :: "string \<Rightarrow> string \<Rightarrow> ProjectUpdate \<Rightarrow> ProjectRecord redis_op" where
  "UpdateProject tenantID projectID update =
    change_hash (productProjectKey tenantID projectID) (ErrProduct ErrProjectNotFound) decodeProjectRecord
      (change_project update) encodeProjectRecord"

definition ListProjects :: "string \<Rightarrow> ProjectRecord list redis_op" where
  "ListProjects tenantID =
    thenDo (list_found (productProjectIndexKey tenantID) (ErrProduct ErrProjectNotFound) (loadProjectRecord tenantID))
      (\<lambda>projects. give_back (sort_key pj_ID projects))"

subsection \<open>API keys\<close>

definition loadAPIKeyRecord :: "string \<Rightarrow> APIKeyRecord redis_op" where
  "loadAPIKeyRecord i =
    load_hash (productAPIKeyKey i) (ErrProduct ErrAPIKeyNotFound) (\<lambda>_. decodeAPIKeyRecord)"

definition CreateAPIKey :: "APIKeyRecord \<Rightarrow> APIKeyRecord redis_op" where
  "CreateAPIKey key =
    thenDo time_now (\<lambda>now.
      let key = key\<lparr>ak_CreatedAt := now, ak_UpdatedAt := now, ak_Scopes := normalizeStringList (ak_Scopes key)\<rparr>;
          projectKey = productProjectKey (ak_TenantID key) (ak_ProjectID key);
          recordKey = productAPIKeyKey (ak_ID key)
      in thenDo
           (redis_Watch [projectKey, recordKey]
             (thenDo (redis_Exists [projectKey, recordKey]) (\<lambda>exists.
              thenDo (check_that (exists \<noteq> 0) (ErrProduct ErrProjectNotFound)) (\<lambda>_.
              thenDo (check_that (exists \<noteq> 2) (ErrProduct ErrAPIKeyAlreadyExists)) (\<lambda>_.
              TxPipelined [HSET recordKey (encodeAPIKeyRecord key),
                SADD (productAPIKeyIndexKey (ak_TenantID key) (ak_ProjectID key)) (ak_ID key),
                SET (productAPIKeyPrefixKey (ak_Prefix key)) (ak_ID key) 0])))))
           (\<lambda>_. give_back key))"

definition GetAPIKey :: "string \<Rightarrow> APIKeyRecord redis_op" where
  "GetAPIKey i = loadAPIKeyRecord i"

text \<open>The record is read, checked and written back without a WATCH.\<close>

definition VerifyAPIKey :: "string \<Rightarrow> APIKeyRecord redis_op" where
  "VerifyAPIKey secret =
    (case apiKeyPrefixFromSecret secret of
       None \<Rightarrow> refuse (ErrProduct ErrAPIKeyNotFound)
     | Some pre \<Rightarrow>
         thenDo (redis_Get (productAPIKeyPrefixKey pre)) (\<lambda>i.
           case i of
             None \<Rightarrow> refuse (ErrProduct ErrAPIKeyNotFound)
           | Some i \<Rightarrow>
               thenDo (loadAPIKeyRecord i) (\<lambda>rec.
               thenDo (check_that (\<not> ak_Revoked rec) (ErrProduct ErrAPIKeyNotFound)) (\<lambda>_.
               thenDo (check_that (ak_SecretHash rec = apiKeySecretHash secret) (ErrProduct ErrAPIKeyNotFound)) (\<lambda>_.
               thenDo time_now (\<lambda>now.
                 let rec = rec\<lparr>ak_LastUsedAt := Some now, ak_UpdatedAt := now\<rparr>
                 in thenDo (redis_write (HSET (productAPIKeyKey (ak_ID rec)) (encodeAPIKeyRecord rec)))
                      (\<lambda>_. give_back rec)))))))"

definition ListAPIKeys :: "string \<Rightarrow> string \<Rightarrow> APIKeyRecord list redis_op" where
  "ListAPIKeys tenantID projectID =
    thenDo (list_found (productAPIKeyIndexKey tenantID projectID) (ErrProduct ErrAPIKeyNotFound) loadAPIKeyRecord)
      (\<lambda>keys. give_back (sort_key (\<lambda>k. - ak_CreatedAt k) keys))"

definition RevokeAPIKey :: "string \<Rightarrow> APIKeyRecord redis_op" where
  "RevokeAPIKey i =
    change_hash (productAPIKeyKey i) (ErrProduct ErrAPIKeyNotFound) decodeAPIKeyRecord
      (\<lambda>now current. current\<lparr>ak_Revoked := True, ak_UpdatedAt := now\<rparr>) encodeAPIKeyRecord"

subsection \<open>Audit logs and usage\<close>

definition list_limit_of :: "int \<Rightarrow> int \<Rightarrow> int" where
  "list_limit_of fallback limit = (if limit \<le> 0 \<or> limit > 200 then fallback else limit)"

definition RecordAuditLog :: "AuditLogRecord \<Rightarrow> AuditLogRecord redis_op" where
  "RecordAuditLog rec =
    thenDo time_now (\<lambda>now.
      let rec = normalizeAuditLogRecord now rec in
      thenDo (lift (or_error json_error (AuditLogRecord_text rec))) (\<lambda>raw.
        let score = time_score (al_CreatedAt rec) in
        thenDo (TxPipelined (ZADD (productAuditIndexKey []) score raw #
                  (if al_TenantID rec = [] then [] else [ZADD (productAuditIndexKey (al_TenantID rec)) score raw])))
          (\<lambda>_. give_back rec)))"

definition ListAuditLogs :: "string \<Rightarrow> string \<Rightarrow> int \<Rightarrow> AuditLogRecord list redis_op" where
  "ListAuditLogs tenantID projectID limit =
    (let limit = list_limit_of 100 limit in
     thenDo (ask_for as_texts (ZREVRANGE (productAuditIndexKey tenantID) 0 (limit * 2))) (\<lambda>vals.
       give_back (take (nat limit)
         (filter (\<lambda>r. projectID = [] \<or> al_ProjectID r = projectID) (List.map_filter unmarshal_audit vals)))))"

definition IncrementUsage :: "UsageIncrement \<Rightarrow> UsageRecord redis_op" where
  "IncrementUsage increment =
    thenDo time_now (\<lambda>now.
      let increment = increment\<lparr>
            ui_Count := (if ui_Count increment = 0 then 1 else ui_Count increment),
            ui_Window := (if ui_Window increment = [] then format_date now else ui_Window increment)\<rparr>;
          key = productUsageKey (ui_TenantID increment) (ui_ProjectID increment) (ui_RoomID increment)
                  (ui_Metric increment) (ui_Window increment)
      in thenDo (redis_IncrBy key (ui_Count increment)) (\<lambda>count.
           let rec = \<lparr>us_TenantID = ui_TenantID increment, us_ProjectID = ui_ProjectID increment,
                 us_RoomID = ui_RoomID increment, us_Metric = ui_Metric increment, us_Window = ui_Window increment,
                 us_Count = count, us_UpdatedAt = now\<rparr>;
               raw = (case UsageRecord_text rec of None \<Rightarrow> [] | Some raw \<Rightarrow> raw)
           in thenDo (TxPipelined [SET (productUsageRecordKey key) raw 0,
                        SADD (productUsageIndexKey (ui_TenantID increment) (ui_ProjectID increment)) key])
                (\<lambda>_. give_back rec)))"

text \<open>A record that is gone or cannot be read is passed over.\<close>

definition usage_wanted :: "string \<Rightarrow> string \<Rightarrow> UsageRecord \<Rightarrow> bool" where
  "usage_wanted roomID window r \<longleftrightarrow>
    (roomID = [] \<or> us_RoomID r = roomID) \<and> (window = [] \<or> us_Window r = window)"

fun usage_records :: "string \<Rightarrow> string \<Rightarrow> string list \<Rightarrow> UsageRecord list redis_op" where
  "usage_records roomID window [] = give_back []"
| "usage_records roomID window (key # keys) =
    thenDo (redis_Get (productUsageRecordKey key)) (\<lambda>raw.
    thenDo (usage_records roomID window keys) (\<lambda>rest.
      give_back
        (case raw of
           None \<Rightarrow> rest
         | Some raw \<Rightarrow>
             (case unmarshal_usage raw of
                None \<Rightarrow> rest
              | Some r \<Rightarrow> if usage_wanted roomID window r then r # rest else rest))))"

text \<open>The latest windows first, within a window by metric.\<close>

definition sort_usage :: "UsageRecord list \<Rightarrow> UsageRecord list" where
  "sort_usage rs = rev (sort_key us_Window (rev (sort_key us_Metric rs)))"

definition ListUsage :: "string \<Rightarrow> string \<Rightarrow> string \<Rightarrow> string \<Rightarrow> UsageRecord list redis_op" where
  "ListUsage tenantID projectID roomID window =
    thenDo (redis_SMembers (productUsageIndexKey tenantID projectID)) (\<lambda>keys.
    thenDo (usage_records roomID window keys) (\<lambda>records. give_back (sort_usage records)))"

subsection \<open>Webhook deliveries\<close>

definition loadWebhookDeliveryRecord :: "string \<Rightarrow> WebhookDeliveryRecord redis_op" where
  "loadWebhookDeliveryRecord i =
    load_hash (productWebhookDeliveryKey i) (ErrProduct ErrWebhookDeliveryNotFound) decodeWebhookDeliveryRecord"

definition CreateWebhookDelivery ::
  "(go_error \<Rightarrow> string) \<Rightarrow> WebhookDeliveryRecord \<Rightarrow> WebhookDeliveryRecord redis_op" where
  "CreateWebhookDelivery errorText rec =
    thenDo time_now (\<lambda>now.
      let rec = normalizeWebhookDeliveryRecord now rec in
      thenDo (redis_write (HSET (productWebhookDeliveryKey (wd_ID rec)) (encodeWebhookDeliveryRecord errorText now rec))) (\<lambda>_.
      thenDo (redis_write (ZADD productWebhookDeliveryIndexKey (time_score (wd_CreatedAt rec)) (wd_ID rec))) (\<lambda>_.
      give_back rec)))"

definition GetWebhookDelivery :: "string \<Rightarrow> WebhookDeliveryRecord redis_op" where
  "GetWebhookDelivery i = loadWebhookDeliveryRecord i"

definition UpdateWebhookDelivery ::
  "(go_error \<Rightarrow> string) \<Rightarrow> WebhookDeliveryRecord \<Rightarrow> WebhookDeliveryRecord redis_op" where
  "UpdateWebhookDelivery errorText rec =
    thenDo time_now (\<lambda>now.
      let rec = normalizeWebhookDeliveryRecord now rec; key = productWebhookDeliveryKey (wd_ID rec) in
      thenDo (redis_Exists [key]) (\<lambda>exists.
      thenDo (check_that (exists \<noteq> 0) (ErrProduct ErrWebhookDeliveryNotFound)) (\<lambda>_.
      thenDo (redis_write (HSET key (encodeWebhookDeliveryRecord errorText now rec))) (\<lambda>_.
      give_back rec))))"

definition ListWebhookDeliveries :: "string \<Rightarrow> int \<Rightarrow> WebhookDeliveryRecord list redis_op" where
  "ListWebhookDeliveries status limit =
    (let limit = list_limit_of 100 limit in
     thenDo (ask_for as_texts (ZREVRANGE productWebhookDeliveryIndexKey 0 (limit * 3))) (\<lambda>ids.
       collect_matching (is_error (ErrProduct ErrWebhookDeliveryNotFound)) loadWebhookDeliveryRecord
         (\<lambda>r. status = [] \<or> wd_Status r = status) (nat limit) ids))"

subsection \<open>Version snapshots\<close>

definition CreateVersionSnapshot :: "VersionSnapshotRecord \<Rightarrow> VersionSnapshotRecord redis_op" where
  "CreateVersionSnapshot rec =
    thenDo time_now (\<lambda>now.
      let rec = normalizeVersionSnapshotRecord now rec in
      thenDo (lift (or_error json_error (VersionSnapshotRecord_text rec))) (\<lambda>raw.
      thenDo (TxPipelined
        [SET (productVersionSnapshotKey (vs_RoomID rec) (vs_DocumentID rec) (vs_ID rec)) raw 0,
         ZADD (productVersionSnapshotIndexKey (vs_RoomID rec) (vs_DocumentID rec)) (time_score (vs_CreatedAt rec)) (vs_ID rec)])
        (\<lambda>_. give_back rec)))"

definition GetVersionSnapshot :: "room_id \<Rightarrow> string \<Rightarrow> string \<Rightarrow> VersionSnapshotRecord redis_op" where
  "GetVersionSnapshot roomID documentID i =
    thenDo (redis_Get (productVersionSnapshotKey roomID documentID i)) (\<lambda>raw.
      case raw of
        None \<Rightarrow> refuse (ErrProduct ErrVersionSnapshotNotFound)
      | Some raw \<Rightarrow>
          thenDo (lift (or_error json_error (unmarshal_snapshot raw))) (\<lambda>rec.
          thenDo time_now (\<lambda>now. give_back (normalizeVersionSnapshotRecord now rec))))"

definition ListVersionSnapshots :: "room_id \<Rightarrow> string \<Rightarrow> int \<Rightarrow> VersionSnapshotRecord list redis_op" where
  "ListVersionSnapshots roomID documentID limit =
    thenDo (ask_for as_texts
        (ZREVRANGE (productVersionSnapshotIndexKey roomID documentID) 0 (list_limit_of 50 limit - 1))) (\<lambda>ids.
      collect_found (is_error (ErrProduct ErrVersionSnapshotNotFound)) (GetVersionSnapshot roomID documentID) ids)"

subsection \<open>Rich text documents\<close>

definition UpsertRichTextDocument :: "RichTextDocumentRecord \<Rightarrow> RichTextDocumentRecord redis_op" where
  "UpsertRichTextDocument rec =
    thenDo time_now (\<lambda>now.
      let key = productRichTextDocumentKey (rt_RoomID rec) (rt_ID rec) in
      thenDo (created_before key (\<lambda>_. decodeRichTextDocumentRecord) rt_CreatedAt now) (\<lambda>created.
        let rec = normalizeRichTextDocumentRecord (rec\<lparr>rt_CreatedAt := created, rt_UpdatedAt := now\<rparr>) in
        thenDo (TxPipelined [HSET key (encodeRichTextDocumentRecord rec),
                  SADD (productRichTextDocumentIndexKey (rt_RoomID rec)) (rt_ID rec)])
          (\<lambda>_. give_back rec)))"

definition GetRichTextDocument :: "room_id \<Rightarrow> string \<Rightarrow> RichTextDocumentRecord redis_op" where
  "GetRichTextDocument roomID i =
    load_hash (productRichTextDocumentKey roomID i) (ErrProduct ErrRichTextDocumentNotFound)
      (\<lambda>_. decodeRichTextDocumentRecord)"

definition ListRichTextDocuments :: "room_id \<Rightarrow> RichTextDocumentRecord list redis_op" where
  "ListRichTextDocuments roomID =
    thenDo (list_found (productRichTextDocumentIndexKey roomID) (ErrProduct ErrRichTextDocumentNotFound)
        (GetRichTextDocument roomID))
      (\<lambda>records. give_back (sort_key rt_ID records))"

subsection \<open>Resume sessions\<close>

definition loadResumeSessionRecord :: "string \<Rightarrow> ResumeSessionRecord redis_op" where
  "loadResumeSessionRecord i = load_hash (productResumeSessionKey i) ErrResumeSessionNotFound decodeResumeSessionRecord"

text \<open>\<open>ExpireAt\<close> sends whole seconds.\<close>

definition whole_seconds :: "gtime \<Rightarrow> gtime" where
  "whole_seconds t = t div second * second"

definition UpsertResumeSession :: "ResumeSessionRecord \<Rightarrow> ResumeSessionRecord redis_op" where
  "UpsertResumeSession rec =
    thenDo time_now (\<lambda>now.
      let key = productResumeSessionKey (rsr_ID rec) in
      thenDo (created_before key decodeResumeSessionRecord rsr_CreatedAt now) (\<lambda>created.
        let rec = normalizeResumeSessionRecord now (rec\<lparr>rsr_CreatedAt := created, rsr_UpdatedAt := now\<rparr>) in
        thenDo (TxPipelined
            ([HSET key (encodeResumeSessionRecord now rec),
              SADD (productResumeSessionIndexKey (rsr_TenantID rec) (rsr_ProjectID rec)) (rsr_ID rec)]
             @ map (\<lambda>room. SADD (productResumeSessionRoomIndexKey room) (rsr_ID rec)) (rsr_Rooms rec)
             @ [EXPIREAT key (whole_seconds (rsr_ExpiresAt rec))]))
          (\<lambda>_. give_back rec)))"

definition GetResumeSession :: "string \<Rightarrow> ResumeSessionRecord redis_op" where
  "GetResumeSession i = loadResumeSessionRecord i"

definition DeleteResumeSession :: "string \<Rightarrow> unit redis_op" where
  "DeleteResumeSession i =
    thenDo (redis_Del [productResumeSessionKey i]) (\<lambda>deleted. check_that (deleted \<noteq> 0) ErrResumeSessionNotFound)"

definition session_wanted ::
  "string \<Rightarrow> string \<Rightarrow> string \<Rightarrow> bool \<Rightarrow> gtime \<Rightarrow> ResumeSessionRecord \<Rightarrow> bool" where
  "session_wanted tenantID projectID subject activeOnly now r \<longleftrightarrow>
    (tenantID = [] \<or> rsr_TenantID r = tenantID) \<and> (projectID = [] \<or> rsr_ProjectID r = projectID)
    \<and> (subject = [] \<or> rsr_Subject r = subject) \<and> (activeOnly \<longrightarrow> now < rsr_ExpiresAt r)"

definition ListResumeSessions ::
  "string \<Rightarrow> string \<Rightarrow> room_id \<Rightarrow> string \<Rightarrow> bool \<Rightarrow> int \<Rightarrow> ResumeSessionRecord list redis_op" where
  "ListResumeSessions tenantID projectID roomID subject activeOnly limit =
    thenDo (redis_SMembers
        (if roomID = [] then productResumeSessionIndexKey tenantID projectID else productResumeSessionRoomIndexKey roomID)) (\<lambda>ids.
    thenDo time_now (\<lambda>now.
    thenDo (collect_matching (is_error ErrResumeSessionNotFound) loadResumeSessionRecord
        (session_wanted tenantID projectID subject activeOnly now) (nat (list_limit_of 100 limit)) ids) (\<lambda>records.
    give_back (sort_key (\<lambda>r. - rsr_UpdatedAt r) records))))"

end
