(* ===== verification/Store_Keys.thy ===== *)
theory Store_Keys
  imports Store_Laws Store_Round_Trips Product_Store Store_Rooms
begin

text \<open>
  API keys: when one is accepted, and what a revocation is worth while the key is in use.

  Acknowledgements in Redis: whatever the nodes do at the same time, they only rise.
\<close>

subsection \<open>Sequences of programs\<close>

lemma interleaved_next:
  "interleaved c p s sts y s' \<Longrightarrow> p = next_redis m f \<Longrightarrow>
    \<exists>sts1 sts2 x s1. sts = sts1 @ sts2 \<and> interleaved c m s sts1 x s1 \<and> interleaved c (f x) s1 sts2 y s'"
proof (induction arbitrary: m rule: interleaved.induct)
  case (interleaved_Return x s)
  show ?case
  proof (cases m)
    case (Return z)
    then have "f z = Return x" using interleaved_Return by simp
    then have "interleaved c (f z) s [] x s" using interleaved.interleaved_Return[of c x s] by simp
    then show ?thesis using Return interleaved.interleaved_Return[of c z s] by blast
  qed (use interleaved_Return in simp_all)
next
  case (interleaved_Clock k now s sts x s')
  show ?case
  proof (cases m)
    case (Return z)
    then show ?thesis using interleaved_Clock interleaved.interleaved_Return interleaved.interleaved_Clock by fastforce
  next
    case (Clock k')
    then show ?thesis using interleaved_Clock.IH[of "k' now"] interleaved_Clock.prems interleaved.interleaved_Clock by fastforce
  qed (use interleaved_Clock.prems in simp)
next
  case (interleaved_Ask now q s a s1 k sts x s')
  show ?case
  proof (cases m)
    case (Return z)
    then show ?thesis
      using interleaved.interleaved_Ask[OF interleaved_Ask.hyps(1), of k sts x s', OF interleaved_Ask.hyps(2)]
        interleaved_Ask.prems interleaved.interleaved_Return[of c z s]
      by (intro exI[of _ "[]"] exI[of _ "_ # sts"] exI[of _ z] exI[of _ s]) auto
  next
    case (Ask q' k')
    then obtain sts1 sts2 z s2 where "sts = sts1 @ sts2" "interleaved c (k' a) s1 sts1 z s2" "interleaved c (f z) s2 sts2 x s'"
      using interleaved_Ask.IH[of "k' a"] interleaved_Ask.prems by auto
    then show ?thesis
      using Ask interleaved_Ask.prems interleaved.interleaved_Ask[OF interleaved_Ask.hyps(1), of "k'"]
      by (intro exI[of _ "\<lparr>sp_at = now, sp_request = q, sp_outcome = a, sp_before = s, sp_after = s1\<rparr> # sts1"]
          exI[of _ sts2] exI[of _ z] exI[of _ s2]) auto
  qed (use interleaved_Ask.prems in simp)
next
  case (interleaved_other c' now q s a s1 p sts x s')
  from interleaved_other.IH[OF interleaved_other.prems]
  obtain sts1 sts2 z s2 where r: "sts = sts1 @ sts2" "interleaved c m s1 sts1 z s2" "interleaved c (f z) s2 sts2 x s'"
    by blast
  show ?case using r(1,3) interleaved.interleaved_other[OF interleaved_other.hyps(1,2) r(2)] by blast
qed

lemma interleaved_thenDo:
  assumes "interleaved c (thenDo m f) s sts (Inr y) s'"
  obtains sts1 sts2 x s1 where "sts = sts1 @ sts2" and "interleaved c m s sts1 (Inr x) s1" and "interleaved c (f x) s1 sts2 (Inr y) s'"
proof -
  obtain sts1 sts2 r s1 where i: "sts = sts1 @ sts2" "interleaved c m s sts1 r s1"
      "interleaved c (case r of Inl err \<Rightarrow> Return (Inl err) | Inr x \<Rightarrow> f x) s1 sts2 (Inr y) s'"
    using interleaved_next[OF assms] unfolding thenDo_def by blast
  then show thesis using that by (cases r) (auto dest: interleaved_ReturnD)
qed

text \<open>A read sees the key as it is when the server serves it.\<close>

lemma interleaved_read:
  assumes "interleaved c (ask_for conv cmd) s sts (Inr y) s'" and "reads_only ks cmd"
  shows "\<exists>st r. sts = [st] \<and> quiet st \<and> single (Inr (Replies [fst (redis_command (sp_at st) cmd (served st))])) = Inr r \<and> conv r = Inr y"
proof -
  obtain sts1 sts2 r s1 where i: "sts = sts1 @ sts2" "interleaved c (ask cmd) s sts1 (Inr r) s1"
      "interleaved c (lift (conv r)) s1 sts2 (Inr y) s'"
    using assms(1) unfolding ask_for_def by (rule interleaved_thenDo)
  obtain st sts3 where st: "sts1 = st # sts3" "allowed_answer (sp_at st) c (Command cmd) (sp_before st) (sp_outcome st) (sp_after st)"
      "interleaved c (Return (single (sp_outcome st))) (sp_after st) sts3 (Inr r) s1"
    using interleaved_AskD[OF i(2), of "Command cmd" "\<lambda>a. Return (single a)"] unfolding ask_def by blast
  have r: "sts3 = []" "single (sp_outcome st) = Inr r" using interleaved_ReturnD[OF st(3)] by auto
  then obtain a where "sp_outcome st = Inr a" by (cases "sp_outcome st") (auto simp: single_def)
  then have o: "sp_outcome st = Inr (Replies [fst (redis_command (sp_at st) cmd (served st))])"
    using read_step[OF st(2) assms(2)] by (simp add: served_def)
  have conv: "sts2 = []" "conv r = Inr y" using interleaved_ReturnD[of c "lift (conv r)" s1 sts2 "Inr y" s' "conv r"] i(3) by (simp_all add: lift_def)
  have "sts = [st]" using conv(1) i(1) st(1) r(1) by simp
  moreover have "quiet st" using read_step[OF st(2) assms(2)] by (simp add: quiet_def served_def)
  ultimately show ?thesis using r(2) o conv(2) by auto
qed

subsection \<open>Accepting a key\<close>

text \<open>The reading and checking part of \<open>VerifyAPIKey\<close>, and the write that follows it.\<close>

definition key_checks :: "string \<Rightarrow> string \<Rightarrow> APIKeyRecord redis_op" where
  "key_checks pre secret =
    thenDo (redis_Get (productAPIKeyPrefixKey pre)) (\<lambda>i.
      case i of
        None \<Rightarrow> refuse (ErrProduct ErrAPIKeyNotFound)
      | Some i \<Rightarrow>
          thenDo (loadAPIKeyRecord i) (\<lambda>rec.
          thenDo (check_that (\<not> ak_Revoked rec) (ErrProduct ErrAPIKeyNotFound)) (\<lambda>_.
          thenDo (check_that (ak_SecretHash rec = apiKeySecretHash secret) (ErrProduct ErrAPIKeyNotFound)) (\<lambda>_.
          give_back rec))))"

definition key_used :: "APIKeyRecord \<Rightarrow> APIKeyRecord redis_op" where
  "key_used rec =
    thenDo time_now (\<lambda>now.
      let rec = rec\<lparr>ak_LastUsedAt := Some now, ak_UpdatedAt := now\<rparr>
      in thenDo (redis_write (HSET (productAPIKeyKey (ak_ID rec)) (encodeAPIKeyRecord rec))) (\<lambda>_. give_back rec))"

lemma VerifyAPIKey_parts:
  "VerifyAPIKey secret = (case apiKeyPrefixFromSecret secret of
     None \<Rightarrow> refuse (ErrProduct ErrAPIKeyNotFound) | Some pre \<Rightarrow> thenDo (key_checks pre secret) key_used)"
  by (auto simp: VerifyAPIKey_def key_checks_def key_used_def thenDo_assoc Let_def intro!: arg_cong[where f = "thenDo _"]
      split: option.split)

lemma interleaved_ends:
  "interleaved c (give_back x) s sts y s' \<Longrightarrow> sts = [] \<and> y = Inr x"
  "interleaved c (refuse err) s sts y s' \<Longrightarrow> sts = [] \<and> y = Inl err"
  "interleaved c (lift r) s sts y s' \<Longrightarrow> sts = [] \<and> y = r"
  unfolding program_defs by (auto dest: interleaved_ReturnD[OF _ refl])

lemma interleaved_check:
  "interleaved c (check_that b err) s sts (Inr u) s' \<Longrightarrow> b \<and> sts = []"
  by (cases b) (auto simp: check_that_def dest: interleaved_ends)

lemma interleaved_now:
  assumes "interleaved c (thenDo time_now f) s sts y s'"
  obtains now s1 where "interleaved c (f now) s1 sts y s'"
proof -
  have "thenDo time_now f = Clock f" by (simp add: program_defs)
  then show thesis using interleaved_ClockD[OF assms] that by blast
qed

lemma interleaved_Get:
  assumes "interleaved c (redis_Get k) s sts (Inr (Some v)) s'"
  obtains st where "sts = [st]" and "quiet st" and "key_of (served st) k = Some (EString v)"
proof -
  obtain st r where st: "sts = [st]" "quiet st"
      "single (Inr (Replies [fst (redis_command (sp_at st) (GET k) (served st))])) = Inr r" "as_text r = Inr (Some v)"
    using interleaved_read[of c as_text "GET k" s sts "Some v" s' "[k]"] assms by (auto simp: redis_Get_def)
  have "key_of (served st) k = Some (EString v)"
  proof (cases "key_of (served st) k")
    case None
    then show ?thesis using st(3,4) by (auto simp: single_def as_text_def)
  next
    case (Some x)
    then show ?thesis using st(3,4) by (cases x) (auto simp: single_def as_text_def wrong_type_def)
  qed
  then show thesis using st(1,2) that by blast
qed

lemma interleaved_HGetAll:
  assumes "interleaved c (redis_HGetAll k) s sts (Inr m) s'"
  obtains st where "sts = [st]" and "quiet st" and "hash_of (key_of (served st) k) = Some m"
proof -
  obtain st r where st: "sts = [st]" "quiet st"
      "single (Inr (Replies [fst (redis_command (sp_at st) (HGETALL k) (served st))])) = Inr r" "as_pairs r = Inr m"
    using interleaved_read[of c as_pairs "HGETALL k" s sts m s' "[k]"] assms by (auto simp: redis_HGetAll_def)
  have "hash_of (key_of (served st) k) = Some m"
    using st(3,4) by (cases "hash_of (key_of (served st) k)") (auto simp: typed_def single_def as_pairs_def wrong_type_def)
  then show thesis using st(1,2) that by blast
qed

lemma hash_of_nonempty: "hash_of e = Some m \<Longrightarrow> m \<noteq> fmempty \<Longrightarrow> e = Some (EHash m)"
  by (auto simp: hash_of_def split: option.splits entry.splits)

lemma interleaved_load_hash:
  assumes "interleaved c (load_hash k missing decode) s sts (Inr r) s'"
  obtains st m now where "sts = [st]" and "quiet st" and "key_of (served st) k = Some (EHash m)" and "decode now m = Inr r"
proof -
  obtain sts1 sts2 m s1 where i: "sts = sts1 @ sts2" "interleaved c (redis_HGetAll k) s sts1 (Inr m) s1"
      "interleaved c (if m = fmempty then refuse missing else thenDo time_now (\<lambda>now. lift (decode now m))) s1 sts2 (Inr r) s'"
    using assms unfolding load_hash_def by (rule interleaved_thenDo)
  have m: "m \<noteq> fmempty" using i(3) interleaved_ends(2) by fastforce
  then have "interleaved c (thenDo time_now (\<lambda>now. lift (decode now m))) s1 sts2 (Inr r) s'" using i(3) by simp
  then obtain now s2 where "interleaved c (lift (decode now m)) s2 sts2 (Inr r) s'" by (rule interleaved_now)
  then have "sts2 = []" "decode now m = Inr r" using interleaved_ends(3) by fastforce+
  then show thesis using i(1) interleaved_HGetAll[OF i(2)] hash_of_nonempty[OF _ m] that by fastforce
qed

text \<open>What was stored when the checks succeed.\<close>

definition key_was_valid :: "redis_step list \<Rightarrow> string \<Rightarrow> string \<Rightarrow> APIKeyRecord \<Rightarrow> bool" where
  "key_was_valid sts pre secret rec \<longleftrightarrow>
    (\<exists>st1 st2 i m. sts = [st1, st2] \<and> quiet st1 \<and> quiet st2
       \<and> key_of (served st1) (productAPIKeyPrefixKey pre) = Some (EString i)
       \<and> key_of (served st2) (productAPIKeyKey i) = Some (EHash m) \<and> decodeAPIKeyRecord m = Inr rec
       \<and> \<not> ak_Revoked rec \<and> ak_SecretHash rec = apiKeySecretHash secret)"

lemma key_checks_sound:
  assumes "interleaved c (key_checks pre secret) s sts (Inr rec) s'"
  shows "key_was_valid sts pre secret rec"
proof -
  obtain sts1 sts2 i s1 where i: "sts = sts1 @ sts2" "interleaved c (redis_Get (productAPIKeyPrefixKey pre)) s sts1 (Inr i) s1"
      "interleaved c (case i of None \<Rightarrow> refuse (ErrProduct ErrAPIKeyNotFound)
        | Some i \<Rightarrow> thenDo (loadAPIKeyRecord i) (\<lambda>rec.
            thenDo (check_that (\<not> ak_Revoked rec) (ErrProduct ErrAPIKeyNotFound)) (\<lambda>_.
            thenDo (check_that (ak_SecretHash rec = apiKeySecretHash secret) (ErrProduct ErrAPIKeyNotFound)) (\<lambda>_.
            give_back rec)))) s1 sts2 (Inr rec) s'"
    using assms unfolding key_checks_def by (rule interleaved_thenDo)
  then obtain j where j: "i = Some j" using interleaved_ends(2) by (cases i) fastforce+
  from i(3) have "interleaved c (thenDo (loadAPIKeyRecord j) (\<lambda>rec.
            thenDo (check_that (\<not> ak_Revoked rec) (ErrProduct ErrAPIKeyNotFound)) (\<lambda>_.
            thenDo (check_that (ak_SecretHash rec = apiKeySecretHash secret) (ErrProduct ErrAPIKeyNotFound)) (\<lambda>_.
            give_back rec)))) s1 sts2 (Inr rec) s'" unfolding j by simp
  then obtain sts3 sts4 k s2 where k: "sts2 = sts3 @ sts4" "interleaved c (loadAPIKeyRecord j) s1 sts3 (Inr k) s2"
      "interleaved c (thenDo (check_that (\<not> ak_Revoked k) (ErrProduct ErrAPIKeyNotFound)) (\<lambda>_.
            thenDo (check_that (ak_SecretHash k = apiKeySecretHash secret) (ErrProduct ErrAPIKeyNotFound)) (\<lambda>_.
            give_back k))) s2 sts4 (Inr rec) s'"
    by (rule interleaved_thenDo)
  have "\<not> ak_Revoked k \<and> ak_SecretHash k = apiKeySecretHash secret \<and> rec = k \<and> sts4 = []"
    using k(3) by (auto simp: check_that_def split: if_splits dest: interleaved_ends)
  moreover obtain st1 where "sts1 = [st1]" "quiet st1"
      "key_of (served st1) (productAPIKeyPrefixKey pre) = Some (EString j)"
    using interleaved_Get[OF i(2)[unfolded j]] .
  moreover obtain st2 m where "sts3 = [st2]" "quiet st2" "key_of (served st2) (productAPIKeyKey j) = Some (EHash m)"
      "decodeAPIKeyRecord m = Inr k"
    using interleaved_load_hash[OF k(2)[unfolded loadAPIKeyRecord_def]] by metis
  ultimately show ?thesis using i(1) k(1) by (simp add: key_was_valid_def)
qed

subsection \<open>Revoking a key that is in use\<close>

lemma key_checks_run:
  assumes "lasting s" and "key_of s (productAPIKeyPrefixKey pre) = Some (EString i)"
    and "key_of s (productAPIKeyKey i) = Some (EHash m)" and "m \<noteq> fmempty" and "decodeAPIKeyRecord m = Inr rec"
  shows "run_redis reference now c (key_checks pre secret) s =
    (if ak_Revoked rec \<or> ak_SecretHash rec \<noteq> apiKeySecretHash secret then Inl (ErrProduct ErrAPIKeyNotFound) else Inr rec, s)"
  using assms
  by (simp add: key_checks_def loadAPIKeyRecord_def load_hash_def run_thenDo run_reads hash_of_def)

lemma key_used_run:
  assumes "lasting s" and "key_of s (productAPIKeyKey (ak_ID rec)) = Some (EHash m)" and "m \<noteq> fmempty"
  shows "\<exists>s'. run_redis reference now c (key_used rec) s = (Inr (rec\<lparr>ak_LastUsedAt := Some now, ak_UpdatedAt := now\<rparr>), s')
    \<and> key_of s' (productAPIKeyKey (ak_ID rec))
      = Some (EHash (put_pairs (encodeAPIKeyRecord (rec\<lparr>ak_LastUsedAt := Some now, ak_UpdatedAt := now\<rparr>)) m))"
proof -
  let ?rec = "rec\<lparr>ak_LastUsedAt := Some now, ak_UpdatedAt := now\<rparr>"
  obtain s' where "run_redis reference now c (redis_write (HSET (productAPIKeyKey (ak_ID rec)) (encodeAPIKeyRecord ?rec))) s = (Inr (), s')"
      "rs_keys s' = fmupd (productAPIKeyKey (ak_ID rec)) (EHash (put_pairs (encodeAPIKeyRecord ?rec) m)) (rs_keys s)"
    using run_HSET[OF assms] by blast
  then show ?thesis by (simp add: key_used_def run_thenDo Let_def key_of_def)
qed

definition revoked_at :: "gtime \<Rightarrow> APIKeyRecord \<Rightarrow> APIKeyRecord" where
  "revoked_at now rec = rec\<lparr>ak_Revoked := True, ak_UpdatedAt := now\<rparr>"

lemma revoke_changes: "RevokeAPIKey i =
    change_hash (productAPIKeyKey i) (ErrProduct ErrAPIKeyNotFound) decodeAPIKeyRecord revoked_at encodeAPIKeyRecord"
  by (simp add: RevokeAPIKey_def revoked_at_def[abs_def])

lemma revoke_run:
  assumes "lasting s" and "\<not> snd (watched_by s c)" and "key_of s (productAPIKeyKey i) = Some (EHash m)"
    and "m \<noteq> fmempty" and "decodeAPIKeyRecord m = Inr rec"
  shows "\<exists>s'. run_redis reference now c (RevokeAPIKey i) s = (Inr (revoked_at now rec), s')
    \<and> rs_keys s' = fmupd (productAPIKeyKey i) (EHash (put_pairs (encodeAPIKeyRecord (revoked_at now rec)) m)) (rs_keys s)
    \<and> lasting s'"
  unfolding revoke_changes
  by (rule change_hash_state[where decode = decodeAPIKeyRecord and current = rec and encode = encodeAPIKeyRecord
      and change = revoked_at and key = "productAPIKeyKey i" and m = m, OF assms])

lemma race_run:
  assumes "lasting s" and "\<not> snd (watched_by s 1)" and "apiKeyPrefixFromSecret secret = Some pre"
    and "key_of s (productAPIKeyPrefixKey pre) = Some (EString i)" and "key_of s (productAPIKeyKey i) = Some (EHash m)"
    and "m \<noteq> fmempty" and "decodeAPIKeyRecord m = Inr rec" and "ak_ID rec = i" and "\<not> ak_Revoked rec"
    and "ak_SecretHash rec = apiKeySecretHash secret"
  shows "\<exists>cs ps s' m'. run_schedule reference now cs
      (\<lambda>c. if c = 0 then VerifyAPIKey secret else RevokeAPIKey i) s = (ps, s')
    \<and> ps 0 = Return (Inr (rec\<lparr>ak_LastUsedAt := Some now, ak_UpdatedAt := now\<rparr>)) \<and> ps 1 = Return (Inr (revoked_at now rec))
    \<and> key_of s' (productAPIKeyKey i)
      = Some (EHash (put_pairs (encodeAPIKeyRecord (rec\<lparr>ak_LastUsedAt := Some now, ak_UpdatedAt := now\<rparr>)) m'))"
proof -
  let ?ps = "\<lambda>c :: nat. if c = 0 then VerifyAPIKey secret else RevokeAPIKey i"
  let ?f = "\<lambda>r. case r of Inl err \<Rightarrow> Return (Inl err) | Inr x \<Rightarrow> key_used x"
  have verify: "VerifyAPIKey secret = next_redis (key_checks pre secret) ?f"
    by (simp add: VerifyAPIKey_parts assms(3) thenDo_def)
  have checks: "run_redis reference now 0 (key_checks pre secret) s = (Inr rec, s)"
    using key_checks_run[OF assms(1,4-7)] assms(9,10) by simp
  obtain n1 where n1: "run_schedule reference now (replicate n1 0 @ cs) (?ps(0 := VerifyAPIKey secret)) s
      = run_schedule reference now cs (?ps(0 := key_used rec)) s" for cs
    using schedule_part[OF checks, of ?ps ?f] unfolding verify by auto
  obtain s2 where s2: "run_redis reference now 1 (RevokeAPIKey i) s = (Inr (revoked_at now rec), s2)" "lasting s2"
      "rs_keys s2 = fmupd (productAPIKeyKey i) (EHash (put_pairs (encodeAPIKeyRecord (revoked_at now rec)) m)) (rs_keys s)"
    using revoke_run[OF assms(1,2,5-7)] by blast
  obtain n2 where n2: "run_schedule reference now (replicate n2 1 @ cs) (?ps(0 := key_used rec, 1 := RevokeAPIKey i)) s
      = run_schedule reference now cs (?ps(0 := key_used rec, 1 := Return (Inr (revoked_at now rec)))) s2" for cs
    using schedule_part[OF s2(1), of "?ps(0 := key_used rec)" Return] by auto
  let ?m = "put_pairs (encodeAPIKeyRecord (revoked_at now rec)) m"
  have k2: "key_of s2 (productAPIKeyKey (ak_ID rec)) = Some (EHash ?m)" using s2(3) assms(8) by (simp add: key_of_def)
  obtain s3 where s3: "run_redis reference now 0 (key_used rec) s2
      = (Inr (rec\<lparr>ak_LastUsedAt := Some now, ak_UpdatedAt := now\<rparr>), s3)"
      "key_of s3 (productAPIKeyKey i)
        = Some (EHash (put_pairs (encodeAPIKeyRecord (rec\<lparr>ak_LastUsedAt := Some now, ak_UpdatedAt := now\<rparr>)) ?m))"
    using key_used_run[OF s2(2) k2 put_pairs_nonempty[OF assms(6)]] assms(8) by auto
  let ?ps2 = "?ps(0 := key_used rec, 1 := Return (Inr (revoked_at now rec)))"
  obtain n3 where n3: "run_schedule reference now (replicate n3 0 @ cs) (?ps2(0 := key_used rec)) s2
      = run_schedule reference now cs (?ps2(0 := Return (Inr (rec\<lparr>ak_LastUsedAt := Some now, ak_UpdatedAt := now\<rparr>)))) s3" for cs
    using schedule_part[OF s3(1), of ?ps2 Return] by auto
  have same: "?ps(0 := VerifyAPIKey secret) = ?ps" "?ps(0 := key_used rec, 1 := RevokeAPIKey i) = ?ps(0 := key_used rec)"
    "?ps2(0 := key_used rec) = ?ps2"
    by (auto simp: fun_eq_iff)
  have "run_schedule reference now (replicate n1 0 @ replicate n2 1 @ replicate n3 0 @ []) ?ps s
      = (?ps2(0 := Return (Inr (rec\<lparr>ak_LastUsedAt := Some now, ak_UpdatedAt := now\<rparr>))), s3)"
    using n1 n2 n3[of "[]"] unfolding same by simp
  then show ?thesis using s3(2) by fastforce
qed

definition ack_body :: "room_id \<Rightarrow> string \<Rightarrow> u64 \<Rightarrow> unit redis_op" where
  "ack_body room subject sequence =
    (let key = roomEventAckKey room; put = TxPipelined [HSET key [(subject, format_uint sequence)]] in
     thenDo (redis_HGet key subject) (\<lambda>raw.
       case raw of
         None \<Rightarrow> put
       | Some raw \<Rightarrow>
           if raw = [] then put
           else thenDo (lift (or_error number_parse_error (parse_uint raw))) (\<lambda>current.
             if sequence \<le> current then give_back () else put)))"

lemma ack_attempt_watches: "ack_attempt room subject sequence = redis_Watch [roomEventAckKey room] (ack_body room subject sequence)"
  by (simp add: ack_attempt_def ack_body_def Let_def)

lemma ack_body_watched: "watched_body [roomEventAckKey room] (ack_body room subject sequence)"
  unfolding ack_body_def Let_def
  by (intro watched_reads(3)) (auto simp: watched_commit split: option.split)

text \<open>The step writes the acknowledgement over none or a smaller one.\<close>

definition raises_ack :: "room_id \<Rightarrow> string \<Rightarrow> u64 \<Rightarrow> redis_state \<Rightarrow> (string, entry) fmap \<Rightarrow> bool" where
  "raises_ack room subject n s keys \<longleftrightarrow>
    (\<exists>m. hash_of (key_of s (roomEventAckKey room)) = Some m
       \<and> (\<forall>t. fmlookup m subject = Some t \<longrightarrow> t = [] \<or> (\<exists>old. parse_uint t = Some old \<and> old < n))
       \<and> keys = fmupd (roomEventAckKey room) (EHash (fmupd subject (format_uint n) m)) (rs_keys s))"

lemma ack_put:
  assumes "alone c t (TxPipelined [HSET key [(subject, format_uint n)]]) s y s'" and "hash_of (key_of s key) = Some m"
  shows "rs_keys s' = rs_keys s \<or> rs_keys s' = fmupd key (EHash (fmupd subject (format_uint n) m)) (rs_keys s)"
  using alone_transaction[OF assms(1)] assms(2)
  by (simp add: typed_def put_key_def is_empty_def put_pairs_def)

lemma ack_body_alone:
  assumes "alone c t (ack_body room subject n) s y s'"
  shows "rs_keys s' = rs_keys s \<or> raises_ack room subject n s (rs_keys s')"
proof (cases "hash_of (key_of s (roomEventAckKey room))")
  case None
  then show ?thesis using assms by (auto simp: ack_body_def Let_def alone_thenDo)
next
  case (Some m)
  let ?put = "TxPipelined [HSET (roomEventAckKey room) [(subject, format_uint n)]]"
  consider "rs_keys s' = rs_keys s"
    | "alone c t ?put s y s'" "\<forall>t. fmlookup m subject = Some t \<longrightarrow> t = [] \<or> (\<exists>old. parse_uint t = Some old \<and> old < n)"
    using assms Some
    by (auto simp: ack_body_def Let_def alone_thenDo or_error_def split: option.splits if_splits)
  then show ?thesis
  proof cases
    case 2
    then show ?thesis using ack_put[OF 2(1) Some] Some unfolding raises_ack_def by blast
  qed simp
qed

lemma ack_attempt_steps:
  assumes "interleaved c (ack_attempt room subject n) s sts x s'" and "st \<in> set sts" and "\<not> quiet st"
  shows "raises_ack room subject n (served st) (rs_keys (sp_after st))"
proof -
  have "at_once c (ack_body room subject n) sts x"
    using watched_at_once[OF assms(1)[unfolded ack_attempt_watches] ack_body_watched] .
  moreover have "\<not> list_all quiet sts" using assms(2,3) by (auto simp: list_all_iff)
  ultimately obtain pre st' post y s2 where c: "sts = pre @ st' # post" "list_all quiet pre" "list_all quiet post"
      "alone c (sp_at st') (ack_body room subject n) (served st') y s2" "rs_keys (sp_after st') = rs_keys s2"
    by (auto simp: at_once_def commits_at_def)
  have "st = st'" using c(1-3) assms(2,3) by (auto simp: list_all_iff)
  then show ?thesis using ack_body_alone[OF c(4)] c(5) assms(3) by (auto simp: quiet_def)
qed

lemma ack_attempts_steps:
  "interleaved c (ack_attempts k room subject n) s sts x s' \<Longrightarrow> st \<in> set sts \<Longrightarrow> \<not> quiet st
   \<Longrightarrow> raises_ack room subject n (served st) (rs_keys (sp_after st))"
proof (induction k arbitrary: s sts)
  case 0
  then show ?case using interleaved_ends(2) by fastforce
next
  case (Suc k)
  obtain sts1 sts2 r s1 where i: "sts = sts1 @ sts2" "interleaved c (ack_attempt room subject n) s sts1 r s1"
      "interleaved c (case r of
        Inl err \<Rightarrow> if errors_Is err (is_error TxFailedErr) then ack_attempts k room subject n else refuse err
      | Inr _ \<Rightarrow> give_back ()) s1 sts2 x s'"
    using interleaved_next[OF Suc.prems(1)[unfolded ack_attempts.simps] refl] by blast
  show ?case
  proof (cases "st \<in> set sts1")
    case True
    then show ?thesis using ack_attempt_steps[OF i(2)] Suc.prems(3) by blast
  next
    case False
    then have "st \<in> set sts2" using Suc.prems(2) i(1) by auto
    then show ?thesis
      using i(3) Suc.IH Suc.prems(3) by (auto split: sum.splits if_splits dest: interleaved_ends)
  qed
qed

end
