(* ===== verification/Store_Threads.thy ===== *)
theory Store_Threads
  imports Store_Rooms
begin

text \<open>
  \<open>RedisStore\<close> of \<open>cluster/redis.go\<close>: threads with their comments and read states, inbox
  notifications, and the notification settings of users and rooms.
\<close>

subsection \<open>Reading threads\<close>

definition loadThreadHeader :: "room_id \<Rightarrow> string \<Rightarrow> ThreadRecord redis_op" where
  "loadThreadHeader room threadID =
    load_hash (roomThreadKey room threadID) (cluster_err ErrThreadNotFound) (\<lambda>_. decodeThreadRecord)"

text \<open>The first error of a list of results, otherwise all of them.\<close>

fun all_results :: "('e + 'a) list \<Rightarrow> 'e + 'a list" where
  "all_results [] = Inr []"
| "all_results (r # rs) = bind_err r (\<lambda>x. bind_err (all_results rs) (\<lambda>xs. Inr (x # xs)))"

definition with_comments :: "ThreadRecord \<Rightarrow> string list \<Rightarrow> go_error + ThreadRecord" where
  "with_comments thread raws =
    bind_err (all_results (map decodeCommentRecord raws)) (\<lambda>comments.
    Inr (normalizeThreadRecord (thread\<lparr>tr_Comments := comments\<rparr>)))"

definition comment_texts :: "room_id \<Rightarrow> string \<Rightarrow> string list redis_op" where
  "comment_texts room threadID = ask_for as_texts (LRANGE (roomThreadCommentsKey room threadID) 0 (-1))"

definition loadThreadRecord :: "room_id \<Rightarrow> string \<Rightarrow> ThreadRecord redis_op" where
  "loadThreadRecord room threadID =
    thenDo (loadThreadHeader room threadID) (\<lambda>thread.
    thenDo (comment_texts room threadID) (\<lambda>raws. lift (with_comments thread raws)))"

definition loadThreadReadAt :: "room_id \<Rightarrow> string \<Rightarrow> string \<Rightarrow> gtime option redis_op" where
  "loadThreadReadAt room threadID userID =
    thenDo (redis_HGet (roomThreadReadStateKey room threadID) userID) (\<lambda>raw.
      case raw of
        None \<Rightarrow> give_back None
      | Some raw \<Rightarrow> lift (map_sum id Some (or_error time_parse_error (parse_time raw))))"

subsection \<open>Threads\<close>

definition new_comment :: "room_id \<Rightarrow> string \<Rightarrow> gtime \<Rightarrow> CommentRecord \<Rightarrow> CommentRecord" where
  "new_comment room threadID now c =
    c\<lparr>cr_RoomID := room, cr_ThreadID := threadID, cr_CreatedAt := or_now now (cr_CreatedAt c)\<rparr>"

definition stored_new_thread :: "room_id \<Rightarrow> gtime \<Rightarrow> ThreadRecord \<Rightarrow> ThreadRecord" where
  "stored_new_thread room now thread =
    normalizeThreadRecord
      (thread\<lparr>tr_RoomID := room, tr_CreatedAt := now, tr_UpdatedAt := now,
              tr_Comments := map (new_comment room (tr_ID thread) now) (tr_Comments thread)\<rparr>)"

definition RedisStore_CreateThread :: "room_id \<Rightarrow> ThreadRecord \<Rightarrow> ThreadRecord redis_op" where
  "RedisStore_CreateThread room thread =
    thenDo time_now (\<lambda>now.
      let thread = stored_new_thread room now thread; key = roomThreadKey room (tr_ID thread) in
      thenDo
        (redis_Watch [key]
          (thenDo (redis_Exists [key]) (\<lambda>exists.
           thenDo (check_that (exists \<le> 0) (cluster_err ErrThreadAlreadyExists)) (\<lambda>_.
           thenDo (lift (all_results (map encodeCommentRecord (tr_Comments thread)))) (\<lambda>raws.
           TxPipelined
             ([HSET key (encodeThreadRecord thread), SADD (roomThreadsKey room) (tr_ID thread)]
              @ (if raws = [] then [] else [RPUSH (roomThreadCommentsKey room (tr_ID thread)) raws])))))))
        (\<lambda>_. give_back thread))"

definition RedisStore_GetThread :: "room_id \<Rightarrow> string \<Rightarrow> ThreadRecord redis_op" where
  "RedisStore_GetThread room threadID = loadThreadRecord room threadID"

definition RedisStore_ListThreads :: "room_id \<Rightarrow> ThreadRecord list redis_op" where
  "RedisStore_ListThreads room =
    thenDo (list_found (roomThreadsKey room) (cluster_err ErrThreadNotFound) (loadThreadRecord room)) (\<lambda>threads.
    give_back (sort_key tr_CreatedAt (sort_key tr_ID threads)))"

text \<open>A change of an existing thread; the commands are those of the transaction.\<close>

definition change_thread :: "room_id \<Rightarrow> string \<Rightarrow> string list \<Rightarrow> command list redis_op \<Rightarrow> ThreadRecord redis_op" where
  "change_thread room threadID keys commands =
    thenDo
      (redis_Watch keys
        (thenDo (redis_Exists [roomThreadKey room threadID]) (\<lambda>exists.
         thenDo (check_that (exists \<noteq> 0) (cluster_err ErrThreadNotFound)) (\<lambda>_.
         thenDo commands TxPipelined))))
      (\<lambda>_. loadThreadRecord room threadID)"

definition thread_fields :: "ThreadUpdate \<Rightarrow> gtime \<Rightarrow> hash_fields" where
  "thread_fields update now =
    [(''updated_at'', format_time now)]
    @ (if tu_MetadataSet update then [(''metadata'', tu_Metadata update)] else [])
    @ (if tu_ResolvedSet update then [(''resolved'', bool_text (tu_Resolved update))] else [])"

definition RedisStore_UpdateThread :: "room_id \<Rightarrow> string \<Rightarrow> ThreadUpdate \<Rightarrow> ThreadRecord redis_op" where
  "RedisStore_UpdateThread room threadID update =
    thenDo time_now (\<lambda>now.
    change_thread room threadID [roomThreadKey room threadID]
      (give_back [HSET (roomThreadKey room threadID) (thread_fields update now)]))"

text \<open>The header of a thread, read under WATCH.\<close>

definition watched_thread :: "room_id \<Rightarrow> string \<Rightarrow> ThreadRecord redis_op" where
  "watched_thread room threadID =
    thenDo (redis_HGetAll (roomThreadKey room threadID)) (\<lambda>m.
      if m = fmempty then refuse (cluster_err ErrThreadNotFound) else lift (decodeThreadRecord m))"

definition RedisStore_DeleteThread :: "room_id \<Rightarrow> string \<Rightarrow> ThreadRecord redis_op" where
  "RedisStore_DeleteThread room threadID =
    (let keys = [roomThreadKey room threadID, roomThreadCommentsKey room threadID, roomThreadReadStateKey room threadID] in
     redis_Watch keys
       (thenDo (watched_thread room threadID) (\<lambda>thread.
        thenDo (comment_texts room threadID) (\<lambda>raws.
        thenDo (lift (with_comments thread raws)) (\<lambda>deleted.
        thenDo (TxPipelined [DEL keys, SREM (roomThreadsKey room) threadID]) (\<lambda>_.
        give_back deleted))))))"

subsection \<open>Read states\<close>

definition RedisStore_GetThreadReadState :: "room_id \<Rightarrow> string \<Rightarrow> string \<Rightarrow> ThreadReadState redis_op" where
  "RedisStore_GetThreadReadState room threadID userID =
    thenDo (loadThreadHeader room threadID) (\<lambda>thread.
    thenDo (loadThreadReadAt room threadID userID) (\<lambda>readAt.
    give_back (threadReadState room threadID userID (tr_UpdatedAt thread) readAt)))"

text \<open>A thread is never marked as read before its last change.\<close>

definition RedisStore_MarkThreadRead :: "room_id \<Rightarrow> string \<Rightarrow> string \<Rightarrow> ThreadReadState redis_op" where
  "RedisStore_MarkThreadRead room threadID userID =
    thenDo time_now (\<lambda>now.
    redis_Watch [roomThreadKey room threadID, roomThreadReadStateKey room threadID]
      (thenDo (watched_thread room threadID) (\<lambda>thread.
        let readAt = max now (tr_UpdatedAt thread) in
        thenDo (TxPipelined [HSET (roomThreadReadStateKey room threadID) [(userID, format_time readAt)]]) (\<lambda>_.
        give_back (threadReadState room threadID userID (tr_UpdatedAt thread) (Some readAt))))))"

definition RedisStore_MarkThreadUnread :: "room_id \<Rightarrow> string \<Rightarrow> string \<Rightarrow> ThreadReadState redis_op" where
  "RedisStore_MarkThreadUnread room threadID userID =
    redis_Watch [roomThreadKey room threadID, roomThreadReadStateKey room threadID]
      (thenDo (watched_thread room threadID) (\<lambda>thread.
       thenDo (TxPipelined [HDEL (roomThreadReadStateKey room threadID) userID]) (\<lambda>_.
       give_back (threadReadState room threadID userID (tr_UpdatedAt thread) None))))"

subsection \<open>Comments\<close>

definition RedisStore_AddComment :: "room_id \<Rightarrow> string \<Rightarrow> CommentRecord \<Rightarrow> ThreadRecord redis_op" where
  "RedisStore_AddComment room threadID comment =
    thenDo time_now (\<lambda>now.
    thenDo (lift (encodeCommentRecord (normalizeCommentRecord (new_comment room threadID now comment)))) (\<lambda>raw.
    change_thread room threadID [roomThreadKey room threadID]
      (give_back [HSET (roomThreadKey room threadID) [(''updated_at'', format_time now)],
         RPUSH (roomThreadCommentsKey room threadID) [raw]])))"

text \<open>The first comment with the id and its index; a comment before it that cannot be read is an error.\<close>

fun find_comment :: "string \<Rightarrow> int \<Rightarrow> string list \<Rightarrow> go_error + int \<times> CommentRecord" where
  "find_comment commentID i [] = Inl (cluster_err ErrCommentNotFound)"
| "find_comment commentID i (raw # raws) =
    bind_err (decodeCommentRecord raw) (\<lambda>c.
      if cr_ID c = commentID then Inr (i, c) else find_comment commentID (i + 1) raws)"

definition change_comment :: "CommentUpdate \<Rightarrow> gtime \<Rightarrow> CommentRecord \<Rightarrow> CommentRecord" where
  "change_comment update now c =
    normalizeCommentRecord
      (c\<lparr>cr_Body := (if cu_BodySet update then cu_Body update else cr_Body c),
         cr_Metadata := (if cu_MetadataSet update then cu_Metadata update else cr_Metadata c),
         cr_Mentions := (if cu_MentionsSet update then cu_Mentions update else cr_Mentions c),
         cr_Reactions := (if cu_ReactionsSet update then cu_Reactions update else cr_Reactions c),
         cr_EditedAt := Some now\<rparr>)"

definition RedisStore_UpdateComment :: "room_id \<Rightarrow> string \<Rightarrow> string \<Rightarrow> CommentUpdate \<Rightarrow> ThreadRecord redis_op" where
  "RedisStore_UpdateComment room threadID commentID update =
    thenDo time_now (\<lambda>now.
    change_thread room threadID [roomThreadKey room threadID, roomThreadCommentsKey room threadID]
      (thenDo (comment_texts room threadID) (\<lambda>raws.
       thenDo (lift (find_comment commentID 0 raws)) (\<lambda>(i, c).
       thenDo (lift (encodeCommentRecord (change_comment update now c))) (\<lambda>raw.
       give_back [HSET (roomThreadKey room threadID) [(''updated_at'', format_time now)],
         LSET (roomThreadCommentsKey room threadID) i raw])))))"

subsection \<open>Inbox notifications\<close>

text \<open>\<open>UnixMilli\<close> as a score.\<close>

definition milli_score :: "gtime \<Rightarrow> float64" where
  "milli_score t = float_of_int ((t - unix_epoch * second) div 1000000)"

definition loadInboxNotification :: "string \<Rightarrow> InboxNotificationRecord redis_op" where
  "loadInboxNotification notificationID =
    load_hash (inboxNotificationKey notificationID) (cluster_err ErrInboxNotFound) (\<lambda>_. decodeInboxNotificationRecord)"

definition RedisStore_CreateInboxNotification :: "InboxNotificationRecord \<Rightarrow> InboxNotificationRecord redis_op" where
  "RedisStore_CreateInboxNotification notification =
    thenDo time_now (\<lambda>now.
      let n = normalizeInboxNotificationRecord (notification\<lparr>in_NotifiedAt := or_now now (in_NotifiedAt notification)\<rparr>);
          key = inboxNotificationKey (in_ID n); score = milli_score (in_NotifiedAt n)
      in thenDo
           (redis_Watch [key]
             (thenDo (redis_Exists [key]) (\<lambda>exists.
              thenDo (check_that (exists \<le> 0) (cluster_err ErrInboxAlreadyExists)) (\<lambda>_.
              TxPipelined
                ([HSET key (encodeInboxNotificationRecord n), ZADD (userInboxKey (in_UserID n)) score (in_ID n)]
                 @ (if in_ReadAt n = None then [ZADD (userInboxUnreadKey (in_UserID n)) score (in_ID n)] else []))))))
           (\<lambda>_. give_back n))"

definition RedisStore_GetInboxNotification :: "string \<Rightarrow> string \<Rightarrow> InboxNotificationRecord redis_op" where
  "RedisStore_GetInboxNotification userID notificationID =
    thenDo (loadInboxNotification notificationID) (\<lambda>n.
    if userID \<noteq> [] \<and> in_UserID n \<noteq> userID then refuse (cluster_err ErrInboxNotFound) else give_back n)"

text \<open>
  One page of an index: the cursor is an \<open>int64\<close> to Redis. One more entry than the limit is
  asked for, which tells whether there is a next page.
\<close>

definition index_page :: "string \<Rightarrow> u64 \<Rightarrow> int \<Rightarrow> (string list \<times> u64) redis_op" where
  "index_page key cursor limit =
    thenDo (ask_for as_texts (ZREVRANGE key (sint cursor) (sint (cursor + word_of_int limit)))) (\<lambda>ids.
    give_back (take (nat limit) ids, if len ids > limit then cursor + word_of_int limit else 0))"

definition RedisStore_ListInboxNotifications ::
  "string \<Rightarrow> InboxNotificationListFilter \<Rightarrow> InboxNotificationList redis_op" where
  "RedisStore_ListInboxNotifications userID f =
    thenDo (index_page (if nf_UnreadOnly f then userInboxUnreadKey userID else userInboxKey userID)
        (nf_Cursor f) (if nf_Limit f \<le> 0 then 50 else nf_Limit f)) (\<lambda>(ids, next).
    thenDo (collect_found (is_error (cluster_err ErrInboxNotFound)) (RedisStore_GetInboxNotification userID) ids) (\<lambda>ns.
    give_back \<lparr>nl_Data = ns, nl_NextCursor = next\<rparr>))"

definition RedisStore_MarkInboxNotificationRead :: "string \<Rightarrow> InboxNotificationRecord redis_op" where
  "RedisStore_MarkInboxNotificationRead notificationID =
    thenDo time_now (\<lambda>now.
      let key = inboxNotificationKey notificationID in
      redis_Watch [key]
        (thenDo (redis_HGetAll key) (\<lambda>m.
           if m = fmempty then refuse (cluster_err ErrInboxNotFound)
           else
             thenDo (lift (decodeInboxNotificationRecord m)) (\<lambda>n.
               if in_ReadAt n \<noteq> None then give_back (normalizeInboxNotificationRecord n)
               else
                 thenDo (TxPipelined [HSET key [(''read_at'', format_time now)], ZREM (userInboxUnreadKey (in_UserID n)) (in_ID n)])
                   (\<lambda>_. give_back (normalizeInboxNotificationRecord (n\<lparr>in_ReadAt := Some now\<rparr>)))))))"

definition RedisStore_DeleteInboxNotification :: "string \<Rightarrow> string \<Rightarrow> unit redis_op" where
  "RedisStore_DeleteInboxNotification userID notificationID =
    thenDo (RedisStore_GetInboxNotification userID notificationID) (\<lambda>n.
    TxPipelined
      [DEL [inboxNotificationKey notificationID], ZREM (userInboxKey userID) (in_ID n),
       ZREM (userInboxUnreadKey userID) (in_ID n)])"

definition RedisStore_DeleteAllInboxNotifications :: "string \<Rightarrow> unit redis_op" where
  "RedisStore_DeleteAllInboxNotifications userID =
    thenDo (ask_for as_texts (ZRANGE (userInboxKey userID) 0 (-1))) (\<lambda>ids.
    TxPipelined (map (\<lambda>i. DEL [inboxNotificationKey i]) ids @ [DEL [userInboxKey userID, userInboxUnreadKey userID]]))"

subsection \<open>Settings\<close>

definition RedisStore_GetNotificationSettings :: "string \<Rightarrow> bytes redis_op" where
  "RedisStore_GetNotificationSettings userID =
    thenDo (redis_Get (userNotificationSettingsKey userID)) (\<lambda>raw.
    give_back (case raw of None \<Rightarrow> ''{}'' | Some raw \<Rightarrow> raw))"

definition RedisStore_SetNotificationSettings :: "string \<Rightarrow> bytes \<Rightarrow> bytes redis_op" where
  "RedisStore_SetNotificationSettings userID settings =
    thenDo (lift (or_error json_error (json_compact settings))) (\<lambda>compacted.
    thenDo (redis_write (SET (userNotificationSettingsKey userID) compacted 0)) (\<lambda>_.
    give_back compacted))"

definition RedisStore_DeleteNotificationSettings :: "string \<Rightarrow> unit redis_op" where
  "RedisStore_DeleteNotificationSettings userID = redis_write (DEL [userNotificationSettingsKey userID])"

definition RedisStore_GetRoomSubscriptionSettings :: "room_id \<Rightarrow> string \<Rightarrow> RoomSubscriptionSettings redis_op" where
  "RedisStore_GetRoomSubscriptionSettings room userID =
    thenDo (redis_HGetAll (roomSubscriptionSettingsKey room userID)) (\<lambda>m.
      if m = fmempty then give_back (defaultRoomSubscriptionSettings room userID)
      else lift (decodeRoomSubscriptionSettings m))"

definition RedisStore_SetRoomSubscriptionSettings :: "RoomSubscriptionSettings \<Rightarrow> RoomSubscriptionSettings redis_op" where
  "RedisStore_SetRoomSubscriptionSettings settings =
    thenDo time_now (\<lambda>now.
      let settings = normalizeRoomSubscriptionSettings settings;
          settings = settings\<lparr>rs_UpdatedAt := or_now now (rs_UpdatedAt settings)\<rparr>
      in thenDo
           (TxPipelined
             [HSET (roomSubscriptionSettingsKey (rs_RoomID settings) (rs_UserID settings)) (encodeRoomSubscriptionSettings settings),
              ZADD (userRoomSubscriptionSettingsKey (rs_UserID settings)) (milli_score (rs_UpdatedAt settings)) (rs_RoomID settings)])
           (\<lambda>_. give_back settings))"

definition RedisStore_DeleteRoomSubscriptionSettings :: "room_id \<Rightarrow> string \<Rightarrow> unit redis_op" where
  "RedisStore_DeleteRoomSubscriptionSettings room userID =
    TxPipelined [DEL [roomSubscriptionSettingsKey room userID], ZREM (userRoomSubscriptionSettingsKey userID) room]"

fun all_settings :: "string \<Rightarrow> room_id list \<Rightarrow> RoomSubscriptionSettings list redis_op" where
  "all_settings userID [] = give_back []"
| "all_settings userID (room # rest) =
    thenDo (RedisStore_GetRoomSubscriptionSettings room userID) (\<lambda>s.
    thenDo (all_settings userID rest) (\<lambda>ss. give_back (s # ss)))"

definition RedisStore_ListRoomSubscriptionSettings :: "string \<Rightarrow> u64 \<Rightarrow> int \<Rightarrow> RoomSubscriptionSettingsList redis_op" where
  "RedisStore_ListRoomSubscriptionSettings userID cursor limit =
    thenDo (index_page (userRoomSubscriptionSettingsKey userID) cursor (if limit \<le> 0 then 50 else limit)) (\<lambda>(rooms, next).
    thenDo (all_settings userID rooms) (\<lambda>data. give_back \<lparr>sl_Data = data, sl_NextCursor = next\<rparr>))"

end
