(* ===== verification/Store_Properties.thy ===== *)
theory Store_Properties
  imports Store_Refinement Store_Keys Store_Threads Protocol_Parse
begin

text \<open>
  What the store on Redis promises while many nodes use it: changes of records take effect at
  once, writes of documents do what the engine does, stored records are read back, and where
  these promises end.

  An operation runs on connection \<open>c\<close>; the steps \<open>sts\<close> are its requests with the states before
  and after them, and between them the other connections send any requests (\<open>interleaved\<close>).
\<close>

subsection \<open>Changes of records\<close>

definition sample_room :: RoomRecord where
  "sample_room = \<lparr>rr_ID = ''r1'', rr_Metadata = [], rr_DefaultAccesses = [''room:write''],
     rr_UsersAccesses = fmupd ''u1'' [''room:read''] fmempty, rr_GroupsAccesses = fmempty, rr_CreatedAt = 0, rr_UpdatedAt = 0\<rparr>"

definition hash_state :: "string \<Rightarrow> hash_fields \<Rightarrow> redis_state" where
  "hash_state key ps = empty_redis\<lparr>rs_keys := fmupd key (EHash (put_pairs ps fmempty)) fmempty\<rparr>"

lemma hash_state_simps:
  "lasting (hash_state key ps)" "\<not> snd (watched_by (hash_state key ps) c)"
  "key_of (hash_state key ps) key = Some (EHash (put_pairs ps fmempty))"
  by (simp_all add: hash_state_def lasting_def watched_by_def empty_redis_def key_of_def)

lemma texts: "to_valid ''room:write'' = ''room:write''" "to_valid ''room:read'' = ''room:read''" "to_valid ''u1'' = ''u1''"
  by code_simp+

lemma sample_room_stored: "decodeRoomRecord (put_pairs (encodeRoomRecord sample_room) fmempty) = Inr (normalizeRoomRecord sample_room)"
proof (rule room_reads_back)
  show "printable_time (rr_CreatedAt sample_room)" "printable_time (rr_UpdatedAt sample_room)"
    by (simp_all add: sample_room_def printable_time_def) (code_simp+)
  show "valid_texts (rr_DefaultAccesses sample_room)" "valid_access_map (rr_UsersAccesses sample_room)"
    "valid_access_map (rr_GroupsAccesses sample_room)"
    using texts by (simp_all add: sample_room_def valid_texts_def valid_access_map_def)
qed

text \<open>
  A room update that succeeds takes effect in one request, while any other clients work at
  the same Redis: the record it returns is its change applied to the record that is stored at
  that very moment, it writes exactly that record, and none of its other requests changes
  anything. So no update of another node in between is lost.
\<close>

theorem room_update_at_once:
  assumes "interleaved c (RedisStore_UpdateRoom room update) s sts (Inr r) s'"
  shows "\<exists>pre st post m current now. sts = pre @ st # post \<and> list_all quiet pre \<and> list_all quiet post
    \<and> key_of (served st) (roomRecordKey room) = Some (EHash m) \<and> decodeRoomRecord m = Inr current
    \<and> r = change_room update now current
    \<and> rs_keys (sp_after st) = fmupd (roomRecordKey room) (EHash (put_pairs (encodeRoomRecord r) m)) (rs_keys (served st))"
  using change_hash_at_once[OF assms[unfolded RedisStore_UpdateRoom_def]] .

lemma encoded_room_nonempty: "put_pairs (encodeRoomRecord r) fmempty \<noteq> fmempty"
  by (simp add: encodeRoomRecord_def Let_def put_pairs_Cons put_pairs_nonempty)

theorem room_update_at_once_witness:
  "\<exists>sts s'. interleaved 0 (RedisStore_UpdateRoom ''r1'' no_room_update)
      (hash_state (roomRecordKey ''r1'') (encodeRoomRecord sample_room)) sts
      (Inr (change_room no_room_update 5 (normalizeRoomRecord sample_room))) s'
    \<and> (\<exists>pre st post m current now. sts = pre @ st # post \<and> list_all quiet pre \<and> list_all quiet post
        \<and> key_of (served st) (roomRecordKey ''r1'') = Some (EHash m) \<and> decodeRoomRecord m = Inr current
        \<and> change_room no_room_update 5 (normalizeRoomRecord sample_room) = change_room no_room_update now current
        \<and> rs_keys (sp_after st) = fmupd (roomRecordKey ''r1'')
            (EHash (put_pairs (encodeRoomRecord (change_room no_room_update 5 (normalizeRoomRecord sample_room))) m))
            (rs_keys (served st)))"
proof -
  let ?s = "hash_state (roomRecordKey ''r1'') (encodeRoomRecord sample_room)"
  let ?op = "RedisStore_UpdateRoom ''r1'' no_room_update"
  have "fst (run_redis reference 5 0 ?op ?s) = Inr (change_room no_room_update 5 (normalizeRoomRecord sample_room))"
    unfolding RedisStore_UpdateRoom_def
    by (rule change_hash_runs[where m = "put_pairs (encodeRoomRecord sample_room) fmempty"])
      (simp_all add: hash_state_simps encoded_room_nonempty sample_room_stored)
  then obtain sts s' where run: "interleaved 0 ?op ?s sts (Inr (change_room no_room_update 5 (normalizeRoomRecord sample_room))) s'"
    using reference_run[of 5 0 ?op ?s] by auto
  show ?thesis using run room_update_at_once[OF run] by blast
qed

subsection \<open>Documents\<close>

text \<open>
  A write of a document that succeeds in Redis takes effect in one request, whatever other
  nodes do, and there it does what the mutation of the engine does: on every engine whose room
  has the document and the sequence that Redis has at that moment, it stores the same document
  under the same, next sequence. Only a repeated operation id changes nothing. Without an id
  a delete is never a repetition.
\<close>

theorem storage_writes_refine:
  "(\<forall>document w r. interleaved c (RedisStore_SetStorageWithResult room document w) s sts (Inr r) s' \<and> \<not> swr_Duplicate r
      \<longrightarrow> performs sts room (swo_OpID w) (\<lambda>e. setStorageMutation e room document (write_options w))
            (swr_Document r) (swr_Sequence r))
   \<and> (\<forall>operations w r. interleaved c (RedisStore_ApplyStoragePatchWithResult room operations w) s sts (Inr r) s'
          \<and> \<not> swr_Duplicate r
      \<longrightarrow> performs sts room (swo_OpID w) (\<lambda>e. applyStoragePatchMutation e room operations (write_options w))
            (swr_Document r) (swr_Sequence r))
   \<and> (\<forall>w n. interleaved c (RedisStore_DeleteStorageWithOptions room w) s sts (Inr n) s'
      \<longrightarrow> list_all quiet sts \<and> sdo_OpID w \<noteq> []
          \<or> performs sts room (sdo_OpID w) (\<lambda>e. deleteStorageMutation e room (delete_options w) True) [] n)"
  by (intro conjI allI impI; (elim conjE)?; rule set_performs patch_performs delete_performs; assumption)

definition empty_document :: bytes where
  "empty_document = ''{\"data\":{},\"liveblocksType\":\"LiveObject\"}''"

definition document_state :: redis_state where
  "document_state = empty_redis\<lparr>rs_keys := fmupd (roomStorageSequenceKey ''r1'') (EString (format_uint 7))
     (fmupd (roomStorageKey ''r1'') (EString empty_document) fmempty)\<rparr>"

lemma document_state_facts:
  "lasting document_state" "\<not> snd (watched_by document_state c)" "sequence_stored document_state ''r1'' 7"
  "key_of document_state (roomStorageKey ''r1'') = Some (EString empty_document)"
  by (simp_all add: document_state_def lasting_def watched_by_def empty_redis_def key_of_def storage_keys_apart
      sequence_stored_def parse_format_uint)

lemma empty_document_checked: "checked_document empty_document 0 = Inr empty_document"
  by code_simp

lemma empty_document_patched: "ApplyJSONPatch empty_document [] = Inr empty_document"
  by code_simp

lemma empty_document_facts:
  "checked_document empty_document 0 = Inr empty_document" "patched_document empty_document [] 0 = Inr empty_document"
  using empty_document_checked empty_document_patched
  by (simp_all add: patched_document_def checked_document_def split: option.splits if_splits)

lemma no_operations: "\<exists>fp. storagePatchFingerprint [] = Inr fp"
proof -
  have "marshal_operations [] = Some ''[]''" by code_simp
  then show ?thesis by (simp add: storagePatchFingerprint_def)
qed

theorem storage_writes_refine_witness:
  "(\<exists>sts r s'. interleaved 0 (RedisStore_SetStorageWithResult ''r1'' empty_document (no_write_options 0)) document_state sts (Inr r) s'
      \<and> performs sts ''r1'' [] (\<lambda>e. setStorageMutation e ''r1'' empty_document (write_options (no_write_options 0))) empty_document 8)
   \<and> (\<exists>sts r s'. interleaved 0 (RedisStore_ApplyStoragePatchWithResult ''r1'' [] (no_write_options 0)) document_state sts (Inr r) s'
      \<and> performs sts ''r1'' [] (\<lambda>e. applyStoragePatchMutation e ''r1'' [] (write_options (no_write_options 0))) empty_document 8)
   \<and> (\<exists>sts s'. interleaved 0 (RedisStore_DeleteStorageWithOptions ''r1''
          \<lparr>sdo_OpID = [], sdo_ExpectedSequence = 7, sdo_ExpectedSequenceSet = True\<rparr>) document_state sts (Inr 8) s'
      \<and> performs sts ''r1'' [] (\<lambda>e. deleteStorageMutation e ''r1''
          (delete_options \<lparr>sdo_OpID = [], sdo_ExpectedSequence = 7, sdo_ExpectedSequenceSet = True\<rparr>) True) [] 8)"
proof (intro conjI)
  let ?w = "no_write_options 0"
  let ?d = "\<lparr>sdo_OpID = [], sdo_ExpectedSequence = 7, sdo_ExpectedSequenceSet = True\<rparr>"
  note f = document_state_facts and run = reference_run[where now = 5 and c = 0 and s = document_state]
  obtain fp where fp: "storagePatchFingerprint [] = Inr fp" using no_operations by blast
  note refines = storage_writes_refine[where c = 0 and room = "''r1''" and s = document_state]
  obtain sts s' where i: "interleaved 0 (RedisStore_SetStorageWithResult ''r1'' empty_document ?w) document_state sts
      (Inr (written_as StorageMutationSet empty_document 8)) s'"
    using run[OF set_runs[OF f(1-3), of ?w empty_document empty_document]] empty_document_facts(1)
    by (auto simp: no_write_options_def)
  have "performs sts ''r1'' (swo_OpID ?w) (\<lambda>e. setStorageMutation e ''r1'' empty_document (write_options ?w)) empty_document 8"
    using refines[THEN conjunct1, rule_format, of empty_document ?w, OF conjI, OF i] by (simp add: written_as_def)
  then show "\<exists>sts r s'. interleaved 0 (RedisStore_SetStorageWithResult ''r1'' empty_document ?w) document_state sts (Inr r) s'
      \<and> performs sts ''r1'' [] (\<lambda>e. setStorageMutation e ''r1'' empty_document (write_options ?w)) empty_document 8"
    using i by (auto simp: no_write_options_def)
  obtain sts s' where i: "interleaved 0 (RedisStore_ApplyStoragePatchWithResult ''r1'' [] ?w) document_state sts
      (Inr (written_as StorageMutationPatch empty_document 8)) s'"
    using run[OF patch_runs[OF f(1-3), of ?w "[]" fp empty_document empty_document]] empty_document_facts fp f(4)
      checked_raw[OF empty_document_facts(1)]
    by (auto simp: no_write_options_def)
  have "performs sts ''r1'' (swo_OpID ?w) (\<lambda>e. applyStoragePatchMutation e ''r1'' [] (write_options ?w)) empty_document 8"
    using refines[THEN conjunct2, THEN conjunct1, rule_format, of "[]" ?w, OF conjI, OF i] by (simp add: written_as_def)
  then show "\<exists>sts r s'. interleaved 0 (RedisStore_ApplyStoragePatchWithResult ''r1'' [] ?w) document_state sts (Inr r) s'
      \<and> performs sts ''r1'' [] (\<lambda>e. applyStoragePatchMutation e ''r1'' [] (write_options ?w)) empty_document 8"
    using i by (auto simp: no_write_options_def)
  obtain sts s' where i: "interleaved 0 (RedisStore_DeleteStorageWithOptions ''r1'' ?d) document_state sts (Inr 8) s'"
    using run[OF delete_runs[OF f(1-3), of ?d]] f(4) by auto
  have "performs sts ''r1'' [] (\<lambda>e. deleteStorageMutation e ''r1'' (delete_options ?d) True) [] 8"
    using refines[THEN conjunct2, THEN conjunct2, rule_format, OF i] by simp
  then show "\<exists>sts s'. interleaved 0 (RedisStore_DeleteStorageWithOptions ''r1'' ?d) document_state sts (Inr 8) s'
      \<and> performs sts ''r1'' [] (\<lambda>e. deleteStorageMutation e ''r1'' (delete_options ?d) True) [] 8"
    using i by blast
qed

subsection \<open>Operation ids\<close>

lemma set_with_id:
  assumes "lasting s" and "\<not> snd (watched_by s c)" and "sequence_stored s room n"
    and "swo_ExpectedSequenceSet w \<longrightarrow> n = swo_ExpectedSequence w" and "swo_OpID w \<noteq> []"
    and "key_of s (roomStorageOpKey room (swo_OpID w)) = None" and "checked_document document (swo_MaxBytes w) = Inr d"
  shows "\<exists>raw. encodeStorageOpRecord \<lparr>soe_Kind = StorageMutationSet,
        soe_Fingerprint = storageDocumentFingerprint StorageMutationSet d, soe_Document = d, soe_Sequence = n + 1\<rparr> = Inr raw
    \<and> key_of (snd (run_redis reference now c (RedisStore_SetStorageWithResult room document w) s))
        (roomStorageOpKey room (swo_OpID w)) = Some (EString raw)"
proof -
  let ?entry = "\<lparr>soe_Kind = StorageMutationSet, soe_Fingerprint = storageDocumentFingerprint StorageMutationSet d,
    soe_Document = d, soe_Sequence = n + 1\<rparr>"
  let ?s = "watched_state c (storage_keys room (swo_OpID w)) s"
  let ?cmds = "[SET (roomStorageKey room) d 0, SET (roomStorageSequenceKey room) (format_uint (n + 1)) 0]"
  obtain raw where raw: "encodeStorageOpRecord ?entry = Inr raw"
    using checked_raw[OF assms(7)] by (auto intro: entry_encodes[of ?entry])
  let ?s1 = "disturb ?s (forget c (snd (redis_commands now (?cmds @ [SET (roomStorageOpKey room (swo_OpID w)) raw 0]) ?s)))"
  have "sequence_stored ?s room n" using assms(3) by (simp add: sequence_stored_def)
  then have "run_redis reference now c (set_body room d w) ?s = (Inr (written_as StorageMutationSet d (n + 1)), ?s1)"
    using assms(1,2,4,5,6) raw
    by (simp add: set_body_def Let_def run_unless store_next_def run_thenDo run_sequence commit_storage_def run_commit case_prod_unfold)
  moreover have "lasting ?s1"
    using assms(1) by (simp add: lasting_def disturb_def forget_def put_key_def is_empty_def watched_state_def)
  ultimately have "rs_keys (snd (run_redis reference now c (redis_Watch (storage_keys room (swo_OpID w)) (set_body room d w)) s)) = rs_keys ?s1"
    using run_Watch_state[OF assms(1)] by fastforce
  then show ?thesis
    using raw assms(7) by (simp add: set_watches engine_result_def key_of_def put_key_def is_empty_def)
qed

text \<open>
  The record of an operation id is kept at a key that may be the key of a document: a client
  that may write in a room and sends the id \<open>opID:storage\<close> puts the record of its write in place
  of the document of the room \<open>room:storage:op:opID\<close>, as long as that room has none. The ids of
  messages and the names of rooms may contain colons, so both are accepted.
\<close>

theorem op_id_reaches_other_room:
  assumes "lasting s" and "\<not> snd (watched_by s c)" and "sequence_stored s room n"
    and "swo_ExpectedSequenceSet w \<longrightarrow> n = swo_ExpectedSequence w"
    and "swo_OpID w = opID @ '':storage''" and "checked_document document (swo_MaxBytes w) = Inr d"
    and "key_of s (roomStorageKey (room @ '':storage:op:'' @ opID)) = None"
  shows "\<exists>raw. encodeStorageOpRecord \<lparr>soe_Kind = StorageMutationSet,
        soe_Fingerprint = storageDocumentFingerprint StorageMutationSet d, soe_Document = d, soe_Sequence = n + 1\<rparr> = Inr raw
    \<and> key_of (snd (run_redis reference now c (RedisStore_SetStorageWithResult room document w) s))
        (roomStorageKey (room @ '':storage:op:'' @ opID)) = Some (EString raw)"
proof -
  have "roomStorageOpKey room (swo_OpID w) = roomStorageKey (room @ '':storage:op:'' @ opID)"
    by (simp add: roomStorageOpKey_def roomStorageKey_def assms(5))
  then show ?thesis using set_with_id[OF assms(1-4) _ _ assms(6)] assms(5,7) by simp
qed

theorem op_id_reaches_other_room_witness:
  "ValidateMessageID ''x:storage'' = Inr () \<and> ValidateRoomName ''r1'' = Inr () \<and> ValidateRoomName ''r1:storage:op:x'' = Inr ()
   \<and> key_of document_state (roomStorageKey ''r1:storage:op:x'') = None
   \<and> (\<exists>raw. key_of (snd (run_redis reference 5 0 (RedisStore_SetStorageWithResult ''r1'' empty_document
          (no_write_options 0\<lparr>swo_OpID := ''x:storage''\<rparr>)) document_state))
        (roomStorageKey ''r1:storage:op:x'') = Some (EString raw))"
proof -
  let ?w = "no_write_options 0\<lparr>swo_OpID := ''x:storage''\<rparr>"
  have ids: "ValidateMessageID ''x:storage'' = Inr ()" "ValidateRoomName ''r1'' = Inr ()"
    "ValidateRoomName ''r1:storage:op:x'' = Inr ()"
    by code_simp+
  have none: "key_of document_state (roomStorageKey ''r1:storage:op:x'') = None"
    by (simp add: document_state_def empty_redis_def key_of_def roomStorageKey_def roomStorageSequenceKey_def)
  show ?thesis
    using op_id_reaches_other_room[OF document_state_facts(1-3), of ?w "''x''" empty_document empty_document 5 0] ids none
      empty_document_facts(1)
    by (auto simp: no_write_options_def)
qed

subsection \<open>API keys\<close>

text \<open>
  A key is accepted only if, while the request ran, the index had its prefix and the record
  that the index names was stored unrevoked and with the hash of the presented secret; the
  answer is that record with the time of its use. Whatever other clients do in between.
\<close>

theorem accepted_key_was_valid:
  assumes "interleaved c (VerifyAPIKey secret) s sts (Inr r) s'"
  shows "\<exists>pre sts1 sts2 rec now. apiKeyPrefixFromSecret secret = Some pre \<and> sts = sts1 @ sts2
    \<and> key_was_valid sts1 pre secret rec \<and> r = rec\<lparr>ak_LastUsedAt := Some now, ak_UpdatedAt := now\<rparr>"
proof (cases "apiKeyPrefixFromSecret secret")
  case None
  then show ?thesis using assms interleaved_ends(2) by (fastforce simp: VerifyAPIKey_parts)
next
  case (Some pre)
  then have "interleaved c (thenDo (key_checks pre secret) key_used) s sts (Inr r) s'"
    using assms by (simp add: VerifyAPIKey_parts)
  then obtain sts1 sts2 rec s1 where i: "sts = sts1 @ sts2" "interleaved c (key_checks pre secret) s sts1 (Inr rec) s1"
      "interleaved c (key_used rec) s1 sts2 (Inr r) s'"
    by (rule interleaved_thenDo)
  obtain now s2 where "interleaved c (let rec = rec\<lparr>ak_LastUsedAt := Some now, ak_UpdatedAt := now\<rparr> in
      thenDo (redis_write (HSET (productAPIKeyKey (ak_ID rec)) (encodeAPIKeyRecord rec))) (\<lambda>_. give_back rec)) s2 sts2 (Inr r) s'"
    using i(3) unfolding key_used_def by (rule interleaved_now)
  then have "r = rec\<lparr>ak_LastUsedAt := Some now, ak_UpdatedAt := now\<rparr>"
    unfolding Let_def by (rule interleaved_thenDo) (auto dest: interleaved_ends)
  then show ?thesis using Some i(1) key_checks_sound[OF i(2)] by blast
qed

definition sample_secret :: string where
  "sample_secret = ''ortc_sk_ortc_abcdefgh_s''"

definition sample_key :: APIKeyRecord where
  "sample_key = \<lparr>ak_ID = ''k1'', ak_TenantID = ''t1'', ak_ProjectID = ''p1'', ak_Name = ''n'', ak_Prefix = ''ortc_abcdefgh'',
     ak_SecretHash = apiKeySecretHash sample_secret, ak_Scopes = [], ak_Revoked = False, ak_CreatedAt = 0, ak_UpdatedAt = 0,
     ak_LastUsedAt = None\<rparr>"

definition sample_fields :: hash where
  "sample_fields = put_pairs (encodeAPIKeyRecord sample_key) fmempty"

definition key_state :: redis_state where
  "key_state = empty_redis\<lparr>rs_keys := fmupd (productAPIKeyPrefixKey ''ortc_abcdefgh'') (EString ''k1'')
     (fmupd (productAPIKeyKey ''k1'') (EHash sample_fields) fmempty)\<rparr>"

lemma early_times: "printable_time 0" "printable_time 5"
  by (simp_all add: printable_time_def) (code_simp+)

lemma sample_key_facts:
  "printable_key sample_key" "\<not> ak_Revoked sample_key" "ak_ID sample_key = ''k1''"
  "ak_SecretHash sample_key = apiKeySecretHash sample_secret" "apiKeyPrefixFromSecret sample_secret = Some ''ortc_abcdefgh''"
proof -
  show "apiKeyPrefixFromSecret sample_secret = Some ''ortc_abcdefgh''" by code_simp
qed (simp_all add: printable_key_def sample_key_def early_times normalizeStringList_def valid_texts_def)

lemma key_state_facts:
  "lasting key_state" "\<not> snd (watched_by key_state c)"
  "key_of key_state (productAPIKeyPrefixKey ''ortc_abcdefgh'') = Some (EString ''k1'')"
  "key_of key_state (productAPIKeyKey ''k1'') = Some (EHash sample_fields)" "sample_fields \<noteq> fmempty"
  "decodeAPIKeyRecord sample_fields = Inr sample_key"
proof -
  show "sample_fields \<noteq> fmempty"
    unfolding sample_fields_def encodeAPIKeyRecord_def put_pairs_Cons
    by (simp add: put_pairs_nonempty)
  have "sample_key\<lparr>ak_Scopes := normalizeStringList (ak_Scopes sample_key)\<rparr> = sample_key"
    by (simp add: sample_key_def normalizeStringList_def)
  then show "decodeAPIKeyRecord sample_fields = Inr sample_key"
    using key_reads_back[OF sample_key_facts(1), of fmempty] by (simp add: sample_fields_def)
qed (simp_all add: key_state_def lasting_def watched_by_def empty_redis_def key_of_def productAPIKeyPrefixKey_def
    productAPIKeyKey_def)

lemma verify_run:
  assumes "lasting s" and "apiKeyPrefixFromSecret secret = Some pre" and "key_of s (productAPIKeyPrefixKey pre) = Some (EString i)"
    and "key_of s (productAPIKeyKey i) = Some (EHash m)" and "m \<noteq> fmempty" and "decodeAPIKeyRecord m = Inr rec" and "ak_ID rec = i"
  shows "fst (run_redis reference now c (VerifyAPIKey secret) s) =
    (if ak_Revoked rec \<or> ak_SecretHash rec \<noteq> apiKeySecretHash secret then Inl (ErrProduct ErrAPIKeyNotFound)
     else Inr (rec\<lparr>ak_LastUsedAt := Some now, ak_UpdatedAt := now\<rparr>))"
proof -
  obtain s' where "run_redis reference now c (key_used rec) s = (Inr (rec\<lparr>ak_LastUsedAt := Some now, ak_UpdatedAt := now\<rparr>), s')"
    using key_used_run[OF assms(1), of rec m] assms(4,5,7) by auto
  then show ?thesis
    using key_checks_run[OF assms(1,3-6), of now c secret] by (simp add: VerifyAPIKey_parts assms(2) run_thenDo)
qed

theorem accepted_key_was_valid_witness:
  "\<exists>r sts s'. interleaved 0 (VerifyAPIKey sample_secret) key_state sts (Inr r) s'
    \<and> (\<exists>pre sts1 sts2 rec now. apiKeyPrefixFromSecret sample_secret = Some pre \<and> sts = sts1 @ sts2
         \<and> key_was_valid sts1 pre sample_secret rec \<and> r = rec\<lparr>ak_LastUsedAt := Some now, ak_UpdatedAt := now\<rparr>)"
proof -
  have "fst (run_redis reference 5 0 (VerifyAPIKey sample_secret) key_state)
      = Inr (sample_key\<lparr>ak_LastUsedAt := Some 5, ak_UpdatedAt := 5\<rparr>)"
    using verify_run[OF key_state_facts(1) sample_key_facts(5) key_state_facts(3-6), of 5 0] sample_key_facts by simp
  then obtain sts s' where i: "interleaved 0 (VerifyAPIKey sample_secret) key_state sts
      (Inr (sample_key\<lparr>ak_LastUsedAt := Some 5, ak_UpdatedAt := 5\<rparr>)) s'"
    using reference_run[of 5 0 "VerifyAPIKey sample_secret" key_state] by auto
  then show ?thesis using accepted_key_was_valid[OF i] by blast
qed

text \<open>
  Used one request after the other, a stored key is accepted with its secret, and after it
  was revoked it is refused with every secret.
\<close>

theorem revoked_key_is_refused:
  assumes "lasting s" and "\<not> snd (watched_by s c)" and "apiKeyPrefixFromSecret secret = Some pre"
    and "key_of s (productAPIKeyPrefixKey pre) = Some (EString (ak_ID rec))"
    and "key_of s (productAPIKeyKey (ak_ID rec)) = Some (EHash m)" and "m \<noteq> fmempty" and "decodeAPIKeyRecord m = Inr rec"
    and "printable_key rec" and "printable_time now" and "\<not> ak_Revoked rec" and "ak_SecretHash rec = apiKeySecretHash secret"
  shows "fst (run_redis reference now c (VerifyAPIKey secret) s) = Inr (rec\<lparr>ak_LastUsedAt := Some now, ak_UpdatedAt := now\<rparr>)
    \<and> (\<exists>r s2. run_redis reference now c (RevokeAPIKey (ak_ID rec)) s = (Inr r, s2) \<and> ak_Revoked r
         \<and> (\<forall>other. apiKeyPrefixFromSecret other = Some pre \<longrightarrow>
              fst (run_redis reference now c (VerifyAPIKey other) s2) = Inl (ErrProduct ErrAPIKeyNotFound)))"
proof -
  let ?r = "revoked_at now rec"
  obtain s2 where s2: "run_redis reference now c (RevokeAPIKey (ak_ID rec)) s = (Inr ?r, s2)" "lasting s2"
      "rs_keys s2 = fmupd (productAPIKeyKey (ak_ID rec)) (EHash (put_pairs (encodeAPIKeyRecord ?r) m)) (rs_keys s)"
    using revoke_run[OF assms(1,2,5-7)] by blast
  have "printable_key ?r" using assms(8,9) by (simp add: printable_key_def revoked_at_def)
  note d = key_reads_back[OF this, of m]
  have keys: "key_of s2 (productAPIKeyPrefixKey pre) = Some (EString (ak_ID rec))"
    "key_of s2 (productAPIKeyKey (ak_ID rec)) = Some (EHash (put_pairs (encodeAPIKeyRecord ?r) m))"
    using s2(3) assms(4) by (simp_all add: key_of_def productAPIKeyPrefixKey_def productAPIKeyKey_def)
  have "fst (run_redis reference now c (VerifyAPIKey other) s2) = Inl (ErrProduct ErrAPIKeyNotFound)"
    if "apiKeyPrefixFromSecret other = Some pre" for other
    using verify_run[OF s2(2) that keys put_pairs_nonempty[OF assms(6)] d] by (simp add: revoked_at_def)
  then show ?thesis
    using verify_run[OF assms(1,3,4,5,6,7)] assms(10,11) s2(1) by (auto simp: revoked_at_def)
qed

theorem revoked_key_is_refused_witness:
  "fst (run_redis reference 5 0 (VerifyAPIKey sample_secret) key_state)
      = Inr (sample_key\<lparr>ak_LastUsedAt := Some 5, ak_UpdatedAt := 5\<rparr>)
   \<and> (\<exists>r s2. run_redis reference 5 0 (RevokeAPIKey ''k1'') key_state = (Inr r, s2) \<and> ak_Revoked r
        \<and> fst (run_redis reference 5 0 (VerifyAPIKey sample_secret) s2) = Inl (ErrProduct ErrAPIKeyNotFound))"
  using revoked_key_is_refused[OF key_state_facts(1,2) sample_key_facts(5), of sample_key sample_fields 5 0]
    key_state_facts sample_key_facts early_times by auto

text \<open>
  Used at the same time, a revocation may be undone: \<open>VerifyAPIKey\<close> writes back the record it
  has read, without a WATCH. There is an order of the requests of two connections in which the
  revocation succeeds and answers a revoked key, the other request is accepted, and the stored
  key is not revoked afterwards.
\<close>

theorem revocation_undone:
  assumes "lasting s" and "\<not> snd (watched_by s 1)" and "apiKeyPrefixFromSecret secret = Some pre"
    and "key_of s (productAPIKeyPrefixKey pre) = Some (EString (ak_ID rec))"
    and "key_of s (productAPIKeyKey (ak_ID rec)) = Some (EHash m)" and "m \<noteq> fmempty" and "decodeAPIKeyRecord m = Inr rec"
    and "printable_key rec" and "printable_time now" and "\<not> ak_Revoked rec" and "ak_SecretHash rec = apiKeySecretHash secret"
  shows "\<exists>cs ps s' m' accepted revoked stored.
    run_schedule reference now cs (\<lambda>c. if c = 0 then VerifyAPIKey secret else RevokeAPIKey (ak_ID rec)) s = (ps, s')
    \<and> ps 0 = Return (Inr accepted) \<and> ps 1 = Return (Inr revoked) \<and> ak_Revoked revoked
    \<and> key_of s' (productAPIKeyKey (ak_ID rec)) = Some (EHash m') \<and> decodeAPIKeyRecord m' = Inr stored \<and> \<not> ak_Revoked stored"
proof -
  let ?used = "rec\<lparr>ak_LastUsedAt := Some now, ak_UpdatedAt := now\<rparr>"
  obtain cs ps s' m' where r: "run_schedule reference now cs
        (\<lambda>c. if c = 0 then VerifyAPIKey secret else RevokeAPIKey (ak_ID rec)) s = (ps, s')"
      "ps 0 = Return (Inr ?used)" "ps 1 = Return (Inr (revoked_at now rec))"
      "key_of s' (productAPIKeyKey (ak_ID rec)) = Some (EHash (put_pairs (encodeAPIKeyRecord ?used) m'))"
    using race_run[OF assms(1-7) refl assms(10,11), of now] by blast
  have "printable_key ?used" using assms(8,9) by (simp add: printable_key_def)
  from key_reads_back[OF this, of m'] r assms(10) show ?thesis by (fastforce simp: revoked_at_def)
qed

theorem revocation_undone_witness:
  "\<exists>cs ps s' m' accepted revoked stored.
    run_schedule reference 5 cs (\<lambda>c. if c = 0 then VerifyAPIKey sample_secret else RevokeAPIKey ''k1'') key_state = (ps, s')
    \<and> ps 0 = Return (Inr accepted) \<and> ps 1 = Return (Inr revoked) \<and> ak_Revoked revoked
    \<and> key_of s' (productAPIKeyKey ''k1'') = Some (EHash m') \<and> decodeAPIKeyRecord m' = Inr stored \<and> \<not> ak_Revoked stored"
  by (rule revocation_undone[where rec = sample_key and m = sample_fields, unfolded sample_key_facts(3),
      OF key_state_facts(1,2) sample_key_facts(5) key_state_facts(3-6) sample_key_facts(1) early_times(2)
        sample_key_facts(2,4)])

subsection \<open>Acknowledgements\<close>

text \<open>
  Acknowledgements kept in Redis only rise: whatever the nodes do at the same time, a request
  of \<open>SetRoomEventAck\<close> that changes anything replaces no acknowledgement, or a smaller one, of the
  same room and subject by the new one, and changes nothing else.
\<close>

theorem acks_only_rise:
  assumes "interleaved c (RedisStore_SetRoomEventAck room subject n) s sts x s'"
  shows "list_all (\<lambda>st. quiet st \<or> raises_ack room subject n (served st) (rs_keys (sp_after st))) sts"
proof (cases "room = [] \<or> subject = [] \<or> n = 0")
  case True
  then show ?thesis using assms interleaved_ends(1) by (fastforce simp: RedisStore_SetRoomEventAck_def)
next
  case False
  then show ?thesis
    using ack_attempts_steps[of c 8 room subject n s sts x s'] assms
    by (auto simp: RedisStore_SetRoomEventAck_def list_all_iff)
qed

theorem acks_only_rise_witness:
  "\<exists>sts s'. interleaved 0 (RedisStore_SetRoomEventAck ''r1'' ''u1'' 5)
      (hash_state (roomEventAckKey ''r1'') [(''u2'', ''7'')]) sts (Inr ()) s'
    \<and> list_all (\<lambda>st. quiet st \<or> raises_ack ''r1'' ''u1'' 5 (served st) (rs_keys (sp_after st))) sts"
proof -
  let ?s = "hash_state (roomEventAckKey ''r1'') [(''u2'', ''7'')]"
  have "fst (run_redis reference 5 0 (ack_attempt ''r1'' ''u1'' 5) ?s) = Inr ()"
    by (simp add: ack_attempt_def Let_def run_Watch hash_state_simps run_thenDo run_HGet hash_of_def put_pairs_def run_commit typed_def)
  then have "fst (run_redis reference 5 0 (RedisStore_SetRoomEventAck ''r1'' ''u1'' 5) ?s) = Inr ()"
    by (simp add: RedisStore_SetRoomEventAck_def numeral_eq_Suc run_next_redis case_prod_unfold)
  then obtain sts s' where i: "interleaved 0 (RedisStore_SetRoomEventAck ''r1'' ''u1'' 5) ?s sts (Inr ()) s'"
    using reference_run[of 5 0 "RedisStore_SetRoomEventAck ''r1'' ''u1'' 5" ?s] by auto
  then show ?thesis using acks_only_rise[OF i] by blast
qed

subsection \<open>Records\<close>

text \<open>
  What the store writes into the hash of a record it reads back, in normal form, whatever
  fields the hash had before: rooms with their access lists and maps, tenants, projects and API
  keys. The times are ones that RFC 3339 can print, the texts inside JSON are valid UTF-8.
\<close>

theorem records_read_back:
  "(\<forall>r. printable_time (rr_CreatedAt r) \<and> printable_time (rr_UpdatedAt r) \<and> valid_texts (rr_DefaultAccesses r)
        \<and> valid_access_map (rr_UsersAccesses r) \<and> valid_access_map (rr_GroupsAccesses r)
      \<longrightarrow> decodeRoomRecord (put_pairs (encodeRoomRecord r) m) = Inr (normalizeRoomRecord r))
   \<and> (\<forall>r. printable_time (tn_CreatedAt r) \<and> printable_time (tn_UpdatedAt r)
      \<longrightarrow> decodeTenantRecord (put_pairs (encodeTenantRecord r) m) = Inr (normalizeTenantRecord r))
   \<and> (\<forall>r. printable_time (pj_CreatedAt r) \<and> printable_time (pj_UpdatedAt r)
      \<longrightarrow> decodeProjectRecord (put_pairs (encodeProjectRecord r) m) = Inr (normalizeProjectRecord r))
   \<and> (\<forall>r. printable_key r
      \<longrightarrow> decodeAPIKeyRecord (put_pairs (encodeAPIKeyRecord r) m) = Inr (r\<lparr>ak_Scopes := normalizeStringList (ak_Scopes r)\<rparr>))"
  using room_reads_back tenant_reads_back project_reads_back key_reads_back by simp

definition sample_tenant :: TenantRecord where
  "sample_tenant = \<lparr>tn_ID = ''t1'', tn_Name = [], tn_Metadata = [], tn_CreatedAt = 0, tn_UpdatedAt = 5\<rparr>"

definition sample_project :: ProjectRecord where
  "sample_project = \<lparr>pj_ID = ''p1'', pj_TenantID = ''t1'', pj_Name = ''P'', pj_Metadata = [], pj_CreatedAt = 0, pj_UpdatedAt = 5\<rparr>"

theorem records_read_back_witness:
  "decodeRoomRecord (put_pairs (encodeRoomRecord sample_room) fmempty) = Inr (normalizeRoomRecord sample_room)
   \<and> decodeTenantRecord (put_pairs (encodeTenantRecord sample_tenant) fmempty) = Inr (normalizeTenantRecord sample_tenant)
   \<and> decodeProjectRecord (put_pairs (encodeProjectRecord sample_project) fmempty) = Inr (normalizeProjectRecord sample_project)
   \<and> decodeAPIKeyRecord (put_pairs (encodeAPIKeyRecord sample_key) fmempty)
       = Inr (sample_key\<lparr>ak_Scopes := normalizeStringList (ak_Scopes sample_key)\<rparr>)"
  using records_read_back[of fmempty] sample_key_facts(1) early_times texts
  by (simp add: sample_tenant_def sample_project_def sample_room_def valid_texts_def valid_access_map_def)

end
