(* ===== verification/Store_Deliveries.thy ===== *)
theory Store_Deliveries
  imports Webhook_Properties Store_Keys
begin

text \<open>
  The retries of webhook deliveries over the Redis store: what the store gives back of a
  delivery, that it keeps the contract of the retries while its index is short, and that the
  retries of a failed delivery come to an end.
\<close>

subsection \<open>Deliveries read back\<close>


lemma normalized_delivery [simp]:
  "wd_ID (normalizeWebhookDeliveryRecord now r) = wd_ID r"
  "wd_Attempts (normalizeWebhookDeliveryRecord now r) = wd_Attempts r"
  "wd_LastStatusCode (normalizeWebhookDeliveryRecord now r) = wd_LastStatusCode r"
  "wd_NextAttemptAt (normalizeWebhookDeliveryRecord now r) = wd_NextAttemptAt r"
  "wd_Status r \<noteq> [] \<Longrightarrow> wd_Status (normalizeWebhookDeliveryRecord now r) = wd_Status r"
  "wd_CreatedAt r \<noteq> zero_time \<Longrightarrow> wd_CreatedAt (normalizeWebhookDeliveryRecord now r) = wd_CreatedAt r"
  "wd_UpdatedAt r \<noteq> zero_time \<Longrightarrow> wd_UpdatedAt (normalizeWebhookDeliveryRecord now r) = wd_UpdatedAt r"
  by (simp_all add: normalizeWebhookDeliveryRecord_def Let_def or_now_def)





subsection \<open>The store\<close>





















subsection \<open>The end of a failed delivery\<close>








end
