(* ===== verification/Spec2Isabelle.thy ===== *)
theory Spec2Isabelle
  imports Room_Properties Yjs_Properties Storage_Properties Patch_Properties Auth_Claims
    Protocol_Properties Runtime_Config Runtime_Properties Admin_Properties Webhook_Properties
    Store_Properties Store_Deliveries
begin

text \<open>
  A verification development of the OpenRTC server (\<open>src/server\<close>), a service for rooms
  with presence, events, shared JSON documents and Yjs documents.

  \<^bold>\<open>The program.\<close> Clients connect to the runtime service (\<open>internal/runtime\<close>) with a
  token (\<open>internal/auth\<close>), send envelopes (\<open>internal/protocol\<close>) and act in rooms. The
  room engine (\<open>internal/roomengine\<close>) is the state of one node: who is where, presence,
  acknowledgements, storage documents with their sequence numbers and the memory of
  operation ids, Yjs documents. Nodes share records and events through
  \<open>internal/cluster\<close>, a store on top of Redis that all nodes use at once. Back ends call the
  administration service (\<open>internal/admin\<close>) over HTTP: it publishes events, keeps rooms,
  documents, threads, notifications and the product records (tenants, projects, API keys,
  audit log) in the store and posts signed webhooks.

  \<^bold>\<open>The theories and the code.\<close>
  \<^item> Go itself: \<open>Go_Prelude\<close> (strings as bytes, finite maps, errors as sums), \<open>Go_Utf8\<close>,
    \<open>Go_Strings\<close>, \<open>Go_Json_Syntax\<close>, \<open>Go_Json\<close>, \<open>Go_Json_Struct\<close> (\<open>encoding/json\<close>),
    \<open>Go_Path_Match\<close> (\<open>path.Match\<close>), \<open>Go_Sha256\<close>, \<open>Go_Url\<close>: what the source uses of the
    standard library, with \<open>Go_Json_Values\<close> for times and byte strings. JSON parsing is a recursive descent whose fuel is the length of the
    text plus one, enough since every call consumes a byte.
  \<^item> \<open>internal/cluster/redis.go\<close>: \<open>Cluster_Types\<close> (records, constants), \<open>Json_Patch\<close>
    (JSON Patch and document validation), \<open>Room_Access\<close> (permissions, normalisation).
  \<^item> The store on Redis. \<open>Redis_Client\<close>: an operation of \<open>RedisStore\<close> is a program that asks
    for requests (a command, a pipeline or transaction, WATCH) or the clock one
    after the other and continues with the answer; it runs at any server, alone
    (\<open>run_redis\<close>) or interleaved with the programs of other connections
    (\<open>run_schedule\<close>). \<open>Redis_Contract\<close>: the documented meaning of the commands on a state,
    the answers and states that a server may give (\<open>allowed_answer\<close>: a request has its effect,
    or an aborted transaction, or an error with or without the effect), and one server that
    follows them (\<open>reference\<close>), which shows that the hypothesis can hold. \<open>Store_Fields\<close>
    (fields of hashes, a change under WATCH), \<open>Store_Records\<close> (the hashes and JSON texts of
    the records of \<open>cluster/redis.go\<close>), \<open>Store_Rooms\<close> (connections, rooms, presence, the event
    log, acknowledgements, statistics), \<open>Store_Threads\<close> (threads, comments, inbox,
    subscriptions), \<open>Store_Documents\<close> (documents, operation ids, Yjs documents);
    \<open>Product_Records\<close> and \<open>Product_Store\<close> for \<open>cluster/product.go\<close>.
  \<^item> \<open>internal/auth\<close> and \<open>roomengine/authorization.go\<close>: \<open>Auth_Claims\<close>.
  \<^item> \<open>internal/errors\<close> and \<open>internal/stats\<close>: \<open>Error_Catalog\<close>; \<open>internal/protocol\<close>:
    \<open>Protocol_Parse\<close>; \<open>internal/config\<close>: \<open>Runtime_Config\<close>; \<open>internal/observability\<close>:
    \<open>Runtime_Metrics\<close>.
  \<^item> \<open>roomengine/engine.go\<close>: \<open>Engine_Types\<close> (the records; \<open>Engine\<close> has a field per map
    of the struct), \<open>Engine_Rooms\<close>, \<open>Engine_Query\<close> (with the Yjs side), \<open>Engine_Events\<close>,
    \<open>Engine_Storage\<close>. An operation takes the engine and gives the
    changed engine and its result; the mutex of the code makes each one atomic, so a run of
    the program is a sequence of them.

  \<^item> \<open>runtime/service.go\<close>: \<open>Runtime_Types\<close> (\<open>Service\<close>, \<open>clientConn\<close>, \<open>yjsConn\<close>,
    messages, the interface of the store), \<open>Runtime_Access\<close> (queues, limiter, broadcasts, requests, tokens, sessions to resume, usage), \<open>Runtime_Storage\<close>,
    \<open>Runtime_Handlers\<close> (the handlers of messages), \<open>Runtime_Cluster\<close> (events of other
    nodes, Yjs frames), \<open>Runtime_Service\<close> (connecting and disconnecting). \<open>Go_Time\<close> is the
    civil calendar that they use. An operation takes the service and gives a result or an
    error and the changed service. A handler runs as one step: what two handlers do between
    their calls of the engine is not interleaved. A socket is the list of what was written
    to it; the store is a record of functions on its own state; \<open>select\<close> takes its choices
    from a stream; an error in a message is named, its text is left open.

  \<^item> \<open>admin/service.go\<close>, \<open>admin/product.go\<close>, \<open>admin/webhooks.go\<close> and the records of
    \<open>cluster/product.go\<close>: \<open>Cluster_Product\<close> and \<open>Engine_Records\<close> (records and the JSON of the
    events about them), \<open>Admin_Types\<close> (\<open>Admin\<close> is \<open>Service\<close>, requests, responses, the interface
    of the store and the way handlers run), \<open>Admin_Decode\<close> (bodies), \<open>Admin_Paths\<close>
    (paths and validation), \<open>Admin_Query\<close> (the query language of lists, pages; numbers in
    \<open>Go_Float\<close>), \<open>Admin_Webhooks\<close>, \<open>Admin_Access\<close> (credentials, rights, audit log, usage),
    \<open>Admin_Rooms\<close>, \<open>Admin_Threads\<close>, \<open>Admin_Product\<close> (the handlers) and \<open>Admin_Service\<close>
    (the console, construction, the multiplexer, all routes). A handler is a chain of steps, one for every
    check and every effect of the code, in its order; a step that fails ends the chain with
    its response. A request runs as one step of the service; the clock stands still in it.
    The reads of the store are functions of its state; that \<open>ActiveUsers\<close> also deletes the expired
    entries of presence that it meets is left out of this interface. The HTTP
    client that posts webhooks follows redirects as \<open>net/http\<close> documents it, at most ten requests
    for a post (\<open>client_Do\<close>).
    The scan of \<open>listRooms\<close> is a partial function, None when the cursors of the store never
    end.

  \<^bold>\<open>Interfaces and lemmas.\<close> \<open>fanout_index\<close> is the contract of an index of members by
    room, interpreted on memberships and on Yjs sessions. \<open>Storage_Contract\<close> is the
    contract of a store of documents with sequence numbers and operation ids, interpreted on
    the mutations of the engine in \<open>Storage_Properties\<close>. \<open>retry_store\<close> is the contract that the
    retries of webhooks need of the store of deliveries, used in \<open>Webhook_Properties\<close> and
    interpreted on the operations of the Redis store in \<open>Store_Deliveries\<close>, for an index of at
    most 301 deliveries with at most a hundred failed ones, which is what the list looks at.
    \<open>Engine_Invariant\<close> has the step
    relation of the engine, the invariant and its preservation. The plans of leaves and
    disconnects are made in one step and applied in another, as the runtime does; a state of the
    relation carries the disconnect plans that are still to be applied, and their connections join
    no room in between, since the runtime has then ended the loop that reads them. \<open>Json_Patch_Laws\<close> has the
    laws of pointers and of the three primitive document operations. \<open>Runtime_Invariant\<close> has
    the invariant of the service and the rules that carry it through a handler,
  \<open>Runtime_Steps\<close> and \<open>Runtime_Lifecycle\<close> apply them
  to every operation, \<open>Runtime_Reachable\<close> has the steps of a service, what holds in
  each of its states and the service of the examples, \<open>Runtime_Yjs\<close> what a step sends to Yjs
  connections. \<open>Admin_Refusals\<close> has
  the laws by which a fact about a handler follows from facts about its steps, as rewrite
  rules; it, \<open>Admin_Responses\<close> and
  \<open>Admin_Room_Access\<close> apply them to every handler; the latter has the table of the rights
  that the routes below a room need (\<open>room_need\<close>). \<open>Go_Time_Laws\<close> and \<open>Store_Round_Trips\<close>
  show that printed times, printed JSON and the records are read back. \<open>Redis_Laws\<close> has the runs of a program among arbitrary requests of other
  connections (\<open>interleaved\<close>) and the theorem that a watched transaction takes effect at
  once; \<open>Store_Laws\<close>, \<open>Store_Refinement\<close> and \<open>Store_Keys\<close> apply it to changes
  of records, to documents (whose abstract state is the engine's), to API keys and to
  acknowledgements; \<open>Store_Laws\<close> also has the runs at the server \<open>reference\<close> that the
  witnesses use. The theories called \<open>_Properties\<close> hold the numbered properties.

  \<^bold>\<open>Reading the model.\<close>
  \<^item> A nil slice and an empty one are the same value, as are a nil map and an empty one.
    Iteration over a map happens in the order of the keys where the code sorts them; where
    it does not, the model takes the sorted order and no property depends on it.
  \<^item> Counters are 64-bit words and wrap around; sizes and limits are integers. An instant
    is a number of nanoseconds since the zero time in UTC. Clocks are arguments.
  \<^item> Errors are values of a sum; the record of a Go error is its constructor or its text.
  \<^item> Loops run over lists and end with them. Exceptions are \<open>SetRoomEventAck\<close>, which tries
    eight times as the code does, and the scan of rooms named above.

  \<^bold>\<open>Not modelled.\<close> Signature and expiry checks of tokens (golang-jwt), Redis and the
  go-redis client (parameters with a contract), the delivery of subscriptions and the URL of
  Redis, sockets, HTTP transport and the encoding of response bodies, log lines, process
  start, the development server, its probe and the reference application.
\<close>

end
